(* ===== verification/Prelude.thy ===== *)
theory Prelude
  imports Main "HOL-Library.Word"
begin

text \<open>
  Shared ground of the development: the names of the Rust types, results and early
  returns, the byte predicates of \<^verbatim>\<open>core\<close>, and the list lemmas that several
  components use.

  A Rust \<^verbatim>\<open>String\<close> is its UTF-8 bytes, one \<open>char\<close> (8 bits) per byte, so \<open>length\<close>
  is \<^verbatim>\<open>str::len\<close>. A \<^verbatim>\<open>Vec<u8>\<close> is a list of \<open>8 word\<close>. An \<^verbatim>\<open>i64\<close> is an \<open>int\<close>;
  where the code computes on one, the range is part of the model or of a theorem.
  A \<^verbatim>\<open>usize\<close> is a \<open>nat\<close>.
\<close>

named_theorems label_simps \<open>the equations of the stored-label functions\<close>
named_theorems ident_simps \<open>the definitions of the identity validators\<close>

section \<open>Results\<close>

type_synonym byte = "8 word"
type_synonym i64 = int
type_synonym usize = nat

text \<open>\<^verbatim>\<open>Result<T, E>\<close> is a sum, the error on the left.\<close>

abbreviation Ok :: "'a \<Rightarrow> 'e + 'a" where "Ok \<equiv> Inr"
abbreviation Err :: "'e \<Rightarrow> 'e + 'a" where "Err \<equiv> Inl"

text \<open>\<open>and_then r k\<close> is \<^verbatim>\<open>let x = r?; k(x)\<close>.\<close>

definition and_then :: "'e + 'a \<Rightarrow> ('a \<Rightarrow> 'e + 'b) \<Rightarrow> 'e + 'b" where
  "and_then r k = (case r of Inl e \<Rightarrow> Inl e | Inr x \<Rightarrow> k x)"

definition map_err :: "('e \<Rightarrow> 'f) \<Rightarrow> 'e + 'a \<Rightarrow> 'f + 'a" where
  "map_err f r = (case r of Inl e \<Rightarrow> Inl (f e) | Inr x \<Rightarrow> Inr x)"

definition is_ok :: "'e + 'a \<Rightarrow> bool" where
  "is_ok r = (case r of Inl _ \<Rightarrow> False | Inr _ \<Rightarrow> True)"

definition ok_opt :: "'e + 'a \<Rightarrow> 'a option" where
  "ok_opt r = (case r of Inl _ \<Rightarrow> None | Inr x \<Rightarrow> Some x)"

definition ok_or :: "'e \<Rightarrow> 'a option \<Rightarrow> 'e + 'a" where
  "ok_or e v = (case v of None \<Rightarrow> Inl e | Some x \<Rightarrow> Inr x)"

lemma and_then_simps [simp]:
  "and_then (Inl e) k = Inl e"
  "and_then (Inr x) k = k x"
  by (simp_all add: and_then_def)

lemma and_then_Ok_iff: "and_then r k = Inr y \<longleftrightarrow> (\<exists>x. r = Inr x \<and> k x = Inr y)"
  by (cases r) auto

lemma and_then_Err_iff:
  "and_then r k = Inl e \<longleftrightarrow> r = Inl e \<or> (\<exists>x. r = Inr x \<and> k x = Inl e)"
  by (cases r) auto

lemma and_then_cong [fundef_cong]:
  "r = r' \<Longrightarrow> (\<And>x. r' = Inr x \<Longrightarrow> k x = k' x) \<Longrightarrow> and_then r k = and_then r' k'"
  by (cases r') auto

lemma map_err_simps [simp]:
  "map_err f (Inl e) = Inl (f e)"
  "map_err f (Inr x) = Inr x"
  by (simp_all add: map_err_def)

lemma map_err_Ok_iff [simp]: "map_err f r = Inr x \<longleftrightarrow> r = Inr x"
  by (cases r) auto

lemma is_ok_simps [simp]: "is_ok (Inl e) = False" "is_ok (Inr x) = True"
  by (simp_all add: is_ok_def)

lemma is_ok_iff: "is_ok r \<longleftrightarrow> (\<exists>x. r = Inr x)"
  by (cases r) auto

lemma ok_opt_simps [simp]: "ok_opt (Inl e) = None" "ok_opt (Inr x) = Some x"
  by (simp_all add: ok_opt_def)

lemma ok_opt_Some_iff [simp]: "ok_opt r = Some x \<longleftrightarrow> r = Inr x"
  by (cases r) auto

lemma ok_or_simps [simp]: "ok_or e None = Inl e" "ok_or e (Some x) = Inr x"
  by (simp_all add: ok_or_def)

lemma ok_or_Ok_iff [simp]: "ok_or e v = Inr x \<longleftrightarrow> v = Some x"
  by (cases v) auto

text \<open>
  Where the code can panic (an index out of range, \<^verbatim>\<open>unreachable!\<close>), the error side says so:
  a fault is an error the code returns or a panic. \<open>index\<close> is \<^verbatim>\<open>xs[i]\<close>.
\<close>

datatype 'e fault = Fail 'e | Panic

definition index :: "'a list \<Rightarrow> nat \<Rightarrow> 'e fault + 'a" where
  "index xs i = (if i < length xs then Inr (xs ! i) else Inl Panic)"

fun index_all :: "'a list \<Rightarrow> nat list \<Rightarrow> 'e fault + 'a list" where
  "index_all xs [] = Inr []"
| "index_all xs (i # is) =
     and_then (index xs i) (\<lambda>x. and_then (index_all xs is) (\<lambda>ys. Inr (x # ys)))"

lemma index_in_range [simp]: "i < length xs \<Longrightarrow> index xs i = Inr (xs ! i)"
  by (simp add: index_def)

lemma index_all_in_range:
  "\<forall>i \<in> set is. i < length xs \<Longrightarrow> index_all xs is = Inr (map (nth xs) is)"
  by (induction "is") simp_all

text \<open>The shape of a parser that is a chain of string comparisons.\<close>

lemma if_Some_elim:
  assumes "(if c then Some x else r) = Some y"
  obtains "c" "x = y" | "r = Some y"
  using assms by (auto split: if_splits)

lemma if_Ok_elim:
  assumes "(if c then Inr x else r) = Inr y"
  obtains "c" "x = y" | "r = Inr y"
  using assms by (auto split: if_splits)

section \<open>Loops that return early\<close>

text \<open>
  \<open>each f seen xs\<close> is a \<^verbatim>\<open>for\<close> loop over \<open>xs\<close> whose body may return an error. The body
  also sees the prefix it has passed, the code's \<^verbatim>\<open>items[..index]\<close>, so the index is the
  length of that prefix.
\<close>

fun each :: "('a list \<Rightarrow> 'a \<Rightarrow> 'e + unit) \<Rightarrow> 'a list \<Rightarrow> 'a list \<Rightarrow> 'e + unit" where
  "each f seen [] = Inr ()"
| "each f seen (x # xs) = and_then (f seen x) (\<lambda>_. each f (seen @ [x]) xs)"

lemma each_Ok_gen:
  "each f seen xs = Inr () \<longleftrightarrow> (\<forall>i < length xs. f (seen @ take i xs) (xs ! i) = Inr ())"
proof (induction xs arbitrary: seen)
  case Nil
  then show ?case by simp
next
  case (Cons x xs)
  have "each f seen (x # xs) = Inr () \<longleftrightarrow> f seen x = Inr () \<and> each f (seen @ [x]) xs = Inr ()"
    by (cases "f seen x") auto
  also have "\<dots> \<longleftrightarrow> f (seen @ take 0 (x # xs)) ((x # xs) ! 0) = Inr () \<and>
      (\<forall>i < length xs. f (seen @ take (Suc i) (x # xs)) ((x # xs) ! Suc i) = Inr ())"
    by (simp add: Cons.IH)
  also have "\<dots> \<longleftrightarrow> (\<forall>i < length (x # xs). f (seen @ take i (x # xs)) ((x # xs) ! i) = Inr ())"
    by (simp add: All_less_Suc2)
  finally show ?case .
qed

lemma each_Ok_iff:
  "each f [] xs = Inr () \<longleftrightarrow> (\<forall>i < length xs. f (take i xs) (xs ! i) = Inr ())"
  by (simp add: each_Ok_gen)

lemma each_Ok_all:
  "(\<And>seen x. x \<in> set xs \<Longrightarrow> f seen x = Inr ()) \<Longrightarrow> each f seen xs = Inr ()"
  by (auto simp: each_Ok_gen)

text \<open>\<open>windows2 xs\<close> is \<^verbatim>\<open>xs.windows(2)\<close>.\<close>

fun windows2 :: "'a list \<Rightarrow> ('a \<times> 'a) list" where
  "windows2 (x # y # xs) = (x, y) # windows2 (y # xs)"
| "windows2 _ = []"

lemma windows2_all_sorted:
  "(\<forall>(x, y) \<in> set (windows2 xs). f x \<le> f y) \<longleftrightarrow> sorted (map f xs)" for f :: "'a \<Rightarrow> 'b::linorder"
proof (induction xs rule: windows2.induct)
  case (1 x y xs)
  then show ?case by (auto simp: dest: order_trans)
qed auto

end
