(* ===== verification/Contracts.thy ===== *)
theory Contracts
  imports Prelude
begin

text \<open>
  The interfaces that several components share, as locales. \<open>label_codec\<close> is the contract
  between an enum and its durable-store spelling (\<^verbatim>\<open>as_sql\<close> and the parser that reads it
  back). \<open>validated_text\<close> is the contract of a newtype over text whose only constructor
  validates. \<open>fixed_width\<close> is the contract of a big-endian integer encoding read by a
  cursor. \<open>fenced_rows\<close> is the contract of the durable writers: a row changes only by a
  step that raises its revision, and a terminal row never changes. Each is interpreted on
  the model's own definitions in the theory of the component that provides it.
\<close>

section \<open>Stored labels\<close>

locale label_codec =
  fixes as_sql :: "'a \<Rightarrow> string" and from_sql :: "string \<Rightarrow> 'a option"
  assumes from_as: "from_sql (as_sql x) = Some x"
    and from_only: "from_sql s = Some x \<Longrightarrow> s = as_sql x"
begin

lemma label_inj: "as_sql x = as_sql y \<longleftrightarrow> x = y"
  using from_as by (metis option.inject)

lemma from_iff: "from_sql s = Some x \<longleftrightarrow> s = as_sql x"
  using from_as from_only by blast

lemma from_None_iff: "from_sql s = None \<longleftrightarrow> s \<notin> range as_sql"
  using from_iff by (metis not_None_eq rangeE rangeI)

lemma inj_label: "inj as_sql"
  by (rule injI) (simp add: label_inj)

end

section \<open>Validated text\<close>

locale validated_text =
  fixes valid :: "string \<Rightarrow> bool" and make :: "string \<Rightarrow> 'e + 'a"
    and text_of :: "'a \<Rightarrow> string" and bad :: 'e
  assumes make_valid: "valid s \<Longrightarrow> \<exists>x. make s = Inr x \<and> text_of x = s"
    and make_invalid: "\<not> valid s \<Longrightarrow> make s = Inl bad"
    and text_inject: "text_of x = text_of y \<Longrightarrow> x = y"
begin

lemma make_Ok_iff: "make s = Inr x \<longleftrightarrow> valid s \<and> text_of x = s"
proof (cases "valid s")
  case True
  then obtain y where "make s = Inr y" "text_of y = s" using make_valid by blast
  with True show ?thesis using text_inject by fastforce
next
  case False
  then show ?thesis by (simp add: make_invalid)
qed

lemma make_Err_iff: "make s = Inl e \<longleftrightarrow> \<not> valid s \<and> e = bad"
  by (cases "valid s") (auto dest: make_valid make_invalid)

lemma make_text: "valid (text_of x) \<Longrightarrow> make (text_of x) = Inr x"
  by (simp add: make_Ok_iff)

lemma make_inject: "make s = Inr x \<Longrightarrow> make t = Inr x \<Longrightarrow> s = t"
  by (simp add: make_Ok_iff)

end

section \<open>Fixed-width integers\<close>

locale fixed_width =
  fixes width :: nat and bound :: nat
    and enc :: "nat \<Rightarrow> byte list" and dec :: "byte list \<Rightarrow> nat"
  assumes enc_length: "length (enc n) = width"
    and dec_enc: "n < bound \<Longrightarrow> dec (enc n) = n"
    and enc_dec: "length bs = width \<Longrightarrow> enc (dec bs) = bs"
    and dec_bound: "length bs = width \<Longrightarrow> dec bs < bound"
begin

lemma enc_inject: "m < bound \<Longrightarrow> n < bound \<Longrightarrow> enc m = enc n \<longleftrightarrow> m = n"
  using dec_enc by metis

lemma dec_take_enc: "n < bound \<Longrightarrow> dec (take width (enc n @ rest)) = n"
  by (simp add: enc_length dec_enc)

end

section \<open>Revision-fenced rows\<close>

text \<open>
  \<open>step\<close> is one committed transaction on a table of rows. \<open>revision\<close> and \<open>terminal\<close> read
  a row. A client of the contract gets the lifetime facts of a row from the one-step laws.
\<close>

locale fenced_rows =
  fixes step :: "('k \<Rightarrow> 'r option) \<Rightarrow> ('k \<Rightarrow> 'r option) \<Rightarrow> bool"
    and revision :: "'r \<Rightarrow> int" and terminal :: "'r \<Rightarrow> bool"
  assumes step_keeps: "step t t' \<Longrightarrow> t k = Some r \<Longrightarrow> \<exists>r'. t' k = Some r'"
    and step_revision: "step t t' \<Longrightarrow> t k = Some r \<Longrightarrow> t' k = Some r' \<Longrightarrow> r' \<noteq> r \<Longrightarrow>
          revision r' = revision r + 1"
    and step_terminal: "step t t' \<Longrightarrow> t k = Some r \<Longrightarrow> terminal r \<Longrightarrow> t' k = Some r"
begin

lemma steps_keep: "step\<^sup>*\<^sup>* t t' \<Longrightarrow> t k = Some r \<Longrightarrow> \<exists>r'. t' k = Some r'"
  by (induction rule: rtranclp_induct) (auto dest: step_keeps)

lemma steps_terminal: "step\<^sup>*\<^sup>* t t' \<Longrightarrow> t k = Some r \<Longrightarrow> terminal r \<Longrightarrow> t' k = Some r"
  by (induction rule: rtranclp_induct) (auto dest: step_terminal)

lemma steps_revision_mono:
  "step\<^sup>*\<^sup>* t t' \<Longrightarrow> t k = Some r \<Longrightarrow> t' k = Some r' \<Longrightarrow> revision r \<le> revision r'"
proof (induction arbitrary: r' rule: rtranclp_induct)
  case base
  then show ?case by simp
next
  case (step u v)
  obtain q where q: "u k = Some q" using step.hyps(1) step.prems(1) steps_keep by blast
  have "revision r \<le> revision q" using step.IH step.prems(1) q by blast
  moreover have "r' = q \<or> revision r' = revision q + 1"
    using step_revision [OF step.hyps(2) q step.prems(2)] by blast
  ultimately show ?case by auto
qed

text \<open>Equal revisions mean the same row: a caller that holds a revision holds the row.\<close>

lemma steps_same_revision:
  "step\<^sup>*\<^sup>* t t' \<Longrightarrow> t k = Some r \<Longrightarrow> t' k = Some r' \<Longrightarrow> revision r' = revision r \<Longrightarrow> r' = r"
proof (induction arbitrary: r' rule: rtranclp_induct)
  case base
  then show ?case by simp
next
  case (step u v)
  obtain q where q: "u k = Some q" using step.hyps(1) step.prems(1) steps_keep by blast
  have le: "revision r \<le> revision q"
    using steps_revision_mono [OF step.hyps(1) step.prems(1) q] .
  have "r' = q \<or> revision r' = revision q + 1"
    using step_revision [OF step.hyps(2) q step.prems(2)] by blast
  with le step.prems(3) have "r' = q" by auto
  with step.IH [OF step.prems(1) q] step.prems(3) show ?case by simp
qed

end

end
