(* ===== verification/Identity.thy ===== *)
theory Identity
  imports Contracts
begin

unbundle bit_operations_syntax

text \<open>
  The text validators behind every identity of \<^verbatim>\<open>decodex-core\<close> and the generator of
  version-4 UUIDs. \<^verbatim>\<open>account.rs\<close>, \<^verbatim>\<open>process_generation.rs\<close>, \<^verbatim>\<open>provider_attempt.rs\<close> and
  \<^verbatim>\<open>conversation.rs\<close> each carry a private copy of \<^verbatim>\<open>is_canonical_uuid\<close> with the same body,
  and the first three of \<^verbatim>\<open>is_sha256\<close>; one definition stands for the copies.
\<close>

section \<open>Byte classes\<close>

abbreviation code :: "char \<Rightarrow> nat" where "code c \<equiv> of_char c"

definition is_ascii_digit :: "char \<Rightarrow> bool" where
  "is_ascii_digit c \<longleftrightarrow> 48 \<le> code c \<and> code c \<le> 57"

definition is_ascii_lower_hex :: "char \<Rightarrow> bool" where
  "is_ascii_lower_hex c \<longleftrightarrow> 97 \<le> code c \<and> code c \<le> 102"

definition is_ascii_alphabetic :: "char \<Rightarrow> bool" where
  "is_ascii_alphabetic c \<longleftrightarrow> 65 \<le> code c \<and> code c \<le> 90 \<or> 97 \<le> code c \<and> code c \<le> 122"

definition is_ascii_alphanumeric :: "char \<Rightarrow> bool" where
  "is_ascii_alphanumeric c \<longleftrightarrow> is_ascii_digit c \<or> is_ascii_alphabetic c"

definition is_ascii_graphic :: "char \<Rightarrow> bool" where
  "is_ascii_graphic c \<longleftrightarrow> 33 \<le> code c \<and> code c \<le> 126"

definition hex_char :: "char \<Rightarrow> bool" where
  "hex_char c \<longleftrightarrow> is_ascii_digit c \<or> is_ascii_lower_hex c"

text \<open>
  \<^verbatim>\<open>value.chars().any(char::is_control)\<close> on the UTF-8 bytes of a string: the control
  characters are U+0000 to U+001F, U+007F, and U+0080 to U+009F, whose encodings are the
  byte pairs C2 80 to C2 9F (the byte C2 only starts a two-byte character).
\<close>

fun has_control :: "string \<Rightarrow> bool" where
  "has_control [] = False"
| "has_control [c] = (code c < 32 \<or> code c = 127)"
| "has_control (c # d # cs) =
     (code c < 32 \<or> code c = 127 \<or> (code c = 194 \<and> 128 \<le> code d \<and> code d \<le> 159) \<or>
      has_control (d # cs))"

section \<open>Identity validators\<close>

definition is_canonical_uuid :: "string \<Rightarrow> bool" where
  "is_canonical_uuid value \<longleftrightarrow>
     length value = 36 \<and>
     list_all (\<lambda>(index, byte).
       if index = 8 \<or> index = 13 \<or> index = 18 \<or> index = 23 then byte = CHR ''-''
       else is_ascii_digit byte \<or> is_ascii_lower_hex byte) (enumerate 0 value)"

definition is_canonical_uuid_v4 :: "string \<Rightarrow> bool" where
  "is_canonical_uuid_v4 value \<longleftrightarrow>
     is_canonical_uuid value \<and> value ! 14 = CHR ''4'' \<and>
     (value ! 19 = CHR ''8'' \<or> value ! 19 = CHR ''9'' \<or> value ! 19 = CHR ''a'' \<or> value ! 19 = CHR ''b'')"

definition is_sha256 :: "string \<Rightarrow> bool" where
  "is_sha256 value \<longleftrightarrow>
     length value = 64 \<and> list_all (\<lambda>byte. is_ascii_digit byte \<or> is_ascii_lower_hex byte) value"

definition max_process_identity_bytes :: nat where
  "max_process_identity_bytes = 128"

definition is_bounded_identity :: "string \<Rightarrow> bool" where
  "is_bounded_identity value \<longleftrightarrow>
     value \<noteq> [] \<and> length value \<le> max_process_identity_bytes \<and> list_all is_ascii_graphic value"

definition is_bounded_provider_identity :: "string \<Rightarrow> nat \<Rightarrow> bool" where
  "is_bounded_provider_identity value max_bytes \<longleftrightarrow>
     value \<noteq> [] \<and> length value \<le> max_bytes \<and> \<not> has_control value"

text \<open>
  The service identity has a validator of its own: the fixed positions first, then every
  byte. The early return makes the reads after the length check safe.
\<close>

definition valid_uuid_v4 :: "string \<Rightarrow> bool" where
  "valid_uuid_v4 value =
     (if length value \<noteq> 36
         \<or> value ! 8 \<noteq> CHR ''-''
         \<or> value ! 13 \<noteq> CHR ''-''
         \<or> value ! 18 \<noteq> CHR ''-''
         \<or> value ! 23 \<noteq> CHR ''-''
         \<or> value ! 14 \<noteq> CHR ''4''
         \<or> \<not> (value ! 19 = CHR ''8'' \<or> value ! 19 = CHR ''9'' \<or> value ! 19 = CHR ''a'' \<or> value ! 19 = CHR ''b'')
      then False
      else list_all (\<lambda>(index, byte).
             index = 8 \<or> index = 13 \<or> index = 18 \<or> index = 23 \<or>
             is_ascii_digit byte \<or> is_ascii_lower_hex byte) (enumerate 0 value))"

lemma list_all_enumerate:
  "list_all P (enumerate 0 xs) \<longleftrightarrow> (\<forall>i < length xs. P (i, xs ! i))"
  by (auto simp: list_all_length nth_enumerate_eq)

lemma is_canonical_uuid_iff:
  "is_canonical_uuid s \<longleftrightarrow> length s = 36 \<and>
     (\<forall>i < 36. if i = 8 \<or> i = 13 \<or> i = 18 \<or> i = 23 then s ! i = CHR ''-'' else hex_char (s ! i))"
  unfolding is_canonical_uuid_def list_all_enumerate hex_char_def prod.case
  by (rule conj_cong) (rule refl, simp only:)

lemma is_canonical_uuid_length: "is_canonical_uuid s \<Longrightarrow> length s = 36"
  by (simp add: is_canonical_uuid_def)

text \<open>The four positions of the hyphens.\<close>

definition uuid_dashes :: "string \<Rightarrow> bool" where
  "uuid_dashes s \<longleftrightarrow>
     s ! 8 = CHR ''-'' \<and> s ! 13 = CHR ''-'' \<and> s ! 18 = CHR ''-'' \<and> s ! 23 = CHR ''-''"

lemma is_canonical_uuid_dashes:
  assumes "is_canonical_uuid s"
  shows "uuid_dashes s"
proof -
  have "if i = 8 \<or> i = 13 \<or> i = 18 \<or> i = 23 then s ! i = CHR ''-'' else hex_char (s ! i)"
    if "i < 36" for i
    using assms that unfolding is_canonical_uuid_iff by blast
  from this [of 8] this [of 13] this [of 18] this [of 23] show ?thesis
    by (simp add: uuid_dashes_def)
qed

lemma is_sha256_length: "is_sha256 s \<Longrightarrow> length s = 64"
  by (simp add: is_sha256_def)

lemma is_sha256_iff: "is_sha256 s \<longleftrightarrow> length s = 64 \<and> list_all hex_char s"
  by (simp add: is_sha256_def hex_char_def list_all_iff)

lemma valid_uuid_v4_iff: "valid_uuid_v4 s \<longleftrightarrow> is_canonical_uuid_v4 s"
proof (cases "length s = 36 \<and> uuid_dashes s")
  case True
  let ?dash = "\<lambda>i::nat. i = 8 \<or> i = 13 \<or> i = 18 \<or> i = 23"
  have "(if ?dash i then s ! i = CHR ''-'' else hex_char (s ! i)) =
      (?dash i \<or> hex_char (s ! i))" for i
    using True by (auto simp: uuid_dashes_def)
  then have "is_canonical_uuid s =
      list_all (\<lambda>(i, c). ?dash i \<or> hex_char c) (enumerate 0 s)"
    using True by (simp add: is_canonical_uuid_iff list_all_enumerate)
  with True show ?thesis
    by (auto simp: valid_uuid_v4_def is_canonical_uuid_v4_def uuid_dashes_def hex_char_def)
next
  case False
  then have "\<not> is_canonical_uuid s"
    using is_canonical_uuid_length is_canonical_uuid_dashes by blast
  with False show ?thesis
    by (auto simp: valid_uuid_v4_def is_canonical_uuid_v4_def uuid_dashes_def)
qed

text \<open>
  The two validators of version-4 UUID text agree: what the service identity file
  accepts is exactly what the provider-attempt identities accept.
\<close>

theorem valid_uuid_v4_agrees: "valid_uuid_v4 s = is_canonical_uuid_v4 s"
  by (rule valid_uuid_v4_iff)

end
