(* ===== verification/Hex_Text.thy ===== *)
theory Hex_Text
  imports Identity
begin

text \<open>
  Hexadecimal text: the encoder and decoder of \<^verbatim>\<open>blob.rs\<close> (\<^verbatim>\<open>identity.rs\<close> has the same
  encoder), the content address \<^verbatim>\<open>BlobHash\<close>, and the generator of random version-4 UUIDs
  of \<^verbatim>\<open>account.rs\<close> and \<^verbatim>\<open>identity.rs\<close>. The host randomness is an argument of the
  generators: the 16 bytes that \<^verbatim>\<open>getrandom::fill\<close> wrote, or its failure.
\<close>

section \<open>Encoding and decoding\<close>

definition hex_alphabet :: string where
  "hex_alphabet = ''0123456789abcdef''"

definition hex :: "byte list \<Rightarrow> string" where
  "hex bytes = concat (map (\<lambda>b. [hex_alphabet ! unat (drop_bit 4 b),
                                hex_alphabet ! unat (b AND 0x0f)]) bytes)"

text \<open>A byte of text as the code's \<^verbatim>\<open>u8\<close>.\<close>

definition byte_of :: "char \<Rightarrow> byte" where
  "byte_of c = of_nat (code c)"

definition decode_hex :: "char \<Rightarrow> byte option" where
  "decode_hex c =
     (if 48 \<le> code c \<and> code c \<le> 57 then Some (byte_of c - 48)
      else if 97 \<le> code c \<and> code c \<le> 102 then Some (byte_of c - 97 + 10)
      else None)"

lemma hex_alphabet_hex_char: "n < 16 \<Longrightarrow> hex_char (hex_alphabet ! n)"
proof -
  assume "n < 16"
  then have "hex_alphabet ! n \<in> set hex_alphabet"
    by (intro nth_mem) (simp add: hex_alphabet_def)
  moreover have "\<forall>c \<in> set hex_alphabet. hex_char c"
    by (simp add: hex_alphabet_def hex_char_def is_ascii_digit_def is_ascii_lower_hex_def)
  ultimately show ?thesis by blast
qed

lemma nibble_bounds: "unat (drop_bit 4 (b::byte)) < 16" "unat ((b::byte) AND 0x0f) < 16"
proof -
  have "unat b < 256" using unsigned_less [of b, where 'a = nat] by simp
  then show "unat (drop_bit 4 b) < 16"
    by (simp add: drop_bit_eq_div unat_div)
  have "b AND 0x0f = take_bit 4 b"
    by (simp add: take_bit_eq_mask mask_eq_exp_minus_1)
  then show "unat (b AND 0x0f) < 16"
    by (simp add: take_bit_eq_mod unat_mod)
qed

lemma byte_nibbles: "push_bit 4 (drop_bit 4 (b::byte)) OR (b AND 0x0f) = b"
proof -
  have "b AND 0x0f = take_bit 4 b"
    by (simp add: take_bit_eq_mask mask_eq_exp_minus_1)
  moreover have "push_bit 4 (drop_bit 4 b) OR take_bit 4 b = b"
    by (rule bit_eqI) (auto simp: bit_simps)
  ultimately show ?thesis by simp
qed

lemma hex_length: "length (hex bs) = 2 * length bs"
  by (induction bs) (simp_all add: hex_def)

lemma hex_hex_char: "list_all hex_char (hex bs)"
  by (induction bs) (simp_all add: hex_def hex_alphabet_hex_char nibble_bounds)

lemma hex_append: "hex (xs @ ys) = hex xs @ hex ys"
  by (simp add: hex_def)

lemma decode_alphabet: "n < 16 \<Longrightarrow> decode_hex (hex_alphabet ! n) = Some (of_nat n)"
proof -
  assume n: "n < 16"
  have "\<forall>k \<in> set [0..<16]. decode_hex (hex_alphabet ! k) = Some (of_nat k)"
    by (simp add: hex_alphabet_def decode_hex_def byte_of_def upt_rec)
  with n show ?thesis by simp
qed

lemma decode_hex_Some: "decode_hex c \<noteq> None \<longleftrightarrow> hex_char c"
  by (simp add: decode_hex_def hex_char_def is_ascii_digit_def is_ascii_lower_hex_def)

lemma decode_hex_alphabet:
  assumes "decode_hex c = Some v"
  shows "unat v < 16 \<and> hex_alphabet ! unat v = c"
proof -
  have "\<forall>c. case decode_hex c of None \<Rightarrow> True
      | Some v \<Rightarrow> unat v < 16 \<and> hex_alphabet ! unat v = c"
    by code_simp
  then have "case decode_hex c of None \<Rightarrow> True
      | Some v \<Rightarrow> unat v < 16 \<and> hex_alphabet ! unat v = c" ..
  with assms show ?thesis by simp
qed

section \<open>Content addresses\<close>

text \<open>
  \<^verbatim>\<open>BlobHash([u8; 32])\<close>; its private field has exactly 32 bytes. The parser reads the pairs
  of \<^verbatim>\<open>as_chunks::<2>\<close>, so an odd byte at the end would be left out: the length check above
  it makes that impossible.
\<close>

datatype blob_hash = BlobHash (blob_bytes: "byte list")

definition blob_hash_wf :: "blob_hash \<Rightarrow> bool" where
  "blob_hash_wf h \<longleftrightarrow> length (blob_bytes h) = 32"

fun decode_hex_pairs :: "string \<Rightarrow> byte list option" where
  "decode_hex_pairs (p0 # p1 # rest) =
     (case decode_hex p0 of None \<Rightarrow> None
      | Some hi \<Rightarrow> (case decode_hex p1 of None \<Rightarrow> None
        | Some lo \<Rightarrow> map_option (Cons (push_bit 4 hi OR lo)) (decode_hex_pairs rest)))"
| "decode_hex_pairs _ = Some []"

definition blob_hash_parse :: "string \<Rightarrow> blob_hash option" where
  "blob_hash_parse value =
     (if length value \<noteq> 64 \<or> \<not> list_all (\<lambda>byte. is_ascii_digit byte \<or> is_ascii_lower_hex byte) value
      then None
      else map_option BlobHash (decode_hex_pairs value))"

definition to_hex :: "blob_hash \<Rightarrow> string" where
  "to_hex h = hex (blob_bytes h)"

lemma decode_hex_pairs_hex: "decode_hex_pairs (hex bs) = Some bs"
  by (induction bs) (simp_all add: hex_def decode_alphabet nibble_bounds byte_nibbles)

lemma nibble_join:
  assumes "unat (hi::byte) < 16" "unat (lo::byte) < 16"
  shows "drop_bit 4 (push_bit 4 hi OR lo) = hi" "(push_bit 4 hi OR lo) AND 0x0f = lo"
proof -
  have hi: "take_bit 4 hi = hi" and lo: "take_bit 4 lo = lo"
    using assms by (simp_all add: take_bit_eq_mod word_unat_eq_iff unat_mod)
  have hi4: "bit hi n \<Longrightarrow> n < 4" for n
    using hi by (metis bit_take_bit_iff)
  have lo4: "bit lo n \<Longrightarrow> n < 4" for n
    using lo by (metis bit_take_bit_iff)
  have "drop_bit 4 lo = 0"
    using lo by (metis drop_bit_take_bit diff_self_eq_0 take_bit_0)
  moreover have "drop_bit 4 (push_bit 4 hi) = hi"
    using hi4 by (auto intro!: bit_eqI simp: bit_simps)
  ultimately show "drop_bit 4 (push_bit 4 hi OR lo) = hi"
    by simp
  have "(push_bit 4 hi OR lo) AND mask 4 = lo"
    using lo4 by (auto intro!: bit_eqI simp: bit_simps)
  then show "(push_bit 4 hi OR lo) AND 0x0f = lo"
    by (simp add: mask_eq_exp_minus_1)
qed

lemma hex_decode_hex_pairs:
  "decode_hex_pairs s = Some bs \<Longrightarrow> even (length s) \<Longrightarrow> hex bs = s \<and> length s = 2 * length bs"
proof (induction s arbitrary: bs rule: decode_hex_pairs.induct)
  case (1 p0 p1 rest)
  then obtain hi lo tl where *: "decode_hex p0 = Some hi" "decode_hex p1 = Some lo"
    "decode_hex_pairs rest = Some tl" "bs = (push_bit 4 hi OR lo) # tl"
    by (auto split: option.splits)
  moreover have "hex tl = rest \<and> length rest = 2 * length tl"
    using "1.IH" * "1.prems"(2) by simp
  moreover have "unat hi < 16" "hex_alphabet ! unat hi = p0"
      "unat lo < 16" "hex_alphabet ! unat lo = p1"
    using decode_hex_alphabet [OF *(1)] decode_hex_alphabet [OF *(2)] by simp_all
  ultimately show ?case using nibble_join [of hi lo] by (simp add: hex_def)
qed (auto simp: hex_def)

lemma decode_hex_pairs_total: "list_all hex_char s \<Longrightarrow> \<exists>bs. decode_hex_pairs s = Some bs"
proof (induction s rule: decode_hex_pairs.induct)
  case (1 p0 p1 rest)
  then obtain hi lo where "decode_hex p0 = Some hi" "decode_hex p1 = Some lo"
    using decode_hex_Some by fastforce
  with 1 show ?case by auto
qed auto

lemma blob_hash_parse_to_hex: "blob_hash_wf h \<Longrightarrow> blob_hash_parse (to_hex h) = Some h"
  using hex_hex_char [of "blob_bytes h"]
  by (simp add: blob_hash_parse_def to_hex_def blob_hash_wf_def hex_length decode_hex_pairs_hex
      flip: hex_char_def)

lemma blob_hash_parse_Some:
  assumes "blob_hash_parse s = Some h"
  shows "to_hex h = s \<and> blob_hash_wf h"
proof -
  from assms obtain bs where "h = BlobHash bs" "decode_hex_pairs s = Some bs" "length s = 64"
    by (auto simp: blob_hash_parse_def split: if_splits)
  with hex_decode_hex_pairs [of s bs] show ?thesis
    by (simp add: to_hex_def blob_hash_wf_def)
qed

lemma to_hex_sha256: "blob_hash_wf h \<Longrightarrow> is_sha256 (to_hex h)"
  by (simp add: is_sha256_iff to_hex_def blob_hash_wf_def hex_length hex_hex_char)

section \<open>Random version-4 UUIDs\<close>

text \<open>
  The version and variant bits of RFC 9562, written over bytes 6 and 8. Both
  \<^verbatim>\<open>AccountOperationId::generate\<close> (one \<^verbatim>\<open>format!\<close> of sixteen \<^verbatim>\<open>{:02x}\<close>) and
  \<^verbatim>\<open>ServerIdentity::generate\<close> (five \<^verbatim>\<open>hex\<close> groups) do this.
\<close>

definition uuid_stamp :: "byte list \<Rightarrow> byte list" where
  "uuid_stamp bytes =
     (let bytes = bytes[6 := (bytes ! 6 AND 0x0f) OR 0x40]
      in bytes[8 := (bytes ! 8 AND 0x3f) OR 0x80])"

definition uuid_groups :: "byte list \<Rightarrow> string" where
  "uuid_groups bytes =
     hex (take 4 bytes) @ ''-'' @ hex (take 2 (drop 4 bytes)) @ ''-'' @
     hex (take 2 (drop 6 bytes)) @ ''-'' @ hex (take 2 (drop 8 bytes)) @ ''-'' @
     hex (take 6 (drop 10 bytes))"

text \<open>\<^verbatim>\<open>ServerIdentity::parse\<close> and \<^verbatim>\<open>ServerIdentity::generate\<close>.\<close>

datatype server_identity = ServerIdentity (server_identity_text: string)

datatype identity_error = InvalidServerIdentity | RandomnessUnavailable

definition server_identity_parse :: "string \<Rightarrow> identity_error + server_identity" where
  "server_identity_parse value =
     (if \<not> valid_uuid_v4 value then Inl InvalidServerIdentity else Inr (ServerIdentity value))"

definition server_identity_generate :: "byte list option \<Rightarrow> identity_error + server_identity" where
  "server_identity_generate fill =
     and_then (ok_or RandomnessUnavailable fill)
       (\<lambda>bytes. server_identity_parse (uuid_groups (uuid_stamp bytes)))"

interpretation server_identity: validated_text valid_uuid_v4 server_identity_parse
    server_identity_text InvalidServerIdentity
  by unfold_locales (auto simp: server_identity_parse_def server_identity.expand)

lemma list16:
  assumes "length xs = 16"
  obtains a0 a1 a2 a3 a4 a5 a6 a7 a8 a9 a10 a11 a12 a13 a14 a15 where
    "xs = [a0, a1, a2, a3, a4, a5, a6, a7, a8, a9, a10, a11, a12, a13, a14, a15]"
  using assms by (auto simp: numeral_eq_Suc length_Suc_conv)

lemma version_nibble: "hex_alphabet ! unat (drop_bit 4 (((b::byte) AND 0x0f) OR 0x40)) = CHR ''4''"
proof -
  have "drop_bit 4 ((b AND mask 4) OR 0x40) = 4"
    by (rule bit_eqI) (auto simp: bit_simps)
  then have "unat (drop_bit 4 ((b AND 0x0f) OR 0x40)) = 4"
    by (simp add: mask_eq_exp_minus_1)
  then show ?thesis by (simp add: hex_alphabet_def)
qed

lemma variant_nibble:
  "hex_alphabet ! unat (drop_bit 4 (((b::byte) AND 0x3f) OR 0x80)) \<in> set ''89ab''"
proof -
  have "\<forall>n \<in> set [0..<256].
      hex_alphabet ! unat (drop_bit 4 (((of_nat n :: byte) AND 0x3f) OR 0x80)) \<in> set ''89ab''"
    by code_simp
  moreover have "unat b \<in> set [0..<256]"
    using unsigned_less [of b, where 'a = nat] by simp
  moreover have "of_nat (unat b) = b" by simp
  ultimately show ?thesis by metis
qed

lemma uuid_groups_canonical:
  assumes "length bs = 16"
  shows "is_canonical_uuid (uuid_groups bs)"
proof -
  obtain a0 a1 a2 a3 a4 a5 a6 a7 a8 a9 a10 a11 a12 a13 a14 a15 where
    "bs = [a0, a1, a2, a3, a4, a5, a6, a7, a8, a9, a10, a11, a12, a13, a14, a15]"
    using assms by (rule list16)
  then show ?thesis
    using hex_alphabet_hex_char nibble_bounds
    by (simp add: uuid_groups_def hex_def is_canonical_uuid_def flip: hex_char_def)
qed

lemma uuid_stamp_v4:
  assumes "length bytes = 16"
  shows "is_canonical_uuid_v4 (uuid_groups (uuid_stamp bytes))"
proof -
  let ?s = "uuid_groups (uuid_stamp bytes)"
  obtain a0 a1 a2 a3 a4 a5 a6 a7 a8 a9 a10 a11 a12 a13 a14 a15 where
    bs: "bytes = [a0, a1, a2, a3, a4, a5, a6, a7, a8, a9, a10, a11, a12, a13, a14, a15]"
    using assms by (rule list16)
  have "is_canonical_uuid ?s"
    by (rule uuid_groups_canonical) (simp add: uuid_stamp_def Let_def assms)
  moreover have "?s ! 14 = CHR ''4''"
    using version_nibble [of a6] by (simp add: bs uuid_stamp_def uuid_groups_def hex_def)
  moreover have "?s ! 19 \<in> set ''89ab''"
    using variant_nibble [of a8] by (simp add: bs uuid_stamp_def uuid_groups_def hex_def)
  ultimately show ?thesis by (auto simp: is_canonical_uuid_v4_def)
qed

text \<open>
  A generated UUID always passes its own constructor: whatever the sixteen random
  bytes are, \<^verbatim>\<open>generate\<close> never fails on the text it built.
\<close>

theorem generated_uuid_v4:
  assumes "length bytes = 16"
  shows "is_canonical_uuid_v4 (uuid_groups (uuid_stamp bytes)) \<and>
    server_identity_generate (Some bytes) = Inr (ServerIdentity (uuid_groups (uuid_stamp bytes)))"
  using uuid_stamp_v4 [OF assms]
  by (simp add: server_identity_generate_def server_identity_parse_def valid_uuid_v4_iff)

theorem generated_uuid_v4_witness:
  "is_canonical_uuid_v4 (uuid_groups (uuid_stamp (replicate 16 0))) \<and>
   server_identity_generate (Some (replicate 16 0)) =
     Inr (ServerIdentity (uuid_groups (uuid_stamp (replicate 16 0))))"
  by (rule generated_uuid_v4) simp

end
