(* ===== verification/Account.thy ===== *)
theory Account
  imports Hex_Text
begin

text \<open>
  The account domain: \<^verbatim>\<open>account.rs\<close>, \<^verbatim>\<open>quota.rs\<close> and \<^verbatim>\<open>reset_card.rs\<close> of \<^verbatim>\<open>decodex-core\<close>.
  Identities and credential values with their validating constructors, the finite account
  operations, quota windows and observations, the usage permission rule, and the admission
  of a manual reset card. A newtype is a one-constructor datatype; its \<^verbatim>\<open>new\<close> is the only
  function of the code that builds one.
\<close>

section \<open>Quota windows\<close>

datatype quota_window_class = FiveHour | SevenDay

datatype unknown_window_duration = UnknownWindowDuration

definition window_from_duration_minutes :: "nat \<Rightarrow> unknown_window_duration + quota_window_class" where
  "window_from_duration_minutes duration_minutes =
     (if duration_minutes = 300 then Inr FiveHour
      else if duration_minutes = 10080 then Inr SevenDay
      else Inl UnknownWindowDuration)"

fun window_duration_minutes :: "quota_window_class \<Rightarrow> nat" where
  "window_duration_minutes FiveHour = 300"
| "window_duration_minutes SevenDay = 10080"

lemma window_roundtrip:
  "window_from_duration_minutes n = Inr w \<longleftrightarrow> n = window_duration_minutes w"
  by (cases w) (auto simp: window_from_duration_minutes_def)

section \<open>Identities and credentials\<close>

datatype account_error =
    InvalidAccountId
  | InvalidProviderIdentity
  | UnsupportedCredentialStoreSchema
  | InvalidCredentialVersion
  | CredentialVersionExhausted
  | InvalidCredentialFingerprint
  | InvalidOperationId
  | AccountRandomnessUnavailable
  | InvalidQuotaWindow

datatype account_id = AccountId (account_id_text: string)

definition account_id_new :: "string \<Rightarrow> account_error + account_id" where
  "account_id_new value =
     (if \<not> is_canonical_uuid value then Inl InvalidAccountId else Inr (AccountId value))"

interpretation account_id: validated_text is_canonical_uuid account_id_new
    account_id_text InvalidAccountId
  by unfold_locales (auto simp: account_id_new_def account_id.expand)

datatype account_provider = Chatgpt

record provider_identity =
  pid_provider :: account_provider
  pid_account_id :: string

definition provider_identity_new ::
    "account_provider \<Rightarrow> string \<Rightarrow> account_error + provider_identity" where
  "provider_identity_new provider account_id =
     (if account_id = [] \<or> length account_id > 512 \<or> has_control account_id
      then Inl InvalidProviderIdentity
      else Inr \<lparr>pid_provider = provider, pid_account_id = account_id\<rparr>)"

text \<open>\<^verbatim>\<open>u16\<close> and \<^verbatim>\<open>u64\<close> at their width: the successor of a version is a checked addition.\<close>

datatype credential_store_schema_version = SchemaVersion (schema_get: "16 word")

definition schema_v1 :: credential_store_schema_version where "schema_v1 = SchemaVersion 1"
definition schema_v2 :: credential_store_schema_version where "schema_v2 = SchemaVersion 2"

definition schema_version_new ::
    "16 word \<Rightarrow> account_error + credential_store_schema_version" where
  "schema_version_new value =
     (if value = schema_get schema_v1 \<or> value = schema_get schema_v2
      then Inr (SchemaVersion value)
      else Inl UnsupportedCredentialStoreSchema)"

datatype credential_version = CredentialVersion (credential_version_get: "64 word")

definition credential_version_new :: "64 word \<Rightarrow> account_error + credential_version" where
  "credential_version_new value =
     (if value = 0 then Inl InvalidCredentialVersion else Inr (CredentialVersion value))"

definition checked_add_u64 :: "64 word \<Rightarrow> 64 word \<Rightarrow> (64 word) option" where
  "checked_add_u64 a b = (if unat a + unat b < 2 ^ 64 then Some (a + b) else None)"

definition credential_version_successor ::
    "credential_version \<Rightarrow> account_error + credential_version" where
  "credential_version_successor v =
     (case checked_add_u64 (credential_version_get v) 1 of
        Some value \<Rightarrow> Inr (CredentialVersion value)
      | None \<Rightarrow> Inl CredentialVersionExhausted)"

datatype credential_fingerprint = CredentialFingerprint (fingerprint_text: string)

definition credential_fingerprint_new :: "string \<Rightarrow> account_error + credential_fingerprint" where
  "credential_fingerprint_new value =
     (if length value \<noteq> 64 \<or> \<not> list_all (\<lambda>byte. is_ascii_digit byte \<or> is_ascii_lower_hex byte) value
      then Inl InvalidCredentialFingerprint
      else Inr (CredentialFingerprint value))"

interpretation credential_fingerprint: validated_text is_sha256 credential_fingerprint_new
    fingerprint_text InvalidCredentialFingerprint
  by unfold_locales
     (auto simp: credential_fingerprint_new_def is_sha256_def credential_fingerprint.expand)

datatype account_operation_id = AccountOperationId (operation_id_text: string)

definition account_operation_id_new :: "string \<Rightarrow> account_error + account_operation_id" where
  "account_operation_id_new value =
     (if \<not> is_canonical_uuid value then Inl InvalidOperationId else Inr (AccountOperationId value))"

interpretation account_operation_id: validated_text is_canonical_uuid account_operation_id_new
    operation_id_text InvalidOperationId
  by unfold_locales (auto simp: account_operation_id_new_def account_operation_id.expand)

definition account_operation_id_generate ::
    "byte list option \<Rightarrow> account_error + account_operation_id" where
  "account_operation_id_generate fill =
     and_then (ok_or AccountRandomnessUnavailable fill)
       (\<lambda>bytes. account_operation_id_new (uuid_groups (uuid_stamp bytes)))"

record credential_binding =
  cb_schema_version :: credential_store_schema_version
  cb_version :: credential_version
  cb_fingerprint :: credential_fingerprint
  cb_provider :: provider_identity
  cb_writer_operation_id :: account_operation_id

section \<open>Account operations and readiness\<close>

datatype account_operation_kind = Enroll | Import | Refresh | Logout

datatype account_operation_phase =
    OpPrepared | ProviderEffectPending | StoreApplied | Committed | Cancelled | RecoveryRequired

definition phase_is_terminal :: "account_operation_phase \<Rightarrow> bool" where
  "phase_is_terminal p \<longleftrightarrow> (case p of Committed \<Rightarrow> True | Cancelled \<Rightarrow> True
     | RecoveryRequired \<Rightarrow> True | _ \<Rightarrow> False)"

record account_operation =
  ao_operation_id :: account_operation_id
  ao_account_id :: account_id
  ao_kind :: account_operation_kind
  ao_phase :: account_operation_phase
  ao_expected_account_revision :: "i64 option"
  ao_requested_display_label :: "string option"
  ao_requested_enabled :: "bool option"
  ao_expected :: "credential_binding option"
  ao_target :: "credential_binding option"
  ao_recovery_code :: "string option"
  ao_recovery_operation_id :: "account_operation_id option"
  ao_superseded_by_operation_id :: "account_operation_id option"

record account_operation_status =
  aos_operation_id :: account_operation_id
  aos_kind :: account_operation_kind
  aos_phase :: account_operation_phase
  aos_recovery_code :: "string option"

datatype account_lifecycle_readiness =
    LifecycleReady | UnsupportedPlan | CredentialAbsent | StoreUnavailable | StoreMismatch
  | ProviderMismatch | OperationUnsettled | CallbackCapabilityUnready | Tombstoned

datatype account_selection_mode = Fixed account_id | Balanced

record account_routing_control =
  arc_revision :: i64
  arc_mode :: account_selection_mode
  arc_order :: "account_id list"

section \<open>Quota observations\<close>

record account_quota_window =
  aqw_duration_minutes :: "32 word"
  aqw_used_percent :: "8 word"
  aqw_resets_at :: i64

definition account_quota_window_new ::
    "32 word \<Rightarrow> 8 word \<Rightarrow> i64 \<Rightarrow> account_error + account_quota_window" where
  "account_quota_window_new duration_minutes used_percent resets_at =
     (if \<not> (duration_minutes = 300 \<or> duration_minutes = 10080) \<or> used_percent > 100 \<or> resets_at \<le> 0
      then Inl InvalidQuotaWindow
      else Inr \<lparr>aqw_duration_minutes = duration_minutes, aqw_used_percent = used_percent,
                aqw_resets_at = resets_at\<rparr>)"

datatype account_quota_observation_error =
    ProviderUnavailable | ProtocolUnavailable | AccountMismatch | UnsupportedWindow

datatype account_quota_disposition =
    QuotaUnknown
  | QuotaNotApplicable
  | QuotaCurrent account_quota_window
  | QuotaStale account_quota_window
  | QuotaError account_quota_observation_error

record account_quota_window_observation =
  aqo_duration_minutes :: "32 word"
  aqo_observed_at :: "i64 option"
  aqo_disposition :: account_quota_disposition

definition quota_observation_unknown ::
    "32 word \<Rightarrow> account_error + account_quota_window_observation" where
  "quota_observation_unknown duration_minutes =
     (if \<not> (duration_minutes = 300 \<or> duration_minutes = 10080)
      then Inl InvalidQuotaWindow
      else Inr \<lparr>aqo_duration_minutes = duration_minutes, aqo_observed_at = None,
                aqo_disposition = QuotaUnknown\<rparr>)"

definition quota_observation_current ::
    "account_quota_window_observation \<Rightarrow> account_quota_window option" where
  "quota_observation_current obs =
     (case aqo_disposition obs of QuotaCurrent current \<Rightarrow> Some current | _ \<Rightarrow> None)"

text \<open>Account-wide credit and spending facts; \<open>None\<close> is an absent fact, not a false one.\<close>

record account_usage_conditions =
  auc_has_credits :: "bool option"
  auc_unlimited_credits :: "bool option"
  auc_spend_control_reached :: "bool option"
  auc_rate_limit_reached :: "bool option"

definition ordinary_requests_allowed ::
    "account_usage_conditions \<Rightarrow> bool option \<Rightarrow> bool option" where
  "ordinary_requests_allowed c included =
     (if auc_spend_control_reached c = Some True \<or> auc_rate_limit_reached c = Some True
      then Some False
      else map_option (\<lambda>allowed.
        allowed \<or> auc_has_credits c = Some True \<or> auc_unlimited_credits c = Some True) included)"

record account_usage_observation =
  auo_account_revision :: i64
  auo_observed_at :: i64
  auo_ordinary_usage_allowed :: "bool option"
  auo_conditions :: account_usage_conditions

datatype account_state =
    Unavailable | StateUnknown | Available | Depleted | AuthFailed | PluginUnready

record account_record =
  ar_account_id :: account_id
  ar_label :: string
  ar_enabled :: bool
  ar_revision :: i64
  ar_observed_state :: account_state
  ar_lifecycle_readiness :: account_lifecycle_readiness
  ar_credential :: "credential_binding option"
  ar_unsettled_operation :: "account_operation_status option"
  ar_usage_observation :: "account_usage_observation option"
  ar_five_hour_quota :: account_quota_window_observation
  ar_seven_day_quota :: account_quota_window_observation
  ar_tombstoned :: bool

datatype account_selection_recovery =
    ConfigureFixedAccount | EnableAccount | EnrollCredentials | UseSupportedPlan
  | ResolveCredentialOperation | RepairCredentialStore | RestoreProviderAgreement
  | RefreshQuota | UpgradeCodex

section \<open>Reset cards\<close>

datatype reset_card_timestamp = ResetCardTimestamp (unix_seconds: i64)

datatype reset_card_error = NegativeTimestamp | ExpirationNotAfterGrant

definition timestamp_from_unix_seconds :: "i64 \<Rightarrow> reset_card_error + reset_card_timestamp" where
  "timestamp_from_unix_seconds value =
     (if value < 0 then Inl NegativeTimestamp else Inr (ResetCardTimestamp value))"

record reset_card_descriptor =
  rcd_granted_at :: reset_card_timestamp
  rcd_expires_at :: "reset_card_timestamp option"

definition reset_card_descriptor_new ::
    "reset_card_timestamp \<Rightarrow> reset_card_timestamp option \<Rightarrow>
     reset_card_error + reset_card_descriptor" where
  "reset_card_descriptor_new granted_at expires_at =
     (if (case expires_at of None \<Rightarrow> False | Some expiry \<Rightarrow> unix_seconds expiry \<le> unix_seconds granted_at)
      then Inl ExpirationNotAfterGrant
      else Inr \<lparr>rcd_granted_at = granted_at, rcd_expires_at = expires_at\<rparr>)"

datatype reset_card_consume_outcome = Reset | NothingToReset | NoCredit | AlreadyRedeemed

datatype manual_reset_card_admission_error =
    ManualAccountUnavailable | ManualAccountStateUnknown | ManualAuthenticationFailed | ManualPluginUnready

fun admit_manual_reset_card_use ::
    "account_state \<Rightarrow> manual_reset_card_admission_error + unit" where
  "admit_manual_reset_card_use Available = Inr ()"
| "admit_manual_reset_card_use Depleted = Inr ()"
| "admit_manual_reset_card_use Unavailable = Inl ManualAccountUnavailable"
| "admit_manual_reset_card_use StateUnknown = Inl ManualAccountStateUnknown"
| "admit_manual_reset_card_use AuthFailed = Inl ManualAuthenticationFailed"
| "admit_manual_reset_card_use PluginUnready = Inl ManualPluginUnready"

section \<open>Properties\<close>

lemma operation_id_generate_ok:
  assumes "length bytes = 16"
  shows "account_operation_id_generate (Some bytes) =
    Inr (AccountOperationId (uuid_groups (uuid_stamp bytes)))"
  by (simp add: account_operation_id_generate_def account_operation_id_new_def
      uuid_groups_canonical uuid_stamp_def Let_def assms)

lemma checked_add_u64_Some_iff:
  "checked_add_u64 a b = Some c \<longleftrightarrow> unat c = unat a + unat b"
proof (cases "unat a + unat b < 2 ^ 64")
  case True
  then have "unat (a + b) = unat a + unat b"
    by (simp add: unat_word_ariths)
  with True show ?thesis
    by (auto simp: checked_add_u64_def word_unat_eq_iff)
next
  case False
  moreover have "unat c < 2 ^ 64" using unsigned_less [of c, where 'a = nat] by simp
  ultimately show ?thesis by (auto simp: checked_add_u64_def)
qed

text \<open>
  A credential version advances by exactly one and never wraps: \<^verbatim>\<open>successor\<close> returns
  \<open>v'\<close> precisely when \<open>v'\<close> is \<open>v + 1\<close> as an unbounded number, and reports exhaustion
  precisely at the largest 64-bit version.
\<close>

lemma credential_version_successor_exact:
  "(credential_version_successor v = Inr v' \<longleftrightarrow>
      unat (credential_version_get v') = unat (credential_version_get v) + 1) \<and>
   (credential_version_successor v = Inl e \<longleftrightarrow>
      e = CredentialVersionExhausted \<and> unat (credential_version_get v) = 2 ^ 64 - 1)"
proof (cases "checked_add_u64 (credential_version_get v) 1")
  case None
  have "unat (credential_version_get v) < 2 ^ 64" for v
    using unsigned_less [of "credential_version_get v", where 'a = nat] by simp
  from this [of v] this [of v'] None show ?thesis
    by (auto simp: credential_version_successor_def checked_add_u64_def split: if_splits)
next
  case (Some w)
  then have "unat w = unat (credential_version_get v) + 1"
    by (simp add: checked_add_u64_Some_iff)
  moreover have "unat w < 2 ^ 64" using unsigned_less [of w, where 'a = nat] by simp
  moreover have "CredentialVersion w = v' \<longleftrightarrow> unat (credential_version_get v') = unat w"
    by (cases v') (auto simp: word_unat_eq_iff)
  ultimately show ?thesis
    using Some by (simp add: credential_version_successor_def)
qed

text \<open>
  The usage permission rule in full. A reached spending control or rate limit denies
  whatever else is known. Otherwise permission exists only when the included-usage answer
  exists, and credits then extend a negative answer; credits alone never authorise.
\<close>

theorem ordinary_requests_allowed_spec:
  "(ordinary_requests_allowed c included = Some True \<longleftrightarrow>
      auc_spend_control_reached c \<noteq> Some True \<and> auc_rate_limit_reached c \<noteq> Some True \<and>
      (included = Some True \<or>
       (included = Some False \<and>
        (auc_has_credits c = Some True \<or> auc_unlimited_credits c = Some True)))) \<and>
   (ordinary_requests_allowed c included = None \<longleftrightarrow>
      auc_spend_control_reached c \<noteq> Some True \<and> auc_rate_limit_reached c \<noteq> Some True \<and>
      included = None)"
  by (cases included) (auto simp: ordinary_requests_allowed_def)

lemma account_quota_window_new_Ok_iff:
  "account_quota_window_new d u r = Inr w \<longleftrightarrow>
     (d = 300 \<or> d = 10080) \<and> u \<le> 100 \<and> 0 < r \<and>
     w = \<lparr>aqw_duration_minutes = d, aqw_used_percent = u, aqw_resets_at = r\<rparr>"
  by (auto simp: account_quota_window_new_def not_less)

lemma reset_card_descriptor_new_Ok_iff:
  "reset_card_descriptor_new g e = Inr d \<longleftrightarrow>
     (\<forall>x. e = Some x \<longrightarrow> unix_seconds g < unix_seconds x) \<and>
     d = \<lparr>rcd_granted_at = g, rcd_expires_at = e\<rparr>"
  by (auto simp: reset_card_descriptor_new_def not_le split: option.splits)

lemma admit_manual_reset_card_use_iff:
  "admit_manual_reset_card_use s = Inr () \<longleftrightarrow> s = Available \<or> s = Depleted"
  by (cases s) auto

end
