(* ===== verification/Routing_Data.thy ===== *)
theory Routing_Data
  imports Account
begin

text \<open>
  The data of account routing, \<^verbatim>\<open>routing.rs\<close> of \<^verbatim>\<open>decodex-core\<close>: capabilities, the closed set of
  routing blockers with its durable spelling, quota observations and facts, the immutable
  snapshot, the structural errors of the kernel and the decision it returns. Positions and
  durations are the code's \<^verbatim>\<open>usize\<close> and \<^verbatim>\<open>u16\<close>, percentages its \<^verbatim>\<open>u8\<close>, instants its \<^verbatim>\<open>i64\<close>.
\<close>

section \<open>Capabilities and blockers\<close>

datatype codex_capability =
    CapInitialize
  | CapAccountRead
  | CapThreadList
  | CapThreadRead
  | CapThreadArchive
  | CapPaginatedHistory
  | CapNativeCollaboration
  | CapThreadSearch

definition codex_capability_all :: "codex_capability list" where
  "codex_capability_all = [CapInitialize, CapAccountRead, CapThreadList, CapThreadRead, CapThreadArchive, CapPaginatedHistory, CapNativeCollaboration, CapThreadSearch]"

fun capability_as_sql :: "codex_capability \<Rightarrow> string" where
  "capability_as_sql CapInitialize = ''initialize''"
| "capability_as_sql CapAccountRead = ''account_read''"
| "capability_as_sql CapThreadList = ''thread_list''"
| "capability_as_sql CapThreadRead = ''thread_read''"
| "capability_as_sql CapThreadArchive = ''thread_archive''"
| "capability_as_sql CapPaginatedHistory = ''paginated_history''"
| "capability_as_sql CapNativeCollaboration = ''native_collaboration''"
| "capability_as_sql CapThreadSearch = ''thread_search''"

datatype routing_blocker =
    ExcludedByPolicy
  | AccountFromFuture
  | AccountStale
  | AccountUnavailable
  | AccountUnknown
  | AccountDepleted
  | AccountAuthFailed
  | AccountPluginUnready
  | AccountDisabled
  | EvidenceMissing
  | EvidenceFromFuture
  | EvidenceStale
  | EvidenceAccountMismatch
  | EvidenceProfileMismatch
  | EvidenceBuildMismatch
  | QuotaFiveHourMissing
  | QuotaFiveHourFromFuture
  | QuotaFiveHourStale
  | QuotaFiveHourUnknown
  | QuotaFiveHourResetElapsed
  | QuotaFiveHourDepleted
  | QuotaSevenDayMissing
  | QuotaSevenDayFromFuture
  | QuotaSevenDayStale
  | QuotaSevenDayUnknown
  | QuotaSevenDayResetElapsed
  | QuotaSevenDayDepleted
  | RequiredCapabilityUnsatisfied
  | AuthenticationRequired
  | PluginUnready
  | DependencyBlocked
  | ApprovalRequired
  | UserRequired
  | ExternalBlocked
  | UsageUnproven
  | ReconciliationUnproven
  | ReviewerUnavailable
  | ReviewerFailed
  | ReviewerAmbiguous
  | ProcessGenerationUnresolved
  | ProcessGenerationUnavailable
  | ProviderAttemptUnresolved
  | ProviderAttemptCompleted

fun blocker_as_sql :: "routing_blocker \<Rightarrow> string" where
  "blocker_as_sql ExcludedByPolicy = ''excluded_by_policy''"
| "blocker_as_sql AccountFromFuture = ''account_from_future''"
| "blocker_as_sql AccountStale = ''account_stale''"
| "blocker_as_sql AccountUnavailable = ''account_unavailable''"
| "blocker_as_sql AccountUnknown = ''account_unknown''"
| "blocker_as_sql AccountDepleted = ''account_depleted''"
| "blocker_as_sql AccountAuthFailed = ''account_auth_failed''"
| "blocker_as_sql AccountPluginUnready = ''account_plugin_unready''"
| "blocker_as_sql AccountDisabled = ''account_disabled''"
| "blocker_as_sql EvidenceMissing = ''evidence_missing''"
| "blocker_as_sql EvidenceFromFuture = ''evidence_from_future''"
| "blocker_as_sql EvidenceStale = ''evidence_stale''"
| "blocker_as_sql EvidenceAccountMismatch = ''evidence_account_mismatch''"
| "blocker_as_sql EvidenceProfileMismatch = ''evidence_profile_mismatch''"
| "blocker_as_sql EvidenceBuildMismatch = ''evidence_build_mismatch''"
| "blocker_as_sql QuotaFiveHourMissing = ''quota_five_hour_missing''"
| "blocker_as_sql QuotaFiveHourFromFuture = ''quota_five_hour_from_future''"
| "blocker_as_sql QuotaFiveHourStale = ''quota_five_hour_stale''"
| "blocker_as_sql QuotaFiveHourUnknown = ''quota_five_hour_unknown''"
| "blocker_as_sql QuotaFiveHourResetElapsed = ''quota_five_hour_reset_elapsed''"
| "blocker_as_sql QuotaFiveHourDepleted = ''quota_five_hour_depleted''"
| "blocker_as_sql QuotaSevenDayMissing = ''quota_seven_day_missing''"
| "blocker_as_sql QuotaSevenDayFromFuture = ''quota_seven_day_from_future''"
| "blocker_as_sql QuotaSevenDayStale = ''quota_seven_day_stale''"
| "blocker_as_sql QuotaSevenDayUnknown = ''quota_seven_day_unknown''"
| "blocker_as_sql QuotaSevenDayResetElapsed = ''quota_seven_day_reset_elapsed''"
| "blocker_as_sql QuotaSevenDayDepleted = ''quota_seven_day_depleted''"
| "blocker_as_sql RequiredCapabilityUnsatisfied = ''required_capability_unsatisfied''"
| "blocker_as_sql AuthenticationRequired = ''authentication_required''"
| "blocker_as_sql PluginUnready = ''plugin_unready''"
| "blocker_as_sql DependencyBlocked = ''dependency_blocked''"
| "blocker_as_sql ApprovalRequired = ''approval_required''"
| "blocker_as_sql UserRequired = ''user_required''"
| "blocker_as_sql ExternalBlocked = ''external_blocked''"
| "blocker_as_sql UsageUnproven = ''usage_unproven''"
| "blocker_as_sql ReconciliationUnproven = ''reconciliation_unproven''"
| "blocker_as_sql ReviewerUnavailable = ''reviewer_unavailable''"
| "blocker_as_sql ReviewerFailed = ''reviewer_failed''"
| "blocker_as_sql ReviewerAmbiguous = ''reviewer_ambiguous''"
| "blocker_as_sql ProcessGenerationUnresolved = ''process_generation_unresolved''"
| "blocker_as_sql ProcessGenerationUnavailable = ''process_generation_unavailable''"
| "blocker_as_sql ProviderAttemptUnresolved = ''provider_attempt_unresolved''"
| "blocker_as_sql ProviderAttemptCompleted = ''provider_attempt_completed''"

definition blocker_from_sql :: "string \<Rightarrow> routing_blocker option" where
  "blocker_from_sql value =
    (if value = ''excluded_by_policy'' then Some ExcludedByPolicy
     else if value = ''account_from_future'' then Some AccountFromFuture
     else if value = ''account_stale'' then Some AccountStale
     else if value = ''account_unavailable'' then Some AccountUnavailable
     else if value = ''account_unknown'' then Some AccountUnknown
     else if value = ''account_depleted'' then Some AccountDepleted
     else if value = ''account_auth_failed'' then Some AccountAuthFailed
     else if value = ''account_plugin_unready'' then Some AccountPluginUnready
     else if value = ''account_disabled'' then Some AccountDisabled
     else if value = ''evidence_missing'' then Some EvidenceMissing
     else if value = ''evidence_from_future'' then Some EvidenceFromFuture
     else if value = ''evidence_stale'' then Some EvidenceStale
     else if value = ''evidence_account_mismatch'' then Some EvidenceAccountMismatch
     else if value = ''evidence_profile_mismatch'' then Some EvidenceProfileMismatch
     else if value = ''evidence_build_mismatch'' then Some EvidenceBuildMismatch
     else if value = ''quota_five_hour_missing'' then Some QuotaFiveHourMissing
     else if value = ''quota_five_hour_from_future'' then Some QuotaFiveHourFromFuture
     else if value = ''quota_five_hour_stale'' then Some QuotaFiveHourStale
     else if value = ''quota_five_hour_unknown'' then Some QuotaFiveHourUnknown
     else if value = ''quota_five_hour_reset_elapsed'' then Some QuotaFiveHourResetElapsed
     else if value = ''quota_five_hour_depleted'' then Some QuotaFiveHourDepleted
     else if value = ''quota_seven_day_missing'' then Some QuotaSevenDayMissing
     else if value = ''quota_seven_day_from_future'' then Some QuotaSevenDayFromFuture
     else if value = ''quota_seven_day_stale'' then Some QuotaSevenDayStale
     else if value = ''quota_seven_day_unknown'' then Some QuotaSevenDayUnknown
     else if value = ''quota_seven_day_reset_elapsed'' then Some QuotaSevenDayResetElapsed
     else if value = ''quota_seven_day_depleted'' then Some QuotaSevenDayDepleted
     else if value = ''required_capability_unsatisfied'' then Some RequiredCapabilityUnsatisfied
     else if value = ''authentication_required'' then Some AuthenticationRequired
     else if value = ''plugin_unready'' then Some PluginUnready
     else if value = ''dependency_blocked'' then Some DependencyBlocked
     else if value = ''approval_required'' then Some ApprovalRequired
     else if value = ''user_required'' then Some UserRequired
     else if value = ''external_blocked'' then Some ExternalBlocked
     else if value = ''usage_unproven'' then Some UsageUnproven
     else if value = ''reconciliation_unproven'' then Some ReconciliationUnproven
     else if value = ''reviewer_unavailable'' then Some ReviewerUnavailable
     else if value = ''reviewer_failed'' then Some ReviewerFailed
     else if value = ''reviewer_ambiguous'' then Some ReviewerAmbiguous
     else if value = ''process_generation_unresolved'' then Some ProcessGenerationUnresolved
     else if value = ''process_generation_unavailable'' then Some ProcessGenerationUnavailable
     else if value = ''provider_attempt_unresolved'' then Some ProviderAttemptUnresolved
     else if value = ''provider_attempt_completed'' then Some ProviderAttemptCompleted
     else None)"

interpretation routing_blocker: label_codec blocker_as_sql blocker_from_sql
proof
  show "blocker_from_sql (blocker_as_sql b) = Some b" for b
    by (cases b) (simp_all add: blocker_from_sql_def)
  show "blocker_from_sql s = Some b \<Longrightarrow> s = blocker_as_sql b" for s b
    unfolding blocker_from_sql_def by (elim if_Some_elim; simp)
qed

section \<open>Quota facts and the snapshot\<close>

definition account_registry_quota_freshness_micros :: i64 where
  "account_registry_quota_freshness_micros = 300000000"

definition max_account_registry_timestamp_micros :: i64 where
  "max_account_registry_timestamp_micros = 253402300799999999"

datatype quota_observation =
    NotApplicable i64
      \<comment> \<open>observed_at_micros\<close>
  | Missing
  | Current byte i64 i64
      \<comment> \<open>used_percent, observed_at_micros, resets_at_micros\<close>
  | ObservationError account_quota_observation_error i64
      \<comment> \<open>error, observed_at_micros\<close>

record quota_fact =
  qf_account_id :: account_id
  qf_window :: quota_window_class
  qf_duration_minutes :: "16 word"
  qf_observation :: quota_observation

record routing_member =
  rm_position :: usize
  rm_account_id :: account_id
  rm_account_revision :: i64
  rm_blockers :: "routing_blocker list"

record routing_snapshot =
  rs_snapshot_id :: string
  rs_routing_revision :: i64
  rs_mode :: account_selection_mode
  rs_task_role_profile_revision :: i64
  rs_resolved_at_micros :: i64
  rs_members :: "routing_member list"
  rs_quota_facts :: "quota_fact list"

section \<open>Decisions\<close>

record routing_decision_cause =
  dc_account_id :: account_id
  dc_blocker :: routing_blocker

record routing_exclusion =
  ex_account_id :: account_id
  ex_member_position :: usize
  ex_window :: quota_window_class
  ex_duration_minutes :: "16 word"
  ex_used_percent :: byte
  ex_observed_at_micros :: i64
  ex_resets_at_micros :: i64

datatype decision_kind = Selected | Waiting | NoRoute

record routing_decision =
  rd_snapshot_id :: string
  rd_kind :: decision_kind
  rd_selected_account_id :: "account_id option"
  rd_exclusions :: "routing_exclusion list"
  rd_causes :: "routing_decision_cause list"

datatype member_capacity =
    KnownAvailable
  | Unknown "routing_decision_cause list"
  | Blocked "routing_decision_cause list" "routing_exclusion list"

record routing_rejection =
  rr_operation :: string
  rr_code :: string

datatype 't routing_command_outcome = Success 't | Rejected routing_rejection

section \<open>Structural errors of the kernel\<close>

datatype kernel_error =
    InvalidDecidedAtMicros i64
  | InvalidRoutingRevision i64
  | InvalidTaskRoleProfileRevision i64
  | InvalidResolvedAtMicros i64
  | EmptyMembers
  | DuplicateMember account_id usize usize
      \<comment> \<open>account, first position, duplicate position\<close>
  | NonCanonicalMember account_id usize usize
      \<comment> \<open>account, member position, expected position\<close>
  | InvalidMemberAccountRevision account_id i64
  | ForbiddenMemberBlocker account_id usize usize routing_blocker
      \<comment> \<open>account, member position, blocker position, blocker\<close>
  | DuplicateMemberBlocker account_id usize routing_blocker usize usize
      \<comment> \<open>account, member position, blocker, first position, duplicate position\<close>
  | NonCanonicalMemberBlocker account_id usize usize routing_blocker routing_blocker
      \<comment> \<open>account, member position, blocker position, previous blocker, blocker\<close>
  | DuplicateQuotaFact account_id quota_window_class
  | MissingQuotaFact account_id quota_window_class
  | ExtraQuotaFact account_id quota_window_class
  | NonCanonicalQuotaFact usize account_id quota_window_class account_id quota_window_class
      \<comment> \<open>fact position, account, window, expected account, expected window\<close>
  | QuotaFactWindowDurationMismatch account_id quota_window_class "16 word" "16 word"
      \<comment> \<open>account, window, expected duration, duration\<close>
  | InvalidQuotaFactUsedPercent account_id quota_window_class byte
  | InvalidQuotaFactObservedAtMicros account_id quota_window_class i64
  | InvalidQuotaFactResetsAtMicros account_id quota_window_class i64 i64
      \<comment> \<open>account, window, observed at, resets at\<close>
  | FixedTargetAbsent account_id

section \<open>Blockers by window\<close>

fun account_registry_window_duration :: "quota_window_class \<Rightarrow> 16 word" where
  "account_registry_window_duration FiveHour = 300"
| "account_registry_window_duration SevenDay = 10080"

fun account_registry_missing_blocker :: "quota_window_class \<Rightarrow> routing_blocker" where
  "account_registry_missing_blocker FiveHour = QuotaFiveHourMissing"
| "account_registry_missing_blocker SevenDay = QuotaSevenDayMissing"

fun account_registry_unknown_blocker :: "quota_window_class \<Rightarrow> routing_blocker" where
  "account_registry_unknown_blocker FiveHour = QuotaFiveHourUnknown"
| "account_registry_unknown_blocker SevenDay = QuotaSevenDayUnknown"

fun account_registry_from_future_blocker :: "quota_window_class \<Rightarrow> routing_blocker" where
  "account_registry_from_future_blocker FiveHour = QuotaFiveHourFromFuture"
| "account_registry_from_future_blocker SevenDay = QuotaSevenDayFromFuture"

fun account_registry_stale_blocker :: "quota_window_class \<Rightarrow> routing_blocker" where
  "account_registry_stale_blocker FiveHour = QuotaFiveHourStale"
| "account_registry_stale_blocker SevenDay = QuotaSevenDayStale"

fun account_registry_reset_elapsed_blocker :: "quota_window_class \<Rightarrow> routing_blocker" where
  "account_registry_reset_elapsed_blocker FiveHour = QuotaFiveHourResetElapsed"
| "account_registry_reset_elapsed_blocker SevenDay = QuotaSevenDayResetElapsed"

definition account_registry_member_blocker_rank :: "routing_blocker \<Rightarrow> nat option" where
  "account_registry_member_blocker_rank blocker =
     (case blocker of
        AccountFromFuture \<Rightarrow> Some 0
      | AccountStale \<Rightarrow> Some 1
      | AccountUnavailable \<Rightarrow> Some 2
      | AccountUnknown \<Rightarrow> Some 3
      | AccountDepleted \<Rightarrow> Some 4
      | AccountAuthFailed \<Rightarrow> Some 5
      | AccountPluginUnready \<Rightarrow> Some 6
      | AccountDisabled \<Rightarrow> Some 7
      | _ \<Rightarrow> None)"

definition account_registry_timestamp_is_valid :: "i64 \<Rightarrow> bool" where
  "account_registry_timestamp_is_valid timestamp_micros \<longleftrightarrow>
     timestamp_micros \<ge> 0 \<and> timestamp_micros \<le> max_account_registry_timestamp_micros"

end
