(* ===== verification/Routing.thy ===== *)
theory Routing
  imports Routing_Data
begin

text \<open>
  The routing kernel: validation of a snapshot, the evaluated members, the classification
  of one member against its two quota facts, and the two passes that select an account.
  Each function is the code's function of the same name. The error side is a fault, so an
  index that would panic and the \<^verbatim>\<open>unreachable!\<close> arm of the second pass are visible.
\<close>

section \<open>Validation of one member and one fact\<close>

text \<open>\<open>position_of\<close> is \<^verbatim>\<open>iter().position\<close>.\<close>

fun position_of :: "('a \<Rightarrow> bool) \<Rightarrow> 'a list \<Rightarrow> nat option" where
  "position_of p [] = None"
| "position_of p (x # xs) = (if p x then Some 0 else map_option Suc (position_of p xs))"

text \<open>
  The loop over a member's blockers. \<open>seen\<close> is \<^verbatim>\<open>blockers[..index]\<close>; the code's
  \<^verbatim>\<open>previous\<close> is the last blocker of that prefix with its rank, since a prefix blocker
  without a rank has already returned an error.
\<close>

definition previous_blocker :: "routing_blocker list \<Rightarrow> (routing_blocker \<times> nat) option" where
  "previous_blocker seen =
     (if seen = [] then None
      else map_option (\<lambda>rank. (last seen, rank)) (account_registry_member_blocker_rank (last seen)))"

definition validate_member_blocker ::
    "routing_member \<Rightarrow> routing_blocker list \<Rightarrow> routing_blocker \<Rightarrow> kernel_error + unit" where
  "validate_member_blocker member seen blocker =
     (case account_registry_member_blocker_rank blocker of
        None \<Rightarrow> Inl (ForbiddenMemberBlocker (rm_account_id member) (rm_position member)
                  (length seen + 1) blocker)
      | Some rank \<Rightarrow>
          (case position_of (\<lambda>prior. prior = blocker) seen of
             Some first_index \<Rightarrow>
               Inl (DuplicateMemberBlocker (rm_account_id member) (rm_position member) blocker
                 (first_index + 1) (length seen + 1))
           | None \<Rightarrow>
               (case previous_blocker seen of
                  Some (previous, previous_rank) \<Rightarrow>
                    if previous_rank \<ge> rank
                    then Inl (NonCanonicalMemberBlocker (rm_account_id member) (rm_position member)
                           (length seen + 1) previous blocker)
                    else Inr ()
                | None \<Rightarrow> Inr ())))"

definition validate_account_registry_member_blockers ::
    "routing_member \<Rightarrow> kernel_error + unit" where
  "validate_account_registry_member_blockers member =
     each (validate_member_blocker member) [] (rm_blockers member)"

definition validate_account_registry_quota_observation :: "quota_fact \<Rightarrow> kernel_error + unit" where
  "validate_account_registry_quota_observation fct =
     (case qf_observation fct of
        Missing \<Rightarrow> Inr ()
      | NotApplicable observed_at \<Rightarrow>
          if qf_window fct \<noteq> FiveHour
          then Inl (QuotaFactWindowDurationMismatch (qf_account_id fct) (qf_window fct) 300
                 (qf_duration_minutes fct))
          else if observed_at \<le> 0 \<or> \<not> account_registry_timestamp_is_valid observed_at
          then Inl (InvalidQuotaFactObservedAtMicros (qf_account_id fct) (qf_window fct) observed_at)
          else Inr ()
      | Current used_percent observed_at resets_at \<Rightarrow>
          if used_percent > 100
          then Inl (InvalidQuotaFactUsedPercent (qf_account_id fct) (qf_window fct) used_percent)
          else if \<not> account_registry_timestamp_is_valid observed_at
          then Inl (InvalidQuotaFactObservedAtMicros (qf_account_id fct) (qf_window fct) observed_at)
          else if \<not> account_registry_timestamp_is_valid resets_at \<or> resets_at \<le> observed_at
          then Inl (InvalidQuotaFactResetsAtMicros (qf_account_id fct) (qf_window fct)
                 observed_at resets_at)
          else Inr ()
      | ObservationError _ observed_at \<Rightarrow>
          if \<not> account_registry_timestamp_is_valid observed_at
          then Inl (InvalidQuotaFactObservedAtMicros (qf_account_id fct) (qf_window fct) observed_at)
          else Inr ())"

section \<open>Validation of the snapshot\<close>

definition validate_snapshot_member ::
    "routing_member list \<Rightarrow> routing_member \<Rightarrow> kernel_error + unit" where
  "validate_snapshot_member prior member =
     (let expected_member_position = length prior + 1 in
      if rm_position member \<noteq> expected_member_position
      then Inl (NonCanonicalMember (rm_account_id member) (rm_position member) expected_member_position)
      else if rm_account_revision member \<le> 0
      then Inl (InvalidMemberAccountRevision (rm_account_id member) (rm_account_revision member))
      else case find (\<lambda>p. rm_account_id p = rm_account_id member) prior of
        Some first \<Rightarrow> Inl (DuplicateMember (rm_account_id member) (rm_position first) (rm_position member))
      | None \<Rightarrow> validate_account_registry_member_blockers member)"

definition validate_account_registry_snapshot_members ::
    "routing_snapshot \<Rightarrow> i64 \<Rightarrow> kernel_error + unit" where
  "validate_account_registry_snapshot_members snapshot decided_at =
     (if \<not> account_registry_timestamp_is_valid decided_at
      then Inl (InvalidDecidedAtMicros decided_at)
      else if rs_routing_revision snapshot \<le> 0
      then Inl (InvalidRoutingRevision (rs_routing_revision snapshot))
      else if rs_task_role_profile_revision snapshot \<le> 0
      then Inl (InvalidTaskRoleProfileRevision (rs_task_role_profile_revision snapshot))
      else if \<not> account_registry_timestamp_is_valid (rs_resolved_at_micros snapshot)
          \<or> rs_resolved_at_micros snapshot > decided_at
      then Inl (InvalidResolvedAtMicros (rs_resolved_at_micros snapshot))
      else if rs_members snapshot = []
      then Inl EmptyMembers
      else each validate_snapshot_member [] (rs_members snapshot))"

definition validate_snapshot_fact ::
    "routing_snapshot \<Rightarrow> quota_fact list \<Rightarrow> quota_fact \<Rightarrow> kernel_error + unit" where
  "validate_snapshot_fact snapshot prior fct =
     (if \<not> (\<exists>member \<in> set (rs_members snapshot). rm_account_id member = qf_account_id fct)
      then Inl (ExtraQuotaFact (qf_account_id fct) (qf_window fct))
      else let expected_duration_minutes = account_registry_window_duration (qf_window fct) in
      if qf_duration_minutes fct \<noteq> expected_duration_minutes
      then Inl (QuotaFactWindowDurationMismatch (qf_account_id fct) (qf_window fct)
             expected_duration_minutes (qf_duration_minutes fct))
      else if \<exists>p \<in> set prior. qf_account_id p = qf_account_id fct \<and> qf_window p = qf_window fct
      then Inl (DuplicateQuotaFact (qf_account_id fct) (qf_window fct))
      else validate_account_registry_quota_observation fct)"

definition find_fact :: "quota_fact list \<Rightarrow> account_id \<Rightarrow> quota_window_class \<Rightarrow> kernel_error + quota_fact" where
  "find_fact facts account window =
     ok_or (MissingQuotaFact account window)
       (find (\<lambda>fct. qf_account_id fct = account \<and> qf_window fct = window) facts)"

fun collect_facts_by_member ::
    "quota_fact list \<Rightarrow> routing_member list \<Rightarrow> kernel_error + (quota_fact \<times> quota_fact) list" where
  "collect_facts_by_member facts [] = Inr []"
| "collect_facts_by_member facts (member # members) =
     and_then (find_fact facts (rm_account_id member) FiveHour) (\<lambda>five_hour.
     and_then (find_fact facts (rm_account_id member) SevenDay) (\<lambda>seven_day.
     and_then (collect_facts_by_member facts members) (\<lambda>rest. Inr ((five_hour, seven_day) # rest))))"

text \<open>
  The last loop of \<^verbatim>\<open>validated_account_registry_quota_facts\<close>: \<open>fact_index\<close> counts up over
  every member and its two windows, and \<^verbatim>\<open>quota_facts[fact_index]\<close> panics out of range.
\<close>

definition expected_keys :: "routing_member list \<Rightarrow> (account_id \<times> quota_window_class) list" where
  "expected_keys members =
     concat (map (\<lambda>m. [(rm_account_id m, FiveHour), (rm_account_id m, SevenDay)]) members)"

fun check_canonical_facts ::
    "quota_fact list \<Rightarrow> usize \<Rightarrow> (account_id \<times> quota_window_class) list \<Rightarrow> kernel_error fault + unit" where
  "check_canonical_facts facts fact_index [] = Inr ()"
| "check_canonical_facts facts fact_index ((account, expected_window) # rest) =
     and_then (index facts fact_index) (\<lambda>fct.
       if qf_account_id fct \<noteq> account \<or> qf_window fct \<noteq> expected_window
       then Inl (Fail (NonCanonicalQuotaFact (fact_index + 1) (qf_account_id fct) (qf_window fct)
              account expected_window))
       else check_canonical_facts facts (fact_index + 1) rest)"

definition validated_account_registry_quota_facts ::
    "routing_snapshot \<Rightarrow> i64 \<Rightarrow> kernel_error fault + (quota_fact \<times> quota_fact) list" where
  "validated_account_registry_quota_facts snapshot decided_at =
     and_then (map_err Fail (validate_account_registry_snapshot_members snapshot decided_at)) (\<lambda>_.
     and_then (map_err Fail (each (validate_snapshot_fact snapshot) [] (rs_quota_facts snapshot))) (\<lambda>_.
     and_then (map_err Fail (collect_facts_by_member (rs_quota_facts snapshot) (rs_members snapshot)))
       (\<lambda>facts_by_member.
     and_then (check_canonical_facts (rs_quota_facts snapshot) 0 (expected_keys (rs_members snapshot)))
       (\<lambda>_. Inr facts_by_member))))"

section \<open>Evaluation\<close>

definition account_registry_evaluated_member_indexes ::
    "routing_snapshot \<Rightarrow> kernel_error + usize list" where
  "account_registry_evaluated_member_indexes snapshot =
     (case rs_mode snapshot of
        Balanced \<Rightarrow> Inr [0..<length (rs_members snapshot)]
      | Fixed account_id \<Rightarrow>
          ok_or (FixedTargetAbsent account_id)
            (map_option (\<lambda>index. [index])
              (position_of (\<lambda>member. rm_account_id member = account_id) (rs_members snapshot))))"

text \<open>
  The accumulators of \<^verbatim>\<open>classify_account_registry_member\<close>, one loop iteration per fact.
\<close>

record classification =
  cl_hard :: "routing_decision_cause list"
  cl_unknown :: "routing_decision_cause list"
  cl_exclusions :: "routing_exclusion list"
  cl_known_windows :: nat

definition cause_of :: "routing_member \<Rightarrow> routing_blocker \<Rightarrow> routing_decision_cause" where
  "cause_of member blocker = \<lparr>dc_account_id = rm_account_id member, dc_blocker = blocker\<rparr>"

definition classify_fact ::
    "routing_member \<Rightarrow> i64 \<Rightarrow> quota_fact \<Rightarrow> classification \<Rightarrow> classification" where
  "classify_fact member decided_at fct acc =
     (let hard = (\<lambda>b. acc\<lparr>cl_hard := cl_hard acc @ [cause_of member b]\<rparr>);
          soft = (\<lambda>b. acc\<lparr>cl_unknown := cl_unknown acc @ [cause_of member b]\<rparr>);
          known = acc\<lparr>cl_known_windows := cl_known_windows acc + 1\<rparr>
      in case qf_observation fct of
        NotApplicable observed_at \<Rightarrow>
          if observed_at > decided_at
          then hard (account_registry_from_future_blocker (qf_window fct))
          else if decided_at - observed_at > account_registry_quota_freshness_micros
          then soft (account_registry_stale_blocker (qf_window fct))
          else known
      | Missing \<Rightarrow> soft (account_registry_missing_blocker (qf_window fct))
      | ObservationError _ _ \<Rightarrow> soft (account_registry_unknown_blocker (qf_window fct))
      | Current used_percent observed_at resets_at \<Rightarrow>
          if observed_at > decided_at
          then hard (account_registry_from_future_blocker (qf_window fct))
          else if decided_at - observed_at > account_registry_quota_freshness_micros
          then soft (account_registry_stale_blocker (qf_window fct))
          else if resets_at \<le> decided_at
          then soft (account_registry_reset_elapsed_blocker (qf_window fct))
          else if used_percent \<ge> 100
          then acc\<lparr>cl_exclusions := cl_exclusions acc @
                 [\<lparr>ex_account_id = rm_account_id member, ex_member_position = rm_position member,
                   ex_window = qf_window fct, ex_duration_minutes = qf_duration_minutes fct,
                   ex_used_percent = used_percent, ex_observed_at_micros = observed_at,
                   ex_resets_at_micros = resets_at\<rparr>]\<rparr>
          else known)"

definition classify_account_registry_member ::
    "routing_member \<Rightarrow> quota_fact \<times> quota_fact \<Rightarrow> i64 \<Rightarrow> member_capacity" where
  "classify_account_registry_member member facts decided_at =
     (let start = \<lparr>cl_hard = map (cause_of member) (rm_blockers member), cl_unknown = [],
                   cl_exclusions = [], cl_known_windows = 0\<rparr>;
          acc = classify_fact member decided_at (snd facts)
                  (classify_fact member decided_at (fst facts) start)
      in if cl_hard acc \<noteq> [] then Blocked (cl_hard acc @ cl_unknown acc) (cl_exclusions acc)
         else if cl_exclusions acc \<noteq> [] then Blocked [] (cl_exclusions acc)
         else if cl_known_windows acc = 2 then KnownAvailable
         else Unknown (cl_unknown acc))"

section \<open>The decision\<close>

definition account_registry_selected_decision ::
    "routing_snapshot \<Rightarrow> routing_member \<Rightarrow> routing_exclusion list \<Rightarrow> routing_decision_cause list \<Rightarrow>
     routing_decision" where
  "account_registry_selected_decision snapshot member exclusions causes =
     \<lparr>rd_snapshot_id = rs_snapshot_id snapshot, rd_kind = Selected,
      rd_selected_account_id = Some (rm_account_id member),
      rd_exclusions = exclusions, rd_causes = causes\<rparr>"

text \<open>The first pass; \<open>Some\<close> is its early return.\<close>

fun first_pass ::
    "routing_snapshot \<Rightarrow> (routing_member \<times> member_capacity) list \<Rightarrow>
     routing_exclusion list \<Rightarrow> routing_decision_cause list \<Rightarrow> routing_decision option" where
  "first_pass snapshot [] exclusions causes = None"
| "first_pass snapshot ((member, evaluation) # rest) exclusions causes =
     (case evaluation of
        KnownAvailable \<Rightarrow> Some (account_registry_selected_decision snapshot member exclusions causes)
      | Unknown soft_causes \<Rightarrow> first_pass snapshot rest exclusions (causes @ soft_causes)
      | Blocked member_causes member_exclusions \<Rightarrow>
          first_pass snapshot rest (exclusions @ member_exclusions) (causes @ member_causes))"

fun second_pass ::
    "routing_snapshot \<Rightarrow> (routing_member \<times> member_capacity) list \<Rightarrow>
     routing_exclusion list \<Rightarrow> routing_decision_cause list \<Rightarrow> kernel_error fault + routing_decision" where
  "second_pass snapshot [] exclusions causes =
     Inr \<lparr>rd_snapshot_id = rs_snapshot_id snapshot,
          rd_kind = (if causes = [] then Waiting else NoRoute),
          rd_selected_account_id = None,
          rd_exclusions = exclusions, rd_causes = causes\<rparr>"
| "second_pass snapshot ((member, evaluation) # rest) exclusions causes =
     (case evaluation of
        Unknown _ \<Rightarrow> Inr (account_registry_selected_decision snapshot member exclusions causes)
      | KnownAvailable \<Rightarrow> Inl Panic
      | Blocked member_causes member_exclusions \<Rightarrow>
          second_pass snapshot rest (exclusions @ member_exclusions) (causes @ member_causes))"

definition decide_account_registry_routing ::
    "routing_snapshot \<Rightarrow> i64 \<Rightarrow> kernel_error fault + routing_decision" where
  "decide_account_registry_routing snapshot decided_at =
     and_then (validated_account_registry_quota_facts snapshot decided_at) (\<lambda>facts_by_member.
     and_then (map_err Fail (account_registry_evaluated_member_indexes snapshot)) (\<lambda>indexes.
     and_then (index_all (rs_members snapshot) indexes) (\<lambda>members.
     and_then (index_all facts_by_member indexes) (\<lambda>facts.
       let evaluations = zip members
             (map2 (\<lambda>m f. classify_account_registry_member m f decided_at) members facts)
       in case first_pass snapshot evaluations [] [] of
            Some decision \<Rightarrow> Inr decision
          | None \<Rightarrow> second_pass snapshot evaluations [] []))))"

section \<open>The kernel with overflow checks\<close>

text \<open>
  The instants are \<^verbatim>\<open>i64\<close>. The only arithmetic on them is the subtraction of the freshness test, which
  panics in a build with overflow checks and wraps without them. Here is the kernel with that subtraction
  checked; everything else is as above.
\<close>

definition checked_sub_i64 :: "i64 \<Rightarrow> i64 \<Rightarrow> kernel_error fault + i64" where
  "checked_sub_i64 a b = (if - (2 ^ 63) \<le> a - b \<and> a - b < 2 ^ 63 then Inr (a - b) else Inl Panic)"

definition classify_fact_checked ::
    "routing_member \<Rightarrow> i64 \<Rightarrow> quota_fact \<Rightarrow> classification \<Rightarrow> kernel_error fault + classification" where
  "classify_fact_checked member decided_at fct acc =
     (let hard = (\<lambda>b. acc\<lparr>cl_hard := cl_hard acc @ [cause_of member b]\<rparr>);
          soft = (\<lambda>b. acc\<lparr>cl_unknown := cl_unknown acc @ [cause_of member b]\<rparr>);
          known = acc\<lparr>cl_known_windows := cl_known_windows acc + 1\<rparr>
      in case qf_observation fct of
        NotApplicable observed_at \<Rightarrow>
          if observed_at > decided_at
          then Inr (hard (account_registry_from_future_blocker (qf_window fct)))
          else and_then (checked_sub_i64 decided_at observed_at) (\<lambda>age. Inr (
            if age > account_registry_quota_freshness_micros
            then soft (account_registry_stale_blocker (qf_window fct))
            else known))
      | Missing \<Rightarrow> Inr (soft (account_registry_missing_blocker (qf_window fct)))
      | ObservationError _ _ \<Rightarrow> Inr (soft (account_registry_unknown_blocker (qf_window fct)))
      | Current used_percent observed_at resets_at \<Rightarrow>
          if observed_at > decided_at
          then Inr (hard (account_registry_from_future_blocker (qf_window fct)))
          else and_then (checked_sub_i64 decided_at observed_at) (\<lambda>age. Inr (
            if age > account_registry_quota_freshness_micros
            then soft (account_registry_stale_blocker (qf_window fct))
            else if resets_at \<le> decided_at
            then soft (account_registry_reset_elapsed_blocker (qf_window fct))
            else if used_percent \<ge> 100
            then acc\<lparr>cl_exclusions := cl_exclusions acc @
                   [\<lparr>ex_account_id = rm_account_id member, ex_member_position = rm_position member,
                     ex_window = qf_window fct, ex_duration_minutes = qf_duration_minutes fct,
                     ex_used_percent = used_percent, ex_observed_at_micros = observed_at,
                     ex_resets_at_micros = resets_at\<rparr>]\<rparr>
            else known)))"

definition classify_member_checked ::
    "routing_member \<Rightarrow> quota_fact \<times> quota_fact \<Rightarrow> i64 \<Rightarrow> kernel_error fault + member_capacity" where
  "classify_member_checked member facts decided_at =
     (let start = \<lparr>cl_hard = map (cause_of member) (rm_blockers member), cl_unknown = [],
                   cl_exclusions = [], cl_known_windows = 0\<rparr> in
      and_then (classify_fact_checked member decided_at (fst facts) start) (\<lambda>acc.
      and_then (classify_fact_checked member decided_at (snd facts) acc) (\<lambda>acc.
        Inr (if cl_hard acc \<noteq> [] then Blocked (cl_hard acc @ cl_unknown acc) (cl_exclusions acc)
             else if cl_exclusions acc \<noteq> [] then Blocked [] (cl_exclusions acc)
             else if cl_known_windows acc = 2 then KnownAvailable
             else Unknown (cl_unknown acc)))))"

fun classify_members_checked ::
    "i64 \<Rightarrow> (routing_member \<times> (quota_fact \<times> quota_fact)) list \<Rightarrow> kernel_error fault + member_capacity list" where
  "classify_members_checked decided_at [] = Inr []"
| "classify_members_checked decided_at ((member, facts) # rest) =
     and_then (classify_member_checked member facts decided_at) (\<lambda>capacity.
     and_then (classify_members_checked decided_at rest) (\<lambda>capacities. Inr (capacity # capacities)))"

definition decide_routing_checked ::
    "routing_snapshot \<Rightarrow> i64 \<Rightarrow> kernel_error fault + routing_decision" where
  "decide_routing_checked snapshot decided_at =
     and_then (validated_account_registry_quota_facts snapshot decided_at) (\<lambda>facts_by_member.
     and_then (map_err Fail (account_registry_evaluated_member_indexes snapshot)) (\<lambda>indexes.
     and_then (index_all (rs_members snapshot) indexes) (\<lambda>members.
     and_then (index_all facts_by_member indexes) (\<lambda>facts.
     and_then (classify_members_checked decided_at (zip members facts)) (\<lambda>capacities.
       let evaluations = zip members capacities
       in case first_pass snapshot evaluations [] [] of
            Some decision \<Rightarrow> Inr decision
          | None \<Rightarrow> second_pass snapshot evaluations [] [])))))"

end
