(* ===== verification/Routing_Correct.thy ===== *)
theory Routing_Correct
  imports Routing
begin

text \<open>
  What the routing kernel guarantees: the snapshots it accepts are the canonical ones
  (\<open>wf_snapshot\<close>), it never reaches a panic, the decision follows the documented preference
  order, and an account it selects carries no blocker and no current depletion.
\<close>

section \<open>Canonical snapshots\<close>

definition rank_of :: "routing_blocker \<Rightarrow> nat" where
  "rank_of b = the (account_registry_member_blocker_rank b)"

definition wf_blockers :: "routing_blocker list \<Rightarrow> bool" where
  "wf_blockers bs \<longleftrightarrow> (\<forall>b \<in> set bs. account_registry_member_blocker_rank b \<noteq> None) \<and>
     sorted_wrt (<) (map rank_of bs)"

definition wf_members :: "routing_member list \<Rightarrow> bool" where
  "wf_members members \<longleftrightarrow> members \<noteq> [] \<and>
     map rm_position members = [1..<Suc (length members)] \<and>
     distinct (map rm_account_id members) \<and>
     (\<forall>m \<in> set members. rm_account_revision m > 0 \<and> wf_blockers (rm_blockers m))"

definition wf_observation :: "quota_fact \<Rightarrow> bool" where
  "wf_observation fct =
     (case qf_observation fct of
        Missing \<Rightarrow> True
      | NotApplicable t \<Rightarrow> qf_window fct = FiveHour \<and> 0 < t \<and> t \<le> max_account_registry_timestamp_micros
      | Current used t reset \<Rightarrow> used \<le> 100 \<and> 0 \<le> t \<and> t < reset \<and>
          reset \<le> max_account_registry_timestamp_micros
      | ObservationError _ t \<Rightarrow> 0 \<le> t \<and> t \<le> max_account_registry_timestamp_micros)"

definition key_of :: "quota_fact \<Rightarrow> account_id \<times> quota_window_class" where
  "key_of fct = (qf_account_id fct, qf_window fct)"

definition wf_fact :: "quota_fact \<Rightarrow> bool" where
  "wf_fact fct \<longleftrightarrow> qf_duration_minutes fct = account_registry_window_duration (qf_window fct) \<and>
     wf_observation fct"

definition wf_facts :: "routing_member list \<Rightarrow> quota_fact list \<Rightarrow> bool" where
  "wf_facts members facts \<longleftrightarrow> map key_of facts = expected_keys members \<and> (\<forall>f \<in> set facts. wf_fact f)"

definition wf_snapshot :: "routing_snapshot \<Rightarrow> i64 \<Rightarrow> bool" where
  "wf_snapshot s decided_at \<longleftrightarrow>
     0 \<le> rs_resolved_at_micros s \<and> rs_resolved_at_micros s \<le> decided_at \<and>
     decided_at \<le> max_account_registry_timestamp_micros \<and>
     0 < rs_routing_revision s \<and> 0 < rs_task_role_profile_revision s \<and>
     wf_members (rs_members s) \<and> wf_facts (rs_members s) (rs_quota_facts s)"

section \<open>Blockers\<close>

lemma position_of_None: "position_of p xs = None \<longleftrightarrow> (\<forall>x \<in> set xs. \<not> p x)"
  by (induction xs) auto

lemma position_of_Some:
  "position_of p xs = Some i \<longleftrightarrow> i < length xs \<and> p (xs ! i) \<and> (\<forall>j < i. \<not> p (xs ! j))"
proof (induction xs arbitrary: i)
  case Nil
  then show ?case by simp
next
  case (Cons x xs)
  show ?case
    by (cases i) (auto simp: Cons.IH All_less_Suc2)
qed

lemma rank_of_inj:
  "account_registry_member_blocker_rank a = Some n \<Longrightarrow>
   account_registry_member_blocker_rank b = Some n \<Longrightarrow> a = b"
  unfolding account_registry_member_blocker_rank_def
  by (cases a; simp; cases b; simp)

lemma validate_member_blocker_Ok_iff:
  assumes "\<forall>b \<in> set seen. account_registry_member_blocker_rank b \<noteq> None"
  shows "validate_member_blocker m seen b = Inr () \<longleftrightarrow>
    account_registry_member_blocker_rank b \<noteq> None \<and> b \<notin> set seen \<and>
    (seen \<noteq> [] \<longrightarrow> rank_of (last seen) < rank_of b)"
proof (cases "seen = []")
  case True
  then show ?thesis
    by (auto simp: validate_member_blocker_def previous_blocker_def split: option.splits)
next
  case False
  then obtain r where "account_registry_member_blocker_rank (last seen) = Some r"
    using assms last_in_set by blast
  then show ?thesis
    using False
    by (auto simp: validate_member_blocker_def previous_blocker_def rank_of_def position_of_None
      split: option.splits)
      (simp_all add: position_of_Some, metis nth_mem)
qed

lemma below_last:
  "sorted_wrt (<) (map f xs) \<Longrightarrow> xs \<noteq> [] \<Longrightarrow>
   (\<forall>x \<in> set xs. f x < n) \<longleftrightarrow> f (last xs) < n" for f :: "'a \<Rightarrow> nat"
  by (cases xs rule: rev_cases) (auto simp: sorted_wrt_append)

lemma validate_blockers_Ok_gen:
  "each (validate_member_blocker m) seen bs = Inr () \<longleftrightarrow> wf_blockers (seen @ bs)"
  if "wf_blockers seen"
  using that
proof (induction bs arbitrary: seen)
  case Nil
  then show ?case by simp
next
  case (Cons b bs)
  have seen: "\<forall>b \<in> set seen. account_registry_member_blocker_rank b \<noteq> None"
    "sorted_wrt (<) (map rank_of seen)"
    using Cons.prems by (simp_all add: wf_blockers_def)
  have step: "validate_member_blocker m seen b = Inr () \<longleftrightarrow> wf_blockers (seen @ [b])"
  proof -
    have "(\<forall>x \<in> set seen. rank_of x < rank_of b) \<longleftrightarrow>
        b \<notin> set seen \<and> (seen \<noteq> [] \<longrightarrow> rank_of (last seen) < rank_of b)"
    proof (cases "seen = []")
      case False
      then show ?thesis using below_last [OF seen(2) False, of "rank_of b"] by blast
    qed simp
    then show ?thesis
      using seen by (auto simp: validate_member_blocker_Ok_iff wf_blockers_def sorted_wrt_append)
  qed
  show ?case
  proof (cases "validate_member_blocker m seen b = Inr ()")
    case True
    then show ?thesis using Cons.IH [of "seen @ [b]"] step by simp
  next
    case False
    moreover have "\<not> wf_blockers (seen @ b # bs)"
      using False step unfolding wf_blockers_def by (auto simp: sorted_wrt_append)
    ultimately show ?thesis by (cases "validate_member_blocker m seen b") auto
  qed
qed

lemma validate_blockers_Ok_iff:
  "validate_account_registry_member_blockers m = Inr () \<longleftrightarrow> wf_blockers (rm_blockers m)"
  unfolding validate_account_registry_member_blockers_def
  by (subst validate_blockers_Ok_gen) (simp_all add: wf_blockers_def)

section \<open>Members and facts\<close>

lemma distinct_nth_take: "distinct xs \<longleftrightarrow> (\<forall>i < length xs. xs ! i \<notin> set (take i xs))"
proof (induction xs rule: rev_induct)
  case (snoc x xs)
  have "(\<forall>i < length (xs @ [x]). (xs @ [x]) ! i \<notin> set (take i (xs @ [x]))) \<longleftrightarrow>
      (\<forall>i < length xs. xs ! i \<notin> set (take i xs)) \<and> x \<notin> set xs"
    by (auto simp: less_Suc_eq nth_append)
  then show ?case using snoc.IH by auto
qed simp

lemma find_Some_set: "find P xs = Some x \<Longrightarrow> x \<in> set xs \<and> P x"
  by (induction xs) (auto split: if_splits)

lemma validate_snapshot_member_Ok_iff:
  "validate_snapshot_member prior m = Inr () \<longleftrightarrow>
     rm_position m = Suc (length prior) \<and> rm_account_revision m > 0 \<and>
     rm_account_id m \<notin> rm_account_id ` set prior \<and> wf_blockers (rm_blockers m)"
  by (auto simp: validate_snapshot_member_def Let_def validate_blockers_Ok_iff find_None_iff
      split: option.splits dest!: find_Some_set) (metis image_eqI)

lemma validate_members_Ok_iff:
  "ms \<noteq> [] \<Longrightarrow> each validate_snapshot_member [] ms = Inr () \<longleftrightarrow> wf_members ms"
proof -
  assume ne: "ms \<noteq> []"
  have pos: "map rm_position ms = [1..<Suc (length ms)] \<longleftrightarrow>
      (\<forall>i < length ms. rm_position (ms ! i) = Suc i)"
  proof -
    have "map rm_position ms = [1..<Suc (length ms)] \<longleftrightarrow>
        (\<forall>i < length ms. map rm_position ms ! i = [1..<Suc (length ms)] ! i)"
      by (subst list_eq_iff_nth_eq) (simp del: upt_Suc)
    then show ?thesis by (simp del: upt_Suc)
  qed
  have dist: "distinct (map rm_account_id ms) \<longleftrightarrow>
      (\<forall>i < length ms. rm_account_id (ms ! i) \<notin> rm_account_id ` set (take i ms))"
    by (subst distinct_nth_take) (simp add: take_map)
  show ?thesis
    unfolding wf_members_def each_Ok_iff validate_snapshot_member_Ok_iff pos dist all_set_conv_all_nth
    using ne by auto
qed

lemma validate_quota_observation_Ok_iff:
  "validate_account_registry_quota_observation fct = Inr () \<longleftrightarrow> wf_observation fct"
  by (auto simp: validate_account_registry_quota_observation_def wf_observation_def
      account_registry_timestamp_is_valid_def max_account_registry_timestamp_micros_def not_less
      split: quota_observation.splits if_splits)

lemma validate_snapshot_fact_Ok_iff:
  "validate_snapshot_fact s prior fct = Inr () \<longleftrightarrow>
     qf_account_id fct \<in> rm_account_id ` set (rs_members s) \<and> wf_fact fct \<and>
     key_of fct \<notin> key_of ` set prior"
proof -
  have "(\<exists>m \<in> set (rs_members s). rm_account_id m = qf_account_id fct) \<longleftrightarrow>
      qf_account_id fct \<in> rm_account_id ` set (rs_members s)"
    by (metis image_iff)
  moreover have "(\<exists>p \<in> set prior. qf_account_id p = qf_account_id fct \<and> qf_window p = qf_window fct)
      \<longleftrightarrow> key_of fct \<in> key_of ` set prior"
    unfolding key_of_def image_iff by (metis prod.inject)
  ultimately show ?thesis
    by (simp add: validate_snapshot_fact_def Let_def wf_fact_def validate_quota_observation_Ok_iff)
qed

lemma validate_facts_Ok_iff:
  "each (validate_snapshot_fact s) [] fs = Inr () \<longleftrightarrow>
     qf_account_id ` set fs \<subseteq> rm_account_id ` set (rs_members s) \<and>
     distinct (map key_of fs) \<and> (\<forall>f \<in> set fs. wf_fact f)"
proof -
  have dist: "distinct (map key_of fs) \<longleftrightarrow>
      (\<forall>i < length fs. key_of (fs ! i) \<notin> key_of ` set (take i fs))"
    by (subst distinct_nth_take) (simp add: take_map)
  show ?thesis
    unfolding each_Ok_iff validate_snapshot_fact_Ok_iff dist image_subset_iff all_set_conv_all_nth by auto
qed

lemma expected_keys_Cons [simp]:
  "expected_keys (m # ms) = (rm_account_id m, FiveHour) # (rm_account_id m, SevenDay) # expected_keys ms"
  "expected_keys [] = []"
  by (simp_all add: expected_keys_def)

lemma length_expected_keys [simp]: "length (expected_keys ms) = 2 * length ms"
  by (induction ms) auto

lemma set_expected_keys: "set (expected_keys ms) = rm_account_id ` set ms \<times> UNIV"
  by (induction ms) (auto, (metis quota_window_class.exhaust)+)

lemma distinct_expected_keys: "distinct (map rm_account_id ms) \<Longrightarrow> distinct (expected_keys ms)"
  by (induction ms) (auto simp: set_expected_keys)

lemma find_fact_Ok_iff:
  "(\<exists>f. find_fact fs a w = Inr f) \<longleftrightarrow> (a, w) \<in> key_of ` set fs"
  by (auto simp: find_fact_def key_of_def find_None_iff image_iff ok_or_def split: option.splits
      dest!: find_Some_set)

lemma collect_Ok_iff:
  "(\<exists>r. collect_facts_by_member fs ms = Inr r) \<longleftrightarrow> set (expected_keys ms) \<subseteq> key_of ` set fs"
  by (induction ms) (auto simp: and_then_Ok_iff find_fact_Ok_iff [symmetric])

lemma check_canonical_in_range:
  "n + length ks \<le> length fs \<Longrightarrow>
     check_canonical_facts fs n ks \<noteq> Inl Panic \<and>
     (check_canonical_facts fs n ks = Inr () \<longleftrightarrow> map key_of (take (length ks) (drop n fs)) = ks)"
proof (induction ks arbitrary: n)
  case Nil
  then show ?case by simp
next
  case (Cons k ks)
  obtain a w where k: "k = (a, w)" by (cases k)
  have n: "n < length fs" "Suc n + length ks \<le> length fs" using Cons.prems by simp_all
  have "drop n fs = fs ! n # drop (Suc n) fs" using n(1) by (simp add: Cons_nth_drop_Suc)
  with Cons.IH [OF n(2)] n(1) show ?case by (auto simp: k key_of_def)
qed

section \<open>The accepted snapshots\<close>

definition fact_for :: "quota_fact list \<Rightarrow> account_id \<Rightarrow> quota_window_class \<Rightarrow> quota_fact" where
  "fact_for fs a w = the (find (\<lambda>f. key_of f = (a, w)) fs)"

lemma find_fact_eq: "find_fact fs a w = Inr f \<Longrightarrow> f = fact_for fs a w \<and> f \<in> set fs \<and> key_of f = (a, w)"
  by (auto simp: find_fact_def fact_for_def key_of_def dest: find_Some_set)

lemma fact_for_in: "(a, w) \<in> key_of ` set fs \<Longrightarrow> fact_for fs a w \<in> set fs \<and> key_of (fact_for fs a w) = (a, w)"
  using find_fact_eq find_fact_Ok_iff by metis

lemma collect_eq:
  "collect_facts_by_member fs ms = Inr r \<Longrightarrow>
   r = map (\<lambda>m. (fact_for fs (rm_account_id m) FiveHour, fact_for fs (rm_account_id m) SevenDay)) ms"
  by (induction ms arbitrary: r) (auto simp: and_then_Ok_iff dest: find_fact_eq)

lemma wf_facts_keys:
  assumes "distinct (map rm_account_id ms)"
    and "qf_account_id ` set fs \<subseteq> rm_account_id ` set ms" and "distinct (map key_of fs)"
    and "set (expected_keys ms) \<subseteq> key_of ` set fs"
  shows "length fs = length (expected_keys ms)"
proof -
  have "key_of ` set fs \<subseteq> set (expected_keys ms)"
    using assms(2) by (auto simp: set_expected_keys key_of_def)
  with assms(4) have "set (map key_of fs) = set (expected_keys ms)" by auto
  then show ?thesis
    using assms(1,3) distinct_expected_keys distinct_card length_map by metis
qed

lemma validate_snapshot_members_Ok_iff:
  "validate_account_registry_snapshot_members s t = Inr () \<longleftrightarrow>
     0 \<le> rs_resolved_at_micros s \<and> rs_resolved_at_micros s \<le> t \<and>
     t \<le> max_account_registry_timestamp_micros \<and> 0 < rs_routing_revision s \<and>
     0 < rs_task_role_profile_revision s \<and> wf_members (rs_members s)"
  by (cases "rs_members s = []")
    (auto simp: validate_account_registry_snapshot_members_def account_registry_timestamp_is_valid_def
      validate_members_Ok_iff wf_members_def [of "[]"])

lemma validated_facts_cases:
  "validated_account_registry_quota_facts s t \<noteq> Inl Panic \<and>
   (wf_snapshot s t \<longleftrightarrow> (\<exists>r. validated_account_registry_quota_facts s t = Inr r))"
proof (cases "validate_account_registry_snapshot_members s t = Inr () \<and>
    each (validate_snapshot_fact s) [] (rs_quota_facts s) = Inr () \<and>
    (\<exists>r. collect_facts_by_member (rs_quota_facts s) (rs_members s) = Inr r)")
  case True
  then obtain r where r: "collect_facts_by_member (rs_quota_facts s) (rs_members s) = Inr r" by blast
  have members: "validate_account_registry_snapshot_members s t = Inr ()"
    and facts: "each (validate_snapshot_fact s) [] (rs_quota_facts s) = Inr ()" using True by auto
  have sub: "set (expected_keys (rs_members s)) \<subseteq> key_of ` set (rs_quota_facts s)"
    using r collect_Ok_iff by blast
  have len: "length (rs_quota_facts s) = length (expected_keys (rs_members s))"
    using members facts sub
    by (intro wf_facts_keys) (auto simp: validate_snapshot_members_Ok_iff wf_members_def validate_facts_Ok_iff)
  have canon: "check_canonical_facts (rs_quota_facts s) 0 (expected_keys (rs_members s)) \<noteq> Inl Panic"
    "check_canonical_facts (rs_quota_facts s) 0 (expected_keys (rs_members s)) = Inr () \<longleftrightarrow>
     map key_of (rs_quota_facts s) = expected_keys (rs_members s)"
    using check_canonical_in_range [of 0 "expected_keys (rs_members s)" "rs_quota_facts s"] len by auto
  have wf: "wf_snapshot s t \<longleftrightarrow> map key_of (rs_quota_facts s) = expected_keys (rs_members s)"
    using members facts
    by (auto simp: wf_snapshot_def wf_facts_def validate_snapshot_members_Ok_iff validate_facts_Ok_iff)
  show ?thesis
    using members facts r canon
    by (auto simp: validated_account_registry_quota_facts_def wf and_then_Ok_iff and_then_Err_iff)
next
  case False
  have "\<not> wf_snapshot s t"
  proof
    assume wf: "wf_snapshot s t"
    have dist: "distinct (map key_of (rs_quota_facts s))"
      using wf by (simp add: wf_snapshot_def wf_facts_def wf_members_def distinct_expected_keys)
    have keys: "key_of ` set (rs_quota_facts s) = set (expected_keys (rs_members s))"
      using wf by (metis image_set wf_snapshot_def wf_facts_def)
    then have "qf_account_id ` set (rs_quota_facts s) \<subseteq> rm_account_id ` set (rs_members s)"
      by (auto simp: set_expected_keys key_of_def set_eq_iff image_iff)
    with False dist keys wf show False
      by (auto simp: wf_snapshot_def validate_snapshot_members_Ok_iff validate_facts_Ok_iff wf_facts_def
          collect_Ok_iff)
  qed
  with False show ?thesis
    by (auto simp: validated_account_registry_quota_facts_def and_then_Ok_iff and_then_Err_iff map_err_def
        split: sum.splits)
qed

lemma validated_facts_eq:
  "wf_snapshot s t \<Longrightarrow> validated_account_registry_quota_facts s t =
     Inr (map (\<lambda>m. (fact_for (rs_quota_facts s) (rm_account_id m) FiveHour,
                     fact_for (rs_quota_facts s) (rm_account_id m) SevenDay)) (rs_members s))"
  using validated_facts_cases [of s t]
  by (auto simp: validated_account_registry_quota_facts_def and_then_Ok_iff dest: collect_eq)

section \<open>The preference order\<close>

text \<open>
  The decision, stated without the two passes: the accounts the mode evaluates, the capacity
  of each, the first account with known capacity, else the first whose capacity is unknown,
  and the causes and exclusions of the accounts passed over on the way.
\<close>

definition evaluated_members :: "routing_snapshot \<Rightarrow> routing_member list" where
  "evaluated_members s =
     (case rs_mode s of
        Balanced \<Rightarrow> rs_members s
      | Fixed a \<Rightarrow> filter (\<lambda>m. rm_account_id m = a) (rs_members s))"

definition member_facts :: "routing_snapshot \<Rightarrow> routing_member \<Rightarrow> quota_fact \<times> quota_fact" where
  "member_facts s m = (fact_for (rs_quota_facts s) (rm_account_id m) FiveHour,
                       fact_for (rs_quota_facts s) (rm_account_id m) SevenDay)"

definition capacity_of :: "routing_snapshot \<Rightarrow> i64 \<Rightarrow> routing_member \<Rightarrow> member_capacity" where
  "capacity_of s t m = classify_account_registry_member m (member_facts s m) t"

fun capacity_causes :: "member_capacity \<Rightarrow> routing_decision_cause list" where
  "capacity_causes KnownAvailable = []"
| "capacity_causes (Unknown cs) = cs"
| "capacity_causes (Blocked cs _) = cs"

fun capacity_exclusions :: "member_capacity \<Rightarrow> routing_exclusion list" where
  "capacity_exclusions (Blocked _ es) = es"
| "capacity_exclusions _ = []"

fun is_unknown :: "member_capacity \<Rightarrow> bool" where
  "is_unknown (Unknown _) = True"
| "is_unknown _ = False"

definition decision_after ::
    "routing_snapshot \<Rightarrow> i64 \<Rightarrow> decision_kind \<Rightarrow> account_id option \<Rightarrow> routing_member list \<Rightarrow>
     routing_decision" where
  "decision_after s t kind selected passed =
     \<lparr>rd_snapshot_id = rs_snapshot_id s, rd_kind = kind, rd_selected_account_id = selected,
      rd_exclusions = concat (map (capacity_exclusions \<circ> capacity_of s t) passed),
      rd_causes = concat (map (capacity_causes \<circ> capacity_of s t) passed)\<rparr>"

definition preferred_decision :: "routing_snapshot \<Rightarrow> i64 \<Rightarrow> routing_decision" where
  "preferred_decision s t =
     (let ms = evaluated_members s;
          known = (\<lambda>m. capacity_of s t m = KnownAvailable);
          unknown = (\<lambda>m. is_unknown (capacity_of s t m))
      in case find known ms of
           Some m \<Rightarrow> decision_after s t Selected (Some (rm_account_id m)) (takeWhile (Not \<circ> known) ms)
         | None \<Rightarrow>
             (case find unknown ms of
                Some m \<Rightarrow>
                  decision_after s t Selected (Some (rm_account_id m)) (takeWhile (Not \<circ> unknown) ms)
              | None \<Rightarrow>
                  decision_after s t
                    (if \<forall>m \<in> set ms. capacity_causes (capacity_of s t m) = [] then Waiting else NoRoute)
                    None ms))"

lemma first_pass_eq:
  "first_pass s (map (\<lambda>m. (m, c m)) ms) es cs =
     map_option (\<lambda>m. account_registry_selected_decision s m
         (es @ concat (map (capacity_exclusions \<circ> c) (takeWhile (\<lambda>m. c m \<noteq> KnownAvailable) ms)))
         (cs @ concat (map (capacity_causes \<circ> c) (takeWhile (\<lambda>m. c m \<noteq> KnownAvailable) ms))))
       (find (\<lambda>m. c m = KnownAvailable) ms)"
proof (induction ms arbitrary: es cs)
  case (Cons m ms)
  then show ?case by (cases "c m") simp_all
qed simp

lemma second_pass_eq:
  "find (\<lambda>m. c m = KnownAvailable) ms = None \<Longrightarrow>
   second_pass s (map (\<lambda>m. (m, c m)) ms) es cs =
     Inr (case find (\<lambda>m. is_unknown (c m)) ms of
       Some m \<Rightarrow> account_registry_selected_decision s m
         (es @ concat (map (capacity_exclusions \<circ> c) (takeWhile (\<lambda>m. \<not> is_unknown (c m)) ms)))
         (cs @ concat (map (capacity_causes \<circ> c) (takeWhile (\<lambda>m. \<not> is_unknown (c m)) ms)))
     | None \<Rightarrow>
         \<lparr>rd_snapshot_id = rs_snapshot_id s,
          rd_kind = (if cs = [] \<and> (\<forall>m \<in> set ms. capacity_causes (c m) = []) then Waiting else NoRoute),
          rd_selected_account_id = None,
          rd_exclusions = es @ concat (map (capacity_exclusions \<circ> c) ms),
          rd_causes = cs @ concat (map (capacity_causes \<circ> c) ms)\<rparr>)"
proof (induction ms arbitrary: es cs)
  case (Cons m ms)
  then show ?case by (cases "c m") (auto split: option.splits if_splits)
qed simp

lemma filter_position:
  "distinct (map f ms) \<Longrightarrow> position_of (\<lambda>m. f m = a) ms = Some i \<Longrightarrow> filter (\<lambda>m. f m = a) ms = [ms ! i]"
proof (induction ms arbitrary: i)
  case (Cons m ms)
  show ?case
  proof (cases "f m = a")
    case True
    then have "filter (\<lambda>x. f x = a) ms = []" using Cons.prems(1) by (auto simp: filter_empty_conv image_iff)
    with True Cons.prems(2) show ?thesis by simp
  next
    case False
    then obtain j where "i = Suc j" "position_of (\<lambda>m. f m = a) ms = Some j"
      using Cons.prems(2) by (auto split: if_splits)
    with False Cons show ?thesis by simp
  qed
qed simp

lemma evaluated_indexes:
  assumes "wf_snapshot s t"
  shows "(case account_registry_evaluated_member_indexes s of
      Inl e \<Rightarrow> evaluated_members s = [] \<and> (\<exists>a. rs_mode s = Fixed a \<and> e = FixedTargetAbsent a)
    | Inr is \<Rightarrow> (\<forall>i \<in> set is. i < length (rs_members s)) \<and>
        map (nth (rs_members s)) is = evaluated_members s \<and> evaluated_members s \<noteq> [])"
proof (cases "rs_mode s")
  case Balanced
  then show ?thesis
    using assms by (auto simp: account_registry_evaluated_member_indexes_def evaluated_members_def map_nth
        wf_snapshot_def wf_members_def)
next
  case (Fixed a)
  have dist: "distinct (map rm_account_id (rs_members s))"
    using assms by (simp add: wf_snapshot_def wf_members_def)
  show ?thesis
  proof (cases "position_of (\<lambda>m. rm_account_id m = a) (rs_members s)")
    case None
    then show ?thesis
      using Fixed iffD1 [OF position_of_None None]
      by (simp add: account_registry_evaluated_member_indexes_def evaluated_members_def filter_empty_conv)
  next
    case (Some i)
    then show ?thesis
      using Fixed filter_position [OF dist Some] iffD1 [OF position_of_Some Some]
      by (simp add: account_registry_evaluated_member_indexes_def evaluated_members_def)
  qed
qed

lemma map_index_pairs:
  "\<forall>i \<in> set is. i < length xs \<Longrightarrow>
   zip (map (nth xs) is) (map2 g (map (nth xs) is) (map (nth (map f xs)) is)) =
   map (\<lambda>m. (m, g m (f m))) (map (nth xs) is)"
  by (induction "is") auto

lemma decide_eq:
  assumes "wf_snapshot s t"
  shows "decide_account_registry_routing s t =
    (case account_registry_evaluated_member_indexes s of
       Inl e \<Rightarrow> Inl (Fail e) | Inr is \<Rightarrow> Inr (preferred_decision s t))"
proof (cases "account_registry_evaluated_member_indexes s")
  case (Inl e)
  then show ?thesis
    using assms by (simp add: decide_account_registry_routing_def validated_facts_eq)
next
  case (Inr "is")
  have range: "\<forall>i \<in> set is. i < length (rs_members s)"
    and ms: "map (nth (rs_members s)) is = evaluated_members s"
    using evaluated_indexes [OF assms] Inr by auto
  have pairs: "zip (evaluated_members s)
       (map2 (\<lambda>m f. classify_account_registry_member m f t) (evaluated_members s)
         (map (nth (map (\<lambda>m. (fact_for (rs_quota_facts s) (rm_account_id m) FiveHour,
                             fact_for (rs_quota_facts s) (rm_account_id m) SevenDay)) (rs_members s))) is))
     = map (\<lambda>m. (m, capacity_of s t m)) (evaluated_members s)"
    using map_index_pairs [OF range, of "\<lambda>m f. classify_account_registry_member m f t" "member_facts s"]
    by (simp add: ms capacity_of_def member_facts_def [abs_def])
  have "decide_account_registry_routing s t =
     (case first_pass s (map (\<lambda>m. (m, capacity_of s t m)) (evaluated_members s)) [] [] of
        Some d \<Rightarrow> Inr d
      | None \<Rightarrow> second_pass s (map (\<lambda>m. (m, capacity_of s t m)) (evaluated_members s)) [] [])"
    using pairs by (simp add: decide_account_registry_routing_def validated_facts_eq [OF assms] Inr
        index_all_in_range range ms Let_def cong: option.case_cong)
  also have "\<dots> = Inr (preferred_decision s t)"
    by (auto simp: first_pass_eq second_pass_eq preferred_decision_def Let_def decision_after_def
        account_registry_selected_decision_def comp_def split: option.splits)
  finally show ?thesis by (simp add: Inr)
qed

section \<open>Capacity of one account\<close>

definition fresh_at :: "i64 \<Rightarrow> i64 \<Rightarrow> bool" where
  "fresh_at t observed \<longleftrightarrow> observed \<le> t \<and> t - observed \<le> account_registry_quota_freshness_micros"

definition fact_from_future :: "i64 \<Rightarrow> quota_fact \<Rightarrow> bool" where
  "fact_from_future t f =
     (case qf_observation f of NotApplicable ob \<Rightarrow> t < ob | Current _ ob _ \<Rightarrow> t < ob | _ \<Rightarrow> False)"

definition fact_depleted :: "i64 \<Rightarrow> quota_fact \<Rightarrow> bool" where
  "fact_depleted t f =
     (case qf_observation f of Current used ob reset \<Rightarrow> fresh_at t ob \<and> t < reset \<and> 100 \<le> used | _ \<Rightarrow> False)"

definition fact_available :: "i64 \<Rightarrow> quota_fact \<Rightarrow> bool" where
  "fact_available t f =
     (case qf_observation f of
        NotApplicable ob \<Rightarrow> fresh_at t ob
      | Current used ob reset \<Rightarrow> fresh_at t ob \<and> t < reset \<and> used < 100
      | _ \<Rightarrow> False)"

definition exclusion_of :: "routing_member \<Rightarrow> quota_fact \<Rightarrow> routing_exclusion \<Rightarrow> bool" where
  "exclusion_of m f e \<longleftrightarrow> (\<exists>used ob reset. qf_observation f = Current used ob reset \<and>
     e = \<lparr>ex_account_id = rm_account_id m, ex_member_position = rm_position m, ex_window = qf_window f,
          ex_duration_minutes = qf_duration_minutes f, ex_used_percent = used,
          ex_observed_at_micros = ob, ex_resets_at_micros = reset\<rparr>)"

text \<open>One fact contributes to exactly one of the four accumulators.\<close>

lemma classify_fact_cases:
  obtains
    (future) b where "fact_from_future t f" "\<not> fact_depleted t f" "\<not> fact_available t f"
      "classify_fact m t f acc = acc\<lparr>cl_hard := cl_hard acc @ [cause_of m b]\<rparr>"
  | (depleted) e where "\<not> fact_from_future t f" "fact_depleted t f" "\<not> fact_available t f"
      "exclusion_of m f e" "classify_fact m t f acc = acc\<lparr>cl_exclusions := cl_exclusions acc @ [e]\<rparr>"
  | (available) "\<not> fact_from_future t f" "\<not> fact_depleted t f" "fact_available t f"
      "classify_fact m t f acc = acc\<lparr>cl_known_windows := cl_known_windows acc + 1\<rparr>"
  | (unsure) b where "\<not> fact_from_future t f" "\<not> fact_depleted t f" "\<not> fact_available t f"
      "classify_fact m t f acc = acc\<lparr>cl_unknown := cl_unknown acc @ [cause_of m b]\<rparr>"
proof (cases "qf_observation f")
  case (NotApplicable ob)
  then show ?thesis
    by (cases "t < ob"; cases "t - ob \<le> account_registry_quota_freshness_micros")
      (auto intro: that simp: classify_fact_def Let_def fact_from_future_def fact_depleted_def
        fact_available_def fresh_at_def)
next
  case Missing
  then show ?thesis
    by (auto intro: that simp: classify_fact_def Let_def fact_from_future_def fact_depleted_def
        fact_available_def)
next
  case (ObservationError e ob)
  then show ?thesis
    by (auto intro: that simp: classify_fact_def Let_def fact_from_future_def fact_depleted_def
        fact_available_def)
next
  case (Current used ob reset)
  show ?thesis
  proof (cases "fresh_at t ob \<and> t < reset \<and> 100 \<le> used")
    case True
    with Current show ?thesis
      by (intro depleted) (auto simp: classify_fact_def Let_def fact_from_future_def fact_depleted_def
          fact_available_def fresh_at_def exclusion_of_def not_less)
  next
    case False
    with Current show ?thesis
      by (cases "t < ob"; cases "t - ob \<le> account_registry_quota_freshness_micros"; cases "reset \<le> t")
        (auto intro: that simp: classify_fact_def Let_def fact_from_future_def fact_depleted_def
          fact_available_def fresh_at_def not_le)
  qed
qed

definition member_blocked :: "i64 \<Rightarrow> routing_member \<Rightarrow> quota_fact \<Rightarrow> quota_fact \<Rightarrow> bool" where
  "member_blocked t m f g \<longleftrightarrow> rm_blockers m \<noteq> [] \<or> fact_from_future t f \<or> fact_from_future t g \<or>
     fact_depleted t f \<or> fact_depleted t g"

definition member_known :: "i64 \<Rightarrow> routing_member \<Rightarrow> quota_fact \<Rightarrow> quota_fact \<Rightarrow> bool" where
  "member_known t m f g \<longleftrightarrow> rm_blockers m = [] \<and> fact_available t f \<and> fact_available t g"

definition hard_blocked :: "i64 \<Rightarrow> routing_member \<Rightarrow> quota_fact \<Rightarrow> quota_fact \<Rightarrow> bool" where
  "hard_blocked t m f g \<longleftrightarrow> rm_blockers m \<noteq> [] \<or> fact_from_future t f \<or> fact_from_future t g"

lemma classify_member_shape:
  "case classify_account_registry_member m (f, g) t of
     KnownAvailable \<Rightarrow> member_known t m f g \<and> \<not> member_blocked t m f g
   | Unknown cs \<Rightarrow> \<not> member_known t m f g \<and> \<not> member_blocked t m f g \<and>
       (\<forall>c \<in> set cs. dc_account_id c = rm_account_id m)
   | Blocked cs es \<Rightarrow> member_blocked t m f g \<and> \<not> member_known t m f g \<and> (cs \<noteq> [] \<or> es \<noteq> []) \<and>
       (cs = [] \<longleftrightarrow> \<not> hard_blocked t m f g) \<and>
       (\<forall>c \<in> set cs. dc_account_id c = rm_account_id m) \<and>
       (\<forall>e \<in> set es. fact_depleted t f \<and> exclusion_of m f e \<or> fact_depleted t g \<and> exclusion_of m g e)"
  unfolding classify_account_registry_member_def Let_def fst_conv snd_conv
  by (rule classify_fact_cases [where t = t and f = f and m = m and
        acc = "\<lparr>cl_hard = map (cause_of m) (rm_blockers m), cl_unknown = [],
                cl_exclusions = [], cl_known_windows = 0\<rparr>"];
      rule classify_fact_cases [where t = t and f = g and m = m and
        acc = "classify_fact m t f \<lparr>cl_hard = map (cause_of m) (rm_blockers m), cl_unknown = [],
                cl_exclusions = [], cl_known_windows = 0\<rparr>"];
      auto simp: member_blocked_def member_known_def hard_blocked_def cause_of_def)

lemma capacity_cases:
  obtains (known) "capacity_of s t m = KnownAvailable"
    | (unknown) cs where "capacity_of s t m = Unknown cs"
    | (blocked) cs es where "capacity_of s t m = Blocked cs es"
  by (cases "capacity_of s t m")

lemma capacity_of_iff:
  "capacity_of s t m = KnownAvailable \<longleftrightarrow> member_known t m (fst (member_facts s m)) (snd (member_facts s m))"
  "(\<exists>cs es. capacity_of s t m = Blocked cs es) \<longleftrightarrow>
     member_blocked t m (fst (member_facts s m)) (snd (member_facts s m))"
  using classify_member_shape [of t m "fst (member_facts s m)" "snd (member_facts s m)"]
  by (auto simp: capacity_of_def split: member_capacity.splits)

section \<open>A concrete snapshot\<close>

text \<open>
  Two accounts at instant 1000000000: the first has a depleted seven-day window, the second
  has room in both windows. The second snapshot knows only the first account.
\<close>

definition account_a :: account_id where "account_a = AccountId ''a''"
definition account_b :: account_id where "account_b = AccountId ''b''"

definition sample_fact :: "account_id \<Rightarrow> quota_window_class \<Rightarrow> byte \<Rightarrow> quota_fact" where
  "sample_fact a w used = \<lparr>qf_account_id = a, qf_window = w,
     qf_duration_minutes = account_registry_window_duration w,
     qf_observation = Current used 900000000 2000000000\<rparr>"

definition sample_member :: "nat \<Rightarrow> account_id \<Rightarrow> routing_member" where
  "sample_member i a = \<lparr>rm_position = i, rm_account_id = a, rm_account_revision = 1, rm_blockers = []\<rparr>"

definition two_accounts :: routing_snapshot where
  "two_accounts = \<lparr>rs_snapshot_id = ''s'', rs_routing_revision = 1, rs_mode = Balanced,
     rs_task_role_profile_revision = 1, rs_resolved_at_micros = 1000000000,
     rs_members = [sample_member 1 account_a, sample_member 2 account_b],
     rs_quota_facts = [sample_fact account_a FiveHour 10, sample_fact account_a SevenDay 100,
       sample_fact account_b FiveHour 10, sample_fact account_b SevenDay 20]\<rparr>"

definition one_account :: routing_snapshot where
  "one_account = two_accounts\<lparr>rs_members := [sample_member 1 account_a],
     rs_quota_facts := take 2 (rs_quota_facts two_accounts)\<rparr>"

definition unobserved_account :: routing_snapshot where
  "unobserved_account = one_account\<lparr>rs_quota_facts :=
     map (\<lambda>f. f\<lparr>qf_observation := Missing\<rparr>) (rs_quota_facts one_account)\<rparr>"

lemmas sample_defs = two_accounts_def one_account_def sample_member_def sample_fact_def
  account_a_def account_b_def

lemma wf_samples: "wf_snapshot two_accounts 1000000000" "wf_snapshot one_account 1000000000"
  by (simp_all add: sample_defs wf_snapshot_def wf_members_def wf_facts_def wf_fact_def key_of_def
      wf_observation_def wf_blockers_def max_account_registry_timestamp_micros_def)

lemma evaluated_samples:
  "evaluated_members two_accounts = [sample_member 1 account_a, sample_member 2 account_b]"
  "evaluated_members one_account = [sample_member 1 account_a]"
  by (simp_all add: evaluated_members_def two_accounts_def one_account_def)

lemma decide_samples:
  "decide_account_registry_routing two_accounts 1000000000 =
     Inr \<lparr>rd_snapshot_id = ''s'', rd_kind = Selected, rd_selected_account_id = Some account_b,
       rd_exclusions = [\<lparr>ex_account_id = account_a, ex_member_position = 1, ex_window = SevenDay,
         ex_duration_minutes = 10080, ex_used_percent = 100, ex_observed_at_micros = 900000000,
         ex_resets_at_micros = 2000000000\<rparr>], rd_causes = []\<rparr>"
  "decide_account_registry_routing one_account 1000000000 =
     Inr \<lparr>rd_snapshot_id = ''s'', rd_kind = Waiting, rd_selected_account_id = None,
       rd_exclusions = [\<lparr>ex_account_id = account_a, ex_member_position = 1, ex_window = SevenDay,
         ex_duration_minutes = 10080, ex_used_percent = 100, ex_observed_at_micros = 900000000,
         ex_resets_at_micros = 2000000000\<rparr>], rd_causes = []\<rparr>"
  by (code_simp, code_simp)

section \<open>Properties of the kernel\<close>

text \<open>
  Blocker labels. The durable spelling of a routing blocker parses back to that blocker
  and to nothing else: the parser accepts exactly the 43 spellings \<^verbatim>\<open>as_sql\<close> writes.
\<close>

lemma blocker_labels_round_trip:
  "blocker_from_sql s = Some b \<longleftrightarrow> s = blocker_as_sql b"
  by (rule routing_blocker.from_iff)

text \<open>
  Blocker validation. The loop over a member's blockers accepts exactly the lists whose
  entries all have a rank and stand in strictly increasing rank order.
\<close>

theorem member_blockers_validation_exact:
  "validate_account_registry_member_blockers m = Inr () \<longleftrightarrow>
     (\<exists>ranks. map account_registry_member_blocker_rank (rm_blockers m) = map Some ranks \<and>
        sorted_wrt (<) ranks)"
proof -
  have "wf_blockers bs \<longleftrightarrow> (\<exists>ranks. map account_registry_member_blocker_rank bs = map Some ranks \<and>
        sorted_wrt (<) ranks)" for bs
  proof
    assume "wf_blockers bs"
    then show "\<exists>ranks. map account_registry_member_blocker_rank bs = map Some ranks \<and> sorted_wrt (<) ranks"
      by (intro exI [of _ "map rank_of bs"]) (auto simp: wf_blockers_def rank_of_def)
  next
    assume "\<exists>ranks. map account_registry_member_blocker_rank bs = map Some ranks \<and> sorted_wrt (<) ranks"
    then obtain ranks where r: "map account_registry_member_blocker_rank bs = map Some ranks"
      "sorted_wrt (<) ranks" by blast
    have "map rank_of bs = map (the \<circ> Some) ranks"
      using arg_cong [OF r(1), of "map the"] by (simp add: rank_of_def [abs_def] comp_def)
    moreover have "\<forall>b \<in> set bs. account_registry_member_blocker_rank b \<noteq> None"
      using arg_cong [OF r(1), of set] by force
    ultimately show "wf_blockers bs" using r(2) by (simp add: wf_blockers_def comp_def)
  qed
  then show ?thesis by (simp add: validate_blockers_Ok_iff)
qed

text \<open>
  C17. Snapshot validation. The kernel's validation accepts exactly the canonical snapshots:
  one-based member positions, distinct accounts, positive revisions, ranked blockers, and one
  well-formed fact per member and window in canonical order. It never indexes out of range.
\<close>

theorem snapshot_validation_exact:
  "validated_account_registry_quota_facts s t \<noteq> Inl Panic \<and>
   ((\<exists>facts. validated_account_registry_quota_facts s t = Inr facts) \<longleftrightarrow> wf_snapshot s t)"
  using validated_facts_cases by blast

lemma decide_wf: "decide_account_registry_routing s t = Inr d \<Longrightarrow> wf_snapshot s t"
  using validated_facts_cases [of s t]
  by (auto simp: decide_account_registry_routing_def and_then_Ok_iff)

lemma decide_Ok:
  assumes "decide_account_registry_routing s t = Inr d"
  shows "wf_snapshot s t" "evaluated_members s \<noteq> []" "d = preferred_decision s t"
  using assms decide_wf [OF assms] decide_eq [of s t] evaluated_indexes [of s t]
  by (auto split: sum.splits)

lemma decide_no_panic: "decide_account_registry_routing s t \<noteq> Inl Panic"
proof (cases "wf_snapshot s t")
  case True
  then show ?thesis using decide_eq by (auto split: sum.splits)
next
  case False
  then show ?thesis
    using validated_facts_cases [of s t]
    by (cases "validated_account_registry_quota_facts s t")
      (auto simp: decide_account_registry_routing_def)
qed

text \<open>
  C16. The kernel is total. It never panics: no index leaves its list and the \<^verbatim>\<open>unreachable!\<close>
  arm of the second pass is unreachable. It decides exactly when the snapshot is canonical and
  the mode evaluates some member, that is, a fixed target is present.
\<close>

theorem routing_decides_without_panic:
  "decide_account_registry_routing s t \<noteq> Inl Panic \<and>
   ((\<exists>d. decide_account_registry_routing s t = Inr d) \<longleftrightarrow>
      wf_snapshot s t \<and> evaluated_members s \<noteq> [])"
proof -
  have "\<exists>d. decide_account_registry_routing s t = Inr d"
    if wf: "wf_snapshot s t" and ne: "evaluated_members s \<noteq> []"
    using evaluated_indexes [OF wf] ne by (auto simp: decide_eq [OF wf] split: sum.splits)
  then show ?thesis using decide_no_panic decide_Ok by blast
qed

text \<open>
  C1. Refinement of the two passes. On a canonical snapshot whose mode evaluates a member the
  kernel returns the preferred decision: the first evaluated account with known capacity, else
  the first with unknown capacity, else no account, each with the causes and exclusions of
  exactly the accounts passed over on that pass.
\<close>

theorem routing_refines_preference:
  assumes "wf_snapshot s t" and "evaluated_members s \<noteq> []"
  shows "decide_account_registry_routing s t = Inr (preferred_decision s t)"
  using evaluated_indexes [OF assms(1)] assms(2)
  by (auto simp: decide_eq [OF assms(1)] split: sum.splits)

theorem routing_refines_preference_witness:
  "decide_account_registry_routing two_accounts 1000000000 =
     Inr (preferred_decision two_accounts 1000000000)"
  by (rule routing_refines_preference) (simp_all add: wf_samples evaluated_samples)

text \<open>A decision to select names a member that is known, or unknown when none is known.\<close>

lemma find_None_all: "find P xs = None \<longleftrightarrow> (\<forall>x \<in> set xs. \<not> P x)"
  by (induction xs) auto

lemma is_unknown_iff: "is_unknown c \<longleftrightarrow> (\<exists>cs. c = Unknown cs)"
  by (cases c) auto

lemma preferred_selected:
  assumes "rd_selected_account_id (preferred_decision s t) = Some a"
  obtains m where "m \<in> set (evaluated_members s)" "rm_account_id m = a"
    "capacity_of s t m = KnownAvailable \<or>
     is_unknown (capacity_of s t m) \<and> (\<forall>n \<in> set (evaluated_members s). capacity_of s t n \<noteq> KnownAvailable)"
  using assms
  by (auto simp: preferred_decision_def Let_def decision_after_def find_None_all
      split: option.splits dest!: find_Some_set)

lemma blocked_capacity:
  "member_blocked t m (fst (member_facts s m)) (snd (member_facts s m)) \<longleftrightarrow>
     capacity_of s t m \<noteq> KnownAvailable \<and> \<not> is_unknown (capacity_of s t m)"
  "member_blocked t m (fst (member_facts s m)) (snd (member_facts s m)) \<Longrightarrow>
     capacity_causes (capacity_of s t m) = [] \<longleftrightarrow>
     \<not> hard_blocked t m (fst (member_facts s m)) (snd (member_facts s m))"
  "member_blocked t m (fst (member_facts s m)) (snd (member_facts s m)) \<Longrightarrow>
     capacity_causes (capacity_of s t m) = [] \<Longrightarrow> capacity_exclusions (capacity_of s t m) \<noteq> []"
  using classify_member_shape [of t m "fst (member_facts s m)" "snd (member_facts s m)"]
  by (auto simp: capacity_of_def split: member_capacity.splits)

lemma preferred_none:
  assumes "\<forall>m \<in> set (evaluated_members s).
    member_blocked t m (fst (member_facts s m)) (snd (member_facts s m))"
  shows "preferred_decision s t =
    decision_after s t
      (if \<forall>m \<in> set (evaluated_members s).
            \<not> hard_blocked t m (fst (member_facts s m)) (snd (member_facts s m))
       then Waiting else NoRoute) None (evaluated_members s)"
proof -
  have "find (\<lambda>m. capacity_of s t m = KnownAvailable) (evaluated_members s) = None"
    "find (\<lambda>m. is_unknown (capacity_of s t m)) (evaluated_members s) = None"
    using assms by (auto simp: find_None_all blocked_capacity(1))
  moreover have "(\<forall>m \<in> set (evaluated_members s). capacity_causes (capacity_of s t m) = []) \<longleftrightarrow>
    (\<forall>m \<in> set (evaluated_members s). \<not> hard_blocked t m (fst (member_facts s m)) (snd (member_facts s m)))"
    using assms blocked_capacity(2) by blast
  ultimately show ?thesis by (simp add: preferred_decision_def Let_def)
qed

lemma preferred_some:
  assumes "\<not> (\<forall>m \<in> set (evaluated_members s).
    member_blocked t m (fst (member_facts s m)) (snd (member_facts s m)))"
  shows "\<exists>a ms. preferred_decision s t = decision_after s t Selected (Some a) ms"
proof -
  have "find (\<lambda>m. capacity_of s t m = KnownAvailable) (evaluated_members s) \<noteq> None \<or>
    find (\<lambda>m. is_unknown (capacity_of s t m)) (evaluated_members s) \<noteq> None"
    using assms by (auto simp: find_None_all blocked_capacity(1))
  then show ?thesis by (auto simp: preferred_decision_def Let_def split: option.splits)
qed

lemma evaluated_subset: "m \<in> set (evaluated_members s) \<Longrightarrow> m \<in> set (rs_members s)"
  by (auto simp: evaluated_members_def split: account_selection_mode.splits)

lemma wf_member_facts:
  assumes "wf_snapshot s t" and "m \<in> set (rs_members s)" and "f \<in> set (rs_quota_facts s)"
    and "qf_account_id f = rm_account_id m"
  shows "f = fst (member_facts s m) \<or> f = snd (member_facts s m)"
proof -
  have dist: "distinct (map key_of (rs_quota_facts s))"
    using assms(1) by (simp add: wf_snapshot_def wf_facts_def wf_members_def distinct_expected_keys)
  have "fact_for (rs_quota_facts s) (rm_account_id m) (qf_window f) = f"
    using fact_for_in [of "rm_account_id m" "qf_window f" "rs_quota_facts s"] assms(3,4) dist
    by (metis distinct_map image_eqI inj_onD key_of_def)
  then show ?thesis
    by (cases "qf_window f") (auto simp: member_facts_def)
qed

lemma member_facts_in:
  assumes "wf_snapshot s t" and "m \<in> set (rs_members s)"
  shows "fst (member_facts s m) \<in> set (rs_quota_facts s)" "snd (member_facts s m) \<in> set (rs_quota_facts s)"
    "key_of (fst (member_facts s m)) = (rm_account_id m, FiveHour)"
    "key_of (snd (member_facts s m)) = (rm_account_id m, SevenDay)"
proof -
  have "(rm_account_id m, w) \<in> key_of ` set (rs_quota_facts s)" for w
    using assms by (metis UNIV_I imageI image_set mem_Sigma_iff set_expected_keys wf_facts_def wf_snapshot_def)
  then show "fst (member_facts s m) \<in> set (rs_quota_facts s)" "snd (member_facts s m) \<in> set (rs_quota_facts s)"
    "key_of (fst (member_facts s m)) = (rm_account_id m, FiveHour)"
    "key_of (snd (member_facts s m)) = (rm_account_id m, SevenDay)"
    by (simp_all add: member_facts_def fact_for_in)
qed

text \<open>
  Safety of a selection. The account the kernel selects is a member with no blocker, none
  of its facts comes from the future or shows a current depletion, and under a fixed mode it
  is the fixed target.
\<close>

lemma selected_account_is_admissible:
  assumes "decide_account_registry_routing s t = Inr d" and "rd_selected_account_id d = Some a"
  shows "\<exists>m \<in> set (rs_members s). rm_account_id m = a \<and> rm_blockers m = [] \<and>
    (\<forall>f \<in> set (rs_quota_facts s). qf_account_id f = a \<longrightarrow> \<not> fact_from_future t f \<and> \<not> fact_depleted t f) \<and>
    (\<forall>b. rs_mode s = Fixed b \<longrightarrow> b = a)"
proof -
  note d = decide_Ok [OF assms(1)]
  obtain m where m: "m \<in> set (evaluated_members s)" "rm_account_id m = a"
    "capacity_of s t m = KnownAvailable \<or> is_unknown (capacity_of s t m)"
    using assms(2) d(3) preferred_selected by metis
  have "\<not> member_blocked t m (fst (member_facts s m)) (snd (member_facts s m))"
    using m(3) capacity_of_iff(2) [of s t m] by (cases "capacity_of s t m") auto
  then have ok: "rm_blockers m = []"
    "f = fst (member_facts s m) \<or> f = snd (member_facts s m) \<Longrightarrow> \<not> fact_from_future t f \<and> \<not> fact_depleted t f" for f
    by (auto simp: member_blocked_def)
  show ?thesis
  proof (intro bexI [of _ m] conjI ballI impI allI)
    fix b assume "rs_mode s = Fixed b"
    then show "b = a" using m(1,2) by (simp add: evaluated_members_def)
  qed (use m ok wf_member_facts [OF d(1)] evaluated_subset in auto)
qed

lemma selected_account_is_admissible_witness:
  "\<exists>m \<in> set (rs_members two_accounts). rm_account_id m = account_b \<and> rm_blockers m = [] \<and>
    (\<forall>f \<in> set (rs_quota_facts two_accounts). qf_account_id f = account_b \<longrightarrow>
       \<not> fact_from_future 1000000000 f \<and> \<not> fact_depleted 1000000000 f) \<and>
    (\<forall>b. rs_mode two_accounts = Fixed b \<longrightarrow> b = account_b)"
  by (rule selected_account_is_admissible [OF decide_samples(1)]) simp

text \<open>
  Preference. If some evaluated account has no blocker and two available windows, then the
  selected account has them too: unknown capacity is used only as a fallback.
\<close>

lemma known_capacity_is_preferred:
  assumes "decide_account_registry_routing s t = Inr d"
    and "m \<in> set (evaluated_members s)"
    and "member_known t m (fst (member_facts s m)) (snd (member_facts s m))"
  shows "\<exists>n \<in> set (evaluated_members s). rd_selected_account_id d = Some (rm_account_id n) \<and>
    member_known t n (fst (member_facts s n)) (snd (member_facts s n))"
proof -
  have "capacity_of s t m = KnownAvailable" using assms(3) capacity_of_iff(1) by blast
  then obtain n where n: "find (\<lambda>m. capacity_of s t m = KnownAvailable) (evaluated_members s) = Some n"
    using assms(2) find_None_all [of "\<lambda>m. capacity_of s t m = KnownAvailable" "evaluated_members s"] by fastforce
  with decide_Ok(3) [OF assms(1)] have "rd_selected_account_id d = Some (rm_account_id n)"
    by (simp add: preferred_decision_def decision_after_def Let_def)
  moreover have "n \<in> set (evaluated_members s)" "capacity_of s t n = KnownAvailable"
    using find_Some_set [OF n] by simp_all
  ultimately show ?thesis using capacity_of_iff(1) by blast
qed

lemma known_capacity_is_preferred_witness:
  "\<exists>n \<in> set (evaluated_members two_accounts).
     Some account_b = Some (rm_account_id n) \<and>
     member_known 1000000000 n (fst (member_facts two_accounts n)) (snd (member_facts two_accounts n))"
proof -
  have "member_known 1000000000 (sample_member 2 account_b)
      (fst (member_facts two_accounts (sample_member 2 account_b)))
      (snd (member_facts two_accounts (sample_member 2 account_b)))"
    by code_simp
  from known_capacity_is_preferred [OF decide_samples(1) _ this]
  show ?thesis by (simp add: evaluated_samples)
qed

lemma decision_after_exclusions:
  "e \<in> set (rd_exclusions (decision_after s t k a ms)) \<longleftrightarrow>
     (\<exists>m \<in> set ms. e \<in> set (capacity_exclusions (capacity_of s t m)))"
  by (auto simp: decision_after_def)

lemma preferred_passed:
  obtains k a ms where "set ms \<subseteq> set (evaluated_members s)" "preferred_decision s t = decision_after s t k a ms"
proof (cases "find (\<lambda>m. capacity_of s t m = KnownAvailable) (evaluated_members s)")
  case (Some m)
  then show ?thesis
    by (intro that [of "takeWhile (Not \<circ> (\<lambda>m. capacity_of s t m = KnownAvailable)) (evaluated_members s)"])
      (auto simp: preferred_decision_def Let_def dest: set_takeWhileD)
next
  case None
  show ?thesis
  proof (cases "find (\<lambda>m. is_unknown (capacity_of s t m)) (evaluated_members s)")
    case (Some m)
    with None show ?thesis
      by (intro that [of "takeWhile (Not \<circ> (\<lambda>m. is_unknown (capacity_of s t m))) (evaluated_members s)"])
        (auto simp: preferred_decision_def Let_def dest: set_takeWhileD)
  next
    case None': None
    with None show ?thesis
      by (intro that [of "evaluated_members s"]) (auto simp: preferred_decision_def Let_def)
  qed
qed

lemma capacity_exclusions_sound:
  assumes "e \<in> set (capacity_exclusions (capacity_of s t m))"
  shows "\<exists>f. (f = fst (member_facts s m) \<or> f = snd (member_facts s m)) \<and> fact_depleted t f \<and> exclusion_of m f e"
  using assms classify_member_shape [of t m "fst (member_facts s m)" "snd (member_facts s m)"]
  by (auto simp: capacity_of_def split: member_capacity.splits)

text \<open>
  Exclusions are evidence. Every exclusion of a decision reports a fact of the snapshot:
  a fresh observation of an evaluated member with exactly 100 percent used whose reset is
  still ahead of the decision instant.
\<close>

lemma exclusions_report_current_depletion:
  assumes "decide_account_registry_routing s t = Inr d" and "e \<in> set (rd_exclusions d)"
  shows "ex_used_percent e = 100 \<and> fresh_at t (ex_observed_at_micros e) \<and> t < ex_resets_at_micros e \<and>
    (\<exists>f \<in> set (rs_quota_facts s). key_of f = (ex_account_id e, ex_window e) \<and>
       qf_observation f = Current 100 (ex_observed_at_micros e) (ex_resets_at_micros e))"
proof -
  note d = decide_Ok [OF assms(1)]
  obtain k a ms where ms: "set ms \<subseteq> set (evaluated_members s)" "d = decision_after s t k a ms"
    using d(3) preferred_passed by metis
  obtain m where "m \<in> set ms" and e: "e \<in> set (capacity_exclusions (capacity_of s t m))"
    using assms(2) unfolding ms(2) decision_after_exclusions by blast
  then have m: "m \<in> set (rs_members s)" using ms(1) evaluated_subset by blast
  obtain f where f: "f = fst (member_facts s m) \<or> f = snd (member_facts s m)" "fact_depleted t f" "exclusion_of m f e"
    using capacity_exclusions_sound [OF e] by blast
  have in_facts: "f \<in> set (rs_quota_facts s)" "key_of f = (rm_account_id m, qf_window f)"
    using member_facts_in [OF d(1) m] f(1) by (auto simp: key_of_def)
  have "wf_observation f" using d(1) in_facts(1) by (simp add: wf_snapshot_def wf_facts_def wf_fact_def)
  moreover obtain used ob reset where ob: "qf_observation f = Current used ob reset"
    "ex_account_id e = rm_account_id m" "ex_window e = qf_window f" "ex_used_percent e = used"
    "ex_observed_at_micros e = ob" "ex_resets_at_micros e = reset"
    using f(3) by (auto simp: exclusion_of_def)
  ultimately have "used = 100" "fresh_at t ob" "t < reset"
    using f(2) by (auto simp: fact_depleted_def wf_observation_def intro: order_antisym)
  with ob in_facts show ?thesis by (intro conjI bexI [of _ f]) simp_all
qed

lemma exclusions_report_current_depletion_witness:
  "fresh_at 1000000000 900000000 \<and> (\<exists>f \<in> set (rs_quota_facts one_account).
     key_of f = (account_a, SevenDay) \<and> qf_observation f = Current 100 900000000 2000000000)"
  using exclusions_report_current_depletion [OF decide_samples(2)] by simp

text \<open>
  The three kinds. A decision names an account exactly when its kind is Selected. Waiting
  means every evaluated account is blocked by a current depletion and by nothing else, and the
  decision lists exclusions and no cause. NoRoute means every evaluated account is blocked and
  at least one of them by a blocker or by an observation from the future.
\<close>

lemma decision_kinds:
  assumes "decide_account_registry_routing s t = Inr d"
  shows "(rd_kind d = Selected \<longleftrightarrow> rd_selected_account_id d \<noteq> None) \<and>
    (rd_kind d = Waiting \<longrightarrow> rd_exclusions d \<noteq> [] \<and> rd_causes d = [] \<and>
      (\<forall>m \<in> set (evaluated_members s).
         \<not> hard_blocked t m (fst (member_facts s m)) (snd (member_facts s m)) \<and>
         (fact_depleted t (fst (member_facts s m)) \<or> fact_depleted t (snd (member_facts s m))))) \<and>
    (rd_kind d = NoRoute \<longrightarrow> rd_causes d \<noteq> [] \<and>
      (\<forall>m \<in> set (evaluated_members s). member_blocked t m (fst (member_facts s m)) (snd (member_facts s m))) \<and>
      (\<exists>m \<in> set (evaluated_members s). hard_blocked t m (fst (member_facts s m)) (snd (member_facts s m))))"
proof -
  note d = decide_Ok [OF assms]
  let ?hard = "\<lambda>m. hard_blocked t m (fst (member_facts s m)) (snd (member_facts s m))"
  let ?blocked = "\<lambda>m. member_blocked t m (fst (member_facts s m)) (snd (member_facts s m))"
  show ?thesis
  proof (cases "\<forall>m \<in> set (evaluated_members s). ?blocked m")
    case True
    then have none: "rd_selected_account_id d = None"
      "d = decision_after s t (if \<forall>m \<in> set (evaluated_members s). \<not> ?hard m then Waiting else NoRoute) None
         (evaluated_members s)"
      using d(3) preferred_none blocked_capacity by (auto simp: decision_after_def)
    obtain m where m: "m \<in> set (evaluated_members s)" using d(2) by (cases "evaluated_members s") auto
    have "\<not> ?hard n \<Longrightarrow> ?blocked n \<Longrightarrow>
        fact_depleted t (fst (member_facts s n)) \<or> fact_depleted t (snd (member_facts s n))" for n
      by (auto simp: member_blocked_def hard_blocked_def)
    then show ?thesis
      using True none m blocked_capacity by (auto simp: decision_after_def)
  next
    case False
    obtain a ms where "preferred_decision s t = decision_after s t Selected (Some a) ms"
      using preferred_some [OF False] by blast
    then show ?thesis by (simp add: d(3) decision_after_def)
  qed
qed

lemma decision_kinds_witness:
  "\<exists>d. decide_account_registry_routing one_account 1000000000 = Inr d \<and> rd_kind d = Waiting \<and>
     rd_exclusions d \<noteq> [] \<and> rd_causes d = []"
  using decision_kinds [OF decide_samples(2)] decide_samples(2) by simp

text \<open>
  The facts that validation hands to the classification have bounded instants, so that the checked
  subtraction of the freshness test has a value.
\<close>

lemma find_fact_in: "find_fact fs a w = Inr f \<Longrightarrow> f \<in> set fs"
  using find_fact_eq by blast

lemma collected_facts_in:
  "collect_facts_by_member fs ms = Inr r \<Longrightarrow> p \<in> set r \<Longrightarrow> fst p \<in> set fs \<and> snd p \<in> set fs"
  by (induction ms arbitrary: r) (auto simp: and_then_Ok_iff dest!: find_fact_in)

lemma validated_facts_bounded:
  assumes "validated_account_registry_quota_facts s t = Inr r"
  shows "0 \<le> t \<and> t \<le> max_account_registry_timestamp_micros"
    "p \<in> set r \<Longrightarrow> wf_observation (fst p) \<and> wf_observation (snd p)"
proof -
  have wf: "wf_snapshot s t" using assms validated_facts_cases by blast
  then show "0 \<le> t \<and> t \<le> max_account_registry_timestamp_micros" by (auto simp: wf_snapshot_def)
  have "collect_facts_by_member (rs_quota_facts s) (rs_members s) = Inr r"
    using assms by (auto simp: validated_account_registry_quota_facts_def and_then_Ok_iff)
  then show "wf_observation (fst p) \<and> wf_observation (snd p)" if "p \<in> set r"
    using collected_facts_in that wf by (auto simp: wf_snapshot_def wf_facts_def wf_fact_def)
qed

lemma classify_fact_checked_eq:
  assumes "0 \<le> t" "t \<le> max_account_registry_timestamp_micros" "wf_observation f"
  shows "classify_fact_checked m t f acc = Inr (classify_fact m t f acc)"
  using assms
  by (cases "qf_observation f")
     (auto simp: classify_fact_checked_def classify_fact_def Let_def checked_sub_i64_def wf_observation_def
        max_account_registry_timestamp_micros_def)

lemma classify_members_checked_eq:
  assumes "0 \<le> t" "t \<le> max_account_registry_timestamp_micros"
    and "\<forall>p \<in> set facts. wf_observation (fst p) \<and> wf_observation (snd p)"
  shows "classify_members_checked t (zip ms facts) = Inr (map2 (\<lambda>m f. classify_account_registry_member m f t) ms facts)"
proof -
  have member: "classify_member_checked m p t = Inr (classify_account_registry_member m p t)"
    if "wf_observation (fst p) \<and> wf_observation (snd p)" for m p
    using that classify_fact_checked_eq [OF assms(1,2)]
    by (simp add: classify_member_checked_def classify_account_registry_member_def Let_def)
  have all: "classify_members_checked t ps = Inr (map (\<lambda>(m, f). classify_account_registry_member m f t) ps)"
    if "\<forall>q \<in> set ps. wf_observation (fst (snd q)) \<and> wf_observation (snd (snd q))" for ps
    using that by (induction ps) (auto simp: member)
  show ?thesis by (rule all) (use assms(3) in \<open>fastforce dest: set_zip_rightD\<close>)
qed

lemma index_all_subset: "index_all xs is = Inr ys \<Longrightarrow> set ys \<subseteq> set xs"
  by (induction "is" arbitrary: ys) (auto simp: and_then_Ok_iff index_def split: if_splits)

text \<open>
  C18. No overflow. On every snapshot and at every instant, canonical or not, the kernel whose freshness
  subtraction \<^verbatim>\<open>decided_at_micros - observed_at\<close> panics outside 64 bits returns what the kernel over
  unbounded integers returns, decision or error: the timestamp checks of the validation come first and
  bound both operands, so no build ever panics or wraps there.
\<close>

theorem kernel_never_overflows:
  "decide_routing_checked s t = decide_account_registry_routing s t"
proof (cases "validated_account_registry_quota_facts s t")
  case (Inr r)
  have bounded: "0 \<le> t" "t \<le> max_account_registry_timestamp_micros"
    and wf: "\<forall>p \<in> set r. wf_observation (fst p) \<and> wf_observation (snd p)"
    using validated_facts_bounded [OF Inr] by auto
  have checked: "\<forall>ms. classify_members_checked t (zip ms fs) = Inr (map2 (\<lambda>m f. classify_account_registry_member m f t) ms fs)"
    if "index_all r is = Inr fs" for "is" fs
    using index_all_subset [OF that] wf by (intro allI classify_members_checked_eq [OF bounded]) blast
  show ?thesis
    unfolding decide_routing_checked_def decide_account_registry_routing_def Inr and_then_simps
    by (intro and_then_cong refl) (drule checked, simp add: Let_def)
qed (simp add: decide_routing_checked_def decide_account_registry_routing_def)

text \<open>
  An account selected by the fallback pass does carry causes: with both observations missing
  the only member is selected although its own evaluation lists two.
\<close>

lemma fallback_selection_has_causes:
  "decide_account_registry_routing unobserved_account 1000000000 =
     Inr \<lparr>rd_snapshot_id = ''s'', rd_kind = Selected, rd_selected_account_id = Some account_a,
       rd_exclusions = [], rd_causes = []\<rparr>"
  "capacity_of unobserved_account 1000000000 (sample_member 1 account_a) =
     Unknown [\<lparr>dc_account_id = account_a, dc_blocker = QuotaFiveHourMissing\<rparr>,
              \<lparr>dc_account_id = account_a, dc_blocker = QuotaSevenDayMissing\<rparr>]"
  by (code_simp, code_simp)

end
