(* ===== verification/Context_Data.thy ===== *)
theory Context_Data
  imports Hex_Text
begin

text \<open>
  The data of \<^verbatim>\<open>conversation.rs\<close>: identities, the closed enums, media types, normalized
  metadata and payloads, artifact references, and the sources and policy a Context Pack is
  compiled from. A parameter \<open>digest\<close> stands for \<^verbatim>\<open>BlobHash::digest\<close> (SHA-256 of the
  \<^verbatim>\<open>sha2\<close> crate) and \<open>credential_pattern\<close> for the compiled regular expression (the
  \<^verbatim>\<open>regex\<close> crate).
\<close>

section \<open>Errors and identities\<close>

datatype conversation_error =
    InvalidIdentity string
  | InvalidBound string
  | InvalidRevision string
  | PayloadRequiresBlob
  | InvalidBlobReference
  | CredentialRejected
  | InvalidContextPolicy
  | MissingPinnedSource

datatype conversation_id = ConversationId (conversation_id_text: string)
datatype runtime_session_id = RuntimeSessionId (runtime_session_id_text: string)
datatype turn_id = TurnId (turn_id_text: string)
datatype history_item_id = HistoryItemId (history_item_id_text: string)
datatype artifact_id = ArtifactId (artifact_id_text: string)

text \<open>The body of the macro \<^verbatim>\<open>domain_id!\<close>, and its five uses.\<close>

definition domain_id_new :: "(string \<Rightarrow> 'a) \<Rightarrow> string \<Rightarrow> string \<Rightarrow> conversation_error + 'a" where
  "domain_id_new wrap label value =
     (if \<not> is_canonical_uuid value then Inl (InvalidIdentity label) else Inr (wrap value))"

definition conversation_id_new :: "string \<Rightarrow> conversation_error + conversation_id" where
  "conversation_id_new = domain_id_new ConversationId ''conversation''"

definition runtime_session_id_new :: "string \<Rightarrow> conversation_error + runtime_session_id" where
  "runtime_session_id_new = domain_id_new RuntimeSessionId ''runtime session''"

definition turn_id_new :: "string \<Rightarrow> conversation_error + turn_id" where
  "turn_id_new = domain_id_new TurnId ''turn''"

definition history_item_id_new :: "string \<Rightarrow> conversation_error + history_item_id" where
  "history_item_id_new = domain_id_new HistoryItemId ''history item''"

definition artifact_id_new :: "string \<Rightarrow> conversation_error + artifact_id" where
  "artifact_id_new = domain_id_new ArtifactId ''artifact''"

interpretation conversation_id: validated_text is_canonical_uuid conversation_id_new
    conversation_id_text "InvalidIdentity ''conversation''"
  by unfold_locales (auto simp: conversation_id_new_def domain_id_new_def conversation_id.expand)

interpretation artifact_id: validated_text is_canonical_uuid artifact_id_new
    artifact_id_text "InvalidIdentity ''artifact''"
  by unfold_locales (auto simp: artifact_id_new_def domain_id_new_def artifact_id.expand)

section \<open>Bounds\<close>

definition max_provider_thread_id_bytes :: usize where "max_provider_thread_id_bytes = 512"
definition max_inline_history_bytes :: usize where "max_inline_history_bytes = 16 * 1024"
definition max_history_metadata_fields :: usize where "max_history_metadata_fields = 32"
definition max_history_metadata_key_bytes :: usize where "max_history_metadata_key_bytes = 64"
definition max_history_metadata_value_bytes :: usize where "max_history_metadata_value_bytes = 256"
definition max_context_pack_bytes :: usize where "max_context_pack_bytes = 256 * 1024"
definition min_context_pack_bytes :: usize where "min_context_pack_bytes = 1024"
definition max_context_recent_items :: usize where "max_context_recent_items = 256"
definition max_context_sources :: usize where "max_context_sources = 512"
definition max_context_source_input_bytes :: usize where
  "max_context_source_input_bytes = 2 * 1024 * 1024"
definition max_blob_bytes :: usize where "max_blob_bytes = 64 * 1024 * 1024"

lemmas context_bounds = max_context_pack_bytes_def min_context_pack_bytes_def
  max_context_recent_items_def max_context_sources_def max_context_source_input_bytes_def

section \<open>Closed enums\<close>

datatype runtime_session_state = SessionStarting | SessionActive | SessionEnded | SessionDiverged
datatype turn_role = User | Assistant | System | Tool
datatype possible_side_effects = EffectsNone | EffectsPossible | EffectsUnknown
datatype history_item_kind = Message | Reasoning | ToolCall | ToolResult | ArtifactItem | Status
datatype item_status = Streaming | ItemCompleted | ItemFailed
datatype turn_status = TurnActive | TurnCompleted | TurnFailed
datatype artifact_status = ArtifactActive | ArtifactExpired | ArtifactDeleted

datatype context_source_kind =
    PinnedRevision
  | RepositoryInstructions
  | OpenWiki
  | Decision
  | Fact
  | ArtifactSource
  | RecentRaw

datatype context_source_disposition = Complete | Truncated | Omitted

section \<open>Media types and metadata\<close>

text \<open>\<^verbatim>\<open>value.split_once('/')\<close>: the text before and after the first slash.\<close>

definition split_once_slash :: "string \<Rightarrow> (string \<times> string) option" where
  "split_once_slash value =
     (case dropWhile (\<lambda>c. c \<noteq> CHR ''/'') value of
        [] \<Rightarrow> None
      | _ # rest \<Rightarrow> Some (takeWhile (\<lambda>c. c \<noteq> CHR ''/'') value, rest))"

definition is_canonical_media_type :: "string \<Rightarrow> bool" where
  "is_canonical_media_type value \<longleftrightarrow>
     length value \<le> 128 \<and>
     (case split_once_slash value of
        None \<Rightarrow> False
      | Some (type_name, subtype) \<Rightarrow>
          type_name \<noteq> [] \<and> subtype \<noteq> [] \<and>
          list_all (\<lambda>byte. is_ascii_alphanumeric byte \<or> byte \<in> set ''!#$&^_.+-'') (type_name @ subtype))"

datatype history_media_type = HistoryMediaType (media_type_text: string)

definition history_media_type_new :: "string \<Rightarrow> conversation_error + history_media_type" where
  "history_media_type_new value =
     (if \<not> is_canonical_media_type value then Inl (InvalidBound ''history media type'')
      else Inr (HistoryMediaType value))"

interpretation history_media_type: validated_text is_canonical_media_type history_media_type_new
    media_type_text "InvalidBound ''history media type''"
  by unfold_locales (auto simp: history_media_type_new_def history_media_type.expand)

definition to_ascii_lowercase :: "char \<Rightarrow> char" where
  "to_ascii_lowercase c = (if 65 \<le> code c \<and> code c \<le> 90 then char_of (code c + 32) else c)"

definition ends_with :: "string \<Rightarrow> string \<Rightarrow> bool" where
  "ends_with s suffix \<longleftrightarrow> length suffix \<le> length s \<and> drop (length s - length suffix) s = suffix"

definition credential_key_suffixes :: "string list" where
  "credential_key_suffixes =
     [''credential'', ''credentials'', ''password'', ''passphrase'', ''privatekey'', ''secret'',
      ''authorization'', ''bearer'', ''apikey'', ''cookie'', ''token'', ''session'']"

definition is_credential_metadata_key :: "string \<Rightarrow> bool" where
  "is_credential_metadata_key key =
     (let normalized = map to_ascii_lowercase (filter is_ascii_alphanumeric key)
      in list_ex (ends_with normalized) credential_key_suffixes)"

text \<open>
  \<^verbatim>\<open>normalize_credential_scan_text\<close> on UTF-8 bytes: the listed white space characters become
  one blank each (the multi-byte ones are two or three bytes of the text), capital ASCII
  letters become small, every other byte stays.
\<close>

fun normalize_credential_scan_text :: "string \<Rightarrow> string" where
  "normalize_credential_scan_text [] = []"
| "normalize_credential_scan_text (c # cs) =
     (let n = code c in
      if 9 \<le> n \<and> n \<le> 13 \<or> n = 32 then CHR '' '' # normalize_credential_scan_text cs
      else if n = 0xC2 \<and> cs \<noteq> [] \<and> (code (hd cs) = 0x85 \<or> code (hd cs) = 0xA0)
      then CHR '' '' # normalize_credential_scan_text (tl cs)
      else if 2 \<le> length cs \<and>
          (n = 0xE1 \<and> code (cs ! 0) = 0x9A \<and> code (cs ! 1) = 0x80 \<or>
           n = 0xE2 \<and> code (cs ! 0) = 0x80 \<and>
             (0x80 \<le> code (cs ! 1) \<and> code (cs ! 1) \<le> 0x8A \<or> code (cs ! 1) = 0xA8 \<or>
              code (cs ! 1) = 0xA9 \<or> code (cs ! 1) = 0xAF) \<or>
           n = 0xE2 \<and> code (cs ! 0) = 0x81 \<and> code (cs ! 1) = 0x9F \<or>
           n = 0xE3 \<and> code (cs ! 0) = 0x80 \<and> code (cs ! 1) = 0x80)
      then CHR '' '' # normalize_credential_scan_text (drop 2 cs)
      else to_ascii_lowercase c # normalize_credential_scan_text cs)"

definition contains_credential_material :: "(string \<Rightarrow> bool) \<Rightarrow> string \<Rightarrow> bool" where
  "contains_credential_material credential_pattern value =
     credential_pattern (normalize_credential_scan_text value)"

datatype history_metadata_value = MetadataText string | MetadataBoolean bool

text \<open>The \<^verbatim>\<open>BTreeMap\<close> as its entries in key order, the order its iterator yields.\<close>

datatype history_metadata = HistoryMetadata (metadata_entries: "(string \<times> history_metadata_value) list")

definition validate_metadata_entry ::
    "(string \<Rightarrow> bool) \<Rightarrow> string \<times> history_metadata_value \<Rightarrow> conversation_error + unit" where
  "validate_metadata_entry credential_pattern entry =
     (let key = fst entry in
      if key = [] \<or> length key > max_history_metadata_key_bytes
      then Inl (InvalidBound ''history metadata key'')
      else if is_credential_metadata_key key then Inl CredentialRejected
      else case snd entry of
        MetadataText txt \<Rightarrow>
          if length txt > max_history_metadata_value_bytes
          then Inl (InvalidBound ''history metadata value'')
          else if contains_credential_material credential_pattern txt then Inl CredentialRejected
          else Inr ()
      | MetadataBoolean _ \<Rightarrow> Inr ())"

definition history_metadata_new ::
    "(string \<Rightarrow> bool) \<Rightarrow> (string \<times> history_metadata_value) list \<Rightarrow>
     conversation_error + history_metadata" where
  "history_metadata_new credential_pattern values =
     (if length values > max_history_metadata_fields
      then Inl (InvalidBound ''history metadata fields'')
      else and_then (each (\<lambda>_. validate_metadata_entry credential_pattern) [] values)
             (\<lambda>_. Inr (HistoryMetadata values)))"

definition history_metadata_empty :: history_metadata where
  "history_metadata_empty = HistoryMetadata []"

end
