(* ===== verification/Context_Source.thy ===== *)
theory Context_Source
  imports Context_Data
begin

text \<open>
  Payloads, artifact references, and the inputs of Context Pack compilation: sources, the
  mandatory pinned source, the policy, and the well-formedness their constructors establish.
\<close>

definition validate_nonempty :: "string \<Rightarrow> usize \<Rightarrow> string \<Rightarrow> conversation_error + unit" where
  "validate_nonempty value max_bytes field =
     (if value = [] \<or> length value > max_bytes then Inl (InvalidBound field) else Inr ())"

definition validate_revision :: "64 word \<Rightarrow> string \<Rightarrow> conversation_error + unit" where
  "validate_revision value field = (if value = 0 then Inl (InvalidRevision field) else Inr ())"

section \<open>Payloads\<close>

record artifact_reference =
  art_hash :: blob_hash
  art_byte_length :: "64 word"
  art_media_type :: history_media_type

definition artifact_reference_new ::
    "blob_hash \<Rightarrow> 64 word \<Rightarrow> string \<Rightarrow> conversation_error + artifact_reference" where
  "artifact_reference_new hash byte_length media_type =
     and_then (history_media_type_new media_type) (\<lambda>media_type.
       if byte_length = 0 \<or> byte_length > of_nat max_blob_bytes then Inl InvalidBlobReference
       else Inr \<lparr>art_hash = hash, art_byte_length = byte_length, art_media_type = media_type\<rparr>)"

datatype normalized_payload =
    Inline string history_media_type history_metadata
  | BlobPayload artifact_reference history_metadata

definition payload_inline ::
    "string \<Rightarrow> history_media_type \<Rightarrow> history_metadata \<Rightarrow> conversation_error + normalized_payload" where
  "payload_inline value media_type metadata =
     (if length value > max_inline_history_bytes then Inl PayloadRequiresBlob
      else Inr (Inline value media_type metadata))"

section \<open>Sources\<close>

text \<open>
  \<open>digest\<close> is \<^verbatim>\<open>BlobHash::digest\<close>. A revision is the code's \<^verbatim>\<open>u64\<close>; a byte length is a
  natural number, since every length the code accepts is at most two mebibytes.
\<close>

record context_pack_source =
  cs_kind :: context_source_kind
  cs_source_id :: string
  cs_revision :: "64 word"
  cs_content :: "byte list"
  cs_content_digest :: blob_hash
  cs_artifact :: "(artifact_id \<times> 64 word) option"

definition source_build ::
    "(byte list \<Rightarrow> blob_hash) \<Rightarrow> context_source_kind \<Rightarrow> string \<Rightarrow> 64 word \<Rightarrow> byte list \<Rightarrow>
     (artifact_id \<times> 64 word) option \<Rightarrow> conversation_error + context_pack_source" where
  "source_build digest kind source_id revision content artifact =
     and_then (validate_nonempty source_id 256 ''context source identity'') (\<lambda>_.
     and_then (validate_revision revision ''context source'') (\<lambda>_.
       if length content > max_context_source_input_bytes
       then Inl (InvalidBound ''context source content'')
       else Inr \<lparr>cs_kind = kind, cs_source_id = source_id, cs_revision = revision,
              cs_content = content, cs_content_digest = digest content, cs_artifact = artifact\<rparr>))"

definition context_pack_source_new ::
    "(byte list \<Rightarrow> blob_hash) \<Rightarrow> context_source_kind \<Rightarrow> string \<Rightarrow> 64 word \<Rightarrow> byte list \<Rightarrow>
     conversation_error + context_pack_source" where
  "context_pack_source_new digest kind source_id revision content =
     (if kind = ArtifactSource then Inl (InvalidBound ''typed artifact source'')
      else source_build digest kind source_id revision content None)"

definition context_pack_source_artifact ::
    "(byte list \<Rightarrow> blob_hash) \<Rightarrow> artifact_id \<Rightarrow> 64 word \<Rightarrow> byte list \<Rightarrow>
     conversation_error + context_pack_source" where
  "context_pack_source_artifact digest artifact artifact_revision content =
     source_build digest ArtifactSource (artifact_id_text artifact) artifact_revision content
       (Some (artifact, artifact_revision))"

datatype pinned_context_source = PinnedContextSource (pinned_source: context_pack_source)

definition pinned_context_source_new ::
    "(byte list \<Rightarrow> blob_hash) \<Rightarrow> string \<Rightarrow> 64 word \<Rightarrow> byte list \<Rightarrow>
     conversation_error + pinned_context_source" where
  "pinned_context_source_new digest source_id revision content =
     and_then (context_pack_source_new digest PinnedRevision source_id revision content) (\<lambda>source.
       if cs_content source = [] then Inl (InvalidBound ''pinned source content'')
       else Inr (PinnedContextSource source))"

section \<open>Policy and input\<close>

record context_pack_policy =
  pol_max_bytes :: usize
  pol_recent_item_limit :: usize

definition context_pack_policy_new :: "usize \<Rightarrow> usize \<Rightarrow> conversation_error + context_pack_policy" where
  "context_pack_policy_new max_bytes recent_item_limit =
     (if \<not> (min_context_pack_bytes \<le> max_bytes \<and> max_bytes \<le> max_context_pack_bytes)
         \<or> recent_item_limit = 0
         \<or> recent_item_limit > max_context_recent_items
      then Inl InvalidContextPolicy
      else Inr \<lparr>pol_max_bytes = max_bytes, pol_recent_item_limit = recent_item_limit\<rparr>)"

definition policy_validate :: "context_pack_policy \<Rightarrow> conversation_error + unit" where
  "policy_validate policy =
     and_then (context_pack_policy_new (pol_max_bytes policy) (pol_recent_item_limit policy))
       (\<lambda>_. Inr ())"

record context_pack_input =
  cin_conversation_id :: conversation_id
  cin_possible_side_effects :: possible_side_effects
  cin_policy :: context_pack_policy
  cin_pinned :: pinned_context_source
  cin_optional_sources :: "context_pack_source list"

section \<open>What the constructors establish\<close>

definition wf_source :: "(byte list \<Rightarrow> blob_hash) \<Rightarrow> context_pack_source \<Rightarrow> bool" where
  "wf_source digest s \<longleftrightarrow>
     cs_source_id s \<noteq> [] \<and> length (cs_source_id s) \<le> 256 \<and> cs_revision s \<noteq> 0 \<and>
     length (cs_content s) \<le> max_context_source_input_bytes \<and>
     cs_content_digest s = digest (cs_content s) \<and>
     (case cs_artifact s of
        None \<Rightarrow> cs_kind s \<noteq> ArtifactSource
      | Some (a, r) \<Rightarrow> cs_kind s = ArtifactSource \<and> artifact_id_text a = cs_source_id s \<and> r = cs_revision s)"

definition wf_policy :: "context_pack_policy \<Rightarrow> bool" where
  "wf_policy p \<longleftrightarrow> min_context_pack_bytes \<le> pol_max_bytes p \<and> pol_max_bytes p \<le> max_context_pack_bytes \<and>
     0 < pol_recent_item_limit p \<and> pol_recent_item_limit p \<le> max_context_recent_items"

definition wf_pinned :: "(byte list \<Rightarrow> blob_hash) \<Rightarrow> pinned_context_source \<Rightarrow> bool" where
  "wf_pinned digest p \<longleftrightarrow> wf_source digest (pinned_source p) \<and>
     cs_kind (pinned_source p) = PinnedRevision \<and> cs_content (pinned_source p) \<noteq> []"

lemma validate_nonempty_Ok_iff [simp]:
  "validate_nonempty s n f = Inr u \<longleftrightarrow> s \<noteq> [] \<and> length s \<le> n"
  by (auto simp: validate_nonempty_def)

lemma validate_revision_Ok_iff [simp]: "validate_revision r f = Inr u \<longleftrightarrow> r \<noteq> 0"
  by (simp add: validate_revision_def)

lemma source_build_Ok:
  "source_build d k i r c a = Inr s \<longleftrightarrow> i \<noteq> [] \<and> length i \<le> 256 \<and> r \<noteq> 0 \<and>
     length c \<le> max_context_source_input_bytes \<and>
     s = \<lparr>cs_kind = k, cs_source_id = i, cs_revision = r, cs_content = c, cs_content_digest = d c,
          cs_artifact = a\<rparr>"
  by (auto simp: source_build_def and_then_Ok_iff)

lemma context_pack_source_new_wf:
  "context_pack_source_new d k i r c = Inr s \<Longrightarrow> wf_source d s \<and> cs_kind s = k \<and> cs_content s = c"
  by (auto simp: context_pack_source_new_def source_build_Ok wf_source_def split: if_splits)

lemma context_pack_source_artifact_wf:
  "context_pack_source_artifact d a r c = Inr s \<Longrightarrow> wf_source d s \<and> cs_kind s = ArtifactSource"
  by (auto simp: context_pack_source_artifact_def source_build_Ok wf_source_def)

lemma pinned_context_source_new_wf: "pinned_context_source_new d i r c = Inr p \<Longrightarrow> wf_pinned d p"
  by (auto simp: pinned_context_source_new_def and_then_Ok_iff wf_pinned_def split: if_splits
      dest!: context_pack_source_new_wf)

lemma context_pack_policy_new_Ok_iff:
  "context_pack_policy_new m l = Inr p \<longleftrightarrow>
     wf_policy p \<and> p = \<lparr>pol_max_bytes = m, pol_recent_item_limit = l\<rparr>"
  by (auto simp: context_pack_policy_new_def wf_policy_def)

lemma policy_validate_Ok_iff [simp]: "policy_validate p = Inr u \<longleftrightarrow> wf_policy p"
  by (auto simp: policy_validate_def and_then_Ok_iff context_pack_policy_new_Ok_iff wf_policy_def)

lemma policy_validate_wf [simp]: "wf_policy p \<Longrightarrow> policy_validate p = Inr ()"
  by simp

lemma policy_validate_Err: "policy_validate p = Inl e \<Longrightarrow> e = InvalidContextPolicy"
  by (auto simp: policy_validate_def context_pack_policy_new_def split: if_splits)

end
