(* ===== verification/Byte_Codec.thy ===== *)
theory Byte_Codec
  imports Context_Data
begin

text \<open>
  Big-endian integers and the cursor that reads them: \<^verbatim>\<open>to_be_bytes\<close>, \<^verbatim>\<open>from_be_bytes\<close>, and
  the helpers \<^verbatim>\<open>push_u16\<close>, \<^verbatim>\<open>push_u32\<close>, \<^verbatim>\<open>push_bytes_u16\<close>, \<^verbatim>\<open>read_u16\<close> and \<^verbatim>\<open>read_u32\<close> of
  \<^verbatim>\<open>conversation.rs\<close>. A reader returns the value and the cursor behind it.
\<close>

section \<open>Big-endian bytes\<close>

primrec be_bytes :: "nat \<Rightarrow> nat \<Rightarrow> byte list" where
  "be_bytes 0 n = []"
| "be_bytes (Suc w) n = be_bytes w (n div 256) @ [of_nat n]"

definition be_value :: "byte list \<Rightarrow> nat" where
  "be_value bs = foldl (\<lambda>v b. v * 256 + unat b) 0 bs"

lemma be_bytes_length [simp]: "length (be_bytes w n) = w"
  by (induction w arbitrary: n) simp_all

lemma be_value_snoc [simp]: "be_value (bs @ [b]) = be_value bs * 256 + unat b"
  by (simp add: be_value_def)

lemma be_value_Nil [simp]: "be_value [] = 0"
  by (simp add: be_value_def)

lemma unat_of_nat_byte: "unat (of_nat n :: byte) = n mod 256"
  by (simp add: unat_of_nat)

lemma unat_byte_less: "unat (b :: byte) < 256"
  using unsigned_less [of b, where 'a = nat] by simp

lemma be_value_bytes: "n < 256 ^ w \<Longrightarrow> be_value (be_bytes w n) = n"
proof (induction w arbitrary: n)
  case (Suc w)
  have "n div 256 < 256 ^ w" using Suc.prems by (simp add: less_mult_imp_div_less mult.commute)
  then show ?case by (simp add: Suc.IH unat_of_nat_byte)
qed simp

lemma be_value_less: "be_value bs < 256 ^ length bs"
proof (induction bs rule: rev_induct)
  case (snoc b bs)
  have "be_value bs * 256 + unat b < (be_value bs + 1) * 256" using unat_byte_less [of b] by simp
  also have "\<dots> \<le> 256 ^ length bs * 256" using snoc.IH by (intro mult_right_mono) simp_all
  finally show ?case by (simp add: mult.commute)
qed simp

lemma be_bytes_value: "be_bytes (length bs) (be_value bs) = bs"
proof (induction bs rule: rev_induct)
  case (snoc b bs)
  have "(be_value bs * 256 + unat b) div 256 = be_value bs"
    using unat_byte_less [of b] by simp
  moreover have "of_nat (be_value bs * 256 + unat b) = b"
  proof (rule unsigned_word_eqI)
    show "unat (of_nat (be_value bs * 256 + unat b) :: byte) = unat b"
      by (simp only: unat_of_nat_byte mod_mult_self3 mod_less unat_byte_less)
  qed
  ultimately show ?case using snoc.IH by simp
qed simp

lemma be_fixed_width: "fixed_width w (256 ^ w) (be_bytes w) be_value"
  by unfold_locales (auto simp: be_value_bytes be_bytes_value intro: be_value_less)

interpretation be16: fixed_width 2 "256 ^ 2" "be_bytes 2" be_value by (rule be_fixed_width)
interpretation be32: fixed_width 4 "256 ^ 4" "be_bytes 4" be_value by (rule be_fixed_width)
interpretation be64: fixed_width 8 "256 ^ 8" "be_bytes 8" be_value by (rule be_fixed_width)

section \<open>Text as bytes\<close>

definition bytes_of :: "string \<Rightarrow> byte list" where
  "bytes_of s = map byte_of s"

lemma bytes_of_length [simp]: "length (bytes_of s) = length s"
  by (simp add: bytes_of_def)

lemma byte_of_inject: "byte_of c = byte_of d \<longleftrightarrow> c = d"
proof
  assume "byte_of c = byte_of d"
  then have "unat (byte_of c) = unat (byte_of d)" by simp
  then have "code c mod 256 = code d mod 256" by (simp add: byte_of_def unat_of_nat)
  then show "c = d" by (simp add: of_char_mod_256)
qed simp

lemma bytes_of_inject: "bytes_of s = bytes_of t \<longleftrightarrow> s = t"
  by (simp add: bytes_of_def inj_map_eq_map inj_def byte_of_inject)

section \<open>Writers\<close>

definition push_u16 :: "byte list \<Rightarrow> nat \<Rightarrow> conversation_error + byte list" where
  "push_u16 bytes value =
     (if value < 2 ^ 16 then Inr (bytes @ be_bytes 2 value) else Inl InvalidContextPolicy)"

definition push_u32 :: "byte list \<Rightarrow> nat \<Rightarrow> conversation_error + byte list" where
  "push_u32 bytes value =
     (if value < 2 ^ 32 then Inr (bytes @ be_bytes 4 value) else Inl InvalidContextPolicy)"

definition push_bytes_u16 :: "byte list \<Rightarrow> byte list \<Rightarrow> conversation_error + byte list" where
  "push_bytes_u16 bytes value = and_then (push_u16 bytes (length value)) (\<lambda>bytes. Inr (bytes @ value))"

lemma push_u16_Ok [simp]: "n < 2 ^ 16 \<Longrightarrow> push_u16 bs n = Inr (bs @ be_bytes 2 n)"
  by (simp add: push_u16_def)

lemma push_u32_Ok [simp]: "n < 2 ^ 32 \<Longrightarrow> push_u32 bs n = Inr (bs @ be_bytes 4 n)"
  by (simp add: push_u32_def)

lemma push_u16_Ok_iff: "push_u16 bs n = Inr cs \<longleftrightarrow> n < 2 ^ 16 \<and> cs = bs @ be_bytes 2 n"
  by (auto simp: push_u16_def)

lemma push_u32_Ok_iff: "push_u32 bs n = Inr cs \<longleftrightarrow> n < 2 ^ 32 \<and> cs = bs @ be_bytes 4 n"
  by (auto simp: push_u32_def)

lemma push_bytes_u16_Ok_iff:
  "push_bytes_u16 bs v = Inr cs \<longleftrightarrow> length v < 2 ^ 16 \<and> cs = bs @ be_bytes 2 (length v) @ v"
  by (auto simp: push_bytes_u16_def and_then_Ok_iff push_u16_Ok_iff)

lemma push_Err:
  "push_u16 bs n = Inl e \<Longrightarrow> e = InvalidContextPolicy"
  "push_u32 bs n = Inl e \<Longrightarrow> e = InvalidContextPolicy"
  "push_bytes_u16 bs v = Inl e \<Longrightarrow> e = InvalidContextPolicy"
  by (auto simp: push_u16_def push_u32_def push_bytes_u16_def split: if_splits)

section \<open>Readers\<close>

text \<open>\<open>read_be w\<close> is the body of \<^verbatim>\<open>read_u16\<close> and \<^verbatim>\<open>read_u32\<close>, at widths 2 and 4.\<close>

definition read_be :: "nat \<Rightarrow> byte list \<Rightarrow> usize \<Rightarrow> conversation_error + nat \<times> usize" where
  "read_be w bytes cursor =
     (if cursor + w \<le> length bytes
      then Inr (be_value (take w (drop cursor bytes)), cursor + w)
      else Inl InvalidContextPolicy)"

definition read_u16 :: "byte list \<Rightarrow> usize \<Rightarrow> conversation_error + nat \<times> usize" where
  "read_u16 = read_be 2"

definition read_u32 :: "byte list \<Rightarrow> usize \<Rightarrow> conversation_error + nat \<times> usize" where
  "read_u32 = read_be 4"

lemma read_be_Ok_iff:
  "read_be w bs c = Inr (n, c') \<longleftrightarrow>
     c' = c + w \<and> c' \<le> length bs \<and> take w (drop c bs) = be_bytes w n \<and> n < 256 ^ w"
proof -
  have "take w (drop c bs) = be_bytes w n \<and> n < 256 ^ w \<longleftrightarrow> n = be_value (take w (drop c bs))"
    if "c + w \<le> length bs"
  proof -
    have "length (take w (drop c bs)) = w" using that by simp
    then show ?thesis by (metis be_bytes_value be_value_bytes be_value_less)
  qed
  then show ?thesis by (auto simp: read_be_def)
qed

lemma read_be_append:
  "n < 256 ^ w \<Longrightarrow> c = length xs \<Longrightarrow> read_be w (xs @ be_bytes w n @ ys) c = Inr (n, c + w)"
  by (simp add: read_be_Ok_iff)

lemma read_be_Err: "read_be w bs c = Inl e \<Longrightarrow> e = InvalidContextPolicy"
  by (simp add: read_be_def split: if_splits)

lemmas read_simps = read_u16_def read_u32_def

end
