(* ===== verification/Context_Pack.thy ===== *)
theory Context_Pack
  imports Context_Source Byte_Codec
begin

text \<open>
  Context Packs, \<^verbatim>\<open>conversation.rs\<close>: the source manifest and its canonical relations, the
  digest of the manifest, the compiled encoding, its verification, reconstruction from
  persistence, and the compiler. \<open>digest\<close> is \<^verbatim>\<open>BlobHash::digest\<close> throughout.
\<close>

section \<open>Source manifest\<close>

record context_source_manifest =
  cm_kind :: context_source_kind
  cm_source_id :: string
  cm_revision :: "64 word"
  cm_content_digest :: blob_hash
  cm_original_byte_length :: nat
  cm_included_byte_length :: nat
  cm_included_digest :: blob_hash
  cm_disposition :: context_source_disposition
  cm_artifact :: "(artifact_id \<times> 64 word) option"

definition canonical_disposition :: "(byte list \<Rightarrow> blob_hash) \<Rightarrow> context_source_manifest \<Rightarrow> bool" where
  "canonical_disposition digest m =
     (case cm_disposition m of
        Complete \<Rightarrow> cm_original_byte_length m > 0
          \<and> cm_included_byte_length m = cm_original_byte_length m
          \<and> cm_included_digest m = cm_content_digest m
      | Truncated \<Rightarrow> cm_included_byte_length m > 0
          \<and> cm_included_byte_length m < cm_original_byte_length m
      | Omitted \<Rightarrow> cm_included_byte_length m = 0 \<and> cm_included_digest m = digest [])"

definition canonical_artifact :: "context_source_manifest \<Rightarrow> bool" where
  "canonical_artifact m =
     (case (cm_kind m, cm_artifact m) of
        (ArtifactSource, Some (artifact, revision)) \<Rightarrow>
          artifact_id_text artifact = cm_source_id m \<and> revision = cm_revision m
      | (ArtifactSource, None) \<Rightarrow> False
      | (_, Some _) \<Rightarrow> False
      | (_, None) \<Rightarrow> True)"

definition manifest_validate ::
    "(byte list \<Rightarrow> blob_hash) \<Rightarrow> context_source_manifest \<Rightarrow> conversation_error + unit" where
  "manifest_validate digest m =
     and_then (validate_nonempty (cm_source_id m) 256 ''context source identity'') (\<lambda>_.
     and_then (validate_revision (cm_revision m) ''context source'') (\<lambda>_.
       if cm_original_byte_length m > max_context_source_input_bytes
           \<or> cm_included_byte_length m > cm_original_byte_length m
       then Inl InvalidContextPolicy
       else if \<not> canonical_disposition digest m \<or> \<not> canonical_artifact m
       then Inl InvalidContextPolicy
       else Inr ()))"

definition manifest_from_persisted ::
    "(byte list \<Rightarrow> blob_hash) \<Rightarrow> context_source_kind \<Rightarrow> string \<Rightarrow> 64 word \<Rightarrow> blob_hash \<Rightarrow> nat \<Rightarrow> nat \<Rightarrow>
     blob_hash \<Rightarrow> context_source_disposition \<Rightarrow> (artifact_id \<times> 64 word) option \<Rightarrow>
     conversation_error + context_source_manifest" where
  "manifest_from_persisted digest kind source_id revision content_digest original_byte_length
       included_byte_length included_digest disposition artifact =
     (let manifest = \<lparr>cm_kind = kind, cm_source_id = source_id, cm_revision = revision,
            cm_content_digest = content_digest, cm_original_byte_length = original_byte_length,
            cm_included_byte_length = included_byte_length, cm_included_digest = included_digest,
            cm_disposition = disposition, cm_artifact = artifact\<rparr>
      in and_then (manifest_validate digest manifest) (\<lambda>_. Inr manifest))"

definition source_manifest ::
    "(byte list \<Rightarrow> blob_hash) \<Rightarrow> context_pack_source \<Rightarrow> usize \<Rightarrow>
     conversation_error + context_source_manifest" where
  "source_manifest digest source included_length =
     manifest_from_persisted digest (cs_kind source) (cs_source_id source) (cs_revision source)
       (cs_content_digest source) (length (cs_content source)) included_length
       (digest (take included_length (cs_content source)))
       (if included_length = 0 then Omitted
        else if included_length = length (cs_content source) then Complete
        else Truncated)
       (cs_artifact source)"

section \<open>Tags and the manifest digest\<close>

fun context_kind_tag :: "context_source_kind \<Rightarrow> byte" where
  "context_kind_tag PinnedRevision = 0"
| "context_kind_tag RepositoryInstructions = 1"
| "context_kind_tag OpenWiki = 2"
| "context_kind_tag Decision = 3"
| "context_kind_tag Fact = 4"
| "context_kind_tag ArtifactSource = 5"
| "context_kind_tag RecentRaw = 6"

fun side_effect_tag :: "possible_side_effects \<Rightarrow> byte" where
  "side_effect_tag EffectsNone = 0"
| "side_effect_tag EffectsPossible = 1"
| "side_effect_tag EffectsUnknown = 2"

fun disposition_tag :: "context_source_disposition \<Rightarrow> byte" where
  "disposition_tag Complete = 0"
| "disposition_tag Truncated = 1"
| "disposition_tag Omitted = 2"

fun try_fold :: "('b \<Rightarrow> 'a \<Rightarrow> 'e + 'b) \<Rightarrow> 'b \<Rightarrow> 'a list \<Rightarrow> 'e + 'b" where
  "try_fold f acc [] = Inr acc"
| "try_fold f acc (x # xs) = and_then (f acc x) (\<lambda>acc. try_fold f acc xs)"

definition push_manifest_entry ::
    "byte list \<Rightarrow> context_source_manifest \<Rightarrow> conversation_error + byte list" where
  "push_manifest_entry bytes source =
     and_then (push_bytes_u16 (bytes @ [context_kind_tag (cm_kind source)])
       (bytes_of (cm_source_id source))) (\<lambda>bytes.
     Inr (bytes @ be_bytes 8 (unat (cm_revision source))
       @ bytes_of (to_hex (cm_content_digest source))
       @ be_bytes 8 (cm_original_byte_length source)
       @ be_bytes 8 (cm_included_byte_length source)
       @ bytes_of (to_hex (cm_included_digest source))
       @ [disposition_tag (cm_disposition source)]
       @ (case cm_artifact source of
            Some (artifact, revision) \<Rightarrow>
              [1] @ bytes_of (artifact_id_text artifact) @ be_bytes 8 (unat revision)
          | None \<Rightarrow> [0])))"

definition manifest_bytes ::
    "context_source_manifest list \<Rightarrow> conversation_error + byte list" where
  "manifest_bytes manifest =
     and_then (push_u16 [] (length manifest)) (\<lambda>bytes. try_fold push_manifest_entry bytes manifest)"

definition digest_manifest ::
    "(byte list \<Rightarrow> blob_hash) \<Rightarrow> context_source_manifest list \<Rightarrow> conversation_error + blob_hash" where
  "digest_manifest digest manifest = and_then (manifest_bytes manifest) (\<lambda>bytes. Inr (digest bytes))"

section \<open>Encoding\<close>

definition context_pack_magic :: "byte list" where
  "context_pack_magic = bytes_of ''decodex/context-pack/2'' @ [0]"

definition encoded_header_length :: usize where
  "encoded_header_length = length context_pack_magic + 36 + 1 + 4 + 2 + 2 + 64 + 1"

text \<open>The header that \<^verbatim>\<open>encode_pack\<close> writes and \<^verbatim>\<open>verify_pack_encoding\<close> rebuilds.\<close>

definition pack_header ::
    "conversation_id \<Rightarrow> possible_side_effects \<Rightarrow> context_pack_policy \<Rightarrow> usize \<Rightarrow> blob_hash \<Rightarrow> bool \<Rightarrow>
     conversation_error + byte list" where
  "pack_header conversation effects policy source_count manifest_digest truncated =
     and_then (push_u32 (context_pack_magic @ bytes_of (conversation_id_text conversation) @
         [side_effect_tag effects]) (pol_max_bytes policy)) (\<lambda>bytes.
     and_then (push_u16 bytes (pol_recent_item_limit policy)) (\<lambda>bytes.
     and_then (push_u16 bytes source_count) (\<lambda>bytes.
       Inr (bytes @ bytes_of (to_hex manifest_digest) @ [if truncated then 1 else 0]))))"

fun encode_sources ::
    "byte list \<Rightarrow> nat \<Rightarrow> (context_pack_source \<times> usize) list \<Rightarrow> conversation_error + byte list" where
  "encode_sources bytes position [] = Inr bytes"
| "encode_sources bytes position ((source, included) # rest) =
     (if included = 0 then encode_sources bytes (position + 1) rest
      else and_then (push_u16 bytes position) (\<lambda>bytes.
           and_then (push_u32 bytes included) (\<lambda>bytes.
             encode_sources (bytes @ take included (cs_content source)) (position + 1) rest)))"

definition encode_pack ::
    "conversation_id \<Rightarrow> possible_side_effects \<Rightarrow> context_pack_policy \<Rightarrow> blob_hash \<Rightarrow> bool \<Rightarrow>
     context_pack_source list \<Rightarrow> usize list \<Rightarrow> conversation_error + byte list" where
  "encode_pack conversation effects policy manifest_digest truncated sources represented =
     and_then (policy_validate policy) (\<lambda>_.
     and_then (pack_header conversation effects policy (length sources) manifest_digest truncated) (\<lambda>bytes.
     and_then (encode_sources bytes 0 (zip sources represented)) (\<lambda>bytes.
       if length bytes > pol_max_bytes policy then Inl InvalidContextPolicy else Inr bytes)))"

section \<open>The pack and its verification\<close>

record context_pack =
  cp_conversation_id :: conversation_id
  cp_possible_side_effects :: possible_side_effects
  cp_policy :: context_pack_policy
  cp_source_manifest :: "context_source_manifest list"
  cp_manifest_digest :: blob_hash
  cp_bytes :: "byte list"
  cp_digest :: blob_hash
  cp_omitted_source_count :: usize
  cp_truncated :: bool

definition count_omitted :: "context_source_manifest list \<Rightarrow> usize" where
  "count_omitted manifest = length (filter (\<lambda>source. cm_disposition source = Omitted) manifest)"

definition any_incomplete :: "context_source_manifest list \<Rightarrow> bool" where
  "any_incomplete manifest = list_ex (\<lambda>source. cm_disposition source \<noteq> Complete) manifest"

fun verify_sources ::
    "(byte list \<Rightarrow> blob_hash) \<Rightarrow> byte list \<Rightarrow> nat \<Rightarrow> usize \<Rightarrow> context_source_manifest list \<Rightarrow>
     conversation_error + usize" where
  "verify_sources digest bytes position cursor [] = Inr cursor"
| "verify_sources digest bytes position cursor (source # rest) =
     (if cm_included_byte_length source = 0
      then verify_sources digest bytes (position + 1) cursor rest
      else and_then (read_u16 bytes cursor) (\<lambda>(encoded_position, cursor).
           and_then (read_u32 bytes cursor) (\<lambda>(len, cursor).
             if encoded_position \<noteq> position \<or> len \<noteq> cm_included_byte_length source
                \<or> cursor + len > length bytes
             then Inl InvalidContextPolicy
             else if digest (take len (drop cursor bytes)) \<noteq> cm_included_digest source
             then Inl InvalidContextPolicy
             else verify_sources digest bytes (position + 1) (cursor + len) rest)))"

definition starts_with :: "byte list \<Rightarrow> byte list \<Rightarrow> bool" where
  "starts_with bytes prefix \<longleftrightarrow> take (length prefix) bytes = prefix"

definition verify_pack_encoding ::
    "(byte list \<Rightarrow> blob_hash) \<Rightarrow> context_pack \<Rightarrow> conversation_error + unit" where
  "verify_pack_encoding digest pack =
     and_then (pack_header (cp_conversation_id pack) (cp_possible_side_effects pack) (cp_policy pack)
         (length (cp_source_manifest pack)) (cp_manifest_digest pack) (cp_truncated pack)) (\<lambda>expected_prefix.
     if \<not> starts_with (cp_bytes pack) expected_prefix then Inl InvalidContextPolicy
     else and_then (verify_sources digest (cp_bytes pack) 0 (length expected_prefix)
            (cp_source_manifest pack)) (\<lambda>cursor.
       if cursor \<noteq> length (cp_bytes pack)
          \<or> cp_omitted_source_count pack \<noteq> count_omitted (cp_source_manifest pack)
       then Inl InvalidContextPolicy else Inr ()))"

definition pinned_is_complete :: "context_source_manifest list \<Rightarrow> bool" where
  "pinned_is_complete manifest =
     (case manifest of [] \<Rightarrow> False
      | source # _ \<Rightarrow> cm_kind source = PinnedRevision \<and> cm_disposition source = Complete
          \<and> cm_included_byte_length source > 0 \<and> cm_artifact source = None)"

definition source_order_is_canonical :: "context_source_manifest list \<Rightarrow> bool" where
  "source_order_is_canonical manifest =
     list_all (\<lambda>(a, b). context_kind_tag (cm_kind a) \<le> context_kind_tag (cm_kind b)
       \<and> cm_kind b \<noteq> PinnedRevision) (windows2 manifest)"

definition pack_verify :: "(byte list \<Rightarrow> blob_hash) \<Rightarrow> context_pack \<Rightarrow> conversation_error + unit" where
  "pack_verify digest pack =
     and_then (policy_validate (cp_policy pack)) (\<lambda>_.
       let manifest = cp_source_manifest pack in
       if manifest = []
          \<or> length manifest > max_context_sources
          \<or> \<not> list_all (\<lambda>source. is_ok (manifest_validate digest source)) manifest
          \<or> \<not> pinned_is_complete manifest
          \<or> \<not> source_order_is_canonical manifest
          \<or> cp_bytes pack = []
          \<or> length (cp_bytes pack) > pol_max_bytes (cp_policy pack)
          \<or> cp_digest pack \<noteq> digest (cp_bytes pack)
       then Inl InvalidContextPolicy
       else and_then (digest_manifest digest manifest) (\<lambda>manifest_digest.
         if cp_manifest_digest pack \<noteq> manifest_digest
            \<or> cp_omitted_source_count pack \<noteq> count_omitted manifest
            \<or> cp_truncated pack \<noteq> any_incomplete manifest
         then Inl InvalidContextPolicy
         else verify_pack_encoding digest pack))"

definition pack_from_persisted ::
    "(byte list \<Rightarrow> blob_hash) \<Rightarrow> conversation_id \<Rightarrow> possible_side_effects \<Rightarrow> context_pack_policy \<Rightarrow>
     context_source_manifest list \<Rightarrow> byte list \<Rightarrow> blob_hash \<Rightarrow> conversation_error + context_pack" where
  "pack_from_persisted digest conversation effects policy manifest bytes pack_digest =
     and_then (digest_manifest digest manifest) (\<lambda>manifest_digest.
       let pack = \<lparr>cp_conversation_id = conversation, cp_possible_side_effects = effects,
             cp_policy = policy, cp_source_manifest = manifest, cp_manifest_digest = manifest_digest,
             cp_bytes = bytes, cp_digest = pack_digest,
             cp_omitted_source_count = count_omitted manifest, cp_truncated = any_incomplete manifest\<rparr>
       in and_then (pack_verify digest pack) (\<lambda>_. Inr pack))"

section \<open>The compiler\<close>

fun eligible_flags :: "usize \<Rightarrow> usize \<Rightarrow> usize \<Rightarrow> context_pack_source list \<Rightarrow> bool list" where
  "eligible_flags recent_count limit recent_seen [] = []"
| "eligible_flags recent_count limit recent_seen (source # rest) =
     (if cs_kind source \<noteq> RecentRaw then True # eligible_flags recent_count limit recent_seen rest
      else (recent_seen + 1 > recent_count - limit)
             # eligible_flags recent_count limit (recent_seen + 1) rest)"

text \<open>
  The loop that shares the remaining bytes, over the eligibility and the length of every
  source behind the pinned one; \<open>remaining\<close> is the code's variable of that name.
\<close>

fun allocate :: "(bool \<times> usize) list \<Rightarrow> usize \<Rightarrow> usize list" where
  "allocate [] remaining = []"
| "allocate ((eligible, len) # rest) remaining =
     (if \<not> eligible \<or> remaining \<le> 6 then 0 # allocate rest remaining
      else let remaining_selected = length (filter fst ((eligible, len) # rest));
               fair_share = (remaining - 6) div max remaining_selected 1;
               selected = min len fair_share
           in selected # allocate rest (remaining - (6 + selected)))"

fun collect_manifests ::
    "(byte list \<Rightarrow> blob_hash) \<Rightarrow> (context_pack_source \<times> usize) list \<Rightarrow>
     conversation_error + context_source_manifest list" where
  "collect_manifests digest [] = Inr []"
| "collect_manifests digest ((source, included) # rest) =
     and_then (source_manifest digest source included) (\<lambda>m.
     and_then (collect_manifests digest rest) (\<lambda>ms. Inr (m # ms)))"

definition compile_sources :: "context_pack_input \<Rightarrow> context_pack_source list" where
  "compile_sources input = pinned_source (cin_pinned input) #
     sort_key (\<lambda>source. context_kind_tag (cs_kind source)) (cin_optional_sources input)"

definition compile_eligible :: "context_pack_input \<Rightarrow> bool list" where
  "compile_eligible input =
     (let sources = compile_sources input;
          recent_count = length (filter (\<lambda>source. cs_kind source = RecentRaw) sources)
      in eligible_flags recent_count (pol_recent_item_limit (cin_policy input)) 0 sources)"

definition compile_represented :: "context_pack_input \<Rightarrow> usize list" where
  "compile_represented input =
     (let sources = compile_sources input;
          pinned_length = length (cs_content (hd sources))
      in pinned_length #
         allocate (zip (tl (compile_eligible input)) (map (length \<circ> cs_content) (tl sources)))
           (pol_max_bytes (cin_policy input) - encoded_header_length - 6 - pinned_length))"

definition compile_context_pack ::
    "(byte list \<Rightarrow> blob_hash) \<Rightarrow> context_pack_input \<Rightarrow> conversation_error + context_pack" where
  "compile_context_pack digest input =
     and_then (policy_validate (cin_policy input)) (\<lambda>_.
     if length (cin_optional_sources input) \<ge> max_context_sources
        \<or> list_ex (\<lambda>source. cs_kind source = PinnedRevision) (cin_optional_sources input)
     then Inl InvalidContextPolicy
     else if length (cs_content (pinned_source (cin_pinned input)))
         + sum_list (map (length \<circ> cs_content) (cin_optional_sources input))
         > max_context_source_input_bytes
     then Inl InvalidContextPolicy
     else let sources = compile_sources input in
     if encoded_header_length + 6 + length (cs_content (hd sources)) > pol_max_bytes (cin_policy input)
     then Inl InvalidContextPolicy
     else let represented = compile_represented input in
     and_then (collect_manifests digest (zip sources represented)) (\<lambda>manifest.
     and_then (digest_manifest digest manifest) (\<lambda>manifest_digest.
     and_then (encode_pack (cin_conversation_id input) (cin_possible_side_effects input)
         (cin_policy input) manifest_digest (any_incomplete manifest) sources represented) (\<lambda>bytes.
       let pack = \<lparr>cp_conversation_id = cin_conversation_id input,
             cp_possible_side_effects = cin_possible_side_effects input,
             cp_policy = cin_policy input, cp_source_manifest = manifest,
             cp_manifest_digest = manifest_digest, cp_bytes = bytes, cp_digest = digest bytes,
             cp_omitted_source_count = count_omitted manifest,
             cp_truncated = any_incomplete manifest\<rparr>
       in and_then (pack_verify digest pack) (\<lambda>_. Inr pack)))))"

end
