(* ===== verification/Context_Correct.thy ===== *)
theory Context_Correct
  imports Context_Pack
begin

text \<open>
  What Context Packs guarantee. The first part describes the encoding declaratively: a header
  of fixed length and one frame per represented source. The second part shows that the
  verifier accepts exactly the packs of that form, and the third that the compiler produces
  them whenever its input guards hold.
\<close>

section \<open>The encoding, declaratively\<close>

definition wf_digest :: "(byte list \<Rightarrow> blob_hash) \<Rightarrow> bool" where
  "wf_digest digest \<longleftrightarrow> (\<forall>bs. blob_hash_wf (digest bs))"

definition wf_input :: "(byte list \<Rightarrow> blob_hash) \<Rightarrow> context_pack_input \<Rightarrow> bool" where
  "wf_input digest i \<longleftrightarrow> is_canonical_uuid (conversation_id_text (cin_conversation_id i)) \<and>
     wf_policy (cin_policy i) \<and> wf_pinned digest (cin_pinned i) \<and>
     (\<forall>s \<in> set (cin_optional_sources i). wf_source digest s)"

definition header_bytes ::
    "conversation_id \<Rightarrow> possible_side_effects \<Rightarrow> context_pack_policy \<Rightarrow> usize \<Rightarrow> blob_hash \<Rightarrow> bool \<Rightarrow>
     byte list" where
  "header_bytes conversation effects policy n manifest_digest truncated =
     context_pack_magic @ bytes_of (conversation_id_text conversation) @ [side_effect_tag effects] @
     be_bytes 4 (pol_max_bytes policy) @ be_bytes 2 (pol_recent_item_limit policy) @ be_bytes 2 n @
     bytes_of (to_hex manifest_digest) @ [if truncated then 1 else 0]"

fun frames :: "nat \<Rightarrow> byte list list \<Rightarrow> byte list" where
  "frames i [] = []"
| "frames i (seg # segs) =
     (if seg = [] then [] else be_bytes 2 i @ be_bytes 4 (length seg) @ seg) @ frames (i + 1) segs"

lemma wf_policy_bounds:
  assumes "wf_policy p"
  shows "pol_max_bytes p < 2 ^ 32" "pol_recent_item_limit p < 2 ^ 16" "pol_max_bytes p < 4294967296"
    "pol_recent_item_limit p < 65536"
  using assms by (auto simp: wf_policy_def context_bounds)

lemma pack_header_eq:
  "wf_policy p \<Longrightarrow> n < 2 ^ 16 \<Longrightarrow> pack_header c e p n h t = Inr (header_bytes c e p n h t)"
  using wf_policy_bounds [of p]
  by (simp add: pack_header_def header_bytes_def)

lemma header_bytes_length:
  assumes "is_canonical_uuid (conversation_id_text c)" and "blob_hash_wf h"
  shows "length (header_bytes c e p n h t) = encoded_header_length"
  using assms is_canonical_uuid_length
  by (simp add: header_bytes_def encoded_header_length_def to_hex_def hex_length blob_hash_wf_def)

text \<open>The encoder writes the frames of the represented prefixes.\<close>

definition segment_of :: "context_pack_source \<times> usize \<Rightarrow> byte list" where
  "segment_of z = take (snd z) (cs_content (fst z))"

lemma encode_sources_eq:
  assumes "i + length zs \<le> 2 ^ 16" and "\<forall>(s, n) \<in> set zs. n \<le> length (cs_content s) \<and> n < 2 ^ 32"
  shows "encode_sources bs i zs = Inr (bs @ frames i (map segment_of zs))"
  using assms
proof (induction zs arbitrary: bs i)
  case (Cons z zs)
  obtain s n where z: "z = (s, n)" by (cases z)
  have seg: "length (segment_of z) = n" "segment_of z = [] \<longleftrightarrow> n = 0" "n < 2 ^ 32"
    using Cons.prems(2) by (auto simp: z segment_of_def)
  have "i < 2 ^ 16" using Cons.prems(1) by simp
  then show ?case
    using Cons.IH [of "i + 1"] Cons.prems seg by (simp add: z) (simp add: segment_of_def)
qed simp

section \<open>The verifier\<close>

definition segment_ok :: "(byte list \<Rightarrow> blob_hash) \<Rightarrow> context_source_manifest \<Rightarrow> byte list \<Rightarrow> bool" where
  "segment_ok digest m seg \<longleftrightarrow> length seg = cm_included_byte_length m \<and> length seg < 2 ^ 32 \<and>
     (seg \<noteq> [] \<longrightarrow> digest seg = cm_included_digest m)"

lemma read_be_drop:
  assumes "c \<le> length bs"
  shows "read_be w bs c = Inr (n, c') \<longleftrightarrow>
    n < 256 ^ w \<and> c' = c + w \<and> c' \<le> length bs \<and> drop c bs = be_bytes w n @ drop c' bs"
proof -
  have "take w (drop c bs) = be_bytes w n \<longleftrightarrow> drop c bs = be_bytes w n @ drop (c + w) bs"
    if "c + w \<le> length bs"
    using that append_take_drop_id [of w "drop c bs"]
    by (metis add.commute append_eq_conv_conj be_bytes_length drop_drop)
  then show ?thesis by (auto simp: read_be_Ok_iff)
qed

lemma verify_sources_Ok_iff:
  assumes "cursor \<le> length bytes" and "i + length ms \<le> 2 ^ 16"
  shows "verify_sources digest bytes i cursor ms = Inr c' \<longleftrightarrow>
    (\<exists>segs rest. list_all2 (segment_ok digest) ms segs \<and> drop cursor bytes = frames i segs @ rest \<and>
       c' = cursor + length (frames i segs))"
  using assms
proof (induction ms arbitrary: cursor i)
  case Nil
  then show ?case by auto
next
  case (Cons m ms)
  show ?case
  proof (cases "cm_included_byte_length m = 0")
    case True
    then have "segment_ok digest m seg \<longleftrightarrow> seg = []" for seg
      by (auto simp: segment_ok_def)
    with True Cons show ?thesis
      by (auto simp: list_all2_Cons1)
  next
    case False
    let ?n = "cm_included_byte_length m"
    have i: "i < 65536" "Suc i + length ms \<le> 2 ^ 16" using Cons.prems(2) by simp_all
    have L: "verify_sources digest bytes i cursor (m # ms) = Inr c' \<longleftrightarrow>
        ?n < 2 ^ 32 \<and> cursor + 6 + ?n \<le> length bytes \<and>
        drop cursor bytes = be_bytes 2 i @ drop (cursor + 2) bytes \<and>
        drop (cursor + 2) bytes = be_bytes 4 ?n @ drop (cursor + 6) bytes \<and>
        digest (take ?n (drop (cursor + 6) bytes)) = cm_included_digest m \<and>
        verify_sources digest bytes (Suc i) (cursor + 6 + ?n) ms = Inr c'"
      using False i Cons.prems(1)
      by (auto simp: and_then_Ok_iff read_simps read_be_drop add.commute [of cursor] split: if_splits)
    show ?thesis (is "?L \<longleftrightarrow> ?R")
    proof
      assume ?L
      then have n: "?n < 2 ^ 32" "cursor + 6 + ?n \<le> length bytes"
        and dr: "drop cursor bytes = be_bytes 2 i @ drop (cursor + 2) bytes"
          "drop (cursor + 2) bytes = be_bytes 4 ?n @ drop (cursor + 6) bytes"
        and dg: "digest (take ?n (drop (cursor + 6) bytes)) = cm_included_digest m"
        and rest: "verify_sources digest bytes (Suc i) (cursor + 6 + ?n) ms = Inr c'"
        unfolding L by blast+
      let ?seg = "take ?n (drop (cursor + 6) bytes)"
      obtain segs tl where segs: "list_all2 (segment_ok digest) ms segs"
        "drop (cursor + 6 + ?n) bytes = frames (Suc i) segs @ tl"
        "c' = cursor + 6 + ?n + length (frames (Suc i) segs)"
        using rest Cons.IH [of "cursor + 6 + ?n" "Suc i"] n i(2) by auto
      have "drop (cursor + 6) bytes = ?seg @ drop (cursor + 6 + ?n) bytes"
        using append_take_drop_id [of ?n "drop (cursor + 6) bytes"] by (simp add: add.commute)
      with dr segs(2) have "drop cursor bytes =
          be_bytes 2 i @ be_bytes 4 ?n @ ?seg @ frames (Suc i) segs @ tl" by simp
      moreover have len: "length ?seg = ?n" "?seg \<noteq> []" using n(2) False by auto
      moreover have "segment_ok digest m ?seg" using n dg len by (simp add: segment_ok_def)
      ultimately show ?R
        using segs by (intro exI [of _ "?seg # segs"] exI [of _ tl]) simp
    next
      assume ?R
      then obtain seg segs tl where ok: "segment_ok digest m seg" "list_all2 (segment_ok digest) ms segs"
        "drop cursor bytes = frames i (seg # segs) @ tl" "c' = cursor + length (frames i (seg # segs))"
        by (auto simp: list_all2_Cons1)
      have seg: "length seg = ?n" "seg \<noteq> []" "?n < 2 ^ 32" "digest seg = cm_included_digest m"
        using ok(1) False by (auto simp: segment_ok_def)
      have d: "drop cursor bytes = be_bytes 2 i @ be_bytes 4 ?n @ seg @ frames (Suc i) segs @ tl"
        using ok(3) seg by simp
      then have len: "length bytes - cursor = 6 + ?n + length (frames (Suc i) segs @ tl)"
      proof -
        have "length (drop cursor bytes) = 6 + ?n + length (frames (Suc i) segs @ tl)"
          unfolding d by (simp add: seg(1))
        then show ?thesis by (simp only: length_drop)
      qed
      have step: "drop (cursor + k) bytes = drop k (drop cursor bytes)" for k
        by (simp add: add.commute)
      have d6: "drop (cursor + 6) bytes = seg @ frames (Suc i) segs @ tl"
        unfolding step d by simp
      have d2: "drop (cursor + 2) bytes = be_bytes 4 ?n @ seg @ frames (Suc i) segs @ tl"
        unfolding step d by simp
      have dn: "drop (cursor + 6 + ?n) bytes = frames (Suc i) segs @ tl"
        using d6 seg(1) by (metis add.commute append_eq_conv_conj drop_drop)
      have "verify_sources digest bytes (Suc i) (cursor + 6 + ?n) ms = Inr c'"
        using Cons.IH [of "cursor + 6 + ?n" "Suc i"] len i(2) dn ok(2,4) seg by auto
      with d d2 d6 seg len show ?L unfolding L by auto
    qed
  qed
qed

definition pack_form :: "(byte list \<Rightarrow> blob_hash) \<Rightarrow> context_pack \<Rightarrow> bool" where
  "pack_form digest p \<longleftrightarrow>
     wf_policy (cp_policy p) \<and>
     length (cp_source_manifest p) \<le> max_context_sources \<and>
     (\<forall>m \<in> set (cp_source_manifest p). manifest_validate digest m = Inr ()) \<and>
     pinned_is_complete (cp_source_manifest p) \<and>
     source_order_is_canonical (cp_source_manifest p) \<and>
     digest_manifest digest (cp_source_manifest p) = Inr (cp_manifest_digest p) \<and>
     cp_omitted_source_count p = count_omitted (cp_source_manifest p) \<and>
     cp_truncated p = any_incomplete (cp_source_manifest p) \<and>
     length (cp_bytes p) \<le> pol_max_bytes (cp_policy p) \<and>
     cp_digest p = digest (cp_bytes p) \<and>
     (\<exists>segs. list_all2 (segment_ok digest) (cp_source_manifest p) segs \<and>
        cp_bytes p = header_bytes (cp_conversation_id p) (cp_possible_side_effects p) (cp_policy p)
          (length (cp_source_manifest p)) (cp_manifest_digest p) (cp_truncated p) @ frames 0 segs)"

lemma starts_with_iff: "starts_with bs p \<longleftrightarrow> (\<exists>rest. bs = p @ rest)"
  unfolding starts_with_def by (metis append_eq_conv_conj append_take_drop_id)

lemma verify_sources_all:
  assumes "length ms \<le> 2 ^ 16"
  shows "verify_sources digest (h @ rest) 0 (length h) ms = Inr (length h + length rest) \<longleftrightarrow>
    (\<exists>segs. list_all2 (segment_ok digest) ms segs \<and> rest = frames 0 segs)"
proof -
  have "rest = f @ r \<and> length h + length rest = length h + length f \<longleftrightarrow> rest = f \<and> r = []" for f r
    by auto
  then show ?thesis
    using assms by (subst verify_sources_Ok_iff) auto
qed

lemma verify_encoding_Ok_iff:
  assumes "wf_policy (cp_policy p)" and "length (cp_source_manifest p) \<le> max_context_sources"
    and "cp_omitted_source_count p = count_omitted (cp_source_manifest p)"
  shows "verify_pack_encoding digest p = Inr () \<longleftrightarrow>
    (\<exists>segs. list_all2 (segment_ok digest) (cp_source_manifest p) segs \<and>
       cp_bytes p = header_bytes (cp_conversation_id p) (cp_possible_side_effects p) (cp_policy p)
         (length (cp_source_manifest p)) (cp_manifest_digest p) (cp_truncated p) @ frames 0 segs)"
    (is "_ \<longleftrightarrow> ?R")
proof -
  let ?h = "header_bytes (cp_conversation_id p) (cp_possible_side_effects p) (cp_policy p)
    (length (cp_source_manifest p)) (cp_manifest_digest p) (cp_truncated p)"
  have n: "length (cp_source_manifest p) < 2 ^ 16" "0 + length (cp_source_manifest p) \<le> 2 ^ 16"
    using assms(2) by (simp_all add: max_context_sources_def)
  have "verify_pack_encoding digest p = Inr () \<longleftrightarrow>
      starts_with (cp_bytes p) ?h \<and>
      verify_sources digest (cp_bytes p) 0 (length ?h) (cp_source_manifest p) = Inr (length (cp_bytes p))"
    using assms n(1)
    by (auto simp: verify_pack_encoding_def pack_header_eq and_then_Ok_iff split: if_splits)
  also have "\<dots> \<longleftrightarrow> (\<exists>rest. cp_bytes p = ?h @ rest \<and>
      verify_sources digest (?h @ rest) 0 (length ?h) (cp_source_manifest p) = Inr (length ?h + length rest))"
    unfolding starts_with_iff by (metis length_append)
  also have "\<dots> \<longleftrightarrow> ?R"
    using verify_sources_all n(2) by auto
  finally show ?thesis .
qed

lemma digest_manifest_Err: "digest_manifest d ms = Inl e \<Longrightarrow> e = InvalidContextPolicy"
proof -
  have "try_fold push_manifest_entry bs ms = Inl e \<Longrightarrow> e = InvalidContextPolicy" for bs
    by (induction ms arbitrary: bs)
      (auto simp: and_then_Err_iff push_manifest_entry_def dest: push_Err)
  then show "digest_manifest d ms = Inl e \<Longrightarrow> e = InvalidContextPolicy"
    by (auto simp: digest_manifest_def manifest_bytes_def and_then_Err_iff dest: push_Err)
qed

lemma pack_verify_iff: "pack_verify digest p = Inr () \<longleftrightarrow> pack_form digest p"
proof -
  have ne: "pinned_is_complete ms \<Longrightarrow> ms \<noteq> []" for ms by (auto simp: pinned_is_complete_def)
  have head: "cp_bytes p = header_bytes c e q n h t @ r \<Longrightarrow> cp_bytes p \<noteq> []" for c e q n h t r
    by (simp add: header_bytes_def context_pack_magic_def)
  have ok: "list_all (\<lambda>m. is_ok (manifest_validate digest m)) ms \<longleftrightarrow>
      (\<forall>m \<in> set ms. manifest_validate digest m = Inr ())" for ms
    by (auto simp: list_all_iff is_ok_iff)
  have "pack_verify digest p = Inr () \<longleftrightarrow>
      wf_policy (cp_policy p) \<and> length (cp_source_manifest p) \<le> max_context_sources \<and>
     (\<forall>m \<in> set (cp_source_manifest p). manifest_validate digest m = Inr ()) \<and>
     pinned_is_complete (cp_source_manifest p) \<and> source_order_is_canonical (cp_source_manifest p) \<and>
     digest_manifest digest (cp_source_manifest p) = Inr (cp_manifest_digest p) \<and>
     cp_omitted_source_count p = count_omitted (cp_source_manifest p) \<and>
     cp_truncated p = any_incomplete (cp_source_manifest p) \<and>
     cp_bytes p \<noteq> [] \<and> length (cp_bytes p) \<le> pol_max_bytes (cp_policy p) \<and>
     cp_digest p = digest (cp_bytes p) \<and> verify_pack_encoding digest p = Inr ()"
    by (auto simp: pack_verify_def Let_def and_then_Ok_iff ok not_less dest: ne split: if_splits)
  then show ?thesis
    unfolding pack_form_def using verify_encoding_Ok_iff head by blast
qed

lemma pack_from_persisted_iff:
  "pack_from_persisted digest c e pol ms bs h = Inr p \<longleftrightarrow>
     pack_form digest p \<and> cp_conversation_id p = c \<and> cp_possible_side_effects p = e \<and> cp_policy p = pol \<and>
     cp_source_manifest p = ms \<and> cp_bytes p = bs \<and> cp_digest p = h"
  unfolding pack_verify_iff [symmetric]
  by (cases p) (auto simp: pack_from_persisted_def Let_def and_then_Ok_iff pack_verify_def
      split: if_splits)

text \<open>
  The Context Pack compiler: what each stage produces, that its output always has the form
  the verifier accepts, and which sources it represents.
\<close>

section \<open>Stages\<close>

definition manifest_of :: "(byte list \<Rightarrow> blob_hash) \<Rightarrow> context_pack_source \<times> usize \<Rightarrow> context_source_manifest" where
  "manifest_of digest z =
     \<lparr>cm_kind = cs_kind (fst z), cm_source_id = cs_source_id (fst z), cm_revision = cs_revision (fst z),
      cm_content_digest = cs_content_digest (fst z),
      cm_original_byte_length = length (cs_content (fst z)), cm_included_byte_length = snd z,
      cm_included_digest = digest (segment_of z),
      cm_disposition = (if snd z = 0 then Omitted
        else if snd z = length (cs_content (fst z)) then Complete else Truncated),
      cm_artifact = cs_artifact (fst z)\<rparr>"

definition fits :: "context_pack_source \<times> usize \<Rightarrow> bool" where
  "fits z \<longleftrightarrow> snd z \<le> length (cs_content (fst z))"

lemma canonical_artifact_of:
  "wf_source d s \<Longrightarrow> cm_kind m = cs_kind s \<Longrightarrow> cm_source_id m = cs_source_id s \<Longrightarrow>
   cm_revision m = cs_revision s \<Longrightarrow> cm_artifact m = cs_artifact s \<Longrightarrow> canonical_artifact m"
  by (cases "cs_kind s") (auto simp: canonical_artifact_def wf_source_def split: option.splits)

lemma manifest_of_valid:
  assumes "wf_source d (fst z)" and "fits z"
  shows "manifest_validate d (manifest_of d z) = Inr ()"
proof -
  have "canonical_disposition d (manifest_of d z)"
    using assms by (auto simp: canonical_disposition_def manifest_of_def fits_def segment_of_def wf_source_def)
  moreover have "canonical_artifact (manifest_of d z)"
    using assms(1) by (rule canonical_artifact_of) (simp_all add: manifest_of_def)
  ultimately show ?thesis
    using assms by (auto simp: manifest_validate_def and_then_Ok_iff)
      (auto simp: manifest_of_def wf_source_def fits_def)
qed

lemma source_manifest_eq:
  "wf_source d s \<Longrightarrow> n \<le> length (cs_content s) \<Longrightarrow> source_manifest d s n = Inr (manifest_of d (s, n))"
proof -
  assume wf: "wf_source d s" and n: "n \<le> length (cs_content s)"
  have "source_manifest d s n =
      and_then (manifest_validate d (manifest_of d (s, n))) (\<lambda>_. Inr (manifest_of d (s, n)))"
    by (simp add: source_manifest_def manifest_from_persisted_def manifest_of_def segment_of_def Let_def)
  then show ?thesis using manifest_of_valid [of d "(s, n)"] wf n by (simp add: fits_def)
qed

lemma collect_manifests_eq:
  "\<forall>z \<in> set zs. wf_source d (fst z) \<and> fits z \<Longrightarrow> collect_manifests d zs = Inr (map (manifest_of d) zs)"
  by (induction zs) (auto simp: source_manifest_eq fits_def)

section \<open>The manifest encoding\<close>

definition entry_bytes :: "context_source_manifest \<Rightarrow> byte list" where
  "entry_bytes m = [context_kind_tag (cm_kind m)] @ be_bytes 2 (length (cm_source_id m)) @
     bytes_of (cm_source_id m) @ be_bytes 8 (unat (cm_revision m)) @
     bytes_of (to_hex (cm_content_digest m)) @ be_bytes 8 (cm_original_byte_length m) @
     be_bytes 8 (cm_included_byte_length m) @ bytes_of (to_hex (cm_included_digest m)) @
     [disposition_tag (cm_disposition m)] @
     (case cm_artifact m of
        Some (a, r) \<Rightarrow> [1] @ bytes_of (artifact_id_text a) @ be_bytes 8 (unat r)
      | None \<Rightarrow> [0])"

lemma try_fold_entries:
  "\<forall>m \<in> set ms. length (cm_source_id m) < 2 ^ 16 \<Longrightarrow>
   try_fold push_manifest_entry bs ms = Inr (bs @ concat (map entry_bytes ms))"
proof (induction ms arbitrary: bs)
  case (Cons m ms)
  then show ?case
    by (simp add: push_manifest_entry_def push_bytes_u16_def entry_bytes_def)
qed simp

lemma manifest_bytes_eq:
  assumes "length ms < 2 ^ 16" and "\<forall>m \<in> set ms. length (cm_source_id m) < 2 ^ 16"
  shows "manifest_bytes ms = Inr (be_bytes 2 (length ms) @ concat (map entry_bytes ms))"
  using assms by (simp add: manifest_bytes_def try_fold_entries)

lemma manifest_validate_id: "manifest_validate d m = Inr () \<Longrightarrow> length (cm_source_id m) < 2 ^ 16"
  by (auto simp: manifest_validate_def and_then_Ok_iff)

section \<open>Sharing the bytes\<close>

definition framed_length :: "nat list \<Rightarrow> nat" where
  "framed_length ns = sum_list (map (\<lambda>n. if n = 0 then 0 else 6 + n) ns)"

lemma framed_length_Cons [simp]:
  "framed_length (n # ns) = (if n = 0 then 0 else 6 + n) + framed_length ns" "framed_length [] = 0"
  by (simp_all add: framed_length_def)

lemma allocate_length [simp]: "length (allocate zs r) = length zs"
  by (induction zs r rule: allocate.induct) (simp_all add: Let_def)

lemma allocate_bounds:
  "list_all2 (\<lambda>z n. n \<le> snd z \<and> (\<not> fst z \<longrightarrow> n = 0)) zs (allocate zs r) \<and> framed_length (allocate zs r) \<le> r"
proof (induction zs r rule: allocate.induct)
  case (2 eligible len rest r)
  show ?case
  proof (cases "\<not> eligible \<or> r \<le> 6")
    case True
    with 2(1) show ?thesis by simp
  next
    case False
    define share where "share = (r - 6) div max (length (filter fst ((eligible, len) # rest))) 1"
    define sel where "sel = min len share"
    have "share \<le> r - 6" unfolding share_def by (rule div_le_dividend)
    then have sel: "sel \<le> len" "6 + sel \<le> r" using False by (auto simp: sel_def)
    have eq: "allocate ((eligible, len) # rest) r = sel # allocate rest (r - (6 + sel))"
      using False by (simp add: sel_def share_def Let_def)
    have "list_all2 (\<lambda>z n. n \<le> snd z \<and> (\<not> fst z \<longrightarrow> n = 0)) rest (allocate rest (r - (6 + sel)))"
      "framed_length (allocate rest (r - (6 + sel))) \<le> r - (6 + sel)"
      using 2(2) [OF False refl refl refl] unfolding sel_def share_def by simp_all
    then show ?thesis using sel False unfolding eq by (cases "sel = 0") auto
  qed
qed simp

lemma frames_length: "length (frames i segs) = framed_length (map length segs)"
  by (induction segs arbitrary: i) simp_all

section \<open>The compiler\<close>

definition compile_guards :: "context_pack_input \<Rightarrow> bool" where
  "compile_guards i \<longleftrightarrow>
     length (cin_optional_sources i) < max_context_sources \<and>
     (\<forall>s \<in> set (cin_optional_sources i). cs_kind s \<noteq> PinnedRevision) \<and>
     length (cs_content (pinned_source (cin_pinned i))) +
       sum_list (map (length \<circ> cs_content) (cin_optional_sources i)) \<le> max_context_source_input_bytes \<and>
     encoded_header_length + 6 + length (cs_content (pinned_source (cin_pinned i)))
       \<le> pol_max_bytes (cin_policy i)"

definition compiled :: "context_pack_input \<Rightarrow> (context_pack_source \<times> usize) list" where
  "compiled i = zip (compile_sources i) (compile_represented i)"

lemma compile_sources_simps [simp]:
  "length (compile_sources i) = Suc (length (cin_optional_sources i))"
  "hd (compile_sources i) = pinned_source (cin_pinned i)"
  "set (compile_sources i) = insert (pinned_source (cin_pinned i)) (set (cin_optional_sources i))"
  by (simp_all add: compile_sources_def)

lemma eligible_flags_length [simp]: "length (eligible_flags n l k ss) = length ss"
  by (induction ss arbitrary: k) simp_all

lemma compile_represented_length [simp]:
  "length (compile_represented i) = Suc (length (cin_optional_sources i))"
  by (simp add: compile_represented_def Let_def compile_eligible_def)

lemma compiled_simps [simp]:
  "length (compiled i) = Suc (length (cin_optional_sources i))"
  "map fst (compiled i) = compile_sources i" "map snd (compiled i) = compile_represented i"
  by (simp_all add: compiled_def)

lemma compiled_hd:
  "compiled i = (pinned_source (cin_pinned i), length (cs_content (pinned_source (cin_pinned i)))) #
     tl (compiled i)"
  by (simp add: compiled_def compile_sources_def compile_represented_def Let_def)

lemma represented_tl:
  "list_all2 (\<lambda>e n. \<not> e \<longrightarrow> n = 0) (tl (compile_eligible i)) (tl (compile_represented i))"
  "list_all2 (\<lambda>s n. n \<le> length (cs_content s)) (tl (compile_sources i)) (tl (compile_represented i))"
  "framed_length (tl (compile_represented i)) \<le>
     pol_max_bytes (cin_policy i) - encoded_header_length - 6 - length (cs_content (pinned_source (cin_pinned i)))"
proof -
  let ?zs = "zip (tl (compile_eligible i)) (map (length \<circ> cs_content) (tl (compile_sources i)))"
  let ?r = "pol_max_bytes (cin_policy i) - encoded_header_length - 6 -
    length (cs_content (pinned_source (cin_pinned i)))"
  have tl: "tl (compile_represented i) = allocate ?zs ?r"
    by (simp add: compile_represented_def Let_def)
  have len: "length (tl (compile_eligible i)) = length (tl (compile_sources i))"
    by (simp add: compile_eligible_def Let_def)
  show "framed_length (tl (compile_represented i)) \<le> ?r"
    "list_all2 (\<lambda>e n. \<not> e \<longrightarrow> n = 0) (tl (compile_eligible i)) (tl (compile_represented i))"
    "list_all2 (\<lambda>s n. n \<le> length (cs_content s)) (tl (compile_sources i)) (tl (compile_represented i))"
    using allocate_bounds [of ?zs ?r] len unfolding tl
    by (auto simp: list_all2_conv_all_nth)
qed

lemma compiled_fits: "\<forall>z \<in> set (compiled i). fits z"
proof -
  have "list_all2 (\<lambda>s n. n \<le> length (cs_content s)) (compile_sources i) (compile_represented i)"
    using represented_tl(2) [of i]
    by (simp add: compile_sources_def compile_represented_def Let_def)
  then show ?thesis
    by (auto simp: compiled_def fits_def list_all2_iff)
qed

definition compiled_manifest :: "(byte list \<Rightarrow> blob_hash) \<Rightarrow> context_pack_input \<Rightarrow> context_source_manifest list" where
  "compiled_manifest d i = map (manifest_of d) (compiled i)"

definition compiled_bytes :: "(byte list \<Rightarrow> blob_hash) \<Rightarrow> context_pack_input \<Rightarrow> blob_hash \<Rightarrow> byte list" where
  "compiled_bytes d i h = header_bytes (cin_conversation_id i) (cin_possible_side_effects i) (cin_policy i)
     (length (compile_sources i)) h (any_incomplete (compiled_manifest d i)) @
     frames 0 (map segment_of (compiled i))"

definition compiled_pack :: "(byte list \<Rightarrow> blob_hash) \<Rightarrow> context_pack_input \<Rightarrow> blob_hash \<Rightarrow> context_pack" where
  "compiled_pack d i h =
     \<lparr>cp_conversation_id = cin_conversation_id i, cp_possible_side_effects = cin_possible_side_effects i,
      cp_policy = cin_policy i, cp_source_manifest = compiled_manifest d i, cp_manifest_digest = h,
      cp_bytes = compiled_bytes d i h, cp_digest = d (compiled_bytes d i h),
      cp_omitted_source_count = count_omitted (compiled_manifest d i),
      cp_truncated = any_incomplete (compiled_manifest d i)\<rparr>"

lemma wf_sources: "wf_input d i \<Longrightarrow> s \<in> set (compile_sources i) \<Longrightarrow> wf_source d s"
  by (auto simp: wf_input_def wf_pinned_def)

lemma compiled_in:
  "wf_input d i \<Longrightarrow> z \<in> set (compiled i) \<Longrightarrow> wf_source d (fst z) \<and> fits z"
proof -
  assume wf: "wf_input d i" and z: "z \<in> set (compiled i)"
  from z have "fst z \<in> set (map fst (compiled i))" unfolding set_map by (rule imageI)
  then have "fst z \<in> set (compile_sources i)" unfolding compiled_simps(2) .
  with wf z show ?thesis using wf_sources compiled_fits by blast
qed

lemma compiled_manifest_valid:
  "wf_input d i \<Longrightarrow> \<forall>m \<in> set (compiled_manifest d i). manifest_validate d m = Inr ()"
  using manifest_of_valid compiled_in by (auto simp: compiled_manifest_def)

lemma compiled_bytes_length:
  assumes "wf_digest d" and "wf_input d i" and "compile_guards i" and "blob_hash_wf h"
  shows "length (compiled_bytes d i h) \<le> pol_max_bytes (cin_policy i)"
proof -
  let ?p = "length (cs_content (pinned_source (cin_pinned i)))"
  have "map length (map segment_of (compiled i)) = map snd (compiled i)"
    unfolding map_map by (rule map_cong) (use compiled_fits in \<open>auto simp: segment_of_def fits_def\<close>)
  then have "map length (map segment_of (compiled i)) = ?p # tl (compile_represented i)"
    by (simp add: compile_represented_def Let_def)
  then have "length (frames 0 (map segment_of (compiled i))) = framed_length (?p # tl (compile_represented i))"
    by (simp only: frames_length)
  moreover have "?p > 0" using assms(2) by (simp add: wf_input_def wf_pinned_def)
  moreover have "length (header_bytes (cin_conversation_id i) (cin_possible_side_effects i) (cin_policy i)
      (length (compile_sources i)) h (any_incomplete (compiled_manifest d i))) = encoded_header_length"
    using assms(2,4) by (intro header_bytes_length) (simp_all add: wf_input_def)
  ultimately show ?thesis
    using assms(3) represented_tl(3) [of i] by (auto simp: compiled_bytes_def compile_guards_def)
qed

lemma compiled_segments_ok:
  assumes "wf_input d i"
  shows "list_all2 (segment_ok d) (compiled_manifest d i) (map segment_of (compiled i))"
proof -
  have "segment_ok d (manifest_of d z) (segment_of z)" if "z \<in> set (compiled i)" for z
  proof -
    have "length (cs_content (fst z)) \<le> max_context_source_input_bytes" "fits z"
      using compiled_in [OF assms that] by (simp_all add: wf_source_def)
    then show ?thesis
      by (auto simp: segment_ok_def manifest_of_def segment_of_def fits_def max_context_source_input_bytes_def)
  qed
  then show ?thesis
    by (auto simp: compiled_manifest_def list_all2_conv_all_nth)
qed

lemma kind_tag_inject: "context_kind_tag a = context_kind_tag b \<longleftrightarrow> a = b"
  by (cases a; cases b) simp_all

lemma kind_tag_pinned: "context_kind_tag PinnedRevision \<le> context_kind_tag b"
  by simp

lemma canonical_order_sorted:
  "source_order_is_canonical ms \<longleftrightarrow>
     sorted (map (context_kind_tag \<circ> cm_kind) ms) \<and> (\<forall>m \<in> set (tl ms). cm_kind m \<noteq> PinnedRevision)"
proof (induction ms rule: windows2.induct)
  case (1 x y ms)
  then show ?case
    by (auto simp: source_order_is_canonical_def intro: order_trans)
qed (auto simp: source_order_is_canonical_def)

lemma compiled_canonical:
  assumes "wf_input d i" and "compile_guards i"
  shows "pinned_is_complete (compiled_manifest d i)" "source_order_is_canonical (compiled_manifest d i)"
proof -
  have pin: "wf_pinned d (cin_pinned i)" using assms(1) by (simp add: wf_input_def)
  then show "pinned_is_complete (compiled_manifest d i)"
    unfolding compiled_manifest_def by (subst compiled_hd)
      (auto simp: pinned_is_complete_def manifest_of_def wf_pinned_def wf_source_def split: option.splits)
  have kinds: "map cm_kind (compiled_manifest d i) = map cs_kind (compile_sources i)"
    unfolding compiled_simps(2) [symmetric] compiled_manifest_def map_map
    by (rule map_cong) (simp_all add: manifest_of_def)
  have "sorted (map (context_kind_tag \<circ> cs_kind) (compile_sources i))"
    using pin by (simp add: compile_sources_def wf_pinned_def comp_def)
  then have "sorted (map (context_kind_tag \<circ> cm_kind) (compiled_manifest d i))"
    using arg_cong [OF kinds, of "map context_kind_tag"] by (simp add: comp_def)
  moreover have "\<forall>k \<in> set (tl (map cm_kind (compiled_manifest d i))). k \<noteq> PinnedRevision"
    unfolding kinds using assms(2) by (simp add: compile_sources_def compile_guards_def)
  ultimately show "source_order_is_canonical (compiled_manifest d i)"
    by (simp add: canonical_order_sorted flip: map_tl)
qed

lemma compiled_digest:
  assumes "wf_input d i" and "compile_guards i"
  shows "digest_manifest d (compiled_manifest d i) =
    Inr (d (be_bytes 2 (length (compiled_manifest d i)) @ concat (map entry_bytes (compiled_manifest d i))))"
proof -
  have "length (compiled_manifest d i) < 2 ^ 16"
    using assms(2) by (simp add: compiled_manifest_def compile_guards_def max_context_sources_def)
  moreover have "\<forall>m \<in> set (compiled_manifest d i). length (cm_source_id m) < 2 ^ 16"
    using compiled_manifest_valid [OF assms(1)] manifest_validate_id by blast
  ultimately show ?thesis by (simp add: digest_manifest_def manifest_bytes_eq)
qed

lemma compiled_pack_form:
  assumes "wf_digest d" and "wf_input d i" and "compile_guards i"
    and "digest_manifest d (compiled_manifest d i) = Inr h"
  shows "pack_form d (compiled_pack d i h)"
proof -
  have "blob_hash_wf h"
    using assms(1,4) compiled_digest [OF assms(2,3)] by (auto simp: wf_digest_def)
  then have "length (compiled_bytes d i h) \<le> pol_max_bytes (cin_policy i)"
    using assms by (intro compiled_bytes_length)
  moreover have "length (compiled_manifest d i) = length (compile_sources i)"
    "length (compiled_manifest d i) \<le> max_context_sources"
    using assms(3) by (simp_all add: compiled_manifest_def compile_guards_def)
  moreover have "wf_policy (cin_policy i)" using assms(2) by (simp add: wf_input_def)
  moreover have "\<exists>segs. list_all2 (segment_ok d) (compiled_manifest d i) segs \<and>
      compiled_bytes d i h = header_bytes (cin_conversation_id i) (cin_possible_side_effects i) (cin_policy i)
        (length (compiled_manifest d i)) h (any_incomplete (compiled_manifest d i)) @ frames 0 segs"
    by (intro exI conjI, rule compiled_segments_ok [OF assms(2)])
      (simp add: compiled_bytes_def compiled_manifest_def)
  ultimately show ?thesis
    using assms(4) compiled_canonical [OF assms(2,3)] compiled_manifest_valid [OF assms(2)]
    by (simp add: pack_form_def compiled_pack_def)
qed

lemma encode_pack_eq:
  assumes "wf_digest d" and "wf_input d i" and "compile_guards i" and "blob_hash_wf h"
  shows "encode_pack (cin_conversation_id i) (cin_possible_side_effects i) (cin_policy i) h
      (any_incomplete (compiled_manifest d i)) (compile_sources i) (compile_represented i) =
    Inr (compiled_bytes d i h)"
proof -
  have pol: "wf_policy (cin_policy i)" using assms(2) by (simp add: wf_input_def)
  have "\<forall>(s, n) \<in> set (compiled i). n \<le> length (cs_content s) \<and> n < 2 ^ 32"
    using compiled_in [OF assms(2)]
    by (fastforce simp: fits_def wf_source_def max_context_source_input_bytes_def)
  moreover have "0 + length (compiled i) \<le> 2 ^ 16" "length (compile_sources i) < 2 ^ 16"
    using assms(3) by (simp_all add: compile_guards_def max_context_sources_def)
  ultimately show ?thesis
    using compiled_bytes_length [OF assms] encode_sources_eq [of 0 "compiled i"] pol
    by (simp add: encode_pack_def pack_header_eq compiled_def [symmetric]) (simp add: compiled_bytes_def)
qed

lemma compile_eq:
  assumes "wf_digest d" and "wf_input d i"
  shows "compile_context_pack d i =
    (if compile_guards i
     then and_then (digest_manifest d (compiled_manifest d i)) (\<lambda>h. Inr (compiled_pack d i h))
     else Inl InvalidContextPolicy)"
proof (cases "compile_guards i")
  case False
  have "wf_policy (cin_policy i)" using assms(2) by (simp add: wf_input_def)
  with False show ?thesis
    by (auto simp: compile_context_pack_def compile_guards_def Let_def list_ex_iff not_less)
next
  case True
  obtain h where h: "digest_manifest d (compiled_manifest d i) = Inr h" "blob_hash_wf h"
    using compiled_digest [OF assms(2) True] assms(1) by (simp add: wf_digest_def)
  have collect: "collect_manifests d (zip (compile_sources i) (compile_represented i)) =
      Inr (compiled_manifest d i)"
    using compiled_in [OF assms(2)]
    by (simp add: collect_manifests_eq compiled_manifest_def flip: compiled_def)
  have pol: "policy_validate (cin_policy i) = Inr ()" using assms(2) by (simp add: wf_input_def)
  have guards: "\<not> max_context_sources \<le> length (cin_optional_sources i)"
    "\<not> list_ex (\<lambda>s. cs_kind s = PinnedRevision) (cin_optional_sources i)"
    "\<not> max_context_source_input_bytes < length (cs_content (pinned_source (cin_pinned i))) +
       sum_list (map (length \<circ> cs_content) (cin_optional_sources i))"
    "\<not> pol_max_bytes (cin_policy i) <
       encoded_header_length + 6 + length (cs_content (hd (compile_sources i)))"
    using True by (auto simp: compile_guards_def list_ex_iff)
  have "pack_verify d (compiled_pack d i h) = Inr ()"
    using compiled_pack_form [OF assms True h(1)] by (simp only: pack_verify_iff)
  then show ?thesis
    using True h(1) encode_pack_eq [OF assms True h(2)] guards
    by (simp only: compile_context_pack_def pol collect guards and_then_simps Let_def if_True if_False
        compiled_pack_def de_Morgan_disj simp_thms)
qed

lemma compile_Ok_iff:
  assumes "wf_digest d" and "wf_input d i"
  shows "compile_context_pack d i = Inr p \<longleftrightarrow>
    compile_guards i \<and> (\<exists>h. digest_manifest d (compiled_manifest d i) = Inr h \<and> p = compiled_pack d i h)"
  by (auto simp: compile_eq [OF assms] and_then_Ok_iff)

lemma compile_Ok_form:
  "wf_digest d \<Longrightarrow> wf_input d i \<Longrightarrow> compile_context_pack d i = Inr p \<Longrightarrow> pack_form d p"
  by (auto simp: compile_Ok_iff intro: compiled_pack_form)

lemma compile_total:
  "wf_digest d \<Longrightarrow> wf_input d i \<Longrightarrow> (\<exists>p. compile_context_pack d i = Inr p) \<longleftrightarrow> compile_guards i"
  by (auto simp: compile_Ok_iff compiled_digest)

end
