(* ===== verification/Context_Claims.thy ===== *)
theory Context_Claims
  imports Context_Correct
begin

text \<open>
  The properties of Context Packs: the compiler succeeds exactly under its guards, what it
  returns is what the verifier and the reader from persistence accept, the provenance is
  complete and ordered, only the newest recent items are represented, and a changed pack is
  rejected unless it exhibits an explicit collision of the digest.
\<close>

section \<open>The manifest encoding is injective\<close>

definition artifact_bytes :: "(artifact_id \<times> 64 word) option \<Rightarrow> byte list" where
  "artifact_bytes a = (case a of
     Some (x, r) \<Rightarrow> [1] @ bytes_of (artifact_id_text x) @ be_bytes 8 (unat r) | None \<Rightarrow> [0])"

definition artifact_wf :: "(artifact_id \<times> 64 word) option \<Rightarrow> bool" where
  "artifact_wf a \<longleftrightarrow> (case a of Some (x, r) \<Rightarrow> is_canonical_uuid (artifact_id_text x) | None \<Rightarrow> True)"

definition wf_entry :: "context_source_manifest \<Rightarrow> bool" where
  "wf_entry m \<longleftrightarrow> length (cm_source_id m) < 2 ^ 16 \<and> blob_hash_wf (cm_content_digest m) \<and>
     blob_hash_wf (cm_included_digest m) \<and> cm_original_byte_length m < 2 ^ 64 \<and>
     cm_included_byte_length m < 2 ^ 64 \<and>
     artifact_wf (cm_artifact m)"

lemma be_bytes_inject:
  "be_bytes w m = be_bytes w n \<Longrightarrow> m < 256 ^ w \<Longrightarrow> n < 256 ^ w \<Longrightarrow> m = n"
  by (metis be_value_bytes)

lemma to_hex_inject: "blob_hash_wf g \<Longrightarrow> blob_hash_wf h \<Longrightarrow> to_hex g = to_hex h \<Longrightarrow> g = h"
  using blob_hash_parse_to_hex by (metis option.inject)

lemma revision_bound: "unat (r :: 64 word) < 256 ^ 8"
  using unsigned_less [of r, where 'a = nat] by simp

lemma disposition_tag_inject: "disposition_tag a = disposition_tag b \<longleftrightarrow> a = b"
  by (cases a; cases b) simp_all

lemma append_eq_split:
  "xs @ us = ys @ vs \<Longrightarrow> length xs = length ys \<Longrightarrow> xs = ys \<and> us = vs"
  by simp

lemma peel_be:
  "be_bytes w a @ u = be_bytes w b @ v \<Longrightarrow> a < 256 ^ w \<Longrightarrow> b < 256 ^ w \<Longrightarrow> a = b \<and> u = v"
  by (auto intro: be_bytes_inject)

lemma peel_revision:
  "be_bytes 8 (unat (r :: 64 word)) @ u = be_bytes 8 (unat (t :: 64 word)) @ v \<Longrightarrow> r = t \<and> u = v"
  using peel_be [of 8 "unat r" u "unat t" v] revision_bound by (metis unsigned_word_eqI)

lemma peel_hash:
  "bytes_of (to_hex g) @ u = bytes_of (to_hex h) @ v \<Longrightarrow> blob_hash_wf g \<Longrightarrow> blob_hash_wf h \<Longrightarrow>
   g = h \<and> u = v"
  using append_eq_split [of "bytes_of (to_hex g)" u "bytes_of (to_hex h)" v] to_hex_inject
  by (simp add: bytes_of_inject to_hex_def hex_length blob_hash_wf_def)

lemma peel_text:
  "bytes_of s @ u = bytes_of t @ v \<Longrightarrow> length s = length t \<Longrightarrow> s = t \<and> u = v"
  using append_eq_split [of "bytes_of s" u "bytes_of t" v] by (simp add: bytes_of_inject)

lemma artifact_bytes_simps:
  "artifact_bytes None = [0]"
  "artifact_bytes (Some (x, r)) = 1 # bytes_of (artifact_id_text x) @ be_bytes 8 (unat r)"
  by (simp_all add: artifact_bytes_def)

lemma peel_artifact:
  assumes "artifact_bytes a @ u = artifact_bytes b @ v" and "artifact_wf a" and "artifact_wf b"
  shows "a = b \<and> u = v"
proof (cases a)
  case None
  with assms(1) show ?thesis by (cases b) (auto simp: artifact_bytes_simps)
next
  case a: (Some p)
  obtain x r where p: "p = (x, r)" by (cases p)
  show ?thesis
  proof (cases b)
    case None
    with assms(1) a p show ?thesis by (simp add: artifact_bytes_simps)
  next
    case b: (Some q)
    obtain y t where q: "q = (y, t)" by (cases q)
    have eq: "bytes_of (artifact_id_text x) @ be_bytes 8 (unat r) @ u =
        bytes_of (artifact_id_text y) @ be_bytes 8 (unat t) @ v"
      using assms(1) a b p q by (simp add: artifact_bytes_simps)
    have "length (artifact_id_text x) = length (artifact_id_text y)"
      using assms(2,3) a b p q by (simp add: artifact_wf_def is_canonical_uuid_length)
    note id = peel_text [OF eq this]
    note rev = peel_revision [OF conjunct2 [OF id]]
    from id rev show ?thesis using a b p q artifact_id.expand by simp
  qed
qed

lemma entry_bytes_inject:
  assumes "entry_bytes m @ u = entry_bytes n @ v" and "wf_entry m" and "wf_entry n"
  shows "m = n \<and> u = v"
proof -
  have wf: "cm_original_byte_length m < 256 ^ 8" "cm_original_byte_length n < 256 ^ 8"
    "cm_included_byte_length m < 256 ^ 8" "cm_included_byte_length n < 256 ^ 8"
    "length (cm_source_id m) < 256 ^ 2" "length (cm_source_id n) < 256 ^ 2"
    using assms(2,3) by (simp_all add: wf_entry_def)
  have hs: "blob_hash_wf (cm_content_digest m)" "blob_hash_wf (cm_content_digest n)"
    "blob_hash_wf (cm_included_digest m)" "blob_hash_wf (cm_included_digest n)"
    "artifact_wf (cm_artifact m)" "artifact_wf (cm_artifact n)"
    using assms(2,3) by (simp_all add: wf_entry_def)
  note kind = assms(1) [unfolded entry_bytes_def artifact_bytes_def [symmetric],
      unfolded append.assoc append_Cons append_Nil list.inject kind_tag_inject]
  note id_len = peel_be [OF conjunct2 [OF kind] wf(5,6)]
  note id = peel_text [OF conjunct2 [OF id_len] conjunct1 [OF id_len]]
  note rev = peel_revision [OF conjunct2 [OF id]]
  note content = peel_hash [OF conjunct2 [OF rev] hs(1,2)]
  note orig = peel_be [OF conjunct2 [OF content] wf(1,2)]
  note incl = peel_be [OF conjunct2 [OF orig] wf(3,4)]
  note digest = peel_hash [OF conjunct2 [OF incl] hs(3,4)]
  note disp = conjunct2 [OF digest, unfolded list.inject append_Cons append_Nil disposition_tag_inject]
  note art = peel_artifact [OF conjunct2 [OF disp] hs(5,6)]
  show ?thesis
    using kind id rev content orig incl digest disp art by (cases m; cases n) simp
qed

lemma entries_inject:
  assumes "concat (map entry_bytes ms) = concat (map entry_bytes ns)" and "length ms = length ns"
    and "\<forall>m \<in> set ms \<union> set ns. wf_entry m"
  shows "ms = ns"
  using assms(2,1,3)
proof (induction ms ns rule: list_induct2)
  case (Cons m ms n ns)
  then show ?case using entry_bytes_inject [of m "concat (map entry_bytes ms)" n] by simp
qed simp

lemma manifest_bytes_inject:
  assumes "manifest_bytes ms = Inr bs" and "manifest_bytes ns = Inr bs"
    and "length ms < 2 ^ 16" and "length ns < 2 ^ 16" and "\<forall>m \<in> set ms \<union> set ns. wf_entry m"
  shows "ms = ns"
proof -
  have ids: "\<forall>m \<in> set ms. length (cm_source_id m) < 2 ^ 16" "\<forall>m \<in> set ns. length (cm_source_id m) < 2 ^ 16"
    using assms(5) by (simp_all add: wf_entry_def)
  have "be_bytes 2 (length ms) @ concat (map entry_bytes ms) =
      be_bytes 2 (length ns) @ concat (map entry_bytes ns)"
    using assms(1,2) manifest_bytes_eq [OF assms(3) ids(1)] manifest_bytes_eq [OF assms(4) ids(2)] by simp
  from peel_be [OF this] assms(3,4) have "length ms = length ns"
    "concat (map entry_bytes ms) = concat (map entry_bytes ns)" by simp_all
  with assms(5) entries_inject show ?thesis by blast
qed

section \<open>Verified packs\<close>

text \<open>
  The facts about a pack that the types of the code carry: the identities went through their
  constructors and every hash has 32 bytes.
\<close>

definition typed_pack :: "context_pack \<Rightarrow> bool" where
  "typed_pack p \<longleftrightarrow> is_canonical_uuid (conversation_id_text (cp_conversation_id p)) \<and>
     blob_hash_wf (cp_manifest_digest p) \<and>
     (\<forall>m \<in> set (cp_source_manifest p). blob_hash_wf (cm_content_digest m) \<and>
        blob_hash_wf (cm_included_digest m) \<and> artifact_wf (cm_artifact m))"

lemma valid_entry_wf:
  assumes "manifest_validate d m = Inr ()" and "blob_hash_wf (cm_content_digest m)"
    and "blob_hash_wf (cm_included_digest m)" and "artifact_wf (cm_artifact m)"
  shows "wf_entry m"
  using assms by (auto simp: manifest_validate_def and_then_Ok_iff wf_entry_def
      max_context_source_input_bytes_def split: if_splits)

lemma side_effect_tag_inject: "side_effect_tag a = side_effect_tag b \<longleftrightarrow> a = b"
  by (cases a; cases b) simp_all

lemma header_inject:
  assumes "header_bytes c e p n h t @ u = header_bytes c' e' p' n' h' t' @ v"
    and "is_canonical_uuid (conversation_id_text c)" and "is_canonical_uuid (conversation_id_text c')"
    and "wf_policy p" and "wf_policy p'" and "n < 2 ^ 16" and "n' < 2 ^ 16"
    and "blob_hash_wf h" and "blob_hash_wf h'"
  shows "c = c' \<and> e = e' \<and> p = p' \<and> n = n' \<and> h = h' \<and> t = t' \<and> u = v"
proof -
  have len: "length (conversation_id_text c) = length (conversation_id_text c')"
    using assms(2,3) by (simp add: is_canonical_uuid_length)
  have bounds: "pol_max_bytes p < 256 ^ 4" "pol_max_bytes p' < 256 ^ 4"
    "pol_recent_item_limit p < 256 ^ 2" "pol_recent_item_limit p' < 256 ^ 2" "n < 256 ^ 2" "n' < 256 ^ 2"
    using assms(4-7) wf_policy_bounds by simp_all
  note cid = peel_text [OF iffD1 [OF same_append_eq assms(1) [unfolded header_bytes_def append.assoc]] len]
  note eff = conjunct2 [OF cid, unfolded append_Cons append_Nil list.inject side_effect_tag_inject]
  note mx = peel_be [OF conjunct2 [OF eff] bounds(1,2)]
  note lim = peel_be [OF conjunct2 [OF mx] bounds(3,4)]
  note cnt = peel_be [OF conjunct2 [OF lim] bounds(5,6)]
  note hash = peel_hash [OF conjunct2 [OF cnt] assms(8,9)]
  have "t = t' \<and> u = v" using conjunct2 [OF hash] by (simp split: if_splits)
  moreover have "c = c'" using cid conversation_id.expand by simp
  moreover have "p = p'" using mx lim by (cases p; cases p') simp
  ultimately show ?thesis using eff cnt hash by simp
qed

section \<open>Which recent items are represented\<close>

lemma eligible_flags_recent:
  assumes "j < length ss" and "cs_kind (ss ! j) = RecentRaw" and "eligible_flags n l k ss ! j"
  shows "k + length (filter (\<lambda>s. cs_kind s = RecentRaw) (take j ss)) + 1 > n - l"
  using assms
proof (induction ss arbitrary: j k)
  case (Cons s ss)
  show ?case
  proof (cases j)
    case 0
    with Cons.prems show ?thesis by (simp split: if_splits)
  next
    case (Suc i)
    then show ?thesis
      using Cons.IH [of i "if cs_kind s = RecentRaw then k + 1 else k"] Cons.prems by (auto split: if_splits)
  qed
qed simp

lemma recent_after:
  assumes "j < length ss" and "cs_kind (ss ! j) = RecentRaw" and "0 < l"
    and "eligible_flags (length (filter (\<lambda>s. cs_kind s = RecentRaw) ss)) l 0 ss ! j"
  shows "length (filter (\<lambda>s. cs_kind s = RecentRaw) (drop (Suc j) ss)) < l"
proof -
  let ?P = "\<lambda>s. cs_kind s = RecentRaw"
  have "ss = take j ss @ ss ! j # drop (Suc j) ss" using assms(1) by (rule id_take_nth_drop)
  then have "length (filter ?P ss) = length (filter ?P (take j ss @ ss ! j # drop (Suc j) ss))" by simp
  also have "\<dots> = length (filter ?P (take j ss)) + 1 + length (filter ?P (drop (Suc j) ss))"
    using assms(2) by (simp only: filter_append filter.simps length_append) simp
  finally show ?thesis using eligible_flags_recent [OF assms(1,2,4)] assms(3) by simp
qed

lemma compiled_recent:
  assumes "wf_input d i" and "j < length (compiled_manifest d i)"
    and "cm_kind (compiled_manifest d i ! j) = RecentRaw"
    and "0 < cm_included_byte_length (compiled_manifest d i ! j)"
  shows "length (filter (\<lambda>m. cm_kind m = RecentRaw) (drop (Suc j) (compiled_manifest d i)))
    < pol_recent_item_limit (cin_policy i)"
proof -
  have kinds: "map cm_kind (compiled_manifest d i) = map cs_kind (compile_sources i)"
    unfolding compiled_simps(2) [symmetric] compiled_manifest_def map_map
    by (rule map_cong) (simp_all add: manifest_of_def)
  have j: "j < length (compile_sources i)" using assms(2) by (simp add: compiled_manifest_def)
  have kind: "cs_kind (compile_sources i ! j) = RecentRaw"
    using arg_cong [OF kinds, of "\<lambda>l. l ! j"] assms(2,3) j by simp
  have "cs_kind (compile_sources i ! 0) = PinnedRevision"
    using assms(1) by (simp add: compile_sources_def wf_input_def wf_pinned_def)
  with kind obtain k where k: "j = Suc k" by (cases j) auto
  have "snd (compiled i ! j) > 0"
    using assms(2,4) by (simp add: compiled_manifest_def manifest_of_def)
  then have "compile_represented i ! j > 0" using j by (simp add: compiled_def)
  then have "tl (compile_represented i) ! k > 0" using j by (simp add: k nth_tl)
  then have "tl (compile_eligible i) ! k"
    using represented_tl(1) [of i] j by (auto simp: list_all2_conv_all_nth k)
  then have "compile_eligible i ! j"
    using j by (simp add: k nth_tl compile_eligible_def Let_def)
  then have "length (filter (\<lambda>s. cs_kind s = RecentRaw) (drop (Suc j) (compile_sources i)))
      < pol_recent_item_limit (cin_policy i)"
    using assms(1) j kind
    by (intro recent_after) (simp_all add: compile_eligible_def Let_def wf_input_def wf_policy_def)
  moreover have "length (filter (\<lambda>m. cm_kind m = RecentRaw) (drop (Suc j) (compiled_manifest d i))) =
      length (filter (\<lambda>k. k = RecentRaw) (drop (Suc j) (map cm_kind (compiled_manifest d i))))"
    by (simp add: drop_map filter_map comp_def)
  ultimately show ?thesis
    unfolding kinds by (simp add: drop_map filter_map comp_def)
qed

section \<open>Order and completeness of the provenance\<close>

lemma compiled_ids:
  "map cm_source_id (filter (\<lambda>m. cm_kind m = k) (tl (compiled_manifest d i))) =
     map cs_source_id (filter (\<lambda>s. cs_kind s = k) (cin_optional_sources i))"
proof -
  let ?zs = "tl (compiled i)"
  have "map cm_source_id (filter (\<lambda>m. cm_kind m = k) (map (manifest_of d) ?zs)) =
      map (cs_source_id \<circ> fst) (filter (\<lambda>z. cs_kind (fst z) = k) ?zs)"
    by (simp add: filter_map comp_def manifest_of_def)
  also have "\<dots> = map cs_source_id (filter (\<lambda>s. cs_kind s = k) (map fst ?zs))"
    by (simp add: filter_map comp_def)
  also have "map fst ?zs = sort_key (\<lambda>s. context_kind_tag (cs_kind s)) (cin_optional_sources i)"
    using compiled_simps(2) [of i] by (simp add: map_tl compile_sources_def)
  also have "filter (\<lambda>s. cs_kind s = k) \<dots> = filter (\<lambda>s. context_kind_tag (cs_kind s) = context_kind_tag k) \<dots>"
    by (simp add: kind_tag_inject)
  also have "\<dots> = filter (\<lambda>s. context_kind_tag (cs_kind s) = context_kind_tag k) (cin_optional_sources i)"
    by (rule sort_key_stable)
  finally show ?thesis by (simp add: compiled_manifest_def map_tl kind_tag_inject)
qed

text \<open>
  The properties of Context Packs as claims about \<^verbatim>\<open>compile_context_pack\<close>, \<^verbatim>\<open>verify\<close> and
  \<^verbatim>\<open>from_persisted\<close>, each with a concrete input.
\<close>

section \<open>A concrete input\<close>

text \<open>A digest of the right shape, one pinned source, two recent items and a limit of one.\<close>

definition sample_digest :: "byte list \<Rightarrow> blob_hash" where
  "sample_digest bs = BlobHash (take 32 (bs @ replicate 32 0))"

definition sample_uuid :: string where
  "sample_uuid = ''00000000-0000-4000-8000-000000000000''"

definition sample_source :: "context_source_kind \<Rightarrow> string \<Rightarrow> byte list \<Rightarrow> context_pack_source" where
  "sample_source k i c = \<lparr>cs_kind = k, cs_source_id = i, cs_revision = 1, cs_content = c,
     cs_content_digest = sample_digest c, cs_artifact = None\<rparr>"

definition sample_input :: context_pack_input where
  "sample_input = \<lparr>cin_conversation_id = ConversationId sample_uuid,
     cin_possible_side_effects = EffectsUnknown,
     cin_policy = \<lparr>pol_max_bytes = 1024, pol_recent_item_limit = 1\<rparr>,
     cin_pinned = PinnedContextSource (sample_source PinnedRevision ''p'' [1, 2, 3]),
     cin_optional_sources = [sample_source RecentRaw ''r'' [4], sample_source RecentRaw ''s'' [5],
       sample_source Fact ''f'' [6]]\<rparr>"

lemma sample_digest_wf: "wf_digest sample_digest"
  by (auto simp: wf_digest_def sample_digest_def blob_hash_wf_def)

lemma sample_uuid_canonical: "is_canonical_uuid sample_uuid"
  by code_simp

lemma sample_input_wf: "wf_input sample_digest sample_input"
  using sample_uuid_canonical
  by (simp add: wf_input_def sample_input_def wf_pinned_def wf_source_def sample_source_def wf_policy_def
      context_bounds)

lemma sample_guards: "compile_guards sample_input"
  by (simp add: compile_guards_def sample_input_def sample_source_def context_bounds
      encoded_header_length_def context_pack_magic_def)

lemma sample_compiles: "\<exists>p. compile_context_pack sample_digest sample_input = Inr p"
  using compile_total [OF sample_digest_wf sample_input_wf] sample_guards by blast

section \<open>Compilation\<close>

text \<open>
  C6. The compiler succeeds exactly under its documented guards. For inputs built by the
  constructors, it returns a pack if and only if there are fewer than 512 optional sources,
  none of them pinned, at most two mebibytes of material, and room for the header and the
  whole pinned source. Its own final verification and size check never reject.
\<close>

theorem compile_succeeds_exactly:
  assumes "wf_digest digest" and "wf_input digest i"
  shows "(\<exists>p. compile_context_pack digest i = Inr p) \<longleftrightarrow>
    length (cin_optional_sources i) < 512 \<and>
    (\<forall>s \<in> set (cin_optional_sources i). cs_kind s \<noteq> PinnedRevision) \<and>
    length (cs_content (pinned_source (cin_pinned i))) +
      sum_list (map (length \<circ> cs_content) (cin_optional_sources i)) \<le> 2 * 1024 * 1024 \<and>
    encoded_header_length + 6 + length (cs_content (pinned_source (cin_pinned i)))
      \<le> pol_max_bytes (cin_policy i)"
  using compile_total [OF assms]
  by (simp add: compile_guards_def max_context_sources_def max_context_source_input_bytes_def)

theorem compile_succeeds_exactly_witness:
  "\<exists>p. compile_context_pack sample_digest sample_input = Inr p"
  unfolding compile_succeeds_exactly [OF sample_digest_wf sample_input_wf]
  using sample_guards
  by (simp add: compile_guards_def max_context_sources_def max_context_source_input_bytes_def)

text \<open>
  C20. Compiled packs survive persistence. A compiled pack verifies, is at most the policy's
  size, and is read back unchanged from its persisted fields.
\<close>

theorem compiled_pack_round_trip:
  assumes "wf_digest digest" and "wf_input digest i" and "compile_context_pack digest i = Inr p"
  shows "pack_verify digest p = Inr () \<and> length (cp_bytes p) \<le> pol_max_bytes (cin_policy i) \<and>
    pack_from_persisted digest (cp_conversation_id p) (cp_possible_side_effects p) (cp_policy p)
      (cp_source_manifest p) (cp_bytes p) (cp_digest p) = Inr p"
proof -
  have form: "pack_form digest p" using compile_Ok_form [OF assms] .
  have "cp_policy p = cin_policy i"
    using assms(3) by (auto simp: compile_Ok_iff [OF assms(1,2)] compiled_pack_def)
  with form show ?thesis
    by (simp add: pack_verify_iff pack_from_persisted_iff) (simp add: pack_form_def)
qed

theorem compiled_pack_round_trip_witness:
  "\<exists>p. compile_context_pack sample_digest sample_input = Inr p \<and> pack_verify sample_digest p = Inr () \<and>
     pack_from_persisted sample_digest (cp_conversation_id p) (cp_possible_side_effects p) (cp_policy p)
       (cp_source_manifest p) (cp_bytes p) (cp_digest p) = Inr p"
  using sample_compiles compiled_pack_round_trip [OF sample_digest_wf sample_input_wf] by blast

text \<open>
  The pinned source is never shortened. The bytes of a compiled pack carry, right behind
  the header and its frame, every byte of the pinned source, and its manifest entry is Complete.
\<close>

lemma pinned_source_is_complete:
  assumes "wf_digest digest" and "wf_input digest i" and "compile_context_pack digest i = Inr p"
  shows "cm_disposition (hd (cp_source_manifest p)) = Complete \<and>
    cm_source_id (hd (cp_source_manifest p)) = cs_source_id (pinned_source (cin_pinned i)) \<and>
    take (length (cs_content (pinned_source (cin_pinned i))))
      (drop (encoded_header_length + 6) (cp_bytes p)) = cs_content (pinned_source (cin_pinned i))"
proof -
  let ?c = "cs_content (pinned_source (cin_pinned i))"
  obtain h where g: "compile_guards i" and h: "digest_manifest digest (compiled_manifest digest i) = Inr h"
    and p: "p = compiled_pack digest i h"
    using assms(3) by (auto simp: compile_Ok_iff [OF assms(1,2)])
  have ne: "?c \<noteq> []" using assms(2) by (simp add: wf_input_def wf_pinned_def)
  have "blob_hash_wf h" using compiled_digest [OF assms(2) g] h assms(1) by (auto simp: wf_digest_def)
  define hb where "hb = header_bytes (cin_conversation_id i) (cin_possible_side_effects i) (cin_policy i)
    (length (compile_sources i)) h (any_incomplete (compiled_manifest digest i))"
  have len: "length hb = encoded_header_length"
    unfolding hb_def using assms(2) \<open>blob_hash_wf h\<close>
    by (intro header_bytes_length) (simp_all add: wf_input_def)
  have bytes: "cp_bytes p = hb @ frames 0 (map segment_of (compiled i))"
    by (simp add: p compiled_pack_def compiled_bytes_def hb_def)
  have "frames 0 (map segment_of (compiled i)) =
      be_bytes 2 0 @ be_bytes 4 (length ?c) @ ?c @ frames 1 (map segment_of (tl (compiled i)))"
    using ne by (subst compiled_hd) (simp add: segment_of_def)
  then have "take (length ?c) (drop (encoded_header_length + 6) (cp_bytes p)) = ?c"
    unfolding bytes len [symmetric] by simp
  moreover have "hd (cp_source_manifest p) = manifest_of digest (pinned_source (cin_pinned i), length ?c)"
    by (simp add: p compiled_pack_def compiled_manifest_def) (subst compiled_hd, simp)
  ultimately show ?thesis using ne by (simp add: manifest_of_def)
qed

lemma pinned_source_is_complete_witness:
  "\<exists>p. compile_context_pack sample_digest sample_input = Inr p \<and>
     take 3 (drop (encoded_header_length + 6) (cp_bytes p)) = [1, 2, 3]"
proof -
  obtain p where p: "compile_context_pack sample_digest sample_input = Inr p" using sample_compiles by blast
  with pinned_source_is_complete [OF sample_digest_wf sample_input_wf p] show ?thesis
    by (simp add: sample_input_def sample_source_def numeral_3_eq_3)
qed

text \<open>
  Only the newest recent items are represented. When a recent item of a compiled pack has
  bytes in it, fewer than \<^verbatim>\<open>recent_item_limit\<close> recent items follow it.
\<close>

lemma only_newest_recent_items:
  assumes "wf_digest digest" and "wf_input digest i" and "compile_context_pack digest i = Inr p"
    and "j < length (cp_source_manifest p)"
    and "cm_kind (cp_source_manifest p ! j) = RecentRaw"
    and "cm_disposition (cp_source_manifest p ! j) \<noteq> Omitted"
  shows "length (filter (\<lambda>m. cm_kind m = RecentRaw) (drop (Suc j) (cp_source_manifest p)))
    < pol_recent_item_limit (cin_policy i)"
proof -
  have ms: "cp_source_manifest p = compiled_manifest digest i"
    using assms(3) by (auto simp: compile_Ok_iff [OF assms(1,2)] compiled_pack_def)
  moreover have "0 < cm_included_byte_length (compiled_manifest digest i ! j)"
    using assms(4,6) unfolding ms by (auto simp: compiled_manifest_def manifest_of_def split: if_splits)
  ultimately show ?thesis
    using compiled_recent [OF assms(2), of j] assms(4,5) by simp
qed

lemma sample_last_recent:
  "cm_kind (compiled_manifest sample_digest sample_input ! 3) = RecentRaw"
  "cm_disposition (compiled_manifest sample_digest sample_input ! 3) = Complete"
  "cm_disposition (compiled_manifest sample_digest sample_input ! 2) = Omitted"
  "length (compiled_manifest sample_digest sample_input) = 4"
  by (code_simp, code_simp, code_simp, code_simp)

lemma sample_limit: "pol_recent_item_limit (cin_policy sample_input) = 1"
  by (simp add: sample_input_def)

lemma only_newest_recent_items_witness:
  "\<exists>p. compile_context_pack sample_digest sample_input = Inr p \<and>
     length (filter (\<lambda>m. cm_kind m = RecentRaw) (drop 4 (cp_source_manifest p))) < 1"
proof -
  obtain p where p: "compile_context_pack sample_digest sample_input = Inr p" using sample_compiles by blast
  have "cp_source_manifest p = compiled_manifest sample_digest sample_input"
    using p by (auto simp: compile_Ok_iff [OF sample_digest_wf sample_input_wf] compiled_pack_def)
  with only_newest_recent_items [OF sample_digest_wf sample_input_wf p, of 3] p show ?thesis
    by (simp add: sample_last_recent sample_limit)
qed

text \<open>
  Complete provenance in a stable order. The manifest of a compiled pack starts with the
  pinned source and then lists every optional source exactly once; inside one source class
  the caller's order is kept.
\<close>

lemma provenance_complete_and_stable:
  assumes "wf_digest digest" and "wf_input digest i" and "compile_context_pack digest i = Inr p"
  shows "length (cp_source_manifest p) = Suc (length (cin_optional_sources i)) \<and>
    sorted (map (context_kind_tag \<circ> cm_kind) (cp_source_manifest p)) \<and>
    (\<forall>k. map cm_source_id (filter (\<lambda>m. cm_kind m = k) (tl (cp_source_manifest p))) =
         map cs_source_id (filter (\<lambda>s. cs_kind s = k) (cin_optional_sources i)))"
proof -
  have ms: "cp_source_manifest p = compiled_manifest digest i" and g: "compile_guards i"
    using assms(3) by (auto simp: compile_Ok_iff [OF assms(1,2)] compiled_pack_def)
  then show ?thesis
    using compiled_canonical(2) [OF assms(2) g] compiled_ids [of _ digest i]
    by (simp add: canonical_order_sorted) (simp add: compiled_manifest_def)
qed

lemma provenance_complete_and_stable_witness:
  "\<exists>p. compile_context_pack sample_digest sample_input = Inr p \<and>
     map cm_source_id (filter (\<lambda>m. cm_kind m = RecentRaw) (tl (cp_source_manifest p))) = [''r'', ''s'']"
proof -
  obtain p where p: "compile_context_pack sample_digest sample_input = Inr p" using sample_compiles by blast
  with provenance_complete_and_stable [OF sample_digest_wf sample_input_wf p] show ?thesis
    by (simp add: sample_input_def sample_source_def)
qed

section \<open>Verification\<close>

text \<open>
  C19. What verification accepts, exactly: a policy in its limits, at most 512 canonical
  manifest entries that start with the complete pinned source and are ordered by class, the
  digests of the manifest and the bytes, and bytes that are the header followed by one frame
  per represented source, in manifest order, with nothing behind.
\<close>

theorem verify_accepts_exactly:
  "pack_verify digest p = Inr () \<longleftrightarrow> pack_form digest p"
  by (rule pack_verify_iff)

text \<open>
  Tamper evidence. Two packs that verify and have the same digest are the same pack,
  unless their bytes or their manifests exhibit an explicit collision of the digest.
\<close>

lemma equal_digests_equal_packs:
  assumes "pack_verify digest p = Inr ()" and "pack_verify digest q = Inr ()"
    and "typed_pack p" and "typed_pack q" and "cp_digest p = cp_digest q"
  shows "p = q \<or>
    cp_bytes p \<noteq> cp_bytes q \<and> digest (cp_bytes p) = digest (cp_bytes q) \<or>
    (\<exists>a b. manifest_bytes (cp_source_manifest p) = Inr a \<and> manifest_bytes (cp_source_manifest q) = Inr b \<and>
       a \<noteq> b \<and> digest a = digest b)"
proof -
  have fp: "pack_form digest p" and fq: "pack_form digest q"
    using assms(1,2) by (simp_all add: pack_verify_iff)
  have dig: "digest (cp_bytes p) = digest (cp_bytes q)"
    using fp fq assms(5) by (simp add: pack_form_def)
  obtain a where a: "manifest_bytes (cp_source_manifest p) = Inr a" "cp_manifest_digest p = digest a"
    using fp by (auto simp: pack_form_def digest_manifest_def and_then_Ok_iff)
  obtain b where b: "manifest_bytes (cp_source_manifest q) = Inr b" "cp_manifest_digest q = digest b"
    using fq by (auto simp: pack_form_def digest_manifest_def and_then_Ok_iff)
  have "p = q" if eq: "cp_bytes p = cp_bytes q" and same: "digest a = digest b \<Longrightarrow> a = b"
  proof -
    obtain u v where "header_bytes (cp_conversation_id p) (cp_possible_side_effects p) (cp_policy p)
        (length (cp_source_manifest p)) (cp_manifest_digest p) (cp_truncated p) @ u =
      header_bytes (cp_conversation_id q) (cp_possible_side_effects q) (cp_policy q)
        (length (cp_source_manifest q)) (cp_manifest_digest q) (cp_truncated q) @ v"
      using fp fq eq unfolding pack_form_def by metis
    moreover have len: "length (cp_source_manifest p) < 2 ^ 16" "length (cp_source_manifest q) < 2 ^ 16"
      using fp fq by (simp_all add: pack_form_def max_context_sources_def)
    ultimately have fields: "cp_conversation_id p = cp_conversation_id q \<and>
        cp_possible_side_effects p = cp_possible_side_effects q \<and> cp_policy p = cp_policy q \<and>
        cp_manifest_digest p = cp_manifest_digest q \<and> cp_truncated p = cp_truncated q"
      using header_inject fp fq assms(3,4) unfolding typed_pack_def pack_form_def by metis
    have "\<forall>m \<in> set (cp_source_manifest p) \<union> set (cp_source_manifest q). wf_entry m"
      using fp fq assms(3,4) valid_entry_wf unfolding pack_form_def typed_pack_def by blast
    then have "cp_source_manifest p = cp_source_manifest q"
      using manifest_bytes_inject a b fields same len by metis
    with fields eq assms(5) fp fq show ?thesis
      by (cases p; cases q) (simp add: pack_form_def)
  qed
  with dig a(1) b(1) show ?thesis by blast
qed

lemma sample_typed:
  "compile_context_pack sample_digest sample_input = Inr p \<Longrightarrow> typed_pack p"
proof -
  assume "compile_context_pack sample_digest sample_input = Inr p"
  then obtain h where g: "compile_guards sample_input"
    and h: "digest_manifest sample_digest (compiled_manifest sample_digest sample_input) = Inr h"
    and p: "p = compiled_pack sample_digest sample_input h"
    by (auto simp: compile_Ok_iff [OF sample_digest_wf sample_input_wf])
  have "cs_artifact (fst z) = None" "cs_content_digest (fst z) = sample_digest (cs_content (fst z))"
    if "z \<in> set (compiled sample_input)" for z
  proof -
    have "fst z \<in> set (compile_sources sample_input)"
      using imageI [OF that, of fst] by (simp only: compiled_simps(2) flip: set_map)
    then show "cs_artifact (fst z) = None" "cs_content_digest (fst z) = sample_digest (cs_content (fst z))"
      by (auto simp: sample_input_def sample_source_def)
  qed
  then have "\<forall>m \<in> set (compiled_manifest sample_digest sample_input). blob_hash_wf (cm_content_digest m) \<and>
      blob_hash_wf (cm_included_digest m) \<and> artifact_wf (cm_artifact m)"
    using sample_digest_wf by (auto simp: compiled_manifest_def manifest_of_def wf_digest_def artifact_wf_def)
  moreover have "blob_hash_wf h"
    using compiled_digest [OF sample_input_wf g] h sample_digest_wf by (auto simp: wf_digest_def)
  ultimately show ?thesis
    using sample_uuid_canonical by (simp add: typed_pack_def p compiled_pack_def sample_input_def)
qed

lemma equal_digests_equal_packs_witness:
  "\<exists>p. compile_context_pack sample_digest sample_input = Inr p \<and>
     (p = p \<or> cp_bytes p \<noteq> cp_bytes p \<and> sample_digest (cp_bytes p) = sample_digest (cp_bytes p) \<or>
      (\<exists>a b. manifest_bytes (cp_source_manifest p) = Inr a \<and>
         manifest_bytes (cp_source_manifest p) = Inr b \<and> a \<noteq> b \<and> sample_digest a = sample_digest b))"
proof -
  obtain p where p: "compile_context_pack sample_digest sample_input = Inr p" using sample_compiles by blast
  have "pack_verify sample_digest p = Inr ()"
    using compile_Ok_form [OF sample_digest_wf sample_input_wf p] by (simp only: pack_verify_iff)
  with p equal_digests_equal_packs [OF _ _ sample_typed [OF p] sample_typed [OF p] refl] show ?thesis
    by blast
qed

end
