(* ===== verification/Process_Generation.thy ===== *)
theory Process_Generation
  imports Account Byte_Codec
begin

text \<open>
  The authority values of one supervised provider process, \<^verbatim>\<open>process_generation.rs\<close>: exact
  identities, the external execution authorization with its file format, the closed labels
  of states, controls, losses and death evidence, and the shape rules of identities and
  evidence.
\<close>

section \<open>Identities\<close>

datatype process_generation_error =
    InvalidGenerationId
  | InvalidExecutionEpochId
  | InvalidDeathEvidenceId
  | InvalidExecutionAuthorization
  | InvalidRunnerIdentity
  | InvalidBootIdentity
  | InvalidProcessStartIdentity
  | InvalidProcessIdentity
  | InvalidAccountRevision
  | InvalidCallbackProfile
  | InvalidDeathEvidence

datatype process_generation_id = ProcessGenerationId (generation_id_text: string)
datatype process_execution_epoch_id = ProcessExecutionEpochId (epoch_id_text: string)
datatype process_death_evidence_id = ProcessDeathEvidenceId (death_evidence_id_text: string)
datatype process_runner_identity = ProcessRunnerIdentity (runner_text: string)
datatype process_boot_identity = ProcessBootIdentity (boot_text: string)
datatype process_start_identity = ProcessStartIdentity (start_text: string)

definition process_generation_id_new :: "string \<Rightarrow> process_generation_error + process_generation_id" where
  "process_generation_id_new value =
     (if \<not> is_canonical_uuid value then Inl InvalidGenerationId else Inr (ProcessGenerationId value))"

definition process_execution_epoch_id_new ::
    "string \<Rightarrow> process_generation_error + process_execution_epoch_id" where
  "process_execution_epoch_id_new value =
     (if \<not> is_canonical_uuid value then Inl InvalidExecutionEpochId
      else Inr (ProcessExecutionEpochId value))"

definition process_death_evidence_id_new ::
    "string \<Rightarrow> process_generation_error + process_death_evidence_id" where
  "process_death_evidence_id_new value =
     (if \<not> is_canonical_uuid value then Inl InvalidDeathEvidenceId
      else Inr (ProcessDeathEvidenceId value))"

definition max_process_runner_identity_bytes :: usize where
  "max_process_runner_identity_bytes = 128"

definition strip_prefix :: "string \<Rightarrow> string \<Rightarrow> string option" where
  "strip_prefix prefix s =
     (if take (length prefix) s = prefix then Some (drop (length prefix) s) else None)"

definition is_runner_identity :: "string \<Rightarrow> bool" where
  "is_runner_identity value \<longleftrightarrow>
     \<not> (length value > max_process_runner_identity_bytes \<or>
        \<not> (case strip_prefix ''sha256:'' value of Some digest \<Rightarrow> is_sha256 digest | None \<Rightarrow> False))"

definition process_runner_identity_new ::
    "string \<Rightarrow> process_generation_error + process_runner_identity" where
  "process_runner_identity_new value =
     (if \<not> is_runner_identity value then Inl InvalidRunnerIdentity else Inr (ProcessRunnerIdentity value))"

definition process_boot_identity_new :: "string \<Rightarrow> process_generation_error + process_boot_identity" where
  "process_boot_identity_new value =
     (if \<not> is_bounded_identity value then Inl InvalidBootIdentity else Inr (ProcessBootIdentity value))"

definition process_start_identity_new :: "string \<Rightarrow> process_generation_error + process_start_identity" where
  "process_start_identity_new value =
     (if \<not> is_bounded_identity value then Inl InvalidProcessStartIdentity
      else Inr (ProcessStartIdentity value))"

interpretation process_generation_id: validated_text is_canonical_uuid process_generation_id_new
    generation_id_text InvalidGenerationId
  by unfold_locales (auto simp: process_generation_id_new_def process_generation_id.expand)

interpretation process_execution_epoch_id: validated_text is_canonical_uuid
    process_execution_epoch_id_new epoch_id_text InvalidExecutionEpochId
  by unfold_locales (auto simp: process_execution_epoch_id_new_def process_execution_epoch_id.expand)

interpretation process_death_evidence_id: validated_text is_canonical_uuid
    process_death_evidence_id_new death_evidence_id_text InvalidDeathEvidenceId
  by unfold_locales (auto simp: process_death_evidence_id_new_def process_death_evidence_id.expand)

interpretation process_runner_identity: validated_text is_runner_identity
    process_runner_identity_new runner_text InvalidRunnerIdentity
  by unfold_locales (auto simp: process_runner_identity_new_def process_runner_identity.expand)

interpretation process_boot_identity: validated_text is_bounded_identity
    process_boot_identity_new boot_text InvalidBootIdentity
  by unfold_locales (auto simp: process_boot_identity_new_def process_boot_identity.expand)

interpretation process_start_identity: validated_text is_bounded_identity
    process_start_identity_new start_text InvalidProcessStartIdentity
  by unfold_locales (auto simp: process_start_identity_new_def process_start_identity.expand)

section \<open>Execution authorization\<close>

record process_execution_authorization =
  xa_epoch_id :: process_execution_epoch_id
  xa_authorization_digest :: string

definition process_execution_authorization_new ::
    "process_execution_epoch_id \<Rightarrow> string \<Rightarrow> process_generation_error + process_execution_authorization" where
  "process_execution_authorization_new epoch authorization_digest =
     (if \<not> is_sha256 authorization_digest then Inl InvalidExecutionAuthorization
      else Inr \<lparr>xa_epoch_id = epoch, xa_authorization_digest = authorization_digest\<rparr>)"

definition execution_authorization_schema :: string where
  "execution_authorization_schema = ''decodex/process-execution-authorization/1''"

definition newline :: char where "newline = CHR 0x0A"

text \<open>
  \<^verbatim>\<open>str::lines\<close>: the text between line feeds, one carriage return before a line feed
  dropped, no empty line for a final line feed.
\<close>

definition strip_return :: "string \<Rightarrow> string" where
  "strip_return line = (if line \<noteq> [] \<and> last line = CHR 0x0D then butlast line else line)"

fun text_lines :: "string \<Rightarrow> string \<Rightarrow> string list" where
  "text_lines line [] = (if line = [] then [] else [line])"
| "text_lines line (c # cs) =
     (if c = newline then strip_return line # text_lines [] cs else text_lines (line @ [c]) cs)"

text \<open>
  The body of \<^verbatim>\<open>load\<close> behind the file read; \<open>None\<close> is \<^verbatim>\<open>ConfigError::Malformed\<close>. Text that is
  not UTF-8 fails one of the three comparisons with ASCII text, so the model needs no
  separate case for it.
\<close>

definition authorization_load :: "string \<Rightarrow> process_execution_authorization option" where
  "authorization_load txt =
     (case text_lines [] txt of
        schema # epoch # digest # rest \<Rightarrow>
          if schema \<noteq> execution_authorization_schema then None
          else if rest \<noteq> [] then None
          else (case process_execution_epoch_id_new epoch of
             Inl _ \<Rightarrow> None
           | Inr epoch \<Rightarrow> ok_opt (process_execution_authorization_new epoch digest))
      | _ \<Rightarrow> None)"

text \<open>The file body that \<^verbatim>\<open>load_or_create\<close> writes, and the value it writes it from.\<close>

definition authorization_body :: "process_execution_authorization \<Rightarrow> string" where
  "authorization_body a = execution_authorization_schema @ [newline] @
     epoch_id_text (xa_epoch_id a) @ [newline] @ xa_authorization_digest a @ [newline]"

definition authorization_create ::
    "(byte list \<Rightarrow> blob_hash) \<Rightarrow> server_identity \<Rightarrow> server_identity \<Rightarrow>
     process_execution_authorization option" where
  "authorization_create digest epoch nonce =
     (let authorization_digest = to_hex (digest (bytes_of execution_authorization_schema @ [0] @
            bytes_of (server_identity_text epoch) @ [0] @ bytes_of (server_identity_text nonce)))
      in case process_execution_epoch_id_new (server_identity_text epoch) of
           Inl _ \<Rightarrow> None
         | Inr epoch \<Rightarrow> ok_opt (process_execution_authorization_new epoch authorization_digest))"

section \<open>Closed labels\<close>

datatype process_generation_state = Starting | Ready | Stopping | Dead | DeathUnknown

fun state_as_sql :: "process_generation_state \<Rightarrow> string" where
  "state_as_sql Starting = ''starting''"
| "state_as_sql Ready = ''ready''"
| "state_as_sql Stopping = ''stopping''"
| "state_as_sql Dead = ''dead''"
| "state_as_sql DeathUnknown = ''death_unknown''"

definition quarantines_account :: "process_generation_state \<Rightarrow> bool" where
  "quarantines_account state \<longleftrightarrow> state \<noteq> Dead"

datatype process_control_kind = StdioOnlyBestEffortEof | ParentDeathSignalAndStdioEof

fun control_as_sql :: "process_control_kind \<Rightarrow> string" where
  "control_as_sql StdioOnlyBestEffortEof = ''stdio_only_best_effort_eof''"
| "control_as_sql ParentDeathSignalAndStdioEof = ''parent_death_signal_and_stdio_eof''"

datatype process_isolation_kind = IsolationSession

fun isolation_as_sql :: "process_isolation_kind \<Rightarrow> string" where
  "isolation_as_sql IsolationSession = ''session''"

datatype process_authority_loss_reason =
    SupervisorRestarted
  | IdentityPersistenceFailed
  | ReadinessPersistenceFailed
  | TerminationUnproved
  | ControlAuthorityLost

fun loss_as_sql :: "process_authority_loss_reason \<Rightarrow> string" where
  "loss_as_sql SupervisorRestarted = ''supervisor_restarted''"
| "loss_as_sql IdentityPersistenceFailed = ''identity_persistence_failed''"
| "loss_as_sql ReadinessPersistenceFailed = ''readiness_persistence_failed''"
| "loss_as_sql TerminationUnproved = ''termination_unproved''"
| "loss_as_sql ControlAuthorityLost = ''control_authority_lost''"

datatype process_death_evidence_kind =
    SpawnNotCreated
  | OwnedChildExit
  | LinuxPidfdExit
  | MacosKqueueExitAndGroupQuiescence
  | MacosKernelConfirmedGone
  | ExactTerminationExit
  | PriorBootEnded

fun death_kind_as_sql :: "process_death_evidence_kind \<Rightarrow> string" where
  "death_kind_as_sql SpawnNotCreated = ''spawn_not_created''"
| "death_kind_as_sql OwnedChildExit = ''owned_child_exit''"
| "death_kind_as_sql LinuxPidfdExit = ''linux_pidfd_exit''"
| "death_kind_as_sql MacosKqueueExitAndGroupQuiescence = ''macos_kqueue_exit_and_group_quiescence''"
| "death_kind_as_sql MacosKernelConfirmedGone = ''macos_kernel_confirmed_gone''"
| "death_kind_as_sql ExactTerminationExit = ''exact_termination_exit''"
| "death_kind_as_sql PriorBootEnded = ''prior_boot_ended''"

section \<open>Process identity, intent and binding\<close>

text \<open>Process, group and session numbers are the code's \<^verbatim>\<open>u32\<close>.\<close>

record process_identity =
  pi_boot_id :: process_boot_identity
  pi_process_id :: "32 word"
  pi_process_start_id :: process_start_identity
  pi_process_group_id :: "32 word"
  pi_session_id :: "32 word"

definition process_identity_new ::
    "process_boot_identity \<Rightarrow> 32 word \<Rightarrow> process_start_identity \<Rightarrow> 32 word \<Rightarrow> 32 word \<Rightarrow>
     process_generation_error + process_identity" where
  "process_identity_new boot process_id start process_group_id session_id =
     (if process_id = 0 \<or> process_group_id \<noteq> process_id \<or> session_id \<noteq> process_id
      then Inl InvalidProcessIdentity
      else Inr \<lparr>pi_boot_id = boot, pi_process_id = process_id, pi_process_start_id = start,
             pi_process_group_id = process_group_id, pi_session_id = session_id\<rparr>)"

record process_generation_intent =
  in_generation_id :: process_generation_id
  in_account_id :: account_id
  in_runner_identity :: process_runner_identity
  in_intended_boot_id :: process_boot_identity
  in_control_kind :: process_control_kind
  in_isolation_kind :: process_isolation_kind
  in_execution_authorization :: process_execution_authorization

record account_binding =
  ab_account_revision :: i64
  ab_credential :: credential_binding
  ab_refresh_callback_profile_sha256 :: string

definition account_binding_new ::
    "i64 \<Rightarrow> credential_binding \<Rightarrow> string \<Rightarrow> process_generation_error + account_binding" where
  "account_binding_new account_revision credential profile =
     (if account_revision < 1 then Inl InvalidAccountRevision
      else if \<not> is_sha256 profile then Inl InvalidCallbackProfile
      else Inr \<lparr>ab_account_revision = account_revision, ab_credential = credential,
             ab_refresh_callback_profile_sha256 = profile\<rparr>)"

record process_generation =
  pg_generation_id :: process_generation_id
  pg_account_id :: account_id
  pg_execution_epoch_id :: process_execution_epoch_id
  pg_runner_identity :: process_runner_identity
  pg_intended_boot_id :: process_boot_identity
  pg_control_kind :: process_control_kind
  pg_isolation_kind :: process_isolation_kind
  pg_process_identity :: "process_identity option"
  pg_state :: process_generation_state
  pg_authority_loss_reason :: "process_authority_loss_reason option"
  pg_death_evidence_id :: "process_death_evidence_id option"
  pg_revision :: i64
  pg_created_at_micros :: i64
  pg_updated_at_micros :: i64

record bound_process_generation =
  bg_generation :: process_generation
  bg_account_binding :: "account_binding option"

record process_account_quarantine =
  qa_account_id :: account_id
  qa_generation_id :: process_generation_id
  qa_state :: process_generation_state
  qa_has_process_identity :: bool

section \<open>Death evidence\<close>

record process_death_evidence =
  de_evidence_id :: process_death_evidence_id
  de_generation_id :: process_generation_id
  de_kind :: process_death_evidence_kind
  de_observed_boot_id :: process_boot_identity
  de_process_identity :: "process_identity option"
  de_witness_digest :: string

fun identity_shape_valid :: "process_death_evidence_kind \<Rightarrow> process_identity option \<Rightarrow> bool" where
  "identity_shape_valid SpawnNotCreated identity = (identity = None)"
| "identity_shape_valid PriorBootEnded identity = (identity = None)"
| "identity_shape_valid OwnedChildExit identity = True"
| "identity_shape_valid LinuxPidfdExit identity = (identity \<noteq> None)"
| "identity_shape_valid MacosKqueueExitAndGroupQuiescence identity = (identity \<noteq> None)"
| "identity_shape_valid MacosKernelConfirmedGone identity = (identity \<noteq> None)"
| "identity_shape_valid ExactTerminationExit identity = (identity \<noteq> None)"

definition process_death_evidence_new ::
    "process_death_evidence_id \<Rightarrow> process_generation_id \<Rightarrow> process_death_evidence_kind \<Rightarrow>
     process_boot_identity \<Rightarrow> process_identity option \<Rightarrow> string \<Rightarrow>
     process_generation_error + process_death_evidence" where
  "process_death_evidence_new evidence generation kind observed_boot identity witness_digest =
     (if \<not> is_sha256 witness_digest \<or> \<not> identity_shape_valid kind identity
      then Inl InvalidDeathEvidence
      else Inr \<lparr>de_evidence_id = evidence, de_generation_id = generation, de_kind = kind,
             de_observed_boot_id = observed_boot, de_process_identity = identity,
             de_witness_digest = witness_digest\<rparr>)"

section \<open>The authorization file\<close>

lemma text_lines_append:
  "newline \<notin> set cs \<Longrightarrow> text_lines line (cs @ newline # rest) = strip_return (line @ cs) # text_lines [] rest"
  by (induction cs arbitrary: line) auto

lemma hex_char_not_newline: "hex_char c \<Longrightarrow> c \<noteq> newline \<and> c \<noteq> CHR 0x0D"
  by (auto simp: hex_char_def is_ascii_digit_def is_ascii_lower_hex_def newline_def)

lemma sha256_chars:
  assumes "is_sha256 s"
  shows "newline \<notin> set s" "strip_return s = s"
proof -
  have "\<forall>c \<in> set s. hex_char c" using assms by (simp add: is_sha256_iff list_all_iff)
  then show "newline \<notin> set s" "strip_return s = s"
    using hex_char_not_newline by (auto simp: strip_return_def dest: last_in_set)
qed

lemma canonical_uuid_char:
  assumes "is_canonical_uuid s" "c \<in> set s"
  shows "c = CHR ''-'' \<or> hex_char c"
proof -
  from assms(2) obtain i where "i < length s" and i: "s ! i = c" by (auto simp: in_set_conv_nth)
  then have "i < 36" using is_canonical_uuid_length [OF assms(1)] by simp
  then have "if i = 8 \<or> i = 13 \<or> i = 18 \<or> i = 23 then s ! i = CHR ''-'' else hex_char (s ! i)"
    using assms(1) unfolding is_canonical_uuid_iff by blast
  with i show ?thesis by (simp split: if_splits)
qed

lemma uuid_chars:
  assumes "is_canonical_uuid s"
  shows "newline \<notin> set s" "strip_return s = s"
proof -
  have "c \<noteq> newline \<and> c \<noteq> CHR 0x0D" if "c \<in> set s" for c
    using canonical_uuid_char [OF assms that] hex_char_not_newline [of c] by (auto simp: newline_def)
  then show "newline \<notin> set s" "strip_return s = s"
    by (blast, metis last_in_set strip_return_def)
qed

lemma authorization_load_body:
  assumes "is_canonical_uuid (epoch_id_text (xa_epoch_id a))" and "is_sha256 (xa_authorization_digest a)"
  shows "authorization_load (authorization_body a) = Some a"
proof -
  have "newline \<notin> set execution_authorization_schema"
    "strip_return execution_authorization_schema = execution_authorization_schema"
    by (simp_all add: execution_authorization_schema_def newline_def strip_return_def)
  then have "text_lines [] (authorization_body a) =
      [execution_authorization_schema, epoch_id_text (xa_epoch_id a), xa_authorization_digest a]"
    using uuid_chars [OF assms(1)] sha256_chars [OF assms(2)]
    by (simp add: authorization_body_def text_lines_append)
  then show ?thesis
    using assms by (cases a) (simp add: authorization_load_def process_execution_authorization_new_def
        process_execution_epoch_id_new_def)
qed

lemma authorization_load_valid:
  assumes "authorization_load txt = Some a"
  shows "is_canonical_uuid (epoch_id_text (xa_epoch_id a)) \<and> is_sha256 (xa_authorization_digest a)"
  using assms
  by (auto simp: authorization_load_def process_execution_authorization_new_def
      process_execution_epoch_id_new_def split: list.splits if_splits sum.splits)

lemma authorization_create_valid:
  assumes "blob_hash_wf (digest (bytes_of execution_authorization_schema @ [0] @
      bytes_of (server_identity_text epoch) @ [0] @ bytes_of (server_identity_text nonce)))"
    and "is_canonical_uuid (server_identity_text epoch)"
  shows "\<exists>a. authorization_create digest epoch nonce = Some a \<and> xa_epoch_id a = ProcessExecutionEpochId (server_identity_text epoch) \<and>
    is_sha256 (xa_authorization_digest a)"
  using to_hex_sha256 [OF assms(1)] assms(2)
  by (simp add: authorization_create_def process_execution_epoch_id_new_def
      process_execution_authorization_new_def)

text \<open>
  The execution authorization file. A freshly created authorization is always valid, and
  the file body written for it loads back to exactly that value.
\<close>

lemma authorization_file_round_trip:
  assumes "\<forall>bs. blob_hash_wf (digest bs)" and "is_canonical_uuid (server_identity_text epoch)"
  shows "\<exists>a. authorization_create digest epoch nonce = Some a \<and>
    authorization_load (authorization_body a) = Some a"
proof -
  obtain a where "authorization_create digest epoch nonce = Some a"
    "xa_epoch_id a = ProcessExecutionEpochId (server_identity_text epoch)" "is_sha256 (xa_authorization_digest a)"
    using authorization_create_valid assms by blast
  with assms(2) show ?thesis using authorization_load_body [of a] by simp
qed

definition zero_digest :: "byte list \<Rightarrow> blob_hash" where
  "zero_digest bs = BlobHash (replicate 32 0)"

lemma authorization_file_round_trip_witness:
  "\<exists>a. authorization_create zero_digest (ServerIdentity (uuid_groups (replicate 16 7))) (ServerIdentity []) = Some a \<and>
    authorization_load (authorization_body a) = Some a"
  by (rule authorization_file_round_trip)
    (simp_all add: zero_digest_def blob_hash_wf_def uuid_groups_canonical)

end
