(* ===== verification/Store_Base.thy ===== *)
theory Store_Base
  imports Process_Generation
begin

text \<open>
  What the durable writers share: the errors of the store, the machine arithmetic on
  revisions, the clock, and the parts of SQL their statements use. A table is the list of its
  rows in insertion order; \<open>find_row\<close> is a lookup by primary key, \<open>update_rows\<close> an \<^verbatim>\<open>UPDATE\<close>.
  A statement that violates a constraint of \<^verbatim>\<open>schema.sql\<close> returns the error that
  \<^verbatim>\<open>sql_error\<close> makes of it, and the transaction leaves no trace.
\<close>

section \<open>Errors\<close>

datatype database_error =
    Unavailable
  | DatabaseIncompatible
  | UnsafePath
  | Closed
  | Conflict
  | NotFound
  | AlreadyExists
  | Corrupt

datatype store_error =
    Database database_error
  | Incompatible string
  | UnsafeHostPath
  | IdempotencyConflict
  | OperationIdConflict
  | RevisionConflict string "i64 option" "i64 option"
  | OwnershipLost string
  | StoreCredentialRejected
  | AgentThreadInUse
  | InvalidInput string
  | CapacityExhausted string
  | StoreBlob string

definition sql_error :: store_error where "sql_error = Database Unavailable"

definition incompatible :: "string \<Rightarrow> store_error" where
  "incompatible reason = Incompatible (''stored '' @ reason @ '' is malformed'')"

text \<open>A conversion whose error the code replaces: \<^verbatim>\<open>map_err(|_| ...)\<close>.\<close>

definition or_incompatible :: "string \<Rightarrow> 'e + 'a \<Rightarrow> store_error + 'a" where
  "or_incompatible reason r = map_err (\<lambda>_. incompatible reason) r"

lemma or_incompatible_Ok_iff [simp]: "or_incompatible e r = Inr x \<longleftrightarrow> r = Inr x"
  by (simp add: or_incompatible_def)

lemma or_incompatible_Ok [simp]: "or_incompatible e (Inr x) = Inr x"
  by (simp add: or_incompatible_def)

section \<open>Clock and integers\<close>

text \<open>
  The clock of one call: the microseconds since 1970 that fit an \<^verbatim>\<open>i64\<close>, or \<open>None\<close> when the
  host clock stands before 1970 or beyond the range.
\<close>

definition unix_micros :: "i64 option \<Rightarrow> store_error + i64" where
  "unix_micros clock =
     (case clock of
        Some t \<Rightarrow> if t > 0 then Inr t else Inl (Database Unavailable)
      | None \<Rightarrow> Inl (Database Unavailable))"

definition i64_max :: i64 where "i64_max = 2 ^ 63 - 1"

definition saturating_add_i64 :: "i64 \<Rightarrow> i64 \<Rightarrow> i64" where
  "saturating_add_i64 a b = min i64_max (max (- (2 ^ 63)) (a + b))"

text \<open>The plain \<open>+\<close> of a release build: two's complement wrap-around.\<close>

definition wrapping_add_i64 :: "i64 \<Rightarrow> i64 \<Rightarrow> i64" where
  "wrapping_add_i64 a b = (a + b + 2 ^ 63) mod 2 ^ 64 - 2 ^ 63"

definition u32_try_from :: "i64 \<Rightarrow> (32 word) option" where
  "u32_try_from n = (if 0 \<le> n \<and> n < 2 ^ 32 then Some (word_of_int n) else None)"

definition u16_try_from :: "i64 \<Rightarrow> (16 word) option" where
  "u16_try_from n = (if 0 \<le> n \<and> n < 2 ^ 16 then Some (word_of_int n) else None)"

definition u64_try_from :: "i64 \<Rightarrow> (64 word) option" where
  "u64_try_from n = (if 0 \<le> n then Some (word_of_int n) else None)"

definition i64_try_from_u64 :: "64 word \<Rightarrow> i64 option" where
  "i64_try_from_u64 w = (if uint w \<le> i64_max then Some (uint w) else None)"

lemma wrapping_add_in_range: "0 < r \<Longrightarrow> r < i64_max \<Longrightarrow> wrapping_add_i64 r 1 = r + 1"
  by (simp add: wrapping_add_i64_def i64_max_def)

lemma wrapping_add_max: "wrapping_add_i64 i64_max 1 = - (2 ^ 63)"
  by (simp add: wrapping_add_i64_def i64_max_def)

lemma wrapping_add_pos: "0 < r \<Longrightarrow> r \<le> i64_max \<Longrightarrow> 0 < wrapping_add_i64 r 1 \<longleftrightarrow> r < i64_max"
  using wrapping_add_in_range [of r] wrapping_add_max by (cases "r = i64_max") auto

lemma u32_round_trip [simp]: "u32_try_from (uint w) = Some w"
  using unsigned_less [of w, where 'a = int] by (simp add: u32_try_from_def)

lemma unix_micros_Ok_iff: "unix_micros c = Inr t \<longleftrightarrow> c = Some t \<and> t > 0"
  by (auto simp: unix_micros_def split: option.splits)

section \<open>Tables\<close>

text \<open>\<^verbatim>\<open>length(text)\<close> of SQLite: characters of UTF-8 text up to the first NUL.\<close>

definition sql_length :: "string \<Rightarrow> nat" where
  "sql_length s = length (filter (\<lambda>c. code c div 64 \<noteq> 2) (takeWhile (\<lambda>c. code c \<noteq> 0) s))"

text \<open>A \<^verbatim>\<open>CHECK\<close> on a nullable column passes on NULL.\<close>

definition null_or :: "('a \<Rightarrow> bool) \<Rightarrow> 'a option \<Rightarrow> bool" where
  "null_or p v = (case v of None \<Rightarrow> True | Some x \<Rightarrow> p x)"

definition find_row :: "('r \<Rightarrow> string) \<Rightarrow> 'r list \<Rightarrow> string \<Rightarrow> 'r option" where
  "find_row key t k = find (\<lambda>r. key r = k) t"

definition update_rows :: "('r \<Rightarrow> bool) \<Rightarrow> ('r \<Rightarrow> 'r) \<Rightarrow> 'r list \<Rightarrow> 'r list" where
  "update_rows p f t = map (\<lambda>r. if p r then f r else r) t"

lemma find_row_Some: "find_row key t k = Some r \<Longrightarrow> r \<in> set t \<and> key r = k"
  by (induction t) (auto simp: find_row_def split: if_splits)

lemma find_row_None: "find_row key t k = None \<longleftrightarrow> (\<forall>r \<in> set t. key r \<noteq> k)"
  by (induction t) (auto simp: find_row_def)

lemma find_row_distinct:
  "distinct (map key t) \<Longrightarrow> r \<in> set t \<Longrightarrow> find_row key t (key r) = Some r"
  by (induction t) (auto simp: find_row_def image_iff)

lemma find_row_append:
  "find_row key (t @ [r]) k = (case find_row key t k of
     Some q \<Rightarrow> Some q | None \<Rightarrow> if key r = k then Some r else None)"
  by (induction t) (auto simp: find_row_def)

lemma find_row_update:
  assumes "\<And>r. p r \<Longrightarrow> key (f r) = key r"
  shows "find_row key (update_rows p f t) k = map_option (\<lambda>r. if p r then f r else r) (find_row key t k)"
  using assms by (induction t) (auto simp: find_row_def update_rows_def)

lemma map_update_rows:
  "(\<And>r. p r \<Longrightarrow> key (f r) = key r) \<Longrightarrow> map key (update_rows p f t) = map key t"
  by (induction t) (auto simp: update_rows_def)

lemma set_update_rows: "r \<in> set (update_rows p f t) \<longleftrightarrow> (\<exists>q \<in> set t. r = (if p q then f q else q))"
  by (auto simp: update_rows_def)

text \<open>An \<^verbatim>\<open>UPDATE\<close> of the one row that has a key.\<close>

lemma update_one_row:
  assumes "distinct (map key t)" "find_row key t k = Some r"
  shows "update_rows (\<lambda>q. key q = k) f t = map (\<lambda>q. if q = r then f r else q) t"
proof -
  have "r \<in> set t" "key r = k" using find_row_Some [OF assms(2)] by auto
  then have "q \<in> set t \<Longrightarrow> key q = k \<longleftrightarrow> q = r" for q
    using assms(1) by (auto simp: distinct_map inj_on_def)
  then show ?thesis by (auto simp: update_rows_def)
qed

lemma find_updated_row:
  assumes "find_row key t k = Some r" "\<And>q. key (f q) = key q"
  shows "find_row key (update_rows (\<lambda>q. key q = k) f t) j = (if j = k then Some (f r) else find_row key t j)"
  using assms find_row_Some [of key t j] by (cases "find_row key t j") (auto simp: find_row_update)

lemma in_updated_row:
  assumes "distinct (map key t)" "find_row key t k = Some r"
  shows "q \<in> set (update_rows (\<lambda>q. key q = k) f t) \<longleftrightarrow> q = f r \<or> q \<in> set t \<and> q \<noteq> r"
  using find_row_Some [OF assms(2)] by (auto simp: update_one_row [OF assms])

text \<open>A unique index stays unique when the updated row keeps its column and enters no index.\<close>

lemma distinct_index_update:
  assumes "distinct (map key t)" "find_row key t k = Some r"
    and "distinct (map col (filter p t))" "col (f r) = col r" "p (f r) \<longrightarrow> p r"
  shows "distinct (map col (filter p (update_rows (\<lambda>q. key q = k) f t)))"
proof -
  let ?u = "\<lambda>q. if q = r then f r else q"
  have "set (map col (filter p (map ?u xs))) \<subseteq> set (map col (filter p xs)) \<and>
      (distinct (map col (filter p xs)) \<longrightarrow> distinct (map col (filter p (map ?u xs))))" for xs
  proof (induction xs)
    case (Cons x xs)
    then show ?case using assms(4,5) by (cases "x = r") auto
  qed simp
  then show ?thesis using assms(3) unfolding update_one_row [OF assms(1,2)] by blast
qed

section \<open>Rows to values\<close>

text \<open>\<^verbatim>\<open>collect::<Result<Vec<_>, _>>()\<close>: the first error wins.\<close>

fun traverse :: "('a \<Rightarrow> 'e + 'b) \<Rightarrow> 'a list \<Rightarrow> 'e + 'b list" where
  "traverse f [] = Inr []"
| "traverse f (x # xs) = and_then (f x) (\<lambda>y. and_then (traverse f xs) (\<lambda>ys. Inr (y # ys)))"

lemma traverse_Ok: "(\<And>x. x \<in> set xs \<Longrightarrow> f x = Inr (g x)) \<Longrightarrow> traverse f xs = Inr (map g xs)"
  by (induction xs) simp_all

lemma traverse_elements: "traverse f xs = Inr ys \<Longrightarrow> list_all2 (\<lambda>x y. f x = Inr y) xs ys"
  by (induction xs arbitrary: ys) (auto simp: and_then_Ok_iff)

lemma traverse_each:
  assumes "traverse f xs = Inr ys" "y \<in> set ys"
  obtains x where "x \<in> set xs" "f x = Inr y"
proof -
  obtain i where "i < length ys" "y = ys ! i" using assms(2) by (auto simp: in_set_conv_nth)
  then have "xs ! i \<in> set xs \<and> f (xs ! i) = Inr y"
    using traverse_elements [OF assms(1)] by (simp add: list_all2_conv_all_nth)
  then show thesis using that by blast
qed

lemma traverse_images:
  assumes "traverse f xs = Inr ys" "\<And>x y. f x = Inr y \<Longrightarrow> g y = x"
  shows "map g ys = xs"
  using traverse_elements [OF assms(1)] by induction (auto dest: assms(2))

section \<open>Lengths of canonical text\<close>

lemma sql_length_ascii:
  assumes "\<forall>c \<in> set s. code c \<noteq> 0 \<and> code c div 64 \<noteq> 2"
  shows "sql_length s = length s"
proof -
  have "takeWhile (\<lambda>c. code c \<noteq> 0) s = s" using assms unfolding takeWhile_eq_all_conv by blast
  moreover have "filter (\<lambda>c. code c div 64 \<noteq> 2) s = s" using assms by (simp add: filter_id_conv)
  ultimately show ?thesis unfolding sql_length_def by metis
qed

lemma hex_char_ascii: "hex_char c \<or> c = CHR ''-'' \<Longrightarrow> code c \<noteq> 0 \<and> code c div 64 \<noteq> 2"
  by (auto simp: hex_char_def is_ascii_digit_def is_ascii_lower_hex_def)

lemma sql_length_uuid [simp]: "is_canonical_uuid s \<Longrightarrow> sql_length s = 36"
  using sql_length_ascii hex_char_ascii canonical_uuid_char is_canonical_uuid_length by metis

lemma sql_length_sha256 [simp]: "is_sha256 s \<Longrightarrow> sql_length s = 64"
  using sql_length_ascii [of s] hex_char_ascii by (simp add: is_sha256_iff list_all_iff)

end
