(* ===== verification/Generation_Store.thy ===== *)
theory Generation_Store
  imports Store_Base
begin

text \<open>
  The sole durable writer of process generations, \<^verbatim>\<open>database/src/process_generations.rs\<close>, over
  the tables of \<^verbatim>\<open>database/schema.sql\<close>. A row has the columns of the table; each statement
  is checked against the table's constraints. Every operation is one immediate transaction:
  it returns its outcome with the committed database, or an error and the database unchanged.
\<close>

section \<open>Rows\<close>

record execution_epoch_row =
  er_execution_epoch_id :: string
  er_authorization_sha256 :: string
  er_created_at_micros :: i64

record generation_row =
  gr_generation_id :: string
  gr_account_id :: string
  gr_runtime_session_id :: "string option"
  gr_execution_epoch_id :: string
  gr_runner_identity :: string
  gr_intended_boot_id :: string
  gr_control_kind :: string
  gr_isolation_kind :: string
  gr_bound_boot_id :: "string option"
  gr_process_id :: "i64 option"
  gr_process_start_id :: "string option"
  gr_process_group_id :: "i64 option"
  gr_session_id :: "i64 option"
  gr_account_revision :: i64
  gr_credential_schema_version :: i64
  gr_credential_version :: i64
  gr_credential_fingerprint :: string
  gr_credential_writer_operation_id :: string
  gr_provider :: string
  gr_provider_account_id :: string
  gr_refresh_callback_profile_sha256 :: string
  gr_quick_task_admission_key :: "string option"
  gr_state :: string
  gr_authority_loss_reason :: "string option"
  gr_death_evidence_id :: "string option"
  gr_revision :: i64
  gr_created_at_micros :: i64
  gr_updated_at_micros :: i64

record death_evidence_row =
  dr_evidence_id :: string
  dr_generation_id :: string
  dr_kind :: string
  dr_observed_boot_id :: string
  dr_bound_boot_id :: "string option"
  dr_process_id :: "i64 option"
  dr_process_start_id :: "string option"
  dr_process_group_id :: "i64 option"
  dr_session_id :: "i64 option"
  dr_witness_sha256 :: string
  dr_observed_at_micros :: i64

text \<open>The columns of other tables that the admission of a generation reads.\<close>

record account_row =
  acr_account_id :: string
  acr_revision :: i64
  acr_enabled :: bool
  acr_tombstoned_at_micros :: "i64 option"
  acr_credential_store_observation :: string

record credential_row =
  crr_account_id :: string
  crr_schema_version :: i64
  crr_credential_version :: i64
  crr_fingerprint :: string
  crr_writer_operation_id :: string
  crr_provider :: string
  crr_provider_account_id :: string

record operation_row =
  opr_operation_id :: string
  opr_account_id :: string
  opr_phase :: string
  opr_superseded_by :: "string option"

record capability_row =
  cap_login_chatgpt_auth_tokens :: bool
  cap_refresh_callback :: bool
  cap_callback_profile_sha256 :: string

record generation_db =
  gd_epochs :: "execution_epoch_row list"
  gd_generations :: "generation_row list"
  gd_death_evidence :: "death_evidence_row list"
  gd_accounts :: "account_row list"
  gd_credentials :: "credential_row list"
  gd_operations :: "operation_row list"
  gd_capability :: "capability_row option"
  gd_runtime_sessions :: "string list"

section \<open>Constraints of the schema\<close>

definition epoch_row_checks :: "execution_epoch_row \<Rightarrow> bool" where
  "epoch_row_checks r \<longleftrightarrow> sql_length (er_execution_epoch_id r) = 36 \<and>
     sql_length (er_authorization_sha256 r) = 64 \<and> er_created_at_micros r > 0"

text \<open>
  The identity columns: all NULL, or the five of them with equal numbers. A comparison with
  NULL is unknown, and an unknown \<^verbatim>\<open>CHECK\<close> passes.
\<close>

definition identity_columns_check ::
    "string option \<Rightarrow> i64 option \<Rightarrow> string option \<Rightarrow> i64 option \<Rightarrow> i64 option \<Rightarrow> bool" where
  "identity_columns_check boot pid start grp session \<longleftrightarrow>
     boot = None \<and> pid = None \<and> start = None \<and> grp = None \<and> session = None \<or>
     boot \<noteq> None \<and> pid \<noteq> None \<and> start \<noteq> None \<and>
     null_or (\<lambda>g. Some g = pid) grp \<and> null_or (\<lambda>s. Some s = pid) session"

definition generation_row_checks :: "generation_row \<Rightarrow> bool" where
  "generation_row_checks r \<longleftrightarrow>
     sql_length (gr_generation_id r) = 36 \<and>
     1 \<le> length (gr_runner_identity r) \<and> length (gr_runner_identity r) \<le> 128 \<and>
     1 \<le> length (gr_intended_boot_id r) \<and> length (gr_intended_boot_id r) \<le> 256 \<and>
     gr_control_kind r \<in> set [''stdio_only_best_effort_eof'', ''parent_death_signal_and_stdio_eof''] \<and>
     gr_isolation_kind r = ''session'' \<and>
     null_or (\<lambda>n. n > 0) (gr_process_id r) \<and>
     null_or (\<lambda>n. n > 0) (gr_process_group_id r) \<and>
     null_or (\<lambda>n. n > 0) (gr_session_id r) \<and>
     gr_account_revision r > 0 \<and>
     gr_credential_schema_version r \<in> set [1, 2] \<and>
     gr_credential_version r > 0 \<and>
     sql_length (gr_credential_fingerprint r) = 64 \<and>
     sql_length (gr_credential_writer_operation_id r) = 36 \<and>
     gr_provider r = ''chatgpt'' \<and>
     1 \<le> length (gr_provider_account_id r) \<and> length (gr_provider_account_id r) \<le> 512 \<and>
     sql_length (gr_refresh_callback_profile_sha256 r) = 64 \<and>
     null_or (\<lambda>k. 1 \<le> length k \<and> length k \<le> 256) (gr_quick_task_admission_key r) \<and>
     gr_state r \<in> set [''starting'', ''ready'', ''stopping'', ''dead'', ''death_unknown''] \<and>
     gr_revision r > 0 \<and>
     gr_created_at_micros r > 0 \<and>
     gr_updated_at_micros r \<ge> gr_created_at_micros r \<and>
     identity_columns_check (gr_bound_boot_id r) (gr_process_id r) (gr_process_start_id r)
       (gr_process_group_id r) (gr_session_id r) \<and>
     (gr_state r \<in> set [''ready'', ''stopping''] \<longrightarrow> gr_process_id r \<noteq> None) \<and>
     (gr_state r = ''death_unknown'' \<longleftrightarrow> gr_authority_loss_reason r \<noteq> None) \<and>
     (gr_state r = ''dead'' \<longleftrightarrow> gr_death_evidence_id r \<noteq> None)"

definition evidence_row_checks :: "death_evidence_row \<Rightarrow> bool" where
  "evidence_row_checks r \<longleftrightarrow>
     sql_length (dr_evidence_id r) = 36 \<and>
     dr_kind r \<in> set [''spawn_not_created'', ''owned_child_exit'', ''linux_pidfd_exit'',
       ''macos_kqueue_exit_and_group_quiescence'', ''macos_kernel_confirmed_gone'',
       ''exact_termination_exit'', ''prior_boot_ended''] \<and>
     1 \<le> length (dr_observed_boot_id r) \<and> length (dr_observed_boot_id r) \<le> 256 \<and>
     null_or (\<lambda>n. n > 0) (dr_process_id r) \<and>
     null_or (\<lambda>n. n > 0) (dr_process_group_id r) \<and>
     null_or (\<lambda>n. n > 0) (dr_session_id r) \<and>
     sql_length (dr_witness_sha256 r) = 64 \<and>
     dr_observed_at_micros r > 0 \<and>
     identity_columns_check (dr_bound_boot_id r) (dr_process_id r) (dr_process_start_id r)
       (dr_process_group_id r) (dr_session_id r)"

text \<open>
  The keys: the primary key, the unique admission key, and the partial unique index
  \<^verbatim>\<open>one_quarantining_process_generation_per_account\<close>.
\<close>

definition quarantining_accounts :: "generation_row list \<Rightarrow> string list" where
  "quarantining_accounts t = map gr_account_id (filter (\<lambda>r. gr_state r \<noteq> ''dead'') t)"

definition admission_keys :: "generation_row list \<Rightarrow> string list" where
  "admission_keys t = List.map_filter gr_quick_task_admission_key t"

definition generation_keys_unique :: "generation_row list \<Rightarrow> bool" where
  "generation_keys_unique t \<longleftrightarrow> distinct (map gr_generation_id t) \<and> distinct (admission_keys t) \<and>
     distinct (quarantining_accounts t)"

section \<open>Statements\<close>

definition find_generation_row :: "generation_row list \<Rightarrow> string \<Rightarrow> generation_row option" where
  "find_generation_row = find_row gr_generation_id"

definition insert_generation ::
    "generation_db \<Rightarrow> generation_row \<Rightarrow> store_error + generation_db" where
  "insert_generation db r =
     (if generation_row_checks r
         \<and> generation_keys_unique (gd_generations db @ [r])
         \<and> gr_account_id r \<in> acr_account_id ` set (gd_accounts db)
         \<and> null_or (\<lambda>s. s \<in> set (gd_runtime_sessions db)) (gr_runtime_session_id r)
         \<and> gr_execution_epoch_id r \<in> er_execution_epoch_id ` set (gd_epochs db)
         \<and> gr_credential_writer_operation_id r \<in> opr_operation_id ` set (gd_operations db)
      then Inr (db\<lparr>gd_generations := gd_generations db @ [r]\<rparr>)
      else Inl sql_error)"

text \<open>An \<^verbatim>\<open>UPDATE\<close> of the rows that satisfy \<open>p\<close>; the statement fails as a whole.\<close>

definition update_generations ::
    "generation_db \<Rightarrow> (generation_row \<Rightarrow> bool) \<Rightarrow> (generation_row \<Rightarrow> generation_row) \<Rightarrow>
     store_error + generation_db" where
  "update_generations db p f =
     (let t' = update_rows p f (gd_generations db) in
      if list_all (\<lambda>r. p r \<longrightarrow> generation_row_checks (f r)) (gd_generations db)
         \<and> generation_keys_unique t'
      then Inr (db\<lparr>gd_generations := t'\<rparr>)
      else Inl sql_error)"

definition insert_evidence :: "generation_db \<Rightarrow> death_evidence_row \<Rightarrow> store_error + generation_db" where
  "insert_evidence db r =
     (if evidence_row_checks r
         \<and> dr_evidence_id r \<notin> dr_evidence_id ` set (gd_death_evidence db)
         \<and> dr_generation_id r \<notin> dr_generation_id ` set (gd_death_evidence db)
         \<and> dr_generation_id r \<in> gr_generation_id ` set (gd_generations db)
      then Inr (db\<lparr>gd_death_evidence := gd_death_evidence db @ [r]\<rparr>)
      else Inl sql_error)"

text \<open>\<^verbatim>\<open>INSERT OR IGNORE\<close> skips a row that violates a constraint.\<close>

definition insert_or_ignore_epoch :: "generation_db \<Rightarrow> execution_epoch_row \<Rightarrow> generation_db" where
  "insert_or_ignore_epoch db r =
     (if epoch_row_checks r \<and> er_execution_epoch_id r \<notin> er_execution_epoch_id ` set (gd_epochs db)
      then db\<lparr>gd_epochs := gd_epochs db @ [r]\<rparr>
      else db)"

section \<open>Reading rows\<close>

definition parse_state :: "string \<Rightarrow> store_error + process_generation_state" where
  "parse_state value =
     (if value = ''starting'' then Inr Starting
      else if value = ''ready'' then Inr Ready
      else if value = ''stopping'' then Inr Stopping
      else if value = ''dead'' then Inr Dead
      else if value = ''death_unknown'' then Inr DeathUnknown
      else Inl (incompatible ''generation state''))"

definition parse_loss :: "string \<Rightarrow> store_error + process_authority_loss_reason" where
  "parse_loss value =
     (if value = ''supervisor_restarted'' then Inr SupervisorRestarted
      else if value = ''identity_persistence_failed'' then Inr IdentityPersistenceFailed
      else if value = ''readiness_persistence_failed'' then Inr ReadinessPersistenceFailed
      else if value = ''termination_unproved'' then Inr TerminationUnproved
      else if value = ''control_authority_lost'' then Inr ControlAuthorityLost
      else Inl (incompatible ''authority-loss reason''))"

definition parse_control :: "string \<Rightarrow> store_error + process_control_kind" where
  "parse_control value =
     (if value = ''stdio_only_best_effort_eof'' then Inr StdioOnlyBestEffortEof
      else if value = ''parent_death_signal_and_stdio_eof'' then Inr ParentDeathSignalAndStdioEof
      else Inl (incompatible ''control kind''))"

definition parse_isolation :: "string \<Rightarrow> store_error + process_isolation_kind" where
  "parse_isolation value =
     (if value = ''session'' then Inr IsolationSession else Inl (incompatible ''isolation kind''))"

definition parse_process_identity ::
    "string option \<Rightarrow> i64 option \<Rightarrow> string option \<Rightarrow> i64 option \<Rightarrow> i64 option \<Rightarrow>
     store_error + process_identity option" where
  "parse_process_identity boot pid start grp session =
     (case (boot, pid, start, grp, session) of
        (None, None, None, None, None) \<Rightarrow> Inr None
      | (Some boot, Some pid, Some start, Some grp, Some session) \<Rightarrow>
          and_then (or_incompatible ''bound boot'' (process_boot_identity_new boot)) (\<lambda>boot.
          and_then (ok_or (incompatible ''process id'') (u32_try_from pid)) (\<lambda>pid.
          and_then (or_incompatible ''process start'' (process_start_identity_new start)) (\<lambda>start.
          and_then (ok_or (incompatible ''process group'') (u32_try_from grp)) (\<lambda>grp.
          and_then (ok_or (incompatible ''session id'') (u32_try_from session)) (\<lambda>session.
          and_then (or_incompatible ''process identity'' (process_identity_new boot pid start grp session))
            (\<lambda>identity. Inr (Some identity)))))))
      | _ \<Rightarrow> Inl (incompatible ''partial process identity''))"

text \<open>\<open>transpose\<close> turns an optional conversion into a result: \<^verbatim>\<open>.map(f).transpose()\<close>.\<close>

definition transpose_map :: "('a \<Rightarrow> 'e + 'b) \<Rightarrow> 'a option \<Rightarrow> 'e + 'b option" where
  "transpose_map f v = (case v of None \<Rightarrow> Inr None | Some x \<Rightarrow> and_then (f x) (\<lambda>y. Inr (Some y)))"

definition parse_generation_row :: "generation_row \<Rightarrow> store_error + process_generation" where
  "parse_generation_row row =
     and_then (or_incompatible ''boot identity'' (process_boot_identity_new (gr_intended_boot_id row))) (\<lambda>intended_boot.
     and_then (parse_process_identity (gr_bound_boot_id row) (gr_process_id row) (gr_process_start_id row)
         (gr_process_group_id row) (gr_session_id row)) (\<lambda>identity.
     and_then (or_incompatible ''generation id'' (process_generation_id_new (gr_generation_id row))) (\<lambda>generation.
     and_then (or_incompatible ''account id'' (account_id_new (gr_account_id row))) (\<lambda>account.
     and_then (or_incompatible ''epoch id'' (process_execution_epoch_id_new (gr_execution_epoch_id row))) (\<lambda>epoch.
     and_then (or_incompatible ''runner'' (process_runner_identity_new (gr_runner_identity row))) (\<lambda>runner.
     and_then (parse_control (gr_control_kind row)) (\<lambda>control.
     and_then (parse_isolation (gr_isolation_kind row)) (\<lambda>isolation.
     and_then (parse_state (gr_state row)) (\<lambda>state.
     and_then (transpose_map parse_loss (gr_authority_loss_reason row)) (\<lambda>loss.
     and_then (transpose_map (\<lambda>e. or_incompatible ''death evidence'' (process_death_evidence_id_new e))
         (gr_death_evidence_id row)) (\<lambda>evidence.
       Inr \<lparr>pg_generation_id = generation, pg_account_id = account, pg_execution_epoch_id = epoch,
            pg_runner_identity = runner, pg_intended_boot_id = intended_boot, pg_control_kind = control,
            pg_isolation_kind = isolation, pg_process_identity = identity, pg_state = state,
            pg_authority_loss_reason = loss, pg_death_evidence_id = evidence,
            pg_revision = gr_revision row, pg_created_at_micros = gr_created_at_micros row,
            pg_updated_at_micros = gr_updated_at_micros row\<rparr>)))))))))))"

definition read_generation :: "generation_db \<Rightarrow> string \<Rightarrow> store_error + process_generation option" where
  "read_generation db k = transpose_map parse_generation_row (find_generation_row (gd_generations db) k)"

definition read_required_generation ::
    "generation_db \<Rightarrow> process_generation_id \<Rightarrow> store_error + process_generation" where
  "read_required_generation db k =
     and_then (read_generation db (generation_id_text k)) (ok_or (incompatible ''generation missing''))"

interpretation generation_state_label: label_codec state_as_sql "\<lambda>s. ok_opt (parse_state s)"
proof
  show "ok_opt (parse_state (state_as_sql b)) = Some b" for b
    by (cases b) (simp_all add: parse_state_def)
  show "ok_opt (parse_state s) = Some b \<Longrightarrow> s = state_as_sql b" for s b
    unfolding parse_state_def ok_opt_Some_iff by (elim if_Ok_elim; simp)
qed

interpretation loss_label: label_codec loss_as_sql "\<lambda>s. ok_opt (parse_loss s)"
proof
  show "ok_opt (parse_loss (loss_as_sql b)) = Some b" for b
    by (cases b) (simp_all add: parse_loss_def)
  show "ok_opt (parse_loss s) = Some b \<Longrightarrow> s = loss_as_sql b" for s b
    unfolding parse_loss_def ok_opt_Some_iff by (elim if_Ok_elim; simp)
qed

interpretation control_label: label_codec control_as_sql "\<lambda>s. ok_opt (parse_control s)"
proof
  show "ok_opt (parse_control (control_as_sql b)) = Some b" for b
    by (cases b) (simp_all add: parse_control_def)
  show "ok_opt (parse_control s) = Some b \<Longrightarrow> s = control_as_sql b" for s b
    unfolding parse_control_def ok_opt_Some_iff by (elim if_Ok_elim; simp)
qed

end
