(* ===== verification/Generation_Ops.thy ===== *)
theory Generation_Ops
  imports Generation_Store
begin

text \<open>
  The transactions of \<^verbatim>\<open>process_generations.rs\<close>: admission of a generation, binding of its
  process identity, readiness, stopping, loss of authority, recorded death, and the
  projection after a supervisor loss. \<open>clock\<close> is the host clock of the call.
\<close>

section \<open>Outcomes\<close>

datatype generation_rejection =
    IdentityConflict
  | ConversationAuthorityUnavailable
  | RestoreAuthorityUnavailable
  | AccountMissing
  | AccountQuarantined
  | AccountLifecycleUnready
  | CallbackCapabilityUnready
  | GenerationMissing
  | StaleGeneration
  | ProcessIdentityConflict
  | InvalidProcessIdentityRejection
  | EvidenceConflict
  | InvalidEvidence
  | EvidenceMismatch

record generation_mutation =
  gm_revision :: i64
  gm_state :: process_generation_state
  gm_recorded_at_micros :: i64

record generation_fence =
  gf_generation_id :: process_generation_id
  gf_revision :: i64
  gf_fenced_at_micros :: i64

datatype prepare_outcome =
    Fresh generation_fence
  | PrepareReplayed generation_mutation
  | PrepareRejected generation_rejection generation_mutation

datatype mutation_outcome =
    Applied generation_mutation
  | Replayed generation_mutation
  | MutationRejected generation_rejection generation_mutation

definition empty_mutation :: generation_mutation where
  "empty_mutation = \<lparr>gm_revision = 0, gm_state = Starting, gm_recorded_at_micros = 0\<rparr>"

definition mutation :: "process_generation \<Rightarrow> generation_mutation" where
  "mutation g = \<lparr>gm_revision = pg_revision g, gm_state = pg_state g,
     gm_recorded_at_micros = pg_updated_at_micros g\<rparr>"

definition rejected :: "generation_rejection \<Rightarrow> process_generation \<Rightarrow> mutation_outcome" where
  "rejected rejection g = MutationRejected rejection (mutation g)"

section \<open>Admission\<close>

fun provider_text :: "account_provider \<Rightarrow> string" where
  "provider_text Chatgpt = ''chatgpt''"

definition unsettled_operation :: "generation_db \<Rightarrow> string \<Rightarrow> bool" where
  "unsettled_operation db account =
     (\<exists>o' \<in> set (gd_operations db). opr_account_id o' = account \<and>
        opr_phase o' \<notin> set [''committed'', ''cancelled''] \<and> opr_superseded_by o' = None)"

definition callback_capability :: "generation_db \<Rightarrow> string \<Rightarrow> bool" where
  "callback_capability db profile =
     (case gd_capability db of
        None \<Rightarrow> False
      | Some c \<Rightarrow> cap_login_chatgpt_auth_tokens c \<and> cap_refresh_callback c \<and>
          cap_callback_profile_sha256 c = profile)"

definition credential_matches :: "credential_row option \<Rightarrow> i64 \<Rightarrow> credential_binding \<Rightarrow> bool" where
  "credential_matches row version credential =
     (case row of
        None \<Rightarrow> False
      | Some c \<Rightarrow>
          crr_schema_version c = uint (schema_get (cb_schema_version credential)) \<and>
          crr_credential_version c = version \<and>
          crr_fingerprint c = fingerprint_text (cb_fingerprint credential) \<and>
          crr_writer_operation_id c = operation_id_text (cb_writer_operation_id credential) \<and>
          crr_provider c = provider_text (pid_provider (cb_provider credential)) \<and>
          crr_provider_account_id c = pid_account_id (cb_provider credential))"

definition credential_version_i64 :: "credential_binding \<Rightarrow> store_error + i64" where
  "credential_version_i64 credential =
     ok_or (InvalidInput ''credential version overflows SQLite integer'')
       (i64_try_from_u64 (credential_version_get (cb_version credential)))"

definition account_authority ::
    "generation_db \<Rightarrow> account_id \<Rightarrow> account_binding \<Rightarrow> store_error + generation_rejection option" where
  "account_authority db account binding =
     (case find_row acr_account_id (gd_accounts db) (account_id_text account) of
        None \<Rightarrow> Inr (Some AccountMissing)
      | Some row \<Rightarrow>
          if acr_revision row \<noteq> ab_account_revision binding \<or> \<not> acr_enabled row
             \<or> acr_tombstoned_at_micros row \<noteq> None
             \<or> acr_credential_store_observation row \<noteq> ''exact''
             \<or> unsettled_operation db (account_id_text account)
          then Inr (Some AccountLifecycleUnready)
          else if \<not> callback_capability db (ab_refresh_callback_profile_sha256 binding)
          then Inr (Some CallbackCapabilityUnready)
          else and_then (credential_version_i64 (ab_credential binding)) (\<lambda>version.
            if credential_matches (find_row crr_account_id (gd_credentials db) (account_id_text account))
                 version (ab_credential binding)
            then Inr None else Inr (Some AccountLifecycleUnready)))"

definition same_intent :: "process_generation \<Rightarrow> process_generation_intent \<Rightarrow> bool" where
  "same_intent existing intent \<longleftrightarrow>
     pg_account_id existing = in_account_id intent \<and>
     pg_execution_epoch_id existing = xa_epoch_id (in_execution_authorization intent) \<and>
     pg_runner_identity existing = in_runner_identity intent \<and>
     pg_intended_boot_id existing = in_intended_boot_id intent \<and>
     pg_control_kind existing = in_control_kind intent \<and>
     pg_isolation_kind existing = in_isolation_kind intent"

definition intent_row ::
    "process_generation_intent \<Rightarrow> account_binding \<Rightarrow> string option \<Rightarrow> string option \<Rightarrow> i64 \<Rightarrow> i64 \<Rightarrow>
     generation_row" where
  "intent_row intent binding runtime_session admission_key version now =
     \<lparr>gr_generation_id = generation_id_text (in_generation_id intent),
      gr_account_id = account_id_text (in_account_id intent),
      gr_runtime_session_id = runtime_session,
      gr_execution_epoch_id = epoch_id_text (xa_epoch_id (in_execution_authorization intent)),
      gr_runner_identity = runner_text (in_runner_identity intent),
      gr_intended_boot_id = boot_text (in_intended_boot_id intent),
      gr_control_kind = control_as_sql (in_control_kind intent),
      gr_isolation_kind = isolation_as_sql (in_isolation_kind intent),
      gr_bound_boot_id = None, gr_process_id = None, gr_process_start_id = None,
      gr_process_group_id = None, gr_session_id = None,
      gr_account_revision = ab_account_revision binding,
      gr_credential_schema_version = uint (schema_get (cb_schema_version (ab_credential binding))),
      gr_credential_version = version,
      gr_credential_fingerprint = fingerprint_text (cb_fingerprint (ab_credential binding)),
      gr_credential_writer_operation_id = operation_id_text (cb_writer_operation_id (ab_credential binding)),
      gr_provider = provider_text (pid_provider (cb_provider (ab_credential binding))),
      gr_provider_account_id = pid_account_id (cb_provider (ab_credential binding)),
      gr_refresh_callback_profile_sha256 = ab_refresh_callback_profile_sha256 binding,
      gr_quick_task_admission_key = admission_key,
      gr_state = ''starting'', gr_authority_loss_reason = None, gr_death_evidence_id = None,
      gr_revision = 1, gr_created_at_micros = now, gr_updated_at_micros = now\<rparr>"

text \<open>
  \<^verbatim>\<open>prepare_bound_generation\<close>; \<open>epoch_clock\<close> is read for the epoch row, \<open>clock\<close> for the
  generation.
\<close>

definition prepare_bound_generation ::
    "i64 option \<Rightarrow> i64 option \<Rightarrow> process_generation_intent \<Rightarrow> account_binding \<Rightarrow> string option \<Rightarrow>
     string option \<Rightarrow> generation_db \<Rightarrow> store_error + prepare_outcome \<times> generation_db" where
  "prepare_bound_generation epoch_clock clock intent binding runtime_session admission_key db =
     and_then (read_generation db (generation_id_text (in_generation_id intent))) (\<lambda>existing.
     case existing of
       Some existing \<Rightarrow>
         (if same_intent existing intent then Inr (PrepareReplayed (mutation existing), db)
          else Inr (PrepareRejected IdentityConflict (mutation existing), db))
     | None \<Rightarrow>
         and_then (account_authority db (in_account_id intent) binding) (\<lambda>authority.
         case authority of
           Some rejection \<Rightarrow> Inr (PrepareRejected rejection empty_mutation, db)
         | None \<Rightarrow>
             if account_id_text (in_account_id intent) \<in> set (quarantining_accounts (gd_generations db))
             then Inr (PrepareRejected AccountQuarantined empty_mutation, db)
             else
             and_then (unix_micros epoch_clock) (\<lambda>epoch_now.
             let authorization = in_execution_authorization intent;
                 db1 = insert_or_ignore_epoch db
                   \<lparr>er_execution_epoch_id = epoch_id_text (xa_epoch_id authorization),
                    er_authorization_sha256 = xa_authorization_digest authorization,
                    er_created_at_micros = epoch_now\<rparr>
             in
             and_then (ok_or sql_error (find_row er_execution_epoch_id (gd_epochs db1)
                 (epoch_id_text (xa_epoch_id authorization)))) (\<lambda>epoch_row.
             if er_authorization_sha256 epoch_row \<noteq> xa_authorization_digest authorization
             then Inr (PrepareRejected RestoreAuthorityUnavailable empty_mutation, db1)
             else
             and_then (unix_micros clock) (\<lambda>now.
             and_then (credential_version_i64 (ab_credential binding)) (\<lambda>version.
             and_then (insert_generation db1
                 (intent_row intent binding runtime_session admission_key version now)) (\<lambda>db2.
               Inr (Fresh \<lparr>gf_generation_id = in_generation_id intent, gf_revision = 1,
                      gf_fenced_at_micros = now\<rparr>, db2))))))))"

section \<open>Mutations\<close>

definition by_generation :: "process_generation_id \<Rightarrow> generation_row \<Rightarrow> bool" where
  "by_generation k r \<longleftrightarrow> gr_generation_id r = generation_id_text k"

text \<open>
  \<^verbatim>\<open>mutate_generation\<close>: the operation runs on the current projection and the clock inside
  the transaction.
\<close>

definition mutate_generation ::
    "i64 option \<Rightarrow> process_generation_id \<Rightarrow>
     (generation_db \<Rightarrow> process_generation \<Rightarrow> i64 \<Rightarrow> store_error + mutation_outcome \<times> generation_db) \<Rightarrow>
     generation_db \<Rightarrow> store_error + mutation_outcome \<times> generation_db" where
  "mutate_generation clock generation operation db =
     and_then (read_generation db (generation_id_text generation)) (\<lambda>current.
     case current of
       None \<Rightarrow> Inr (MutationRejected GenerationMissing empty_mutation, db)
     | Some current \<Rightarrow> and_then (unix_micros clock) (\<lambda>now. operation db current now))"

definition bind_process_generation_identity ::
    "i64 option \<Rightarrow> process_generation_id \<Rightarrow> i64 \<Rightarrow> process_identity \<Rightarrow> generation_db \<Rightarrow>
     store_error + mutation_outcome \<times> generation_db" where
  "bind_process_generation_identity clock generation expected_revision identity db =
     (if expected_revision \<le> 0
         \<or> pi_process_id identity \<noteq> pi_process_group_id identity
         \<or> pi_process_id identity \<noteq> pi_session_id identity
      then Inl (InvalidInput ''ProcessGeneration identity is invalid'')
      else and_then (read_required_generation db generation) (\<lambda>current.
        if pg_revision current = saturating_add_i64 expected_revision 1
           \<and> pg_process_identity current = Some identity
        then Inr (Replayed (mutation current), db)
        else if pg_revision current \<noteq> expected_revision
           \<or> pg_state current \<noteq> Starting
           \<or> pg_process_identity current \<noteq> None
           \<or> pi_boot_id identity \<noteq> pg_intended_boot_id current
        then Inr (rejected StaleGeneration current, db)
        else and_then (unix_micros clock) (\<lambda>now.
          let revision = wrapping_add_i64 expected_revision 1 in
          and_then (update_generations db (by_generation generation) (\<lambda>r. r\<lparr>
              gr_bound_boot_id := Some (boot_text (pi_boot_id identity)),
              gr_process_id := Some (uint (pi_process_id identity)),
              gr_process_start_id := Some (start_text (pi_process_start_id identity)),
              gr_process_group_id := Some (uint (pi_process_group_id identity)),
              gr_session_id := Some (uint (pi_session_id identity)),
              gr_revision := revision, gr_updated_at_micros := now\<rparr>)) (\<lambda>db'.
            Inr (Applied \<lparr>gm_revision = revision, gm_state = Starting, gm_recorded_at_micros = now\<rparr>, db')))))"

definition transition_generation ::
    "i64 option \<Rightarrow> process_generation_id \<Rightarrow> i64 \<Rightarrow> process_generation_state list \<Rightarrow>
     process_generation_state \<Rightarrow> generation_db \<Rightarrow> store_error + mutation_outcome \<times> generation_db" where
  "transition_generation clock generation expected_revision expected_states target_state db =
     (if expected_revision \<le> 0
      then Inl (InvalidInput ''ProcessGeneration revision must be positive'')
      else mutate_generation clock generation (\<lambda>db current now.
        if pg_state current = target_state \<and> pg_revision current = saturating_add_i64 expected_revision 1
        then Inr (Replayed (mutation current), db)
        else if pg_revision current \<noteq> expected_revision
           \<or> pg_state current \<notin> set expected_states
           \<or> pg_process_identity current = None
        then Inr (rejected StaleGeneration current, db)
        else let revision = wrapping_add_i64 expected_revision 1 in
          and_then (update_generations db (by_generation (pg_generation_id current)) (\<lambda>r. r\<lparr>
              gr_state := state_as_sql target_state, gr_revision := revision,
              gr_updated_at_micros := now, gr_authority_loss_reason := None\<rparr>)) (\<lambda>db'.
            Inr (Applied \<lparr>gm_revision = revision, gm_state = target_state,
                   gm_recorded_at_micros = now\<rparr>, db'))) db)"

definition mark_process_generation_ready ::
    "i64 option \<Rightarrow> process_generation_id \<Rightarrow> i64 \<Rightarrow> generation_db \<Rightarrow>
     store_error + mutation_outcome \<times> generation_db" where
  "mark_process_generation_ready clock generation expected_revision =
     transition_generation clock generation expected_revision [Starting] Ready"

definition mark_process_generation_stopping ::
    "i64 option \<Rightarrow> process_generation_id \<Rightarrow> i64 \<Rightarrow> generation_db \<Rightarrow>
     store_error + mutation_outcome \<times> generation_db" where
  "mark_process_generation_stopping clock generation expected_revision =
     transition_generation clock generation expected_revision
       [Starting, Ready, Stopping, DeathUnknown] Stopping"

definition mark_process_generation_death_unknown ::
    "i64 option \<Rightarrow> process_generation_id \<Rightarrow> i64 \<Rightarrow> process_authority_loss_reason \<Rightarrow> generation_db \<Rightarrow>
     store_error + mutation_outcome \<times> generation_db" where
  "mark_process_generation_death_unknown clock generation expected_revision reason =
     mutate_generation clock generation (\<lambda>db current now.
       if pg_state current = DeathUnknown \<and> pg_authority_loss_reason current = Some reason
          \<and> pg_revision current = saturating_add_i64 expected_revision 1
       then Inr (Replayed (mutation current), db)
       else if pg_revision current \<noteq> expected_revision \<or> pg_state current = Dead
       then Inr (rejected StaleGeneration current, db)
       else let revision = wrapping_add_i64 expected_revision 1 in
         and_then (update_generations db (by_generation (pg_generation_id current)) (\<lambda>r. r\<lparr>
             gr_state := ''death_unknown'', gr_authority_loss_reason := Some (loss_as_sql reason),
             gr_revision := revision, gr_updated_at_micros := now\<rparr>)) (\<lambda>db'.
           Inr (Applied \<lparr>gm_revision = revision, gm_state = DeathUnknown,
                  gm_recorded_at_micros = now\<rparr>, db')))"

definition evidence_identity_matches :: "process_death_evidence \<Rightarrow> process_generation \<Rightarrow> bool" where
  "evidence_identity_matches evidence current \<longleftrightarrow>
     (if de_kind evidence = PriorBootEnded
      then de_process_identity evidence = None \<and> de_observed_boot_id evidence \<noteq> pg_intended_boot_id current
      else de_process_identity evidence = pg_process_identity current)"

definition evidence_row :: "process_death_evidence \<Rightarrow> i64 \<Rightarrow> death_evidence_row" where
  "evidence_row evidence now =
     \<lparr>dr_evidence_id = death_evidence_id_text (de_evidence_id evidence),
      dr_generation_id = generation_id_text (de_generation_id evidence),
      dr_kind = death_kind_as_sql (de_kind evidence),
      dr_observed_boot_id = boot_text (de_observed_boot_id evidence),
      dr_bound_boot_id = map_option (boot_text \<circ> pi_boot_id) (de_process_identity evidence),
      dr_process_id = map_option (uint \<circ> pi_process_id) (de_process_identity evidence),
      dr_process_start_id = map_option (start_text \<circ> pi_process_start_id) (de_process_identity evidence),
      dr_process_group_id = map_option (uint \<circ> pi_process_group_id) (de_process_identity evidence),
      dr_session_id = map_option (uint \<circ> pi_session_id) (de_process_identity evidence),
      dr_witness_sha256 = de_witness_digest evidence, dr_observed_at_micros = now\<rparr>"

definition record_process_generation_death ::
    "i64 option \<Rightarrow> i64 \<Rightarrow> process_death_evidence \<Rightarrow> generation_db \<Rightarrow>
     store_error + mutation_outcome \<times> generation_db" where
  "record_process_generation_death clock expected_revision evidence =
     mutate_generation clock (de_generation_id evidence) (\<lambda>db current now.
       if pg_state current = Dead
       then (if pg_death_evidence_id current = Some (de_evidence_id evidence)
             then Inr (Replayed (mutation current), db)
             else Inr (rejected EvidenceConflict current, db))
       else if pg_revision current \<noteq> expected_revision \<or> \<not> evidence_identity_matches evidence current
       then Inr (rejected EvidenceMismatch current, db)
       else and_then (insert_evidence db (evidence_row evidence now)) (\<lambda>db1.
         let revision = wrapping_add_i64 expected_revision 1 in
         and_then (update_generations db1 (by_generation (pg_generation_id current)) (\<lambda>r. r\<lparr>
             gr_state := ''dead'', gr_authority_loss_reason := None,
             gr_death_evidence_id := Some (death_evidence_id_text (de_evidence_id evidence)),
             gr_revision := revision, gr_updated_at_micros := now\<rparr>)) (\<lambda>db2.
           Inr (Applied \<lparr>gm_revision = revision, gm_state = Dead, gm_recorded_at_micros = now\<rparr>, db2))))"

text \<open>
  The projection after a supervisor loss: one statement over every row. SQL \<^verbatim>\<open>revision + 1\<close>
  leaves the integer range at the maximum, where the value turns into a real and the
  strict column refuses it; the model adds in the integers and the range check of the
  column is explicit.
\<close>

definition project_process_generations_after_supervisor_loss ::
    "i64 option \<Rightarrow> generation_db \<Rightarrow> store_error + nat \<times> generation_db" where
  "project_process_generations_after_supervisor_loss clock db =
     and_then (unix_micros clock) (\<lambda>now.
       let live = (\<lambda>r. gr_state r \<notin> set [''dead'', ''death_unknown'']) in
       if \<not> list_all (\<lambda>r. live r \<longrightarrow> gr_revision r < i64_max) (gd_generations db) then Inl sql_error
       else and_then (update_generations db live (\<lambda>r. r\<lparr>
           gr_state := ''death_unknown'', gr_authority_loss_reason := Some ''supervisor_restarted'',
           gr_revision := gr_revision r + 1, gr_updated_at_micros := now\<rparr>)) (\<lambda>db'.
         Inr (length (filter live (gd_generations db)), db')))"

end
