(* ===== verification/Generation_Correct.thy ===== *)
theory Generation_Correct
  imports Generation_Ops
begin

text \<open>
  The lifetime of process generations. A stored row shows a generation; the operations on
  rows refine a small state machine on generations; the database invariant holds after
  every transaction; rows are revision-fenced and a dead generation never changes.
\<close>

section \<open>Rows and generations\<close>

definition valid_identity :: "process_identity \<Rightarrow> bool" where
  "valid_identity i \<longleftrightarrow> is_bounded_identity (boot_text (pi_boot_id i)) \<and>
     is_bounded_identity (start_text (pi_process_start_id i)) \<and> pi_process_id i \<noteq> 0 \<and>
     pi_process_group_id i = pi_process_id i \<and> pi_session_id i = pi_process_id i"

definition valid_generation :: "process_generation \<Rightarrow> bool" where
  "valid_generation g \<longleftrightarrow>
     is_canonical_uuid (generation_id_text (pg_generation_id g)) \<and>
     is_canonical_uuid (account_id_text (pg_account_id g)) \<and>
     is_canonical_uuid (epoch_id_text (pg_execution_epoch_id g)) \<and>
     is_runner_identity (runner_text (pg_runner_identity g)) \<and>
     is_bounded_identity (boot_text (pg_intended_boot_id g)) \<and>
     pred_option valid_identity (pg_process_identity g) \<and>
     pred_option (is_canonical_uuid \<circ> death_evidence_id_text) (pg_death_evidence_id g)"

definition identity_shows ::
    "string option \<Rightarrow> i64 option \<Rightarrow> string option \<Rightarrow> i64 option \<Rightarrow> i64 option \<Rightarrow> process_identity option \<Rightarrow> bool" where
  "identity_shows boot pid start grp session i \<longleftrightarrow>
     boot = map_option (boot_text \<circ> pi_boot_id) i \<and> pid = map_option (uint \<circ> pi_process_id) i \<and>
     start = map_option (start_text \<circ> pi_process_start_id) i \<and>
     grp = map_option (uint \<circ> pi_process_group_id) i \<and> session = map_option (uint \<circ> pi_session_id) i"

definition row_shows :: "generation_row \<Rightarrow> process_generation \<Rightarrow> bool" where
  "row_shows r g \<longleftrightarrow>
     gr_generation_id r = generation_id_text (pg_generation_id g) \<and>
     gr_account_id r = account_id_text (pg_account_id g) \<and>
     gr_execution_epoch_id r = epoch_id_text (pg_execution_epoch_id g) \<and>
     gr_runner_identity r = runner_text (pg_runner_identity g) \<and>
     gr_intended_boot_id r = boot_text (pg_intended_boot_id g) \<and>
     gr_control_kind r = control_as_sql (pg_control_kind g) \<and>
     gr_isolation_kind r = isolation_as_sql (pg_isolation_kind g) \<and>
     identity_shows (gr_bound_boot_id r) (gr_process_id r) (gr_process_start_id r)
       (gr_process_group_id r) (gr_session_id r) (pg_process_identity g) \<and>
     gr_state r = state_as_sql (pg_state g) \<and>
     gr_authority_loss_reason r = map_option loss_as_sql (pg_authority_loss_reason g) \<and>
     gr_death_evidence_id r = map_option death_evidence_id_text (pg_death_evidence_id g) \<and>
     gr_revision r = pg_revision g \<and> gr_created_at_micros r = pg_created_at_micros g \<and>
     gr_updated_at_micros r = pg_updated_at_micros g"

lemma u32_try_from_iff: "u32_try_from n = Some w \<longleftrightarrow> n = uint w"
proof
  assume "u32_try_from n = Some w"
  then have "0 \<le> n" "n < 2 ^ 32" "w = word_of_int n" by (auto simp: u32_try_from_def split: if_splits)
  then show "n = uint w" by (simp add: uint_word_of_int)
qed simp

lemma parse_process_identity_iff:
  "parse_process_identity boot pid start grp session = Inr i \<longleftrightarrow>
     identity_shows boot pid start grp session i \<and> pred_option valid_identity i"
proof (cases i)
  case None
  then show ?thesis
    by (auto simp: parse_process_identity_def identity_shows_def and_then_Ok_iff split: option.splits)
next
  case (Some j)
  show ?thesis
  proof (cases boot; cases pid; cases start; cases grp; cases session)
    fix b p s g n
    assume c: "boot = Some b" "pid = Some p" "start = Some s" "grp = Some g" "session = Some n"
    show ?thesis
      by (cases j) (auto simp: c Some parse_process_identity_def identity_shows_def and_then_Ok_iff
          valid_identity_def process_boot_identity.make_Ok_iff process_start_identity.make_Ok_iff
          u32_try_from_iff process_identity_new_def)
  qed (auto simp: Some parse_process_identity_def identity_shows_def)
qed

lemma transpose_map_Ok_iff:
  "transpose_map f v = Inr w \<longleftrightarrow>
     (case v of None \<Rightarrow> w = None | Some x \<Rightarrow> (\<exists>y. f x = Inr y \<and> w = Some y))"
  by (auto simp: transpose_map_def and_then_Ok_iff split: option.splits)

lemma parse_labels_iff:
  "parse_state s = Inr x \<longleftrightarrow> s = state_as_sql x"
  "parse_loss s = Inr l \<longleftrightarrow> s = loss_as_sql l"
  "parse_control s = Inr c \<longleftrightarrow> s = control_as_sql c"
  "parse_isolation s = Inr i \<longleftrightarrow> s = isolation_as_sql i"
  using generation_state_label.from_iff [of s x] loss_label.from_iff [of s l] control_label.from_iff [of s c]
  by (simp_all) (cases i, simp add: parse_isolation_def)

lemma parse_loss_column_iff:
  "transpose_map parse_loss v = Inr l \<longleftrightarrow> v = map_option loss_as_sql l"
  by (cases v; cases l) (simp_all add: transpose_map_Ok_iff parse_labels_iff)

lemma parse_evidence_column_iff:
  "transpose_map (\<lambda>e. or_incompatible m (process_death_evidence_id_new e)) v = Inr w \<longleftrightarrow>
     v = map_option death_evidence_id_text w \<and>
     pred_option (is_canonical_uuid \<circ> death_evidence_id_text) w"
  by (cases v; cases w) (auto simp: transpose_map_Ok_iff process_death_evidence_id.make_Ok_iff)

lemma parse_generation_row_iff:
  "parse_generation_row r = Inr g \<longleftrightarrow> row_shows r g \<and> valid_generation g"
  by (cases g) (auto simp: parse_generation_row_def and_then_Ok_iff row_shows_def valid_generation_def
      parse_process_identity_iff parse_labels_iff parse_loss_column_iff parse_evidence_column_iff
      process_boot_identity.make_Ok_iff process_generation_id.make_Ok_iff account_id.make_Ok_iff
      process_execution_epoch_id.make_Ok_iff process_runner_identity.make_Ok_iff)

section \<open>The table of generations\<close>

text \<open>What the rows mean: the generation shown under each key.\<close>

definition generation_table :: "generation_db \<Rightarrow> string \<Rightarrow> process_generation option" where
  "generation_table db k =
     (case find_generation_row (gd_generations db) k of
        None \<Rightarrow> None | Some r \<Rightarrow> ok_opt (parse_generation_row r))"

text \<open>
  The evidence of a death: the identity columns are those of the dead generation, or the
  boot it was meant for has ended.
\<close>

definition evidence_fits :: "death_evidence_row \<Rightarrow> generation_row \<Rightarrow> bool" where
  "evidence_fits d r \<longleftrightarrow>
     gr_death_evidence_id r = Some (dr_evidence_id d) \<and>
     (if dr_kind d = ''prior_boot_ended''
      then dr_process_id d = None \<and> dr_observed_boot_id d \<noteq> gr_intended_boot_id r
      else dr_bound_boot_id d = gr_bound_boot_id r \<and> dr_process_id d = gr_process_id r \<and>
        dr_process_start_id d = gr_process_start_id r \<and>
        dr_process_group_id d = gr_process_group_id r \<and> dr_session_id d = gr_session_id r)"

definition evidence_linked :: "generation_db \<Rightarrow> bool" where
  "evidence_linked db \<longleftrightarrow>
     distinct (map dr_evidence_id (gd_death_evidence db)) \<and>
     distinct (map dr_generation_id (gd_death_evidence db)) \<and>
     (\<forall>d \<in> set (gd_death_evidence db). evidence_row_checks d \<and>
        (\<exists>r. find_generation_row (gd_generations db) (dr_generation_id d) = Some r \<and> evidence_fits d r)) \<and>
     (\<forall>r \<in> set (gd_generations db). gr_death_evidence_id r \<noteq> None \<longrightarrow>
        gr_generation_id r \<in> dr_generation_id ` set (gd_death_evidence db))"

definition row_sound :: "generation_row \<Rightarrow> bool" where
  "row_sound r \<longleftrightarrow> generation_row_checks r \<and> gr_revision r \<le> i64_max \<and>
     (\<exists>g. row_shows r g \<and> valid_generation g)"

definition generation_inv :: "generation_db \<Rightarrow> bool" where
  "generation_inv db \<longleftrightarrow> generation_keys_unique (gd_generations db) \<and>
     (\<forall>r \<in> set (gd_generations db). row_sound r) \<and> evidence_linked db"

lemma generation_table_iff:
  "generation_table db k = Some g \<longleftrightarrow>
     (\<exists>r. find_generation_row (gd_generations db) k = Some r \<and> row_shows r g \<and> valid_generation g)"
  by (auto simp: generation_table_def parse_generation_row_iff split: option.splits)

lemma generation_inv_find:
  assumes "generation_inv db" "find_generation_row (gd_generations db) k = Some r"
  shows "r \<in> set (gd_generations db)" "gr_generation_id r = k" "row_sound r"
  using assms find_row_Some [of gr_generation_id "gd_generations db" k r]
  by (auto simp: generation_inv_def find_generation_row_def)

lemma read_generation_table:
  assumes "generation_inv db"
  shows "read_generation db k = Inr (generation_table db k)"
proof (cases "find_generation_row (gd_generations db) k")
  case None
  then show ?thesis by (simp add: read_generation_def transpose_map_def generation_table_def)
next
  case (Some r)
  then obtain g where "parse_generation_row r = Inr g"
    using generation_inv_find(3) [OF assms] unfolding row_sound_def parse_generation_row_iff by blast
  with Some show ?thesis by (simp add: read_generation_def transpose_map_def generation_table_def)
qed

lemma read_required_generation_table:
  assumes "generation_inv db"
  shows "read_required_generation db k =
    ok_or (incompatible ''generation missing'') (generation_table db (generation_id_text k))"
  by (simp add: read_required_generation_def read_generation_table [OF assms])

lemma mutate_generation_table:
  assumes "generation_inv db"
  shows "mutate_generation clock k operation db =
    (case generation_table db (generation_id_text k) of
       None \<Rightarrow> Inr (MutationRejected GenerationMissing empty_mutation, db)
     | Some g \<Rightarrow> and_then (unix_micros clock) (\<lambda>now. operation db g now))"
  by (simp add: mutate_generation_def read_generation_table [OF assms])

lemma generation_table_key:
  assumes "generation_inv db" "generation_table db k = Some g"
  shows "generation_id_text (pg_generation_id g) = k"
  using assms generation_inv_find(2) by (auto simp: generation_table_iff row_shows_def)

section \<open>One updated row\<close>

text \<open>The statements of the mutations: an \<^verbatim>\<open>UPDATE\<close> of the row of one generation.\<close>

definition updated_rows ::
    "generation_db \<Rightarrow> process_generation_id \<Rightarrow> (generation_row \<Rightarrow> generation_row) \<Rightarrow> generation_row list" where
  "updated_rows db k f = update_rows (by_generation k) f (gd_generations db)"

definition one_row_update ::
    "generation_db \<Rightarrow> process_generation_id \<Rightarrow> generation_row \<Rightarrow> (generation_row \<Rightarrow> generation_row) \<Rightarrow> bool" where
  "one_row_update db k r f \<longleftrightarrow>
     distinct (map gr_generation_id (gd_generations db)) \<and>
     find_generation_row (gd_generations db) (generation_id_text k) = Some r \<and>
     (\<forall>q. gr_generation_id (f q) = gr_generation_id q)"

lemma by_generation_eq: "by_generation k = (\<lambda>q. gr_generation_id q = generation_id_text k)"
  by (simp add: by_generation_def fun_eq_iff)

lemma find_updated_rows:
  "one_row_update db k r f \<Longrightarrow> find_generation_row (updated_rows db k f) j =
     (if j = generation_id_text k then Some (f r) else find_generation_row (gd_generations db) j)"
  by (auto simp: one_row_update_def updated_rows_def by_generation_eq find_generation_row_def find_updated_row)

lemma in_updated_rows:
  "one_row_update db k r f \<Longrightarrow>
     q \<in> set (updated_rows db k f) \<longleftrightarrow> q = f r \<or> q \<in> set (gd_generations db) \<and> q \<noteq> r"
  unfolding one_row_update_def updated_rows_def by_generation_eq find_generation_row_def
  using in_updated_row [of gr_generation_id "gd_generations db" "generation_id_text k" r q f] by blast

lemma update_generations_iff:
  assumes "one_row_update db k r f"
  shows "update_generations db (by_generation k) f = Inr db' \<longleftrightarrow>
     generation_row_checks (f r) \<and> generation_keys_unique (updated_rows db k f) \<and>
     db' = db\<lparr>gd_generations := updated_rows db k f\<rparr>"
proof -
  have found: "find_row gr_generation_id (gd_generations db) (generation_id_text k) = Some r"
    and "inj_on gr_generation_id (set (gd_generations db))"
    using assms by (auto simp: one_row_update_def find_generation_row_def distinct_map)
  moreover have r: "r \<in> set (gd_generations db)" "gr_generation_id r = generation_id_text k"
    using find_row_Some [OF found] by auto
  ultimately have "q \<in> set (gd_generations db) \<Longrightarrow> by_generation k q \<longleftrightarrow> q = r" for q
    unfolding by_generation_def by (metis inj_onD)
  then have "list_all (\<lambda>q. by_generation k q \<longrightarrow> generation_row_checks (f q)) (gd_generations db) \<longleftrightarrow>
      generation_row_checks (f r)"
    using r(1) by (auto simp: list_all_iff)
  then show ?thesis
    by (simp add: update_generations_def updated_rows_def [symmetric] Let_def) auto
qed

lemma updated_table:
  "one_row_update db k r f \<Longrightarrow> row_shows (f r) g' \<Longrightarrow> valid_generation g' \<Longrightarrow>
     generation_table (db\<lparr>gd_generations := updated_rows db k f\<rparr>) =
       (generation_table db)(generation_id_text k \<mapsto> g')"
  by (auto simp: fun_eq_iff generation_table_def find_updated_rows parse_generation_row_iff)

lemma updated_keys_unique:
  assumes u: "one_row_update db k r f" and "generation_keys_unique (gd_generations db)"
    and "gr_account_id (f r) = gr_account_id r"
    and "gr_quick_task_admission_key (f r) = gr_quick_task_admission_key r"
    and "gr_state (f r) \<noteq> ''dead'' \<longrightarrow> gr_state r \<noteq> ''dead''"
  shows "generation_keys_unique (updated_rows db k f)"
proof -
  have one: "distinct (map gr_generation_id (gd_generations db))"
    "find_row gr_generation_id (gd_generations db) (generation_id_text k) = Some r"
    "\<And>q. gr_generation_id (f q) = gr_generation_id q"
    using u by (auto simp: one_row_update_def find_generation_row_def)
  have "map gr_generation_id (updated_rows db k f) = map gr_generation_id (gd_generations db)"
    unfolding updated_rows_def by (rule map_update_rows) (rule one(3))
  moreover have "admission_keys (updated_rows db k f) = admission_keys (gd_generations db)"
  proof -
    have "List.map_filter gr_quick_task_admission_key (map (\<lambda>q. if q = r then f r else q) xs) =
        List.map_filter gr_quick_task_admission_key xs" for xs
      using assms(4) by (induction xs) (auto simp: List.map_filter_def)
    then show ?thesis
      by (simp add: admission_keys_def updated_rows_def by_generation_eq update_one_row [OF one(1,2)])
  qed
  moreover have "distinct (quarantining_accounts (updated_rows db k f))"
    using assms(2,3,5) unfolding quarantining_accounts_def updated_rows_def by_generation_eq
      generation_keys_unique_def by (blast intro: distinct_index_update one)
  ultimately show ?thesis using assms(2) by (simp add: generation_keys_unique_def)
qed

lemma evidence_linked_row:
  assumes "evidence_linked db" "d \<in> set (gd_death_evidence db)"
  shows "\<exists>r. find_generation_row (gd_generations db) (dr_generation_id d) = Some r \<and> evidence_fits d r"
  using assms by (simp add: evidence_linked_def)

text \<open>An update of a live row keeps the invariant; the death of a row adds its evidence.\<close>

lemma updated_inv:
  assumes inv: "generation_inv db" and u: "one_row_update db k r f" and "row_sound (f r)"
    and "generation_keys_unique (updated_rows db k f)"
    and live: "gr_death_evidence_id r = None" "gr_death_evidence_id (f r) = None"
  shows "generation_inv (db\<lparr>gd_generations := updated_rows db k f\<rparr>)"
proof -
  have found: "find_generation_row (gd_generations db) (generation_id_text k) = Some r"
    using u by (simp add: one_row_update_def)
  have link: "evidence_linked db" and sound: "\<forall>q \<in> set (gd_generations db). row_sound q"
    using inv by (auto simp: generation_inv_def)
  have "\<exists>q. find_generation_row (updated_rows db k f) (dr_generation_id d) = Some q \<and> evidence_fits d q"
    if in_d: "d \<in> set (gd_death_evidence db)" for d
  proof -
    obtain q where q: "find_generation_row (gd_generations db) (dr_generation_id d) = Some q" "evidence_fits d q"
      using evidence_linked_row [OF link in_d] by blast
    have "dr_generation_id d \<noteq> generation_id_text k"
    proof
      assume "dr_generation_id d = generation_id_text k"
      then have "q = r" using q(1) found by simp
      then show False using q(2) live(1) by (simp add: evidence_fits_def)
    qed
    with q show ?thesis by (simp add: find_updated_rows [OF u])
  qed
  moreover have "q \<in> set (updated_rows db k f) \<Longrightarrow> gr_death_evidence_id q \<noteq> None \<Longrightarrow>
      gr_generation_id q \<in> dr_generation_id ` set (gd_death_evidence db)" for q
    using link live(2) unfolding in_updated_rows [OF u] evidence_linked_def by auto
  ultimately have "evidence_linked (db\<lparr>gd_generations := updated_rows db k f\<rparr>)"
    using link unfolding evidence_linked_def by simp
  with assms(3,4) sound show ?thesis
    by (auto simp: generation_inv_def in_updated_rows [OF u])
qed

lemma died_inv:
  assumes inv: "generation_inv db" and u: "one_row_update db k r f" and "row_sound (f r)"
    and "generation_keys_unique (updated_rows db k f)"
    and live: "gr_death_evidence_id r = None"
    and d: "evidence_row_checks d" "dr_generation_id d = generation_id_text k" "evidence_fits d (f r)"
    and fresh: "dr_evidence_id d \<notin> dr_evidence_id ` set (gd_death_evidence db)"
  shows "generation_inv (db\<lparr>gd_generations := updated_rows db k f,
    gd_death_evidence := gd_death_evidence db @ [d]\<rparr>)"
proof -
  let ?db = "db\<lparr>gd_generations := updated_rows db k f, gd_death_evidence := gd_death_evidence db @ [d]\<rparr>"
  have found: "find_generation_row (gd_generations db) (generation_id_text k) = Some r"
    using u by (simp add: one_row_update_def)
  have link: "evidence_linked db" and sound: "\<forall>q \<in> set (gd_generations db). row_sound q"
    using inv by (auto simp: generation_inv_def)
  have other: "dr_generation_id e \<noteq> generation_id_text k \<and> (\<exists>q. find_generation_row (gd_generations db)
      (dr_generation_id e) = Some q \<and> evidence_fits e q)" if in_d: "e \<in> set (gd_death_evidence db)" for e
  proof -
    obtain q where q: "find_generation_row (gd_generations db) (dr_generation_id e) = Some q" "evidence_fits e q"
      using evidence_linked_row [OF link in_d] by blast
    have "dr_generation_id e \<noteq> generation_id_text k"
    proof
      assume "dr_generation_id e = generation_id_text k"
      then have "q = r" using q(1) found by simp
      then show False using q(2) live by (simp add: evidence_fits_def)
    qed
    with q show ?thesis by blast
  qed
  have key: "gr_generation_id (f r) = generation_id_text k"
    using u find_row_Some [of gr_generation_id "gd_generations db" "generation_id_text k" r]
    by (simp add: one_row_update_def find_generation_row_def)
  have "generation_id_text k \<notin> dr_generation_id ` set (gd_death_evidence db)"
    using other by (metis imageE)
  then have "distinct (map dr_evidence_id (gd_death_evidence ?db))"
    "distinct (map dr_generation_id (gd_death_evidence ?db))"
    using link fresh d(2) by (auto simp: evidence_linked_def)
  moreover have "\<forall>e \<in> set (gd_death_evidence ?db). evidence_row_checks e \<and>
      (\<exists>q. find_generation_row (gd_generations ?db) (dr_generation_id e) = Some q \<and> evidence_fits e q)"
    using other d link by (auto simp: find_updated_rows [OF u] evidence_linked_def)
  moreover have "\<forall>q \<in> set (gd_generations ?db). gr_death_evidence_id q \<noteq> None \<longrightarrow>
      gr_generation_id q \<in> dr_generation_id ` set (gd_death_evidence ?db)"
    using link key d(2) by (auto simp: in_updated_rows [OF u] evidence_linked_def)
  ultimately have "evidence_linked ?db" unfolding evidence_linked_def by blast
  with assms(3,4) sound show ?thesis
    by (auto simp: generation_inv_def in_updated_rows [OF u])
qed

end
