(* ===== verification/Generation_Steps.thy ===== *)
theory Generation_Steps
  imports Generation_Correct
begin

text \<open>
  The state machine of process generations, and the proof that the five mutations of a
  generation implement it: which commands apply, what they change, and what they leave.
\<close>

section \<open>Commands\<close>

datatype generation_command =
    Bind process_generation_id i64 process_identity
  | MarkReady process_generation_id i64
  | MarkStopping process_generation_id i64
  | MarkDeathUnknown process_generation_id i64 process_authority_loss_reason
  | RecordDeath i64 process_death_evidence

fun run_command ::
    "i64 option \<Rightarrow> generation_command \<Rightarrow> generation_db \<Rightarrow> store_error + mutation_outcome \<times> generation_db" where
  "run_command clock (Bind k n i) db = bind_process_generation_identity clock k n i db"
| "run_command clock (MarkReady k n) db = mark_process_generation_ready clock k n db"
| "run_command clock (MarkStopping k n) db = mark_process_generation_stopping clock k n db"
| "run_command clock (MarkDeathUnknown k n reason) db = mark_process_generation_death_unknown clock k n reason db"
| "run_command clock (RecordDeath n e) db = record_process_generation_death clock n e db"

fun command_generation :: "generation_command \<Rightarrow> process_generation_id" where
  "command_generation (Bind k n i) = k"
| "command_generation (MarkReady k n) = k"
| "command_generation (MarkStopping k n) = k"
| "command_generation (MarkDeathUnknown k n reason) = k"
| "command_generation (RecordDeath n e) = de_generation_id e"

definition target_generation :: "generation_db \<Rightarrow> generation_command \<Rightarrow> process_generation option" where
  "target_generation db c = generation_table db (generation_id_text (command_generation c))"

text \<open>
  The inputs are values of their Rust types: what the constructors of an identity and of
  death evidence have checked.
\<close>

definition valid_evidence :: "process_death_evidence \<Rightarrow> bool" where
  "valid_evidence e \<longleftrightarrow> is_canonical_uuid (death_evidence_id_text (de_evidence_id e)) \<and>
     is_canonical_uuid (generation_id_text (de_generation_id e)) \<and>
     is_bounded_identity (boot_text (de_observed_boot_id e)) \<and>
     pred_option valid_identity (de_process_identity e) \<and> is_sha256 (de_witness_digest e) \<and>
     identity_shape_valid (de_kind e) (de_process_identity e)"

fun valid_command :: "generation_command \<Rightarrow> bool" where
  "valid_command (Bind k n i) = valid_identity i"
| "valid_command (RecordDeath n e) = valid_evidence e"
| "valid_command _ = True"

section \<open>The state machine\<close>

inductive generation_step ::
    "i64 \<Rightarrow> generation_command \<Rightarrow> process_generation \<Rightarrow> process_generation \<Rightarrow> bool" for now where
  bind: "pg_state g = Starting \<Longrightarrow> pg_process_identity g = None \<Longrightarrow>
    pi_boot_id i = pg_intended_boot_id g \<Longrightarrow> n = pg_revision g \<Longrightarrow>
    generation_step now (Bind k n i) g
      (g\<lparr>pg_process_identity := Some i, pg_revision := n + 1, pg_updated_at_micros := now\<rparr>)"
| ready: "pg_state g = Starting \<Longrightarrow> pg_process_identity g \<noteq> None \<Longrightarrow> n = pg_revision g \<Longrightarrow>
    generation_step now (MarkReady k n) g
      (g\<lparr>pg_state := Ready, pg_authority_loss_reason := None, pg_revision := n + 1,
         pg_updated_at_micros := now\<rparr>)"
| stopping: "pg_state g \<noteq> Dead \<Longrightarrow> pg_process_identity g \<noteq> None \<Longrightarrow> n = pg_revision g \<Longrightarrow>
    generation_step now (MarkStopping k n) g
      (g\<lparr>pg_state := Stopping, pg_authority_loss_reason := None, pg_revision := n + 1,
         pg_updated_at_micros := now\<rparr>)"
| lost: "pg_state g \<noteq> Dead \<Longrightarrow> n = pg_revision g \<Longrightarrow>
    generation_step now (MarkDeathUnknown k n reason) g
      (g\<lparr>pg_state := DeathUnknown, pg_authority_loss_reason := Some reason, pg_revision := n + 1,
         pg_updated_at_micros := now\<rparr>)"
| died: "pg_state g \<noteq> Dead \<Longrightarrow> n = pg_revision g \<Longrightarrow> evidence_identity_matches e g \<Longrightarrow>
    generation_step now (RecordDeath n e) g
      (g\<lparr>pg_state := Dead, pg_authority_loss_reason := None,
         pg_death_evidence_id := Some (de_evidence_id e), pg_revision := n + 1,
         pg_updated_at_micros := now\<rparr>)"

inductive_simps step_bind: "generation_step now (Bind k n i) g g'"
inductive_simps step_ready: "generation_step now (MarkReady k n) g g'"
inductive_simps step_stopping: "generation_step now (MarkStopping k n) g g'"
inductive_simps step_lost: "generation_step now (MarkDeathUnknown k n reason) g g'"
inductive_simps step_died: "generation_step now (RecordDeath n e) g g'"

lemmas step_simps = step_bind step_ready step_stopping step_lost step_died

lemma generation_step_fixed:
  "generation_step now c g g' \<Longrightarrow>
     pg_generation_id g' = pg_generation_id g \<and> pg_account_id g' = pg_account_id g \<and>
     pg_execution_epoch_id g' = pg_execution_epoch_id g \<and> pg_runner_identity g' = pg_runner_identity g \<and>
     pg_intended_boot_id g' = pg_intended_boot_id g \<and> pg_control_kind g' = pg_control_kind g \<and>
     pg_isolation_kind g' = pg_isolation_kind g \<and> pg_created_at_micros g' = pg_created_at_micros g \<and>
     pg_revision g' = pg_revision g + 1 \<and> pg_updated_at_micros g' = now \<and> pg_state g \<noteq> Dead \<and>
     (pg_process_identity g \<noteq> None \<longrightarrow> pg_process_identity g' = pg_process_identity g)"
  by (induction rule: generation_step.induct) auto

lemma generation_step_valid:
  "generation_step now c g g' \<Longrightarrow> valid_command c \<Longrightarrow> valid_generation g \<Longrightarrow> valid_generation g'"
  by (induction rule: generation_step.induct) (auto simp: valid_generation_def valid_evidence_def)

section \<open>Checks on the shown generation\<close>

text \<open>The constraints that a change can break, and those on the columns that never change.\<close>

definition generation_checks :: "process_generation \<Rightarrow> bool" where
  "generation_checks g \<longleftrightarrow> pg_revision g > 0 \<and> pg_created_at_micros g > 0 \<and>
     pg_updated_at_micros g \<ge> pg_created_at_micros g \<and>
     (pg_state g \<in> {Ready, Stopping} \<longrightarrow> pg_process_identity g \<noteq> None) \<and>
     (pg_state g = DeathUnknown \<longleftrightarrow> pg_authority_loss_reason g \<noteq> None) \<and>
     (pg_state g = Dead \<longleftrightarrow> pg_death_evidence_id g \<noteq> None)"

definition fixed_checks :: "generation_row \<Rightarrow> bool" where
  "fixed_checks r \<longleftrightarrow>
     gr_account_revision r > 0 \<and>
     gr_credential_schema_version r \<in> set [1, 2] \<and>
     gr_credential_version r > 0 \<and>
     sql_length (gr_credential_fingerprint r) = 64 \<and>
     sql_length (gr_credential_writer_operation_id r) = 36 \<and>
     gr_provider r = ''chatgpt'' \<and>
     1 \<le> length (gr_provider_account_id r) \<and> length (gr_provider_account_id r) \<le> 512 \<and>
     sql_length (gr_refresh_callback_profile_sha256 r) = 64 \<and>
     null_or (\<lambda>k. 1 \<le> length k \<and> length k \<le> 256) (gr_quick_task_admission_key r)"

lemma state_label_simps [simp]:
  "state_as_sql x = ''starting'' \<longleftrightarrow> x = Starting"
  "state_as_sql x = ''ready'' \<longleftrightarrow> x = Ready"
  "state_as_sql x = ''stopping'' \<longleftrightarrow> x = Stopping"
  "state_as_sql x = ''dead'' \<longleftrightarrow> x = Dead"
  "state_as_sql x = ''death_unknown'' \<longleftrightarrow> x = DeathUnknown"
  by (cases x; simp)+

lemma runner_identity_length:
  assumes "is_runner_identity v"
  shows "1 \<le> length v \<and> length v \<le> 128"
  using assms by (cases v)
    (auto simp: is_runner_identity_def strip_prefix_def max_process_runner_identity_bytes_def)

lemma bounded_identity_length: "is_bounded_identity v \<Longrightarrow> 1 \<le> length v \<and> length v \<le> 256"
  by (cases v) (auto simp: is_bounded_identity_def max_process_identity_bytes_def)

lemma process_number_positive: "p \<noteq> 0 \<Longrightarrow> uint p > 0" for p :: "32 word"
  by (simp add: word_neq_0_conv word_less_def)

lemma identity_columns:
  assumes "identity_shows boot pid start grp session i" "pred_option valid_identity i"
  shows "null_or (\<lambda>n. n > 0) pid \<and> null_or (\<lambda>n. n > 0) grp \<and> null_or (\<lambda>n. n > 0) session \<and>
    identity_columns_check boot pid start grp session \<and> (pid \<noteq> None \<longleftrightarrow> i \<noteq> None)"
  using assms by (cases i) (auto simp: identity_shows_def valid_identity_def null_or_def
      identity_columns_check_def intro: process_number_positive)

lemma state_labels_stored:
  "state_as_sql x \<in> set [''starting'', ''ready'', ''stopping'', ''dead'', ''death_unknown'']"
  "control_as_sql c \<in> set [''stdio_only_best_effort_eof'', ''parent_death_signal_and_stdio_eof'']"
  "isolation_as_sql i = ''session''"
    apply (cases x; simp)
   apply (cases c; simp)
  apply (cases i; simp)
  done

lemma row_checks_iff:
  assumes "row_shows r g" "valid_generation g"
  shows "generation_row_checks r \<longleftrightarrow> generation_checks g \<and> fixed_checks r"
proof -
  note row = assms(1) [unfolded row_shows_def]
  note valid = assms(2) [unfolded valid_generation_def]
  have columns: "sql_length (gr_generation_id r) = 36"
    "1 \<le> length (gr_runner_identity r) \<and> length (gr_runner_identity r) \<le> 128"
    "1 \<le> length (gr_intended_boot_id r) \<and> length (gr_intended_boot_id r) \<le> 256"
    using row valid runner_identity_length bounded_identity_length by simp_all
  have identity: "null_or (\<lambda>n. n > 0) (gr_process_id r)" "null_or (\<lambda>n. n > 0) (gr_process_group_id r)"
    "null_or (\<lambda>n. n > 0) (gr_session_id r)"
    "identity_columns_check (gr_bound_boot_id r) (gr_process_id r) (gr_process_start_id r)
       (gr_process_group_id r) (gr_session_id r)" "gr_process_id r \<noteq> None \<longleftrightarrow> pg_process_identity g \<noteq> None"
    using row valid identity_columns by blast+
  have labels: "gr_state r \<in> set [''starting'', ''ready'', ''stopping'', ''dead'', ''death_unknown'']"
    "gr_control_kind r \<in> set [''stdio_only_best_effort_eof'', ''parent_death_signal_and_stdio_eof'']"
    "gr_isolation_kind r = ''session''"
    using row state_labels_stored by metis+
  have shown: "gr_state r \<in> set [''ready'', ''stopping''] \<longleftrightarrow> pg_state g \<in> {Ready, Stopping}"
    "gr_state r = ''dead'' \<longleftrightarrow> pg_state g = Dead" "gr_state r = ''death_unknown'' \<longleftrightarrow> pg_state g = DeathUnknown"
    "gr_authority_loss_reason r \<noteq> None \<longleftrightarrow> pg_authority_loss_reason g \<noteq> None"
    "gr_death_evidence_id r \<noteq> None \<longleftrightarrow> pg_death_evidence_id g \<noteq> None"
    "gr_revision r = pg_revision g" "gr_created_at_micros r = pg_created_at_micros g"
    "gr_updated_at_micros r = pg_updated_at_micros g"
    using row by simp_all
  show ?thesis
    unfolding generation_row_checks_def generation_checks_def fixed_checks_def
    by (simp only: columns identity labels shown simp_thms) blast
qed

section \<open>The statement of a command\<close>

text \<open>The \<^verbatim>\<open>SET\<close> clause of each command's update.\<close>

fun command_update :: "i64 \<Rightarrow> generation_command \<Rightarrow> generation_row \<Rightarrow> generation_row" where
  "command_update now (Bind k n i) = (\<lambda>r. r\<lparr>
     gr_bound_boot_id := Some (boot_text (pi_boot_id i)),
     gr_process_id := Some (uint (pi_process_id i)),
     gr_process_start_id := Some (start_text (pi_process_start_id i)),
     gr_process_group_id := Some (uint (pi_process_group_id i)),
     gr_session_id := Some (uint (pi_session_id i)),
     gr_revision := wrapping_add_i64 n 1, gr_updated_at_micros := now\<rparr>)"
| "command_update now (MarkReady k n) = (\<lambda>r. r\<lparr>gr_state := state_as_sql Ready,
     gr_revision := wrapping_add_i64 n 1, gr_updated_at_micros := now, gr_authority_loss_reason := None\<rparr>)"
| "command_update now (MarkStopping k n) = (\<lambda>r. r\<lparr>gr_state := state_as_sql Stopping,
     gr_revision := wrapping_add_i64 n 1, gr_updated_at_micros := now, gr_authority_loss_reason := None\<rparr>)"
| "command_update now (MarkDeathUnknown k n reason) = (\<lambda>r. r\<lparr>gr_state := ''death_unknown'',
     gr_authority_loss_reason := Some (loss_as_sql reason),
     gr_revision := wrapping_add_i64 n 1, gr_updated_at_micros := now\<rparr>)"
| "command_update now (RecordDeath n e) = (\<lambda>r. r\<lparr>gr_state := ''dead'', gr_authority_loss_reason := None,
     gr_death_evidence_id := Some (death_evidence_id_text (de_evidence_id e)),
     gr_revision := wrapping_add_i64 n 1, gr_updated_at_micros := now\<rparr>)"

lemma command_update_keeps:
  "gr_generation_id (command_update now c r) = gr_generation_id r"
  "gr_account_id (command_update now c r) = gr_account_id r"
  "gr_quick_task_admission_key (command_update now c r) = gr_quick_task_admission_key r"
  "gr_death_evidence_id (command_update now c r) = (case c of
     RecordDeath n e \<Rightarrow> Some (death_evidence_id_text (de_evidence_id e)) | _ \<Rightarrow> gr_death_evidence_id r)"
  "fixed_checks (command_update now c r) = fixed_checks r"
  by (cases c; simp add: fixed_checks_def)+

lemma command_update_shows:
  assumes "generation_step now c g g'" "row_shows r g" "0 < pg_revision g" "pg_revision g < i64_max"
  shows "row_shows (command_update now c r) g'"
  using assms(1,2) wrapping_add_in_range [OF assms(3,4)]
  by (cases rule: generation_step.cases) (simp_all add: row_shows_def identity_shows_def)

lemma command_update_revision:
  assumes "generation_row_checks (command_update now c r)" "generation_step now c g g'"
    and "0 < pg_revision g" "pg_revision g \<le> i64_max"
  shows "pg_revision g < i64_max"
proof -
  have "0 < gr_revision (command_update now c r)" using assms(1) by (simp add: generation_row_checks_def)
  moreover have "gr_revision (command_update now c r) = wrapping_add_i64 (pg_revision g) 1"
    using assms(2) by (cases rule: generation_step.cases) simp_all
  ultimately show ?thesis using wrapping_add_pos [OF assms(3,4)] by simp
qed

lemma generation_step_checks:
  "generation_step now c g g' \<Longrightarrow> generation_checks g \<Longrightarrow>
     generation_checks g' \<longleftrightarrow> pg_created_at_micros g \<le> now"
  by (cases rule: generation_step.cases, assumption) (auto simp: generation_checks_def)

text \<open>What the invariant says of one row, in terms of the generation it shows.\<close>

lemma table_row:
  assumes "generation_inv db" "generation_table db k = Some g"
  obtains r where "find_generation_row (gd_generations db) k = Some r" "row_shows r g" "valid_generation g"
    "generation_checks g" "fixed_checks r" "pg_revision g \<le> i64_max"
proof -
  obtain r where r: "find_generation_row (gd_generations db) k = Some r" "row_shows r g" "valid_generation g"
    using assms(2) unfolding generation_table_iff by blast
  with generation_inv_find(3) [OF assms(1) r(1)] row_checks_iff [OF r(2,3)]
  show thesis by (intro that [of r]) (auto simp: row_sound_def row_shows_def)
qed

lemma table_generation_checks:
  "generation_inv db \<Longrightarrow> generation_table db k = Some g \<Longrightarrow>
     generation_checks g \<and> valid_generation g \<and> pg_revision g \<le> i64_max"
  by (metis table_row)

lemma command_update_iff:
  assumes inv: "generation_inv db" and g: "target_generation db c = Some g"
    and step: "generation_step now c g g'" and c: "valid_command c"
    and same: "gd_generations db1 = gd_generations db"
  shows "update_generations db1 (by_generation (command_generation c)) (command_update now c) = Inr db2 \<longleftrightarrow>
    pg_revision g < i64_max \<and> pg_created_at_micros g \<le> now \<and>
    db2 = db1\<lparr>gd_generations := updated_rows db (command_generation c) (command_update now c)\<rparr>"
proof -
  let ?k = "command_generation c" and ?f = "command_update now c"
  obtain r where found: "find_generation_row (gd_generations db) (generation_id_text ?k) = Some r"
    and r: "row_shows r g" "valid_generation g" "generation_checks g" "fixed_checks r" "pg_revision g \<le> i64_max"
    using table_row [OF inv g [unfolded target_generation_def]] .
  have keys: "generation_keys_unique (gd_generations db)" using inv by (simp add: generation_inv_def)
  have u: "one_row_update db ?k r ?f" "one_row_update db1 ?k r ?f"
    using found keys same by (simp_all add: one_row_update_def command_update_keeps generation_keys_unique_def)
  have rows: "updated_rows db1 ?k ?f = updated_rows db ?k ?f" using same by (simp add: updated_rows_def)
  have live: "pg_state g \<noteq> Dead" using generation_step_fixed [OF step] by blast
  have "generation_keys_unique (updated_rows db ?k ?f)"
    by (rule updated_keys_unique [OF u(1) keys])
      (use live r(1) in \<open>simp_all add: command_update_keeps row_shows_def\<close>)
  moreover have "generation_row_checks (?f r) \<longleftrightarrow> pg_revision g < i64_max \<and> pg_created_at_micros g \<le> now"
  proof (cases "pg_revision g < i64_max")
    case True
    have pos: "0 < pg_revision g" using r(3) by (simp add: generation_checks_def)
    have "row_shows (?f r) g'" by (rule command_update_shows [OF step r(1) pos True])
    then have "generation_row_checks (?f r) \<longleftrightarrow> generation_checks g' \<and> fixed_checks (?f r)"
      using row_checks_iff generation_step_valid [OF step c r(2)] by blast
    then show ?thesis using generation_step_checks [OF step r(3)] r(4) True by (simp add: command_update_keeps)
  next
    case False
    then show ?thesis
      using command_update_revision [OF _ step _ r(5)] r(3) by (auto simp: generation_checks_def)
  qed
  ultimately show ?thesis using update_generations_iff [OF u(2)] by (auto simp: rows)
qed

section \<open>When a command applies\<close>

fun evidence_unused :: "generation_db \<Rightarrow> generation_command \<Rightarrow> bool" where
  "evidence_unused db (RecordDeath n e) =
     (death_evidence_id_text (de_evidence_id e) \<notin> dr_evidence_id ` set (gd_death_evidence db))"
| "evidence_unused db _ = True"

fun applied_db :: "generation_db \<Rightarrow> i64 \<Rightarrow> generation_command \<Rightarrow> generation_db" where
  "applied_db db now (RecordDeath n e) =
     db\<lparr>gd_generations := updated_rows db (de_generation_id e) (command_update now (RecordDeath n e)),
        gd_death_evidence := gd_death_evidence db @ [evidence_row e now]\<rparr>"
| "applied_db db now c = db\<lparr>gd_generations := updated_rows db (command_generation c) (command_update now c)\<rparr>"

definition applies ::
    "i64 option \<Rightarrow> generation_db \<Rightarrow> generation_command \<Rightarrow> i64 \<Rightarrow> process_generation \<Rightarrow> process_generation \<Rightarrow> bool" where
  "applies clock db c now g g' \<longleftrightarrow> clock = Some now \<and> 0 < now \<and> target_generation db c = Some g \<and>
     generation_step now c g g' \<and> pg_revision g < i64_max \<and> pg_created_at_micros g \<le> now \<and>
     evidence_unused db c"

lemma saturating_successor:
  "0 < n \<Longrightarrow> n < i64_max \<Longrightarrow> saturating_add_i64 n 1 = n + 1"
  by (simp add: saturating_add_i64_def i64_max_def)

lemma evidence_row_sound: "valid_evidence e \<Longrightarrow> 0 < now \<Longrightarrow> evidence_row_checks (evidence_row e now)"
  using bounded_identity_length [of "boot_text (de_observed_boot_id e)"]
    identity_columns [of _ _ _ _ _ "de_process_identity e"]
  by (cases "de_kind e")
    (simp_all add: valid_evidence_def evidence_row_checks_def evidence_row_def identity_shows_def)

lemma death_insert_iff:
  assumes inv: "generation_inv db" and g: "generation_table db (generation_id_text (de_generation_id e)) = Some g"
    and live: "pg_state g \<noteq> Dead" and e: "valid_evidence e" "0 < now"
  shows "insert_evidence db (evidence_row e now) = Inr db1 \<longleftrightarrow>
    death_evidence_id_text (de_evidence_id e) \<notin> dr_evidence_id ` set (gd_death_evidence db) \<and>
    db1 = db\<lparr>gd_death_evidence := gd_death_evidence db @ [evidence_row e now]\<rparr>"
proof -
  let ?k = "generation_id_text (de_generation_id e)"
  obtain r where found: "find_generation_row (gd_generations db) ?k = Some r"
    and r: "row_shows r g" "generation_checks g"
    using table_row [OF inv g] .
  have "?k \<notin> dr_generation_id ` set (gd_death_evidence db)"
  proof
    assume "?k \<in> dr_generation_id ` set (gd_death_evidence db)"
    then obtain d where "d \<in> set (gd_death_evidence db)" "dr_generation_id d = ?k" by auto
    then have "evidence_fits d r"
      using inv found evidence_linked_row [of db d] by (simp add: generation_inv_def)
    then show False using r live by (simp add: evidence_fits_def row_shows_def generation_checks_def)
  qed
  moreover have "?k \<in> gr_generation_id ` set (gd_generations db)"
    using generation_inv_find [OF inv found] by force
  ultimately show ?thesis
    using evidence_row_sound [OF e] by (auto simp: insert_evidence_def evidence_row_def)
qed

text \<open>
  The outcomes of the mutations: a command applies exactly when the state machine has a
  step for it, and then commits that step; any other outcome commits nothing.
\<close>

section \<open>One lemma per command\<close>

lemma table_generation_id:
  assumes "generation_inv db" "generation_table db (generation_id_text k) = Some g"
  shows "pg_generation_id g = k"
  using generation_table_key [OF assms] by (cases k; cases "pg_generation_id g") simp

lemma bind_applied:
  assumes inv: "generation_inv db" and i: "valid_identity i"
  shows "run_command clock (Bind k n i) db = Inr (Applied m, db') \<longleftrightarrow>
    (\<exists>now g g'. applies clock db (Bind k n i) now g g' \<and> m = mutation g' \<and>
       db' = applied_db db now (Bind k n i))"
proof (cases "generation_table db (generation_id_text k)")
  case None
  then show ?thesis
    by (simp add: bind_process_generation_identity_def read_required_generation_table [OF inv]
        applies_def target_generation_def)
next
  case (Some g)
  note checks = table_generation_checks [OF inv Some]
  have eq: "pi_process_id i = pi_process_group_id i" "pi_process_id i = pi_session_id i"
    using i by (simp_all add: valid_identity_def)
  show ?thesis
  proof (cases "pg_revision g = n \<and> pg_state g = Starting \<and> pg_process_identity g = None \<and>
      pi_boot_id i = pg_intended_boot_id g")
    case True
    then have step: "generation_step now (Bind k n i) g
        (g\<lparr>pg_process_identity := Some i, pg_revision := n + 1, pg_updated_at_micros := now\<rparr>)" for now
      by (simp add: step_bind)
    have "0 < n" using checks True by (simp add: generation_checks_def)
    then show ?thesis
      using True eq Some command_update_iff [OF inv _ step, of db]
      by (auto simp: bind_process_generation_identity_def read_required_generation_table [OF inv]
          applies_def target_generation_def and_then_Ok_iff unix_micros_Ok_iff Let_def step_bind
          wrapping_add_in_range mutation_def i rejected_def)
  next
    case False
    then show ?thesis
      using Some eq
      by (auto simp: bind_process_generation_identity_def read_required_generation_table [OF inv]
          applies_def target_generation_def and_then_Ok_iff step_bind rejected_def)
  qed
qed

lemma transition_applied:
  assumes inv: "generation_inv db" and c: "c \<in> {MarkReady k n, MarkStopping k n}"
    and states: "expected = (if c = MarkReady k n then [Starting] else [Starting, Ready, Stopping, DeathUnknown])"
    and target: "target = (if c = MarkReady k n then Ready else Stopping)"
  shows "transition_generation clock k n expected target db = Inr (Applied m, db') \<longleftrightarrow>
    (\<exists>now g g'. applies clock db c now g g' \<and> m = mutation g' \<and> db' = applied_db db now c)"
proof (cases "generation_table db (generation_id_text k)")
  case None
  then show ?thesis
    using c by (auto simp: transition_generation_def mutate_generation_table [OF inv] applies_def
        target_generation_def)
next
  case (Some g)
  note checks = table_generation_checks [OF inv Some]
  have g: "target_generation db c = Some g" and valid: "valid_command c" and unused: "evidence_unused db c"
    using Some c by (auto simp: target_generation_def)
  have live: "pg_state g \<in> set expected \<longleftrightarrow>
      (if c = MarkReady k n then pg_state g = Starting else pg_state g \<noteq> Dead)"
    by (cases "pg_state g") (simp_all add: states)
  show ?thesis
  proof (cases "pg_revision g = n \<and> pg_state g \<in> set expected \<and> pg_process_identity g \<noteq> None")
    case True
    then have step: "generation_step now c g (g\<lparr>pg_state := target, pg_authority_loss_reason := None,
        pg_revision := n + 1, pg_updated_at_micros := now\<rparr>)" for now
      using c live target by (auto simp: step_ready step_stopping split: if_splits)
    have pos: "0 < n" using checks True by (simp add: generation_checks_def)
    have max: "n = saturating_add_i64 n 1 \<Longrightarrow> \<not> n < i64_max"
      using saturating_successor [OF pos] by auto
    have update: "command_update now c = (\<lambda>r. r\<lparr>gr_state := state_as_sql target,
        gr_revision := wrapping_add_i64 n 1, gr_updated_at_micros := now,
        gr_authority_loss_reason := None\<rparr>)" for now
      using c target by auto
    have gen: "command_generation c = k" "applied_db db now c =
        db\<lparr>gd_generations := updated_rows db k (command_update now c)\<rparr>" for now
      using c by auto
    show ?thesis
    proof (cases "pg_state g = target \<and> n = saturating_add_i64 n 1")
      case True': True
      then show ?thesis
        using True max Some pos by (auto simp: transition_generation_def mutate_generation_table [OF inv]
            applies_def g and_then_Ok_iff)
    next
      case False
      have "transition_generation clock k n expected target db = Inr (Applied m, db') \<longleftrightarrow>
        (\<exists>now. clock = Some now \<and> 0 < now \<and> n < i64_max \<and> pg_created_at_micros g \<le> now \<and>
          m = \<lparr>gm_revision = n + 1, gm_state = target, gm_recorded_at_micros = now\<rparr> \<and>
          db' = db\<lparr>gd_generations := updated_rows db k (command_update now c)\<rparr>)"
        using True False pos Some checks command_update_iff [OF inv g step valid, of db]
        by (auto simp: transition_generation_def mutate_generation_table [OF inv]
            and_then_Ok_iff unix_micros_Ok_iff Let_def wrapping_add_in_range update gen
            table_generation_id [OF inv Some])
      also have "\<dots> \<longleftrightarrow> (\<exists>now g g'. applies clock db c now g g' \<and> m = mutation g' \<and> db' = applied_db db now c)"
        using True c live g unused target
        by (auto simp: applies_def gen step_ready step_stopping mutation_def split: if_splits)
      finally show ?thesis .
    qed
  next
    case False
    then show ?thesis
      using Some c live g by (auto simp: transition_generation_def mutate_generation_table [OF inv]
          applies_def and_then_Ok_iff rejected_def step_ready step_stopping)
  qed
qed

lemma lost_applied:
  assumes inv: "generation_inv db"
  shows "run_command clock (MarkDeathUnknown k n reason) db = Inr (Applied m, db') \<longleftrightarrow>
    (\<exists>now g g'. applies clock db (MarkDeathUnknown k n reason) now g g' \<and> m = mutation g' \<and>
       db' = applied_db db now (MarkDeathUnknown k n reason))"
proof (cases "generation_table db (generation_id_text k)")
  case None
  then show ?thesis
    by (simp add: mark_process_generation_death_unknown_def mutate_generation_table [OF inv]
        applies_def target_generation_def)
next
  case (Some g)
  note checks = table_generation_checks [OF inv Some]
  show ?thesis
  proof (cases "pg_revision g = n \<and> pg_state g \<noteq> Dead")
    case True
    then have step: "generation_step now (MarkDeathUnknown k n reason) g
        (g\<lparr>pg_state := DeathUnknown, pg_authority_loss_reason := Some reason, pg_revision := n + 1,
           pg_updated_at_micros := now\<rparr>)" for now
      by (simp add: step_lost)
    have pos: "0 < n" using checks True by (simp add: generation_checks_def)
    have "n = saturating_add_i64 n 1 \<Longrightarrow> \<not> n < i64_max"
      using saturating_successor [OF pos] by auto
    then show ?thesis
      using True Some pos command_update_iff [OF inv _ step, of db]
      by (auto simp: mark_process_generation_death_unknown_def mutate_generation_table [OF inv]
          applies_def target_generation_def and_then_Ok_iff unix_micros_Ok_iff Let_def step_lost
          wrapping_add_in_range mutation_def table_generation_id [OF inv Some])
  next
    case False
    then show ?thesis
      using Some
      by (auto simp: mark_process_generation_death_unknown_def mutate_generation_table [OF inv]
          applies_def target_generation_def and_then_Ok_iff rejected_def step_lost)
  qed
qed

lemma died_applied:
  assumes inv: "generation_inv db" and e: "valid_evidence e"
  shows "run_command clock (RecordDeath n e) db = Inr (Applied m, db') \<longleftrightarrow>
    (\<exists>now g g'. applies clock db (RecordDeath n e) now g g' \<and> m = mutation g' \<and>
       db' = applied_db db now (RecordDeath n e))"
proof (cases "generation_table db (generation_id_text (de_generation_id e))")
  case None
  then show ?thesis
    by (simp add: record_process_generation_death_def mutate_generation_table [OF inv]
        applies_def target_generation_def)
next
  case (Some g)
  note checks = table_generation_checks [OF inv Some]
  show ?thesis
  proof (cases "pg_state g \<noteq> Dead \<and> pg_revision g = n \<and> evidence_identity_matches e g")
    case True
    then have step: "generation_step now (RecordDeath n e) g
        (g\<lparr>pg_state := Dead, pg_authority_loss_reason := None,
           pg_death_evidence_id := Some (de_evidence_id e), pg_revision := n + 1,
           pg_updated_at_micros := now\<rparr>)" for now
      by (simp add: step_died)
    have pos: "0 < n" using checks True by (simp add: generation_checks_def)
    show ?thesis
      using True Some pos e death_insert_iff [OF inv Some _ e] command_update_iff [OF inv _ step]
      by (auto simp: record_process_generation_death_def mutate_generation_table [OF inv]
          applies_def target_generation_def and_then_Ok_iff unix_micros_Ok_iff Let_def step_died
          wrapping_add_in_range mutation_def table_generation_id [OF inv Some])
  next
    case False
    then show ?thesis
      using Some
      by (auto simp: record_process_generation_death_def mutate_generation_table [OF inv]
          applies_def target_generation_def and_then_Ok_iff rejected_def step_died)
  qed
qed

lemma command_applied:
  assumes inv: "generation_inv db" and c: "valid_command c"
  shows "run_command clock c db = Inr (Applied m, db') \<longleftrightarrow>
    (\<exists>now g g'. applies clock db c now g g' \<and> m = mutation g' \<and> db' = applied_db db now c)"
proof (cases c)
  case (MarkReady k n)
  then show ?thesis using transition_applied [OF inv, of c k n]
    by (simp add: mark_process_generation_ready_def)
next
  case (MarkStopping k n)
  then show ?thesis using transition_applied [OF inv, of c k n]
    by (simp add: mark_process_generation_stopping_def)
qed (use bind_applied lost_applied died_applied inv c in simp_all)

end
