(* ===== verification/Generation_Life.thy ===== *)
theory Generation_Life
  imports Generation_Steps
begin

text \<open>
  The lifetime of a table of generations: admission, the commands and the projection after a
  supervisor loss as steps on the table, the interpretation of the contract of
  revision-fenced rows, and the invariant of the database after every transaction.
\<close>

section \<open>Steps on a table\<close>

definition fresh_generation :: "process_generation_intent \<Rightarrow> i64 \<Rightarrow> process_generation" where
  "fresh_generation intent now =
     \<lparr>pg_generation_id = in_generation_id intent, pg_account_id = in_account_id intent,
      pg_execution_epoch_id = xa_epoch_id (in_execution_authorization intent),
      pg_runner_identity = in_runner_identity intent, pg_intended_boot_id = in_intended_boot_id intent,
      pg_control_kind = in_control_kind intent, pg_isolation_kind = in_isolation_kind intent,
      pg_process_identity = None, pg_state = Starting, pg_authority_loss_reason = None,
      pg_death_evidence_id = None, pg_revision = 1, pg_created_at_micros = now, pg_updated_at_micros = now\<rparr>"

definition supervisor_lost :: "i64 \<Rightarrow> process_generation \<Rightarrow> process_generation" where
  "supervisor_lost now g =
     (if pg_state g \<in> {Dead, DeathUnknown} then g
      else g\<lparr>pg_state := DeathUnknown, pg_authority_loss_reason := Some SupervisorRestarted,
             pg_revision := pg_revision g + 1, pg_updated_at_micros := now\<rparr>)"

type_synonym generation_table = "string \<Rightarrow> process_generation option"

inductive table_step :: "generation_table \<Rightarrow> generation_table \<Rightarrow> bool" where
  admit: "t (generation_id_text (in_generation_id intent)) = None \<Longrightarrow>
    (\<forall>g \<in> ran t. pg_account_id g = in_account_id intent \<longrightarrow> pg_state g = Dead) \<Longrightarrow>
    table_step t (t(generation_id_text (in_generation_id intent) \<mapsto> fresh_generation intent now))"
| command: "t k = Some g \<Longrightarrow> generation_step now c g g' \<Longrightarrow> table_step t (t(k \<mapsto> g'))"
| supervisor: "table_step t (\<lambda>k. map_option (supervisor_lost now) (t k))"

interpretation generation_rows: fenced_rows table_step pg_revision "\<lambda>g. pg_state g = Dead"
proof
  show "table_step t t' \<Longrightarrow> t k = Some g \<Longrightarrow> \<exists>g'. t' k = Some g'" for t t' k g
    by (induction rule: table_step.induct) auto
  show "table_step t t' \<Longrightarrow> t k = Some g \<Longrightarrow> t' k = Some g' \<Longrightarrow> g' \<noteq> g \<Longrightarrow>
      pg_revision g' = pg_revision g + 1" for t t' k g g'
    by (induction rule: table_step.induct)
      (auto simp: supervisor_lost_def dest: generation_step_fixed split: if_splits)
  show "table_step t t' \<Longrightarrow> t k = Some g \<Longrightarrow> pg_state g = Dead \<Longrightarrow> t' k = Some g" for t t' k g
    by (induction rule: table_step.induct)
      (auto simp: supervisor_lost_def dest: generation_step_fixed split: if_splits)
qed

lemma table_step_identity:
  "table_step t t' \<Longrightarrow> t k = Some g \<Longrightarrow> pg_process_identity g = Some i \<Longrightarrow>
     \<exists>g'. t' k = Some g' \<and> pg_process_identity g' = Some i"
  by (induction rule: table_step.induct)
    (auto simp: supervisor_lost_def dest: generation_step_fixed split: if_splits)

section \<open>A command on the database\<close>

lemma boot_text_inject: "boot_text a = boot_text b \<longleftrightarrow> a = b"
  by (cases a; cases b) simp

lemma applied_command:
  assumes inv: "generation_inv db" and a: "applies clock db c now g g'" and c: "valid_command c"
  shows "generation_table (applied_db db now c) =
      (generation_table db)(generation_id_text (command_generation c) \<mapsto> g')"
    and "generation_inv (applied_db db now c)"
proof -
  let ?k = "command_generation c" and ?f = "command_update now c"
  have g: "generation_table db (generation_id_text ?k) = Some g" and step: "generation_step now c g g'"
    and max: "pg_revision g < i64_max" and now: "0 < now" "pg_created_at_micros g \<le> now"
    and unused: "evidence_unused db c"
    using a by (simp_all add: applies_def target_generation_def)
  obtain r where found: "find_generation_row (gd_generations db) (generation_id_text ?k) = Some r"
    and r: "row_shows r g" "valid_generation g" "generation_checks g" "fixed_checks r" "pg_revision g \<le> i64_max"
    using table_row [OF inv g] .
  have keys: "generation_keys_unique (gd_generations db)" using inv by (simp add: generation_inv_def)
  have u: "one_row_update db ?k r ?f"
    using found keys by (simp add: one_row_update_def command_update_keeps generation_keys_unique_def)
  have fixed: "pg_state g \<noteq> Dead" "pg_revision g' = pg_revision g + 1" and valid: "valid_generation g'"
    using generation_step_fixed [OF step] generation_step_valid [OF step c r(2)] by simp_all
  have shows': "row_shows (?f r) g'"
    using command_update_shows [OF step r(1) _ max] r(3) by (simp add: generation_checks_def)
  have sound: "row_sound (?f r)"
    unfolding row_sound_def row_checks_iff [OF shows' valid]
    using generation_step_checks [OF step r(3)] now(2) r(4) shows' valid max fixed(2)
    by (auto simp: command_update_keeps row_shows_def)
  have unique: "generation_keys_unique (updated_rows db ?k ?f)"
    by (rule updated_keys_unique [OF u keys])
      (use fixed r(1) in \<open>simp_all add: command_update_keeps row_shows_def\<close>)
  have live: "gr_death_evidence_id r = None"
    using r(1,3) fixed(1) by (simp add: row_shows_def generation_checks_def)
  have "generation_table (applied_db db now c) = generation_table (db\<lparr>gd_generations := updated_rows db ?k ?f\<rparr>)"
    by (cases c) (simp_all add: generation_table_def fun_eq_iff)
  then show "generation_table (applied_db db now c) = (generation_table db)(generation_id_text ?k \<mapsto> g')"
    using updated_table [OF u shows' valid] by simp
  show "generation_inv (applied_db db now c)"
  proof (cases "\<exists>n e. c = RecordDeath n e")
    case False
    then have "gr_death_evidence_id (?f r) = None" "applied_db db now c = db\<lparr>gd_generations := updated_rows db ?k ?f\<rparr>"
      using live by (cases c; simp)+
    then show ?thesis using updated_inv [OF inv u sound unique live] by simp
  next
    case True
    then obtain n e where e: "c = RecordDeath n e" by blast
    have matches: "evidence_identity_matches e g" using step e by (simp add: step_died)
    have e_ok: "valid_evidence e" using c e by simp
    have "evidence_fits (evidence_row e now) (?f r)"
      using matches r(1) e_ok unfolding e
      by (cases "de_kind e")
        (simp_all add: evidence_fits_def evidence_row_def evidence_identity_matches_def row_shows_def
          identity_shows_def valid_evidence_def boot_text_inject)
    then show ?thesis
      using died_inv [OF inv u sound unique live evidence_row_sound [OF e_ok now(1)]] unused
      by (simp add: e evidence_row_def)
  qed
qed

section \<open>Admission on the database\<close>

text \<open>What the constructors of an intent and of an account binding have checked.\<close>

definition valid_intent :: "process_generation_intent \<Rightarrow> bool" where
  "valid_intent intent \<longleftrightarrow>
     is_canonical_uuid (generation_id_text (in_generation_id intent)) \<and>
     is_canonical_uuid (account_id_text (in_account_id intent)) \<and>
     is_runner_identity (runner_text (in_runner_identity intent)) \<and>
     is_bounded_identity (boot_text (in_intended_boot_id intent)) \<and>
     is_canonical_uuid (epoch_id_text (xa_epoch_id (in_execution_authorization intent))) \<and>
     is_sha256 (xa_authorization_digest (in_execution_authorization intent))"

definition valid_credential :: "credential_binding \<Rightarrow> bool" where
  "valid_credential c \<longleftrightarrow> cb_schema_version c \<in> {schema_v1, schema_v2} \<and>
     credential_version_get (cb_version c) \<noteq> 0 \<and> is_sha256 (fingerprint_text (cb_fingerprint c)) \<and>
     is_canonical_uuid (operation_id_text (cb_writer_operation_id c)) \<and>
     is_bounded_provider_identity (pid_account_id (cb_provider c)) 512"

definition valid_binding :: "account_binding \<Rightarrow> bool" where
  "valid_binding b \<longleftrightarrow> 1 \<le> ab_account_revision b \<and> valid_credential (ab_credential b) \<and>
     is_sha256 (ab_refresh_callback_profile_sha256 b)"

lemma credential_version_i64_Ok:
  assumes "credential_version_i64 c = Inr version" "valid_credential c"
  shows "0 < version"
proof -
  have "version = uint (credential_version_get (cb_version c))"
    using assms(1) by (auto simp: credential_version_i64_def i64_try_from_u64_def split: if_splits)
  moreover have "uint (credential_version_get (cb_version c)) \<noteq> 0"
    using assms(2) by (auto simp: valid_credential_def unsigned_eq_0_iff)
  ultimately show ?thesis using unsigned_greater_eq [of "credential_version_get (cb_version c)", where 'a = int]
    by linarith
qed

text \<open>The admitted row shows the fresh generation and satisfies the constraints.\<close>

lemma intent_row_sound:
  assumes "valid_intent intent" "valid_binding binding"
    and "credential_version_i64 (ab_credential binding) = Inr version" "0 < now"
    and "null_or (\<lambda>k. 1 \<le> length k \<and> length k \<le> 256) key"
  shows "row_shows (intent_row intent binding session key version now) (fresh_generation intent now)"
    and "valid_generation (fresh_generation intent now)"
    and "row_sound (intent_row intent binding session key version now)"
proof -
  let ?r = "intent_row intent binding session key version now" and ?g = "fresh_generation intent now"
  show row: "row_shows ?r ?g"
    by (simp add: row_shows_def intent_row_def fresh_generation_def identity_shows_def)
  show valid: "valid_generation ?g"
    using assms(1) by (simp add: valid_intent_def valid_generation_def fresh_generation_def)
  have "provider_text p = ''chatgpt''" for p by (cases p) simp
  then have "fixed_checks ?r"
    using assms(2,5) credential_version_i64_Ok [OF assms(3)]
    by (auto simp: fixed_checks_def intent_row_def valid_binding_def valid_credential_def schema_v1_def
        schema_v2_def is_bounded_provider_identity_def Suc_le_eq)
  moreover have "generation_checks ?g" using assms(4) by (simp add: generation_checks_def fresh_generation_def)
  moreover have "gr_revision ?r \<le> i64_max" by (simp add: intent_row_def i64_max_def)
  ultimately show "row_sound ?r" using row valid row_checks_iff [OF row valid] by (auto simp: row_sound_def)
qed

lemma quarantined_iff:
  assumes "generation_inv db"
  shows "account_id_text a \<in> set (quarantining_accounts (gd_generations db)) \<longleftrightarrow>
    (\<exists>g \<in> ran (generation_table db). pg_account_id g = a \<and> pg_state g \<noteq> Dead)"
proof
  assume "account_id_text a \<in> set (quarantining_accounts (gd_generations db))"
  then obtain r where r: "r \<in> set (gd_generations db)" "gr_account_id r = account_id_text a" "gr_state r \<noteq> ''dead''"
    by (auto simp: quarantining_accounts_def)
  have "find_generation_row (gd_generations db) (gr_generation_id r) = Some r"
    using assms r(1) find_row_distinct
    by (auto simp: generation_inv_def generation_keys_unique_def find_generation_row_def)
  moreover obtain g where "row_shows r g" "valid_generation g"
    using assms r(1) by (auto simp: generation_inv_def row_sound_def)
  ultimately have "generation_table db (gr_generation_id r) = Some g" "pg_account_id g = a" "pg_state g \<noteq> Dead"
    using r(2,3) account_id.expand by (auto simp: generation_table_iff row_shows_def)
  then show "\<exists>g \<in> ran (generation_table db). pg_account_id g = a \<and> pg_state g \<noteq> Dead"
    by (auto intro: ranI)
next
  assume "\<exists>g \<in> ran (generation_table db). pg_account_id g = a \<and> pg_state g \<noteq> Dead"
  then obtain k g where g: "generation_table db k = Some g" "pg_account_id g = a" "pg_state g \<noteq> Dead"
    by (auto simp: ran_def)
  then obtain r where "find_generation_row (gd_generations db) k = Some r" "row_shows r g"
    by (auto simp: generation_table_iff)
  then have "r \<in> set (gd_generations db)" "gr_account_id r = account_id_text a" "gr_state r \<noteq> ''dead''"
    using g generation_inv_find [OF assms] by (auto simp: row_shows_def)
  then show "account_id_text a \<in> set (quarantining_accounts (gd_generations db))"
    unfolding quarantining_accounts_def by force
qed

text \<open>The epoch row of an intent: the stored one, or the inserted one.\<close>

definition epoch_admits :: "generation_db \<Rightarrow> process_generation_intent \<Rightarrow> bool" where
  "epoch_admits db intent \<longleftrightarrow>
     (case find_row er_execution_epoch_id (gd_epochs db)
        (epoch_id_text (xa_epoch_id (in_execution_authorization intent))) of
        None \<Rightarrow> True
      | Some e \<Rightarrow> er_authorization_sha256 e = xa_authorization_digest (in_execution_authorization intent))"

definition intent_epoch_row :: "process_generation_intent \<Rightarrow> i64 \<Rightarrow> execution_epoch_row" where
  "intent_epoch_row intent now =
     \<lparr>er_execution_epoch_id = epoch_id_text (xa_epoch_id (in_execution_authorization intent)),
      er_authorization_sha256 = xa_authorization_digest (in_execution_authorization intent),
      er_created_at_micros = now\<rparr>"

lemma epoch_inserted:
  assumes "valid_intent intent" "0 < now"
  shows "find_row er_execution_epoch_id (gd_epochs (insert_or_ignore_epoch db (intent_epoch_row intent now)))
      (epoch_id_text (xa_epoch_id (in_execution_authorization intent))) =
    Some (case find_row er_execution_epoch_id (gd_epochs db)
        (epoch_id_text (xa_epoch_id (in_execution_authorization intent))) of
      None \<Rightarrow> intent_epoch_row intent now | Some e \<Rightarrow> e)"
proof -
  have "epoch_row_checks (intent_epoch_row intent now)"
    using assms by (simp add: epoch_row_checks_def intent_epoch_row_def valid_intent_def)
  then show ?thesis
    using find_row_None [of er_execution_epoch_id "gd_epochs db"]
      find_row_Some [of er_execution_epoch_id "gd_epochs db"]
    by (auto simp: insert_or_ignore_epoch_def intent_epoch_row_def find_row_append split: option.splits)
qed

lemma epoch_insert_same:
  "gd_generations (insert_or_ignore_epoch db e) = gd_generations db"
  "gd_death_evidence (insert_or_ignore_epoch db e) = gd_death_evidence db"
  "gd_accounts (insert_or_ignore_epoch db e) = gd_accounts db"
  "gd_operations (insert_or_ignore_epoch db e) = gd_operations db"
  "gd_runtime_sessions (insert_or_ignore_epoch db e) = gd_runtime_sessions db"
  by (simp_all add: insert_or_ignore_epoch_def)

text \<open>The insert of an admitted row: what its constraints leave to check.\<close>

definition admission_columns ::
    "generation_db \<Rightarrow> account_binding \<Rightarrow> string option \<Rightarrow> string option \<Rightarrow> bool" where
  "admission_columns db binding session key \<longleftrightarrow>
     null_or (\<lambda>k. 1 \<le> length k \<and> length k \<le> 256 \<and> k \<notin> set (admission_keys (gd_generations db))) key \<and>
     null_or (\<lambda>s. s \<in> set (gd_runtime_sessions db)) session \<and>
     operation_id_text (cb_writer_operation_id (ab_credential binding)) \<in> opr_operation_id ` set (gd_operations db)"

lemma admission_keys_append:
  "distinct (admission_keys (t @ [r])) \<longleftrightarrow>
     distinct (admission_keys t) \<and> null_or (\<lambda>k. k \<notin> set (admission_keys t)) (gr_quick_task_admission_key r)"
  by (cases "gr_quick_task_admission_key r")
    (auto simp: admission_keys_def List.map_filter_def null_or_def)

lemma table_None:
  assumes "generation_inv db"
  shows "generation_table db k = None \<longleftrightarrow> find_generation_row (gd_generations db) k = None"
proof (cases "find_generation_row (gd_generations db) k")
  case (Some r)
  then obtain g where "row_shows r g" "valid_generation g"
    using generation_inv_find(3) [OF assms] by (auto simp: row_sound_def)
  with Some have "generation_table db k = Some g" by (auto simp: generation_table_iff)
  with Some show ?thesis by simp
qed (simp add: generation_table_def)

lemma insert_intent_iff:
  assumes inv: "generation_inv db"
    and none: "generation_table db (generation_id_text (in_generation_id intent)) = None"
    and quiet: "account_id_text (in_account_id intent) \<notin> set (quarantining_accounts (gd_generations db))"
    and account: "account_id_text (in_account_id intent) \<in> acr_account_id ` set (gd_accounts db)"
    and valid: "valid_intent intent" "valid_binding binding"
    and version: "credential_version_i64 (ab_credential binding) = Inr version" and now: "0 < now"
    and db1: "gd_generations db1 = gd_generations db" "gd_accounts db1 = gd_accounts db"
      "gd_operations db1 = gd_operations db" "gd_runtime_sessions db1 = gd_runtime_sessions db"
      "epoch_id_text (xa_epoch_id (in_execution_authorization intent)) \<in> er_execution_epoch_id ` set (gd_epochs db1)"
  shows "insert_generation db1 (intent_row intent binding session key version now) = Inr db2 \<longleftrightarrow>
    admission_columns db binding session key \<and>
    db2 = db1\<lparr>gd_generations := gd_generations db @ [intent_row intent binding session key version now]\<rparr>"
proof -
  let ?r = "intent_row intent binding session key version now"
  have row: "gr_generation_id ?r = generation_id_text (in_generation_id intent)"
    "gr_account_id ?r = account_id_text (in_account_id intent)" "gr_state ?r = ''starting''"
    "gr_quick_task_admission_key ?r = key" "gr_runtime_session_id ?r = session"
    "gr_execution_epoch_id ?r = epoch_id_text (xa_epoch_id (in_execution_authorization intent))"
    "gr_credential_writer_operation_id ?r = operation_id_text (cb_writer_operation_id (ab_credential binding))"
    by (simp_all add: intent_row_def)
  have keys: "generation_keys_unique (gd_generations db)"
    and sound: "\<forall>r \<in> set (gd_generations db). row_sound r" using inv by (auto simp: generation_inv_def)
  have "find_generation_row (gd_generations db) (generation_id_text (in_generation_id intent)) = None"
    using none table_None [OF inv] by simp
  then have new: "generation_id_text (in_generation_id intent) \<notin> gr_generation_id ` set (gd_generations db)"
    by (auto simp: find_generation_row_def find_row_None)
  have "generation_row_checks ?r \<longleftrightarrow> null_or (\<lambda>k. 1 \<le> length k \<and> length k \<le> 256) key"
  proof
    assume "generation_row_checks ?r"
    then show "null_or (\<lambda>k. 1 \<le> length k \<and> length k \<le> 256) key"
      unfolding generation_row_checks_def row(4) by blast
  next
    assume "null_or (\<lambda>k. 1 \<le> length k \<and> length k \<le> 256) key"
    then show "generation_row_checks ?r"
      using intent_row_sound(3) [OF valid version now] by (simp add: row_sound_def)
  qed
  moreover have "generation_keys_unique (gd_generations db @ [?r]) \<longleftrightarrow>
      null_or (\<lambda>k. k \<notin> set (admission_keys (gd_generations db))) key"
    using keys quiet new
    by (auto simp: generation_keys_unique_def admission_keys_append row quarantining_accounts_def)
  ultimately show ?thesis
    using account db1 unfolding insert_generation_def admission_columns_def row db1
    by (cases key) (auto simp: null_or_def)
qed

lemma account_authority_account:
  "account_authority db a binding = Inr None \<Longrightarrow> account_id_text a \<in> acr_account_id ` set (gd_accounts db) \<and>
     (\<exists>version. credential_version_i64 (ab_credential binding) = Inr version)"
  by (auto simp: account_authority_def and_then_Ok_iff split: option.splits if_splits dest!: find_row_Some
      intro: rev_image_eqI)

text \<open>The outcome \<^verbatim>\<open>Fresh\<close> of an admission, exactly.\<close>

definition admitted ::
    "i64 option \<Rightarrow> i64 option \<Rightarrow> process_generation_intent \<Rightarrow> account_binding \<Rightarrow> string option \<Rightarrow>
     string option \<Rightarrow> generation_db \<Rightarrow> i64 \<Rightarrow> bool" where
  "admitted epoch_clock clock intent binding session key db now \<longleftrightarrow>
     generation_table db (generation_id_text (in_generation_id intent)) = None \<and>
     account_authority db (in_account_id intent) binding = Inr None \<and>
     (\<forall>g \<in> ran (generation_table db). pg_account_id g = in_account_id intent \<longrightarrow> pg_state g = Dead) \<and>
     epoch_admits db intent \<and> admission_columns db binding session key \<and>
     (\<exists>t > 0. epoch_clock = Some t) \<and> clock = Some now \<and> 0 < now"

lemma prepare_fresh_db:
  assumes inv: "generation_inv db" and valid: "valid_intent intent" "valid_binding binding"
  shows "prepare_bound_generation epoch_clock clock intent binding session key db = Inr (Fresh fence, db') \<longleftrightarrow>
    (\<exists>now t version. admitted epoch_clock clock intent binding session key db now \<and> epoch_clock = Some t \<and>
       credential_version_i64 (ab_credential binding) = Inr version \<and>
       fence = \<lparr>gf_generation_id = in_generation_id intent, gf_revision = 1, gf_fenced_at_micros = now\<rparr> \<and>
       db' = (insert_or_ignore_epoch db (intent_epoch_row intent t))\<lparr>gd_generations :=
         gd_generations db @ [intent_row intent binding session key version now]\<rparr>)"
proof (cases "generation_table db (generation_id_text (in_generation_id intent)) = None \<and>
    account_authority db (in_account_id intent) binding = Inr None \<and>
    account_id_text (in_account_id intent) \<notin> set (quarantining_accounts (gd_generations db)) \<and>
    (\<exists>t > 0. epoch_clock = Some t)")
  case False
  then show ?thesis
    using quarantined_iff [OF inv, of "in_account_id intent"]
    by (auto simp: prepare_bound_generation_def read_generation_table [OF inv] admitted_def
        and_then_Ok_iff unix_micros_Ok_iff split: option.splits if_splits)
next
  case True
  then obtain t version where t: "epoch_clock = Some t" "0 < t"
    and version: "credential_version_i64 (ab_credential binding) = Inr version"
    and account: "account_id_text (in_account_id intent) \<in> acr_account_id ` set (gd_accounts db)"
    using account_authority_account by blast
  let ?db1 = "insert_or_ignore_epoch db (intent_epoch_row intent t)"
  note found = epoch_inserted [OF valid(1) t(2), of db]
  have in_epochs: "epoch_id_text (xa_epoch_id (in_execution_authorization intent)) \<in>
      er_execution_epoch_id ` set (gd_epochs ?db1)"
    using find_row_Some [OF found] by force
  have quiet: "\<forall>g \<in> ran (generation_table db). pg_account_id g = in_account_id intent \<longrightarrow> pg_state g = Dead"
    using True quarantined_iff [OF inv, of "in_account_id intent"] by blast
  have row: "\<lparr>er_execution_epoch_id = epoch_id_text (xa_epoch_id (in_execution_authorization intent)),
      er_authorization_sha256 = xa_authorization_digest (in_execution_authorization intent),
      er_created_at_micros = t\<rparr> = intent_epoch_row intent t"
    by (simp add: intent_epoch_row_def)
  have epoch: "er_authorization_sha256 (case find_row er_execution_epoch_id (gd_epochs db)
        (epoch_id_text (xa_epoch_id (in_execution_authorization intent))) of
      None \<Rightarrow> intent_epoch_row intent t | Some e \<Rightarrow> e) =
      xa_authorization_digest (in_execution_authorization intent) \<longleftrightarrow> epoch_admits db intent"
    by (auto simp: epoch_admits_def intent_epoch_row_def split: option.splits)
  have insert: "0 < now \<Longrightarrow> insert_generation ?db1 (intent_row intent binding session key version now) = Inr db' \<longleftrightarrow>
      admission_columns db binding session key \<and>
      db' = ?db1\<lparr>gd_generations := gd_generations db @ [intent_row intent binding session key version now]\<rparr>" for now
    by (rule insert_intent_iff [OF inv _ _ account valid version])
      (use True in_epochs epoch_insert_same in simp_all)
  have authority: "account_authority db (in_account_id intent) binding = Inr None"
    and none: "generation_table db (generation_id_text (in_generation_id intent)) = None"
    and free: "account_id_text (in_account_id intent) \<notin> set (quarantining_accounts (gd_generations db))"
    and now_t: "unix_micros (Some t) = Inr t"
    using True t by (auto simp: unix_micros_def)
  have run: "prepare_bound_generation epoch_clock clock intent binding session key db =
      (if \<not> epoch_admits db intent
       then Inr (PrepareRejected RestoreAuthorityUnavailable empty_mutation, ?db1)
       else and_then (unix_micros clock) (\<lambda>now.
         and_then (insert_generation ?db1 (intent_row intent binding session key version now)) (\<lambda>db2.
           Inr (Fresh \<lparr>gf_generation_id = in_generation_id intent, gf_revision = 1, gf_fenced_at_micros = now\<rparr>, db2))))"
    by (simp add: prepare_bound_generation_def read_generation_table [OF inv] none authority free t(1) now_t
        row found epoch version Let_def)
  show ?thesis
  proof (cases "epoch_admits db intent \<and> (\<exists>now. clock = Some now \<and> 0 < now)")
    case True
    then obtain now where now: "clock = Some now" "0 < now" by blast
    then have clock: "unix_micros clock = Inr now" by (simp add: unix_micros_def)
    show ?thesis
      unfolding run clock using True insert [OF now(2)] now none authority quiet t version
      by (auto simp: admitted_def and_then_Ok_iff)
  next
    case False
    then show ?thesis unfolding run by (auto simp: admitted_def and_then_Ok_iff unix_micros_Ok_iff)
  qed
qed

end
