(* ===== verification/Generation_Runs.thy ===== *)
theory Generation_Runs
  imports Generation_Life
begin

text \<open>
  The transactions as steps of the table, the projection after a supervisor loss, and runs:
  any sequence of transactions, with the changes that the other writers of the database
  make in between.
\<close>

section \<open>Admission\<close>

lemma prepared_effect:
  assumes inv: "generation_inv db" and valid: "valid_intent intent" "valid_binding binding"
    and fresh: "prepare_bound_generation epoch_clock clock intent binding session key db = Inr (Fresh fence, db')"
  shows "generation_table db' = (generation_table db)(generation_id_text (in_generation_id intent) \<mapsto>
      fresh_generation intent (gf_fenced_at_micros fence))" (is "?table")
    and "generation_inv db'"
proof -
  obtain now t version where a: "admitted epoch_clock clock intent binding session key db now"
    and version: "credential_version_i64 (ab_credential binding) = Inr version"
    and fence: "gf_fenced_at_micros fence = now"
    and db': "db' = (insert_or_ignore_epoch db (intent_epoch_row intent t))\<lparr>gd_generations :=
      gd_generations db @ [intent_row intent binding session key version now]\<rparr>"
    using fresh unfolding prepare_fresh_db [OF inv valid] by force
  let ?r = "intent_row intent binding session key version now"
  have now: "0 < now" and key: "null_or (\<lambda>k. 1 \<le> length k \<and> length k \<le> 256) key"
    and none: "generation_table db (generation_id_text (in_generation_id intent)) = None"
    using a by (auto simp: admitted_def admission_columns_def null_or_def split: option.splits)
  note row = intent_row_sound [OF valid version now key]
  have id: "gr_generation_id ?r = generation_id_text (in_generation_id intent)"
    "gr_death_evidence_id ?r = None" "gr_account_id ?r = account_id_text (in_account_id intent)"
    "gr_quick_task_admission_key ?r = key" "gr_state ?r = ''starting''"
    by (simp_all add: intent_row_def)
  have rows: "gd_generations db' = gd_generations db @ [?r]" "gd_death_evidence db' = gd_death_evidence db"
    by (simp_all add: db' epoch_insert_same)
  have missing: "find_generation_row (gd_generations db) (generation_id_text (in_generation_id intent)) = None"
    using none table_None [OF inv] by simp
  have find': "find_generation_row (gd_generations db') j =
      (if j = generation_id_text (in_generation_id intent) then Some ?r
       else find_generation_row (gd_generations db) j)" for j
    using missing
    by (cases "find_generation_row (gd_generations db) j")
      (auto simp: rows find_generation_row_def find_row_append id)
  show ?table
    using row(1,2) by (auto simp: fun_eq_iff generation_table_def find' parse_generation_row_iff fence)
  have "account_id_text (in_account_id intent) \<notin> set (quarantining_accounts (gd_generations db))"
    using a quarantined_iff [OF inv] by (auto simp: admitted_def)
  then have "generation_keys_unique (gd_generations db')"
    using inv missing a
    by (auto simp: rows generation_inv_def generation_keys_unique_def admission_keys_append id
        quarantining_accounts_def find_generation_row_def find_row_None admitted_def
        admission_columns_def null_or_def split: option.splits)
  moreover have "evidence_linked db'"
    using inv missing unfolding generation_inv_def evidence_linked_def rows(2)
    by (auto simp: rows(1) find' [unfolded rows(1)] id)
  ultimately show "generation_inv db'" using inv row(3) by (auto simp: generation_inv_def rows)
qed

lemma prepare_other:
  assumes inv: "generation_inv db" and valid: "valid_intent intent"
    and out: "prepare_bound_generation epoch_clock clock intent binding session key db = Inr (out, db')"
    and other: "\<nexists>fence. out = Fresh fence"
  shows "db' = db"
proof -
  let ?k = "epoch_id_text (xa_epoch_id (in_execution_authorization intent))"
  have same: "insert_or_ignore_epoch db (intent_epoch_row intent t) = db"
    if t: "0 < t" and e: "find_row er_execution_epoch_id
        (gd_epochs (insert_or_ignore_epoch db (intent_epoch_row intent t))) ?k = Some e"
      "er_authorization_sha256 e \<noteq> xa_authorization_digest (in_execution_authorization intent)" for t e
  proof -
    obtain e' where "find_row er_execution_epoch_id (gd_epochs db) ?k = Some e'"
      using e epoch_inserted [OF valid t, of db] by (auto simp: intent_epoch_row_def split: option.splits)
    then have "?k \<in> er_execution_epoch_id ` set (gd_epochs db)" using find_row_Some by force
    then show ?thesis by (simp add: insert_or_ignore_epoch_def intent_epoch_row_def)
  qed
  show ?thesis
    using out other same
    by (auto simp: prepare_bound_generation_def and_then_Ok_iff Let_def unix_micros_Ok_iff
        simp flip: intent_epoch_row_def split: option.splits if_splits)
qed

section \<open>Supervisor loss\<close>

definition live_row :: "generation_row \<Rightarrow> bool" where
  "live_row r \<longleftrightarrow> gr_state r \<notin> set [''dead'', ''death_unknown'']"

definition lost_row :: "i64 \<Rightarrow> generation_row \<Rightarrow> generation_row" where
  "lost_row now r = r\<lparr>gr_state := ''death_unknown'',
     gr_authority_loss_reason := Some ''supervisor_restarted'', gr_revision := gr_revision r + 1,
     gr_updated_at_micros := now\<rparr>"

lemma live_row_shows: "row_shows r g \<Longrightarrow> live_row r \<longleftrightarrow> pg_state g \<notin> {Dead, DeathUnknown}"
  by (simp add: live_row_def row_shows_def)

lemma lost_row_shows:
  "row_shows r g \<Longrightarrow> row_shows (if live_row r then lost_row now r else r) (supervisor_lost now g)"
  by (auto simp: live_row_shows supervisor_lost_def) (simp_all add: row_shows_def lost_row_def)

lemma supervisor_lost_valid: "valid_generation g \<Longrightarrow> valid_generation (supervisor_lost now g)"
  by (simp add: supervisor_lost_def valid_generation_def)

lemma lost_row_sound:
  assumes "row_sound r" "live_row r" "gr_revision r < i64_max"
  shows "generation_row_checks (lost_row now r) \<longleftrightarrow> gr_created_at_micros r \<le> now"
    and "gr_created_at_micros r \<le> now \<Longrightarrow> row_sound (lost_row now r)"
proof -
  obtain g where g: "row_shows r g" "valid_generation g" and checks: "generation_row_checks r"
    using assms(1) by (auto simp: row_sound_def)
  have state: "pg_state g \<notin> {Dead, DeathUnknown}" using live_row_shows [OF g(1)] assms(2) by simp
  have lost: "row_shows (lost_row now r) (supervisor_lost now g)" "valid_generation (supervisor_lost now g)"
    using lost_row_shows [OF g(1)] assms(2) supervisor_lost_valid [OF g(2)] by (auto split: if_splits)
  have "fixed_checks (lost_row now r) = fixed_checks r" by (simp add: fixed_checks_def lost_row_def)
  then show iff: "generation_row_checks (lost_row now r) \<longleftrightarrow> gr_created_at_micros r \<le> now"
    using checks state g(1) unfolding row_checks_iff [OF lost] row_checks_iff [OF g]
    by (auto simp: supervisor_lost_def generation_checks_def row_shows_def)
  show "gr_created_at_micros r \<le> now \<Longrightarrow> row_sound (lost_row now r)"
    using iff lost assms(3) unfolding row_sound_def by (auto simp: lost_row_def)
qed

lemma lost_keys_unique:
  "generation_keys_unique t \<Longrightarrow> generation_keys_unique (update_rows live_row (lost_row now) t)"
proof -
  have "map gr_generation_id (update_rows live_row (lost_row now) t) = map gr_generation_id t"
    "admission_keys (update_rows live_row (lost_row now) t) = admission_keys t"
    "quarantining_accounts (update_rows live_row (lost_row now) t) = quarantining_accounts t"
    by (induction t) (auto simp: update_rows_def lost_row_def admission_keys_def List.map_filter_def
        quarantining_accounts_def live_row_def)
  then show "generation_keys_unique t \<Longrightarrow> ?thesis" by (simp add: generation_keys_unique_def)
qed

lemma project_db:
  assumes inv: "generation_inv db"
  shows "project_process_generations_after_supervisor_loss clock db = Inr (n, db') \<longleftrightarrow>
    (\<exists>now. clock = Some now \<and> 0 < now \<and>
       (\<forall>r \<in> set (gd_generations db). live_row r \<longrightarrow> gr_revision r < i64_max \<and> gr_created_at_micros r \<le> now) \<and>
       n = length (filter live_row (gd_generations db)) \<and>
       db' = db\<lparr>gd_generations := update_rows live_row (lost_row now) (gd_generations db)\<rparr>)"
proof -
  let ?t = "gd_generations db"
  have sound: "\<forall>r \<in> set ?t. row_sound r" and keys: "generation_keys_unique ?t"
    using inv by (auto simp: generation_inv_def)
  have live: "(\<lambda>r. gr_state r \<notin> set [''dead'', ''death_unknown'']) = live_row"
    and lost: "(\<lambda>r. r\<lparr>gr_state := ''death_unknown'', gr_authority_loss_reason := Some ''supervisor_restarted'',
        gr_revision := gr_revision r + 1, gr_updated_at_micros := now\<rparr>) = lost_row now" for now
    by (simp_all add: fun_eq_iff live_row_def lost_row_def)
  have "update_generations db live_row (lost_row now) = Inr db' \<longleftrightarrow>
      (\<forall>r \<in> set ?t. live_row r \<longrightarrow> gr_created_at_micros r \<le> now) \<and>
      db' = db\<lparr>gd_generations := update_rows live_row (lost_row now) ?t\<rparr>"
    if "\<forall>r \<in> set ?t. live_row r \<longrightarrow> gr_revision r < i64_max" for now
  proof -
    have "list_all (\<lambda>r. live_row r \<longrightarrow> generation_row_checks (lost_row now r)) ?t \<longleftrightarrow>
        (\<forall>r \<in> set ?t. live_row r \<longrightarrow> gr_created_at_micros r \<le> now)"
      using lost_row_sound(1) sound that by (auto simp: list_all_iff)
    then show ?thesis
      using lost_keys_unique [OF keys, of now] by (simp add: update_generations_def Let_def) auto
  qed
  then show ?thesis
    unfolding project_process_generations_after_supervisor_loss_def live lost Let_def
    by (auto simp: and_then_Ok_iff unix_micros_Ok_iff list_all_iff)
qed

lemma projected_effect:
  assumes inv: "generation_inv db"
    and run: "project_process_generations_after_supervisor_loss clock db = Inr (n, db')"
  shows "\<exists>now. clock = Some now \<and>
      generation_table db' = (\<lambda>k. map_option (supervisor_lost now) (generation_table db k))"
    and "generation_inv db'"
proof -
  obtain now where now: "clock = Some now"
    and bounds: "\<And>r. r \<in> set (gd_generations db) \<Longrightarrow> live_row r \<Longrightarrow>
      gr_revision r < i64_max \<and> gr_created_at_micros r \<le> now"
    and db': "db' = db\<lparr>gd_generations := update_rows live_row (lost_row now) (gd_generations db)\<rparr>"
    using run unfolding project_db [OF inv] by blast
  let ?f = "\<lambda>r. if live_row r then lost_row now r else r"
  have find': "find_generation_row (gd_generations db') k = map_option ?f (find_generation_row (gd_generations db) k)" for k
    unfolding db' find_generation_row_def by (simp add: find_row_update lost_row_def)
  have "generation_table db' k = map_option (supervisor_lost now) (generation_table db k)" for k
  proof (cases "find_generation_row (gd_generations db) k")
    case None
    then show ?thesis by (simp add: generation_table_def find')
  next
    case (Some r)
    then obtain g where g: "row_shows r g" "valid_generation g"
      using generation_inv_find(3) [OF inv] by (auto simp: row_sound_def)
    then have "parse_generation_row r = Inr g" "parse_generation_row (?f r) = Inr (supervisor_lost now g)"
      unfolding parse_generation_row_iff using lost_row_shows supervisor_lost_valid by blast+
    with Some show ?thesis by (simp add: generation_table_def find')
  qed
  then show "\<exists>now. clock = Some now \<and>
      generation_table db' = (\<lambda>k. map_option (supervisor_lost now) (generation_table db k))"
    using now by (auto simp: fun_eq_iff)
  have sound: "\<forall>r \<in> set (gd_generations db). row_sound (?f r)"
    using inv bounds lost_row_sound(2) by (simp add: generation_inv_def)
  have columns: "gr_generation_id (?f r) = gr_generation_id r" "gr_death_evidence_id (?f r) = gr_death_evidence_id r"
    "evidence_fits d (?f r) = evidence_fits d r" for r d
    by (simp_all add: lost_row_def evidence_fits_def)
  have "evidence_linked db'"
  proof -
    have "\<exists>r. find_generation_row (gd_generations db') (dr_generation_id d) = Some r \<and> evidence_fits d r"
      if in_d: "d \<in> set (gd_death_evidence db)" for d
    proof -
      have "evidence_linked db" using inv by (simp add: generation_inv_def)
      then obtain r where "find_generation_row (gd_generations db) (dr_generation_id d) = Some r" "evidence_fits d r"
        using evidence_linked_row in_d by blast
      then show ?thesis unfolding find' using columns(3) [of d r] by simp
    qed
    moreover have "\<forall>r \<in> set (gd_generations db'). gr_death_evidence_id r \<noteq> None \<longrightarrow>
        gr_generation_id r \<in> dr_generation_id ` set (gd_death_evidence db)"
    proof
      fix r
      assume "r \<in> set (gd_generations db')"
      then obtain q where "q \<in> set (gd_generations db)" "r = ?f q"
        by (auto simp: db' set_update_rows)
      then show "gr_death_evidence_id r \<noteq> None \<longrightarrow> gr_generation_id r \<in> dr_generation_id ` set (gd_death_evidence db)"
        using inv columns(1,2) [of q] by (simp add: generation_inv_def evidence_linked_def)
    qed
    ultimately show ?thesis
      using inv by (simp add: generation_inv_def evidence_linked_def db')
  qed
  then show "generation_inv db'"
    using inv sound lost_keys_unique
    by (auto simp: generation_inv_def db' set_update_rows)
qed

section \<open>Runs\<close>

text \<open>
  One committed transaction: of this writer, or of another writer of the database, which
  leaves the generations and their evidence alone (\<^verbatim>\<open>process_generations.rs\<close> is their only
  writer).
\<close>

inductive transaction :: "generation_db \<Rightarrow> generation_db \<Rightarrow> bool" where
  prepare: "valid_intent intent \<Longrightarrow> valid_binding binding \<Longrightarrow>
    prepare_bound_generation epoch_clock clock intent binding session key db = Inr (out, db') \<Longrightarrow>
    transaction db db'"
| command: "valid_command c \<Longrightarrow> run_command clock c db = Inr (outcome, db') \<Longrightarrow> transaction db db'"
| supervisor: "project_process_generations_after_supervisor_loss clock db = Inr (n, db') \<Longrightarrow> transaction db db'"
| other_writer: "gd_generations db' = gd_generations db \<Longrightarrow>
    gd_death_evidence db' = gd_death_evidence db \<Longrightarrow> transaction db db'"

lemma other_table: "gd_generations db' = gd_generations db \<Longrightarrow> generation_table db' = generation_table db"
  by (simp add: generation_table_def fun_eq_iff)

lemma command_other:
  assumes "generation_inv db" "run_command clock c db = Inr (out, db')" "\<nexists>m. out = Applied m"
  shows "db' = db"
  using assms(2,3)
  by (cases c)
    (auto simp: bind_process_generation_identity_def read_required_generation_table [OF assms(1)]
      mark_process_generation_ready_def mark_process_generation_stopping_def transition_generation_def
      mark_process_generation_death_unknown_def record_process_generation_death_def
      mutate_generation_table [OF assms(1)] and_then_Ok_iff rejected_def Let_def
      split: if_splits option.splits)

lemma transaction_step:
  assumes "transaction db db'" "generation_inv db"
  shows "generation_inv db' \<and> table_step\<^sup>*\<^sup>* (generation_table db) (generation_table db')"
  using assms
proof (induction rule: transaction.induct)
  case (prepare intent binding epoch_clock clock session key db out db')
  show ?case
  proof (cases "\<exists>fence. out = Fresh fence")
    case False
    then show ?thesis using prepare_other prepare by (metis rtranclp.rtrancl_refl)
  next
    case True
    then obtain fence where "prepare_bound_generation epoch_clock clock intent binding session key db = Inr (Fresh fence, db')"
      using prepare.hyps(3) by blast
    moreover from this obtain now where "admitted epoch_clock clock intent binding session key db now"
      using prepare_fresh_db [OF prepare.prems prepare.hyps(1,2)] by blast
    ultimately show ?thesis
      using prepared_effect [OF prepare.prems prepare.hyps(1,2)] table_step.admit
      unfolding admitted_def by (metis r_into_rtranclp)
  qed
next
  case (command c clock db outcome db')
  show ?case
  proof (cases "\<exists>m. outcome = Applied m")
    case False
    then show ?thesis using command_other command by (metis rtranclp.rtrancl_refl)
  next
    case True
    then obtain now g g' where a: "applies clock db c now g g'" and db': "db' = applied_db db now c"
      using command.hyps(2) command_applied [OF command.prems command.hyps(1)] by blast
    from a have "generation_table db (generation_id_text (command_generation c)) = Some g"
      "generation_step now c g g'" by (auto simp: applies_def target_generation_def)
    then have "table_step (generation_table db) (generation_table db')"
      unfolding db' applied_command(1) [OF command.prems a command.hyps(1)] by (rule table_step.command)
    then show ?thesis
      using applied_command(2) [OF command.prems a command.hyps(1)] db' by blast
  qed
next
  case (supervisor clock db n db')
  obtain now where "generation_table db' = (\<lambda>k. map_option (supervisor_lost now) (generation_table db k))"
    using projected_effect(1) [OF supervisor.prems supervisor.hyps] by blast
  then have "table_step (generation_table db) (generation_table db')"
    by (simp add: table_step.supervisor)
  then show ?case using projected_effect(2) [OF supervisor.prems supervisor.hyps] by blast
next
  case (other_writer db' db)
  have "generation_table db' = generation_table db"
    using other_writer.hyps(1) by (rule other_table)
  moreover have "generation_inv db'"
    using other_writer.prems unfolding generation_inv_def evidence_linked_def other_writer.hyps .
  ultimately show ?case by simp
qed

lemma transactions_step:
  "transaction\<^sup>*\<^sup>* db db' \<Longrightarrow> generation_inv db \<Longrightarrow>
     generation_inv db' \<and> table_step\<^sup>*\<^sup>* (generation_table db) (generation_table db')"
proof (induction rule: rtranclp_induct)
  case (step u v)
  then show ?case using transaction_step by (meson rtranclp_trans)
qed simp

end
