(* ===== verification/Provider_Attempt.thy ===== *)
theory Provider_Attempt
  imports Process_Generation Context_Data
begin

text \<open>
  The values of one external provider turn attempt, \<^verbatim>\<open>provider_attempt.rs\<close>: identities and
  request keys, the preparation, the closed labels of states, reasons, sources and
  outcomes, and the shapes of positive evidence.
\<close>

section \<open>Identities and keys\<close>

datatype provider_attempt_error =
    InvalidAttemptId
  | InvalidEvidenceId
  | InvalidRequestId
  | InvalidContinuationPlanId
  | InvalidRequestDigest
  | MissingProviderKey
  | InvalidProviderKey
  | InvalidAcknowledgement
  | InvalidPositiveEvidence

datatype provider_attempt_id = ProviderAttemptId (attempt_id_text: string)
datatype provider_evidence_id = ProviderEvidenceId (evidence_id_text: string)
datatype provider_request_id = ProviderRequestId (request_id_text: string)

text \<open>The body of the macro \<^verbatim>\<open>provider_uuid_v4!\<close>, and its three uses.\<close>

definition provider_uuid_new ::
    "(string \<Rightarrow> 'a) \<Rightarrow> provider_attempt_error \<Rightarrow> string \<Rightarrow> provider_attempt_error + 'a" where
  "provider_uuid_new wrap error value =
     (if \<not> is_canonical_uuid_v4 value then Inl error else Inr (wrap value))"

definition provider_attempt_id_new :: "string \<Rightarrow> provider_attempt_error + provider_attempt_id" where
  "provider_attempt_id_new = provider_uuid_new ProviderAttemptId InvalidAttemptId"

definition provider_evidence_id_new :: "string \<Rightarrow> provider_attempt_error + provider_evidence_id" where
  "provider_evidence_id_new = provider_uuid_new ProviderEvidenceId InvalidEvidenceId"

definition provider_request_id_new :: "string \<Rightarrow> provider_attempt_error + provider_request_id" where
  "provider_request_id_new = provider_uuid_new ProviderRequestId InvalidRequestId"

interpretation provider_attempt_id: validated_text is_canonical_uuid_v4 provider_attempt_id_new
    attempt_id_text InvalidAttemptId
  by unfold_locales (auto simp: provider_attempt_id_new_def provider_uuid_new_def provider_attempt_id.expand)

interpretation provider_evidence_id: validated_text is_canonical_uuid_v4 provider_evidence_id_new
    evidence_id_text InvalidEvidenceId
  by unfold_locales (auto simp: provider_evidence_id_new_def provider_uuid_new_def provider_evidence_id.expand)

interpretation provider_request_id: validated_text is_canonical_uuid_v4 provider_request_id_new
    request_id_text InvalidRequestId
  by unfold_locales (auto simp: provider_request_id_new_def provider_uuid_new_def provider_request_id.expand)

interpretation turn_id: validated_text is_canonical_uuid turn_id_new
    turn_id_text "InvalidIdentity ''turn''"
  by unfold_locales (auto simp: turn_id_new_def domain_id_new_def turn_id.expand)

interpretation runtime_session_id: validated_text is_canonical_uuid runtime_session_id_new
    runtime_session_id_text "InvalidIdentity ''runtime session''"
  by unfold_locales (auto simp: runtime_session_id_new_def domain_id_new_def runtime_session_id.expand)

definition max_provider_request_key_bytes :: usize where "max_provider_request_key_bytes = 512"
definition max_provider_evidence_identity_bytes :: usize where
  "max_provider_evidence_identity_bytes = 512"

datatype provider_request_key = ProviderRequestKey (request_key_text: string)

definition provider_request_key_new :: "string \<Rightarrow> provider_attempt_error + provider_request_key" where
  "provider_request_key_new value =
     (if \<not> is_bounded_provider_identity value max_provider_request_key_bytes
      then Inl InvalidProviderKey else Inr (ProviderRequestKey value))"

interpretation provider_request_key: validated_text
    "\<lambda>s. is_bounded_provider_identity s max_provider_request_key_bytes" provider_request_key_new
    request_key_text InvalidProviderKey
  by unfold_locales (auto simp: provider_request_key_new_def provider_request_key.expand)

record provider_request_keys =
  pk_idempotency :: "provider_request_key option"
  pk_correlation :: "provider_request_key option"

definition provider_request_keys_new ::
    "provider_request_key option \<Rightarrow> provider_request_key option \<Rightarrow>
     provider_attempt_error + provider_request_keys" where
  "provider_request_keys_new idempotency correlation =
     (if idempotency = None \<and> correlation = None then Inl MissingProviderKey
      else Inr \<lparr>pk_idempotency = idempotency, pk_correlation = correlation\<rparr>)"

definition keys_contain :: "provider_request_keys \<Rightarrow> provider_request_key \<Rightarrow> bool" where
  "keys_contain keys key \<longleftrightarrow> pk_idempotency keys = Some key \<or> pk_correlation keys = Some key"

section \<open>Preparation\<close>

datatype provider_attempt_consumer =
    ConversationTurn (consumer_conversation: conversation_id) (consumer_turn: turn_id)

fun consumer_as_sql :: "provider_attempt_consumer \<Rightarrow> string" where
  "consumer_as_sql (ConversationTurn _ _) = ''conversation_turn''"

datatype provider_duplicate_risk =
    OriginalIntent
  | AcknowledgedSuccessor provider_attempt_id string

record provider_attempt_preparation =
  pp_attempt_id :: provider_attempt_id
  pp_consumer :: provider_attempt_consumer
  pp_continuation_plan_id :: string
  pp_request_id :: provider_request_id
  pp_request_digest :: string
  pp_provider_keys :: provider_request_keys
  pp_duplicate_risk :: provider_duplicate_risk

definition preparation_validate :: "provider_attempt_preparation \<Rightarrow> provider_attempt_error + unit" where
  "preparation_validate p =
     (if \<not> is_canonical_uuid (pp_continuation_plan_id p) then Inl InvalidContinuationPlanId
      else if \<not> is_sha256 (pp_request_digest p) then Inl InvalidRequestDigest
      else if (case pp_duplicate_risk p of
                 AcknowledgedSuccessor _ acknowledgement_digest \<Rightarrow> \<not> is_sha256 acknowledgement_digest
               | OriginalIntent \<Rightarrow> False)
      then Inl InvalidAcknowledgement
      else Inr ())"

definition provider_attempt_preparation_new ::
    "provider_attempt_id \<Rightarrow> provider_attempt_consumer \<Rightarrow> string \<Rightarrow> provider_request_id \<Rightarrow> string \<Rightarrow>
     provider_request_keys \<Rightarrow> provider_duplicate_risk \<Rightarrow>
     provider_attempt_error + provider_attempt_preparation" where
  "provider_attempt_preparation_new attempt consumer plan request request_digest keys risk =
     (let preparation = \<lparr>pp_attempt_id = attempt, pp_consumer = consumer, pp_continuation_plan_id = plan,
            pp_request_id = request, pp_request_digest = request_digest, pp_provider_keys = keys,
            pp_duplicate_risk = risk\<rparr>
      in and_then (preparation_validate preparation) (\<lambda>_. Inr preparation))"

section \<open>Closed labels\<close>

datatype provider_attempt_state =
    Prepared | Canceled | DispatchAuthorized | Succeeded | FailedDefinitive | NotSubmitted | AttemptUnknown

fun attempt_state_as_sql :: "provider_attempt_state \<Rightarrow> string" where
  "attempt_state_as_sql Prepared = ''prepared''"
| "attempt_state_as_sql Canceled = ''canceled''"
| "attempt_state_as_sql DispatchAuthorized = ''dispatch_authorized''"
| "attempt_state_as_sql Succeeded = ''succeeded''"
| "attempt_state_as_sql FailedDefinitive = ''failed_definitive''"
| "attempt_state_as_sql NotSubmitted = ''not_submitted''"
| "attempt_state_as_sql AttemptUnknown = ''unknown''"

definition attempt_is_terminal :: "provider_attempt_state \<Rightarrow> bool" where
  "attempt_is_terminal state \<longleftrightarrow> state \<in> set [Canceled, Succeeded, FailedDefinitive, NotSubmitted]"

datatype provider_attempt_unknown_reason =
    SupervisionLost | DispatchOutcomeUnavailable | RestoreProjection

fun unknown_reason_as_sql :: "provider_attempt_unknown_reason \<Rightarrow> string" where
  "unknown_reason_as_sql SupervisionLost = ''supervision_lost''"
| "unknown_reason_as_sql DispatchOutcomeUnavailable = ''dispatch_outcome_unavailable''"
| "unknown_reason_as_sql RestoreProjection = ''restore_projection''"

datatype provider_evidence_source =
    ProviderReceipt
  | PositiveIdempotencyLookup
  | ExactTurnReadback
  | ExactThreadReadback
  | PositiveNonSubmissionReceipt

fun evidence_source_as_sql :: "provider_evidence_source \<Rightarrow> string" where
  "evidence_source_as_sql ProviderReceipt = ''provider_receipt''"
| "evidence_source_as_sql PositiveIdempotencyLookup = ''positive_idempotency_lookup''"
| "evidence_source_as_sql ExactTurnReadback = ''exact_turn_readback''"
| "evidence_source_as_sql ExactThreadReadback = ''exact_thread_readback''"
| "evidence_source_as_sql PositiveNonSubmissionReceipt = ''positive_non_submission_receipt''"

datatype provider_terminal_outcome = OutcomeSucceeded | OutcomeFailedDefinitive | OutcomeNotSubmitted

fun outcome_as_sql :: "provider_terminal_outcome \<Rightarrow> string" where
  "outcome_as_sql OutcomeSucceeded = ''succeeded''"
| "outcome_as_sql OutcomeFailedDefinitive = ''failed_definitive''"
| "outcome_as_sql OutcomeNotSubmitted = ''not_submitted''"

fun outcome_state :: "provider_terminal_outcome \<Rightarrow> provider_attempt_state" where
  "outcome_state OutcomeSucceeded = Succeeded"
| "outcome_state OutcomeFailedDefinitive = FailedDefinitive"
| "outcome_state OutcomeNotSubmitted = NotSubmitted"

section \<open>Positive evidence\<close>

record provider_positive_evidence =
  pe_evidence_id :: provider_evidence_id
  pe_attempt_id :: provider_attempt_id
  pe_request_id :: provider_request_id
  pe_source :: provider_evidence_source
  pe_outcome :: provider_terminal_outcome
  pe_provider_key :: provider_request_key
  pe_provider_receipt_id :: "string option"
  pe_provider_thread_id :: "string option"
  pe_provider_turn_id :: "string option"
  pe_witness_digest :: string

text \<open>The \<^verbatim>\<open>match\<close> on the source: which outcome and which identities it may carry.\<close>

definition evidence_valid_shape :: "provider_positive_evidence \<Rightarrow> bool" where
  "evidence_valid_shape e \<longleftrightarrow>
     (case pe_source e of
        ProviderReceipt \<Rightarrow> pe_outcome e \<noteq> OutcomeNotSubmitted \<and> pe_provider_receipt_id e \<noteq> None
      | PositiveIdempotencyLookup \<Rightarrow> True
      | ExactTurnReadback \<Rightarrow> pe_outcome e \<noteq> OutcomeNotSubmitted \<and> pe_provider_receipt_id e = None \<and>
          pe_provider_thread_id e = None \<and> pe_provider_turn_id e \<noteq> None
      | ExactThreadReadback \<Rightarrow> pe_outcome e \<noteq> OutcomeNotSubmitted \<and> pe_provider_receipt_id e = None \<and>
          pe_provider_thread_id e \<noteq> None \<and> pe_provider_turn_id e \<noteq> None
      | PositiveNonSubmissionReceipt \<Rightarrow> pe_outcome e = OutcomeNotSubmitted \<and>
          pe_provider_receipt_id e \<noteq> None \<and> pe_provider_turn_id e = None)"

definition positive_evidence_validate :: "provider_positive_evidence \<Rightarrow> provider_attempt_error + unit" where
  "positive_evidence_validate e =
     (if \<not> is_sha256 (pe_witness_digest e)
         \<or> list_ex (\<lambda>value. \<not> is_bounded_provider_identity value max_provider_evidence_identity_bytes)
             (List.map_filter id [pe_provider_receipt_id e, pe_provider_thread_id e, pe_provider_turn_id e])
      then Inl InvalidPositiveEvidence
      else if \<not> evidence_valid_shape e then Inl InvalidPositiveEvidence
      else Inr ())"

definition provider_positive_evidence_new ::
    "provider_evidence_id \<Rightarrow> provider_attempt_id \<Rightarrow> provider_request_id \<Rightarrow> provider_evidence_source \<Rightarrow>
     provider_terminal_outcome \<Rightarrow> provider_request_key \<Rightarrow> string option \<Rightarrow> string option \<Rightarrow> string option \<Rightarrow>
     string \<Rightarrow> provider_attempt_error + provider_positive_evidence" where
  "provider_positive_evidence_new evidence attempt request source outcome key receipt thread turn witness =
     (let e = \<lparr>pe_evidence_id = evidence, pe_attempt_id = attempt, pe_request_id = request,
            pe_source = source, pe_outcome = outcome, pe_provider_key = key,
            pe_provider_receipt_id = receipt, pe_provider_thread_id = thread,
            pe_provider_turn_id = turn, pe_witness_digest = witness\<rparr>
      in and_then (positive_evidence_validate e) (\<lambda>_. Inr e))"

section \<open>The attempt\<close>

record provider_attempt =
  pa_attempt_id :: provider_attempt_id
  pa_consumer :: provider_attempt_consumer
  pa_continuation_plan_id :: string
  pa_routing_decision_id :: string
  pa_runtime_session_id :: runtime_session_id
  pa_runtime_session_revision :: i64
  pa_account_id :: account_id
  pa_process_generation_id :: process_generation_id
  pa_process_generation_revision :: i64
  pa_process_execution_epoch_id :: process_execution_epoch_id
  pa_request_id :: provider_request_id
  pa_request_digest :: string
  pa_provider_keys :: provider_request_keys
  pa_duplicate_risk :: provider_duplicate_risk
  pa_state :: provider_attempt_state
  pa_unknown_reason :: "provider_attempt_unknown_reason option"
  pa_terminal_evidence_id :: "provider_evidence_id option"
  pa_revision :: i64
  pa_created_at_micros :: i64
  pa_updated_at_micros :: i64

section \<open>Lemmas\<close>

lemma attempt_is_terminal_iff [simp]:
  "attempt_is_terminal s \<longleftrightarrow> s \<notin> {Prepared, DispatchAuthorized, AttemptUnknown}"
  by (cases s) (simp_all add: attempt_is_terminal_def)

lemma outcome_state_terminal [simp]: "attempt_is_terminal (outcome_state o')"
  by (cases o') (simp_all add: attempt_is_terminal_def)

lemma outcome_label: "outcome_as_sql o' = attempt_state_as_sql (outcome_state o')"
  by (cases o') simp_all

lemma preparation_validate_Ok_iff:
  "preparation_validate p = Inr () \<longleftrightarrow> is_canonical_uuid (pp_continuation_plan_id p) \<and>
     is_sha256 (pp_request_digest p) \<and>
     (\<forall>a d. pp_duplicate_risk p = AcknowledgedSuccessor a d \<longrightarrow> is_sha256 d)"
  by (auto simp: preparation_validate_def split: provider_duplicate_risk.splits)

lemma positive_evidence_validate_Ok_iff:
  "positive_evidence_validate e = Inr () \<longleftrightarrow> is_sha256 (pe_witness_digest e) \<and> evidence_valid_shape e \<and>
     (\<forall>v \<in> {pe_provider_receipt_id e, pe_provider_thread_id e, pe_provider_turn_id e}.
        pred_option (\<lambda>s. is_bounded_provider_identity s max_provider_evidence_identity_bytes) v)"
  by (cases "pe_provider_receipt_id e"; cases "pe_provider_thread_id e"; cases "pe_provider_turn_id e")
    (auto simp: positive_evidence_validate_def List.map_filter_def)

text \<open>
  Evidence cannot claim what its mechanism does not show. Validated evidence of
  non-submission comes from a non-submission receipt or an idempotency lookup; a
  non-submission receipt claims nothing else; and a turn or thread readback names the turn.
\<close>

theorem evidence_shape_sound:
  assumes "provider_positive_evidence_new evidence attempt request source outcome key receipt thread turn witness = Inr e"
  shows "pe_source e = source \<and> pe_outcome e = outcome \<and> is_sha256 (pe_witness_digest e) \<and>
    (outcome = OutcomeNotSubmitted \<longrightarrow> source \<in> {PositiveNonSubmissionReceipt, PositiveIdempotencyLookup}) \<and>
    (source = PositiveNonSubmissionReceipt \<longrightarrow> outcome = OutcomeNotSubmitted \<and> turn = None) \<and>
    (source \<in> {ExactTurnReadback, ExactThreadReadback} \<longrightarrow> turn \<noteq> None) \<and>
    (source \<in> {ProviderReceipt, PositiveNonSubmissionReceipt} \<longrightarrow> receipt \<noteq> None)"
  using assms
  by (cases source)
    (auto simp: provider_positive_evidence_new_def Let_def and_then_Ok_iff positive_evidence_validate_Ok_iff
      evidence_valid_shape_def)

theorem evidence_shape_sound_witness:
  "\<exists>e. provider_positive_evidence_new (ProviderEvidenceId []) (ProviderAttemptId []) (ProviderRequestId [])
      ExactTurnReadback OutcomeSucceeded (ProviderRequestKey []) None None (Some ''turn'')
      (replicate 64 CHR ''0'') = Inr e \<and> pe_source e = ExactTurnReadback"
proof -
  have "\<exists>e. provider_positive_evidence_new (ProviderEvidenceId []) (ProviderAttemptId []) (ProviderRequestId [])
      ExactTurnReadback OutcomeSucceeded (ProviderRequestKey []) None None (Some ''turn'')
      (replicate 64 CHR ''0'') = Inr e"
    by (simp add: provider_positive_evidence_new_def Let_def and_then_Ok_iff positive_evidence_validate_Ok_iff
        evidence_valid_shape_def is_sha256_def is_ascii_digit_def list_all_iff is_bounded_provider_identity_def
        max_provider_evidence_identity_bytes_def)
  then show ?thesis using evidence_shape_sound by blast
qed

end
