(* ===== verification/Attempt_Store.thy ===== *)
theory Attempt_Store
  imports Generation_Ops Provider_Attempt
begin

text \<open>
  The tables behind \<^verbatim>\<open>database/src/provider_attempts.rs\<close>: the rows of attempts and of their
  positive evidence with the constraints of \<^verbatim>\<open>schema.sql\<close>, the columns of other tables
  that the writer reads or changes, the statements, and the parser of a row. The process
  generations are the tables of \<open>generation_db\<close>.
\<close>

section \<open>Rows\<close>

record attempt_row =
  ar_attempt_id :: string
  ar_conversation_id :: string
  ar_turn_id :: string
  ar_continuation_plan_id :: string
  ar_routing_decision_id :: string
  ar_runtime_session_id :: string
  ar_runtime_session_revision :: i64
  ar_account_id :: string
  ar_process_generation_id :: string
  ar_process_generation_revision :: i64
  ar_execution_epoch_id :: string
  ar_request_id :: string
  ar_request_sha256 :: string
  ar_provider_idempotency_key :: "string option"
  ar_provider_correlation_key :: "string option"
  ar_predecessor_attempt_id :: "string option"
  ar_duplicate_risk_ack_sha256 :: "string option"
  ar_state :: string
  ar_unknown_reason :: "string option"
  ar_terminal_evidence_id :: "string option"
  ar_revision :: i64
  ar_created_at_micros :: i64
  ar_updated_at_micros :: i64

record positive_evidence_row =
  pv_evidence_id :: string
  pv_attempt_id :: string
  pv_request_id :: string
  pv_source :: string
  pv_outcome :: string
  pv_provider_key :: string
  pv_provider_receipt_id :: "string option"
  pv_provider_thread_id :: "string option"
  pv_provider_turn_id :: "string option"
  pv_witness_sha256 :: string
  pv_observed_at_micros :: i64

text \<open>The columns of the conversation tables that the writer reads or changes.\<close>

record turn_row =
  tr_turn_id :: string
  tr_conversation_id :: string
  tr_runtime_session_id :: "string option"
  tr_role :: string
  tr_status :: string
  tr_revision :: i64
  tr_created_at_micros :: i64
  tr_updated_at_micros :: i64
  tr_completed_at_micros :: "i64 option"

record conversation_row =
  cv_conversation_id :: string
  cv_state :: string
  cv_revision :: i64
  cv_created_at_micros :: i64
  cv_updated_at_micros :: i64

record session_row =
  sr_runtime_session_id :: string
  sr_conversation_id :: string
  sr_codex_thread_id :: "string option"
  sr_thread_start_binding_key :: "string option"
  sr_state :: string
  sr_revision :: i64

record plan_row =
  pl_continuation_plan_id :: string
  pl_conversation_id :: string
  pl_turn_id :: string
  pl_routing_decision_id :: string
  pl_source_runtime_session_id :: string
  pl_source_runtime_session_revision :: i64
  pl_selected_account_id :: string
  pl_runtime_session_id :: "string option"
  pl_kind :: string

record history_row =
  hr_history_item_id :: string
  hr_conversation_id :: string
  hr_turn_id :: string
  hr_sequence :: i64
  hr_kind :: string
  hr_role :: "string option"
  hr_status :: string
  hr_media_type :: string
  hr_inline_text :: "string option"
  hr_metadata_json :: string
  hr_revision :: i64
  hr_created_at_micros :: i64
  hr_updated_at_micros :: i64

record attempt_db =
  ad_attempts :: "attempt_row list"
  ad_evidence :: "positive_evidence_row list"
  ad_turns :: "turn_row list"
  ad_conversations :: "conversation_row list"
  ad_sessions :: "session_row list"
  ad_plans :: "plan_row list"
  ad_decisions :: "string list"
  ad_history :: "history_row list"
  ad_processes :: generation_db

section \<open>Constraints of the schema\<close>

definition attempt_row_checks :: "attempt_row \<Rightarrow> bool" where
  "attempt_row_checks r \<longleftrightarrow>
     sql_length (ar_attempt_id r) = 36 \<and>
     ar_runtime_session_revision r > 0 \<and>
     ar_process_generation_revision r > 0 \<and>
     sql_length (ar_request_id r) = 36 \<and>
     sql_length (ar_request_sha256 r) = 64 \<and>
     null_or (\<lambda>d. sql_length d = 64) (ar_duplicate_risk_ack_sha256 r) \<and>
     ar_state r \<in> set [''prepared'', ''canceled'', ''dispatch_authorized'', ''succeeded'',
       ''failed_definitive'', ''not_submitted'', ''unknown''] \<and>
     null_or (\<lambda>u. u \<in> set [''supervision_lost'', ''dispatch_outcome_unavailable'', ''restore_projection''])
       (ar_unknown_reason r) \<and>
     ar_revision r > 0 \<and>
     ar_created_at_micros r > 0 \<and>
     ar_updated_at_micros r \<ge> ar_created_at_micros r \<and>
     (ar_provider_idempotency_key r \<noteq> None \<or> ar_provider_correlation_key r \<noteq> None) \<and>
     (ar_state r = ''unknown'' \<longleftrightarrow> ar_unknown_reason r \<noteq> None) \<and>
     (ar_state r \<in> set [''succeeded'', ''failed_definitive'', ''not_submitted''] \<longleftrightarrow>
        ar_terminal_evidence_id r \<noteq> None)"

definition positive_evidence_checks :: "positive_evidence_row \<Rightarrow> bool" where
  "positive_evidence_checks r \<longleftrightarrow>
     sql_length (pv_evidence_id r) = 36 \<and>
     sql_length (pv_request_id r) = 36 \<and>
     pv_source r \<in> set [''provider_receipt'', ''positive_idempotency_lookup'', ''exact_turn_readback'',
       ''exact_thread_readback'', ''positive_non_submission_receipt''] \<and>
     pv_outcome r \<in> set [''succeeded'', ''failed_definitive'', ''not_submitted''] \<and>
     1 \<le> length (pv_provider_key r) \<and> length (pv_provider_key r) \<le> 512 \<and>
     sql_length (pv_witness_sha256 r) = 64 \<and>
     pv_observed_at_micros r > 0"

text \<open>
  The keys: the primary key, the unique request, and the partial unique index
  \<^verbatim>\<open>one_nonterminal_provider_attempt_per_turn\<close>.
\<close>

definition open_turns :: "attempt_row list \<Rightarrow> string list" where
  "open_turns t = map ar_turn_id
     (filter (\<lambda>r. ar_state r \<in> set [''prepared'', ''dispatch_authorized'', ''unknown'']) t)"

definition attempt_keys_unique :: "attempt_row list \<Rightarrow> bool" where
  "attempt_keys_unique t \<longleftrightarrow> distinct (map ar_attempt_id t) \<and> distinct (map ar_request_id t) \<and>
     distinct (open_turns t)"

section \<open>Statements\<close>

definition insert_attempt :: "attempt_db \<Rightarrow> attempt_row \<Rightarrow> store_error + attempt_db" where
  "insert_attempt db r =
     (if attempt_row_checks r
         \<and> attempt_keys_unique (ad_attempts db @ [r])
         \<and> ar_conversation_id r \<in> cv_conversation_id ` set (ad_conversations db)
         \<and> ar_turn_id r \<in> tr_turn_id ` set (ad_turns db)
         \<and> ar_continuation_plan_id r \<in> pl_continuation_plan_id ` set (ad_plans db)
         \<and> ar_routing_decision_id r \<in> set (ad_decisions db)
         \<and> ar_runtime_session_id r \<in> sr_runtime_session_id ` set (ad_sessions db)
         \<and> ar_account_id r \<in> acr_account_id ` set (gd_accounts (ad_processes db))
         \<and> ar_process_generation_id r \<in> gr_generation_id ` set (gd_generations (ad_processes db))
         \<and> ar_execution_epoch_id r \<in> er_execution_epoch_id ` set (gd_epochs (ad_processes db))
         \<and> null_or (\<lambda>p. p \<in> ar_attempt_id ` set (ad_attempts db @ [r])) (ar_predecessor_attempt_id r)
      then Inr (db\<lparr>ad_attempts := ad_attempts db @ [r]\<rparr>)
      else Inl sql_error)"

definition update_attempts ::
    "attempt_db \<Rightarrow> (attempt_row \<Rightarrow> bool) \<Rightarrow> (attempt_row \<Rightarrow> attempt_row) \<Rightarrow> store_error + attempt_db" where
  "update_attempts db p f =
     (let t' = update_rows p f (ad_attempts db) in
      if list_all (\<lambda>r. p r \<longrightarrow> attempt_row_checks (f r)) (ad_attempts db) \<and> attempt_keys_unique t'
      then Inr (db\<lparr>ad_attempts := t'\<rparr>)
      else Inl sql_error)"

definition insert_positive_evidence ::
    "attempt_db \<Rightarrow> positive_evidence_row \<Rightarrow> store_error + attempt_db" where
  "insert_positive_evidence db r =
     (if positive_evidence_checks r
         \<and> pv_evidence_id r \<notin> pv_evidence_id ` set (ad_evidence db)
         \<and> pv_attempt_id r \<notin> pv_attempt_id ` set (ad_evidence db)
         \<and> pv_attempt_id r \<in> ar_attempt_id ` set (ad_attempts db)
      then Inr (db\<lparr>ad_evidence := ad_evidence db @ [r]\<rparr>)
      else Inl sql_error)"

definition by_attempt :: "provider_attempt_id \<Rightarrow> attempt_row \<Rightarrow> bool" where
  "by_attempt k r \<longleftrightarrow> ar_attempt_id r = attempt_id_text k"

text \<open>The order of text columns in SQLite: by bytes.\<close>

fun text_less :: "string \<Rightarrow> string \<Rightarrow> bool" where
  "text_less [] [] = False"
| "text_less [] (_ # _) = True"
| "text_less (_ # _) [] = False"
| "text_less (a # s) (b # t) = (code a < code b \<or> a = b \<and> text_less s t)"

section \<open>Reading rows\<close>

definition parse_attempt_state :: "string \<Rightarrow> store_error + provider_attempt_state" where
  "parse_attempt_state value =
     (if value = ''prepared'' then Inr Prepared
      else if value = ''canceled'' then Inr Canceled
      else if value = ''dispatch_authorized'' then Inr DispatchAuthorized
      else if value = ''succeeded'' then Inr Succeeded
      else if value = ''failed_definitive'' then Inr FailedDefinitive
      else if value = ''not_submitted'' then Inr NotSubmitted
      else if value = ''unknown'' then Inr AttemptUnknown
      else Inl (incompatible ''attempt state''))"

definition parse_unknown :: "string \<Rightarrow> store_error + provider_attempt_unknown_reason" where
  "parse_unknown value =
     (if value = ''supervision_lost'' then Inr SupervisionLost
      else if value = ''dispatch_outcome_unavailable'' then Inr DispatchOutcomeUnavailable
      else if value = ''restore_projection'' then Inr RestoreProjection
      else Inl (incompatible ''attempt unknown reason''))"

definition parse_duplicate_risk ::
    "string option \<Rightarrow> string option \<Rightarrow> store_error + provider_duplicate_risk" where
  "parse_duplicate_risk predecessor acknowledgement =
     (case (predecessor, acknowledgement) of
        (None, None) \<Rightarrow> Inr OriginalIntent
      | (Some predecessor, Some acknowledgement_digest) \<Rightarrow>
          and_then (or_incompatible ''predecessor attempt'' (provider_attempt_id_new predecessor)) (\<lambda>p.
          Inr (AcknowledgedSuccessor p acknowledgement_digest))
      | _ \<Rightarrow> Inl (incompatible ''duplicate-risk shape''))"

definition parse_attempt_row :: "attempt_row \<Rightarrow> store_error + provider_attempt" where
  "parse_attempt_row row =
     and_then (transpose_map (\<lambda>k. or_incompatible ''provider idempotency key'' (provider_request_key_new k))
         (ar_provider_idempotency_key row)) (\<lambda>idempotency.
     and_then (transpose_map (\<lambda>k. or_incompatible ''provider correlation key'' (provider_request_key_new k))
         (ar_provider_correlation_key row)) (\<lambda>correlation.
     and_then (or_incompatible ''provider keys'' (provider_request_keys_new idempotency correlation)) (\<lambda>keys.
     and_then (parse_duplicate_risk (ar_predecessor_attempt_id row) (ar_duplicate_risk_ack_sha256 row)) (\<lambda>risk.
     and_then (or_incompatible ''attempt id'' (provider_attempt_id_new (ar_attempt_id row))) (\<lambda>attempt.
     and_then (or_incompatible ''Conversation'' (conversation_id_new (ar_conversation_id row))) (\<lambda>conversation.
     and_then (or_incompatible ''Turn'' (turn_id_new (ar_turn_id row))) (\<lambda>turn.
     and_then (or_incompatible ''RuntimeSession'' (runtime_session_id_new (ar_runtime_session_id row))) (\<lambda>session.
     and_then (or_incompatible ''account'' (account_id_new (ar_account_id row))) (\<lambda>account.
     and_then (or_incompatible ''ProcessGeneration'' (process_generation_id_new (ar_process_generation_id row))) (\<lambda>generation.
     and_then (or_incompatible ''execution epoch'' (process_execution_epoch_id_new (ar_execution_epoch_id row))) (\<lambda>epoch.
     and_then (or_incompatible ''request id'' (provider_request_id_new (ar_request_id row))) (\<lambda>request.
     and_then (parse_attempt_state (ar_state row)) (\<lambda>state.
     and_then (transpose_map parse_unknown (ar_unknown_reason row)) (\<lambda>reason.
     and_then (transpose_map (\<lambda>e. or_incompatible ''terminal evidence'' (provider_evidence_id_new e))
         (ar_terminal_evidence_id row)) (\<lambda>evidence.
       Inr \<lparr>pa_attempt_id = attempt, pa_consumer = ConversationTurn conversation turn,
            pa_continuation_plan_id = ar_continuation_plan_id row,
            pa_routing_decision_id = ar_routing_decision_id row,
            pa_runtime_session_id = session, pa_runtime_session_revision = ar_runtime_session_revision row,
            pa_account_id = account, pa_process_generation_id = generation,
            pa_process_generation_revision = ar_process_generation_revision row,
            pa_process_execution_epoch_id = epoch, pa_request_id = request,
            pa_request_digest = ar_request_sha256 row, pa_provider_keys = keys, pa_duplicate_risk = risk,
            pa_state = state, pa_unknown_reason = reason, pa_terminal_evidence_id = evidence,
            pa_revision = ar_revision row, pa_created_at_micros = ar_created_at_micros row,
            pa_updated_at_micros = ar_updated_at_micros row\<rparr>)))))))))))))))"

definition find_attempt_row :: "attempt_row list \<Rightarrow> string \<Rightarrow> attempt_row option" where
  "find_attempt_row = find_row ar_attempt_id"

definition read_attempt :: "attempt_db \<Rightarrow> string \<Rightarrow> store_error + provider_attempt option" where
  "read_attempt db k = transpose_map parse_attempt_row (find_attempt_row (ad_attempts db) k)"

interpretation attempt_state_label: label_codec attempt_state_as_sql "\<lambda>s. ok_opt (parse_attempt_state s)"
proof
  show "ok_opt (parse_attempt_state (attempt_state_as_sql b)) = Some b" for b
    by (cases b) (simp_all add: parse_attempt_state_def)
  show "ok_opt (parse_attempt_state s) = Some b \<Longrightarrow> s = attempt_state_as_sql b" for s b
    unfolding parse_attempt_state_def ok_opt_Some_iff by (elim if_Ok_elim; simp)
qed

interpretation unknown_reason_label: label_codec unknown_reason_as_sql "\<lambda>s. ok_opt (parse_unknown s)"
proof
  show "ok_opt (parse_unknown (unknown_reason_as_sql b)) = Some b" for b
    by (cases b) (simp_all add: parse_unknown_def)
  show "ok_opt (parse_unknown s) = Some b \<Longrightarrow> s = unknown_reason_as_sql b" for s b
    unfolding parse_unknown_def ok_opt_Some_iff by (elim if_Ok_elim; simp)
qed

end
