(* ===== verification/Attempt_Ops.thy ===== *)
theory Attempt_Ops
  imports Attempt_Store
begin

text \<open>
  The transactions of \<^verbatim>\<open>provider_attempts.rs\<close>: preparation of an attempt under the authority
  of a continuation plan, dispatch authorization, cancellation, loss of the outcome,
  positive evidence, and the projection after a supervisor loss. \<open>digest\<close> is SHA-256 of the
  \<^verbatim>\<open>sha2\<close> crate, \<open>metadata_json\<close> the text that \<^verbatim>\<open>serde_json\<close> prints for the metadata of a
  non-submission item, from the evidence id and the witness digest.
\<close>

section \<open>Outcomes and fences\<close>

record turn_fence =
  tf_conversation_id :: conversation_id
  tf_conversation_revision :: i64
  tf_turn_id :: turn_id
  tf_turn_revision :: i64

record fresh_prepared =
  fp_attempt_id :: provider_attempt_id
  fp_revision :: i64
  fp_prepared_at_micros :: i64
  fp_conversation_turn_fence :: "turn_fence option"

record dispatch_fence =
  df_attempt_id :: provider_attempt_id
  df_attempt_revision :: i64
  df_process_generation_id :: process_generation_id
  df_process_generation_revision :: i64
  df_authorized_at_micros :: i64

record attempt_mutation =
  am_revision :: i64
  am_state :: provider_attempt_state
  am_recorded_at_micros :: i64

datatype attempt_rejection =
    AttemptIdentityConflict
  | AuthorityUnavailable
  | GenerationUnavailable
  | ConsumerUnavailable
  | AttemptInvalidInput
  | AttemptMissing
  | StaleAttempt
  | AttemptEvidenceConflict
  | AttemptInvalidEvidence
  | AttemptEvidenceMismatch

datatype prepare_attempt_outcome =
    AttemptFresh fresh_prepared
  | AttemptPrepareReplayed attempt_mutation
  | AttemptPrepareRejected attempt_rejection attempt_mutation

datatype authorize_outcome =
    DispatchFresh dispatch_fence
  | DispatchReplayed attempt_mutation
  | DispatchRejected attempt_rejection attempt_mutation

datatype attempt_outcome =
    AttemptApplied attempt_mutation
  | AttemptReplayed attempt_mutation
  | AttemptRejected attempt_rejection attempt_mutation

definition empty_attempt_mutation :: attempt_mutation where
  "empty_attempt_mutation = \<lparr>am_revision = 0, am_state = Prepared, am_recorded_at_micros = 0\<rparr>"

definition attempt_mutation_of :: "provider_attempt \<Rightarrow> attempt_mutation" where
  "attempt_mutation_of a = \<lparr>am_revision = pa_revision a, am_state = pa_state a,
     am_recorded_at_micros = pa_updated_at_micros a\<rparr>"

definition attempt_rejected :: "attempt_rejection \<Rightarrow> provider_attempt \<Rightarrow> attempt_outcome" where
  "attempt_rejected rejection a = AttemptRejected rejection (attempt_mutation_of a)"

section \<open>Preparation\<close>

definition replayed_preparation ::
    "provider_attempt \<Rightarrow> provider_attempt_preparation \<Rightarrow> process_generation_id \<Rightarrow> prepare_attempt_outcome" where
  "replayed_preparation existing preparation generation =
     (if pa_consumer existing = pp_consumer preparation \<and>
         pa_continuation_plan_id existing = pp_continuation_plan_id preparation \<and>
         pa_process_generation_id existing = generation \<and>
         pa_request_id existing = pp_request_id preparation \<and>
         pa_request_digest existing = pp_request_digest preparation \<and>
         pa_provider_keys existing = pp_provider_keys preparation \<and>
         pa_duplicate_risk existing = pp_duplicate_risk preparation
      then AttemptPrepareReplayed (attempt_mutation_of existing)
      else AttemptPrepareRejected AttemptIdentityConflict (attempt_mutation_of existing))"

definition preparation_turn_fence ::
    "provider_attempt_preparation \<Rightarrow> i64 option \<Rightarrow> i64 option \<Rightarrow> store_error + turn_fence" where
  "preparation_turn_fence preparation conversation_revision turn_revision =
     and_then (ok_or (InvalidInput ''Conversation ProviderAttempt requires a Conversation revision'')
         conversation_revision) (\<lambda>conversation_revision.
     and_then (ok_or (InvalidInput ''Conversation ProviderAttempt requires a Turn revision'')
         turn_revision) (\<lambda>turn_revision.
     if conversation_revision \<le> 0 \<or> turn_revision \<noteq> 1
     then Inl (InvalidInput ''Conversation ProviderAttempt revision is invalid'')
     else Inr \<lparr>tf_conversation_id = consumer_conversation (pp_consumer preparation),
            tf_conversation_revision = conversation_revision,
            tf_turn_id = consumer_turn (pp_consumer preparation), tf_turn_revision = turn_revision\<rparr>))"

record attempt_authority =
  au_routing_decision_id :: string
  au_runtime_session_id :: string
  au_runtime_session_revision :: i64
  au_account_id :: string
  au_plan_kind :: string
  au_source_runtime_session_id :: string

text \<open>
  The query of \<^verbatim>\<open>read_prepared_attempt_authority\<close>. Every join is on a primary key, so it has
  at most one row; \<open>coalesce\<close> is the plan's own session or its source.
\<close>

definition plan_session :: "plan_row \<Rightarrow> string" where
  "plan_session p = (case pl_runtime_session_id p of
     Some session \<Rightarrow> session | None \<Rightarrow> pl_source_runtime_session_id p)"

definition plan_shape_current :: "plan_row \<Rightarrow> session_row \<Rightarrow> session_row \<Rightarrow> bool" where
  "plan_shape_current p source execution \<longleftrightarrow>
     pl_kind p \<in> set [''initial_thread'', ''same_thread''] \<and>
       sr_runtime_session_id execution = sr_runtime_session_id source \<and> sr_state source = ''active'' \<or>
     pl_kind p = ''context_pack_fallback'' \<and>
       pl_runtime_session_id p = Some (sr_runtime_session_id execution) \<and>
       sr_state execution = ''active'' \<and> sr_state source = ''ended'' \<and>
       sr_revision source = pl_source_runtime_session_revision p + 1"

definition authority_row ::
    "provider_attempt_preparation \<Rightarrow> i64 \<Rightarrow> process_execution_epoch_id \<Rightarrow> string option \<Rightarrow> turn_fence \<Rightarrow>
     plan_row \<Rightarrow> session_row \<Rightarrow> session_row \<Rightarrow> conversation_row \<Rightarrow> turn_row \<Rightarrow> generation_row \<Rightarrow> bool" where
  "authority_row preparation generation_revision epoch binding_key fence p source execution c t g \<longleftrightarrow>
     pl_conversation_id p = conversation_id_text (tf_conversation_id fence) \<and>
     pl_turn_id p = turn_id_text (tf_turn_id fence) \<and>
     cv_revision c = tf_conversation_revision fence \<and> cv_state c = ''active'' \<and>
     tr_revision t = tf_turn_revision fence \<and> tr_status t = ''active'' \<and>
     tr_runtime_session_id t = Some (sr_runtime_session_id execution) \<and>
     gr_revision g = generation_revision \<and> gr_state g = ''ready'' \<and>
     gr_execution_epoch_id g = epoch_id_text epoch \<and>
     gr_account_id g = pl_selected_account_id p \<and>
     gr_runtime_session_id g = Some (sr_runtime_session_id execution) \<and>
     (binding_key = None \<or> sr_thread_start_binding_key execution = binding_key) \<and>
     plan_shape_current p source execution"

definition read_prepared_attempt_authority ::
    "attempt_db \<Rightarrow> provider_attempt_preparation \<Rightarrow> process_generation_id \<Rightarrow> i64 \<Rightarrow>
     process_execution_epoch_id \<Rightarrow> string option \<Rightarrow> turn_fence \<Rightarrow> attempt_authority option" where
  "read_prepared_attempt_authority db preparation generation generation_revision epoch binding_key fence =
     Option.bind (find_row pl_continuation_plan_id (ad_plans db) (pp_continuation_plan_id preparation)) (\<lambda>p.
     Option.bind (find_row sr_runtime_session_id (ad_sessions db) (pl_source_runtime_session_id p)) (\<lambda>source.
     Option.bind (find_row sr_runtime_session_id (ad_sessions db) (plan_session p)) (\<lambda>execution.
     Option.bind (find_row cv_conversation_id (ad_conversations db) (pl_conversation_id p)) (\<lambda>c.
     Option.bind (find_row tr_turn_id (ad_turns db) (pl_turn_id p)) (\<lambda>t.
     Option.bind (find_generation_row (gd_generations (ad_processes db)) (generation_id_text generation)) (\<lambda>g.
       if pl_routing_decision_id p \<in> set (ad_decisions db) \<and>
          authority_row preparation generation_revision epoch binding_key fence p source execution c t g
       then Some \<lparr>au_routing_decision_id = pl_routing_decision_id p,
              au_runtime_session_id = plan_session p, au_runtime_session_revision = sr_revision execution,
              au_account_id = pl_selected_account_id p, au_plan_kind = pl_kind p,
              au_source_runtime_session_id = pl_source_runtime_session_id p\<rparr>
       else None))))))"

text \<open>\<^verbatim>\<open>runtime_sessions::digest\<close>: the hash of the length-prefixed parts.\<close>

definition lineage_digest :: "(byte list \<Rightarrow> blob_hash) \<Rightarrow> string list \<Rightarrow> string" where
  "lineage_digest digest parts =
     to_hex (digest (concat (map (\<lambda>part. be_bytes 8 (length part) @ bytes_of part) parts)))"

text \<open>The last attempt of a session: \<^verbatim>\<open>ORDER BY created_at_micros DESC, attempt_id DESC LIMIT 1\<close>.\<close>

definition created_later :: "attempt_row \<Rightarrow> attempt_row \<Rightarrow> bool" where
  "created_later a b \<longleftrightarrow> ar_created_at_micros b < ar_created_at_micros a \<or>
     ar_created_at_micros b = ar_created_at_micros a \<and> text_less (ar_attempt_id b) (ar_attempt_id a)"

definition latest_attempt :: "attempt_row list \<Rightarrow> string \<Rightarrow> attempt_row option" where
  "latest_attempt t session =
     fold (\<lambda>r best. case best of None \<Rightarrow> Some r | Some b \<Rightarrow> if created_later r b then Some r else Some b)
       (filter (\<lambda>r. ar_runtime_session_id r = session) t) None"

definition predecessor_recoverable ::
    "attempt_db \<Rightarrow> provider_attempt_id \<Rightarrow> conversation_id \<Rightarrow> string \<Rightarrow> turn_id \<Rightarrow> bool" where
  "predecessor_recoverable db predecessor conversation source_session turn \<longleftrightarrow>
     (case find_attempt_row (ad_attempts db) (attempt_id_text predecessor) of
        None \<Rightarrow> False
      | Some p \<Rightarrow>
          ar_conversation_id p = conversation_id_text conversation \<and>
          ar_runtime_session_id p = source_session \<and>
          ar_turn_id p \<noteq> turn_id_text turn \<and> ar_state p = ''unknown'' \<and>
          (case find_row tr_turn_id (ad_turns db) (ar_turn_id p) of
             None \<Rightarrow> False | Some prior_turn \<Rightarrow> tr_status prior_turn = ''failed'') \<and>
          (case find_generation_row (gd_generations (ad_processes db)) (ar_process_generation_id p) of
             None \<Rightarrow> False
           | Some g \<Rightarrow> gr_state g = ''dead'' \<and>
               (\<exists>d \<in> set (gd_death_evidence (ad_processes db)). dr_generation_id d = gr_generation_id g \<and>
                  Some (dr_evidence_id d) = gr_death_evidence_id g)) \<and>
          map_option ar_attempt_id (latest_attempt (ad_attempts db) source_session) = Some (ar_attempt_id p))"

definition duplicate_risk_matches_plan ::
    "(byte list \<Rightarrow> blob_hash) \<Rightarrow> attempt_db \<Rightarrow> provider_duplicate_risk \<Rightarrow> conversation_id \<Rightarrow> turn_id \<Rightarrow>
     string \<Rightarrow> string \<Rightarrow> string \<Rightarrow> bool" where
  "duplicate_risk_matches_plan digest db risk conversation turn plan_kind source_session plan =
     (if plan_kind \<noteq> ''context_pack_fallback'' then risk = OriginalIntent
      else case risk of
        OriginalIntent \<Rightarrow>
          list_all (\<lambda>r. \<not> (ar_runtime_session_id r = source_session \<and> ar_state r = ''unknown'')) (ad_attempts db)
      | AcknowledgedSuccessor predecessor acknowledgement_digest \<Rightarrow>
          if acknowledgement_digest \<noteq> lineage_digest digest
               [''silent-recovery-successor'', attempt_id_text predecessor, turn_id_text turn, plan]
          then False
          else predecessor_recoverable db predecessor conversation source_session turn)"

fun risk_predecessor :: "provider_duplicate_risk \<Rightarrow> string option" where
  "risk_predecessor OriginalIntent = None"
| "risk_predecessor (AcknowledgedSuccessor predecessor _) = Some (attempt_id_text predecessor)"

fun risk_acknowledgement :: "provider_duplicate_risk \<Rightarrow> string option" where
  "risk_acknowledgement OriginalIntent = None"
| "risk_acknowledgement (AcknowledgedSuccessor _ acknowledgement) = Some acknowledgement"

definition prepared_row ::
    "provider_attempt_preparation \<Rightarrow> turn_fence \<Rightarrow> attempt_authority \<Rightarrow> process_generation_id \<Rightarrow> i64 \<Rightarrow>
     process_execution_epoch_id \<Rightarrow> i64 \<Rightarrow> attempt_row" where
  "prepared_row preparation fence authority generation generation_revision epoch now =
     \<lparr>ar_attempt_id = attempt_id_text (pp_attempt_id preparation),
      ar_conversation_id = conversation_id_text (tf_conversation_id fence),
      ar_turn_id = turn_id_text (tf_turn_id fence),
      ar_continuation_plan_id = pp_continuation_plan_id preparation,
      ar_routing_decision_id = au_routing_decision_id authority,
      ar_runtime_session_id = au_runtime_session_id authority,
      ar_runtime_session_revision = au_runtime_session_revision authority,
      ar_account_id = au_account_id authority,
      ar_process_generation_id = generation_id_text generation,
      ar_process_generation_revision = generation_revision,
      ar_execution_epoch_id = epoch_id_text epoch,
      ar_request_id = request_id_text (pp_request_id preparation),
      ar_request_sha256 = pp_request_digest preparation,
      ar_provider_idempotency_key = map_option request_key_text (pk_idempotency (pp_provider_keys preparation)),
      ar_provider_correlation_key = map_option request_key_text (pk_correlation (pp_provider_keys preparation)),
      ar_predecessor_attempt_id = risk_predecessor (pp_duplicate_risk preparation),
      ar_duplicate_risk_ack_sha256 = risk_acknowledgement (pp_duplicate_risk preparation),
      ar_state = ''prepared'', ar_unknown_reason = None, ar_terminal_evidence_id = None,
      ar_revision = 1, ar_created_at_micros = now, ar_updated_at_micros = now\<rparr>"

definition prepare_provider_attempt ::
    "(byte list \<Rightarrow> blob_hash) \<Rightarrow> i64 option \<Rightarrow> provider_attempt_preparation \<Rightarrow> process_generation_id \<Rightarrow> i64 \<Rightarrow>
     process_execution_epoch_id \<Rightarrow> string option \<Rightarrow> i64 option \<times> i64 option \<Rightarrow> attempt_db \<Rightarrow>
     store_error + prepare_attempt_outcome \<times> attempt_db" where
  "prepare_provider_attempt digest clock preparation generation generation_revision epoch binding_key revisions db =
     and_then (map_err (\<lambda>_. InvalidInput ''ProviderAttempt preparation is malformed'')
         (preparation_validate preparation)) (\<lambda>_.
     if generation_revision \<le> 0
     then Inl (InvalidInput ''ProviderAttempt generation revision must be positive'')
     else
     and_then (preparation_turn_fence preparation (fst revisions) (snd revisions)) (\<lambda>fence.
     and_then (read_attempt db (attempt_id_text (pp_attempt_id preparation))) (\<lambda>existing.
     case existing of
       Some existing \<Rightarrow> Inr (replayed_preparation existing preparation generation, db)
     | None \<Rightarrow>
        (case read_prepared_attempt_authority db preparation generation generation_revision epoch binding_key fence of
           None \<Rightarrow> Inr (AttemptPrepareRejected AuthorityUnavailable empty_attempt_mutation, db)
         | Some authority \<Rightarrow>
            if \<not> duplicate_risk_matches_plan digest db (pp_duplicate_risk preparation) (tf_conversation_id fence)
                (tf_turn_id fence) (au_plan_kind authority) (au_source_runtime_session_id authority)
                (pp_continuation_plan_id preparation)
            then Inr (AttemptPrepareRejected AuthorityUnavailable empty_attempt_mutation, db)
            else
            and_then (unix_micros clock) (\<lambda>now.
            and_then (insert_attempt db
                (prepared_row preparation fence authority generation generation_revision epoch now)) (\<lambda>db'.
              Inr (AttemptFresh \<lparr>fp_attempt_id = pp_attempt_id preparation, fp_revision = 1,
                     fp_prepared_at_micros = now, fp_conversation_turn_fence = Some fence\<rparr>, db')))))))"

section \<open>Dispatch\<close>

definition generation_ready :: "generation_db \<Rightarrow> process_generation_id \<Rightarrow> i64 \<Rightarrow> bool" where
  "generation_ready db generation revision \<longleftrightarrow>
     (\<exists>g \<in> set (gd_generations db). gr_generation_id g = generation_id_text generation \<and>
        gr_revision g = revision \<and> gr_state g = ''ready'')"

definition turn_ready :: "attempt_db \<Rightarrow> turn_fence \<Rightarrow> bool" where
  "turn_ready db fence \<longleftrightarrow>
     (\<exists>c \<in> set (ad_conversations db). \<exists>t \<in> set (ad_turns db).
        tr_conversation_id t = cv_conversation_id c \<and>
        cv_conversation_id c = conversation_id_text (tf_conversation_id fence) \<and>
        cv_revision c = tf_conversation_revision fence \<and> cv_state c = ''active'' \<and>
        tr_turn_id t = turn_id_text (tf_turn_id fence) \<and>
        tr_revision t = tf_turn_revision fence \<and> tr_status t = ''active'')"

definition authorize_provider_attempt_dispatch ::
    "i64 option \<Rightarrow> fresh_prepared \<Rightarrow> process_generation_id \<Rightarrow> i64 \<Rightarrow> attempt_db \<Rightarrow>
     store_error + authorize_outcome \<times> attempt_db" where
  "authorize_provider_attempt_dispatch clock prepared generation generation_revision db =
     and_then (read_attempt db (attempt_id_text (fp_attempt_id prepared))) (\<lambda>current.
     case current of
       None \<Rightarrow> Inr (DispatchRejected AttemptMissing empty_attempt_mutation, db)
     | Some current \<Rightarrow>
         if pa_state current = DispatchAuthorized
            \<and> pa_revision current = saturating_add_i64 (fp_revision prepared) 1
         then Inr (DispatchReplayed (attempt_mutation_of current), db)
         else if pa_revision current \<noteq> fp_revision prepared
            \<or> pa_state current \<noteq> Prepared
            \<or> pa_process_generation_id current \<noteq> generation
            \<or> pa_process_generation_revision current \<noteq> generation_revision
            \<or> \<not> generation_ready (ad_processes db) generation generation_revision
            \<or> \<not> pred_option (turn_ready db) (fp_conversation_turn_fence prepared)
            \<or> fp_conversation_turn_fence prepared = None
         then Inr (DispatchRejected StaleAttempt (attempt_mutation_of current), db)
         else and_then (unix_micros clock) (\<lambda>now.
           let revision = wrapping_add_i64 (fp_revision prepared) 1 in
           and_then (update_attempts db (by_attempt (fp_attempt_id prepared)) (\<lambda>r. r\<lparr>
               ar_state := ''dispatch_authorized'', ar_revision := revision,
               ar_updated_at_micros := now\<rparr>)) (\<lambda>db'.
             Inr (DispatchFresh \<lparr>df_attempt_id = fp_attempt_id prepared, df_attempt_revision = revision,
                    df_process_generation_id = generation,
                    df_process_generation_revision = generation_revision,
                    df_authorized_at_micros = now\<rparr>, db'))))"

section \<open>Transitions\<close>

definition transition_attempt ::
    "i64 option \<Rightarrow> provider_attempt_id \<Rightarrow> i64 \<Rightarrow> provider_attempt_state \<Rightarrow> provider_attempt_state \<Rightarrow>
     provider_attempt_unknown_reason option \<Rightarrow> attempt_db \<Rightarrow> store_error + attempt_outcome \<times> attempt_db" where
  "transition_attempt clock attempt expected_revision expected_state target_state reason db =
     (if expected_revision \<le> 0 then Inl (InvalidInput ''ProviderAttempt revision must be positive'')
      else and_then (read_attempt db (attempt_id_text attempt)) (\<lambda>current.
        case current of
          None \<Rightarrow> Inr (AttemptRejected AttemptMissing empty_attempt_mutation, db)
        | Some current \<Rightarrow>
            if pa_state current = target_state
               \<and> pa_revision current = saturating_add_i64 expected_revision 1
               \<and> pa_unknown_reason current = reason
            then Inr (AttemptReplayed (attempt_mutation_of current), db)
            else if pa_revision current \<noteq> expected_revision \<or> pa_state current \<noteq> expected_state
            then Inr (attempt_rejected StaleAttempt current, db)
            else let revision = wrapping_add_i64 expected_revision 1 in
              and_then (unix_micros clock) (\<lambda>now.
              and_then (update_attempts db (by_attempt attempt) (\<lambda>r. r\<lparr>
                  ar_state := attempt_state_as_sql target_state,
                  ar_unknown_reason := map_option unknown_reason_as_sql reason,
                  ar_revision := revision, ar_updated_at_micros := now\<rparr>)) (\<lambda>db'.
                Inr (AttemptApplied \<lparr>am_revision = revision, am_state = target_state,
                       am_recorded_at_micros = now\<rparr>, db')))))"

definition cancel_provider_attempt ::
    "i64 option \<Rightarrow> provider_attempt_id \<Rightarrow> i64 \<Rightarrow> attempt_db \<Rightarrow> store_error + attempt_outcome \<times> attempt_db" where
  "cancel_provider_attempt clock attempt expected_revision =
     transition_attempt clock attempt expected_revision Prepared Canceled None"

definition mark_provider_attempt_unknown ::
    "i64 option \<Rightarrow> provider_attempt_id \<Rightarrow> i64 \<Rightarrow> provider_attempt_unknown_reason \<Rightarrow> attempt_db \<Rightarrow>
     store_error + attempt_outcome \<times> attempt_db" where
  "mark_provider_attempt_unknown clock attempt expected_revision reason db =
     (if reason = RestoreProjection
      then Inl (InvalidInput ''restore projection is not a live transition'')
      else transition_attempt clock attempt expected_revision DispatchAuthorized AttemptUnknown (Some reason) db)"

section \<open>Positive evidence\<close>

definition evidence_row_of :: "provider_positive_evidence \<Rightarrow> i64 \<Rightarrow> positive_evidence_row" where
  "evidence_row_of e now =
     \<lparr>pv_evidence_id = evidence_id_text (pe_evidence_id e), pv_attempt_id = attempt_id_text (pe_attempt_id e),
      pv_request_id = request_id_text (pe_request_id e), pv_source = evidence_source_as_sql (pe_source e),
      pv_outcome = outcome_as_sql (pe_outcome e), pv_provider_key = request_key_text (pe_provider_key e),
      pv_provider_receipt_id = pe_provider_receipt_id e, pv_provider_thread_id = pe_provider_thread_id e,
      pv_provider_turn_id = pe_provider_turn_id e, pv_witness_sha256 = pe_witness_digest e,
      pv_observed_at_micros = now\<rparr>"

definition positive_evidence_matches :: "attempt_db \<Rightarrow> provider_positive_evidence \<Rightarrow> bool" where
  "positive_evidence_matches db e \<longleftrightarrow>
     (\<exists>r \<in> set (ad_evidence db). r = evidence_row_of e (pv_observed_at_micros r))"

text \<open>
  \<^verbatim>\<open>non_submission::finalize\<close>: the input of an attempt that was not submitted fails, with an
  item in the history of its conversation.
\<close>

definition non_submission_turn ::
    "attempt_db \<Rightarrow> provider_attempt \<Rightarrow> string \<Rightarrow> turn_row \<Rightarrow> bool" where
  "non_submission_turn db attempt thread t \<longleftrightarrow>
     tr_turn_id t = turn_id_text (consumer_turn (pa_consumer attempt)) \<and>
     tr_conversation_id t = conversation_id_text (consumer_conversation (pa_consumer attempt)) \<and>
     tr_runtime_session_id t = Some (runtime_session_id_text (pa_runtime_session_id attempt)) \<and>
     tr_role t = ''user'' \<and> tr_status t = ''active'' \<and>
     (\<exists>s \<in> set (ad_sessions db). sr_runtime_session_id s = runtime_session_id_text (pa_runtime_session_id attempt) \<and>
        sr_conversation_id s = conversation_id_text (consumer_conversation (pa_consumer attempt)) \<and>
        sr_codex_thread_id s = Some thread \<and> sr_state s = ''active'') \<and>
     \<not> (\<exists>h \<in> set (ad_history db). hr_turn_id h = turn_id_text (consumer_turn (pa_consumer attempt)) \<and>
        hr_status h = ''streaming'') \<and>
     \<not> (\<exists>p \<in> set (ad_attempts db). ar_turn_id p = turn_id_text (consumer_turn (pa_consumer attempt)) \<and>
        ar_attempt_id p \<noteq> attempt_id_text (pa_attempt_id attempt) \<and>
        ar_state p \<notin> set [''canceled'', ''not_submitted''])"

definition turn_row_checks :: "turn_row \<Rightarrow> bool" where
  "turn_row_checks t \<longleftrightarrow> sql_length (tr_turn_id t) = 36 \<and> tr_role t \<in> set [''user'', ''assistant''] \<and>
     tr_status t \<in> set [''active'', ''completed'', ''failed''] \<and> tr_revision t > 0 \<and>
     tr_created_at_micros t > 0 \<and> tr_updated_at_micros t \<ge> tr_created_at_micros t \<and>
     null_or (\<lambda>c. c \<ge> tr_created_at_micros t) (tr_completed_at_micros t)"

definition failed_turn :: "i64 \<Rightarrow> turn_row \<Rightarrow> turn_row" where
  "failed_turn now t = t\<lparr>tr_status := ''failed'', tr_revision := tr_revision t + 1,
     tr_updated_at_micros := max (tr_updated_at_micros t) now, tr_completed_at_micros := Some now\<rparr>"

definition update_turns ::
    "attempt_db \<Rightarrow> (turn_row \<Rightarrow> bool) \<Rightarrow> (turn_row \<Rightarrow> turn_row) \<Rightarrow> store_error + nat \<times> attempt_db" where
  "update_turns db p f =
     (if list_all (\<lambda>t. p t \<longrightarrow> turn_row_checks (f t) \<and> tr_revision (f t) \<le> i64_max) (ad_turns db)
      then Inr (length (filter p (ad_turns db)), db\<lparr>ad_turns := update_rows p f (ad_turns db)\<rparr>)
      else Inl sql_error)"

definition next_sequence :: "history_row list \<Rightarrow> string \<Rightarrow> i64" where
  "next_sequence t conversation =
     fold max (map hr_sequence (filter (\<lambda>h. hr_conversation_id h = conversation) t)) 0 + 1"

definition history_row_checks :: "history_row \<Rightarrow> bool" where
  "history_row_checks h \<longleftrightarrow> sql_length (hr_history_item_id h) = 36 \<and> hr_sequence h > 0 \<and>
     hr_kind h \<in> set [''message'', ''reasoning'', ''tool_call'', ''tool_result'', ''artifact'', ''status''] \<and>
     null_or (\<lambda>r. r \<in> set [''user'', ''assistant'']) (hr_role h) \<and>
     hr_status h \<in> set [''streaming'', ''completed'', ''failed''] \<and>
     1 \<le> length (hr_media_type h) \<and> length (hr_media_type h) \<le> 128 \<and>
     hr_revision h > 0 \<and> hr_created_at_micros h > 0 \<and>
     hr_updated_at_micros h \<ge> hr_created_at_micros h"

definition insert_history :: "attempt_db \<Rightarrow> history_row \<Rightarrow> store_error + attempt_db" where
  "insert_history db h =
     (if history_row_checks h \<and> hr_sequence h \<le> i64_max
         \<and> hr_history_item_id h \<notin> hr_history_item_id ` set (ad_history db)
         \<and> (hr_conversation_id h, hr_sequence h) \<notin>
             (\<lambda>q. (hr_conversation_id q, hr_sequence q)) ` set (ad_history db)
         \<and> hr_conversation_id h \<in> cv_conversation_id ` set (ad_conversations db)
         \<and> hr_turn_id h \<in> tr_turn_id ` set (ad_turns db)
      then Inr (db\<lparr>ad_history := ad_history db @ [h]\<rparr>)
      else Inl sql_error)"

definition touch_conversation :: "attempt_db \<Rightarrow> conversation_id \<Rightarrow> i64 \<Rightarrow> store_error + attempt_db" where
  "touch_conversation db conversation now =
     (let p = (\<lambda>c. cv_conversation_id c = conversation_id_text conversation \<and> cv_state c = ''active'') in
      if \<not> list_all (\<lambda>c. p c \<longrightarrow> now \<ge> cv_created_at_micros c) (ad_conversations db) then Inl sql_error
      else if length (filter p (ad_conversations db)) \<noteq> 1
      then Inl (incompatible ''Conversation activity owner'')
      else Inr (db\<lparr>ad_conversations :=
             update_rows p (\<lambda>c. c\<lparr>cv_updated_at_micros := now\<rparr>) (ad_conversations db)\<rparr>))"

definition non_submission_text :: string where
  "non_submission_text = ''Codex confirmed that this input was not submitted. Reconnect and send again. Your input remains in history.''"

definition non_submission_item ::
    "(string \<Rightarrow> string \<Rightarrow> string) \<Rightarrow> attempt_db \<Rightarrow> provider_attempt \<Rightarrow> provider_positive_evidence \<Rightarrow> i64 \<Rightarrow> history_row" where
  "non_submission_item metadata_json db attempt e now =
     (let conversation = conversation_id_text (consumer_conversation (pa_consumer attempt)) in
      \<lparr>hr_history_item_id = evidence_id_text (pe_evidence_id e), hr_conversation_id = conversation,
       hr_turn_id = turn_id_text (consumer_turn (pa_consumer attempt)),
       hr_sequence = next_sequence (ad_history db) conversation, hr_kind = ''status'',
       hr_role = Some ''user'', hr_status = ''failed'', hr_media_type = ''text/plain'',
       hr_inline_text = Some non_submission_text,
       hr_metadata_json = metadata_json (evidence_id_text (pe_evidence_id e)) (pe_witness_digest e),
       hr_revision = 1, hr_created_at_micros = now, hr_updated_at_micros = now\<rparr>)"

definition non_submission_finalize ::
    "(string \<Rightarrow> string \<Rightarrow> string) \<Rightarrow> attempt_db \<Rightarrow> provider_attempt \<Rightarrow> provider_positive_evidence \<Rightarrow> i64 \<Rightarrow>
     store_error + attempt_db" where
  "non_submission_finalize metadata_json db attempt e now =
     (if pe_outcome e \<noteq> OutcomeNotSubmitted \<or> pe_source e \<noteq> PositiveNonSubmissionReceipt then Inr db
      else case pe_provider_thread_id e of
        None \<Rightarrow> Inr db
      | Some thread \<Rightarrow>
          and_then (update_turns db (non_submission_turn db attempt thread) (failed_turn now)) (\<lambda>(changed, db1).
          if changed = 0
          then Inl (incompatible ''non-submission does not match the active local input'')
          else
          and_then (insert_history db1 (non_submission_item metadata_json db1 attempt e now)) (\<lambda>db2.
            touch_conversation db2 (consumer_conversation (pa_consumer attempt)) now)))"

definition record_provider_attempt_positive_evidence ::
    "(string \<Rightarrow> string \<Rightarrow> string) \<Rightarrow> i64 option \<Rightarrow> i64 \<Rightarrow> provider_positive_evidence \<Rightarrow> attempt_db \<Rightarrow>
     store_error + attempt_outcome \<times> attempt_db" where
  "record_provider_attempt_positive_evidence metadata_json clock expected_revision e db =
     and_then (read_attempt db (attempt_id_text (pe_attempt_id e))) (\<lambda>current.
     case current of
       None \<Rightarrow> Inr (AttemptRejected AttemptMissing empty_attempt_mutation, db)
     | Some current \<Rightarrow>
         if attempt_is_terminal (pa_state current)
         then (if pa_terminal_evidence_id current = Some (pe_evidence_id e) \<and> positive_evidence_matches db e
               then Inr (AttemptReplayed (attempt_mutation_of current), db)
               else Inr (attempt_rejected AttemptEvidenceConflict current, db))
         else if positive_evidence_validate e \<noteq> Inr ()
         then Inr (attempt_rejected AttemptInvalidEvidence current, db)
         else if pa_revision current \<noteq> expected_revision
            \<or> pa_state current \<notin> set [DispatchAuthorized, AttemptUnknown]
            \<or> pa_request_id current \<noteq> pe_request_id e
            \<or> \<not> keys_contain (pa_provider_keys current) (pe_provider_key e)
         then Inr (attempt_rejected AttemptEvidenceMismatch current, db)
         else and_then (unix_micros clock) (\<lambda>now.
           and_then (insert_positive_evidence db (evidence_row_of e now)) (\<lambda>db1.
           let revision = wrapping_add_i64 expected_revision 1 in
           and_then (update_attempts db1 (by_attempt (pe_attempt_id e)) (\<lambda>r. r\<lparr>
               ar_state := outcome_as_sql (pe_outcome e), ar_unknown_reason := None,
               ar_terminal_evidence_id := Some (evidence_id_text (pe_evidence_id e)),
               ar_revision := revision, ar_updated_at_micros := now\<rparr>)) (\<lambda>db2.
           and_then (non_submission_finalize metadata_json db2 current e now) (\<lambda>db3.
             Inr (AttemptApplied \<lparr>am_revision = revision, am_state = outcome_state (pe_outcome e),
                    am_recorded_at_micros = now\<rparr>, db3))))))"

section \<open>Supervisor loss and reads\<close>

definition project_provider_attempts_after_supervisor_loss ::
    "i64 option \<Rightarrow> attempt_db \<Rightarrow> store_error + nat \<times> attempt_db" where
  "project_provider_attempts_after_supervisor_loss clock db =
     and_then (unix_micros clock) (\<lambda>now.
       let pending = (\<lambda>r. ar_state r \<in> set [''prepared'', ''dispatch_authorized'']) in
       if \<not> list_all (\<lambda>r. pending r \<longrightarrow> ar_revision r < i64_max) (ad_attempts db) then Inl sql_error
       else and_then (update_attempts db pending (\<lambda>r. r\<lparr>
           ar_state := ''unknown'', ar_unknown_reason := Some ''restore_projection'',
           ar_revision := ar_revision r + 1, ar_updated_at_micros := now\<rparr>)) (\<lambda>db'.
         Inr (length (filter pending (ad_attempts db)), db')))"

definition terminal_evidence_matches :: "attempt_db \<Rightarrow> provider_attempt \<Rightarrow> bool" where
  "terminal_evidence_matches db attempt \<longleftrightarrow>
     pa_terminal_evidence_id attempt \<noteq> None \<and>
     (\<exists>a \<in> set (ad_attempts db). \<exists>e \<in> set (ad_evidence db).
        Some (pv_evidence_id e) = ar_terminal_evidence_id a \<and> pv_attempt_id e = ar_attempt_id a \<and>
        ar_attempt_id a = attempt_id_text (pa_attempt_id attempt) \<and> ar_revision a = pa_revision attempt \<and>
        ar_state a = attempt_state_as_sql (pa_state attempt) \<and>
        ar_request_id a = request_id_text (pa_request_id attempt) \<and>
        pv_request_id e = ar_request_id a \<and> pv_outcome e = ar_state a \<and>
        (Some (pv_provider_key e) = ar_provider_idempotency_key a \<or>
         Some (pv_provider_key e) = ar_provider_correlation_key a))"

end
