(* ===== verification/Attempt_Correct.thy ===== *)
theory Attempt_Correct
  imports Generation_Runs Attempt_Ops
begin

text \<open>
  A row of \<^verbatim>\<open>provider_attempts\<close> and the attempt it stores: \<open>attempt_row_of\<close> is the row of an
  attempt, the parser is its inverse, the checks of the schema are conditions on the
  attempt. Then the invariant of the two tables, and what one updated row does to it.
\<close>

section \<open>The row of an attempt\<close>

definition attempt_row_of :: "provider_attempt \<Rightarrow> attempt_row" where
  "attempt_row_of a =
     \<lparr>ar_attempt_id = attempt_id_text (pa_attempt_id a),
      ar_conversation_id = conversation_id_text (consumer_conversation (pa_consumer a)),
      ar_turn_id = turn_id_text (consumer_turn (pa_consumer a)),
      ar_continuation_plan_id = pa_continuation_plan_id a,
      ar_routing_decision_id = pa_routing_decision_id a,
      ar_runtime_session_id = runtime_session_id_text (pa_runtime_session_id a),
      ar_runtime_session_revision = pa_runtime_session_revision a,
      ar_account_id = account_id_text (pa_account_id a),
      ar_process_generation_id = generation_id_text (pa_process_generation_id a),
      ar_process_generation_revision = pa_process_generation_revision a,
      ar_execution_epoch_id = epoch_id_text (pa_process_execution_epoch_id a),
      ar_request_id = request_id_text (pa_request_id a), ar_request_sha256 = pa_request_digest a,
      ar_provider_idempotency_key = map_option request_key_text (pk_idempotency (pa_provider_keys a)),
      ar_provider_correlation_key = map_option request_key_text (pk_correlation (pa_provider_keys a)),
      ar_predecessor_attempt_id = risk_predecessor (pa_duplicate_risk a),
      ar_duplicate_risk_ack_sha256 = risk_acknowledgement (pa_duplicate_risk a),
      ar_state = attempt_state_as_sql (pa_state a),
      ar_unknown_reason = map_option unknown_reason_as_sql (pa_unknown_reason a),
      ar_terminal_evidence_id = map_option evidence_id_text (pa_terminal_evidence_id a),
      ar_revision = pa_revision a, ar_created_at_micros = pa_created_at_micros a,
      ar_updated_at_micros = pa_updated_at_micros a\<rparr>"

definition valid_key :: "provider_request_key \<Rightarrow> bool" where
  "valid_key k \<longleftrightarrow> is_bounded_provider_identity (request_key_text k) max_provider_request_key_bytes"

definition valid_keys :: "provider_request_keys \<Rightarrow> bool" where
  "valid_keys keys \<longleftrightarrow> pred_option valid_key (pk_idempotency keys) \<and>
     pred_option valid_key (pk_correlation keys) \<and>
     (pk_idempotency keys \<noteq> None \<or> pk_correlation keys \<noteq> None)"

fun valid_risk :: "provider_duplicate_risk \<Rightarrow> bool" where
  "valid_risk OriginalIntent = True"
| "valid_risk (AcknowledgedSuccessor predecessor _) = is_canonical_uuid_v4 (attempt_id_text predecessor)"

definition valid_attempt :: "provider_attempt \<Rightarrow> bool" where
  "valid_attempt a \<longleftrightarrow>
     is_canonical_uuid_v4 (attempt_id_text (pa_attempt_id a)) \<and>
     is_canonical_uuid (conversation_id_text (consumer_conversation (pa_consumer a))) \<and>
     is_canonical_uuid (turn_id_text (consumer_turn (pa_consumer a))) \<and>
     is_canonical_uuid (runtime_session_id_text (pa_runtime_session_id a)) \<and>
     is_canonical_uuid (account_id_text (pa_account_id a)) \<and>
     is_canonical_uuid (generation_id_text (pa_process_generation_id a)) \<and>
     is_canonical_uuid (epoch_id_text (pa_process_execution_epoch_id a)) \<and>
     is_canonical_uuid_v4 (request_id_text (pa_request_id a)) \<and>
     valid_keys (pa_provider_keys a) \<and> valid_risk (pa_duplicate_risk a) \<and>
     pred_option (is_canonical_uuid_v4 \<circ> evidence_id_text) (pa_terminal_evidence_id a)"

lemma parse_key_column_iff:
  "transpose_map (\<lambda>k. or_incompatible m (provider_request_key_new k)) v = Inr w \<longleftrightarrow>
     v = map_option request_key_text w \<and> pred_option valid_key w"
  by (cases v; cases w) (auto simp: transpose_map_Ok_iff provider_request_key.make_Ok_iff valid_key_def)

lemma parse_keys_iff:
  "provider_request_keys_new i c = Inr keys \<longleftrightarrow>
     (i \<noteq> None \<or> c \<noteq> None) \<and> keys = \<lparr>pk_idempotency = i, pk_correlation = c\<rparr>"
  by (auto simp: provider_request_keys_new_def)

lemma parse_duplicate_risk_iff:
  "parse_duplicate_risk predecessor acknowledgement = Inr risk \<longleftrightarrow>
     predecessor = risk_predecessor risk \<and> acknowledgement = risk_acknowledgement risk \<and> valid_risk risk"
  by (cases risk; cases predecessor; cases acknowledgement)
    (auto simp: parse_duplicate_risk_def and_then_Ok_iff provider_attempt_id.make_Ok_iff)

lemma parse_attempt_labels_iff:
  "parse_attempt_state s = Inr x \<longleftrightarrow> s = attempt_state_as_sql x"
  "parse_unknown s = Inr u \<longleftrightarrow> s = unknown_reason_as_sql u"
  using attempt_state_label.from_iff [of s x] unknown_reason_label.from_iff [of s u] by simp_all

lemma parse_unknown_column_iff:
  "transpose_map parse_unknown v = Inr w \<longleftrightarrow> v = map_option unknown_reason_as_sql w"
  by (cases v; cases w) (simp_all add: transpose_map_Ok_iff parse_attempt_labels_iff)

lemma parse_terminal_column_iff:
  "transpose_map (\<lambda>e. or_incompatible m (provider_evidence_id_new e)) v = Inr w \<longleftrightarrow>
     v = map_option evidence_id_text w \<and> pred_option (is_canonical_uuid_v4 \<circ> evidence_id_text) w"
  by (cases v; cases w) (auto simp: transpose_map_Ok_iff provider_evidence_id.make_Ok_iff)

lemma parse_attempt_row_iff:
  "parse_attempt_row r = Inr a \<longleftrightarrow> r = attempt_row_of a \<and> valid_attempt a"
proof
  assume "parse_attempt_row r = Inr a"
  then show "r = attempt_row_of a \<and> valid_attempt a"
    by (cases r) (auto simp: parse_attempt_row_def and_then_Ok_iff parse_key_column_iff parse_keys_iff
        parse_duplicate_risk_iff parse_attempt_labels_iff parse_unknown_column_iff parse_terminal_column_iff
        provider_attempt_id.make_Ok_iff conversation_id.make_Ok_iff turn_id.make_Ok_iff
        runtime_session_id.make_Ok_iff account_id.make_Ok_iff process_generation_id.make_Ok_iff
        process_execution_epoch_id.make_Ok_iff provider_request_id.make_Ok_iff
        attempt_row_of_def valid_attempt_def valid_keys_def)
next
  assume "r = attempt_row_of a \<and> valid_attempt a"
  then show "parse_attempt_row r = Inr a"
    by (cases a; cases "pa_consumer a"; cases "pa_provider_keys a"; cases "pk_idempotency (pa_provider_keys a)";
        cases "pk_correlation (pa_provider_keys a)")
      (auto simp: parse_attempt_row_def and_then_Ok_iff parse_key_column_iff parse_keys_iff
        parse_duplicate_risk_iff parse_attempt_labels_iff parse_unknown_column_iff parse_terminal_column_iff
        provider_attempt_id.make_Ok_iff conversation_id.make_Ok_iff turn_id.make_Ok_iff
        runtime_session_id.make_Ok_iff account_id.make_Ok_iff process_generation_id.make_Ok_iff
        process_execution_epoch_id.make_Ok_iff provider_request_id.make_Ok_iff
        attempt_row_of_def valid_attempt_def valid_keys_def)
qed

lemma attempt_row_of_inject: "valid_attempt a \<Longrightarrow> attempt_row_of a = attempt_row_of b \<Longrightarrow> valid_attempt b \<Longrightarrow> a = b"
  using parse_attempt_row_iff by (metis Inr_inject)

section \<open>The checks of the schema\<close>

definition attempt_checks :: "provider_attempt \<Rightarrow> bool" where
  "attempt_checks a \<longleftrightarrow>
     pa_runtime_session_revision a > 0 \<and> pa_process_generation_revision a > 0 \<and>
     sql_length (pa_request_digest a) = 64 \<and>
     null_or (\<lambda>d. sql_length d = 64) (risk_acknowledgement (pa_duplicate_risk a)) \<and>
     pa_revision a > 0 \<and> pa_created_at_micros a > 0 \<and> pa_updated_at_micros a \<ge> pa_created_at_micros a \<and>
     (pa_state a = AttemptUnknown \<longleftrightarrow> pa_unknown_reason a \<noteq> None) \<and>
     (pa_state a \<in> {Succeeded, FailedDefinitive, NotSubmitted} \<longleftrightarrow> pa_terminal_evidence_id a \<noteq> None)"

lemma attempt_state_simps [simp]:
  "attempt_state_as_sql s = ''prepared'' \<longleftrightarrow> s = Prepared"
  "attempt_state_as_sql s = ''canceled'' \<longleftrightarrow> s = Canceled"
  "attempt_state_as_sql s = ''dispatch_authorized'' \<longleftrightarrow> s = DispatchAuthorized"
  "attempt_state_as_sql s = ''succeeded'' \<longleftrightarrow> s = Succeeded"
  "attempt_state_as_sql s = ''failed_definitive'' \<longleftrightarrow> s = FailedDefinitive"
  "attempt_state_as_sql s = ''not_submitted'' \<longleftrightarrow> s = NotSubmitted"
  "attempt_state_as_sql s = ''unknown'' \<longleftrightarrow> s = AttemptUnknown"
  by (cases s; simp)+

lemma attempt_labels_stored:
  "attempt_state_as_sql s \<in> set [''prepared'', ''canceled'', ''dispatch_authorized'', ''succeeded'',
     ''failed_definitive'', ''not_submitted'', ''unknown'']"
  "null_or (\<lambda>u. u \<in> set [''supervision_lost'', ''dispatch_outcome_unavailable'', ''restore_projection''])
     (map_option unknown_reason_as_sql w)"
   apply (cases s; simp)
  apply (cases w; simp add: null_or_def)
  subgoal for u by (cases u; simp)
  done

lemma canonical_uuid_v4_length [simp]: "is_canonical_uuid_v4 s \<Longrightarrow> sql_length s = 36"
  by (simp add: is_canonical_uuid_v4_def)

lemma attempt_row_checks_iff:
  assumes "valid_attempt a"
  shows "attempt_row_checks (attempt_row_of a) \<longleftrightarrow> attempt_checks a"
proof -
  have "sql_length (ar_attempt_id (attempt_row_of a)) = 36" "sql_length (ar_request_id (attempt_row_of a)) = 36"
    "ar_provider_idempotency_key (attempt_row_of a) \<noteq> None \<or> ar_provider_correlation_key (attempt_row_of a) \<noteq> None"
    using assms by (auto simp: valid_attempt_def valid_keys_def attempt_row_of_def)
  moreover have "ar_state (attempt_row_of a) = attempt_state_as_sql (pa_state a)"
    "ar_unknown_reason (attempt_row_of a) = map_option unknown_reason_as_sql (pa_unknown_reason a)"
    by (simp_all add: attempt_row_of_def)
  ultimately show ?thesis
    unfolding attempt_row_checks_def attempt_checks_def
    using attempt_labels_stored by (auto simp: attempt_row_of_def)
qed

section \<open>The table of attempts\<close>

definition attempt_table :: "attempt_db \<Rightarrow> string \<Rightarrow> provider_attempt option" where
  "attempt_table db k =
     (case find_attempt_row (ad_attempts db) k of
        None \<Rightarrow> None | Some r \<Rightarrow> ok_opt (parse_attempt_row r))"

text \<open>
  The evidence of a terminal attempt: the same request, the outcome of the attempt's state,
  and one of the attempt's own provider keys.
\<close>

definition attempt_evidence_fits :: "positive_evidence_row \<Rightarrow> attempt_row \<Rightarrow> bool" where
  "attempt_evidence_fits e r \<longleftrightarrow>
     ar_terminal_evidence_id r = Some (pv_evidence_id e) \<and> pv_outcome e = ar_state r \<and>
     pv_request_id e = ar_request_id r \<and>
     (ar_provider_idempotency_key r = Some (pv_provider_key e) \<or>
      ar_provider_correlation_key r = Some (pv_provider_key e))"

definition attempt_evidence_linked :: "attempt_row list \<Rightarrow> positive_evidence_row list \<Rightarrow> bool" where
  "attempt_evidence_linked t evidence \<longleftrightarrow>
     distinct (map pv_evidence_id evidence) \<and> distinct (map pv_attempt_id evidence) \<and>
     (\<forall>e \<in> set evidence. positive_evidence_checks e \<and>
        (\<exists>r. find_attempt_row t (pv_attempt_id e) = Some r \<and> attempt_evidence_fits e r)) \<and>
     (\<forall>r \<in> set t. ar_terminal_evidence_id r \<noteq> None \<longrightarrow> ar_attempt_id r \<in> pv_attempt_id ` set evidence)"

definition sound_attempt :: "provider_attempt \<Rightarrow> bool" where
  "sound_attempt a \<longleftrightarrow> valid_attempt a \<and> attempt_checks a \<and> pa_revision a \<le> i64_max"

definition attempt_row_sound :: "attempt_row \<Rightarrow> bool" where
  "attempt_row_sound r \<longleftrightarrow> (\<exists>a. r = attempt_row_of a \<and> sound_attempt a)"

definition attempt_inv :: "attempt_db \<Rightarrow> bool" where
  "attempt_inv db \<longleftrightarrow> attempt_keys_unique (ad_attempts db) \<and>
     (\<forall>r \<in> set (ad_attempts db). attempt_row_sound r) \<and>
     attempt_evidence_linked (ad_attempts db) (ad_evidence db)"

lemma attempt_inv_find:
  assumes "attempt_inv db" "find_attempt_row (ad_attempts db) k = Some r"
  shows "r \<in> set (ad_attempts db)" "ar_attempt_id r = k" "attempt_row_sound r"
  using assms find_row_Some [of ar_attempt_id "ad_attempts db" k r]
  by (auto simp: attempt_inv_def find_attempt_row_def)

lemma attempt_table_iff:
  "attempt_table db k = Some a \<longleftrightarrow>
     find_attempt_row (ad_attempts db) k = Some (attempt_row_of a) \<and> valid_attempt a"
  by (auto simp: attempt_table_def parse_attempt_row_iff split: option.splits)

lemma attempt_id_text_inject: "attempt_id_text a = attempt_id_text b \<longleftrightarrow> a = b"
  by (cases a; cases b) simp

lemma attempt_table_row:
  assumes "attempt_inv db" "attempt_table db k = Some a"
  shows "find_attempt_row (ad_attempts db) k = Some (attempt_row_of a)" "sound_attempt a"
    "attempt_id_text (pa_attempt_id a) = k"
proof -
  show found: "find_attempt_row (ad_attempts db) k = Some (attempt_row_of a)"
    using assms(2) by (simp add: attempt_table_iff)
  obtain b where "attempt_row_of a = attempt_row_of b" "sound_attempt b"
    using attempt_inv_find(3) [OF assms(1) found] by (auto simp: attempt_row_sound_def)
  then show "sound_attempt a"
    using assms(2) attempt_row_of_inject by (auto simp: attempt_table_iff sound_attempt_def)
  show "attempt_id_text (pa_attempt_id a) = k"
    using attempt_inv_find(2) [OF assms(1) found] by (simp add: attempt_row_of_def)
qed

lemma read_attempt_table:
  assumes "attempt_inv db"
  shows "read_attempt db k = Inr (attempt_table db k)"
proof (cases "find_attempt_row (ad_attempts db) k")
  case None
  then show ?thesis by (simp add: read_attempt_def transpose_map_def attempt_table_def)
next
  case (Some r)
  then obtain a where "parse_attempt_row r = Inr a"
    using attempt_inv_find(3) [OF assms] unfolding attempt_row_sound_def parse_attempt_row_iff sound_attempt_def
    by blast
  with Some show ?thesis by (simp add: read_attempt_def transpose_map_def attempt_table_def)
qed

lemma attempt_table_None:
  assumes "attempt_inv db"
  shows "attempt_table db k = None \<longleftrightarrow> find_attempt_row (ad_attempts db) k = None"
  using read_attempt_table [OF assms, of k]
  by (auto simp: read_attempt_def transpose_map_def attempt_table_def and_then_Ok_iff split: option.splits)

lemma attempt_in_table:
  assumes "attempt_inv db" "r \<in> set (ad_attempts db)"
  shows "\<exists>a. r = attempt_row_of a \<and> attempt_table db (ar_attempt_id r) = Some a"
proof -
  obtain a where "r = attempt_row_of a" "sound_attempt a"
    using assms unfolding attempt_inv_def attempt_row_sound_def by blast
  moreover have "find_attempt_row (ad_attempts db) (ar_attempt_id r) = Some r"
    using assms find_row_distinct [of ar_attempt_id "ad_attempts db" r]
    by (simp add: find_attempt_row_def attempt_inv_def attempt_keys_unique_def)
  ultimately show ?thesis by (auto simp: attempt_table_iff sound_attempt_def)
qed

section \<open>One updated attempt\<close>

text \<open>
  The table after an \<^verbatim>\<open>UPDATE\<close> of one attempt, \<open>a\<close>, to \<open>a'\<close>. What the statement must
  leave alone: the id, the request and the turn; and it opens no closed attempt.
\<close>

definition open_state :: "provider_attempt_state \<Rightarrow> bool" where
  "open_state s \<longleftrightarrow> s \<in> {Prepared, DispatchAuthorized, AttemptUnknown}"

lemma not_terminal_open [simp]: "\<not> attempt_is_terminal s \<longleftrightarrow> open_state s"
  by (auto simp: open_state_def)

lemma open_label: "attempt_state_as_sql s \<in> set [''prepared'', ''dispatch_authorized'', ''unknown''] \<longleftrightarrow> open_state s"
  by (simp add: open_state_def)

definition attempt_kept :: "provider_attempt \<Rightarrow> provider_attempt \<Rightarrow> bool" where
  "attempt_kept a a' \<longleftrightarrow> pa_attempt_id a' = pa_attempt_id a \<and> pa_request_id a' = pa_request_id a \<and>
     pa_consumer a' = pa_consumer a \<and> pa_provider_keys a' = pa_provider_keys a \<and>
     (open_state (pa_state a') \<longrightarrow> open_state (pa_state a))"

definition attempt_update ::
    "attempt_db \<Rightarrow> provider_attempt \<Rightarrow> (attempt_row \<Rightarrow> attempt_row) \<Rightarrow> provider_attempt \<Rightarrow> bool" where
  "attempt_update db a f a' \<longleftrightarrow>
     attempt_table db (attempt_id_text (pa_attempt_id a)) = Some a \<and>
     (\<forall>q. ar_attempt_id (f q) = ar_attempt_id q) \<and>
     f (attempt_row_of a) = attempt_row_of a' \<and> attempt_kept a a'"

definition updated_attempts ::
    "attempt_db \<Rightarrow> provider_attempt_id \<Rightarrow> (attempt_row \<Rightarrow> attempt_row) \<Rightarrow> attempt_row list" where
  "updated_attempts db k f = update_rows (by_attempt k) f (ad_attempts db)"

lemma by_attempt_eq: "by_attempt k = (\<lambda>q. ar_attempt_id q = attempt_id_text k)"
  by (simp add: by_attempt_def fun_eq_iff)

lemma attempt_update_row:
  assumes "attempt_inv db" "attempt_update db a f a'"
  shows "distinct (map ar_attempt_id (ad_attempts db))"
    "find_row ar_attempt_id (ad_attempts db) (attempt_id_text (pa_attempt_id a)) = Some (attempt_row_of a)"
    "ar_attempt_id (f q) = ar_attempt_id q"
  using assms by (simp_all add: attempt_update_def attempt_table_iff find_attempt_row_def attempt_inv_def
      attempt_keys_unique_def)

lemma find_updated_attempt:
  assumes "attempt_inv db" "attempt_update db a f a'"
  shows "find_attempt_row (updated_attempts db (pa_attempt_id a) f) j =
     (if j = attempt_id_text (pa_attempt_id a) then Some (attempt_row_of a')
      else find_attempt_row (ad_attempts db) j)"
  using attempt_update_row [OF assms] assms(2)
  by (simp add: find_attempt_row_def updated_attempts_def by_attempt_eq find_updated_row attempt_update_def)

lemma in_updated_attempt:
  assumes "attempt_inv db" "attempt_update db a f a'"
  shows "q \<in> set (updated_attempts db (pa_attempt_id a) f) \<longleftrightarrow>
     q = attempt_row_of a' \<or> q \<in> set (ad_attempts db) \<and> q \<noteq> attempt_row_of a"
  using in_updated_row [OF attempt_update_row(1,2) [OF assms], of q f] assms(2)
  by (simp add: updated_attempts_def by_attempt_eq attempt_update_def)

lemma updated_attempt_keys:
  assumes inv: "attempt_inv db" and u: "attempt_update db a f a'"
  shows "attempt_keys_unique (updated_attempts db (pa_attempt_id a) f)"
proof -
  note one = attempt_update_row [OF inv u]
  have row: "f (attempt_row_of a) = attempt_row_of a'" and kept: "attempt_kept a a'"
    using u by (simp_all add: attempt_update_def)
  have keys: "attempt_keys_unique (ad_attempts db)" using inv by (simp add: attempt_inv_def)
  have ids: "map ar_attempt_id (updated_attempts db (pa_attempt_id a) f) = map ar_attempt_id (ad_attempts db)"
    unfolding updated_attempts_def by (rule map_update_rows) (rule one(3))
  have requests: "map ar_request_id (updated_attempts db (pa_attempt_id a) f) = map ar_request_id (ad_attempts db)"
    unfolding updated_attempts_def by_attempt_eq update_one_row [OF one(1,2)] row
    using kept by (simp add: attempt_row_of_def attempt_kept_def)
  have "distinct (open_turns (updated_attempts db (pa_attempt_id a) f))"
    unfolding open_turns_def updated_attempts_def by_attempt_eq
  proof (rule distinct_index_update [OF one(1,2)])
    show "distinct (map ar_turn_id (filter (\<lambda>r. ar_state r \<in>
        set [''prepared'', ''dispatch_authorized'', ''unknown'']) (ad_attempts db)))"
      using keys by (simp add: attempt_keys_unique_def open_turns_def)
    show "ar_turn_id (f (attempt_row_of a)) = ar_turn_id (attempt_row_of a)"
      unfolding row using kept by (simp add: attempt_row_of_def attempt_kept_def)
    show "ar_state (f (attempt_row_of a)) \<in> set [''prepared'', ''dispatch_authorized'', ''unknown''] \<longrightarrow>
        ar_state (attempt_row_of a) \<in> set [''prepared'', ''dispatch_authorized'', ''unknown'']"
      unfolding row using kept by (simp add: attempt_row_of_def attempt_kept_def open_state_def)
  qed
  with keys show ?thesis by (simp add: attempt_keys_unique_def ids requests)
qed

lemma update_attempts_iff:
  assumes "attempt_inv db" "attempt_update db a f a'" "ad_attempts db1 = ad_attempts db" "valid_attempt a'"
  shows "update_attempts db1 (by_attempt (pa_attempt_id a)) f = Inr db2 \<longleftrightarrow>
     attempt_checks a' \<and> db2 = db1\<lparr>ad_attempts := updated_attempts db (pa_attempt_id a) f\<rparr>"
proof -
  note one = attempt_update_row [OF assms(1,2)]
  have "f (attempt_row_of a) = attempt_row_of a'" using assms(2) by (simp add: attempt_update_def)
  moreover have "list_all (\<lambda>q. by_attempt (pa_attempt_id a) q \<longrightarrow> attempt_row_checks (f q)) (ad_attempts db)
      \<longleftrightarrow> attempt_row_checks (f (attempt_row_of a))"
  proof -
    have r: "attempt_row_of a \<in> set (ad_attempts db)"
      using find_row_Some [OF one(2)] by blast
    have "by_attempt (pa_attempt_id a) q \<longleftrightarrow> q = attempt_row_of a" if in_t: "q \<in> set (ad_attempts db)" for q
      using find_row_distinct [OF one(1) in_t] one(2) by (auto simp: by_attempt_def attempt_row_of_def)
    with r show ?thesis by (auto simp: list_all_iff)
  qed
  ultimately show ?thesis
    using updated_attempt_keys [OF assms(1,2)] attempt_row_checks_iff [OF assms(4)]
    by (auto simp: update_attempts_def updated_attempts_def assms(3) Let_def)
qed

lemma updated_attempt_table:
  assumes "attempt_inv db" "attempt_update db a f a'" "valid_attempt a'"
    "ad_attempts db' = updated_attempts db (pa_attempt_id a) f"
  shows "attempt_table db' = (attempt_table db)(attempt_id_text (pa_attempt_id a) \<mapsto> a')"
proof
  fix k
  have "parse_attempt_row (attempt_row_of a') = Inr a'" using assms(3) by (simp add: parse_attempt_row_iff)
  then show "attempt_table db' k = ((attempt_table db)(attempt_id_text (pa_attempt_id a) \<mapsto> a')) k"
    by (simp add: attempt_table_def assms(4) find_updated_attempt [OF assms(1,2)])
qed

text \<open>The evidence stays linked: of an attempt without evidence, or of one that gets its evidence.\<close>

lemma other_evidence:
  assumes inv: "attempt_inv db" and u: "attempt_update db a f a'" and a: "pa_terminal_evidence_id a = None"
    and e: "e \<in> set (ad_evidence db)"
  shows "pv_attempt_id e \<noteq> attempt_id_text (pa_attempt_id a) \<and>
    (\<exists>r. find_attempt_row (updated_attempts db (pa_attempt_id a) f) (pv_attempt_id e) = Some r \<and>
       attempt_evidence_fits e r)"
proof -
  obtain r where r: "find_attempt_row (ad_attempts db) (pv_attempt_id e) = Some r" "attempt_evidence_fits e r"
    using inv e by (auto simp: attempt_inv_def attempt_evidence_linked_def)
  have "pv_attempt_id e \<noteq> attempt_id_text (pa_attempt_id a)"
  proof
    assume "pv_attempt_id e = attempt_id_text (pa_attempt_id a)"
    then have "r = attempt_row_of a"
      using r(1) attempt_update_row(2) [OF inv u] by (simp add: find_attempt_row_def)
    then show False using r(2) a by (simp add: attempt_evidence_fits_def attempt_row_of_def)
  qed
  with r show ?thesis by (simp add: find_updated_attempt [OF inv u])
qed

lemma updated_attempt_linked:
  assumes inv: "attempt_inv db" and u: "attempt_update db a f a'"
    and live: "pa_terminal_evidence_id a = None" "pa_terminal_evidence_id a' = None"
  shows "attempt_evidence_linked (updated_attempts db (pa_attempt_id a) f) (ad_evidence db)"
proof -
  have link: "attempt_evidence_linked (ad_attempts db) (ad_evidence db)"
    using inv by (simp add: attempt_inv_def)
  have "ar_attempt_id q \<in> pv_attempt_id ` set (ad_evidence db)"
    if in_t: "q \<in> set (updated_attempts db (pa_attempt_id a) f)" and has: "ar_terminal_evidence_id q \<noteq> None" for q
    using in_t has live(2) link unfolding in_updated_attempt [OF inv u]
    by (auto simp: attempt_row_of_def attempt_evidence_linked_def)
  then show ?thesis
    using link other_evidence [OF inv u live(1)] unfolding attempt_evidence_linked_def by blast
qed

lemma closed_attempt_linked:
  assumes inv: "attempt_inv db" and u: "attempt_update db a f a'" and live: "pa_terminal_evidence_id a = None"
    and e: "positive_evidence_checks e" "pv_attempt_id e = attempt_id_text (pa_attempt_id a)"
      "attempt_evidence_fits e (attempt_row_of a')" "pv_evidence_id e \<notin> pv_evidence_id ` set (ad_evidence db)"
  shows "attempt_evidence_linked (updated_attempts db (pa_attempt_id a) f) (ad_evidence db @ [e])"
proof -
  have link: "attempt_evidence_linked (ad_attempts db) (ad_evidence db)"
    using inv by (simp add: attempt_inv_def)
  note other = other_evidence [OF inv u live]
  have "attempt_id_text (pa_attempt_id a) \<notin> pv_attempt_id ` set (ad_evidence db)"
    using other by (metis imageE)
  then have "distinct (map pv_evidence_id (ad_evidence db @ [e]))" "distinct (map pv_attempt_id (ad_evidence db @ [e]))"
    using link e(2,4) by (auto simp: attempt_evidence_linked_def)
  moreover have "\<forall>d \<in> set (ad_evidence db @ [e]). positive_evidence_checks d \<and>
      (\<exists>r. find_attempt_row (updated_attempts db (pa_attempt_id a) f) (pv_attempt_id d) = Some r \<and>
        attempt_evidence_fits d r)"
    using other link e by (auto simp: find_updated_attempt [OF inv u] attempt_evidence_linked_def)
  moreover have "ar_attempt_id q \<in> pv_attempt_id ` set (ad_evidence db @ [e])"
    if in_t: "q \<in> set (updated_attempts db (pa_attempt_id a) f)" and has: "ar_terminal_evidence_id q \<noteq> None" for q
  proof (cases "q = attempt_row_of a'")
    case True
    then show ?thesis using e(2) u by (simp add: attempt_row_of_def attempt_update_def attempt_kept_def)
  next
    case False
    then have "q \<in> set (ad_attempts db)" using in_t in_updated_attempt [OF inv u] by blast
    with has link show ?thesis by (auto simp: attempt_evidence_linked_def)
  qed
  ultimately show ?thesis unfolding attempt_evidence_linked_def by blast
qed

lemma updated_attempt_inv:
  assumes "attempt_inv db" "attempt_update db a f a'" "sound_attempt a'"
    and "ad_attempts db' = updated_attempts db (pa_attempt_id a) f"
    and "attempt_evidence_linked (updated_attempts db (pa_attempt_id a) f) (ad_evidence db')"
  shows "attempt_inv db'"
  using assms updated_attempt_keys [OF assms(1,2)]
  by (auto simp: attempt_inv_def attempt_row_sound_def in_updated_attempt [OF assms(1,2)])

end
