(* ===== verification/Attempt_Steps.thy ===== *)
theory Attempt_Steps
  imports Attempt_Correct
begin

text \<open>
  The state machine of provider attempts, and the proof that the four mutations of an
  attempt implement it: dispatch authorization, cancellation, loss of the outcome, and
  positive evidence.
\<close>

section \<open>Commands\<close>

datatype attempt_command =
    AuthorizeDispatch fresh_prepared process_generation_id i64
  | CancelAttempt provider_attempt_id i64
  | MarkAttemptUnknown provider_attempt_id i64 provider_attempt_unknown_reason
  | RecordEvidence i64 provider_positive_evidence

fun dispatch_outcome :: "authorize_outcome \<Rightarrow> attempt_outcome" where
  "dispatch_outcome (DispatchFresh f) = AttemptApplied
     \<lparr>am_revision = df_attempt_revision f, am_state = DispatchAuthorized,
      am_recorded_at_micros = df_authorized_at_micros f\<rparr>"
| "dispatch_outcome (DispatchReplayed m) = AttemptReplayed m"
| "dispatch_outcome (DispatchRejected r m) = AttemptRejected r m"

text \<open>\<open>mj\<close> is the printer of the metadata of a non-submission item.\<close>

fun run_attempt_command ::
    "(string \<Rightarrow> string \<Rightarrow> string) \<Rightarrow> i64 option \<Rightarrow> attempt_command \<Rightarrow> attempt_db \<Rightarrow>
     store_error + attempt_outcome \<times> attempt_db" where
  "run_attempt_command mj clock (AuthorizeDispatch p g n) db =
     and_then (authorize_provider_attempt_dispatch clock p g n db) (\<lambda>(out, db'). Inr (dispatch_outcome out, db'))"
| "run_attempt_command mj clock (CancelAttempt k n) db = cancel_provider_attempt clock k n db"
| "run_attempt_command mj clock (MarkAttemptUnknown k n reason) db =
     mark_provider_attempt_unknown clock k n reason db"
| "run_attempt_command mj clock (RecordEvidence n e) db =
     record_provider_attempt_positive_evidence mj clock n e db"

fun command_attempt :: "attempt_command \<Rightarrow> provider_attempt_id" where
  "command_attempt (AuthorizeDispatch p g n) = fp_attempt_id p"
| "command_attempt (CancelAttempt k n) = k"
| "command_attempt (MarkAttemptUnknown k n reason) = k"
| "command_attempt (RecordEvidence n e) = pe_attempt_id e"

definition target_attempt :: "attempt_db \<Rightarrow> attempt_command \<Rightarrow> provider_attempt option" where
  "target_attempt db c = attempt_table db (attempt_id_text (command_attempt c))"

section \<open>The state machine\<close>

inductive attempt_step :: "i64 \<Rightarrow> attempt_command \<Rightarrow> provider_attempt \<Rightarrow> provider_attempt \<Rightarrow> bool" where
  dispatch: "pa_revision a = fp_revision p \<Longrightarrow> pa_state a = Prepared \<Longrightarrow>
    pa_process_generation_id a = g \<Longrightarrow> pa_process_generation_revision a = n \<Longrightarrow>
    attempt_step now (AuthorizeDispatch p g n) a
      (a\<lparr>pa_state := DispatchAuthorized, pa_revision := pa_revision a + 1, pa_updated_at_micros := now\<rparr>)"
| cancel: "pa_revision a = n \<Longrightarrow> pa_state a = Prepared \<Longrightarrow>
    attempt_step now (CancelAttempt k n) a
      (a\<lparr>pa_state := Canceled, pa_unknown_reason := None, pa_revision := pa_revision a + 1,
         pa_updated_at_micros := now\<rparr>)"
| lost: "pa_revision a = n \<Longrightarrow> pa_state a = DispatchAuthorized \<Longrightarrow> reason \<noteq> RestoreProjection \<Longrightarrow>
    attempt_step now (MarkAttemptUnknown k n reason) a
      (a\<lparr>pa_state := AttemptUnknown, pa_unknown_reason := Some reason, pa_revision := pa_revision a + 1,
         pa_updated_at_micros := now\<rparr>)"
| evidence: "pa_revision a = n \<Longrightarrow> pa_state a \<in> {DispatchAuthorized, AttemptUnknown} \<Longrightarrow>
    positive_evidence_validate e = Inr () \<Longrightarrow> pa_request_id a = pe_request_id e \<Longrightarrow>
    keys_contain (pa_provider_keys a) (pe_provider_key e) \<Longrightarrow>
    attempt_step now (RecordEvidence n e) a
      (a\<lparr>pa_state := outcome_state (pe_outcome e), pa_unknown_reason := None,
         pa_terminal_evidence_id := Some (pe_evidence_id e), pa_revision := pa_revision a + 1,
         pa_updated_at_micros := now\<rparr>)"

inductive_simps attempt_step_dispatch: "attempt_step now (AuthorizeDispatch p g n) a a'"
inductive_simps attempt_step_cancel: "attempt_step now (CancelAttempt k n) a a'"
inductive_simps attempt_step_lost: "attempt_step now (MarkAttemptUnknown k n reason) a a'"
inductive_simps attempt_step_evidence: "attempt_step now (RecordEvidence n e) a a'"

lemmas attempt_step_simps = attempt_step_dispatch attempt_step_cancel attempt_step_lost attempt_step_evidence

text \<open>What every step keeps and what it moves.\<close>

lemma attempt_step_open: "attempt_step now c a a' \<Longrightarrow> open_state (pa_state a)"
  by (cases rule: attempt_step.cases, assumption) (auto simp: open_state_def)

lemma attempt_step_moves:
  "attempt_step now c a a' \<Longrightarrow> attempt_kept a a' \<and> pa_revision a' = pa_revision a + 1 \<and>
     pa_state a' \<noteq> Prepared \<and> pa_created_at_micros a' = pa_created_at_micros a \<and>
     pa_updated_at_micros a' = now"
  by (cases rule: attempt_step.cases, assumption) (auto simp: attempt_kept_def open_state_def elim: outcome_state.elims)

lemma attempt_step_process:
  "attempt_step now c a a' \<Longrightarrow> pa_process_generation_id a' = pa_process_generation_id a \<and>
     pa_process_generation_revision a' = pa_process_generation_revision a \<and>
     pa_process_execution_epoch_id a' = pa_process_execution_epoch_id a \<and>
     pa_account_id a' = pa_account_id a \<and> pa_runtime_session_id a' = pa_runtime_session_id a"
  by (cases rule: attempt_step.cases, assumption) simp_all

fun valid_attempt_command :: "attempt_command \<Rightarrow> bool" where
  "valid_attempt_command (RecordEvidence n e) = is_canonical_uuid_v4 (evidence_id_text (pe_evidence_id e))"
| "valid_attempt_command _ = True"

lemma attempt_step_valid:
  "attempt_step now c a a' \<Longrightarrow> valid_attempt_command c \<Longrightarrow> valid_attempt a \<Longrightarrow> valid_attempt a'"
  by (cases rule: attempt_step.cases, assumption) (auto simp: valid_attempt_def)

lemma outcome_state_simps [simp]:
  "outcome_state x \<noteq> Prepared" "outcome_state x \<noteq> Canceled" "outcome_state x \<noteq> DispatchAuthorized"
  "outcome_state x \<noteq> AttemptUnknown"
  "outcome_state x = Succeeded \<or> outcome_state x = FailedDefinitive \<or> outcome_state x = NotSubmitted"
  by (cases x; simp)+

lemma attempt_step_checks:
  "attempt_step now c a a' \<Longrightarrow> attempt_checks a \<Longrightarrow> attempt_checks a' \<longleftrightarrow> pa_created_at_micros a \<le> now"
  by (cases rule: attempt_step.cases, assumption) (auto simp: attempt_checks_def)

lemma attempt_step_live:
  assumes "attempt_step now c a a'" "attempt_checks a"
  shows "pa_terminal_evidence_id a = None"
proof -
  have "pa_state a \<notin> {Succeeded, FailedDefinitive, NotSubmitted}"
    using attempt_step_open [OF assms(1)] by (auto simp: open_state_def)
  then show ?thesis using assms(2) unfolding attempt_checks_def by blast
qed

section \<open>The statement of a command\<close>

fun attempt_command_update :: "i64 \<Rightarrow> attempt_command \<Rightarrow> attempt_row \<Rightarrow> attempt_row" where
  "attempt_command_update now (AuthorizeDispatch p g n) = (\<lambda>r. r\<lparr>ar_state := ''dispatch_authorized'',
     ar_revision := wrapping_add_i64 (fp_revision p) 1, ar_updated_at_micros := now\<rparr>)"
| "attempt_command_update now (CancelAttempt k n) = (\<lambda>r. r\<lparr>ar_state := attempt_state_as_sql Canceled,
     ar_unknown_reason := None, ar_revision := wrapping_add_i64 n 1, ar_updated_at_micros := now\<rparr>)"
| "attempt_command_update now (MarkAttemptUnknown k n reason) = (\<lambda>r. r\<lparr>
     ar_state := attempt_state_as_sql AttemptUnknown, ar_unknown_reason := Some (unknown_reason_as_sql reason),
     ar_revision := wrapping_add_i64 n 1, ar_updated_at_micros := now\<rparr>)"
| "attempt_command_update now (RecordEvidence n e) = (\<lambda>r. r\<lparr>ar_state := outcome_as_sql (pe_outcome e),
     ar_unknown_reason := None, ar_terminal_evidence_id := Some (evidence_id_text (pe_evidence_id e)),
     ar_revision := wrapping_add_i64 n 1, ar_updated_at_micros := now\<rparr>)"

lemma attempt_command_row:
  assumes "attempt_step now c a a'" "0 < pa_revision a" "pa_revision a < i64_max"
  shows "attempt_command_update now c (attempt_row_of a) = attempt_row_of a'"
  using assms(1) wrapping_add_in_range [OF assms(2,3)]
  by (cases rule: attempt_step.cases) (simp_all add: attempt_row_of_def outcome_label)

lemma attempt_command_revision:
  assumes "attempt_row_checks (attempt_command_update now c (attempt_row_of a))" "attempt_step now c a a'"
    and "0 < pa_revision a" "pa_revision a \<le> i64_max"
  shows "pa_revision a < i64_max"
proof -
  have "0 < ar_revision (attempt_command_update now c (attempt_row_of a))"
    using assms(1) by (simp add: attempt_row_checks_def)
  moreover have "ar_revision (attempt_command_update now c (attempt_row_of a)) = wrapping_add_i64 (pa_revision a) 1"
    using assms(2) by (cases rule: attempt_step.cases) simp_all
  ultimately show ?thesis using wrapping_add_pos [OF assms(3,4)] by simp
qed

lemma command_attempt_update:
  assumes inv: "attempt_inv db" and a: "target_attempt db c = Some a" and step: "attempt_step now c a a'"
    and "pa_revision a < i64_max"
  shows "attempt_update db a (attempt_command_update now c) a'" "pa_attempt_id a = command_attempt c"
proof -
  note row = attempt_table_row [OF inv a [unfolded target_attempt_def]]
  show id: "pa_attempt_id a = command_attempt c" using row(3) by (simp add: attempt_id_text_inject)
  have "0 < pa_revision a" using row(2) by (simp add: sound_attempt_def attempt_checks_def)
  then have "attempt_command_update now c (attempt_row_of a) = attempt_row_of a'"
    using attempt_command_row [OF step] assms(4) by blast
  moreover have "ar_attempt_id (attempt_command_update now c q) = ar_attempt_id q" for q by (cases c) simp_all
  ultimately show "attempt_update db a (attempt_command_update now c) a'"
    using a id attempt_step_moves [OF step] by (simp add: attempt_update_def target_attempt_def)
qed

lemma attempt_command_update_iff:
  assumes inv: "attempt_inv db" and a: "target_attempt db c = Some a" and step: "attempt_step now c a a'"
    and c: "valid_attempt_command c" and same: "ad_attempts db1 = ad_attempts db"
  shows "update_attempts db1 (by_attempt (command_attempt c)) (attempt_command_update now c) = Inr db2 \<longleftrightarrow>
    pa_revision a < i64_max \<and> pa_created_at_micros a \<le> now \<and>
    db2 = db1\<lparr>ad_attempts := updated_attempts db (command_attempt c) (attempt_command_update now c)\<rparr>"
proof (cases "pa_revision a < i64_max")
  case True
  note u = command_attempt_update [OF inv a step True]
  have sound: "sound_attempt a" using attempt_table_row [OF inv] a by (simp add: target_attempt_def)
  then have "valid_attempt a'" using attempt_step_valid [OF step c] by (simp add: sound_attempt_def)
  from update_attempts_iff [OF inv u(1) same this, of db2] attempt_step_checks [OF step] sound True u(2)
  show ?thesis by (auto simp: sound_attempt_def)
next
  case False
  note row = attempt_table_row [OF inv a [unfolded target_attempt_def]]
  have checks: "0 < pa_revision a" "pa_revision a \<le> i64_max" using row(2)
    by (simp_all add: sound_attempt_def attempt_checks_def)
  have "attempt_row_of a \<in> set (ad_attempts db)" "by_attempt (command_attempt c) (attempt_row_of a)"
    using attempt_inv_find [OF inv row(1)] row(3) by (simp_all add: by_attempt_def attempt_row_of_def)
  moreover have "\<not> attempt_row_checks (attempt_command_update now c (attempt_row_of a))"
    using attempt_command_revision [OF _ step checks] False by blast
  ultimately show ?thesis using False
    by (auto simp: update_attempts_def Let_def list_all_iff same)
qed

text \<open>
  When a mutation of an attempt applies, exactly, and what it commits: the step of the state
  machine, the evidence, and for a proved non-submission the failed input with its item of
  history.
\<close>

section \<open>When a command applies\<close>

fun attempt_guard :: "attempt_db \<Rightarrow> attempt_command \<Rightarrow> bool" where
  "attempt_guard db (AuthorizeDispatch p g n) \<longleftrightarrow> generation_ready (ad_processes db) g n \<and>
     (\<exists>f. fp_conversation_turn_fence p = Some f \<and> turn_ready db f)"
| "attempt_guard db (RecordEvidence n e) \<longleftrightarrow>
     evidence_id_text (pe_evidence_id e) \<notin> pv_evidence_id ` set (ad_evidence db)"
| "attempt_guard db _ \<longleftrightarrow> True"

fun updated_attempt_db :: "attempt_db \<Rightarrow> i64 \<Rightarrow> attempt_command \<Rightarrow> attempt_db" where
  "updated_attempt_db db now (RecordEvidence n e) =
     db\<lparr>ad_evidence := ad_evidence db @ [evidence_row_of e now],
        ad_attempts := updated_attempts db (pe_attempt_id e) (attempt_command_update now (RecordEvidence n e))\<rparr>"
| "updated_attempt_db db now c =
     db\<lparr>ad_attempts := updated_attempts db (command_attempt c) (attempt_command_update now c)\<rparr>"

fun finished_attempt_db ::
    "(string \<Rightarrow> string \<Rightarrow> string) \<Rightarrow> attempt_db \<Rightarrow> i64 \<Rightarrow> attempt_command \<Rightarrow> provider_attempt \<Rightarrow>
     store_error + attempt_db" where
  "finished_attempt_db mj db now (RecordEvidence n e) a =
     non_submission_finalize mj (updated_attempt_db db now (RecordEvidence n e)) a e now"
| "finished_attempt_db mj db now c a = Inr (updated_attempt_db db now c)"

definition attempt_applies ::
    "(string \<Rightarrow> string \<Rightarrow> string) \<Rightarrow> i64 option \<Rightarrow> attempt_db \<Rightarrow> attempt_command \<Rightarrow> i64 \<Rightarrow>
     provider_attempt \<Rightarrow> provider_attempt \<Rightarrow> attempt_db \<Rightarrow> bool" where
  "attempt_applies mj clock db c now a a' db' \<longleftrightarrow> clock = Some now \<and> 0 < now \<and>
     target_attempt db c = Some a \<and> attempt_step now c a a' \<and> pa_revision a < i64_max \<and>
     pa_created_at_micros a \<le> now \<and> attempt_guard db c \<and> finished_attempt_db mj db now c a = Inr db'"

section \<open>Evidence\<close>

lemma valid_key_length: "valid_key k \<Longrightarrow> 1 \<le> length (request_key_text k) \<and> length (request_key_text k) \<le> 512"
  by (cases "request_key_text k")
    (auto simp: valid_key_def is_bounded_provider_identity_def max_provider_request_key_bytes_def)

lemma evidence_labels_stored:
  "evidence_source_as_sql s \<in> set [''provider_receipt'', ''positive_idempotency_lookup'', ''exact_turn_readback'',
     ''exact_thread_readback'', ''positive_non_submission_receipt'']"
  "outcome_as_sql x \<in> set [''succeeded'', ''failed_definitive'', ''not_submitted'']"
  by (cases s; simp) (cases x; simp)

lemma attempt_evidence_checks:
  assumes "attempt_step now (RecordEvidence n e) a a'" "valid_attempt a"
    "is_canonical_uuid_v4 (evidence_id_text (pe_evidence_id e))" "0 < now"
  shows "positive_evidence_checks (evidence_row_of e now)"
    "attempt_evidence_fits (evidence_row_of e now) (attempt_row_of a')"
proof -
  have e: "positive_evidence_validate e = Inr ()" "pa_request_id a = pe_request_id e"
    "keys_contain (pa_provider_keys a) (pe_provider_key e)"
    using assms(1) by (auto simp: attempt_step_evidence)
  have "valid_key (pe_provider_key e)"
    using e(3) assms(2) by (auto simp: keys_contain_def valid_attempt_def valid_keys_def)
  then have "1 \<le> length (pv_provider_key (evidence_row_of e now))"
    "length (pv_provider_key (evidence_row_of e now)) \<le> 512"
    using valid_key_length by (simp_all add: evidence_row_of_def)
  moreover have "is_canonical_uuid_v4 (request_id_text (pe_request_id e))" "is_sha256 (pe_witness_digest e)"
    using assms(2) e(1,2) by (simp_all add: valid_attempt_def positive_evidence_validate_Ok_iff)
  ultimately show "positive_evidence_checks (evidence_row_of e now)"
    unfolding positive_evidence_checks_def using assms(3,4) evidence_labels_stored
    by (simp add: evidence_row_of_def)
  show "attempt_evidence_fits (evidence_row_of e now) (attempt_row_of a')"
    using assms(1) e(3)
    by (auto simp: attempt_step_evidence attempt_evidence_fits_def evidence_row_of_def attempt_row_of_def
        keys_contain_def outcome_label)
qed

lemma positive_insert_iff:
  assumes inv: "attempt_inv db" and a: "target_attempt db (RecordEvidence n e) = Some a"
    and step: "attempt_step now (RecordEvidence n e) a a'"
    and e: "is_canonical_uuid_v4 (evidence_id_text (pe_evidence_id e))" "0 < now"
  shows "insert_positive_evidence db (evidence_row_of e now) = Inr db1 \<longleftrightarrow>
    evidence_id_text (pe_evidence_id e) \<notin> pv_evidence_id ` set (ad_evidence db) \<and>
    db1 = db\<lparr>ad_evidence := ad_evidence db @ [evidence_row_of e now]\<rparr>"
proof -
  let ?k = "attempt_id_text (pe_attempt_id e)"
  note row = attempt_table_row [OF inv a [unfolded target_attempt_def], simplified]
  have live: "pa_terminal_evidence_id a = None"
    using attempt_step_live [OF step] row(2) by (simp add: sound_attempt_def)
  have "?k \<notin> pv_attempt_id ` set (ad_evidence db)"
  proof
    assume "?k \<in> pv_attempt_id ` set (ad_evidence db)"
    then obtain d where d: "d \<in> set (ad_evidence db)" "pv_attempt_id d = ?k" by auto
    then have "attempt_evidence_fits d (attempt_row_of a)"
      using inv row(1) by (auto simp: attempt_inv_def attempt_evidence_linked_def)
    then show False using live by (simp add: attempt_evidence_fits_def attempt_row_of_def)
  qed
  moreover have "?k \<in> ar_attempt_id ` set (ad_attempts db)"
    using attempt_inv_find [OF inv row(1)] by force
  ultimately show ?thesis
    using attempt_evidence_checks [OF step _ e] row(2)
    by (auto simp: insert_positive_evidence_def evidence_row_of_def sound_attempt_def)
qed

section \<open>One lemma per command\<close>

lemma dispatch_applied:
  assumes inv: "attempt_inv db"
  shows "authorize_provider_attempt_dispatch clock p g n db = Inr (DispatchFresh f, db') \<longleftrightarrow>
    (\<exists>now a a'. attempt_applies mj clock db (AuthorizeDispatch p g n) now a a' db' \<and>
       f = \<lparr>df_attempt_id = fp_attempt_id p, df_attempt_revision = pa_revision a', df_process_generation_id = g,
            df_process_generation_revision = n, df_authorized_at_micros = now\<rparr>)"
proof (cases "attempt_table db (attempt_id_text (fp_attempt_id p))")
  case None
  then show ?thesis
    by (simp add: authorize_provider_attempt_dispatch_def read_attempt_table [OF inv] attempt_applies_def
        target_attempt_def)
next
  case (Some a)
  let ?c = "AuthorizeDispatch p g n"
  have a: "target_attempt db ?c = Some a" using Some by (simp add: target_attempt_def)
  have sound: "0 < pa_revision a"
    using attempt_table_row(2) [OF inv Some] by (simp add: sound_attempt_def attempt_checks_def)
  show ?thesis
  proof (cases "pa_revision a = fp_revision p \<and> pa_state a = Prepared \<and> pa_process_generation_id a = g \<and>
      pa_process_generation_revision a = n \<and> attempt_guard db ?c")
    case True
    then have step: "attempt_step now ?c a (a\<lparr>pa_state := DispatchAuthorized, pa_revision := pa_revision a + 1,
        pa_updated_at_micros := now\<rparr>)" for now
      by (simp add: attempt_step_dispatch)
    show ?thesis
      using True Some sound attempt_command_update_iff [OF inv a step, of db]
      by (auto simp: authorize_provider_attempt_dispatch_def read_attempt_table [OF inv] attempt_applies_def
          target_attempt_def and_then_Ok_iff unix_micros_Ok_iff Let_def attempt_step_dispatch wrapping_add_in_range)
  next
    case False
    then show ?thesis
      using Some
      by (auto simp: authorize_provider_attempt_dispatch_def read_attempt_table [OF inv] attempt_applies_def
          target_attempt_def and_then_Ok_iff attempt_step_dispatch pred_option_def split: option.splits if_splits)
  qed
qed

lemma transition_applied_attempt:
  assumes inv: "attempt_inv db"
    and c: "c = CancelAttempt k n \<and> expected = Prepared \<and> target = Canceled \<and> reason = None \<or>
      c = MarkAttemptUnknown k n u \<and> u \<noteq> RestoreProjection \<and> expected = DispatchAuthorized \<and>
      target = AttemptUnknown \<and> reason = Some u"
  shows "transition_attempt clock k n expected target reason db = Inr (AttemptApplied m, db') \<longleftrightarrow>
    (\<exists>now a a'. attempt_applies mj clock db c now a a' db' \<and> m = attempt_mutation_of a')"
proof (cases "attempt_table db (attempt_id_text k)")
  case None
  then show ?thesis
    using c by (auto simp: transition_attempt_def read_attempt_table [OF inv] attempt_applies_def
        target_attempt_def and_then_Ok_iff)
next
  case (Some a)
  have a: "target_attempt db c = Some a" and valid: "valid_attempt_command c" and gen: "command_attempt c = k"
    and guard: "attempt_guard db c"
    using Some c by (auto simp: target_attempt_def)
  have pos: "0 < pa_revision a"
    using attempt_table_row(2) [OF inv Some] by (simp add: sound_attempt_def attempt_checks_def)
  have update: "attempt_command_update now c = (\<lambda>r. r\<lparr>ar_state := attempt_state_as_sql target,
      ar_unknown_reason := map_option unknown_reason_as_sql reason,
      ar_revision := wrapping_add_i64 n 1, ar_updated_at_micros := now\<rparr>)" for now
    using c by auto
  have db: "finished_attempt_db mj db now c a =
      Inr (db\<lparr>ad_attempts := updated_attempts db k (attempt_command_update now c)\<rparr>)" for now
    using c by auto
  have step_iff: "attempt_step now c a a' \<longleftrightarrow> pa_revision a = n \<and> pa_state a = expected \<and>
      a' = a\<lparr>pa_state := target, pa_unknown_reason := reason, pa_revision := pa_revision a + 1,
        pa_updated_at_micros := now\<rparr>" for now a'
    using c by (auto simp: attempt_step_cancel attempt_step_lost)
  have "expected \<noteq> target" using c by auto
  show ?thesis
  proof (cases "pa_revision a = n \<and> pa_state a = expected")
    case True
    then have step: "attempt_step now c a (a\<lparr>pa_state := target, pa_unknown_reason := reason,
        pa_revision := pa_revision a + 1, pa_updated_at_micros := now\<rparr>)" for now
      by (simp add: step_iff)
    have "transition_attempt clock k n expected target reason db = Inr (AttemptApplied m, db') \<longleftrightarrow>
      (\<exists>now. clock = Some now \<and> 0 < now \<and> n < i64_max \<and> pa_created_at_micros a \<le> now \<and>
        m = \<lparr>am_revision = n + 1, am_state = target, am_recorded_at_micros = now\<rparr> \<and>
        db' = db\<lparr>ad_attempts := updated_attempts db k (attempt_command_update now c)\<rparr>)"
      using True \<open>expected \<noteq> target\<close> pos Some attempt_command_update_iff [OF inv a step valid, of db]
      by (auto simp: transition_attempt_def read_attempt_table [OF inv] and_then_Ok_iff unix_micros_Ok_iff
          Let_def wrapping_add_in_range update gen)
    also have "\<dots> \<longleftrightarrow> (\<exists>now a a'. attempt_applies mj clock db c now a a' db' \<and> m = attempt_mutation_of a')"
      using True by (auto simp: attempt_applies_def a step_iff guard db attempt_mutation_of_def)
    finally show ?thesis .
  next
    case False
    then show ?thesis
      using Some a by (auto simp: transition_attempt_def read_attempt_table [OF inv] attempt_applies_def
          and_then_Ok_iff step_iff attempt_rejected_def)
  qed
qed

lemma evidence_applied:
  assumes inv: "attempt_inv db" and e: "is_canonical_uuid_v4 (evidence_id_text (pe_evidence_id e))"
  shows "run_attempt_command mj clock (RecordEvidence n e) db = Inr (AttemptApplied m, db') \<longleftrightarrow>
    (\<exists>now a a'. attempt_applies mj clock db (RecordEvidence n e) now a a' db' \<and> m = attempt_mutation_of a')"
proof (cases "attempt_table db (attempt_id_text (pe_attempt_id e))")
  case None
  then show ?thesis
    by (simp add: record_provider_attempt_positive_evidence_def read_attempt_table [OF inv] attempt_applies_def
        target_attempt_def)
next
  case (Some a)
  let ?c = "RecordEvidence n e"
  have a: "target_attempt db ?c = Some a" and valid: "valid_attempt_command ?c"
    using Some e by (simp_all add: target_attempt_def)
  have pos: "0 < pa_revision a"
    using attempt_table_row(2) [OF inv Some] by (simp add: sound_attempt_def attempt_checks_def)
  show ?thesis
  proof (cases "positive_evidence_validate e = Inr () \<and> pa_revision a = n \<and>
      pa_state a \<in> {DispatchAuthorized, AttemptUnknown} \<and> pa_request_id a = pe_request_id e \<and>
      keys_contain (pa_provider_keys a) (pe_provider_key e)")
    case True
    then have step: "attempt_step now ?c a (a\<lparr>pa_state := outcome_state (pe_outcome e), pa_unknown_reason := None,
        pa_terminal_evidence_id := Some (pe_evidence_id e), pa_revision := pa_revision a + 1,
        pa_updated_at_micros := now\<rparr>)" for now
      by (simp add: attempt_step_evidence)
    have open_a: "\<not> attempt_is_terminal (pa_state a)" using attempt_step_open [OF step] by (simp add: open_state_def)
    show ?thesis
      using True Some pos open_a positive_insert_iff [OF inv a step e] attempt_command_update_iff [OF inv a step valid]
      by (auto simp: record_provider_attempt_positive_evidence_def read_attempt_table [OF inv]
          attempt_applies_def a and_then_Ok_iff unix_micros_Ok_iff Let_def attempt_step_evidence
          wrapping_add_in_range attempt_mutation_of_def)
  next
    case False
    then show ?thesis
      using Some a
      by (auto simp: record_provider_attempt_positive_evidence_def read_attempt_table [OF inv]
          attempt_applies_def and_then_Ok_iff attempt_rejected_def attempt_step_evidence)
  qed
qed

lemma attempt_command_applied:
  assumes "attempt_inv db" "valid_attempt_command c"
  shows "run_attempt_command mj clock c db = Inr (AttemptApplied m, db') \<longleftrightarrow>
    (\<exists>now a a'. attempt_applies mj clock db c now a a' db' \<and> m = attempt_mutation_of a')"
proof (cases c)
  case (AuthorizeDispatch p g n)
  have "run_attempt_command mj clock c db = Inr (AttemptApplied m, db') \<longleftrightarrow>
    (\<exists>f. authorize_provider_attempt_dispatch clock p g n db = Inr (DispatchFresh f, db') \<and>
       m = \<lparr>am_revision = df_attempt_revision f, am_state = DispatchAuthorized,
         am_recorded_at_micros = df_authorized_at_micros f\<rparr>)"
  proof -
    have "dispatch_outcome out = AttemptApplied m \<longleftrightarrow> (\<exists>f. out = DispatchFresh f \<and>
       m = \<lparr>am_revision = df_attempt_revision f, am_state = DispatchAuthorized,
         am_recorded_at_micros = df_authorized_at_micros f\<rparr>)" for out
      by (cases out) auto
    then show ?thesis by (auto simp: AuthorizeDispatch and_then_Ok_iff)
  qed
  then show ?thesis
    unfolding dispatch_applied [OF assms(1), where mj = mj]
    by (auto simp: AuthorizeDispatch attempt_applies_def attempt_step_dispatch attempt_mutation_of_def)
next
  case (CancelAttempt k n)
  then show ?thesis using transition_applied_attempt [OF assms(1), of c k n]
    by (simp add: cancel_provider_attempt_def)
next
  case (MarkAttemptUnknown k n reason)
  then show ?thesis
    using transition_applied_attempt [OF assms(1), of c k n _ _ _ reason]
    by (cases "reason = RestoreProjection")
      (simp_all add: mark_provider_attempt_unknown_def attempt_applies_def attempt_step_lost)
qed (use evidence_applied assms in simp_all)

lemma attempt_command_other:
  assumes "attempt_inv db" "run_attempt_command mj clock c db = Inr (out, db')" "\<nexists>m. out = AttemptApplied m"
  shows "db' = db"
proof (cases c)
  case (AuthorizeDispatch p g n)
  then obtain o1 where "authorize_provider_attempt_dispatch clock p g n db = Inr (o1, db')" "out = dispatch_outcome o1"
    using assms(2) by (auto simp: and_then_Ok_iff)
  moreover have "\<nexists>f. o1 = DispatchFresh f" using calculation(2) assms(3) by auto
  ultimately show ?thesis
    by (auto simp: authorize_provider_attempt_dispatch_def read_attempt_table [OF assms(1)] and_then_Ok_iff
        Let_def split: if_splits option.splits)
qed (use assms(2,3) in \<open>auto simp: cancel_provider_attempt_def mark_provider_attempt_unknown_def
    transition_attempt_def record_provider_attempt_positive_evidence_def read_attempt_table [OF assms(1)]
    and_then_Ok_iff attempt_rejected_def Let_def split: if_splits option.splits\<close>)

section \<open>What a command commits\<close>

lemma non_submission_keeps:
  "non_submission_finalize mj db a e now = Inr db' \<Longrightarrow>
     ad_attempts db' = ad_attempts db \<and> ad_evidence db' = ad_evidence db \<and> ad_processes db' = ad_processes db \<and>
     ad_plans db' = ad_plans db \<and> ad_sessions db' = ad_sessions db \<and> ad_decisions db' = ad_decisions db"
  by (auto simp: non_submission_finalize_def and_then_Ok_iff update_turns_def insert_history_def
      touch_conversation_def Let_def split: if_splits option.splits)

lemma attempt_applied_keeps:
  assumes "attempt_applies mj clock db c now a a' db'"
  shows "ad_attempts db' = updated_attempts db (command_attempt c) (attempt_command_update now c)"
    and "ad_evidence db' = ad_evidence db @ (case c of RecordEvidence n e \<Rightarrow> [evidence_row_of e now] | _ \<Rightarrow> [])"
    and "ad_processes db' = ad_processes db"
    and "ad_plans db' = ad_plans db" "ad_sessions db' = ad_sessions db"
  using assms unfolding attempt_applies_def
  by (cases c; auto dest: non_submission_keeps)+

lemma applied_attempt:
  assumes inv: "attempt_inv db" and applies: "attempt_applies mj clock db c now a a' db'"
    and c: "valid_attempt_command c"
  shows "attempt_table db' = (attempt_table db)(attempt_id_text (command_attempt c) \<mapsto> a')"
    and "attempt_inv db'"
proof -
  have a: "target_attempt db c = Some a" and step: "attempt_step now c a a'" and max: "pa_revision a < i64_max"
    and now: "0 < now" "pa_created_at_micros a \<le> now" and guard: "attempt_guard db c"
    using applies by (simp_all add: attempt_applies_def)
  have sound: "sound_attempt a" using attempt_table_row [OF inv] a by (simp add: target_attempt_def)
  note u = command_attempt_update [OF inv a step max]
  note kept = attempt_applied_keeps [OF applies, folded u(2)]
  have sound': "sound_attempt a'"
    using sound attempt_step_valid [OF step c] attempt_step_checks [OF step] now(2) max attempt_step_moves [OF step]
    by (auto simp: sound_attempt_def)
  show "attempt_table db' = (attempt_table db)(attempt_id_text (command_attempt c) \<mapsto> a')"
    using updated_attempt_table [OF inv u(1) _ kept(1)] sound' u(2) by (simp add: sound_attempt_def)
  have live: "pa_terminal_evidence_id a = None"
    using attempt_step_live [OF step] sound by (simp add: sound_attempt_def)
  have "attempt_evidence_linked (updated_attempts db (pa_attempt_id a) (attempt_command_update now c)) (ad_evidence db')"
  proof (cases "\<exists>n e. c = RecordEvidence n e")
    case True
    then obtain n e where ce: "c = RecordEvidence n e" by blast
    have "is_canonical_uuid_v4 (evidence_id_text (pe_evidence_id e))" using c ce by simp
    note checks = attempt_evidence_checks [OF step [unfolded ce] _ this now(1)]
    have "ad_evidence db' = ad_evidence db @ [evidence_row_of e now]" using kept(2) ce by simp
    moreover have "attempt_evidence_linked (updated_attempts db (pa_attempt_id a) (attempt_command_update now c))
        (ad_evidence db @ [evidence_row_of e now])"
      using checks sound guard u(2) ce
      by (intro closed_attempt_linked [OF inv u(1) live]) (simp_all add: sound_attempt_def evidence_row_of_def)
    ultimately show ?thesis by simp
  next
    case False
    then have "pa_terminal_evidence_id a' = None" using step live by (cases c) (auto simp: attempt_step_simps)
    moreover have "ad_evidence db' = ad_evidence db" using kept(2) False by (cases c) auto
    ultimately show ?thesis using updated_attempt_linked [OF inv u(1) live] by simp
  qed
  then show "attempt_inv db'" by (rule updated_attempt_inv [OF inv u(1) sound' kept(1)])
qed

end
