(* ===== verification/Attempt_Life.thy ===== *)
theory Attempt_Life
  imports Attempt_Steps
begin

text \<open>
  The preparation of an attempt, exactly: when it is admitted and which row it inserts. Then
  the table of attempts as a system of steps, and its interpretation of the contract of
  revision-fenced rows: the terminal attempts are the fixed ones.
\<close>

section \<open>The prepared attempt\<close>

definition fresh_attempt ::
    "provider_attempt_preparation \<Rightarrow> attempt_authority \<Rightarrow> process_generation_id \<Rightarrow> i64 \<Rightarrow>
     process_execution_epoch_id \<Rightarrow> i64 \<Rightarrow> provider_attempt" where
  "fresh_attempt preparation authority generation generation_revision epoch now =
     \<lparr>pa_attempt_id = pp_attempt_id preparation, pa_consumer = pp_consumer preparation,
      pa_continuation_plan_id = pp_continuation_plan_id preparation,
      pa_routing_decision_id = au_routing_decision_id authority,
      pa_runtime_session_id = RuntimeSessionId (au_runtime_session_id authority),
      pa_runtime_session_revision = au_runtime_session_revision authority,
      pa_account_id = AccountId (au_account_id authority),
      pa_process_generation_id = generation, pa_process_generation_revision = generation_revision,
      pa_process_execution_epoch_id = epoch, pa_request_id = pp_request_id preparation,
      pa_request_digest = pp_request_digest preparation, pa_provider_keys = pp_provider_keys preparation,
      pa_duplicate_risk = pp_duplicate_risk preparation, pa_state = Prepared, pa_unknown_reason = None,
      pa_terminal_evidence_id = None, pa_revision = 1, pa_created_at_micros = now, pa_updated_at_micros = now\<rparr>"

text \<open>The values that the constructors of the code validate.\<close>

definition valid_preparation :: "provider_attempt_preparation \<Rightarrow> bool" where
  "valid_preparation p \<longleftrightarrow>
     is_canonical_uuid_v4 (attempt_id_text (pp_attempt_id p)) \<and>
     is_canonical_uuid_v4 (request_id_text (pp_request_id p)) \<and>
     is_canonical_uuid (conversation_id_text (consumer_conversation (pp_consumer p))) \<and>
     is_canonical_uuid (turn_id_text (consumer_turn (pp_consumer p))) \<and>
     valid_keys (pp_provider_keys p) \<and> valid_risk (pp_duplicate_risk p)"

text \<open>What the writers of plans and sessions keep of their rows.\<close>

definition plans_sound :: "attempt_db \<Rightarrow> bool" where
  "plans_sound db \<longleftrightarrow>
     (\<forall>p \<in> set (ad_plans db). is_canonical_uuid (pl_selected_account_id p)) \<and>
     (\<forall>s \<in> set (ad_sessions db). is_canonical_uuid (sr_runtime_session_id s) \<and> 0 < sr_revision s)"

definition fence_of :: "provider_attempt_preparation \<Rightarrow> i64 \<Rightarrow> turn_fence" where
  "fence_of preparation conversation_revision =
     \<lparr>tf_conversation_id = consumer_conversation (pp_consumer preparation),
      tf_conversation_revision = conversation_revision,
      tf_turn_id = consumer_turn (pp_consumer preparation), tf_turn_revision = 1\<rparr>"

lemma preparation_turn_fence_iff:
  "preparation_turn_fence p c t = Inr fence \<longleftrightarrow>
     (\<exists>r. c = Some r \<and> 0 < r \<and> t = Some 1 \<and> fence = fence_of p r)"
  by (cases c; cases t) (auto simp: preparation_turn_fence_def fence_of_def)

lemma prepared_row_fresh:
  "prepared_row p (fence_of p r) authority g n epoch now = attempt_row_of (fresh_attempt p authority g n epoch now)"
  by (simp add: prepared_row_def attempt_row_of_def fresh_attempt_def fence_of_def)

section \<open>The authority\<close>

lemma find_row_in: "find_row key t k = Some r \<Longrightarrow> k \<in> key ` set t"
  using find_row_Some by force

definition authority_joins ::
    "attempt_db \<Rightarrow> provider_attempt_preparation \<Rightarrow> process_generation_id \<Rightarrow> plan_row \<Rightarrow> session_row \<Rightarrow> session_row \<Rightarrow>
     conversation_row \<Rightarrow> turn_row \<Rightarrow> generation_row \<Rightarrow> bool" where
  "authority_joins db preparation generation p source execution c t g \<longleftrightarrow>
     find_row pl_continuation_plan_id (ad_plans db) (pp_continuation_plan_id preparation) = Some p \<and>
     find_row sr_runtime_session_id (ad_sessions db) (pl_source_runtime_session_id p) = Some source \<and>
     find_row sr_runtime_session_id (ad_sessions db) (plan_session p) = Some execution \<and>
     find_row cv_conversation_id (ad_conversations db) (pl_conversation_id p) = Some c \<and>
     find_row tr_turn_id (ad_turns db) (pl_turn_id p) = Some t \<and>
     find_generation_row (gd_generations (ad_processes db)) (generation_id_text generation) = Some g"

lemma authority_iff:
  "read_prepared_attempt_authority db preparation generation n epoch key fence = Some authority \<longleftrightarrow>
     (\<exists>p source execution c t g. authority_joins db preparation generation p source execution c t g \<and>
        pl_routing_decision_id p \<in> set (ad_decisions db) \<and>
        authority_row preparation n epoch key fence p source execution c t g \<and>
        authority = \<lparr>au_routing_decision_id = pl_routing_decision_id p,
              au_runtime_session_id = plan_session p, au_runtime_session_revision = sr_revision execution,
              au_account_id = pl_selected_account_id p, au_plan_kind = pl_kind p,
              au_source_runtime_session_id = pl_source_runtime_session_id p\<rparr>)"
  by (auto simp: read_prepared_attempt_authority_def authority_joins_def bind_eq_Some_conv)

text \<open>What an authority grants: the columns of the new row, and the process it runs on.\<close>

lemma authority_grants:
  assumes "read_prepared_attempt_authority db p g n epoch key (fence_of p r) = Some authority"
  shows "conversation_id_text (consumer_conversation (pp_consumer p)) \<in> cv_conversation_id ` set (ad_conversations db)"
    "turn_id_text (consumer_turn (pp_consumer p)) \<in> tr_turn_id ` set (ad_turns db)"
    "pp_continuation_plan_id p \<in> pl_continuation_plan_id ` set (ad_plans db)"
    "au_routing_decision_id authority \<in> set (ad_decisions db)"
    "\<exists>s \<in> set (ad_sessions db). sr_runtime_session_id s = au_runtime_session_id authority \<and>
       sr_revision s = au_runtime_session_revision authority"
    "\<exists>q \<in> set (ad_plans db). pl_selected_account_id q = au_account_id authority"
    "\<exists>q. find_generation_row (gd_generations (ad_processes db)) (generation_id_text g) = Some q \<and>
       gr_revision q = n \<and> gr_state q = ''ready'' \<and> gr_execution_epoch_id q = epoch_id_text epoch \<and>
       gr_account_id q = au_account_id authority \<and>
       gr_runtime_session_id q = Some (au_runtime_session_id authority)"
proof -
  obtain pl source execution c t q where j: "authority_joins db p g pl source execution c t q"
    and d: "pl_routing_decision_id pl \<in> set (ad_decisions db)"
    and row: "authority_row p n epoch key (fence_of p r) pl source execution c t q"
    and au: "authority = \<lparr>au_routing_decision_id = pl_routing_decision_id pl,
              au_runtime_session_id = plan_session pl, au_runtime_session_revision = sr_revision execution,
              au_account_id = pl_selected_account_id pl, au_plan_kind = pl_kind pl,
              au_source_runtime_session_id = pl_source_runtime_session_id pl\<rparr>"
    using assms unfolding authority_iff by blast
  note join = j [unfolded authority_joins_def] and fact = row [unfolded authority_row_def fence_of_def, simplified]
  show "conversation_id_text (consumer_conversation (pp_consumer p)) \<in> cv_conversation_id ` set (ad_conversations db)"
    using find_row_in [of cv_conversation_id] join fact by metis
  show "turn_id_text (consumer_turn (pp_consumer p)) \<in> tr_turn_id ` set (ad_turns db)"
    using find_row_in [of tr_turn_id] join fact by metis
  show "pp_continuation_plan_id p \<in> pl_continuation_plan_id ` set (ad_plans db)"
    using find_row_in [of pl_continuation_plan_id] join by metis
  show "au_routing_decision_id authority \<in> set (ad_decisions db)" using d au by simp
  have "execution \<in> set (ad_sessions db) \<and> sr_runtime_session_id execution = plan_session pl"
    using find_row_Some [of sr_runtime_session_id "ad_sessions db" "plan_session pl" execution] join by blast
  then show "\<exists>s \<in> set (ad_sessions db). sr_runtime_session_id s = au_runtime_session_id authority \<and>
       sr_revision s = au_runtime_session_revision authority" using au by auto
  have "pl \<in> set (ad_plans db)" using find_row_Some [of pl_continuation_plan_id "ad_plans db" _ pl] join by blast
  then show "\<exists>q \<in> set (ad_plans db). pl_selected_account_id q = au_account_id authority" using au by auto
  show "\<exists>q. find_generation_row (gd_generations (ad_processes db)) (generation_id_text g) = Some q \<and>
       gr_revision q = n \<and> gr_state q = ''ready'' \<and> gr_execution_epoch_id q = epoch_id_text epoch \<and>
       gr_account_id q = au_account_id authority \<and>
       gr_runtime_session_id q = Some (au_runtime_session_id authority)"
    using join fact au find_row_Some [of sr_runtime_session_id "ad_sessions db" "plan_session pl" execution] by auto
qed

lemma fresh_attempt_sound:
  assumes "valid_preparation p" "plans_sound db" "preparation_validate p = Inr ()" "0 < n" "0 < now"
    "is_canonical_uuid (generation_id_text g)" "is_canonical_uuid (epoch_id_text epoch)"
    "read_prepared_attempt_authority db p g n epoch key (fence_of p r) = Some authority"
  shows "sound_attempt (fresh_attempt p authority g n epoch now)"
proof -
  have "is_canonical_uuid (au_account_id authority)" "is_canonical_uuid (au_runtime_session_id authority)"
    "0 < au_runtime_session_revision authority"
    using authority_grants(5,6) [OF assms(8)] assms(2) unfolding plans_sound_def by metis+
  moreover have "null_or (\<lambda>d. sql_length d = 64) (risk_acknowledgement (pp_duplicate_risk p))"
    using assms(3) by (cases "pp_duplicate_risk p") (auto simp: preparation_validate_Ok_iff null_or_def)
  ultimately show ?thesis
    using assms by (simp add: sound_attempt_def valid_attempt_def attempt_checks_def fresh_attempt_def
        valid_preparation_def preparation_validate_Ok_iff i64_max_def)
qed

section \<open>Admission of an attempt\<close>

lemma attempt_rows_ran:
  assumes "attempt_inv db"
  shows "set (ad_attempts db) = attempt_row_of ` ran (attempt_table db)"
proof (intro equalityI subsetI)
  show "r \<in> attempt_row_of ` ran (attempt_table db)" if in_t: "r \<in> set (ad_attempts db)" for r
    using attempt_in_table [OF assms in_t] by (auto intro: ranI)
  show "r \<in> set (ad_attempts db)" if in_ran: "r \<in> attempt_row_of ` ran (attempt_table db)" for r
  proof -
    obtain a k where "r = attempt_row_of a" "attempt_table db k = Some a" using in_ran by (auto simp: ran_def)
    then show ?thesis
      using attempt_table_row(1) [OF assms] attempt_inv_find(1) [OF assms] by blast
  qed
qed

text \<open>No earlier attempt has the request, and no open attempt has the turn.\<close>

definition attempt_columns_free :: "attempt_db \<Rightarrow> provider_attempt_preparation \<Rightarrow> bool" where
  "attempt_columns_free db p \<longleftrightarrow>
     (\<forall>a \<in> ran (attempt_table db). pa_request_id a \<noteq> pp_request_id p \<and>
        (consumer_turn (pa_consumer a) = consumer_turn (pp_consumer p) \<longrightarrow> \<not> open_state (pa_state a)))"

lemma id_texts_inject:
  "request_id_text a = request_id_text b \<longleftrightarrow> a = b" "turn_id_text c = turn_id_text d \<longleftrightarrow> c = d"
  by (cases a; cases b; simp) (cases c; cases d; simp)

lemma attempt_row_columns:
  "ar_attempt_id (attempt_row_of a) = attempt_id_text (pa_attempt_id a)"
  "ar_request_id (attempt_row_of a) = request_id_text (pa_request_id a)"
  "ar_turn_id (attempt_row_of a) = turn_id_text (consumer_turn (pa_consumer a))"
  "ar_state (attempt_row_of a) = attempt_state_as_sql (pa_state a)"
  by (simp_all add: attempt_row_of_def)

lemma open_turns_ran:
  assumes "attempt_inv db"
  shows "set (open_turns (ad_attempts db)) =
     {turn_id_text (consumer_turn (pa_consumer a)) | a. a \<in> ran (attempt_table db) \<and> open_state (pa_state a)}"
proof -
  have "{r \<in> attempt_row_of ` R. P r} = attempt_row_of ` {a \<in> R. P (attempt_row_of a)}" for R P by blast
  then show ?thesis
    unfolding open_turns_def set_map set_filter attempt_rows_ran [OF assms]
    by (simp only: image_image attempt_row_columns open_label) blast
qed

lemma prepared_keys_iff:
  assumes "attempt_inv db" "attempt_table db (attempt_id_text (pp_attempt_id p)) = None"
  shows "attempt_keys_unique (ad_attempts db @ [attempt_row_of (fresh_attempt p authority g n epoch now)]) \<longleftrightarrow>
    attempt_columns_free db p"
proof -
  let ?r = "attempt_row_of (fresh_attempt p authority g n epoch now)"
  have cols: "ar_attempt_id ?r = attempt_id_text (pp_attempt_id p)"
    "ar_request_id ?r = request_id_text (pp_request_id p)"
    "ar_turn_id ?r = turn_id_text (consumer_turn (pp_consumer p))" "ar_state ?r = ''prepared''"
    by (simp_all add: attempt_row_of_def fresh_attempt_def)
  have "attempt_id_text (pp_attempt_id p) \<notin> ar_attempt_id ` set (ad_attempts db)"
    using assms(2) unfolding attempt_table_None [OF assms(1)] find_attempt_row_def find_row_None by auto
  moreover have "request_id_text (pp_request_id p) \<notin> ar_request_id ` set (ad_attempts db) \<longleftrightarrow>
      (\<forall>a \<in> ran (attempt_table db). pa_request_id a \<noteq> pp_request_id p)"
    unfolding attempt_rows_ran [OF assms(1)]
    by (simp add: image_image attempt_row_columns image_iff id_texts_inject) metis
  moreover have "turn_id_text (consumer_turn (pp_consumer p)) \<notin> set (open_turns (ad_attempts db)) \<longleftrightarrow>
      (\<forall>a \<in> ran (attempt_table db). consumer_turn (pa_consumer a) = consumer_turn (pp_consumer p) \<longrightarrow>
         \<not> open_state (pa_state a))"
    unfolding open_turns_ran [OF assms(1)] by (auto simp: id_texts_inject)
  moreover have "open_turns (ad_attempts db @ [?r]) =
      open_turns (ad_attempts db) @ [turn_id_text (consumer_turn (pp_consumer p))]"
    by (simp add: open_turns_def cols)
  moreover have "attempt_keys_unique (ad_attempts db)" using assms(1) by (simp add: attempt_inv_def)
  ultimately show ?thesis
    by (auto simp: attempt_keys_unique_def attempt_columns_free_def cols)
qed

definition attempt_admitted ::
    "(byte list \<Rightarrow> blob_hash) \<Rightarrow> i64 option \<Rightarrow> provider_attempt_preparation \<Rightarrow> process_generation_id \<Rightarrow> i64 \<Rightarrow>
     process_execution_epoch_id \<Rightarrow> string option \<Rightarrow> i64 option \<times> i64 option \<Rightarrow> attempt_db \<Rightarrow> i64 \<Rightarrow> i64 \<Rightarrow>
     attempt_authority \<Rightarrow> bool" where
  "attempt_admitted digest clock p g n epoch key revisions db now r authority \<longleftrightarrow>
     clock = Some now \<and> 0 < now \<and> preparation_validate p = Inr () \<and> 0 < n \<and>
     revisions = (Some r, Some 1) \<and> 0 < r \<and>
     attempt_table db (attempt_id_text (pp_attempt_id p)) = None \<and>
     read_prepared_attempt_authority db p g n epoch key (fence_of p r) = Some authority \<and>
     duplicate_risk_matches_plan digest db (pp_duplicate_risk p) (consumer_conversation (pp_consumer p))
       (consumer_turn (pp_consumer p)) (au_plan_kind authority) (au_source_runtime_session_id authority)
       (pp_continuation_plan_id p) \<and>
     attempt_columns_free db p \<and>
     au_account_id authority \<in> acr_account_id ` set (gd_accounts (ad_processes db)) \<and>
     epoch_id_text epoch \<in> er_execution_epoch_id ` set (gd_epochs (ad_processes db))"

lemma risk_predecessor_stored:
  assumes "duplicate_risk_matches_plan digest db risk c t kind source plan"
  shows "null_or (\<lambda>p. p \<in> ar_attempt_id ` set (ad_attempts db @ rs)) (risk_predecessor risk)"
proof (cases risk)
  case (AcknowledgedSuccessor predecessor d)
  then have "predecessor_recoverable db predecessor c source t"
    using assms by (auto simp: duplicate_risk_matches_plan_def split: if_splits)
  then obtain q where "find_attempt_row (ad_attempts db) (attempt_id_text predecessor) = Some q"
    by (auto simp: predecessor_recoverable_def split: option.splits)
  then have "attempt_id_text predecessor \<in> ar_attempt_id ` set (ad_attempts db)"
    unfolding find_attempt_row_def by (rule find_row_in)
  then have "attempt_id_text predecessor \<in> ar_attempt_id ` set (ad_attempts db @ rs)" by auto
  then show ?thesis unfolding AcknowledgedSuccessor null_or_def risk_predecessor.simps option.case .
qed (simp add: null_or_def)

lemma insert_prepared_iff:
  assumes inv: "attempt_inv db" and p: "valid_preparation p" "plans_sound db" "preparation_validate p = Inr ()"
    and n: "0 < n" "0 < now" "is_canonical_uuid (generation_id_text g)" "is_canonical_uuid (epoch_id_text epoch)"
    and none: "attempt_table db (attempt_id_text (pp_attempt_id p)) = None"
    and au: "read_prepared_attempt_authority db p g n epoch key (fence_of p r) = Some authority"
    and risk: "duplicate_risk_matches_plan digest db (pp_duplicate_risk p) c t kind source plan"
  shows "insert_attempt db (prepared_row p (fence_of p r) authority g n epoch now) = Inr db' \<longleftrightarrow>
    attempt_columns_free db p \<and> au_account_id authority \<in> acr_account_id ` set (gd_accounts (ad_processes db)) \<and>
    epoch_id_text epoch \<in> er_execution_epoch_id ` set (gd_epochs (ad_processes db)) \<and>
    db' = db\<lparr>ad_attempts := ad_attempts db @ [attempt_row_of (fresh_attempt p authority g n epoch now)]\<rparr>"
proof -
  let ?r = "attempt_row_of (fresh_attempt p authority g n epoch now)"
  note grants = authority_grants [OF au]
  have "attempt_row_checks ?r"
    using fresh_attempt_sound [OF p n(1,2,3,4) au] attempt_row_checks_iff by (simp add: sound_attempt_def)
  moreover have "ar_conversation_id ?r \<in> cv_conversation_id ` set (ad_conversations db)"
    "ar_turn_id ?r \<in> tr_turn_id ` set (ad_turns db)"
    "ar_continuation_plan_id ?r \<in> pl_continuation_plan_id ` set (ad_plans db)"
    "ar_routing_decision_id ?r \<in> set (ad_decisions db)"
    using grants(1-4) by (simp_all add: attempt_row_of_def fresh_attempt_def)
  moreover have "ar_runtime_session_id ?r \<in> sr_runtime_session_id ` set (ad_sessions db)"
    using grants(5) by (force simp: attempt_row_of_def fresh_attempt_def)
  moreover have "ar_process_generation_id ?r \<in> gr_generation_id ` set (gd_generations (ad_processes db))"
    using grants(7) find_row_in unfolding find_generation_row_def by (auto simp: attempt_row_of_def fresh_attempt_def)
  moreover have "null_or (\<lambda>q. q \<in> ar_attempt_id ` set (ad_attempts db @ [?r])) (ar_predecessor_attempt_id ?r)"
    using risk_predecessor_stored [OF risk, of "[?r]"] by (simp add: attempt_row_of_def fresh_attempt_def)
  moreover have "ar_account_id ?r = au_account_id authority" "ar_execution_epoch_id ?r = epoch_id_text epoch"
    by (simp_all add: attempt_row_of_def fresh_attempt_def)
  ultimately show ?thesis
    unfolding insert_attempt_def prepared_row_fresh prepared_keys_iff [OF inv none, of authority g n epoch now]
    by auto
qed

lemma prepare_attempt_fresh:
  assumes inv: "attempt_inv db" and p: "valid_preparation p" "plans_sound db"
    and ids: "is_canonical_uuid (generation_id_text g)" "is_canonical_uuid (epoch_id_text epoch)"
  shows "prepare_provider_attempt digest clock p g n epoch key revisions db = Inr (AttemptFresh f, db') \<longleftrightarrow>
    (\<exists>now r authority. attempt_admitted digest clock p g n epoch key revisions db now r authority \<and>
       f = \<lparr>fp_attempt_id = pp_attempt_id p, fp_revision = 1, fp_prepared_at_micros = now,
            fp_conversation_turn_fence = Some (fence_of p r)\<rparr> \<and>
       db' = db\<lparr>ad_attempts := ad_attempts db @ [attempt_row_of (fresh_attempt p authority g n epoch now)]\<rparr>)"
    (is "?run \<longleftrightarrow> ?exact")
proof
  have fences: "tf_conversation_id (fence_of p r) = consumer_conversation (pp_consumer p)"
    "tf_turn_id (fence_of p r) = consumer_turn (pp_consumer p)" for r by (simp_all add: fence_of_def)
  show ?exact if run0: ?run
  proof -
    obtain r where pre: "preparation_validate p = Inr ()" "0 < n" "revisions = (Some r, Some 1)" "0 < r"
      using run0 by (cases revisions) (auto simp: prepare_provider_attempt_def and_then_Ok_iff preparation_turn_fence_iff
          split: if_splits)
    note run = run0 [unfolded prepare_provider_attempt_def, simplified pre fst_conv snd_conv map_err_simps and_then_simps]
    have fence: "preparation_turn_fence p (Some r) (Some 1) = Inr (fence_of p r)"
      using pre(4) by (auto simp: preparation_turn_fence_iff)
    have none: "attempt_table db (attempt_id_text (pp_attempt_id p)) = None"
      using run pre(2) fence by (auto simp: read_attempt_table [OF inv] replayed_preparation_def split: option.splits if_splits)
    obtain authority where au: "read_prepared_attempt_authority db p g n epoch key (fence_of p r) = Some authority"
      using run pre(2) fence none by (auto simp: read_attempt_table [OF inv] split: option.splits)
    have risk: "duplicate_risk_matches_plan digest db (pp_duplicate_risk p) (consumer_conversation (pp_consumer p))
       (consumer_turn (pp_consumer p)) (au_plan_kind authority) (au_source_runtime_session_id authority)
       (pp_continuation_plan_id p)"
      using run pre(2) fence none au by (auto simp: read_attempt_table [OF inv] fences split: if_splits)
    obtain now where now: "clock = Some now" "0 < now"
      and ins: "insert_attempt db (prepared_row p (fence_of p r) authority g n epoch now) = Inr db'"
      and f: "f = \<lparr>fp_attempt_id = pp_attempt_id p, fp_revision = 1, fp_prepared_at_micros = now,
            fp_conversation_turn_fence = Some (fence_of p r)\<rparr>"
      using run pre(2) fence none au risk
      by (auto simp: read_attempt_table [OF inv] fences and_then_Ok_iff unix_micros_Ok_iff)
    note ins [unfolded insert_prepared_iff [OF inv p pre(1,2) now(2) ids none au risk]]
    then show ?exact using pre now none au risk f unfolding attempt_admitted_def by blast
  qed
  show ?run if exact: ?exact
  proof -
    obtain now r authority where a: "attempt_admitted digest clock p g n epoch key revisions db now r authority"
      and f: "f = \<lparr>fp_attempt_id = pp_attempt_id p, fp_revision = 1, fp_prepared_at_micros = now,
            fp_conversation_turn_fence = Some (fence_of p r)\<rparr>"
      and db': "db' = db\<lparr>ad_attempts := ad_attempts db @ [attempt_row_of (fresh_attempt p authority g n epoch now)]\<rparr>"
      using exact by blast
    note a = a [unfolded attempt_admitted_def]
    have fence: "preparation_turn_fence p (Some r) (Some 1) = Inr (fence_of p r)"
      using a by (auto simp: preparation_turn_fence_iff)
    have facts: "preparation_validate p = Inr ()" "0 < n" "0 < now"
      "attempt_table db (attempt_id_text (pp_attempt_id p)) = None"
      "read_prepared_attempt_authority db p g n epoch key (fence_of p r) = Some authority"
      "duplicate_risk_matches_plan digest db (pp_duplicate_risk p) (consumer_conversation (pp_consumer p))
         (consumer_turn (pp_consumer p)) (au_plan_kind authority) (au_source_runtime_session_id authority)
         (pp_continuation_plan_id p)"
      using a by blast+
    have "insert_attempt db (prepared_row p (fence_of p r) authority g n epoch now) = Inr db'"
      using a db' insert_prepared_iff [OF inv p facts(1-3) ids facts(4-6)] by blast
    with a fence f show ?run
      by (auto simp: prepare_provider_attempt_def and_then_Ok_iff read_attempt_table [OF inv] fences unix_micros_Ok_iff)
  qed
qed

end
