(* ===== verification/Attempt_Runs.thy ===== *)
theory Attempt_Runs
  imports Attempt_Life
begin

text \<open>
  Runs of the durable store: transactions of this writer, of the writer of process
  generations, and of the other writers, interleaved in any order. The table of attempts
  moves by the steps of the state machine, and the attempts stay linked to their processes.
\<close>

section \<open>Steps on the table of attempts\<close>

definition attempt_lost :: "i64 \<Rightarrow> provider_attempt \<Rightarrow> provider_attempt" where
  "attempt_lost now a =
     (if pa_state a \<in> {Prepared, DispatchAuthorized}
      then a\<lparr>pa_state := AttemptUnknown, pa_unknown_reason := Some RestoreProjection,
             pa_revision := pa_revision a + 1, pa_updated_at_micros := now\<rparr>
      else a)"

type_synonym attempts = "string \<Rightarrow> provider_attempt option"

inductive attempt_table_step :: "attempts \<Rightarrow> attempts \<Rightarrow> bool" where
  prepare: "t (attempt_id_text (pa_attempt_id a)) = None \<Longrightarrow> pa_state a = Prepared \<Longrightarrow> pa_revision a = 1 \<Longrightarrow>
    (\<forall>b \<in> ran t. consumer_turn (pa_consumer b) = consumer_turn (pa_consumer a) \<longrightarrow> \<not> open_state (pa_state b)) \<Longrightarrow>
    attempt_table_step t (t(attempt_id_text (pa_attempt_id a) \<mapsto> a))"
| command: "t k = Some a \<Longrightarrow> attempt_step now c a a' \<Longrightarrow> attempt_table_step t (t(k \<mapsto> a'))"
| supervisor: "attempt_table_step t (\<lambda>k. map_option (attempt_lost now) (t k))"

interpretation attempt_rows: fenced_rows attempt_table_step pa_revision "\<lambda>a. attempt_is_terminal (pa_state a)"
proof
  show "attempt_table_step t t' \<Longrightarrow> t k = Some a \<Longrightarrow> \<exists>a'. t' k = Some a'" for t t' k a
    by (induction rule: attempt_table_step.induct) auto
  show "attempt_table_step t t' \<Longrightarrow> t k = Some a \<Longrightarrow> t' k = Some a' \<Longrightarrow> a' \<noteq> a \<Longrightarrow>
      pa_revision a' = pa_revision a + 1" for t t' k a a'
    by (induction rule: attempt_table_step.induct)
      (auto simp: attempt_lost_def dest: attempt_step_moves split: if_splits)
  show "attempt_table_step t t' \<Longrightarrow> t k = Some a \<Longrightarrow> attempt_is_terminal (pa_state a) \<Longrightarrow> t' k = Some a" for t t' k a
    by (induction rule: attempt_table_step.induct)
      (auto simp: attempt_lost_def open_state_def dest: attempt_step_open split: if_splits)
qed

text \<open>An attempt never returns to \<open>Prepared\<close>, and its request and process are fixed.\<close>

definition attempt_fixed :: "provider_attempt \<Rightarrow> provider_attempt \<Rightarrow> bool" where
  "attempt_fixed a a' \<longleftrightarrow> pa_attempt_id a' = pa_attempt_id a \<and> pa_request_id a' = pa_request_id a \<and>
     pa_consumer a' = pa_consumer a \<and> pa_provider_keys a' = pa_provider_keys a \<and>
     pa_account_id a' = pa_account_id a \<and> pa_process_generation_id a' = pa_process_generation_id a \<and>
     pa_process_generation_revision a' = pa_process_generation_revision a \<and>
     pa_process_execution_epoch_id a' = pa_process_execution_epoch_id a \<and>
     (pa_state a \<noteq> Prepared \<longrightarrow> pa_state a' \<noteq> Prepared)"

lemma attempt_fixed_refl [simp]: "attempt_fixed a a"
  by (simp add: attempt_fixed_def)

lemma attempt_step_fixed: "attempt_step now c a a' \<Longrightarrow> attempt_fixed a a'"
  using attempt_step_moves [of now c a a'] attempt_step_process [of now c a a']
  by (simp add: attempt_fixed_def attempt_kept_def)

lemma attempt_table_step_fixed:
  "attempt_table_step t t' \<Longrightarrow> t k = Some a \<Longrightarrow> \<exists>a'. t' k = Some a' \<and> attempt_fixed a a'"
proof (induction rule: attempt_table_step.induct)
  case (command t j b now c b')
  then show ?case using attempt_step_fixed by (cases "k = j") auto
next
  case (supervisor t now)
  then show ?case by (auto simp: attempt_lost_def attempt_fixed_def)
qed auto

section \<open>The effect of a preparation\<close>

lemma find_appended_attempt:
  "find_attempt_row (t @ [r]) k = (case find_attempt_row t k of
     Some q \<Rightarrow> Some q | None \<Rightarrow> if ar_attempt_id r = k then Some r else None)"
  by (simp add: find_attempt_row_def find_row_append)

lemma appended_attempt:
  assumes inv: "attempt_inv db" and a: "sound_attempt a" "pa_terminal_evidence_id a = None"
    and none: "attempt_table db (attempt_id_text (pa_attempt_id a)) = None"
    and keys: "attempt_keys_unique (ad_attempts db @ [attempt_row_of a])"
    and db': "ad_attempts db' = ad_attempts db @ [attempt_row_of a]" "ad_evidence db' = ad_evidence db"
  shows "attempt_table db' = (attempt_table db)(attempt_id_text (pa_attempt_id a) \<mapsto> a)" "attempt_inv db'"
proof -
  have key: "ar_attempt_id (attempt_row_of a) = attempt_id_text (pa_attempt_id a)"
    by (rule attempt_row_columns)
  have absent: "find_attempt_row (ad_attempts db) (attempt_id_text (pa_attempt_id a)) = None"
    using none attempt_table_None [OF inv] by simp
  have parsed: "parse_attempt_row (attempt_row_of a) = Inr a"
    using a(1) by (simp add: parse_attempt_row_iff sound_attempt_def)
  show "attempt_table db' = (attempt_table db)(attempt_id_text (pa_attempt_id a) \<mapsto> a)"
  proof
    fix k
    show "attempt_table db' k = ((attempt_table db)(attempt_id_text (pa_attempt_id a) \<mapsto> a)) k"
      using absent by (cases "find_attempt_row (ad_attempts db) k")
        (auto simp: attempt_table_def db' find_appended_attempt key parsed)
  qed
  have "attempt_evidence_linked (ad_attempts db) (ad_evidence db)" using inv by (simp add: attempt_inv_def)
  then have "attempt_evidence_linked (ad_attempts db @ [attempt_row_of a]) (ad_evidence db)"
    using a(2) unfolding attempt_evidence_linked_def find_appended_attempt
    by (auto simp: attempt_row_of_def)
  moreover have "\<forall>r \<in> set (ad_attempts db'). attempt_row_sound r"
    using inv a(1) by (auto simp: db' attempt_inv_def attempt_row_sound_def)
  ultimately show "attempt_inv db'" using keys by (simp add: attempt_inv_def db')
qed

lemma prepared_attempt:
  assumes inv: "attempt_inv db" and p: "valid_preparation p" "plans_sound db"
    and ids: "is_canonical_uuid (generation_id_text g)" "is_canonical_uuid (epoch_id_text epoch)"
    and adm: "attempt_admitted digest clock p g n epoch key revisions db now r authority"
    and db': "db' = db\<lparr>ad_attempts := ad_attempts db @ [attempt_row_of (fresh_attempt p authority g n epoch now)]\<rparr>"
  shows "attempt_table db' =
      (attempt_table db)(attempt_id_text (pp_attempt_id p) \<mapsto> fresh_attempt p authority g n epoch now)"
    and "attempt_inv db'"
proof -
  let ?a = "fresh_attempt p authority g n epoch now"
  note adm = adm [unfolded attempt_admitted_def]
  have id: "pa_attempt_id ?a = pp_attempt_id p" and none: "pa_terminal_evidence_id ?a = None"
    by (simp_all add: fresh_attempt_def)
  have sound: "sound_attempt ?a"
    using fresh_attempt_sound [OF p _ _ _ ids] adm by blast
  have keys: "attempt_keys_unique (ad_attempts db @ [attempt_row_of ?a])"
    using adm prepared_keys_iff [OF inv] by blast
  note effect = appended_attempt [OF inv sound none _ keys, of db', unfolded id]
  show "attempt_table db' = (attempt_table db)(attempt_id_text (pp_attempt_id p) \<mapsto> ?a)" "attempt_inv db'"
    using effect adm by (simp_all add: db')
qed

lemma prepare_attempt_other:
  assumes "attempt_inv db" "prepare_provider_attempt digest clock p g n epoch key revisions db = Inr (out, db')"
    "\<nexists>f. out = AttemptFresh f"
  shows "db' = db"
  using assms(2,3)
  by (auto simp: prepare_provider_attempt_def read_attempt_table [OF assms(1)] and_then_Ok_iff
      replayed_preparation_def split: option.splits if_splits)

section \<open>The effect of the projection\<close>

definition pending_row :: "attempt_row \<Rightarrow> bool" where
  "pending_row r \<longleftrightarrow> ar_state r \<in> set [''prepared'', ''dispatch_authorized'']"

definition lost_attempt_row :: "i64 \<Rightarrow> attempt_row \<Rightarrow> attempt_row" where
  "lost_attempt_row now r = r\<lparr>ar_state := ''unknown'', ar_unknown_reason := Some ''restore_projection'',
     ar_revision := ar_revision r + 1, ar_updated_at_micros := now\<rparr>"

lemma pending_row_of: "pending_row (attempt_row_of a) \<longleftrightarrow> pa_state a \<in> {Prepared, DispatchAuthorized}"
  by (simp add: pending_row_def attempt_row_columns)

lemma lost_attempt_row_of:
  "(if pending_row (attempt_row_of a) then lost_attempt_row now (attempt_row_of a) else attempt_row_of a) =
     attempt_row_of (attempt_lost now a)"
  unfolding pending_row_of by (simp add: lost_attempt_row_def attempt_lost_def attempt_row_of_def)

lemma project_attempts_iff:
  "project_provider_attempts_after_supervisor_loss clock db = Inr (n, db') \<longleftrightarrow>
     (\<exists>now. clock = Some now \<and> 0 < now \<and>
        (\<forall>r \<in> set (ad_attempts db). pending_row r \<longrightarrow> ar_revision r < i64_max \<and>
           attempt_row_checks (lost_attempt_row now r)) \<and>
        attempt_keys_unique (update_rows pending_row (lost_attempt_row now) (ad_attempts db)) \<and>
        n = length (filter pending_row (ad_attempts db)) \<and>
        db' = db\<lparr>ad_attempts := update_rows pending_row (lost_attempt_row now) (ad_attempts db)\<rparr>)"
  unfolding project_provider_attempts_after_supervisor_loss_def update_attempts_def and_then_Ok_iff
    unix_micros_Ok_iff Let_def pending_row_def [abs_def, symmetric]
  by (auto simp: list_all_iff lost_attempt_row_def [abs_def] split: if_splits)

lemma lost_sound:
  assumes "sound_attempt a" "pending_row (attempt_row_of a) \<longrightarrow>
    ar_revision (attempt_row_of a) < i64_max \<and> attempt_row_checks (lost_attempt_row now (attempt_row_of a))"
  shows "sound_attempt (attempt_lost now a)"
proof (cases "pending_row (attempt_row_of a)")
  case True
  have valid: "valid_attempt (attempt_lost now a)"
    using assms(1) by (simp add: attempt_lost_def valid_attempt_def sound_attempt_def)
  have "attempt_row_checks (attempt_row_of (attempt_lost now a))"
    using assms(2) True lost_attempt_row_of [of a now] by simp
  then have "attempt_checks (attempt_lost now a)" using attempt_row_checks_iff [OF valid] by simp
  moreover have "pa_revision (attempt_lost now a) \<le> i64_max"
    using assms True by (simp add: attempt_lost_def attempt_row_of_def sound_attempt_def)
  ultimately show ?thesis using valid by (simp add: sound_attempt_def)
next
  case False
  then have "attempt_lost now a = a" unfolding pending_row_of by (simp add: attempt_lost_def)
  with assms(1) show ?thesis by simp
qed

lemma projected_attempts:
  assumes inv: "attempt_inv db"
    and run: "project_provider_attempts_after_supervisor_loss clock db = Inr (n, db')"
  shows "\<exists>now. clock = Some now \<and> attempt_table db' = (\<lambda>k. map_option (attempt_lost now) (attempt_table db k))"
    and "attempt_inv db'" and "ad_processes db' = ad_processes db"
proof -
  obtain now where now: "clock = Some now"
    and rows: "\<forall>r \<in> set (ad_attempts db). pending_row r \<longrightarrow> ar_revision r < i64_max \<and>
        attempt_row_checks (lost_attempt_row now r)"
    and keys: "attempt_keys_unique (update_rows pending_row (lost_attempt_row now) (ad_attempts db))"
    and db': "db' = db\<lparr>ad_attempts := update_rows pending_row (lost_attempt_row now) (ad_attempts db)\<rparr>"
    using run unfolding project_attempts_iff by blast
  let ?F = "\<lambda>r. if pending_row r then lost_attempt_row now r else r"
  have find: "find_attempt_row (ad_attempts db') k = map_option ?F (find_attempt_row (ad_attempts db) k)" for k
    unfolding db' find_attempt_row_def by (simp add: find_row_update lost_attempt_row_def)
  have lost: "sound_attempt (attempt_lost now a)" if found: "attempt_table db k = Some a" for k a
  proof -
    note row = attempt_table_row [OF inv found]
    have "attempt_row_of a \<in> set (ad_attempts db)" using attempt_inv_find(1) [OF inv row(1)] .
    with rows row(2) lost_sound show ?thesis by blast
  qed
  have table: "attempt_table db' k = map_option (attempt_lost now) (attempt_table db k)" for k
  proof (cases "attempt_table db k")
    case None
    then show ?thesis
      using attempt_table_None [OF inv] by (simp add: attempt_table_def find)
  next
    case (Some a)
    have "parse_attempt_row (attempt_row_of (attempt_lost now a)) = Inr (attempt_lost now a)"
      using lost [OF Some] by (simp add: parse_attempt_row_iff sound_attempt_def)
    then show ?thesis
      using attempt_table_row(1) [OF inv Some] Some lost_attempt_row_of [of a now]
      by (simp add: attempt_table_def find)
  qed
  then show "\<exists>now. clock = Some now \<and> attempt_table db' = (\<lambda>k. map_option (attempt_lost now) (attempt_table db k))"
    using now by blast
  have evidence: "ar_terminal_evidence_id (?F r) = ar_terminal_evidence_id r" "ar_attempt_id (?F r) = ar_attempt_id r"
    for r by (simp_all add: lost_attempt_row_def)
  have closed: "?F r = r" if in_t: "r \<in> set (ad_attempts db)" and has: "ar_terminal_evidence_id r \<noteq> None" for r
  proof -
    obtain a where a: "r = attempt_row_of a" "sound_attempt a"
      using inv in_t by (auto simp: attempt_inv_def attempt_row_sound_def)
    have "pa_terminal_evidence_id a \<noteq> None" using has a(1) by (simp add: attempt_row_of_def)
    then have "pa_state a \<in> {Succeeded, FailedDefinitive, NotSubmitted}"
      using a(2) unfolding sound_attempt_def attempt_checks_def by blast
    then show ?thesis using a(1) by (auto simp: pending_row_of)
  qed
  have link: "attempt_evidence_linked (ad_attempts db) (ad_evidence db)" using inv by (simp add: attempt_inv_def)
  have "\<exists>r. find_attempt_row (ad_attempts db') (pv_attempt_id e) = Some r \<and> attempt_evidence_fits e r"
    if in_e: "e \<in> set (ad_evidence db)" for e
  proof -
    obtain r where r: "find_attempt_row (ad_attempts db) (pv_attempt_id e) = Some r" "attempt_evidence_fits e r"
      using link in_e by (auto simp: attempt_evidence_linked_def)
    moreover have "?F r = r"
      using closed [OF attempt_inv_find(1) [OF inv r(1)]] r(2) by (simp add: attempt_evidence_fits_def)
    ultimately show ?thesis unfolding find by simp
  qed
  moreover have "ar_attempt_id r \<in> pv_attempt_id ` set (ad_evidence db)"
    if in_t: "r \<in> set (ad_attempts db')" and has: "ar_terminal_evidence_id r \<noteq> None" for r
  proof -
    obtain q where "q \<in> set (ad_attempts db)" "r = ?F q" using in_t by (auto simp: db' set_update_rows)
    then show ?thesis using has link evidence [of q] by (simp add: attempt_evidence_linked_def)
  qed
  ultimately have "attempt_evidence_linked (ad_attempts db') (ad_evidence db')"
    using link by (simp add: attempt_evidence_linked_def db')
  moreover have "\<forall>r \<in> set (ad_attempts db'). attempt_row_sound r"
  proof
    fix r
    assume "r \<in> set (ad_attempts db')"
    then obtain q where q: "q \<in> set (ad_attempts db)" "r = ?F q" by (auto simp: db' set_update_rows)
    then obtain a where "q = attempt_row_of a" "attempt_table db (ar_attempt_id q) = Some a"
      using attempt_in_table [OF inv] by blast
    then show "attempt_row_sound r"
      using q(2) lost lost_attempt_row_of [of a now] by (auto simp: attempt_row_sound_def)
  qed
  ultimately show "attempt_inv db'" using keys by (simp add: attempt_inv_def db')
  show "ad_processes db' = ad_processes db" by (simp add: db')
qed

section \<open>Runs of the store\<close>

inductive store_transaction ::
    "(byte list \<Rightarrow> blob_hash) \<Rightarrow> (string \<Rightarrow> string \<Rightarrow> string) \<Rightarrow> attempt_db \<Rightarrow> attempt_db \<Rightarrow> bool"
  for digest mj where
  prepare: "valid_preparation p \<Longrightarrow> plans_sound db \<Longrightarrow> is_canonical_uuid (generation_id_text g) \<Longrightarrow>
    is_canonical_uuid (epoch_id_text epoch) \<Longrightarrow>
    prepare_provider_attempt digest clock p g n epoch key revisions db = Inr (out, db') \<Longrightarrow>
    store_transaction digest mj db db'"
| command: "valid_attempt_command c \<Longrightarrow> run_attempt_command mj clock c db = Inr (outcome, db') \<Longrightarrow>
    store_transaction digest mj db db'"
| supervisor: "project_provider_attempts_after_supervisor_loss clock db = Inr (k, db') \<Longrightarrow>
    store_transaction digest mj db db'"
| process: "transaction (ad_processes db) processes \<Longrightarrow>
    store_transaction digest mj db (db\<lparr>ad_processes := processes\<rparr>)"
| other_writer: "ad_attempts db' = ad_attempts db \<Longrightarrow> ad_evidence db' = ad_evidence db \<Longrightarrow>
    ad_processes db' = ad_processes db \<Longrightarrow> store_transaction digest mj db db'"

text \<open>An attempt names a process generation of its own account and execution epoch.\<close>

definition attempt_process :: "generation_db \<Rightarrow> provider_attempt \<Rightarrow> bool" where
  "attempt_process db a \<longleftrightarrow>
     (\<exists>g. generation_table db (generation_id_text (pa_process_generation_id a)) = Some g \<and>
        pg_account_id g = pa_account_id a \<and> pg_execution_epoch_id g = pa_process_execution_epoch_id a \<and>
        pa_process_generation_revision a \<le> pg_revision g)"

definition store_inv :: "attempt_db \<Rightarrow> bool" where
  "store_inv db \<longleftrightarrow> attempt_inv db \<and> generation_inv (ad_processes db) \<and>
     (\<forall>k a. attempt_table db k = Some a \<longrightarrow> attempt_process (ad_processes db) a)"

lemma table_step_fixed:
  "table_step t t' \<Longrightarrow> t k = Some g \<Longrightarrow> \<exists>g'. t' k = Some g' \<and> pg_account_id g' = pg_account_id g \<and>
     pg_execution_epoch_id g' = pg_execution_epoch_id g \<and> pg_revision g \<le> pg_revision g'"
proof (induction rule: table_step.induct)
  case (command t j h now c h')
  then show ?case using generation_step_fixed [of now c h h'] by (cases "k = j") auto
qed (auto simp: supervisor_lost_def)

lemma table_steps_fixed:
  "table_step\<^sup>*\<^sup>* t t' \<Longrightarrow> t k = Some g \<Longrightarrow> \<exists>g'. t' k = Some g' \<and> pg_account_id g' = pg_account_id g \<and>
     pg_execution_epoch_id g' = pg_execution_epoch_id g \<and> pg_revision g \<le> pg_revision g'"
proof (induction rule: rtranclp_induct)
  case (step u v)
  then obtain q where q: "u k = Some q" "pg_account_id q = pg_account_id g"
    "pg_execution_epoch_id q = pg_execution_epoch_id g" "pg_revision g \<le> pg_revision q" by blast
  then show ?case using table_step_fixed [OF step.hyps(2) q(1)] by fastforce
qed auto

lemma attempt_process_steps:
  "table_step\<^sup>*\<^sup>* (generation_table P) (generation_table P') \<Longrightarrow> attempt_process P a \<Longrightarrow> attempt_process P' a"
  unfolding attempt_process_def using table_steps_fixed by fastforce

lemma attempt_process_fixed:
  "attempt_process P a \<Longrightarrow> attempt_fixed a a' \<Longrightarrow> attempt_process P a'"
  by (simp add: attempt_process_def attempt_fixed_def)

text \<open>What a preparation grants: the generation is ready, at the revision the attempt records.\<close>

lemma prepared_process:
  assumes inv: "generation_inv (ad_processes db)"
    and au: "read_prepared_attempt_authority db p g n epoch key (fence_of p r) = Some authority"
  shows "\<exists>h. generation_table (ad_processes db) (generation_id_text g) = Some h \<and> pg_state h = Ready \<and>
    pg_revision h = n \<and> pg_account_id h = AccountId (au_account_id authority) \<and> pg_execution_epoch_id h = epoch"
proof -
  obtain q where q: "find_generation_row (gd_generations (ad_processes db)) (generation_id_text g) = Some q"
    "gr_revision q = n" "gr_state q = ''ready''" "gr_execution_epoch_id q = epoch_id_text epoch"
    "gr_account_id q = au_account_id authority"
    using authority_grants(7) [OF au] by blast
  obtain h where h: "row_shows q h" "valid_generation h"
    using generation_inv_find(3) [OF inv q(1)] unfolding row_sound_def by blast
  have "account_id_text (pg_account_id h) = au_account_id authority" "epoch_id_text (pg_execution_epoch_id h) = epoch_id_text epoch"
    using h(1) q(4,5) by (simp_all add: row_shows_def)
  then have "pg_account_id h = AccountId (au_account_id authority)" "pg_execution_epoch_id h = epoch"
    using account_id.expand process_execution_epoch_id.expand by auto
  moreover have "state_as_sql (pg_state h) = ''ready''" "pg_revision h = n"
    using h(1) q(2,3) by (simp_all add: row_shows_def)
  ultimately show ?thesis using h q(1) unfolding generation_table_iff by (intro exI [of _ h]) simp
qed

lemma store_inv_kept:
  assumes "store_inv db" "attempt_inv db'" "ad_processes db' = ad_processes db"
    and "\<And>k a'. attempt_table db' k = Some a' \<Longrightarrow>
      (\<exists>a. attempt_table db k = Some a \<and> attempt_fixed a a') \<or> attempt_process (ad_processes db) a'"
  shows "store_inv db'"
proof -
  have "attempt_process (ad_processes db) a'" if in_t: "attempt_table db' k = Some a'" for k a'
    using assms(4) [OF in_t] assms(1) attempt_process_fixed unfolding store_inv_def by blast
  with assms(1-3) show ?thesis by (simp add: store_inv_def)
qed

lemma other_attempt_table: "ad_attempts db' = ad_attempts db \<Longrightarrow> attempt_table db' = attempt_table db"
  by (simp add: attempt_table_def fun_eq_iff)

lemma prepare_transaction:
  assumes inv: "store_inv db" and p: "valid_preparation p" "plans_sound db"
    and ids: "is_canonical_uuid (generation_id_text g)" "is_canonical_uuid (epoch_id_text epoch)"
    and run: "prepare_provider_attempt digest clock p g n epoch key revisions db = Inr (AttemptFresh f, db')"
  shows "store_inv db' \<and> attempt_table_step (attempt_table db) (attempt_table db')"
proof -
  have inv_a: "attempt_inv db" and inv_g: "generation_inv (ad_processes db)" using inv by (simp_all add: store_inv_def)
  obtain now r authority where adm: "attempt_admitted digest clock p g n epoch key revisions db now r authority"
    and db': "db' = db\<lparr>ad_attempts := ad_attempts db @ [attempt_row_of (fresh_attempt p authority g n epoch now)]\<rparr>"
    using run prepare_attempt_fresh [OF inv_a p ids] by blast
  let ?a = "fresh_attempt p authority g n epoch now"
  note effect = prepared_attempt [OF inv_a p ids adm db']
  have au: "read_prepared_attempt_authority db p g n epoch key (fence_of p r) = Some authority"
    and none: "attempt_table db (attempt_id_text (pp_attempt_id p)) = None" and free: "attempt_columns_free db p"
    using adm by (simp_all add: attempt_admitted_def)
  have "attempt_process (ad_processes db) ?a"
    using prepared_process [OF inv_g au] by (auto simp: attempt_process_def fresh_attempt_def)
  then have "store_inv db'"
    using effect by (intro store_inv_kept [OF inv]) (auto simp: db' split: if_splits)
  moreover have "attempt_table_step (attempt_table db)
      ((attempt_table db)(attempt_id_text (pa_attempt_id ?a) \<mapsto> ?a))"
    using none free by (intro attempt_table_step.prepare) (auto simp: fresh_attempt_def attempt_columns_free_def)
  then have "attempt_table_step (attempt_table db) (attempt_table db')"
    by (simp add: effect(1) fresh_attempt_def)
  ultimately show ?thesis by blast
qed

lemma command_transaction:
  assumes inv: "store_inv db" and c: "valid_attempt_command c"
    and applies: "attempt_applies mj clock db c now a a' db'"
  shows "store_inv db' \<and> attempt_table_step (attempt_table db) (attempt_table db')"
proof -
  have inv_a: "attempt_inv db" using inv by (simp add: store_inv_def)
  note effect = applied_attempt [OF inv_a applies c]
  have a: "attempt_table db (attempt_id_text (command_attempt c)) = Some a" "attempt_step now c a a'"
    using applies by (simp_all add: attempt_applies_def target_attempt_def)
  have "store_inv db'"
    using effect a attempt_step_fixed [OF a(2)] attempt_applied_keeps(3) [OF applies]
    by (intro store_inv_kept [OF inv]) (auto split: if_splits)
  with effect(1) a show ?thesis by (simp add: attempt_table_step.command)
qed

lemma store_transaction_step:
  assumes "store_transaction digest mj db db'" "store_inv db"
  shows "store_inv db' \<and> attempt_table_step\<^sup>*\<^sup>* (attempt_table db) (attempt_table db')"
  using assms
proof (induction rule: store_transaction.induct)
  case (prepare p db g epoch clock n key revisions out db')
  show ?case
  proof (cases "\<exists>f. out = AttemptFresh f")
    case True
    then show ?thesis using prepare_transaction [OF prepare.prems prepare.hyps(1-4)] prepare.hyps(5) by blast
  next
    case False
    then have "db' = db" using prepare_attempt_other prepare unfolding store_inv_def by blast
    with prepare.prems show ?thesis by simp
  qed
next
  case (command c clock db outcome db')
  have inv: "attempt_inv db" using command.prems by (simp add: store_inv_def)
  show ?case
  proof (cases "\<exists>m. outcome = AttemptApplied m")
    case True
    then show ?thesis
      using command_transaction [OF command.prems command.hyps(1)] command.hyps(2)
        attempt_command_applied [OF inv command.hyps(1)] by blast
  next
    case False
    then have "db' = db" using attempt_command_other [OF inv command.hyps(2)] by blast
    with command.prems show ?thesis by simp
  qed
next
  case (supervisor clock db k db')
  have inv: "attempt_inv db" using supervisor.prems by (simp add: store_inv_def)
  note effect = projected_attempts [OF inv supervisor.hyps]
  obtain now where table: "attempt_table db' = (\<lambda>k. map_option (attempt_lost now) (attempt_table db k))"
    using effect(1) by blast
  have step: "attempt_table_step (attempt_table db) (attempt_table db')"
    unfolding table by (rule attempt_table_step.supervisor)
  have "attempt_fixed a (attempt_lost now a)" for a
    using attempt_table_step_fixed [OF attempt_table_step.supervisor, of "[[] \<mapsto> a]" "[]" a now] by simp
  then have "store_inv db'"
    using effect(2,3) by (intro store_inv_kept [OF supervisor.prems]) (auto simp: table)
  with step show ?case by blast
next
  case (process db processes)
  have "generation_inv processes" "table_step\<^sup>*\<^sup>* (generation_table (ad_processes db)) (generation_table processes)"
    using transaction_step [OF process.hyps] process.prems by (simp_all add: store_inv_def)
  moreover have "attempt_table (db\<lparr>ad_processes := processes\<rparr>) = attempt_table db"
    by (rule other_attempt_table) simp
  ultimately show ?case
    using process.prems attempt_process_steps by (auto simp: store_inv_def attempt_inv_def)
next
  case (other_writer db' db)
  have "attempt_table db' = attempt_table db" using other_writer.hyps(1) by (rule other_attempt_table)
  with other_writer show ?case by (simp add: store_inv_def attempt_inv_def)
qed

lemma store_runs:
  "(store_transaction digest mj)\<^sup>*\<^sup>* db db' \<Longrightarrow> store_inv db \<Longrightarrow>
     store_inv db' \<and> attempt_table_step\<^sup>*\<^sup>* (attempt_table db) (attempt_table db')"
proof (induction rule: rtranclp_induct)
  case (step u v)
  then show ?case using store_transaction_step by (meson rtranclp_trans)
qed simp

lemma attempt_steps_fixed:
  "attempt_table_step\<^sup>*\<^sup>* t t' \<Longrightarrow> t k = Some a \<Longrightarrow> \<exists>a'. t' k = Some a' \<and> attempt_fixed a a'"
proof (induction rule: rtranclp_induct)
  case (step u v)
  then obtain q where q: "u k = Some q" "attempt_fixed a q" by blast
  then obtain r where "v k = Some r" "attempt_fixed q r"
    using attempt_table_step_fixed [OF step.hyps(2)] by blast
  with q(2) show ?case by (auto simp: attempt_fixed_def)
qed simp

end
