(* ===== verification/Generation_Claims.thy ===== *)
theory Generation_Claims
  imports Generation_Runs
begin

text \<open>
  The properties of the durable writer of process generations, with a concrete database on
  which they are applied.
\<close>

section \<open>A sample database\<close>

definition demo_uuid :: "byte \<Rightarrow> string" where
  "demo_uuid b = uuid_groups (replicate 16 b)"

definition demo_hash :: string where "demo_hash = replicate 64 CHR ''0''"

definition demo_intent :: process_generation_intent where
  "demo_intent =
     \<lparr>in_generation_id = ProcessGenerationId (demo_uuid 1), in_account_id = AccountId (demo_uuid 2),
      in_runner_identity = ProcessRunnerIdentity (''sha256:'' @ demo_hash),
      in_intended_boot_id = ProcessBootIdentity ''boot'', in_control_kind = StdioOnlyBestEffortEof,
      in_isolation_kind = IsolationSession,
      in_execution_authorization = \<lparr>xa_epoch_id = ProcessExecutionEpochId (demo_uuid 3),
        xa_authorization_digest = demo_hash\<rparr>\<rparr>"

definition demo_binding :: account_binding where
  "demo_binding =
     \<lparr>ab_account_revision = 1,
      ab_credential = \<lparr>cb_schema_version = schema_v1, cb_version = CredentialVersion 1,
        cb_fingerprint = CredentialFingerprint demo_hash,
        cb_provider = \<lparr>pid_provider = Chatgpt, pid_account_id = ''user''\<rparr>,
        cb_writer_operation_id = AccountOperationId (demo_uuid 4)\<rparr>,
      ab_refresh_callback_profile_sha256 = demo_hash\<rparr>"

text \<open>The database before the admission: a ready account and no generation.\<close>

definition ready_db :: generation_db where
  "ready_db =
     \<lparr>gd_epochs = [], gd_generations = [], gd_death_evidence = [],
      gd_accounts = [\<lparr>acr_account_id = demo_uuid 2, acr_revision = 1, acr_enabled = True,
        acr_tombstoned_at_micros = None, acr_credential_store_observation = ''exact''\<rparr>],
      gd_credentials = [\<lparr>crr_account_id = demo_uuid 2, crr_schema_version = 1, crr_credential_version = 1,
        crr_fingerprint = demo_hash, crr_writer_operation_id = demo_uuid 4, crr_provider = ''chatgpt'',
        crr_provider_account_id = ''user''\<rparr>],
      gd_operations = [\<lparr>opr_operation_id = demo_uuid 4, opr_account_id = demo_uuid 2,
        opr_phase = ''committed'', opr_superseded_by = None\<rparr>],
      gd_capability = Some \<lparr>cap_login_chatgpt_auth_tokens = True, cap_refresh_callback = True,
        cap_callback_profile_sha256 = demo_hash\<rparr>,
      gd_runtime_sessions = []\<rparr>"

lemma demo_hash_chars: "list_all is_ascii_digit demo_hash" "length demo_hash = 64"
  by (simp_all add: demo_hash_def is_ascii_digit_def list_all_iff)

lemma demo_text [simp]:
  "is_canonical_uuid (demo_uuid b)" "is_sha256 demo_hash"
  "is_runner_identity (''sha256:'' @ demo_hash)" "is_bounded_identity ''boot''"
  using demo_hash_chars
  by (auto simp: demo_uuid_def uuid_groups_canonical is_sha256_def list_all_iff
      is_runner_identity_def strip_prefix_def max_process_runner_identity_bytes_def is_bounded_identity_def
      is_ascii_graphic_def max_process_identity_bytes_def)

lemma demo_intent_valid: "valid_intent demo_intent"
  using demo_text(3) unfolding valid_intent_def demo_intent_def
  by (simp del: append_Cons append_Nil)

lemma demo_binding_valid: "valid_binding demo_binding"
  by (simp add: valid_binding_def demo_binding_def valid_credential_def is_bounded_provider_identity_def)

lemma ready_db_inv: "generation_inv ready_db"
  by (simp add: generation_inv_def ready_db_def generation_keys_unique_def admission_keys_def
      quarantining_accounts_def evidence_linked_def List.map_filter_def)

lemma ready_db_table: "generation_table ready_db = Map.empty"
  by (simp add: generation_table_def ready_db_def find_generation_row_def find_row_def fun_eq_iff)

lemma ready_db_admits: "admitted (Some 5) (Some 5) demo_intent demo_binding None None ready_db 5"
  unfolding admitted_def ready_db_table
  by (simp add: account_authority_def ready_db_def demo_intent_def
      demo_binding_def find_row_def unsettled_operation_def callback_capability_def credential_matches_def
      credential_version_i64_def i64_try_from_u64_def i64_max_def schema_v1_def epoch_admits_def
      admission_columns_def null_or_def)

definition demo_fence :: generation_fence where
  "demo_fence = \<lparr>gf_generation_id = in_generation_id demo_intent, gf_revision = 1, gf_fenced_at_micros = 5\<rparr>"

text \<open>The database after the admission, the binding and the death of that generation.\<close>

definition admitted_db :: generation_db where
  "admitted_db = (case prepare_bound_generation (Some 5) (Some 5) demo_intent demo_binding None None ready_db of
     Inl _ \<Rightarrow> ready_db | Inr (_, db) \<Rightarrow> db)"

definition demo_key :: process_generation_id where "demo_key = in_generation_id demo_intent"

definition demo_identity :: process_identity where
  "demo_identity = \<lparr>pi_boot_id = ProcessBootIdentity ''boot'', pi_process_id = 7,
     pi_process_start_id = ProcessStartIdentity ''boot'', pi_process_group_id = 7, pi_session_id = 7\<rparr>"

definition demo_bind :: generation_command where "demo_bind = Bind demo_key 1 demo_identity"

definition bound_db :: generation_db where "bound_db = applied_db admitted_db 6 demo_bind"

definition demo_death :: generation_command where
  "demo_death = RecordDeath 2 \<lparr>de_evidence_id = ProcessDeathEvidenceId (demo_uuid 9), de_generation_id = demo_key,
     de_kind = OwnedChildExit, de_observed_boot_id = ProcessBootIdentity ''boot'',
     de_process_identity = Some demo_identity, de_witness_digest = demo_hash\<rparr>"

definition dead_db :: generation_db where "dead_db = applied_db bound_db 7 demo_death"

lemma ready_db_prepare:
  "prepare_bound_generation (Some 5) (Some 5) demo_intent demo_binding None None ready_db =
     Inr (Fresh demo_fence, admitted_db)"
proof -
  have "\<exists>db. prepare_bound_generation (Some 5) (Some 5) demo_intent demo_binding None None ready_db =
      Inr (Fresh demo_fence, db)"
    unfolding prepare_fresh_db [OF ready_db_inv demo_intent_valid demo_binding_valid] demo_fence_def
    using ready_db_admits account_authority_account [of ready_db "in_account_id demo_intent" demo_binding]
    by (auto simp: admitted_def)
  then show ?thesis by (auto simp: admitted_db_def)
qed

lemmas admitted_db_effect = prepared_effect [OF ready_db_inv demo_intent_valid demo_binding_valid ready_db_prepare]

lemma admitted_db_evidence: "gd_death_evidence admitted_db = []"
proof -
  have "prepare_bound_generation c1 c2 demo_intent demo_binding None None ready_db = Inr (Fresh fence, db) \<Longrightarrow>
      gd_death_evidence db = gd_death_evidence ready_db" for c1 c2 fence db
    unfolding prepare_fresh_db [OF ready_db_inv demo_intent_valid demo_binding_valid]
    by (auto simp: epoch_insert_same)
  from this [OF ready_db_prepare] show ?thesis by (simp add: ready_db_def)
qed

definition demo_fresh :: process_generation where "demo_fresh = fresh_generation demo_intent 5"

definition demo_bound :: process_generation where
  "demo_bound = demo_fresh\<lparr>pg_process_identity := Some demo_identity, pg_revision := 2, pg_updated_at_micros := 6\<rparr>"

definition demo_dead :: process_generation where
  "demo_dead = demo_bound\<lparr>pg_state := Dead, pg_authority_loss_reason := None,
     pg_death_evidence_id := Some (ProcessDeathEvidenceId (demo_uuid 9)), pg_revision := 3, pg_updated_at_micros := 7\<rparr>"

lemma admitted_db_table: "generation_table admitted_db = [generation_id_text demo_key \<mapsto> demo_fresh]"
  using admitted_db_effect(1) by (simp add: ready_db_table demo_key_def demo_fresh_def demo_fence_def)

lemma demo_bind_applies: "applies (Some 6) admitted_db demo_bind 6 demo_fresh demo_bound"
  by (simp add: applies_def target_generation_def demo_bind_def admitted_db_table step_bind demo_fresh_def
      fresh_generation_def demo_identity_def demo_intent_def demo_bound_def i64_max_def)

lemma demo_bind_valid: "valid_command demo_bind"
  by (simp add: demo_bind_def valid_identity_def demo_identity_def)

lemmas bound_db_effect = applied_command [OF admitted_db_effect(2) demo_bind_applies demo_bind_valid,
  folded bound_db_def]

lemma bound_db_table: "generation_table bound_db = [generation_id_text demo_key \<mapsto> demo_bound]"
  using bound_db_effect(1) by (simp add: demo_bind_def admitted_db_table)

lemma bound_db_evidence: "gd_death_evidence bound_db = []"
  by (simp add: bound_db_def demo_bind_def admitted_db_evidence)

lemma demo_death_applies: "applies (Some 7) bound_db demo_death 7 demo_bound demo_dead"
  by (simp add: applies_def target_generation_def demo_death_def bound_db_table step_died demo_bound_def
      demo_dead_def demo_fresh_def fresh_generation_def i64_max_def evidence_identity_matches_def
      bound_db_evidence)

lemma demo_death_valid: "valid_command demo_death"
  using demo_bind_valid
  by (simp add: demo_death_def valid_evidence_def demo_bind_def demo_key_def demo_intent_def)

lemmas dead_db_effect = applied_command [OF bound_db_effect(2) demo_death_applies demo_death_valid,
  folded dead_db_def]

lemma dead_db_table: "generation_table dead_db = [generation_id_text demo_key \<mapsto> demo_dead]"
  using dead_db_effect(1) by (simp add: demo_death_def bound_db_table)

lemma demo_runs:
  "run_command (Some 6) demo_bind admitted_db = Inr (Applied (mutation demo_bound), bound_db)"
  "run_command (Some 7) demo_death bound_db = Inr (Applied (mutation demo_dead), dead_db)"
  unfolding command_applied [OF admitted_db_effect(2) demo_bind_valid]
    command_applied [OF bound_db_effect(2) demo_death_valid]
  using demo_bind_applies demo_death_applies bound_db_def dead_db_def by blast+

lemma demo_transactions: "transaction\<^sup>*\<^sup>* ready_db bound_db" "transaction\<^sup>*\<^sup>* bound_db dead_db"
  using transaction.prepare [OF demo_intent_valid demo_binding_valid ready_db_prepare]
    transaction.command [OF demo_bind_valid demo_runs(1)] transaction.command [OF demo_death_valid demo_runs(2)]
  by (meson r_into_rtranclp rtranclp.rtrancl_into_rtrancl)+

section \<open>Helper facts\<close>

lemma inv_one_live:
  assumes inv: "generation_inv db"
    and "generation_table db k = Some g" "generation_table db k' = Some g'"
    and "pg_account_id g = pg_account_id g'" "pg_state g \<noteq> Dead" "pg_state g' \<noteq> Dead"
  shows "k = k'"
proof -
  obtain r r' where r: "find_generation_row (gd_generations db) k = Some r" "row_shows r g"
    "find_generation_row (gd_generations db) k' = Some r'" "row_shows r' g'"
    using assms(2,3) by (auto simp: generation_table_iff)
  let ?live = "filter (\<lambda>q. gr_state q \<noteq> ''dead'') (gd_generations db)"
  have "r \<in> set ?live" "r' \<in> set ?live" "gr_account_id r = gr_account_id r'"
    using r assms(4-6) generation_inv_find(1) [OF inv] by (auto simp: row_shows_def)
  moreover have "inj_on gr_account_id (set ?live)"
    using inv by (simp add: generation_inv_def generation_keys_unique_def quarantining_accounts_def distinct_map)
  ultimately have "r = r'" by (auto dest: inj_onD)
  then show ?thesis using generation_inv_find(2) [OF inv] r by metis
qed

definition death_proved :: "generation_db \<Rightarrow> string \<Rightarrow> process_generation \<Rightarrow> bool" where
  "death_proved db k g \<longleftrightarrow> (\<exists>d \<in> set (gd_death_evidence db). dr_generation_id d = k \<and>
     pg_death_evidence_id g = Some (ProcessDeathEvidenceId (dr_evidence_id d)) \<and>
     (if dr_kind d = ''prior_boot_ended''
      then dr_process_id d = None \<and> dr_observed_boot_id d \<noteq> boot_text (pg_intended_boot_id g)
      else identity_shows (dr_bound_boot_id d) (dr_process_id d) (dr_process_start_id d)
        (dr_process_group_id d) (dr_session_id d) (pg_process_identity g)))"

lemma inv_death_proved:
  assumes inv: "generation_inv db" and g: "generation_table db k = Some g"
  shows "pg_state g = Dead \<longleftrightarrow> death_proved db k g"
proof -
  obtain r where r: "find_generation_row (gd_generations db) k = Some r" "row_shows r g" "generation_checks g"
    using table_row [OF inv g] .
  have link: "evidence_linked db" using inv by (simp add: generation_inv_def)
  show ?thesis
  proof
    assume "pg_state g = Dead"
    then have "gr_death_evidence_id r \<noteq> None" using r(2,3) by (simp add: row_shows_def generation_checks_def)
    then have "k \<in> dr_generation_id ` set (gd_death_evidence db)"
      using link generation_inv_find [OF inv r(1)] by (auto simp: evidence_linked_def)
    then obtain d where d: "d \<in> set (gd_death_evidence db)" "dr_generation_id d = k" by auto
    then have "evidence_fits d r" using evidence_linked_row [OF link d(1)] r(1) by simp
    then have "map_option death_evidence_id_text (pg_death_evidence_id g) = Some (dr_evidence_id d)"
      using r(2) unfolding evidence_fits_def row_shows_def by metis
    then have "pg_death_evidence_id g = Some (ProcessDeathEvidenceId (dr_evidence_id d))"
      by (auto simp: process_death_evidence_id.expand)
    then show "death_proved db k g"
      using \<open>evidence_fits d r\<close> r(2) d unfolding death_proved_def
      by (intro bexI [of _ d]) (simp_all add: evidence_fits_def row_shows_def identity_shows_def split: if_splits)
  next
    assume "death_proved db k g"
    then show "pg_state g = Dead" using r(3) by (auto simp: death_proved_def generation_checks_def)
  qed
qed

text \<open>A run, from the invariant to the table.\<close>

lemma run_rows:
  assumes "transaction\<^sup>*\<^sup>* db db'" "generation_inv db" "generation_table db k = Some g"
  obtains g' where "generation_table db' k = Some g'"
    "pg_revision g \<le> pg_revision g'" "pg_revision g' = pg_revision g \<longrightarrow> g' = g"
    "pg_state g = Dead \<longrightarrow> g' = g"
proof -
  have run: "table_step\<^sup>*\<^sup>* (generation_table db) (generation_table db')"
    using transactions_step [OF assms(1,2)] by simp
  then obtain g' where g': "generation_table db' k = Some g'"
    using generation_rows.steps_keep assms(3) by blast
  show thesis
    using that g' generation_rows.steps_revision_mono [OF run assms(3) g']
      generation_rows.steps_same_revision [OF run assms(3) g'] generation_rows.steps_terminal [OF run assms(3)]
    by auto
qed

lemma steps_identity:
  "table_step\<^sup>*\<^sup>* t t' \<Longrightarrow> t k = Some g \<Longrightarrow> pg_process_identity g = Some i \<Longrightarrow>
     \<exists>g'. t' k = Some g' \<and> pg_process_identity g' = Some i"
  by (induction rule: rtranclp_induct) (auto dest: table_step_identity)

lemma replay_of_step:
  assumes inv: "generation_inv db'" and c: "valid_command c" and step: "generation_step now c g g'"
    and g': "generation_table db' (generation_id_text (command_generation c)) = Some g'"
    and bounds: "0 < pg_revision g" "pg_revision g < i64_max" and later: "0 < t"
  shows "run_command (Some t) c db' = Inr (Replayed (mutation g'), db')"
proof -
  note succ = saturating_successor [OF bounds]
  have t: "unix_micros (Some t) = Inr t" using later by (simp add: unix_micros_def)
  show ?thesis
    using step succ bounds c t g'
    by (cases rule: generation_step.cases)
      (simp_all add: bind_process_generation_identity_def read_required_generation_table [OF inv]
        mark_process_generation_ready_def mark_process_generation_stopping_def transition_generation_def
        mark_process_generation_death_unknown_def record_process_generation_death_def
        mutate_generation_table [OF inv] valid_identity_def)
qed

section \<open>Properties\<close>

text \<open>
  C8. Refinement. A mutation that reports \<open>Applied\<close> commits exactly one step of the state
  machine on the generation it names, reports the state and revision it committed, and
  leaves every other generation alone. Every other outcome leaves the database unchanged.
\<close>

theorem generation_commands_refine:
  assumes "generation_inv db" "valid_command c" "run_command clock c db = Inr (out, db')"
  shows "case out of
      Applied m \<Rightarrow> \<exists>now g g'. clock = Some now \<and>
        generation_table db (generation_id_text (command_generation c)) = Some g \<and>
        generation_step now c g g' \<and> m = mutation g' \<and>
        generation_table db' = (generation_table db)(generation_id_text (command_generation c) \<mapsto> g')
    | _ \<Rightarrow> db' = db"
proof (cases out)
  case (Applied m)
  then obtain now g g' where a: "applies clock db c now g g'" "m = mutation g'" "db' = applied_db db now c"
    using assms(3) command_applied [OF assms(1,2)] by blast
  then show ?thesis
    using applied_command(1) [OF assms(1) a(1) assms(2)] Applied
    by (auto simp: applies_def target_generation_def)
qed (use command_other [OF assms(1,3)] in auto)

theorem generation_commands_refine_witness:
  "case Applied (mutation demo_bound) of
      Applied m \<Rightarrow> \<exists>now g g'. Some 6 = Some now \<and>
        generation_table admitted_db (generation_id_text (command_generation demo_bind)) = Some g \<and>
        generation_step now demo_bind g g' \<and> m = mutation g' \<and>
        generation_table bound_db =
          (generation_table admitted_db)(generation_id_text (command_generation demo_bind) \<mapsto> g')
    | _ \<Rightarrow> bound_db = admitted_db"
  by (rule generation_commands_refine [OF admitted_db_effect(2) demo_bind_valid demo_runs(1)])

text \<open>
  When a mutation applies. It applies exactly when the state machine has a step for it at
  the revision the caller expects, the revision can still grow, the clock has not gone
  back before the creation of the generation, and the death evidence is not used yet. No
  other constraint of the schema can make the statement fail.
\<close>

lemma command_applies_exactly:
  assumes "generation_inv db" "valid_command c"
  shows "(\<exists>m db'. run_command clock c db = Inr (Applied m, db')) \<longleftrightarrow>
    (\<exists>now g g'. clock = Some now \<and> 0 < now \<and>
       generation_table db (generation_id_text (command_generation c)) = Some g \<and>
       generation_step now c g g' \<and> pg_revision g < i64_max \<and> pg_created_at_micros g \<le> now \<and>
       evidence_unused db c)"
  unfolding command_applied [OF assms] applies_def target_generation_def by blast

lemma command_applies_exactly_witness:
  "(\<exists>m db'. run_command (Some 4) demo_bind admitted_db = Inr (Applied m, db')) \<longleftrightarrow>
    (\<exists>now g g'. Some 4 = Some now \<and> 0 < now \<and>
       generation_table admitted_db (generation_id_text (command_generation demo_bind)) = Some g \<and>
       generation_step now demo_bind g g' \<and> pg_revision g < i64_max \<and> pg_created_at_micros g \<le> now \<and>
       evidence_unused admitted_db demo_bind)"
  by (rule command_applies_exactly [OF admitted_db_effect(2) demo_bind_valid])

text \<open>
  Invariant. Every sequence of transactions keeps the constraints of the schema and the
  meaning of the rows: every stored row shows a generation whose ready or stopping state
  has a process identity, whose loss reason and evidence go with its state, and whose
  update is not before its creation.
\<close>

lemma generation_store_invariant:
  assumes "transaction\<^sup>*\<^sup>* db db'" "generation_inv db"
  shows "generation_inv db' \<and> (\<forall>r \<in> set (gd_generations db'). \<exists>g.
    parse_generation_row r = Inr g \<and> generation_table db' (gr_generation_id r) = Some g \<and>
    (pg_state g \<in> {Ready, Stopping} \<longrightarrow> pg_process_identity g \<noteq> None) \<and>
    (pg_state g = DeathUnknown \<longleftrightarrow> pg_authority_loss_reason g \<noteq> None) \<and>
    (pg_state g = Dead \<longleftrightarrow> pg_death_evidence_id g \<noteq> None) \<and>
    0 < pg_revision g \<and> pg_created_at_micros g \<le> pg_updated_at_micros g)"
proof (intro conjI ballI)
  show inv: "generation_inv db'" using transactions_step [OF assms] by simp
  fix r
  assume r: "r \<in> set (gd_generations db')"
  then obtain g where g: "row_shows r g" "valid_generation g"
    using inv by (auto simp: generation_inv_def row_sound_def)
  have "find_generation_row (gd_generations db') (gr_generation_id r) = Some r"
    using inv r find_row_distinct
    by (auto simp: generation_inv_def generation_keys_unique_def find_generation_row_def)
  then have table: "generation_table db' (gr_generation_id r) = Some g" using g by (auto simp: generation_table_iff)
  then show "\<exists>g. parse_generation_row r = Inr g \<and> generation_table db' (gr_generation_id r) = Some g \<and>
    (pg_state g \<in> {Ready, Stopping} \<longrightarrow> pg_process_identity g \<noteq> None) \<and>
    (pg_state g = DeathUnknown \<longleftrightarrow> pg_authority_loss_reason g \<noteq> None) \<and>
    (pg_state g = Dead \<longleftrightarrow> pg_death_evidence_id g \<noteq> None) \<and>
    0 < pg_revision g \<and> pg_created_at_micros g \<le> pg_updated_at_micros g"
    using table_generation_checks [OF inv table] g parse_generation_row_iff
    by (intro exI [of _ g]) (simp add: generation_checks_def)
qed

lemma generation_store_invariant_witness:
  "generation_inv bound_db \<and> (\<exists>r g. r \<in> set (gd_generations bound_db) \<and> parse_generation_row r = Inr g \<and>
    generation_table bound_db (gr_generation_id r) = Some g)"
proof -
  obtain r where "find_generation_row (gd_generations bound_db) (generation_id_text demo_key) = Some r"
    using bound_db_table by (auto simp: fun_eq_iff generation_table_def split: option.splits if_splits)
  then have "r \<in> set (gd_generations bound_db)" by (rule generation_inv_find(1) [OF bound_db_effect(2)])
  then show ?thesis using generation_store_invariant [OF demo_transactions(1) ready_db_inv] by blast
qed

text \<open>
  C21. Quarantine. After any sequence of transactions, an account has at most one generation
  that is not proved dead.
\<close>

theorem one_live_generation_per_account:
  assumes "transaction\<^sup>*\<^sup>* db db'" "generation_inv db"
    and "generation_table db' k = Some g" "generation_table db' k' = Some g'"
    and "pg_account_id g = pg_account_id g'"
    and "quarantines_account (pg_state g)" "quarantines_account (pg_state g')"
  shows "k = k' \<and> g = g'"
proof -
  have "k = k'"
    using inv_one_live [of db' k g k' g'] transactions_step [OF assms(1,2)] assms(3-7)
    by (simp add: quarantines_account_def)
  with assms(3,4) show ?thesis by simp
qed

theorem one_live_generation_per_account_witness:
  "generation_id_text demo_key = generation_id_text demo_key \<and> demo_bound = demo_bound"
  by (rule one_live_generation_per_account [OF demo_transactions(1) ready_db_inv])
    (simp_all add: bound_db_table quarantines_account_def demo_bound_def demo_fresh_def fresh_generation_def)

text \<open>
  C9. Death is proved. After any sequence of transactions a generation is dead exactly when a
  stored evidence row names it, with the identity columns of the process that the
  generation was bound to, or with an observed boot other than the one it was meant for.
\<close>

theorem dead_generation_has_evidence:
  assumes "transaction\<^sup>*\<^sup>* db db'" "generation_inv db" "generation_table db' k = Some g"
  shows "pg_state g = Dead \<longleftrightarrow> (\<exists>d \<in> set (gd_death_evidence db'). dr_generation_id d = k \<and>
     pg_death_evidence_id g = Some (ProcessDeathEvidenceId (dr_evidence_id d)) \<and>
     (if dr_kind d = ''prior_boot_ended''
      then dr_process_id d = None \<and> dr_observed_boot_id d \<noteq> boot_text (pg_intended_boot_id g)
      else identity_shows (dr_bound_boot_id d) (dr_process_id d) (dr_process_start_id d)
        (dr_process_group_id d) (dr_session_id d) (pg_process_identity g)))"
  using inv_death_proved [of db' k g] transactions_step [OF assms(1,2)] assms(3)
  by (simp only: death_proved_def)

theorem dead_generation_has_evidence_witness:
  "pg_state demo_dead = Dead \<longleftrightarrow> (\<exists>d \<in> set (gd_death_evidence dead_db).
     dr_generation_id d = generation_id_text demo_key \<and>
     pg_death_evidence_id demo_dead = Some (ProcessDeathEvidenceId (dr_evidence_id d)) \<and>
     (if dr_kind d = ''prior_boot_ended''
      then dr_process_id d = None \<and> dr_observed_boot_id d \<noteq> boot_text (pg_intended_boot_id demo_dead)
      else identity_shows (dr_bound_boot_id d) (dr_process_id d) (dr_process_start_id d)
        (dr_process_group_id d) (dr_session_id d) (pg_process_identity demo_dead)))"
  by (rule dead_generation_has_evidence [OF demo_transactions(2) bound_db_effect(2)]) (simp add: dead_db_table)

text \<open>
  Death is final and revisions fence. Along any sequence of transactions a generation
  stays in the table, its revision never decreases, the same revision means the very same
  generation, and a dead generation never changes again.
\<close>

lemma generation_revision_fences:
  assumes "transaction\<^sup>*\<^sup>* db db'" "generation_inv db" "generation_table db k = Some g"
  shows "\<exists>g'. generation_table db' k = Some g' \<and> pg_revision g \<le> pg_revision g' \<and>
    (pg_revision g' = pg_revision g \<longrightarrow> g' = g) \<and> (pg_state g = Dead \<longrightarrow> g' = g)"
  using run_rows [OF assms] by blast

lemma generation_revision_fences_witness:
  "\<exists>g'. generation_table dead_db (generation_id_text demo_key) = Some g' \<and>
    pg_revision demo_bound \<le> pg_revision g'"
  using generation_revision_fences [OF demo_transactions(2) bound_db_effect(2), of "generation_id_text demo_key"]
    bound_db_table by auto

text \<open>A bound process identity is never replaced: not by a second bind, a projection or a death.\<close>

lemma bound_identity_is_fixed:
  assumes "transaction\<^sup>*\<^sup>* db db'" "generation_inv db" "generation_table db k = Some g"
    and "pg_process_identity g = Some i"
  shows "\<exists>g'. generation_table db' k = Some g' \<and> pg_process_identity g' = Some i"
  using transactions_step [OF assms(1,2)] steps_identity assms(3,4) by blast

lemma bound_identity_is_fixed_witness:
  "\<exists>g'. generation_table dead_db (generation_id_text demo_key) = Some g' \<and>
    pg_process_identity g' = Some demo_identity"
  by (rule bound_identity_is_fixed [OF demo_transactions(2) bound_db_effect(2), where g = demo_bound])
    (simp_all add: bound_db_table demo_bound_def demo_fresh_def fresh_generation_def)

text \<open>
  Exactly once. A caller that repeats an applied mutation, because it did not see the
  answer, gets the same revision and state back as \<open>Replayed\<close>, and nothing changes.
\<close>

lemma applied_command_replays:
  assumes "generation_inv db" "valid_command c"
    and "run_command clock c db = Inr (Applied m, db')" and "0 < t"
  shows "run_command (Some t) c db' = Inr (Replayed m, db')"
proof -
  obtain now g g' where a: "applies clock db c now g g'" "m = mutation g'" "db' = applied_db db now c"
    using assms(3) command_applied [OF assms(1,2)] by blast
  have b: "generation_table db (generation_id_text (command_generation c)) = Some g"
    "generation_step now c g g'" "pg_revision g < i64_max"
    using a(1) by (simp_all add: applies_def target_generation_def)
  then have "0 < pg_revision g" using table_generation_checks [OF assms(1)] by (auto simp: generation_checks_def)
  then show ?thesis
    using replay_of_step [OF _ assms(2) b(2) _ _ b(3) assms(4)] applied_command [OF assms(1) a(1) assms(2)] a
    by simp
qed

lemma applied_command_replays_witness:
  "run_command (Some 9) demo_death dead_db = Inr (Replayed (mutation demo_dead), dead_db)"
  by (rule applied_command_replays [OF bound_db_effect(2) demo_death_valid demo_runs(2)]) simp

text \<open>
  C15. Admission, exactly. A generation is admitted exactly when its id is new, the account has
  the expected authority, no generation of the account is alive, the execution epoch is new
  or has the same authorization, and the columns with a reference or a key are free; the
  fence names revision 1 and the clock. The admitted generation is the intent's, unbound
  and starting, and nothing else in the table changes.
\<close>

theorem admission_exact:
  assumes "generation_inv db" "valid_intent intent" "valid_binding binding"
  shows "(\<exists>db'. prepare_bound_generation epoch_clock clock intent binding session key db = Inr (Fresh fence, db') \<and>
      generation_table db' = (generation_table db)(generation_id_text (in_generation_id intent) \<mapsto>
        fresh_generation intent (gf_fenced_at_micros fence))) \<longleftrightarrow>
    generation_table db (generation_id_text (in_generation_id intent)) = None \<and>
    account_authority db (in_account_id intent) binding = Inr None \<and>
    (\<forall>g \<in> ran (generation_table db). pg_account_id g = in_account_id intent \<longrightarrow> pg_state g = Dead) \<and>
    epoch_admits db intent \<and> admission_columns db binding session key \<and>
    (\<exists>t > 0. epoch_clock = Some t) \<and> clock = Some (gf_fenced_at_micros fence) \<and> 0 < gf_fenced_at_micros fence \<and>
    gf_generation_id fence = in_generation_id intent \<and> gf_revision fence = 1" (is "?L \<longleftrightarrow> ?R")
proof
  assume ?L
  then show ?R unfolding prepare_fresh_db [OF assms] by (auto simp: admitted_def)
next
  assume R: ?R
  then have "admitted epoch_clock clock intent binding session key db (gf_fenced_at_micros fence)"
    by (simp add: admitted_def)
  moreover obtain version where "credential_version_i64 (ab_credential binding) = Inr version"
    using R account_authority_account by blast
  moreover have "fence = \<lparr>gf_generation_id = in_generation_id intent, gf_revision = 1,
      gf_fenced_at_micros = gf_fenced_at_micros fence\<rparr>" using R by simp
  ultimately obtain db' where
    fresh: "prepare_bound_generation epoch_clock clock intent binding session key db = Inr (Fresh fence, db')"
    using R unfolding prepare_fresh_db [OF assms] by blast
  then show ?L using prepared_effect(1) [OF assms fresh] by blast
qed

theorem admission_exact_witness:
  "\<exists>db'. prepare_bound_generation (Some 5) (Some 5) demo_intent demo_binding None None ready_db = Inr (Fresh demo_fence, db') \<and>
      generation_table db' = (generation_table ready_db)(generation_id_text (in_generation_id demo_intent) \<mapsto>
        fresh_generation demo_intent (gf_fenced_at_micros demo_fence))"
  by (rule admission_exact [OF ready_db_inv demo_intent_valid demo_binding_valid, THEN iffD2])
    (use ready_db_admits in \<open>simp add: admitted_def demo_fence_def\<close>)

text \<open>
  Refused admissions leave no trace. An admission that is not fresh, or that fails,
  commits nothing: in particular no execution epoch.
\<close>

lemma refused_admission_changes_nothing:
  assumes "generation_inv db" "valid_intent intent"
    and "prepare_bound_generation epoch_clock clock intent binding session key db = Inr (out, db')"
    and "\<nexists>fence. out = Fresh fence"
  shows "db' = db"
  using assms by (rule prepare_other)

lemma refused_admission_changes_nothing_witness:
  "\<exists>db'. prepare_bound_generation None (Some 8) demo_intent demo_binding None None bound_db =
     Inr (PrepareReplayed (mutation demo_bound), db') \<and> db' = bound_db"
proof -
  have "prepare_bound_generation None (Some 8) demo_intent demo_binding None None bound_db =
      Inr (PrepareReplayed (mutation demo_bound), bound_db)"
    by (simp add: prepare_bound_generation_def read_generation_table [OF bound_db_effect(2)] bound_db_table
        flip: demo_key_def)
      (simp add: same_intent_def demo_bound_def demo_fresh_def fresh_generation_def)
  then show ?thesis
    using refused_admission_changes_nothing [OF bound_db_effect(2) demo_intent_valid] by blast
qed

text \<open>
  Supervisor loss. The projection turns every generation that is not dead into one whose
  death is unknown, keeps the dead and the already unknown ones, keeps the invariant, and a
  second projection finds nothing to change.
\<close>

lemma supervisor_loss_projection:
  assumes "generation_inv db"
    and "project_process_generations_after_supervisor_loss clock db = Inr (n, db')" and "0 < t"
  shows "(\<exists>now. clock = Some now \<and>
      generation_table db' = (\<lambda>k. map_option (supervisor_lost now) (generation_table db k))) \<and>
    generation_inv db' \<and> n = length (filter live_row (gd_generations db)) \<and>
    (\<forall>g \<in> ran (generation_table db'). pg_state g \<in> {Dead, DeathUnknown}) \<and>
    project_process_generations_after_supervisor_loss (Some t) db' = Inr (0, db')"
proof -
  obtain now where now: "clock = Some now"
    and table: "generation_table db' = (\<lambda>k. map_option (supervisor_lost now) (generation_table db k))"
    using projected_effect(1) [OF assms(1,2)] by blast
  have inv: "generation_inv db'" by (rule projected_effect(2) [OF assms(1,2)])
  have rows: "gd_generations db' = map (\<lambda>r. if live_row r then lost_row u r else r) (gd_generations db)"
    and n: "n = length (filter live_row (gd_generations db))" if "clock = Some u" for u
    using assms(2) that unfolding project_db [OF assms(1)] by (auto simp: update_rows_def)
  have lost: "\<not> live_row (lost_row u r)" for u r by (simp add: live_row_def lost_row_def)
  have quiet: "\<not> live_row r" if in_r: "r \<in> set (gd_generations db')" for r
    using in_r lost unfolding rows [OF now] by (auto split: if_splits)
  have same: "update_rows live_row (lost_row t) (gd_generations db') = gd_generations db'"
    unfolding update_rows_def by (rule map_idI) (simp add: quiet)
  have none: "filter live_row (gd_generations db') = []" using quiet by (simp add: filter_empty_conv)
  have "project_process_generations_after_supervisor_loss (Some t) db' = Inr (0, db')"
    unfolding project_db [OF inv] using quiet assms(3) none same by (cases db') simp
  moreover have "pg_state (supervisor_lost now g) \<in> {Dead, DeathUnknown}" for g
    by (simp add: supervisor_lost_def)
  then have "\<forall>g \<in> ran (generation_table db'). pg_state g \<in> {Dead, DeathUnknown}"
    unfolding table ran_def by blast
  ultimately show ?thesis using now table inv n by blast
qed

lemma bound_db_projects:
  "\<exists>n db'. project_process_generations_after_supervisor_loss (Some 8) bound_db = Inr (n, db')"
proof -
  have "live_row r \<longrightarrow> gr_revision r < i64_max \<and> gr_created_at_micros r \<le> 8"
    if in_r: "r \<in> set (gd_generations bound_db)" for r
  proof -
    obtain g where g: "row_shows r g" "valid_generation g"
      using bound_db_effect(2) in_r by (auto simp: generation_inv_def row_sound_def)
    have "find_generation_row (gd_generations bound_db) (gr_generation_id r) = Some r"
      using bound_db_effect(2) in_r find_row_distinct
      by (auto simp: generation_inv_def generation_keys_unique_def find_generation_row_def)
    then have "generation_table bound_db (gr_generation_id r) = Some g" using g by (auto simp: generation_table_iff)
    then have "g = demo_bound" by (auto simp: bound_db_table split: if_splits)
    with g(1) show ?thesis
      by (simp add: row_shows_def demo_bound_def demo_fresh_def fresh_generation_def i64_max_def)
  qed
  then show ?thesis unfolding project_db [OF bound_db_effect(2)] by auto
qed

lemma supervisor_loss_projection_witness:
  "\<exists>n db'. project_process_generations_after_supervisor_loss (Some 8) bound_db = Inr (n, db') \<and>
    project_process_generations_after_supervisor_loss (Some 9) db' = Inr (0, db')"
proof -
  obtain n db' where run: "project_process_generations_after_supervisor_loss (Some 8) bound_db = Inr (n, db')"
    using bound_db_projects by blast
  with supervisor_loss_projection [OF bound_db_effect(2) run, of 9] show ?thesis by auto
qed

end
