(* ===== verification/Attempt_Demo.thy ===== *)
theory Attempt_Demo
  imports Attempt_Runs Generation_Claims
begin

text \<open>
  A concrete store on which the properties of provider attempts are applied: one ready
  process, one conversation with an active turn, and an attempt that is prepared,
  dispatched, and proved not submitted.
\<close>

section \<open>The process\<close>

definition demo_v4 :: "byte \<Rightarrow> string" where
  "demo_v4 b = uuid_groups (uuid_stamp (replicate 16 b))"

lemma demo_v4_valid [simp]: "is_canonical_uuid_v4 (demo_v4 b)"
  by (simp add: demo_v4_def uuid_stamp_v4)

definition demo_session :: string where "demo_session = demo_uuid 5"

definition demo_process_row :: generation_row where
  "demo_process_row = (intent_row demo_intent demo_binding (Some demo_session) None 1 5)
     \<lparr>gr_bound_boot_id := Some ''boot'', gr_process_id := Some 7, gr_process_start_id := Some ''boot'',
      gr_process_group_id := Some 7, gr_session_id := Some 7, gr_state := ''ready'', gr_revision := 3,
      gr_updated_at_micros := 7\<rparr>"

definition demo_process :: process_generation where
  "demo_process = demo_bound\<lparr>pg_state := Ready, pg_revision := 3, pg_updated_at_micros := 7\<rparr>"

definition demo_processes :: generation_db where
  "demo_processes = ready_db\<lparr>gd_epochs := [\<lparr>er_execution_epoch_id = demo_uuid 3,
       er_authorization_sha256 = demo_hash, er_created_at_micros = 5\<rparr>],
     gd_generations := [demo_process_row], gd_runtime_sessions := [demo_session]\<rparr>"

lemma demo_process_shows: "row_shows demo_process_row demo_process"
  by (simp add: row_shows_def demo_process_row_def demo_process_def intent_row_def demo_intent_def demo_bound_def
      demo_fresh_def fresh_generation_def identity_shows_def demo_identity_def)

lemma demo_process_valid: "valid_generation demo_process"
proof -
  have "is_runner_identity (runner_text (pg_runner_identity demo_process))"
    using demo_text(3) unfolding demo_process_def demo_bound_def demo_fresh_def fresh_generation_def demo_intent_def
    by (simp del: append_Cons append_Nil)
  then show ?thesis
    by (simp add: valid_generation_def demo_process_def demo_bound_def demo_fresh_def fresh_generation_def
        demo_intent_def valid_identity_def demo_identity_def)
qed

lemma demo_process_sound: "row_sound demo_process_row"
proof -
  have "generation_checks demo_process"
    by (simp add: generation_checks_def demo_process_def demo_bound_def demo_fresh_def fresh_generation_def)
  moreover have "fixed_checks demo_process_row"
    by (simp add: fixed_checks_def demo_process_row_def intent_row_def demo_binding_def schema_v1_def null_or_def)
  ultimately have "generation_row_checks demo_process_row"
    using row_checks_iff [OF demo_process_shows demo_process_valid] by blast
  moreover have "gr_revision demo_process_row \<le> i64_max" by (simp add: demo_process_row_def i64_max_def)
  ultimately show ?thesis using demo_process_shows demo_process_valid unfolding row_sound_def by blast
qed

lemma demo_processes_inv: "generation_inv demo_processes"
proof -
  have "gr_death_evidence_id demo_process_row = None" "gr_quick_task_admission_key demo_process_row = None"
    by (simp_all add: demo_process_row_def intent_row_def)
  then show ?thesis
    by (simp add: generation_inv_def demo_processes_def ready_db_def generation_keys_unique_def admission_keys_def
        quarantining_accounts_def evidence_linked_def List.map_filter_def demo_process_sound)
qed

lemma demo_process_found:
  "find_generation_row (gd_generations demo_processes) (demo_uuid 1) = Some demo_process_row"
  by (simp add: find_generation_row_def find_row_def demo_processes_def demo_process_row_def intent_row_def demo_intent_def)

lemma demo_processes_table: "generation_table demo_processes (demo_uuid 1) = Some demo_process"
  using demo_process_found demo_process_shows demo_process_valid by (simp add: generation_table_iff)

section \<open>The conversation\<close>

definition demo_preparation :: provider_attempt_preparation where
  "demo_preparation =
     \<lparr>pp_attempt_id = ProviderAttemptId (demo_v4 1),
      pp_consumer = ConversationTurn (ConversationId (demo_uuid 6)) (TurnId (demo_uuid 7)),
      pp_continuation_plan_id = demo_uuid 8, pp_request_id = ProviderRequestId (demo_v4 2),
      pp_request_digest = demo_hash,
      pp_provider_keys = \<lparr>pk_idempotency = Some (ProviderRequestKey ''key''), pk_correlation = None\<rparr>,
      pp_duplicate_risk = OriginalIntent\<rparr>"

definition demo_store :: attempt_db where
  "demo_store =
     \<lparr>ad_attempts = [], ad_evidence = [],
      ad_turns = [\<lparr>tr_turn_id = demo_uuid 7, tr_conversation_id = demo_uuid 6,
        tr_runtime_session_id = Some demo_session, tr_role = ''user'', tr_status = ''active'', tr_revision = 1,
        tr_created_at_micros = 6, tr_updated_at_micros = 6, tr_completed_at_micros = None\<rparr>],
      ad_conversations = [\<lparr>cv_conversation_id = demo_uuid 6, cv_state = ''active'', cv_revision = 1,
        cv_created_at_micros = 6, cv_updated_at_micros = 6\<rparr>],
      ad_sessions = [\<lparr>sr_runtime_session_id = demo_session, sr_conversation_id = demo_uuid 6,
        sr_codex_thread_id = Some ''thread'', sr_thread_start_binding_key = None, sr_state = ''active'',
        sr_revision = 1\<rparr>],
      ad_plans = [\<lparr>pl_continuation_plan_id = demo_uuid 8, pl_conversation_id = demo_uuid 6,
        pl_turn_id = demo_uuid 7, pl_routing_decision_id = demo_uuid 9, pl_source_runtime_session_id = demo_session,
        pl_source_runtime_session_revision = 1, pl_selected_account_id = demo_uuid 2,
        pl_runtime_session_id = None, pl_kind = ''same_thread''\<rparr>],
      ad_decisions = [demo_uuid 9], ad_history = [], ad_processes = demo_processes\<rparr>"

definition demo_generation :: process_generation_id where "demo_generation = ProcessGenerationId (demo_uuid 1)"
definition demo_epoch :: process_execution_epoch_id where "demo_epoch = ProcessExecutionEpochId (demo_uuid 3)"

definition demo_authority :: attempt_authority where
  "demo_authority = \<lparr>au_routing_decision_id = demo_uuid 9, au_runtime_session_id = demo_session,
     au_runtime_session_revision = 1, au_account_id = demo_uuid 2, au_plan_kind = ''same_thread'',
     au_source_runtime_session_id = demo_session\<rparr>"

lemma demo_preparation_valid: "valid_preparation demo_preparation"
  by (simp add: valid_preparation_def demo_preparation_def valid_keys_def valid_key_def
      is_bounded_provider_identity_def max_provider_request_key_bytes_def)

lemma demo_plans_sound: "plans_sound demo_store"
  by (simp add: plans_sound_def demo_store_def demo_session_def)

lemma demo_ids: "is_canonical_uuid (generation_id_text demo_generation)" "is_canonical_uuid (epoch_id_text demo_epoch)"
  by (simp_all add: demo_generation_def demo_epoch_def)

lemma demo_store_inv: "store_inv demo_store" "attempt_inv demo_store"
proof -
  have "attempt_table demo_store k = None" for k
    by (simp add: attempt_table_def demo_store_def find_attempt_row_def find_row_def)
  then show "attempt_inv demo_store" "store_inv demo_store"
    by (simp_all add: store_inv_def attempt_inv_def demo_store_def attempt_keys_unique_def open_turns_def
        attempt_evidence_linked_def demo_processes_inv)
qed

lemma demo_store_table: "attempt_table demo_store = Map.empty"
  by (simp add: attempt_table_def demo_store_def find_attempt_row_def find_row_def fun_eq_iff)

lemma demo_authority_read:
  "read_prepared_attempt_authority demo_store demo_preparation demo_generation 3 demo_epoch None
     (fence_of demo_preparation 1) = Some demo_authority"
proof -
  have g: "find_generation_row (gd_generations (ad_processes demo_store)) (demo_uuid 1) = Some demo_process_row"
    using demo_process_found by (simp add: demo_store_def)
  have row: "gr_revision demo_process_row = 3" "gr_state demo_process_row = ''ready''"
    "gr_execution_epoch_id demo_process_row = demo_uuid 3" "gr_account_id demo_process_row = demo_uuid 2"
    "gr_runtime_session_id demo_process_row = Some demo_session"
    by (simp_all add: demo_process_row_def intent_row_def demo_intent_def)
  show ?thesis
    unfolding read_prepared_attempt_authority_def
    by (simp add: demo_generation_def g)
      (simp add: demo_store_def demo_preparation_def find_row_def plan_session_def authority_row_def fence_of_def
        row demo_epoch_def plan_shape_current_def demo_authority_def)
qed

lemma demo_admitted:
  "attempt_admitted digest (Some 8) demo_preparation demo_generation 3 demo_epoch None (Some 1, Some 1) demo_store
     8 1 demo_authority"
proof -
  have "preparation_validate demo_preparation = Inr ()"
    by (simp add: preparation_validate_Ok_iff demo_preparation_def)
  moreover have "duplicate_risk_matches_plan digest demo_store (pp_duplicate_risk demo_preparation) c t
      (au_plan_kind demo_authority) s p" for c t s p
    by (simp add: duplicate_risk_matches_plan_def demo_preparation_def demo_authority_def)
  ultimately show ?thesis
    unfolding attempt_admitted_def
    using demo_authority_read
    by (simp add: demo_store_table attempt_columns_free_def demo_authority_def demo_epoch_def)
      (simp add: demo_store_def demo_processes_def ready_db_def)
qed

section \<open>The attempt\<close>

definition demo_attempt :: provider_attempt where
  "demo_attempt = fresh_attempt demo_preparation demo_authority demo_generation 3 demo_epoch 8"

definition demo_prepared :: attempt_db where
  "demo_prepared = demo_store\<lparr>ad_attempts := [attempt_row_of demo_attempt]\<rparr>"

definition demo_ticket :: fresh_prepared where
  "demo_ticket = \<lparr>fp_attempt_id = pp_attempt_id demo_preparation, fp_revision = 1, fp_prepared_at_micros = 8,
     fp_conversation_turn_fence = Some (fence_of demo_preparation 1)\<rparr>"

lemma demo_prepare:
  "prepare_provider_attempt digest (Some 8) demo_preparation demo_generation 3 demo_epoch None (Some 1, Some 1)
     demo_store = Inr (AttemptFresh demo_ticket, demo_prepared)"
proof -
  have rows: "demo_prepared = demo_store\<lparr>ad_attempts := ad_attempts demo_store @ [attempt_row_of demo_attempt]\<rparr>"
    by (simp add: demo_prepared_def demo_store_def)
  show ?thesis
    unfolding prepare_attempt_fresh [OF demo_store_inv(2) demo_preparation_valid demo_plans_sound demo_ids]
    using demo_admitted [of digest] rows unfolding demo_ticket_def demo_attempt_def by blast
qed

lemma demo_prepared_effect:
  "attempt_table demo_prepared = [demo_v4 1 \<mapsto> demo_attempt]" "attempt_inv demo_prepared"
proof -
  have db: "demo_prepared = demo_store\<lparr>ad_attempts := ad_attempts demo_store @ [attempt_row_of demo_attempt]\<rparr>"
    by (simp add: demo_prepared_def demo_store_def)
  note effect = prepared_attempt [OF demo_store_inv(2) demo_preparation_valid demo_plans_sound demo_ids demo_admitted
      db [unfolded demo_attempt_def]]
  show "attempt_table demo_prepared = [demo_v4 1 \<mapsto> demo_attempt]"
    using effect(1) by (simp add: demo_store_table demo_preparation_def demo_attempt_def)
  show "attempt_inv demo_prepared" by (rule effect(2))
qed

definition demo_dispatch :: attempt_command where
  "demo_dispatch = AuthorizeDispatch demo_ticket demo_generation 3"

definition demo_sent :: provider_attempt where
  "demo_sent = demo_attempt\<lparr>pa_state := DispatchAuthorized, pa_revision := 2, pa_updated_at_micros := 9\<rparr>"

definition demo_dispatched :: attempt_db where
  "demo_dispatched = demo_store\<lparr>ad_attempts := [attempt_row_of demo_sent]\<rparr>"

lemma demo_attempt_columns:
  "pa_attempt_id demo_attempt = ProviderAttemptId (demo_v4 1)" "pa_state demo_attempt = Prepared"
  "pa_revision demo_attempt = 1" "pa_process_generation_id demo_attempt = demo_generation"
  "pa_process_generation_revision demo_attempt = 3" "pa_created_at_micros demo_attempt = 8"
  "pa_request_id demo_attempt = ProviderRequestId (demo_v4 2)" "pa_provider_keys demo_attempt = pp_provider_keys demo_preparation"
  "pa_consumer demo_attempt = pp_consumer demo_preparation"
  "pa_runtime_session_id demo_attempt = RuntimeSessionId demo_session"
  by (simp_all add: demo_attempt_def fresh_attempt_def demo_preparation_def demo_authority_def)

lemma demo_dispatch_step: "attempt_step 9 demo_dispatch demo_attempt demo_sent"
  by (simp add: demo_dispatch_def attempt_step_dispatch demo_sent_def demo_attempt_columns demo_ticket_def)

lemma demo_generation_ready: "generation_ready demo_processes demo_generation 3"
  by (simp add: generation_ready_def demo_processes_def demo_process_row_def intent_row_def demo_intent_def
      demo_generation_def)

lemma demo_dispatch_applies:
  "attempt_applies mj (Some 9) demo_prepared demo_dispatch 9 demo_attempt demo_sent demo_dispatched"
proof -
  have "attempt_guard demo_prepared demo_dispatch"
    using demo_generation_ready
    by (simp add: demo_dispatch_def demo_ticket_def demo_prepared_def demo_store_def turn_ready_def fence_of_def
        demo_preparation_def)
  moreover have "attempt_command_update 9 demo_dispatch (attempt_row_of demo_attempt) = attempt_row_of demo_sent"
    using attempt_command_row [OF demo_dispatch_step] by (simp add: demo_attempt_columns i64_max_def)
  then have "finished_attempt_db mj demo_prepared 9 demo_dispatch demo_attempt = Inr demo_dispatched"
    by (simp add: demo_dispatch_def demo_ticket_def demo_preparation_def updated_attempts_def update_rows_def
        by_attempt_def attempt_row_columns demo_attempt_columns demo_prepared_def demo_dispatched_def)
  ultimately show ?thesis
    unfolding attempt_applies_def
    using demo_dispatch_step
    by (simp add: demo_dispatch_def target_attempt_def demo_ticket_def demo_preparation_def demo_prepared_effect
        demo_attempt_columns i64_max_def)
qed

lemma demo_dispatch_valid: "valid_attempt_command demo_dispatch"
  by (simp add: demo_dispatch_def)

lemma demo_dispatched_effect:
  "attempt_table demo_dispatched = [demo_v4 1 \<mapsto> demo_sent]" "attempt_inv demo_dispatched"
  using applied_attempt [OF demo_prepared_effect(2) demo_dispatch_applies demo_dispatch_valid]
  by (simp_all add: demo_prepared_effect(1) demo_dispatch_def demo_ticket_def demo_preparation_def)

definition demo_receipt :: provider_positive_evidence where
  "demo_receipt = \<lparr>pe_evidence_id = ProviderEvidenceId (demo_v4 3), pe_attempt_id = ProviderAttemptId (demo_v4 1),
     pe_request_id = ProviderRequestId (demo_v4 2), pe_source = PositiveNonSubmissionReceipt,
     pe_outcome = OutcomeNotSubmitted, pe_provider_key = ProviderRequestKey ''key'',
     pe_provider_receipt_id = Some ''receipt'', pe_provider_thread_id = Some ''thread'',
     pe_provider_turn_id = None, pe_witness_digest = demo_hash\<rparr>"

definition demo_refused :: provider_attempt where
  "demo_refused = demo_sent\<lparr>pa_state := NotSubmitted, pa_unknown_reason := None,
     pa_terminal_evidence_id := Some (ProviderEvidenceId (demo_v4 3)), pa_revision := 3, pa_updated_at_micros := 10\<rparr>"

definition demo_record :: attempt_command where "demo_record = RecordEvidence 2 demo_receipt"

text \<open>The printer of the metadata is any function; here the concatenation.\<close>

definition demo_updated :: attempt_db where
  "demo_updated = demo_store\<lparr>ad_evidence := [evidence_row_of demo_receipt 10],
     ad_attempts := [attempt_row_of demo_refused]\<rparr>"

definition demo_closed :: attempt_db where
  "demo_closed = (case non_submission_finalize (@) demo_updated demo_sent demo_receipt 10 of
     Inl _ \<Rightarrow> demo_updated | Inr db \<Rightarrow> db)"

lemma demo_receipt_valid: "positive_evidence_validate demo_receipt = Inr ()"
  by (simp add: positive_evidence_validate_Ok_iff demo_receipt_def evidence_valid_shape_def
      is_bounded_provider_identity_def max_provider_evidence_identity_bytes_def)

lemma demo_record_step: "attempt_step 10 demo_record demo_sent demo_refused"
  using demo_receipt_valid
  by (simp add: demo_record_def attempt_step_evidence demo_sent_def demo_refused_def demo_attempt_columns
      keys_contain_def demo_preparation_def)
    (simp add: demo_receipt_def)

lemma demo_finalized:
  "non_submission_finalize (@) demo_updated demo_sent demo_receipt 10 = Inr demo_closed"
proof -
  have item: "history_row_checks (non_submission_item (@) db demo_sent demo_receipt 10)"
    if empty: "ad_history db = []" for db
    using empty by (simp add: history_row_checks_def non_submission_item_def demo_receipt_def next_sequence_def
        null_or_def)
  have "is_ok (non_submission_finalize (@) demo_updated demo_sent demo_receipt 10)"
    unfolding non_submission_finalize_def
    by (simp add: demo_receipt_def update_turns_def update_rows_def demo_updated_def demo_store_def
        non_submission_turn_def demo_sent_def demo_refused_def demo_attempt_columns demo_preparation_def
        turn_row_checks_def failed_turn_def null_or_def attempt_row_columns i64_max_def insert_history_def
        item [unfolded demo_receipt_def demo_sent_def] touch_conversation_def)
      (simp add: non_submission_item_def next_sequence_def demo_attempt_columns demo_preparation_def)
  then show ?thesis by (auto simp: is_ok_iff demo_closed_def)
qed

lemma demo_record_valid: "valid_attempt_command demo_record"
  by (simp add: demo_record_def demo_receipt_def)

lemma demo_record_applies:
  "attempt_applies (@) (Some 10) demo_dispatched demo_record 10 demo_sent demo_refused demo_closed"
proof -
  have "attempt_command_update 10 demo_record (attempt_row_of demo_sent) = attempt_row_of demo_refused"
    using attempt_command_row [OF demo_record_step] by (simp add: demo_sent_def i64_max_def)
  moreover have "pa_attempt_id demo_sent = ProviderAttemptId (demo_v4 1)"
    by (simp add: demo_sent_def demo_attempt_columns)
  ultimately have "updated_attempt_db demo_dispatched 10 demo_record = demo_updated"
    by (simp add: demo_record_def demo_dispatched_def demo_updated_def updated_attempts_def update_rows_def
        by_attempt_def attempt_row_columns demo_receipt_def demo_store_def)
  then have "finished_attempt_db (@) demo_dispatched 10 demo_record demo_sent = Inr demo_closed"
    using demo_finalized by (simp add: demo_record_def)
  moreover have "target_attempt demo_dispatched demo_record = Some demo_sent"
    by (simp add: target_attempt_def demo_record_def demo_receipt_def demo_dispatched_effect)
  moreover have "attempt_guard demo_dispatched demo_record"
    by (simp add: demo_record_def demo_dispatched_def demo_store_def)
  moreover have "pa_revision demo_sent < i64_max" "pa_created_at_micros demo_sent \<le> 10"
    by (simp_all add: demo_sent_def demo_attempt_columns i64_max_def)
  ultimately show ?thesis using demo_record_step unfolding attempt_applies_def by simp
qed

lemma demo_closed_effect:
  "attempt_table demo_closed = [demo_v4 1 \<mapsto> demo_refused]" "attempt_inv demo_closed"
  using applied_attempt [OF demo_dispatched_effect(2) demo_record_applies demo_record_valid]
  by (simp_all add: demo_dispatched_effect(1) demo_record_def demo_receipt_def)

section \<open>The run\<close>

lemma demo_attempt_runs:
  "authorize_provider_attempt_dispatch (Some 9) demo_ticket demo_generation 3 demo_prepared =
     Inr (DispatchFresh \<lparr>df_attempt_id = ProviderAttemptId (demo_v4 1), df_attempt_revision = 2,
       df_process_generation_id = demo_generation, df_process_generation_revision = 3,
       df_authorized_at_micros = 9\<rparr>, demo_dispatched)"
  "run_attempt_command (@) (Some 9) demo_dispatch demo_prepared =
     Inr (AttemptApplied (attempt_mutation_of demo_sent), demo_dispatched)"
  "run_attempt_command (@) (Some 10) demo_record demo_dispatched =
     Inr (AttemptApplied (attempt_mutation_of demo_refused), demo_closed)"
proof -
  show "authorize_provider_attempt_dispatch (Some 9) demo_ticket demo_generation 3 demo_prepared =
     Inr (DispatchFresh \<lparr>df_attempt_id = ProviderAttemptId (demo_v4 1), df_attempt_revision = 2,
       df_process_generation_id = demo_generation, df_process_generation_revision = 3,
       df_authorized_at_micros = 9\<rparr>, demo_dispatched)"
    unfolding dispatch_applied [OF demo_prepared_effect(2), where mj = "(@)"]
    using demo_dispatch_applies [of "(@)", unfolded demo_dispatch_def]
    by (intro exI [of _ 9] exI [of _ demo_attempt] exI [of _ demo_sent])
      (simp add: demo_ticket_def demo_preparation_def demo_sent_def)
  show "run_attempt_command (@) (Some 9) demo_dispatch demo_prepared =
      Inr (AttemptApplied (attempt_mutation_of demo_sent), demo_dispatched)"
    unfolding attempt_command_applied [OF demo_prepared_effect(2) demo_dispatch_valid]
    using demo_dispatch_applies by blast
  show "run_attempt_command (@) (Some 10) demo_record demo_dispatched =
      Inr (AttemptApplied (attempt_mutation_of demo_refused), demo_closed)"
    unfolding attempt_command_applied [OF demo_dispatched_effect(2) demo_record_valid]
    using demo_record_applies by blast
qed

text \<open>A digest for the concrete runs; no property depends on its values.\<close>

definition demo_digest :: "byte list \<Rightarrow> blob_hash" where
  "demo_digest _ = BlobHash (replicate 32 0)"

lemma demo_store_transactions:
  "store_transaction demo_digest (@) demo_store demo_prepared"
  "store_transaction demo_digest (@) demo_prepared demo_dispatched"
  "store_transaction demo_digest (@) demo_dispatched demo_closed"
  using store_transaction.prepare [OF demo_preparation_valid demo_plans_sound demo_ids demo_prepare]
    store_transaction.command [OF demo_dispatch_valid demo_attempt_runs(2)]
    store_transaction.command [OF demo_record_valid demo_attempt_runs(3)] by blast+

lemma demo_store_runs:
  "(store_transaction demo_digest (@))\<^sup>*\<^sup>* demo_store demo_prepared"
  "(store_transaction demo_digest (@))\<^sup>*\<^sup>* demo_store demo_dispatched"
  "(store_transaction demo_digest (@))\<^sup>*\<^sup>* demo_store demo_closed"
  "(store_transaction demo_digest (@))\<^sup>*\<^sup>* demo_dispatched demo_closed"
  using demo_store_transactions by (meson r_into_rtranclp rtranclp.rtrancl_into_rtrancl)+

lemma demo_store_invs: "store_inv demo_prepared" "store_inv demo_dispatched" "store_inv demo_closed"
  using store_runs demo_store_runs demo_store_inv(1) by blast+

end
