(* ===== verification/Attempt_Claims.thy ===== *)
theory Attempt_Claims
  imports Attempt_Demo
begin

text \<open>
  The properties of the durable writer of provider attempts, and of its composition with the
  writer of process generations.
\<close>

section \<open>Helper facts\<close>

text \<open>A terminal attempt is exactly one whose evidence is stored and fits.\<close>

lemma inv_terminal_evidence:
  assumes inv: "attempt_inv db" and a: "attempt_table db k = Some a"
  shows "terminal_evidence_matches db a \<longleftrightarrow> pa_state a \<in> {Succeeded, FailedDefinitive, NotSubmitted}"
proof -
  note row = attempt_table_row [OF inv a]
  have closed: "pa_state a \<in> {Succeeded, FailedDefinitive, NotSubmitted} \<longleftrightarrow> pa_terminal_evidence_id a \<noteq> None"
    using row(2) by (simp add: sound_attempt_def attempt_checks_def)
  have "terminal_evidence_matches db a" if has: "pa_terminal_evidence_id a \<noteq> None"
  proof -
    have link: "attempt_evidence_linked (ad_attempts db) (ad_evidence db)" using inv by (simp add: attempt_inv_def)
    have in_t: "attempt_row_of a \<in> set (ad_attempts db)" using attempt_inv_find(1) [OF inv row(1)] .
    have "ar_terminal_evidence_id (attempt_row_of a) \<noteq> None" using has by (simp add: attempt_row_of_def)
    then obtain e where e: "e \<in> set (ad_evidence db)" "pv_attempt_id e = attempt_id_text (pa_attempt_id a)"
      using link in_t unfolding attempt_evidence_linked_def attempt_row_columns [of a, symmetric] by fastforce
    then have fits: "attempt_evidence_fits e (attempt_row_of a)"
      using link row(1,3) unfolding attempt_evidence_linked_def by fastforce
    show ?thesis
      unfolding terminal_evidence_matches_def using has
    proof (intro conjI bexI [OF _ in_t] bexI [OF _ e(1)])
    qed (use fits e(2) in \<open>auto simp: attempt_evidence_fits_def attempt_row_of_def\<close>)
  qed
  then show ?thesis using closed by (auto simp: terminal_evidence_matches_def)
qed

lemma inv_open_turn:
  assumes inv: "attempt_inv db" and "attempt_table db k = Some a" "attempt_table db k' = Some b"
    and "consumer_turn (pa_consumer a) = consumer_turn (pa_consumer b)" "open_state (pa_state a)" "open_state (pa_state b)"
  shows "k = k'"
proof -
  note rows = attempt_table_row [OF inv assms(2)] attempt_table_row [OF inv assms(3)]
  let ?open = "filter (\<lambda>r. ar_state r \<in> set [''prepared'', ''dispatch_authorized'', ''unknown'']) (ad_attempts db)"
  have "attempt_row_of a \<in> set ?open" "attempt_row_of b \<in> set ?open"
    using attempt_inv_find(1) [OF inv] rows(1,4) assms(5,6) by (auto simp: attempt_row_columns open_state_def)
  moreover have "ar_turn_id (attempt_row_of a) = ar_turn_id (attempt_row_of b)"
    using assms(4) by (simp add: attempt_row_columns)
  moreover have "inj_on ar_turn_id (set ?open)"
    using inv by (simp add: attempt_inv_def attempt_keys_unique_def open_turns_def distinct_map)
  ultimately have "attempt_row_of a = attempt_row_of b" by (auto dest: inj_onD)
  then have "ar_attempt_id (attempt_row_of a) = ar_attempt_id (attempt_row_of b)" by simp
  then show ?thesis using rows(3,6) by (simp add: attempt_row_columns)
qed

lemma replay_of_attempt_step:
  assumes inv: "attempt_inv db'" and step: "attempt_step now c a a'"
    and a': "attempt_table db' (attempt_id_text (command_attempt c)) = Some a'"
    and bounds: "0 < pa_revision a" "pa_revision a < i64_max"
    and evidence: "\<And>n e. c = RecordEvidence n e \<Longrightarrow> evidence_row_of e now \<in> set (ad_evidence db')"
  shows "run_attempt_command mj clock c db' = Inr (AttemptReplayed (attempt_mutation_of a'), db')"
  using step
proof cases
  case (evidence n e)
  have "evidence_row_of e now \<in> set (ad_evidence db')" using evidence(1) assms(6) by blast
  then have "positive_evidence_matches db' e"
    unfolding positive_evidence_matches_def by (intro bexI) (simp_all add: evidence_row_of_def)
  then show ?thesis
    using a' evidence by (simp add: record_provider_attempt_positive_evidence_def read_attempt_table [OF inv] open_state_def)
qed (use a' saturating_successor [OF bounds] bounds in \<open>simp_all add: authorize_provider_attempt_dispatch_def
    cancel_provider_attempt_def mark_provider_attempt_unknown_def transition_attempt_def read_attempt_table [OF inv]\<close>)

lemma applied_evidence_stored:
  "attempt_applies mj clock db (RecordEvidence n e) now a a' db' \<Longrightarrow> evidence_row_of e now \<in> set (ad_evidence db')"
  by (simp add: attempt_applied_keeps(2))

section \<open>Properties\<close>

text \<open>
  C23. Refinement. A mutation of a provider attempt that reports \<open>Applied\<close> (a dispatch
  authorization: \<open>Fresh\<close>) commits exactly one step of the state machine on the attempt it
  names, reports the state and revision it committed, and leaves every other attempt and
  every process generation alone. Every other outcome leaves the database unchanged.
\<close>

theorem attempt_commands_refine:
  assumes "attempt_inv db" "valid_attempt_command c" "run_attempt_command mj clock c db = Inr (out, db')"
  shows "case out of
      AttemptApplied m \<Rightarrow> ad_processes db' = ad_processes db \<and> (\<exists>now a a'. clock = Some now \<and>
        attempt_table db (attempt_id_text (command_attempt c)) = Some a \<and> attempt_step now c a a' \<and>
        m = attempt_mutation_of a' \<and>
        attempt_table db' = (attempt_table db)(attempt_id_text (command_attempt c) \<mapsto> a'))
    | _ \<Rightarrow> db' = db"
proof (cases out)
  case (AttemptApplied m)
  then obtain now a a' where a: "attempt_applies mj clock db c now a a' db'" "m = attempt_mutation_of a'"
    using assms(3) attempt_command_applied [OF assms(1,2)] by blast
  then show ?thesis
    using applied_attempt(1) [OF assms(1) a(1) assms(2)] attempt_applied_keeps(3) [OF a(1)] AttemptApplied
    by (auto simp: attempt_applies_def target_attempt_def)
qed (use attempt_command_other [OF assms(1,3)] in auto)

theorem attempt_commands_refine_witness:
  "case AttemptApplied (attempt_mutation_of demo_refused) of
      AttemptApplied m \<Rightarrow> ad_processes demo_closed = ad_processes demo_dispatched \<and> (\<exists>now a a'. Some 10 = Some now \<and>
        attempt_table demo_dispatched (attempt_id_text (command_attempt demo_record)) = Some a \<and>
        attempt_step now demo_record a a' \<and> m = attempt_mutation_of a' \<and>
        attempt_table demo_closed =
          (attempt_table demo_dispatched)(attempt_id_text (command_attempt demo_record) \<mapsto> a'))
    | _ \<Rightarrow> demo_closed = demo_dispatched"
  by (rule attempt_commands_refine [OF demo_dispatched_effect(2) demo_record_valid demo_attempt_runs(3)])

text \<open>
  Dispatch, exactly. A dispatch is authorized precisely when the attempt is still
  prepared at the revision of the caller's ticket, names the generation and the revision the
  caller presents, that generation is ready at that revision, and the turn of the ticket is
  active at its revisions.
\<close>

lemma dispatch_authorized_exactly:
  assumes "attempt_inv db"
  shows "(\<exists>f db'. authorize_provider_attempt_dispatch clock p g n db = Inr (DispatchFresh f, db')) \<longleftrightarrow>
    (\<exists>now a fence. clock = Some now \<and> 0 < now \<and>
       attempt_table db (attempt_id_text (fp_attempt_id p)) = Some a \<and> pa_state a = Prepared \<and>
       pa_revision a = fp_revision p \<and> pa_revision a < i64_max \<and> pa_created_at_micros a \<le> now \<and>
       pa_process_generation_id a = g \<and> pa_process_generation_revision a = n \<and>
       generation_ready (ad_processes db) g n \<and>
       fp_conversation_turn_fence p = Some fence \<and> turn_ready db fence)"
  unfolding dispatch_applied [OF assms, where mj = "\<lambda>_ _. []"]
  by (auto simp: attempt_applies_def target_attempt_def attempt_step_dispatch)

lemma dispatch_authorized_exactly_witness:
  "\<exists>now a fence. Some 9 = Some now \<and> 0 < now \<and>
     attempt_table demo_prepared (attempt_id_text (fp_attempt_id demo_ticket)) = Some a \<and> pa_state a = Prepared \<and>
     pa_revision a = fp_revision demo_ticket \<and> pa_revision a < i64_max \<and> pa_created_at_micros a \<le> now \<and>
     pa_process_generation_id a = demo_generation \<and> pa_process_generation_revision a = 3 \<and>
     generation_ready (ad_processes demo_prepared) demo_generation 3 \<and>
     fp_conversation_turn_fence demo_ticket = Some fence \<and> turn_ready demo_prepared fence"
  using dispatch_authorized_exactly [OF demo_prepared_effect(2), of "Some 9" demo_ticket demo_generation 3]
    demo_attempt_runs(1) by blast

text \<open>
  C2. A request leaves at most once. After a dispatch of an attempt has been authorized, no
  run of the store, whatever the other writers do and however often the callers retry, ever
  authorizes a dispatch of the same attempt again.
\<close>

theorem dispatch_at_most_once:
  assumes "store_inv db" "authorize_provider_attempt_dispatch clock p g n db = Inr (DispatchFresh f, db1)"
    and "(store_transaction digest mj)\<^sup>*\<^sup>* db1 db2" "fp_attempt_id p' = fp_attempt_id p"
  shows "\<nexists>f' db3. authorize_provider_attempt_dispatch clock' p' g' n' db2 = Inr (DispatchFresh f', db3)"
proof -
  let ?k = "attempt_id_text (fp_attempt_id p)"
  have inv: "attempt_inv db" using assms(1) by (simp add: store_inv_def)
  obtain now a a' where applies: "attempt_applies mj clock db (AuthorizeDispatch p g n) now a a' db1"
    using assms(2) dispatch_applied [OF inv] by blast
  note effect = command_transaction [OF assms(1) _ applies, simplified] applied_attempt(1) [OF inv applies, simplified]
  have "attempt_table db1 ?k = Some a'" "pa_state a' \<noteq> Prepared"
    using effect(2) applies by (auto simp: attempt_applies_def dest: attempt_step_moves)
  moreover have run: "store_inv db2" "attempt_table_step\<^sup>*\<^sup>* (attempt_table db1) (attempt_table db2)"
    using store_runs [OF assms(3)] effect(1) by blast+
  ultimately obtain b where "attempt_table db2 ?k = Some b" "pa_state b \<noteq> Prepared"
    using attempt_steps_fixed unfolding attempt_fixed_def by meson
  moreover have "attempt_inv db2" using run(1) by (simp add: store_inv_def)
  ultimately show ?thesis
    using assms(4) dispatch_applied [of db2, where mj = mj]
    by (auto simp: attempt_applies_def target_attempt_def attempt_step_dispatch)
qed

theorem dispatch_at_most_once_witness:
  "\<nexists>f' db3. authorize_provider_attempt_dispatch (Some 11) demo_ticket demo_generation 3 demo_closed =
     Inr (DispatchFresh f', db3)"
  by (rule dispatch_at_most_once [OF demo_store_invs(1) demo_attempt_runs(1) demo_store_runs(4) refl])

text \<open>
  The invariant of the store. Every transaction of both writers keeps it: unique
  attempts and requests, at most one open attempt per turn, rows that satisfy the checks of
  the schema and link to their evidence, and attempts that name a process of their own
  account. So every stored attempt can be read back: the reader never reports a malformed row.
\<close>

lemma attempt_store_invariant:
  assumes "store_inv db" "(store_transaction digest mj)\<^sup>*\<^sup>* db db'"
  shows "store_inv db' \<and> read_attempt db' k = Inr (attempt_table db' k)"
  using store_runs [OF assms(2,1)] read_attempt_table [of db' k] unfolding store_inv_def by blast

lemma attempt_store_invariant_witness:
  "store_inv demo_closed \<and> read_attempt demo_closed (demo_v4 1) = Inr (attempt_table demo_closed (demo_v4 1))"
  by (rule attempt_store_invariant [OF demo_store_inv(1) demo_store_runs(3)])

text \<open>
  A terminal outcome is proved. After any run, the check that the runtime makes before it
  trusts an outcome (stored evidence for the same request, with the outcome and a key of the
  attempt) accepts an attempt exactly when its state is one of the three proved outcomes.
\<close>

lemma terminal_outcome_is_proved:
  assumes "store_inv db" "(store_transaction digest mj)\<^sup>*\<^sup>* db db'" "read_attempt db' k = Inr (Some a)"
  shows "terminal_evidence_matches db' a \<longleftrightarrow> pa_state a \<in> {Succeeded, FailedDefinitive, NotSubmitted}"
proof -
  have inv: "attempt_inv db'" using store_runs [OF assms(2,1)] by (simp add: store_inv_def)
  then show ?thesis using inv_terminal_evidence [OF inv] assms(3) by (simp add: read_attempt_table [OF inv])
qed

lemma terminal_outcome_is_proved_witness:
  "terminal_evidence_matches demo_closed demo_refused \<longleftrightarrow>
     pa_state demo_refused \<in> {Succeeded, FailedDefinitive, NotSubmitted}"
proof (rule terminal_outcome_is_proved [OF demo_store_inv(1) demo_store_runs(3)])
  show "read_attempt demo_closed (demo_v4 1) = Inr (Some demo_refused)"
    by (simp add: read_attempt_table [OF demo_closed_effect(2)] demo_closed_effect(1))
qed

text \<open>
  One open attempt per turn. After any run, two attempts that are prepared, dispatched or
  unknown belong to different turns: an unknown outcome blocks a second request for the turn.
\<close>

lemma one_open_attempt_per_turn:
  assumes "store_inv db" "(store_transaction digest mj)\<^sup>*\<^sup>* db db'"
    and "attempt_table db' k = Some a" "attempt_table db' k' = Some b" "k \<noteq> k'"
    and "\<not> attempt_is_terminal (pa_state a)" "\<not> attempt_is_terminal (pa_state b)"
  shows "consumer_turn (pa_consumer a) \<noteq> consumer_turn (pa_consumer b)"
proof -
  have "attempt_inv db'" using store_runs [OF assms(2,1)] by (simp add: store_inv_def)
  moreover have "open_state (pa_state a)" "open_state (pa_state b)"
    using assms(6,7) by (simp_all only: not_terminal_open)
  ultimately show ?thesis using inv_open_turn assms(3-5) by blast
qed

text \<open>A store with two open attempts, on different turns.\<close>

definition demo_second :: provider_attempt where
  "demo_second = demo_attempt\<lparr>pa_attempt_id := ProviderAttemptId (demo_v4 4),
     pa_request_id := ProviderRequestId (demo_v4 5),
     pa_consumer := ConversationTurn (ConversationId (demo_uuid 6)) (TurnId (demo_uuid 10))\<rparr>"

definition demo_pair :: attempt_db where
  "demo_pair = demo_store\<lparr>ad_attempts := [attempt_row_of demo_attempt, attempt_row_of demo_second]\<rparr>"

lemma demo_distinct:
  "demo_v4 1 \<noteq> demo_v4 4" "demo_v4 2 \<noteq> demo_v4 5" "demo_uuid 7 \<noteq> demo_uuid 10"
  by code_simp+

lemma demo_pair_table:
  "attempt_table demo_pair (demo_v4 1) = Some demo_attempt" "attempt_table demo_pair (demo_v4 4) = Some demo_second"
  "store_inv demo_pair"
proof -
  have sound: "sound_attempt demo_attempt"
    using attempt_table_row(2) [OF demo_prepared_effect(2)] demo_prepared_effect(1) by simp
  then have sound2: "sound_attempt demo_second"
    by (simp add: sound_attempt_def valid_attempt_def attempt_checks_def demo_second_def)
  have cols: "ar_attempt_id (attempt_row_of demo_attempt) = demo_v4 1" "ar_attempt_id (attempt_row_of demo_second) = demo_v4 4"
    by (simp_all add: attempt_row_columns demo_attempt_columns demo_second_def)
  have find: "find_attempt_row (ad_attempts demo_pair) k = (if k = demo_v4 1 then Some (attempt_row_of demo_attempt)
      else if k = demo_v4 4 then Some (attempt_row_of demo_second) else None)" for k
    by (simp add: demo_pair_def find_attempt_row_def find_row_def cols)
  show t1: "attempt_table demo_pair (demo_v4 1) = Some demo_attempt"
    and t2: "attempt_table demo_pair (demo_v4 4) = Some demo_second"
    using sound sound2 demo_distinct by (simp_all add: attempt_table_iff find sound_attempt_def)
  have "attempt_keys_unique (ad_attempts demo_pair)"
    using demo_distinct
    by (simp add: attempt_keys_unique_def open_turns_def demo_pair_def attempt_row_columns demo_attempt_columns
        demo_second_def demo_preparation_def)
  moreover have "attempt_row_sound (attempt_row_of demo_attempt)" "attempt_row_sound (attempt_row_of demo_second)"
    using sound sound2 unfolding attempt_row_sound_def by blast+
  moreover have "ar_terminal_evidence_id (attempt_row_of demo_attempt) = None"
    "ar_terminal_evidence_id (attempt_row_of demo_second) = None"
    by (simp_all add: attempt_row_of_def demo_second_def demo_attempt_def fresh_attempt_def)
  ultimately have inv: "attempt_inv demo_pair"
    by (simp add: attempt_inv_def attempt_evidence_linked_def demo_pair_def demo_store_def)
  have process: "attempt_process demo_processes demo_attempt" "attempt_process demo_processes demo_second"
    using demo_processes_table
    by (simp_all add: attempt_process_def demo_second_def demo_attempt_def fresh_attempt_def demo_generation_def
        demo_process_def demo_bound_def demo_fresh_def fresh_generation_def demo_intent_def demo_authority_def demo_epoch_def)
  have "attempt_process (ad_processes demo_pair) a" if in_t: "attempt_table demo_pair k = Some a" for k a
  proof -
    have "k = demo_v4 1 \<or> k = demo_v4 4" using in_t by (auto simp: attempt_table_iff find split: if_splits)
    then show ?thesis using t1 t2 in_t process by (auto simp: demo_pair_def demo_store_def)
  qed
  with inv show "store_inv demo_pair"
    by (simp add: store_inv_def demo_pair_def demo_store_def demo_processes_inv)
qed

lemma one_open_attempt_per_turn_witness:
  "consumer_turn (pa_consumer demo_attempt) \<noteq> consumer_turn (pa_consumer demo_second)"
  by (rule one_open_attempt_per_turn [OF demo_pair_table(3) rtranclp.rtrancl_refl demo_pair_table(1,2) demo_distinct(1)])
    (simp_all add: demo_attempt_columns demo_second_def)

text \<open>
  C22. A dispatch runs on the attempt's own live process. When the store authorizes a dispatch,
  the process generation it names is ready at the very revision the attempt was prepared for,
  has a bound process identity, belongs to the attempt's account and execution epoch, and is
  the only generation of that account that is not dead.
\<close>

theorem dispatch_on_live_process:
  assumes "store_inv db" "authorize_provider_attempt_dispatch clock p g n db = Inr (DispatchFresh f, db')"
  shows "\<exists>a h. attempt_table db' (attempt_id_text (fp_attempt_id p)) = Some a \<and> pa_state a = DispatchAuthorized \<and>
    generation_table (ad_processes db') (generation_id_text g) = Some h \<and>
    pg_state h = Ready \<and> pg_revision h = n \<and> pa_process_generation_revision a = n \<and>
    pg_process_identity h \<noteq> None \<and> pg_account_id h = pa_account_id a \<and>
    pg_execution_epoch_id h = pa_process_execution_epoch_id a \<and>
    (\<nexists>k' h'. generation_table (ad_processes db') k' = Some h' \<and> pg_account_id h' = pa_account_id a \<and>
       pg_state h' \<noteq> Dead \<and> k' \<noteq> generation_id_text g)"
proof -
  let ?c = "AuthorizeDispatch p g n"
  have inv: "attempt_inv db" and inv_g: "generation_inv (ad_processes db)" using assms(1) by (simp_all add: store_inv_def)
  obtain mj now a a' where applies: "attempt_applies mj clock db ?c now a a' db'"
    using assms(2) dispatch_applied [OF inv] by blast
  have step: "attempt_step now ?c a a'" and ready: "generation_ready (ad_processes db) g n"
    using applies by (auto simp: attempt_applies_def)
  have same: "ad_processes db' = ad_processes db" using attempt_applied_keeps(3) [OF applies] .
  have a': "attempt_table db' (attempt_id_text (fp_attempt_id p)) = Some a'"
    using applied_attempt(1) [OF inv applies] by simp
  obtain q where q: "q \<in> set (gd_generations (ad_processes db))" "gr_generation_id q = generation_id_text g"
    "gr_revision q = n" "gr_state q = ''ready''"
    using ready by (auto simp: generation_ready_def)
  have "find_generation_row (gd_generations (ad_processes db)) (generation_id_text g) = Some q"
    using find_row_distinct [of gr_generation_id _ q] q(1,2) inv_g
    by (simp add: find_generation_row_def generation_inv_def generation_keys_unique_def)
  then obtain h where h: "generation_table (ad_processes db) (generation_id_text g) = Some h" "row_shows q h"
    using generation_inv_find(3) [OF inv_g] unfolding generation_table_iff row_sound_def by blast
  have "state_as_sql (pg_state h) = ''ready''" "pg_revision h = n"
    using h(2) q(3,4) unfolding row_shows_def by metis+
  then have live: "pg_state h = Ready" "pg_revision h = n" by simp_all
  then have bound: "pg_process_identity h \<noteq> None"
    using table_generation_checks [OF inv_g h(1)] by (auto simp: generation_checks_def)
  have "store_inv db'" using command_transaction [OF assms(1) _ applies] by simp
  then have "attempt_process (ad_processes db) a'" using a' same unfolding store_inv_def by metis
  then have link: "pg_account_id h = pa_account_id a'" "pg_execution_epoch_id h = pa_process_execution_epoch_id a'"
    using h(1) step by (auto simp: attempt_process_def attempt_step_dispatch)
  have unique: "k' = generation_id_text g" if other: "generation_table (ad_processes db) k' = Some h'"
    "pg_account_id h' = pa_account_id a'" "pg_state h' \<noteq> Dead" for k' h'
    using inv_one_live [OF inv_g other(1) h(1)] other live link by simp
  have "pa_state a' = DispatchAuthorized" "pa_process_generation_revision a' = n"
    using step by (auto simp: attempt_step_dispatch)
  with a' h(1) live bound link unique show ?thesis unfolding same by blast
qed

theorem dispatch_on_live_process_witness:
  "\<exists>a h. attempt_table demo_dispatched (attempt_id_text (fp_attempt_id demo_ticket)) = Some a \<and>
    pa_state a = DispatchAuthorized \<and>
    generation_table (ad_processes demo_dispatched) (generation_id_text demo_generation) = Some h \<and>
    pg_state h = Ready \<and> pg_revision h = 3 \<and> pa_process_generation_revision a = 3 \<and>
    pg_process_identity h \<noteq> None \<and> pg_account_id h = pa_account_id a \<and>
    pg_execution_epoch_id h = pa_process_execution_epoch_id a \<and>
    (\<nexists>k' h'. generation_table (ad_processes demo_dispatched) k' = Some h' \<and> pg_account_id h' = pa_account_id a \<and>
       pg_state h' \<noteq> Dead \<and> k' \<noteq> generation_id_text demo_generation)"
  by (rule dispatch_on_live_process [OF demo_store_invs(1) demo_attempt_runs(1)])

end
