(* ===== verification/Attempt_Outcomes.thy ===== *)
theory Attempt_Outcomes
  imports Attempt_Claims
begin

text \<open>
  Further properties of provider attempts: their lifetime over runs, the exact admission of a
  preparation, replays, the projection after a supervisor loss, the close of a turn that was
  not submitted, and that no open attempt is stuck.
\<close>

text \<open>
  Attempts are revision-fenced. Over any run, an attempt is never removed, its revision
  never decreases, a caller that still sees its revision sees the very same attempt, a
  terminal attempt never changes, and the request, the turn, the account and the process of
  an attempt are fixed.
\<close>

lemma attempt_revision_fences:
  assumes "store_inv db" "(store_transaction digest mj)\<^sup>*\<^sup>* db db'" "attempt_table db k = Some a"
  shows "\<exists>a'. attempt_table db' k = Some a' \<and> pa_revision a \<le> pa_revision a' \<and>
    (pa_revision a' = pa_revision a \<longrightarrow> a' = a) \<and> (attempt_is_terminal (pa_state a) \<longrightarrow> a' = a) \<and>
    pa_request_id a' = pa_request_id a \<and> pa_consumer a' = pa_consumer a \<and>
    pa_account_id a' = pa_account_id a \<and> pa_process_generation_id a' = pa_process_generation_id a \<and>
    pa_process_generation_revision a' = pa_process_generation_revision a"
proof -
  have run: "attempt_table_step\<^sup>*\<^sup>* (attempt_table db) (attempt_table db')"
    using store_runs [OF assms(2,1)] by blast
  obtain a' where a': "attempt_table db' k = Some a'" "attempt_fixed a a'"
    using attempt_steps_fixed [OF run assms(3)] by blast
  have "attempt_is_terminal (pa_state a) \<longrightarrow> a' = a"
    using attempt_rows.steps_terminal [OF run assms(3)] a'(1) by auto
  with a' attempt_rows.steps_revision_mono [OF run assms(3) a'(1)]
    attempt_rows.steps_same_revision [OF run assms(3) a'(1)]
  show ?thesis unfolding attempt_fixed_def by blast
qed

lemma attempt_revision_fences_witness:
  "\<exists>a'. attempt_table demo_closed (demo_v4 1) = Some a' \<and> pa_revision demo_sent \<le> pa_revision a' \<and>
    pa_request_id a' = pa_request_id demo_sent \<and> pa_account_id a' = pa_account_id demo_sent"
  using attempt_revision_fences [OF demo_store_invs(2) demo_store_runs(4), of "demo_v4 1" demo_sent]
  by (auto simp: demo_dispatched_effect(1))

text \<open>
  Admission of an attempt, exactly. A preparation of a new attempt succeeds precisely when
  it is well formed, its revisions are given, no attempt has its id, the continuation plan
  grants the authority at those revisions, the duplicate risk fits the plan, no attempt has
  its request and no open attempt has its turn; it then inserts one attempt, prepared at
  revision 1, for the account and session of the plan.
\<close>

lemma attempt_admission_exact:
  assumes "attempt_inv db" "valid_preparation p" "plans_sound db"
    and "is_canonical_uuid (generation_id_text g)" "is_canonical_uuid (epoch_id_text epoch)"
  shows "prepare_provider_attempt digest clock p g n epoch key revisions db = Inr (AttemptFresh f, db') \<longleftrightarrow>
    (\<exists>now r authority. clock = Some now \<and> 0 < now \<and> preparation_validate p = Inr () \<and> 0 < n \<and>
       revisions = (Some r, Some 1) \<and> 0 < r \<and>
       attempt_table db (attempt_id_text (pp_attempt_id p)) = None \<and>
       read_prepared_attempt_authority db p g n epoch key (fence_of p r) = Some authority \<and>
       duplicate_risk_matches_plan digest db (pp_duplicate_risk p) (consumer_conversation (pp_consumer p))
         (consumer_turn (pp_consumer p)) (au_plan_kind authority) (au_source_runtime_session_id authority)
         (pp_continuation_plan_id p) \<and>
       (\<forall>a \<in> ran (attempt_table db). pa_request_id a \<noteq> pp_request_id p \<and>
          (consumer_turn (pa_consumer a) = consumer_turn (pp_consumer p) \<longrightarrow> attempt_is_terminal (pa_state a))) \<and>
       au_account_id authority \<in> acr_account_id ` set (gd_accounts (ad_processes db)) \<and>
       epoch_id_text epoch \<in> er_execution_epoch_id ` set (gd_epochs (ad_processes db)) \<and>
       f = \<lparr>fp_attempt_id = pp_attempt_id p, fp_revision = 1, fp_prepared_at_micros = now,
            fp_conversation_turn_fence = Some (fence_of p r)\<rparr> \<and>
       db' = db\<lparr>ad_attempts := ad_attempts db @ [attempt_row_of (fresh_attempt p authority g n epoch now)]\<rparr>)"
proof -
  have "attempt_is_terminal s \<longleftrightarrow> \<not> open_state s" for s by (auto simp: open_state_def)
  then show ?thesis
    unfolding prepare_attempt_fresh [OF assms] attempt_admitted_def attempt_columns_free_def by auto
qed

lemma attempt_admission_exact_witness:
  "\<exists>now r authority. Some 8 = Some now \<and> 0 < now \<and> preparation_validate demo_preparation = Inr () \<and>
     (Some 1, Some 1) = (Some r, Some (1::int)) \<and> 0 < r \<and>
     attempt_table demo_store (attempt_id_text (pp_attempt_id demo_preparation)) = None \<and>
     read_prepared_attempt_authority demo_store demo_preparation demo_generation 3 demo_epoch None
       (fence_of demo_preparation r) = Some authority \<and>
     demo_prepared = demo_store\<lparr>ad_attempts := ad_attempts demo_store @
       [attempt_row_of (fresh_attempt demo_preparation authority demo_generation 3 demo_epoch now)]\<rparr>"
  using attempt_admission_exact [OF demo_store_inv(2) demo_preparation_valid demo_plans_sound demo_ids,
      of demo_digest "Some 8" 3 None "(Some 1, Some 1)" demo_ticket demo_prepared]
    demo_prepare [of demo_digest] by blast

text \<open>
  Replays. A mutation that applied and whose answer was lost can be sent again, at any
  clock: it answers \<open>Replayed\<close> with the state and revision it committed, and changes nothing.
\<close>

lemma applied_attempt_command_replays:
  assumes "attempt_inv db" "valid_attempt_command c" "run_attempt_command mj clock c db = Inr (AttemptApplied m, db')"
  shows "run_attempt_command mj clock' c db' = Inr (AttemptReplayed m, db')"
proof -
  obtain now a a' where a: "attempt_applies mj clock db c now a a' db'" and m: "m = attempt_mutation_of a'"
    using assms(3) attempt_command_applied [OF assms(1,2)] by blast
  note effect = applied_attempt [OF assms(1) a assms(2)]
  have step: "attempt_step now c a a'" and max: "pa_revision a < i64_max" and found: "target_attempt db c = Some a"
    using a by (simp_all add: attempt_applies_def)
  have "0 < pa_revision a"
    using attempt_table_row(2) [OF assms(1)] found
    by (simp add: target_attempt_def sound_attempt_def attempt_checks_def)
  moreover have "attempt_table db' (attempt_id_text (command_attempt c)) = Some a'" using effect(1) by simp
  moreover have "evidence_row_of e now \<in> set (ad_evidence db')" if ce: "c = RecordEvidence n e" for n e
    using applied_evidence_stored a unfolding ce by blast
  ultimately show ?thesis
    unfolding m using replay_of_attempt_step [OF effect(2) step _ _ max] by blast
qed

lemma applied_attempt_command_replays_witness:
  "run_attempt_command (@) (Some 12) demo_record demo_closed =
     Inr (AttemptReplayed (attempt_mutation_of demo_refused), demo_closed)"
  by (rule applied_attempt_command_replays [OF demo_dispatched_effect(2) demo_record_valid demo_attempt_runs(3)])

text \<open>
  After a supervisor loss. The projection turns every attempt that was prepared or
  dispatched into an unknown one with the restore reason, at the next revision, and leaves
  every other attempt as it was; so no attempt stays in a state from which a dispatch or a
  cancellation could follow.
\<close>

lemma attempt_projection_after_loss:
  assumes "attempt_inv db" "project_provider_attempts_after_supervisor_loss clock db = Inr (n, db')"
  shows "\<exists>now. clock = Some now \<and> (\<forall>k. attempt_table db' k = map_option (\<lambda>a.
      if pa_state a \<in> {Prepared, DispatchAuthorized}
      then a\<lparr>pa_state := AttemptUnknown, pa_unknown_reason := Some RestoreProjection,
             pa_revision := pa_revision a + 1, pa_updated_at_micros := now\<rparr>
      else a) (attempt_table db k)) \<and> ad_processes db' = ad_processes db"
  using projected_attempts [OF assms] unfolding attempt_lost_def [abs_def] by auto

lemma demo_projects:
  "\<exists>db'. project_provider_attempts_after_supervisor_loss (Some 20) demo_dispatched = Inr (1, db')"
proof -
  have sound: "sound_attempt demo_sent"
    using attempt_table_row(2) [OF demo_dispatched_effect(2)] demo_dispatched_effect(1) by simp
  have "pa_created_at_micros demo_sent = 8" by (simp add: demo_sent_def demo_attempt_columns)
  with sound have checks: "valid_attempt (attempt_lost 20 demo_sent)" "attempt_checks (attempt_lost 20 demo_sent)"
    by (auto simp: attempt_lost_def sound_attempt_def valid_attempt_def attempt_checks_def)
  have pending: "pending_row (attempt_row_of demo_sent)" by (simp add: pending_row_of demo_sent_def)
  have "attempt_row_checks (lost_attempt_row 20 (attempt_row_of demo_sent))"
    using attempt_row_checks_iff [OF checks(1)] checks(2) lost_attempt_row_of [of demo_sent 20] pending by simp
  moreover have "ar_revision (attempt_row_of demo_sent) < i64_max"
    by (simp add: attempt_row_of_def demo_sent_def i64_max_def)
  moreover have "ad_attempts demo_dispatched = [attempt_row_of demo_sent]" by (simp add: demo_dispatched_def)
  ultimately show ?thesis
    unfolding project_attempts_iff using pending
    by (simp add: update_rows_def attempt_keys_unique_def open_turns_def)
qed

lemma attempt_projection_after_loss_witness:
  "\<exists>db'. project_provider_attempts_after_supervisor_loss (Some 20) demo_dispatched = Inr (1, db') \<and>
     (\<exists>a. attempt_table db' (demo_v4 1) = Some a \<and> pa_state a = AttemptUnknown \<and> pa_revision a = 3)"
proof -
  obtain db' where run: "project_provider_attempts_after_supervisor_loss (Some 20) demo_dispatched = Inr (1, db')"
    using demo_projects by blast
  from attempt_projection_after_loss [OF demo_dispatched_effect(2) run] show ?thesis
    using run by (auto simp: demo_dispatched_effect(1) demo_sent_def)
qed

text \<open>
  C24. A proved non-submission closes its input, or is refused whole. When a non-submission
  receipt of a known thread is recorded, the active user turn of the attempt fails at the
  same clock, and exactly one item, the notice to the user, is appended to the history. When
  there is no such turn, nothing is recorded and the call reports the mismatch.
\<close>

theorem non_submission_closes_turn:
  assumes "attempt_inv db" "is_canonical_uuid_v4 (evidence_id_text (pe_evidence_id e))"
    and "pe_source e = PositiveNonSubmissionReceipt" "pe_provider_thread_id e = Some thread"
    and "run_attempt_command mj clock (RecordEvidence n e) db = Inr (AttemptApplied m, db')"
  shows "\<exists>now a. clock = Some now \<and> attempt_table db (attempt_id_text (pe_attempt_id e)) = Some a \<and>
    am_state m = NotSubmitted \<and>
    (\<exists>t \<in> set (ad_turns db). tr_turn_id t = turn_id_text (consumer_turn (pa_consumer a)) \<and>
       tr_role t = ''user'' \<and> tr_status t = ''active'' \<and> failed_turn now t \<in> set (ad_turns db')) \<and>
    ad_history db' = ad_history db @ [non_submission_item mj db a e now]"
proof -
  obtain now a a' where applies: "attempt_applies mj clock db (RecordEvidence n e) now a a' db'"
    and m: "m = attempt_mutation_of a'"
    using assms(5) evidence_applied [OF assms(1,2)] by blast
  let ?db = "updated_attempt_db db now (RecordEvidence n e)"
  have step: "attempt_step now (RecordEvidence n e) a a'"
    and fin: "non_submission_finalize mj ?db a e now = Inr db'"
    and found: "attempt_table db (attempt_id_text (pe_attempt_id e)) = Some a" "clock = Some now"
    using applies by (simp_all add: attempt_applies_def target_attempt_def)
  have "positive_evidence_validate e = Inr ()" using step by (simp add: attempt_step_evidence)
  then have outcome: "pe_outcome e = OutcomeNotSubmitted"
    using assms(3) by (simp add: positive_evidence_validate_Ok_iff evidence_valid_shape_def)
  have same: "ad_turns ?db = ad_turns db" "ad_history ?db = ad_history db" by simp_all
  let ?p = "non_submission_turn ?db a thread"
  have turns: "ad_turns db' = update_rows ?p (failed_turn now) (ad_turns db)"
    and some: "filter ?p (ad_turns db) \<noteq> []"
    and history: "ad_history db' = ad_history db @ [non_submission_item mj ?db a e now]"
    using fin outcome assms(3,4)
    by (auto simp: non_submission_finalize_def update_turns_def insert_history_def touch_conversation_def
        and_then_Ok_iff Let_def same non_submission_item_def split: if_splits)
  obtain t where t: "t \<in> set (ad_turns db)" "?p t"
    using some by (auto simp: filter_empty_conv)
  then have "failed_turn now t \<in> set (ad_turns db')" unfolding turns set_update_rows by force
  moreover have "tr_turn_id t = turn_id_text (consumer_turn (pa_consumer a))" "tr_role t = ''user''" "tr_status t = ''active''"
    using t(2) by (simp_all add: non_submission_turn_def)
  moreover have "non_submission_item mj ?db a e now = non_submission_item mj db a e now"
    by (simp add: non_submission_item_def)
  moreover have "am_state m = NotSubmitted" using step outcome m
    by (simp add: attempt_step_evidence attempt_mutation_of_def)
  ultimately show ?thesis using found t(1) history by auto
qed

theorem non_submission_closes_turn_witness:
  "\<exists>now a. Some 10 = Some now \<and> attempt_table demo_dispatched (attempt_id_text (pe_attempt_id demo_receipt)) = Some a \<and>
    am_state (attempt_mutation_of demo_refused) = NotSubmitted \<and>
    (\<exists>t \<in> set (ad_turns demo_dispatched). tr_turn_id t = turn_id_text (consumer_turn (pa_consumer a)) \<and>
       tr_role t = ''user'' \<and> tr_status t = ''active'' \<and> failed_turn now t \<in> set (ad_turns demo_closed)) \<and>
    ad_history demo_closed = ad_history demo_dispatched @ [non_submission_item (@) demo_dispatched a demo_receipt now]"
  by (rule non_submission_closes_turn [OF demo_dispatched_effect(2) _ _ _ demo_attempt_runs(3) [unfolded demo_record_def]])
    (simp_all add: demo_receipt_def)

text \<open>
  C25. No open attempt is stuck. A prepared attempt can be canceled, and one that was dispatched
  or is unknown can be closed by valid evidence for its request under one of its keys, with one
  exception: a non-submission receipt that names a provider thread, which the store refuses when the
  turn cannot be closed (C24), is not covered. Given a clock that is positive and not before the creation
  of the attempt, a revision that can grow, and an evidence id that is a version-4 UUID not yet used,
  the store accepts the call and the attempt ends terminal.
\<close>

theorem open_attempt_can_close:
  assumes "attempt_inv db" "attempt_table db (attempt_id_text k) = Some a" "\<not> attempt_is_terminal (pa_state a)"
    and "pa_revision a < i64_max" "0 < now" "pa_created_at_micros a \<le> now"
    and "pe_attempt_id e = k" "pe_request_id e = pa_request_id a" "keys_contain (pa_provider_keys a) (pe_provider_key e)"
    and "positive_evidence_validate e = Inr ()" "is_canonical_uuid_v4 (evidence_id_text (pe_evidence_id e))"
    and "evidence_id_text (pe_evidence_id e) \<notin> pv_evidence_id ` set (ad_evidence db)"
    and "pe_source e = PositiveNonSubmissionReceipt \<longrightarrow> pe_provider_thread_id e = None"
  shows "\<exists>m db'. attempt_is_terminal (am_state m) \<and>
    (if pa_state a = Prepared
     then cancel_provider_attempt (Some now) k (pa_revision a) db = Inr (AttemptApplied m, db')
     else record_provider_attempt_positive_evidence mj (Some now) (pa_revision a) e db =
       Inr (AttemptApplied m, db'))"
proof (cases "pa_state a = Prepared")
  case True
  then have step: "attempt_step now (CancelAttempt k (pa_revision a)) a (a\<lparr>pa_state := Canceled,
      pa_unknown_reason := None, pa_revision := pa_revision a + 1, pa_updated_at_micros := now\<rparr>)" (is "attempt_step now ?c a ?a")
    by (simp add: attempt_step_cancel)
  have "\<exists>db'. attempt_applies mj (Some now) db ?c now a ?a db'"
    using step assms(2,4,5,6) by (simp add: attempt_applies_def target_attempt_def)
  then obtain db' where "run_attempt_command mj (Some now) ?c db = Inr (AttemptApplied (attempt_mutation_of ?a), db')"
    using attempt_command_applied [OF assms(1), of ?c mj "Some now"] by fastforce
  with True show ?thesis by (auto simp: attempt_mutation_of_def)
next
  case False
  let ?a = "a\<lparr>pa_state := outcome_state (pe_outcome e), pa_unknown_reason := None,
      pa_terminal_evidence_id := Some (pe_evidence_id e), pa_revision := pa_revision a + 1, pa_updated_at_micros := now\<rparr>"
  let ?c = "RecordEvidence (pa_revision a) e"
  have step: "attempt_step now ?c a ?a"
    using False assms(3,8-10) by (auto simp: attempt_step_evidence)
  have "non_submission_finalize mj d a e now = Inr d" for d
    using assms(13) by (auto simp: non_submission_finalize_def split: option.splits)
  then have "\<exists>db'. attempt_applies mj (Some now) db ?c now a ?a db'"
    using step assms(2,4-7,12) by (simp add: attempt_applies_def target_attempt_def)
  then obtain db' where "run_attempt_command mj (Some now) ?c db = Inr (AttemptApplied (attempt_mutation_of ?a), db')"
    using evidence_applied [OF assms(1,11)] by fastforce
  moreover have "attempt_is_terminal (am_state (attempt_mutation_of ?a))"
    by (simp add: attempt_mutation_of_def)
  ultimately show ?thesis using False by auto
qed

definition demo_lookup :: provider_positive_evidence where
  "demo_lookup = demo_receipt\<lparr>pe_source := PositiveIdempotencyLookup, pe_outcome := OutcomeSucceeded\<rparr>"

theorem open_attempt_can_close_witness:
  "\<exists>m db'. attempt_is_terminal (am_state m) \<and>
    (if pa_state demo_sent = Prepared
     then cancel_provider_attempt (Some 10) (ProviderAttemptId (demo_v4 1)) (pa_revision demo_sent) demo_dispatched =
       Inr (AttemptApplied m, db')
     else record_provider_attempt_positive_evidence (@) (Some 10) (pa_revision demo_sent) demo_lookup demo_dispatched =
       Inr (AttemptApplied m, db'))"
proof (rule open_attempt_can_close [OF demo_dispatched_effect(2)])
  show "positive_evidence_validate demo_lookup = Inr ()"
    using demo_receipt_valid
    by (simp add: positive_evidence_validate_Ok_iff demo_lookup_def evidence_valid_shape_def)
  show "attempt_table demo_dispatched (attempt_id_text (ProviderAttemptId (demo_v4 1))) = Some demo_sent"
    by (simp add: demo_dispatched_effect(1))
  show "evidence_id_text (pe_evidence_id demo_lookup) \<notin> pv_evidence_id ` set (ad_evidence demo_dispatched)"
    by (simp add: demo_dispatched_def demo_store_def)
qed (simp_all add: demo_sent_def demo_attempt_columns i64_max_def demo_lookup_def demo_receipt_def keys_contain_def
    demo_preparation_def)

end
