(* ===== verification/Store_Reads.thy ===== *)
theory Store_Reads
  imports Attempt_Runs "HOL-Library.List_Lexorder" "HOL-Library.Char_ord"
begin

text \<open>
  The reads of the two writers: a page of generations with their account bindings, a page of
  attempts, and the admission of a generation for a conversation, which needs the receipt of
  the command that authorized it. A page is ordered by key, in the byte order of SQLite's
  text columns, and starts after the cursor.
\<close>

section \<open>Pages\<close>

text \<open>\<^verbatim>\<open>WHERE sel AND (cursor IS NULL OR key > cursor) ORDER BY key LIMIT limit\<close>.\<close>

definition page_ids :: "('r \<Rightarrow> string) \<Rightarrow> ('r \<Rightarrow> bool) \<Rightarrow> string option \<Rightarrow> nat \<Rightarrow> 'r list \<Rightarrow> string list" where
  "page_ids key sel after limit t =
     take limit (sort (map key (filter (\<lambda>r. sel r \<and> (case after of None \<Rightarrow> True | Some k \<Rightarrow> k < key r)) t)))"

text \<open>The byte order written out is the lexicographic order of the library.\<close>

lemma text_less_eq: "text_less s t \<longleftrightarrow> s < t"
proof (induction s t rule: text_less.induct)
  case (4 a s b t)
  have "a < b \<longleftrightarrow> code a < code b" by (simp add: less_char_def)
  with 4 show ?case by (auto simp: list_less_def)
qed (simp_all add: list_less_def)

text \<open>
  A cursor that is the last key of a page starts the next one: the pages are consecutive
  segments of the sorted keys.
\<close>

lemma greater_than_nth:
  fixes xs :: "'a::linorder list"
  assumes "sorted_wrt (<) xs" "i < length xs"
  shows "filter (\<lambda>x. xs ! i < x) xs = drop (Suc i) xs"
  using assms
proof (induction xs arbitrary: i)
  case (Cons x xs)
  show ?case
  proof (cases i)
    case 0
    have "\<forall>y \<in> set xs. x < y" using Cons.prems(1) by simp
    then show ?thesis by (simp add: 0 filter_id_conv)
  next
    case (Suc j)
    have "x < xs ! j" using Cons.prems Suc by simp
    then show ?thesis using Cons Suc by (simp add: order.strict_implies_not_eq less_imp_not_less)
  qed
qed simp

definition selected_keys :: "('r \<Rightarrow> string) \<Rightarrow> ('r \<Rightarrow> bool) \<Rightarrow> 'r list \<Rightarrow> string list" where
  "selected_keys key sel t = sort (map key (filter sel t))"

lemma page_segments:
  assumes "distinct (map key t)"
  shows "page_ids key sel None n t = take n (selected_keys key sel t)"
    and "i < length (selected_keys key sel t) \<Longrightarrow>
      page_ids key sel (Some (selected_keys key sel t ! i)) n t = take n (drop (Suc i) (selected_keys key sel t))"
    and "sorted_wrt (<) (selected_keys key sel t)"
    and "set (selected_keys key sel t) = key ` {r \<in> set t. sel r}"
proof -
  let ?L = "selected_keys key sel t"
  show "page_ids key sel None n t = take n ?L" by (simp add: page_ids_def selected_keys_def)
  have "distinct ?L" using assms by (simp add: selected_keys_def distinct_map_filter)
  moreover have "sorted ?L" by (simp add: selected_keys_def)
  ultimately show strict: "sorted_wrt (<) ?L" by (simp add: strict_sorted_iff)
  show "set ?L = key ` {r \<in> set t. sel r}" by (simp add: selected_keys_def)
  show "page_ids key sel (Some (?L ! i)) n t = take n (drop (Suc i) ?L)" if i: "i < length ?L"
  proof -
    have "map key (filter (\<lambda>r. sel r \<and> ?L ! i < key r) t) = filter (\<lambda>x. ?L ! i < x) (map key (filter sel t))"
      by (simp add: filter_map filter_filter comp_def conj_commute)
    then have "page_ids key sel (Some (?L ! i)) n t = take n (filter (\<lambda>x. ?L ! i < x) ?L)"
      by (simp add: page_ids_def selected_keys_def filter_sort)
    also have "\<dots> = take n (drop (Suc i) ?L)" by (simp add: greater_than_nth [OF strict i])
    finally show ?thesis .
  qed
qed

section \<open>Reading generations\<close>

record bound_process_generation =
  bg_generation :: process_generation
  bg_account_binding :: "account_binding option"

definition validate_limit :: "16 word \<Rightarrow> store_error + unit" where
  "validate_limit limit =
     (if \<not> (1 \<le> limit \<and> limit \<le> 256)
      then Inl (InvalidInput ''ProcessGeneration diagnostic limit must be between 1 and 256'')
      else Inr ())"

definition parse_binding_columns :: "generation_row \<Rightarrow> store_error + account_binding" where
  "parse_binding_columns row =
     (if gr_provider row \<noteq> ''chatgpt'' then Inl (incompatible ''credential provider'')
      else
      and_then (ok_or (incompatible ''credential schema'') (u16_try_from (gr_credential_schema_version row))) (\<lambda>schema.
      and_then (or_incompatible ''credential schema'' (schema_version_new schema)) (\<lambda>schema_version.
      and_then (ok_or (incompatible ''credential version'') (u64_try_from (gr_credential_version row))) (\<lambda>version.
      and_then (or_incompatible ''credential version'' (credential_version_new version)) (\<lambda>version.
      and_then (or_incompatible ''credential fingerprint'' (credential_fingerprint_new (gr_credential_fingerprint row))) (\<lambda>fingerprint.
      and_then (or_incompatible ''credential writer'' (account_operation_id_new (gr_credential_writer_operation_id row))) (\<lambda>writer.
      and_then (or_incompatible ''provider identity'' (provider_identity_new Chatgpt (gr_provider_account_id row))) (\<lambda>provider.
        or_incompatible ''generation account binding'' (account_binding_new (gr_account_revision row)
          \<lparr>cb_schema_version = schema_version, cb_version = version, cb_fingerprint = fingerprint,
           cb_provider = provider, cb_writer_operation_id = writer\<rparr>
          (gr_refresh_callback_profile_sha256 row))))))))))"

definition read_generation_binding :: "generation_db \<Rightarrow> string \<Rightarrow> store_error + account_binding" where
  "read_generation_binding db k =
     and_then (ok_or sql_error (find_generation_row (gd_generations db) k)) parse_binding_columns"

definition page_selects :: "string option \<Rightarrow> bool \<Rightarrow> generation_row \<Rightarrow> bool" where
  "page_selects account include_dead r \<longleftrightarrow> (case account of None \<Rightarrow> True | Some a \<Rightarrow> gr_account_id r = a) \<and>
     (include_dead \<or> gr_state r \<noteq> ''dead'')"

definition read_bound_page ::
    "generation_db \<Rightarrow> string option \<Rightarrow> bool \<Rightarrow> string option \<Rightarrow> 16 word \<Rightarrow>
     store_error + bound_process_generation list" where
  "read_bound_page db account include_dead after limit =
     traverse (\<lambda>k.
       and_then (read_generation db k) (\<lambda>v.
       and_then (ok_or (incompatible ''generation'') v) (\<lambda>generation.
       and_then (read_generation_binding db k) (\<lambda>binding.
         Inr \<lparr>bg_generation = generation, bg_account_binding = Some binding\<rparr>))))
     (page_ids gr_generation_id (page_selects account include_dead) after (unat limit) (gd_generations db))"

definition read_bound_process_generation_page ::
    "generation_db \<Rightarrow> account_id option \<Rightarrow> bool \<Rightarrow> process_generation_id option \<Rightarrow> 16 word \<Rightarrow>
     store_error + bound_process_generation list" where
  "read_bound_process_generation_page db account include_dead after limit =
     and_then (validate_limit limit) (\<lambda>_.
       read_bound_page db (map_option account_id_text account) include_dead
         (map_option generation_id_text after) limit)"

definition read_bound_process_generations ::
    "generation_db \<Rightarrow> account_id option \<Rightarrow> bool \<Rightarrow> 16 word \<Rightarrow> store_error + bound_process_generation list" where
  "read_bound_process_generations db account include_dead limit =
     read_bound_process_generation_page db account include_dead None limit"

definition read_process_generation_page ::
    "generation_db \<Rightarrow> account_id option \<Rightarrow> bool \<Rightarrow> process_generation_id option \<Rightarrow> 16 word \<Rightarrow>
     store_error + process_generation list" where
  "read_process_generation_page db account include_dead after limit =
     and_then (read_bound_process_generation_page db account include_dead after limit) (\<lambda>page.
       Inr (map bg_generation page))"

section \<open>Reading attempts\<close>

definition attempt_page_selects :: "string option \<Rightarrow> string option \<Rightarrow> attempt_row \<Rightarrow> bool" where
  "attempt_page_selects account state r \<longleftrightarrow>
     (case account of None \<Rightarrow> True | Some a \<Rightarrow> ar_account_id r = a) \<and>
     (case state of None \<Rightarrow> True | Some s \<Rightarrow> ar_state r = s)"

definition read_provider_attempt_page ::
    "attempt_db \<Rightarrow> account_id option \<Rightarrow> provider_attempt_state option \<Rightarrow> provider_attempt_id option \<Rightarrow> 16 word \<Rightarrow>
     store_error + provider_attempt list" where
  "read_provider_attempt_page db account state after limit =
     (if \<not> (1 \<le> limit \<and> limit \<le> 256)
      then Inl (InvalidInput ''ProviderAttempt read limit must be between 1 and 256'')
      else
      traverse (\<lambda>k. and_then (read_attempt db k) (ok_or (incompatible ''attempt'')))
        (page_ids ar_attempt_id (attempt_page_selects (map_option account_id_text account)
           (map_option attempt_state_as_sql state)) (map_option attempt_id_text after) (unat limit)
           (ad_attempts db)))"

definition read_provider_attempt ::
    "attempt_db \<Rightarrow> provider_attempt_id \<Rightarrow> store_error + provider_attempt option" where
  "read_provider_attempt db attempt = read_attempt db (attempt_id_text attempt)"

section \<open>Admission for a conversation\<close>

text \<open>The receipts that \<^verbatim>\<open>runtime_sessions.rs\<close> writes, and its one-use admission.\<close>

record receipt_row =
  rr_idempotency_key :: string
  rr_request_sha256 :: string
  rr_operation :: string
  rr_entity_id :: string
  rr_response_json :: string

record prepare_conversation_generation =
  cg_conversation_id :: conversation_id
  cg_expected_conversation_revision :: i64
  cg_runtime_session_id :: runtime_session_id
  cg_expected_runtime_session_revision :: i64
  cg_turn_id :: turn_id
  cg_expected_turn_revision :: i64
  cg_continuation_plan_id :: string
  cg_routing_decision_id :: string
  cg_selected_account_id :: account_id
  cg_process_generation_id :: process_generation_id

record conversation_admission =
  ca_idempotency_key :: string
  ca_request_sha256 :: string
  ca_request :: prepare_conversation_generation

definition receipt_matches :: "receipt_row list \<Rightarrow> conversation_admission \<Rightarrow> process_generation_intent \<Rightarrow> bool" where
  "receipt_matches receipts admission intent \<longleftrightarrow>
     (\<exists>r \<in> set receipts. rr_idempotency_key r = ca_idempotency_key admission \<and>
        rr_request_sha256 r = ca_request_sha256 admission \<and>
        rr_operation r = ''prepare_quick_task_process_generation'' \<and>
        rr_entity_id r = generation_id_text (in_generation_id intent))"

definition prepare_conversation_bound_process_generation ::
    "i64 option \<Rightarrow> i64 option \<Rightarrow> receipt_row list \<Rightarrow> process_generation_intent \<Rightarrow> account_binding \<Rightarrow>
     conversation_admission \<Rightarrow> generation_db \<Rightarrow> store_error + prepare_outcome \<times> generation_db" where
  "prepare_conversation_bound_process_generation epoch_clock clock receipts intent binding admission db =
     (if cg_process_generation_id (ca_request admission) \<noteq> in_generation_id intent
         \<or> in_account_id intent \<noteq> cg_selected_account_id (ca_request admission)
      then Inl (InvalidInput ''Conversation admission and ProcessGeneration identity differ'')
      else if \<not> receipt_matches receipts admission intent
      then Inr (PrepareRejected ConversationAuthorityUnavailable empty_mutation, db)
      else prepare_bound_generation epoch_clock clock intent binding
        (Some (runtime_session_id_text (cg_runtime_session_id (ca_request admission))))
        (Some (ca_idempotency_key admission)) db)"

end
