(* ===== verification/Read_Claims.thy ===== *)
theory Read_Claims
  imports Store_Reads Attempt_Claims
begin

text \<open>
  What the reads give: the pages enumerate the table without gap or repetition, and the
  account binding of a generation is read back as it was admitted, whatever ran in between.
\<close>

section \<open>The binding of a row\<close>

definition row_binds :: "generation_row \<Rightarrow> account_binding \<Rightarrow> bool" where
  "row_binds r b \<longleftrightarrow>
     gr_account_revision r = ab_account_revision b \<and>
     gr_credential_schema_version r = uint (schema_get (cb_schema_version (ab_credential b))) \<and>
     gr_credential_version r = uint (credential_version_get (cb_version (ab_credential b))) \<and>
     gr_credential_fingerprint r = fingerprint_text (cb_fingerprint (ab_credential b)) \<and>
     gr_credential_writer_operation_id r = operation_id_text (cb_writer_operation_id (ab_credential b)) \<and>
     gr_provider r = ''chatgpt'' \<and>
     gr_provider_account_id r = pid_account_id (cb_provider (ab_credential b)) \<and>
     gr_refresh_callback_profile_sha256 r = ab_refresh_callback_profile_sha256 b"

lemma u16_try_from_iff: "u16_try_from n = Some w \<longleftrightarrow> n = uint w"
proof
  assume "u16_try_from n = Some w"
  then have "0 \<le> n" "n < 2 ^ 16" "w = word_of_int n" by (auto simp: u16_try_from_def split: if_splits)
  then show "n = uint w" by (simp add: uint_word_of_int)
next
  assume "n = uint w"
  then show "u16_try_from n = Some w"
    using unsigned_less [of w, where 'a = int] by (simp add: u16_try_from_def)
qed

lemma u64_try_from_uint: "u64_try_from (uint w) = Some w"
  by (simp add: u64_try_from_def)

lemma parse_binding_of_row:
  assumes "row_binds r b" "valid_binding b"
  shows "parse_binding_columns r = Inr b"
proof -
  obtain rev c profile where b: "b = \<lparr>ab_account_revision = rev, ab_credential = c,
      ab_refresh_callback_profile_sha256 = profile\<rparr>" by (cases b)
  obtain s v f p w where c: "c = \<lparr>cb_schema_version = s, cb_version = v, cb_fingerprint = f, cb_provider = p,
      cb_writer_operation_id = w\<rparr>" by (cases c)
  note cols = assms(1) [unfolded row_binds_def b c, simplified]
  note valid = assms(2) [unfolded valid_binding_def valid_credential_def b c, simplified]
  have schema: "schema_version_new (schema_get s) = Inr s"
    using valid by (cases s) (auto simp: schema_version_new_def schema_v1_def schema_v2_def)
  have version: "credential_version_new (credential_version_get v) = Inr v"
    using valid by (cases v) (auto simp: credential_version_new_def)
  have provider: "provider_identity_new Chatgpt (pid_account_id p) = Inr p"
    using valid by (cases p; cases "pid_provider p")
      (auto simp: provider_identity_new_def is_bounded_provider_identity_def)
  have rev: "account_binding_new rev c' profile = Inr \<lparr>ab_account_revision = rev, ab_credential = c',
      ab_refresh_callback_profile_sha256 = profile\<rparr>" for c'
    using valid by (simp add: account_binding_new_def)
  have ids: "credential_fingerprint_new (fingerprint_text f) = Inr f" "account_operation_id_new (operation_id_text w) = Inr w"
    using valid by (simp_all add: credential_fingerprint.make_text account_operation_id.make_text)
  have "u16_try_from (uint (schema_get s)) = Some (schema_get s)" by (simp add: u16_try_from_iff)
  with cols schema version provider rev ids show ?thesis
    by (simp add: parse_binding_columns_def u64_try_from_uint b c)
qed

text \<open>Every row of the table has a readable binding.\<close>

definition rows_bound :: "generation_db \<Rightarrow> bool" where
  "rows_bound db \<longleftrightarrow> (\<forall>r \<in> set (gd_generations db). \<exists>b. row_binds r b \<and> valid_binding b)"

lemma credential_version_uint:
  "credential_version_i64 c = Inr version \<Longrightarrow> version = uint (credential_version_get (cb_version c))"
  by (auto simp: credential_version_i64_def i64_try_from_u64_def split: if_splits)

lemma intent_row_binds:
  assumes "credential_version_i64 (ab_credential binding) = Inr version"
  shows "row_binds (intent_row intent binding session key version now) binding"
proof -
  have "provider_text p = ''chatgpt''" for p by (cases p) simp
  then show ?thesis
    by (simp add: row_binds_def intent_row_def credential_version_uint [OF assms])
qed

lemma command_update_binds: "row_binds (command_update now c r) b \<longleftrightarrow> row_binds r b"
  by (cases c) (simp_all add: row_binds_def)

lemma lost_row_binds: "row_binds (lost_row now r) b \<longleftrightarrow> row_binds r b"
  by (simp add: row_binds_def lost_row_def)

text \<open>A transaction keeps every row's key and binding.\<close>

definition bindings_kept :: "generation_db \<Rightarrow> generation_db \<Rightarrow> bool" where
  "bindings_kept db db' \<longleftrightarrow> (\<forall>k r b. find_generation_row (gd_generations db) k = Some r \<longrightarrow> row_binds r b \<longrightarrow>
     (\<exists>r'. find_generation_row (gd_generations db') k = Some r' \<and> row_binds r' b))"

lemma bindings_kept_same: "gd_generations db' = gd_generations db \<Longrightarrow> bindings_kept db db'"
  by (simp add: bindings_kept_def)

lemma updated_bindings:
  assumes "\<And>r. gr_generation_id (f r) = gr_generation_id r" "\<And>r b. row_binds (f r) b \<longleftrightarrow> row_binds r b"
    and "gd_generations db' = update_rows p f (gd_generations db)"
  shows "bindings_kept db db'" "rows_bound db \<Longrightarrow> rows_bound db'"
proof -
  show "bindings_kept db db'"
    unfolding bindings_kept_def find_generation_row_def assms(3)
    using assms(1,2) by (auto simp: find_row_update)
  show "rows_bound db'" if bound: "rows_bound db"
    unfolding rows_bound_def
  proof
    fix r
    assume "r \<in> set (gd_generations db')"
    then obtain q where "q \<in> set (gd_generations db)" "r = (if p q then f q else q)"
      unfolding assms(3) set_update_rows by blast
    then show "\<exists>b. row_binds r b \<and> valid_binding b"
      using bound assms(2) unfolding rows_bound_def by metis
  qed
qed

lemma applied_rows:
  "\<exists>p. gd_generations (applied_db db now c) = update_rows p (command_update now c) (gd_generations db)"
  by (cases c) (auto simp: updated_rows_def)

lemma transaction_bindings:
  assumes "transaction db db'" "generation_inv db"
  shows "bindings_kept db db' \<and> (rows_bound db \<longrightarrow> rows_bound db')"
  using assms
proof (induction rule: transaction.induct)
  case (prepare intent binding epoch_clock clock session key db out db')
  show ?case
  proof (cases "\<exists>fence. out = Fresh fence")
    case False
    then have "gd_generations db' = gd_generations db" using prepare_other prepare by metis
    then show ?thesis by (simp add: bindings_kept_same rows_bound_def)
  next
    case True
    then obtain now version where
      rows: "gd_generations db' = gd_generations db @ [intent_row intent binding session key version now]"
      and version: "credential_version_i64 (ab_credential binding) = Inr version"
      using prepare.hyps(3) prepare_fresh_db [OF prepare.prems prepare.hyps(1,2)] by fastforce
    have "bindings_kept db db'"
      by (simp add: bindings_kept_def rows find_generation_row_def find_row_append)
    moreover have "\<exists>b. row_binds (intent_row intent binding session key version now) b \<and> valid_binding b"
      using intent_row_binds [OF version] prepare.hyps(2) by blast
    then have "rows_bound db \<Longrightarrow> rows_bound db'" by (auto simp: rows_bound_def rows)
    ultimately show ?thesis by blast
  qed
next
  case (command c clock db outcome db')
  show ?case
  proof (cases "\<exists>m. outcome = Applied m")
    case False
    then have "db' = db" using command_other command by metis
    then show ?thesis by (simp add: bindings_kept_same)
  next
    case True
    then obtain now where db': "db' = applied_db db now c"
      using command.hyps(2) command_applied [OF command.prems command.hyps(1)] by blast
    obtain p where "gd_generations db' = update_rows p (command_update now c) (gd_generations db)"
      using applied_rows db' by blast
    then show ?thesis
      using updated_bindings [of "command_update now c" db' p db] command_update_keeps(1) command_update_binds by blast
  qed
next
  case (supervisor clock db n db')
  obtain now where "gd_generations db' = update_rows live_row (lost_row now) (gd_generations db)"
    using supervisor.hyps project_db [OF supervisor.prems] by auto
  moreover have "gr_generation_id (lost_row now r) = gr_generation_id r" for r by (simp add: lost_row_def)
  ultimately show ?case
    using updated_bindings [of "lost_row now" db' live_row db] lost_row_binds by blast
next
  case (other_writer db' db)
  then show ?case by (simp add: bindings_kept_same rows_bound_def)
qed

lemma transactions_bindings:
  "transaction\<^sup>*\<^sup>* db db' \<Longrightarrow> generation_inv db \<Longrightarrow> bindings_kept db db' \<and> (rows_bound db \<longrightarrow> rows_bound db')"
proof (induction rule: rtranclp_induct)
  case base
  then show ?case by (simp add: bindings_kept_same)
next
  case (step u v)
  have "generation_inv u" using transactions_step [OF step.hyps(1) step.prems] by blast
  then have "bindings_kept u v \<and> (rows_bound u \<longrightarrow> rows_bound v)"
    using transaction_bindings [OF step.hyps(2)] by blast
  with step show ?case unfolding bindings_kept_def by blast
qed

text \<open>
  The account binding is immutable. The binding under which a generation was admitted (the
  account revision, the credential with its version and fingerprint, and the callback
  profile) is what every later read of the generation returns, after any run of
  transactions.
\<close>

lemma admitted_binding_is_kept:
  assumes "generation_inv db" "valid_intent intent" "valid_binding binding"
    and "prepare_bound_generation epoch_clock clock intent binding session key db = Inr (Fresh fence, db1)"
    and "transaction\<^sup>*\<^sup>* db1 db2"
  shows "read_generation_binding db2 (generation_id_text (in_generation_id intent)) = Inr binding"
proof -
  let ?k = "generation_id_text (in_generation_id intent)"
  obtain now version where adm: "admitted epoch_clock clock intent binding session key db now"
    and rows: "gd_generations db1 = gd_generations db @ [intent_row intent binding session key version now]"
    and version: "credential_version_i64 (ab_credential binding) = Inr version"
    using assms(4) prepare_fresh_db [OF assms(1-3)] by fastforce
  have "find_generation_row (gd_generations db) ?k = None"
    using adm table_None [OF assms(1)] by (simp add: admitted_def)
  then have "find_generation_row (gd_generations db1) ?k = Some (intent_row intent binding session key version now)"
    by (simp add: rows find_generation_row_def find_row_append intent_row_def)
  moreover have "generation_inv db1" using prepared_effect(2) [OF assms(1-4)] .
  ultimately obtain r where "find_generation_row (gd_generations db2) ?k = Some r" "row_binds r binding"
    using transactions_bindings [OF assms(5)] intent_row_binds [OF version] unfolding bindings_kept_def by blast
  then show ?thesis using parse_binding_of_row assms(3) by (simp add: read_generation_binding_def)
qed

lemma admitted_binding_is_kept_witness:
  "read_generation_binding dead_db (generation_id_text (in_generation_id demo_intent)) = Inr demo_binding"
proof (rule admitted_binding_is_kept [OF ready_db_inv demo_intent_valid demo_binding_valid ready_db_prepare])
  show "transaction\<^sup>*\<^sup>* admitted_db dead_db"
    using transaction.command [OF demo_bind_valid demo_runs(1)] demo_transactions(2)
    by (meson converse_rtranclp_into_rtranclp)
qed

section \<open>Pages\<close>

lemma selected_generations:
  assumes inv: "generation_inv db"
  shows "set (selected_keys gr_generation_id (page_selects (map_option account_id_text account) include_dead)
      (gd_generations db)) =
    {k. \<exists>g. generation_table db k = Some g \<and> (account = None \<or> account = Some (pg_account_id g)) \<and>
       (include_dead \<or> pg_state g \<noteq> Dead)}" (is "?keys = ?match")
proof -
  let ?sel = "page_selects (map_option account_id_text account) include_dead"
  have keys: "?keys = gr_generation_id ` {r \<in> set (gd_generations db). ?sel r}"
    by (simp add: selected_keys_def)
  have sel: "?sel r \<longleftrightarrow> (account = None \<or> account = Some (pg_account_id g)) \<and> (include_dead \<or> pg_state g \<noteq> Dead)"
    if "row_shows r g" for r g
    using that account_id.expand by (cases account) (auto simp: page_selects_def row_shows_def)
  show ?thesis
  proof (intro equalityI subsetI)
    fix k
    assume "k \<in> ?keys"
    then obtain r where r: "r \<in> set (gd_generations db)" "?sel r" "k = gr_generation_id r" using keys by auto
    have "find_generation_row (gd_generations db) k = Some r"
      using inv r(1,3) find_row_distinct [of gr_generation_id "gd_generations db" r]
      by (simp add: find_generation_row_def generation_inv_def generation_keys_unique_def)
    moreover obtain g where "row_shows r g" "valid_generation g"
      using inv r(1) by (auto simp: generation_inv_def row_sound_def)
    ultimately show "k \<in> ?match" using r(2) sel unfolding generation_table_iff by blast
  next
    fix k
    assume "k \<in> ?match"
    then obtain g r where g: "find_generation_row (gd_generations db) k = Some r" "row_shows r g"
      "account = None \<or> account = Some (pg_account_id g)" "include_dead \<or> pg_state g \<noteq> Dead"
      unfolding generation_table_iff by blast
    then have "r \<in> {r \<in> set (gd_generations db). ?sel r}" "gr_generation_id r = k"
      using generation_inv_find(1,2) [OF inv g(1)] sel [OF g(2)] by auto
    then show "k \<in> ?keys" unfolding keys by blast
  qed
qed

lemma read_generation_page:
  assumes inv: "generation_inv db" and bound: "rows_bound db" and limit: "1 \<le> limit" "limit \<le> 256"
    and ids: "page_ids gr_generation_id (page_selects (map_option account_id_text account) include_dead)
      (map_option generation_id_text after) (unat limit) (gd_generations db) = ks"
    and ks: "set ks \<subseteq> dom (generation_table db)"
  shows "read_process_generation_page db account include_dead after limit =
    Inr (map (the \<circ> generation_table db) ks)"
proof -
  have one: "and_then (read_generation db k) (\<lambda>v. and_then (ok_or (incompatible ''generation'') v) (\<lambda>generation.
       and_then (read_generation_binding db k) (\<lambda>binding.
         Inr \<lparr>bg_generation = generation, bg_account_binding = Some binding\<rparr>))) =
     Inr \<lparr>bg_generation = the (generation_table db k),
       bg_account_binding = ok_opt (read_generation_binding db k)\<rparr>" if k: "k \<in> set ks" for k
  proof -
    obtain g where g: "generation_table db k = Some g" using ks k by blast
    then obtain r where r: "find_generation_row (gd_generations db) k = Some r"
      unfolding generation_table_iff by blast
    then obtain b where "row_binds r b" "valid_binding b"
      using bound generation_inv_find(1) [OF inv r] unfolding rows_bound_def by blast
    then have "read_generation_binding db k = Inr b"
      using r by (simp add: read_generation_binding_def parse_binding_of_row)
    with g show ?thesis by (simp add: read_generation_table [OF inv])
  qed
  have "traverse (\<lambda>k. and_then (read_generation db k) (\<lambda>v. and_then (ok_or (incompatible ''generation'') v)
       (\<lambda>generation. and_then (read_generation_binding db k) (\<lambda>binding.
         Inr \<lparr>bg_generation = generation, bg_account_binding = Some binding\<rparr>)))) ks =
     Inr (map (\<lambda>k. \<lparr>bg_generation = the (generation_table db k),
       bg_account_binding = ok_opt (read_generation_binding db k)\<rparr>) ks)"
    by (rule traverse_Ok) (rule one)
  then show ?thesis
    using limit
    by (simp add: read_process_generation_page_def read_bound_process_generation_page_def validate_limit_def
        read_bound_page_def ids comp_def)
qed

text \<open>
  The pages of generations are complete. Under one filter, the keys of the matching
  generations in byte order are cut into pages: the first read returns the first of them, and
  a read whose cursor is the key of any of them returns the ones right behind it, up to the
  limit. So a reader that follows the last key sees every matching generation exactly once.
\<close>

lemma generation_pages_complete:
  assumes "generation_inv db" "rows_bound db" "1 \<le> limit" "limit \<le> 256"
  shows "\<exists>L. sorted_wrt (<) L \<and>
    set L = {k. \<exists>g. generation_table db k = Some g \<and> (account = None \<or> account = Some (pg_account_id g)) \<and>
       (include_dead \<or> pg_state g \<noteq> Dead)} \<and>
    read_process_generation_page db account include_dead None limit =
      Inr (map (the \<circ> generation_table db) (take (unat limit) L)) \<and>
    (\<forall>i < length L. read_process_generation_page db account include_dead (Some (ProcessGenerationId (L ! i))) limit =
      Inr (map (the \<circ> generation_table db) (take (unat limit) (drop (Suc i) L))))"
proof -
  let ?sel = "page_selects (map_option account_id_text account) include_dead"
  let ?L = "selected_keys gr_generation_id ?sel (gd_generations db)"
  have "distinct (map gr_generation_id (gd_generations db))"
    using assms(1) by (simp add: generation_inv_def generation_keys_unique_def)
  note page = page_segments [OF this, where sel = ?sel]
  note keys = selected_generations [OF assms(1), of account include_dead]
  have dom: "set ?L \<subseteq> dom (generation_table db)" unfolding keys by auto
  have first: "read_process_generation_page db account include_dead None limit =
      Inr (map (the \<circ> generation_table db) (take (unat limit) ?L))"
    using dom set_take_subset by (intro read_generation_page [OF assms]) (auto simp: page(1) dest!: in_set_takeD)
  have "read_process_generation_page db account include_dead (Some (ProcessGenerationId (?L ! i))) limit =
      Inr (map (the \<circ> generation_table db) (take (unat limit) (drop (Suc i) ?L)))" if i: "i < length ?L" for i
    using dom by (intro read_generation_page [OF assms])
      (auto simp: page(2) [OF i] dest!: in_set_takeD in_set_dropD)
  with first page(3) keys show ?thesis by blast
qed

lemma generation_pages_complete_witness:
  "\<exists>L. sorted_wrt (<) L \<and>
    read_process_generation_page bound_db None False None 2 =
      Inr (map (the \<circ> generation_table bound_db) (take 2 L)) \<and>
    set L = {generation_id_text demo_key}"
proof -
  have "rows_bound ready_db" by (simp add: rows_bound_def ready_db_def)
  then have "rows_bound bound_db" using transactions_bindings [OF demo_transactions(1) ready_db_inv] by blast
  from generation_pages_complete [OF bound_db_effect(2) this, of 2 None False]
  obtain L where L: "sorted_wrt (<) L" "set L = {k. \<exists>g. generation_table bound_db k = Some g \<and> pg_state g \<noteq> Dead}"
    "read_process_generation_page bound_db None False None 2 = Inr (map (the \<circ> generation_table bound_db) (take (unat (2::16 word)) L))"
    by auto
  have "set L = {generation_id_text demo_key}"
    unfolding L(2) by (auto simp: bound_db_table demo_bound_def demo_fresh_def fresh_generation_def)
  then show ?thesis using L(1,3) by auto
qed

lemma selected_attempts:
  assumes inv: "attempt_inv db"
  shows "set (selected_keys ar_attempt_id (attempt_page_selects (map_option account_id_text account)
      (map_option attempt_state_as_sql state)) (ad_attempts db)) =
    {k. \<exists>a. attempt_table db k = Some a \<and> (account = None \<or> account = Some (pa_account_id a)) \<and>
       (state = None \<or> state = Some (pa_state a))}" (is "?keys = ?match")
proof -
  let ?sel = "attempt_page_selects (map_option account_id_text account) (map_option attempt_state_as_sql state)"
  have sel: "?sel (attempt_row_of a) \<longleftrightarrow> (account = None \<or> account = Some (pa_account_id a)) \<and>
      (state = None \<or> state = Some (pa_state a))" for a
    using account_id.expand attempt_state_label.label_inj
    by (cases account; cases state) (auto simp: attempt_page_selects_def attempt_row_of_def)
  have "?keys = ar_attempt_id ` {r \<in> attempt_row_of ` ran (attempt_table db). ?sel r}"
    by (simp add: selected_keys_def attempt_rows_ran [OF inv])
  also have "\<dots> = {attempt_id_text (pa_attempt_id a) | a. a \<in> ran (attempt_table db) \<and> ?sel (attempt_row_of a)}"
  proof -
    have "{r \<in> attempt_row_of ` ran (attempt_table db). ?sel r} =
        attempt_row_of ` {a \<in> ran (attempt_table db). ?sel (attempt_row_of a)}" by blast
    then show ?thesis by (simp only: image_image attempt_row_columns) blast
  qed
  also have "\<dots> = ?match"
  proof -
    have "a \<in> ran (attempt_table db) \<and> k = attempt_id_text (pa_attempt_id a) \<longleftrightarrow> attempt_table db k = Some a" for a k
      using attempt_table_row(3) [OF inv] by (auto simp: ran_def)
    then show ?thesis unfolding sel by blast
  qed
  finally show ?thesis .
qed

lemma read_attempt_page:
  assumes inv: "attempt_inv db" and limit: "1 \<le> limit" "limit \<le> 256"
    and ids: "page_ids ar_attempt_id (attempt_page_selects (map_option account_id_text account)
      (map_option attempt_state_as_sql state)) (map_option attempt_id_text after) (unat limit) (ad_attempts db) = ks"
    and ks: "set ks \<subseteq> dom (attempt_table db)"
  shows "read_provider_attempt_page db account state after limit = Inr (map (the \<circ> attempt_table db) ks)"
proof -
  have "traverse (\<lambda>k. and_then (read_attempt db k) (ok_or (incompatible ''attempt''))) ks =
      Inr (map (the \<circ> attempt_table db) ks)"
    using ks by (intro traverse_Ok) (auto simp: read_attempt_table [OF inv])
  then show ?thesis using limit by (simp add: read_provider_attempt_page_def ids)
qed

text \<open>
  The pages of attempts are complete, in the same sense: the matching attempts, in the
  byte order of their ids, are cut into consecutive pages by the cursor.
\<close>

lemma attempt_pages_complete:
  assumes "attempt_inv db" "1 \<le> limit" "limit \<le> 256"
  shows "\<exists>L. sorted_wrt (<) L \<and>
    set L = {k. \<exists>a. attempt_table db k = Some a \<and> (account = None \<or> account = Some (pa_account_id a)) \<and>
       (state = None \<or> state = Some (pa_state a))} \<and>
    read_provider_attempt_page db account state None limit =
      Inr (map (the \<circ> attempt_table db) (take (unat limit) L)) \<and>
    (\<forall>i < length L. read_provider_attempt_page db account state (Some (ProviderAttemptId (L ! i))) limit =
      Inr (map (the \<circ> attempt_table db) (take (unat limit) (drop (Suc i) L))))"
proof -
  let ?sel = "attempt_page_selects (map_option account_id_text account) (map_option attempt_state_as_sql state)"
  let ?L = "selected_keys ar_attempt_id ?sel (ad_attempts db)"
  have "distinct (map ar_attempt_id (ad_attempts db))"
    using assms(1) by (simp add: attempt_inv_def attempt_keys_unique_def)
  note page = page_segments [OF this, where sel = ?sel]
  note keys = selected_attempts [OF assms(1), of account state]
  have dom: "set ?L \<subseteq> dom (attempt_table db)" unfolding keys by auto
  have first: "read_provider_attempt_page db account state None limit =
      Inr (map (the \<circ> attempt_table db) (take (unat limit) ?L))"
    using dom by (intro read_attempt_page [OF assms]) (auto simp: page(1) dest!: in_set_takeD)
  have "read_provider_attempt_page db account state (Some (ProviderAttemptId (?L ! i))) limit =
      Inr (map (the \<circ> attempt_table db) (take (unat limit) (drop (Suc i) ?L)))" if i: "i < length ?L" for i
    using dom by (intro read_attempt_page [OF assms]) (auto simp: page(2) [OF i] dest!: in_set_takeD in_set_dropD)
  with first page(3) keys show ?thesis by blast
qed

lemma attempt_pages_complete_witness:
  "\<exists>L. sorted_wrt (<) L \<and> set L = {demo_v4 1, demo_v4 4} \<and>
    read_provider_attempt_page demo_pair None None None 1 =
      Inr (map (the \<circ> attempt_table demo_pair) (take 1 L)) \<and>
    read_provider_attempt_page demo_pair None None (Some (ProviderAttemptId (L ! 0))) 1 =
      Inr (map (the \<circ> attempt_table demo_pair) (take 1 (drop 1 L)))"
proof -
  have inv: "attempt_inv demo_pair" using demo_pair_table(3) by (simp add: store_inv_def)
  from attempt_pages_complete [OF inv, of 1 None None]
  obtain L where L: "sorted_wrt (<) L" "set L = dom (attempt_table demo_pair)"
    "read_provider_attempt_page demo_pair None None None 1 = Inr (map (the \<circ> attempt_table demo_pair) (take 1 L))"
    "\<forall>i < length L. read_provider_attempt_page demo_pair None None (Some (ProviderAttemptId (L ! i))) 1 =
      Inr (map (the \<circ> attempt_table demo_pair) (take 1 (drop (Suc i) L)))"
    by (auto simp: dom_def)
  have "dom (attempt_table demo_pair) = {demo_v4 1, demo_v4 4}"
    using demo_pair_table(1,2) by (auto simp: attempt_table_iff demo_pair_def find_attempt_row_def find_row_def
        attempt_row_columns demo_attempt_columns demo_second_def split: if_splits)
  moreover from this have "0 < length L" using L(2) by (cases L) auto
  ultimately show ?thesis using L by auto
qed

end
