(* ===== verification/Work_Data.thy ===== *)
theory Work_Data
  imports Store_Base
begin

text \<open>
  The contracts of \<^verbatim>\<open>decodex-core/src/work.rs\<close>: Works, their requirements, Materials, Results,
  assessments, scoped requests between Agents, native contributions and the commands that
  change them, with the JSON that \<^verbatim>\<open>serde\<close> derives for them (field order and tags as declared).
\<close>

section \<open>Works and their evidence\<close>

datatype work_state = WorkOpen | WorkBlocked | WorkCompleted | WorkCancelled

record work_requirements =
  wq_id :: string
  wq_goal :: string
  wq_criteria :: string
  wq_source :: string

record work_assessment =
  wa_requirements_id :: string
  wa_result_ids :: "string list"
  wa_summary :: string
  wa_limits :: string

record work =
  wk_id :: string
  wk_project_id :: "string option"
  wk_owner_agent_id :: string
  wk_title :: string
  wk_requirements :: work_requirements
  wk_state :: work_state
  wk_reason :: "string option"
  wk_resume_condition :: "string option"
  wk_user_hold :: bool
  wk_assessment :: "work_assessment option"

record material =
  ma_id :: string
  ma_work_id :: string
  ma_title :: string
  ma_reference :: string
  ma_sha256 :: "string option"

datatype result_source =
    NativeItem string string string  \<comment> \<open>thread, turn and item\<close>
  | Artifact string string  \<comment> \<open>path and SHA-256\<close>

record work_result =
  re_id :: string
  re_work_id :: string
  re_requirements_id :: string
  re_instruction_id :: "string option"
  re_native_contribution_id :: "string option"
  re_agent_id :: string
  re_summary :: string
  re_source :: result_source
  re_limits :: string

section \<open>Contributions\<close>

datatype collaboration_state = RequestPending | RequestAccepted | RequestReturned | RequestClosed

record collaboration_instruction =
  ci_id :: string
  ci_requirements_id :: string
  ci_text :: string
  ci_material_ids :: "string list"
  ci_event_id :: "i64 option"
  ci_delivered_turn_id :: "string option"

record collaboration_request =
  cr_id :: string
  cr_work_id :: string
  cr_recipient_agent_id :: string
  cr_instruction :: collaboration_instruction
  cr_state :: collaboration_state
  cr_required :: bool
  cr_outcome :: "string option"
  cr_note :: "string option"

record native_contribution =
  nc_id :: string
  nc_work_id :: string
  nc_requirements_id :: string
  nc_instruction :: string
  nc_child_thread_id :: "string option"
  nc_parent_turn_id :: "string option"
  nc_parent_item_id :: "string option"

datatype native_assignment_proof = Plaintext | NativeTaskName

definition assignment_proof_as_str :: "native_assignment_proof \<Rightarrow> string" where
  "assignment_proof_as_str p = (case p of Plaintext \<Rightarrow> ''plaintext'' | NativeTaskName \<Rightarrow> ''native_task_name'')"

record native_work_delivery =
  nd_parent_thread_id :: string
  nd_parent_turn_id :: string
  nd_child_thread_id :: string
  nd_child_turn_id :: string
  nd_message_id :: string
  nd_assignment_proof :: native_assignment_proof

text \<open>SHA-256 is a parameter, as in the other theories.\<close>

definition native_task_name :: "(byte list \<Rightarrow> byte list) \<Rightarrow> native_contribution \<Rightarrow> string" where
  "native_task_name sha256 b = ''work_'' @ hex (take 16 (sha256 (bytes_of (nc_id b))))"

definition native_prompt :: "native_contribution \<Rightarrow> string" where
  "native_prompt b = ''[Work: '' @ nc_work_id b @ ''; Requirements: '' @ nc_requirements_id b
     @ ''; Contribution: '' @ nc_id b @ '']'' @ [newline] @ nc_instruction b"

section \<open>Commands\<close>

datatype work_command =
    PrepareSubagent native_contribution
  | BindSubagent string string string string  \<comment> \<open>contribution, parent turn, parent item, child thread\<close>
  | CreateWork work
  | Revise string string work_requirements  \<comment> \<open>work, expected requirements\<close>
  | SetState string string work_state "string option" "string option" bool
      \<comment> \<open>work, expected requirements, state, reason, resume condition, user hold\<close>
  | AddMaterial material
  | RecordResult work_result
  | ReuseResult string string string string  \<comment> \<open>work, expected requirements, result, assessment\<close>
  | CompleteWork string string work_assessment  \<comment> \<open>work, expected requirements\<close>
  | RequestContribution collaboration_request
  | Respond string string bool string  \<comment> \<open>request, instruction, accept, note\<close>
  | Repair string string collaboration_instruction  \<comment> \<open>request, expected instruction\<close>
  | CloseRequest string string string string  \<comment> \<open>request, instruction, outcome, note\<close>

end
