(* ===== verification/Work_Json.thy ===== *)
theory Work_Json
  imports Work_Data
begin

text \<open>
  The JSON of Works. \<^verbatim>\<open>serde\<close> derives a serializer for every contract: a struct is an object of
  its fields in order, a missing option is \<^verbatim>\<open>null\<close>, a command is an object that begins with its
  \<^verbatim>\<open>operation\<close> tag. The printers and parsers of \<^verbatim>\<open>serde_json\<close> and the JSON functions of SQLite
  are not code of the repository: they are the parameter \<open>json_codec\<close>, and \<open>codec_faithful\<close>
  states what is used of them.
\<close>

section \<open>Values\<close>

datatype json =
    JNull
  | JBool bool
  | JInt int
  | JString string
  | JArray "json list"
  | JObject "(string \<times> json) list"

definition json_option :: "('a \<Rightarrow> json) \<Rightarrow> 'a option \<Rightarrow> json" where
  "json_option f v = (case v of None \<Rightarrow> JNull | Some x \<Rightarrow> f x)"

definition json_text :: "string option \<Rightarrow> json" where "json_text = json_option JString"

definition json_texts :: "string list \<Rightarrow> json" where "json_texts ids = JArray (map JString ids)"

text \<open>\<^verbatim>\<open>#[serde(rename_all = "snake_case")]\<close>.\<close>

definition state_name :: "work_state \<Rightarrow> string" where
  "state_name state = (case state of WorkOpen \<Rightarrow> ''open'' | WorkBlocked \<Rightarrow> ''blocked''
     | WorkCompleted \<Rightarrow> ''completed'' | WorkCancelled \<Rightarrow> ''cancelled'')"

definition collaboration_state_name :: "collaboration_state \<Rightarrow> string" where
  "collaboration_state_name state = (case state of RequestPending \<Rightarrow> ''pending''
     | RequestAccepted \<Rightarrow> ''accepted'' | RequestReturned \<Rightarrow> ''returned'' | RequestClosed \<Rightarrow> ''closed'')"

section \<open>Derived serializers\<close>

definition requirements_json :: "work_requirements \<Rightarrow> json" where
  "requirements_json r = JObject [(''id'', JString (wq_id r)), (''goal'', JString (wq_goal r)),
     (''criteria'', JString (wq_criteria r)), (''source'', JString (wq_source r))]"

definition assessment_json :: "work_assessment \<Rightarrow> json" where
  "assessment_json a = JObject [(''requirements_id'', JString (wa_requirements_id a)),
     (''result_ids'', json_texts (wa_result_ids a)), (''summary'', JString (wa_summary a)),
     (''limits'', JString (wa_limits a))]"

definition work_json :: "work \<Rightarrow> json" where
  "work_json w = JObject [(''id'', JString (wk_id w)), (''project_id'', json_text (wk_project_id w)),
     (''owner_agent_id'', JString (wk_owner_agent_id w)), (''title'', JString (wk_title w)),
     (''requirements'', requirements_json (wk_requirements w)),
     (''state'', JString (state_name (wk_state w))), (''reason'', json_text (wk_reason w)),
     (''resume_condition'', json_text (wk_resume_condition w)), (''user_hold'', JBool (wk_user_hold w)),
     (''assessment'', json_option assessment_json (wk_assessment w))]"

definition material_json :: "material \<Rightarrow> json" where
  "material_json m = JObject [(''id'', JString (ma_id m)), (''work_id'', JString (ma_work_id m)),
     (''title'', JString (ma_title m)), (''reference'', JString (ma_reference m)),
     (''sha256'', json_text (ma_sha256 m))]"

fun source_json :: "result_source \<Rightarrow> json" where
  "source_json (NativeItem thread turn item) = JObject [(''kind'', JString ''native_item''),
     (''thread_id'', JString thread), (''turn_id'', JString turn), (''item_id'', JString item)]"
| "source_json (Artifact path sha256) = JObject [(''kind'', JString ''artifact''),
     (''path'', JString path), (''sha256'', JString sha256)]"

definition result_json :: "work_result \<Rightarrow> json" where
  "result_json r = JObject [(''id'', JString (re_id r)), (''work_id'', JString (re_work_id r)),
     (''requirements_id'', JString (re_requirements_id r)),
     (''instruction_id'', json_text (re_instruction_id r)),
     (''native_contribution_id'', json_text (re_native_contribution_id r)),
     (''agent_id'', JString (re_agent_id r)), (''summary'', JString (re_summary r)),
     (''source'', source_json (re_source r)), (''limits'', JString (re_limits r))]"

definition instruction_json :: "collaboration_instruction \<Rightarrow> json" where
  "instruction_json i = JObject [(''id'', JString (ci_id i)),
     (''requirements_id'', JString (ci_requirements_id i)), (''text'', JString (ci_text i)),
     (''material_ids'', json_texts (ci_material_ids i)),
     (''event_id'', json_option JInt (ci_event_id i)),
     (''delivered_turn_id'', json_text (ci_delivered_turn_id i))]"

definition request_json :: "collaboration_request \<Rightarrow> json" where
  "request_json q = JObject [(''id'', JString (cr_id q)), (''work_id'', JString (cr_work_id q)),
     (''recipient_agent_id'', JString (cr_recipient_agent_id q)),
     (''instruction'', instruction_json (cr_instruction q)),
     (''state'', JString (collaboration_state_name (cr_state q))),
     (''required'', JBool (cr_required q)), (''outcome'', json_text (cr_outcome q)),
     (''note'', json_text (cr_note q))]"

definition contribution_json :: "native_contribution \<Rightarrow> json" where
  "contribution_json b = JObject [(''id'', JString (nc_id b)), (''work_id'', JString (nc_work_id b)),
     (''requirements_id'', JString (nc_requirements_id b)),
     (''instruction'', JString (nc_instruction b)),
     (''child_thread_id'', json_text (nc_child_thread_id b)),
     (''parent_turn_id'', json_text (nc_parent_turn_id b)),
     (''parent_item_id'', json_text (nc_parent_item_id b))]"

definition tagged :: "string \<Rightarrow> (string \<times> json) list \<Rightarrow> json" where
  "tagged operation entries = JObject ((''operation'', JString operation) # entries)"

fun command_json :: "work_command \<Rightarrow> json" where
  "command_json (PrepareSubagent b) = tagged ''prepare_subagent'' [(''contribution'', contribution_json b)]"
| "command_json (BindSubagent contribution turn item child) = tagged ''bind_subagent''
     [(''contribution_id'', JString contribution), (''parent_turn_id'', JString turn),
      (''parent_item_id'', JString item), (''child_thread_id'', JString child)]"
| "command_json (CreateWork w) = tagged ''create'' [(''work'', work_json w)]"
| "command_json (Revise work expected r) = tagged ''revise'' [(''work_id'', JString work),
      (''expected_requirements'', JString expected), (''requirements'', requirements_json r)]"
| "command_json (SetState work expected state reason resume hold) = tagged ''set_state''
     [(''work_id'', JString work), (''expected_requirements'', JString expected),
      (''state'', JString (state_name state)), (''reason'', json_text reason),
      (''resume_condition'', json_text resume), (''user_hold'', JBool hold)]"
| "command_json (AddMaterial m) = tagged ''add_material'' [(''material'', material_json m)]"
| "command_json (RecordResult r) = tagged ''record_result'' [(''result'', result_json r)]"
| "command_json (ReuseResult work expected result assessment) = tagged ''reuse_result''
     [(''work_id'', JString work), (''expected_requirements'', JString expected),
      (''result_id'', JString result), (''assessment'', JString assessment)]"
| "command_json (CompleteWork work expected assessment) = tagged ''complete''
     [(''work_id'', JString work), (''expected_requirements'', JString expected),
      (''assessment'', assessment_json assessment)]"
| "command_json (RequestContribution q) = tagged ''request'' [(''request'', request_json q)]"
| "command_json (Respond request instruction accept note) = tagged ''respond''
     [(''request_id'', JString request), (''instruction_id'', JString instruction),
      (''accept'', JBool accept), (''note'', JString note)]"
| "command_json (Repair request expected instruction) = tagged ''repair''
     [(''request_id'', JString request), (''expected_instruction'', JString expected),
      (''instruction'', instruction_json instruction)]"
| "command_json (CloseRequest request instruction outcome note) = tagged ''close_request''
     [(''request_id'', JString request), (''instruction_id'', JString instruction),
      (''outcome'', JString outcome), (''note'', JString note)]"

section \<open>The JSON of the libraries\<close>

text \<open>
  \<^verbatim>\<open>serde_json::to_string\<close> on derived contracts and on \<^verbatim>\<open>json!\<close> values, \<^verbatim>\<open>serde_json::from_str\<close>
  at the types that are read back, and SQLite's \<^verbatim>\<open>json_valid\<close>, \<^verbatim>\<open>json_extract\<close> (as text and
  as the integer that an \<^verbatim>\<open>INTEGER\<close> column is compared with; a missing field is \<^verbatim>\<open>NULL\<close>) and
  \<^verbatim>\<open>json_each\<close> (the texts of an array).
\<close>

record json_codec =
  jc_print :: "json \<Rightarrow> string"
  jc_print_value :: "json \<Rightarrow> string"
  jc_parse_value :: "string \<Rightarrow> json option"
  jc_parse_texts :: "string \<Rightarrow> string list option"
  jc_parse_assessment :: "string \<Rightarrow> work_assessment option"
  jc_parse_result :: "string \<Rightarrow> work_result option"
  jc_parse_material :: "string \<Rightarrow> material option"
  jc_sql_valid :: "string \<Rightarrow> bool"
  jc_sql_text :: "string \<Rightarrow> string \<Rightarrow> string option"
  jc_sql_int :: "string \<Rightarrow> string \<Rightarrow> i64 option"
  jc_sql_each :: "string \<Rightarrow> string list"

text \<open>
  What is printed is valid JSON, two values are not printed alike, and the contracts that are read back parse.
  A parser of untyped values may reorder members; nothing is assumed of it here.
\<close>

definition codec_faithful :: "json_codec \<Rightarrow> bool" where
  "codec_faithful jc \<longleftrightarrow>
     (\<forall>v w. jc_print jc v = jc_print jc w \<longrightarrow> v = w) \<and>
     (\<forall>v. jc_sql_valid jc (jc_print jc v)) \<and>
     (\<forall>ids. jc_parse_texts jc (jc_print jc (json_texts ids)) = Some ids) \<and>
     (\<forall>a. jc_parse_assessment jc (jc_print jc (assessment_json a)) = Some a) \<and>
     (\<forall>r. jc_parse_result jc (jc_print jc (result_json r)) = Some r) \<and>
     (\<forall>m. jc_parse_material jc (jc_print jc (material_json m)) = Some m) \<and>
     (\<forall>ids. jc_sql_each jc (jc_print jc (json_texts ids)) = ids)"

section \<open>A serialized command is the command\<close>

lemma json_option_inj: "(\<And>x y. f x = f y \<longleftrightarrow> x = y) \<Longrightarrow> (\<And>x. f x \<noteq> JNull) \<Longrightarrow>
    json_option f u = json_option f v \<longleftrightarrow> u = v"
  by (cases u; cases v) (auto simp: json_option_def dest: sym)

lemma json_text_inj [simp]: "json_text u = json_text v \<longleftrightarrow> u = v"
  unfolding json_text_def by (rule json_option_inj) simp_all

lemma json_texts_inj [simp]: "json_texts ids = json_texts ids' \<longleftrightarrow> ids = ids'"
  by (simp add: json_texts_def inj_map_eq_map inj_def)

lemma state_name_inj [simp]: "state_name s = state_name t \<longleftrightarrow> s = t"
  by (cases s; cases t) (simp_all add: state_name_def)

lemma collaboration_state_name_inj [simp]:
  "collaboration_state_name s = collaboration_state_name t \<longleftrightarrow> s = t"
  by (cases s; cases t) (simp_all add: collaboration_state_name_def)

lemma requirements_json_inj [simp]: "requirements_json r = requirements_json s \<longleftrightarrow> r = s"
  by (cases r; cases s) (simp add: requirements_json_def)

lemma assessment_json_inj [simp]: "assessment_json a = assessment_json b \<longleftrightarrow> a = b"
  by (cases a; cases b) (simp add: assessment_json_def)

lemma json_assessment_inj [simp]: "json_option assessment_json u = json_option assessment_json v \<longleftrightarrow> u = v"
  by (rule json_option_inj [OF assessment_json_inj]) (simp add: assessment_json_def)

lemma json_int_inj [simp]: "json_option JInt u = json_option JInt v \<longleftrightarrow> u = v"
  by (rule json_option_inj) simp_all

lemma work_json_inj [simp]: "work_json w = work_json v \<longleftrightarrow> w = v"
  by (cases w; cases v) (simp add: work_json_def)

lemma material_json_inj [simp]: "material_json m = material_json n \<longleftrightarrow> m = n"
  by (cases m; cases n) (simp add: material_json_def)

lemma source_json_inj [simp]: "source_json s = source_json t \<longleftrightarrow> s = t"
  by (cases s; cases t) simp_all

lemma result_json_inj [simp]: "result_json r = result_json s \<longleftrightarrow> r = s"
  by (cases r; cases s) (simp add: result_json_def)

lemma instruction_json_inj [simp]: "instruction_json i = instruction_json j \<longleftrightarrow> i = j"
  by (cases i; cases j) (simp add: instruction_json_def)

lemma request_json_inj [simp]: "request_json q = request_json p \<longleftrightarrow> q = p"
  by (cases q; cases p) (simp add: request_json_def)

lemma contribution_json_inj [simp]: "contribution_json b = contribution_json c \<longleftrightarrow> b = c"
  by (cases b; cases c) (simp add: contribution_json_def)

lemma command_json_inj [simp]: "command_json c = command_json d \<longleftrightarrow> c = d"
  by (cases c; cases d) (simp_all add: tagged_def)

lemma codec_print_inj: "codec_faithful jc \<Longrightarrow> jc_print jc u = jc_print jc v \<longleftrightarrow> u = v"
  unfolding codec_faithful_def by blast

end
