(* ===== verification/Work_Store.thy ===== *)
theory Work_Store
  imports Work_Json
begin

text \<open>
  The tables of Works in \<^verbatim>\<open>schema.sql\<close>, with every constraint, and the readers and helpers of
  \<^verbatim>\<open>works.rs\<close>. A statement that would leave a table outside its constraints fails with
  \<open>sql_error\<close>; the two deferred foreign keys are checked when the transaction commits.
\<close>

section \<open>Rows\<close>

record work_row =
  wr_id :: string
  wr_project_id :: "string option"
  wr_owner_agent_id :: string
  wr_title :: string
  wr_requirements_id :: string
  wr_state :: string
  wr_reason :: "string option"
  wr_resume_condition :: "string option"
  wr_user_hold :: bool
  wr_assessment_json :: "string option"

record requirements_row =
  qr_work_id :: string
  qr_id :: string
  qr_goal :: string
  qr_criteria :: string
  qr_source :: string

record material_row =
  mr_id :: string
  mr_work_id :: string
  mr_record_json :: string

record result_row =
  sr_id :: string
  sr_work_id :: string
  sr_requirements_id :: string
  sr_instruction_id :: "string option"
  sr_agent_id :: string
  sr_record_json :: string

record reuse_row =
  ur_work_id :: string
  ur_requirements_id :: string
  ur_result_id :: string
  ur_assessment :: string

record request_row =
  cq_id :: string
  cq_work_id :: string
  cq_recipient_agent_id :: string
  cq_instruction_id :: string
  cq_state :: string
  cq_required :: bool
  cq_outcome :: "string option"
  cq_note :: "string option"

record instruction_row =
  ir_request_id :: string
  ir_id :: string
  ir_requirements_id :: string
  ir_text :: string
  ir_material_ids_json :: string
  ir_event_id :: i64

record contribution_row =
  br_id :: string
  br_work_id :: string
  br_requirements_id :: string
  br_instruction :: string
  br_child_thread_id :: "string option"
  br_parent_turn_id :: "string option"
  br_parent_item_id :: "string option"

record dispatch_row =
  xr_contribution_id :: string
  xr_thread_id :: string
  xr_turn_id :: string
  xr_call_id :: string

record delivery_row =
  vr_contribution_id :: string
  vr_parent_thread_id :: string
  vr_parent_turn_id :: string
  vr_child_thread_id :: string
  vr_child_turn_id :: string
  vr_message_id :: string
  vr_assignment_proof :: string

record command_row =
  cm_id :: string
  cm_agent_id :: string
  cm_command_json :: string

record inbox_row =
  ib_id :: i64
  ib_source_event_id :: string
  ib_work_item_id :: string
  ib_event_kind :: string
  ib_payload :: string
  ib_created_at_micros :: i64
  ib_disposition :: "string option"
  ib_disposition_note :: "string option"
  ib_disposed_at_micros :: "i64 option"
  ib_delivery_work_item_id :: "string option"
  ib_delivered_turn_id :: "string option"

text \<open>
  The database of one writer: the tables it reads and writes (of work items, Agents and
  projects only the keys), the last id that \<^verbatim>\<open>AUTOINCREMENT\<close> gave to an event, and the readings
  that the host clock will give to the transaction.
\<close>

record work_db =
  wd_items :: "string list"
  wd_agents :: "string list"
  wd_projects :: "string list"
  wd_works :: "work_row list"
  wd_requirements :: "requirements_row list"
  wd_materials :: "material_row list"
  wd_results :: "result_row list"
  wd_reuses :: "reuse_row list"
  wd_requests :: "request_row list"
  wd_instructions :: "instruction_row list"
  wd_contributions :: "contribution_row list"
  wd_dispatches :: "dispatch_row list"
  wd_deliveries :: "delivery_row list"
  wd_commands :: "command_row list"
  wd_inbox :: "inbox_row list"
  wd_inbox_seq :: i64
  wd_clock :: "nat \<Rightarrow> i64 option"

section \<open>Constraints\<close>

definition between :: "nat \<Rightarrow> nat \<Rightarrow> nat \<Rightarrow> bool" where
  "between a b n \<longleftrightarrow> a \<le> n \<and> n \<le> b"

text \<open>A \<^verbatim>\<open>CHECK\<close> fails only when it is false: a comparison with \<^verbatim>\<open>NULL\<close> lets the row pass.\<close>

definition work_row_checks :: "json_codec \<Rightarrow> work_row \<Rightarrow> bool" where
  "work_row_checks jc r \<longleftrightarrow>
     between 1 512 (sql_length (wr_id r)) \<and> between 1 120 (sql_length (wr_title r)) \<and>
     wr_state r \<in> set [''open'', ''blocked'', ''completed'', ''cancelled''] \<and>
     null_or (jc_sql_valid jc) (wr_assessment_json r) \<and>
     (wr_state r \<noteq> ''blocked'' \<or> null_or (\<lambda>s. 0 < sql_length s) (wr_reason r) \<and>
        null_or (\<lambda>s. 0 < sql_length s) (wr_resume_condition r)) \<and>
     (wr_state r \<noteq> ''completed'' \<or> wr_assessment_json r \<noteq> None)"

definition request_row_checks :: "request_row \<Rightarrow> bool" where
  "request_row_checks r \<longleftrightarrow>
     cq_state r \<in> set [''pending'', ''accepted'', ''returned'', ''closed''] \<and>
     null_or (\<lambda>s. s \<in> set [''used'', ''not_used'', ''declined'', ''cancelled'', ''failed'']) (cq_outcome r) \<and>
     (cq_state r = ''closed'') = (cq_outcome r \<noteq> None)"

definition contribution_row_checks :: "contribution_row \<Rightarrow> bool" where
  "contribution_row_checks r \<longleftrightarrow>
     (br_child_thread_id r = None) = (br_parent_turn_id r = None) \<and>
     (br_child_thread_id r = None) = (br_parent_item_id r = None)"

definition inbox_row_checks :: "inbox_row \<Rightarrow> bool" where
  "inbox_row_checks r \<longleftrightarrow>
     between 1 2048 (sql_length (ib_source_event_id r)) \<and> between 1 128 (sql_length (ib_event_kind r)) \<and>
     sql_length (ib_payload r) \<le> 65536 \<and> 0 \<le> ib_created_at_micros r \<and>
     null_or (\<lambda>s. s \<in> set [''resolved'', ''follow_up'', ''wait'', ''user_decision'']) (ib_disposition r) \<and>
     null_or (\<lambda>s. between 1 65536 (sql_length s)) (ib_disposition_note r) \<and>
     null_or (\<lambda>t. ib_created_at_micros r \<le> t) (ib_disposed_at_micros r) \<and>
     (ib_delivery_work_item_id r = None) = (ib_delivered_turn_id r = None) \<and>
     (ib_disposition r = None) = (ib_disposition_note r = None) \<and>
     (ib_disposition r = None) = (ib_disposed_at_micros r = None)"

definition work_rows_checked :: "json_codec \<Rightarrow> work_db \<Rightarrow> bool" where
  "work_rows_checked jc db \<longleftrightarrow>
     list_all (work_row_checks jc) (wd_works db) \<and>
     list_all (\<lambda>r. jc_sql_valid jc (mr_record_json r)) (wd_materials db) \<and>
     list_all (\<lambda>r. jc_sql_valid jc (sr_record_json r)) (wd_results db) \<and>
     list_all request_row_checks (wd_requests db) \<and>
     list_all (\<lambda>r. jc_sql_valid jc (ir_material_ids_json r)) (wd_instructions db) \<and>
     list_all contribution_row_checks (wd_contributions db) \<and>
     list_all (\<lambda>r. vr_assignment_proof r \<in> set [''plaintext'', ''native_task_name'']) (wd_deliveries db) \<and>
     list_all (\<lambda>r. jc_sql_valid jc (cm_command_json r)) (wd_commands db) \<and>
     list_all inbox_row_checks (wd_inbox db)"

text \<open>Primary keys and unique indexes; \<^verbatim>\<open>NULL\<close>s are distinct from each other.\<close>

definition parent_activity :: "contribution_row \<Rightarrow> string option \<times> string option" where
  "parent_activity r = (br_parent_turn_id r, br_parent_item_id r)"

definition work_keys_unique :: "work_db \<Rightarrow> bool" where
  "work_keys_unique db \<longleftrightarrow>
     distinct (map wr_id (wd_works db)) \<and>
     distinct (map (\<lambda>r. (qr_work_id r, qr_id r)) (wd_requirements db)) \<and>
     distinct (map (\<lambda>r. (mr_work_id r, mr_id r)) (wd_materials db)) \<and>
     distinct (map sr_id (wd_results db)) \<and>
     distinct (map (\<lambda>r. (ur_work_id r, ur_requirements_id r, ur_result_id r)) (wd_reuses db)) \<and>
     distinct (map cq_id (wd_requests db)) \<and>
     distinct (map ir_id (wd_instructions db)) \<and>
     distinct (map ir_event_id (wd_instructions db)) \<and>
     distinct (map br_id (wd_contributions db)) \<and>
     distinct (map parent_activity (filter (\<lambda>r. br_parent_turn_id r \<noteq> None \<and> br_parent_item_id r \<noteq> None)
       (wd_contributions db))) \<and>
     distinct (map xr_contribution_id (wd_dispatches db)) \<and>
     distinct (map (\<lambda>r. (xr_thread_id r, xr_turn_id r, xr_call_id r)) (wd_dispatches db)) \<and>
     distinct (map vr_contribution_id (wd_deliveries db)) \<and>
     distinct (map (\<lambda>r. (vr_child_thread_id r, vr_child_turn_id r, vr_message_id r)) (wd_deliveries db)) \<and>
     distinct (map cm_id (wd_commands db)) \<and>
     distinct (map ib_id (wd_inbox db)) \<and>
     distinct (map ib_source_event_id (wd_inbox db))"

definition requirements_keys :: "work_db \<Rightarrow> (string \<times> string) set" where
  "requirements_keys db = set (map (\<lambda>r. (qr_work_id r, qr_id r)) (wd_requirements db))"

text \<open>The foreign keys that every statement checks.\<close>

definition work_references :: "work_db \<Rightarrow> bool" where
  "work_references db \<longleftrightarrow>
     list_all (\<lambda>a. a \<in> set (wd_items db)) (wd_agents db) \<and>
     list_all (\<lambda>r. null_or (\<lambda>p. p \<in> set (wd_projects db)) (wr_project_id r) \<and>
       wr_owner_agent_id r \<in> set (wd_agents db)) (wd_works db) \<and>
     list_all (\<lambda>r. qr_work_id r \<in> set (map wr_id (wd_works db))) (wd_requirements db) \<and>
     list_all (\<lambda>r. mr_work_id r \<in> set (map wr_id (wd_works db))) (wd_materials db) \<and>
     list_all (\<lambda>r. sr_agent_id r \<in> set (wd_agents db) \<and>
       null_or (\<lambda>i. i \<in> set (map ir_id (wd_instructions db))) (sr_instruction_id r) \<and>
       (sr_work_id r, sr_requirements_id r) \<in> requirements_keys db) (wd_results db) \<and>
     list_all (\<lambda>r. ur_result_id r \<in> set (map sr_id (wd_results db)) \<and>
       (ur_work_id r, ur_requirements_id r) \<in> requirements_keys db) (wd_reuses db) \<and>
     list_all (\<lambda>r. cq_work_id r \<in> set (map wr_id (wd_works db)) \<and>
       cq_recipient_agent_id r \<in> set (wd_agents db)) (wd_requests db) \<and>
     list_all (\<lambda>r. ir_request_id r \<in> set (map cq_id (wd_requests db)) \<and>
       ir_event_id r \<in> set (map ib_id (wd_inbox db))) (wd_instructions db) \<and>
     list_all (\<lambda>r. (br_work_id r, br_requirements_id r) \<in> requirements_keys db) (wd_contributions db) \<and>
     list_all (\<lambda>r. xr_contribution_id r \<in> set (map br_id (wd_contributions db))) (wd_dispatches db) \<and>
     list_all (\<lambda>r. vr_contribution_id r \<in> set (map br_id (wd_contributions db))) (wd_deliveries db) \<and>
     list_all (\<lambda>r. cm_agent_id r \<in> set (wd_agents db)) (wd_commands db) \<and>
     list_all (\<lambda>r. ib_work_item_id r \<in> set (wd_items db) \<and>
       null_or (\<lambda>i. i \<in> set (wd_items db)) (ib_delivery_work_item_id r)) (wd_inbox db)"

definition work_schema :: "json_codec \<Rightarrow> work_db \<Rightarrow> bool" where
  "work_schema jc db \<longleftrightarrow> work_rows_checked jc db \<and> work_keys_unique db \<and> work_references db"

text \<open>The \<^verbatim>\<open>DEFERRABLE INITIALLY DEFERRED\<close> ones, checked at the commit.\<close>

definition deferred_references :: "work_db \<Rightarrow> bool" where
  "deferred_references db \<longleftrightarrow>
     list_all (\<lambda>r. (wr_id r, wr_requirements_id r) \<in> requirements_keys db) (wd_works db) \<and>
     list_all (\<lambda>r. (cq_id r, cq_instruction_id r) \<in>
       set (map (\<lambda>i. (ir_request_id i, ir_id i)) (wd_instructions db))) (wd_requests db)"

definition execute :: "json_codec \<Rightarrow> work_db \<Rightarrow> store_error + work_db" where
  "execute jc db = (if work_schema jc db then Inr db else Inl sql_error)"

definition commit :: "work_db \<Rightarrow> store_error + work_db" where
  "commit db = (if deferred_references db then Inr db else Inl sql_error)"

lemma execute_Ok_iff: "execute jc db = Inr db' \<longleftrightarrow> work_schema jc db \<and> db' = db"
  by (auto simp: execute_def)

lemma commit_Ok_iff: "commit db = Inr db' \<longleftrightarrow> deferred_references db \<and> db' = db"
  by (auto simp: commit_def)

text \<open>One reading of the clock.\<close>

definition now_micros :: "work_db \<Rightarrow> store_error + i64 \<times> work_db" where
  "now_micros db = and_then (unix_micros (wd_clock db 0)) (\<lambda>t.
     Inr (t, db\<lparr>wd_clock := (\<lambda>n. wd_clock db (Suc n))\<rparr>))"

end
