(* ===== verification/Work_Read.thy ===== *)
theory Work_Read
  imports Work_Store
begin

text \<open>
  The helpers of \<^verbatim>\<open>works.rs\<close>: text limits, JSON encoding, the readers of a Work and of a
  request, and the guards (ownership at a revision, an open Work, the authority of a change).
\<close>

section \<open>Errors and text\<close>

definition works_invalid :: "string \<Rightarrow> store_error" where
  "works_invalid message = InvalidInput message"

definition works_conflict :: store_error where
  "works_conflict = Database Conflict"

text \<open>\<^verbatim>\<open>value.trim().is_empty()\<close>: only Unicode white space, in UTF-8.\<close>

fun blank :: "string \<Rightarrow> bool" where
  "blank [] = True"
| "blank (c # cs) =
     (if code c \<in> {9, 10, 11, 12, 13, 32} then blank cs
      else case cs of
        [] \<Rightarrow> False
      | d # ds \<Rightarrow>
          if code c = 0xC2 \<and> code d \<in> {0x85, 0xA0} then blank ds
          else case ds of
            [] \<Rightarrow> False
          | e # es \<Rightarrow>
              (code c = 0xE1 \<and> code d = 0x9A \<and> code e = 0x80 \<or>
               code c = 0xE2 \<and> code d = 0x80 \<and>
                 (0x80 \<le> code e \<and> code e \<le> 0x8A \<or> code e \<in> {0xA8, 0xA9, 0xAF}) \<or>
               code c = 0xE2 \<and> code d = 0x81 \<and> code e = 0x9F \<or>
               code c = 0xE3 \<and> code d = 0x80 \<and> code e = 0x80) \<and> blank es)"

definition works_text :: "string \<Rightarrow> nat \<Rightarrow> store_error + unit" where
  "works_text value max_len =
     (if blank value \<or> length value > max_len
      then Inl (works_invalid ''invalid Work text or identity'')
      else Inr ())"

definition works_encode :: "string \<Rightarrow> store_error + string" where
  "works_encode text_json =
     (if length text_json > 65536 then Inl (works_invalid ''Work record exceeds 64 KiB'') else Inr text_json)"

definition works_decode :: "'a option \<Rightarrow> store_error + 'a" where
  "works_decode v = ok_or (works_invalid ''invalid retained Work record'') v"

lemma works_text_Ok_iff: "works_text s n = Inr () \<longleftrightarrow> \<not> blank s \<and> length s \<le> n"
  by (simp add: works_text_def not_less)

lemma works_encode_Ok_iff: "works_encode s = Inr t \<longleftrightarrow> length s \<le> 65536 \<and> t = s"
  by (auto simp: works_encode_def)

lemma works_decode_Ok_iff: "works_decode v = Inr x \<longleftrightarrow> v = Some x"
  by (simp add: works_decode_def)

section \<open>Reading\<close>

definition find_work :: "work_db \<Rightarrow> string \<Rightarrow> work_row option" where
  "find_work db k = find_row wr_id (wd_works db) k"

definition find_requirements :: "work_db \<Rightarrow> string \<Rightarrow> string \<Rightarrow> requirements_row option" where
  "find_requirements db work k = find (\<lambda>r. qr_work_id r = work \<and> qr_id r = k) (wd_requirements db)"

definition find_request :: "work_db \<Rightarrow> string \<Rightarrow> request_row option" where
  "find_request db k = find_row cq_id (wd_requests db) k"

definition find_instruction :: "work_db \<Rightarrow> string \<Rightarrow> instruction_row option" where
  "find_instruction db k = find_row ir_id (wd_instructions db) k"

definition find_event :: "work_db \<Rightarrow> i64 \<Rightarrow> inbox_row option" where
  "find_event db k = find (\<lambda>r. ib_id r = k) (wd_inbox db)"

definition parse_work_state :: "string \<Rightarrow> store_error + work_state" where
  "parse_work_state s =
     (if s = ''open'' then Inr WorkOpen else if s = ''blocked'' then Inr WorkBlocked
      else if s = ''completed'' then Inr WorkCompleted else if s = ''cancelled'' then Inr WorkCancelled
      else Inl works_conflict)"

text \<open>\<^verbatim>\<open>query_row\<close> fails when no row matches.\<close>

definition read_work :: "json_codec \<Rightarrow> work_db \<Rightarrow> string \<Rightarrow> store_error + work" where
  "read_work jc db k =
     and_then (ok_or sql_error (find_work db k)) (\<lambda>w.
     and_then (ok_or sql_error (find_requirements db (wr_id w) (wr_requirements_id w))) (\<lambda>r.
     and_then (parse_work_state (wr_state w)) (\<lambda>state.
     and_then (case wr_assessment_json w of
         None \<Rightarrow> Inr None
       | Some t \<Rightarrow> and_then (works_decode (jc_parse_assessment jc t)) (\<lambda>a. Inr (Some a))) (\<lambda>assessment.
       Inr \<lparr>wk_id = k, wk_project_id = wr_project_id w, wk_owner_agent_id = wr_owner_agent_id w,
         wk_title = wr_title w,
         wk_requirements = \<lparr>wq_id = wr_requirements_id w, wq_goal = qr_goal r,
           wq_criteria = qr_criteria r, wq_source = qr_source r\<rparr>,
         wk_state = state, wk_reason = wr_reason w, wk_resume_condition = wr_resume_condition w,
         wk_user_hold = wr_user_hold w, wk_assessment = assessment\<rparr>))))"

definition parse_request_state :: "string \<Rightarrow> collaboration_state" where
  "parse_request_state s =
     (if s = ''pending'' then RequestPending else if s = ''accepted'' then RequestAccepted
      else if s = ''returned'' then RequestReturned else RequestClosed)"

definition works_request :: "json_codec \<Rightarrow> work_db \<Rightarrow> string \<Rightarrow> store_error + collaboration_request" where
  "works_request jc db k =
     and_then (ok_or sql_error (find_request db k)) (\<lambda>q.
     and_then (ok_or sql_error (find (\<lambda>i. ir_request_id i = cq_id q \<and> ir_id i = cq_instruction_id q)
       (wd_instructions db))) (\<lambda>i.
     and_then (ok_or sql_error (find_event db (ir_event_id i))) (\<lambda>e.
     and_then (works_decode (jc_parse_texts jc (ir_material_ids_json i))) (\<lambda>materials.
       Inr \<lparr>cr_id = k, cr_work_id = cq_work_id q, cr_recipient_agent_id = cq_recipient_agent_id q,
         cr_instruction = \<lparr>ci_id = cq_instruction_id q, ci_requirements_id = ir_requirements_id i,
           ci_text = ir_text i, ci_material_ids = materials, ci_event_id = Some (ir_event_id i),
           ci_delivered_turn_id = ib_delivered_turn_id e\<rparr>,
         cr_state = parse_request_state (cq_state q), cr_required = cq_required q,
         cr_outcome = cq_outcome q, cr_note = cq_note q\<rparr>))))"

section \<open>Guards\<close>

definition works_owner :: "json_codec \<Rightarrow> work_db \<Rightarrow> string \<Rightarrow> string \<Rightarrow> string \<Rightarrow> store_error + work" where
  "works_owner jc db k agent revision =
     and_then (read_work jc db k) (\<lambda>w.
       if wk_owner_agent_id w \<noteq> agent \<or> wq_id (wk_requirements w) \<noteq> revision
       then Inl works_conflict else Inr w)"

definition works_active :: "work \<Rightarrow> store_error + unit" where
  "works_active w = (if wk_state w \<noteq> WorkOpen then Inl (works_invalid ''Work is not open'') else Inr ())"

definition works_agent :: "work_db \<Rightarrow> string \<Rightarrow> store_error + unit" where
  "works_agent db agent =
     (if agent \<notin> set (wd_agents db)
      then Inl (works_invalid ''expected an existing persistent Agent'') else Inr ())"

text \<open>\<^verbatim>\<open>str::parse::<i64>\<close>: an optional sign and decimal digits, in range.\<close>

fun digits_value :: "int \<Rightarrow> string \<Rightarrow> int option" where
  "digits_value n [] = Some n"
| "digits_value n (c # cs) =
     (if is_ascii_digit c then digits_value (10 * n + int (code c) - 48) cs else None)"

definition parse_i64 :: "string \<Rightarrow> i64 option" where
  "parse_i64 s =
     (let (negative, ds) = (case s of
          [] \<Rightarrow> (False, [])
        | c # cs \<Rightarrow> if c = CHR ''-'' then (True, cs) else if c = CHR ''+'' then (False, cs) else (False, s)) in
      if ds = [] then None
      else case digits_value 0 ds of
        None \<Rightarrow> None
      | Some n \<Rightarrow> let v = (if negative then - n else n) in
          if - (2 ^ 63) \<le> v \<and> v \<le> i64_max then Some v else None)"

definition strip_prefix :: "string \<Rightarrow> string \<Rightarrow> string option" where
  "strip_prefix p s = (if take (length p) s = p then Some (drop (length p) s) else None)"

definition delivered :: "inbox_row \<Rightarrow> bool" where
  "delivered e \<longleftrightarrow> (case ib_delivered_turn_id e of None \<Rightarrow> False | Some t \<Rightarrow> t \<noteq> [])"

text \<open>
  A delivered decision of the user: a message from the user or an answered question; or an
  instruction of an assistant that cites one. \<^verbatim>\<open>json_extract\<close> fails on a payload that is not
  JSON: \<open>decision_unreadable\<close> says when a query reads such a payload (the columns that a query
  names before it are compared first).
\<close>

definition decision_event :: "inbox_row \<Rightarrow> bool" where
  "decision_event e \<longleftrightarrow> ib_event_kind e \<in> set [''user_message'', ''async_question_answer''] \<and> delivered e"

definition user_decision :: "json_codec \<Rightarrow> inbox_row \<Rightarrow> bool" where
  "user_decision jc e \<longleftrightarrow> decision_event e \<and>
     (jc_sql_text jc (ib_payload e) ''$.source'' = Some ''user'' \<or> ib_event_kind e = ''async_question_answer'')"

definition delegates :: "json_codec \<Rightarrow> inbox_row \<Rightarrow> inbox_row \<Rightarrow> bool" where
  "delegates jc e u \<longleftrightarrow>
     ib_event_kind e = ''assistant_instruction'' \<and>
     jc_sql_text jc (ib_payload e) ''$.source'' = Some ''assistant'' \<and> delivered e \<and>
     jc_sql_int jc (ib_payload e) ''$.authorityEventId'' = Some (ib_id u) \<and>
     jc_sql_text jc (ib_payload e) ''$.delegatedBy'' = Some (ib_work_item_id u)"

definition delegated_decision :: "json_codec \<Rightarrow> work_db \<Rightarrow> inbox_row \<Rightarrow> bool" where
  "delegated_decision jc db e \<longleftrightarrow> list_ex (\<lambda>u. delegates jc e u \<and> user_decision jc u) (wd_inbox db)"

definition decision_unreadable :: "json_codec \<Rightarrow> work_db \<Rightarrow> inbox_row \<Rightarrow> bool" where
  "decision_unreadable jc db e \<longleftrightarrow>
     \<not> jc_sql_valid jc (ib_payload e) \<and> (decision_event e \<or> ib_event_kind e = ''assistant_instruction'') \<or>
     list_ex (\<lambda>u. delegates jc e u \<and> decision_event u \<and> \<not> jc_sql_valid jc (ib_payload u)) (wd_inbox db)"

definition works_authority :: "json_codec \<Rightarrow> work_db \<Rightarrow> string \<Rightarrow> string \<Rightarrow> bool \<Rightarrow> store_error + unit" where
  "works_authority jc db agent source user =
     (if user then Inr ()
      else
      and_then (ok_or (works_invalid ''cite an exact event:<id> user decision from the delivered inbox'')
        (Option.bind (strip_prefix ''event:'' source) parse_i64)) (\<lambda>event.
      let own = (\<lambda>e. ib_id e = event \<and> ib_work_item_id e = agent);
          valid = (agent \<in> set (wd_items db) \<and>
            list_ex (\<lambda>e. own e \<and> user_decision jc e) (wd_inbox db));
          delegated = list_ex (\<lambda>e. own e \<and> delegated_decision jc db e) (wd_inbox db) in
      if list_ex (\<lambda>e. own e \<and> decision_unreadable jc db e) (wd_inbox db) then Inl sql_error
      else if \<not> valid \<and> \<not> delegated
      then Inl (works_invalid ''requirements need a current delivered user decision'') else Inr ()))"

section \<open>Inserting requirements\<close>

definition works_requirements ::
    "json_codec \<Rightarrow> string \<Rightarrow> work_requirements \<Rightarrow> work_db \<Rightarrow> store_error + work_db" where
  "works_requirements jc work r db =
     and_then (works_text (wq_id r) 512) (\<lambda>_.
     and_then (works_text (wq_goal r) 16384) (\<lambda>_.
     and_then (works_text (wq_criteria r) 16384) (\<lambda>_.
     and_then (works_text (wq_source r) 1024) (\<lambda>_.
       execute jc (db\<lparr>wd_requirements := wd_requirements db @
         [\<lparr>qr_work_id = work, qr_id = wq_id r, qr_goal = wq_goal r, qr_criteria = wq_criteria r,
           qr_source = wq_source r\<rparr>]\<rparr>)))))"

end
