(* ===== verification/Work_Ops.thy ===== *)
theory Work_Ops
  imports Work_Read
begin

text \<open>
  The commands on Works: \<^verbatim>\<open>works/collaboration.rs\<close> (scoped requests between Agents),
  \<^verbatim>\<open>works/commands.rs\<close> (the Works themselves) and the transaction \<^verbatim>\<open>apply_work_command\<close> of
  \<^verbatim>\<open>works.rs\<close> around them.
\<close>

section \<open>Inbox events\<close>

text \<open>\<^verbatim>\<open>notice\<close>: a new event; \<^verbatim>\<open>AUTOINCREMENT\<close> gives the next id until the ids are exhausted.\<close>

definition notice ::
    "json_codec \<Rightarrow> string \<Rightarrow> string \<Rightarrow> string \<Rightarrow> string \<Rightarrow> work_db \<Rightarrow> store_error + i64 \<times> work_db" where
  "notice jc agent source kind payload db =
     and_then (now_micros db) (\<lambda>(now, db).
       if wd_inbox_seq db \<ge> i64_max then Inl sql_error
       else
         let k = wd_inbox_seq db + 1 in
         and_then (execute jc (db\<lparr>wd_inbox := wd_inbox db @
           [\<lparr>ib_id = k, ib_source_event_id = source, ib_work_item_id = agent, ib_event_kind = kind,
             ib_payload = payload, ib_created_at_micros = now, ib_disposition = None,
             ib_disposition_note = None, ib_disposed_at_micros = None,
             ib_delivery_work_item_id = None, ib_delivered_turn_id = None\<rparr>],
           wd_inbox_seq := k\<rparr>)) (\<lambda>db. Inr (k, db)))"

definition dispose :: "string \<Rightarrow> i64 \<Rightarrow> inbox_row \<Rightarrow> inbox_row" where
  "dispose note now e = e\<lparr>ib_disposition := Some ''resolved'', ib_disposition_note := Some note,
     ib_disposed_at_micros := Some (max (ib_created_at_micros e) now)\<rparr>"

definition retire :: "json_codec \<Rightarrow> i64 option \<Rightarrow> string \<Rightarrow> work_db \<Rightarrow> store_error + work_db" where
  "retire jc event note db =
     and_then (now_micros db) (\<lambda>(now, db).
       execute jc (db\<lparr>wd_inbox := update_rows (\<lambda>e. event = Some (ib_id e) \<and> ib_disposition e = None)
         (dispose note now) (wd_inbox db)\<rparr>))"

section \<open>Requests\<close>

definition works_recipient ::
    "json_codec \<Rightarrow> work_db \<Rightarrow> string \<Rightarrow> string \<Rightarrow> string \<Rightarrow> store_error + collaboration_request" where
  "works_recipient jc db actor k instruction =
     and_then (works_request jc db k) (\<lambda>q.
       if cr_recipient_agent_id q \<noteq> actor \<or> ci_id (cr_instruction q) \<noteq> instruction
       then Inl works_conflict
       else if \<not> (case ci_delivered_turn_id (cr_instruction q) of None \<Rightarrow> False | Some t \<Rightarrow> t \<noteq> [])
       then Inl (works_invalid ''accept only the exact delivered instruction'')
       else Inr q)"

definition update_requests ::
    "json_codec \<Rightarrow> (request_row \<Rightarrow> bool) \<Rightarrow> (request_row \<Rightarrow> request_row) \<Rightarrow> work_db \<Rightarrow> store_error + work_db" where
  "update_requests jc p f db = execute jc (db\<lparr>wd_requests := update_rows p f (wd_requests db)\<rparr>)"

definition json_str :: "json_codec \<Rightarrow> string list \<Rightarrow> string" where
  "json_str jc parts = jc_print_value jc (json_texts parts)"

fun read_materials :: "json_codec \<Rightarrow> work_db \<Rightarrow> string \<Rightarrow> string list \<Rightarrow> store_error + json list" where
  "read_materials jc db work [] = Inr []"
| "read_materials jc db work (k # ks) =
     and_then (ok_or sql_error (find (\<lambda>m. mr_work_id m = work \<and> mr_id m = k) (wd_materials db))) (\<lambda>m.
     and_then (ok_or (works_invalid ''invalid Material'') (jc_parse_value jc (mr_record_json m))) (\<lambda>v.
     and_then (read_materials jc db work ks) (\<lambda>vs. Inr (v # vs))))"

definition insert_instruction ::
    "json_codec \<Rightarrow> collaboration_request \<Rightarrow> collaboration_instruction \<Rightarrow> work \<Rightarrow> work_db \<Rightarrow>
     store_error + work_db" where
  "insert_instruction jc q i w db =
     and_then (works_text (ci_id i) 512) (\<lambda>_.
     and_then (works_text (ci_text i) 16384) (\<lambda>_.
       if ci_requirements_id i \<noteq> wq_id (wk_requirements w)
          \<or> ci_event_id i \<noteq> None
          \<or> ci_delivered_turn_id i \<noteq> None
          \<or> length (ci_material_ids i) > 100
       then Inl works_conflict
       else
       and_then (read_materials jc db (wk_id w) (ci_material_ids i)) (\<lambda>materials.
       and_then (works_encode (jc_print_value jc (JObject
         [(''source'', JString ''agent''), (''requestId'', JString (cr_id q)),
          (''instructionId'', JString (ci_id i)), (''workId'', JString (wk_id w)),
          (''requirements'', requirements_json (wk_requirements w)), (''text'', JString (ci_text i)),
          (''materials'', JArray materials), (''requestingAgentId'', JString (wk_owner_agent_id w)),
          (''authority'', JString ''application contribution request; not user input; share only selected Materials'')]))) (\<lambda>payload.
       and_then (notice jc (cr_recipient_agent_id q) (json_str jc [''collaboration'', cr_id q, ci_id i])
         ''collaboration_request'' payload db) (\<lambda>(event, db).
       and_then (works_encode (jc_print jc (json_texts (ci_material_ids i)))) (\<lambda>ids.
         execute jc (db\<lparr>wd_instructions := wd_instructions db @
           [\<lparr>ir_request_id = cr_id q, ir_id = ci_id i, ir_requirements_id = ci_requirements_id i,
             ir_text = ci_text i, ir_material_ids_json = ids, ir_event_id = event\<rparr>]\<rparr>)))))))"

definition create_request ::
    "json_codec \<Rightarrow> string \<Rightarrow> collaboration_request \<Rightarrow> work_db \<Rightarrow> store_error + work_db" where
  "create_request jc actor q db =
     and_then (works_text (cr_id q) 512) (\<lambda>_.
     and_then (works_agent db (cr_recipient_agent_id q)) (\<lambda>_.
     and_then (works_owner jc db (cr_work_id q) actor (ci_requirements_id (cr_instruction q))) (\<lambda>w.
     and_then (works_active w) (\<lambda>_.
       if cr_recipient_agent_id q = actor
          \<or> cr_state q \<noteq> RequestPending
          \<or> cr_outcome q \<noteq> None
          \<or> cr_note q \<noteq> None
       then Inl (works_invalid ''new Collaboration Request must be pending and target another Agent'')
       else
       and_then (execute jc (db\<lparr>wd_requests := wd_requests db @
         [\<lparr>cq_id = cr_id q, cq_work_id = cr_work_id q, cq_recipient_agent_id = cr_recipient_agent_id q,
           cq_instruction_id = ci_id (cr_instruction q), cq_state = ''pending'',
           cq_required = cr_required q, cq_outcome = None, cq_note = None\<rparr>]\<rparr>)) (\<lambda>db.
         insert_instruction jc q (cr_instruction q) w db)))))"

text \<open>
  \<^verbatim>\<open>returned\<close>: a Result answers an instruction. Late returns remain evidence; only an answer to
  the current instruction of an open request, for the current requirements of a Work that is
  open or blocked, changes the request.
\<close>

definition returned ::
    "json_codec \<Rightarrow> string \<Rightarrow> work \<Rightarrow> work_result \<Rightarrow> string \<Rightarrow> work_db \<Rightarrow> store_error + work_db" where
  "returned jc actor w r instruction db =
     and_then (ok_or sql_error (find_instruction db instruction)) (\<lambda>i.
     and_then (ok_or sql_error (find_request db (ir_request_id i))) (\<lambda>row.
     let k = cq_id row; revision = ir_requirements_id i in
       if cq_recipient_agent_id row \<noteq> actor \<or> revision \<noteq> re_requirements_id r
       then Inl works_conflict
       else
       and_then (works_request jc db k) (\<lambda>q.
       if cr_work_id q \<noteq> wk_id w then Inl works_conflict
       else if ci_id (cr_instruction q) = instruction
          \<and> cr_state q \<noteq> RequestClosed
          \<and> (wk_state w = WorkOpen \<or> wk_state w = WorkBlocked)
          \<and> wq_id (wk_requirements w) = revision
       then
         and_then (works_recipient jc db actor k instruction) (\<lambda>_.
         and_then (update_requests jc (\<lambda>x. cq_id x = k) (\<lambda>x. x\<lparr>cq_state := ''returned''\<rparr>) db) (\<lambda>db.
         and_then (retire jc (ci_event_id (cr_instruction q))
           ''Contribution returned; requesting owner must assess it'' db) (\<lambda>db.
         and_then (works_encode (jc_print_value jc (JObject
           [(''source'', JString ''agent''), (''workId'', JString (wk_id w)), (''requestId'', JString k),
            (''instructionId'', JString instruction), (''result'', result_json r)]))) (\<lambda>payload.
         and_then (notice jc (wk_owner_agent_id w) (json_str jc [''collaboration_result'', re_id r])
           ''collaboration_result'' payload db) (\<lambda>(_, db).
           Inr db)))))
       else Inr db)))"

fun retire_requests :: "json_codec \<Rightarrow> string list \<Rightarrow> work_db \<Rightarrow> store_error + work_db" where
  "retire_requests jc [] db = Inr db"
| "retire_requests jc (k # ks) db =
     and_then (works_request jc db k) (\<lambda>q.
     and_then (retire jc (ci_event_id (cr_instruction q))
       ''Request cancelled; unrelated recipient execution is unchanged'' db) (\<lambda>db.
       retire_requests jc ks db))"

definition cancel_work :: "json_codec \<Rightarrow> string \<Rightarrow> work_db \<Rightarrow> store_error + work_db" where
  "cancel_work jc work db =
     (let live = (\<lambda>r. cq_work_id r = work \<and> cq_state r \<noteq> ''closed'') in
      and_then (retire_requests jc (map cq_id (filter live (wd_requests db))) db) (\<lambda>db.
        update_requests jc live (\<lambda>r. r\<lparr>cq_state := ''closed'', cq_outcome := Some ''cancelled'',
          cq_note := Some ''Work cancelled; no new related admission''\<rparr>) db))"

definition respond ::
    "json_codec \<Rightarrow> string \<Rightarrow> string \<Rightarrow> string \<Rightarrow> bool \<Rightarrow> string \<Rightarrow> work_db \<Rightarrow> store_error + work_db" where
  "respond jc actor request instruction accept note db =
     and_then (works_recipient jc db actor request instruction) (\<lambda>q.
     and_then (read_work jc db (cr_work_id q)) (\<lambda>w.
     and_then (works_active w) (\<lambda>_.
       if cr_state q \<noteq> RequestPending
          \<or> ci_requirements_id (cr_instruction q) \<noteq> wq_id (wk_requirements w)
       then Inl works_conflict
       else
       and_then (works_text note 4096) (\<lambda>_.
       and_then (update_requests jc (\<lambda>x. cq_id x = request) (\<lambda>x. x\<lparr>
           cq_state := (if accept then ''accepted'' else ''closed''),
           cq_outcome := (if accept then None else Some ''declined''), cq_note := Some note\<rparr>) db) (\<lambda>db.
       and_then (retire jc (ci_event_id (cr_instruction q))
         ''Recipient explicitly responded; delivery is separate from acceptance'' db) (\<lambda>db.
       if accept then Inr db
       else
         and_then (works_encode (jc_print_value jc (JObject
           [(''source'', JString ''agent''), (''requestId'', JString request),
            (''outcome'', JString ''declined''), (''note'', JString note)]))) (\<lambda>payload.
         and_then (notice jc (wk_owner_agent_id w)
           (json_str jc [''collaboration_declined'', request, instruction])
           ''collaboration_result'' payload db) (\<lambda>(_, db). Inr db))))))))"

definition repair ::
    "json_codec \<Rightarrow> string \<Rightarrow> string \<Rightarrow> string \<Rightarrow> collaboration_instruction \<Rightarrow> work_db \<Rightarrow>
     store_error + work_db" where
  "repair jc actor request expected i db =
     and_then (works_request jc db request) (\<lambda>q.
     and_then (works_owner jc db (cr_work_id q) actor (ci_requirements_id i)) (\<lambda>w.
     and_then (works_active w) (\<lambda>_.
       if ci_id (cr_instruction q) \<noteq> expected \<or> cr_outcome q = Some ''cancelled''
       then Inl works_conflict
       else
       and_then (retire jc (ci_event_id (cr_instruction q))
         ''Superseded by an explicit repair instruction; in-flight effects need reconciliation'' db) (\<lambda>db.
       and_then (insert_instruction jc q i w db) (\<lambda>db.
         update_requests jc (\<lambda>x. cq_id x = request) (\<lambda>x. x\<lparr>cq_instruction_id := ci_id i,
           cq_state := ''pending'', cq_outcome := None, cq_note := None\<rparr>) db)))))"

definition close_request ::
    "json_codec \<Rightarrow> string \<Rightarrow> string \<Rightarrow> string \<Rightarrow> string \<Rightarrow> string \<Rightarrow> work_db \<Rightarrow> store_error + work_db" where
  "close_request jc actor request instruction outcome note db =
     and_then (works_request jc db request) (\<lambda>q.
     and_then (read_work jc db (cr_work_id q)) (\<lambda>w.
     and_then (works_owner jc db (wk_id w) actor (wq_id (wk_requirements w))) (\<lambda>_.
       if ci_id (cr_instruction q) \<noteq> instruction \<or> cr_state q = RequestClosed
       then Inl works_conflict
       else
       and_then (works_text note 4096) (\<lambda>_.
       if outcome \<notin> set [''used'', ''not_used'', ''cancelled'', ''failed'']
          \<or> (outcome = ''used'' \<and> (cr_state q \<noteq> RequestReturned
              \<or> ci_requirements_id (cr_instruction q) \<noteq> wq_id (wk_requirements w)))
       then Inl (works_invalid ''use only a returned contribution for current requirements'')
       else
       and_then (update_requests jc (\<lambda>x. cq_id x = request) (\<lambda>x. x\<lparr>cq_state := ''closed'',
         cq_outcome := Some outcome, cq_note := Some note\<rparr>) db) (\<lambda>db.
         retire jc (ci_event_id (cr_instruction q))
           ''Contribution assessed or cancelled by its Work owner'' db)))))"

end
