(* ===== verification/Work_Commands.thy ===== *)
theory Work_Commands
  imports Work_Ops
begin

text \<open>
  The commands of \<^verbatim>\<open>works/commands.rs\<close>, the dispatch on the command, and the transaction
  \<^verbatim>\<open>apply_work_command\<close>, which records a receipt for each applied command.
\<close>

section \<open>Native contributions\<close>

definition prepare_subagent ::
    "json_codec \<Rightarrow> string \<Rightarrow> native_contribution \<Rightarrow> work_db \<Rightarrow> store_error + work_db" where
  "prepare_subagent jc actor b db =
     and_then (works_owner jc db (nc_work_id b) actor (nc_requirements_id b)) (\<lambda>w.
     and_then (works_active w) (\<lambda>_.
     and_then (works_text (nc_id b) 512) (\<lambda>_.
     and_then (works_text (nc_instruction b) 16384) (\<lambda>_.
       if nc_child_thread_id b \<noteq> None \<or> nc_parent_turn_id b \<noteq> None \<or> nc_parent_item_id b \<noteq> None
       then Inl (works_invalid ''new native contribution must be unbound'')
       else execute jc (db\<lparr>wd_contributions := wd_contributions db @
         [\<lparr>br_id = nc_id b, br_work_id = nc_work_id b, br_requirements_id = nc_requirements_id b,
           br_instruction = nc_instruction b, br_child_thread_id = None, br_parent_turn_id = None,
           br_parent_item_id = None\<rparr>]\<rparr>)))))"

definition bind_subagent ::
    "json_codec \<Rightarrow> string \<Rightarrow> string \<Rightarrow> string \<Rightarrow> string \<Rightarrow> string \<Rightarrow> work_db \<Rightarrow> store_error + work_db" where
  "bind_subagent jc actor contribution parent_turn parent_item child db =
     and_then (ok_or sql_error (find_row br_id (wd_contributions db) contribution)) (\<lambda>b.
     and_then (works_owner jc db (br_work_id b) actor (br_requirements_id b)) (\<lambda>_.
     let unbound = (\<lambda>r. br_id r = contribution \<and> br_child_thread_id r = None) in
     and_then (execute jc (db\<lparr>wd_contributions := update_rows unbound (\<lambda>r. r\<lparr>
         br_child_thread_id := Some child, br_parent_turn_id := Some parent_turn,
         br_parent_item_id := Some parent_item\<rparr>) (wd_contributions db)\<rparr>)) (\<lambda>db'.
       if length (filter unbound (wd_contributions db)) \<noteq> 1 then Inl works_conflict else Inr db')))"

section \<open>Works\<close>

definition create_work ::
    "json_codec \<Rightarrow> string \<Rightarrow> work \<Rightarrow> bool \<Rightarrow> work_db \<Rightarrow> store_error + work_db" where
  "create_work jc actor w user db =
     and_then (works_text (wk_id w) 512) (\<lambda>_.
     and_then (works_text (wk_title w) 120) (\<lambda>_.
       if wk_owner_agent_id w \<noteq> actor
          \<or> wk_state w \<noteq> WorkOpen
          \<or> wk_assessment w \<noteq> None
          \<or> wk_user_hold w
          \<or> wk_reason w \<noteq> None
          \<or> wk_resume_condition w \<noteq> None
       then Inl (works_invalid ''new Work must be open and owned by its creating Agent'')
       else
       and_then (works_authority jc db actor (wq_source (wk_requirements w)) user) (\<lambda>_.
       and_then (execute jc (db\<lparr>wd_works := wd_works db @
         [\<lparr>wr_id = wk_id w, wr_project_id = wk_project_id w, wr_owner_agent_id = actor,
           wr_title = wk_title w, wr_requirements_id = wq_id (wk_requirements w),
           wr_state = ''open'', wr_reason = None, wr_resume_condition = None, wr_user_hold = False,
           wr_assessment_json = None\<rparr>]\<rparr>)) (\<lambda>db.
         works_requirements jc (wk_id w) (wk_requirements w) db))))"

definition update_works ::
    "json_codec \<Rightarrow> string \<Rightarrow> (work_row \<Rightarrow> work_row) \<Rightarrow> work_db \<Rightarrow> store_error + work_db" where
  "update_works jc work f db = execute jc (db\<lparr>wd_works := update_rows (\<lambda>r. wr_id r = work) f (wd_works db)\<rparr>)"

text \<open>The undelivered instructions of a Work, whose events a revision retires.\<close>

definition undelivered_instruction :: "work_db \<Rightarrow> string \<Rightarrow> inbox_row \<Rightarrow> bool" where
  "undelivered_instruction db work e \<longleftrightarrow>
     ib_disposition e = None \<and> ib_delivered_turn_id e = None \<and>
     (\<exists>i \<in> set (wd_instructions db). ir_event_id i = ib_id e \<and>
        (\<exists>q \<in> set (wd_requests db). cq_id q = ir_request_id i \<and> cq_work_id q = work))"

definition revise_work ::
    "json_codec \<Rightarrow> string \<Rightarrow> string \<Rightarrow> string \<Rightarrow> work_requirements \<Rightarrow> bool \<Rightarrow> work_db \<Rightarrow>
     store_error + work_db" where
  "revise_work jc actor work expected r user db =
     and_then (works_owner jc db work actor expected) (\<lambda>w.
       if wk_state w = WorkCancelled
       then Inl (works_invalid ''cancelled Work needs a new authorized assignment'')
       else
       and_then (works_authority jc db actor (wq_source r) user) (\<lambda>_.
       and_then (works_requirements jc work r db) (\<lambda>db.
       and_then (now_micros db) (\<lambda>(now, db).
       and_then (execute jc (db\<lparr>wd_inbox := update_rows (undelivered_instruction db work)
         (dispose ''Requirements changed before admission; owner must issue a current instruction'' now)
         (wd_inbox db)\<rparr>)) (\<lambda>db.
         update_works jc work (\<lambda>x. x\<lparr>wr_requirements_id := wq_id r,
           wr_state := (if wr_user_hold x then ''blocked'' else ''open''), wr_assessment_json := None\<rparr>) db)))))"

definition set_state ::
    "json_codec \<Rightarrow> string \<Rightarrow> string \<Rightarrow> string \<Rightarrow> work_state \<Rightarrow> string option \<Rightarrow> string option \<Rightarrow> bool \<Rightarrow>
     bool \<Rightarrow> work_db \<Rightarrow> store_error + work_db" where
  "set_state jc actor work expected state reason resume hold user db =
     and_then (works_owner jc db work actor expected) (\<lambda>w.
       if state = WorkCompleted \<or> wk_state w = WorkCompleted \<or> wk_state w = WorkCancelled
       then Inl (works_invalid ''completion needs an assessment; reopening needs authorized requirements'')
       else if wk_user_hold w \<and> \<not> user \<or> hold \<and> \<not> user
       then Inl (works_invalid ''a user hold requires explicit user release'')
       else
       let unwrap_or_default = (\<lambda>v. case v of None \<Rightarrow> [] | Some s \<Rightarrow> s) in
       and_then (if state = WorkBlocked
         then and_then (works_text (unwrap_or_default reason) 4096)
                (\<lambda>_. works_text (unwrap_or_default resume) 4096)
         else Inr ()) (\<lambda>_.
       and_then (if state = WorkCancelled
         then and_then (works_text (unwrap_or_default reason) 4096) (\<lambda>_. cancel_work jc work db)
         else Inr db) (\<lambda>db.
         update_works jc work (\<lambda>x. x\<lparr>wr_state := state_name state, wr_reason := reason,
           wr_resume_condition := resume, wr_user_hold := hold\<rparr>) db)))"

section \<open>Evidence\<close>

definition add_material :: "json_codec \<Rightarrow> string \<Rightarrow> material \<Rightarrow> work_db \<Rightarrow> store_error + work_db" where
  "add_material jc actor m db =
     and_then (read_work jc db (ma_work_id m)) (\<lambda>w.
     and_then (works_owner jc db (wk_id w) actor (wq_id (wk_requirements w))) (\<lambda>_.
     and_then (works_active w) (\<lambda>_.
     and_then (works_text (ma_id m) 512) (\<lambda>_.
     and_then (works_text (ma_title m) 1024) (\<lambda>_.
     and_then (works_text (ma_reference m) 4096) (\<lambda>_.
     and_then (works_encode (jc_print jc (material_json m))) (\<lambda>record_json.
       execute jc (db\<lparr>wd_materials := wd_materials db @
         [\<lparr>mr_id = ma_id m, mr_work_id = ma_work_id m, mr_record_json = record_json\<rparr>]\<rparr>))))))))"

definition record_result :: "json_codec \<Rightarrow> string \<Rightarrow> work_result \<Rightarrow> work_db \<Rightarrow> store_error + work_db" where
  "record_result jc actor r db =
     and_then (works_text (re_id r) 512) (\<lambda>_.
     and_then (works_text (re_summary r) 16384) (\<lambda>_.
       if (case re_native_contribution_id r of
             None \<Rightarrow> False
           | Some binding \<Rightarrow> \<not> list_ex (\<lambda>b. br_id b = binding \<and> br_work_id b = re_work_id r \<and>
               br_requirements_id b = re_requirements_id r \<and> br_child_thread_id b \<noteq> None) (wd_contributions db))
       then Inl (works_invalid ''native Result requires its exact bound contribution'')
       else if re_agent_id r \<noteq> actor
       then Inl (works_invalid ''a Result belongs to its actual contributing Agent'')
       else
       and_then (read_work jc db (re_work_id r)) (\<lambda>w.
       and_then (case re_instruction_id r of
           Some instruction \<Rightarrow> returned jc actor w r instruction db
         | None \<Rightarrow>
             if wk_owner_agent_id w \<noteq> actor
             then Inl (works_invalid ''foreign Work requires an exact Collaboration instruction'')
             else Inr db) (\<lambda>db.
       and_then (works_encode (jc_print jc (result_json r))) (\<lambda>record_json.
         execute jc (db\<lparr>wd_results := wd_results db @
           [\<lparr>sr_id = re_id r, sr_work_id = re_work_id r, sr_requirements_id = re_requirements_id r,
             sr_instruction_id = re_instruction_id r, sr_agent_id = actor,
             sr_record_json = record_json\<rparr>]\<rparr>))))))"

definition reuse_result ::
    "json_codec \<Rightarrow> string \<Rightarrow> string \<Rightarrow> string \<Rightarrow> string \<Rightarrow> string \<Rightarrow> work_db \<Rightarrow> store_error + work_db" where
  "reuse_result jc actor work expected result assessment db =
     and_then (works_owner jc db work actor expected) (\<lambda>w.
     and_then (works_active w) (\<lambda>_.
     and_then (works_text assessment 16384) (\<lambda>_.
       if \<not> list_ex (\<lambda>r. sr_id r = result \<and> sr_work_id r = work) (wd_results db)
       then Inl works_conflict
       else execute jc (db\<lparr>wd_reuses := wd_reuses db @
         [\<lparr>ur_work_id = work, ur_requirements_id = expected, ur_result_id = result,
           ur_assessment = assessment\<rparr>]\<rparr>))))"

text \<open>A Result counts for requirements it was made for, or was explicitly rechecked against.\<close>

definition result_counts :: "work_db \<Rightarrow> string \<Rightarrow> string \<Rightarrow> string \<Rightarrow> bool" where
  "result_counts db work revision k \<longleftrightarrow>
     list_ex (\<lambda>r. sr_id r = k \<and> sr_work_id r = work \<and>
       (sr_requirements_id r = revision \<or>
        list_ex (\<lambda>v. ur_result_id v = sr_id r \<and> ur_work_id v = sr_work_id r \<and>
          ur_requirements_id v = revision) (wd_reuses db))) (wd_results db)"

definition request_waiting :: "work_db \<Rightarrow> string \<Rightarrow> bool" where
  "request_waiting db work \<longleftrightarrow>
     list_ex (\<lambda>q. cq_work_id q = work \<and> cq_required q \<and> cq_state q \<noteq> ''closed'') (wd_requests db)"

definition complete_work ::
    "json_codec \<Rightarrow> string \<Rightarrow> string \<Rightarrow> string \<Rightarrow> work_assessment \<Rightarrow> work_db \<Rightarrow> store_error + work_db" where
  "complete_work jc actor work expected assessment db =
     and_then (works_owner jc db work actor expected) (\<lambda>w.
     and_then (works_active w) (\<lambda>_.
       if wa_requirements_id assessment \<noteq> expected
          \<or> wa_result_ids assessment = []
          \<or> length (wa_result_ids assessment) > 100
       then Inl works_conflict
       else
       and_then (works_text (wa_summary assessment) 16384) (\<lambda>_.
       if \<not> list_all (result_counts db work expected) (wa_result_ids assessment)
       then Inl (works_invalid ''completion needs related Results checked against current requirements'')
       else if request_waiting db work
       then Inl (works_invalid ''assess or cancel required contributions before completion'')
       else
       and_then (works_encode (jc_print jc (assessment_json assessment))) (\<lambda>record_json.
         update_works jc work (\<lambda>x. x\<lparr>wr_state := ''completed'', wr_reason := None,
           wr_resume_condition := None, wr_assessment_json := Some record_json\<rparr>) db))))"

section \<open>The transaction\<close>

fun apply_command ::
    "json_codec \<Rightarrow> string \<Rightarrow> work_command \<Rightarrow> bool \<Rightarrow> work_db \<Rightarrow> store_error + work_db" where
  "apply_command jc actor (PrepareSubagent b) user db = prepare_subagent jc actor b db"
| "apply_command jc actor (BindSubagent contribution turn item child) user db =
     bind_subagent jc actor contribution turn item child db"
| "apply_command jc actor (CreateWork w) user db = create_work jc actor w user db"
| "apply_command jc actor (Revise work expected r) user db = revise_work jc actor work expected r user db"
| "apply_command jc actor (SetState work expected state reason resume hold) user db =
     set_state jc actor work expected state reason resume hold user db"
| "apply_command jc actor (AddMaterial m) user db = add_material jc actor m db"
| "apply_command jc actor (RecordResult r) user db = record_result jc actor r db"
| "apply_command jc actor (ReuseResult work expected result assessment) user db =
     reuse_result jc actor work expected result assessment db"
| "apply_command jc actor (CompleteWork work expected assessment) user db =
     complete_work jc actor work expected assessment db"
| "apply_command jc actor (RequestContribution q) user db = create_request jc actor q db"
| "apply_command jc actor (Respond request instruction accept note) user db =
     respond jc actor request instruction accept note db"
| "apply_command jc actor (Repair request expected i) user db = repair jc actor request expected i db"
| "apply_command jc actor (CloseRequest request instruction outcome note) user db =
     close_request jc actor request instruction outcome note db"

definition find_command :: "work_db \<Rightarrow> string \<Rightarrow> command_row option" where
  "find_command db k = find_row cm_id (wd_commands db) k"

definition apply_work_command ::
    "json_codec \<Rightarrow> (nat \<Rightarrow> i64 option) \<Rightarrow> string \<Rightarrow> string \<Rightarrow> work_command \<Rightarrow> bool \<Rightarrow> work_db \<Rightarrow>
     store_error + work_db" where
  "apply_work_command jc clock actor command_id command user db =
     and_then (works_text command_id 512) (\<lambda>_.
     and_then (works_encode (jc_print jc (command_json command))) (\<lambda>text_json.
     and_then (works_agent db actor) (\<lambda>_.
     case find_command db command_id of
       Some saved \<Rightarrow>
         if cm_agent_id saved = actor \<and> cm_command_json saved = text_json
         then Inr db else Inl works_conflict
     | None \<Rightarrow>
         and_then (apply_command jc actor command user (db\<lparr>wd_clock := clock\<rparr>)) (\<lambda>db.
         and_then (execute jc (db\<lparr>wd_commands := wd_commands db @
           [\<lparr>cm_id = command_id, cm_agent_id = actor, cm_command_json = text_json\<rparr>]\<rparr>)) (\<lambda>db.
           commit db)))))"

definition work_command_applied ::
    "json_codec \<Rightarrow> string \<Rightarrow> string \<Rightarrow> work_command \<Rightarrow> work_db \<Rightarrow> store_error + bool" where
  "work_command_applied jc actor command_id command db =
     and_then (works_encode (jc_print jc (command_json command))) (\<lambda>text_json.
     case find_command db command_id of
       None \<Rightarrow> Inr False
     | Some saved \<Rightarrow>
         if cm_agent_id saved = actor \<and> cm_command_json saved = text_json then Inr True
         else Inl works_conflict)"

section \<open>Native receipts\<close>

fun each_text :: "string list \<Rightarrow> store_error + unit" where
  "each_text [] = Inr ()"
| "each_text (v # vs) = and_then (works_text v 512) (\<lambda>_. each_text vs)"

text \<open>
  \<^verbatim>\<open>INSERT ... ON CONFLICT(contribution_id) DO UPDATE ... WHERE\<close> the same values: a repeated
  receipt changes nothing, a different one matches no row.
\<close>

definition record_native_work_dispatch ::
    "json_codec \<Rightarrow> string \<Rightarrow> string \<Rightarrow> string \<Rightarrow> string \<Rightarrow> work_db \<Rightarrow> store_error + work_db" where
  "record_native_work_dispatch jc k thread turn call db =
     and_then (each_text [k, thread, turn, call]) (\<lambda>_.
     let row = \<lparr>xr_contribution_id = k, xr_thread_id = thread, xr_turn_id = turn, xr_call_id = call\<rparr> in
     case find_row xr_contribution_id (wd_dispatches db) k of
       Some saved \<Rightarrow> if saved = row then Inr db else Inl works_conflict
     | None \<Rightarrow> and_then (execute jc (db\<lparr>wd_dispatches := wd_dispatches db @ [row]\<rparr>)) commit)"

definition record_native_work_delivery ::
    "json_codec \<Rightarrow> string \<Rightarrow> native_work_delivery \<Rightarrow> work_db \<Rightarrow> store_error + work_db" where
  "record_native_work_delivery jc k d db =
     and_then (each_text [k, nd_parent_thread_id d, nd_parent_turn_id d, nd_child_thread_id d,
       nd_child_turn_id d, nd_message_id d]) (\<lambda>_.
     let row = \<lparr>vr_contribution_id = k, vr_parent_thread_id = nd_parent_thread_id d,
         vr_parent_turn_id = nd_parent_turn_id d, vr_child_thread_id = nd_child_thread_id d,
         vr_child_turn_id = nd_child_turn_id d, vr_message_id = nd_message_id d,
         vr_assignment_proof = assignment_proof_as_str (nd_assignment_proof d)\<rparr> in
     case find_row vr_contribution_id (wd_deliveries db) k of
       Some saved \<Rightarrow> if saved = row then Inr db else Inl works_conflict
     | None \<Rightarrow> and_then (execute jc (db\<lparr>wd_deliveries := wd_deliveries db @ [row]\<rparr>)) commit)"

end
