(* ===== verification/Work_Effects.thy ===== *)
theory Work_Effects
  imports Work_Commands
begin

text \<open>
  What each command does when it succeeds: the guards that held and the tables it left. The
  inbox only grows, so the effects are stated on the \<open>ledger\<close>, the database without the inbox
  and the clock.
\<close>

section \<open>The ledger and the inbox\<close>

definition ledger :: "work_db \<Rightarrow> work_db" where
  "ledger db = db\<lparr>wd_inbox := [], wd_inbox_seq := 0, wd_clock := (\<lambda>_. None)\<rparr>"

lemma ledger_fields [simp]:
  "wd_items (ledger db) = wd_items db" "wd_agents (ledger db) = wd_agents db"
  "wd_projects (ledger db) = wd_projects db" "wd_works (ledger db) = wd_works db"
  "wd_requirements (ledger db) = wd_requirements db" "wd_materials (ledger db) = wd_materials db"
  "wd_results (ledger db) = wd_results db" "wd_reuses (ledger db) = wd_reuses db"
  "wd_requests (ledger db) = wd_requests db" "wd_instructions (ledger db) = wd_instructions db"
  "wd_contributions (ledger db) = wd_contributions db" "wd_dispatches (ledger db) = wd_dispatches db"
  "wd_deliveries (ledger db) = wd_deliveries db" "wd_commands (ledger db) = wd_commands db"
  by (simp_all add: ledger_def)

lemma ledger_ledger [simp]: "ledger (ledger db) = ledger db"
  by (simp add: ledger_def)

lemma ledger_inbox [simp]:
  "ledger (db\<lparr>wd_inbox := ib\<rparr>) = ledger db" "ledger (db\<lparr>wd_inbox_seq := seq\<rparr>) = ledger db"
  "ledger (db\<lparr>wd_clock := clk\<rparr>) = ledger db"
  by (simp_all add: ledger_def)

lemma ledger_update [simp]:
  "ledger (db\<lparr>wd_works := x1\<rparr>) = (ledger db)\<lparr>wd_works := x1\<rparr>"
  "ledger (db\<lparr>wd_requirements := x2\<rparr>) = (ledger db)\<lparr>wd_requirements := x2\<rparr>"
  "ledger (db\<lparr>wd_materials := x3\<rparr>) = (ledger db)\<lparr>wd_materials := x3\<rparr>"
  "ledger (db\<lparr>wd_results := x4\<rparr>) = (ledger db)\<lparr>wd_results := x4\<rparr>"
  "ledger (db\<lparr>wd_reuses := x5\<rparr>) = (ledger db)\<lparr>wd_reuses := x5\<rparr>"
  "ledger (db\<lparr>wd_requests := x6\<rparr>) = (ledger db)\<lparr>wd_requests := x6\<rparr>"
  "ledger (db\<lparr>wd_instructions := x7\<rparr>) = (ledger db)\<lparr>wd_instructions := x7\<rparr>"
  "ledger (db\<lparr>wd_contributions := x8\<rparr>) = (ledger db)\<lparr>wd_contributions := x8\<rparr>"
  "ledger (db\<lparr>wd_dispatches := x9\<rparr>) = (ledger db)\<lparr>wd_dispatches := x9\<rparr>"
  "ledger (db\<lparr>wd_deliveries := x10\<rparr>) = (ledger db)\<lparr>wd_deliveries := x10\<rparr>"
  "ledger (db\<lparr>wd_commands := x11\<rparr>) = (ledger db)\<lparr>wd_commands := x11\<rparr>"
  by (simp_all add: ledger_def)

text \<open>An event keeps its source; a disposition, once given, stays.\<close>

definition event_kept :: "inbox_row \<Rightarrow> inbox_row \<Rightarrow> bool" where
  "event_kept e e' \<longleftrightarrow>
     ib_id e' = ib_id e \<and> ib_source_event_id e' = ib_source_event_id e \<and>
     ib_work_item_id e' = ib_work_item_id e \<and> ib_event_kind e' = ib_event_kind e \<and>
     ib_payload e' = ib_payload e \<and> ib_created_at_micros e' = ib_created_at_micros e \<and>
     ib_delivery_work_item_id e' = ib_delivery_work_item_id e \<and>
     ib_delivered_turn_id e' = ib_delivered_turn_id e \<and>
     (ib_disposition e \<noteq> None \<longrightarrow> e' = e)"

definition inbox_grows :: "inbox_row list \<Rightarrow> inbox_row list \<Rightarrow> bool" where
  "inbox_grows es es' \<longleftrightarrow> (\<exists>kept new. es' = kept @ new \<and> list_all2 event_kept es kept)"

lemma event_kept_refl [simp]: "event_kept e e"
  by (simp add: event_kept_def)

lemma event_kept_trans: "event_kept e f \<Longrightarrow> event_kept f g \<Longrightarrow> event_kept e g"
  unfolding event_kept_def by metis

lemma inbox_grows_refl [simp]: "inbox_grows es es"
  unfolding inbox_grows_def by (rule exI [of _ es], rule exI [of _ "[]"]) (simp add: list_all2_same)

lemma inbox_grows_trans:
  assumes "inbox_grows es fs" "inbox_grows fs gs" shows "inbox_grows es gs"
proof -
  obtain k1 n1 where 1: "fs = k1 @ n1" "list_all2 event_kept es k1" using assms(1) inbox_grows_def by auto
  obtain k2 n2 where 2: "gs = k2 @ n2" "list_all2 event_kept (k1 @ n1) k2"
    using assms(2) 1(1) inbox_grows_def by auto
  obtain a b where ab: "k2 = a @ b" "list_all2 event_kept k1 a" using 2(2) by (auto simp: list_all2_append1)
  have "list_all2 event_kept es a" by (rule list_all2_trans [OF event_kept_trans 1(2) ab(2)])
  then show ?thesis unfolding inbox_grows_def using 2(1) ab(1) by auto
qed

lemma inbox_grows_append [simp]: "inbox_grows es (es @ new)"
  unfolding inbox_grows_def using list_all2_same [of event_kept es] by auto

lemma inbox_grows_update:
  "(\<And>e. p e \<Longrightarrow> event_kept e (f e)) \<Longrightarrow> inbox_grows es (update_rows p f es)"
  unfolding inbox_grows_def update_rows_def
  by (rule exI [of _ "map (\<lambda>r. if p r then f r else r) es"], rule exI [of _ "[]"])
    (simp add: list_all2_map2 list_all2_same)

lemma dispose_kept: "ib_disposition e = None \<Longrightarrow> event_kept e (dispose note now e)"
  by (simp add: event_kept_def dispose_def)

lemma now_micros_Ok: "now_micros db = Inr (t, db') \<Longrightarrow> ledger db' = ledger db \<and> wd_inbox db' = wd_inbox db \<and>
    wd_inbox_seq db' = wd_inbox_seq db \<and> 0 < t"
  by (auto simp: now_micros_def and_then_Ok_iff unix_micros_Ok_iff)

lemma find_append_fresh:
  "k \<notin> key ` set xs \<Longrightarrow> find (\<lambda>r. key r = k) (xs @ [e]) = (if key e = k then Some e else None)"
  by (induction xs) auto

text \<open>What \<open>retire\<close> and \<open>notice\<close> leave.\<close>

lemma retire_Ok:
  assumes "retire jc event note db = Inr db'"
  shows "ledger db' = ledger db" "inbox_grows (wd_inbox db) (wd_inbox db')" "work_schema jc db'"
  using assms
  by (auto simp: retire_def and_then_Ok_iff execute_Ok_iff split: prod.splits dest!: now_micros_Ok
      intro!: inbox_grows_update dispose_kept)

lemma notice_Ok:
  assumes "notice jc agent source kind payload db = Inr (k, db')"
  shows "ledger db' = ledger db" "inbox_grows (wd_inbox db) (wd_inbox db')" "work_schema jc db'"
    "\<exists>e. find_event db' k = Some e \<and> ib_work_item_id e = agent \<and> ib_event_kind e = kind \<and>
      ib_payload e = payload \<and> ib_delivered_turn_id e = None \<and> e \<notin> set (wd_inbox db)"
proof -
  obtain now db1 where now: "now_micros db = Inr (now, db1)" and k: "k = wd_inbox_seq db1 + 1"
    and db': "db' = db1\<lparr>wd_inbox := wd_inbox db1 @
           [\<lparr>ib_id = k, ib_source_event_id = source, ib_work_item_id = agent, ib_event_kind = kind,
             ib_payload = payload, ib_created_at_micros = now, ib_disposition = None,
             ib_disposition_note = None, ib_disposed_at_micros = None,
             ib_delivery_work_item_id = None, ib_delivered_turn_id = None\<rparr>],
           wd_inbox_seq := k\<rparr>" and schema: "work_schema jc db'"
    using assms by (auto simp: notice_def and_then_Ok_iff execute_Ok_iff Let_def split: prod.splits if_splits)
  note same = now_micros_Ok [OF now]
  show "ledger db' = ledger db" using same by (simp add: db')
  show "inbox_grows (wd_inbox db) (wd_inbox db')" using same by (simp add: db')
  show "work_schema jc db'" by (rule schema)
  have fresh: "k \<notin> ib_id ` set (wd_inbox db)"
    using schema same by (simp add: work_schema_def work_keys_unique_def db')
  then have "find (\<lambda>r. ib_id r = k) (wd_inbox db @ [e]) = (if ib_id e = k then Some e else None)" for e
    by (rule find_append_fresh)
  then show "\<exists>e. find_event db' k = Some e \<and> ib_work_item_id e = agent \<and> ib_event_kind e = kind \<and>
      ib_payload e = payload \<and> ib_delivered_turn_id e = None \<and> e \<notin> set (wd_inbox db)"
    using fresh same by (auto simp: find_event_def db' dest: imageI [of _ _ ib_id])
qed

section \<open>What the readers show\<close>

definition shows_work :: "work_row \<Rightarrow> work \<Rightarrow> bool" where
  "shows_work r w \<longleftrightarrow>
     wk_id w = wr_id r \<and> wk_project_id w = wr_project_id r \<and> wk_owner_agent_id w = wr_owner_agent_id r \<and>
     wk_title w = wr_title r \<and> wq_id (wk_requirements w) = wr_requirements_id r \<and>
     wr_state r = state_name (wk_state w) \<and> wk_reason w = wr_reason r \<and>
     wk_resume_condition w = wr_resume_condition r \<and> wk_user_hold w = wr_user_hold r"

definition shows_request :: "request_row \<Rightarrow> collaboration_request \<Rightarrow> bool" where
  "shows_request r q \<longleftrightarrow>
     cr_id q = cq_id r \<and> cr_work_id q = cq_work_id r \<and> cr_recipient_agent_id q = cq_recipient_agent_id r \<and>
     ci_id (cr_instruction q) = cq_instruction_id r \<and> cr_state q = parse_request_state (cq_state r) \<and>
     cr_required q = cq_required r \<and> cr_outcome q = cq_outcome r \<and> cr_note q = cq_note r"

lemma parse_work_state_Ok_iff: "parse_work_state s = Inr state \<longleftrightarrow> s = state_name state"
  by (cases state) (auto simp: parse_work_state_def state_name_def split: if_splits)

lemma find_work_id: "find_work db k = Some r \<Longrightarrow> r \<in> set (wd_works db) \<and> wr_id r = k"
  by (simp add: find_work_def find_row_Some)

lemma find_request_id: "find_request db k = Some r \<Longrightarrow> r \<in> set (wd_requests db) \<and> cq_id r = k"
  by (simp add: find_request_def find_row_Some)

lemma read_work_Ok:
  assumes "read_work jc db k = Inr w"
  obtains r where "find_work db k = Some r" "shows_work r w" "wk_id w = k"
proof -
  have "\<exists>r. find_work db k = Some r \<and> shows_work r w \<and> wk_id w = k"
    using assms by (auto simp: read_work_def and_then_Ok_iff shows_work_def parse_work_state_Ok_iff dest: find_work_id)
  with that show thesis by blast
qed

lemma works_owner_Ok_iff: "works_owner jc db k agent revision = Inr w \<longleftrightarrow>
    read_work jc db k = Inr w \<and> wk_owner_agent_id w = agent \<and> wq_id (wk_requirements w) = revision"
  by (auto simp: works_owner_def and_then_Ok_iff split: if_splits)

lemma works_active_Ok_iff: "works_active w = Inr u \<longleftrightarrow> wk_state w = WorkOpen"
  by (auto simp: works_active_def)

lemma works_agent_Ok_iff: "works_agent db a = Inr u \<longleftrightarrow> a \<in> set (wd_agents db)"
  by (auto simp: works_agent_def)

lemma works_owner_row:
  assumes "works_owner jc db k agent revision = Inr w"
  obtains r where "find_work db k = Some r" "shows_work r w" "wk_id w = k"
    "wr_owner_agent_id r = agent" "wr_requirements_id r = revision"
proof -
  have w: "read_work jc db k = Inr w" "wk_owner_agent_id w = agent" "wq_id (wk_requirements w) = revision"
    using assms by (simp_all add: works_owner_Ok_iff)
  obtain r where "find_work db k = Some r" "shows_work r w" "wk_id w = k" using read_work_Ok [OF w(1)] .
  then show thesis using that w(2,3) by (simp add: shows_work_def)
qed

lemma works_request_Ok:
  assumes "works_request jc db k = Inr q"
  obtains r i where "find_request db k = Some r" "shows_request r q" "cr_id q = k"
    "i \<in> set (wd_instructions db)" "ir_request_id i = k" "ir_id i = cq_instruction_id r"
    "ci_requirements_id (cr_instruction q) = ir_requirements_id i"
    "ci_event_id (cr_instruction q) = Some (ir_event_id i)"
proof -
  obtain r i where r: "find_request db k = Some r"
    and i: "find (\<lambda>i. ir_request_id i = cq_id r \<and> ir_id i = cq_instruction_id r) (wd_instructions db) = Some i"
    and q: "shows_request r q \<and> cr_id q = k \<and> ci_requirements_id (cr_instruction q) = ir_requirements_id i \<and>
      ci_event_id (cr_instruction q) = Some (ir_event_id i)"
    using assms find_request_id [of db k]
    by (force simp: works_request_def and_then_Ok_iff shows_request_def)
  have k: "cq_id r = k" using find_request_id [OF r] by simp
  show thesis by (rule that [OF r, of i]) (use i k q in \<open>auto simp: find_Some_iff\<close>)
qed

lemma works_recipient_Ok_iff: "works_recipient jc db actor k instruction = Inr q \<longleftrightarrow>
    works_request jc db k = Inr q \<and> cr_recipient_agent_id q = actor \<and> ci_id (cr_instruction q) = instruction \<and>
    (\<exists>t. ci_delivered_turn_id (cr_instruction q) = Some t \<and> t \<noteq> [])"
proof (cases "works_request jc db k")
  case (Inr p)
  then show ?thesis by (cases "ci_delivered_turn_id (cr_instruction p)") (auto simp: works_recipient_def)
qed (simp add: works_recipient_def)

section \<open>Effects on requests\<close>

lemma update_requests_Ok:
  assumes "update_requests jc p f db = Inr db'"
  shows "ledger db' = (ledger db)\<lparr>wd_requests := update_rows p f (wd_requests db)\<rparr>"
    "wd_inbox db' = wd_inbox db" "work_schema jc db'"
  using assms by (auto simp: update_requests_def execute_Ok_iff)

definition instruction_row_of ::
    "json_codec \<Rightarrow> string \<Rightarrow> collaboration_instruction \<Rightarrow> i64 \<Rightarrow> instruction_row" where
  "instruction_row_of jc request i event =
     \<lparr>ir_request_id = request, ir_id = ci_id i, ir_requirements_id = ci_requirements_id i,
      ir_text = ci_text i, ir_material_ids_json = jc_print jc (json_texts (ci_material_ids i)),
      ir_event_id = event\<rparr>"

lemma insert_instruction_Ok:
  assumes "insert_instruction jc q i w db = Inr db'"
  obtains event where
    "ledger db' = (ledger db)\<lparr>wd_instructions := wd_instructions db @ [instruction_row_of jc (cr_id q) i event]\<rparr>"
    "inbox_grows (wd_inbox db) (wd_inbox db')" "work_schema jc db'"
    "ci_requirements_id i = wq_id (wk_requirements w)"
proof -
  obtain payload event db1 ids where
    n: "notice jc (cr_recipient_agent_id q) (json_str jc [''collaboration'', cr_id q, ci_id i])
         ''collaboration_request'' payload db = Inr (event, db1)"
    and ids: "works_encode (jc_print jc (json_texts (ci_material_ids i))) = Inr ids"
    and req: "ci_requirements_id i = wq_id (wk_requirements w)"
    and db': "execute jc (db1\<lparr>wd_instructions := wd_instructions db1 @
           [\<lparr>ir_request_id = cr_id q, ir_id = ci_id i, ir_requirements_id = ci_requirements_id i,
             ir_text = ci_text i, ir_material_ids_json = ids, ir_event_id = event\<rparr>]\<rparr>) = Inr db'"
    using assms by (auto simp: insert_instruction_def and_then_Ok_iff split: if_splits prod.splits)
  note n = notice_Ok [OF n]
  have "wd_instructions db1 = wd_instructions db" using arg_cong [OF n(1), of wd_instructions] by simp
  then show thesis
    by (intro that [of event]) (use db' ids n req in \<open>auto simp: execute_Ok_iff works_encode_Ok_iff instruction_row_of_def\<close>)
qed

definition request_row_of :: "collaboration_request \<Rightarrow> request_row" where
  "request_row_of q = \<lparr>cq_id = cr_id q, cq_work_id = cr_work_id q,
     cq_recipient_agent_id = cr_recipient_agent_id q, cq_instruction_id = ci_id (cr_instruction q),
     cq_state = ''pending'', cq_required = cr_required q, cq_outcome = None, cq_note = None\<rparr>"

lemma create_request_Ok:
  assumes "create_request jc actor q db = Inr db'"
  obtains w event where
    "works_owner jc db (cr_work_id q) actor (ci_requirements_id (cr_instruction q)) = Inr w" "wk_state w = WorkOpen"
    "cr_recipient_agent_id q \<noteq> actor"
    "ledger db' = (ledger db)\<lparr>wd_requests := wd_requests db @ [request_row_of q],
       wd_instructions := wd_instructions db @ [instruction_row_of jc (cr_id q) (cr_instruction q) event]\<rparr>"
    "inbox_grows (wd_inbox db) (wd_inbox db')" "work_schema jc db'"
proof -
  obtain w db1 where w: "works_owner jc db (cr_work_id q) actor (ci_requirements_id (cr_instruction q)) = Inr w"
      "wk_state w = WorkOpen" "cr_recipient_agent_id q \<noteq> actor"
    and db1: "db1 = db\<lparr>wd_requests := wd_requests db @ [request_row_of q]\<rparr>"
    and i: "insert_instruction jc q (cr_instruction q) w db1 = Inr db'"
    using assms by (auto simp: create_request_def and_then_Ok_iff works_active_Ok_iff execute_Ok_iff
        request_row_of_def split: if_splits)
  obtain event where "ledger db' = (ledger db1)\<lparr>wd_instructions := wd_instructions db1 @
      [instruction_row_of jc (cr_id q) (cr_instruction q) event]\<rparr>"
    "inbox_grows (wd_inbox db1) (wd_inbox db')" "work_schema jc db'" using insert_instruction_Ok [OF i] by blast
  then show thesis by (intro that [OF w, of event]) (simp_all add: db1)
qed

lemma returned_Ok:
  assumes "returned jc actor w r instruction db = Inr db'"
  obtains (late) "db' = db"
  | (current) k q where "works_recipient jc db actor k instruction = Inr q" "cr_work_id q = wk_id w"
    "cr_state q \<noteq> RequestClosed" "wk_state w = WorkOpen \<or> wk_state w = WorkBlocked"
    "re_requirements_id r = wq_id (wk_requirements w)"
    "ledger db' = (ledger db)\<lparr>wd_requests := update_rows (\<lambda>x. cq_id x = k)
       (\<lambda>x. x\<lparr>cq_state := ''returned''\<rparr>) (wd_requests db)\<rparr>"
    "inbox_grows (wd_inbox db) (wd_inbox db')" "work_schema jc db'"
proof -
  obtain i row where i: "find_instruction db instruction = Some i" "find_request db (ir_request_id i) = Some row"
    and rest: "(let k = cq_id row; revision = ir_requirements_id i in
       if cq_recipient_agent_id row \<noteq> actor \<or> revision \<noteq> re_requirements_id r
       then Inl works_conflict
       else
       and_then (works_request jc db k) (\<lambda>q.
       if cr_work_id q \<noteq> wk_id w then Inl works_conflict
       else if ci_id (cr_instruction q) = instruction
          \<and> cr_state q \<noteq> RequestClosed
          \<and> (wk_state w = WorkOpen \<or> wk_state w = WorkBlocked)
          \<and> wq_id (wk_requirements w) = revision
       then
         and_then (works_recipient jc db actor k instruction) (\<lambda>_.
         and_then (update_requests jc (\<lambda>x. cq_id x = k) (\<lambda>x. x\<lparr>cq_state := ''returned''\<rparr>) db) (\<lambda>db.
         and_then (retire jc (ci_event_id (cr_instruction q))
           ''Contribution returned; requesting owner must assess it'' db) (\<lambda>db.
         and_then (works_encode (jc_print_value jc (JObject
           [(''source'', JString ''agent''), (''workId'', JString (wk_id w)), (''requestId'', JString k),
            (''instructionId'', JString instruction), (''result'', result_json r)]))) (\<lambda>payload.
         and_then (notice jc (wk_owner_agent_id w) (json_str jc [''collaboration_result'', re_id r])
           ''collaboration_result'' payload db) (\<lambda>(_, db).
           Inr db)))))
       else Inr db)) = Inr db'"
    using assms unfolding returned_def and_then_Ok_iff ok_or_Ok_iff by blast
  show thesis
  proof (cases "db' = db")
    case True
    then show thesis by (rule late)
  next
    case False
    then obtain q db1 db2 payload e where q: "works_request jc db (cq_id row) = Inr q" "cr_work_id q = wk_id w"
        "cr_state q \<noteq> RequestClosed" "wk_state w = WorkOpen \<or> wk_state w = WorkBlocked"
        "re_requirements_id r = wq_id (wk_requirements w)"
        "works_recipient jc db actor (cq_id row) instruction = Inr q"
      and db1: "update_requests jc (\<lambda>x. cq_id x = cq_id row) (\<lambda>x. x\<lparr>cq_state := ''returned''\<rparr>) db = Inr db1"
      and db2: "retire jc (ci_event_id (cr_instruction q))
           ''Contribution returned; requesting owner must assess it'' db1 = Inr db2"
      and db': "notice jc (wk_owner_agent_id w) (json_str jc [''collaboration_result'', re_id r])
           ''collaboration_result'' payload db2 = Inr (e, db')"
      using rest by (auto simp: Let_def and_then_Ok_iff works_recipient_Ok_iff split: if_splits)
    with update_requests_Ok [OF db1] retire_Ok [OF db2] notice_Ok(1-3) [OF db'] q show thesis
      by (intro current) (auto intro: inbox_grows_trans)
  qed
qed

lemma retire_requests_Ok:
  "retire_requests jc ks db = Inr db' \<Longrightarrow> ledger db' = ledger db \<and> inbox_grows (wd_inbox db) (wd_inbox db') \<and>
    (work_schema jc db \<longrightarrow> work_schema jc db')"
proof (induction ks arbitrary: db)
  case (Cons k ks)
  obtain q :: collaboration_request and db1 where 1: "retire jc (ci_event_id (cr_instruction q))
       ''Request cancelled; unrelated recipient execution is unchanged'' db = Inr db1"
    and 2: "retire_requests jc ks db1 = Inr db'" 
    using Cons.prems unfolding retire_requests.simps and_then_Ok_iff by blast
  show ?case using retire_Ok [OF 1] Cons.IH [OF 2] by (auto intro: inbox_grows_trans)
qed simp

definition live_request :: "string \<Rightarrow> request_row \<Rightarrow> bool" where
  "live_request work r \<longleftrightarrow> cq_work_id r = work \<and> cq_state r \<noteq> ''closed''"

definition cancelled_request :: "request_row \<Rightarrow> request_row" where
  "cancelled_request r = r\<lparr>cq_state := ''closed'', cq_outcome := Some ''cancelled'',
     cq_note := Some ''Work cancelled; no new related admission''\<rparr>"

lemma cancel_work_Ok:
  assumes "cancel_work jc work db = Inr db'"
  shows "ledger db' = (ledger db)\<lparr>wd_requests := update_rows (live_request work) cancelled_request (wd_requests db)\<rparr>"
    "inbox_grows (wd_inbox db) (wd_inbox db')" "work_schema jc db'"
proof -
  obtain db1 where 1: "retire_requests jc (map cq_id (filter (live_request work) (wd_requests db))) db = Inr db1"
    and 2: "update_requests jc (live_request work) cancelled_request db1 = Inr db'"
    using assms by (auto simp: cancel_work_def Let_def and_then_Ok_iff live_request_def [abs_def] cancelled_request_def [abs_def])
  note r = retire_requests_Ok [OF 1]
  have "wd_requests db1 = wd_requests db" using arg_cong [of _ _ wd_requests] r ledger_fields(9) by metis
  with r update_requests_Ok [OF 2]
  show "ledger db' = (ledger db)\<lparr>wd_requests := update_rows (live_request work) cancelled_request (wd_requests db)\<rparr>"
    "inbox_grows (wd_inbox db) (wd_inbox db')" "work_schema jc db'" by simp_all
qed

lemma respond_Ok:
  assumes "respond jc actor request instruction accept note db = Inr db'"
  obtains q w where "works_recipient jc db actor request instruction = Inr q" "read_work jc db (cr_work_id q) = Inr w"
    "wk_state w = WorkOpen" "cr_state q = RequestPending"
    "ci_requirements_id (cr_instruction q) = wq_id (wk_requirements w)"
    "ledger db' = (ledger db)\<lparr>wd_requests := update_rows (\<lambda>x. cq_id x = request) (\<lambda>x. x\<lparr>
       cq_state := (if accept then ''accepted'' else ''closed''),
       cq_outcome := (if accept then None else Some ''declined''), cq_note := Some note\<rparr>) (wd_requests db)\<rparr>"
    "inbox_grows (wd_inbox db) (wd_inbox db')" "work_schema jc db'"
proof -
  obtain q w db1 db2 where q: "works_recipient jc db actor request instruction = Inr q"
      "read_work jc db (cr_work_id q) = Inr w" "wk_state w = WorkOpen" "cr_state q = RequestPending"
      "ci_requirements_id (cr_instruction q) = wq_id (wk_requirements w)"
    and db1: "update_requests jc (\<lambda>x. cq_id x = request) (\<lambda>x. x\<lparr>
           cq_state := (if accept then ''accepted'' else ''closed''),
           cq_outcome := (if accept then None else Some ''declined''), cq_note := Some note\<rparr>) db = Inr db1"
    and db2: "retire jc (ci_event_id (cr_instruction q))
         ''Recipient explicitly responded; delivery is separate from acceptance'' db1 = Inr db2"
    and rest: "db' = db2 \<or> (\<exists>payload e. notice jc (wk_owner_agent_id w)
           (json_str jc [''collaboration_declined'', request, instruction])
           ''collaboration_result'' payload db2 = Inr (e, db'))"
    using assms
    by (cases accept) (fastforce simp: respond_def and_then_Ok_iff works_active_Ok_iff split: if_splits prod.splits)+
  have "ledger db' = ledger db2 \<and> inbox_grows (wd_inbox db2) (wd_inbox db') \<and> work_schema jc db'"
    using rest retire_Ok(3) [OF db2] notice_Ok(1-3) by (metis inbox_grows_refl)
  with update_requests_Ok [OF db1] retire_Ok [OF db2] q show thesis
    by (intro that [OF q]) (auto intro: inbox_grows_trans)
qed

text \<open>
  The effects of the remaining commands: repairing and closing a request, and the commands of
  \<^verbatim>\<open>works/commands.rs\<close>. Each lemma lists the guards that held and the new ledger.
\<close>

section \<open>Requests\<close>

lemma repair_Ok:
  assumes "repair jc actor request expected i db = Inr db'"
  obtains q w event where "works_request jc db request = Inr q"
    "works_owner jc db (cr_work_id q) actor (ci_requirements_id i) = Inr w" "wk_state w = WorkOpen"
    "ci_id (cr_instruction q) = expected" "cr_outcome q \<noteq> Some ''cancelled''"
    "ledger db' = (ledger db)\<lparr>wd_instructions := wd_instructions db @ [instruction_row_of jc request i event],
       wd_requests := update_rows (\<lambda>x. cq_id x = request) (\<lambda>x. x\<lparr>cq_instruction_id := ci_id i,
           cq_state := ''pending'', cq_outcome := None, cq_note := None\<rparr>) (wd_requests db)\<rparr>"
    "inbox_grows (wd_inbox db) (wd_inbox db')" "work_schema jc db'"
proof -
  obtain q w db1 db2 where q: "works_request jc db request = Inr q"
      "works_owner jc db (cr_work_id q) actor (ci_requirements_id i) = Inr w" "wk_state w = WorkOpen"
      "ci_id (cr_instruction q) = expected" "cr_outcome q \<noteq> Some ''cancelled''"
    and db1: "retire jc (ci_event_id (cr_instruction q))
         ''Superseded by an explicit repair instruction; in-flight effects need reconciliation'' db = Inr db1"
    and db2: "insert_instruction jc q i w db1 = Inr db2"
    and db': "update_requests jc (\<lambda>x. cq_id x = request) (\<lambda>x. x\<lparr>cq_instruction_id := ci_id i,
           cq_state := ''pending'', cq_outcome := None, cq_note := None\<rparr>) db2 = Inr db'"
    using assms by (auto simp: repair_def and_then_Ok_iff works_active_Ok_iff split: if_splits)
  note r = retire_Ok [OF db1]
  have k: "cr_id q = request" using works_request_Ok [OF q(1)] by blast
  have same: "wd_instructions db1 = wd_instructions db" "wd_requests db1 = wd_requests db"
    using arg_cong [OF r(1), of wd_instructions] arg_cong [OF r(1), of wd_requests] by simp_all
  obtain event where i: "ledger db2 = (ledger db1)\<lparr>wd_instructions := wd_instructions db1 @
      [instruction_row_of jc (cr_id q) i event]\<rparr>" "inbox_grows (wd_inbox db1) (wd_inbox db2)"
    using insert_instruction_Ok [OF db2] by blast
  have "wd_requests db2 = wd_requests db" using arg_cong [OF i(1), of wd_requests] same by simp
  with i update_requests_Ok [OF db'] r same k show thesis
    by (intro that [OF q, of event]) (auto intro: inbox_grows_trans)
qed

lemma close_request_Ok:
  assumes "close_request jc actor request instruction outcome note db = Inr db'"
  obtains q w where "works_request jc db request = Inr q" "read_work jc db (cr_work_id q) = Inr w"
    "wk_owner_agent_id w = actor" "ci_id (cr_instruction q) = instruction" "cr_state q \<noteq> RequestClosed"
    "outcome \<in> set [''used'', ''not_used'', ''cancelled'', ''failed'']"
    "outcome = ''used'' \<Longrightarrow> cr_state q = RequestReturned \<and>
       ci_requirements_id (cr_instruction q) = wq_id (wk_requirements w)"
    "ledger db' = (ledger db)\<lparr>wd_requests := update_rows (\<lambda>x. cq_id x = request) (\<lambda>x. x\<lparr>
       cq_state := ''closed'', cq_outcome := Some outcome, cq_note := Some note\<rparr>) (wd_requests db)\<rparr>"
    "inbox_grows (wd_inbox db) (wd_inbox db')" "work_schema jc db'"
proof -
  obtain q w v db1 where q: "works_request jc db request = Inr q" "read_work jc db (cr_work_id q) = Inr w"
      "works_owner jc db (wk_id w) actor (wq_id (wk_requirements w)) = Inr v"
      "ci_id (cr_instruction q) = instruction" "cr_state q \<noteq> RequestClosed"
      "outcome \<in> set [''used'', ''not_used'', ''cancelled'', ''failed'']"
    and used: "outcome = ''used'' \<Longrightarrow> cr_state q = RequestReturned \<and>
       ci_requirements_id (cr_instruction q) = wq_id (wk_requirements w)"
    and db1: "update_requests jc (\<lambda>x. cq_id x = request) (\<lambda>x. x\<lparr>cq_state := ''closed'',
         cq_outcome := Some outcome, cq_note := Some note\<rparr>) db = Inr db1"
    and db': "retire jc (ci_event_id (cr_instruction q))
           ''Contribution assessed or cancelled by its Work owner'' db1 = Inr db'"
    using assms by (auto simp: close_request_def and_then_Ok_iff split: if_splits)
  have "wk_id w = cr_work_id q" using read_work_Ok [OF q(2)] by metis
  then have "wk_owner_agent_id w = actor" using q(2,3) by (simp add: works_owner_Ok_iff)
  with update_requests_Ok [OF db1] retire_Ok [OF db'] show thesis
    by (intro that [OF q(1,2) _ q(4-6) used]) auto
qed

section \<open>Native contributions and evidence\<close>

lemma prepare_subagent_Ok:
  assumes "prepare_subagent jc actor b db = Inr db'"
  obtains w r where "works_owner jc db (nc_work_id b) actor (nc_requirements_id b) = Inr w" "wk_state w = WorkOpen"
    "br_child_thread_id r = None" "db' = db\<lparr>wd_contributions := wd_contributions db @ [r]\<rparr>" "work_schema jc db'"
proof -
  let ?r = "\<lparr>br_id = nc_id b, br_work_id = nc_work_id b, br_requirements_id = nc_requirements_id b,
    br_instruction = nc_instruction b, br_child_thread_id = None, br_parent_turn_id = None, br_parent_item_id = None\<rparr>"
  obtain w where "works_owner jc db (nc_work_id b) actor (nc_requirements_id b) = Inr w" "wk_state w = WorkOpen"
    "db' = db\<lparr>wd_contributions := wd_contributions db @ [?r]\<rparr>" "work_schema jc db'"
    using assms by (auto simp: prepare_subagent_def and_then_Ok_iff works_active_Ok_iff execute_Ok_iff split: if_splits)
  then show thesis by (intro that [of w ?r]) simp_all
qed

lemma bind_subagent_Ok:
  assumes "bind_subagent jc actor contribution turn item child db = Inr db'"
  obtains b w where "find_row br_id (wd_contributions db) contribution = Some b"
    "works_owner jc db (br_work_id b) actor (br_requirements_id b) = Inr w"
    "db' = db\<lparr>wd_contributions := update_rows (\<lambda>r. br_id r = contribution \<and> br_child_thread_id r = None)
       (\<lambda>r. r\<lparr>br_child_thread_id := Some child, br_parent_turn_id := Some turn,
         br_parent_item_id := Some item\<rparr>) (wd_contributions db)\<rparr>" "work_schema jc db'"
  using assms by (auto simp: bind_subagent_def and_then_Ok_iff execute_Ok_iff Let_def split: if_splits)

lemma add_material_Ok:
  assumes "add_material jc actor m db = Inr db'"
  obtains w where "read_work jc db (ma_work_id m) = Inr w" "wk_owner_agent_id w = actor" "wk_state w = WorkOpen"
    "db' = db\<lparr>wd_materials := wd_materials db @
         [\<lparr>mr_id = ma_id m, mr_work_id = ma_work_id m, mr_record_json = jc_print jc (material_json m)\<rparr>]\<rparr>"
    "work_schema jc db'"
proof -
  obtain w v where w: "read_work jc db (ma_work_id m) = Inr w" "wk_state w = WorkOpen"
    "works_owner jc db (wk_id w) actor (wq_id (wk_requirements w)) = Inr v"
    and db': "db' = db\<lparr>wd_materials := wd_materials db @
         [\<lparr>mr_id = ma_id m, mr_work_id = ma_work_id m, mr_record_json = jc_print jc (material_json m)\<rparr>]\<rparr>"
    "work_schema jc db'"
    using assms by (auto simp: add_material_def and_then_Ok_iff works_active_Ok_iff works_encode_Ok_iff execute_Ok_iff)
  have "wk_id w = ma_work_id m" using read_work_Ok [OF w(1)] by metis
  then have "wk_owner_agent_id w = actor" using w(1,3) by (simp add: works_owner_Ok_iff)
  then show thesis by (rule that [OF w(1) _ w(2) db'])
qed

definition result_row_of :: "json_codec \<Rightarrow> work_result \<Rightarrow> result_row" where
  "result_row_of jc r = \<lparr>sr_id = re_id r, sr_work_id = re_work_id r,
     sr_requirements_id = re_requirements_id r, sr_instruction_id = re_instruction_id r,
     sr_agent_id = re_agent_id r, sr_record_json = jc_print jc (result_json r)\<rparr>"

lemma record_result_Ok:
  assumes "record_result jc actor r db = Inr db'"
  obtains w db1 where "read_work jc db (re_work_id r) = Inr w" "re_agent_id r = actor"
    "case re_instruction_id r of None \<Rightarrow> wk_owner_agent_id w = actor \<and> db1 = db
     | Some instruction \<Rightarrow> returned jc actor w r instruction db = Inr db1"
    "db' = db1\<lparr>wd_results := wd_results db1 @ [result_row_of jc r]\<rparr>" "work_schema jc db'"
proof -
  obtain w db1 where w: "read_work jc db (re_work_id r) = Inr w \<and> re_agent_id r = actor \<and>
      (case re_instruction_id r of None \<Rightarrow> wk_owner_agent_id w = actor \<and> db1 = db
       | Some instruction \<Rightarrow> returned jc actor w r instruction db = Inr db1) \<and>
      execute jc (db1\<lparr>wd_results := wd_results db1 @ [result_row_of jc r]\<rparr>) = Inr db'"
    using assms
    by (cases "re_instruction_id r")
      (auto simp: record_result_def and_then_Ok_iff works_encode_Ok_iff result_row_of_def split: if_splits)
  then show thesis using that [of w db1] by (simp add: execute_Ok_iff)
qed

lemma reuse_result_Ok:
  assumes "reuse_result jc actor work expected result assessment db = Inr db'"
  obtains w where "works_owner jc db work actor expected = Inr w" "wk_state w = WorkOpen"
    "\<exists>r \<in> set (wd_results db). sr_id r = result \<and> sr_work_id r = work"
    "db' = db\<lparr>wd_reuses := wd_reuses db @ [\<lparr>ur_work_id = work, ur_requirements_id = expected,
       ur_result_id = result, ur_assessment = assessment\<rparr>]\<rparr>" "work_schema jc db'"
  using assms by (auto simp: reuse_result_def and_then_Ok_iff works_active_Ok_iff execute_Ok_iff list_ex_iff split: if_splits)

section \<open>Works\<close>

definition work_row_of :: "work \<Rightarrow> work_row" where
  "work_row_of w = \<lparr>wr_id = wk_id w, wr_project_id = wk_project_id w, wr_owner_agent_id = wk_owner_agent_id w,
     wr_title = wk_title w, wr_requirements_id = wq_id (wk_requirements w), wr_state = ''open'',
     wr_reason = None, wr_resume_condition = None, wr_user_hold = False, wr_assessment_json = None\<rparr>"

definition requirements_row_of :: "string \<Rightarrow> work_requirements \<Rightarrow> requirements_row" where
  "requirements_row_of work r = \<lparr>qr_work_id = work, qr_id = wq_id r, qr_goal = wq_goal r,
     qr_criteria = wq_criteria r, qr_source = wq_source r\<rparr>"

lemma works_requirements_Ok:
  assumes "works_requirements jc work r db = Inr db'"
  shows "db' = db\<lparr>wd_requirements := wd_requirements db @ [requirements_row_of work r]\<rparr>" "work_schema jc db'"
  using assms by (auto simp: works_requirements_def and_then_Ok_iff execute_Ok_iff requirements_row_of_def)

lemma create_work_Ok:
  assumes "create_work jc actor w user db = Inr db'"
  shows "wk_owner_agent_id w = actor" "works_authority jc db actor (wq_source (wk_requirements w)) user = Inr ()"
    "db' = db\<lparr>wd_works := wd_works db @ [work_row_of w],
       wd_requirements := wd_requirements db @ [requirements_row_of (wk_id w) (wk_requirements w)]\<rparr>"
    "work_schema jc db'"
proof -
  have guards: "wk_owner_agent_id w = actor \<and> works_authority jc db actor (wq_source (wk_requirements w)) user = Inr () \<and>
    works_requirements jc (wk_id w) (wk_requirements w) (db\<lparr>wd_works := wd_works db @ [work_row_of w]\<rparr>) = Inr db'"
    using assms by (auto simp: create_work_def and_then_Ok_iff execute_Ok_iff work_row_of_def split: if_splits)
  then show "wk_owner_agent_id w = actor" "works_authority jc db actor (wq_source (wk_requirements w)) user = Inr ()"
    by simp_all
  from guards have "works_requirements jc (wk_id w) (wk_requirements w) (db\<lparr>wd_works := wd_works db @ [work_row_of w]\<rparr>) = Inr db'"
    by simp
  from works_requirements_Ok [OF this] show "db' = db\<lparr>wd_works := wd_works db @ [work_row_of w],
       wd_requirements := wd_requirements db @ [requirements_row_of (wk_id w) (wk_requirements w)]\<rparr>"
    "work_schema jc db'" by simp_all
qed

lemma update_works_Ok:
  assumes "update_works jc work f db = Inr db'"
  shows "db' = db\<lparr>wd_works := update_rows (\<lambda>r. wr_id r = work) f (wd_works db)\<rparr>" "work_schema jc db'"
  using assms by (auto simp: update_works_def execute_Ok_iff)

definition revised_row :: "string \<Rightarrow> work_row \<Rightarrow> work_row" where
  "revised_row revision x = x\<lparr>wr_requirements_id := revision,
     wr_state := (if wr_user_hold x then ''blocked'' else ''open''), wr_assessment_json := None\<rparr>"

lemma revise_work_Ok:
  assumes "revise_work jc actor work expected r user db = Inr db'"
  obtains w where "works_owner jc db work actor expected = Inr w" "wk_state w \<noteq> WorkCancelled"
    "works_authority jc db actor (wq_source r) user = Inr ()"
    "ledger db' = (ledger db)\<lparr>wd_requirements := wd_requirements db @ [requirements_row_of work r],
       wd_works := update_rows (\<lambda>x. wr_id x = work) (revised_row (wq_id r)) (wd_works db)\<rparr>"
    "inbox_grows (wd_inbox db) (wd_inbox db')" "work_schema jc db'"
proof -
  let ?d = "\<lambda>now. dispose ''Requirements changed before admission; owner must issue a current instruction'' now"
  obtain w db1 now db2 where w: "works_owner jc db work actor expected = Inr w" "wk_state w \<noteq> WorkCancelled"
      "works_authority jc db actor (wq_source r) user = Inr ()"
    and db1: "works_requirements jc work r db = Inr db1"
    and db2: "now_micros db1 = Inr (now, db2)"
    and db': "update_works jc work (revised_row (wq_id r)) (db2\<lparr>wd_inbox := update_rows (undelivered_instruction db2 work)
         (?d now) (wd_inbox db2)\<rparr>) = Inr db'"
    using assms by (auto simp: revise_work_def and_then_Ok_iff execute_Ok_iff revised_row_def [abs_def]
        split: if_splits prod.splits)
  note n = now_micros_Ok [OF db2]
  have "wd_works db2 = wd_works db1" using arg_cong [of _ _ wd_works, OF conjunct1 [OF n]] by simp
  moreover have "inbox_grows (wd_inbox db2) (update_rows (undelivered_instruction db2 work) (?d now) (wd_inbox db2))"
    by (rule inbox_grows_update) (simp add: undelivered_instruction_def dispose_kept)
  ultimately show thesis
    using update_works_Ok [OF db'] works_requirements_Ok [OF db1] n by (intro that [OF w]) simp_all
qed

lemma set_state_Ok:
  assumes "set_state jc actor work expected state reason resume hold user db = Inr db'"
  obtains w where "works_owner jc db work actor expected = Inr w"
    "state \<noteq> WorkCompleted" "wk_state w = WorkOpen \<or> wk_state w = WorkBlocked" "wk_user_hold w \<or> hold \<Longrightarrow> user"
    "ledger db' = (ledger db)\<lparr>wd_requests := (if state = WorkCancelled
         then update_rows (live_request work) cancelled_request (wd_requests db) else wd_requests db),
       wd_works := update_rows (\<lambda>x. wr_id x = work) (\<lambda>x. x\<lparr>wr_state := state_name state, wr_reason := reason,
         wr_resume_condition := resume, wr_user_hold := hold\<rparr>) (wd_works db)\<rparr>"
    "inbox_grows (wd_inbox db) (wd_inbox db')" "work_schema jc db'"
    "state = WorkBlocked \<Longrightarrow> (\<exists>s t. reason = Some s \<and> resume = Some t \<and> \<not> blank s \<and> \<not> blank t)"
    "state = WorkCancelled \<Longrightarrow> (\<exists>s. reason = Some s \<and> \<not> blank s)"
proof -
  obtain w db1 where w: "works_owner jc db work actor expected = Inr w"
    "state \<noteq> WorkCompleted" "wk_state w \<noteq> WorkCompleted" "wk_state w \<noteq> WorkCancelled" "wk_user_hold w \<or> hold \<Longrightarrow> user"
    and blocked: "(if state = WorkBlocked
         then and_then (works_text (case reason of None \<Rightarrow> [] | Some s \<Rightarrow> s) 4096)
                (\<lambda>_. works_text (case resume of None \<Rightarrow> [] | Some s \<Rightarrow> s) 4096)
         else Inr ()) = Inr ()"
    and db1: "(if state = WorkCancelled
         then and_then (works_text (case reason of None \<Rightarrow> [] | Some s \<Rightarrow> s) 4096) (\<lambda>_. cancel_work jc work db)
         else Inr db) = Inr db1"
    and db': "update_works jc work (\<lambda>x. x\<lparr>wr_state := state_name state, wr_reason := reason,
           wr_resume_condition := resume, wr_user_hold := hold\<rparr>) db1 = Inr db'"
    using assms by (auto simp: set_state_def Let_def and_then_Ok_iff split: if_splits)
  have l: "ledger db1 = (ledger db)\<lparr>wd_requests := (if state = WorkCancelled
         then update_rows (live_request work) cancelled_request (wd_requests db) else wd_requests db)\<rparr>"
    "inbox_grows (wd_inbox db) (wd_inbox db1)"
    using db1 cancel_work_Ok [of jc work db db1] by (auto simp: and_then_Ok_iff ledger_def split: if_splits)
  have "wd_works db1 = wd_works db" using arg_cong [OF l(1), of wd_works] by simp
  moreover have "wk_state w = WorkOpen \<or> wk_state w = WorkBlocked" using w(3,4) by (cases "wk_state w") auto
  moreover have "\<exists>s t. reason = Some s \<and> resume = Some t \<and> \<not> blank s \<and> \<not> blank t" if "state = WorkBlocked"
    using blocked that by (auto simp: and_then_Ok_iff works_text_Ok_iff split: option.splits)
  moreover have "\<exists>s. reason = Some s \<and> \<not> blank s" if "state = WorkCancelled"
    using db1 that by (auto simp: and_then_Ok_iff works_text_Ok_iff split: option.splits)
  ultimately show thesis using update_works_Ok [OF db'] l w by (intro that [OF w(1,2)]) simp_all
qed

lemma complete_work_Ok:
  assumes "complete_work jc actor work expected a db = Inr db'"
  obtains w where "works_owner jc db work actor expected = Inr w" "wk_state w = WorkOpen"
    "wa_requirements_id a = expected" "wa_result_ids a \<noteq> []" "length (wa_result_ids a) \<le> 100"
    "\<forall>k \<in> set (wa_result_ids a). result_counts db work expected k" "\<not> request_waiting db work"
    "db' = db\<lparr>wd_works := update_rows (\<lambda>r. wr_id r = work) (\<lambda>x. x\<lparr>wr_state := ''completed'', wr_reason := None,
       wr_resume_condition := None, wr_assessment_json := Some (jc_print jc (assessment_json a))\<rparr>) (wd_works db)\<rparr>"
    "work_schema jc db'"
proof -
  obtain w where w: "works_owner jc db work actor expected = Inr w" "wk_state w = WorkOpen"
    "wa_requirements_id a = expected" "wa_result_ids a \<noteq> []" "length (wa_result_ids a) \<le> 100"
    "list_all (result_counts db work expected) (wa_result_ids a)" "\<not> request_waiting db work"
    and u: "update_works jc work (\<lambda>x. x\<lparr>wr_state := ''completed'', wr_reason := None,
       wr_resume_condition := None, wr_assessment_json := Some (jc_print jc (assessment_json a))\<rparr>) db = Inr db'"
    using assms by (auto simp: complete_work_def and_then_Ok_iff works_active_Ok_iff works_encode_Ok_iff split: if_splits)
  show thesis using update_works_Ok [OF u] w by (intro that [OF w(1-5)]) (simp_all add: list_all_iff)
qed

end
