(* ===== verification/Work_Steps.thy ===== *)
theory Work_Steps
  imports Work_Effects
begin

text \<open>
  The life of a Work and of a request between Agents as step relations, and the refinement: an
  applied command takes one step of one Work, or none, and at most one step of each request.
\<close>

section \<open>Step relations\<close>

text \<open>
  A completed Work is judged: its assessment is one of its current requirements and rests on at
  least one Result, each counted for those requirements, and no required request is open.
\<close>

definition assessed :: "json_codec \<Rightarrow> work_db \<Rightarrow> work_row \<Rightarrow> bool" where
  "assessed jc db r \<longleftrightarrow>
     (\<exists>t a. wr_assessment_json r = Some t \<and> jc_parse_assessment jc t = Some a \<and>
        wa_requirements_id a = wr_requirements_id r \<and>
        wa_result_ids a \<noteq> [] \<and> length (wa_result_ids a) \<le> 100 \<and>
        (\<forall>k \<in> set (wa_result_ids a). result_counts db (wr_id r) (wr_requirements_id r) k)) \<and>
     \<not> request_waiting db (wr_id r)"

definition completed_row :: "string \<Rightarrow> work_row \<Rightarrow> work_row" where
  "completed_row t r = r\<lparr>wr_state := ''completed'', wr_reason := None, wr_resume_condition := None,
     wr_assessment_json := Some t\<rparr>"

text \<open>
  The steps of one Work that an Agent may cause, with or without the authority of the user. A
  Work is completed only when it is \<open>judged\<close>. A cancelled Work has no step, and a completed one
  leaves only by new requirements.
\<close>

inductive work_step ::
    "(work_row \<Rightarrow> bool) \<Rightarrow> string \<Rightarrow> bool \<Rightarrow> work_row option \<Rightarrow> work_row \<Rightarrow> bool" for judged actor user where
  created: "wr_owner_agent_id r = actor \<Longrightarrow> wr_state r = ''open'' \<Longrightarrow> wr_reason r = None \<Longrightarrow>
    wr_resume_condition r = None \<Longrightarrow> \<not> wr_user_hold r \<Longrightarrow> wr_assessment_json r = None \<Longrightarrow>
    work_step judged actor user None r"
| revised: "wr_owner_agent_id r = actor \<Longrightarrow> wr_state r \<noteq> ''cancelled'' \<Longrightarrow> revision \<noteq> wr_requirements_id r \<Longrightarrow>
    work_step judged actor user (Some r) (revised_row revision r)"
| state_set: "wr_owner_agent_id r = actor \<Longrightarrow> wr_state r \<in> {''open'', ''blocked''} \<Longrightarrow>
    s \<in> {''open'', ''blocked'', ''cancelled''} \<Longrightarrow> (wr_user_hold r \<or> hold \<longrightarrow> user) \<Longrightarrow>
    (s = ''blocked'' \<longrightarrow> reason \<noteq> None \<and> resume \<noteq> None) \<Longrightarrow> (s = ''cancelled'' \<longrightarrow> reason \<noteq> None) \<Longrightarrow>
    work_step judged actor user (Some r) (r\<lparr>wr_state := s, wr_reason := reason, wr_resume_condition := resume,
      wr_user_hold := hold\<rparr>)"
| completed: "wr_owner_agent_id r = actor \<Longrightarrow> wr_state r = ''open'' \<Longrightarrow>
    judged (completed_row t r) \<Longrightarrow> work_step judged actor user (Some r) (completed_row t r)"

text \<open>
  The steps of one request. \<open>works\<close> are the Works when the step is taken: a contribution is
  asked for and answered for an open Work, a Result also reaches a blocked one, and only the
  owner of the Work repairs, closes or cancels.
\<close>

inductive request_step ::
    "string \<Rightarrow> (string \<Rightarrow> work_row option) \<Rightarrow> request_row option \<Rightarrow> request_row \<Rightarrow> bool" for actor works where
  issued: "works (cq_work_id r) = Some w \<Longrightarrow> wr_owner_agent_id w = actor \<Longrightarrow> wr_state w = ''open'' \<Longrightarrow>
    cq_recipient_agent_id r \<noteq> actor \<Longrightarrow>
    cq_state r = ''pending'' \<Longrightarrow> cq_outcome r = None \<Longrightarrow> cq_note r = None \<Longrightarrow>
    request_step actor works None r"
| accepted: "works (cq_work_id r) = Some w \<Longrightarrow> wr_state w = ''open'' \<Longrightarrow>
    cq_recipient_agent_id r = actor \<Longrightarrow> cq_state r = ''pending'' \<Longrightarrow>
    request_step actor works (Some r) (r\<lparr>cq_state := ''accepted'', cq_outcome := None, cq_note := Some note\<rparr>)"
| declined: "works (cq_work_id r) = Some w \<Longrightarrow> wr_state w = ''open'' \<Longrightarrow>
    cq_recipient_agent_id r = actor \<Longrightarrow> cq_state r = ''pending'' \<Longrightarrow>
    request_step actor works (Some r) (r\<lparr>cq_state := ''closed'', cq_outcome := Some ''declined'', cq_note := Some note\<rparr>)"
| returned: "works (cq_work_id r) = Some w \<Longrightarrow> wr_state w \<in> {''open'', ''blocked''} \<Longrightarrow>
    cq_recipient_agent_id r = actor \<Longrightarrow> cq_state r \<noteq> ''closed'' \<Longrightarrow>
    request_step actor works (Some r) (r\<lparr>cq_state := ''returned''\<rparr>)"
| repaired: "works (cq_work_id r) = Some w \<Longrightarrow> wr_owner_agent_id w = actor \<Longrightarrow> wr_state w = ''open'' \<Longrightarrow>
    cq_outcome r \<noteq> Some ''cancelled'' \<Longrightarrow>
    request_step actor works (Some r) (r\<lparr>cq_instruction_id := i, cq_state := ''pending'', cq_outcome := None,
      cq_note := None\<rparr>)"
| closed: "works (cq_work_id r) = Some w \<Longrightarrow> wr_owner_agent_id w = actor \<Longrightarrow> cq_state r \<noteq> ''closed'' \<Longrightarrow>
    outcome \<in> {''used'', ''not_used'', ''cancelled'', ''failed''} \<Longrightarrow>
    (outcome = ''used'' \<longrightarrow> cq_state r = ''returned'') \<Longrightarrow>
    request_step actor works (Some r) (r\<lparr>cq_state := ''closed'', cq_outcome := Some outcome, cq_note := Some note\<rparr>)"
| cancelled: "works (cq_work_id r) = Some w \<Longrightarrow> wr_owner_agent_id w = actor \<Longrightarrow>
    wr_state w \<in> {''open'', ''blocked''} \<Longrightarrow> cq_state r \<noteq> ''closed'' \<Longrightarrow>
    request_step actor works (Some r) (cancelled_request r)"

inductive_cases work_step_Some: "work_step judged actor user (Some r) r'"
inductive_cases request_step_Some: "request_step actor works (Some r) r'"

definition works_move :: "json_codec \<Rightarrow> string \<Rightarrow> bool \<Rightarrow> work_db \<Rightarrow> work_db \<Rightarrow> bool" where
  "works_move jc actor user db db' \<longleftrightarrow> find_work db' = find_work db \<or>
     (\<exists>k r'. find_work db' = (find_work db)(k \<mapsto> r') \<and> work_step (assessed jc db') actor user (find_work db k) r')"

definition requests_move :: "string \<Rightarrow> work_db \<Rightarrow> work_db \<Rightarrow> bool" where
  "requests_move actor db db' \<longleftrightarrow> (\<forall>k. find_request db' k = find_request db k \<or>
     (\<exists>r'. find_request db' k = Some r' \<and> request_step actor (find_work db) (find_request db k) r'))"

section \<open>Tables as maps\<close>

lemma state_name_open: "state_name WorkOpen = ''open''"
  by (simp add: state_name_def)

lemma find_row_updated_map:
  assumes "find_row key t k = Some r" "\<And>q. key (f q) = key q"
  shows "find_row key (update_rows (\<lambda>q. key q = k) f t) = (find_row key t)(k \<mapsto> f r)"
  by (rule ext) (simp add: find_updated_row [OF assms])

lemma find_row_appended_map:
  assumes "distinct (map key (t @ [r]))"
  shows "find_row key (t @ [r]) = (find_row key t)(key r \<mapsto> r)" "find_row key t (key r) = None"
proof -
  show none: "find_row key t (key r) = None" using assms by (simp add: find_row_None) (metis image_eqI)
  show "find_row key (t @ [r]) = (find_row key t)(key r \<mapsto> r)"
    by (rule ext) (auto simp: find_row_append none split: option.splits)
qed

lemma find_work_same: "wd_works db' = wd_works db \<Longrightarrow> find_work db' = find_work db"
  by (rule ext) (simp add: find_work_def)

lemma find_request_same: "wd_requests db' = wd_requests db \<Longrightarrow> find_request db' = find_request db"
  by (rule ext) (simp add: find_request_def)

lemma find_work_updated:
  assumes "wd_works db' = update_rows (\<lambda>x. wr_id x = k) f (wd_works db)" "find_work db k = Some r"
    "\<And>x. wr_id (f x) = wr_id x"
  shows "find_work db' = (find_work db)(k \<mapsto> f r)"
  using find_row_updated_map [of wr_id "wd_works db" k r f] assms by (simp add: find_work_def [abs_def])

lemma find_request_updated:
  assumes "wd_requests db' = update_rows (\<lambda>x. cq_id x = k) f (wd_requests db)" "find_request db k = Some r"
    "\<And>x. cq_id (f x) = cq_id x"
  shows "find_request db' = (find_request db)(k \<mapsto> f r)"
  using find_row_updated_map [of cq_id "wd_requests db" k r f] assms by (simp add: find_request_def [abs_def])

lemma schema_distinct:
  assumes "work_schema jc db"
  shows "distinct (map wr_id (wd_works db))" "distinct (map cq_id (wd_requests db))"
    "distinct (map (\<lambda>r. (qr_work_id r, qr_id r)) (wd_requirements db))" "distinct (map ir_id (wd_instructions db))"
    "distinct (map cm_id (wd_commands db))" "distinct (map sr_id (wd_results db))"
  using assms by (simp_all add: work_schema_def work_keys_unique_def)

lemma schema_request_states:
  assumes "work_schema jc db" "r \<in> set (wd_requests db)"
  shows "request_row_checks r"
  using assms by (simp add: work_schema_def work_rows_checked_def list_all_iff)

lemma shown_request_state:
  assumes "request_row_checks r" "shows_request r q"
  shows "cq_state r = collaboration_state_name (cr_state q)"
  using assms by (auto simp: request_row_checks_def shows_request_def parse_request_state_def collaboration_state_name_def)

text \<open>What the readers say of the tables.\<close>

lemma owner_step:
  assumes "works_owner jc db k actor revision = Inr w"
  obtains r where "find_work db k = Some r" "wr_id r = k" "wr_owner_agent_id r = actor"
    "wr_requirements_id r = revision" "wr_state r = state_name (wk_state w)" "wr_user_hold r = wk_user_hold w"
proof -
  obtain r where r: "find_work db k = Some r" "shows_work r w" "wk_id w = k" "wr_owner_agent_id r = actor"
    "wr_requirements_id r = revision" using works_owner_row [OF assms] .
  then show thesis by (intro that [OF r(1)]) (auto simp: shows_work_def)
qed

lemma request_row_step:
  assumes "works_request jc db k = Inr q" "work_schema jc db"
  obtains r where "find_request db k = Some r" "cq_id r = k" "cq_work_id r = cr_work_id q"
    "cq_recipient_agent_id r = cr_recipient_agent_id q" "cq_instruction_id r = ci_id (cr_instruction q)"
    "cq_state r = collaboration_state_name (cr_state q)" "cq_outcome r = cr_outcome q"
    "cq_required r = cr_required q"
proof -
  obtain r where r: "find_request db k = Some r" "shows_request r q" using works_request_Ok [OF assms(1)] by metis
  then show thesis
    using shown_request_state [OF schema_request_states [OF assms(2)] r(2)] find_request_id [OF r(1)]
    by (intro that [OF r(1)]) (auto simp: shows_request_def)
qed

lemma requests_move_one:
  assumes "find_request db' = (find_request db)(k \<mapsto> r')" "request_step actor (find_work db) (find_request db k) r'"
  shows "requests_move actor db db'"
  using assms by (simp add: requests_move_def)

lemma requests_move_same: "wd_requests db' = wd_requests db \<Longrightarrow> requests_move actor db db'"
  using find_request_same by (metis requests_move_def)

lemma works_move_same: "wd_works db' = wd_works db \<Longrightarrow> works_move jc actor user db db'"
  using find_work_same by (metis works_move_def)

section \<open>Every command moves along the steps\<close>

lemma create_request_moves:
  assumes "create_request jc actor q db = Inr db'"
  shows "works_move jc actor user db db' \<and> requests_move actor db db'"
proof -
  obtain w event where w: "works_owner jc db (cr_work_id q) actor (ci_requirements_id (cr_instruction q)) = Inr w"
      "wk_state w = WorkOpen"
    and recipient: "cr_recipient_agent_id q \<noteq> actor"
    and l: "ledger db' = (ledger db)\<lparr>wd_requests := wd_requests db @ [request_row_of q],
       wd_instructions := wd_instructions db @ [instruction_row_of jc (cr_id q) (cr_instruction q) event]\<rparr>"
    and schema: "work_schema jc db'" using create_request_Ok [OF assms] by blast
  have t: "wd_works db' = wd_works db" "wd_requests db' = wd_requests db @ [request_row_of q]"
    using arg_cong [OF l, of wd_works] arg_cong [OF l, of wd_requests] by simp_all
  have d: "distinct (map cq_id (wd_requests db @ [request_row_of q]))" using schema_distinct(2) [OF schema] t(2) by simp
  have m: "find_request db' = (find_request db)(cr_id q \<mapsto> request_row_of q)" "find_request db (cr_id q) = None"
    using find_row_appended_map [OF d] by (simp_all add: find_request_def [abs_def] t(2) request_row_of_def)
  obtain x where x: "find_work db (cr_work_id q) = Some x" "wr_owner_agent_id x = actor" "wr_state x = ''open''"
    using owner_step [OF w(1)] w(2) by (metis state_name_open)
  have "request_step actor (find_work db) None (request_row_of q)"
    using recipient x by (intro issued [of _ _ x]) (simp_all add: request_row_of_def)
  then show ?thesis using requests_move_one [OF m(1)] m(2) works_move_same [OF t(1)] by simp
qed

lemma request_updated_moves:
  assumes "works_request jc db k = Inr q" "work_schema jc db"
    and "wd_works db' = wd_works db" "wd_requests db' = update_rows (\<lambda>x. cq_id x = k) f (wd_requests db)"
    and "\<And>x. cq_id (f x) = cq_id x"
    and "\<And>r. find_request db k = Some r \<Longrightarrow> cq_work_id r = cr_work_id q \<Longrightarrow>
      cq_recipient_agent_id r = cr_recipient_agent_id q \<Longrightarrow> cq_state r = collaboration_state_name (cr_state q) \<Longrightarrow>
      cq_outcome r = cr_outcome q \<Longrightarrow> request_step actor (find_work db) (Some r) (f r)"
  shows "works_move jc actor user db db' \<and> requests_move actor db db'"
proof -
  obtain r where r: "find_request db k = Some r" "cq_work_id r = cr_work_id q"
    "cq_recipient_agent_id r = cr_recipient_agent_id q" "cq_state r = collaboration_state_name (cr_state q)"
    "cq_outcome r = cr_outcome q" using request_row_step [OF assms(1,2)] by metis
  have "find_request db' = (find_request db)(k \<mapsto> f r)" by (rule find_request_updated [OF assms(4) r(1) assms(5)])
  moreover have "request_step actor (find_work db) (find_request db k) (f r)" using assms(6) [OF r] r(1) by simp
  ultimately show ?thesis using requests_move_one works_move_same [OF assms(3)] by blast
qed

text \<open>A Work that was read is a row, in the state that was read.\<close>

lemma read_work_step:
  assumes "read_work jc db k = Inr w"
  obtains x where "find_work db k = Some x" "wr_owner_agent_id x = wk_owner_agent_id w"
    "wr_state x = state_name (wk_state w)"
  using read_work_Ok [OF assms] by (metis shows_work_def)

lemma returned_moves:
  assumes "returned jc actor w r instruction db = Inr db'" "work_schema jc db" "read_work jc db (wk_id w) = Inr w"
  shows "works_move jc actor user db db' \<and> requests_move actor db db'"
  using assms(1)
proof (cases rule: returned_Ok)
  case late
  then show ?thesis by (simp add: works_move_same requests_move_same)
next
  case (current k q)
  note l = current(6)
  have q: "works_request jc db k = Inr q" "cr_recipient_agent_id q = actor"
    using current(1) by (simp_all add: works_recipient_Ok_iff)
  obtain x where x: "find_work db (wk_id w) = Some x" "wr_state x = state_name (wk_state w)"
    using read_work_step [OF assms(3)] .
  have live: "wr_state x \<in> {''open'', ''blocked''}" using current(4) x(2) by (auto simp: state_name_def)
  show ?thesis
  proof (rule request_updated_moves [OF q(1) assms(2)])
    show "wd_works db' = wd_works db" using arg_cong [OF l, of wd_works] by simp
    show "wd_requests db' = update_rows (\<lambda>x. cq_id x = k) (\<lambda>x. x\<lparr>cq_state := ''returned''\<rparr>) (wd_requests db)"
      using arg_cong [OF l, of wd_requests] by simp
    fix row :: request_row
    assume row: "cq_work_id row = cr_work_id q" "cq_recipient_agent_id row = cr_recipient_agent_id q"
      "cq_state row = collaboration_state_name (cr_state q)"
    have "find_work db (cq_work_id row) = Some x" using x(1) row(1) current(2) by simp
    then show "request_step actor (find_work db) (Some row) (row\<lparr>cq_state := ''returned''\<rparr>)"
    proof (rule request_step.returned)
      show "cq_state row \<noteq> ''closed''"
        using row(3) current(3) by (cases "cr_state q") (simp_all add: collaboration_state_name_def)
    qed (use live row(2) q(2) in simp_all)
  qed simp
qed

lemma respond_moves:
  assumes "respond jc actor request instruction accept note db = Inr db'" "work_schema jc db"
  shows "works_move jc actor user db db' \<and> requests_move actor db db'"
proof -
  let ?f = "\<lambda>x. x\<lparr>cq_state := (if accept then ''accepted'' else ''closed''),
       cq_outcome := (if accept then None else Some ''declined''), cq_note := Some note\<rparr> :: request_row"
  obtain q w where q: "works_recipient jc db actor request instruction = Inr q" "cr_state q = RequestPending"
      "read_work jc db (cr_work_id q) = Inr w" "wk_state w = WorkOpen"
    and l: "ledger db' = (ledger db)\<lparr>wd_requests := update_rows (\<lambda>x. cq_id x = request) ?f (wd_requests db)\<rparr>"
    using respond_Ok [OF assms(1)] by metis
  have r: "works_request jc db request = Inr q" "cr_recipient_agent_id q = actor"
    using q(1) by (simp_all add: works_recipient_Ok_iff)
  obtain x where x: "find_work db (cr_work_id q) = Some x" "wr_state x = state_name (wk_state w)"
    using read_work_step [OF q(3)] .
  show ?thesis
  proof (rule request_updated_moves [OF r(1) assms(2)])
    show "wd_works db' = wd_works db" using arg_cong [OF l, of wd_works] by simp
    show "wd_requests db' = update_rows (\<lambda>x. cq_id x = request) ?f (wd_requests db)"
      using arg_cong [OF l, of wd_requests] by simp
    fix row :: request_row
    assume row: "cq_work_id row = cr_work_id q" "cq_recipient_agent_id row = cr_recipient_agent_id q"
      "cq_state row = collaboration_state_name (cr_state q)"
    have "find_work db (cq_work_id row) = Some x" "wr_state x = ''open''" "cq_recipient_agent_id row = actor"
      "cq_state row = ''pending''"
      using row x r(2) q(2,4) by (simp_all add: collaboration_state_name_def state_name_def)
    note step = request_step.accepted [where actor = actor and works = "find_work db", OF this]
      request_step.declined [where actor = actor and works = "find_work db", OF this]
    show "request_step actor (find_work db) (Some row) (?f row)"
      using step by (cases accept) simp_all
  qed simp
qed

lemma repair_moves:
  assumes "repair jc actor request expected i db = Inr db'" "work_schema jc db"
  shows "works_move jc actor user db db' \<and> requests_move actor db db'"
proof -
  let ?f = "\<lambda>x. x\<lparr>cq_instruction_id := ci_id i, cq_state := ''pending'', cq_outcome := None, cq_note := None\<rparr> :: request_row"
  obtain q w event where q: "works_request jc db request = Inr q"
      "works_owner jc db (cr_work_id q) actor (ci_requirements_id i) = Inr w" "cr_outcome q \<noteq> Some ''cancelled''"
      "wk_state w = WorkOpen"
    and l: "ledger db' = (ledger db)\<lparr>wd_instructions := wd_instructions db @ [instruction_row_of jc request i event],
       wd_requests := update_rows (\<lambda>x. cq_id x = request) ?f (wd_requests db)\<rparr>"
    using repair_Ok [OF assms(1)] by metis
  obtain x where x: "find_work db (cr_work_id q) = Some x" "wr_owner_agent_id x = actor"
    "wr_state x = state_name (wk_state w)" using owner_step [OF q(2)] by metis
  show ?thesis
  proof (rule request_updated_moves [OF q(1) assms(2)])
    show "wd_works db' = wd_works db" using arg_cong [OF l, of wd_works] by simp
    show "wd_requests db' = update_rows (\<lambda>x. cq_id x = request) ?f (wd_requests db)"
      using arg_cong [OF l, of wd_requests] by simp
    show "request_step actor (find_work db) (Some row) (?f row)"
      if "cq_work_id row = cr_work_id q" "cq_outcome row = cr_outcome q" for row
      using that x q(3,4) by (intro request_step.repaired [of _ _ x]) (simp_all add: state_name_def)
  qed simp
qed

lemma close_request_moves:
  assumes "close_request jc actor request instruction outcome note db = Inr db'" "work_schema jc db"
  shows "works_move jc actor user db db' \<and> requests_move actor db db'"
proof -
  let ?f = "\<lambda>x. x\<lparr>cq_state := ''closed'', cq_outcome := Some outcome, cq_note := Some note\<rparr> :: request_row"
  obtain q w where q: "works_request jc db request = Inr q" "read_work jc db (cr_work_id q) = Inr w"
      "wk_owner_agent_id w = actor" "cr_state q \<noteq> RequestClosed"
      "outcome \<in> set [''used'', ''not_used'', ''cancelled'', ''failed'']"
    and used: "outcome = ''used'' \<longrightarrow> cr_state q = RequestReturned"
    and l: "ledger db' = (ledger db)\<lparr>wd_requests := update_rows (\<lambda>x. cq_id x = request) ?f (wd_requests db)\<rparr>"
    using close_request_Ok [OF assms(1)] by metis
  obtain x where x: "find_work db (cr_work_id q) = Some x" "wr_owner_agent_id x = actor"
    using read_work_step [OF q(2)] q(3) by metis
  show ?thesis
  proof (rule request_updated_moves [OF q(1) assms(2)])
    show "wd_works db' = wd_works db" using arg_cong [OF l, of wd_works] by simp
    show "wd_requests db' = update_rows (\<lambda>x. cq_id x = request) ?f (wd_requests db)"
      using arg_cong [OF l, of wd_requests] by simp
    fix row :: request_row
    assume row: "cq_work_id row = cr_work_id q" "cq_state row = collaboration_state_name (cr_state q)"
    have "find_work db (cq_work_id row) = Some x" using x(1) row(1) by simp
    then show "request_step actor (find_work db) (Some row) (?f row)"
    proof (rule request_step.closed)
      show "cq_state row \<noteq> ''closed''"
        using row(2) q(4) by (cases "cr_state q") (simp_all add: collaboration_state_name_def)
      show "outcome = ''used'' \<longrightarrow> cq_state row = ''returned''"
        using row(2) used by (auto simp: collaboration_state_name_def)
    qed (use x(2) q(5) in simp_all)
  qed simp
qed

end
