(* ===== verification/Work_Refine.thy ===== *)
theory Work_Refine
  imports Work_Steps
begin

text \<open>
  The commands on Works refine the step relations, and a successful transaction is one move of
  the whole store.
\<close>

section \<open>Commands on Works\<close>

lemma moves_same:
  "wd_works db' = wd_works db \<Longrightarrow> wd_requests db' = wd_requests db \<Longrightarrow>
    works_move jc actor user db db' \<and> requests_move actor db db'"
  by (simp add: works_move_same requests_move_same)

lemma work_updated_moves:
  assumes "find_work db k = Some r" "wd_works db' = update_rows (\<lambda>x. wr_id x = k) f (wd_works db)"
    and "\<And>x. wr_id (f x) = wr_id x" "work_step (assessed jc db') actor user (Some r) (f r)"
  shows "works_move jc actor user db db'"
  unfolding works_move_def using find_work_updated [OF assms(2,1,3)] assms(1,4) by metis

lemma create_work_moves:
  assumes "create_work jc actor w user db = Inr db'"
  shows "works_move jc actor user db db' \<and> requests_move actor db db'"
proof -
  note e = create_work_Ok [OF assms]
  have t: "wd_works db' = wd_works db @ [work_row_of w]" "wd_requests db' = wd_requests db"
    by (simp_all add: e(3))
  have d: "distinct (map wr_id (wd_works db @ [work_row_of w]))" using schema_distinct(1) [OF e(4)] t(1) by simp
  have m: "find_work db' = (find_work db)(wk_id w \<mapsto> work_row_of w)" "find_work db (wk_id w) = None"
    using find_row_appended_map [OF d] by (simp_all add: find_work_def [abs_def] t(1) work_row_of_def)
  have "work_step (assessed jc db') actor user None (work_row_of w)" using e(1) by (intro created) (simp_all add: work_row_of_def)
  then show ?thesis using m requests_move_same [OF t(2)] unfolding works_move_def by metis
qed

lemma requirements_fresh:
  assumes "deferred_references db" "find_work db k = Some r"
    and "distinct (map (\<lambda>r. (qr_work_id r, qr_id r)) (wd_requirements db @ [requirements_row_of k q]))"
  shows "wq_id q \<noteq> wr_requirements_id r"
proof -
  have "(k, wr_requirements_id r) \<in> requirements_keys db"
    using assms(1) find_work_id [OF assms(2)] by (auto simp: deferred_references_def list_all_iff)
  moreover have "(k, wq_id q) \<notin> requirements_keys db"
    using assms(3) by (simp add: requirements_keys_def requirements_row_of_def)
  ultimately show ?thesis by auto
qed

lemma revise_work_moves:
  assumes "revise_work jc actor work expected r user db = Inr db'" "deferred_references db"
  shows "works_move jc actor user db db' \<and> requests_move actor db db'"
proof -
  obtain w where w: "works_owner jc db work actor expected = Inr w" "wk_state w \<noteq> WorkCancelled"
    and l: "ledger db' = (ledger db)\<lparr>wd_requirements := wd_requirements db @ [requirements_row_of work r],
       wd_works := update_rows (\<lambda>x. wr_id x = work) (revised_row (wq_id r)) (wd_works db)\<rparr>"
    and schema: "work_schema jc db'" using revise_work_Ok [OF assms(1)] by metis
  have t: "wd_works db' = update_rows (\<lambda>x. wr_id x = work) (revised_row (wq_id r)) (wd_works db)"
    "wd_requests db' = wd_requests db" "wd_requirements db' = wd_requirements db @ [requirements_row_of work r]"
    using arg_cong [OF l, of wd_works] arg_cong [OF l, of wd_requests] arg_cong [OF l, of wd_requirements] by simp_all
  obtain x where x: "find_work db work = Some x" "wr_owner_agent_id x = actor" "wr_state x = state_name (wk_state w)"
    using owner_step [OF w(1)] by metis
  have "wq_id r \<noteq> wr_requirements_id x"
    using requirements_fresh [OF assms(2) x(1)] schema_distinct(3) [OF schema] t(3) by simp
  moreover have "wr_state x \<noteq> ''cancelled''" using w(2) x(3) by (cases "wk_state w") (simp_all add: state_name_def)
  ultimately have "work_step (assessed jc db') actor user (Some x) (revised_row (wq_id r) x)" using x(2) by (intro revised)
  then show ?thesis
    using work_updated_moves [OF x(1) t(1)] requests_move_same [OF t(2)] by (simp add: revised_row_def)
qed

lemma cancel_requests_move:
  assumes "wd_requests db' = update_rows (live_request k) cancelled_request (wd_requests db)"
    and "find_work db k = Some w" "wr_owner_agent_id w = actor" "wr_state w \<in> {''open'', ''blocked''}"
  shows "requests_move actor db db'"
  unfolding requests_move_def
proof
  fix j
  have "find_request db' j = map_option (\<lambda>r. if live_request k r then cancelled_request r else r) (find_request db j)"
    unfolding find_request_def assms(1) by (rule find_row_update) (simp add: cancelled_request_def)
  moreover have "request_step actor (find_work db) (Some r) (cancelled_request r)" if "live_request k r" for r
    using that assms(2-4) by (intro request_step.cancelled [of _ _ w]) (auto simp: live_request_def)
  ultimately show "find_request db' j = find_request db j \<or>
      (\<exists>r'. find_request db' j = Some r' \<and> request_step actor (find_work db) (find_request db j) r')"
    by (cases "find_request db j") auto
qed

lemma set_state_moves:
  assumes "set_state jc actor work expected state reason resume hold user db = Inr db'"
  shows "works_move jc actor user db db' \<and> requests_move actor db db'"
proof -
  let ?f = "\<lambda>x. x\<lparr>wr_state := state_name state, wr_reason := reason,
         wr_resume_condition := resume, wr_user_hold := hold\<rparr> :: work_row"
  obtain w where w: "works_owner jc db work actor expected = Inr w" "state \<noteq> WorkCompleted"
      "wk_state w = WorkOpen \<or> wk_state w = WorkBlocked" "wk_user_hold w \<or> hold \<longrightarrow> user"
      "state = WorkBlocked \<longrightarrow> reason \<noteq> None \<and> resume \<noteq> None" "state = WorkCancelled \<longrightarrow> reason \<noteq> None"
    and l: "ledger db' = (ledger db)\<lparr>wd_requests := (if state = WorkCancelled
         then update_rows (live_request work) cancelled_request (wd_requests db) else wd_requests db),
       wd_works := update_rows (\<lambda>x. wr_id x = work) ?f (wd_works db)\<rparr>"
    using set_state_Ok [OF assms] by (metis option.distinct(1))
  have t: "wd_works db' = update_rows (\<lambda>x. wr_id x = work) ?f (wd_works db)"
    "wd_requests db' = (if state = WorkCancelled
         then update_rows (live_request work) cancelled_request (wd_requests db) else wd_requests db)"
    using arg_cong [OF l, of wd_works] arg_cong [OF l, of wd_requests] by simp_all
  obtain x where x: "find_work db work = Some x" "wr_owner_agent_id x = actor" "wr_state x = state_name (wk_state w)"
      "wr_user_hold x = wk_user_hold w"
    using owner_step [OF w(1)] by metis
  have live: "wr_state x \<in> {''open'', ''blocked''}" using w(3) x(3) by (auto simp: state_name_def)
  have "work_step (assessed jc db') actor user (Some x) (?f x)"
    using w(2-6) x(2-4) by (intro state_set) (cases state; auto simp: state_name_def)+
  then have "works_move jc actor user db db'" by (intro work_updated_moves [OF x(1) t(1)]) simp_all
  moreover have "requests_move actor db db'"
    using t(2) cancel_requests_move [OF _ x(1,2)] live requests_move_same by (cases "state = WorkCancelled") simp_all
  ultimately show ?thesis ..
qed

lemma complete_work_moves:
  assumes "complete_work jc actor work expected a db = Inr db'" "codec_faithful jc"
  shows "works_move jc actor user db db' \<and> requests_move actor db db'"
proof -
  let ?f = "completed_row (jc_print jc (assessment_json a))"
  obtain w where w: "works_owner jc db work actor expected = Inr w" "wk_state w = WorkOpen"
    and a: "wa_requirements_id a = expected" "wa_result_ids a \<noteq> []" "length (wa_result_ids a) \<le> 100"
      "\<forall>k \<in> set (wa_result_ids a). result_counts db work expected k" "\<not> request_waiting db work"
    and row: "db' = db\<lparr>wd_works := update_rows (\<lambda>r. wr_id r = work) (\<lambda>x. x\<lparr>wr_state := ''completed'', wr_reason := None,
       wr_resume_condition := None, wr_assessment_json := Some (jc_print jc (assessment_json a))\<rparr>) (wd_works db)\<rparr>"
    by (rule complete_work_Ok [OF assms(1)])
  have db': "db' = db\<lparr>wd_works := update_rows (\<lambda>r. wr_id r = work) ?f (wd_works db)\<rparr>"
    unfolding row completed_row_def [abs_def] ..
  obtain x where x: "find_work db work = Some x" "wr_owner_agent_id x = actor" "wr_state x = state_name (wk_state w)"
      "wr_id x = work" "wr_requirements_id x = expected"
    using owner_step [OF w(1)] by metis
  have "result_counts db' = result_counts db" "request_waiting db' = request_waiting db"
    by (simp_all add: db' result_counts_def [abs_def] request_waiting_def [abs_def])
  then have "assessed jc db' (?f x)"
    using a x(4,5) assms(2) by (simp add: assessed_def completed_row_def codec_faithful_def)
  then have "work_step (assessed jc db') actor user (Some x) (?f x)"
    using w(2) x(2,3) by (intro completed) (simp_all add: state_name_def)
  moreover have "wd_works db' = update_rows (\<lambda>r. wr_id r = work) ?f (wd_works db)" by (simp add: db')
  moreover have "wr_id (?f y) = wr_id y" for y by (simp add: completed_row_def)
  ultimately have "works_move jc actor user db db'" using work_updated_moves [OF x(1)] by blast
  then show ?thesis by (simp add: requests_move_same db')
qed

lemma returned_works: "returned jc actor w r instruction db = Inr db' \<Longrightarrow> wd_works db' = wd_works db"
  by (erule returned_Ok, simp, drule arg_cong [of _ _ wd_works], simp)

lemma record_result_moves:
  assumes "record_result jc actor r db = Inr db'" "work_schema jc db"
  shows "works_move jc actor user db db' \<and> requests_move actor db db'"
  using assms(1)
proof (rule record_result_Ok)
  fix w db1
  assume read: "read_work jc db (re_work_id r) = Inr w"
    and w: "case re_instruction_id r of None \<Rightarrow> wk_owner_agent_id w = actor \<and> db1 = db
     | Some instruction \<Rightarrow> returned jc actor w r instruction db = Inr db1"
    and db': "db' = db1\<lparr>wd_results := wd_results db1 @ [result_row_of jc r]\<rparr>"
  have "wd_works db1 = wd_works db \<and> requests_move actor db db1"
  proof (cases "re_instruction_id r")
    case None
    then show ?thesis using w by (simp add: requests_move_same)
  next
    case (Some instruction)
    have "wk_id w = re_work_id r" using read_work_Ok [OF read] by metis
    then show ?thesis using Some w returned_works returned_moves [OF _ assms(2), of actor w r instruction] read by simp
  qed
  then show ?thesis
    using find_request_same [of db' db1] by (simp add: works_move_same requests_move_def db')
qed

section \<open>The transaction\<close>

lemma apply_command_moves:
  assumes "apply_command jc actor command user db = Inr db'" "work_schema jc db" "deferred_references db"
    "codec_faithful jc"
  shows "works_move jc actor user db db' \<and> requests_move actor db db'"
proof (cases command)
  case (PrepareSubagent b)
  with assms(1) show ?thesis by simp (erule prepare_subagent_Ok, simp add: moves_same)
next
  case (BindSubagent contribution turn item child)
  with assms(1) show ?thesis by simp (erule bind_subagent_Ok, simp add: moves_same)
next
  case (AddMaterial m)
  with assms(1) show ?thesis by simp (erule add_material_Ok, simp add: moves_same)
next
  case (ReuseResult work expected result assessment)
  with assms(1) show ?thesis by simp (erule reuse_result_Ok, simp add: moves_same)
qed (use assms create_work_moves revise_work_moves set_state_moves record_result_moves complete_work_moves
    create_request_moves respond_moves repair_moves close_request_moves in simp_all)

lemma apply_command_schema:
  assumes "apply_command jc actor command user db = Inr db'"
  shows "work_schema jc db'"
proof (cases command)
  case (CloseRequest request instruction outcome remark)
  with assms show ?thesis by simp (erule close_request_Ok)
next
  case (RecordResult r)
  with assms show ?thesis by simp (erule record_result_Ok)
next
  case (Respond request instruction accept remark)
  with assms show ?thesis by simp (erule respond_Ok)
next
  case (SetState work expected state reason resume hold)
  with assms show ?thesis by simp (erule set_state_Ok)
next
  case (Repair request expected i)
  with assms show ?thesis by simp (erule repair_Ok)
next
  case (CompleteWork work expected a)
  with assms show ?thesis by simp (erule complete_work_Ok)
next
  case (Revise work expected r)
  with assms show ?thesis by simp (erule revise_work_Ok)
next
  case (ReuseResult work expected result assessment)
  with assms show ?thesis by simp (erule reuse_result_Ok)
next
  case (BindSubagent contribution turn item child)
  with assms show ?thesis by simp (erule bind_subagent_Ok)
next
  case (PrepareSubagent b)
  with assms show ?thesis by simp (erule prepare_subagent_Ok)
next
  case (AddMaterial m)
  with assms show ?thesis by simp (erule add_material_Ok)
next
  case (RequestContribution q)
  with assms show ?thesis by simp (erule create_request_Ok)
next
  case (CreateWork w)
  then show ?thesis using assms create_work_Ok(4) [of jc actor w user db db'] by simp
qed

end
