(* ===== verification/Work_Invariant.thy ===== *)
theory Work_Invariant
  imports Work_Refine
begin

text \<open>
  What the Work store means: a completed Work carries an assessment of its current
  requirements that rests on Results counted for them, and no required contribution of it is
  open. Requirements, Results, instructions, Materials and receipts are only appended.
\<close>

section \<open>Histories\<close>

definition appends :: "'a list \<Rightarrow> 'a list \<Rightarrow> bool" where
  "appends t t' \<longleftrightarrow> (\<exists>new. t' = t @ new)"

lemma appends_refl [simp]: "appends t t"
  by (simp add: appends_def)

lemma appends_snoc [simp]: "appends t (t @ new)"
  by (simp add: appends_def)

lemma appends_trans: "appends s t \<Longrightarrow> appends t u \<Longrightarrow> appends s u"
  by (auto simp: appends_def)

lemma appends_set: "appends t t' \<Longrightarrow> set t \<subseteq> set t'"
  by (auto simp: appends_def)

definition work_identity :: "work_row \<Rightarrow> string \<times> string option \<times> string \<times> string" where
  "work_identity r = (wr_id r, wr_project_id r, wr_owner_agent_id r, wr_title r)"

definition request_identity :: "request_row \<Rightarrow> string \<times> string \<times> string \<times> bool" where
  "request_identity r = (cq_id r, cq_work_id r, cq_recipient_agent_id r, cq_required r)"

definition contribution_identity :: "contribution_row \<Rightarrow> string \<times> string \<times> string \<times> string" where
  "contribution_identity r = (br_id r, br_work_id r, br_requirements_id r, br_instruction r)"

definition ledger_grows :: "work_db \<Rightarrow> work_db \<Rightarrow> bool" where
  "ledger_grows db db' \<longleftrightarrow>
     appends (map work_identity (wd_works db)) (map work_identity (wd_works db')) \<and>
     appends (wd_requirements db) (wd_requirements db') \<and>
     appends (wd_materials db) (wd_materials db') \<and>
     appends (wd_results db) (wd_results db') \<and>
     appends (wd_reuses db) (wd_reuses db') \<and>
     appends (map request_identity (wd_requests db)) (map request_identity (wd_requests db')) \<and>
     appends (wd_instructions db) (wd_instructions db') \<and>
     appends (map contribution_identity (wd_contributions db)) (map contribution_identity (wd_contributions db')) \<and>
     appends (wd_dispatches db) (wd_dispatches db') \<and>
     appends (wd_deliveries db) (wd_deliveries db') \<and>
     appends (wd_commands db) (wd_commands db')"

lemma ledger_grows_refl [simp]: "ledger_grows db db"
  by (simp add: ledger_grows_def)

lemma ledger_grows_trans: "ledger_grows a b \<Longrightarrow> ledger_grows b c \<Longrightarrow> ledger_grows a c"
  unfolding ledger_grows_def by (meson appends_trans)

lemma ledger_grows_ledger: "ledger_grows (ledger db) (ledger db') \<longleftrightarrow> ledger_grows db db'"
  by (simp add: ledger_grows_def)

lemma identity_updates [simp]:
  "(\<And>x. work_identity (f x) = work_identity x) \<Longrightarrow>
    map work_identity (update_rows p f ws) = map work_identity ws"
  "(\<And>x. request_identity (g x) = request_identity x) \<Longrightarrow>
    map request_identity (update_rows p' g rs) = map request_identity rs"
  "(\<And>x. contribution_identity (h x) = contribution_identity x) \<Longrightarrow>
    map contribution_identity (update_rows p'' h bs) = map contribution_identity bs"
  by (simp_all add: map_update_rows)

lemma grows_by_ledger: "ledger db' = l \<Longrightarrow> ledger_grows (ledger db) l \<Longrightarrow> ledger_grows db db'"
  by (metis ledger_grows_ledger)

lemma ledger_growsI [simp]:
  "ledger_grows db (db\<lparr>wd_results := wd_results db @ x1\<rparr>)"
  "ledger_grows db (db\<lparr>wd_reuses := wd_reuses db @ x2\<rparr>)"
  "ledger_grows db (db\<lparr>wd_materials := wd_materials db @ x3\<rparr>)"
  "ledger_grows db (db\<lparr>wd_contributions := wd_contributions db @ x4\<rparr>)"
  "ledger_grows db (db\<lparr>wd_commands := wd_commands db @ x5\<rparr>)"
  by (simp_all add: ledger_grows_def)

lemma apply_command_grows:
  assumes "apply_command jc actor command user db = Inr db'"
  shows "ledger_grows db db'"
proof (cases command)
  case (CloseRequest request instruction outcome remark)
  with assms show ?thesis
    by simp (erule close_request_Ok, erule grows_by_ledger, simp add: ledger_grows_def request_identity_def)
next
  case (RecordResult r)
  then have "record_result jc actor r db = Inr db'" using assms by simp
  then show ?thesis
  proof (rule record_result_Ok)
    fix w db1
    assume w: "case re_instruction_id r of None \<Rightarrow> wk_owner_agent_id w = actor \<and> db1 = db
       | Some instruction \<Rightarrow> returned jc actor w r instruction db = Inr db1"
      and db': "db' = db1\<lparr>wd_results := wd_results db1 @ [result_row_of jc r]\<rparr>"
    have "ledger_grows db db1"
    proof (cases "re_instruction_id r")
      case (Some instruction)
      then have "returned jc actor w r instruction db = Inr db1" using w by simp
      then show ?thesis
        by (cases rule: returned_Ok)
          (simp, erule grows_by_ledger, simp add: ledger_grows_def request_identity_def)
    qed (use w in simp)
    then show ?thesis by (rule ledger_grows_trans) (simp add: db')
  qed
next
  case (Respond request instruction accept remark)
  with assms show ?thesis
    by simp (erule respond_Ok, erule grows_by_ledger, simp add: ledger_grows_def request_identity_def)
next
  case (SetState work expected state reason resume hold)
  with assms show ?thesis
    by simp (erule set_state_Ok, erule grows_by_ledger,
      simp add: ledger_grows_def request_identity_def work_identity_def cancelled_request_def)
next
  case (Repair request expected i)
  with assms show ?thesis
    by simp (erule repair_Ok, erule grows_by_ledger, simp add: ledger_grows_def request_identity_def)
next
  case (CompleteWork work expected a)
  with assms show ?thesis by simp (erule complete_work_Ok, simp add: ledger_grows_def work_identity_def)
next
  case (Revise work expected r)
  with assms show ?thesis
    by simp (erule revise_work_Ok, erule grows_by_ledger, simp add: ledger_grows_def work_identity_def revised_row_def)
next
  case (ReuseResult work expected result assessment)
  with assms show ?thesis by simp (erule reuse_result_Ok, simp)
next
  case (BindSubagent contribution turn item child)
  with assms show ?thesis
    by simp (erule bind_subagent_Ok, simp add: ledger_grows_def contribution_identity_def)
next
  case (PrepareSubagent b)
  with assms show ?thesis by simp (erule prepare_subagent_Ok, simp)
next
  case (AddMaterial m)
  with assms show ?thesis by simp (erule add_material_Ok, simp)
next
  case (RequestContribution q)
  with assms show ?thesis
    by simp (erule create_request_Ok, erule grows_by_ledger, simp add: ledger_grows_def)
next
  case (CreateWork w)
  then show ?thesis using assms create_work_Ok(3) [of jc actor w user db db'] by (simp add: ledger_grows_def)
qed

section \<open>The meaning of a completed Work\<close>

definition work_meant :: "json_codec \<Rightarrow> work_db \<Rightarrow> work_row \<Rightarrow> bool" where
  "work_meant jc db r \<longleftrightarrow>
     (if wr_state r = ''completed'' then assessed jc db r else wr_assessment_json r = None)"

definition works_meant :: "json_codec \<Rightarrow> work_db \<Rightarrow> bool" where
  "works_meant jc db \<longleftrightarrow> (\<forall>k r. find_work db k = Some r \<longrightarrow> work_meant jc db r)"

lemma result_counts_grow:
  assumes "ledger_grows db db'" "result_counts db work revision k"
  shows "result_counts db' work revision k"
  using assms appends_set [of "wd_results db" "wd_results db'"] appends_set [of "wd_reuses db" "wd_reuses db'"]
  unfolding result_counts_def list_ex_iff ledger_grows_def by blast

text \<open>A request waits for a Work only when it did before, or the Work was open.\<close>

lemma step_waits:
  assumes "request_step actor works before r'" "cq_state r' \<noteq> ''closed''"
  shows "(\<exists>w. works (cq_work_id r') = Some w \<and> wr_state w \<noteq> ''completed'')"
  using assms by (cases rule: request_step.cases) (auto simp: cancelled_request_def)

lemma waiting_moves:
  assumes "requests_move actor db db'" "find_work db work = Some r" "wr_state r = ''completed''"
    and "distinct (map cq_id (wd_requests db'))" "request_waiting db' work"
  shows "request_waiting db work"
proof -
  obtain q where q: "q \<in> set (wd_requests db')" "cq_work_id q = work" "cq_required q" "cq_state q \<noteq> ''closed''"
    using assms(5) by (auto simp: request_waiting_def list_ex_iff)
  have find: "find_request db' (cq_id q) = Some q"
    unfolding find_request_def by (rule find_row_distinct [OF assms(4) q(1)])
  have "find_request db (cq_id q) = Some q"
  proof (rule ccontr)
    assume "find_request db (cq_id q) \<noteq> Some q"
    then have "request_step actor (find_work db) (find_request db (cq_id q)) q"
      using assms(1) find unfolding requests_move_def by (metis option.inject)
    from step_waits [OF this q(4)] show False using assms(2,3) q(2) by auto
  qed
  then show ?thesis using find_request_id q(2-4) by (auto simp: request_waiting_def list_ex_iff)
qed

lemma assessed_grows:
  assumes "ledger_grows db db'" "assessed jc db r" "request_waiting db' (wr_id r) \<Longrightarrow> request_waiting db (wr_id r)"
  shows "assessed jc db' r"
  using assms result_counts_grow [OF assms(1)] unfolding assessed_def by meson

lemma works_meant_step:
  assumes meant: "works_meant jc db" and grows: "ledger_grows db db'" and requests: "requests_move actor db db'"
    and distinct: "distinct (map cq_id (wd_requests db'))"
    and changed: "\<And>k r. find_work db' k = Some r \<Longrightarrow> find_work db k \<noteq> Some r \<Longrightarrow> work_meant jc db' r"
  shows "works_meant jc db'"
  unfolding works_meant_def
proof (intro allI impI)
  fix k r
  assume r: "find_work db' k = Some r"
  show "work_meant jc db' r"
  proof (cases "find_work db k = Some r")
    case True
    then have old: "work_meant jc db r" "wr_id r = k" using meant find_work_id by (auto simp: works_meant_def)
    show ?thesis
    proof (cases "wr_state r = ''completed''")
      case completed: True
      have "assessed jc db' r"
        by (rule assessed_grows [OF grows])
          (use old completed waiting_moves [OF requests True completed distinct] in \<open>auto simp: work_meant_def\<close>)
      then show ?thesis using completed by (simp add: work_meant_def)
    qed (use old in \<open>simp add: work_meant_def\<close>)
  qed (rule changed [OF r])
qed

text \<open>Every step of a Work leaves it with its meaning.\<close>

lemma work_step_meant:
  assumes "work_step (assessed jc db) actor user before r" "\<And>r0. before = Some r0 \<Longrightarrow> wr_state r0 \<noteq> ''completed'' \<Longrightarrow> work_meant jc db r0"
  shows "work_meant jc db r"
  using assms(1)
proof cases
  case (state_set r0 s hold reason resume)
  have "wr_state r0 \<noteq> ''completed''" using state_set(4) by auto
  then have "work_meant jc db r0" "wr_state r0 \<noteq> ''completed''" using assms(2) [OF state_set(1)] by auto
  then have "wr_assessment_json r0 = None" by (simp add: work_meant_def)
  moreover have "wr_state r = s" "wr_assessment_json r = wr_assessment_json r0" using state_set(2) by simp_all
  moreover have "s \<noteq> ''completed''" using state_set(5) by auto
  ultimately show ?thesis by (simp add: work_meant_def)
next
  case (completed r0 t)
  then have "wr_state r = ''completed''" by (simp add: completed_row_def)
  then show ?thesis using completed by (simp add: work_meant_def)
next
  case (revised r0 revision)
  then show ?thesis by (simp add: work_meant_def revised_row_def)
next
  case created
  then show ?thesis by (simp add: work_meant_def)
qed

lemma apply_command_meant:
  assumes command: "apply_command jc actor command user db = Inr db'"
    and db: "work_schema jc db" "deferred_references db" "codec_faithful jc" "works_meant jc db"
  shows "works_meant jc db'"
proof (rule works_meant_step [OF db(4) apply_command_grows [OF command]])
  note moves = apply_command_moves [OF command db(1-3)]
  then show "requests_move actor db db'" by simp
  show "distinct (map cq_id (wd_requests db'))" by (rule schema_distinct [OF apply_command_schema [OF command]])
  fix k r
  assume r: "find_work db' k = Some r" "find_work db k \<noteq> Some r"
  then obtain j r' where j: "find_work db' = (find_work db)(j \<mapsto> r')" "work_step (assessed jc db') actor user (find_work db j) r'"
    using moves unfolding works_move_def by (metis (no_types))
  then have "j = k" "r' = r" using r by (auto split: if_splits)
  then show "work_meant jc db' r"
  proof -
    have "work_meant jc db' r0" if "find_work db k = Some r0" "wr_state r0 \<noteq> ''completed''" for r0
      using db(4) that by (auto simp: works_meant_def work_meant_def)
    then show ?thesis using work_step_meant [OF j(2)] \<open>j = k\<close> \<open>r' = r\<close> by simp
  qed
qed

end
