(* ===== verification/Work_Life.thy ===== *)
theory Work_Life
  imports Work_Invariant
begin

text \<open>
  Transactions on the Work store and their runs: a committed command moves the store, keeps its
  invariant and appends its receipt; the deferred foreign keys never reject a commit.
\<close>

section \<open>The commit\<close>

definition work_refs :: "work_db \<Rightarrow> (string \<times> string) set" where
  "work_refs db = (\<lambda>r. (wr_id r, wr_requirements_id r)) ` set (wd_works db)"

definition request_refs :: "work_db \<Rightarrow> (string \<times> string) set" where
  "request_refs db = (\<lambda>r. (cq_id r, cq_instruction_id r)) ` set (wd_requests db)"

definition instruction_keys :: "work_db \<Rightarrow> (string \<times> string) set" where
  "instruction_keys db = (\<lambda>i. (ir_request_id i, ir_id i)) ` set (wd_instructions db)"

lemma deferred_iff: "deferred_references db \<longleftrightarrow>
    work_refs db \<subseteq> requirements_keys db \<and> request_refs db \<subseteq> instruction_keys db"
  by (auto simp: deferred_references_def work_refs_def request_refs_def instruction_keys_def list_all_iff)

lemma refs_ledger [simp]: "work_refs (ledger db) = work_refs db" "request_refs (ledger db) = request_refs db"
    "instruction_keys (ledger db) = instruction_keys db" "requirements_keys (ledger db) = requirements_keys db"
  by (simp_all add: work_refs_def request_refs_def instruction_keys_def requirements_keys_def)

lemma deferred_ledger: "deferred_references (ledger db) \<longleftrightarrow> deferred_references db"
  by (simp add: deferred_iff)

lemma deferred_by_ledger: "ledger db' = l \<Longrightarrow> deferred_references l \<Longrightarrow> deferred_references db'"
  by (metis deferred_ledger)

lemma refs_update:
  assumes "\<And>x. g (f x) = g x \<or> g (f x) = new"
  shows "g ` set (update_rows p f t) \<subseteq> insert new (g ` set t)"
proof
  fix y
  assume "y \<in> g ` set (update_rows p f t)"
  then obtain q where "q \<in> set t" "y = g (if p q then f q else q)" by (auto simp: set_update_rows)
  then show "y \<in> insert new (g ` set t)" using assms [of q] by (cases "p q") auto
qed

lemma refs_update_same:
  assumes "\<And>x. g (f x) = g x"
  shows "g ` set (update_rows p f t) = g ` set t"
proof -
  have "map g (update_rows p f t) = map g t" by (rule map_update_rows) (rule assms)
  then show ?thesis by (metis set_map)
qed

lemma deferred_update_requests:
  assumes "deferred_references db" "\<And>x. cq_id (f x) = cq_id x \<and> cq_instruction_id (f x) = cq_instruction_id x"
  shows "deferred_references (db\<lparr>wd_requests := update_rows p f (wd_requests db)\<rparr>)"
  using assms(1) refs_update_same [of "\<lambda>r. (cq_id r, cq_instruction_id r)" f p "wd_requests db"] assms(2)
  by (simp add: deferred_iff work_refs_def request_refs_def instruction_keys_def requirements_keys_def)

lemma deferred_update_works:
  assumes "deferred_references db" "\<And>x. wr_id (f x) = wr_id x \<and> wr_requirements_id (f x) = wr_requirements_id x"
  shows "deferred_references (db\<lparr>wd_works := update_rows p f (wd_works db)\<rparr>)"
  using assms(1) refs_update_same [of "\<lambda>r. (wr_id r, wr_requirements_id r)" f p "wd_works db"] assms(2)
  by (simp add: deferred_iff work_refs_def request_refs_def instruction_keys_def requirements_keys_def)

lemmas deferred_defs = deferred_iff work_refs_def request_refs_def instruction_keys_def requirements_keys_def

lemma deferred_appends [simp]:
  "deferred_references db \<Longrightarrow> deferred_references (db\<lparr>wd_results := x1\<rparr>)"
  "deferred_references db \<Longrightarrow> deferred_references (db\<lparr>wd_reuses := x2\<rparr>)"
  "deferred_references db \<Longrightarrow> deferred_references (db\<lparr>wd_materials := x3\<rparr>)"
  "deferred_references db \<Longrightarrow> deferred_references (db\<lparr>wd_contributions := x4\<rparr>)"
  "deferred_references db \<Longrightarrow> deferred_references (db\<lparr>wd_commands := x5\<rparr>)"
  "deferred_references db \<Longrightarrow> deferred_references (db\<lparr>wd_dispatches := x6\<rparr>)"
  "deferred_references db \<Longrightarrow> deferred_references (db\<lparr>wd_deliveries := x7\<rparr>)"
  by (simp_all add: deferred_defs)

lemma deferred_repair:
  assumes "deferred_references db"
  shows "deferred_references (db\<lparr>wd_instructions := wd_instructions db @ [instruction_row_of jc k i event],
    wd_requests := update_rows (\<lambda>x. cq_id x = k) (\<lambda>x. x\<lparr>cq_instruction_id := ci_id i,
      cq_state := s, cq_outcome := out, cq_note := n\<rparr>) (wd_requests db)\<rparr>)"
  (is "deferred_references ?d")
proof -
  have "request_refs ?d \<subseteq> insert (k, ci_id i) (request_refs db)"
    by (auto simp: request_refs_def set_update_rows split: if_splits)
  moreover have "instruction_keys ?d = insert (k, ci_id i) (instruction_keys db)"
    by (auto simp: instruction_keys_def instruction_row_of_def)
  moreover have "work_refs ?d = work_refs db" "requirements_keys ?d = requirements_keys db"
    by (simp_all add: work_refs_def requirements_keys_def)
  ultimately show ?thesis using assms unfolding deferred_iff by blast
qed

lemma deferred_revise:
  assumes "deferred_references db"
  shows "deferred_references (db\<lparr>wd_requirements := wd_requirements db @ [requirements_row_of k r],
    wd_works := update_rows (\<lambda>x. wr_id x = k) (revised_row (wq_id r)) (wd_works db)\<rparr>)"
  (is "deferred_references ?d")
proof -
  have "work_refs ?d \<subseteq> insert (k, wq_id r) (work_refs db)"
    by (auto simp: work_refs_def set_update_rows revised_row_def split: if_splits)
  moreover have "requirements_keys ?d = insert (k, wq_id r) (requirements_keys db)"
    by (auto simp: requirements_keys_def requirements_row_of_def)
  moreover have "request_refs ?d = request_refs db" "instruction_keys ?d = instruction_keys db"
    by (simp_all add: request_refs_def instruction_keys_def)
  ultimately show ?thesis using assms unfolding deferred_iff by blast
qed

lemma apply_command_deferred:
  assumes command: "apply_command jc actor command user db = Inr db'" and db: "deferred_references db"
  shows "deferred_references db'"
proof -
  have l: "deferred_references (ledger db)" using db by (simp add: deferred_ledger)
  show ?thesis
  proof (cases command)
    case (CloseRequest request instruction outcome remark)
    with command l show ?thesis
      by simp (erule close_request_Ok, erule deferred_by_ledger,
        use deferred_update_requests [OF l] in simp)
  next
    case (RecordResult r)
    then have "record_result jc actor r db = Inr db'" using command by simp
    then show ?thesis
    proof (rule record_result_Ok)
      fix w db1
      assume w: "case re_instruction_id r of None \<Rightarrow> wk_owner_agent_id w = actor \<and> db1 = db
         | Some instruction \<Rightarrow> returned jc actor w r instruction db = Inr db1"
        and db': "db' = db1\<lparr>wd_results := wd_results db1 @ [result_row_of jc r]\<rparr>"
      have "deferred_references db1"
      proof (cases "re_instruction_id r")
        case (Some instruction)
        then have "returned jc actor w r instruction db = Inr db1" using w by simp
        then show ?thesis
          by (cases rule: returned_Ok)
            (simp add: db, erule deferred_by_ledger, use deferred_update_requests [OF l] in simp)
      qed (use w db in simp)
      then show ?thesis by (simp add: db')
    qed
  next
    case (Respond request instruction accept remark)
    with command l show ?thesis
      by simp (erule respond_Ok, erule deferred_by_ledger, use deferred_update_requests [OF l] in simp)
  next
    case (SetState work expected state reason resume hold)
    then have "set_state jc actor work expected state reason resume hold user db = Inr db'" using command by simp
    then show ?thesis
    proof (rule set_state_Ok)
      let ?rs = "if state = WorkCancelled then update_rows (live_request work) cancelled_request (wd_requests db)
        else wd_requests db"
      let ?f = "\<lambda>x. x\<lparr>wr_state := state_name state, wr_reason := reason, wr_resume_condition := resume, wr_user_hold := hold\<rparr>"
      assume "ledger db' = (ledger db)\<lparr>wd_requests := ?rs, wd_works := update_rows (\<lambda>x. wr_id x = work) ?f (wd_works db)\<rparr>"
      moreover have d: "deferred_references ((ledger db)\<lparr>wd_requests := ?rs\<rparr>)"
      proof (cases "state = WorkCancelled")
        case True
        then show ?thesis
          using deferred_update_requests [OF l, of cancelled_request "live_request work"] by (simp add: cancelled_request_def)
      next
        case False
        have same: "(ledger db)\<lparr>wd_requests := wd_requests db\<rparr> = ledger db" by (simp add: ledger_def)
        show ?thesis unfolding if_not_P [OF False] same by (rule l)
      qed
      have "deferred_references ((ledger db)\<lparr>wd_requests := ?rs, wd_works := update_rows (\<lambda>x. wr_id x = work) ?f (wd_works db)\<rparr>)"
        using deferred_update_works [OF d, of ?f "\<lambda>x. wr_id x = work"] by simp
      ultimately show ?thesis using deferred_by_ledger by metis
    qed
  next
    case (Repair request expected i)
    with command l show ?thesis
      by simp (erule repair_Ok, erule deferred_by_ledger, use deferred_repair [OF l] in simp)
  next
    case (CompleteWork work expected a)
    with command show ?thesis
      by simp (erule complete_work_Ok, use deferred_update_works [OF db] in simp)
  next
    case (Revise work expected r)
    with command l show ?thesis
      by simp (erule revise_work_Ok, erule deferred_by_ledger, use deferred_revise [OF l] in simp)
  next
    case (ReuseResult work expected result assessment)
    with command db show ?thesis by simp (erule reuse_result_Ok, simp)
  next
    case (BindSubagent contribution turn item child)
    with command db show ?thesis by simp (erule bind_subagent_Ok, simp)
  next
    case (PrepareSubagent b)
    with command db show ?thesis by simp (erule prepare_subagent_Ok, simp)
  next
    case (AddMaterial m)
    with command db show ?thesis by simp (erule add_material_Ok, simp)
  next
    case (RequestContribution q)
    with command l show ?thesis
      by simp (erule create_request_Ok, erule deferred_by_ledger,
        auto simp: deferred_defs request_row_of_def instruction_row_of_def)
  next
    case (CreateWork w)
    then show ?thesis using command db create_work_Ok(3) [of jc actor w user db db']
      by (auto simp: deferred_defs work_row_of_def requirements_row_of_def)
  qed
qed

text \<open>
  The transactions of the Work store and what a run of them keeps. Other writers are any
  change that leaves the tables of Works alone and respects the schema, such as the delivery
  of an event.
\<close>

section \<open>A committed command\<close>

definition work_inv :: "json_codec \<Rightarrow> work_db \<Rightarrow> bool" where
  "work_inv jc db \<longleftrightarrow> work_schema jc db \<and> deferred_references db \<and> works_meant jc db"

lemma clock_irrelevant [simp]:
  "work_schema jc (db\<lparr>wd_clock := c\<rparr>) = work_schema jc db"
  "deferred_references (db\<lparr>wd_clock := c\<rparr>) = deferred_references db"
  by (simp_all add: work_schema_def work_rows_checked_def work_keys_unique_def work_references_def
      deferred_references_def requirements_keys_def)

lemma find_clock [simp]: "find_work (db\<lparr>wd_clock := c\<rparr>) = find_work db"
  "find_request (db\<lparr>wd_clock := c\<rparr>) = find_request db"
  by (rule find_work_same, simp) (rule find_request_same, simp)

lemma meaning_fields:
  assumes "wd_works db' = wd_works db" "wd_results db' = wd_results db" "wd_reuses db' = wd_reuses db"
    "wd_requests db' = wd_requests db"
  shows "assessed jc db' = assessed jc db" "works_meant jc db' = works_meant jc db"
proof -
  have "result_counts db' = result_counts db" "request_waiting db' = request_waiting db"
    using assms by (simp_all add: result_counts_def [abs_def] request_waiting_def [abs_def])
  then show "assessed jc db' = assessed jc db" by (simp add: assessed_def [abs_def])
  then have "work_meant jc db' = work_meant jc db" by (simp add: work_meant_def [abs_def])
  then show "works_meant jc db' = works_meant jc db" by (simp add: works_meant_def find_work_same [OF assms(1)])
qed

lemma meant_clock [simp]: "works_meant jc (db\<lparr>wd_clock := c\<rparr>) = works_meant jc db"
  by (rule meaning_fields) simp_all

lemma work_inv_clock [simp]: "work_inv jc (db\<lparr>wd_clock := c\<rparr>) = work_inv jc db"
  by (simp add: work_inv_def)

lemma apply_command_keeps_receipts:
  assumes "apply_command jc actor command user db = Inr db'"
  shows "wd_commands db' = wd_commands db"
proof -
  have by_ledger: "wd_commands db' = wd_commands db" if "ledger db' = l" "wd_commands l = wd_commands db" for l
    using arg_cong [OF that(1), of wd_commands] that(2) by simp
  show ?thesis
  proof (cases command)
    case (CloseRequest request instruction outcome remark)
    with assms show ?thesis by simp (erule close_request_Ok, erule by_ledger, simp)
  next
    case (RecordResult r)
    then have "record_result jc actor r db = Inr db'" using assms by simp
    then show ?thesis
    proof (rule record_result_Ok)
      fix w db1
      assume w: "case re_instruction_id r of None \<Rightarrow> wk_owner_agent_id w = actor \<and> db1 = db
         | Some instruction \<Rightarrow> returned jc actor w r instruction db = Inr db1"
        and db': "db' = db1\<lparr>wd_results := wd_results db1 @ [result_row_of jc r]\<rparr>"
      have "wd_commands db1 = wd_commands db"
      proof (cases "re_instruction_id r")
        case (Some instruction)
        then have "returned jc actor w r instruction db = Inr db1" using w by simp
        then show ?thesis by (cases rule: returned_Ok) (simp, drule arg_cong [of _ _ wd_commands], simp)
      qed (use w in simp)
      then show ?thesis by (simp add: db')
    qed
  next
    case (Respond request instruction accept remark)
    with assms show ?thesis by simp (erule respond_Ok, erule by_ledger, simp)
  next
    case (SetState work expected state reason resume hold)
    with assms show ?thesis by simp (erule set_state_Ok, erule by_ledger, simp)
  next
    case (Repair request expected i)
    with assms show ?thesis by simp (erule repair_Ok, erule by_ledger, simp)
  next
    case (CompleteWork work expected a)
    with assms show ?thesis by simp (erule complete_work_Ok, simp)
  next
    case (Revise work expected r)
    with assms show ?thesis by simp (erule revise_work_Ok, erule by_ledger, simp)
  next
    case (ReuseResult work expected result assessment)
    with assms show ?thesis by simp (erule reuse_result_Ok, simp)
  next
    case (BindSubagent contribution turn item child)
    with assms show ?thesis by simp (erule bind_subagent_Ok, simp)
  next
    case (PrepareSubagent b)
    with assms show ?thesis by simp (erule prepare_subagent_Ok, simp)
  next
    case (AddMaterial m)
    with assms show ?thesis by simp (erule add_material_Ok, simp)
  next
    case (RequestContribution q)
    with assms show ?thesis by simp (erule create_request_Ok, erule by_ledger, simp)
  next
    case (CreateWork w)
    then show ?thesis using assms create_work_Ok(3) [of jc actor w user db db'] by simp
  qed
qed

definition receipt_of :: "json_codec \<Rightarrow> string \<Rightarrow> string \<Rightarrow> work_command \<Rightarrow> command_row" where
  "receipt_of jc k actor command = \<lparr>cm_id = k, cm_agent_id = actor, cm_command_json = jc_print jc (command_json command)\<rparr>"

lemma apply_work_command_Ok:
  assumes "apply_work_command jc clock actor k command user db = Inr db'"
  obtains (replay) saved where "find_command db k = Some saved" "cm_agent_id saved = actor"
    "cm_command_json saved = jc_print jc (command_json command)" "db' = db"
  | (applied) db1 where "find_command db k = None"
    "apply_command jc actor command user (db\<lparr>wd_clock := clock\<rparr>) = Inr db1"
    "db' = db1\<lparr>wd_commands := wd_commands db1 @ [receipt_of jc k actor command]\<rparr>"
    "work_schema jc db'" "deferred_references db'"
proof (cases "find_command db k")
  case None
  then obtain db1 where "apply_command jc actor command user (db\<lparr>wd_clock := clock\<rparr>) = Inr db1"
    "db' = db1\<lparr>wd_commands := wd_commands db1 @ [receipt_of jc k actor command]\<rparr>"
    "work_schema jc db'" "deferred_references db'"
    using assms by (auto simp: apply_work_command_def and_then_Ok_iff works_encode_Ok_iff execute_Ok_iff
        commit_Ok_iff receipt_of_def)
  then show thesis by (rule applied [OF None])
next
  case (Some saved)
  then have "cm_agent_id saved = actor" "cm_command_json saved = jc_print jc (command_json command)" "db' = db"
    using assms by (auto simp: apply_work_command_def and_then_Ok_iff works_encode_Ok_iff split: if_splits)
  then show thesis by (rule replay [OF Some])
qed

text \<open>The deferred foreign keys reject no command that respects them before.\<close>

lemma commit_never_rejects:
  assumes "apply_command jc actor command user db = Inr db'" "deferred_references db"
  shows "commit db' = Inr db'"
  using apply_command_deferred [OF assms] by (simp add: commit_def)

lemma command_effect:
  assumes "apply_work_command jc clock actor k command user db = Inr db'" "codec_faithful jc" "work_inv jc db"
    and "find_command db k = None"
  shows "works_move jc actor user db db'" "requests_move actor db db'" "ledger_grows db db'" "work_inv jc db'"
    "wd_commands db' = wd_commands db @ [receipt_of jc k actor command]"
proof -
  have a: "\<exists>db1. apply_command jc actor command user (db\<lparr>wd_clock := clock\<rparr>) = Inr db1 \<and>
      db' = db1\<lparr>wd_commands := wd_commands db1 @ [receipt_of jc k actor command]\<rparr> \<and> work_schema jc db' \<and>
      deferred_references db'"
    using assms(1) by (cases rule: apply_work_command_Ok) (use assms(4) in auto)
  then obtain db1 where c: "apply_command jc actor command user (db\<lparr>wd_clock := clock\<rparr>) = Inr db1"
    and db': "db' = db1\<lparr>wd_commands := wd_commands db1 @ [receipt_of jc k actor command]\<rparr>"
    "work_schema jc db'" "deferred_references db'" by blast
  have inv: "work_schema jc (db\<lparr>wd_clock := clock\<rparr>)" "deferred_references (db\<lparr>wd_clock := clock\<rparr>)"
    "works_meant jc (db\<lparr>wd_clock := clock\<rparr>)"
    using assms(3) by (simp_all add: work_inv_def)
  have same: "wd_works db' = wd_works db1" "wd_results db' = wd_results db1" "wd_reuses db' = wd_reuses db1"
    "wd_requests db' = wd_requests db1" by (simp_all add: db'(1))
  have "works_meant jc db1" by (rule apply_command_meant [OF c inv(1,2) assms(2) inv(3)])
  then show "work_inv jc db'" using db'(2,3) meaning_fields [OF same] by (simp add: work_inv_def)
  note m = apply_command_moves [OF c inv(1,2) assms(2)]
  show "works_move jc actor user db db'" "requests_move actor db db'"
    using m find_work_same [OF same(1)] find_request_same [OF same(4)] meaning_fields(1) [OF same, of jc]
    by (simp_all add: works_move_def requests_move_def)
  have g: "ledger_grows db db1"
    using apply_command_grows [OF c] by (simp add: ledger_grows_def)
  then show "ledger_grows db db'" by (rule ledger_grows_trans) (simp add: db'(1))
  have "wd_commands db1 = wd_commands db"
    using apply_command_keeps_receipts [OF c] by simp
  then show "wd_commands db' = wd_commands db @ [receipt_of jc k actor command]" by (simp add: db'(1))
qed

section \<open>Transactions\<close>

text \<open>
  Everything of the store but the keys of items, Agents and projects, the inbox and the clock:
  the tables that only Work transactions write.
\<close>

definition tables_kept :: "work_db \<Rightarrow> work_db \<Rightarrow> bool" where
  "tables_kept db db' \<longleftrightarrow>
     wd_works db' = wd_works db \<and> wd_requirements db' = wd_requirements db \<and> wd_materials db' = wd_materials db \<and>
     wd_results db' = wd_results db \<and> wd_reuses db' = wd_reuses db \<and> wd_requests db' = wd_requests db \<and>
     wd_instructions db' = wd_instructions db \<and> wd_contributions db' = wd_contributions db \<and>
     wd_dispatches db' = wd_dispatches db \<and> wd_deliveries db' = wd_deliveries db \<and> wd_commands db' = wd_commands db"

text \<open>
  \<open>user\<close> says whether the user takes part in the run: without the user every command carries the
  authority of an Agent alone.
\<close>

inductive work_transaction :: "json_codec \<Rightarrow> bool \<Rightarrow> work_db \<Rightarrow> work_db \<Rightarrow> bool" for jc user where
  command: "apply_work_command jc clock actor k cmd authority db = Inr db' \<Longrightarrow> (authority \<longrightarrow> user) \<Longrightarrow>
    work_transaction jc user db db'"
| dispatch: "record_native_work_dispatch jc k thread turn call db = Inr db' \<Longrightarrow> work_transaction jc user db db'"
| delivery: "record_native_work_delivery jc k d db = Inr db' \<Longrightarrow> work_transaction jc user db db'"
| elsewhere: "tables_kept db db' \<Longrightarrow> work_schema jc db' \<Longrightarrow> work_transaction jc user db db'"

lemma dispatch_Ok:
  assumes "record_native_work_dispatch jc k thread turn call db = Inr db'"
  shows "db' = db \<or> (\<exists>x. db' = db\<lparr>wd_dispatches := wd_dispatches db @ [x]\<rparr> \<and> work_schema jc db' \<and> deferred_references db')"
  using assms by (auto simp: record_native_work_dispatch_def and_then_Ok_iff execute_Ok_iff commit_Ok_iff Let_def
      split: option.splits if_splits)

lemma delivery_Ok:
  assumes "record_native_work_delivery jc k d db = Inr db'"
  shows "db' = db \<or> (\<exists>x. db' = db\<lparr>wd_deliveries := wd_deliveries db @ [x]\<rparr> \<and> work_schema jc db' \<and> deferred_references db')"
  using assms by (auto simp: record_native_work_delivery_def and_then_Ok_iff execute_Ok_iff commit_Ok_iff Let_def
      split: option.splits if_splits)

text \<open>A transaction keeps the invariant and moves by one command of one Agent, or not at all.\<close>

definition store_moves :: "json_codec \<Rightarrow> bool \<Rightarrow> work_db \<Rightarrow> work_db \<Rightarrow> bool" where
  "store_moves jc user db db' \<longleftrightarrow>
     find_work db' = find_work db \<and> find_request db' = find_request db \<or>
     (\<exists>actor authority. (authority \<longrightarrow> user) \<and> works_move jc actor authority db db' \<and> requests_move actor db db')"

lemma transaction_effect:
  assumes "work_transaction jc user db db'" "codec_faithful jc" "work_inv jc db"
  shows "work_inv jc db' \<and> ledger_grows db db' \<and> store_moves jc user db db'"
  using assms(1)
proof cases
  case (command clock actor k cmd authority)
  show ?thesis
  proof (cases "find_command db k")
    case None
    note e = command_effect [OF command(1) assms(2,3) None]
    then show ?thesis using command(2) by (auto simp: store_moves_def)
  next
    case (Some saved)
    have "db' = db" using command(1) by (cases rule: apply_work_command_Ok) (use Some in simp_all)
    then show ?thesis using assms(3) by (simp add: store_moves_def)
  qed
next
  case (dispatch k thread turn call)
  show ?thesis
  proof (cases "db' = db")
    case False
    then obtain x where x: "db' = db\<lparr>wd_dispatches := wd_dispatches db @ [x]\<rparr>" "work_schema jc db'" "deferred_references db'"
      using dispatch_Ok [OF dispatch] by blast
    have "works_meant jc db' = works_meant jc db" by (rule meaning_fields) (simp_all add: x(1))
    moreover have "find_work db' = find_work db" "find_request db' = find_request db"
      by (rule find_work_same, simp add: x(1)) (rule find_request_same, simp add: x(1))
    moreover have "ledger_grows db db'" by (simp add: x(1) ledger_grows_def)
    ultimately show ?thesis using assms(3) x(2,3) by (simp add: work_inv_def store_moves_def)
  qed (use assms(3) in \<open>simp add: store_moves_def\<close>)
next
  case (delivery k d)
  show ?thesis
  proof (cases "db' = db")
    case False
    then obtain x where x: "db' = db\<lparr>wd_deliveries := wd_deliveries db @ [x]\<rparr>" "work_schema jc db'" "deferred_references db'"
      using delivery_Ok [OF delivery] by blast
    have "works_meant jc db' = works_meant jc db" by (rule meaning_fields) (simp_all add: x(1))
    moreover have "find_work db' = find_work db" "find_request db' = find_request db"
      by (rule find_work_same, simp add: x(1)) (rule find_request_same, simp add: x(1))
    moreover have "ledger_grows db db'" by (simp add: x(1) ledger_grows_def)
    ultimately show ?thesis using assms(3) x(2,3) by (simp add: work_inv_def store_moves_def)
  qed (use assms(3) in \<open>simp add: store_moves_def\<close>)
next
  case elsewhere
  note f = elsewhere(1) [unfolded tables_kept_def]
  have "works_meant jc db' = works_meant jc db" by (rule meaning_fields) (simp_all add: f)
  moreover have "deferred_references db' = deferred_references db" by (simp add: deferred_defs f)
  moreover have "ledger_grows db db'" by (simp add: ledger_grows_def f)
  ultimately show ?thesis
    using assms(3) elsewhere(2) f find_work_same [of db' db] find_request_same [of db' db]
    by (simp add: work_inv_def store_moves_def)
qed

section \<open>Runs\<close>

lemma run_effect:
  assumes "(work_transaction jc user)\<^sup>*\<^sup>* db db'" "codec_faithful jc" "work_inv jc db"
  shows "work_inv jc db' \<and> ledger_grows db db'"
  using assms(1)
proof (induction rule: rtranclp_induct)
  case (step db1 db2)
  then show ?case using transaction_effect [OF step.hyps(2) assms(2)] ledger_grows_trans by blast
qed (use assms(3) in simp)

text \<open>A property of the store that every move keeps holds along a run.\<close>

lemma run_keeps:
  assumes "(work_transaction jc user)\<^sup>*\<^sup>* db db'" "codec_faithful jc" "work_inv jc db" "Q db"
    and keep: "\<And>d d'. work_inv jc d \<Longrightarrow> work_inv jc d' \<Longrightarrow> ledger_grows d d' \<Longrightarrow> store_moves jc user d d' \<Longrightarrow> Q d \<Longrightarrow> Q d'"
  shows "Q db'"
proof -
  have "Q db' \<and> work_inv jc db'" using assms(1)
  proof (induction rule: rtranclp_induct)
    case (step db1 db2)
    then show ?case using transaction_effect [OF step.hyps(2) assms(2)] keep by blast
  qed (use assms(3,4) in simp)
  then show ?thesis ..
qed

lemma store_moves_work:
  assumes "store_moves jc user db db'" "find_work db k = Some r"
  obtains "find_work db' k = Some r" | actor authority r' where "authority \<longrightarrow> user" "find_work db' k = Some r'"
    "work_step (assessed jc db') actor authority (Some r) r'"
proof (cases "find_work db' k = find_work db k")
  case False
  then obtain actor authority where m: "authority \<longrightarrow> user" "works_move jc actor authority db db'"
    using assms(1) by (auto simp: store_moves_def)
  then obtain j r' where j: "find_work db' = (find_work db)(j \<mapsto> r')" "work_step (assessed jc db') actor authority (find_work db j) r'"
    using False by (auto simp: works_move_def)
  then have "j = k" using False by (auto split: if_splits)
  then show thesis using that(2) [OF m(1), of r' actor] j assms(2) by simp
qed (use that(1) assms(2) in simp)

end
