(* ===== verification/Work_Demo.thy ===== *)
theory Work_Demo
  imports Work_Life
begin

text \<open>
  A concrete instance of the JSON parameter and a small store, for the witnesses. The printer
  is a prefix notation with escaped characters; its parser reads back what it prints.
\<close>

section \<open>A codec\<close>

fun demo_text :: "string \<Rightarrow> string" where
  "demo_text [] = ''.''"
| "demo_text (c # cs) = CHR ''-'' # c # demo_text cs"

definition demo_int :: "int \<Rightarrow> string" where
  "demo_int n = (if n < 0 then CHR ''m'' else CHR ''p'') # replicate (nat \<bar>n\<bar>) (CHR ''1'') @ ''.''"

fun demo_print :: "json \<Rightarrow> string" where
  "demo_print JNull = ''n''"
| "demo_print (JBool b) = (if b then ''t'' else ''f'')"
| "demo_print (JInt n) = CHR ''i'' # demo_int n"
| "demo_print (JString s) = CHR ''s'' # demo_text s"
| "demo_print (JArray vs) = CHR ''a'' # concat (map (\<lambda>v. CHR ''+'' # demo_print v) vs) @ ''.''"
| "demo_print (JObject kvs) =
     CHR ''o'' # concat (map (\<lambda>(k, v). CHR ''+'' # demo_text k @ demo_print v) kvs) @ ''.''"

fun read_text :: "string \<Rightarrow> (string \<times> string) option" where
  "read_text (c # d # cs) =
     (if c = CHR ''.'' then Some ([], d # cs)
      else if c = CHR ''-'' then map_option (\<lambda>(s, r). (d # s, r)) (read_text cs) else None)"
| "read_text [c] = (if c = CHR ''.'' then Some ([], []) else None)"
| "read_text [] = None"

fun read_ones :: "nat \<Rightarrow> string \<Rightarrow> (nat \<times> string) option" where
  "read_ones n [] = None"
| "read_ones n (c # cs) =
     (if c = CHR ''1'' then read_ones (Suc n) cs else if c = CHR ''.'' then Some (n, cs) else None)"

definition read_int :: "string \<Rightarrow> (int \<times> string) option" where
  "read_int s = (case s of [] \<Rightarrow> None
     | c # cs \<Rightarrow> map_option (\<lambda>(n, r). (if c = CHR ''m'' then - int n else int n, r)) (read_ones 0 cs))"

text \<open>The fuel is the length of the text.\<close>

fun read_json :: "nat \<Rightarrow> string \<Rightarrow> (json \<times> string) option"
  and read_array :: "nat \<Rightarrow> string \<Rightarrow> (json list \<times> string) option"
  and read_object :: "nat \<Rightarrow> string \<Rightarrow> ((string \<times> json) list \<times> string) option" where
  "read_json (Suc n) (c # cs) =
     (if c = CHR ''n'' then Some (JNull, cs)
      else if c = CHR ''t'' then Some (JBool True, cs)
      else if c = CHR ''f'' then Some (JBool False, cs)
      else if c = CHR ''i'' then map_option (\<lambda>(v, r). (JInt v, r)) (read_int cs)
      else if c = CHR ''s'' then map_option (\<lambda>(v, r). (JString v, r)) (read_text cs)
      else if c = CHR ''a'' then map_option (\<lambda>(v, r). (JArray v, r)) (read_array n cs)
      else if c = CHR ''o'' then map_option (\<lambda>(v, r). (JObject v, r)) (read_object n cs)
      else None)"
| "read_json n cs = None"
| "read_array (Suc n) (c # cs) =
     (if c = CHR ''.'' then Some ([], cs)
      else if c = CHR ''+'' then
        Option.bind (read_json n cs) (\<lambda>(v, r). map_option (\<lambda>(vs, r). (v # vs, r)) (read_array n r))
      else None)"
| "read_array n cs = None"
| "read_object (Suc n) (c # cs) =
     (if c = CHR ''.'' then Some ([], cs)
      else if c = CHR ''+'' then
        Option.bind (read_text cs) (\<lambda>(k, r). Option.bind (read_json n r) (\<lambda>(v, r).
          map_option (\<lambda>(kvs, r). ((k, v) # kvs, r)) (read_object n r)))
      else None)"
| "read_object n cs = None"

definition demo_parse :: "string \<Rightarrow> json option" where
  "demo_parse s = (case read_json (length s) s of Some (v, []) \<Rightarrow> Some v | _ \<Rightarrow> None)"

lemma read_demo_text: "read_text (demo_text s @ r) = Some (s, r)"
proof (induction s)
  case Nil
  then show ?case by (cases r) simp_all
qed simp

lemma read_ones_replicate: "read_ones n (replicate m (CHR ''1'') @ CHR ''.'' # r) = Some (n + m, r)"
  by (induction m arbitrary: n) simp_all

lemma read_demo_int: "read_int (demo_int n @ r) = Some (n, r)"
  by (simp add: read_int_def demo_int_def read_ones_replicate)

lemma read_demo_json:
  shows "length (demo_print v) \<le> n \<Longrightarrow> read_json n (demo_print v @ r) = Some (v, r)"
proof (induction v arbitrary: n r)
  case (JArray vs)
  have *: "length (concat (map (\<lambda>v. CHR ''+'' # demo_print v) us) @ ''.'') \<le> m \<Longrightarrow>
      read_array m (concat (map (\<lambda>v. CHR ''+'' # demo_print v) us) @ CHR ''.'' # r) = Some (us, r)"
    if "set us \<subseteq> set vs" for us m
    using that
  proof (induction us arbitrary: m)
    case Nil
    then show ?case by (cases m) simp_all
  next
    case (Cons u us)
    then obtain k where "m = Suc k" by (cases m) auto
    then show ?case using Cons JArray.IH [of u k] by simp
  qed
  obtain k where "n = Suc k" using JArray.prems by (cases n) auto
  then show ?case using * [OF order_refl, of k] JArray.prems by simp
next
  case (JObject kvs)
  let ?p = "\<lambda>(k, v). CHR ''+'' # demo_text k @ demo_print v"
  have *: "length (concat (map ?p us) @ ''.'') \<le> m \<Longrightarrow>
      read_object m (concat (map ?p us) @ CHR ''.'' # r) = Some (us, r)"
    if "set us \<subseteq> set kvs" for us m
    using that
  proof (induction us arbitrary: m)
    case Nil
    then show ?case by (cases m) simp_all
  next
    case (Cons u us)
    then obtain k where m: "m = Suc k" by (cases m) (auto split: prod.splits)
    obtain a b where u: "u = (a, b)" by (cases u)
    have "read_json k (demo_print b @ t) = Some (b, t)" for t
      using Cons.prems m u by (intro JObject.IH [of u b]) auto
    then show ?case using Cons m u by (simp add: read_demo_text)
  qed
  obtain k where "n = Suc k" using JObject.prems by (cases n) auto
  then show ?case using * [OF order_refl, of k] JObject.prems by simp
next
  case JNull
  then show ?case by (cases n) simp_all
next
  case (JBool b)
  then show ?case by (cases n; cases b) simp_all
next
  case (JInt m)
  then show ?case by (cases n) (simp_all add: read_demo_int)
next
  case (JString s)
  then show ?case by (cases n) (simp_all add: read_demo_text)
qed

lemma demo_parse_print: "demo_parse (demo_print v) = Some v"
  using read_demo_json [of v "length (demo_print v)" "[]"] by (simp add: demo_parse_def)

declare demo_print.simps [simp del]

text \<open>The readers of the contracts that are read back.\<close>

fun text_values :: "json list \<Rightarrow> string list option" where
  "text_values [] = Some []"
| "text_values (JString s # vs) = map_option (\<lambda>ss. s # ss) (text_values vs)"
| "text_values (v # vs) = None"

fun texts_value :: "json \<Rightarrow> string list option" where
  "texts_value (JArray vs) = text_values vs"
| "texts_value v = None"

definition assessment_value :: "json \<Rightarrow> work_assessment option" where
  "assessment_value v = (case v of
     JObject [(_, JString r), (_, ids), (_, JString s), (_, JString l)] \<Rightarrow>
       map_option (\<lambda>ids. \<lparr>wa_requirements_id = r, wa_result_ids = ids, wa_summary = s, wa_limits = l\<rparr>) (texts_value ids)
   | _ \<Rightarrow> None)"

fun text_option :: "json \<Rightarrow> string option" where
  "text_option (JString s) = Some s"
| "text_option v = None"

definition source_value :: "json \<Rightarrow> result_source option" where
  "source_value v = (case v of
     JObject [_, (_, JString a), (_, JString b), (_, JString c)] \<Rightarrow> Some (NativeItem a b c)
   | JObject [_, (_, JString a), (_, JString b)] \<Rightarrow> Some (Artifact a b)
   | _ \<Rightarrow> None)"

definition result_value :: "json \<Rightarrow> work_result option" where
  "result_value v = (case v of
     JObject [(_, JString a), (_, JString b), (_, JString c), (_, d), (_, e), (_, JString f), (_, JString g),
       (_, h), (_, JString i)] \<Rightarrow>
     map_option (\<lambda>source. \<lparr>re_id = a, re_work_id = b, re_requirements_id = c, re_instruction_id = text_option d,
       re_native_contribution_id = text_option e, re_agent_id = f, re_summary = g, re_source = source,
       re_limits = i\<rparr>) (source_value h)
   | _ \<Rightarrow> None)"

definition material_value :: "json \<Rightarrow> material option" where
  "material_value v = (case v of
     JObject [(_, JString a), (_, JString b), (_, JString c), (_, JString d), (_, e)] \<Rightarrow>
       Some \<lparr>ma_id = a, ma_work_id = b, ma_title = c, ma_reference = d, ma_sha256 = text_option e\<rparr>
   | _ \<Rightarrow> None)"

fun field :: "string \<Rightarrow> json \<Rightarrow> json option" where
  "field path (JObject kvs) = map_of kvs (drop 2 path)"
| "field path v = None"

definition demo_codec :: json_codec where
  "demo_codec = \<lparr>jc_print = demo_print, jc_print_value = demo_print, jc_parse_value = demo_parse,
     jc_parse_texts = (\<lambda>s. Option.bind (demo_parse s) texts_value),
     jc_parse_assessment = (\<lambda>s. Option.bind (demo_parse s) assessment_value),
     jc_parse_result = (\<lambda>s. Option.bind (demo_parse s) result_value),
     jc_parse_material = (\<lambda>s. Option.bind (demo_parse s) material_value),
     jc_sql_valid = (\<lambda>s. demo_parse s \<noteq> None),
     jc_sql_text = (\<lambda>s path. Option.bind (demo_parse s) (\<lambda>v. Option.bind (field path v) text_option)),
     jc_sql_int = (\<lambda>s path. Option.bind (demo_parse s) (\<lambda>v. Option.bind (field path v)
       (\<lambda>w. case w of JInt n \<Rightarrow> Some n | _ \<Rightarrow> None))),
     jc_sql_each = (\<lambda>s. case Option.bind (demo_parse s) texts_value of None \<Rightarrow> [] | Some ids \<Rightarrow> ids)\<rparr>"

lemma text_values_strings: "text_values (map JString ss) = Some ss"
  by (induction ss) simp_all

lemma text_option_text: "text_option (json_text v) = v"
  by (cases v) (simp_all add: json_text_def json_option_def)

lemma demo_codec_faithful: "codec_faithful demo_codec"
proof -
  have source: "source_value (source_json s) = Some s" for s by (cases s) (simp_all add: source_value_def)
  have "texts_value (json_texts ids) = Some ids" for ids by (simp add: json_texts_def text_values_strings)
  moreover from this have "assessment_value (assessment_json a) = Some a" for a
    by (simp add: assessment_json_def assessment_value_def)
  moreover have "result_value (result_json r) = Some r" for r
    by (simp add: result_json_def result_value_def text_option_text source)
  moreover have "material_value (material_json m) = Some m" for m
    by (simp add: material_json_def material_value_def text_option_text)
  moreover have "v = w" if "demo_print v = demo_print w" for v w
    using that demo_parse_print by (metis option.inject)
  ultimately show ?thesis by (auto simp add: codec_faithful_def demo_codec_def demo_parse_print)
qed

section \<open>A store\<close>

definition demo_clock :: "nat \<Rightarrow> i64 option" where "demo_clock n = Some 7"

definition demo_start :: work_db where
  "demo_start = \<lparr>wd_items = [''ada'', ''bo''], wd_agents = [''ada'', ''bo''], wd_projects = [], wd_works = [],
     wd_requirements = [], wd_materials = [], wd_results = [], wd_reuses = [], wd_requests = [],
     wd_instructions = [], wd_contributions = [], wd_dispatches = [], wd_deliveries = [], wd_commands = [],
     wd_inbox = [], wd_inbox_seq = 0, wd_clock = demo_clock\<rparr>"

definition demo_requirements :: work_requirements where
  "demo_requirements = \<lparr>wq_id = ''q'', wq_goal = ''g'', wq_criteria = ''c'', wq_source = ''s''\<rparr>"

definition demo_work :: work where
  "demo_work = \<lparr>wk_id = ''w'', wk_project_id = None, wk_owner_agent_id = ''ada'', wk_title = ''t'',
     wk_requirements = demo_requirements, wk_state = WorkOpen, wk_reason = None, wk_resume_condition = None,
     wk_user_hold = False, wk_assessment = None\<rparr>"

definition demo_result :: work_result where
  "demo_result = \<lparr>re_id = ''r'', re_work_id = ''w'', re_requirements_id = ''q'', re_instruction_id = None,
     re_native_contribution_id = None, re_agent_id = ''ada'', re_summary = ''done'',
     re_source = Artifact ''p'' ''h'', re_limits = []\<rparr>"

definition demo_assessment :: work_assessment where
  "demo_assessment = \<lparr>wa_requirements_id = ''q'', wa_result_ids = [''r''], wa_summary = ''ok'', wa_limits = []\<rparr>"

section \<open>Evaluation\<close>

text \<open>Printed text stays symbolic: only its length and its validity matter.\<close>

lemma demo_text_length [simp]: "length (demo_text s) = 2 * length s + 1"
  by (induction s) simp_all

lemma demo_lengths [simp]:
  "length (demo_print JNull) = 1"
  "length (demo_print (JBool b)) = 1"
  "length (demo_print (JString s)) = 2 * length s + 2"
  "length (demo_print (JArray vs)) = 2 + sum_list (map (\<lambda>v. 1 + length (demo_print v)) vs)"
  "length (demo_print (JObject kvs)) = 2 + sum_list (map (\<lambda>(k, v). 2 * length k + 2 + length (demo_print v)) kvs)"
  by (simp_all add: demo_print.simps length_concat comp_def case_prod_beta')

lemma demo_printers [simp]: "jc_print demo_codec = demo_print" "jc_print_value demo_codec = demo_print"
  by (simp_all add: demo_codec_def)

lemma demo_reads [simp]:
  "jc_sql_valid demo_codec (demo_print v)"
  "jc_parse_texts demo_codec (demo_print (json_texts ids)) = Some ids"
  "jc_parse_assessment demo_codec (demo_print (assessment_json a)) = Some a"
  "jc_parse_result demo_codec (demo_print (result_json r)) = Some r"
  "jc_sql_each demo_codec (demo_print (json_texts ids)) = ids"
  using demo_codec_faithful unfolding codec_faithful_def demo_printers by blast+

lemma demo_reads_value [simp]: "jc_parse_value demo_codec (demo_print v) = Some v"
  by (simp add: demo_codec_def demo_parse_print)

definition demo_work_row :: work_row where
  "demo_work_row = \<lparr>wr_id = ''w'', wr_project_id = None, wr_owner_agent_id = ''ada'', wr_title = ''t'',
     wr_requirements_id = ''q'', wr_state = ''open'', wr_reason = None, wr_resume_condition = None,
     wr_user_hold = False, wr_assessment_json = None\<rparr>"

definition demo_created :: work_db where
  "demo_created = demo_start\<lparr>wd_works := [demo_work_row],
     wd_requirements := [requirements_row_of ''w'' demo_requirements],
     wd_commands := [receipt_of demo_codec ''1'' ''ada'' (CreateWork demo_work)]\<rparr>"

lemmas command_defs = apply_work_command_def works_text_def works_encode_def works_agent_def find_command_def
  find_row_def execute_def commit_def

lemmas schema_defs = work_schema_def work_rows_checked_def work_keys_unique_def work_references_def
  work_row_checks_def requirements_keys_def between_def sql_length_def null_or_def deferred_references_def

lemmas demo_defs = demo_start_def demo_requirements_def demo_work_def demo_work_row_def demo_result_def
  demo_assessment_def requirements_row_of_def receipt_of_def

lemma demo_creation:
  "apply_work_command demo_codec demo_clock ''ada'' ''1'' (CreateWork demo_work) True demo_start = Inr demo_created"
proof -
  have "length (demo_print (command_json (CreateWork demo_work))) \<le> 65536"
    by (simp add: tagged_def work_json_def demo_work_def demo_requirements_def requirements_json_def json_text_def
        json_option_def state_name_def)
  then show ?thesis
    by (simp add: command_defs create_work_def works_authority_def works_requirements_def demo_created_def
        schema_defs demo_defs)
qed

end
