(* ===== verification/Work_Claims.thy ===== *)
theory Work_Claims
  imports Work_Demo
begin

text \<open>
  The main properties of the Work store, each with a witness on the small store of
  \<open>Work_Demo\<close>: refinement of the step relations, the meaning of completion, holds, final
  cancellation, append-only history and exactly-once commands.
\<close>

section \<open>Demo runs\<close>

definition demo_held :: work_db where
  "demo_held = demo_created\<lparr>wd_works := [demo_work_row\<lparr>wr_state := ''blocked'', wr_reason := Some ''why'',
       wr_resume_condition := Some ''until'', wr_user_hold := True\<rparr>],
     wd_commands := wd_commands demo_created @ [receipt_of demo_codec ''2'' ''ada''
       (SetState ''w'' ''q'' WorkBlocked (Some ''why'') (Some ''until'') True)]\<rparr>"

definition demo_resulted :: work_db where
  "demo_resulted = demo_created\<lparr>wd_results := [result_row_of demo_codec demo_result],
     wd_commands := wd_commands demo_created @ [receipt_of demo_codec ''2'' ''ada'' (RecordResult demo_result)]\<rparr>"

definition demo_completed :: work_db where
  "demo_completed = demo_resulted\<lparr>wd_works := [completed_row (demo_print (assessment_json demo_assessment)) demo_work_row],
     wd_commands := wd_commands demo_resulted @ [receipt_of demo_codec ''3'' ''ada''
       (CompleteWork ''w'' ''q'' demo_assessment)]\<rparr>"

definition demo_cancelled :: work_db where
  "demo_cancelled = demo_created\<lparr>wd_works := [demo_work_row\<lparr>wr_state := ''cancelled'', wr_reason := Some ''why''\<rparr>],
     wd_commands := wd_commands demo_created @ [receipt_of demo_codec ''2'' ''ada''
       (SetState ''w'' ''q'' WorkCancelled (Some ''why'') None False)]\<rparr>"

lemmas demo_states = demo_created_def demo_held_def demo_resulted_def demo_completed_def demo_cancelled_def

lemmas read_defs = works_owner_def read_work_def find_work_def find_requirements_def parse_work_state_def
  works_active_def

lemmas json_defs = tagged_def json_text_def json_texts_def json_option_def state_name_def assessment_json_def
  result_json_def

lemma demo_steps:
  "apply_work_command demo_codec demo_clock ''ada'' ''2''
     (SetState ''w'' ''q'' WorkBlocked (Some ''why'') (Some ''until'') True) True demo_created = Inr demo_held"
  "apply_work_command demo_codec demo_clock ''ada'' ''2'' (RecordResult demo_result) False demo_created = Inr demo_resulted"
  "apply_work_command demo_codec demo_clock ''ada'' ''3'' (CompleteWork ''w'' ''q'' demo_assessment) False demo_resulted =
     Inr demo_completed"
  "apply_work_command demo_codec demo_clock ''ada'' ''2'' (SetState ''w'' ''q'' WorkCancelled (Some ''why'') None False)
     False demo_created = Inr demo_cancelled"
proof -
  show "apply_work_command demo_codec demo_clock ''ada'' ''2''
     (SetState ''w'' ''q'' WorkBlocked (Some ''why'') (Some ''until'') True) True demo_created = Inr demo_held"
  proof -
    have "length (demo_print (command_json (SetState ''w'' ''q'' WorkBlocked (Some ''why'') (Some ''until'') True))) \<le> 65536"
      by (simp add: json_defs)
    then show ?thesis
      by (simp add: command_defs set_state_def update_works_def update_rows_def read_defs demo_states schema_defs
          demo_defs state_name_def Let_def)
  qed
  show "apply_work_command demo_codec demo_clock ''ada'' ''2'' (RecordResult demo_result) False demo_created = Inr demo_resulted"
  proof -
    have "length (demo_print (command_json (RecordResult demo_result))) \<le> 65536"
      "length (demo_print (result_json demo_result)) \<le> 65536" by (simp_all add: json_defs demo_result_def)
    then show ?thesis
      by (simp add: command_defs record_result_def result_row_of_def read_defs demo_states schema_defs
          demo_defs Let_def)
  qed
  show "apply_work_command demo_codec demo_clock ''ada'' ''3'' (CompleteWork ''w'' ''q'' demo_assessment) False demo_resulted =
     Inr demo_completed"
  proof -
    have "length (demo_print (command_json (CompleteWork ''w'' ''q'' demo_assessment))) \<le> 65536"
      "length (demo_print (assessment_json demo_assessment)) \<le> 65536" by (simp_all add: json_defs demo_assessment_def)
    then show ?thesis
      by (simp add: command_defs complete_work_def update_works_def update_rows_def read_defs demo_states schema_defs
          demo_defs result_row_of_def result_counts_def request_waiting_def completed_row_def Let_def)
  qed
  show "apply_work_command demo_codec demo_clock ''ada'' ''2'' (SetState ''w'' ''q'' WorkCancelled (Some ''why'') None False)
     False demo_created = Inr demo_cancelled"
  proof -
    have "length (demo_print (command_json (SetState ''w'' ''q'' WorkCancelled (Some ''why'') None False))) \<le> 65536"
      by (simp add: json_defs)
    then show ?thesis
      by (simp add: command_defs set_state_def update_works_def update_requests_def cancel_work_def update_rows_def
          read_defs demo_states schema_defs demo_defs state_name_def Let_def)
  qed
qed

lemma demo_start_inv: "work_inv demo_codec demo_start"
  by (simp add: work_inv_def works_meant_def find_work_def find_row_def schema_defs demo_start_def)

lemma demo_run:
  "(work_transaction demo_codec True)\<^sup>*\<^sup>* demo_start demo_created"
  "(work_transaction demo_codec True)\<^sup>*\<^sup>* demo_start demo_held"
  "(work_transaction demo_codec user)\<^sup>*\<^sup>* demo_created demo_resulted"
  "(work_transaction demo_codec user)\<^sup>*\<^sup>* demo_created demo_completed"
proof -
  have s: "work_transaction demo_codec True demo_start demo_created" "work_transaction demo_codec True demo_created demo_held"
    "work_transaction demo_codec user demo_created demo_resulted" "work_transaction demo_codec user demo_resulted demo_completed"
    for user using demo_creation demo_steps(1-3) by (auto intro: work_transaction.command)
  show "(work_transaction demo_codec True)\<^sup>*\<^sup>* demo_start demo_created" using s(1) by blast
  then show "(work_transaction demo_codec True)\<^sup>*\<^sup>* demo_start demo_held" using s(2) by (rule rtranclp.rtrancl_into_rtrancl)
  show "(work_transaction demo_codec user)\<^sup>*\<^sup>* demo_created demo_resulted" using s(3) by blast
  then show "(work_transaction demo_codec user)\<^sup>*\<^sup>* demo_created demo_completed"
    using s(4) by (rule rtranclp.rtrancl_into_rtrancl)
qed

lemma demo_invs: "work_inv demo_codec demo_created" "work_inv demo_codec demo_held"
  using run_effect [OF demo_run(1) demo_codec_faithful demo_start_inv]
    run_effect [OF demo_run(2) demo_codec_faithful demo_start_inv] by simp_all

lemma demo_rows: "find_work demo_created ''w'' = Some demo_work_row"
  "find_work demo_held ''w'' = Some (demo_work_row\<lparr>wr_state := ''blocked'', wr_reason := Some ''why'',
     wr_resume_condition := Some ''until'', wr_user_hold := True\<rparr>)"
  "find_work demo_completed ''w'' = Some (completed_row (demo_print (assessment_json demo_assessment)) demo_work_row)"
  by (simp_all add: find_work_def find_row_def demo_states demo_work_row_def completed_row_def)

section \<open>Refinement\<close>

text \<open>
  C26. The commands refine the step relations. A command that succeeds under a new id commits
  one step of at most one Work, taken by the Agent that sent it and with no more authority
  than it had, and at most one step of each request; it loses no row and appends its receipt.
  Under an id already used it changes nothing.
\<close>

theorem work_commands_refine:
  assumes "codec_faithful jc" "work_inv jc db" "apply_work_command jc clock actor k command user db = Inr db'"
  shows "find_command db k \<noteq> None \<and> db' = db \<or>
    find_command db k = None \<and> works_move jc actor user db db' \<and> requests_move actor db db' \<and>
    ledger_grows db db' \<and> work_inv jc db' \<and> wd_commands db' = wd_commands db @ [receipt_of jc k actor command]"
proof (cases "find_command db k")
  case None
  then show ?thesis using command_effect [OF assms(3,1,2) None] by simp
next
  case (Some saved)
  have "db' = db" using assms(3) by (cases rule: apply_work_command_Ok) (use Some in simp_all)
  with Some show ?thesis by simp
qed

theorem work_commands_refine_witness:
  "works_move demo_codec ''ada'' True demo_created demo_held \<and> requests_move ''ada'' demo_created demo_held \<and>
    find_work demo_held ''w'' \<noteq> find_work demo_created ''w''"
proof -
  have "find_command demo_created ''2'' = None"
    by (simp add: find_command_def find_row_def demo_created_def receipt_of_def)
  then show ?thesis
    using work_commands_refine [OF demo_codec_faithful demo_invs(1) demo_steps(1)]
    by (simp add: demo_rows demo_work_row_def)
qed

section \<open>Completion\<close>

text \<open>
  C27. A completed Work is assessed. In every store that a run reaches, a Work that is completed
  carries an assessment of its current requirements, by at least one and at most 100 Results
  of this Work that were made for those requirements or explicitly rechecked against them, and
  no required contribution to it is open.
\<close>

theorem completed_work_is_assessed:
  assumes "codec_faithful jc" "work_inv jc db" "(work_transaction jc user)\<^sup>*\<^sup>* db db'"
    and "find_work db' k = Some r" "wr_state r = ''completed''"
  shows "(\<exists>a. Option.bind (wr_assessment_json r) (jc_parse_assessment jc) = Some a \<and>
      wa_requirements_id a = wr_requirements_id r \<and> 1 \<le> length (wa_result_ids a) \<and> length (wa_result_ids a) \<le> 100 \<and>
      (\<forall>i \<in> set (wa_result_ids a). \<exists>s \<in> set (wd_results db'). sr_id s = i \<and> sr_work_id s = k \<and>
         (sr_requirements_id s = wr_requirements_id r \<or>
          (\<exists>v \<in> set (wd_reuses db'). ur_result_id v = i \<and> ur_work_id v = k \<and>
             ur_requirements_id v = wr_requirements_id r)))) \<and>
    \<not> (\<exists>q \<in> set (wd_requests db'). cq_work_id q = k \<and> cq_required q \<and> cq_state q \<noteq> ''closed'')"
proof -
  have "works_meant jc db'" using run_effect [OF assms(3,1,2)] by (simp add: work_inv_def)
  then have a: "assessed jc db' r" using assms(4,5) by (auto simp: works_meant_def work_meant_def)
  have "wr_id r = k" using find_work_id [OF assms(4)] by simp
  with a have "\<exists>a. Option.bind (wr_assessment_json r) (jc_parse_assessment jc) = Some a \<and>
      wa_requirements_id a = wr_requirements_id r \<and> 1 \<le> length (wa_result_ids a) \<and> length (wa_result_ids a) \<le> 100 \<and>
      (\<forall>i \<in> set (wa_result_ids a). \<exists>s \<in> set (wd_results db'). sr_id s = i \<and> sr_work_id s = k \<and>
         (sr_requirements_id s = wr_requirements_id r \<or>
          (\<exists>v \<in> set (wd_reuses db'). ur_result_id v = i \<and> ur_work_id v = k \<and>
             ur_requirements_id v = wr_requirements_id r)))"
    unfolding assessed_def result_counts_def list_ex_iff
    by (elim conjE exE, rename_tac t a, rule_tac x = a in exI) (force simp: Suc_le_eq)
  moreover have "\<not> (\<exists>q \<in> set (wd_requests db'). cq_work_id q = k \<and> cq_required q \<and> cq_state q \<noteq> ''closed'')"
    using a \<open>wr_id r = k\<close> by (simp add: assessed_def request_waiting_def list_ex_iff)
  ultimately show ?thesis ..
qed

theorem completed_work_is_assessed_witness:
  "\<exists>a. Option.bind (wr_assessment_json (completed_row (demo_print (assessment_json demo_assessment)) demo_work_row))
      (jc_parse_assessment demo_codec) = Some a \<and> wa_requirements_id a = ''q''"
proof -
  have "wr_state (completed_row (demo_print (assessment_json demo_assessment)) demo_work_row) = ''completed''"
    "wr_requirements_id (completed_row (demo_print (assessment_json demo_assessment)) demo_work_row) = ''q''"
    by (simp_all add: completed_row_def demo_work_row_def)
  then show ?thesis
    using completed_work_is_assessed [OF demo_codec_faithful demo_invs(1) demo_run(4) demo_rows(3)] by auto
qed

section \<open>Holds and cancellation\<close>

lemma held_step:
  assumes "work_step judged actor user (Some x) y" "\<not> user" "wr_state x = ''blocked''" "wr_user_hold x"
  shows "wr_state y = ''blocked'' \<and> wr_user_hold y \<and> wr_reason y = wr_reason x \<and>
    wr_resume_condition y = wr_resume_condition x"
  by (rule work_step_Some [OF assms(1)]) (use assms(2-4) in \<open>simp_all add: revised_row_def\<close>)

lemma cancelled_step:
  assumes "work_step judged actor user (Some x) y"
  shows "wr_state x \<noteq> ''cancelled''"
proof
  assume "wr_state x = ''cancelled''"
  then show False by (rule_tac work_step_Some [OF assms]) simp_all
qed

text \<open>
  C14. A user hold stands until the user lifts it. A Work that is blocked under a user hold stays
  blocked, held and with its reason and resume condition through every run in which no command
  carries the authority of the user, whatever the Agents, its owner included, send.
\<close>

theorem user_hold_stands:
  assumes "codec_faithful jc" "work_inv jc db" "(work_transaction jc False)\<^sup>*\<^sup>* db db'"
    and "find_work db k = Some r" "wr_state r = ''blocked''" "wr_user_hold r"
  shows "\<exists>r'. find_work db' k = Some r' \<and> wr_state r' = ''blocked'' \<and> wr_user_hold r' \<and>
    wr_reason r' = wr_reason r \<and> wr_resume_condition r' = wr_resume_condition r"
proof (rule run_keeps [where Q = "\<lambda>d. \<exists>r'. find_work d k = Some r' \<and> wr_state r' = ''blocked'' \<and> wr_user_hold r' \<and>
    wr_reason r' = wr_reason r \<and> wr_resume_condition r' = wr_resume_condition r", OF assms(3,1,2)])
  show "\<exists>r'. find_work db k = Some r' \<and> wr_state r' = ''blocked'' \<and> wr_user_hold r' \<and>
    wr_reason r' = wr_reason r \<and> wr_resume_condition r' = wr_resume_condition r" using assms(4-6) by blast
  fix d d'
  assume moves: "store_moves jc False d d'" and "\<exists>r'. find_work d k = Some r' \<and> wr_state r' = ''blocked'' \<and>
    wr_user_hold r' \<and> wr_reason r' = wr_reason r \<and> wr_resume_condition r' = wr_resume_condition r"
  then obtain x where x: "find_work d k = Some x" "wr_state x = ''blocked''" "wr_user_hold x"
    "wr_reason x = wr_reason r" "wr_resume_condition x = wr_resume_condition r" by blast
  show "\<exists>r'. find_work d' k = Some r' \<and> wr_state r' = ''blocked'' \<and> wr_user_hold r' \<and>
    wr_reason r' = wr_reason r \<and> wr_resume_condition r' = wr_resume_condition r"
    using moves x(1)
  proof (cases rule: store_moves_work)
    case (2 actor authority y)
    have "\<not> authority" using 2(1) by simp
    from held_step [OF 2(3) this x(2,3)] show ?thesis using x(4,5) 2(2) by simp
  qed (use x in blast)
qed

theorem user_hold_stands_witness:
  "\<exists>r'. find_work demo_held ''w'' = Some r' \<and> wr_state r' = ''blocked'' \<and> wr_user_hold r' \<and>
    wr_reason r' = Some ''why''"
proof -
  have "(work_transaction demo_codec False)\<^sup>*\<^sup>* demo_held demo_held" by simp
  from user_hold_stands [OF demo_codec_faithful demo_invs(2) this demo_rows(2)] show ?thesis by auto
qed

text \<open>
  C28. Cancellation is final. After the owner has cancelled a Work, its row never changes again,
  in any run of any transactions, and no request for it is ever open.
\<close>

theorem cancellation_is_final:
  assumes "codec_faithful jc" "work_inv jc db" "find_command db c = None"
    and cancel: "apply_work_command jc clock actor c (SetState k expected WorkCancelled reason resume hold) authority db = Inr db0"
    and run: "(work_transaction jc user)\<^sup>*\<^sup>* db0 db'"
  shows "(\<exists>r. wr_state r = ''cancelled'' \<and> find_work db0 k = Some r \<and> find_work db' k = Some r) \<and>
    \<not> (\<exists>j q. find_request db' j = Some q \<and> cq_work_id q = k \<and> cq_state q \<noteq> ''closed'')"
proof -
  obtain db1 where c: "set_state jc actor k expected WorkCancelled reason resume hold authority (db\<lparr>wd_clock := clock\<rparr>) = Inr db1"
    and db0: "db0 = db1\<lparr>wd_commands := wd_commands db1 @
      [receipt_of jc c actor (SetState k expected WorkCancelled reason resume hold)]\<rparr>"
    using cancel by (cases rule: apply_work_command_Ok) (use assms(3) in auto)
  obtain w where w: "works_owner jc (db\<lparr>wd_clock := clock\<rparr>) k actor expected = Inr w"
    and l: "ledger db1 = (ledger (db\<lparr>wd_clock := clock\<rparr>))\<lparr>wd_requests := (if WorkCancelled = WorkCancelled
         then update_rows (live_request k) cancelled_request (wd_requests (db\<lparr>wd_clock := clock\<rparr>))
         else wd_requests (db\<lparr>wd_clock := clock\<rparr>)),
       wd_works := update_rows (\<lambda>x. wr_id x = k) (\<lambda>x. x\<lparr>wr_state := state_name WorkCancelled, wr_reason := reason,
         wr_resume_condition := resume, wr_user_hold := hold\<rparr>) (wd_works (db\<lparr>wd_clock := clock\<rparr>))\<rparr>"
    by (rule set_state_Ok [OF c])
  obtain x where x: "find_work db k = Some x" using owner_step [OF w] by auto
  let ?r = "x\<lparr>wr_state := ''cancelled'', wr_reason := reason, wr_resume_condition := resume, wr_user_hold := hold\<rparr>"
  have "find_work db0 = (find_work db)(k \<mapsto> ?r)"
    by (rule find_work_updated [OF _ x]) (use arg_cong [OF l, of wd_works] in \<open>simp_all add: db0 state_name_def\<close>)
  then have row: "find_work db0 k = Some ?r" by simp
  have requests: "wd_requests db0 = update_rows (live_request k) cancelled_request (wd_requests db)"
    using arg_cong [OF l, of wd_requests] by (simp add: db0)
  have closed0: "cq_state q = ''closed''" if q: "find_request db0 j = Some q" "cq_work_id q = k" for j q
  proof -
    obtain r where "q = (if live_request k r then cancelled_request r else r)"
      using find_request_id [OF q(1)] unfolding requests set_update_rows by blast
    then show ?thesis using q(2) by (cases "live_request k r") (auto simp: live_request_def cancelled_request_def)
  qed
  let ?Q = "\<lambda>d. find_work d k = Some ?r \<and> (\<forall>j q. find_request d j = Some q \<longrightarrow> cq_work_id q = k \<longrightarrow> cq_state q = ''closed'')"
  have inv: "work_inv jc db0" using command_effect(4) [OF cancel assms(1-3)] .
  have "?Q db'"
  proof (rule run_keeps [where Q = ?Q, OF run assms(1) inv])
    show "?Q db0" using row closed0 by blast
    fix d d'
    assume moves: "store_moves jc user d d'" and Q: "?Q d"
    have "find_work d' k = Some ?r"
      using moves Q [THEN conjunct1]
    proof (cases rule: store_moves_work)
      case (2 actor' authority' y)
      from cancelled_step [OF 2(3)] show ?thesis by simp
    qed
    moreover have "cq_state q = ''closed''" if q: "find_request d' j = Some q" "cq_work_id q = k" for j q
    proof (rule ccontr)
      assume open_request: "cq_state q \<noteq> ''closed''"
      then have "find_request d j \<noteq> Some q" using Q q(2) by blast
      then obtain actor' where "request_step actor' (find_work d) (find_request d j) q"
        using moves q(1) unfolding store_moves_def requests_move_def by (metis option.inject)
      from this open_request have "\<exists>w. find_work d (cq_work_id q) = Some w \<and> wr_state w \<in> {''open'', ''blocked''}"
        by (cases rule: request_step.cases) (auto simp: cancelled_request_def)
      with Q q(2) show False by simp
    qed
    ultimately show "?Q d'" by blast
  qed
  moreover have "wr_state ?r = ''cancelled''" by simp
  ultimately show ?thesis using row by blast
qed

theorem cancellation_is_final_witness:
  "\<exists>r. wr_state r = ''cancelled'' \<and> find_work demo_cancelled ''w'' = Some r"
proof -
  have "find_command demo_created ''2'' = None"
    by (simp add: find_command_def find_row_def demo_created_def receipt_of_def)
  moreover have "(work_transaction demo_codec True)\<^sup>*\<^sup>* demo_cancelled demo_cancelled" by simp
  ultimately show ?thesis
    using cancellation_is_final [OF demo_codec_faithful demo_invs(1) _ demo_steps(4)] by blast
qed

section \<open>History\<close>

text \<open>
  The record is append-only. Through every run a Work keeps its project, owner and title, and
  every requirements revision, instruction, Material, Result and receipt that was stored is
  stored unchanged; a request keeps its Work, recipient and whether it is required.
\<close>

lemma record_is_append_only:
  assumes "codec_faithful jc" "work_inv jc db" "(work_transaction jc user)\<^sup>*\<^sup>* db db'"
  shows "(\<forall>k r. find_work db k = Some r \<longrightarrow> (\<exists>r'. find_work db' k = Some r' \<and> work_identity r' = work_identity r)) \<and>
    (\<forall>j q. find_request db j = Some q \<longrightarrow> (\<exists>q'. find_request db' j = Some q' \<and> request_identity q' = request_identity q)) \<and>
    set (wd_requirements db) \<subseteq> set (wd_requirements db') \<and> set (wd_instructions db) \<subseteq> set (wd_instructions db') \<and>
    set (wd_materials db) \<subseteq> set (wd_materials db') \<and> set (wd_results db) \<subseteq> set (wd_results db') \<and>
    set (wd_commands db) \<subseteq> set (wd_commands db')"
proof -
  have e: "work_inv jc db'" "ledger_grows db db'" using run_effect [OF assms(3,1,2)] by simp_all
  note d = schema_distinct [OF e(1) [unfolded work_inv_def, THEN conjunct1]]
  have works: "\<exists>r'. find_work db' k = Some r' \<and> work_identity r' = work_identity r" if r: "find_work db k = Some r" for k r
  proof -
    have "work_identity r \<in> set (map work_identity (wd_works db'))"
      using e(2) find_work_id [OF r] appends_set unfolding ledger_grows_def by (metis image_eqI list.set_map subsetD)
    then obtain r' where r': "r' \<in> set (wd_works db')" "work_identity r' = work_identity r" by auto
    then have "find_work db' k = Some r'"
      using find_row_distinct [OF d(1) r'(1)] find_work_id [OF r] by (simp add: find_work_def work_identity_def)
    with r'(2) show ?thesis by blast
  qed
  have requests: "\<exists>q'. find_request db' j = Some q' \<and> request_identity q' = request_identity q"
    if q: "find_request db j = Some q" for j q
  proof -
    have "request_identity q \<in> set (map request_identity (wd_requests db'))"
      using e(2) find_request_id [OF q] appends_set unfolding ledger_grows_def by (metis image_eqI list.set_map subsetD)
    then obtain q' where q': "q' \<in> set (wd_requests db')" "request_identity q' = request_identity q" by auto
    then have "find_request db' j = Some q'"
      using find_row_distinct [OF d(2) q'(1)] find_request_id [OF q] by (simp add: find_request_def request_identity_def)
    with q'(2) show ?thesis by blast
  qed
  have "set (wd_requirements db) \<subseteq> set (wd_requirements db')" "set (wd_instructions db) \<subseteq> set (wd_instructions db')"
    "set (wd_materials db) \<subseteq> set (wd_materials db')" "set (wd_results db) \<subseteq> set (wd_results db')"
    "set (wd_commands db) \<subseteq> set (wd_commands db')"
    using e(2) appends_set unfolding ledger_grows_def by blast+
  then show ?thesis using works requests by blast
qed

lemma record_is_append_only_witness:
  "set (wd_requirements demo_created) \<subseteq> set (wd_requirements demo_completed) \<and>
    (\<exists>r'. find_work demo_completed ''w'' = Some r' \<and> work_identity r' = work_identity demo_work_row)"
  using record_is_append_only [OF demo_codec_faithful demo_invs(1) demo_run(4)] demo_rows(1) by blast

text \<open>
  C29. Commands are applied once. After a command has been committed under an id, in every store
  that any run reaches, the same command of the same Agent under that id is reported as
  applied and changes nothing, and any other command or Agent under that id is refused.
\<close>

theorem command_applies_once:
  assumes "codec_faithful jc" "work_inv jc db" "apply_work_command jc clock actor k command authority db = Inr db0"
    and "(work_transaction jc user)\<^sup>*\<^sup>* db0 db'"
  shows "apply_work_command jc clock' actor k command authority' db' = Inr db' \<and>
    work_command_applied jc actor k command db' = Inr True \<and>
    ((actor', command') \<noteq> (actor, command) \<longrightarrow>
       (\<exists>e. apply_work_command jc clock' actor' k command' authority' db' = Inl e))"
proof -
  have enc: "works_text k 512 = Inr ()" "works_encode (jc_print jc (command_json command)) = Inr (jc_print jc (command_json command))"
    using assms(3) by (auto simp: apply_work_command_def and_then_Ok_iff works_encode_Ok_iff)
  have first: "work_inv jc db0 \<and> (\<exists>saved. find_command db0 k = Some saved \<and> cm_agent_id saved = actor \<and>
      cm_command_json saved = jc_print jc (command_json command))"
  proof (cases "find_command db k")
    case None
    note e = command_effect [OF assms(3,1,2) None]
    have "find_command db0 k = Some (receipt_of jc k actor command)"
      using None by (simp add: find_command_def e(5) find_row_append receipt_of_def)
    then show ?thesis using e(4) by (simp add: receipt_of_def)
  next
    case (Some saved)
    from assms(3) show ?thesis by (cases rule: apply_work_command_Ok) (use Some assms(2) in simp_all)
  qed
  then obtain saved where saved: "find_command db0 k = Some saved" "cm_agent_id saved = actor"
    "cm_command_json saved = jc_print jc (command_json command)" by blast
  have e: "work_inv jc db'" "ledger_grows db0 db'" using run_effect [OF assms(4,1)] first by simp_all
  have schema: "work_schema jc db'" using e(1) by (simp add: work_inv_def)
  have "saved \<in> set (wd_commands db')" "cm_id saved = k"
    using find_row_Some [OF saved(1) [unfolded find_command_def]] e(2) appends_set
    unfolding ledger_grows_def by blast+
  then have found: "find_command db' k = Some saved"
    using find_row_distinct [OF schema_distinct(5) [OF schema], of saved] by (simp add: find_command_def)
  have "actor \<in> set (wd_agents db')"
    using schema \<open>saved \<in> set (wd_commands db')\<close> saved(2)
    by (auto simp: work_schema_def work_references_def list_all_iff)
  then have "apply_work_command jc clock' actor k command authority' db' = Inr db'"
    using enc found saved(2,3) by (simp add: apply_work_command_def works_agent_def)
  moreover have "work_command_applied jc actor k command db' = Inr True"
    using enc(2) found saved(2,3) by (simp add: work_command_applied_def)
  moreover have "\<exists>e. apply_work_command jc clock' actor' k command' authority' db' = Inl e"
    if other: "(actor', command') \<noteq> (actor, command)"
  proof (rule ccontr)
    assume "\<nexists>e. apply_work_command jc clock' actor' k command' authority' db' = Inl e"
    then obtain db2 where ok: "apply_work_command jc clock' actor' k command' authority' db' = Inr db2"
      by (metis sum.exhaust)
    from ok have "cm_agent_id saved = actor' \<and> cm_command_json saved = jc_print jc (command_json command')"
      by (cases rule: apply_work_command_Ok) (use found in simp_all)
    then show False using other saved(2,3) by (simp add: codec_print_inj [OF assms(1)])
  qed
  ultimately show ?thesis by blast
qed

theorem command_applies_once_witness:
  "apply_work_command demo_codec demo_clock ''ada'' ''2'' (RecordResult demo_result) False demo_completed = Inr demo_completed \<and>
    (\<exists>e. apply_work_command demo_codec demo_clock ''bo'' ''2'' (RecordResult demo_result) False demo_completed = Inl e)"
proof -
  have "(work_transaction demo_codec True)\<^sup>*\<^sup>* demo_resulted demo_completed"
    using demo_steps(3) by (auto intro: work_transaction.command)
  from command_applies_once [OF demo_codec_faithful demo_invs(1) demo_steps(2) this, of demo_clock False "''bo''" "RecordResult demo_result"]
  show ?thesis by simp
qed

end
