(* ===== verification/Work_Outcomes.thy ===== *)
theory Work_Outcomes
  imports Work_Claims
begin

text \<open>
  The exact outcome of two commands: when a Work can be completed, and what a Result that
  answers an instruction changes.
\<close>

section \<open>Completing a Work\<close>

text \<open>A Work that is not completed can be read.\<close>

lemma read_uncompleted:
  assumes "work_inv jc db" "find_work db k = Some r" "wr_state r \<noteq> ''completed''"
  obtains w where "read_work jc db k = Inr w" "shows_work r w"
proof -
  have r: "r \<in> set (wd_works db)" "wr_id r = k" using find_work_id [OF assms(2)] by simp_all
  have "(k, wr_requirements_id r) \<in> requirements_keys db"
    using assms(1) r by (auto simp: work_inv_def deferred_references_def list_all_iff)
  then have "find_requirements db k (wr_requirements_id r) \<noteq> None"
    by (auto simp: find_requirements_def requirements_keys_def find_None_iff)
  then obtain q where q: "find_requirements db k (wr_requirements_id r) = Some q" by blast
  have none: "wr_assessment_json r = None"
    using assms by (auto simp: work_inv_def works_meant_def work_meant_def)
  have "wr_state r \<in> {''open'', ''blocked'', ''completed'', ''cancelled''}"
    using assms(1) r(1) by (auto simp: work_inv_def work_schema_def work_rows_checked_def work_row_checks_def list_all_iff)
  moreover have "{''open'', ''blocked'', ''completed'', ''cancelled''} = range state_name"
    by (auto simp: state_name_def image_iff split: work_state.splits intro: work_state.exhaust)
  ultimately obtain state where "wr_state r = state_name state" by auto
  then have state: "parse_work_state (wr_state r) = Inr state" by (simp add: parse_work_state_Ok_iff)
  have "\<exists>w. read_work jc db k = Inr w" using assms(2) q none state r(2) by (simp add: read_work_def)
  then obtain w where w: "read_work jc db k = Inr w" ..
  from read_work_Ok [OF w] obtain r' where "find_work db k = Some r'" "shows_work r' w" by blast
  then show thesis using that [OF w] assms(2) by simp
qed

lemma completed_schema:
  assumes "work_schema jc db" "codec_faithful jc"
  shows "work_schema jc (db\<lparr>wd_works := update_rows (\<lambda>r. wr_id r = k) (completed_row (jc_print jc (assessment_json a)))
    (wd_works db)\<rparr>)"
proof -
  let ?f = "completed_row (jc_print jc (assessment_json a))"
  let ?t = "update_rows (\<lambda>r. wr_id r = k) ?f (wd_works db)"
  have ids: "map wr_id ?t = map wr_id (wd_works db)" by (rule map_update_rows) (simp add: completed_row_def)
  then have set_ids: "wr_id ` set ?t = wr_id ` set (wd_works db)" by (metis set_map)
  have valid: "jc_sql_valid jc (jc_print jc (assessment_json a))" using assms(2) by (simp add: codec_faithful_def)
  have row: "work_row_checks jc (?f q)" if "work_row_checks jc q" for q
    using that valid by (simp add: work_row_checks_def completed_row_def null_or_def)
  have "list_all (work_row_checks jc) (wd_works db)"
    using assms(1) by (simp add: work_schema_def work_rows_checked_def)
  then have rows: "list_all (work_row_checks jc) ?t"
    using row by (auto simp: list_all_iff set_update_rows)
  have refs: "list_all (\<lambda>r. null_or (\<lambda>p. p \<in> set (wd_projects db)) (wr_project_id r) \<and>
       wr_owner_agent_id r \<in> set (wd_agents db)) ?t"
    using assms(1) by (auto simp: list_all_iff set_update_rows work_schema_def work_references_def completed_row_def)
  show ?thesis
    using assms(1) rows refs
    by (simp add: work_schema_def work_rows_checked_def work_keys_unique_def work_references_def requirements_keys_def
        ids set_ids)
qed

text \<open>
  C7. When a Work can be completed. On a store that satisfies its invariant, the completion of a
  Work succeeds exactly when it is open, the sender owns it and names its current requirements,
  the assessment is one of those requirements with 1 to 100 Results, each made for them or
  rechecked against them, with a summary in bounds, no required contribution is open, and the
  record fits 64 KiB; the Work then is completed with that assessment.
\<close>

theorem completion_exact:
  assumes "codec_faithful jc" "work_inv jc db" "find_work db k = Some r"
  shows "complete_work jc actor k expected a db = Inr db' \<longleftrightarrow>
    wr_state r = ''open'' \<and> wr_owner_agent_id r = actor \<and> wr_requirements_id r = expected \<and>
    wa_requirements_id a = expected \<and> 1 \<le> length (wa_result_ids a) \<and> length (wa_result_ids a) \<le> 100 \<and>
    \<not> blank (wa_summary a) \<and> length (wa_summary a) \<le> 16384 \<and>
    (\<forall>i \<in> set (wa_result_ids a). result_counts db k expected i) \<and> \<not> request_waiting db k \<and>
    length (jc_print jc (assessment_json a)) \<le> 65536 \<and>
    db' = db\<lparr>wd_works := update_rows (\<lambda>x. wr_id x = k) (completed_row (jc_print jc (assessment_json a))) (wd_works db)\<rparr>"
    (is "?lhs \<longleftrightarrow> ?rhs")
proof -
  let ?u = "update_works jc k (\<lambda>x. x\<lparr>wr_state := ''completed'', wr_reason := None,
    wr_resume_condition := None, wr_assessment_json := Some (jc_print jc (assessment_json a))\<rparr>) db"
  have update: "?u = Inr (db\<lparr>wd_works := update_rows (\<lambda>x. wr_id x = k)
      (completed_row (jc_print jc (assessment_json a))) (wd_works db)\<rparr>)"
  proof -
    have f: "(\<lambda>x. x\<lparr>wr_state := ''completed'', wr_reason := None, wr_resume_condition := None,
        wr_assessment_json := Some (jc_print jc (assessment_json a))\<rparr>) = completed_row (jc_print jc (assessment_json a))"
      by (rule ext) (simp add: completed_row_def)
    show ?thesis
      unfolding update_works_def f using completed_schema [OF _ assms(1)] assms(2) by (simp add: execute_def work_inv_def)
  qed
  show ?thesis
  proof
    assume ?lhs
    then obtain w where w: "works_owner jc db k actor expected = Inr w" "wk_state w = WorkOpen"
      and g: "wa_requirements_id a = expected" "wa_result_ids a \<noteq> []" "length (wa_result_ids a) \<le> 100"
        "\<not> blank (wa_summary a)" "length (wa_summary a) \<le> 16384" "list_all (result_counts db k expected) (wa_result_ids a)"
        "\<not> request_waiting db k" "length (jc_print jc (assessment_json a)) \<le> 65536" "?u = Inr db'"
      by (auto simp: complete_work_def and_then_Ok_iff works_active_Ok_iff works_encode_Ok_iff works_text_Ok_iff
          split: if_splits)
    obtain x where "find_work db k = Some x" "wr_owner_agent_id x = actor" "wr_requirements_id x = expected"
      "wr_state x = state_name (wk_state w)" using owner_step [OF w(1)] by metis
    then show ?rhs using g w(2) assms(3) update by (simp add: state_name_def list_all_iff Suc_le_eq)
  next
    assume r: ?rhs
    then have "wr_state r \<noteq> ''completed''" by simp
    then obtain w where w: "read_work jc db k = Inr w" "shows_work r w" using read_uncompleted [OF assms(2,3)] by blast
    have "state_name (wk_state w) = state_name WorkOpen" using w(2) r by (simp add: shows_work_def state_name_open)
    then have "wk_state w = WorkOpen" by simp
    moreover have "works_owner jc db k actor expected = Inr w"
      using w r by (simp add: works_owner_Ok_iff shows_work_def)
    ultimately show ?lhs
      using r update
      by (auto simp: complete_work_def works_active_def works_text_def works_encode_def list_all_iff Suc_le_eq)
  qed
qed

theorem completion_exact_witness:
  "complete_work demo_codec ''ada'' ''w'' ''q'' demo_assessment demo_resulted =
    Inr (demo_resulted\<lparr>wd_works := update_rows (\<lambda>x. wr_id x = ''w'')
      (completed_row (demo_print (assessment_json demo_assessment))) (wd_works demo_resulted)\<rparr>)"
proof -
  have inv: "work_inv demo_codec demo_resulted"
    using run_effect [OF demo_run(3) demo_codec_faithful demo_invs(1)] by simp
  have row: "find_work demo_resulted ''w'' = Some demo_work_row"
    by (simp add: find_work_def find_row_def demo_states demo_work_row_def)
  have "length (demo_print (assessment_json demo_assessment)) \<le> 65536" by (simp add: json_defs demo_assessment_def)
  then show ?thesis
    by (subst completion_exact [OF demo_codec_faithful inv row])
      (simp add: demo_work_row_def demo_assessment_def result_counts_def request_waiting_def demo_states
        result_row_of_def demo_result_def demo_start_def)
qed

section \<open>Late Results\<close>

text \<open>
  Late Results are only evidence. A Result that names an instruction is accepted without any
  effect on Works, requests or the inbox when its Work is completed or cancelled, its
  requirements are no longer current, or its request is closed or carries a newer instruction.
\<close>

lemma late_result_is_only_evidence:
  assumes "record_result jc actor r db = Inr db'" "re_instruction_id r = Some instruction" "work_schema jc db"
    and "find_work db (re_work_id r) = Some w" "find_instruction db instruction = Some i"
    and "find_request db (ir_request_id i) = Some q"
    and late: "wr_state w \<in> {''completed'', ''cancelled''} \<or> wr_requirements_id w \<noteq> re_requirements_id r \<or>
      cq_state q = ''closed'' \<or> cq_instruction_id q \<noteq> instruction"
  shows "db' = db\<lparr>wd_results := wd_results db @ [result_row_of jc r]\<rparr>"
  using assms(1)
proof (rule record_result_Ok)
  fix v db1
  assume read: "read_work jc db (re_work_id r) = Inr v"
    and "case re_instruction_id r of None \<Rightarrow> wk_owner_agent_id v = actor \<and> db1 = db
     | Some instruction \<Rightarrow> returned jc actor v r instruction db = Inr db1"
    and db': "db' = db1\<lparr>wd_results := wd_results db1 @ [result_row_of jc r]\<rparr>"
  then have ret: "returned jc actor v r instruction db = Inr db1" using assms(2) by simp
  have "db1 = db"
  proof (rule ccontr)
    assume "db1 \<noteq> db"
    have v: "shows_work w v" using read_work_Ok [OF read] assms(4) by (metis option.inject)
    from ret obtain k p where p: "works_recipient jc db actor k instruction = Inr p" "cr_state p \<noteq> RequestClosed"
      "wk_state v = WorkOpen \<or> wk_state v = WorkBlocked" "re_requirements_id r = wq_id (wk_requirements v)"
      by (rule returned_Ok) (use \<open>db1 \<noteq> db\<close> in blast)+
    have req: "works_request jc db k = Inr p" "ci_id (cr_instruction p) = instruction"
      using p(1) by (simp_all add: works_recipient_Ok_iff)
    obtain q' i' where q': "find_request db k = Some q'" "i' \<in> set (wd_instructions db)" "ir_request_id i' = k"
      "ir_id i' = cq_instruction_id q'" "shows_request q' p" using works_request_Ok [OF req(1)] by metis
    have "cq_instruction_id q' = instruction" using q'(5) req(2) by (simp add: shows_request_def)
    then have "find_instruction db instruction = Some i'"
      using find_row_distinct [OF schema_distinct(4) [OF assms(3)] q'(2)] q'(4) by (simp add: find_instruction_def)
    then have "q' = q" using assms(5,6) q'(1,3) by simp
    moreover have "cq_state q' = collaboration_state_name (cr_state p)"
      using shown_request_state [OF schema_request_states [OF assms(3)] q'(5)] find_request_id [OF q'(1)] by simp
    then have "cq_state q' \<noteq> ''closed''" using p(2) by (cases "cr_state p") (simp_all add: collaboration_state_name_def)
    moreover have "wr_state w \<notin> {''completed'', ''cancelled''}" "wr_requirements_id w = re_requirements_id r"
      using v p(3,4) by (auto simp: shows_work_def state_name_def)
    ultimately show False using late \<open>cq_instruction_id q' = instruction\<close> by blast
  qed
  then show ?thesis by (simp add: db')
qed

text \<open>A cancelled Work with one request, closed with it, whose recipient answers late.\<close>

definition demo_late :: work_db where
  "demo_late = demo_created\<lparr>wd_works := [demo_work_row\<lparr>wr_state := ''cancelled'', wr_reason := Some ''why''\<rparr>],
     wd_requests := [\<lparr>cq_id = ''k'', cq_work_id = ''w'', cq_recipient_agent_id = ''bo'', cq_instruction_id = ''i'',
       cq_state = ''closed'', cq_required = True, cq_outcome = Some ''cancelled'', cq_note = None\<rparr>],
     wd_instructions := [\<lparr>ir_request_id = ''k'', ir_id = ''i'', ir_requirements_id = ''q'', ir_text = ''x'',
       ir_material_ids_json = demo_print (json_texts []), ir_event_id = 1\<rparr>],
     wd_inbox := [\<lparr>ib_id = 1, ib_source_event_id = ''e'', ib_work_item_id = ''bo'', ib_event_kind = ''n'',
       ib_payload = ''{}'', ib_created_at_micros = 7, ib_disposition = Some ''resolved'',
       ib_disposition_note = Some ''n'', ib_disposed_at_micros = Some 7, ib_delivery_work_item_id = None,
       ib_delivered_turn_id = None\<rparr>], wd_inbox_seq := 1\<rparr>"

definition demo_answer :: work_result where
  "demo_answer = demo_result\<lparr>re_agent_id := ''bo'', re_instruction_id := Some ''i''\<rparr>"

lemma late_result_is_only_evidence_witness:
  "record_result demo_codec ''bo'' demo_answer demo_late =
    Inr (demo_late\<lparr>wd_results := [result_row_of demo_codec demo_answer]\<rparr>)"
proof -
  have schema: "work_schema demo_codec demo_late"
    by (simp add: schema_defs demo_late_def demo_states demo_defs inbox_row_checks_def request_row_checks_def)
  have "length (demo_print (result_json demo_answer)) \<le> 65536"
    by (simp add: json_defs demo_answer_def demo_result_def)
  then obtain db' where run: "record_result demo_codec ''bo'' demo_answer demo_late = Inr db'"
    by (simp add: command_defs record_result_def returned_def works_request_def find_request_def find_instruction_def
        find_event_def read_defs schema_defs demo_late_def demo_states demo_defs demo_answer_def result_row_of_def
        inbox_row_checks_def request_row_checks_def parse_request_state_def works_decode_def Let_def)
  have rows: "find_work demo_late (re_work_id demo_answer) = Some (demo_work_row\<lparr>wr_state := ''cancelled'', wr_reason := Some ''why''\<rparr>)"
    "\<exists>i. find_instruction demo_late ''i'' = Some i \<and> ir_request_id i = ''k''"
    "\<exists>q. find_request demo_late ''k'' = Some q"
    by (simp_all add: find_work_def find_instruction_def find_request_def find_row_def demo_late_def demo_states
        demo_work_row_def demo_answer_def demo_result_def)
  have answer: "re_instruction_id demo_answer = Some ''i''" by (simp add: demo_answer_def)
  from rows(2,3) obtain i q where iq: "find_instruction demo_late ''i'' = Some i" "find_request demo_late (ir_request_id i) = Some q"
    by auto
  have "db' = demo_late\<lparr>wd_results := wd_results demo_late @ [result_row_of demo_codec demo_answer]\<rparr>"
    by (rule late_result_is_only_evidence [OF run answer schema rows(1) iq]) simp
  then show ?thesis using run by (simp add: demo_late_def demo_states demo_start_def)
qed

section \<open>Holds\<close>

text \<open>
  A hold stops every change of state that does not come from the user, but a user can hold a
  Work that stays open, and its owner can then complete it: \<^verbatim>\<open>complete\<close> does not read the hold.
\<close>

definition demo_held_open :: work_db where
  "demo_held_open = demo_resulted\<lparr>wd_works := [demo_work_row\<lparr>wr_user_hold := True\<rparr>]\<rparr>"

lemma held_open_work_completes:
  "set_state demo_codec ''ada'' ''w'' ''q'' WorkOpen None None True True demo_resulted = Inr demo_held_open"
  "complete_work demo_codec ''ada'' ''w'' ''q'' demo_assessment demo_held_open =
    Inr (demo_held_open\<lparr>wd_works := [completed_row (demo_print (assessment_json demo_assessment))
      (demo_work_row\<lparr>wr_user_hold := True\<rparr>)]\<rparr>)"
proof -
  show "set_state demo_codec ''ada'' ''w'' ''q'' WorkOpen None None True True demo_resulted = Inr demo_held_open"
    by (simp add: command_defs set_state_def update_works_def update_rows_def read_defs demo_held_open_def demo_states
        schema_defs demo_defs result_row_of_def state_name_def Let_def)
  have "length (demo_print (assessment_json demo_assessment)) \<le> 65536" by (simp add: json_defs demo_assessment_def)
  then show "complete_work demo_codec ''ada'' ''w'' ''q'' demo_assessment demo_held_open =
    Inr (demo_held_open\<lparr>wd_works := [completed_row (demo_print (assessment_json demo_assessment))
      (demo_work_row\<lparr>wr_user_hold := True\<rparr>)]\<rparr>)"
    by (simp add: command_defs complete_work_def update_works_def update_rows_def read_defs demo_held_open_def
        demo_states schema_defs demo_defs result_row_of_def result_counts_def request_waiting_def completed_row_def Let_def)
qed

end
