(* ===== verification/Work_Portfolio.thy ===== *)
theory Work_Portfolio
  imports Work_Outcomes Store_Reads
begin

text \<open>
  The readers of \<^verbatim>\<open>works.rs\<close>: the bounded portfolio of Works with their evidence, as the whole
  or as the scope of one Agent, the overview of headers, and the exact retained records. A table
  is in \<^verbatim>\<open>rowid\<close> order; a selection that SQL passes through \<^verbatim>\<open>json_each\<close> is the list itself.
\<close>

section \<open>The portfolio\<close>

record work_portfolio =
  wp_awaiting_assessment :: "string list"
  wp_summary_only :: bool
  wp_native_contributions :: "native_contribution list"
  wp_works :: "work list"
  wp_collaborations :: "collaboration_request list"
  wp_results :: "work_result list"
  wp_materials :: "material list"
  wp_has_more :: bool

definition page_size :: nat where "page_size = 100"

text \<open>\<^verbatim>\<open>?2 IS NULL OR \<dots>\<close>: without an Agent every row is in scope.\<close>

definition in_scope :: "(string \<Rightarrow> bool) \<Rightarrow> string option \<Rightarrow> bool" where
  "in_scope p agent = (case agent of None \<Rightarrow> True | Some a \<Rightarrow> p a)"

definition owns :: "work_db \<Rightarrow> string \<Rightarrow> string \<Rightarrow> bool" where
  "owns db work a = list_ex (\<lambda>w. wr_id w = work \<and> wr_owner_agent_id w = a) (wd_works db)"

definition asked :: "work_db \<Rightarrow> string \<Rightarrow> string \<Rightarrow> bool" where
  "asked db work a = list_ex (\<lambda>q. cq_work_id q = work \<and> cq_recipient_agent_id q = a) (wd_requests db)"

text \<open>The Material is selected by the instruction that a request to the Agent now carries.\<close>

definition given :: "json_codec \<Rightarrow> work_db \<Rightarrow> material_row \<Rightarrow> string \<Rightarrow> bool" where
  "given jc db m a = list_ex (\<lambda>q. cq_work_id q = mr_work_id m \<and> cq_recipient_agent_id q = a \<and>
     list_ex (\<lambda>i. ir_id i = cq_instruction_id q \<and> mr_id m \<in> set (jc_sql_each jc (ir_material_ids_json i)))
       (wd_instructions db)) (wd_requests db)"

text \<open>\<^verbatim>\<open>ORDER BY rank, id LIMIT 101\<close>: the sorted ids of each rank.\<close>

definition ranked_ids :: "('r \<Rightarrow> string) \<Rightarrow> ('r \<Rightarrow> nat) \<Rightarrow> ('r \<Rightarrow> bool) \<Rightarrow> 'r list \<Rightarrow> string list" where
  "ranked_ids key rank sel t =
     take 101 (concat (map (\<lambda>n. sort (map key (filter (\<lambda>r. sel r \<and> rank r = n) t))) [0, 1, 2]))"

definition work_rank :: "work_row \<Rightarrow> nat" where
  "work_rank w = (if wr_state w = ''open'' then 0 else if wr_state w = ''blocked'' then 1 else 2)"

definition request_rank :: "request_row \<Rightarrow> nat" where
  "request_rank q = (if cq_state q = ''closed'' then 1 else 0)"

definition newest :: "('r \<Rightarrow> bool) \<Rightarrow> 'r list \<Rightarrow> 'r list" where
  "newest sel t = take 101 (filter sel (rev t))"

text \<open>An open Work with a Result made for its current requirements or rechecked against them.\<close>

definition needs_assessment :: "work_db \<Rightarrow> work_row \<Rightarrow> bool" where
  "needs_assessment db w \<longleftrightarrow> wr_state w = ''open'' \<and>
     list_ex (\<lambda>r. sr_work_id r = wr_id w \<and> (sr_requirements_id r = wr_requirements_id w \<or>
       list_ex (\<lambda>u. ur_work_id u = wr_id w \<and> ur_requirements_id u = wr_requirements_id w \<and>
         ur_result_id u = sr_id r) (wd_reuses db))) (wd_results db)"

definition assessment_pending :: "work_db \<Rightarrow> string list option \<Rightarrow> string list" where
  "assessment_pending db selected =
     take 100 (sort (map wr_id (filter (\<lambda>w. (case selected of None \<Rightarrow> True | Some ids \<Rightarrow> wr_id w \<in> set ids) \<and>
       needs_assessment db w) (wd_works db))))"

definition contribution_of :: "contribution_row \<Rightarrow> native_contribution" where
  "contribution_of b = \<lparr>nc_id = br_id b, nc_work_id = br_work_id b, nc_requirements_id = br_requirements_id b,
     nc_instruction = br_instruction b, nc_child_thread_id = br_child_thread_id b,
     nc_parent_turn_id = br_parent_turn_id b, nc_parent_item_id = br_parent_item_id b\<rparr>"

definition json_rows :: "(string \<Rightarrow> 'a option) \<Rightarrow> string list \<Rightarrow> store_error + 'a list" where
  "json_rows parse ts = traverse (\<lambda>t. works_decode (parse t)) ts"

text \<open>What is read is cut to the page; the native contributions come last.\<close>

definition selected_contributions :: "work_db \<Rightarrow> string option \<Rightarrow> string list \<Rightarrow> contribution_row list" where
  "selected_contributions db actor selected =
     newest (\<lambda>b. br_work_id b \<in> set selected \<and> in_scope (owns db (br_work_id b)) actor) (wd_contributions db)"

definition portfolio_of ::
    "work_db \<Rightarrow> string option \<Rightarrow> work list \<Rightarrow> collaboration_request list \<Rightarrow> work_result list \<Rightarrow> material list \<Rightarrow>
     work_portfolio" where
  "portfolio_of db actor found collaborations results materials =
     (let works = take page_size found; selected = map wk_id works;
          contributions = map contribution_of (selected_contributions db actor selected) in
      \<lparr>wp_awaiting_assessment = assessment_pending db (Some selected), wp_summary_only = False,
        wp_native_contributions = take page_size contributions, wp_works = works,
        wp_collaborations = take page_size collaborations, wp_results = take page_size results,
        wp_materials = take page_size materials,
        wp_has_more = (length found > page_size \<or> list_ex (\<lambda>n. n > page_size)
          [length collaborations, length results, length materials, length contributions])\<rparr>)"

definition scoped_work_portfolio ::
    "json_codec \<Rightarrow> work_db \<Rightarrow> string option \<Rightarrow> string option \<Rightarrow> store_error + work_portfolio" where
  "scoped_work_portfolio jc db work_id actor =
     and_then (traverse (read_work jc db) (ranked_ids wr_id work_rank
       (\<lambda>w. (case work_id of None \<Rightarrow> True | Some k \<Rightarrow> wr_id w = k) \<and>
          in_scope (\<lambda>a. wr_owner_agent_id w = a \<or> asked db (wr_id w) a) actor) (wd_works db))) (\<lambda>found.
     let selected = map wk_id (take page_size found) in
     and_then (traverse (works_request jc db) (ranked_ids cq_id request_rank
       (\<lambda>q. cq_work_id q \<in> set selected \<and>
          in_scope (\<lambda>a. cq_recipient_agent_id q = a \<or> owns db (cq_work_id q) a) actor) (wd_requests db))) (\<lambda>collaborations.
     and_then (json_rows (jc_parse_result jc) (map sr_record_json (newest
       (\<lambda>r. sr_work_id r \<in> set selected \<and> in_scope (\<lambda>a. sr_agent_id r = a \<or> owns db (sr_work_id r) a) actor)
       (wd_results db)))) (\<lambda>results.
     and_then (json_rows (jc_parse_material jc) (map mr_record_json (newest
       (\<lambda>m. mr_work_id m \<in> set selected \<and> in_scope (\<lambda>a. owns db (mr_work_id m) a \<or> given jc db m a) actor)
       (wd_materials db)))) (\<lambda>materials.
       Inr (portfolio_of db actor found collaborations results materials)))))"

definition full_work_portfolio :: "json_codec \<Rightarrow> work_db \<Rightarrow> string option \<Rightarrow> store_error + work_portfolio" where
  "full_work_portfolio jc db work_id = scoped_work_portfolio jc db work_id None"

definition agent_work_portfolio ::
    "json_codec \<Rightarrow> work_db \<Rightarrow> string \<Rightarrow> string option \<Rightarrow> store_error + work_portfolio" where
  "agent_work_portfolio jc db agent work_id =
     and_then (scoped_work_portfolio jc db work_id (Some agent)) (\<lambda>p.
     let owned = map wk_id (filter (\<lambda>w. wk_owner_agent_id w = agent) (wp_works p)) in
       Inr (p\<lparr>wp_awaiting_assessment := filter (\<lambda>k. k \<in> set owned) (wp_awaiting_assessment p),
         wp_works := map (\<lambda>w. if wk_id w \<in> set owned then w
           else w\<lparr>wk_assessment := None, wk_reason := None, wk_resume_condition := None\<rparr>) (wp_works p)\<rparr>))"

definition work_header :: "work \<Rightarrow> work" where
  "work_header w = w\<lparr>wk_requirements := (wk_requirements w)\<lparr>wq_goal := [], wq_criteria := [], wq_source := []\<rparr>,
     wk_assessment := None, wk_reason := None, wk_resume_condition := None\<rparr>"

definition work_overview :: "json_codec \<Rightarrow> work_db \<Rightarrow> store_error + work_portfolio" where
  "work_overview jc db =
     and_then (traverse (read_work jc db) (ranked_ids wr_id work_rank (\<lambda>_. True) (wd_works db))) (\<lambda>works.
       Inr \<lparr>wp_awaiting_assessment = assessment_pending db None, wp_summary_only = True,
         wp_native_contributions = [], wp_works = map work_header (take page_size works),
         wp_collaborations = [], wp_results = [], wp_materials = [], wp_has_more = length works > page_size\<rparr>)"

section \<open>Exact records\<close>

definition read_native_contribution :: "work_db \<Rightarrow> string \<Rightarrow> store_error + native_contribution" where
  "read_native_contribution db k = and_then (ok_or sql_error (find_row br_id (wd_contributions db) k)) (\<lambda>b.
     Inr (contribution_of b))"

definition read_work_result :: "json_codec \<Rightarrow> work_db \<Rightarrow> string \<Rightarrow> string \<Rightarrow> store_error + work_result" where
  "read_work_result jc db work k =
     and_then (ok_or sql_error (find (\<lambda>r. sr_work_id r = work \<and> sr_id r = k) (wd_results db))) (\<lambda>r.
       works_decode (jc_parse_result jc (sr_record_json r)))"

definition read_native_work_delivery :: "work_db \<Rightarrow> string \<Rightarrow> native_work_delivery option" where
  "read_native_work_delivery db k = map_option (\<lambda>r. \<lparr>nd_parent_thread_id = vr_parent_thread_id r,
     nd_parent_turn_id = vr_parent_turn_id r, nd_child_thread_id = vr_child_thread_id r,
     nd_child_turn_id = vr_child_turn_id r, nd_message_id = vr_message_id r,
     nd_assignment_proof = (if vr_assignment_proof r = ''native_task_name'' then NativeTaskName else Plaintext)\<rparr>)
     (find_row vr_contribution_id (wd_deliveries db) k)"

definition read_native_work_dispatch :: "work_db \<Rightarrow> string \<Rightarrow> (string \<times> string \<times> string) option" where
  "read_native_work_dispatch db k = map_option (\<lambda>r. (xr_thread_id r, xr_turn_id r, xr_call_id r))
     (find_row xr_contribution_id (wd_dispatches db) k)"

end
