(* ===== verification/Work_Views.thy ===== *)
theory Work_Views
  imports Work_Portfolio
begin

text \<open>
  What a portfolio of Works shows: an Agent sees its own outcomes and what requests to it carry,
  nothing else, and a portfolio that reports no more entries hides none.
\<close>

section \<open>Selections\<close>

lemma ranked_ids_sound: "k \<in> set (ranked_ids key rank sel t) \<Longrightarrow> \<exists>r \<in> set t. key r = k \<and> sel r"
  by (auto simp: ranked_ids_def dest!: in_set_takeD)

lemma ranked_ids_complete:
  assumes "\<And>r. rank r \<le> 2" "length (ranked_ids key rank sel t) \<le> 100"
  shows "set (ranked_ids key rank sel t) = key ` {r \<in> set t. sel r}"
proof -
  let ?all = "concat (map (\<lambda>n. sort (map key (filter (\<lambda>r. sel r \<and> rank r = n) t))) [0, 1, 2])"
  have "take 101 ?all = ?all" using assms(2) by (simp add: ranked_ids_def)
  moreover have "rank r = 0 \<or> rank r = 1 \<or> rank r = 2" for r using assms(1) [of r] by linarith
  then have "set ?all = key ` {r \<in> set t. sel r}" by auto
  ultimately show ?thesis by (simp only: ranked_ids_def)
qed

lemma newest_sound: "r \<in> set (newest sel t) \<Longrightarrow> r \<in> set t \<and> sel r"
  by (auto simp: newest_def dest!: in_set_takeD)

lemma newest_complete: "length (newest sel t) \<le> 100 \<Longrightarrow> set (newest sel t) = {r \<in> set t. sel r}"
  by (auto simp: newest_def)

lemma ranks: "work_rank w \<le> 2" "request_rank q \<le> 2" by (simp_all add: work_rank_def request_rank_def)

lemma read_work_id: "read_work jc db k = Inr w \<Longrightarrow> wk_id w = k"
  by (erule read_work_Ok)

lemma read_request_id: "works_request jc db k = Inr q \<Longrightarrow> cr_id q = k"
  by (erule works_request_Ok)

lemma read_work_owner: "read_work jc db k = Inr w \<Longrightarrow> owns db k (wk_owner_agent_id w)"
  by (erule read_work_Ok) (auto simp: owns_def list_ex_iff shows_work_def dest: find_work_id)

section \<open>The parts of a portfolio\<close>

lemma portfolio_parts:
  "wp_awaiting_assessment (portfolio_of db actor found c r m) = assessment_pending db (Some (map wk_id (take 100 found)))"
  "wp_works (portfolio_of db actor found c r m) = take 100 found"
  "wp_collaborations (portfolio_of db actor found c r m) = take 100 c"
  "wp_results (portfolio_of db actor found c r m) = take 100 r"
  "wp_materials (portfolio_of db actor found c r m) = take 100 m"
  "wp_native_contributions (portfolio_of db actor found c r m) =
     take 100 (map contribution_of (selected_contributions db actor (map wk_id (take 100 found))))"
  "wp_has_more (portfolio_of db actor found c r m) = (length found > 100 \<or> length c > 100 \<or> length r > 100 \<or>
     length m > 100 \<or> length (selected_contributions db actor (map wk_id (take 100 found))) > 100)"
  by (simp_all add: portfolio_of_def page_size_def Let_def)

lemma scoped_work_portfolio_Ok:
  assumes "scoped_work_portfolio jc db k actor = Inr p"
  obtains found collaborations results materials where
    "traverse (read_work jc db) (ranked_ids wr_id work_rank
       (\<lambda>w. (case k of None \<Rightarrow> True | Some k \<Rightarrow> wr_id w = k) \<and>
          in_scope (\<lambda>a. wr_owner_agent_id w = a \<or> asked db (wr_id w) a) actor) (wd_works db)) = Inr found"
    "traverse (works_request jc db) (ranked_ids cq_id request_rank
       (\<lambda>q. cq_work_id q \<in> set (map wk_id (take 100 found)) \<and>
          in_scope (\<lambda>a. cq_recipient_agent_id q = a \<or> owns db (cq_work_id q) a) actor) (wd_requests db)) = Inr collaborations"
    "json_rows (jc_parse_result jc) (map sr_record_json (newest
       (\<lambda>r. sr_work_id r \<in> set (map wk_id (take 100 found)) \<and>
          in_scope (\<lambda>a. sr_agent_id r = a \<or> owns db (sr_work_id r) a) actor)
       (wd_results db))) = Inr results"
    "json_rows (jc_parse_material jc) (map mr_record_json (newest
       (\<lambda>m. mr_work_id m \<in> set (map wk_id (take 100 found)) \<and>
          in_scope (\<lambda>a. owns db (mr_work_id m) a \<or> given jc db m a) actor)
       (wd_materials db))) = Inr materials"
    "p = portfolio_of db actor found collaborations results materials"
  using assms
  apply (unfold scoped_work_portfolio_def and_then_Ok_iff Let_def page_size_def sum.inject)
  apply (elim exE conjE)
  apply (rule that)
  apply assumption+
  apply (erule sym)
  done

lemma json_rows_each:
  assumes "json_rows parse (map f rows) = Inr ys" "y \<in> set ys"
  shows "\<exists>r \<in> set rows. parse (f r) = Some y"
proof -
  obtain t where "t \<in> set (map f rows)" "works_decode (parse t) = Inr y"
    using traverse_each [OF assms(1) [unfolded json_rows_def] assms(2)] .
  then show ?thesis by (auto simp: works_decode_Ok_iff)
qed

lemma json_rows_newest_each:
  assumes "json_rows parse (map f (newest sel t)) = Inr ys" "y \<in> set (take n ys)"
  shows "\<exists>r \<in> set t. parse (f r) = Some y \<and> sel r"
proof -
  obtain r where r: "r \<in> set (newest sel t)" "parse (f r) = Some y"
    using json_rows_each [OF assms(1) in_set_takeD [OF assms(2)]] by blast
  then show ?thesis using newest_sound [OF r(1)] by blast
qed

lemma json_rows_length: "json_rows parse ts = Inr ys \<Longrightarrow> length ys = length ts"
  unfolding json_rows_def by (metis traverse_elements list_all2_lengthD)

lemma json_rows_images:
  assumes "json_rows parse (map f rows) = Inr ys"
  shows "map Some ys = map (\<lambda>r. parse (f r)) rows"
  using traverse_elements [OF assms [unfolded json_rows_def]]
  by (induction rows arbitrary: ys) (auto simp: list_all2_Cons1 works_decode_Ok_iff)

text \<open>A selection that fits its page is whole.\<close>

lemma traverse_ranked_complete:
  assumes "traverse f (ranked_ids key rank sel t) = Inr ys" "length ys \<le> 100"
    and "\<And>x y. f x = Inr y \<Longrightarrow> g y = x" "\<And>r. rank r \<le> 2"
  shows "g ` set ys = key ` {r \<in> set t. sel r}"
proof -
  have ids: "map g ys = ranked_ids key rank sel t" by (rule traverse_images [OF assms(1,3)])
  then have "length (ranked_ids key rank sel t) \<le> 100" using assms(2) by (metis length_map)
  from ranked_ids_complete [OF assms(4) this] show ?thesis by (simp flip: ids)
qed

lemma json_rows_newest_complete:
  assumes "json_rows parse (map f (newest sel t)) = Inr ys" "length ys \<le> 100"
  shows "Some ` set ys = (\<lambda>r. parse (f r)) ` {r \<in> set t. sel r}"
proof -
  have "length (newest sel t) \<le> 100" using json_rows_length [OF assms(1)] assms(2) by simp
  then have "set (newest sel t) = {r \<in> set t. sel r}" by (rule newest_complete)
  then show ?thesis using arg_cong [OF json_rows_images [OF assms(1)], of set] by simp
qed

section \<open>The scope of an Agent\<close>

lemma scoped_works:
  assumes "scoped_work_portfolio jc db k (Some a) = Inr s" "w \<in> set (wp_works s)"
  shows "owns db (wk_id w) a \<or> asked db (wk_id w) a" "owns db (wk_id w) (wk_owner_agent_id w)"
proof -
  from assms obtain i where i: "\<exists>r \<in> set (wd_works db). wr_id r = i \<and> (wr_owner_agent_id r = a \<or> asked db i a)"
      "read_work jc db i = Inr w"
    by (elim scoped_work_portfolio_Ok) (auto simp: in_scope_def portfolio_parts dest!: in_set_takeD elim!: traverse_each
        dest!: ranked_ids_sound)
  then show "owns db (wk_id w) a \<or> asked db (wk_id w) a" "owns db (wk_id w) (wk_owner_agent_id w)"
    using read_work_owner [OF i(2)] read_work_id [OF i(2)] by (auto simp: owns_def list_ex_iff)
qed

lemma scoped_request:
  assumes "scoped_work_portfolio jc db k (Some a) = Inr s" "q \<in> set (wp_collaborations s)" "work_schema jc db"
  shows "cr_recipient_agent_id q = a \<or> owns db (cr_work_id q) a"
proof -
  from assms(1,2) obtain i where
    i: "\<exists>r \<in> set (wd_requests db). cq_id r = i \<and> (cq_recipient_agent_id r = a \<or> owns db (cq_work_id r) a)"
      "works_request jc db i = Inr q"
    by (elim scoped_work_portfolio_Ok) (auto simp: in_scope_def portfolio_parts dest!: in_set_takeD elim!: traverse_each
        dest!: ranked_ids_sound)
  then obtain row where row: "row \<in> set (wd_requests db)" "cq_id row = i" "cq_recipient_agent_id row = a \<or> owns db (cq_work_id row) a"
    by blast
  obtain row' where row': "find_request db i = Some row'" "shows_request row' q" by (rule works_request_Ok [OF i(2)])
  have "row' = row"
    using find_row_distinct [OF schema_distinct(2) [OF assms(3)] row(1)] row(2) row'(1) by (simp add: find_request_def)
  then show ?thesis using row(3) row'(2) by (simp add: shows_request_def)
qed

lemma scoped_evidence:
  assumes "scoped_work_portfolio jc db k (Some a) = Inr s"
  shows "v \<in> set (wp_results s) \<Longrightarrow> \<exists>row \<in> set (wd_results db). jc_parse_result jc (sr_record_json row) = Some v \<and>
      (sr_agent_id row = a \<or> owns db (sr_work_id row) a)"
    and "m \<in> set (wp_materials s) \<Longrightarrow> \<exists>row \<in> set (wd_materials db). jc_parse_material jc (mr_record_json row) = Some m \<and>
      (owns db (mr_work_id row) a \<or> given jc db row a)"
    and "b \<in> set (wp_native_contributions s) \<Longrightarrow> owns db (nc_work_id b) a"
proof -
  show "\<exists>row \<in> set (wd_results db). jc_parse_result jc (sr_record_json row) = Some v \<and>
      (sr_agent_id row = a \<or> owns db (sr_work_id row) a)" if "v \<in> set (wp_results s)"
    using assms
  proof (rule scoped_work_portfolio_Ok)
    fix found collaborations results materials
    assume r: "json_rows (jc_parse_result jc) (map sr_record_json (newest
       (\<lambda>r. sr_work_id r \<in> set (map wk_id (take 100 found)) \<and>
          in_scope (\<lambda>a. sr_agent_id r = a \<or> owns db (sr_work_id r) a) (Some a))
       (wd_results db))) = Inr results" and p: "s = portfolio_of db (Some a) found collaborations results materials"
    show ?thesis using json_rows_newest_each [OF r that [unfolded p portfolio_parts]] by (auto simp: in_scope_def)
  qed
  show "\<exists>row \<in> set (wd_materials db). jc_parse_material jc (mr_record_json row) = Some m \<and>
      (owns db (mr_work_id row) a \<or> given jc db row a)" if "m \<in> set (wp_materials s)"
    using assms
  proof (rule scoped_work_portfolio_Ok)
    fix found collaborations results materials
    assume m: "json_rows (jc_parse_material jc) (map mr_record_json (newest
       (\<lambda>m. mr_work_id m \<in> set (map wk_id (take 100 found)) \<and>
          in_scope (\<lambda>a. owns db (mr_work_id m) a \<or> given jc db m a) (Some a))
       (wd_materials db))) = Inr materials" and p: "s = portfolio_of db (Some a) found collaborations results materials"
    show ?thesis using json_rows_newest_each [OF m that [unfolded p portfolio_parts]] by (auto simp: in_scope_def)
  qed
  show "owns db (nc_work_id b) a" if "b \<in> set (wp_native_contributions s)"
    using assms that
    by (elim scoped_work_portfolio_Ok) (auto simp: contribution_of_def in_scope_def portfolio_parts
        selected_contributions_def dest!: in_set_takeD newest_sound)
qed

lemma scoped_lengths:
  assumes "scoped_work_portfolio jc db k actor = Inr s"
  shows "length (wp_works s) \<le> 100 \<and> length (wp_awaiting_assessment s) \<le> 100 \<and> length (wp_collaborations s) \<le> 100 \<and>
    length (wp_results s) \<le> 100 \<and> length (wp_materials s) \<le> 100 \<and> length (wp_native_contributions s) \<le> 100"
  using assms by (elim scoped_work_portfolio_Ok) (simp add: assessment_pending_def portfolio_parts)

text \<open>
  C30. The scope of an Agent. Its portfolio holds only Works that it owns or that asked it for a
  contribution, and of the second kind neither assessment nor reason; only its own Works await
  its assessment; it sees only requests to it or of its Works, its own Results and those of its
  Works, the Materials of its Works and those that a current instruction to it selects, and the
  native contributions of its Works. Every list has at most 100 entries.
\<close>

theorem agent_portfolio_scope:
  assumes "agent_work_portfolio jc db a k = Inr p" "work_schema jc db"
  shows "(\<forall>w \<in> set (wp_works p). owns db (wk_id w) a \<or>
      asked db (wk_id w) a \<and> wk_assessment w = None \<and> wk_reason w = None \<and> wk_resume_condition w = None) \<and>
    (\<forall>i \<in> set (wp_awaiting_assessment p). owns db i a) \<and>
    (\<forall>q \<in> set (wp_collaborations p). cr_recipient_agent_id q = a \<or> owns db (cr_work_id q) a) \<and>
    (\<forall>r \<in> set (wp_results p). \<exists>row \<in> set (wd_results db). jc_parse_result jc (sr_record_json row) = Some r \<and>
      (sr_agent_id row = a \<or> owns db (sr_work_id row) a)) \<and>
    (\<forall>m \<in> set (wp_materials p). \<exists>row \<in> set (wd_materials db). jc_parse_material jc (mr_record_json row) = Some m \<and>
      (owns db (mr_work_id row) a \<or> given jc db row a)) \<and>
    (\<forall>b \<in> set (wp_native_contributions p). owns db (nc_work_id b) a) \<and>
    length (wp_works p) \<le> 100 \<and> length (wp_awaiting_assessment p) \<le> 100 \<and> length (wp_collaborations p) \<le> 100 \<and>
    length (wp_results p) \<le> 100 \<and> length (wp_materials p) \<le> 100 \<and> length (wp_native_contributions p) \<le> 100"
proof -
  obtain s where s: "scoped_work_portfolio jc db k (Some a) = Inr s"
    and p: "p = (let owned = map wk_id (filter (\<lambda>w. wk_owner_agent_id w = a) (wp_works s)) in
       s\<lparr>wp_awaiting_assessment := filter (\<lambda>k. k \<in> set owned) (wp_awaiting_assessment s),
         wp_works := map (\<lambda>w. if wk_id w \<in> set owned then w
           else w\<lparr>wk_assessment := None, wk_reason := None, wk_resume_condition := None\<rparr>) (wp_works s)\<rparr>)"
    using assms(1) by (auto simp: agent_work_portfolio_def and_then_Ok_iff Let_def)
  have own: "owns db (wk_id w) a" if "w \<in> set (wp_works s)" "wk_owner_agent_id w = a" for w
    using scoped_works(2) [OF s that(1)] that(2) by simp
  have works: "owns db (wk_id w) a \<or>
      asked db (wk_id w) a \<and> wk_assessment w = None \<and> wk_reason w = None \<and> wk_resume_condition w = None"
    if w: "w \<in> set (wp_works p)" for w
  proof -
    obtain x where x: "x \<in> set (wp_works s)" "w = x \<and> wk_id x \<in> wk_id ` {v \<in> set (wp_works s). wk_owner_agent_id v = a} \<or>
        w = x\<lparr>wk_assessment := None, wk_reason := None, wk_resume_condition := None\<rparr>"
      using w by (auto simp: p Let_def split: if_splits)
    show ?thesis using x(2) own scoped_works(1) [OF s x(1)] by auto
  qed
  have pending: "owns db i a" if "i \<in> set (wp_awaiting_assessment p)" for i
    using that own by (auto simp: p Let_def)
  have same: "wp_collaborations p = wp_collaborations s" "wp_results p = wp_results s" "wp_materials p = wp_materials s"
    "wp_native_contributions p = wp_native_contributions s" "length (wp_works p) = length (wp_works s)"
    "length (wp_awaiting_assessment p) \<le> length (wp_awaiting_assessment s)"
    by (simp_all add: p Let_def)
  show ?thesis
    using works pending scoped_request [OF s _ assms(2)] scoped_evidence [OF s] scoped_lengths [OF s]
      order_trans [OF same(6)] by (simp add: same)
qed

lemmas portfolio_defs = agent_work_portfolio_def scoped_work_portfolio_def portfolio_of_def selected_contributions_def ranked_ids_def work_rank_def request_rank_def
  newest_def in_scope_def asked_def owns_def given_def json_rows_def assessment_pending_def needs_assessment_def
  page_size_def works_request_def find_request_def find_event_def works_decode_def parse_request_state_def

theorem agent_portfolio_scope_witness:
  "\<exists>p. agent_work_portfolio demo_codec demo_late ''bo'' None = Inr p \<and> map wk_id (wp_works p) = [''w''] \<and>
     list_all (\<lambda>w. wk_reason w = None) (wp_works p)"
proof -
  have schema: "work_schema demo_codec demo_late"
    by (simp add: schema_defs demo_late_def demo_states demo_defs inbox_row_checks_def request_row_checks_def)
  have other: "\<not> owns demo_late k ''bo''" for k by (simp add: owns_def demo_late_def demo_work_row_def)
  obtain p where p: "agent_work_portfolio demo_codec demo_late ''bo'' None = Inr p" "map wk_id (wp_works p) = [''w'']"
    by (simp add: portfolio_defs read_defs find_row_def demo_late_def demo_states demo_defs Let_def)
  show ?thesis
    using agent_portfolio_scope [OF p(1) schema] other p by (auto simp: list_all_iff)
qed

section \<open>Completeness\<close>

lemma needs_assessment_iff:
  "needs_assessment db w \<longleftrightarrow> wr_state w = ''open'' \<and> (\<exists>i. result_counts db (wr_id w) (wr_requirements_id w) i)"
  by (simp add: needs_assessment_def result_counts_def list_ex_iff) metis

lemma assessment_pending_complete:
  assumes "distinct (map wr_id (wd_works db))" "length ids \<le> 100"
  shows "set (assessment_pending db (Some ids)) = {wr_id w |w. w \<in> set (wd_works db) \<and> wr_id w \<in> set ids \<and> needs_assessment db w}"
proof -
  let ?f = "filter (\<lambda>w. wr_id w \<in> set ids \<and> needs_assessment db w) (wd_works db)"
  have "distinct (map wr_id ?f)" by (rule distinct_map_filter [OF assms(1)])
  then have "length ?f = card (wr_id ` set ?f)" using distinct_card [of "map wr_id ?f"] by simp
  also have "\<dots> \<le> card (set ids)" by (rule card_mono) auto
  also have "\<dots> \<le> 100" using assms(2) card_length [of ids] by linarith
  finally have "take 100 (sort (map wr_id ?f)) = sort (map wr_id ?f)" by simp
  then show ?thesis by (auto simp: assessment_pending_def)
qed

text \<open>
  A portfolio that reports no more entries hides none: it shows every Work in scope, every
  request, Result and native contribution in scope of those Works, and names as awaiting
  assessment exactly its open Works with a Result that counts for their current requirements,
  the Results that \<open>complete\<close> would accept.
\<close>

lemma portfolio_complete:
  assumes "scoped_work_portfolio jc db None actor = Inr p" "\<not> wp_has_more p" "work_schema jc db"
  shows "wk_id ` set (wp_works p) =
      wr_id ` {w \<in> set (wd_works db). in_scope (\<lambda>a. wr_owner_agent_id w = a \<or> asked db (wr_id w) a) actor} \<and>
    cr_id ` set (wp_collaborations p) = cq_id ` {q \<in> set (wd_requests db). cq_work_id q \<in> wk_id ` set (wp_works p) \<and>
      in_scope (\<lambda>a. cq_recipient_agent_id q = a \<or> owns db (cq_work_id q) a) actor} \<and>
    Some ` set (wp_results p) = (\<lambda>r. jc_parse_result jc (sr_record_json r)) ` {r \<in> set (wd_results db).
      sr_work_id r \<in> wk_id ` set (wp_works p) \<and> in_scope (\<lambda>a. sr_agent_id r = a \<or> owns db (sr_work_id r) a) actor} \<and>
    set (wp_native_contributions p) = contribution_of ` {b \<in> set (wd_contributions db).
      br_work_id b \<in> wk_id ` set (wp_works p) \<and> in_scope (owns db (br_work_id b)) actor} \<and>
    set (wp_awaiting_assessment p) = {wr_id w |w. w \<in> set (wd_works db) \<and> wr_id w \<in> wk_id ` set (wp_works p) \<and>
      wr_state w = ''open'' \<and> (\<exists>i. result_counts db (wr_id w) (wr_requirements_id w) i)}"
  using assms(1)
proof (rule scoped_work_portfolio_Ok)
  fix found collaborations results materials
  assume f: "traverse (read_work jc db) (ranked_ids wr_id work_rank
       (\<lambda>w. (case None of None \<Rightarrow> True | Some k \<Rightarrow> wr_id w = k) \<and>
          in_scope (\<lambda>a. wr_owner_agent_id w = a \<or> asked db (wr_id w) a) actor) (wd_works db)) = Inr found"
    and c: "traverse (works_request jc db) (ranked_ids cq_id request_rank
       (\<lambda>q. cq_work_id q \<in> set (map wk_id (take 100 found)) \<and>
          in_scope (\<lambda>a. cq_recipient_agent_id q = a \<or> owns db (cq_work_id q) a) actor) (wd_requests db)) = Inr collaborations"
    and r: "json_rows (jc_parse_result jc) (map sr_record_json (newest
       (\<lambda>r. sr_work_id r \<in> set (map wk_id (take 100 found)) \<and>
          in_scope (\<lambda>a. sr_agent_id r = a \<or> owns db (sr_work_id r) a) actor)
       (wd_results db))) = Inr results"
    and p: "p = portfolio_of db actor found collaborations results materials"
  let ?sel = "map wk_id (take 100 found)"
  have few: "length found \<le> 100" "length collaborations \<le> 100" "length results \<le> 100"
    "length (selected_contributions db actor ?sel) \<le> 100"
    using assms(2) by (auto simp: p portfolio_parts)
  have whole: "wp_works p = found" "wp_collaborations p = collaborations" "wp_results p = results"
    "wp_native_contributions p = map contribution_of (selected_contributions db actor ?sel)"
    using few by (simp_all add: p portfolio_parts)
  have all: "take 100 found = found" using few(1) by simp
  have sel: "set ?sel = wk_id ` set (wp_works p)" "length ?sel \<le> 100" using few(1) by (simp_all add: whole)
  have ids: "read_work jc db x = Inr w \<Longrightarrow> wk_id w = x" "works_request jc db x = Inr q \<Longrightarrow> cr_id q = x" for x w q
    by (rule read_work_id read_request_id, assumption)+
  have works: "wk_id ` set (wp_works p) =
      wr_id ` {w \<in> set (wd_works db). in_scope (\<lambda>a. wr_owner_agent_id w = a \<or> asked db (wr_id w) a) actor}"
    using traverse_ranked_complete [OF f few(1), of wk_id, OF ids(1) ranks(1)] by (simp add: whole)
  have requests: "cr_id ` set (wp_collaborations p) = cq_id ` {q \<in> set (wd_requests db). cq_work_id q \<in> wk_id ` set (wp_works p) \<and>
      in_scope (\<lambda>a. cq_recipient_agent_id q = a \<or> owns db (cq_work_id q) a) actor}"
    using traverse_ranked_complete [OF c few(2), of cr_id, OF ids(2) ranks(2)] by (simp add: whole all)
  have contributions: "set (wp_native_contributions p) = contribution_of ` {b \<in> set (wd_contributions db).
      br_work_id b \<in> wk_id ` set (wp_works p) \<and> in_scope (owns db (br_work_id b)) actor}"
    using few(4) by (simp add: whole selected_contributions_def newest_complete all)
  have evidence: "Some ` set (wp_results p) = (\<lambda>r. jc_parse_result jc (sr_record_json r)) ` {r \<in> set (wd_results db).
      sr_work_id r \<in> wk_id ` set (wp_works p) \<and> in_scope (\<lambda>a. sr_agent_id r = a \<or> owns db (sr_work_id r) a) actor}"
    using json_rows_newest_complete [OF r few(3)] by (simp add: whole all)
  have "wp_awaiting_assessment p = assessment_pending db (Some ?sel)" by (simp add: p portfolio_parts)
  then have "set (wp_awaiting_assessment p) = {wr_id w |w. w \<in> set (wd_works db) \<and> wr_id w \<in> wk_id ` set (wp_works p) \<and>
      wr_state w = ''open'' \<and> (\<exists>i. result_counts db (wr_id w) (wr_requirements_id w) i)}"
    using assessment_pending_complete [OF schema_distinct(1) [OF assms(3)] sel(2)]
    by (simp add: whole all needs_assessment_iff)
  with works requests evidence contributions show ?thesis by (intro conjI)
qed

lemma portfolio_complete_witness:
  "\<exists>p. full_work_portfolio demo_codec demo_resulted None = Inr p \<and> wk_id ` set (wp_works p) = {''w''} \<and>
     set (wp_awaiting_assessment p) = {''w''}"
proof -
  have schema: "work_schema demo_codec demo_resulted"
    using run_effect [OF demo_run(3) demo_codec_faithful demo_invs(1)] by (simp add: work_inv_def)
  obtain p where p: "scoped_work_portfolio demo_codec demo_resulted None None = Inr p" "\<not> wp_has_more p"
    by (simp add: portfolio_defs read_defs find_row_def demo_states demo_defs result_row_of_def Let_def)
  have rows: "wd_works demo_resulted = [demo_work_row]" "\<exists>i. result_counts demo_resulted ''w'' ''q'' i"
    by (simp_all add: demo_states result_counts_def result_row_of_def demo_result_def)
  note whole = portfolio_complete [OF p schema]
  have works: "wk_id ` set (wp_works p) = {''w''}"
    using whole by (simp add: rows(1) in_scope_def demo_work_row_def)
  have "set (wp_awaiting_assessment p) = {''w''}"
    using whole rows(2) by (auto simp: works rows(1) demo_work_row_def)
  then show ?thesis using p(1) works by (simp add: full_work_portfolio_def)
qed

end
