(* ===== verification/Registry_Store.thy ===== *)
theory Registry_Store
  imports Store_Base
begin

text \<open>
  The account tables of \<^verbatim>\<open>schema.sql\<close>: identities, accounts, operations, credentials, the routing
  order and its control, quota facts, usage observations, the attested capability and the command
  receipts, with every constraint. The writers are \<^verbatim>\<open>account_lifecycle.rs\<close>, \<^verbatim>\<open>credentials.rs\<close> and
  \<^verbatim>\<open>account_usage.rs\<close>. Of the process generations the writers read only account and state.
\<close>

section \<open>Rows\<close>

record identity_row =
  ai_account_id :: string
  ai_created :: i64

record registered_account =
  an_account_id :: string
  an_label :: string
  an_enabled :: bool
  an_state :: string
  an_revision :: i64
  an_provider :: string
  an_provider_account_id :: string
  an_store_observation :: string
  an_created :: i64
  an_updated :: i64
  an_tombstoned :: "i64 option"

record lifecycle_operation =
  lo_operation_id :: string
  lo_account_id :: string
  lo_kind :: string
  lo_phase :: string
  lo_expected_revision :: "i64 option"
  lo_expected_json :: "string option"
  lo_target_json :: "string option"
  lo_provider :: string
  lo_provider_account_id :: string
  lo_label :: "string option"
  lo_enabled :: "bool option"
  lo_recovery_code :: "string option"
  lo_created :: i64
  lo_updated :: i64
  lo_completed :: "i64 option"
  lo_recovery_operation_id :: "string option"
  lo_superseded_by :: "string option"

record stored_credential =
  se_account_id :: string
  se_schema_version :: i64
  se_version :: i64
  se_fingerprint :: string
  se_writer_operation_id :: string
  se_provider :: string
  se_provider_account_id :: string
  se_payload :: "byte list"
  se_updated :: i64

record order_row =
  od_account_id :: string
  od_position :: i64
  od_updated :: i64

record control_row =
  ct_mode :: string
  ct_fixed_account_id :: "string option"
  ct_revision :: i64
  ct_updated :: i64

record quota_row =
  qw_account_id :: string
  qw_duration :: i64
  qw_used_percent :: "i64 option"
  qw_resets_at :: "i64 option"
  qw_error_code :: "string option"
  qw_observed_at :: i64
  qw_not_applicable :: bool

record usage_row =
  us_account_id :: string
  us_account_revision :: i64
  us_observed_at :: i64
  us_ordinary_usage_allowed :: "bool option"
  us_conditions :: account_usage_conditions

record capability_entry =
  ca_build_identity :: string
  ca_executable_sha256 :: string
  ca_schema_sha256 :: string
  ca_callback_profile_sha256 :: string
  ca_login_chatgpt_auth_tokens :: bool
  ca_refresh_callback :: bool
  ca_observed_at :: i64

text \<open>Of a command receipt the account commands leave the column \<^verbatim>\<open>request_json\<close> \<^verbatim>\<open>NULL\<close>.\<close>

record command_receipt =
  cx_protocol :: string
  cx_key :: string
  cx_request_sha256 :: string
  cx_operation :: string
  cx_entity_id :: string
  cx_expected_revision :: "i64 option"
  cx_state :: string
  cx_response_json :: "string option"
  cx_claim_token :: "string option"
  cx_claim_expires_at :: "i64 option"
  cx_reserved_at :: i64
  cx_completed_at :: "i64 option"
  cx_progress_json :: "string option"

record registry =
  lc_identities :: "identity_row list"
  lc_accounts :: "registered_account list"
  lc_operations :: "lifecycle_operation list"
  lc_credentials :: "stored_credential list"
  lc_order :: "order_row list"
  lc_control :: "control_row option"
  lc_quotas :: "quota_row list"
  lc_usages :: "usage_row list"
  lc_capability :: "capability_entry option"
  lc_receipts :: "command_receipt list"
  lc_generations :: "(string \<times> string) list"

section \<open>Constraints\<close>

text \<open>An \<^verbatim>\<open>INTEGER\<close> column of a \<^verbatim>\<open>STRICT\<close> table holds 64 bits: a sum beyond them is refused.\<close>

definition sql_integer :: "i64 \<Rightarrow> bool" where
  "sql_integer n \<longleftrightarrow> - (2 ^ 63) \<le> n \<and> n \<le> i64_max"

definition bytes_between :: "nat \<Rightarrow> nat \<Rightarrow> string \<Rightarrow> bool" where
  "bytes_between a b s \<longleftrightarrow> a \<le> length s \<and> length s \<le> b"

text \<open>\<^verbatim>\<open>NOT GLOB '*[^0-9a-f-]*'\<close> and the equality with \<^verbatim>\<open>lower\<close>: lower-case hexadecimal text.\<close>

definition identity_row_checks :: "identity_row \<Rightarrow> bool" where
  "identity_row_checks r \<longleftrightarrow> sql_length (ai_account_id r) = 36 \<and>
     list_all (\<lambda>c. hex_char c \<or> c = CHR ''-'') (ai_account_id r) \<and> ai_created r > 0"

definition registered_account_checks :: "registered_account \<Rightarrow> bool" where
  "registered_account_checks r \<longleftrightarrow>
     bytes_between 1 128 (an_label r) \<and>
     an_state r \<in> set [''unavailable'', ''unknown'', ''available'', ''depleted'', ''auth_failed'', ''plugin_unready''] \<and>
     0 < an_revision r \<and> sql_integer (an_revision r) \<and>
     an_provider r = ''chatgpt'' \<and> bytes_between 1 512 (an_provider_account_id r) \<and>
     an_store_observation r \<in> set [''unknown'', ''exact'', ''missing'', ''unavailable'', ''mismatch'', ''provider_mismatch''] \<and>
     0 < an_created r \<and> an_created r \<le> an_updated r \<and> null_or (\<lambda>t. an_created r \<le> t) (an_tombstoned r)"

definition settled_phase :: "string \<Rightarrow> bool" where
  "settled_phase p \<longleftrightarrow> p \<in> set [''committed'', ''cancelled'']"

definition lifecycle_operation_checks :: "lifecycle_operation \<Rightarrow> bool" where
  "lifecycle_operation_checks r \<longleftrightarrow>
     sql_length (lo_operation_id r) = 36 \<and>
     lo_kind r \<in> set [''enroll'', ''import'', ''refresh'', ''logout''] \<and>
     lo_phase r \<in> set [''prepared'', ''provider_effect_pending'', ''store_applied'', ''committed'', ''cancelled'',
       ''recovery_required''] \<and>
     null_or (\<lambda>n. 0 < n) (lo_expected_revision r) \<and>
     lo_provider r = ''chatgpt'' \<and> bytes_between 1 512 (lo_provider_account_id r) \<and>
     null_or (bytes_between 1 128) (lo_label r) \<and> null_or (bytes_between 1 128) (lo_recovery_code r) \<and>
     0 < lo_created r \<and> lo_created r \<le> lo_updated r \<and> null_or (\<lambda>t. lo_created r \<le> t) (lo_completed r) \<and>
     lo_recovery_operation_id r \<noteq> Some (lo_operation_id r) \<and>
     (lo_superseded_by r = None \<or>
        lo_superseded_by r \<noteq> Some (lo_operation_id r) \<and> lo_recovery_operation_id r = None) \<and>
     (if lo_kind r \<in> set [''enroll'', ''import''] then lo_label r \<noteq> None \<and> lo_enabled r \<noteq> None
      else lo_label r = None \<and> lo_enabled r = None) \<and>
     (lo_phase r = ''recovery_required'') = (lo_recovery_code r \<noteq> None) \<and>
     settled_phase (lo_phase r) = (lo_completed r \<noteq> None)"

definition stored_credential_checks :: "stored_credential \<Rightarrow> bool" where
  "stored_credential_checks r \<longleftrightarrow>
     se_schema_version r \<in> set [1, 2] \<and> 0 < se_version r \<and>
     sql_length (se_fingerprint r) = 64 \<and> list_all hex_char (se_fingerprint r) \<and>
     se_provider r = ''chatgpt'' \<and> bytes_between 1 512 (se_provider_account_id r) \<and>
     1 \<le> length (se_payload r) \<and> length (se_payload r) \<le> 1048576 \<and> 0 < se_updated r"

definition order_row_checks :: "order_row \<Rightarrow> bool" where
  "order_row_checks r \<longleftrightarrow> 0 \<le> od_position r \<and> sql_integer (od_position r) \<and> 0 < od_updated r"

definition control_row_checks :: "control_row \<Rightarrow> bool" where
  "control_row_checks r \<longleftrightarrow> ct_mode r \<in> set [''fixed'', ''balanced''] \<and>
     0 < ct_revision r \<and> sql_integer (ct_revision r) \<and> 0 < ct_updated r \<and>
     (ct_mode r = ''fixed'') = (ct_fixed_account_id r \<noteq> None)"

definition quota_row_checks :: "quota_row \<Rightarrow> bool" where
  "quota_row_checks r \<longleftrightarrow>
     qw_duration r \<in> set [300, 10080] \<and> null_or (\<lambda>n. 0 \<le> n \<and> n \<le> 100) (qw_used_percent r) \<and>
     null_or (\<lambda>e. e \<in> set [''provider_unavailable'', ''protocol_unavailable'', ''account_mismatch'',
       ''unsupported_window'']) (qw_error_code r) \<and>
     0 \<le> qw_observed_at r \<and>
     (if qw_not_applicable r
      then qw_duration r = 300 \<and> 0 < qw_observed_at r \<and> qw_error_code r = None \<and> qw_used_percent r = None \<and>
        qw_resets_at r = None
      else if qw_error_code r = None
      then qw_used_percent r \<noteq> None \<and> qw_resets_at r \<noteq> None \<and> null_or (\<lambda>t. qw_observed_at r < t) (qw_resets_at r)
      else qw_used_percent r = None \<and> qw_resets_at r = None)"

definition usage_row_checks :: "usage_row \<Rightarrow> bool" where
  "usage_row_checks r \<longleftrightarrow> 0 < us_account_revision r \<and> 0 < us_observed_at r"

definition capability_entry_checks :: "capability_entry \<Rightarrow> bool" where
  "capability_entry_checks r \<longleftrightarrow> bytes_between 1 256 (ca_build_identity r) \<and>
     sql_length (ca_executable_sha256 r) = 64 \<and> sql_length (ca_schema_sha256 r) = 64 \<and>
     sql_length (ca_callback_profile_sha256 r) = 64 \<and> 0 < ca_observed_at r"

definition command_receipt_checks :: "command_receipt \<Rightarrow> bool" where
  "command_receipt_checks r \<longleftrightarrow>
     bytes_between 1 128 (cx_protocol r) \<and> bytes_between 1 256 (cx_key r) \<and>
     sql_length (cx_request_sha256 r) = 64 \<and> bytes_between 1 128 (cx_operation r) \<and>
     bytes_between 1 256 (cx_entity_id r) \<and> null_or (\<lambda>n. 0 < n) (cx_expected_revision r) \<and>
     cx_state r \<in> set [''reserved'', ''completed_success'', ''completed_error''] \<and>
     null_or (\<lambda>t. sql_length t = 36) (cx_claim_token r) \<and> 0 < cx_reserved_at r \<and>
     null_or (\<lambda>t. cx_reserved_at r \<le> t) (cx_completed_at r) \<and>
     (cx_state r = ''reserved'') = (cx_response_json r = None) \<and>
     (cx_state r = ''reserved'') = (cx_completed_at r = None) \<and>
     (if cx_state r = ''reserved''
      then cx_claim_token r \<noteq> None \<and> null_or (\<lambda>t. cx_reserved_at r < t) (cx_claim_expires_at r)
      else cx_claim_token r = None \<and> cx_claim_expires_at r = None)"

definition registry_rows_checked :: "registry \<Rightarrow> bool" where
  "registry_rows_checked db \<longleftrightarrow>
     list_all identity_row_checks (lc_identities db) \<and>
     list_all registered_account_checks (lc_accounts db) \<and>
     list_all lifecycle_operation_checks (lc_operations db) \<and>
     list_all stored_credential_checks (lc_credentials db) \<and>
     list_all order_row_checks (lc_order db) \<and>
     null_or control_row_checks (lc_control db) \<and>
     list_all quota_row_checks (lc_quotas db) \<and>
     list_all usage_row_checks (lc_usages db) \<and>
     null_or capability_entry_checks (lc_capability db) \<and>
     list_all command_receipt_checks (lc_receipts db)"

text \<open>
  Primary keys, unique columns and the partial unique indexes
  \<^verbatim>\<open>one_unsettled_account_operation\<close>, \<^verbatim>\<open>one_active_account_reauthentication_takeover\<close> and
  \<^verbatim>\<open>one_account_operation_supersession\<close>.
\<close>

definition unsettled_row :: "lifecycle_operation \<Rightarrow> bool" where
  "unsettled_row r \<longleftrightarrow> \<not> settled_phase (lo_phase r) \<and> lo_recovery_operation_id r = None \<and> lo_superseded_by r = None"

definition active_takeover :: "lifecycle_operation \<Rightarrow> bool" where
  "active_takeover r \<longleftrightarrow> lo_recovery_operation_id r \<noteq> None \<and> \<not> settled_phase (lo_phase r)"

definition operation_keys_unique :: "lifecycle_operation list \<Rightarrow> bool" where
  "operation_keys_unique t \<longleftrightarrow> distinct (map lo_operation_id t) \<and>
     distinct (map lo_account_id (filter unsettled_row t)) \<and>
     distinct (map lo_recovery_operation_id (filter active_takeover t)) \<and>
     distinct (List.map_filter lo_superseded_by t)"

definition registry_keys_unique :: "registry \<Rightarrow> bool" where
  "registry_keys_unique db \<longleftrightarrow>
     distinct (map ai_account_id (lc_identities db)) \<and>
     distinct (map an_account_id (lc_accounts db)) \<and>
     distinct (map an_provider_account_id (lc_accounts db)) \<and>
     operation_keys_unique (lc_operations db) \<and>
     distinct (map se_account_id (lc_credentials db)) \<and>
     distinct (map se_provider_account_id (lc_credentials db)) \<and>
     distinct (map od_account_id (lc_order db)) \<and>
     distinct (map od_position (lc_order db)) \<and>
     distinct (map (\<lambda>r. (qw_account_id r, qw_duration r)) (lc_quotas db)) \<and>
     distinct (map us_account_id (lc_usages db)) \<and>
     distinct (map (\<lambda>r. (cx_protocol r, cx_key r)) (lc_receipts db))"

definition identified :: "registry \<Rightarrow> string \<Rightarrow> bool" where
  "identified db a \<longleftrightarrow> a \<in> set (map ai_account_id (lc_identities db))"

definition registry_references :: "registry \<Rightarrow> bool" where
  "registry_references db \<longleftrightarrow>
     list_all (identified db) (map an_account_id (lc_accounts db)) \<and>
     list_all (identified db) (map lo_account_id (lc_operations db)) \<and>
     list_all (identified db) (map se_account_id (lc_credentials db)) \<and>
     list_all (\<lambda>r. se_writer_operation_id r \<in> set (map lo_operation_id (lc_operations db))) (lc_credentials db) \<and>
     list_all (identified db) (map od_account_id (lc_order db)) \<and>
     null_or (\<lambda>c. null_or (identified db) (ct_fixed_account_id c)) (lc_control db) \<and>
     list_all (identified db) (map qw_account_id (lc_quotas db)) \<and>
     list_all (identified db) (map us_account_id (lc_usages db))"

definition registry_schema :: "registry \<Rightarrow> bool" where
  "registry_schema db \<longleftrightarrow> registry_rows_checked db \<and> registry_keys_unique db \<and> registry_references db"

text \<open>The deferred references between operations, checked at the commit.\<close>

definition deferred_operations :: "registry \<Rightarrow> bool" where
  "deferred_operations db \<longleftrightarrow> list_all (\<lambda>r.
     null_or (\<lambda>k. k \<in> set (map lo_operation_id (lc_operations db))) (lo_recovery_operation_id r) \<and>
     null_or (\<lambda>k. k \<in> set (map lo_operation_id (lc_operations db))) (lo_superseded_by r)) (lc_operations db)"

definition registry_execute :: "registry \<Rightarrow> store_error + registry" where
  "registry_execute db = (if registry_schema db then Inr db else Inl sql_error)"

definition registry_commit :: "registry \<Rightarrow> store_error + registry" where
  "registry_commit db = (if deferred_operations db then Inr db else Inl sql_error)"

lemma registry_execute_Ok_iff: "registry_execute db = Inr db' \<longleftrightarrow> registry_schema db \<and> db' = db"
  by (auto simp: registry_execute_def)

lemma registry_commit_Ok_iff: "registry_commit db = Inr db' \<longleftrightarrow> deferred_operations db \<and> db' = db"
  by (auto simp: registry_commit_def)

end
