(* ===== verification/Registry_Read.thy ===== *)
theory Registry_Read
  imports Registry_Store Work_Json "HOL-Library.List_Lexorder" "HOL-Library.Char_ord" "HOL-Library.Product_Lexorder"
begin

text \<open>
  The readers of \<^verbatim>\<open>account_lifecycle.rs\<close>: stored labels, credential bindings as columns and as
  JSON, operations, quota observations, accounts with their readiness, the registry and its
  routing control. The clock is read once for every quota window that is shown: \<open>clock a d\<close> is
  its reading for account \<open>a\<close> and duration \<open>d\<close>.
\<close>

section \<open>Stored labels\<close>

definition operation_kind_text :: "account_operation_kind \<Rightarrow> string" where
  "operation_kind_text kind = (case kind of Enroll \<Rightarrow> ''enroll'' | Import \<Rightarrow> ''import''
     | Refresh \<Rightarrow> ''refresh'' | Logout \<Rightarrow> ''logout'')"

definition parse_operation_kind :: "string \<Rightarrow> store_error + account_operation_kind" where
  "parse_operation_kind s =
     (if s = ''enroll'' then Inr Enroll else if s = ''import'' then Inr Import
      else if s = ''refresh'' then Inr Refresh else if s = ''logout'' then Inr Logout
      else Inl (incompatible ''account operation kind''))"

definition operation_phase_text :: "account_operation_phase \<Rightarrow> string" where
  "operation_phase_text phase = (case phase of OpPrepared \<Rightarrow> ''prepared''
     | ProviderEffectPending \<Rightarrow> ''provider_effect_pending'' | StoreApplied \<Rightarrow> ''store_applied''
     | Committed \<Rightarrow> ''committed'' | Cancelled \<Rightarrow> ''cancelled'' | RecoveryRequired \<Rightarrow> ''recovery_required'')"

definition parse_operation_phase :: "string \<Rightarrow> store_error + account_operation_phase" where
  "parse_operation_phase s =
     (if s = ''prepared'' then Inr OpPrepared
      else if s = ''provider_effect_pending'' then Inr ProviderEffectPending
      else if s = ''store_applied'' then Inr StoreApplied else if s = ''committed'' then Inr Committed
      else if s = ''cancelled'' then Inr Cancelled else if s = ''recovery_required'' then Inr RecoveryRequired
      else Inl (incompatible ''account operation phase''))"

definition provider_label :: "account_provider \<Rightarrow> string" where
  "provider_label provider = (case provider of Chatgpt \<Rightarrow> ''chatgpt'')"

datatype account_store_observation =
    ObservedExact | ObservedMissing | ObservedMismatch | ObservedProviderMismatch | ObservedUnavailable

definition store_observation_text :: "account_store_observation \<Rightarrow> string" where
  "store_observation_text observation = (case observation of ObservedExact \<Rightarrow> ''exact''
     | ObservedMissing \<Rightarrow> ''missing'' | ObservedMismatch \<Rightarrow> ''mismatch''
     | ObservedProviderMismatch \<Rightarrow> ''provider_mismatch'' | ObservedUnavailable \<Rightarrow> ''unavailable'')"

definition quota_error_text :: "account_quota_observation_error \<Rightarrow> string" where
  "quota_error_text e = (case e of ProviderUnavailable \<Rightarrow> ''provider_unavailable''
     | ProtocolUnavailable \<Rightarrow> ''protocol_unavailable'' | AccountMismatch \<Rightarrow> ''account_mismatch''
     | UnsupportedWindow \<Rightarrow> ''unsupported_window'')"

definition parse_quota_error :: "string \<Rightarrow> store_error + account_quota_observation_error" where
  "parse_quota_error s =
     (if s = ''provider_unavailable'' then Inr ProviderUnavailable
      else if s = ''protocol_unavailable'' then Inr ProtocolUnavailable
      else if s = ''account_mismatch'' then Inr AccountMismatch
      else if s = ''unsupported_window'' then Inr UnsupportedWindow
      else Inl (incompatible ''quota observation error''))"

definition parse_account_state :: "string \<Rightarrow> store_error + account_state" where
  "parse_account_state s =
     (if s = ''unavailable'' then Inr account_state.Unavailable else if s = ''unknown'' then Inr StateUnknown
      else if s = ''available'' then Inr Available else if s = ''depleted'' then Inr Depleted
      else if s = ''auth_failed'' then Inr AuthFailed else if s = ''plugin_unready'' then Inr PluginUnready
      else Inl (incompatible ''account state''))"

interpretation operation_kind_label: label_codec operation_kind_text "\<lambda>s. ok_opt (parse_operation_kind s)"
proof
  show "ok_opt (parse_operation_kind (operation_kind_text x)) = Some x" for x
    by (cases x) (simp_all add: operation_kind_text_def parse_operation_kind_def)
  show "s = operation_kind_text x" if "ok_opt (parse_operation_kind s) = Some x" for s x
    using that by (auto simp: operation_kind_text_def parse_operation_kind_def split: if_splits)
qed

interpretation operation_phase_label: label_codec operation_phase_text "\<lambda>s. ok_opt (parse_operation_phase s)"
proof
  show "ok_opt (parse_operation_phase (operation_phase_text x)) = Some x" for x
    by (cases x) (simp_all add: operation_phase_text_def parse_operation_phase_def)
  show "s = operation_phase_text x" if "ok_opt (parse_operation_phase s) = Some x" for s x
    using that by (auto simp: operation_phase_text_def parse_operation_phase_def split: if_splits)
qed

interpretation quota_error_label: label_codec quota_error_text "\<lambda>s. ok_opt (parse_quota_error s)"
proof
  show "ok_opt (parse_quota_error (quota_error_text x)) = Some x" for x
    by (cases x) (simp_all add: quota_error_text_def parse_quota_error_def)
  show "s = quota_error_text x" if "ok_opt (parse_quota_error s) = Some x" for s x
    using that by (auto simp: quota_error_text_def parse_quota_error_def split: if_splits)
qed

section \<open>Credential bindings\<close>

definition binding_from_parts ::
    "i64 \<Rightarrow> i64 \<Rightarrow> string \<Rightarrow> string \<Rightarrow> string \<Rightarrow> string \<Rightarrow> store_error + credential_binding" where
  "binding_from_parts schema version fingerprint writer provider provider_account =
     and_then (if provider = ''chatgpt'' then Inr Chatgpt else Inl (incompatible ''credential provider'')) (\<lambda>provider.
     and_then (ok_or (incompatible ''credential schema'') (u16_try_from schema)) (\<lambda>schema.
     and_then (or_incompatible ''credential schema'' (schema_version_new schema)) (\<lambda>schema_version.
     and_then (ok_or (incompatible ''credential version'') (u64_try_from version)) (\<lambda>version.
     and_then (or_incompatible ''credential version'' (credential_version_new version)) (\<lambda>version.
     and_then (or_incompatible ''credential fingerprint'' (credential_fingerprint_new fingerprint)) (\<lambda>fingerprint.
     and_then (or_incompatible ''credential provider identity'' (provider_identity_new provider provider_account)) (\<lambda>provider.
     and_then (or_incompatible ''credential writer operation identity'' (account_operation_id_new writer)) (\<lambda>writer.
       Inr \<lparr>cb_schema_version = schema_version, cb_version = version, cb_fingerprint = fingerprint,
         cb_provider = provider, cb_writer_operation_id = writer\<rparr>))))))))"

definition binding_value :: "credential_binding \<Rightarrow> json" where
  "binding_value b = JObject
     [(''schema_version'', JInt (uint (schema_get (cb_schema_version b)))),
      (''credential_version'', JInt (uint (credential_version_get (cb_version b)))),
      (''fingerprint'', JString (fingerprint_text (cb_fingerprint b))),
      (''writer_operation_id'', JString (operation_id_text (cb_writer_operation_id b))),
      (''provider'', JString (provider_label (pid_provider (cb_provider b)))),
      (''provider_account_id'', JString (pid_account_id (cb_provider b)))]"

definition binding_json :: "json_codec \<Rightarrow> credential_binding option \<Rightarrow> string option" where
  "binding_json jc binding = map_option (\<lambda>b. jc_print_value jc (binding_value b)) binding"

text \<open>\<^verbatim>\<open>Value::get\<close>, \<^verbatim>\<open>Value::as_u64\<close> with \<^verbatim>\<open>i64::try_from\<close>, \<^verbatim>\<open>Value::as_str\<close>.\<close>

definition json_get :: "json \<Rightarrow> string \<Rightarrow> json option" where
  "json_get v k = (case v of JObject kvs \<Rightarrow> map_of kvs k | _ \<Rightarrow> None)"

definition json_natural :: "json \<Rightarrow> i64 option" where
  "json_natural v = (case v of JInt n \<Rightarrow> if 0 \<le> n \<and> n \<le> i64_max then Some n else None | _ \<Rightarrow> None)"

definition json_str_value :: "json \<Rightarrow> string option" where
  "json_str_value v = (case v of JString s \<Rightarrow> Some s | _ \<Rightarrow> None)"

definition json_string :: "json \<Rightarrow> string \<Rightarrow> store_error + string" where
  "json_string v k = ok_or (incompatible ''credential binding field'') (Option.bind (json_get v k) json_str_value)"

definition parse_binding_value :: "json \<Rightarrow> store_error + credential_binding" where
  "parse_binding_value v =
     and_then (ok_or (incompatible ''credential binding schema'') (Option.bind (json_get v ''schema_version'') json_natural)) (\<lambda>schema.
     and_then (ok_or (incompatible ''credential binding version'') (Option.bind (json_get v ''credential_version'') json_natural)) (\<lambda>version.
     and_then (json_string v ''fingerprint'') (\<lambda>fingerprint.
     and_then (json_string v ''writer_operation_id'') (\<lambda>writer.
     and_then (json_string v ''provider'') (\<lambda>provider.
     and_then (json_string v ''provider_account_id'') (\<lambda>provider_account.
       binding_from_parts schema version fingerprint writer provider provider_account))))))"

definition parse_binding_json :: "json_codec \<Rightarrow> string option \<Rightarrow> store_error + credential_binding option" where
  "parse_binding_json jc text_value =
     (case text_value of
        None \<Rightarrow> Inr None
      | Some s \<Rightarrow> and_then (ok_or (incompatible ''credential binding'') (jc_parse_value jc s)) (\<lambda>v.
          and_then (parse_binding_value v) (\<lambda>b. Inr (Some b))))"

definition find_account :: "registry \<Rightarrow> string \<Rightarrow> registered_account option" where
  "find_account db a = find_row an_account_id (lc_accounts db) a"

definition find_operation :: "registry \<Rightarrow> string \<Rightarrow> lifecycle_operation option" where
  "find_operation db k = find_row lo_operation_id (lc_operations db) k"

definition find_credential :: "registry \<Rightarrow> string \<Rightarrow> stored_credential option" where
  "find_credential db a = find_row se_account_id (lc_credentials db) a"

definition transpose_option :: "('a \<Rightarrow> 'e + 'b) \<Rightarrow> 'a option \<Rightarrow> 'e + 'b option" where
  "transpose_option f v = (case v of None \<Rightarrow> Inr None | Some x \<Rightarrow> and_then (f x) (\<lambda>y. Inr (Some y)))"

definition credential_binding_of :: "stored_credential \<Rightarrow> store_error + credential_binding" where
  "credential_binding_of c = binding_from_parts (se_schema_version c) (se_version c) (se_fingerprint c)
     (se_writer_operation_id c) (se_provider c) (se_provider_account_id c)"

definition credential_binding_sync :: "registry \<Rightarrow> string \<Rightarrow> store_error + credential_binding option" where
  "credential_binding_sync db a = transpose_option credential_binding_of (find_credential db a)"

section \<open>Operations\<close>

definition parse_operation :: "json_codec \<Rightarrow> account_operation_id \<Rightarrow> lifecycle_operation \<Rightarrow> store_error + account_operation" where
  "parse_operation jc k r =
     and_then (or_incompatible ''account identity'' (account_id_new (lo_account_id r))) (\<lambda>account.
     and_then (parse_operation_kind (lo_kind r)) (\<lambda>kind.
     and_then (parse_operation_phase (lo_phase r)) (\<lambda>phase.
     and_then (parse_binding_json jc (lo_expected_json r)) (\<lambda>expected.
     and_then (parse_binding_json jc (lo_target_json r)) (\<lambda>target.
     and_then (or_incompatible ''account recovery operation identity''
       (transpose_option account_operation_id_new (lo_recovery_operation_id r))) (\<lambda>recovery.
     and_then (or_incompatible ''account superseding operation identity''
       (transpose_option account_operation_id_new (lo_superseded_by r))) (\<lambda>superseded.
       Inr \<lparr>ao_operation_id = k, ao_account_id = account, ao_kind = kind, ao_phase = phase,
         ao_expected_account_revision = lo_expected_revision r, ao_requested_display_label = lo_label r,
         ao_requested_enabled = lo_enabled r, ao_expected = expected, ao_target = target,
         ao_recovery_code = lo_recovery_code r, ao_recovery_operation_id = recovery,
         ao_superseded_by_operation_id = superseded\<rparr>)))))))"

definition read_operation_sync ::
    "json_codec \<Rightarrow> registry \<Rightarrow> account_operation_id \<Rightarrow> store_error + account_operation option" where
  "read_operation_sync jc db k = transpose_option (parse_operation jc k) (find_operation db (operation_id_text k))"

text \<open>\<^verbatim>\<open>ORDER BY recovery_operation_id IS NULL, created_at_micros, operation_id\<close>.\<close>

definition operation_rank :: "lifecycle_operation \<Rightarrow> bool \<times> i64 \<times> string" where
  "operation_rank r = (lo_recovery_operation_id r = None, lo_created r, lo_operation_id r)"

definition open_operation :: "lifecycle_operation \<Rightarrow> bool" where
  "open_operation r \<longleftrightarrow> \<not> settled_phase (lo_phase r) \<and> lo_superseded_by r = None"

definition open_operations :: "registry \<Rightarrow> string \<Rightarrow> lifecycle_operation list" where
  "open_operations db a = sort_key operation_rank
     (filter (\<lambda>r. lo_account_id r = a \<and> open_operation r) (lc_operations db))"

definition unsettled_operation_sync :: "registry \<Rightarrow> string \<Rightarrow> store_error + account_operation_status option" where
  "unsettled_operation_sync db a =
     transpose_option (\<lambda>r.
       and_then (or_incompatible ''account operation identity'' (account_operation_id_new (lo_operation_id r))) (\<lambda>k.
       and_then (parse_operation_kind (lo_kind r)) (\<lambda>kind.
       and_then (parse_operation_phase (lo_phase r)) (\<lambda>phase.
         Inr \<lparr>aos_operation_id = k, aos_kind = kind, aos_phase = phase, aos_recovery_code = lo_recovery_code r\<rparr>))))
     (case open_operations db a of [] \<Rightarrow> None | r # _ \<Rightarrow> Some r)"

definition read_unsettled_account_operations ::
    "json_codec \<Rightarrow> 16 word \<Rightarrow> registry \<Rightarrow> store_error + account_operation list" where
  "read_unsettled_account_operations jc limit db =
     (if limit = 0 \<or> unat limit > 1024
      then Inl (InvalidInput ''account operation limit must be between 1 and 1024'')
      else traverse (\<lambda>r.
        and_then (or_incompatible ''account operation identity'' (account_operation_id_new (lo_operation_id r))) (\<lambda>k.
        and_then (read_operation_sync jc db k) (\<lambda>v. ok_or (incompatible ''account operation readback'') v)))
      (take (unat limit) (sort_key operation_rank (filter open_operation (lc_operations db)))))"

section \<open>Quota observations\<close>

definition quota_freshness_micros :: i64 where "quota_freshness_micros = 300000000"

definition find_quota :: "registry \<Rightarrow> string \<Rightarrow> i64 \<Rightarrow> quota_row option" where
  "find_quota db a d = find (\<lambda>r. qw_account_id r = a \<and> qw_duration r = d) (lc_quotas db)"

definition unknown_quota :: "32 word \<Rightarrow> store_error + account_quota_window_observation" where
  "unknown_quota d = or_incompatible ''quota duration'' (quota_observation_unknown d)"

definition quota_observation_of ::
    "i64 option \<Rightarrow> 32 word \<Rightarrow> quota_row \<Rightarrow> store_error + account_quota_window_observation" where
  "quota_observation_of clock d r =
     (if qw_not_applicable r
      then if d \<noteq> 300 \<or> qw_used_percent r \<noteq> None \<or> qw_resets_at r \<noteq> None \<or> qw_error_code r \<noteq> None
             \<or> qw_observed_at r \<le> 0
           then Inl (incompatible ''quota absence shape'')
           else
           and_then (unix_micros clock) (\<lambda>now.
             if qw_observed_at r > now
                \<or> saturating_add_i64 (qw_observed_at r) quota_freshness_micros < now
             then unknown_quota d
             else Inr \<lparr>aqo_duration_minutes = d, aqo_observed_at = Some (qw_observed_at r),
               aqo_disposition = QuotaNotApplicable\<rparr>)
      else if qw_error_code r = Some ''unsupported_window'' then unknown_quota d
      else
      and_then (case (qw_used_percent r, qw_resets_at r, qw_error_code r) of
          (None, None, Some e) \<Rightarrow> and_then (parse_quota_error e) (\<lambda>e. Inr (QuotaError e))
        | (Some used, Some resets, None) \<Rightarrow>
            and_then (if 0 \<le> used \<and> used < 256 then Inr (word_of_int used) else Inl (incompatible ''quota percentage'')) (\<lambda>used.
            and_then (or_incompatible ''quota window'' (account_quota_window_new d used resets)) (\<lambda>fact.
            and_then (unix_micros clock) (\<lambda>now.
              if resets \<le> now \<or> saturating_add_i64 (qw_observed_at r) quota_freshness_micros < now
              then Inr (QuotaStale fact) else Inr (QuotaCurrent fact))))
        | _ \<Rightarrow> Inl (incompatible ''quota observation shape'')) (\<lambda>disposition.
        Inr \<lparr>aqo_duration_minutes = d, aqo_observed_at = Some (qw_observed_at r),
          aqo_disposition = disposition\<rparr>))"

definition quota_observation_sync ::
    "i64 option \<Rightarrow> registry \<Rightarrow> string \<Rightarrow> 32 word \<Rightarrow> store_error + account_quota_window_observation" where
  "quota_observation_sync clock db a d =
     (case find_quota db a (uint d) of None \<Rightarrow> unknown_quota d | Some r \<Rightarrow> quota_observation_of clock d r)"

definition read_usage_observation :: "registry \<Rightarrow> string \<Rightarrow> account_usage_observation option" where
  "read_usage_observation db a = map_option (\<lambda>r. \<lparr>auo_account_revision = us_account_revision r,
     auo_observed_at = us_observed_at r, auo_ordinary_usage_allowed = us_ordinary_usage_allowed r,
     auo_conditions = us_conditions r\<rparr>) (find_row us_account_id (lc_usages db) a)"

section \<open>Accounts\<close>

definition lifecycle_readiness ::
    "registered_account \<Rightarrow> credential_binding option \<Rightarrow> account_operation_status option \<Rightarrow> bool \<Rightarrow>
     store_error + account_lifecycle_readiness" where
  "lifecycle_readiness base credential unsettled capability_ready =
     (if an_tombstoned base \<noteq> None then Inr Tombstoned
      else if unsettled \<noteq> None then Inr OperationUnsettled
      else case credential of
        None \<Rightarrow> Inr CredentialAbsent
      | Some binding \<Rightarrow>
          if \<not> (provider_label (pid_provider (cb_provider binding)) = an_provider base
                \<and> pid_account_id (cb_provider binding) = an_provider_account_id base)
          then Inr ProviderMismatch
          else if \<not> capability_ready then Inr CallbackCapabilityUnready
          else if an_store_observation base = ''exact'' then Inr LifecycleReady
          else if an_store_observation base = ''unavailable'' then Inr StoreUnavailable
          else if an_store_observation base = ''provider_mismatch'' then Inr ProviderMismatch
          else if an_store_observation base \<in> set [''unknown'', ''missing'', ''mismatch''] then Inr StoreMismatch
          else Inl (incompatible ''account store observation''))"

type_synonym quota_clock = "string \<Rightarrow> 32 word \<Rightarrow> i64 option"

definition account_from_base ::
    "quota_clock \<Rightarrow> registry \<Rightarrow> registered_account \<Rightarrow> bool \<Rightarrow> store_error + account_record" where
  "account_from_base clock db base capability_ready =
     and_then (or_incompatible ''account identity'' (account_id_new (an_account_id base))) (\<lambda>account.
     and_then (credential_binding_sync db (account_id_text account)) (\<lambda>credential.
     and_then (unsettled_operation_sync db (account_id_text account)) (\<lambda>unsettled.
     and_then (lifecycle_readiness base credential unsettled capability_ready) (\<lambda>readiness.
     and_then (parse_account_state (an_state base)) (\<lambda>state.
     and_then (quota_observation_sync (clock (account_id_text account) 300) db (account_id_text account) 300) (\<lambda>five.
     and_then (quota_observation_sync (clock (account_id_text account) 10080) db (account_id_text account) 10080) (\<lambda>seven.
       Inr \<lparr>ar_account_id = account, ar_label = an_label base, ar_enabled = an_enabled base,
         ar_revision = an_revision base, ar_observed_state = state, ar_lifecycle_readiness = readiness,
         ar_credential = credential, ar_unsettled_operation = unsettled,
         ar_usage_observation = read_usage_observation db (account_id_text account),
         ar_five_hour_quota = five, ar_seven_day_quota = seven,
         ar_tombstoned = (an_tombstoned base \<noteq> None)\<rparr>)))))))"

definition capability_is_ready :: "registry \<Rightarrow> bool" where
  "capability_is_ready db = (case lc_capability db of None \<Rightarrow> False
     | Some c \<Rightarrow> ca_login_chatgpt_auth_tokens c \<and> ca_refresh_callback c)"

definition registry_position :: "registry \<Rightarrow> string \<Rightarrow> i64" where
  "registry_position db a = (case find_row od_account_id (lc_order db) a of
     None \<Rightarrow> 2147483647 | Some r \<Rightarrow> od_position r)"

definition live_account :: "registered_account \<Rightarrow> bool" where
  "live_account r \<longleftrightarrow> an_tombstoned r = None"

definition registry_rows :: "registry \<Rightarrow> string option \<Rightarrow> nat \<Rightarrow> registered_account list" where
  "registry_rows db account limit = take limit
     (sort_key (\<lambda>r. (registry_position db (an_account_id r), an_account_id r))
       (filter (\<lambda>r. case account of None \<Rightarrow> live_account r | Some a \<Rightarrow> an_account_id r = a) (lc_accounts db)))"

definition read_account_registry_sync ::
    "quota_clock \<Rightarrow> string option \<Rightarrow> 16 word \<Rightarrow> registry \<Rightarrow> store_error + account_record list" where
  "read_account_registry_sync clock account limit db =
     (if account = None \<and> length (filter live_account (lc_accounts db)) > unat limit
      then Inl (CapacityExhausted ''account registry'')
      else traverse (\<lambda>r. account_from_base clock db r (capability_is_ready db))
        (registry_rows db account (unat limit)))"

section \<open>The routing control\<close>

definition live_order :: "registry \<Rightarrow> string list" where
  "live_order db = map od_account_id (sort_key (\<lambda>r. (od_position r, od_account_id r))
     (filter (\<lambda>o'. list_ex (\<lambda>r. an_account_id r = od_account_id o' \<and> live_account r) (lc_accounts db))
       (lc_order db)))"

definition parse_selection_mode :: "string \<Rightarrow> string option \<Rightarrow> store_error + account_selection_mode" where
  "parse_selection_mode mode fixed =
     (if mode = ''balanced'' \<and> fixed = None then Inr Balanced
      else if mode = ''fixed''
      then and_then (ok_or (incompatible ''fixed account identity'') fixed) (\<lambda>a.
        and_then (or_incompatible ''fixed account identity'' (account_id_new a)) (\<lambda>a. Inr (Fixed a)))
      else Inl (incompatible ''account selection mode''))"

definition read_routing_control_sync :: "registry \<Rightarrow> store_error + account_routing_control" where
  "read_routing_control_sync db =
     and_then (ok_or sql_error (lc_control db)) (\<lambda>control.
     and_then (traverse (\<lambda>a. or_incompatible ''account routing identity'' (account_id_new a)) (live_order db)) (\<lambda>order.
     and_then (parse_selection_mode (ct_mode control) (ct_fixed_account_id control)) (\<lambda>mode.
       Inr \<lparr>arc_revision = ct_revision control, arc_mode = mode, arc_order = order\<rparr>)))"

definition validate_registry_snapshot :: "account_record list \<Rightarrow> account_routing_control \<Rightarrow> store_error + unit" where
  "validate_registry_snapshot accounts routing =
     (let universe = map ar_account_id accounts in
      if \<not> distinct universe \<or> \<not> distinct (arc_order routing) \<or> set universe \<noteq> set (arc_order routing)
         \<or> list_ex ar_tombstoned accounts
      then Inl (incompatible ''account registry routing universe'')
      else case arc_mode routing of
        Fixed a \<Rightarrow> if a \<notin> set universe then Inl (incompatible ''fixed account routing target'') else Inr ()
      | Balanced \<Rightarrow> Inr ())"

definition read_account_registry_snapshot ::
    "quota_clock \<Rightarrow> 16 word \<Rightarrow> registry \<Rightarrow> store_error + account_record list \<times> account_routing_control" where
  "read_account_registry_snapshot clock limit db =
     (if limit = 0 \<or> unat limit > 512
      then Inl (InvalidInput ''account registry limit must be between 1 and 512'')
      else
      and_then (read_account_registry_sync clock None limit db) (\<lambda>accounts.
      and_then (read_routing_control_sync db) (\<lambda>routing.
      and_then (validate_registry_snapshot accounts routing) (\<lambda>_.
        Inr (accounts, routing)))))"

definition read_account_registry ::
    "quota_clock \<Rightarrow> account_id option \<Rightarrow> 16 word \<Rightarrow> registry \<Rightarrow> store_error + account_record list" where
  "read_account_registry clock account limit db =
     (if limit = 0 \<or> unat limit > 512
      then Inl (InvalidInput ''account registry limit must be between 1 and 512'')
      else read_account_registry_sync clock (map_option account_id_text account) limit db)"

end
