(* ===== verification/Account_Alias.thy ===== *)
theory Account_Alias
  imports Byte_Codec Account
begin

text \<open>
  Account names: the candidates of \<^verbatim>\<open>decodex-core/src/account_alias.rs\<close> and their allocation in
  \<^verbatim>\<open>database/src/account_alias.rs\<close>. The provider identity selects a place in the dictionary; a
  collision moves to the next word, and after the dictionary to a word spelled from a digest.
  SHA-256 is a parameter.
\<close>

section \<open>Candidates\<close>

definition account_alias_words :: "string list" where
  "account_alias_words = [
    ''Alex'', ''Avery'', ''Bailey'', ''Blake'', ''Casey'', ''Charlie'', ''Clara'', ''Dana'', ''Drew'',
     ''Eden'', ''Elliot'', ''Emery'', ''Evan'', ''Finley'', ''Harper'', ''Hayden'', ''Iris'', ''Jamie'',
     ''Jordan'', ''Kai'', ''Kendall'', ''Lane'', ''Liam'', ''Logan'', ''Mason'', ''Maya'', ''Mia'',
     ''Morgan'', ''Noah'', ''Nora'', ''Owen'', ''Paige'', ''Parker'', ''Quinn'', ''Reese'', ''Remy'',
     ''Riley'', ''Rowan'', ''Sage'', ''Sasha'', ''Sidney'', ''Taylor'', ''Theo'', ''Val'']"

definition account_alias_surnames :: "string list" where
  "account_alias_surnames = [
    ''Abbott'', ''Adler'', ''Archer'', ''Ashford'', ''Ashton'', ''Atwood'', ''Baldwin'', ''Bancroft'',
     ''Barrett'', ''Baxter'', ''Bellamy'', ''Bennett'', ''Benson'', ''Bishop'', ''Blair'', ''Blake'',
     ''Bowen'', ''Bradley'', ''Brooks'', ''Browning'', ''Bryant'', ''Burke'', ''Callahan'', ''Campbell'',
     ''Carson'', ''Carter'', ''Chandler'', ''Clark'', ''Collins'', ''Cooper'', ''Crawford'', ''Dalton'',
     ''Dawson'', ''Delaney'', ''Donovan'', ''Douglas'', ''Duncan'', ''Easton'', ''Ellis'', ''Emerson'',
     ''Everett'', ''Fairfax'', ''Fletcher'', ''Flynn'', ''Ford'', ''Foster'', ''Fox'', ''Franklin'',
     ''Gardner'', ''Gibson'', ''Graham'', ''Grant'', ''Gray'', ''Griffin'', ''Hale'', ''Hamilton'',
     ''Harlow'', ''Harper'', ''Harrison'', ''Hart'', ''Hayes'', ''Henderson'', ''Holden'', ''Holland'',
     ''Hudson'', ''Hughes'', ''Hunter'', ''Irving'', ''Jackson'', ''James'', ''Jensen'', ''Jordan'',
     ''Keaton'', ''Keller'', ''Kennedy'', ''King'', ''Knight'', ''Lane'', ''Lawson'', ''Lennox'', ''Lewis'',
     ''Lincoln'', ''Logan'', ''Lowe'', ''Maddox'', ''Marshall'', ''Mason'', ''Maxwell'', ''Mercer'',
     ''Miller'', ''Monroe'', ''Morgan'', ''Morris'', ''Nash'', ''Nelson'', ''Nolan'', ''Oakley'', ''Oliver'',
     ''Palmer'', ''Parker'', ''Pierce'', ''Porter'', ''Prescott'', ''Quinn'', ''Reed'', ''Reeves'',
     ''Reynolds'', ''Rhodes'', ''Riley'', ''Rivera'', ''Rowan'', ''Russell'', ''Sawyer'', ''Scott'',
     ''Shaw'', ''Sinclair'', ''Spencer'', ''Sterling'', ''Stone'', ''Sullivan'', ''Sutton'', ''Taylor'',
     ''Turner'', ''Vaughn'', ''Walker'', ''Warren'', ''Wells'', ''Wilder'']"

definition account_alias_names :: "string list" where
  "account_alias_names = account_alias_words @ account_alias_surnames"

definition alias_starts :: "string list" where
  "alias_starts = [''b'', ''d'', ''f'', ''g'', ''h'', ''k'', ''l'', ''m'', ''n'', ''p'', ''r'', ''s'', ''t'', ''v'', ''w'', ''z'']"

definition alias_vowels :: "string list" where
  "alias_vowels = [''a'', ''e'', ''i'', ''o'', ''u'']"

text \<open>\<^verbatim>\<open>digest[..10].as_chunks::<2>().0\<close> and one syllable for each pair.\<close>

fun alias_syllables :: "byte list \<Rightarrow> string" where
  "alias_syllables (a # b # bs) =
     alias_starts ! (unat a mod length alias_starts) @ alias_vowels ! (unat b mod length alias_vowels) @ alias_syllables bs"
| "alias_syllables bs = []"

definition to_ascii_uppercase :: "char \<Rightarrow> char" where
  "to_ascii_uppercase c = (if 97 \<le> code c \<and> code c \<le> 122 then char_of (code c - 32) else c)"

definition alias_digest :: "(byte list \<Rightarrow> byte list) \<Rightarrow> provider_identity \<Rightarrow> byte list" where
  "alias_digest sha256 provider = sha256 (bytes_of (''decodex/account-alias/v3'' @ [char_of (0::nat)] @ ''chatgpt'' @ [char_of (0::nat)])
     @ bytes_of (pid_account_id provider))"

definition account_alias_candidate :: "(byte list \<Rightarrow> byte list) \<Rightarrow> provider_identity \<Rightarrow> nat \<Rightarrow> string" where
  "account_alias_candidate sha256 provider attempt =
     (let digest = alias_digest sha256 provider;
          selector = be_value (take 8 digest);
          count = length account_alias_words + length account_alias_surnames in
      if attempt < count
      then account_alias_names ! ((selector mod count + attempt) mod count)
      else
        let name = alias_syllables (take 10 (sha256 (digest @ be_bytes 8 attempt))) in
        map to_ascii_uppercase (take 1 name) @ drop 1 name)"

section \<open>Allocation\<close>

text \<open>
  \<^verbatim>\<open>for attempt in 0..\<close> over \<^verbatim>\<open>u64\<close>: \<open>fuel\<close> counts the attempts that are left, and \<open>None\<close> is
  the \<^verbatim>\<open>unreachable!\<close> behind the loop.
\<close>

fun allocate_from :: "(nat \<Rightarrow> string) \<Rightarrow> string list \<Rightarrow> nat \<Rightarrow> nat \<Rightarrow> string option" where
  "allocate_from candidate used attempt 0 = None"
| "allocate_from candidate used attempt (Suc fuel) =
     (let name = candidate attempt in
      if name \<notin> set used then Some name else allocate_from candidate used (attempt + 1) fuel)"

definition allocate_alias :: "(byte list \<Rightarrow> byte list) \<Rightarrow> provider_identity \<Rightarrow> string list \<Rightarrow> string option" where
  "allocate_alias sha256 provider used = allocate_from (account_alias_candidate sha256 provider) used 0 (2 ^ 64)"

text \<open>\<^verbatim>\<open>for_enrollment\<close> over the pairs of provider account and label of the accounts.\<close>

fun alias_for_enrollment ::
    "(byte list \<Rightarrow> byte list) \<Rightarrow> provider_identity \<Rightarrow> string list \<Rightarrow> (string \<times> string) list \<Rightarrow> string option" where
  "alias_for_enrollment sha256 provider used [] = allocate_alias sha256 provider used"
| "alias_for_enrollment sha256 provider used ((k, label) # rows) =
     (if k = pid_account_id provider then Some label
      else alias_for_enrollment sha256 provider (label # used) rows)"

section \<open>Properties\<close>

lemma allocate_from_Some_iff:
  "allocate_from candidate used attempt fuel = Some name \<longleftrightarrow>
     (\<exists>n < fuel. name = candidate (attempt + n) \<and> name \<notin> set used \<and> (\<forall>m < n. candidate (attempt + m) \<in> set used))"
proof (induction fuel arbitrary: attempt)
  case 0
  then show ?case by simp
next
  case (Suc fuel)
  show ?case
  proof (cases "candidate attempt \<in> set used")
    case True
    have "(\<exists>n < Suc fuel. P n) \<longleftrightarrow> P 0 \<or> (\<exists>n < fuel. P (Suc n))" for P
      by (metis Suc_less_eq less_Suc_eq_0_disj zero_less_Suc)
    have "allocate_from candidate used attempt (Suc fuel) = Some name \<longleftrightarrow>
        (\<exists>n < fuel. name = candidate (attempt + Suc n) \<and> name \<notin> set used \<and> (\<forall>m < Suc n. candidate (attempt + m) \<in> set used))"
      using True by (simp add: Suc.IH All_less_Suc2)
    also have "\<dots> \<longleftrightarrow> (\<exists>n < Suc fuel. name = candidate (attempt + n) \<and> name \<notin> set used \<and>
        (\<forall>m < n. candidate (attempt + m) \<in> set used))"
      using True by (subst \<open>\<And>P. (\<exists>n < Suc fuel. P n) \<longleftrightarrow> P 0 \<or> (\<exists>n < fuel. P (Suc n))\<close>) auto
    finally show ?thesis .
  next
    case False
    then show ?thesis by (auto simp: Let_def) (metis False add_0_right gr0I)
  qed
qed

lemma allocate_from_fresh: "allocate_from candidate used attempt fuel = Some name \<Longrightarrow> name \<notin> set used"
  by (auto simp: allocate_from_Some_iff)

lemma allocate_from_finds:
  assumes "candidate (attempt + n) \<notin> set used" "n < fuel"
  shows "\<exists>m \<le> n. allocate_from candidate used attempt fuel = Some (candidate (attempt + m))"
proof -
  let ?m = "LEAST m. candidate (attempt + m) \<notin> set used"
  have "candidate (attempt + ?m) \<notin> set used" "?m \<le> n" "\<forall>j < ?m. candidate (attempt + j) \<in> set used"
    using LeastI [of "\<lambda>m. candidate (attempt + m) \<notin> set used", OF assms(1)] Least_le [of "\<lambda>m. candidate (attempt + m) \<notin> set used", OF assms(1)]
    not_less_Least by auto
  then show ?thesis using assms(2) by (auto simp: allocate_from_Some_iff intro!: exI [of _ ?m])
qed

text \<open>The first attempts walk once through the whole dictionary.\<close>

lemma alias_cycle:
  assumes "c > 0"
  shows "(\<lambda>n. (s mod c + n) mod c) ` {..<c} = {..<c :: nat}"
proof
  show "{..<c} \<subseteq> (\<lambda>n. (s mod c + n) mod c) ` {..<c}"
  proof
    fix k assume "k \<in> {..<c}"
    then have k: "k < c" by simp
    have "(s mod c + (k + (c - s mod c)) mod c) mod c = (s mod c + (k + (c - s mod c))) mod c" by (simp add: mod_simps)
    also have "s mod c + (k + (c - s mod c)) = k + c" using assms mod_less_divisor [of c s] by linarith
    finally have "(s mod c + (k + (c - s mod c)) mod c) mod c = k" using k by simp
    then show "k \<in> (\<lambda>n. (s mod c + n) mod c) ` {..<c}" using assms by (intro image_eqI [of _ _ "(k + (c - s mod c)) mod c"]) auto
  qed
qed (use assms in auto)

end
