(* ===== verification/Registry_Operations.thy ===== *)
theory Registry_Operations
  imports Registry_Read Account_Alias Context_Data
begin

text \<open>
  The operations of \<^verbatim>\<open>account_lifecycle.rs\<close>: preparation (also as the takeover of an ambiguous
  refresh), the phases, the commit with its effect on the account, and the target of a refresh.
  An operation that reads the clock twice takes both readings.
\<close>

section \<open>Requests and outcomes\<close>

record account_operation_preparation =
  pn_operation_id :: account_operation_id
  pn_account_id :: account_id
  pn_kind :: account_operation_kind
  pn_display_label :: "string option"
  pn_enabled :: "bool option"
  pn_expected_account_revision :: "i64 option"
  pn_expected :: "credential_binding option"
  pn_target :: "credential_binding option"
  pn_provider :: provider_identity

record account_lifecycle_mutation =
  lm_account_revision :: i64
  lm_phase :: account_operation_phase

datatype account_lifecycle_rejection =
    IdentityConflict | OperationUnsettled | InvalidRequest | AccountMissing | StaleAccount | AccountInUse
  | OperationMissing | StaleOperation

datatype account_lifecycle_mutation_outcome =
    LifecycleApplied account_lifecycle_mutation
  | LifecycleReplayed account_lifecycle_mutation
  | LifecycleRejected account_lifecycle_rejection account_lifecycle_mutation

datatype account_enrollment_resolution =
    FreshEnrollment account_id
  | RestoreEnrollment account_id i64 credential_binding
  | AlreadyEnrolled account_id i64

section \<open>Validation\<close>

definition new_account_kind :: "account_operation_kind \<Rightarrow> bool" where
  "new_account_kind kind \<longleftrightarrow> kind = Enroll \<or> kind = Import"

definition validate_preparation :: "(string \<Rightarrow> bool) \<Rightarrow> account_operation_preparation \<Rightarrow> store_error + unit" where
  "validate_preparation credential_pattern p =
     (if (case pn_expected_account_revision p of None \<Rightarrow> False | Some revision \<Rightarrow> revision < 1)
      then Inl (InvalidInput ''expected account revision must be positive'')
      else
      let new = new_account_kind (pn_kind p) in
      if new \<and> (pn_display_label p = None \<or> pn_enabled p = None \<or> pn_expected p \<noteq> None \<or> pn_target p = None)
      then Inl (InvalidInput ''account operation shape is invalid'')
      else if new \<and> (case pn_target p of None \<Rightarrow> False | Some target \<Rightarrow>
        (pn_expected_account_revision p = None) \<noteq> (credential_version_get (cb_version target) = 1))
      then Inl (InvalidInput ''account operation version is invalid'')
      else if \<not> new \<and> (pn_display_label p \<noteq> None \<or> pn_enabled p \<noteq> None
        \<or> pn_expected_account_revision p = None \<or> pn_expected p = None)
      then Inl (InvalidInput ''account operation shape is invalid'')
      else if (case pn_display_label p of None \<Rightarrow> False | Some label \<Rightarrow>
        label = [] \<or> length label > 128 \<or> has_control label \<or> contains_credential_material credential_pattern label)
      then Inl (InvalidInput ''account label is invalid'')
      else if (case pn_expected p of None \<Rightarrow> False | Some b \<Rightarrow> cb_provider b \<noteq> pn_provider p)
        \<or> (case pn_target p of None \<Rightarrow> False | Some b \<Rightarrow>
             cb_provider b \<noteq> pn_provider p \<or> cb_writer_operation_id b \<noteq> pn_operation_id p)
      then Inl (InvalidInput ''credential binding is invalid'')
      else Inr ())"

fun recovery_code_bytes :: "bool \<Rightarrow> string \<Rightarrow> bool" where
  "recovery_code_bytes first [] = True"
| "recovery_code_bytes first (c # cs) =
     ((97 \<le> code c \<and> code c \<le> 122 \<or> \<not> first \<and> (is_ascii_digit c \<or> c = CHR ''_'')) \<and> recovery_code_bytes False cs)"

definition validate_recovery_code :: "string option \<Rightarrow> store_error + unit" where
  "validate_recovery_code recovery_code =
     (if (case recovery_code of None \<Rightarrow> False | Some s \<Rightarrow> s = [] \<or> length s > 128 \<or> \<not> recovery_code_bytes True s)
      then Inl (InvalidInput ''account recovery code is invalid'') else Inr ())"

definition validate_transition_recovery_shape ::
    "account_operation_phase \<Rightarrow> string option \<Rightarrow> store_error + unit" where
  "validate_transition_recovery_shape target recovery_code =
     (if (target = RecoveryRequired) \<noteq> (recovery_code \<noteq> None)
      then Inl (InvalidInput ''account recovery transition shape is invalid'') else Inr ())"

definition allowed_operation_transition :: "account_operation_phase \<Rightarrow> account_operation_phase \<Rightarrow> bool" where
  "allowed_operation_transition expected target \<longleftrightarrow>
     (expected, target) \<in> set [(OpPrepared, ProviderEffectPending), (OpPrepared, StoreApplied), (OpPrepared, Cancelled),
       (OpPrepared, RecoveryRequired), (ProviderEffectPending, StoreApplied), (ProviderEffectPending, Cancelled),
       (ProviderEffectPending, RecoveryRequired), (StoreApplied, Committed), (StoreApplied, RecoveryRequired),
       (RecoveryRequired, StoreApplied), (RecoveryRequired, Cancelled)]"

section \<open>Preparation\<close>

definition account_revision_or_zero :: "registry \<Rightarrow> string \<Rightarrow> i64" where
  "account_revision_or_zero db a = (case find_account db a of None \<Rightarrow> 0 | Some r \<Rightarrow> an_revision r)"

definition mutation_for :: "registry \<Rightarrow> account_id \<Rightarrow> account_operation_phase \<Rightarrow> account_lifecycle_mutation" where
  "mutation_for db a phase = \<lparr>lm_account_revision = account_revision_or_zero db (account_id_text a), lm_phase = phase\<rparr>"

text \<open>\<^verbatim>\<open>ORDER BY expected_account_revision DESC, completed_at_micros DESC, operation_id DESC\<close>; \<^verbatim>\<open>NULL\<close> is least.\<close>

definition logout_rank :: "lifecycle_operation \<Rightarrow> i64 \<times> i64 \<times> string" where
  "logout_rank r = ((case lo_expected_revision r of None \<Rightarrow> 0 | Some n \<Rightarrow> n),
     (case lo_completed r of None \<Rightarrow> 0 | Some t \<Rightarrow> t), lo_operation_id r)"

definition committed_logouts :: "registry \<Rightarrow> string \<Rightarrow> lifecycle_operation list" where
  "committed_logouts db a = rev (sort_key logout_rank
     (filter (\<lambda>r. lo_account_id r = a \<and> lo_kind r = ''logout'' \<and> lo_phase r = ''committed'') (lc_operations db)))"

definition checked_add_i64 :: "i64 \<Rightarrow> i64 \<Rightarrow> i64 option" where
  "checked_add_i64 a b = (if sql_integer (a + b) then Some (a + b) else None)"

definition tombstone_predecessor_credential ::
    "json_codec \<Rightarrow> registry \<Rightarrow> string \<Rightarrow> i64 \<Rightarrow> provider_identity \<Rightarrow> store_error + credential_binding" where
  "tombstone_predecessor_credential jc db a revision provider =
     and_then (ok_or (incompatible ''tombstoned account logout history'')
       (case committed_logouts db a of [] \<Rightarrow> None | r # _ \<Rightarrow> Some r)) (\<lambda>r.
     and_then (parse_binding_json jc (lo_expected_json r)) (\<lambda>binding.
     and_then (ok_or (incompatible ''tombstoned account credential history'') binding) (\<lambda>binding.
     and_then (ok_or (incompatible ''tombstoned account revision history'') (lo_expected_revision r)) (\<lambda>predecessor.
       if checked_add_i64 predecessor 1 \<noteq> Some revision \<or> cb_provider binding \<noteq> provider
       then Inl (incompatible ''tombstoned account binding history'')
       else Inr binding))))"

definition enrollment_rejection ::
    "json_codec \<Rightarrow> registry \<Rightarrow> account_operation_preparation \<Rightarrow> registered_account option \<Rightarrow>
     store_error + account_lifecycle_rejection option" where
  "enrollment_rejection jc db p account =
     (case account of
        None \<Rightarrow> Inr (if pn_expected_account_revision p \<noteq> None then Some StaleAccount else None)
      | Some base \<Rightarrow>
          if an_tombstoned base = None then Inr (Some IdentityConflict)
          else if pn_expected_account_revision p \<noteq> Some (an_revision base)
             \<or> provider_label (pid_provider (pn_provider p)) \<noteq> an_provider base
             \<or> pid_account_id (pn_provider p) \<noteq> an_provider_account_id base
          then Inr (Some StaleAccount)
          else
          and_then (credential_binding_sync db (account_id_text (pn_account_id p))) (\<lambda>credential.
          if credential \<noteq> None then Inr (Some StaleAccount)
          else
          and_then (tombstone_predecessor_credential jc db (account_id_text (pn_account_id p)) (an_revision base)
            (pn_provider p)) (\<lambda>previous.
          and_then (map_err (\<lambda>_. InvalidInput ''credential version is exhausted'')
            (credential_version_successor (cb_version previous))) (\<lambda>successor.
          and_then (ok_or (InvalidInput ''account operation target is absent'') (pn_target p)) (\<lambda>target.
            Inr (if cb_version target \<noteq> successor \<or> cb_provider target \<noteq> cb_provider previous
              then Some StaleAccount else None))))))"

definition recovery_action_matches ::
    "account_operation_kind \<Rightarrow> credential_binding option \<Rightarrow> account_operation \<Rightarrow> bool" where
  "recovery_action_matches kind target recovery =
     (case kind of
        Refresh \<Rightarrow> target \<noteq> None
      | Logout \<Rightarrow> target = None \<and> ao_recovery_code recovery \<in>
          set [Some ''provider_refresh_rejected'', Some ''provider_access_rejected_after_refresh'']
      | _ \<Rightarrow> False)"

text \<open>The refresh whose outcome is ambiguous, as the operation that takes over names it.\<close>

definition exact_ambiguity ::
    "account_operation \<Rightarrow> account_operation_kind \<Rightarrow> credential_binding option \<Rightarrow> account_id \<Rightarrow> i64 option \<Rightarrow>
     credential_binding option \<Rightarrow> bool" where
  "exact_ambiguity recovery kind target account revision expected \<longleftrightarrow>
     recovery_action_matches kind target recovery \<and>
     ao_account_id recovery = account \<and> ao_kind recovery = Refresh \<and> ao_phase recovery = RecoveryRequired \<and>
     ao_target recovery = None \<and> ao_recovery_code recovery \<noteq> None \<and> ao_recovery_operation_id recovery = None \<and>
     ao_superseded_by_operation_id recovery = None \<and> ao_expected_account_revision recovery = revision \<and>
     ao_expected recovery = expected"

definition validate_recovery_takeover ::
    "json_codec \<Rightarrow> registry \<Rightarrow> account_operation_preparation \<Rightarrow> account_operation_id \<Rightarrow>
     store_error + account_lifecycle_mutation_outcome option" where
  "validate_recovery_takeover jc db p recovery_id =
     and_then (read_operation_sync jc db recovery_id) (\<lambda>v.
     case v of
       None \<Rightarrow> Inr (Some (LifecycleRejected OperationMissing \<lparr>lm_account_revision = 0, lm_phase = RecoveryRequired\<rparr>))
     | Some recovery \<Rightarrow>
         let actual = mutation_for db (ao_account_id recovery) (ao_phase recovery) in
         if \<not> exact_ambiguity recovery (pn_kind p) (pn_target p) (pn_account_id p) (pn_expected_account_revision p)
           (pn_expected p)
         then Inr (Some (LifecycleRejected StaleOperation actual))
         else case find (\<lambda>r. lo_recovery_operation_id r = Some (operation_id_text recovery_id)
             \<and> \<not> settled_phase (lo_phase r)) (lc_operations db) of
           Some r \<Rightarrow> and_then (parse_operation_phase (lo_phase r)) (\<lambda>phase.
             Inr (Some (LifecycleRejected OperationUnsettled
               \<lparr>lm_account_revision = lm_account_revision actual, lm_phase = phase\<rparr>)))
         | None \<Rightarrow> Inr None)"

text \<open>\<^verbatim>\<open>INSERT OR IGNORE\<close>: a row that breaks a constraint is skipped.\<close>

definition insert_or_ignore_identity :: "string \<Rightarrow> i64 \<Rightarrow> registry \<Rightarrow> registry" where
  "insert_or_ignore_identity a now db =
     (let row = \<lparr>ai_account_id = a, ai_created = now\<rparr> in
      if identified db a \<or> \<not> identity_row_checks row then db
      else db\<lparr>lc_identities := lc_identities db @ [row]\<rparr>)"

definition prepared_operation ::
    "json_codec \<Rightarrow> account_operation_preparation \<Rightarrow> account_operation_id option \<Rightarrow> i64 \<Rightarrow> lifecycle_operation" where
  "prepared_operation jc p recovery now =
     \<lparr>lo_operation_id = operation_id_text (pn_operation_id p), lo_account_id = account_id_text (pn_account_id p),
      lo_kind = operation_kind_text (pn_kind p), lo_phase = ''prepared'',
      lo_expected_revision = pn_expected_account_revision p, lo_expected_json = binding_json jc (pn_expected p),
      lo_target_json = binding_json jc (pn_target p), lo_provider = provider_label (pid_provider (pn_provider p)),
      lo_provider_account_id = pid_account_id (pn_provider p), lo_label = pn_display_label p,
      lo_enabled = pn_enabled p, lo_recovery_code = None, lo_created = now, lo_updated = now, lo_completed = None,
      lo_recovery_operation_id = map_option operation_id_text recovery, lo_superseded_by = None\<rparr>"

definition insert_prepared ::
    "json_codec \<Rightarrow> i64 option \<Rightarrow> account_operation_preparation \<Rightarrow> account_operation_id option \<Rightarrow> registry \<Rightarrow>
     store_error + account_lifecycle_mutation_outcome \<times> registry" where
  "insert_prepared jc clock p recovery db =
     and_then (unix_micros clock) (\<lambda>now.
     and_then (registry_execute (insert_or_ignore_identity (account_id_text (pn_account_id p)) now db)) (\<lambda>db.
     and_then (registry_execute (db\<lparr>lc_operations := lc_operations db @ [prepared_operation jc p recovery now]\<rparr>)) (\<lambda>db.
       Inr (LifecycleApplied \<lparr>lm_account_revision = account_revision_or_zero db (account_id_text (pn_account_id p)),
         lm_phase = OpPrepared\<rparr>, db))))"

definition preparation_rejection ::
    "json_codec \<Rightarrow> registry \<Rightarrow> account_operation_preparation \<Rightarrow> store_error + account_lifecycle_rejection option" where
  "preparation_rejection jc db p =
     (let account = find_account db (account_id_text (pn_account_id p)) in
      if new_account_kind (pn_kind p) then enrollment_rejection jc db p account
      else case account of
        None \<Rightarrow> Inr (Some AccountMissing)
      | Some base \<Rightarrow>
          if an_tombstoned base \<noteq> None then Inr (Some AccountMissing)
          else if pn_expected_account_revision p \<noteq> Some (an_revision base) then Inr (Some StaleAccount)
          else and_then (credential_binding_sync db (account_id_text (pn_account_id p))) (\<lambda>credential.
            Inr (if credential \<noteq> pn_expected p then Some StaleAccount else None)))"

definition prepare_checked ::
    "json_codec \<Rightarrow> i64 option \<Rightarrow> account_operation_preparation \<Rightarrow> account_operation_id option \<Rightarrow> registry \<Rightarrow>
     store_error + account_lifecycle_mutation_outcome \<times> registry" where
  "prepare_checked jc clock p recovery db =
     and_then (preparation_rejection jc db p) (\<lambda>rejection.
     case rejection of
       Some rejection \<Rightarrow> Inr (LifecycleRejected rejection (mutation_for db (pn_account_id p) OpPrepared), db)
     | None \<Rightarrow> insert_prepared jc clock p recovery db)"

definition prepare_operation_sync ::
    "json_codec \<Rightarrow> i64 option \<Rightarrow> account_operation_preparation \<Rightarrow> account_operation_id option \<Rightarrow> registry \<Rightarrow>
     store_error + account_lifecycle_mutation_outcome \<times> registry" where
  "prepare_operation_sync jc clock p recovery db =
     and_then (read_operation_sync jc db (pn_operation_id p)) (\<lambda>existing.
     case existing of
       Some existing \<Rightarrow>
         let actual = mutation_for db (ao_account_id existing) (ao_phase existing) in
         Inr (if ao_account_id existing = pn_account_id p \<and> ao_kind existing = pn_kind p
           \<and> ao_expected_account_revision existing = pn_expected_account_revision p
           \<and> ao_requested_display_label existing = pn_display_label p
           \<and> ao_requested_enabled existing = pn_enabled p
           \<and> ao_expected existing = pn_expected p \<and> ao_target existing = pn_target p
           \<and> ao_recovery_operation_id existing = recovery
           then LifecycleReplayed actual else LifecycleRejected IdentityConflict actual, db)
     | None \<Rightarrow>
         (case recovery of
            Some recovery_id \<Rightarrow>
              and_then (validate_recovery_takeover jc db p recovery_id) (\<lambda>rejection.
              case rejection of Some rejection \<Rightarrow> Inr (rejection, db) | None \<Rightarrow> prepare_checked jc clock p recovery db)
          | None \<Rightarrow>
              case find (\<lambda>r. lo_account_id r = account_id_text (pn_account_id p) \<and> open_operation r) (lc_operations db) of
                Some r \<Rightarrow>
                  and_then (or_incompatible ''account identity'' (account_id_new (lo_account_id r))) (\<lambda>account.
                  and_then (parse_operation_phase (lo_phase r)) (\<lambda>phase.
                    Inr (LifecycleRejected OperationUnsettled (mutation_for db account phase), db)))
              | None \<Rightarrow> prepare_checked jc clock p recovery db))"

definition prepare_account_operation ::
    "json_codec \<Rightarrow> (string \<Rightarrow> bool) \<Rightarrow> i64 option \<Rightarrow> account_operation_preparation \<Rightarrow> registry \<Rightarrow>
     store_error + account_lifecycle_mutation_outcome \<times> registry" where
  "prepare_account_operation jc credential_pattern clock p db =
     and_then (validate_preparation credential_pattern p) (\<lambda>_.
     and_then (prepare_operation_sync jc clock p None db) (\<lambda>(outcome, db).
     and_then (registry_commit db) (\<lambda>db. Inr (outcome, db))))"

definition prepare_account_recovery_takeover ::
    "json_codec \<Rightarrow> (string \<Rightarrow> bool) \<Rightarrow> i64 option \<Rightarrow> account_operation_preparation \<Rightarrow> account_operation_id \<Rightarrow> registry \<Rightarrow>
     store_error + account_lifecycle_mutation_outcome \<times> registry" where
  "prepare_account_recovery_takeover jc credential_pattern clock p recovery_id db =
     and_then (validate_preparation credential_pattern p) (\<lambda>_.
     if pn_operation_id p = recovery_id then Inl (InvalidInput ''account recovery identity is invalid'')
     else
     and_then (prepare_operation_sync jc clock p (Some recovery_id) db) (\<lambda>(outcome, db).
     and_then (registry_commit db) (\<lambda>db. Inr (outcome, db))))"

end
