(* ===== verification/Registry_Commit.thy ===== *)
theory Registry_Commit
  imports Registry_Operations
begin

text \<open>
  The phases of an account operation and the commit of its effect: enrollment (new or restored),
  refresh, logout with the compaction of the routing order, the supersession of the refresh that
  was taken over, and the target of a refresh. The writers return the rejection, if any, with the
  registry: a rejection does not undo what the transaction has written.
\<close>

section \<open>Statements\<close>

definition changed_rows :: "('r \<Rightarrow> bool) \<Rightarrow> 'r list \<Rightarrow> nat" where
  "changed_rows p t = length (filter p t)"

definition update_accounts ::
    "(registered_account \<Rightarrow> bool) \<Rightarrow> (registered_account \<Rightarrow> registered_account) \<Rightarrow> registry \<Rightarrow> store_error + registry" where
  "update_accounts p f db = registry_execute (db\<lparr>lc_accounts := update_rows p f (lc_accounts db)\<rparr>)"

definition update_operations ::
    "(lifecycle_operation \<Rightarrow> bool) \<Rightarrow> (lifecycle_operation \<Rightarrow> lifecycle_operation) \<Rightarrow> registry \<Rightarrow> store_error + registry" where
  "update_operations p f db = registry_execute (db\<lparr>lc_operations := update_rows p f (lc_operations db)\<rparr>)"

definition bump_routing_revision :: "i64 \<Rightarrow> registry \<Rightarrow> store_error + registry" where
  "bump_routing_revision now db = registry_execute (db\<lparr>lc_control := map_option
     (\<lambda>c. c\<lparr>ct_revision := ct_revision c + 1, ct_updated := now\<rparr>) (lc_control db)\<rparr>)"

text \<open>
  The statement \<^verbatim>\<open>UPDATE account_routing_order SET position = position + 512\<close> visits the rows in
  the order of their row identities, and the index on the positions must stay unique at every row.
\<close>

fun shift_positions :: "i64 \<Rightarrow> order_row list \<Rightarrow> order_row list \<Rightarrow> order_row list option" where
  "shift_positions now done [] = Some done"
| "shift_positions now done (r # rows) =
     (let shifted = r\<lparr>od_position := od_position r + 512, od_updated := now\<rparr> in
      if od_position shifted \<in> set (map od_position (done @ rows)) then None
      else shift_positions now (done @ [shifted]) rows)"

fun assign_positions :: "i64 \<Rightarrow> i64 \<Rightarrow> string list \<Rightarrow> registry \<Rightarrow> store_error + registry" where
  "assign_positions now position [] db = Inr db"
| "assign_positions now position (a # ids) db =
     and_then (registry_execute (db\<lparr>lc_order := update_rows (\<lambda>r. od_account_id r = a)
       (\<lambda>r. r\<lparr>od_position := position, od_updated := now\<rparr>) (lc_order db)\<rparr>))
       (assign_positions now (position + 1) ids)"

definition ordered_ids :: "registry \<Rightarrow> string list" where
  "ordered_ids db = map od_account_id (sort_key (\<lambda>r. (od_position r, od_account_id r)) (lc_order db))"

definition compact_routing_order :: "i64 \<Rightarrow> registry \<Rightarrow> store_error + registry" where
  "compact_routing_order now db =
     and_then (ok_or sql_error (shift_positions now [] (lc_order db))) (\<lambda>rows.
     and_then (registry_execute (db\<lparr>lc_order := rows\<rparr>)) (assign_positions now 0 (ordered_ids db)))"

section \<open>The effect of a commit\<close>

definition alias_rows :: "registry \<Rightarrow> (string \<times> string) list" where
  "alias_rows db = map (\<lambda>r. (an_provider_account_id r, an_label r))
     (filter (\<lambda>r. an_provider r = ''chatgpt'') (lc_accounts db))"

definition append_to_order :: "i64 \<Rightarrow> string \<Rightarrow> registry \<Rightarrow> store_error + registry" where
  "append_to_order now a db =
     and_then (registry_execute (db\<lparr>lc_order := lc_order db @
       [\<lparr>od_account_id = a, od_position = int (length (lc_order db)), od_updated = now\<rparr>]\<rparr>))
       (bump_routing_revision now)"

definition enrolled_account ::
    "string \<Rightarrow> string \<Rightarrow> bool \<Rightarrow> provider_identity \<Rightarrow> i64 \<Rightarrow> registered_account" where
  "enrolled_account a label enabled provider now = \<lparr>an_account_id = a, an_label = label, an_enabled = enabled,
     an_state = ''available'', an_revision = 1, an_provider = provider_label (pid_provider provider),
     an_provider_account_id = pid_account_id provider, an_store_observation = ''exact'', an_created = now,
     an_updated = now, an_tombstoned = None\<rparr>"

definition restored_account ::
    "string \<Rightarrow> bool \<Rightarrow> provider_identity \<Rightarrow> i64 \<Rightarrow> registered_account \<Rightarrow> registered_account" where
  "restored_account label enabled provider now r = r\<lparr>an_label := label, an_enabled := enabled,
     an_state := ''available'', an_revision := an_revision r + 1,
     an_provider := provider_label (pid_provider provider), an_provider_account_id := pid_account_id provider,
     an_store_observation := ''exact'', an_updated := now, an_tombstoned := None\<rparr>"

definition install_account ::
    "json_codec \<Rightarrow> account_operation \<Rightarrow> credential_binding \<Rightarrow> string \<Rightarrow> bool \<Rightarrow> i64 \<Rightarrow> registry \<Rightarrow>
     store_error + account_lifecycle_rejection option \<times> registry" where
  "install_account jc op target label enabled now db =
     (let a = account_id_text (ao_account_id op) in
      case find_account db a of
        None \<Rightarrow>
          if ao_expected_account_revision op \<noteq> None \<or> credential_version_get (cb_version target) \<noteq> 1
          then Inr (Some StaleAccount, db)
          else and_then (registry_execute (db\<lparr>lc_accounts := lc_accounts db @
            [enrolled_account a label enabled (cb_provider target) now]\<rparr>)) (\<lambda>db. Inr (None, db))
      | Some base \<Rightarrow>
          if an_tombstoned base = None then Inr (Some IdentityConflict, db)
          else if ao_expected_account_revision op \<noteq> Some (an_revision base)
             \<or> provider_label (pid_provider (cb_provider target)) \<noteq> an_provider base
             \<or> pid_account_id (cb_provider target) \<noteq> an_provider_account_id base
          then Inr (Some StaleAccount, db)
          else
          and_then (tombstone_predecessor_credential jc db a (an_revision base) (cb_provider target)) (\<lambda>previous.
          if ok_opt (credential_version_successor (cb_version previous)) \<noteq> Some (cb_version target)
          then Inr (Some StaleAccount, db)
          else
          let exact = (\<lambda>r. an_account_id r = a \<and> an_revision r = an_revision base \<and> an_tombstoned r \<noteq> None) in
          and_then (update_accounts exact (restored_account label enabled (cb_provider target) now) db) (\<lambda>db'.
            Inr (if changed_rows exact (lc_accounts db) \<noteq> 1 then Some StaleAccount else None, db'))))"

definition commit_account_enrollment ::
    "json_codec \<Rightarrow> (byte list \<Rightarrow> byte list) \<Rightarrow> account_operation \<Rightarrow> i64 \<Rightarrow> registry \<Rightarrow>
     store_error + account_lifecycle_rejection option \<times> registry" where
  "commit_account_enrollment jc sha256 op now db =
     (case ao_target op of
        None \<Rightarrow> Inr (Some InvalidRequest, db)
      | Some target \<Rightarrow>
          let a = account_id_text (ao_account_id op) in
          and_then (credential_binding_sync db a) (\<lambda>credential.
          if credential \<noteq> Some target then Inr (Some StaleAccount, db)
          else
          and_then (ok_or sql_error (alias_for_enrollment sha256 (cb_provider target) [] (alias_rows db))) (\<lambda>label.
          and_then (ok_or (InvalidInput ''account enablement is absent'') (ao_requested_enabled op)) (\<lambda>enabled.
          and_then (install_account jc op target label enabled now db) (\<lambda>(rejection, db).
          if rejection \<noteq> None then Inr (rejection, db)
          else and_then (append_to_order now a db) (\<lambda>db. Inr (None, db)))))))"

definition live_account_row :: "string \<Rightarrow> registered_account \<Rightarrow> bool" where
  "live_account_row a r \<longleftrightarrow> an_account_id r = a \<and> an_tombstoned r = None"

definition commit_account_refresh ::
    "account_operation \<Rightarrow> i64 \<Rightarrow> registry \<Rightarrow> store_error + account_lifecycle_rejection option \<times> registry" where
  "commit_account_refresh op now db =
     (case ao_target op of
        None \<Rightarrow> Inr (Some InvalidRequest, db)
      | Some target \<Rightarrow>
          let a = account_id_text (ao_account_id op) in
          and_then (credential_binding_sync db a) (\<lambda>credential.
          if credential \<noteq> Some target then Inr (Some StaleAccount, db)
          else
          and_then (update_accounts (live_account_row a) (\<lambda>r. r\<lparr>an_revision := an_revision r + 1,
            an_provider := provider_label (pid_provider (cb_provider target)),
            an_provider_account_id := pid_account_id (cb_provider target),
            an_store_observation := ''exact'', an_updated := now\<rparr>) db) (\<lambda>db'.
            Inr (if changed_rows (live_account_row a) (lc_accounts db) \<noteq> 1 then Some AccountMissing else None, db'))))"

definition account_in_use :: "registry \<Rightarrow> string \<Rightarrow> bool" where
  "account_in_use db a \<longleftrightarrow> list_ex (\<lambda>g. fst g = a \<and> snd g \<noteq> ''dead'') (lc_generations db)"

definition release_fixed :: "string \<Rightarrow> control_row \<Rightarrow> control_row" where
  "release_fixed a c = (if ct_fixed_account_id c = Some a
     then c\<lparr>ct_mode := ''balanced'', ct_fixed_account_id := None\<rparr> else c)"

definition commit_account_logout ::
    "account_operation \<Rightarrow> i64 \<Rightarrow> registry \<Rightarrow> store_error + account_lifecycle_rejection option \<times> registry" where
  "commit_account_logout op now db =
     (let a = account_id_text (ao_account_id op) in
      if account_in_use db a then Inr (Some AccountInUse, db)
      else
      and_then (credential_binding_sync db a) (\<lambda>credential.
      if credential \<noteq> None then Inr (Some StaleAccount, db)
      else
      and_then (update_accounts (live_account_row a) (\<lambda>r. r\<lparr>an_enabled := False, an_revision := an_revision r + 1,
        an_store_observation := ''missing'', an_updated := now, an_tombstoned := Some now\<rparr>) db) (\<lambda>db'.
      if changed_rows (live_account_row a) (lc_accounts db) \<noteq> 1 then Inr (Some AccountMissing, db')
      else
      and_then (registry_execute (db'\<lparr>lc_order := filter (\<lambda>r. od_account_id r \<noteq> a) (lc_order db')\<rparr>)) (\<lambda>db.
      and_then (compact_routing_order now db) (\<lambda>db.
      and_then (registry_execute (db\<lparr>lc_control := map_option (release_fixed a) (lc_control db)\<rparr>)) (\<lambda>db.
      and_then (bump_routing_revision now db) (\<lambda>db. Inr (None, db))))))))"

section \<open>The takeover\<close>

definition validate_recovery_takeover_commit ::
    "json_codec \<Rightarrow> registry \<Rightarrow> account_operation \<Rightarrow> store_error + account_lifecycle_rejection option" where
  "validate_recovery_takeover_commit jc db op =
     (case ao_recovery_operation_id op of
        None \<Rightarrow> Inr None
      | Some recovery_id \<Rightarrow>
          and_then (read_operation_sync jc db recovery_id) (\<lambda>v.
          case v of
            None \<Rightarrow> Inr (Some OperationMissing)
          | Some recovery \<Rightarrow> Inr (if \<not> exact_ambiguity recovery (ao_kind op) (ao_target op) (ao_account_id op)
              (ao_expected_account_revision op) (ao_expected op) then Some StaleOperation else None)))"

definition supersedable :: "string \<Rightarrow> lifecycle_operation \<Rightarrow> bool" where
  "supersedable k r \<longleftrightarrow> lo_operation_id r = k \<and> lo_phase r = ''recovery_required'' \<and> lo_target_json r = None \<and>
     lo_recovery_operation_id r = None \<and> lo_superseded_by r = None"

definition record_recovery_supersession :: "account_operation \<Rightarrow> i64 \<Rightarrow> registry \<Rightarrow> store_error + registry" where
  "record_recovery_supersession op now db =
     (case ao_recovery_operation_id op of
        None \<Rightarrow> Inr db
      | Some recovery_id \<Rightarrow>
          and_then (update_operations (supersedable (operation_id_text recovery_id))
            (\<lambda>r. r\<lparr>lo_superseded_by := Some (operation_id_text (ao_operation_id op)), lo_updated := now\<rparr>) db) (\<lambda>db'.
          if changed_rows (supersedable (operation_id_text recovery_id)) (lc_operations db) = 1 then Inr db'
          else Inl (incompatible ''account recovery supersession'')))"

definition commit_account_operation ::
    "json_codec \<Rightarrow> (byte list \<Rightarrow> byte list) \<Rightarrow> i64 option \<Rightarrow> account_operation \<Rightarrow> registry \<Rightarrow>
     store_error + account_lifecycle_rejection option \<times> registry" where
  "commit_account_operation jc sha256 clock op db =
     and_then (unix_micros clock) (\<lambda>now.
     and_then (validate_recovery_takeover_commit jc db op) (\<lambda>rejection.
     if rejection \<noteq> None then Inr (rejection, db)
     else
     and_then (case ao_kind op of
         Enroll \<Rightarrow> commit_account_enrollment jc sha256 op now db
       | Import \<Rightarrow> commit_account_enrollment jc sha256 op now db
       | Refresh \<Rightarrow> commit_account_refresh op now db
       | Logout \<Rightarrow> commit_account_logout op now db) (\<lambda>(rejection, db).
     if rejection \<noteq> None then Inr (rejection, db)
     else and_then (record_recovery_supersession op now db) (\<lambda>db. Inr (None, db)))))"

section \<open>Phases\<close>

definition moved_operation ::
    "account_operation_phase \<Rightarrow> string option \<Rightarrow> i64 \<Rightarrow> lifecycle_operation \<Rightarrow> lifecycle_operation" where
  "moved_operation target recovery_code now r = r\<lparr>lo_phase := operation_phase_text target,
     lo_recovery_code := recovery_code, lo_updated := now,
     lo_completed := if target = Committed \<or> target = Cancelled then Some now else None\<rparr>"

definition move_operation ::
    "i64 option \<Rightarrow> account_operation_id \<Rightarrow> account_operation_phase \<Rightarrow> account_operation_phase \<Rightarrow> string option \<Rightarrow>
     registry \<Rightarrow> store_error + registry" where
  "move_operation clock k expected target recovery_code db =
     and_then (unix_micros clock) (\<lambda>now.
     let exact = (\<lambda>r. lo_operation_id r = operation_id_text k \<and> lo_phase r = operation_phase_text expected) in
     and_then (update_operations exact (moved_operation target recovery_code now) db) (\<lambda>db'.
       if changed_rows exact (lc_operations db) \<noteq> 1 then Inl (incompatible ''account operation transition'')
       else Inr db'))"

text \<open>The clock is read for the effect (\<open>commit_clock\<close>) and again for the phase (\<open>clock\<close>).\<close>

definition advance_operation_sync ::
    "json_codec \<Rightarrow> (byte list \<Rightarrow> byte list) \<Rightarrow> i64 option \<Rightarrow> i64 option \<Rightarrow> account_operation_id \<Rightarrow>
     account_operation_phase \<Rightarrow> account_operation_phase \<Rightarrow> string option \<Rightarrow> registry \<Rightarrow>
     store_error + account_lifecycle_mutation_outcome \<times> registry" where
  "advance_operation_sync jc sha256 commit_clock clock k expected target recovery_code db =
     and_then (validate_transition_recovery_shape target recovery_code) (\<lambda>_.
     and_then (read_operation_sync jc db k) (\<lambda>v.
     case v of
       None \<Rightarrow> Inr (LifecycleRejected OperationMissing \<lparr>lm_account_revision = 0, lm_phase = expected\<rparr>, db)
     | Some op \<Rightarrow>
         let actual = mutation_for db (ao_account_id op) (ao_phase op) in
         if ao_phase op = target then Inr (LifecycleReplayed actual, db)
         else if ao_superseded_by_operation_id op \<noteq> None \<or> ao_phase op \<noteq> expected
            \<or> \<not> allowed_operation_transition expected target
         then Inr (LifecycleRejected StaleOperation actual, db)
         else
         and_then (if target = Committed then commit_account_operation jc sha256 commit_clock op db else Inr (None, db))
           (\<lambda>(rejection, db).
         case rejection of
           Some rejection \<Rightarrow> Inr (LifecycleRejected rejection actual, db)
         | None \<Rightarrow>
             and_then (move_operation clock k expected target recovery_code db) (\<lambda>db.
               Inr (LifecycleApplied (mutation_for db (ao_account_id op) target), db)))))"

definition advance_account_operation ::
    "json_codec \<Rightarrow> (byte list \<Rightarrow> byte list) \<Rightarrow> i64 option \<Rightarrow> i64 option \<Rightarrow> account_operation_id \<Rightarrow>
     account_operation_phase \<Rightarrow> account_operation_phase \<Rightarrow> string option \<Rightarrow> registry \<Rightarrow>
     store_error + account_lifecycle_mutation_outcome \<times> registry" where
  "advance_account_operation jc sha256 commit_clock clock k expected target recovery_code db =
     and_then (validate_recovery_code recovery_code) (\<lambda>_.
     and_then (advance_operation_sync jc sha256 commit_clock clock k expected target recovery_code db) (\<lambda>(outcome, db).
     and_then (registry_commit db) (\<lambda>db. Inr (outcome, db))))"

section \<open>The target of a refresh\<close>

definition awaiting_target :: "string \<Rightarrow> lifecycle_operation \<Rightarrow> bool" where
  "awaiting_target k r \<longleftrightarrow> lo_operation_id r = k \<and> lo_phase r = ''provider_effect_pending'' \<and> lo_target_json r = None"

definition set_operation_target_sync ::
    "json_codec \<Rightarrow> i64 option \<Rightarrow> account_operation_id \<Rightarrow> credential_binding \<Rightarrow> registry \<Rightarrow>
     store_error + account_lifecycle_mutation_outcome \<times> registry" where
  "set_operation_target_sync jc clock k target db =
     and_then (read_operation_sync jc db k) (\<lambda>v.
     case v of
       None \<Rightarrow> Inr (LifecycleRejected OperationMissing \<lparr>lm_account_revision = 0, lm_phase = ProviderEffectPending\<rparr>, db)
     | Some op \<Rightarrow>
         let actual = mutation_for db (ao_account_id op) (ao_phase op) in
         if ao_target op = Some target then Inr (LifecycleReplayed actual, db)
         else if ao_phase op \<noteq> ProviderEffectPending \<or> ao_target op \<noteq> None
            \<or> ao_superseded_by_operation_id op \<noteq> None \<or> cb_writer_operation_id target \<noteq> k
         then Inr (LifecycleRejected StaleOperation actual, db)
         else
         and_then (unix_micros clock) (\<lambda>now.
         and_then (update_operations (awaiting_target (operation_id_text k))
           (\<lambda>r. r\<lparr>lo_target_json := binding_json jc (Some target), lo_updated := now\<rparr>) db) (\<lambda>db.
           Inr (LifecycleApplied actual, db))))"

definition set_account_operation_target ::
    "json_codec \<Rightarrow> i64 option \<Rightarrow> account_operation_id \<Rightarrow> credential_binding \<Rightarrow> registry \<Rightarrow>
     store_error + account_lifecycle_mutation_outcome \<times> registry" where
  "set_account_operation_target jc clock k target db =
     and_then (set_operation_target_sync jc clock k target db) (\<lambda>(outcome, db).
     and_then (registry_commit db) (\<lambda>db. Inr (outcome, db)))"

section \<open>Who enrolls\<close>

definition resolve_account_enrollment ::
    "json_codec \<Rightarrow> account_id \<Rightarrow> provider_identity \<Rightarrow> registry \<Rightarrow> store_error + account_enrollment_resolution" where
  "resolve_account_enrollment jc requested provider db =
     (case find (\<lambda>r. an_provider r = provider_label (pid_provider provider)
        \<and> an_provider_account_id r = pid_account_id provider) (lc_accounts db) of
        None \<Rightarrow> Inr (FreshEnrollment requested)
      | Some existing \<Rightarrow>
          and_then (or_incompatible ''account identity'' (account_id_new (an_account_id existing))) (\<lambda>account.
          and_then (ok_or (incompatible ''account enrollment resolution'') (find_account db (account_id_text account))) (\<lambda>base.
          if an_tombstoned base = None then Inr (AlreadyEnrolled account (an_revision base))
          else
          and_then (credential_binding_sync db (account_id_text account)) (\<lambda>credential.
          and_then (case credential of
              None \<Rightarrow> Inr ()
            | Some current \<Rightarrow>
                and_then (unsettled_operation_sync db (account_id_text account)) (\<lambda>status.
                and_then (ok_or (incompatible ''tombstoned account credential state'') status) (\<lambda>unsettled.
                and_then (read_operation_sync jc db (aos_operation_id unsettled)) (\<lambda>v.
                and_then (ok_or (incompatible ''tombstoned account operation state'') v) (\<lambda>op.
                if \<not> new_account_kind (ao_kind op) \<or> ao_target op \<noteq> Some current
                   \<or> ao_expected_account_revision op \<noteq> Some (an_revision base)
                then Inl (incompatible ''tombstoned account enrollment state'') else Inr ()))))) (\<lambda>_.
          and_then (tombstone_predecessor_credential jc db (account_id_text account) (an_revision base) provider) (\<lambda>previous.
            Inr (RestoreEnrollment account (an_revision base) previous)))))))"

end
