(* ===== verification/Registry_Receipts.thy ===== *)
theory Registry_Receipts
  imports Registry_Commit
begin

text \<open>
  The receipts of account commands: a claim is reserved under an idempotency key, its holder
  completes it with the response in the transaction of its effect, and a finished command answers
  from its receipt. A notification is never handed out twice.
\<close>

section \<open>Commands\<close>

record command_identity =
  ci_key :: string
  ci_request_hash :: string

definition command_identity_new ::
    "(byte list \<Rightarrow> byte list) \<Rightarrow> (string \<Rightarrow> bool) \<Rightarrow> string \<Rightarrow> byte list \<Rightarrow> store_error + command_identity" where
  "command_identity_new sha256 credential_pattern key request =
     (if key = [] \<or> length key > 256 then Inl (InvalidInput ''idempotency key must contain 1..=256 bytes'')
      else if contains_credential_material credential_pattern key then Inl StoreCredentialRejected
      else Inr \<lparr>ci_key = key, ci_request_hash = hex (sha256 request)\<rparr>)"

datatype account_command_kind =
    NotifyWorkspaceOwner | RequestWorkspaceUsageIncrease | EnrollAccount | ImportAccount | SetEnabled | Route
  | LogoutAccount | SetBalancedSelection | SetAccountOrder | RefreshAccount | RecoverOperation

definition command_kind_text :: "account_command_kind \<Rightarrow> string" where
  "command_kind_text kind = (case kind of
       NotifyWorkspaceOwner \<Rightarrow> ''notify_workspace_owner''
     | RequestWorkspaceUsageIncrease \<Rightarrow> ''request_workspace_usage_increase''
     | EnrollAccount \<Rightarrow> ''enroll_account''
     | ImportAccount \<Rightarrow> ''import_account_credential_file''
     | SetEnabled \<Rightarrow> ''set_account_enabled''
     | Route \<Rightarrow> ''route_account''
     | LogoutAccount \<Rightarrow> ''logout_account''
     | SetBalancedSelection \<Rightarrow> ''set_balanced_account_selection''
     | SetAccountOrder \<Rightarrow> ''set_account_order''
     | RefreshAccount \<Rightarrow> ''refresh_account''
     | RecoverOperation \<Rightarrow> ''recover_account_operation'')"

definition notification_kind :: "account_command_kind \<Rightarrow> bool" where
  "notification_kind kind \<longleftrightarrow> kind = NotifyWorkspaceOwner \<or> kind = RequestWorkspaceUsageIncrease"

definition account_command_protocol :: string where
  "account_command_protocol = ''decodex/account-command/1''"

definition claim_lifetime_micros :: i64 where "claim_lifetime_micros = 5 * 60 * 1000000"

text \<open>The lease holds the fence: only the claim that a receipt stores may complete it.\<close>

record command_reservation =
  cr_key :: string
  cr_request_hash :: string
  cr_claim_token :: string

datatype account_command_claim =
    ClaimOwned command_reservation
  | ClaimPending json
  | ClaimReplayed json

definition random_uuid_v4 :: "byte list option \<Rightarrow> store_error + string" where
  "random_uuid_v4 fill = and_then (ok_or (Database database_error.Unavailable) fill) (\<lambda>bytes. Inr (uuid_groups (uuid_stamp bytes)))"

definition has_receipt_key :: "string \<Rightarrow> command_receipt \<Rightarrow> bool" where
  "has_receipt_key key r \<longleftrightarrow> cx_protocol r = account_command_protocol \<and> cx_key r = key"

definition read_command_receipt :: "registry \<Rightarrow> string \<Rightarrow> command_receipt option" where
  "read_command_receipt db key = find (has_receipt_key key) (lc_receipts db)"

section \<open>Reservation\<close>

definition reserved_receipt ::
    "command_identity \<Rightarrow> account_command_kind \<Rightarrow> string \<Rightarrow> i64 option \<Rightarrow> string \<Rightarrow> i64 \<Rightarrow> i64 \<Rightarrow> command_receipt" where
  "reserved_receipt command kind entity revision token expires now =
     \<lparr>cx_protocol = account_command_protocol, cx_key = ci_key command, cx_request_sha256 = ci_request_hash command,
      cx_operation = command_kind_text kind, cx_entity_id = entity, cx_expected_revision = revision,
      cx_state = ''reserved'', cx_response_json = None, cx_claim_token = Some token,
      cx_claim_expires_at = Some expires, cx_reserved_at = now, cx_completed_at = None, cx_progress_json = None\<rparr>"

text \<open>The claim on a new receipt, or on one whose claim has expired.\<close>

definition claim_command ::
    "byte list option \<Rightarrow> i64 \<Rightarrow> command_identity \<Rightarrow> account_command_kind \<Rightarrow> string \<Rightarrow> i64 option \<Rightarrow> bool \<Rightarrow> registry \<Rightarrow>
     store_error + account_command_claim \<times> registry" where
  "claim_command fill now command kind entity revision receipt_exists db =
     and_then (random_uuid_v4 fill) (\<lambda>token.
     and_then (ok_or (InvalidInput ''command claim timestamp is invalid'') (checked_add_i64 now claim_lifetime_micros)) (\<lambda>expires.
     and_then (registry_execute (if receipt_exists
         then db\<lparr>lc_receipts := update_rows (\<lambda>r. has_receipt_key (ci_key command) r \<and> cx_state r = ''reserved'')
           (\<lambda>r. r\<lparr>cx_claim_token := Some token, cx_claim_expires_at := Some expires\<rparr>) (lc_receipts db)\<rparr>
         else db\<lparr>lc_receipts := lc_receipts db @ [reserved_receipt command kind entity revision token expires now]\<rparr>)) (\<lambda>db.
     and_then (registry_commit db) (\<lambda>db.
       Inr (ClaimOwned \<lparr>cr_key = ci_key command, cr_request_hash = ci_request_hash command,
         cr_claim_token = token\<rparr>, db)))))"

definition reserve_command_sync ::
    "json_codec \<Rightarrow> i64 option \<Rightarrow> byte list option \<Rightarrow> command_identity \<Rightarrow> account_command_kind \<Rightarrow> string \<Rightarrow> i64 option \<Rightarrow>
     registry \<Rightarrow> store_error + account_command_claim \<times> registry" where
  "reserve_command_sync jc clock fill command kind entity revision db =
     and_then (unix_micros clock) (\<lambda>now.
     case read_command_receipt db (ci_key command) of
       None \<Rightarrow> claim_command fill now command kind entity revision False db
     | Some r \<Rightarrow>
         if cx_request_sha256 r \<noteq> ci_request_hash command \<or> cx_operation r \<noteq> command_kind_text kind
            \<or> cx_entity_id r \<noteq> entity \<or> cx_expected_revision r \<noteq> revision
         then Inl IdempotencyConflict
         else if cx_state r \<noteq> ''reserved''
         then
           and_then (ok_or (incompatible ''command response'') (cx_response_json r)) (\<lambda>response.
           and_then (ok_or (incompatible ''command response'') (jc_parse_value jc response)) (\<lambda>response.
           and_then (registry_commit db) (\<lambda>db. Inr (ClaimReplayed response, db))))
         else if notification_kind kind
         then and_then (registry_commit db) (\<lambda>db.
           Inr (ClaimPending (JObject [(''status'', JString ''uncertain'')]), db))
         else if (case cx_claim_expires_at r of None \<Rightarrow> False | Some expires \<Rightarrow> expires > now)
         then Inl (OwnershipLost ''command receipt claim is active'')
         else claim_command fill now command kind entity revision True db)"

definition reserve_account_command ::
    "json_codec \<Rightarrow> i64 option \<Rightarrow> byte list option \<Rightarrow> command_identity \<Rightarrow> account_command_kind \<Rightarrow> string \<Rightarrow> i64 option \<Rightarrow>
     registry \<Rightarrow> store_error + account_command_claim \<times> registry" where
  "reserve_account_command jc clock fill command kind entity revision db =
     (if entity = [] \<or> length entity > 256 \<or> has_control entity
      then Inl (InvalidInput ''account command entity identity is invalid'')
      else if revision = None \<and> notification_kind kind
      then Inl (InvalidInput ''account notification revision is required'')
      else if (case revision of None \<Rightarrow> False | Some n \<Rightarrow> n < 1)
      then Inl (InvalidInput ''account command revision must be positive'')
      else reserve_command_sync jc clock fill command kind entity revision db)"

section \<open>Completion\<close>

fun credential_negative_json :: "(string \<Rightarrow> bool) \<Rightarrow> json \<Rightarrow> bool" where
  "credential_negative_json credential_pattern (JObject entries) = list_all (\<lambda>e.
     \<not> is_credential_metadata_key (fst e) \<and> credential_negative_json credential_pattern (snd e)) entries"
| "credential_negative_json credential_pattern (JArray entries) = list_all (credential_negative_json credential_pattern) entries"
| "credential_negative_json credential_pattern (JString s) = (\<not> contains_credential_material credential_pattern s)"
| "credential_negative_json credential_pattern _ = True"

definition validate_account_command_response ::
    "json_codec \<Rightarrow> (string \<Rightarrow> bool) \<Rightarrow> json \<Rightarrow> store_error + unit" where
  "validate_account_command_response jc credential_pattern v =
     (if length (jc_print_value jc v) > 256 * 1024 then Inl (InvalidInput ''account command result is invalid'')
      else if \<not> credential_negative_json credential_pattern v then Inl StoreCredentialRejected else Inr ())"

definition holds_claim :: "command_reservation \<Rightarrow> i64 \<Rightarrow> command_receipt \<Rightarrow> bool" where
  "holds_claim lease now r \<longleftrightarrow> has_receipt_key (cr_key lease) r \<and> cx_request_sha256 r = cr_request_hash lease \<and>
     cx_state r = ''reserved'' \<and> cx_claim_token r = Some (cr_claim_token lease) \<and>
     (case cx_claim_expires_at r of None \<Rightarrow> False | Some expires \<Rightarrow> expires > now)"

definition completed_receipt :: "string \<Rightarrow> i64 \<Rightarrow> command_receipt \<Rightarrow> command_receipt" where
  "completed_receipt response now r = r\<lparr>cx_state := ''completed_success'', cx_response_json := Some response,
     cx_claim_token := None, cx_claim_expires_at := None, cx_completed_at := Some now, cx_progress_json := None\<rparr>"

definition finish_command_sync ::
    "json_codec \<Rightarrow> i64 option \<Rightarrow> command_reservation \<Rightarrow> json \<Rightarrow> registry \<Rightarrow> store_error + registry" where
  "finish_command_sync jc clock lease response db =
     and_then (unix_micros clock) (\<lambda>now.
     and_then (registry_execute (db\<lparr>lc_receipts := update_rows (holds_claim lease now)
       (completed_receipt (jc_print_value jc response) now) (lc_receipts db)\<rparr>)) (\<lambda>db'.
       if changed_rows (holds_claim lease now) (lc_receipts db) = 1 then Inr db'
       else Inl (OwnershipLost ''command receipt claim'')))"

definition diagnostic_json :: "string \<times> string \<Rightarrow> json" where
  "diagnostic_json d = JObject [(''stage'', JString (fst d)), (''cause'', JString (snd d))]"

definition complete_account_command_with_diagnostic ::
    "json_codec \<Rightarrow> (string \<Rightarrow> bool) \<Rightarrow> i64 option \<Rightarrow> command_reservation \<Rightarrow> json \<Rightarrow> (string \<times> string) option \<Rightarrow>
     registry \<Rightarrow> store_error + registry" where
  "complete_account_command_with_diagnostic jc credential_pattern clock lease result diagnostic db =
     and_then (validate_account_command_response jc credential_pattern result) (\<lambda>_.
     and_then (finish_command_sync jc clock lease result db) (\<lambda>db.
     and_then (case diagnostic of
         None \<Rightarrow> Inr db
       | Some d \<Rightarrow> registry_execute (db\<lparr>lc_receipts := update_rows
           (\<lambda>r. has_receipt_key (cr_key lease) r \<and> cx_request_sha256 r = cr_request_hash lease)
           (\<lambda>r. r\<lparr>cx_progress_json := Some (jc_print_value jc (diagnostic_json d))\<rparr>) (lc_receipts db)\<rparr>)) registry_commit))"

definition complete_account_command ::
    "json_codec \<Rightarrow> (string \<Rightarrow> bool) \<Rightarrow> i64 option \<Rightarrow> command_reservation \<Rightarrow> json \<Rightarrow> registry \<Rightarrow> store_error + registry" where
  "complete_account_command jc credential_pattern clock lease result db =
     complete_account_command_with_diagnostic jc credential_pattern clock lease result None db"

text \<open>A command with its effect: the response is built from the outcome and completes the receipt.\<close>

definition answer_command ::
    "json_codec \<Rightarrow> (string \<Rightarrow> bool) \<Rightarrow> i64 option \<Rightarrow> command_reservation \<Rightarrow> (store_error + json) \<Rightarrow> registry \<Rightarrow>
     store_error + json \<times> registry" where
  "answer_command jc credential_pattern clock lease built db =
     and_then built (\<lambda>response.
     and_then (validate_account_command_response jc credential_pattern response) (\<lambda>_.
     and_then (finish_command_sync jc clock lease response db) (\<lambda>db.
     and_then (registry_commit db) (\<lambda>db. Inr (response, db)))))"

definition first_account :: "quota_clock \<Rightarrow> string \<Rightarrow> registry \<Rightarrow> store_error + account_record option" where
  "first_account clocks a db = and_then (read_account_registry_sync clocks (Some a) 1 db) (\<lambda>accounts.
     Inr (case accounts of [] \<Rightarrow> None | r # _ \<Rightarrow> Some r))"

definition complete_account_operation_command ::
    "json_codec \<Rightarrow> (byte list \<Rightarrow> byte list) \<Rightarrow> (string \<Rightarrow> bool) \<Rightarrow> i64 option \<Rightarrow> i64 option \<Rightarrow> quota_clock \<Rightarrow> i64 option \<Rightarrow>
     command_reservation \<Rightarrow> account_operation_id \<Rightarrow> account_operation_phase \<Rightarrow> account_operation_phase \<Rightarrow>
     string option \<Rightarrow>
     (account_lifecycle_mutation_outcome \<Rightarrow> account_operation option \<Rightarrow> account_record option \<Rightarrow> store_error + json) \<Rightarrow>
     registry \<Rightarrow> store_error + json \<times> registry" where
  "complete_account_operation_command jc sha256 credential_pattern commit_clock clock clocks finish_clock lease k
       expected target recovery_code build_response db =
     and_then (validate_recovery_code recovery_code) (\<lambda>_.
     and_then (advance_operation_sync jc sha256 commit_clock clock k expected target recovery_code db) (\<lambda>(outcome, db).
     and_then (read_operation_sync jc db k) (\<lambda>op.
     and_then (case op of
         Some op \<Rightarrow> first_account clocks (account_id_text (ao_account_id op)) db
       | None \<Rightarrow> Inr None) (\<lambda>account.
       answer_command jc credential_pattern finish_clock lease (build_response outcome op account) db))))"

section \<open>Notification receipts\<close>

record account_nudge_receipt =
  nr_operation_key :: string
  nr_account_revision :: i64
  nr_reserved_at :: i64
  nr_response :: "json option"

definition nudge_rows :: "account_id \<Rightarrow> account_command_kind \<Rightarrow> string option \<Rightarrow> registry \<Rightarrow> command_receipt list" where
  "nudge_rows account kind key db = rev (sort_key (\<lambda>r. (cx_reserved_at r, cx_key r))
     (filter (\<lambda>r. cx_protocol r = account_command_protocol \<and> cx_operation r = command_kind_text kind
        \<and> cx_entity_id r = account_id_text account \<and> null_or (\<lambda>k. cx_key r = k) key) (lc_receipts db)))"

definition nudge_receipt_of :: "json_codec \<Rightarrow> command_receipt \<Rightarrow> store_error + account_nudge_receipt" where
  "nudge_receipt_of jc r =
     and_then (ok_or sql_error (cx_expected_revision r)) (\<lambda>revision.
     and_then (transpose_option (\<lambda>s. ok_or (incompatible ''account notification receipt'') (jc_parse_value jc s))
       (cx_response_json r)) (\<lambda>response.
       Inr \<lparr>nr_operation_key = cx_key r, nr_account_revision = revision, nr_reserved_at = cx_reserved_at r,
         nr_response = response\<rparr>))"

definition read_account_nudge_receipt ::
    "json_codec \<Rightarrow> account_id \<Rightarrow> account_command_kind \<Rightarrow> string option \<Rightarrow> registry \<Rightarrow>
     store_error + account_nudge_receipt option" where
  "read_account_nudge_receipt jc account kind key db =
     (if \<not> notification_kind kind then Inl (InvalidInput ''invalid account notification kind'')
      else transpose_option (nudge_receipt_of jc)
        (case nudge_rows account kind key db of [] \<Rightarrow> None | r # _ \<Rightarrow> Some r))"

end
