(* ===== verification/Registry_Admin.thy ===== *)
theory Registry_Admin
  imports Registry_Receipts
begin

text \<open>
  The administration of accounts: enabling, the routing control (fixed, balanced, order) with its
  commands, the observations of quota windows, usage and the credential store, and the attestation of
  the Codex capability. The sources are \<^verbatim>\<open>account_lifecycle.rs\<close> and \<^verbatim>\<open>account_usage.rs\<close>.
\<close>

section \<open>Enabling\<close>

datatype account_administration_outcome =
    AdministrationUpdated i64
  | AdministrationRejected account_lifecycle_rejection i64

definition validate_account_revision :: "i64 \<Rightarrow> store_error + unit" where
  "validate_account_revision revision =
     (if revision < 1 then Inl (InvalidInput ''expected account revision must be positive'') else Inr ())"

definition validate_routing_revision :: "i64 \<Rightarrow> store_error + unit" where
  "validate_routing_revision revision =
     (if revision < 1 then Inl (InvalidInput ''expected routing revision must be positive'') else Inr ())"

definition set_account_enabled_sync ::
    "i64 option \<Rightarrow> account_id \<Rightarrow> i64 \<Rightarrow> bool \<Rightarrow> registry \<Rightarrow> store_error + account_administration_outcome \<times> registry" where
  "set_account_enabled_sync clock account expected enabled db =
     (let a = account_id_text account in
      case find_account db a of
        None \<Rightarrow> Inr (AdministrationRejected AccountMissing 0, db)
      | Some base \<Rightarrow>
          if an_tombstoned base \<noteq> None then Inr (AdministrationRejected AccountMissing (an_revision base), db)
          else if an_revision base \<noteq> expected then Inr (AdministrationRejected StaleAccount (an_revision base), db)
          else
          and_then (ok_or (CapacityExhausted ''account revision'') (checked_add_i64 expected 1)) (\<lambda>revision.
          and_then (unix_micros clock) (\<lambda>now.
          and_then (update_accounts (\<lambda>r. live_account_row a r \<and> an_revision r = expected)
            (\<lambda>r. r\<lparr>an_enabled := enabled, an_revision := revision, an_updated := now\<rparr>) db) (\<lambda>db.
            Inr (AdministrationUpdated revision, db)))))"

definition set_account_enabled ::
    "i64 option \<Rightarrow> account_id \<Rightarrow> i64 \<Rightarrow> bool \<Rightarrow> registry \<Rightarrow> store_error + account_administration_outcome \<times> registry" where
  "set_account_enabled clock account expected enabled db =
     and_then (validate_account_revision expected) (\<lambda>_.
     and_then (set_account_enabled_sync clock account expected enabled db) (\<lambda>(outcome, db).
     and_then (registry_commit db) (\<lambda>db. Inr (outcome, db))))"

definition set_account_enabled_command ::
    "json_codec \<Rightarrow> (string \<Rightarrow> bool) \<Rightarrow> i64 option \<Rightarrow> quota_clock \<Rightarrow> i64 option \<Rightarrow> command_reservation \<Rightarrow> account_id \<Rightarrow> i64 \<Rightarrow>
     bool \<Rightarrow> (account_administration_outcome \<Rightarrow> account_record option \<Rightarrow> store_error + json) \<Rightarrow> registry \<Rightarrow>
     store_error + json \<times> registry" where
  "set_account_enabled_command jc credential_pattern clock clocks finish_clock lease account expected enabled build_response db =
     and_then (validate_account_revision expected) (\<lambda>_.
     and_then (set_account_enabled_sync clock account expected enabled db) (\<lambda>(outcome, db).
     and_then (case outcome of
         AdministrationUpdated _ \<Rightarrow> first_account clocks (account_id_text account) db
       | _ \<Rightarrow> Inr None) (\<lambda>record.
       answer_command jc credential_pattern finish_clock lease (build_response outcome record) db)))"

section \<open>Routing control\<close>

datatype routing_control_outcome =
    RoutingUpdated account_routing_control
  | StaleRoutingControl i64
  | RoutingStaleAccount i64
  | RoutingAccountMissing
  | InvalidOrder i64
  | RoutingInvalidRequest

definition write_control ::
    "i64 option \<Rightarrow> i64 \<Rightarrow> (control_row \<Rightarrow> control_row) \<Rightarrow> registry \<Rightarrow> store_error + routing_control_outcome \<times> registry" where
  "write_control clock expected f db =
     and_then (ok_or (CapacityExhausted ''routing revision'') (checked_add_i64 expected 1)) (\<lambda>revision.
     and_then (unix_micros clock) (\<lambda>now.
     and_then (registry_execute (db\<lparr>lc_control := map_option (\<lambda>c. if ct_revision c = expected
       then (f c)\<lparr>ct_revision := revision, ct_updated := now\<rparr> else c) (lc_control db)\<rparr>)) (\<lambda>db.
     and_then (read_routing_control_sync db) (\<lambda>routing.
       Inr (RoutingUpdated routing, db)))))"

text \<open>What both ways of fixing an account check first.\<close>

definition fixed_rejection :: "i64 \<Rightarrow> account_id \<Rightarrow> i64 \<Rightarrow> account_routing_control \<Rightarrow> registry \<Rightarrow> routing_control_outcome option" where
  "fixed_rejection expected_routing account expected_account routing db =
     (if arc_revision routing \<noteq> expected_routing then Some (StaleRoutingControl (arc_revision routing))
      else case find_account db (account_id_text account) of
        None \<Rightarrow> Some RoutingAccountMissing
      | Some base \<Rightarrow>
          if an_tombstoned base \<noteq> None then Some RoutingAccountMissing
          else if an_revision base \<noteq> expected_account then Some (RoutingStaleAccount (an_revision base))
          else None)"

definition set_fixed_routing_sync ::
    "i64 option \<Rightarrow> i64 \<Rightarrow> account_id \<Rightarrow> i64 \<Rightarrow> registry \<Rightarrow> store_error + routing_control_outcome \<times> registry" where
  "set_fixed_routing_sync clock expected_routing account expected_account db =
     and_then (read_routing_control_sync db) (\<lambda>routing.
     case fixed_rejection expected_routing account expected_account routing db of
       Some rejection \<Rightarrow> Inr (rejection, db)
     | None \<Rightarrow> write_control clock expected_routing
         (\<lambda>c. c\<lparr>ct_mode := ''fixed'', ct_fixed_account_id := Some (account_id_text account)\<rparr>) db)"

definition route_fixed_routing_sync ::
    "i64 option \<Rightarrow> i64 \<Rightarrow> account_id \<Rightarrow> i64 \<Rightarrow> registry \<Rightarrow> store_error + routing_control_outcome \<times> registry" where
  "route_fixed_routing_sync clock expected_routing account expected_account db =
     and_then (read_routing_control_sync db) (\<lambda>routing.
     case fixed_rejection expected_routing account expected_account routing db of
       Some rejection \<Rightarrow> Inr (rejection, db)
     | None \<Rightarrow>
         if arc_mode routing = Fixed account then Inr (RoutingUpdated routing, db)
         else set_fixed_routing_sync clock expected_routing account expected_account db)"

definition set_balanced_routing_sync ::
    "i64 option \<Rightarrow> i64 \<Rightarrow> registry \<Rightarrow> store_error + routing_control_outcome \<times> registry" where
  "set_balanced_routing_sync clock expected_routing db =
     and_then (read_routing_control_sync db) (\<lambda>routing.
     if arc_revision routing \<noteq> expected_routing then Inr (StaleRoutingControl (arc_revision routing), db)
     else write_control clock expected_routing (\<lambda>c. c\<lparr>ct_mode := ''balanced'', ct_fixed_account_id := None\<rparr>) db)"

fun insert_order :: "i64 \<Rightarrow> i64 \<Rightarrow> account_id list \<Rightarrow> registry \<Rightarrow> store_error + registry" where
  "insert_order now position [] db = Inr db"
| "insert_order now position (a # order) db =
     and_then (registry_execute (db\<lparr>lc_order := lc_order db @
       [\<lparr>od_account_id = account_id_text a, od_position = position, od_updated = now\<rparr>]\<rparr>))
       (insert_order now (position + 1) order)"

definition set_account_order_sync ::
    "i64 option \<Rightarrow> i64 \<Rightarrow> account_id list \<Rightarrow> registry \<Rightarrow> store_error + routing_control_outcome \<times> registry" where
  "set_account_order_sync clock expected_routing order db =
     and_then (read_routing_control_sync db) (\<lambda>routing.
     if arc_revision routing \<noteq> expected_routing then Inr (StaleRoutingControl (arc_revision routing), db)
     else if set (arc_order routing) \<noteq> set order \<or> \<not> distinct order
     then Inr (InvalidOrder (arc_revision routing), db)
     else
     and_then (unix_micros clock) (\<lambda>now.
     and_then (registry_execute (db\<lparr>lc_order := []\<rparr>)) (\<lambda>db.
     and_then (insert_order now 0 order db) (\<lambda>db.
     and_then (bump_routing_revision now db) (\<lambda>db.
     and_then (read_routing_control_sync db) (\<lambda>routing.
       Inr (RoutingUpdated routing, db)))))))"

definition validate_order :: "account_id list \<Rightarrow> store_error + unit" where
  "validate_order order = (if length order > 512 \<or> \<not> distinct order
     then Inl (InvalidInput ''account routing order is invalid'') else Inr ())"

definition commit_routing ::
    "store_error + routing_control_outcome \<times> registry \<Rightarrow> store_error + routing_control_outcome \<times> registry" where
  "commit_routing step = and_then step (\<lambda>(outcome, db). and_then (registry_commit db) (\<lambda>db. Inr (outcome, db)))"

definition set_fixed_account_selection ::
    "i64 option \<Rightarrow> i64 \<Rightarrow> account_id \<Rightarrow> i64 \<Rightarrow> registry \<Rightarrow> store_error + routing_control_outcome \<times> registry" where
  "set_fixed_account_selection clock expected_routing account expected_account db =
     and_then (validate_routing_revision expected_routing) (\<lambda>_.
     and_then (validate_account_revision expected_account) (\<lambda>_.
       commit_routing (set_fixed_routing_sync clock expected_routing account expected_account db)))"

definition set_balanced_account_selection ::
    "i64 option \<Rightarrow> i64 \<Rightarrow> registry \<Rightarrow> store_error + routing_control_outcome \<times> registry" where
  "set_balanced_account_selection clock expected_routing db =
     and_then (validate_routing_revision expected_routing) (\<lambda>_.
       commit_routing (set_balanced_routing_sync clock expected_routing db))"

definition set_account_order ::
    "i64 option \<Rightarrow> i64 \<Rightarrow> account_id list \<Rightarrow> registry \<Rightarrow> store_error + routing_control_outcome \<times> registry" where
  "set_account_order clock expected_routing order db =
     and_then (validate_routing_revision expected_routing) (\<lambda>_.
     and_then (validate_order order) (\<lambda>_.
       commit_routing (set_account_order_sync clock expected_routing order db)))"

text \<open>The same writes as commands: with the response, in one transaction.\<close>

definition route_account_command ::
    "json_codec \<Rightarrow> (string \<Rightarrow> bool) \<Rightarrow> i64 option \<Rightarrow> quota_clock \<Rightarrow> i64 option \<Rightarrow> command_reservation \<Rightarrow> i64 \<Rightarrow> account_id \<Rightarrow>
     i64 \<Rightarrow> (routing_control_outcome \<Rightarrow> account_record option \<Rightarrow> store_error + json) \<Rightarrow> registry \<Rightarrow>
     store_error + json \<times> registry" where
  "route_account_command jc credential_pattern clock clocks finish_clock lease expected_routing account expected_account
       build_response db =
     and_then (validate_routing_revision expected_routing) (\<lambda>_.
     and_then (validate_account_revision expected_account) (\<lambda>_.
     and_then (route_fixed_routing_sync clock expected_routing account expected_account db) (\<lambda>(outcome, db).
     and_then (case outcome of
         RoutingUpdated _ \<Rightarrow> first_account clocks (account_id_text account) db
       | _ \<Rightarrow> Inr None) (\<lambda>record.
       answer_command jc credential_pattern finish_clock lease (build_response outcome record) db))))"

definition set_balanced_account_selection_command ::
    "json_codec \<Rightarrow> (string \<Rightarrow> bool) \<Rightarrow> i64 option \<Rightarrow> i64 option \<Rightarrow> command_reservation \<Rightarrow> i64 \<Rightarrow>
     (routing_control_outcome \<Rightarrow> store_error + json) \<Rightarrow> registry \<Rightarrow> store_error + json \<times> registry" where
  "set_balanced_account_selection_command jc credential_pattern clock finish_clock lease expected_routing build_response db =
     and_then (validate_routing_revision expected_routing) (\<lambda>_.
     and_then (set_balanced_routing_sync clock expected_routing db) (\<lambda>(outcome, db).
       answer_command jc credential_pattern finish_clock lease (build_response outcome) db))"

definition set_account_order_command ::
    "json_codec \<Rightarrow> (string \<Rightarrow> bool) \<Rightarrow> i64 option \<Rightarrow> i64 option \<Rightarrow> command_reservation \<Rightarrow> i64 \<Rightarrow> account_id list \<Rightarrow>
     (routing_control_outcome \<Rightarrow> store_error + json) \<Rightarrow> registry \<Rightarrow> store_error + json \<times> registry" where
  "set_account_order_command jc credential_pattern clock finish_clock lease expected_routing order build_response db =
     and_then (validate_routing_revision expected_routing) (\<lambda>_.
     and_then (validate_order order) (\<lambda>_.
     and_then (set_account_order_sync clock expected_routing order db) (\<lambda>(outcome, db).
       answer_command jc credential_pattern finish_clock lease (build_response outcome) db)))"

section \<open>Quota and store observations\<close>

text \<open>
  \<^verbatim>\<open>INSERT ... ON CONFLICT DO UPDATE ... WHERE\<close>: the row that replaces an older one, or \<open>None\<close>
  when the statement changes nothing.
\<close>

definition put_quota :: "(i64 \<Rightarrow> i64 \<Rightarrow> bool) \<Rightarrow> quota_row \<Rightarrow> registry \<Rightarrow> registry option" where
  "put_quota newer row db =
     (case find_quota db (qw_account_id row) (qw_duration row) of
        None \<Rightarrow> Some (db\<lparr>lc_quotas := lc_quotas db @ [row]\<rparr>)
      | Some old \<Rightarrow>
          if newer (qw_observed_at old) (qw_observed_at row)
          then Some (db\<lparr>lc_quotas := update_rows (\<lambda>r. qw_account_id r = qw_account_id row \<and> qw_duration r = qw_duration row)
            (\<lambda>_. row) (lc_quotas db)\<rparr>)
          else None)"

definition write_quota ::
    "(i64 \<Rightarrow> i64 \<Rightarrow> bool) \<Rightarrow> store_error \<Rightarrow> quota_row \<Rightarrow> registry \<Rightarrow> store_error + registry" where
  "write_quota newer e row db =
     (case put_quota newer row db of
        None \<Rightarrow> if quota_row_checks row then Inl e else Inl sql_error
      | Some db' \<Rightarrow> registry_execute db')"

definition exhausted_window :: "registry \<Rightarrow> string \<Rightarrow> bool" where
  "exhausted_window db a \<longleftrightarrow> list_ex (\<lambda>r. qw_account_id r = a \<and> qw_error_code r = None \<and>
     (case qw_used_percent r of None \<Rightarrow> False | Some used \<Rightarrow> used \<ge> 100)) (lc_quotas db)"

definition derive_account_state :: "i64 option \<Rightarrow> store_error \<Rightarrow> string \<Rightarrow> registry \<Rightarrow> store_error + registry" where
  "derive_account_state clock e a db =
     and_then (unix_micros clock) (\<lambda>now.
     and_then (update_accounts (live_account_row a) (\<lambda>r. r\<lparr>an_state := if exhausted_window db a then ''depleted'' else ''available'',
       an_updated := now\<rparr>) db) (\<lambda>db'.
       if changed_rows (live_account_row a) (lc_accounts db) \<noteq> 1 then Inl e else Inr db'))"

definition observe_account_quota ::
    "i64 option \<Rightarrow> account_id \<Rightarrow> account_quota_window \<Rightarrow> i64 \<Rightarrow> registry \<Rightarrow> store_error + registry" where
  "observe_account_quota clock account quota observed_at db =
     (let e = InvalidInput ''quota fact rejected'' in
      if observed_at < 0 \<or> aqw_resets_at quota \<le> observed_at then Inl e
      else
      and_then (write_quota (\<le>) e \<lparr>qw_account_id = account_id_text account,
        qw_duration = uint (aqw_duration_minutes quota), qw_used_percent = Some (uint (aqw_used_percent quota)),
        qw_resets_at = Some (aqw_resets_at quota), qw_error_code = None, qw_observed_at = observed_at,
        qw_not_applicable = False\<rparr> db) (\<lambda>db.
      and_then (derive_account_state clock e (account_id_text account) db) registry_commit))"

definition observe_account_quota_error ::
    "account_id \<Rightarrow> 32 word \<Rightarrow> account_quota_observation_error \<Rightarrow> i64 \<Rightarrow> registry \<Rightarrow> store_error + registry" where
  "observe_account_quota_error account duration e observed_at db =
     (let rejected = InvalidInput ''quota error rejected'' in
      if \<not> (duration = 300 \<or> duration = 10080) \<or> observed_at < 0 then Inl rejected
      else and_then (write_quota (\<le>) rejected \<lparr>qw_account_id = account_id_text account, qw_duration = uint duration,
        qw_used_percent = None, qw_resets_at = None, qw_error_code = Some (quota_error_text e),
        qw_observed_at = observed_at, qw_not_applicable = False\<rparr> db) registry_commit)"

definition observe_account_quota_absence ::
    "i64 option \<Rightarrow> account_id \<Rightarrow> 32 word \<Rightarrow> i64 \<Rightarrow> registry \<Rightarrow> store_error + registry" where
  "observe_account_quota_absence clock account duration observed_at db =
     (let e = InvalidInput ''quota absence rejected'' in
      if duration \<noteq> 300 \<or> observed_at \<le> 0 then Inl e
      else
      and_then (write_quota (\<le>) e \<lparr>qw_account_id = account_id_text account, qw_duration = 300,
        qw_used_percent = None, qw_resets_at = None, qw_error_code = None, qw_observed_at = observed_at,
        qw_not_applicable = True\<rparr> db) (\<lambda>db.
      and_then (derive_account_state clock e (account_id_text account) db) registry_commit))"

definition observe_account_store ::
    "i64 option \<Rightarrow> account_id \<Rightarrow> i64 \<Rightarrow> credential_binding \<Rightarrow> account_store_observation \<Rightarrow> registry \<Rightarrow>
     store_error + bool \<times> registry" where
  "observe_account_store clock account expected_revision expected observation db =
     (let a = account_id_text account in
      and_then (validate_account_revision expected_revision) (\<lambda>_.
      and_then (ok_or (InvalidInput ''account is absent'') (map_option an_revision (find_account db a))) (\<lambda>revision.
      if revision \<noteq> expected_revision then Inr (False, db)
      else
      and_then (credential_binding_sync db a) (\<lambda>credential.
      if credential \<noteq> Some expected then Inr (False, db)
      else
      and_then (unix_micros clock) (\<lambda>now.
      let exact = (\<lambda>r. an_account_id r = a \<and> an_revision r = expected_revision) in
      and_then (update_accounts exact
        (\<lambda>r. r\<lparr>an_store_observation := store_observation_text observation, an_updated := now\<rparr>) db) (\<lambda>db'.
      and_then (registry_commit db') (\<lambda>db'.
        Inr (changed_rows exact (lc_accounts db) = 1, db'))))))))"

record codex_account_capability_attestation =
  cat_build_identity :: string
  cat_executable_sha256 :: string
  cat_schema_sha256 :: string
  cat_callback_profile_sha256 :: string
  cat_login_chatgpt_auth_tokens :: bool
  cat_refresh_callback :: bool

definition attest_codex_account_capability ::
    "i64 option \<Rightarrow> codex_account_capability_attestation \<Rightarrow> registry \<Rightarrow> store_error + bool \<times> registry" where
  "attest_codex_account_capability clock attestation db =
     (if cat_build_identity attestation = [] \<or> length (cat_build_identity attestation) > 256
        \<or> \<not> list_all is_sha256 [cat_executable_sha256 attestation, cat_schema_sha256 attestation,
             cat_callback_profile_sha256 attestation]
      then Inl (InvalidInput ''Codex account capability is invalid'')
      else
      and_then (unix_micros clock) (\<lambda>now.
      and_then (registry_execute (db\<lparr>lc_capability := Some \<lparr>ca_build_identity = cat_build_identity attestation,
        ca_executable_sha256 = cat_executable_sha256 attestation, ca_schema_sha256 = cat_schema_sha256 attestation,
        ca_callback_profile_sha256 = cat_callback_profile_sha256 attestation,
        ca_login_chatgpt_auth_tokens = cat_login_chatgpt_auth_tokens attestation,
        ca_refresh_callback = cat_refresh_callback attestation, ca_observed_at = now\<rparr>\<rparr>)) (\<lambda>db.
      and_then (registry_commit db) (\<lambda>db.
        Inr (cat_login_chatgpt_auth_tokens attestation \<and> cat_refresh_callback attestation, db)))))"

end
