(* ===== verification/Registry_Usage.thy ===== *)
theory Registry_Usage
  imports Registry_Admin
begin

text \<open>
  The usage observations of \<^verbatim>\<open>account_usage.rs\<close>, with the quota windows that arrive with them, and
  the credential rows of \<^verbatim>\<open>credentials.rs\<close>: created once, rotated by one version under an exact
  key, deleted under an exact key.
\<close>

section \<open>Usage\<close>

definition write_window ::
    "string \<Rightarrow> i64 \<Rightarrow> 32 word \<Rightarrow> account_quota_window_observation \<Rightarrow> registry \<Rightarrow> store_error + registry" where
  "write_window a now duration window db =
     (let invalid = InvalidInput ''invalid usage window'' in
      if aqo_duration_minutes window \<noteq> duration \<or> aqo_observed_at window \<noteq> Some now then Inl invalid
      else
      and_then (case aqo_disposition window of
          QuotaCurrent quota \<Rightarrow>
            if aqw_duration_minutes quota = duration \<and> aqw_resets_at quota > now
            then Inr (Some (uint (aqw_used_percent quota)), Some (aqw_resets_at quota), False) else Inl invalid
        | QuotaNotApplicable \<Rightarrow> if duration = 300 then Inr (None, None, True) else Inl invalid
        | _ \<Rightarrow> Inl invalid) (\<lambda>(used, resets, absent).
        write_quota (\<le>) (InvalidInput ''older usage window'') \<lparr>qw_account_id = a, qw_duration = uint duration,
          qw_used_percent = used, qw_resets_at = resets, qw_error_code = None, qw_observed_at = now,
          qw_not_applicable = absent\<rparr> db))"

definition write_optional_window ::
    "string \<Rightarrow> i64 \<Rightarrow> 32 word \<Rightarrow> account_quota_window_observation option \<Rightarrow> registry \<Rightarrow> store_error + registry" where
  "write_optional_window a now duration window db =
     (case window of None \<Rightarrow> Inr db | Some window \<Rightarrow> write_window a now duration window db)"

definition put_usage :: "usage_row \<Rightarrow> registry \<Rightarrow> registry" where
  "put_usage row db = db\<lparr>lc_usages := (case find_row us_account_id (lc_usages db) (us_account_id row) of
       None \<Rightarrow> lc_usages db @ [row]
     | Some _ \<Rightarrow> update_rows (\<lambda>r. us_account_id r = us_account_id row) (\<lambda>_. row) (lc_usages db))\<rparr>"

definition usage_row_of :: "string \<Rightarrow> account_usage_observation \<Rightarrow> usage_row" where
  "usage_row_of a observation = \<lparr>us_account_id = a, us_account_revision = auo_account_revision observation,
     us_observed_at = auo_observed_at observation, us_ordinary_usage_allowed = auo_ordinary_usage_allowed observation,
     us_conditions = auo_conditions observation\<rparr>"

definition usage_state :: "registry \<Rightarrow> string \<Rightarrow> account_usage_observation \<Rightarrow> string" where
  "usage_state db a observation =
     (case ordinary_requests_allowed (auo_conditions observation) (auo_ordinary_usage_allowed observation) of
        Some False \<Rightarrow> ''depleted''
      | Some True \<Rightarrow> ''available''
      | None \<Rightarrow> if exhausted_window db a then ''depleted'' else ''available'')"

definition observe_account_usage ::
    "account_id \<Rightarrow> account_usage_observation \<Rightarrow> account_quota_window_observation option \<Rightarrow>
     account_quota_window_observation option \<Rightarrow> registry \<Rightarrow> store_error + bool \<times> registry" where
  "observe_account_usage account observation five_hour seven_day db =
     (let a = account_id_text account; now = auo_observed_at observation in
      if auo_account_revision observation \<le> 0 \<or> now \<le> 0 then Inl (InvalidInput ''invalid usage observation'')
      else if \<not> list_ex (\<lambda>r. live_account_row a r \<and> an_revision r = auo_account_revision observation) (lc_accounts db)
      then Inr (False, db)
      else
      let prior = read_usage_observation db a in
      if (case prior of None \<Rightarrow> False | Some prior \<Rightarrow> auo_observed_at prior \<ge> now) then Inr (False, db)
      else
      and_then (if (case prior of None \<Rightarrow> True | Some prior \<Rightarrow> auo_account_revision prior \<noteq> auo_account_revision observation)
          then registry_execute (db\<lparr>lc_quotas := filter (\<lambda>r. qw_account_id r \<noteq> a) (lc_quotas db)\<rparr>) else Inr db) (\<lambda>db.
      and_then (write_optional_window a now 300 five_hour db) (\<lambda>db.
      and_then (write_optional_window a now 10080 seven_day db) (\<lambda>db.
      and_then (registry_execute (put_usage (usage_row_of a observation) db)) (\<lambda>db.
      and_then (update_accounts (\<lambda>r. an_account_id r = a)
        (\<lambda>r. r\<lparr>an_state := usage_state db a observation, an_updated := now\<rparr>) db) (\<lambda>db.
      and_then (registry_commit db) (\<lambda>db. Inr (True, db))))))))"

definition no_conditions :: account_usage_conditions where
  "no_conditions = \<lparr>auc_has_credits = None, auc_unlimited_credits = None, auc_spend_control_reached = None,
     auc_rate_limit_reached = None\<rparr>"

definition unknown_quota_row :: "string \<Rightarrow> i64 \<Rightarrow> i64 \<Rightarrow> quota_row" where
  "unknown_quota_row a duration now = \<lparr>qw_account_id = a, qw_duration = duration, qw_used_percent = None,
     qw_resets_at = None, qw_error_code = Some ''provider_unavailable'', qw_observed_at = now, qw_not_applicable = False\<rparr>"

text \<open>A statement that finds a row that is not older changes nothing.\<close>

definition overwrite_quota :: "quota_row \<Rightarrow> registry \<Rightarrow> store_error + registry" where
  "overwrite_quota row db = (case put_quota (<) row db of
     None \<Rightarrow> if quota_row_checks row then Inr db else Inl sql_error
   | Some db' \<Rightarrow> registry_execute db')"

definition invalidate_usage :: "string \<Rightarrow> i64 \<Rightarrow> i64 \<Rightarrow> registry \<Rightarrow> store_error + registry" where
  "invalidate_usage a revision now db =
     (let row = \<lparr>us_account_id = a, us_account_revision = revision, us_observed_at = now,
        us_ordinary_usage_allowed = None, us_conditions = no_conditions\<rparr> in
      and_then (if null_or (\<lambda>old. us_observed_at old < now) (find_row us_account_id (lc_usages db) a)
          then registry_execute (put_usage row db)
          else if usage_row_checks row then Inr db else Inl sql_error) (\<lambda>db.
      and_then (overwrite_quota (unknown_quota_row a 300 now) db)
        (overwrite_quota (unknown_quota_row a 10080 now))))"

section \<open>Credentials\<close>

record credential_key =
  ck_account_id :: string
  ck_schema_version :: "16 word"
  ck_credential_version :: "64 word"
  ck_fingerprint :: string
  ck_writer_operation_id :: string
  ck_provider :: string
  ck_provider_account_id :: string

definition stored_credential_row :: "credential_key \<Rightarrow> byte list \<Rightarrow> i64 \<Rightarrow> i64 \<Rightarrow> stored_credential" where
  "stored_credential_row k payload version now = \<lparr>se_account_id = ck_account_id k, se_schema_version = uint (ck_schema_version k),
     se_version = version, se_fingerprint = ck_fingerprint k, se_writer_operation_id = ck_writer_operation_id k,
     se_provider = ck_provider k, se_provider_account_id = ck_provider_account_id k, se_payload = payload,
     se_updated = now\<rparr>"

text \<open>The one unique column beside the primary key is the provider account.\<close>

definition provider_taken :: "registry \<Rightarrow> stored_credential \<Rightarrow> bool" where
  "provider_taken db row \<longleftrightarrow> list_ex (\<lambda>r. se_provider_account_id r = se_provider_account_id row) (lc_credentials db)"

definition create_credential ::
    "i64 option \<Rightarrow> credential_key \<Rightarrow> byte list \<Rightarrow> registry \<Rightarrow> database_error + registry" where
  "create_credential clock k payload db =
     and_then (map_err (\<lambda>_. database_error.Unavailable) (unix_micros clock)) (\<lambda>now.
     and_then (map_err (\<lambda>_. database_error.Unavailable)
       (registry_execute (insert_or_ignore_identity (ck_account_id k) now db))) (\<lambda>db.
     and_then (ok_or database_error.Conflict (i64_try_from_u64 (ck_credential_version k))) (\<lambda>version.
     let row = stored_credential_row k payload version now in
     if \<not> stored_credential_checks row then Inl database_error.Unavailable
     else if find_credential db (ck_account_id k) \<noteq> None then Inl database_error.AlreadyExists
     else if provider_taken db row then Inl database_error.Conflict
     else map_err (\<lambda>_. database_error.Unavailable)
       (and_then (registry_execute (db\<lparr>lc_credentials := lc_credentials db @ [row]\<rparr>)) registry_commit))))"

definition read_credential :: "string \<Rightarrow> registry \<Rightarrow> database_error + credential_key \<times> byte list" where
  "read_credential a db =
     and_then (ok_or database_error.NotFound (find_credential db a)) (\<lambda>r.
     and_then (ok_or database_error.Corrupt (u16_try_from (se_schema_version r))) (\<lambda>schema.
     and_then (ok_or database_error.Corrupt (u64_try_from (se_version r))) (\<lambda>version.
       Inr (\<lparr>ck_account_id = a, ck_schema_version = schema, ck_credential_version = version,
         ck_fingerprint = se_fingerprint r, ck_writer_operation_id = se_writer_operation_id r,
         ck_provider = se_provider r, ck_provider_account_id = se_provider_account_id r\<rparr>, se_payload r))))"

definition matches_key :: "credential_key \<Rightarrow> i64 \<Rightarrow> stored_credential \<Rightarrow> bool" where
  "matches_key k version r \<longleftrightarrow> se_account_id r = ck_account_id k \<and> se_schema_version r = uint (ck_schema_version k) \<and>
     se_version r = version \<and> se_fingerprint r = ck_fingerprint k \<and>
     se_writer_operation_id r = ck_writer_operation_id k \<and> se_provider r = ck_provider k \<and>
     se_provider_account_id r = ck_provider_account_id k"

definition saturating_add_u64 :: "64 word \<Rightarrow> 64 word \<Rightarrow> 64 word" where
  "saturating_add_u64 a b = (case checked_add_u64 a b of Some c \<Rightarrow> c | None \<Rightarrow> - 1)"

definition rotate_credential ::
    "i64 option \<Rightarrow> credential_key \<Rightarrow> credential_key \<Rightarrow> byte list \<Rightarrow> registry \<Rightarrow> database_error + registry" where
  "rotate_credential clock expected target payload db =
     (if ck_account_id expected \<noteq> ck_account_id target \<or> ck_provider expected \<noteq> ck_provider target
        \<or> ck_provider_account_id expected \<noteq> ck_provider_account_id target
        \<or> ck_credential_version target \<noteq> saturating_add_u64 (ck_credential_version expected) 1
      then Inl database_error.Conflict
      else
      and_then (ok_or database_error.Conflict (i64_try_from_u64 (ck_credential_version target))) (\<lambda>version.
      and_then (map_err (\<lambda>_. database_error.Unavailable) (unix_micros clock)) (\<lambda>now.
      and_then (ok_or database_error.Conflict (i64_try_from_u64 (ck_credential_version expected))) (\<lambda>expected_version.
      and_then (map_err (\<lambda>_. database_error.Unavailable)
        (registry_execute (db\<lparr>lc_credentials := update_rows (matches_key expected expected_version)
          (\<lambda>_. stored_credential_row target payload version now) (lc_credentials db)\<rparr>))) (\<lambda>db'.
      if changed_rows (matches_key expected expected_version) (lc_credentials db) = 1
      then map_err (\<lambda>_. database_error.Unavailable) (registry_commit db')
      else Inl database_error.Conflict)))))"

definition delete_credential :: "credential_key \<Rightarrow> registry \<Rightarrow> database_error + registry" where
  "delete_credential expected db =
     and_then (ok_or database_error.Conflict (i64_try_from_u64 (ck_credential_version expected))) (\<lambda>version.
     and_then (map_err (\<lambda>_. database_error.Unavailable)
       (registry_execute (db\<lparr>lc_credentials := filter (\<lambda>r. \<not> matches_key expected version r) (lc_credentials db)\<rparr>))) (\<lambda>db'.
     if changed_rows (matches_key expected version) (lc_credentials db) = 1
     then map_err (\<lambda>_. database_error.Unavailable) (registry_commit db')
     else Inl database_error.NotFound))"

end
