(* ===== verification/Registry_Facts.thy ===== *)
theory Registry_Facts
  imports Registry_Usage
begin

text \<open>
  The routing order as a list: \<open>numbered ids rows\<close> says that the rows hold exactly the accounts
  \<open>ids\<close>, the account at place \<open>i\<close> under position \<open>i\<close>. Appending, inserting a whole order and
  compacting after a removal keep it, and the readers' \<^verbatim>\<open>ORDER BY\<close> returns \<open>ids\<close>.
\<close>

definition numbered :: "string list \<Rightarrow> order_row list \<Rightarrow> bool" where
  "numbered ids rows \<longleftrightarrow> distinct ids \<and> distinct (map od_account_id rows) \<and> set (map od_account_id rows) = set ids \<and>
     (\<forall>i < length ids. \<forall>r \<in> set rows. od_account_id r = ids ! i \<longrightarrow> od_position r = int i)"

definition order_ids :: "order_row list \<Rightarrow> string list" where
  "order_ids rows = map od_account_id (sort_key (\<lambda>r. (od_position r, od_account_id r)) rows)"

lemma ordered_ids_order: "ordered_ids db = order_ids (lc_order db)"
  by (simp add: ordered_ids_def order_ids_def)

lemma set_order_ids [simp]: "set (order_ids rows) = set (map od_account_id rows)"
  by (simp add: order_ids_def)

lemma length_order_ids [simp]: "length (order_ids rows) = length rows"
  by (simp add: order_ids_def)

lemma distinct_order_ids [simp]: "distinct (order_ids rows) = distinct (map od_account_id rows)"
  by (simp add: order_ids_def distinct_map)

lemma numbered_length: "numbered ids rows \<Longrightarrow> length rows = length ids"
  unfolding numbered_def by (metis distinct_card length_map)

lemma numbered_row:
  assumes "numbered ids rows" "i < length ids"
  obtains r where "r \<in> set rows" "od_account_id r = ids ! i" "od_position r = int i"
proof -
  have "ids ! i \<in> set (map od_account_id rows)" using assms by (simp add: numbered_def)
  then obtain r where "r \<in> set rows" "od_account_id r = ids ! i" by auto
  then show thesis using that assms by (simp add: numbered_def)
qed

lemma numbered_place:
  assumes "numbered ids rows" "r \<in> set rows"
  obtains i where "i < length ids" "od_account_id r = ids ! i" "od_position r = int i"
proof -
  have "od_account_id r \<in> set ids" using assms unfolding numbered_def by (metis imageI set_map)
  then obtain i where "i < length ids" "od_account_id r = ids ! i" by (metis in_set_conv_nth)
  then show thesis using that assms by (simp add: numbered_def)
qed

text \<open>Rows sorted by position stand in the order of the accounts.\<close>

lemma sorted_by_place:
  assumes "sorted (map f xs)" "distinct (map f xs)" "set (map f xs) = {0 ..< int (length xs)}" "i < length xs"
  shows "f (xs ! i) = int i"
proof -
  have "sorted_list_of_set {0 ..< int (length xs)} = map f xs"
    using assms(1,2,3) by (metis sorted_list_of_set.idem_if_sorted_distinct)
  moreover have "sorted_list_of_set (set (map int [0 ..< length xs])) = map int [0 ..< length xs]"
    by (rule sorted_list_of_set.idem_if_sorted_distinct)
       (simp_all add: distinct_map sorted_map sorted_wrt_upt)
  moreover have "set (map int [0 ..< length xs]) = {0 ..< int (length xs)}"
    using image_int_atLeastLessThan [of 0 "length xs"] by simp
  ultimately show ?thesis using assms(4) by (metis add_0 diff_zero length_upt nth_map nth_upt)
qed

lemma sorted_map_fst: "sorted (map f xs) \<Longrightarrow> sorted (map (\<lambda>x. fst (f x)) xs)"
  unfolding sorted_map by (erule sorted_wrt_mono_rel [rotated]) (metis fst_conv less_eq_prod_def order.strict_implies_order order_refl)

lemma numbered_order_ids:
  assumes "numbered ids rows"
  shows "order_ids rows = ids"
proof -
  define sorted_rows where "sorted_rows = sort_key (\<lambda>r. (od_position r, od_account_id r)) rows"
  have len: "length sorted_rows = length ids" by (simp add: sorted_rows_def numbered_length [OF assms])
  have positions: "set (map od_position rows) = {0 ..< int (length ids)}"
  proof
    show "set (map od_position rows) \<subseteq> {0 ..< int (length ids)}"
      by (auto elim!: numbered_place [OF assms])
    show "{0 ..< int (length ids)} \<subseteq> set (map od_position rows)"
    proof
      fix p assume "p \<in> {0 ..< int (length ids)}"
      then have p: "nat p < length ids" "p = int (nat p)" by auto
      obtain r where "r \<in> set rows" "od_position r = int (nat p)" using numbered_row [OF assms p(1)] by metis
      then show "p \<in> set (map od_position rows)" using p(2) by force
    qed
  qed
  have "card (set (map od_position rows)) = length rows"
    by (simp add: positions numbered_length [OF assms] del: set_map)
  then have "distinct (map od_position rows)" by (metis card_distinct length_map)
  then have distinct: "distinct (map od_position sorted_rows)" by (simp add: sorted_rows_def distinct_map)
  have order: "sorted (map od_position sorted_rows)"
    using sorted_map_fst [of "\<lambda>r. (od_position r, od_account_id r)" sorted_rows] by (simp add: sorted_rows_def)
  have "map od_account_id sorted_rows ! i = ids ! i" if i: "i < length ids" for i
  proof -
    have "set (map od_position sorted_rows) = {0 ..< int (length sorted_rows)}"
      using positions len by (simp add: sorted_rows_def)
    then have "od_position (sorted_rows ! i) = int i" using sorted_by_place [OF order distinct] i len by simp
    moreover have "sorted_rows ! i \<in> set rows" using i len by (metis nth_mem set_sort sorted_rows_def)
    ultimately show ?thesis using i len by (auto elim!: numbered_place [OF assms])
  qed
  then show ?thesis using len by (simp add: order_ids_def sorted_rows_def [symmetric] list_eq_iff_nth_eq)
qed

section \<open>Appending and inserting\<close>

lemma numbered_append:
  assumes "numbered ids rows" "a \<notin> set ids" "od_account_id r = a" "od_position r = int (length rows)"
  shows "numbered (ids @ [a]) (rows @ [r])"
proof -
  have "a \<notin> set (map od_account_id rows)" using assms by (simp add: numbered_def)
  moreover have "od_position q = int i" if "i < length (ids @ [a])" "q \<in> set (rows @ [r])" "od_account_id q = (ids @ [a]) ! i" for i q
  proof (cases "q = r")
    case True
    then have "i = length ids" using that assms by (metis less_antisym length_append_singleton nth_append nth_mem)
    then show ?thesis using True assms numbered_length by metis
  next
    case False
    then have q: "q \<in> set rows" using that by simp
    then have "od_account_id q \<in> set ids" using assms(1) unfolding numbered_def by (metis imageI set_map)
    then have "i < length ids" using that assms(2) by (metis less_antisym length_append_singleton nth_append_length)
    then show ?thesis using assms(1) q that by (simp add: numbered_def nth_append)
  qed
  ultimately show ?thesis using assms unfolding numbered_def by auto
qed

lemma numbered_Nil [simp]: "numbered [] []"
  by (simp add: numbered_def)

lemma insert_order_Ok:
  assumes "insert_order now p order db = Inr db'" "numbered ids (lc_order db)" "p = int (length ids)"
    and "distinct (ids @ map account_id_text order)"
  shows "\<exists>rows. db' = db\<lparr>lc_order := rows\<rparr> \<and> numbered (ids @ map account_id_text order) rows"
  using assms
proof (induction order arbitrary: p ids db)
  case Nil
  then show ?case by (auto intro!: exI [of _ "lc_order db"])
next
  case (Cons a order)
  let ?row = "\<lparr>od_account_id = account_id_text a, od_position = p, od_updated = now\<rparr>"
  let ?db = "db\<lparr>lc_order := lc_order db @ [?row]\<rparr>"
  have "insert_order now (p + 1) order ?db = Inr db'"
    using Cons.prems(1) by (auto simp: and_then_Ok_iff registry_execute_Ok_iff)
  moreover have "numbered (ids @ [account_id_text a]) (lc_order ?db)"
    using Cons.prems numbered_length [OF Cons.prems(2)] by (simp add: numbered_append)
  ultimately show ?case using Cons.IH [of "p + 1" ?db "ids @ [account_id_text a]"] Cons.prems(3,4) by auto
qed

section \<open>Compaction\<close>

lemma assign_positions_Ok:
  assumes "assign_positions now p ids db = Inr db'" "distinct ids"
  shows "\<exists>rows. db' = db\<lparr>lc_order := rows\<rparr> \<and> map od_account_id rows = map od_account_id (lc_order db) \<and>
    (\<forall>i < length ids. \<forall>r \<in> set rows. od_account_id r = ids ! i \<longrightarrow> od_position r = p + int i) \<and>
    (\<forall>r \<in> set rows. od_account_id r \<notin> set ids \<longrightarrow> r \<in> set (lc_order db))"
  using assms
proof (induction ids arbitrary: p db)
  case Nil
  then show ?case by (auto intro!: exI [of _ "lc_order db"])
next
  case (Cons a ids)
  let ?f = "\<lambda>r. r\<lparr>od_position := p, od_updated := now\<rparr>"
  let ?db = "db\<lparr>lc_order := update_rows (\<lambda>r. od_account_id r = a) ?f (lc_order db)\<rparr>"
  have "assign_positions now (p + 1) ids ?db = Inr db'"
    using Cons.prems(1) by (auto simp: and_then_Ok_iff registry_execute_Ok_iff)
  then obtain rows where rows: "db' = ?db\<lparr>lc_order := rows\<rparr>" "map od_account_id rows = map od_account_id (lc_order ?db)"
    and placed: "\<And>i r. i < length ids \<Longrightarrow> r \<in> set rows \<Longrightarrow> od_account_id r = ids ! i \<Longrightarrow> od_position r = p + 1 + int i"
    and kept: "\<And>r. r \<in> set rows \<Longrightarrow> od_account_id r \<notin> set ids \<Longrightarrow> r \<in> set (lc_order ?db)"
    using Cons.IH [of "p + 1" ?db] Cons.prems(2) by auto
  have "db' = db\<lparr>lc_order := rows\<rparr>" using rows(1) by simp
  moreover have "map od_account_id rows = map od_account_id (lc_order db)" using rows(2) by (simp add: map_update_rows)
  moreover have "od_position r = p + int i" if r: "i < length (a # ids)" "r \<in> set rows" "od_account_id r = (a # ids) ! i" for i r
  proof (cases i)
    case 0
    then have "od_account_id r = a" "od_account_id r \<notin> set ids" using r Cons.prems(2) by auto
    then have "r \<in> set (lc_order ?db)" using kept r(2) by blast
    then obtain q where "r = (if od_account_id q = a then ?f q else q)" by (auto simp: set_update_rows)
    then have "od_position r = p" using \<open>od_account_id r = a\<close> by (cases "od_account_id q = a") simp_all
    then show ?thesis using 0 by simp
  next
    case (Suc j)
    then show ?thesis using placed [of j r] r by simp
  qed
  moreover have "r \<in> set (lc_order db)" if "r \<in> set rows" "od_account_id r \<notin> set (a # ids)" for r
    using kept [OF that(1)] that(2) by (auto simp: set_update_rows split: if_splits)
  ultimately show ?case by blast
qed

lemma shift_positions_ids:
  "shift_positions now done rows = Some rows' \<Longrightarrow>
     map od_account_id rows' = map od_account_id done @ map od_account_id rows"
  by (induction now "done" rows rule: shift_positions.induct) (auto simp: Let_def split: if_splits)

text \<open>Compaction numbers the accounts that are left in the order they had.\<close>

lemma compact_routing_order_Ok:
  assumes "compact_routing_order now db = Inr db'" "distinct (map od_account_id (lc_order db))"
  shows "\<exists>rows. db' = db\<lparr>lc_order := rows\<rparr> \<and> map od_account_id rows = map od_account_id (lc_order db) \<and>
    numbered (order_ids (lc_order db)) rows"
proof -
  obtain shifted where shifted: "shift_positions now [] (lc_order db) = Some shifted"
    and assigned: "assign_positions now 0 (ordered_ids db) (db\<lparr>lc_order := shifted\<rparr>) = Inr db'"
    using assms(1) by (auto simp: compact_routing_order_def and_then_Ok_iff registry_execute_Ok_iff)
  have distinct: "distinct (ordered_ids db)" using assms(2) by (simp add: ordered_ids_order)
  obtain rows where "db' = db\<lparr>lc_order := rows\<rparr>" "map od_account_id rows = map od_account_id (lc_order db)"
    "\<forall>i < length (ordered_ids db). \<forall>r \<in> set rows. od_account_id r = ordered_ids db ! i \<longrightarrow> od_position r = 0 + int i"
    using assign_positions_Ok [OF assigned distinct] shift_positions_ids [OF shifted] by auto
  then show ?thesis using assms(2) by (intro exI [of _ rows]) (simp add: numbered_def ordered_ids_order flip: set_map)
qed

lemma order_ids_filter: "order_ids (filter (\<lambda>r. od_account_id r \<noteq> a) rows) = filter (\<lambda>b. b \<noteq> a) (order_ids rows)"
  by (simp add: order_ids_def filter_sort filter_map o_def)

text \<open>
  What the writers of the account registry share: what the schema gives of keys, what an
  \<^verbatim>\<open>UPDATE\<close> under a key changes, and what a stored operation says when it is read.
\<close>

section \<open>Keys\<close>

named_theorems registry_ok \<open>when the statements and guards of the writers return a value\<close>

declare and_then_Ok_iff [registry_ok] registry_execute_Ok_iff [registry_ok] registry_commit_Ok_iff [registry_ok]
  unix_micros_Ok_iff [registry_ok]

lemma schema_account_keys: "registry_schema db \<Longrightarrow> distinct (map an_account_id (lc_accounts db))"
  by (simp add: registry_schema_def registry_keys_unique_def)

lemma schema_provider_keys: "registry_schema db \<Longrightarrow> distinct (map an_provider_account_id (lc_accounts db))"
  by (simp add: registry_schema_def registry_keys_unique_def)

lemma schema_operation_keys: "registry_schema db \<Longrightarrow> distinct (map lo_operation_id (lc_operations db))"
  by (simp add: registry_schema_def registry_keys_unique_def operation_keys_unique_def)

lemma schema_credential_keys: "registry_schema db \<Longrightarrow> distinct (map se_account_id (lc_credentials db))"
  by (simp add: registry_schema_def registry_keys_unique_def)

lemma schema_order_keys: "registry_schema db \<Longrightarrow> distinct (map od_account_id (lc_order db))"
  by (simp add: registry_schema_def registry_keys_unique_def)

lemma schema_receipt_keys: "registry_schema db \<Longrightarrow> distinct (map (\<lambda>r. (cx_protocol r, cx_key r)) (lc_receipts db))"
  by (simp add: registry_schema_def registry_keys_unique_def)

lemma schema_account_checks: "registry_schema db \<Longrightarrow> r \<in> set (lc_accounts db) \<Longrightarrow> registered_account_checks r"
  by (simp add: registry_schema_def registry_rows_checked_def list_all_iff)

lemma schema_operation_checks: "registry_schema db \<Longrightarrow> r \<in> set (lc_operations db) \<Longrightarrow> lifecycle_operation_checks r"
  by (simp add: registry_schema_def registry_rows_checked_def list_all_iff)

lemma find_account_row: "find_account db a = Some r \<Longrightarrow> r \<in> set (lc_accounts db) \<and> an_account_id r = a"
  unfolding find_account_def by (rule find_row_Some)

lemma find_operation_row: "find_operation db k = Some r \<Longrightarrow> r \<in> set (lc_operations db) \<and> lo_operation_id r = k"
  unfolding find_operation_def by (rule find_row_Some)

lemma find_account_in: "registry_schema db \<Longrightarrow> r \<in> set (lc_accounts db) \<Longrightarrow> find_account db (an_account_id r) = Some r"
  unfolding find_account_def by (rule find_row_distinct [OF schema_account_keys])

lemma find_operation_in: "registry_schema db \<Longrightarrow> r \<in> set (lc_operations db) \<Longrightarrow> find_operation db (lo_operation_id r) = Some r"
  unfolding find_operation_def by (rule find_row_distinct [OF schema_operation_keys])

text \<open>A statement under a key changes at most one row.\<close>

lemma update_rows_none: "(\<And>r. r \<in> set t \<Longrightarrow> \<not> p r) \<Longrightarrow> update_rows p f t = t"
  by (simp add: update_rows_def map_idI)

lemma changed_rows_key:
  fixes key :: "'r \<Rightarrow> string"
  assumes "distinct (map key t)" "\<forall>r. p r \<longrightarrow> key r = k"
  shows "changed_rows p t = (case find_row key t k of Some r \<Rightarrow> if p r then 1 else 0 | None \<Rightarrow> 0)"
  using assms
proof (induction t)
  case (Cons r t)
  show ?case
  proof (cases "key r = k")
    case True
    have "\<not> p q" if q: "q \<in> set t" for q
    proof
      assume "p q"
      then have "key q = key r" using Cons.prems(2) True by metis
      then have "key r \<in> set (map key t)" using q by (metis image_eqI set_map)
      then show False using Cons.prems(1) by simp
    qed
    then have "filter p t = []" by (simp add: filter_empty_conv)
    then show ?thesis using True by (simp add: changed_rows_def find_row_def)
  next
    case False
    then have "\<not> p r" using Cons.prems(2) by metis
    then show ?thesis using Cons False by (simp add: changed_rows_def find_row_def)
  qed
qed (simp add: changed_rows_def find_row_def)

lemma changed_one:
  fixes key :: "'r \<Rightarrow> string"
  assumes "distinct (map key t)" "\<forall>r. p r \<longrightarrow> key r = k" "changed_rows p t = 1"
  shows "\<exists>r. find_row key t k = Some r \<and> p r"
proof (cases "find_row key t k")
  case None
  then show ?thesis using assms(3) unfolding changed_rows_key [OF assms(1,2)] by simp
next
  case (Some r)
  then show ?thesis using assms(3) unfolding changed_rows_key [OF assms(1,2)] by (cases "p r") simp_all
qed

lemma changed_not_one:
  fixes key :: "'r \<Rightarrow> string"
  assumes "distinct (map key t)" "\<forall>r. p r \<longrightarrow> key r = k" "changed_rows p t \<noteq> 1"
  shows "update_rows p f t = t"
proof (rule update_rows_none)
  fix r assume r: "r \<in> set t"
  show "\<not> p r"
  proof
    assume p: "p r"
    then have "key r = k" using assms(2) by metis
    then have "find_row key t k = Some r" using find_row_distinct [OF assms(1) r] by metis
    then show False using assms(3) p unfolding changed_rows_key [OF assms(1,2)] by simp
  qed
qed

text \<open>An \<^verbatim>\<open>UPDATE\<close> whose guard holds of the row under the key is an \<^verbatim>\<open>UPDATE\<close> of that row.\<close>

lemma update_guarded:
  fixes key :: "'r \<Rightarrow> string"
  assumes "distinct (map key t)" "find_row key t k = Some r" "p r" "\<forall>q. p q \<longrightarrow> key q = k"
  shows "update_rows p f t = update_rows (\<lambda>q. key q = k) f t"
proof -
  have "p q = (key q = k)" if q: "q \<in> set t" for q
  proof
    assume "key q = k"
    then have "find_row key t k = Some q" using find_row_distinct [OF assms(1) q] by metis
    then show "p q" using assms(2,3) by simp
  qed (use assms(4) in metis)
  then show ?thesis by (simp add: update_rows_def)
qed

lemma registry_update_same: "update_rows p f (lc_accounts db) = lc_accounts db \<Longrightarrow>
    (db :: registry)\<lparr>lc_accounts := update_rows p f (lc_accounts db)\<rparr> = db"
  by simp

section \<open>Stored operations\<close>

lemma transpose_option_Some: "transpose_option f v = Inr (Some y) \<longleftrightarrow> (\<exists>x. v = Some x \<and> f x = Inr y)"
  by (cases v) (auto simp: transpose_option_def and_then_Ok_iff)

lemma transpose_option_None: "transpose_option f v = Inr None \<longleftrightarrow> v = None"
  by (cases v) (auto simp: transpose_option_def and_then_Ok_iff)

lemma transpose_option_is_None: "transpose_option f v = Inr w \<Longrightarrow> (w = None) = (v = None)"
  by (cases v) (auto simp: transpose_option_def and_then_Ok_iff)

lemma operation_id_reads: "account_operation_id_new s = Inr k \<Longrightarrow> operation_id_text k = s"
  by (auto simp: account_operation_id_new_def split: if_splits)

lemma account_id_reads: "account_id_new s = Inr a \<Longrightarrow> account_id_text a = s"
  by (auto simp: account_id_new_def split: if_splits)

definition stored_operation :: "json_codec \<Rightarrow> lifecycle_operation \<Rightarrow> account_operation \<Rightarrow> bool" where
  "stored_operation jc r op \<longleftrightarrow>
     lo_operation_id r = operation_id_text (ao_operation_id op) \<and>
     lo_account_id r = account_id_text (ao_account_id op) \<and>
     lo_kind r = operation_kind_text (ao_kind op) \<and>
     lo_phase r = operation_phase_text (ao_phase op) \<and>
     parse_binding_json jc (lo_expected_json r) = Inr (ao_expected op) \<and>
     parse_binding_json jc (lo_target_json r) = Inr (ao_target op) \<and>
     lo_expected_revision r = ao_expected_account_revision op \<and>
     lo_label r = ao_requested_display_label op \<and> lo_enabled r = ao_requested_enabled op \<and>
     lo_recovery_code r = ao_recovery_code op \<and>
     lo_recovery_operation_id r = map_option operation_id_text (ao_recovery_operation_id op) \<and>
     lo_superseded_by r = map_option operation_id_text (ao_superseded_by_operation_id op)"

lemma operation_id_option_reads:
  "transpose_option account_operation_id_new v = Inr w \<Longrightarrow> v = map_option operation_id_text w"
  by (cases v) (auto simp: transpose_option_def and_then_Ok_iff dest: operation_id_reads)

lemma parse_operation_kind_text: "parse_operation_kind s = Inr kind \<Longrightarrow> s = operation_kind_text kind"
  by (rule operation_kind_label.from_only) simp

lemma parse_operation_phase_text: "parse_operation_phase s = Inr phase \<Longrightarrow> s = operation_phase_text phase"
  by (rule operation_phase_label.from_only) simp

lemma read_operation_Some:
  assumes "read_operation_sync jc db k = Inr (Some op)"
  obtains r where "find_operation db (operation_id_text k) = Some r" "stored_operation jc r op" "ao_operation_id op = k"
proof -
  obtain r where r: "find_operation db (operation_id_text k) = Some r" "parse_operation jc k r = Inr op"
    using assms by (auto simp: read_operation_sync_def transpose_option_Some)
  have "stored_operation jc r op \<and> ao_operation_id op = k"
    using r(2) find_operation_row [OF r(1)]
    by (auto simp: parse_operation_def stored_operation_def and_then_Ok_iff
        dest!: parse_operation_kind_text parse_operation_phase_text account_id_reads operation_id_option_reads)
  then show thesis using that r(1) by blast
qed

lemma read_operation_None: "read_operation_sync jc db k = Inr None \<longleftrightarrow> find_operation db (operation_id_text k) = None"
  by (simp add: read_operation_sync_def transpose_option_None)

end
