(* ===== verification/Registry_Effects.thy ===== *)
theory Registry_Effects
  imports Registry_Facts
begin

text \<open>
  What a commit does: \<open>commit_effect\<close> is the specification of the four effects (enrolled, restored,
  refreshed, logged out), each with the authority it needs, and the code of the commit implements it.
  A rejected commit leaves the registry as it was.
\<close>

section \<open>The specification\<close>

definition bumped :: "i64 \<Rightarrow> control_row option \<Rightarrow> control_row option" where
  "bumped now control = map_option (\<lambda>c. c\<lparr>ct_revision := ct_revision c + 1, ct_updated := now\<rparr>) control"

definition last_entry :: "i64 \<Rightarrow> string \<Rightarrow> registry \<Rightarrow> order_row" where
  "last_entry now a db = \<lparr>od_account_id = a, od_position = int (length (lc_order db)), od_updated = now\<rparr>"

definition refreshed_account :: "provider_identity \<Rightarrow> i64 \<Rightarrow> registered_account \<Rightarrow> registered_account" where
  "refreshed_account provider now r = r\<lparr>an_revision := an_revision r + 1,
     an_provider := provider_label (pid_provider provider), an_provider_account_id := pid_account_id provider,
     an_store_observation := ''exact'', an_updated := now\<rparr>"

definition logged_out_account :: "i64 \<Rightarrow> registered_account \<Rightarrow> registered_account" where
  "logged_out_account now r = r\<lparr>an_enabled := False, an_revision := an_revision r + 1,
     an_store_observation := ''missing'', an_updated := now, an_tombstoned := Some now\<rparr>"

definition with_account :: "string \<Rightarrow> (registered_account \<Rightarrow> registered_account) \<Rightarrow> registry \<Rightarrow> registry" where
  "with_account a f db = db\<lparr>lc_accounts := update_rows (\<lambda>r. an_account_id r = a) f (lc_accounts db)\<rparr>"

definition operation_account :: "account_operation \<Rightarrow> string" where
  "operation_account op = account_id_text (ao_account_id op)"

inductive commit_effect :: "json_codec \<Rightarrow> account_operation \<Rightarrow> i64 \<Rightarrow> registry \<Rightarrow> registry \<Rightarrow> bool"
  for jc op now db where
  enrolled:
  "\<lbrakk> new_account_kind (ao_kind op); ao_target op = Some target;
     credential_binding_sync db (operation_account op) = Inr (Some target);
     find_account db (operation_account op) = None; ao_expected_account_revision op = None;
     credential_version_get (cb_version target) = 1; ao_requested_enabled op = Some enabled;
     label \<notin> set (map an_label (lc_accounts db)) \<rbrakk>
   \<Longrightarrow> commit_effect jc op now db (db\<lparr>
     lc_accounts := lc_accounts db @ [enrolled_account (operation_account op) label enabled (cb_provider target) now],
     lc_order := lc_order db @ [last_entry now (operation_account op) db],
     lc_control := bumped now (lc_control db)\<rparr>)"
| restored:
  "\<lbrakk> new_account_kind (ao_kind op); ao_target op = Some target;
     credential_binding_sync db (operation_account op) = Inr (Some target);
     find_account db (operation_account op) = Some base; an_tombstoned base \<noteq> None;
     ao_expected_account_revision op = Some (an_revision base);
     an_provider_account_id base = pid_account_id (cb_provider target);
     tombstone_predecessor_credential jc db (operation_account op) (an_revision base) (cb_provider target) = Inr previous;
     credential_version_successor (cb_version previous) = Inr (cb_version target);
     ao_requested_enabled op = Some enabled \<rbrakk>
   \<Longrightarrow> commit_effect jc op now db ((with_account (operation_account op)
       (restored_account (an_label base) enabled (cb_provider target) now) db)\<lparr>
     lc_order := lc_order db @ [last_entry now (operation_account op) db],
     lc_control := bumped now (lc_control db)\<rparr>)"
| refreshed:
  "\<lbrakk> ao_kind op = Refresh; ao_target op = Some target;
     credential_binding_sync db (operation_account op) = Inr (Some target);
     find_account db (operation_account op) = Some base; an_tombstoned base = None \<rbrakk>
   \<Longrightarrow> commit_effect jc op now db (with_account (operation_account op) (refreshed_account (cb_provider target) now) db)"
| logged_out:
  "\<lbrakk> ao_kind op = Logout; \<not> account_in_use db (operation_account op);
     credential_binding_sync db (operation_account op) = Inr None;
     find_account db (operation_account op) = Some base; an_tombstoned base = None;
     map od_account_id rows = filter (\<lambda>b. b \<noteq> operation_account op) (map od_account_id (lc_order db));
     numbered (filter (\<lambda>b. b \<noteq> operation_account op) (order_ids (lc_order db))) rows \<rbrakk>
   \<Longrightarrow> commit_effect jc op now db ((with_account (operation_account op) (logged_out_account now) db)\<lparr>
     lc_order := rows,
     lc_control := bumped now (map_option (release_fixed (operation_account op)) (lc_control db))\<rparr>)"

definition superseded_by_commit :: "account_operation \<Rightarrow> i64 \<Rightarrow> registry \<Rightarrow> registry" where
  "superseded_by_commit op now db = (case ao_recovery_operation_id op of
     None \<Rightarrow> db
   | Some k \<Rightarrow> db\<lparr>lc_operations := update_rows (supersedable (operation_id_text k))
       (\<lambda>r. r\<lparr>lo_superseded_by := Some (operation_id_text (ao_operation_id op)), lo_updated := now\<rparr>) (lc_operations db)\<rparr>)"

section \<open>Names\<close>

lemma alias_for_enrollment_cases:
  assumes "alias_for_enrollment sha256 provider used rows = Some label"
  shows "(pid_account_id provider, label) \<in> set rows \<or>
    label \<notin> set used \<and> label \<notin> snd ` set rows \<and> pid_account_id provider \<notin> fst ` set rows"
  using assms
proof (induction rows arbitrary: used)
  case Nil
  then show ?case by (auto simp: allocate_alias_def dest: allocate_from_fresh)
next
  case (Cons row rows)
  obtain k l where row: "row = (k, l)" by (cases row)
  show ?case
  proof (cases "k = pid_account_id provider")
    case False
    then show ?thesis using Cons.IH [of "l # used"] Cons.prems by (auto simp: row)
  qed (use Cons.prems row in auto)
qed

lemma chatgpt_accounts: "registry_schema db \<Longrightarrow> r \<in> set (lc_accounts db) \<Longrightarrow> an_provider r = ''chatgpt''"
  using schema_account_checks by (auto simp: registered_account_checks_def)

lemma set_alias_rows:
  "registry_schema db \<Longrightarrow> set (alias_rows db) = (\<lambda>r. (an_provider_account_id r, an_label r)) ` set (lc_accounts db)"
  using chatgpt_accounts by (auto simp: alias_rows_def)

lemma provider_account_row:
  assumes "registry_schema db" "r \<in> set (lc_accounts db)" "q \<in> set (lc_accounts db)"
    "an_provider_account_id r = an_provider_account_id q"
  shows "r = q"
  using schema_provider_keys [OF assms(1)] assms(2-) by (auto simp: distinct_map inj_on_def)

section \<open>Enrollment\<close>

lemma append_to_order_Ok:
  assumes "append_to_order now a db = Inr db'"
  shows "db' = db\<lparr>lc_order := lc_order db @ [last_entry now a db], lc_control := bumped now (lc_control db)\<rparr>"
  using assms by (auto simp: append_to_order_def bump_routing_revision_def last_entry_def bumped_def registry_ok)

lemma append_to_order_schema: "append_to_order now a db = Inr db' \<Longrightarrow> registry_schema db'"
  by (auto simp: append_to_order_def bump_routing_revision_def registry_ok)

lemma install_account_new:
  assumes "install_account jc op target label enabled now db = Inr (None, db')"
    "find_account db (operation_account op) = None"
  shows "ao_expected_account_revision op = None" "credential_version_get (cb_version target) = 1"
    "db' = db\<lparr>lc_accounts := lc_accounts db @ [enrolled_account (operation_account op) label enabled (cb_provider target) now]\<rparr>"
    "registry_schema db'"
  using assms by (auto simp: install_account_def operation_account_def registry_ok split: if_splits)

lemma install_account_restores:
  assumes "install_account jc op target label enabled now db = Inr (None, db')" "registry_schema db"
    "find_account db (operation_account op) = Some base"
  obtains previous where "an_tombstoned base \<noteq> None" "ao_expected_account_revision op = Some (an_revision base)"
    "an_provider_account_id base = pid_account_id (cb_provider target)"
    "tombstone_predecessor_credential jc db (operation_account op) (an_revision base) (cb_provider target) = Inr previous"
    "credential_version_successor (cb_version previous) = Inr (cb_version target)"
    "db' = with_account (operation_account op) (restored_account label enabled (cb_provider target) now) db"
    "registry_schema db'"
proof -
  let ?exact = "\<lambda>r. an_account_id r = operation_account op \<and> an_revision r = an_revision base \<and> an_tombstoned r \<noteq> None"
  have tomb: "an_tombstoned base \<noteq> None"
    using assms(1,3) by (auto simp: install_account_def operation_account_def Let_def split: if_splits)
  obtain previous where p: "ao_expected_account_revision op = Some (an_revision base)"
    "an_provider_account_id base = pid_account_id (cb_provider target)"
    "tombstone_predecessor_credential jc db (operation_account op) (an_revision base) (cb_provider target) = Inr previous"
    "credential_version_successor (cb_version previous) = Inr (cb_version target)"
    "update_accounts ?exact (restored_account label enabled (cb_provider target) now) db = Inr db'"
    using assms(1,3) tomb
    by (auto simp: install_account_def operation_account_def registry_ok Let_def split: if_splits)
  have "update_rows ?exact f (lc_accounts db) = update_rows (\<lambda>r. an_account_id r = operation_account op) f (lc_accounts db)" for f
    by (rule update_guarded [OF schema_account_keys [OF assms(2)], of _ base])
       (use assms(3) find_account_row [OF assms(3)] tomb in \<open>auto simp: find_account_def\<close>)
  then have "db' = with_account (operation_account op) (restored_account label enabled (cb_provider target) now) db"
    "registry_schema db'"
    using p(5) by (simp_all add: update_accounts_def registry_ok with_account_def)
  then show thesis using that tomb p(1-4) by blast
qed

lemma install_account_rejects:
  assumes "install_account jc op target label enabled now db = Inr (Some e, db')" "registry_schema db"
  shows "db' = db"
proof (cases "find_account db (operation_account op)")
  case None
  then show ?thesis using assms(1) by (auto simp: install_account_def operation_account_def registry_ok split: if_splits)
next
  case (Some base)
  let ?exact = "\<lambda>r. an_account_id r = operation_account op \<and> an_revision r = an_revision base \<and> an_tombstoned r \<noteq> None"
  have "update_rows ?exact f (lc_accounts db) = lc_accounts db" if "changed_rows ?exact (lc_accounts db) \<noteq> 1" for f
    by (rule changed_not_one [OF schema_account_keys [OF assms(2)], of _ "operation_account op"]) (use that in auto)
  then show ?thesis using assms(1) Some
    by (auto simp: install_account_def operation_account_def registry_ok update_accounts_def Let_def split: if_splits)
qed

lemma commit_enrollment_effect:
  assumes "commit_account_enrollment jc sha256 op now db = Inr (None, db')" "registry_schema db"
    "new_account_kind (ao_kind op)"
  shows "commit_effect jc op now db db' \<and> registry_schema db'"
proof -
  obtain target label enabled db1 where
    target: "ao_target op = Some target" "credential_binding_sync db (operation_account op) = Inr (Some target)" and
    label: "alias_for_enrollment sha256 (cb_provider target) [] (alias_rows db) = Some label" and
    enabled: "ao_requested_enabled op = Some enabled" and
    installed: "install_account jc op target label enabled now db = Inr (None, db1)" and
    appended: "append_to_order now (operation_account op) db1 = Inr db'"
    using assms(1) unfolding commit_account_enrollment_def operation_account_def
    by (auto simp: and_then_Ok_iff Let_def split: option.splits if_splits prod.splits)
  have schema: "registry_schema db'" by (rule append_to_order_schema [OF appended])
  have db': "db' = db1\<lparr>lc_order := lc_order db1 @ [last_entry now (operation_account op) db1],
      lc_control := bumped now (lc_control db1)\<rparr>"
    by (rule append_to_order_Ok [OF appended])
  show ?thesis
  proof (cases "find_account db (operation_account op)")
    case None
    note installed = install_account_new [OF installed None]
    let ?row = "enrolled_account (operation_account op) label enabled (cb_provider target) now"
    have fresh: "label \<notin> set (map an_label (lc_accounts db))"
    proof
      assume taken: "label \<in> set (map an_label (lc_accounts db))"
      then have "(pid_account_id (cb_provider target), label) \<in> set (alias_rows db)"
        using alias_for_enrollment_cases [OF label] by (force simp: set_alias_rows [OF assms(2)])
      then have "pid_account_id (cb_provider target) \<in> set (map an_provider_account_id (lc_accounts db))"
        by (auto simp: set_alias_rows [OF assms(2)])
      moreover have "distinct (map an_provider_account_id (lc_accounts db @ [?row]))"
        using schema_provider_keys [OF installed(4)] installed(3) by simp
      ultimately show False by (simp add: enrolled_account_def)
    qed
    have "db' = db\<lparr>lc_accounts := lc_accounts db @ [?row],
        lc_order := lc_order db @ [last_entry now (operation_account op) db], lc_control := bumped now (lc_control db)\<rparr>"
      by (simp add: db' installed(3) last_entry_def)
    then show ?thesis
      using commit_effect.enrolled [OF assms(3) target None installed(1,2) enabled fresh] schema by simp
  next
    case (Some base)
    obtain previous where restore: "an_tombstoned base \<noteq> None" "ao_expected_account_revision op = Some (an_revision base)"
      "an_provider_account_id base = pid_account_id (cb_provider target)"
      "tombstone_predecessor_credential jc db (operation_account op) (an_revision base) (cb_provider target) = Inr previous"
      "credential_version_successor (cb_version previous) = Inr (cb_version target)"
      "db1 = with_account (operation_account op) (restored_account label enabled (cb_provider target) now) db"
      by (rule install_account_restores [OF installed assms(2) Some])
    have base: "base \<in> set (lc_accounts db)" using find_account_row [OF Some] by simp
    have "(pid_account_id (cb_provider target), label) \<in> set (alias_rows db)"
      using alias_for_enrollment_cases [OF label] base restore(3)
      by (force simp: set_alias_rows [OF assms(2)])
    then have same: "label = an_label base"
      using provider_account_row [OF assms(2) _ base] restore(3) by (auto simp: set_alias_rows [OF assms(2)])
    have "db' = (with_account (operation_account op) (restored_account (an_label base) enabled (cb_provider target) now) db)\<lparr>
        lc_order := lc_order db @ [last_entry now (operation_account op) db], lc_control := bumped now (lc_control db)\<rparr>"
      by (simp add: db' restore(6) with_account_def last_entry_def same)
    then show ?thesis
      using commit_effect.restored [OF assms(3) target Some restore(1-5) enabled] schema by simp
  qed
qed

lemma commit_enrollment_rejects:
  assumes "commit_account_enrollment jc sha256 op now db = Inr (Some e, db')" "registry_schema db"
  shows "db' = db"
  using assms(1) install_account_rejects [OF _ assms(2)] unfolding commit_account_enrollment_def
  by (auto simp: and_then_Ok_iff Let_def split: option.splits if_splits prod.splits)

section \<open>Refresh and logout\<close>

lemma live_row_key: "\<forall>r. live_account_row a r \<longrightarrow> an_account_id r = a"
  by (simp add: live_account_row_def)

lemma live_row_found:
  assumes "registry_schema db" "changed_rows (live_account_row a) (lc_accounts db) = 1"
  obtains base where "find_account db a = Some base" "an_tombstoned base = None"
    "\<And>f. update_rows (live_account_row a) f (lc_accounts db) = update_rows (\<lambda>r. an_account_id r = a) f (lc_accounts db)"
proof -
  obtain base where base: "find_row an_account_id (lc_accounts db) a = Some base" "live_account_row a base"
    using changed_one [OF schema_account_keys [OF assms(1)] live_row_key assms(2)] by blast
  then have "find_account db a = Some base" "an_tombstoned base = None" by (simp_all add: find_account_def live_account_row_def)
  then show thesis using update_guarded [OF schema_account_keys [OF assms(1)] base live_row_key] by (rule that)
qed

lemma live_row_absent:
  "registry_schema db \<Longrightarrow> changed_rows (live_account_row a) (lc_accounts db) \<noteq> 1 \<Longrightarrow>
     update_rows (live_account_row a) f (lc_accounts db) = lc_accounts db"
  by (rule changed_not_one [OF schema_account_keys live_row_key])

lemma commit_refresh_effect:
  assumes "commit_account_refresh op now db = Inr (None, db')" "registry_schema db" "ao_kind op = Refresh"
  shows "commit_effect jc op now db db' \<and> registry_schema db'"
proof -
  obtain target where target: "ao_target op = Some target"
    "credential_binding_sync db (operation_account op) = Inr (Some target)"
    and one: "changed_rows (live_account_row (operation_account op)) (lc_accounts db) = 1"
    and written: "update_accounts (live_account_row (operation_account op)) (refreshed_account (cb_provider target) now) db = Inr db'"
    using assms(1) unfolding commit_account_refresh_def operation_account_def refreshed_account_def
    by (auto simp: and_then_Ok_iff Let_def split: option.splits if_splits)
  obtain base where base: "find_account db (operation_account op) = Some base" "an_tombstoned base = None"
    and rows: "\<And>f. update_rows (live_account_row (operation_account op)) f (lc_accounts db) =
      update_rows (\<lambda>r. an_account_id r = operation_account op) f (lc_accounts db)"
    by (rule live_row_found [OF assms(2) one]) blast
  have "db' = with_account (operation_account op) (refreshed_account (cb_provider target) now) db" "registry_schema db'"
    using written by (simp_all add: update_accounts_def registry_ok with_account_def rows)
  then show ?thesis using commit_effect.refreshed [OF assms(3) target base] by simp
qed

lemma commit_refresh_rejects:
  assumes "commit_account_refresh op now db = Inr (Some e, db')" "registry_schema db"
  shows "db' = db"
  using assms(1) live_row_absent [OF assms(2)] unfolding commit_account_refresh_def
  by (auto simp: and_then_Ok_iff Let_def update_accounts_def registry_ok split: option.splits if_splits)

lemma commit_logout_effect:
  assumes "commit_account_logout op now db = Inr (None, db')" "registry_schema db" "ao_kind op = Logout"
  shows "commit_effect jc op now db db' \<and> registry_schema db'"
proof -
  let ?a = "operation_account op"
  obtain db1 db2 db3 db4 where
    free: "\<not> account_in_use db ?a" "credential_binding_sync db ?a = Inr None"
    and one: "changed_rows (live_account_row ?a) (lc_accounts db) = 1"
    and written: "update_accounts (live_account_row ?a) (logged_out_account now) db = Inr db1"
    and dropped: "registry_execute (db1\<lparr>lc_order := filter (\<lambda>r. od_account_id r \<noteq> ?a) (lc_order db1)\<rparr>) = Inr db2"
    and compacted: "compact_routing_order now db2 = Inr db3"
    and released: "registry_execute (db3\<lparr>lc_control := map_option (release_fixed ?a) (lc_control db3)\<rparr>) = Inr db4"
    and bump: "bump_routing_revision now db4 = Inr db'"
    using assms(1) unfolding commit_account_logout_def operation_account_def logged_out_account_def
    by (auto simp: and_then_Ok_iff Let_def split: if_splits)
  obtain base where base: "find_account db ?a = Some base" "an_tombstoned base = None"
    and rows: "\<And>f. update_rows (live_account_row ?a) f (lc_accounts db) = update_rows (\<lambda>r. an_account_id r = ?a) f (lc_accounts db)"
    by (rule live_row_found [OF assms(2) one]) blast
  have db1: "db1 = with_account ?a (logged_out_account now) db"
    using written by (simp add: update_accounts_def registry_ok with_account_def rows)
  have db2: "db2 = db1\<lparr>lc_order := filter (\<lambda>r. od_account_id r \<noteq> ?a) (lc_order db)\<rparr>" "registry_schema db2"
    using dropped db1 by (auto simp: registry_ok with_account_def)
  obtain order where order: "db3 = db2\<lparr>lc_order := order\<rparr>" "map od_account_id order = map od_account_id (lc_order db2)"
    "numbered (order_ids (lc_order db2)) order"
    using compact_routing_order_Ok [OF compacted schema_order_keys [OF db2(2)]] by blast
  have "map od_account_id order = filter (\<lambda>b. b \<noteq> ?a) (map od_account_id (lc_order db))"
    using order(2) db2(1) by (simp add: filter_map o_def)
  moreover have "numbered (filter (\<lambda>b. b \<noteq> ?a) (order_ids (lc_order db))) order"
    using order(3) db2(1) by (simp add: order_ids_filter)
  moreover have "db' = (with_account ?a (logged_out_account now) db)\<lparr>lc_order := order,
      lc_control := bumped now (map_option (release_fixed ?a) (lc_control db))\<rparr>"
    using released bump order(1) db2(1) db1
    by (auto simp: registry_ok bump_routing_revision_def bumped_def with_account_def)
  moreover have "registry_schema db'" using bump by (auto simp: bump_routing_revision_def registry_ok)
  ultimately show ?thesis using commit_effect.logged_out [OF assms(3) free base] by simp
qed

lemma commit_logout_rejects:
  assumes "commit_account_logout op now db = Inr (Some e, db')" "registry_schema db"
  shows "db' = db"
  using assms(1) live_row_absent [OF assms(2)] unfolding commit_account_logout_def
  by (auto simp: and_then_Ok_iff Let_def update_accounts_def registry_ok split: if_splits)

section \<open>The commit\<close>

lemma supersedable_key: "\<forall>r. supersedable k r \<longrightarrow> lo_operation_id r = k"
  by (simp add: supersedable_def)

lemma record_supersession_Ok:
  assumes "record_recovery_supersession op now db = Inr db'" "registry_schema db"
  shows "db' = superseded_by_commit op now db \<and> registry_schema db' \<and>
    (\<forall>k. ao_recovery_operation_id op = Some k \<longrightarrow>
       (\<exists>r. find_operation db (operation_id_text k) = Some r \<and> supersedable (operation_id_text k) r))"
proof (cases "ao_recovery_operation_id op")
  case None
  then show ?thesis using assms by (simp add: record_recovery_supersession_def superseded_by_commit_def)
next
  case (Some k)
  have "changed_rows (supersedable (operation_id_text k)) (lc_operations db) = 1"
    "db' = superseded_by_commit op now db" "registry_schema db'"
    using assms(1) Some
    by (auto simp: record_recovery_supersession_def superseded_by_commit_def update_operations_def registry_ok split: if_splits)
  then show ?thesis
    using changed_one [OF schema_operation_keys [OF assms(2)] supersedable_key] Some by (simp add: find_operation_def)
qed

definition takeover_holds :: "json_codec \<Rightarrow> account_operation \<Rightarrow> registry \<Rightarrow> bool" where
  "takeover_holds jc op db \<longleftrightarrow> (case ao_recovery_operation_id op of
     None \<Rightarrow> True
   | Some k \<Rightarrow> \<exists>recovery. read_operation_sync jc db k = Inr (Some recovery) \<and>
       exact_ambiguity recovery (ao_kind op) (ao_target op) (ao_account_id op) (ao_expected_account_revision op)
         (ao_expected op))"

lemma takeover_validated:
  "validate_recovery_takeover_commit jc db op = Inr None \<Longrightarrow> takeover_holds jc op db"
  by (auto simp: validate_recovery_takeover_commit_def takeover_holds_def and_then_Ok_iff split: option.splits if_splits)

text \<open>A commit that is not rejected is one effect of the specification and the supersession it owes.\<close>

lemma commit_operation_effect:
  assumes "commit_account_operation jc sha256 clock op db = Inr (None, db')" "registry_schema db"
  obtains now db1 where "clock = Some now" "now > 0" "takeover_holds jc op db" "commit_effect jc op now db db1"
    "db' = superseded_by_commit op now db1" "registry_schema db'"
    "\<And>k. ao_recovery_operation_id op = Some k \<Longrightarrow>
       \<exists>r. find_operation db1 (operation_id_text k) = Some r \<and> supersedable (operation_id_text k) r"
proof -
  obtain now db1 where now: "clock = Some now" "now > 0" and
    takeover: "validate_recovery_takeover_commit jc db op = Inr None" and
    recorded: "record_recovery_supersession op now db1 = Inr db'" and
    effect: "(case ao_kind op of
         Enroll \<Rightarrow> commit_account_enrollment jc sha256 op now db
       | Import \<Rightarrow> commit_account_enrollment jc sha256 op now db
       | Refresh \<Rightarrow> commit_account_refresh op now db
       | Logout \<Rightarrow> commit_account_logout op now db) = Inr (None, db1)"
    using assms(1) unfolding commit_account_operation_def
    by (auto simp: and_then_Ok_iff unix_micros_Ok_iff split: if_splits)
  have "commit_effect jc op now db db1 \<and> registry_schema db1"
  proof (cases "ao_kind op")
    case Enroll
    then show ?thesis using effect commit_enrollment_effect [OF _ assms(2)] by (simp add: new_account_kind_def)
  next
    case Import
    then show ?thesis using effect commit_enrollment_effect [OF _ assms(2)] by (simp add: new_account_kind_def)
  next
    case Refresh
    then show ?thesis using effect commit_refresh_effect [OF _ assms(2)] by simp
  next
    case Logout
    then show ?thesis using effect commit_logout_effect [OF _ assms(2)] by simp
  qed
  then show thesis
    using that [OF now takeover_validated [OF takeover]] record_supersession_Ok [OF recorded] by blast
qed

lemma commit_operation_rejects:
  assumes "commit_account_operation jc sha256 clock op db = Inr (Some e, db')" "registry_schema db"
  shows "db' = db"
  using assms(1) commit_enrollment_rejects [OF _ assms(2)] commit_refresh_rejects [OF _ assms(2)]
    commit_logout_rejects [OF _ assms(2)]
  unfolding commit_account_operation_def
  by (auto simp: and_then_Ok_iff split: if_splits account_operation_kind.splits option.splits)

end
