(* ===== verification/Registry_Steps.thy ===== *)
theory Registry_Steps
  imports Registry_Effects
begin

text \<open>
  The step relation of the account registry. An operation is prepared, given its target, moved, or
  committed together with its effect; an account is observed or enabled; the routing control and the
  order are written under the next revision; a receipt is reserved, claimed again, finished or annotated.
  A quiet step leaves accounts, operations, order, control and receipts alone.
\<close>

definition registry_core ::
    "registry \<Rightarrow> registered_account list \<times> lifecycle_operation list \<times> order_row list \<times> control_row option \<times> command_receipt list"
  where "registry_core db = (lc_accounts db, lc_operations db, lc_order db, lc_control db, lc_receipts db)"

text \<open>An observation of an account changes its state, its store observation and its update time.\<close>

definition same_authority :: "registered_account \<Rightarrow> registered_account \<Rightarrow> bool" where
  "same_authority r q \<longleftrightarrow> (\<exists>s o' t. q = r\<lparr>an_state := s, an_store_observation := o', an_updated := t\<rparr>)"

definition with_operation :: "string \<Rightarrow> (lifecycle_operation \<Rightarrow> lifecycle_operation) \<Rightarrow> registry \<Rightarrow> registry" where
  "with_operation k f db = db\<lparr>lc_operations := update_rows (\<lambda>r. lo_operation_id r = k) f (lc_operations db)\<rparr>"

definition with_receipts :: "(command_receipt \<Rightarrow> bool) \<Rightarrow> (command_receipt \<Rightarrow> command_receipt) \<Rightarrow> registry \<Rightarrow> registry" where
  "with_receipts p f db = db\<lparr>lc_receipts := update_rows p f (lc_receipts db)\<rparr>"

definition notification_receipt :: "command_receipt \<Rightarrow> bool" where
  "notification_receipt r \<longleftrightarrow> cx_operation r \<in> set [command_kind_text NotifyWorkspaceOwner,
     command_kind_text RequestWorkspaceUsageIncrease]"

definition enabled_account :: "bool \<Rightarrow> i64 \<Rightarrow> registered_account \<Rightarrow> registered_account" where
  "enabled_account enabled now r = r\<lparr>an_enabled := enabled, an_revision := an_revision r + 1, an_updated := now\<rparr>"

inductive registry_step :: "json_codec \<Rightarrow> registry \<Rightarrow> registry \<Rightarrow> bool" for jc where
  quiet:
  "\<lbrakk> registry_core db' = registry_core db; registry_schema db' \<rbrakk> \<Longrightarrow> registry_step jc db db'"
| prepared:
  "\<lbrakk> find_operation db (operation_id_text (pn_operation_id p)) = None; preparation_rejection jc db p = Inr None;
     recovery = None \<longrightarrow> \<not> list_ex (\<lambda>r. lo_account_id r = account_id_text (pn_account_id p) \<and> open_operation r) (lc_operations db);
     db' = db\<lparr>lc_operations := lc_operations db @ [prepared_operation jc p recovery now]\<rparr>; registry_schema db' \<rbrakk>
   \<Longrightarrow> registry_step jc db db'"
| targeted:
  "\<lbrakk> read_operation_sync jc db k = Inr (Some op); ao_phase op = ProviderEffectPending; ao_target op = None;
     ao_superseded_by_operation_id op = None; cb_writer_operation_id target = k;
     db' = with_operation (operation_id_text k) (\<lambda>r. r\<lparr>lo_target_json := binding_json jc (Some target), lo_updated := now\<rparr>) db;
     registry_schema db' \<rbrakk>
   \<Longrightarrow> registry_step jc db db'"
| moved:
  "\<lbrakk> read_operation_sync jc db k = Inr (Some op); ao_superseded_by_operation_id op = None;
     allowed_operation_transition (ao_phase op) target; target \<noteq> Committed; (target = RecoveryRequired) = (recovery_code \<noteq> None);
     db' = with_operation (operation_id_text k) (moved_operation target recovery_code now) db; registry_schema db' \<rbrakk>
   \<Longrightarrow> registry_step jc db db'"
| committed:
  "\<lbrakk> read_operation_sync jc db k = Inr (Some op); ao_superseded_by_operation_id op = None; ao_phase op = StoreApplied;
     takeover_holds jc op db; commit_effect jc op now db db1;
     db' = with_operation (operation_id_text k) (moved_operation Committed None now') (superseded_by_commit op now db1);
     registry_schema db' \<rbrakk>
   \<Longrightarrow> registry_step jc db db'"
| observed:
  "\<lbrakk> \<forall>r. same_authority r (f r); db' = db\<lparr>lc_accounts := update_rows p f (lc_accounts db)\<rparr>; registry_schema db' \<rbrakk>
   \<Longrightarrow> registry_step jc db db'"
| enabling:
  "\<lbrakk> find_account db a = Some base; an_tombstoned base = None;
     db' = with_account a (enabled_account enabled now) db; registry_schema db' \<rbrakk>
   \<Longrightarrow> registry_step jc db db'"
| fixing:
  "\<lbrakk> find_account db a = Some base; an_tombstoned base = None; lc_control db = Some c;
     db' = db\<lparr>lc_control := Some (c\<lparr>ct_mode := ''fixed'', ct_fixed_account_id := Some a, ct_revision := ct_revision c + 1,
       ct_updated := now\<rparr>)\<rparr>; registry_schema db' \<rbrakk>
   \<Longrightarrow> registry_step jc db db'"
| balancing:
  "\<lbrakk> lc_control db = Some c;
     db' = db\<lparr>lc_control := Some (c\<lparr>ct_mode := ''balanced'', ct_fixed_account_id := None, ct_revision := ct_revision c + 1,
       ct_updated := now\<rparr>)\<rparr>; registry_schema db' \<rbrakk>
   \<Longrightarrow> registry_step jc db db'"
| ordering:
  "\<lbrakk> set ids = set (live_order db); numbered ids rows;
     db' = db\<lparr>lc_order := rows, lc_control := bumped now (lc_control db)\<rparr>; registry_schema db' \<rbrakk>
   \<Longrightarrow> registry_step jc db db'"
| reserved:
  "\<lbrakk> read_command_receipt db (ci_key command) = None;
     db' = db\<lparr>lc_receipts := lc_receipts db @ [reserved_receipt command kind entity revision token expires now]\<rparr>;
     registry_schema db' \<rbrakk>
   \<Longrightarrow> registry_step jc db db'"
| reclaimed:
  "\<lbrakk> read_command_receipt db key = Some r; cx_state r = ''reserved''; \<not> notification_receipt r;
     null_or (\<lambda>t. t \<le> now) (cx_claim_expires_at r);
     db' = with_receipts (has_receipt_key key) (\<lambda>r. r\<lparr>cx_claim_token := Some token, cx_claim_expires_at := Some expires\<rparr>) db;
     registry_schema db' \<rbrakk>
   \<Longrightarrow> registry_step jc db db'"
| finished:
  "\<lbrakk> read_command_receipt db (cr_key lease) = Some r; holds_claim lease now r;
     db' = with_receipts (has_receipt_key (cr_key lease)) (completed_receipt response now) db; registry_schema db' \<rbrakk>
   \<Longrightarrow> registry_step jc db db'"
| annotated:
  "\<lbrakk> db' = with_receipts p (\<lambda>r. r\<lparr>cx_progress_json := progress\<rparr>) db; registry_schema db' \<rbrakk>
   \<Longrightarrow> registry_step jc db db'"

abbreviation registry_steps :: "json_codec \<Rightarrow> registry \<Rightarrow> registry \<Rightarrow> bool" where
  "registry_steps jc \<equiv> (registry_step jc)\<^sup>*\<^sup>*"

lemma registry_step_schema: "registry_step jc db db' \<Longrightarrow> registry_schema db'"
  by (erule registry_step.cases) simp_all

lemma registry_steps_schema: "registry_steps jc db db' \<Longrightarrow> registry_schema db \<Longrightarrow> registry_schema db'"
  by (induction rule: rtranclp_induct) (auto dest: registry_step_schema)

lemma registry_core_eq:
  "registry_core db' = registry_core db \<longleftrightarrow> lc_accounts db' = lc_accounts db \<and> lc_operations db' = lc_operations db \<and>
     lc_order db' = lc_order db \<and> lc_control db' = lc_control db \<and> lc_receipts db' = lc_receipts db"
  by (simp add: registry_core_def)

end
