(* ===== verification/Registry_Refine.thy ===== *)
theory Registry_Refine
  imports Registry_Steps
begin

text \<open>
  Every writer takes the registry through steps of \<open>registry_step\<close>: the operations, the
  administration, the observations, the receipts and the credentials.
\<close>

lemma one_step: "registry_step jc db db' \<Longrightarrow> registry_steps jc db db'"
  by (rule r_into_rtranclp)

lemma quiet_step: "registry_core db' = registry_core db \<Longrightarrow> registry_schema db' \<Longrightarrow> registry_steps jc db db'"
  by (rule one_step [OF registry_step.quiet])

section \<open>Operations\<close>

lemma identity_core: "registry_core (insert_or_ignore_identity a now db) = registry_core db"
  by (simp add: insert_or_ignore_identity_def registry_core_def Let_def)

lemma identity_operations [simp]:
  "lc_operations (insert_or_ignore_identity a now db) = lc_operations db"
  "lc_accounts (insert_or_ignore_identity a now db) = lc_accounts db"
  "lc_credentials (insert_or_ignore_identity a now db) = lc_credentials db"
  by (simp_all add: insert_or_ignore_identity_def Let_def)

lemma identity_reads [simp]:
  "find_account (insert_or_ignore_identity a now db) b = find_account db b"
  "credential_binding_sync (insert_or_ignore_identity a now db) b = credential_binding_sync db b"
  "tombstone_predecessor_credential jc (insert_or_ignore_identity a now db) b n provider =
     tombstone_predecessor_credential jc db b n provider"
  by (simp_all add: find_account_def credential_binding_sync_def find_credential_def
      tombstone_predecessor_credential_def committed_logouts_def)

lemma preparation_rejection_identity [simp]:
  "preparation_rejection jc (insert_or_ignore_identity a now db) p = preparation_rejection jc db p"
  unfolding preparation_rejection_def enrollment_rejection_def identity_reads by (rule refl)

lemma prepare_checked_steps:
  assumes "prepare_checked jc clock p recovery db = Inr (outcome, db')" "registry_schema db"
    "find_operation db (operation_id_text (pn_operation_id p)) = None"
    "recovery = None \<longrightarrow> \<not> list_ex (\<lambda>r. lo_account_id r = account_id_text (pn_account_id p) \<and> open_operation r) (lc_operations db)"
  shows "registry_steps jc db db'"
proof (cases "preparation_rejection jc db p = Inr None")
  case True
  then have "insert_prepared jc clock p recovery db = Inr (outcome, db')"
    using assms(1) by (simp add: prepare_checked_def)
  then obtain now db1 where
    db1: "db1 = insert_or_ignore_identity (account_id_text (pn_account_id p)) now db" "registry_schema db1" and
    db': "db' = db1\<lparr>lc_operations := lc_operations db1 @ [prepared_operation jc p recovery now]\<rparr>" "registry_schema db'"
    by (auto simp: insert_prepared_def registry_ok)
  have "registry_steps jc db db1" using db1 by (intro quiet_step) (simp_all add: identity_core)
  moreover have "registry_step jc db1 db'"
    by (rule registry_step.prepared [OF _ _ _ db'(1)])
       (use assms True db1(1) db'(2) in \<open>simp_all add: find_operation_def\<close>)
  ultimately show ?thesis by simp
next
  case False
  then have "db' = db" using assms(1) by (auto simp: prepare_checked_def and_then_Ok_iff split: option.splits)
  then show ?thesis by simp
qed

lemma find_None_list_ex: "find p xs = None \<longleftrightarrow> \<not> list_ex p xs"
  by (auto simp: find_None_iff list_ex_iff)

lemma prepare_operation_steps:
  assumes "prepare_operation_sync jc clock p recovery db = Inr (outcome, db')" "registry_schema db"
  shows "registry_steps jc db db'"
proof -
  obtain existing where existing: "read_operation_sync jc db (pn_operation_id p) = Inr existing"
    using assms(1) by (auto simp: prepare_operation_sync_def and_then_Ok_iff)
  show ?thesis
  proof (cases existing)
    case None
    then have absent: "find_operation db (operation_id_text (pn_operation_id p)) = None"
      using existing by (simp add: read_operation_None)
    have checked: "prepare_checked jc clock p recovery db = Inr (outcome, db') \<or> db' = db"
      "prepare_checked jc clock p recovery db = Inr (outcome, db') \<Longrightarrow> recovery = None \<Longrightarrow> db' \<noteq> db \<Longrightarrow>
         \<not> list_ex (\<lambda>r. lo_account_id r = account_id_text (pn_account_id p) \<and> open_operation r) (lc_operations db)"
      using assms(1) existing None
      by (auto simp: prepare_operation_sync_def and_then_Ok_iff simp flip: find_None_list_ex split: option.splits)
    show ?thesis
    proof (cases "db' = db")
      case False
      then show ?thesis using prepare_checked_steps [OF _ assms(2) absent] checked by blast
    qed simp
  next
    case (Some op)
    then have "db' = db" using assms(1) existing by (simp add: prepare_operation_sync_def Let_def)
    then show ?thesis by simp
  qed
qed

lemma move_operation_Ok:
  assumes "move_operation clock k expected target recovery_code db = Inr db'" "registry_schema db"
  obtains now where "clock = Some now" "now > 0" "registry_schema db'"
    "db' = with_operation (operation_id_text k) (moved_operation target recovery_code now) db"
proof -
  let ?exact = "\<lambda>r. lo_operation_id r = operation_id_text k \<and> lo_phase r = operation_phase_text expected"
  obtain now where now: "clock = Some now" "now > 0" and one: "changed_rows ?exact (lc_operations db) = 1"
    and written: "update_operations ?exact (moved_operation target recovery_code now) db = Inr db'"
    using assms(1) by (auto simp: move_operation_def registry_ok Let_def split: if_splits)
  have key: "\<forall>r. ?exact r \<longrightarrow> lo_operation_id r = operation_id_text k" by simp
  obtain r where r: "find_row lo_operation_id (lc_operations db) (operation_id_text k) = Some r" "?exact r"
    using changed_one [OF schema_operation_keys [OF assms(2)] key one] by blast
  have "update_rows ?exact f (lc_operations db) = update_rows (\<lambda>q. lo_operation_id q = operation_id_text k) f (lc_operations db)" for f
    by (rule update_guarded [OF schema_operation_keys [OF assms(2)] r key])
  then show thesis using that [OF now] written by (simp add: update_operations_def registry_ok with_operation_def)
qed

lemma allowed_to_Committed: "allowed_operation_transition p Committed \<longleftrightarrow> p = StoreApplied"
  by (cases p) (simp_all add: allowed_operation_transition_def)

lemma advance_operation_steps:
  assumes "advance_operation_sync jc sha256 commit_clock clock k expected target recovery_code db = Inr (outcome, db')"
    "registry_schema db"
  shows "registry_steps jc db db'"
proof (cases "db' = db")
  case False
  have shape: "(target = RecoveryRequired) = (recovery_code \<noteq> None)"
    using assms(1) by (auto simp: advance_operation_sync_def validate_transition_recovery_shape_def split: if_splits)
  obtain op where op: "read_operation_sync jc db k = Inr (Some op)" "ao_superseded_by_operation_id op = None"
    "ao_phase op = expected" "allowed_operation_transition (ao_phase op) target"
    and rest: "and_then (if target = Committed then commit_account_operation jc sha256 commit_clock op db else Inr (None, db))
         (\<lambda>(rejection, db1). case rejection of
           Some e \<Rightarrow> Inr (LifecycleRejected e (mutation_for db (ao_account_id op) (ao_phase op)), db1)
         | None \<Rightarrow> and_then (move_operation clock k expected target recovery_code db1) (\<lambda>db2.
             Inr (LifecycleApplied (mutation_for db2 (ao_account_id op) target), db2))) = Inr (outcome, db')"
  proof -
    obtain v where v: "read_operation_sync jc db k = Inr v"
      using assms(1) by (auto simp: advance_operation_sync_def and_then_Ok_iff)
    moreover obtain op where op: "v = Some op"
      using assms(1) False v by (cases v) (auto simp: advance_operation_sync_def and_then_Ok_iff)
    ultimately have "(let actual = mutation_for db (ao_account_id op) (ao_phase op) in
         if ao_phase op = target then Inr (LifecycleReplayed actual, db)
         else if ao_superseded_by_operation_id op \<noteq> None \<or> ao_phase op \<noteq> expected
            \<or> \<not> allowed_operation_transition expected target
         then Inr (LifecycleRejected StaleOperation actual, db)
         else and_then (if target = Committed then commit_account_operation jc sha256 commit_clock op db else Inr (None, db))
         (\<lambda>(rejection, db1). case rejection of
           Some e \<Rightarrow> Inr (LifecycleRejected e (mutation_for db (ao_account_id op) (ao_phase op)), db1)
         | None \<Rightarrow> and_then (move_operation clock k expected target recovery_code db1) (\<lambda>db2.
             Inr (LifecycleApplied (mutation_for db2 (ao_account_id op) target), db2)))) = Inr (outcome, db')"
      using assms(1) by (auto simp: advance_operation_sync_def and_then_Ok_iff Let_def)
    then show thesis
      using False v op by (intro that [of op]) (simp_all add: Let_def split: if_splits)
  qed
  show ?thesis
  proof (cases "target = Committed")
    case True
    have "\<not> (\<exists>e. commit_account_operation jc sha256 commit_clock op db = Inr (Some e, db'))"
      using commit_operation_rejects [OF _ assms(2)] False by blast
    then obtain db2 where commit: "commit_account_operation jc sha256 commit_clock op db = Inr (None, db2)"
      and move: "move_operation clock k expected target recovery_code db2 = Inr db'"
      using rest True by (auto simp: and_then_Ok_iff split: option.splits)
    obtain now db1 where effect: "takeover_holds jc op db" "commit_effect jc op now db db1"
      "db2 = superseded_by_commit op now db1" "registry_schema db2"
      by (rule commit_operation_effect [OF commit assms(2)]) blast
    obtain now' where moved: "registry_schema db'"
      "db' = with_operation (operation_id_text k) (moved_operation target recovery_code now') db2"
      by (rule move_operation_Ok [OF move effect(4)]) blast
    have applied: "ao_phase op = StoreApplied" using op(4) True by (simp add: allowed_to_Committed)
    have "recovery_code = None" using shape True by auto
    then have "registry_step jc db db'"
      using registry_step.committed [OF op(1,2) applied effect(1,2) _ moved(1)] moved(2) True effect(3) by simp
    then show ?thesis by (rule one_step)
  next
    case False
    then have move: "move_operation clock k expected target recovery_code db = Inr db'"
      using rest by (auto simp: and_then_Ok_iff)
    obtain now where moved: "registry_schema db'"
      "db' = with_operation (operation_id_text k) (moved_operation target recovery_code now) db"
      by (rule move_operation_Ok [OF move assms(2)]) blast
    show ?thesis by (rule one_step [OF registry_step.moved [OF op(1,2,4) False shape moved(2,1)]])
  qed
qed simp

lemma awaiting_target_key: "\<forall>r. awaiting_target k r \<longrightarrow> lo_operation_id r = k"
  by (simp add: awaiting_target_def)

lemma phase_text_eq [simp]: "operation_phase_text p = operation_phase_text q \<longleftrightarrow> p = q"
  by (rule operation_phase_label.label_inj)

lemma stored_target_None:
  "stored_operation jc r op \<Longrightarrow> ao_target op = None \<longleftrightarrow> lo_target_json r = None"
  by (cases "lo_target_json r") (auto simp: stored_operation_def parse_binding_json_def and_then_Ok_iff dest: sym)

lemma set_operation_target_steps:
  assumes "set_operation_target_sync jc clock k target db = Inr (outcome, db')" "registry_schema db"
  shows "registry_steps jc db db'"
proof (cases "db' = db")
  case False
  let ?f = "\<lambda>now r. r\<lparr>lo_target_json := binding_json jc (Some target), lo_updated := now\<rparr>"
  obtain op now where op: "read_operation_sync jc db k = Inr (Some op)" "ao_phase op = ProviderEffectPending" "ao_target op = None"
    "ao_superseded_by_operation_id op = None" "cb_writer_operation_id target = k" and
    written: "update_operations (awaiting_target (operation_id_text k)) (?f now) db = Inr db'"
  proof -
    obtain v where v: "read_operation_sync jc db k = Inr v"
      using assms(1) by (auto simp: set_operation_target_sync_def and_then_Ok_iff)
    moreover obtain op where op: "v = Some op"
      using assms(1) False v by (cases v) (auto simp: set_operation_target_sync_def)
    ultimately show thesis
      using assms(1) False that [of op] unfolding set_operation_target_sync_def
      by (auto simp: and_then_Ok_iff unix_micros_Ok_iff Let_def split: if_splits)
  qed
  obtain r where r: "find_operation db (operation_id_text k) = Some r" "stored_operation jc r op"
    by (rule read_operation_Some [OF op(1)])
  have "awaiting_target (operation_id_text k) r"
    using r(2) op(2) stored_target_None [OF r(2)] op(3) find_operation_row [OF r(1)]
    by (simp add: awaiting_target_def stored_operation_def operation_phase_text_def)
  then have "update_rows (awaiting_target (operation_id_text k)) f (lc_operations db) =
      update_rows (\<lambda>q. lo_operation_id q = operation_id_text k) f (lc_operations db)" for f
    by (rule update_guarded [OF schema_operation_keys [OF assms(2)] r(1) [unfolded find_operation_def] _ awaiting_target_key])
  then have "db' = with_operation (operation_id_text k) (?f now) db" "registry_schema db'"
    using written by (simp_all add: update_operations_def registry_ok with_operation_def)
  then show ?thesis by (intro one_step registry_step.targeted [OF op])
qed simp

section \<open>Receipts\<close>

lemma has_receipt_key_pair: "has_receipt_key key r \<longleftrightarrow> (cx_protocol r, cx_key r) = (account_command_protocol, key)"
  by (simp add: has_receipt_key_def)

lemma receipt_row: "read_command_receipt db key = Some r \<Longrightarrow> r \<in> set (lc_receipts db) \<and> has_receipt_key key r"
  by (auto simp: read_command_receipt_def find_Some_iff)

lemma receipt_unique:
  assumes "registry_schema db" "r \<in> set (lc_receipts db)" "q \<in> set (lc_receipts db)" "has_receipt_key key r" "has_receipt_key key q"
  shows "q = r"
  using schema_receipt_keys [OF assms(1)] assms(2-) by (auto simp: has_receipt_key_pair distinct_map inj_on_def)

lemma receipt_found:
  assumes "registry_schema db" "r \<in> set (lc_receipts db)" "has_receipt_key key r"
  shows "read_command_receipt db key = Some r"
proof (cases "read_command_receipt db key")
  case None
  then show ?thesis using assms by (simp add: read_command_receipt_def find_None_iff)
next
  case (Some q)
  then show ?thesis using receipt_row [OF Some] receipt_unique [OF assms(1)] assms by metis
qed

lemma with_receipts_guarded:
  assumes "registry_schema db" "read_command_receipt db key = Some r" "p r" "\<And>q. p q \<Longrightarrow> has_receipt_key key q"
  shows "with_receipts p f db = with_receipts (has_receipt_key key) f db"
proof -
  have "p q = has_receipt_key key q" if "q \<in> set (lc_receipts db)" for q
    using receipt_unique [OF assms(1) _ that] receipt_row [OF assms(2)] assms(3,4) by metis
  then show ?thesis by (simp add: with_receipts_def update_rows_def)
qed

lemma finish_command_step:
  assumes "finish_command_sync jc clock lease response db = Inr db'" "registry_schema db"
  obtains now where "clock = Some now" "registry_step jc db db'"
    "db' = with_receipts (has_receipt_key (cr_key lease)) (completed_receipt (jc_print_value jc response) now) db"
proof -
  obtain now where now: "clock = Some now" and one: "changed_rows (holds_claim lease now) (lc_receipts db) = 1"
    and written: "db' = with_receipts (holds_claim lease now) (completed_receipt (jc_print_value jc response) now) db"
    "registry_schema db'"
    using assms(1) by (auto simp: finish_command_sync_def registry_ok with_receipts_def split: if_splits)
  have "filter (holds_claim lease now) (lc_receipts db) \<noteq> []" using one by (auto simp: changed_rows_def)
  then obtain r where r: "r \<in> set (lc_receipts db)" "holds_claim lease now r" by (auto simp: filter_empty_conv)
  have key: "has_receipt_key (cr_key lease) q" if "holds_claim lease now q" for q
    using that by (simp add: holds_claim_def)
  have found: "read_command_receipt db (cr_key lease) = Some r"
    by (rule receipt_found [OF assms(2) r(1) key [OF r(2)]])
  have db': "db' = with_receipts (has_receipt_key (cr_key lease)) (completed_receipt (jc_print_value jc response) now) db"
    unfolding written(1) by (rule with_receipts_guarded [OF assms(2) found]) (use r(2) key in auto)
  show thesis
    by (rule that [OF now registry_step.finished [OF found r(2) db' written(2)] db'])
qed

lemma answer_command_step:
  assumes "answer_command jc credential_pattern clock lease built db = Inr (response, db')" "registry_schema db"
  shows "registry_step jc db db'"
proof -
  have "finish_command_sync jc clock lease response db = Inr db'"
    using assms(1) by (auto simp: answer_command_def registry_ok)
  then show ?thesis by (rule finish_command_step [OF _ assms(2)])
qed

lemma command_kind_text_inj [simp]: "command_kind_text k = command_kind_text l \<longleftrightarrow> k = l"
  by (cases k; cases l) (simp_all add: command_kind_text_def)

lemma notification_receipt_kind: "cx_operation r = command_kind_text kind \<Longrightarrow> notification_receipt r = notification_kind kind"
  by (auto simp: notification_receipt_def notification_kind_def)

lemma claim_new_step:
  assumes "claim_command fill now command kind entity revision False db = Inr (claim, db')"
    "read_command_receipt db (ci_key command) = None"
  shows "registry_step jc db db'"
proof -
  obtain token expires where "db' = db\<lparr>lc_receipts := lc_receipts db @ [reserved_receipt command kind entity revision token expires now]\<rparr>"
    "registry_schema db'"
    using assms(1) by (auto simp: claim_command_def registry_ok)
  then show ?thesis by (rule registry_step.reserved [OF assms(2)])
qed

lemma claim_again_step:
  assumes "claim_command fill now command kind entity revision True db = Inr (claim, db')" "registry_schema db"
    "read_command_receipt db (ci_key command) = Some r" "cx_state r = ''reserved''" "\<not> notification_receipt r"
    "null_or (\<lambda>t. t \<le> now) (cx_claim_expires_at r)"
  shows "registry_step jc db db'"
proof -
  let ?p = "\<lambda>r. has_receipt_key (ci_key command) r \<and> cx_state r = ''reserved''"
  obtain token expires where
    "db' = with_receipts ?p (\<lambda>r. r\<lparr>cx_claim_token := Some token, cx_claim_expires_at := Some expires\<rparr>) db" "registry_schema db'"
    using assms(1) by (auto simp: claim_command_def registry_ok with_receipts_def)
  moreover have "with_receipts ?p f db = with_receipts (has_receipt_key (ci_key command)) f db" for f
    by (rule with_receipts_guarded [OF assms(2,3)]) (use receipt_row [OF assms(3)] assms(4) in auto)
  ultimately show ?thesis by (intro registry_step.reclaimed [OF assms(3-6)]) simp_all
qed

lemma reserve_account_command_steps:
  assumes "reserve_account_command jc clock fill command kind entity revision db = Inr (claim, db')" "registry_schema db"
  shows "registry_steps jc db db'"
proof -
  obtain now where now: "unix_micros clock = Inr now"
    and reserve: "reserve_command_sync jc clock fill command kind entity revision db = Inr (claim, db')"
    using assms(1) by (auto simp: reserve_account_command_def reserve_command_sync_def and_then_Ok_iff split: if_splits)
  show ?thesis
  proof (cases "read_command_receipt db (ci_key command)")
    case None
    then have "claim_command fill now command kind entity revision False db = Inr (claim, db')"
      using reserve now by (simp add: reserve_command_sync_def)
    then show ?thesis by (rule one_step [OF claim_new_step [OF _ None]])
  next
    case (Some r)
    show ?thesis
    proof (cases "db' = db")
      case False
      then have again: "claim_command fill now command kind entity revision True db = Inr (claim, db')"
        "cx_state r = ''reserved''" "\<not> notification_kind kind" "cx_operation r = command_kind_text kind"
        "\<not> (case cx_claim_expires_at r of None \<Rightarrow> False | Some expires \<Rightarrow> expires > now)"
        using reserve now Some unfolding reserve_command_sync_def
        by (auto simp: and_then_Ok_iff registry_commit_Ok_iff split: if_splits)
      have "null_or (\<lambda>t. t \<le> now) (cx_claim_expires_at r)"
        using again(5) by (cases "cx_claim_expires_at r") (simp_all add: null_or_def)
      then show ?thesis
        using one_step [OF claim_again_step [OF again(1) assms(2) Some again(2)]] again(3)
          notification_receipt_kind [OF again(4)] by simp
    qed simp
  qed
qed

lemma complete_account_command_steps:
  assumes "complete_account_command_with_diagnostic jc credential_pattern clock lease result diagnostic db = Inr db'"
    "registry_schema db"
  shows "registry_steps jc db db'"
proof -
  obtain db1 where finish: "finish_command_sync jc clock lease result db = Inr db1"
    and annotate: "(case diagnostic of None \<Rightarrow> Inr db1
       | Some d \<Rightarrow> registry_execute (db1\<lparr>lc_receipts := update_rows
           (\<lambda>r. has_receipt_key (cr_key lease) r \<and> cx_request_sha256 r = cr_request_hash lease)
           (\<lambda>r. r\<lparr>cx_progress_json := Some (jc_print_value jc (diagnostic_json d))\<rparr>) (lc_receipts db1)\<rparr>)) = Inr db'"
    using assms(1) by (auto simp: complete_account_command_with_diagnostic_def and_then_Ok_iff registry_commit_Ok_iff)
  have step: "registry_step jc db db1" by (rule finish_command_step [OF finish assms(2)])
  show ?thesis
  proof (cases diagnostic)
    case None
    then show ?thesis using step annotate by (simp add: one_step)
  next
    case (Some d)
    then have "registry_step jc db1 db'"
      using annotate by (intro registry_step.annotated) (auto simp: registry_execute_Ok_iff with_receipts_def)
    then show ?thesis using step by simp
  qed
qed

section \<open>Administration\<close>

lemma set_account_enabled_steps:
  assumes "set_account_enabled_sync clock account expected enabled db = Inr (outcome, db')" "registry_schema db"
  shows "registry_steps jc db db'"
proof (cases "db' = db")
  case False
  let ?a = "account_id_text account"
  let ?p = "\<lambda>r. live_account_row ?a r \<and> an_revision r = expected"
  obtain base revision now where base: "find_account db ?a = Some base" "an_tombstoned base = None" "an_revision base = expected"
    and revision: "checked_add_i64 expected 1 = Some revision"
    and written: "update_accounts ?p (\<lambda>r. r\<lparr>an_enabled := enabled, an_revision := revision, an_updated := now\<rparr>) db = Inr db'"
    using assms(1) False unfolding set_account_enabled_sync_def
    by (auto simp: and_then_Ok_iff Let_def split: option.splits if_splits)
  have key: "\<forall>r. ?p r \<longrightarrow> an_account_id r = ?a" by (simp add: live_account_row_def)
  have "update_rows ?p f (lc_accounts db) = update_rows (\<lambda>r. an_account_id r = ?a) f (lc_accounts db)" for f
    by (rule update_guarded [OF schema_account_keys [OF assms(2)] base(1) [unfolded find_account_def] _ key])
       (use base find_account_row [OF base(1)] in \<open>simp add: live_account_row_def\<close>)
  moreover have "update_rows (\<lambda>r. an_account_id r = ?a) (\<lambda>r. r\<lparr>an_enabled := enabled, an_revision := revision, an_updated := now\<rparr>)
      (lc_accounts db) = update_rows (\<lambda>r. an_account_id r = ?a) (enabled_account enabled now) (lc_accounts db)"
  proof -
    have "r = base" if "r \<in> set (lc_accounts db)" "an_account_id r = ?a" for r
      using find_account_in [OF assms(2) that(1)] that(2) base(1) by simp
    then show ?thesis
      using revision base(3) by (auto simp: update_rows_def enabled_account_def checked_add_i64_def split: if_splits)
  qed
  ultimately have "db' = with_account ?a (enabled_account enabled now) db" "registry_schema db'"
    using written by (simp_all add: update_accounts_def registry_ok with_account_def)
  then show ?thesis by (intro one_step registry_step.enabling [OF base(1,2)])
qed simp

lemma write_control_Ok:
  assumes "write_control clock expected f db = Inr (outcome, db')" "lc_control db = Some c" "ct_revision c = expected"
  shows "\<exists>now routing. outcome = RoutingUpdated routing \<and> read_routing_control_sync db' = Inr routing \<and>
    registry_schema db' \<and> db' = db\<lparr>lc_control := Some ((f c)\<lparr>ct_revision := ct_revision c + 1, ct_updated := now\<rparr>)\<rparr>"
proof -
  have "checked_add_i64 expected 1 = Some revision \<Longrightarrow> revision = ct_revision c + 1" for revision
    using assms(3) by (auto simp: checked_add_i64_def split: if_splits)
  then show ?thesis
    using assms by (auto simp: write_control_def registry_ok)
qed

lemma read_routing_control_row:
  assumes "read_routing_control_sync db = Inr routing"
  obtains c where "lc_control db = Some c" "arc_revision routing = ct_revision c"
    "map account_id_text (arc_order routing) = live_order db"
    "(case arc_mode routing of Fixed a \<Rightarrow> ct_fixed_account_id c = Some (account_id_text a) \<and> ct_mode c = ''fixed''
      | Balanced \<Rightarrow> ct_fixed_account_id c = None \<and> ct_mode c = ''balanced'')"
proof -
  obtain c order mode where c: "lc_control db = Some c"
    and order: "traverse (\<lambda>a. or_incompatible ''account routing identity'' (account_id_new a)) (live_order db) = Inr order"
    and mode: "parse_selection_mode (ct_mode c) (ct_fixed_account_id c) = Inr mode"
    and routing: "routing = \<lparr>arc_revision = ct_revision c, arc_mode = mode, arc_order = order\<rparr>"
    using assms by (auto simp: read_routing_control_sync_def and_then_Ok_iff)
  have "map account_id_text order = live_order db"
    by (rule traverse_images [OF order]) (simp add: account_id_reads)
  moreover have "(case mode of Fixed a \<Rightarrow> ct_fixed_account_id c = Some (account_id_text a) \<and> ct_mode c = ''fixed''
      | Balanced \<Rightarrow> ct_fixed_account_id c = None \<and> ct_mode c = ''balanced'')"
    using mode by (auto simp: parse_selection_mode_def and_then_Ok_iff dest: account_id_reads split: if_splits)
  ultimately show thesis using that [OF c] routing by simp
qed

lemma fixed_rejection_None:
  assumes "fixed_rejection expected_routing account expected_account routing db = None"
  obtains base where "arc_revision routing = expected_routing" "find_account db (account_id_text account) = Some base"
    "an_tombstoned base = None" "an_revision base = expected_account"
  using assms by (auto simp: fixed_rejection_def split: if_splits option.splits)

lemma set_fixed_routing_steps:
  assumes "set_fixed_routing_sync clock expected_routing account expected_account db = Inr (outcome, db')"
  shows "registry_steps jc db db'"
proof (cases "db' = db")
  case False
  obtain routing where routing: "read_routing_control_sync db = Inr routing"
    using assms by (auto simp: set_fixed_routing_sync_def and_then_Ok_iff)
  have accepted: "fixed_rejection expected_routing account expected_account routing db = None"
    using assms False routing by (auto simp: set_fixed_routing_sync_def split: option.splits)
  obtain base where base: "arc_revision routing = expected_routing" "find_account db (account_id_text account) = Some base"
    "an_tombstoned base = None"
    by (rule fixed_rejection_None [OF accepted])
  obtain c where c: "lc_control db = Some c" "arc_revision routing = ct_revision c"
    by (rule read_routing_control_row [OF routing])
  have "write_control clock expected_routing
      (\<lambda>c. c\<lparr>ct_mode := ''fixed'', ct_fixed_account_id := Some (account_id_text account)\<rparr>) db = Inr (outcome, db')"
    using assms routing accepted by (simp add: set_fixed_routing_sync_def)
  then obtain now where db': "registry_schema db'" "db' = db\<lparr>lc_control := Some (c\<lparr>ct_mode := ''fixed'',
      ct_fixed_account_id := Some (account_id_text account), ct_revision := ct_revision c + 1, ct_updated := now\<rparr>)\<rparr>"
    using write_control_Ok [OF _ c(1)] base(1) c(2) by fastforce
  show ?thesis by (rule one_step [OF registry_step.fixing [OF base(2,3) c(1) db'(2,1)]])
qed simp

lemma route_fixed_routing_steps:
  assumes "route_fixed_routing_sync clock expected_routing account expected_account db = Inr (outcome, db')"
  shows "registry_steps jc db db'"
proof (cases "db' = db")
  case False
  then have "set_fixed_routing_sync clock expected_routing account expected_account db = Inr (outcome, db')"
    using assms by (auto simp: route_fixed_routing_sync_def and_then_Ok_iff split: option.splits if_splits)
  then show ?thesis by (rule set_fixed_routing_steps)
qed simp

lemma set_balanced_routing_steps:
  assumes "set_balanced_routing_sync clock expected_routing db = Inr (outcome, db')"
  shows "registry_steps jc db db'"
proof (cases "db' = db")
  case False
  obtain routing where routing: "read_routing_control_sync db = Inr routing"
    using assms by (auto simp: set_balanced_routing_sync_def and_then_Ok_iff)
  obtain c where c: "lc_control db = Some c" "arc_revision routing = ct_revision c"
    by (rule read_routing_control_row [OF routing])
  have "write_control clock expected_routing (\<lambda>c. c\<lparr>ct_mode := ''balanced'', ct_fixed_account_id := None\<rparr>) db = Inr (outcome, db')"
    "arc_revision routing = expected_routing"
    using assms routing False by (auto simp: set_balanced_routing_sync_def split: if_splits)
  then obtain now where db': "registry_schema db'" "db' = db\<lparr>lc_control := Some (c\<lparr>ct_mode := ''balanced'',
      ct_fixed_account_id := None, ct_revision := ct_revision c + 1, ct_updated := now\<rparr>)\<rparr>"
    using write_control_Ok [OF _ c(1)] c(2) by fastforce
  show ?thesis by (rule one_step [OF registry_step.balancing [OF c(1) db'(2,1)]])
qed simp

lemma distinct_account_texts: "distinct order \<Longrightarrow> distinct (map account_id_text order)"
  by (simp add: distinct_map inj_on_def account_id.expand)

lemma set_account_order_steps:
  assumes "set_account_order_sync clock expected_routing order db = Inr (outcome, db')"
  shows "registry_steps jc db db'"
proof (cases "db' = db")
  case False
  obtain routing now db1 db2 routing' where routing: "read_routing_control_sync db = Inr routing"
    and same: "set (arc_order routing) = set order" "distinct order"
    and cleared: "registry_execute (db\<lparr>lc_order := []\<rparr>) = Inr db1"
    and inserted: "insert_order now 0 order db1 = Inr db2"
    and bump: "bump_routing_revision now db2 = Inr db'"
    using assms False unfolding set_account_order_sync_def
    by (auto simp: and_then_Ok_iff split: if_splits)
  have "db1 = db\<lparr>lc_order := []\<rparr>" using cleared by (simp add: registry_execute_Ok_iff)
  then obtain rows where db2: "db2 = db\<lparr>lc_order := rows\<rparr>" and rows: "numbered (map account_id_text order) rows"
    using insert_order_Ok [OF inserted, of "[]"] distinct_account_texts [OF same(2)] by auto
  have "map account_id_text (arc_order routing) = live_order db" by (rule read_routing_control_row [OF routing])
  then have "set (map account_id_text order) = set (live_order db)" using same(1) by (metis set_map)
  moreover have "db' = db\<lparr>lc_order := rows, lc_control := bumped now (lc_control db)\<rparr>" "registry_schema db'"
    using bump db2 by (auto simp: bump_routing_revision_def registry_execute_Ok_iff bumped_def)
  ultimately show ?thesis using rows by (intro one_step registry_step.ordering)
qed simp

section \<open>Observations\<close>

lemma write_quota_core: "write_quota newer e row db = Inr db' \<Longrightarrow> registry_core db' = registry_core db \<and> registry_schema db'"
  by (auto simp: write_quota_def put_quota_def registry_execute_Ok_iff registry_core_def split: option.splits if_splits)

lemma observed_step:
  assumes "update_accounts p f db = Inr db'" "\<And>r. same_authority r (f r)"
  shows "registry_step jc db db'"
  using assms by (intro registry_step.observed [of f _ p db]) (auto simp: update_accounts_def registry_execute_Ok_iff)

lemma same_authority_state: "same_authority r (r\<lparr>an_state := s, an_updated := t\<rparr>)"
  unfolding same_authority_def by (intro exI [of _ s] exI [of _ "an_store_observation r"] exI [of _ t]) simp

lemma same_authority_store: "same_authority r (r\<lparr>an_store_observation := s, an_updated := t\<rparr>)"
  unfolding same_authority_def by (intro exI [of _ "an_state r"] exI [of _ s] exI [of _ t]) simp

lemma derive_account_state_step:
  assumes "derive_account_state clock e a db = Inr db'"
  shows "registry_step jc db db'"
proof -
  obtain now where "update_accounts (live_account_row a) (\<lambda>r. r\<lparr>an_state := if exhausted_window db a then ''depleted'' else ''available'',
      an_updated := now\<rparr>) db = Inr db'"
    using assms by (auto simp: derive_account_state_def and_then_Ok_iff split: if_splits)
  then show ?thesis by (rule observed_step) (rule same_authority_state)
qed

lemma quota_then_state_steps:
  assumes "write_quota newer e row db = Inr db1" "derive_account_state clock e a db1 = Inr db'"
  shows "registry_steps jc db db'"
  using quiet_step write_quota_core [OF assms(1)] derive_account_state_step [OF assms(2), of jc]
  by (meson rtranclp.rtrancl_into_rtrancl)

lemma observe_account_quota_steps:
  assumes "observe_account_quota clock account quota observed_at db = Inr db'"
  shows "registry_steps jc db db'"
  using assms unfolding observe_account_quota_def
  by (auto simp: and_then_Ok_iff registry_commit_Ok_iff Let_def split: if_splits intro: quota_then_state_steps)

lemma observe_account_quota_absence_steps:
  assumes "observe_account_quota_absence clock account duration observed_at db = Inr db'"
  shows "registry_steps jc db db'"
  using assms unfolding observe_account_quota_absence_def
  by (auto simp: and_then_Ok_iff registry_commit_Ok_iff Let_def split: if_splits intro: quota_then_state_steps)

lemma observe_account_quota_error_steps:
  assumes "observe_account_quota_error account duration e observed_at db = Inr db'"
  shows "registry_steps jc db db'"
proof -
  obtain row where "write_quota (\<le>) (InvalidInput ''quota error rejected'') row db = Inr db'"
    using assms unfolding observe_account_quota_error_def
    by (auto simp: and_then_Ok_iff registry_commit_Ok_iff Let_def split: if_splits)
  then show ?thesis using write_quota_core quiet_step by blast
qed

lemma observe_account_store_steps:
  assumes "observe_account_store clock account expected_revision expected observation db = Inr (b, db')"
  shows "registry_steps jc db db'"
proof (cases "db' = db")
  case False
  let ?p = "\<lambda>r. an_account_id r = account_id_text account \<and> an_revision r = expected_revision"
  obtain now where "update_accounts ?p (\<lambda>r. r\<lparr>an_store_observation := store_observation_text observation, an_updated := now\<rparr>) db
      = Inr db'"
    using assms False unfolding observe_account_store_def
    by (auto simp: and_then_Ok_iff registry_commit_Ok_iff Let_def split: if_splits)
  then show ?thesis by (rule one_step [OF observed_step]) (rule same_authority_store)
qed simp

lemma attest_steps:
  assumes "attest_codex_account_capability clock attestation db = Inr (b, db')"
  shows "registry_steps jc db db'"
  using assms unfolding attest_codex_account_capability_def
  by (auto simp: registry_ok registry_core_def split: if_splits intro!: quiet_step)

section \<open>Usage\<close>

lemma write_window_core:
  assumes "write_optional_window a now duration window db = Inr db'" "registry_schema db"
  shows "registry_core db' = registry_core db \<and> registry_schema db'"
proof (cases window)
  case None
  then show ?thesis using assms by (simp add: write_optional_window_def)
next
  case (Some w)
  obtain newer e row where "write_quota newer e row db = Inr db'"
    using assms(1) Some by (auto simp: write_optional_window_def write_window_def and_then_Ok_iff Let_def split: if_splits)
  then show ?thesis by (rule write_quota_core)
qed

lemma observe_account_usage_steps:
  assumes "observe_account_usage account observation five_hour seven_day db = Inr (b, db')" "registry_schema db"
  shows "registry_steps jc db db'"
proof (cases "db' = db")
  case False
  let ?a = "account_id_text account" and ?now = "auo_observed_at observation"
  obtain db1 db2 db3 db4 where
    cleared: "db1 = db \<or> registry_execute (db\<lparr>lc_quotas := filter (\<lambda>r. qw_account_id r \<noteq> ?a) (lc_quotas db)\<rparr>) = Inr db1" and
    five: "write_optional_window ?a ?now 300 five_hour db1 = Inr db2" and
    seven: "write_optional_window ?a ?now 10080 seven_day db2 = Inr db3" and
    put: "registry_execute (put_usage (usage_row_of ?a observation) db3) = Inr db4" and
    written: "update_accounts (\<lambda>r. an_account_id r = ?a)
      (\<lambda>r. r\<lparr>an_state := usage_state db4 ?a observation, an_updated := ?now\<rparr>) db4 = Inr db'"
    using assms(1) False unfolding observe_account_usage_def Let_def
    by (auto simp: and_then_Ok_iff registry_commit_Ok_iff split: if_splits)
  have 1: "registry_core db1 = registry_core db \<and> registry_schema db1"
    using cleared assms(2) by (auto simp: registry_execute_Ok_iff registry_core_def)
  have 3: "registry_core db3 = registry_core db \<and> registry_schema db3"
    using write_window_core [OF five] write_window_core [OF seven] 1 by simp
  have "registry_core db4 = registry_core db \<and> registry_schema db4"
    using put 3 by (auto simp: registry_execute_Ok_iff put_usage_def registry_core_def)
  then have "registry_steps jc db db4" by (intro quiet_step) simp_all
  moreover have "registry_step jc db4 db'" using written by (rule observed_step) (rule same_authority_state)
  ultimately show ?thesis by simp
qed simp

lemma overwrite_quota_core:
  "overwrite_quota row db = Inr db' \<Longrightarrow> registry_schema db \<Longrightarrow> registry_core db' = registry_core db \<and> registry_schema db'"
  by (auto simp: overwrite_quota_def put_quota_def registry_execute_Ok_iff registry_core_def split: option.splits if_splits)

lemma invalidate_usage_steps:
  assumes "invalidate_usage a revision now db = Inr db'" "registry_schema db"
  shows "registry_steps jc db db'"
proof -
  obtain row db1 db2 where "db1 = db \<or> registry_execute (put_usage row db) = Inr db1"
    and quotas: "overwrite_quota (unknown_quota_row a 300 now) db1 = Inr db2"
    "overwrite_quota (unknown_quota_row a 10080 now) db2 = Inr db'"
    using assms(1) unfolding invalidate_usage_def by (auto simp: and_then_Ok_iff Let_def split: if_splits)
  then have "registry_core db1 = registry_core db \<and> registry_schema db1"
    using assms(2) by (auto simp: registry_execute_Ok_iff put_usage_def registry_core_def)
  then show ?thesis
    using overwrite_quota_core [OF quotas(1)] overwrite_quota_core [OF quotas(2)] by (intro quiet_step) simp_all
qed

section \<open>Credentials\<close>

lemma credential_core: "registry_core (db\<lparr>lc_credentials := t\<rparr>) = registry_core db"
  by (simp add: registry_core_def)

lemma create_credential_steps:
  assumes "create_credential clock k payload db = Inr db'"
  shows "registry_steps jc db db'"
proof -
  obtain now db1 row where "db1 = insert_or_ignore_identity (ck_account_id k) now db"
    "db' = db1\<lparr>lc_credentials := lc_credentials db1 @ [row]\<rparr>" "registry_schema db'"
    using assms unfolding create_credential_def Let_def
    by (auto simp: registry_ok split: if_splits)
  then show ?thesis by (intro quiet_step) (simp_all add: credential_core identity_core)
qed

lemma rotate_credential_steps:
  assumes "rotate_credential clock expected target payload db = Inr db'"
  shows "registry_steps jc db db'"
  using assms unfolding rotate_credential_def
  by (auto simp: registry_ok credential_core split: if_splits intro!: quiet_step)

lemma delete_credential_steps:
  assumes "delete_credential expected db = Inr db'"
  shows "registry_steps jc db db'"
  using assms unfolding delete_credential_def
  by (auto simp: registry_ok credential_core split: if_splits intro!: quiet_step)

end
