(* ===== verification/Registry_Invariant.thy ===== *)
theory Registry_Invariant
  imports Registry_Refine
begin

text \<open>
  The invariant of the account registry: the routing order numbers exactly the accounts that are not
  tombstoned, a fixed selection names one of them, and no two accounts share a display name. And what
  a step can do to one operation, one account, the routing control and one receipt.
\<close>

section \<open>The invariant\<close>

definition live_ids :: "registry \<Rightarrow> string list" where
  "live_ids db = map an_account_id (filter live_account (lc_accounts db))"

definition routing_universe :: "registry \<Rightarrow> bool" where
  "routing_universe db \<longleftrightarrow> numbered (order_ids (lc_order db)) (lc_order db) \<and> set (order_ids (lc_order db)) = set (live_ids db)"

definition fixed_target_live :: "registry \<Rightarrow> bool" where
  "fixed_target_live db \<longleftrightarrow>
     null_or (\<lambda>c. null_or (\<lambda>a. a \<in> set (live_ids db)) (ct_fixed_account_id c)) (lc_control db)"

definition registry_invariant :: "registry \<Rightarrow> bool" where
  "registry_invariant db \<longleftrightarrow> registry_schema db \<and> routing_universe db \<and> fixed_target_live db \<and>
     distinct (map an_label (lc_accounts db))"

lemma numbered_universe: "numbered ids rows \<Longrightarrow> numbered (order_ids rows) rows \<and> order_ids rows = ids"
  using numbered_order_ids by metis

lemma live_ids_iff: "a \<in> set (live_ids db) \<longleftrightarrow> (\<exists>r \<in> set (lc_accounts db). an_account_id r = a \<and> an_tombstoned r = None)"
  by (auto simp: live_ids_def live_account_def)

lemma live_ids_found:
  "registry_schema db \<Longrightarrow> a \<in> set (live_ids db) \<longleftrightarrow> (\<exists>r. find_account db a = Some r \<and> an_tombstoned r = None)"
  unfolding live_ids_iff using find_account_in [of db] find_account_row [of db a] by blast

lemma null_or_mono: "null_or p v \<Longrightarrow> (\<And>x. p x \<Longrightarrow> q x) \<Longrightarrow> null_or q v"
  by (cases v) (auto simp: null_or_def)

lemma fixed_target_mono:
  assumes "fixed_target_live db" "set (live_ids db) \<subseteq> set (live_ids db')"
    "map_option ct_fixed_account_id (lc_control db') = map_option ct_fixed_account_id (lc_control db)"
  shows "fixed_target_live db'"
  using assms by (cases "lc_control db"; cases "lc_control db'") (auto simp: fixed_target_live_def null_or_def split: option.splits)

lemma bumped_fixed [simp]: "map_option ct_fixed_account_id (bumped now c) = map_option ct_fixed_account_id c"
  by (cases c) (simp_all add: bumped_def)

section \<open>Accounts under a key\<close>

lemma with_account_simps [simp]:
  "lc_order (with_account a f db) = lc_order db" "lc_control (with_account a f db) = lc_control db"
  "lc_operations (with_account a f db) = lc_operations db" "lc_receipts (with_account a f db) = lc_receipts db"
  "lc_credentials (with_account a f db) = lc_credentials db"
  by (simp_all add: with_account_def)

lemma with_account_rows: "lc_accounts (with_account a f db) = update_rows (\<lambda>r. an_account_id r = a) f (lc_accounts db)"
  by (simp add: with_account_def)

lemma update_labels: "(\<And>r. an_label (f r) = an_label r) \<Longrightarrow> map an_label (update_rows p f t) = map an_label t"
  by (simp add: map_update_rows)

lemma update_live:
  assumes "\<And>r. an_account_id (f r) = an_account_id r" "\<And>r. an_tombstoned (f r) = an_tombstoned r"
  shows "map an_account_id (filter live_account (update_rows p f t)) = map an_account_id (filter live_account t)"
  using assms by (induction t) (auto simp: update_rows_def live_account_def)

lemma live_ids_update:
  "\<lbrakk> lc_accounts db' = update_rows p f (lc_accounts db); \<And>r. an_account_id (f r) = an_account_id r;
     \<And>r. an_tombstoned (f r) = an_tombstoned r \<rbrakk> \<Longrightarrow> live_ids db' = live_ids db"
  by (simp add: live_ids_def update_live)

lemma superseded_core [simp]:
  "lc_accounts (superseded_by_commit op now db) = lc_accounts db"
  "lc_order (superseded_by_commit op now db) = lc_order db"
  "lc_control (superseded_by_commit op now db) = lc_control db"
  "lc_receipts (superseded_by_commit op now db) = lc_receipts db"
  "lc_credentials (superseded_by_commit op now db) = lc_credentials db"
  by (simp_all add: superseded_by_commit_def split: option.splits)

lemma with_operation_core [simp]:
  "lc_accounts (with_operation k f db) = lc_accounts db" "lc_order (with_operation k f db) = lc_order db"
  "lc_control (with_operation k f db) = lc_control db" "lc_receipts (with_operation k f db) = lc_receipts db"
  "lc_credentials (with_operation k f db) = lc_credentials db"
  by (simp_all add: with_operation_def)

lemma with_receipts_core [simp]:
  "lc_accounts (with_receipts p f db) = lc_accounts db" "lc_order (with_receipts p f db) = lc_order db"
  "lc_control (with_receipts p f db) = lc_control db" "lc_operations (with_receipts p f db) = lc_operations db"
  by (simp_all add: with_receipts_def)

definition routing_facts :: "registry \<Rightarrow> bool" where
  "routing_facts db \<longleftrightarrow> routing_universe db \<and> fixed_target_live db \<and> distinct (map an_label (lc_accounts db))"

lemma registry_invariant_facts: "registry_invariant db \<longleftrightarrow> registry_schema db \<and> routing_facts db"
  by (auto simp: registry_invariant_def routing_facts_def)

lemma routing_facts_core:
  "\<lbrakk> routing_facts db; lc_accounts db' = lc_accounts db; lc_order db' = lc_order db; lc_control db' = lc_control db \<rbrakk>
   \<Longrightarrow> routing_facts db'"
  by (simp add: routing_facts_def routing_universe_def fixed_target_live_def live_ids_def)

text \<open>A write of accounts that keeps identities, tombstones and labels keeps the facts.\<close>

lemma routing_facts_update:
  assumes "routing_facts db" "lc_accounts db' = update_rows p f (lc_accounts db)" "lc_order db' = lc_order db"
    "lc_control db' = lc_control db"
    and "\<And>r. an_account_id (f r) = an_account_id r \<and> an_tombstoned (f r) = an_tombstoned r \<and> an_label (f r) = an_label r"
  shows "routing_facts db'"
proof -
  have "live_ids db' = live_ids db" by (rule live_ids_update [OF assms(2)]) (simp_all add: assms(5))
  moreover have "map an_label (lc_accounts db') = map an_label (lc_accounts db)" using assms(2,5) by (simp add: update_labels)
  ultimately show ?thesis using assms(1,3,4) by (simp add: routing_facts_def routing_universe_def fixed_target_live_def)
qed

section \<open>The effects keep it\<close>

lemma universe_append:
  assumes "routing_facts db" "a \<notin> set (live_ids db)" "set (live_ids db') = insert a (set (live_ids db))"
    "lc_order db' = lc_order db @ [last_entry now a db]" "lc_control db' = bumped now (lc_control db)"
  shows "routing_universe db' \<and> fixed_target_live db' \<and> order_ids (lc_order db') = order_ids (lc_order db) @ [a]"
proof -
  have old: "numbered (order_ids (lc_order db)) (lc_order db)" "set (order_ids (lc_order db)) = set (live_ids db)"
    using assms(1) by (auto simp: routing_facts_def routing_universe_def)
  have absent: "a \<notin> set (order_ids (lc_order db))" using assms(2) unfolding old(2) .
  have new: "numbered (order_ids (lc_order db) @ [a]) (lc_order db')"
    unfolding assms(4) by (rule numbered_append [OF old(1) absent]) (simp_all add: last_entry_def)
  have ids: "order_ids (lc_order db') = order_ids (lc_order db) @ [a]" by (rule numbered_order_ids [OF new])
  have "fixed_target_live db" using assms(1) by (simp add: routing_facts_def)
  then have "fixed_target_live db'"
    by (rule fixed_target_mono) (use assms(3,5) in auto)
  moreover have "set (order_ids (lc_order db')) = set (live_ids db')" unfolding ids assms(3) old(2) [symmetric] by auto
  ultimately show ?thesis using new ids by (simp add: routing_universe_def del: set_order_ids)
qed

lemma live_ids_with_account:
  assumes "registry_schema db" "find_account db a = Some base" "\<And>r. an_account_id (f r) = an_account_id r"
  shows "set (live_ids (with_account a f db)) =
    (if an_tombstoned (f base) = None then insert a (set (live_ids db)) else set (live_ids db) - {a})"
proof -
  have found: "find_row an_account_id (lc_accounts db) a = Some base" using assms(2) by (simp add: find_account_def)
  have rows: "q \<in> set (lc_accounts (with_account a f db)) \<longleftrightarrow> q = f base \<or> q \<in> set (lc_accounts db) \<and> q \<noteq> base" for q
    unfolding with_account_rows by (rule in_updated_row [OF schema_account_keys [OF assms(1)] found])
  have base: "base \<in> set (lc_accounts db)" "an_account_id base = a" using find_account_row [OF assms(2)] by auto
  have unique: "q = base" if "q \<in> set (lc_accounts db)" "an_account_id q = a" for q
    using find_account_in [OF assms(1) that(1)] that(2) assms(2) by simp
  have "b \<in> set (live_ids (with_account a f db)) \<longleftrightarrow>
      b = a \<and> an_tombstoned (f base) = None \<or> b \<noteq> a \<and> b \<in> set (live_ids db)" for b
  proof -
    have "b \<in> set (live_ids (with_account a f db)) \<longleftrightarrow> b = a \<and> an_tombstoned (f base) = None \<or>
        (\<exists>r \<in> set (lc_accounts db). r \<noteq> base \<and> an_account_id r = b \<and> an_tombstoned r = None)"
    proof -
      have "(\<exists>r \<in> set (lc_accounts (with_account a f db)). an_account_id r = b \<and> an_tombstoned r = None) \<longleftrightarrow>
          an_account_id (f base) = b \<and> an_tombstoned (f base) = None \<or>
          (\<exists>r \<in> set (lc_accounts db). r \<noteq> base \<and> an_account_id r = b \<and> an_tombstoned r = None)"
        by (simp add: Bex_def rows) blast
      then show ?thesis using assms(3) [of base] base(2) by (auto simp: live_ids_iff)
    qed
    moreover have "(\<exists>r \<in> set (lc_accounts db). r \<noteq> base \<and> an_account_id r = b \<and> an_tombstoned r = None) \<longleftrightarrow>
        b \<noteq> a \<and> b \<in> set (live_ids db)"
    proof -
      have "(r \<noteq> base \<and> an_account_id r = b \<and> an_tombstoned r = None) =
          (b \<noteq> a \<and> an_account_id r = b \<and> an_tombstoned r = None)" if "r \<in> set (lc_accounts db)" for r
        using unique [OF that] base(2) by metis
      then show ?thesis unfolding live_ids_iff by (simp cong: bex_cong)
    qed
    ultimately show ?thesis by blast
  qed
  then show ?thesis by auto
qed

lemma map_label_with_account:
  assumes "registry_schema db" "find_account db a = Some base" "an_label (f base) = an_label base"
  shows "map an_label (lc_accounts (with_account a f db)) = map an_label (lc_accounts db)"
proof -
  have "update_rows (\<lambda>r. an_account_id r = a) f (lc_accounts db) = map (\<lambda>q. if q = base then f base else q) (lc_accounts db)"
    by (rule update_one_row [OF schema_account_keys [OF assms(1)] assms(2) [unfolded find_account_def]])
  then show ?thesis using assms(3) by (simp add: with_account_rows o_def if_distrib cong: if_cong)
qed

lemma commit_effect_facts:
  assumes "commit_effect jc op now db db'" "registry_schema db" "routing_facts db"
  shows "routing_facts db'"
  using assms(1)
proof cases
  case (enrolled target enabled label)
  let ?a = "operation_account op"
  have absent: "?a \<notin> set (live_ids db)" using enrolled(5) live_ids_found [OF assms(2)] by simp
  have "set (live_ids db') = insert ?a (set (live_ids db))"
    using enrolled(1) by (auto simp: live_ids_def live_account_def enrolled_account_def)
  then have "routing_universe db' \<and> fixed_target_live db'"
    using universe_append [OF assms(3) absent] enrolled(1) by simp
  moreover have "distinct (map an_label (lc_accounts db'))"
    using assms(3) enrolled(1,9) by (simp add: routing_facts_def enrolled_account_def)
  ultimately show ?thesis by (simp add: routing_facts_def)
next
  case (restored target base previous enabled)
  let ?a = "operation_account op" and ?f = "restored_account (an_label base) enabled (cb_provider target) now"
  have absent: "?a \<notin> set (live_ids db)" using restored(5,6) live_ids_found [OF assms(2)] by simp
  have "live_ids db' = live_ids (with_account ?a ?f db)" using restored(1) by (simp add: live_ids_def)
  then have "set (live_ids db') = insert ?a (set (live_ids db))"
    using live_ids_with_account [OF assms(2) restored(5), of ?f] by (simp add: restored_account_def)
  then have "routing_universe db' \<and> fixed_target_live db'"
    using universe_append [OF assms(3) absent] restored(1) by simp
  moreover have "map an_label (lc_accounts db') = map an_label (lc_accounts db)"
    using map_label_with_account [OF assms(2) restored(5), of ?f] restored(1) by (simp add: restored_account_def)
  ultimately show ?thesis using assms(3) by (simp add: routing_facts_def)
next
  case (refreshed target base)
  show ?thesis
    unfolding refreshed(1)
    by (rule routing_facts_update [OF assms(3) with_account_rows]) (simp_all add: refreshed_account_def)
next
  case (logged_out base rows)
  let ?a = "operation_account op"
  have old: "set (order_ids (lc_order db)) = set (live_ids db)"
    using assms(3) by (simp add: routing_facts_def routing_universe_def)
  have "live_ids db' = live_ids (with_account ?a (logged_out_account now) db)" using logged_out(1) by (simp add: live_ids_def)
  then have live: "set (live_ids db') = set (live_ids db) - {?a}"
    using live_ids_with_account [OF assms(2) logged_out(5), of "logged_out_account now"] by (simp add: logged_out_account_def)
  have numbered: "numbered (order_ids rows) rows" "order_ids rows = filter (\<lambda>b. b \<noteq> ?a) (order_ids (lc_order db))"
    using numbered_universe [OF logged_out(8)] by auto
  have "routing_universe db'"
    using numbered live old logged_out(1) by (auto simp: routing_universe_def)
  moreover have "fixed_target_live db'"
    using assms(3) live logged_out(1)
    by (cases "lc_control db") (auto simp: routing_facts_def fixed_target_live_def null_or_def bumped_def release_fixed_def split: option.splits)
  moreover have "map an_label (lc_accounts db') = map an_label (lc_accounts db)"
    using map_label_with_account [OF assms(2) logged_out(5), of "logged_out_account now"] logged_out(1)
    by (simp add: logged_out_account_def)
  ultimately show ?thesis using assms(3) by (simp add: routing_facts_def)
qed

section \<open>Every step keeps it\<close>

lemma same_authority_keeps: "same_authority r q \<Longrightarrow> an_account_id q = an_account_id r \<and> an_tombstoned q = an_tombstoned r \<and>
    an_label q = an_label r \<and> an_revision q = an_revision r \<and> an_enabled q = an_enabled r"
  by (auto simp: same_authority_def)

lemma live_order_ids: "routing_universe db \<Longrightarrow> live_order db = order_ids (lc_order db)"
proof -
  assume u: "routing_universe db"
  have "filter (\<lambda>o'. list_ex (\<lambda>r. an_account_id r = od_account_id o' \<and> live_account r) (lc_accounts db)) (lc_order db) = lc_order db"
    using u by (intro filter_True) (auto simp: routing_universe_def list_ex_iff live_ids_def set_eq_iff image_iff dest!: spec)
  then show ?thesis by (simp add: live_order_def order_ids_def)
qed

lemma registry_step_facts:
  assumes "registry_step jc db db'" "registry_schema db" "routing_facts db"
  shows "routing_facts db'"
  using assms(1)
proof cases
  case quiet
  then show ?thesis using routing_facts_core [OF assms(3)] by (simp add: registry_core_eq)
next
  case prepared
  then show ?thesis using routing_facts_core [OF assms(3)] by simp
next
  case targeted
  then show ?thesis using routing_facts_core [OF assms(3)] by simp
next
  case moved
  then show ?thesis using routing_facts_core [OF assms(3)] by simp
next
  case (committed k op now db1 now')
  then show ?thesis using routing_facts_core [OF commit_effect_facts [OF committed(5) assms(2,3)]] by simp
next
  case (observed f p)
  show ?thesis
    by (rule routing_facts_update [OF assms(3), of _ p f]) (use observed(2) same_authority_keeps observed(1) in auto)
next
  case (enabling a base enabled now)
  show ?thesis
    by (rule routing_facts_update [OF assms(3), of _ "\<lambda>r. an_account_id r = a" "enabled_account enabled now"])
       (use enabling in \<open>simp_all add: with_account_rows enabled_account_def\<close>)
next
  case (fixing a base c now)
  have "a \<in> set (live_ids db)" using fixing(1,2) live_ids_found [OF assms(2)] by simp
  then show ?thesis using assms(3) fixing(4)
    by (simp add: routing_facts_def routing_universe_def fixed_target_live_def live_ids_def null_or_def)
next
  case (balancing c now)
  then show ?thesis using assms(3)
    by (simp add: routing_facts_def routing_universe_def fixed_target_live_def live_ids_def null_or_def)
next
  case (ordering ids rows now)
  have u: "routing_universe db" using assms(3) by (simp add: routing_facts_def)
  have live: "live_ids db' = live_ids db" using ordering(3) by (simp add: live_ids_def)
  have "fixed_target_live db" using assms(3) by (simp add: routing_facts_def)
  then have "fixed_target_live db'" by (rule fixed_target_mono) (use live ordering(3) in simp_all)
  moreover have "routing_universe db'"
  proof -
    have "set ids = set (live_ids db)"
      using ordering(1) u live_order_ids [OF u] by (simp add: routing_universe_def del: set_order_ids)
    then show ?thesis
      using numbered_universe [OF ordering(2)] ordering(2,3) live by (simp add: routing_universe_def del: set_order_ids)
  qed
  ultimately show ?thesis using assms(3) ordering(3) by (simp add: routing_facts_def)
next
  case reserved
  then show ?thesis using routing_facts_core [OF assms(3)] by simp
next
  case reclaimed
  then show ?thesis using routing_facts_core [OF assms(3)] by simp
next
  case finished
  then show ?thesis using routing_facts_core [OF assms(3)] by simp
next
  case annotated
  then show ?thesis using routing_facts_core [OF assms(3)] by simp
qed

lemma registry_steps_invariant:
  assumes "registry_steps jc db db'" "registry_invariant db"
  shows "registry_invariant db'"
  using assms
  by (induction rule: rtranclp_induct)
     (auto simp: registry_invariant_facts dest: registry_step_facts registry_step_schema)

end
