(* ===== verification/Registry_Life.thy ===== *)
theory Registry_Life
  imports Registry_Invariant
begin

text \<open>
  What steps can do to one row: an operation keeps its request, moves along the allowed transitions and
  rests once it is settled or superseded; an account changes only under a higher revision; the routing
  control and the order change together with the revision; a finished receipt keeps its answer.
\<close>

section \<open>Operations\<close>

text \<open>What a preparation fixes.\<close>

definition same_request :: "lifecycle_operation \<Rightarrow> lifecycle_operation \<Rightarrow> bool" where
  "same_request r q \<longleftrightarrow> lo_operation_id q = lo_operation_id r \<and> lo_account_id q = lo_account_id r \<and>
     lo_kind q = lo_kind r \<and> lo_expected_revision q = lo_expected_revision r \<and>
     lo_expected_json q = lo_expected_json r \<and> lo_provider q = lo_provider r \<and>
     lo_provider_account_id q = lo_provider_account_id r \<and> lo_label q = lo_label r \<and> lo_enabled q = lo_enabled r \<and>
     lo_recovery_operation_id q = lo_recovery_operation_id r \<and> lo_created q = lo_created r"

definition allowed_phase :: "string \<Rightarrow> string \<Rightarrow> bool" where
  "allowed_phase s t \<longleftrightarrow> (\<exists>p q. s = operation_phase_text p \<and> t = operation_phase_text q \<and> allowed_operation_transition p q)"

definition at_rest :: "lifecycle_operation \<Rightarrow> bool" where
  "at_rest r \<longleftrightarrow> settled_phase (lo_phase r) \<or> lo_superseded_by r \<noteq> None"

definition operation_moves :: "lifecycle_operation \<Rightarrow> lifecycle_operation \<Rightarrow> bool" where
  "operation_moves r q \<longleftrightarrow> q = r \<or> \<not> at_rest r \<and> same_request r q \<and>
     (lo_phase q = lo_phase r \<or> allowed_phase (lo_phase r) (lo_phase q)) \<and>
     (lo_target_json r = None \<or> lo_target_json q = lo_target_json r)"

lemma same_request_refl [simp]: "same_request r r"
  by (simp add: same_request_def)

lemma same_request_trans: "same_request r q \<Longrightarrow> same_request q s \<Longrightarrow> same_request r s"
  by (simp add: same_request_def)

lemma settled_text [simp]: "settled_phase (operation_phase_text p) \<longleftrightarrow> p = Committed \<or> p = Cancelled"
  by (cases p) (simp_all add: settled_phase_def operation_phase_text_def)

lemma allowed_source: "allowed_operation_transition p q \<Longrightarrow> p \<noteq> Committed \<and> p \<noteq> Cancelled"
  by (auto simp: allowed_operation_transition_def)

lemma moved_operation_moves:
  assumes "lo_phase r = operation_phase_text p" "lo_superseded_by r = None" "allowed_operation_transition p target"
  shows "operation_moves r (moved_operation target recovery_code now r)"
  using assms allowed_source [OF assms(3)]
  by (auto simp: operation_moves_def at_rest_def same_request_def moved_operation_def allowed_phase_def)

lemma superseded_moves:
  assumes "supersedable k r"
  shows "operation_moves r (r\<lparr>lo_superseded_by := Some j, lo_updated := now\<rparr>)"
  using assms by (auto simp: operation_moves_def at_rest_def same_request_def supersedable_def settled_phase_def)

lemma find_with_operation:
  assumes "find_operation db k = Some r" "\<And>q. lo_operation_id (f q) = lo_operation_id q"
  shows "find_operation (with_operation k f db) j = (if j = k then Some (f r) else find_operation db j)"
  using find_updated_row [OF assms(1) [unfolded find_operation_def], of f j] assms(2)
  by (simp add: find_operation_def with_operation_def)

lemma operation_moves_refl [simp]: "operation_moves r r"
  by (simp add: operation_moves_def)

lemma find_moved:
  assumes "find_operation db k = Some s" "find_operation db j = Some r" "operation_moves s (f s)"
    "\<And>q. lo_operation_id (f q) = lo_operation_id q" "db' = with_operation k f db"
  shows "\<exists>q. find_operation db' j = Some q \<and> operation_moves r q"
  unfolding assms(5) using assms(1-3) by (cases "j = k") (simp_all add: find_with_operation [OF assms(1,4)])

lemma superseded_operations:
  "lc_operations (superseded_by_commit op now db) = (case ao_recovery_operation_id op of
     None \<Rightarrow> lc_operations db
   | Some k \<Rightarrow> update_rows (supersedable (operation_id_text k))
       (\<lambda>r. r\<lparr>lo_superseded_by := Some (operation_id_text (ao_operation_id op)), lo_updated := now\<rparr>) (lc_operations db))"
  by (simp add: superseded_by_commit_def split: option.splits)

lemma find_superseded:
  "find_operation (superseded_by_commit op now db) j = map_option (\<lambda>r.
     if (\<exists>k. ao_recovery_operation_id op = Some k \<and> supersedable (operation_id_text k) r)
     then r\<lparr>lo_superseded_by := Some (operation_id_text (ao_operation_id op)), lo_updated := now\<rparr> else r) (find_operation db j)"
proof (cases "ao_recovery_operation_id op")
  case None
  then show ?thesis by (simp add: find_operation_def superseded_operations option.map_ident)
next
  case (Some k)
  then show ?thesis by (simp add: find_operation_def superseded_operations find_row_update)
qed

lemma commit_effect_operations: "commit_effect jc op now db db' \<Longrightarrow> lc_operations db' = lc_operations db"
  by (erule commit_effect.cases) simp_all

lemma commit_effect_receipts: "commit_effect jc op now db db' \<Longrightarrow> lc_receipts db' = lc_receipts db"
  by (erule commit_effect.cases) simp_all

lemma commit_effect_credentials: "commit_effect jc op now db db' \<Longrightarrow> lc_credentials db' = lc_credentials db"
  by (erule commit_effect.cases) simp_all

lemma find_operation_cong: "lc_operations db' = lc_operations db \<Longrightarrow> find_operation db' k = find_operation db k"
  by (simp add: find_operation_def)

text \<open>The row that commits is not the one it supersedes: it stands at \<^verbatim>\<open>store_applied\<close>.\<close>

lemma committed_row:
  assumes "read_operation_sync jc db k = Inr (Some op)" "ao_phase op = StoreApplied" "commit_effect jc op now db db1"
    "find_operation db (operation_id_text k) = Some r"
  shows "find_operation (superseded_by_commit op now db1) (operation_id_text k) = Some r"
proof -
  obtain q where q: "find_operation db (operation_id_text k) = Some q" "stored_operation jc q op"
    by (rule read_operation_Some [OF assms(1)])
  then have "lo_phase r = ''store_applied''"
    using assms(2,4) by (simp add: stored_operation_def operation_phase_text_def)
  then have "\<not> supersedable j r" for j by (simp add: supersedable_def)
  then show ?thesis
    using find_operation_cong [OF commit_effect_operations [OF assms(3)]] assms(4) by (simp add: find_superseded)
qed

lemma moved_operation_id [simp]: "lo_operation_id (moved_operation p c t r) = lo_operation_id r"
  by (simp add: moved_operation_def)

lemma registry_step_operation:
  assumes "registry_step jc db db'" "registry_schema db" "find_operation db j = Some r"
  shows "\<exists>q. find_operation db' j = Some q \<and> operation_moves r q"
  using assms(1)
proof cases
  case quiet
  then show ?thesis using assms(3) by (simp add: registry_core_eq find_operation_def operation_moves_def)
next
  case (prepared p recovery now)
  then show ?thesis using assms(3) by (simp add: find_operation_def find_row_append operation_moves_def)
next
  case (targeted k op target now)
  obtain s where s: "find_operation db (operation_id_text k) = Some s" "stored_operation jc s op"
    by (rule read_operation_Some [OF targeted(1)])
  have "operation_moves s (s\<lparr>lo_target_json := binding_json jc (Some target), lo_updated := now\<rparr>)"
    using s(2) targeted(2-4) stored_target_None [OF s(2)]
    by (simp add: operation_moves_def at_rest_def same_request_def stored_operation_def operation_phase_text_def settled_phase_def)
  then show ?thesis by (rule find_moved [OF s(1) assms(3) _ _ targeted(6)]) simp
next
  case (moved k op target recovery_code now)
  obtain s where s: "find_operation db (operation_id_text k) = Some s" "stored_operation jc s op"
    by (rule read_operation_Some [OF moved(1)])
  have "operation_moves s (moved_operation target recovery_code now s)"
    by (rule moved_operation_moves [OF _ _ moved(3)]) (use s(2) moved(2) in \<open>simp_all add: stored_operation_def\<close>)
  then show ?thesis by (rule find_moved [OF s(1) assms(3) _ _ moved(6)]) simp
next
  case (committed k op now db1 now')
  obtain s where s: "find_operation db (operation_id_text k) = Some s" "stored_operation jc s op"
    by (rule read_operation_Some [OF committed(1)])
  have row: "find_operation (superseded_by_commit op now db1) (operation_id_text k) = Some s"
    by (rule committed_row [OF committed(1,3,5) s(1)])
  have "operation_moves s (moved_operation Committed None now' s)"
    by (rule moved_operation_moves [of _ StoreApplied])
       (use s(2) committed(2,3) in \<open>simp_all add: stored_operation_def allowed_to_Committed\<close>)
  moreover have "\<exists>q. find_operation (superseded_by_commit op now db1) j = Some q \<and> operation_moves r q"
    using find_operation_cong [OF commit_effect_operations [OF committed(5)]] assms(3) superseded_moves
    by (simp add: find_superseded) metis
  ultimately show ?thesis
    using assms(3) s(1) unfolding committed(6) by (subst find_with_operation [OF row]) auto
next
  case observed
  then show ?thesis using assms(3) by (simp add: find_operation_def operation_moves_def)
next
  case enabling
  then show ?thesis using assms(3) by (simp add: find_operation_def operation_moves_def)
next
  case fixing
  then show ?thesis using assms(3) by (simp add: find_operation_def operation_moves_def)
next
  case balancing
  then show ?thesis using assms(3) by (simp add: find_operation_def operation_moves_def)
next
  case ordering
  then show ?thesis using assms(3) by (simp add: find_operation_def operation_moves_def)
next
  case reserved
  then show ?thesis using assms(3) by (simp add: find_operation_def operation_moves_def)
next
  case reclaimed
  then show ?thesis using assms(3) by (simp add: find_operation_def operation_moves_def)
next
  case finished
  then show ?thesis using assms(3) by (simp add: find_operation_def operation_moves_def)
next
  case annotated
  then show ?thesis using assms(3) by (simp add: find_operation_def operation_moves_def)
qed

text \<open>Over many steps: the request stays, the phases follow the allowed transitions, rest is final.\<close>

definition operation_life :: "lifecycle_operation \<Rightarrow> lifecycle_operation \<Rightarrow> bool" where
  "operation_life r q \<longleftrightarrow> same_request r q \<and> allowed_phase\<^sup>*\<^sup>* (lo_phase r) (lo_phase q) \<and> (at_rest r \<longrightarrow> q = r) \<and>
     (lo_target_json r = None \<or> lo_target_json q = lo_target_json r)"

lemma operation_life_refl [simp]: "operation_life r r"
  by (simp add: operation_life_def)

lemma operation_life_step: "operation_life r q \<Longrightarrow> operation_moves q s \<Longrightarrow> operation_life r s"
  unfolding operation_life_def operation_moves_def
  by (metis rtranclp.rtrancl_into_rtrancl same_request_trans)

lemma registry_steps_operation:
  assumes "registry_steps jc db db'" "registry_schema db" "find_operation db j = Some r"
  shows "\<exists>q. find_operation db' j = Some q \<and> operation_life r q"
  using assms(1)
proof (induction rule: rtranclp_induct)
  case base
  then show ?case using assms(3) by simp
next
  case (step db1 db2)
  obtain q where q: "find_operation db1 j = Some q" "operation_life r q" using step.IH by blast
  obtain s where "find_operation db2 j = Some s" "operation_moves q s"
    using registry_step_operation [OF step(2) registry_steps_schema [OF step(1) assms(2)] q(1)] by blast
  then show ?case using operation_life_step [OF q(2)] by blast
qed

section \<open>Accounts\<close>

definition account_fence :: "registered_account \<Rightarrow> registered_account \<Rightarrow> bool" where
  "account_fence r q \<longleftrightarrow> an_account_id q = an_account_id r \<and> an_label q = an_label r \<and> an_created q = an_created r \<and>
     (an_revision r < an_revision q \<or> same_authority r q)"

lemma same_authority_refl [simp]: "same_authority r r"
  unfolding same_authority_def
  by (intro exI [of _ "an_state r"] exI [of _ "an_store_observation r"] exI [of _ "an_updated r"]) simp

lemma same_authority_iff: "same_authority r q \<longleftrightarrow> an_account_id q = an_account_id r \<and> an_label q = an_label r \<and>
    an_enabled q = an_enabled r \<and> an_revision q = an_revision r \<and> an_provider q = an_provider r \<and>
    an_provider_account_id q = an_provider_account_id r \<and> an_created q = an_created r \<and>
    an_tombstoned q = an_tombstoned r"
  by (cases r; cases q) (auto simp: same_authority_def)

lemma same_authority_trans: "same_authority r q \<Longrightarrow> same_authority q s \<Longrightarrow> same_authority r s"
  by (simp add: same_authority_iff)

lemma account_fence_refl [simp]: "account_fence r r"
  by (simp add: account_fence_def)

lemma account_fence_trans: "account_fence r q \<Longrightarrow> account_fence q s \<Longrightarrow> account_fence r s"
  unfolding account_fence_def
  by (metis less_trans same_authority_keeps same_authority_trans)

lemma find_with_account:
  assumes "find_account db a = Some r" "\<And>q. an_account_id (f q) = an_account_id q"
  shows "find_account (with_account a f db) b = (if b = a then Some (f r) else find_account db b)"
  using find_updated_row [OF assms(1) [unfolded find_account_def], of f b] assms(2)
  by (simp add: find_account_def with_account_rows)

lemma find_account_cong: "lc_accounts db' = lc_accounts db \<Longrightarrow> find_account db' a = find_account db a"
  by (simp add: find_account_def)

lemma fence_with_account:
  assumes "find_account db a = Some base" "find_account db b = Some r" "\<And>q. an_account_id (f q) = an_account_id q"
    "account_fence base (f base)" "lc_accounts db' = lc_accounts (with_account a f db)"
  shows "\<exists>q. find_account db' b = Some q \<and> account_fence r q"
  using assms(1,2,4) find_with_account [OF assms(1,3), of b] unfolding find_account_cong [OF assms(5)]
  by (cases "b = a") simp_all

lemma commit_effect_account:
  assumes "commit_effect jc op now db db'" "find_account db b = Some r"
  shows "\<exists>q. find_account db' b = Some q \<and> account_fence r q"
  using assms(1)
proof cases
  case enrolled
  then show ?thesis using assms(2) by (simp add: find_account_def find_row_append)
next
  case (restored target base previous enabled)
  show ?thesis
    by (rule fence_with_account [OF restored(5) assms(2), of "restored_account (an_label base) enabled (cb_provider target) now"])
       (use restored(1) in \<open>simp_all add: restored_account_def account_fence_def\<close>)
next
  case (refreshed target base)
  show ?thesis
    by (rule fence_with_account [OF refreshed(5) assms(2), of "refreshed_account (cb_provider target) now"])
       (use refreshed(1) in \<open>simp_all add: refreshed_account_def account_fence_def\<close>)
next
  case (logged_out base rows)
  show ?thesis
    by (rule fence_with_account [OF logged_out(5) assms(2), of "logged_out_account now"])
       (use logged_out(1) in \<open>simp_all add: logged_out_account_def account_fence_def\<close>)
qed

lemma registry_step_account:
  assumes "registry_step jc db db'" "find_account db b = Some r"
  shows "\<exists>q. find_account db' b = Some q \<and> account_fence r q"
  using assms(1)
proof cases
  case quiet
  then show ?thesis using assms(2) by (simp add: registry_core_eq find_account_def)
next
  case (committed k op now db1 now')
  have "lc_accounts db' = lc_accounts db1" by (simp add: committed(6))
  then show ?thesis using commit_effect_account [OF committed(5) assms(2)] find_account_cong by metis
next
  case (observed f p)
  have "an_account_id (f q) = an_account_id q" for q using observed(1) same_authority_keeps by metis
  then have "find_account db' b = Some (if p r then f r else r)"
    using assms(2) by (simp add: observed(2) find_account_def find_row_update)
  moreover have "account_fence r (f r)"
    using observed(1) by (simp add: account_fence_def same_authority_iff)
  ultimately show ?thesis by auto
next
  case (enabling a base enabled now)
  show ?thesis
    by (rule fence_with_account [OF enabling(1) assms(2), of "enabled_account enabled now"])
       (use enabling(3) in \<open>simp_all add: enabled_account_def account_fence_def\<close>)
qed (use assms(2) in \<open>simp_all add: find_account_def\<close>)

lemma registry_steps_account:
  assumes "registry_steps jc db db'" "find_account db b = Some r"
  shows "\<exists>q. find_account db' b = Some q \<and> account_fence r q"
  using assms(1)
proof (induction rule: rtranclp_induct)
  case base
  then show ?case using assms(2) by simp
next
  case (step db1 db2)
  then show ?case using registry_step_account account_fence_trans by metis
qed

section \<open>The routing control\<close>

definition control_fence :: "registry \<Rightarrow> registry \<Rightarrow> bool" where
  "control_fence db db' \<longleftrightarrow> (case (lc_control db, lc_control db') of
     (None, None) \<Rightarrow> True
   | (Some c, Some c') \<Rightarrow> ct_revision c < ct_revision c' \<or> c' = c \<and> order_ids (lc_order db') = order_ids (lc_order db)
   | _ \<Rightarrow> False)"

lemma control_fence_same: "lc_control db' = lc_control db \<Longrightarrow> lc_order db' = lc_order db \<Longrightarrow> control_fence db db'"
  by (simp add: control_fence_def split: option.splits)

lemma control_fence_bumped: "lc_control db' = bumped now (lc_control db) \<Longrightarrow> lc_control db \<noteq> None \<Longrightarrow> control_fence db db'"
  by (auto simp: control_fence_def bumped_def)

lemma control_fence_trans: "control_fence db db1 \<Longrightarrow> control_fence db1 db2 \<Longrightarrow> control_fence db db2"
  by (auto simp: control_fence_def split: option.splits)

lemma control_fence_Some: "control_fence db db' \<Longrightarrow> lc_control db \<noteq> None \<Longrightarrow> lc_control db' \<noteq> None"
  by (auto simp: control_fence_def split: option.splits)

lemma commit_effect_control:
  assumes "commit_effect jc op now db db'" "lc_control db \<noteq> None"
  shows "control_fence db db'"
  using assms(1)
proof cases
  case (logged_out base rows)
  then show ?thesis using assms(2) by (auto simp: control_fence_def bumped_def release_fixed_def)
next
  case enrolled
  then show ?thesis using assms(2) by (intro control_fence_bumped) simp_all
next
  case restored
  then show ?thesis using assms(2) by (intro control_fence_bumped) simp_all
next
  case refreshed
  then show ?thesis by (intro control_fence_same) simp_all
qed

lemma registry_step_control:
  assumes "registry_step jc db db'" "lc_control db \<noteq> None"
  shows "control_fence db db'"
  using assms(1)
proof cases
  case (committed k op now db1 now')
  have "lc_control db' = lc_control db1" "lc_order db' = lc_order db1" by (simp_all add: committed(6))
  then show ?thesis
    using control_fence_trans [OF commit_effect_control [OF committed(5) assms(2)] control_fence_same] by blast
next
  case fixing
  then show ?thesis by (simp add: control_fence_def)
next
  case balancing
  then show ?thesis by (simp add: control_fence_def)
next
  case ordering
  then show ?thesis using assms(2) by (intro control_fence_bumped) simp_all
next
  case quiet
  then show ?thesis by (intro control_fence_same) (simp_all add: registry_core_eq)
qed (simp_all add: control_fence_same)

lemma registry_steps_control:
  assumes "registry_steps jc db db'" "lc_control db \<noteq> None"
  shows "control_fence db db'"
  using assms(1)
proof (induction rule: rtranclp_induct)
  case base
  then show ?case by (simp add: control_fence_same)
next
  case (step db1 db2)
  then show ?case using registry_step_control control_fence_Some [OF _ assms(2)] control_fence_trans by blast
qed

section \<open>Receipts\<close>

definition receipt_life :: "command_receipt \<Rightarrow> command_receipt \<Rightarrow> bool" where
  "receipt_life r q \<longleftrightarrow> cx_protocol q = cx_protocol r \<and> cx_key q = cx_key r \<and>
     cx_request_sha256 q = cx_request_sha256 r \<and> cx_operation q = cx_operation r \<and> cx_entity_id q = cx_entity_id r \<and>
     cx_expected_revision q = cx_expected_revision r \<and> cx_reserved_at q = cx_reserved_at r \<and>
     (cx_state r \<noteq> ''reserved'' \<longrightarrow> cx_state q = cx_state r \<and> cx_response_json q = cx_response_json r) \<and>
     (notification_receipt r \<longrightarrow> cx_claim_token q = cx_claim_token r \<or> cx_claim_token q = None)"

lemma receipt_life_refl [simp]: "receipt_life r r"
  by (simp add: receipt_life_def)

lemma receipt_life_trans: "receipt_life r q \<Longrightarrow> receipt_life q s \<Longrightarrow> receipt_life r s"
  by (auto simp: receipt_life_def notification_receipt_def)

lemma find_map_update:
  "(\<And>r. p r \<Longrightarrow> h (f r) = h r) \<Longrightarrow> find h (update_rows p f t) = map_option (\<lambda>r. if p r then f r else r) (find h t)"
  by (induction t) (auto simp: update_rows_def)

lemma read_receipt_update:
  assumes "\<And>q. cx_protocol (f q) = cx_protocol q \<and> cx_key (f q) = cx_key q"
  shows "read_command_receipt (with_receipts p f db) key = map_option (\<lambda>r. if p r then f r else r) (read_command_receipt db key)"
  unfolding read_command_receipt_def with_receipts_def
  by (simp, rule find_map_update) (simp add: has_receipt_key_def assms)

lemma receipt_update:
  assumes "read_command_receipt db key = Some r" "\<And>q. cx_protocol (f q) = cx_protocol q \<and> cx_key (f q) = cx_key q"
    "p r \<Longrightarrow> receipt_life r (f r)"
  shows "\<exists>q. read_command_receipt (with_receipts p f db) key = Some q \<and> receipt_life r q"
  using assms(1,3) by (simp add: read_receipt_update [where p = p, OF assms(2)])

lemma registry_step_receipt:
  assumes "registry_step jc db db'" "registry_schema db" "read_command_receipt db key = Some r"
  shows "\<exists>q. read_command_receipt db' key = Some q \<and> receipt_life r q"
  using assms(1)
proof cases
  case quiet
  then show ?thesis using assms(3) by (simp add: registry_core_eq read_command_receipt_def)
next
  case (committed k op now db1 now')
  have "lc_receipts db' = lc_receipts db" using commit_effect_receipts [OF committed(5)] by (simp add: committed(6))
  then show ?thesis using assms(3) by (simp add: read_command_receipt_def)
next
  case (reserved command kind entity revision token expires now)
  have "find p (xs @ ys) = (case find p xs of Some x \<Rightarrow> Some x | None \<Rightarrow> find p ys)" for p :: "command_receipt \<Rightarrow> bool" and xs ys
    by (induction xs) simp_all
  then show ?thesis using assms(3) by (simp add: reserved(2) read_command_receipt_def)
next
  case (reclaimed key' s now expires token)
  show ?thesis
    unfolding reclaimed(5)
  proof (rule receipt_update [OF assms(3)])
    assume "has_receipt_key key' r"
    then have "r = s"
      using receipt_unique [OF assms(2)] receipt_row [OF assms(3)] receipt_row [OF reclaimed(1)] by metis
    then show "receipt_life r (r\<lparr>cx_claim_token := Some token, cx_claim_expires_at := Some expires\<rparr>)"
      using reclaimed(2,3) by (simp add: receipt_life_def)
  qed simp
next
  case (finished lease s now response)
  show ?thesis
    unfolding finished(3)
  proof (rule receipt_update [OF assms(3)])
    assume "has_receipt_key (cr_key lease) r"
    then have "r = s"
      using receipt_unique [OF assms(2)] receipt_row [OF assms(3)] receipt_row [OF finished(1)] by metis
    then show "receipt_life r (completed_receipt response now r)"
      using finished(2) by (simp add: receipt_life_def completed_receipt_def holds_claim_def)
  qed (simp add: completed_receipt_def)
next
  case (annotated p progress)
  show ?thesis
    unfolding annotated(1) by (rule receipt_update [OF assms(3)]) (simp_all add: receipt_life_def)
qed (use assms(3) in \<open>simp_all add: read_command_receipt_def\<close>)

lemma registry_steps_receipt:
  assumes "registry_steps jc db db'" "registry_schema db" "read_command_receipt db key = Some r"
  shows "\<exists>q. read_command_receipt db' key = Some q \<and> receipt_life r q"
  using assms(1)
proof (induction rule: rtranclp_induct)
  case base
  then show ?case using assms(3) by simp
next
  case (step db1 db2)
  obtain q where q: "read_command_receipt db1 key = Some q" "receipt_life r q" using step.IH by blast
  obtain s where "read_command_receipt db2 key = Some s" "receipt_life q s"
    using registry_step_receipt [OF step(2) registry_steps_schema [OF step(1) assms(2)] q(1)] by blast
  then show ?case using receipt_life_trans [OF q(2)] by blast
qed

end
