(* ===== verification/Registry_Runs.thy ===== *)
theory Registry_Runs
  imports Registry_Life
begin

text \<open>
  The transactions of the account registry as one type of calls, each with its readings of the clock
  and of the random source, and runs of calls from the installed registry of \<^verbatim>\<open>schema.sql\<close>. A call
  that fails leaves the registry as it was; \<open>GenerationsChange\<close> stands for the process generation store,
  which owns the table that the logout reads.
\<close>

record registry_environment =
  re_codec :: json_codec
  re_sha256 :: "byte list \<Rightarrow> byte list"
  re_credential_pattern :: "string \<Rightarrow> bool"

datatype registry_call =
    PrepareOperation "i64 option" account_operation_preparation
  | PrepareTakeover "i64 option" account_operation_preparation account_operation_id
  | AdvanceOperation "i64 option" "i64 option" account_operation_id account_operation_phase account_operation_phase
      "string option"
  | CompleteOperationCommand "i64 option" "i64 option" quota_clock "i64 option" command_reservation account_operation_id
      account_operation_phase account_operation_phase "string option"
      "account_lifecycle_mutation_outcome \<Rightarrow> account_operation option \<Rightarrow> account_record option \<Rightarrow> store_error + json"
  | SetOperationTarget "i64 option" account_operation_id credential_binding
  | SetAccountEnabled "i64 option" account_id i64 bool
  | SetAccountEnabledCommand "i64 option" quota_clock "i64 option" command_reservation account_id i64 bool
      "account_administration_outcome \<Rightarrow> account_record option \<Rightarrow> store_error + json"
  | SetFixed "i64 option" i64 account_id i64
  | RouteCommand "i64 option" quota_clock "i64 option" command_reservation i64 account_id i64
      "routing_control_outcome \<Rightarrow> account_record option \<Rightarrow> store_error + json"
  | SetBalanced "i64 option" i64
  | SetBalancedCommand "i64 option" "i64 option" command_reservation i64 "routing_control_outcome \<Rightarrow> store_error + json"
  | SetOrder "i64 option" i64 "account_id list"
  | SetOrderCommand "i64 option" "i64 option" command_reservation i64 "account_id list"
      "routing_control_outcome \<Rightarrow> store_error + json"
  | ObserveQuota "i64 option" account_id account_quota_window i64
  | ObserveQuotaError account_id "32 word" account_quota_observation_error i64
  | ObserveQuotaAbsence "i64 option" account_id "32 word" i64
  | ObserveStore "i64 option" account_id i64 credential_binding account_store_observation
  | ObserveUsage account_id account_usage_observation "account_quota_window_observation option"
      "account_quota_window_observation option"
  | InvalidateUsage string i64 i64
  | AttestCapability "i64 option" codex_account_capability_attestation
  | ReserveCommand "i64 option" "byte list option" command_identity account_command_kind string "i64 option"
  | CompleteCommand "i64 option" command_reservation json "(string \<times> string) option"
  | CreateCredential "i64 option" credential_key "byte list"
  | RotateCredential "i64 option" credential_key credential_key "byte list"
  | DeleteCredential credential_key
  | GenerationsChange "(string \<times> string) list"

definition written :: "'e + 'a \<times> registry \<Rightarrow> registry option" where
  "written r = map_option snd (ok_opt r)"

fun registry_call_result :: "registry_environment \<Rightarrow> registry_call \<Rightarrow> registry \<Rightarrow> registry option" where
  "registry_call_result env (PrepareOperation clock p) db =
     written (prepare_account_operation (re_codec env) (re_credential_pattern env) clock p db)"
| "registry_call_result env (PrepareTakeover clock p k) db =
     written (prepare_account_recovery_takeover (re_codec env) (re_credential_pattern env) clock p k db)"
| "registry_call_result env (AdvanceOperation commit_clock clock k expected target recovery_code) db =
     written (advance_account_operation (re_codec env) (re_sha256 env) commit_clock clock k expected target recovery_code db)"
| "registry_call_result env (CompleteOperationCommand commit_clock clock clocks finish lease k expected target recovery_code build) db =
     written (complete_account_operation_command (re_codec env) (re_sha256 env) (re_credential_pattern env) commit_clock clock
       clocks finish lease k expected target recovery_code build db)"
| "registry_call_result env (SetOperationTarget clock k target) db =
     written (set_account_operation_target (re_codec env) clock k target db)"
| "registry_call_result env (SetAccountEnabled clock a n enabled) db = written (set_account_enabled clock a n enabled db)"
| "registry_call_result env (SetAccountEnabledCommand clock clocks finish lease a n enabled build) db =
     written (set_account_enabled_command (re_codec env) (re_credential_pattern env) clock clocks finish lease a n enabled build db)"
| "registry_call_result env (SetFixed clock m a n) db = written (set_fixed_account_selection clock m a n db)"
| "registry_call_result env (RouteCommand clock clocks finish lease m a n build) db =
     written (route_account_command (re_codec env) (re_credential_pattern env) clock clocks finish lease m a n build db)"
| "registry_call_result env (SetBalanced clock m) db = written (set_balanced_account_selection clock m db)"
| "registry_call_result env (SetBalancedCommand clock finish lease m build) db =
     written (set_balanced_account_selection_command (re_codec env) (re_credential_pattern env) clock finish lease m build db)"
| "registry_call_result env (SetOrder clock m order) db = written (set_account_order clock m order db)"
| "registry_call_result env (SetOrderCommand clock finish lease m order build) db =
     written (set_account_order_command (re_codec env) (re_credential_pattern env) clock finish lease m order build db)"
| "registry_call_result env (ObserveQuota clock a quota t) db = ok_opt (observe_account_quota clock a quota t db)"
| "registry_call_result env (ObserveQuotaError a d e t) db = ok_opt (observe_account_quota_error a d e t db)"
| "registry_call_result env (ObserveQuotaAbsence clock a d t) db = ok_opt (observe_account_quota_absence clock a d t db)"
| "registry_call_result env (ObserveStore clock a n expected observation) db =
     written (observe_account_store clock a n expected observation db)"
| "registry_call_result env (ObserveUsage a observation five seven) db =
     written (observe_account_usage a observation five seven db)"
| "registry_call_result env (InvalidateUsage a n t) db = ok_opt (invalidate_usage a n t db)"
| "registry_call_result env (AttestCapability clock attestation) db =
     written (attest_codex_account_capability clock attestation db)"
| "registry_call_result env (ReserveCommand clock fill command kind entity revision) db =
     written (reserve_account_command (re_codec env) clock fill command kind entity revision db)"
| "registry_call_result env (CompleteCommand clock lease result diagnostic) db =
     ok_opt (complete_account_command_with_diagnostic (re_codec env) (re_credential_pattern env) clock lease result diagnostic db)"
| "registry_call_result env (CreateCredential clock k payload) db = ok_opt (create_credential clock k payload db)"
| "registry_call_result env (RotateCredential clock k target payload) db = ok_opt (rotate_credential clock k target payload db)"
| "registry_call_result env (DeleteCredential k) db = ok_opt (delete_credential k db)"
| "registry_call_result env (GenerationsChange gens) db = Some (db\<lparr>lc_generations := gens\<rparr>)"

definition registry_apply :: "registry_environment \<Rightarrow> registry_call \<Rightarrow> registry \<Rightarrow> registry" where
  "registry_apply env call db = (case registry_call_result env call db of Some db' \<Rightarrow> db' | None \<Rightarrow> db)"

definition registry_run :: "registry_environment \<Rightarrow> registry_call list \<Rightarrow> registry \<Rightarrow> registry" where
  "registry_run env calls db = foldl (\<lambda>db call. registry_apply env call db) db calls"

definition installed_registry :: registry where
  "installed_registry = \<lparr>lc_identities = [], lc_accounts = [], lc_operations = [], lc_credentials = [], lc_order = [],
     lc_control = Some \<lparr>ct_mode = ''balanced'', ct_fixed_account_id = None, ct_revision = 1, ct_updated = 1\<rparr>,
     lc_quotas = [], lc_usages = [], lc_capability = None, lc_receipts = [], lc_generations = []\<rparr>"

section \<open>Calls take steps\<close>

lemma written_Some: "written r = Some db' \<longleftrightarrow> (\<exists>x. r = Inr (x, db'))"
  by (cases r) (auto simp: written_def ok_opt_def)

lemma advance_call_steps:
  assumes "advance_account_operation jc sha256 commit_clock clock k expected target recovery_code db = Inr (outcome, db')"
    "registry_schema db"
  shows "registry_steps jc db db'"
  using assms(1) advance_operation_steps [OF _ assms(2)] unfolding advance_account_operation_def
  by (auto simp: and_then_Ok_iff registry_commit_Ok_iff)

lemma prepare_call_steps:
  "prepare_account_operation jc credential_pattern clock p db = Inr (outcome, db') \<Longrightarrow> registry_schema db \<Longrightarrow> registry_steps jc db db'"
  "prepare_account_recovery_takeover jc credential_pattern clock p k db = Inr (outcome, db') \<Longrightarrow> registry_schema db \<Longrightarrow>
     registry_steps jc db db'"
  using prepare_operation_steps unfolding prepare_account_operation_def prepare_account_recovery_takeover_def
  by (auto simp: and_then_Ok_iff registry_commit_Ok_iff split: if_splits)

lemma answered_steps:
  assumes "registry_steps jc db db1" "answer_command jc credential_pattern clock lease built db1 = Inr (response, db')"
    "registry_schema db"
  shows "registry_steps jc db db'"
  using assms(1) answer_command_step [OF assms(2) registry_steps_schema [OF assms(1,3)]] by simp

lemma commit_routing_Ok: "commit_routing step = Inr (outcome, db') \<Longrightarrow> step = Inr (outcome, db')"
  by (auto simp: commit_routing_def and_then_Ok_iff registry_commit_Ok_iff)

lemma complete_operation_command_steps:
  assumes "complete_account_operation_command jc sha256 credential_pattern commit_clock clock clocks finish lease k expected
      target recovery_code build db = Inr (response, db')" "registry_schema db"
  shows "registry_steps jc db db'"
proof -
  obtain outcome db1 built where
    advance: "advance_operation_sync jc sha256 commit_clock clock k expected target recovery_code db = Inr (outcome, db1)" and
    answer: "answer_command jc credential_pattern finish lease built db1 = Inr (response, db')"
    using assms(1) unfolding complete_account_operation_command_def by (auto simp: and_then_Ok_iff)
  show ?thesis by (rule answered_steps [OF advance_operation_steps [OF advance assms(2)] answer assms(2)])
qed

lemma enabled_command_steps:
  assumes "set_account_enabled_command jc credential_pattern clock clocks finish lease a n enabled build db = Inr (response, db')"
    "registry_schema db"
  shows "registry_steps jc db db'"
proof -
  obtain outcome db1 built where set: "set_account_enabled_sync clock a n enabled db = Inr (outcome, db1)" and
    answer: "answer_command jc credential_pattern finish lease built db1 = Inr (response, db')"
    using assms(1) unfolding set_account_enabled_command_def by (auto simp: and_then_Ok_iff)
  show ?thesis by (rule answered_steps [OF set_account_enabled_steps [OF set assms(2)] answer assms(2)])
qed

lemma route_command_steps:
  assumes "route_account_command jc credential_pattern clock clocks finish lease m a n build db = Inr (response, db')"
    "registry_schema db"
  shows "registry_steps jc db db'"
proof -
  obtain outcome db1 built where set: "route_fixed_routing_sync clock m a n db = Inr (outcome, db1)" and
    answer: "answer_command jc credential_pattern finish lease built db1 = Inr (response, db')"
    using assms(1) unfolding route_account_command_def by (auto simp: and_then_Ok_iff)
  show ?thesis by (rule answered_steps [OF route_fixed_routing_steps [OF set] answer assms(2)])
qed

lemma balanced_command_steps:
  assumes "set_balanced_account_selection_command jc credential_pattern clock finish lease m build db = Inr (response, db')"
    "registry_schema db"
  shows "registry_steps jc db db'"
proof -
  obtain outcome db1 built where set: "set_balanced_routing_sync clock m db = Inr (outcome, db1)" and
    answer: "answer_command jc credential_pattern finish lease built db1 = Inr (response, db')"
    using assms(1) unfolding set_balanced_account_selection_command_def by (auto simp: and_then_Ok_iff)
  show ?thesis by (rule answered_steps [OF set_balanced_routing_steps [OF set] answer assms(2)])
qed

lemma order_command_steps:
  assumes "set_account_order_command jc credential_pattern clock finish lease m order build db = Inr (response, db')"
    "registry_schema db"
  shows "registry_steps jc db db'"
proof -
  obtain outcome db1 built where set: "set_account_order_sync clock m order db = Inr (outcome, db1)" and
    answer: "answer_command jc credential_pattern finish lease built db1 = Inr (response, db')"
    using assms(1) unfolding set_account_order_command_def by (auto simp: and_then_Ok_iff)
  show ?thesis by (rule answered_steps [OF set_account_order_steps [OF set] answer assms(2)])
qed

lemma selection_steps:
  "set_fixed_account_selection clock m a n db = Inr (outcome, db') \<Longrightarrow> registry_steps jc db db'"
  "set_balanced_account_selection clock m db = Inr (outcome, db') \<Longrightarrow> registry_steps jc db db'"
  "set_account_order clock m order db = Inr (outcome, db') \<Longrightarrow> registry_steps jc db db'"
  using set_fixed_routing_steps set_balanced_routing_steps set_account_order_steps
  by (auto simp: set_fixed_account_selection_def set_balanced_account_selection_def set_account_order_def and_then_Ok_iff
      dest!: commit_routing_Ok)

lemma enabled_steps:
  "set_account_enabled clock a n enabled db = Inr (outcome, db') \<Longrightarrow> registry_schema db \<Longrightarrow> registry_steps jc db db'"
  using set_account_enabled_steps by (auto simp: set_account_enabled_def and_then_Ok_iff registry_commit_Ok_iff)

lemma target_steps:
  "set_account_operation_target jc clock k target db = Inr (outcome, db') \<Longrightarrow> registry_schema db \<Longrightarrow> registry_steps jc db db'"
  using set_operation_target_steps by (auto simp: set_account_operation_target_def and_then_Ok_iff registry_commit_Ok_iff)

lemma generations_step: "registry_schema db \<Longrightarrow> registry_steps jc db (db\<lparr>lc_generations := gens\<rparr>)"
proof (rule quiet_step)
  have "identified (db\<lparr>lc_generations := gens\<rparr>) = identified db" by (simp add: identified_def fun_eq_iff)
  then show "registry_schema (db\<lparr>lc_generations := gens\<rparr>)" if "registry_schema db"
    using that by (simp add: registry_schema_def registry_rows_checked_def registry_keys_unique_def registry_references_def)
qed (simp add: registry_core_def)

lemma registry_call_steps:
  assumes "registry_call_result env call db = Some db'" "registry_schema db"
  shows "registry_steps (re_codec env) db db'"
proof (cases call)
  case PrepareOperation
  then show ?thesis using assms prepare_call_steps(1) by (auto simp: written_Some)
next
  case PrepareTakeover
  then show ?thesis using assms prepare_call_steps(2) by (auto simp: written_Some)
next
  case AdvanceOperation
  then show ?thesis using assms advance_call_steps by (auto simp: written_Some)
next
  case CompleteOperationCommand
  then show ?thesis using assms complete_operation_command_steps by (auto simp: written_Some)
next
  case SetOperationTarget
  then show ?thesis using assms target_steps by (auto simp: written_Some)
next
  case SetAccountEnabled
  then show ?thesis using assms enabled_steps by (auto simp: written_Some)
next
  case SetAccountEnabledCommand
  then show ?thesis using assms enabled_command_steps by (auto simp: written_Some)
next
  case SetFixed
  then show ?thesis using assms selection_steps(1) by (auto simp: written_Some)
next
  case RouteCommand
  then show ?thesis using assms route_command_steps by (auto simp: written_Some)
next
  case SetBalanced
  then show ?thesis using assms selection_steps(2) by (auto simp: written_Some)
next
  case SetBalancedCommand
  then show ?thesis using assms balanced_command_steps by (auto simp: written_Some)
next
  case SetOrder
  then show ?thesis using assms selection_steps(3) by (auto simp: written_Some)
next
  case SetOrderCommand
  then show ?thesis using assms order_command_steps by (auto simp: written_Some)
next
  case ObserveQuota
  then show ?thesis using assms observe_account_quota_steps by simp
next
  case ObserveQuotaError
  then show ?thesis using assms observe_account_quota_error_steps by simp
next
  case ObserveQuotaAbsence
  then show ?thesis using assms observe_account_quota_absence_steps by simp
next
  case ObserveStore
  then show ?thesis using assms observe_account_store_steps by (auto simp: written_Some)
next
  case ObserveUsage
  then show ?thesis using assms observe_account_usage_steps by (auto simp: written_Some)
next
  case InvalidateUsage
  then show ?thesis using assms invalidate_usage_steps by simp
next
  case AttestCapability
  then show ?thesis using assms attest_steps by (auto simp: written_Some)
next
  case ReserveCommand
  then show ?thesis using assms reserve_account_command_steps by (auto simp: written_Some)
next
  case CompleteCommand
  then show ?thesis using assms complete_account_command_steps by simp
next
  case CreateCredential
  then show ?thesis using assms create_credential_steps by simp
next
  case RotateCredential
  then show ?thesis using assms rotate_credential_steps by simp
next
  case DeleteCredential
  then show ?thesis using assms delete_credential_steps by simp
next
  case GenerationsChange
  then show ?thesis using assms generations_step by auto
qed

lemma registry_apply_steps: "registry_schema db \<Longrightarrow> registry_steps (re_codec env) db (registry_apply env call db)"
  using registry_call_steps by (auto simp: registry_apply_def split: option.splits)

lemma registry_run_steps: "registry_schema db \<Longrightarrow> registry_steps (re_codec env) db (registry_run env calls db)"
proof (induction calls rule: rev_induct)
  case (snoc call calls)
  then have "registry_schema (registry_run env calls db)" using registry_steps_schema by blast
  then show ?case using snoc registry_apply_steps [of _ env call] by (auto simp: registry_run_def intro: rtranclp_trans)
qed (simp add: registry_run_def)

lemma installed_invariant: "registry_invariant installed_registry"
  by (simp add: registry_invariant_def registry_schema_def registry_rows_checked_def registry_keys_unique_def
      registry_references_def operation_keys_unique_def routing_universe_def fixed_target_live_def live_ids_def
      installed_registry_def control_row_checks_def sql_integer_def i64_max_def null_or_def order_ids_def)

lemma run_invariant: "registry_invariant (registry_run env calls installed_registry)"
  using registry_steps_invariant [OF registry_run_steps installed_invariant] installed_invariant
  by (simp add: registry_invariant_def)

lemma run_schema: "registry_schema (registry_run env calls installed_registry)"
  using run_invariant by (simp add: registry_invariant_def)

lemma registry_run_append: "registry_run env (calls @ later) db = registry_run env later (registry_run env calls db)"
  by (simp add: registry_run_def)

end
