(* ===== verification/Registry_Claims.thy ===== *)
theory Registry_Claims
  imports Registry_Runs
begin

text \<open>
  The properties of the account registry: its routing universe, the consistency of its snapshot, the
  routing order as a list, what a commit needs and does, and the life of operations and revisions.
\<close>

section \<open>The universe\<close>

lemma sort_key_map: "sort_key f (map h xs) = map h (sort_key (\<lambda>x. f (h x)) xs)"
proof -
  have "insort_key f (h x) (map h ys) = map h (insort_key (\<lambda>x. f (h x)) x ys)" for x ys
    by (induction ys) simp_all
  then show ?thesis by (induction xs) (simp_all add: insort_key_def [symmetric])
qed

lemma sorted_by_position:
  fixes g :: "'r \<Rightarrow> string"
  assumes "distinct ids" "distinct (map g rows)" "set (map g rows) = set ids"
    "\<And>i r. i < length ids \<Longrightarrow> r \<in> set rows \<Longrightarrow> g r = ids ! i \<Longrightarrow> f r = int i"
  shows "map g (sort_key (\<lambda>r. (f r, g r)) rows) = ids"
proof -
  define entry where "entry r = \<lparr>od_account_id = g r, od_position = f r, od_updated = 0\<rparr>" for r
  have "numbered ids (map entry rows)"
    using assms by (auto simp: numbered_def entry_def o_def)
  then have "order_ids (map entry rows) = ids" by (rule numbered_order_ids)
  then show ?thesis by (simp add: order_ids_def sort_key_map entry_def o_def)
qed

lemma routing_universe_position:
  assumes "routing_universe db" "i < length (order_ids (lc_order db))"
  shows "registry_position db (order_ids (lc_order db) ! i) = int i"
proof -
  have numbered: "numbered (order_ids (lc_order db)) (lc_order db)" using assms(1) by (simp add: routing_universe_def)
  obtain r where r: "r \<in> set (lc_order db)" "od_account_id r = order_ids (lc_order db) ! i" "od_position r = int i"
    by (rule numbered_row [OF numbered assms(2)])
  have "find_row od_account_id (lc_order db) (od_account_id r) = Some r"
    by (rule find_row_distinct [OF _ r(1)]) (use numbered in \<open>simp add: numbered_def\<close>)
  then show ?thesis using r(2,3) by (simp add: registry_position_def)
qed

lemma listed_in_order:
  assumes "registry_invariant db" "length (filter live_account (lc_accounts db)) \<le> n"
  shows "map an_account_id (registry_rows db None n) = live_order db"
proof -
  let ?ids = "order_ids (lc_order db)" and ?rows = "filter live_account (lc_accounts db)"
  have u: "routing_universe db" and schema: "registry_schema db" using assms(1) by (simp_all add: registry_invariant_def)
  have "map an_account_id (sort_key (\<lambda>r. (registry_position db (an_account_id r), an_account_id r)) ?rows) = ?ids"
  proof (rule sorted_by_position)
    show "distinct ?ids" using u unfolding routing_universe_def numbered_def by blast
    show "distinct (map an_account_id ?rows)" using schema_account_keys [OF schema] by (rule distinct_map_filter)
    show "set (map an_account_id ?rows) = set ?ids" using u by (simp add: routing_universe_def live_ids_def)
    show "registry_position db (an_account_id r) = int i" if "i < length ?ids" "an_account_id r = ?ids ! i" for i r
      using routing_universe_position [OF u that(1)] that(2) by simp
  qed
  moreover have "registry_rows db None n = sort_key (\<lambda>r. (registry_position db (an_account_id r), an_account_id r)) ?rows"
    using assms(2) by (simp add: registry_rows_def)
  ultimately show ?thesis using live_order_ids [OF u] by simp
qed

lemma account_from_base_Ok:
  "account_from_base clocks db r ready = Inr record \<Longrightarrow>
     account_id_text (ar_account_id record) = an_account_id r \<and> ar_tombstoned record = (an_tombstoned r \<noteq> None) \<and>
     ar_label record = an_label r \<and> ar_enabled record = an_enabled r \<and> ar_revision record = an_revision r"
  by (auto simp: account_from_base_def and_then_Ok_iff dest: account_id_reads)

lemma read_registry_Ok:
  assumes "read_account_registry_sync clocks None limit db = Inr accounts" "registry_invariant db"
  shows "map (account_id_text \<circ> ar_account_id) accounts = live_order db \<and> \<not> list_ex ar_tombstoned accounts"
proof -
  have limit: "length (filter live_account (lc_accounts db)) \<le> unat limit"
    and accounts: "traverse (\<lambda>r. account_from_base clocks db r (capability_is_ready db)) (registry_rows db None (unat limit)) = Inr accounts"
    using assms(1) by (auto simp: read_account_registry_sync_def split: if_splits)
  have rows: "list_all2 (\<lambda>r a. account_from_base clocks db r (capability_is_ready db) = Inr a)
      (registry_rows db None (unat limit)) accounts"
    by (rule traverse_elements [OF accounts])
  then have "map an_account_id (registry_rows db None (unat limit)) = map (account_id_text \<circ> ar_account_id) accounts"
    by (induction rule: list_all2_induct) (auto dest: account_from_base_Ok)
  moreover have "\<not> ar_tombstoned a" if a: "a \<in> set accounts" for a
  proof -
    obtain r where r: "r \<in> set (registry_rows db None (unat limit))" "account_from_base clocks db r (capability_is_ready db) = Inr a"
      by (rule traverse_each [OF accounts a])
    then have "live_account r" by (auto simp: registry_rows_def dest: in_set_takeD)
    then show ?thesis using account_from_base_Ok [OF r(2)] by (simp add: live_account_def)
  qed
  ultimately show ?thesis using listed_in_order [OF assms(2) limit] by (simp add: list_ex_iff)
qed

lemma account_texts_inj: "map account_id_text xs = map account_id_text ys \<Longrightarrow> xs = ys"
  by (rule map_injective) (auto simp: inj_def account_id.expand)

text \<open>
  C10. In every registry that a run of the store reaches from the installed one, the routing order lists
  exactly the accounts that are not tombstoned, without repetition and under the positions 0, 1, 2 and so
  on; a fixed selection names a listed account; and no two accounts, tombstoned ones included, have one
  display name, though no constraint of the schema says so.
\<close>

theorem registry_routing_invariant:
  fixes env calls
  defines "db \<equiv> registry_run env calls installed_registry"
  shows "set (live_order db) = set (live_ids db) \<and> distinct (live_order db) \<and>
    map (registry_position db) (live_order db) = map int [0 ..< length (live_order db)] \<and>
    null_or (\<lambda>c. null_or (\<lambda>a. a \<in> set (live_order db)) (ct_fixed_account_id c)) (lc_control db) \<and>
    distinct (map an_label (lc_accounts db))"
proof -
  have inv: "registry_invariant db" unfolding db_def by (rule run_invariant)
  then have u: "routing_universe db" by (simp add: registry_invariant_def)
  have ids: "live_order db = order_ids (lc_order db)" by (rule live_order_ids [OF u])
  have same: "set (live_order db) = set (live_ids db)" using u unfolding ids routing_universe_def by blast
  have "map (registry_position db) (live_order db) = map int [0 ..< length (live_order db)]"
    unfolding ids by (rule nth_equalityI) (simp_all add: routing_universe_position [OF u])
  moreover have "distinct (live_order db)" using u unfolding ids routing_universe_def numbered_def by blast
  moreover have "fixed_target_live db" "distinct (map an_label (lc_accounts db))"
    using inv by (simp_all add: registry_invariant_def)
  ultimately show ?thesis using same by (simp add: fixed_target_live_def)
qed

text \<open>
  The cross-check of the registry snapshot never fails: when the accounts and the routing control of
  a registry that satisfies the invariant can be read, the snapshot returns both, and the accounts stand
  exactly in the routing order.
\<close>

lemma registry_snapshot_consistent:
  assumes "registry_invariant db" "limit \<noteq> 0" "unat limit \<le> 512"
    and "read_account_registry_sync clocks None limit db = Inr accounts"
    and "read_routing_control_sync db = Inr routing"
  shows "read_account_registry_snapshot clocks limit db = Inr (accounts, routing) \<and>
    map ar_account_id accounts = arc_order routing"
proof -
  have u: "routing_universe db" using assms(1) by (simp add: registry_invariant_def)
  obtain c where c: "lc_control db = Some c" "map account_id_text (arc_order routing) = live_order db"
    and mode: "case arc_mode routing of Fixed a \<Rightarrow> ct_fixed_account_id c = Some (account_id_text a) \<and> ct_mode c = ''fixed''
      | Balanced \<Rightarrow> ct_fixed_account_id c = None \<and> ct_mode c = ''balanced''"
    by (rule read_routing_control_row [OF assms(5)])
  have listed: "map (account_id_text \<circ> ar_account_id) accounts = live_order db" "\<not> list_ex ar_tombstoned accounts"
    using read_registry_Ok [OF assms(4,1)] by auto
  then have same: "map ar_account_id accounts = arc_order routing"
    using c(2) account_texts_inj [of "map ar_account_id accounts"] by simp
  have "distinct (live_order db)"
    using u unfolding live_order_ids [OF u] routing_universe_def numbered_def by blast
  then have distinct: "distinct (arc_order routing)" unfolding c(2) [symmetric] by (simp add: distinct_map)
  have "a \<in> set (arc_order routing)" if "arc_mode routing = Fixed a" for a
  proof -
    have "account_id_text a \<in> set (live_ids db)"
      using assms(1) c(1) mode that by (simp add: registry_invariant_def fixed_target_live_def null_or_def)
    then have "account_id_text a \<in> set (map account_id_text (arc_order routing))"
      using u unfolding c(2) live_order_ids [OF u] routing_universe_def by blast
    then obtain b where "b \<in> set (arc_order routing)" "account_id_text a = account_id_text b" by auto
    then show ?thesis using account_id.expand [of a b] by simp
  qed
  then have "validate_registry_snapshot accounts routing = Inr ()"
    using same distinct listed(2)
    by (simp add: validate_registry_snapshot_def Let_def split: account_selection_mode.splits)
  then show ?thesis using assms same by (simp add: read_account_registry_snapshot_def)
qed

section \<open>Commits\<close>

text \<open>The advance of an operation to its commit, taken apart.\<close>

lemma advance_committed:
  assumes "advance_operation_sync jc sha256 commit_clock clock k expected Committed recovery_code db = Inr (LifecycleApplied m, db')"
    "registry_schema db"
  obtains op now db1 now' where "read_operation_sync jc db k = Inr (Some op)" "ao_phase op = StoreApplied"
    "ao_superseded_by_operation_id op = None" "takeover_holds jc op db" "commit_effect jc op now db db1"
    "db' = with_operation (operation_id_text k) (moved_operation Committed None now') (superseded_by_commit op now db1)"
    "registry_schema db'" "m = mutation_for db' (ao_account_id op) Committed"
proof -
  have valid: "validate_transition_recovery_shape Committed recovery_code = Inr ()"
    using assms(1) by (auto simp: advance_operation_sync_def and_then_Ok_iff)
  have shape: "recovery_code = None"
    using assms(1) by (auto simp: advance_operation_sync_def validate_transition_recovery_shape_def split: if_splits)
  obtain v where v: "read_operation_sync jc db k = Inr v"
    using assms(1) by (auto simp: advance_operation_sync_def and_then_Ok_iff)
  obtain op where op: "v = Some op" using assms(1) v by (cases v) (auto simp: advance_operation_sync_def and_then_Ok_iff)
  have "(let actual = mutation_for db (ao_account_id op) (ao_phase op) in
       if ao_phase op = Committed then Inr (LifecycleReplayed actual, db)
       else if ao_superseded_by_operation_id op \<noteq> None \<or> ao_phase op \<noteq> expected
          \<or> \<not> allowed_operation_transition expected Committed
       then Inr (LifecycleRejected StaleOperation actual, db)
       else and_then (commit_account_operation jc sha256 commit_clock op db)
       (\<lambda>(rejection, db1). case rejection of
         Some e \<Rightarrow> Inr (LifecycleRejected e (mutation_for db (ao_account_id op) (ao_phase op)), db1)
       | None \<Rightarrow> and_then (move_operation clock k expected Committed recovery_code db1) (\<lambda>db2.
           Inr (LifecycleApplied (mutation_for db2 (ao_account_id op) Committed), db2)))) = Inr (LifecycleApplied m, db')"
    using assms(1) unfolding advance_operation_sync_def valid v op Let_def by (simp split: if_split_asm)
  then obtain db2 where phase: "ao_superseded_by_operation_id op = None" "ao_phase op = StoreApplied"
    and commit: "commit_account_operation jc sha256 commit_clock op db = Inr (None, db2)"
    and move: "move_operation clock k expected Committed recovery_code db2 = Inr db'"
    and m: "m = mutation_for db' (ao_account_id op) Committed"
    by (auto simp: Let_def and_then_Ok_iff allowed_to_Committed split: if_splits option.splits)
  obtain now db1 where effect: "takeover_holds jc op db" "commit_effect jc op now db db1" "db2 = superseded_by_commit op now db1"
    "registry_schema db2"
    by (rule commit_operation_effect [OF commit assms(2)]) blast
  obtain now' where moved: "registry_schema db'"
    "db' = with_operation (operation_id_text k) (moved_operation Committed recovery_code now') db2"
    by (rule move_operation_Ok [OF move effect(4)]) blast
  show thesis
    by (rule that [OF v [unfolded op] phase(2,1) effect(1,2) _ moved(1) m]) (simp add: moved(2) effect(3) shape)
qed

definition reference_order :: "account_operation_kind \<Rightarrow> string \<Rightarrow> string list \<Rightarrow> string list" where
  "reference_order kind a order = (case kind of
       Enroll \<Rightarrow> order @ [a]
     | Import \<Rightarrow> order @ [a]
     | Refresh \<Rightarrow> order
     | Logout \<Rightarrow> filter (\<lambda>b. b \<noteq> a) order)"

lemma commit_effect_order:
  assumes "commit_effect jc op now db db'" "registry_schema db" "routing_facts db"
  shows "order_ids (lc_order db') = reference_order (ao_kind op) (operation_account op) (order_ids (lc_order db))"
  using assms(1)
proof cases
  case (enrolled target enabled label)
  let ?a = "operation_account op"
  have absent: "?a \<notin> set (live_ids db)" using enrolled(5) live_ids_found [OF assms(2)] by simp
  have "set (live_ids db') = insert ?a (set (live_ids db))"
    using enrolled(1) by (auto simp: live_ids_def live_account_def enrolled_account_def)
  then show ?thesis
    using universe_append [OF assms(3) absent] enrolled(1,2) by (auto simp: reference_order_def new_account_kind_def)
next
  case (restored target base previous enabled)
  let ?a = "operation_account op" and ?f = "restored_account (an_label base) enabled (cb_provider target) now"
  have absent: "?a \<notin> set (live_ids db)" using restored(5,6) live_ids_found [OF assms(2)] by simp
  have "live_ids db' = live_ids (with_account ?a ?f db)" using restored(1) by (simp add: live_ids_def)
  then have "set (live_ids db') = insert ?a (set (live_ids db))"
    using live_ids_with_account [OF assms(2) restored(5), of ?f] by (simp add: restored_account_def)
  then show ?thesis
    using universe_append [OF assms(3) absent] restored(1,2) by (auto simp: reference_order_def new_account_kind_def)
next
  case (refreshed target base)
  then show ?thesis by (simp add: reference_order_def)
next
  case (logged_out base rows)
  then show ?thesis using numbered_order_ids [OF logged_out(8)] by (simp add: reference_order_def)
qed

text \<open>
  C11. The numbered rows of the routing order behave as a list: a commit of an enrollment appends the
  account, a commit of a logout removes it and keeps the order of the others (although the code shifts
  every position by 512 and numbers them again), and a commit of a refresh leaves the order alone.
\<close>

theorem commit_updates_order_as_list:
  assumes "advance_operation_sync jc sha256 commit_clock clock k expected Committed recovery_code db = Inr (LifecycleApplied m, db')"
    and "registry_invariant db" "read_operation_sync jc db k = Inr (Some op)"
  shows "live_order db' = reference_order (ao_kind op) (account_id_text (ao_account_id op)) (live_order db)"
proof -
  have schema: "registry_schema db" and facts: "routing_facts db" using assms(2) by (simp_all add: registry_invariant_facts)
  obtain op' now db1 now' where "read_operation_sync jc db k = Inr (Some op')" and effect: "commit_effect jc op' now db db1"
    and db': "db' = with_operation (operation_id_text k) (moved_operation Committed None now') (superseded_by_commit op' now db1)"
    by (rule advance_committed [OF assms(1) schema])
  then have op: "op' = op" using assms(3) by simp
  have after: "routing_facts db'"
    by (rule routing_facts_core [OF commit_effect_facts [OF effect schema facts]]) (simp_all add: db')
  have "order_ids (lc_order db') = reference_order (ao_kind op) (operation_account op) (order_ids (lc_order db))"
    using commit_effect_order [OF effect schema facts] by (simp add: db' op)
  then show ?thesis
    using after facts by (simp add: live_order_ids routing_facts_def operation_account_def)
qed

end
