(* ===== verification/Registry_Outcomes.thy ===== *)
theory Registry_Outcomes
  imports Registry_Claims
begin

text \<open>
  More properties of the account registry: every call refines the step relation, what a commit needs and
  leaves behind, the life of operations, the fences of revisions, and the receipts of commands.
\<close>

section \<open>Commits\<close>

lemma find_account_after_operation [simp]:
  "find_account (with_operation k f db) a = find_account db a"
  "find_account (superseded_by_commit op now db) a = find_account db a"
  by (rule find_account_cong, simp)+

definition committed_account :: "account_operation \<Rightarrow> registered_account option \<Rightarrow> registered_account \<Rightarrow> bool" where
  "committed_account op before r \<longleftrightarrow>
     an_revision r = (case before of None \<Rightarrow> 1 | Some base \<Rightarrow> an_revision base + 1) \<and>
     (case ao_target op of
        Some target \<Rightarrow> ao_kind op \<noteq> Logout \<longrightarrow> an_tombstoned r = None \<and> an_store_observation r = ''exact'' \<and>
          an_provider_account_id r = pid_account_id (cb_provider target)
      | None \<Rightarrow> True) \<and>
     (ao_kind op = Logout \<longrightarrow> an_tombstoned r \<noteq> None \<and> \<not> an_enabled r \<and> an_store_observation r = ''missing'') \<and>
     (new_account_kind (ao_kind op) \<longrightarrow> ao_requested_enabled op = Some (an_enabled r))"

lemma commit_effect_account_row:
  assumes "commit_effect jc op now db db'" "registry_schema db"
  shows "\<exists>r. find_account db' (operation_account op) = Some r \<and> committed_account op (find_account db (operation_account op)) r"
  using assms(1)
proof cases
  case (enrolled target enabled label)
  then show ?thesis
    by (auto simp: find_account_def find_row_append enrolled_account_def committed_account_def new_account_kind_def)
next
  case (restored target base previous enabled)
  let ?f = "restored_account (an_label base) enabled (cb_provider target) now"
  have "find_account db' (operation_account op) = find_account (with_account (operation_account op) ?f db) (operation_account op)"
    unfolding restored(1) by (rule find_account_cong) simp
  also have "\<dots> = Some (?f base)"
    using find_with_account [OF restored(5), of ?f "operation_account op"] by (simp add: restored_account_def)
  finally show ?thesis
    using restored(2,3,5,11) by (auto simp: restored_account_def committed_account_def new_account_kind_def)
next
  case (refreshed target base)
  then show ?thesis
    using find_with_account [OF refreshed(5), of "refreshed_account (cb_provider target) now" "operation_account op"]
    by (auto simp: refreshed_account_def committed_account_def new_account_kind_def)
next
  case (logged_out base rows)
  let ?f = "logged_out_account now"
  have "find_account db' (operation_account op) = find_account (with_account (operation_account op) ?f db) (operation_account op)"
    unfolding logged_out(1) by (rule find_account_cong) simp
  also have "\<dots> = Some (?f base)"
    using find_with_account [OF logged_out(5), of ?f "operation_account op"] by (simp add: logged_out_account_def)
  finally show ?thesis
    using logged_out(2,5) by (auto simp: logged_out_account_def committed_account_def new_account_kind_def split: option.splits)
qed

lemma commit_effect_authority:
  assumes "commit_effect jc op now db db'"
  shows "if ao_kind op = Logout
    then credential_binding_sync db (operation_account op) = Inr None \<and> \<not> account_in_use db (operation_account op)
    else ao_target op \<noteq> None \<and> credential_binding_sync db (operation_account op) = Inr (ao_target op)"
  using assms by cases (auto simp: new_account_kind_def)

text \<open>
  C3. A commit is authorized by the stored credential. An advance that commits an operation found it at
  \<^verbatim>\<open>store_applied\<close> and not superseded; an enrollment, import or refresh found exactly its target in the
  credential store, a logout found no credential and no process generation that is not dead. Afterwards
  the account stands at the next revision (the first one for a new account) with what the operation asked
  for, a logged-out account is disabled and tombstoned, and the outcome reports that revision.
\<close>

theorem commit_is_authorized:
  assumes "advance_operation_sync jc sha256 commit_clock clock k expected Committed recovery_code db = Inr (LifecycleApplied m, db')"
    and "registry_schema db" "read_operation_sync jc db k = Inr (Some op)"
  shows "ao_phase op = StoreApplied \<and> ao_superseded_by_operation_id op = None \<and>
    (if ao_kind op = Logout
     then credential_binding_sync db (account_id_text (ao_account_id op)) = Inr None \<and>
       \<not> account_in_use db (account_id_text (ao_account_id op))
     else ao_target op \<noteq> None \<and> credential_binding_sync db (account_id_text (ao_account_id op)) = Inr (ao_target op)) \<and>
    (\<exists>r. find_account db' (account_id_text (ao_account_id op)) = Some r \<and>
       committed_account op (find_account db (account_id_text (ao_account_id op))) r \<and>
       lm_account_revision m = an_revision r \<and> lm_phase m = Committed)"
proof -
  obtain op' now db1 now' where read: "read_operation_sync jc db k = Inr (Some op')" and phase: "ao_phase op' = StoreApplied"
    "ao_superseded_by_operation_id op' = None" and effect: "commit_effect jc op' now db db1"
    and db': "db' = with_operation (operation_id_text k) (moved_operation Committed None now') (superseded_by_commit op' now db1)"
    and m: "m = mutation_for db' (ao_account_id op') Committed"
    by (rule advance_committed [OF assms(1,2)])
  have op: "op' = op" using read assms(3) by simp
  obtain r where r: "find_account db1 (operation_account op) = Some r"
    "committed_account op (find_account db (operation_account op)) r"
    using commit_effect_account_row [OF effect assms(2)] unfolding op by blast
  have found: "find_account db' (account_id_text (ao_account_id op)) = Some r"
    using r(1) by (simp add: db' operation_account_def)
  then have "lm_account_revision m = an_revision r" "lm_phase m = Committed"
    using m op by (simp_all add: mutation_for_def account_revision_or_zero_def)
  then show ?thesis
    using phase found r(2) commit_effect_authority [OF effect] unfolding op by (simp add: operation_account_def split: if_split_asm)
qed

section \<open>Refinement and life\<close>

text \<open>
  C31. Every transaction of the store is a path of the step relation of the registry, whatever its
  arguments, clock readings and random bytes: operations are prepared, moved along the allowed transitions
  or committed with one of the four effects, accounts change under their key, the routing control and the
  order under the next revision, and receipts are reserved, claimed again after expiry (notifications
  never), finished by the holder of the claim or annotated.
\<close>

theorem registry_calls_refine:
  assumes "registry_schema db"
  shows "(registry_step (re_codec env))\<^sup>*\<^sup>* db (registry_apply env call db) \<and> registry_schema (registry_apply env call db)"
  using registry_apply_steps [OF assms] registry_steps_schema [OF registry_apply_steps assms] assms by blast

text \<open>
  C32. An operation is never lost and never rewritten: through every run it keeps its request, its phases
  follow the allowed transitions, a target that is set stays, and once it is committed, cancelled or
  superseded its row does not change any more.
\<close>

theorem operation_history_is_fixed:
  assumes "registry_schema db" "find_operation db k = Some r"
  shows "\<exists>q. find_operation (registry_run env calls db) k = Some q \<and> same_request r q \<and>
    allowed_phase\<^sup>*\<^sup>* (lo_phase r) (lo_phase q) \<and> (lo_target_json r = None \<or> lo_target_json q = lo_target_json r) \<and>
    (if at_rest r then q = r else True)"
  using registry_steps_operation [OF registry_run_steps [OF assms(1)] assms]
  unfolding operation_life_def by (metis (full_types))

text \<open>
  C33. Revisions are fences. Through every run an account stays, keeps its display name, and never
  decreases its revision; at an equal revision its enablement, provider identity and tombstone are the same.
  The routing control never decreases its revision either, and at an equal revision the mode, the fixed
  account and the order of all accounts are the same.
\<close>

theorem registry_revision_fences:
  assumes "registry_schema db" "find_account db a = Some r" "lc_control db = Some c"
  shows "(\<exists>q. find_account (registry_run env calls db) a = Some q \<and> an_label q = an_label r \<and>
      (an_revision r < an_revision q \<or> an_revision q = an_revision r \<and> an_enabled q = an_enabled r \<and>
         an_provider_account_id q = an_provider_account_id r \<and> an_tombstoned q = an_tombstoned r)) \<and>
    (\<exists>c'. lc_control (registry_run env calls db) = Some c' \<and>
      (ct_revision c < ct_revision c' \<or>
       c' = c \<and> order_ids (lc_order (registry_run env calls db)) = order_ids (lc_order db)))"
proof
  show "\<exists>q. find_account (registry_run env calls db) a = Some q \<and> an_label q = an_label r \<and>
      (an_revision r < an_revision q \<or> an_revision q = an_revision r \<and> an_enabled q = an_enabled r \<and>
         an_provider_account_id q = an_provider_account_id r \<and> an_tombstoned q = an_tombstoned r)"
    using registry_steps_account [OF registry_run_steps [OF assms(1)] assms(2)]
    unfolding account_fence_def same_authority_iff by metis
  have "control_fence db (registry_run env calls db)"
    using registry_steps_control [OF registry_run_steps [OF assms(1)]] assms(3) by simp
  then show "\<exists>c'. lc_control (registry_run env calls db) = Some c' \<and>
      (ct_revision c < ct_revision c' \<or>
       c' = c \<and> order_ids (lc_order (registry_run env calls db)) = order_ids (lc_order db))"
    using assms(3) by (auto simp: control_fence_def split: option.splits)
qed

section \<open>Receipts\<close>

lemma find_append: "find p (xs @ ys) = (case find p xs of Some x \<Rightarrow> Some x | None \<Rightarrow> find p ys)"
  by (induction xs) simp_all

lemma reserve_finds:
  assumes "reserve_account_command jc clock fill command kind entity revision db = Inr (ClaimOwned lease, db')"
  shows "\<exists>r. read_command_receipt db' (ci_key command) = Some r \<and> cx_operation r = command_kind_text kind \<and>
    cx_request_sha256 r = ci_request_hash command \<and> cx_claim_token r = Some (cr_claim_token lease) \<and> cr_key lease = ci_key command \<and>
    registry_schema db'"
proof -
  obtain now where now: "unix_micros clock = Inr now"
    and reserve: "reserve_command_sync jc clock fill command kind entity revision db = Inr (ClaimOwned lease, db')"
    using assms by (auto simp: reserve_account_command_def reserve_command_sync_def and_then_Ok_iff split: if_splits)
  show ?thesis
  proof (cases "read_command_receipt db (ci_key command)")
    case None
    then have "claim_command fill now command kind entity revision False db = Inr (ClaimOwned lease, db')"
      using reserve now by (simp add: reserve_command_sync_def)
    then show ?thesis using None
      by (auto simp: claim_command_def registry_ok read_command_receipt_def reserved_receipt_def
          has_receipt_key_def find_append)
  next
    case (Some r)
    then have again: "claim_command fill now command kind entity revision True db = Inr (ClaimOwned lease, db')"
      "cx_operation r = command_kind_text kind" "cx_request_sha256 r = ci_request_hash command" "cx_state r = ''reserved''"
      using reserve now unfolding reserve_command_sync_def by (auto simp: and_then_Ok_iff split: if_splits)
    obtain token expires where
      db': "db' = with_receipts (\<lambda>r. has_receipt_key (ci_key command) r \<and> cx_state r = ''reserved'')
        (\<lambda>r. r\<lparr>cx_claim_token := Some token, cx_claim_expires_at := Some expires\<rparr>) db" "registry_schema db'"
      and lease: "cr_claim_token lease = token" "cr_key lease = ci_key command"
      using again(1) by (auto simp: claim_command_def registry_ok with_receipts_def)
    show ?thesis
      using receipt_row [OF Some] again(2-4) lease db'(2) Some
      by (simp add: db'(1) read_receipt_update)
  qed
qed

text \<open>
  C5. A notification is handed out at most once. After one reservation of a notification was granted, no
  run of the store, expiry, restart or repetition under the same key leads to a second grant: what comes
  back is the recorded result, an uncertain delivery, or an error.
\<close>

theorem notification_never_resent:
  assumes "reserve_account_command jc clock fill command kind entity revision db = Inr (ClaimOwned lease, db1)"
    and "notification_kind kind"
    and "reserve_account_command jc clock' fill' command' kind' entity' revision' (registry_run env calls db1) = Inr (claim, db2)"
    and "ci_key command' = ci_key command"
  shows "claim \<noteq> ClaimOwned lease'"
proof -
  obtain r where r: "read_command_receipt db1 (ci_key command) = Some r" "cx_operation r = command_kind_text kind"
    and schema: "registry_schema db1"
    using reserve_finds [OF assms(1)] by blast
  obtain q where q: "read_command_receipt (registry_run env calls db1) (ci_key command) = Some q" "receipt_life r q"
    using registry_steps_receipt [OF registry_run_steps [OF schema] schema r(1)] by blast
  have operation: "cx_operation q = command_kind_text kind" using q(2) r(2) by (simp add: receipt_life_def)
  obtain now where now: "unix_micros clock' = Inr now"
    and reserve: "reserve_command_sync jc clock' fill' command' kind' entity' revision' (registry_run env calls db1) = Inr (claim, db2)"
    using assms(3) by (auto simp: reserve_account_command_def reserve_command_sync_def and_then_Ok_iff split: if_splits)
  have "kind' = kind" "(cx_state q \<noteq> ''reserved'' \<longrightarrow> (\<exists>v. claim = ClaimReplayed v)) \<and>
      (cx_state q = ''reserved'' \<longrightarrow> (\<exists>v. claim = ClaimPending v))"
    using reserve now q(1) operation assms(2,4) unfolding reserve_command_sync_def
    by (auto simp: and_then_Ok_iff split: if_splits)
  then show ?thesis by auto
qed

text \<open>
  C34. A finished command answers from its receipt: after a completion, every later reservation of the same
  command (same key, request, kind, entity and revision), whatever happened in between and whenever it
  comes, replays exactly the response that was recorded, and the registry is not touched. The JSON parser
  of \<^verbatim>\<open>serde_json\<close> is assumed to read back this response.
\<close>

theorem finished_command_replays:
  assumes "registry_schema db" "read_command_receipt db (cr_key lease) = Some r"
    and "complete_account_command jc credential_pattern clock lease response db = Inr db1"
    and "jc_parse_value jc (jc_print_value jc response) = Some response"
    and "ci_key command = cr_key lease" "ci_request_hash command = cx_request_sha256 r" "command_kind_text kind = cx_operation r"
    and "reserve_account_command jc clock' fill command kind (cx_entity_id r) (cx_expected_revision r) (registry_run env calls db1)
      = Inr (claim, db2)"
  shows "claim = ClaimReplayed response \<and> db2 = registry_run env calls db1"
proof -
  have finish: "finish_command_sync jc clock lease response db = Inr db1"
    using assms(3) by (auto simp: complete_account_command_def complete_account_command_with_diagnostic_def registry_ok)
  obtain now where step: "registry_step jc db db1"
    and db1: "db1 = with_receipts (has_receipt_key (cr_key lease)) (completed_receipt (jc_print_value jc response) now) db"
    by (rule finish_command_step [OF finish assms(1)])
  have schema: "registry_schema db1" by (rule registry_step_schema [OF step])
  let ?done = "completed_receipt (jc_print_value jc response) now r"
  have found: "read_command_receipt db1 (cr_key lease) = Some ?done"
    using receipt_row [OF assms(2)] assms(2) by (simp add: db1 read_receipt_update completed_receipt_def)
  obtain q where q: "read_command_receipt (registry_run env calls db1) (cr_key lease) = Some q" "receipt_life ?done q"
    using registry_steps_receipt [OF registry_run_steps [OF schema] schema found] by blast
  have same: "cx_state q = ''completed_success''" "cx_response_json q = Some (jc_print_value jc response)"
    "cx_request_sha256 q = cx_request_sha256 r" "cx_operation q = cx_operation r" "cx_entity_id q = cx_entity_id r"
    "cx_expected_revision q = cx_expected_revision r"
    using q(2) by (simp_all add: receipt_life_def completed_receipt_def)
  obtain now' where now': "unix_micros clock' = Inr now'"
    and reserve: "reserve_command_sync jc clock' fill command kind (cx_entity_id r) (cx_expected_revision r)
      (registry_run env calls db1) = Inr (claim, db2)"
    using assms(8) by (auto simp: reserve_account_command_def reserve_command_sync_def and_then_Ok_iff split: if_splits)
  show ?thesis
    using reserve now' q(1) same assms(4-7) unfolding reserve_command_sync_def
    by (auto simp: and_then_Ok_iff registry_commit_Ok_iff)
qed

lemma finish_command_Ok:
  assumes "finish_command_sync jc clock lease response db = Inr db'"
  shows "\<exists>now. clock = Some now \<and> now > 0 \<and> changed_rows (holds_claim lease now) (lc_receipts db) = 1 \<and> registry_schema db' \<and>
    db' = with_receipts (holds_claim lease now) (completed_receipt (jc_print_value jc response) now) db"
proof -
  obtain now where now: "unix_micros clock = Inr now" using assms by (auto simp: finish_command_sync_def and_then_Ok_iff)
  then have "clock = Some now \<and> now > 0" by (simp add: unix_micros_Ok_iff)
  then show ?thesis
    using assms unfolding finish_command_sync_def now
    by (intro exI [of _ now]) (auto simp: and_then_Ok_iff registry_execute_Ok_iff with_receipts_def unix_micros_Ok_iff split: if_split_asm)
qed

text \<open>
  C35. A completion needs the claim: a command is completed only under the key, the request, the claim token
  and before the expiry that its receipt stores, so a claim that was taken over or has expired can no
  longer answer, and a receipt is answered once.
\<close>

theorem completion_needs_the_claim:
  assumes "registry_schema db" "complete_account_command jc credential_pattern clock lease response db = Inr db'"
  shows "\<exists>r now. clock = Some now \<and> read_command_receipt db (cr_key lease) = Some r \<and> cx_state r = ''reserved'' \<and>
    cx_request_sha256 r = cr_request_hash lease \<and> cx_claim_token r = Some (cr_claim_token lease) \<and>
    (\<exists>t. cx_claim_expires_at r = Some t \<and> now < t) \<and>
    complete_account_command jc credential_pattern clock lease response db' = Inl (OwnershipLost ''command receipt claim'')"
proof -
  have finish: "finish_command_sync jc clock lease response db = Inr db'" and
    valid: "validate_account_command_response jc credential_pattern response = Inr ()"
    using assms(2) by (auto simp: complete_account_command_def complete_account_command_with_diagnostic_def registry_ok)
  obtain now where now: "clock = Some now" "now > 0" and one: "changed_rows (holds_claim lease now) (lc_receipts db) = 1"
    and written: "registry_schema db'"
      "db' = with_receipts (holds_claim lease now) (completed_receipt (jc_print_value jc response) now) db"
    using finish_command_Ok [OF finish] by blast
  have "filter (holds_claim lease now) (lc_receipts db) \<noteq> []" using one by (auto simp: changed_rows_def)
  then obtain r where r: "r \<in> set (lc_receipts db)" "holds_claim lease now r" by (auto simp: filter_empty_conv)
  have found: "read_command_receipt db (cr_key lease) = Some r"
    by (rule receipt_found [OF assms(1) r(1)]) (use r(2) in \<open>simp add: holds_claim_def\<close>)
  have "filter (holds_claim lease now) (lc_receipts db') = []"
  proof -
    have "\<not> holds_claim lease now (completed_receipt v t q)" for v t q by (simp add: holds_claim_def completed_receipt_def)
    then show ?thesis by (auto simp: written(2) with_receipts_def update_rows_def filter_empty_conv)
  qed
  then have none: "changed_rows (holds_claim lease now) (lc_receipts db') = 0"
    "update_rows (holds_claim lease now) f (lc_receipts db') = lc_receipts db'" for f
    by (auto simp: changed_rows_def filter_empty_conv intro: update_rows_none)
  have "finish_command_sync jc clock lease response db' = Inl (OwnershipLost ''command receipt claim'')"
    using none written(1) now
    by (simp add: finish_command_sync_def unix_micros_def registry_execute_def)
  then have "complete_account_command jc credential_pattern clock lease response db' = Inl (OwnershipLost ''command receipt claim'')"
    using valid by (simp add: complete_account_command_def complete_account_command_with_diagnostic_def)
  then show ?thesis using now(1) found r(2)
    by (auto simp: holds_claim_def split: option.splits)
qed

end
