(* ===== verification/Registry_Values.thy ===== *)
theory Registry_Values
  imports Registry_Runs
begin

text \<open>
  Properties of the values that the account registry stores: display names are found and fresh, credential
  bindings read back from their JSON, credentials rotate by compare and swap, usage observations are fenced
  by revision and time, and the registry reports that it is full.
\<close>

section \<open>Names\<close>

lemma dictionary_words: "distinct account_alias_words" "length account_alias_words = 44"
  by (simp_all add: account_alias_words_def)

lemma dictionary_surnames: "distinct account_alias_surnames"
  by (simp add: account_alias_surnames_def)

lemma dictionary_overlap: "length (filter (\<lambda>s. s \<notin> set account_alias_words) account_alias_surnames) = 116"
  by (simp add: account_alias_words_def account_alias_surnames_def)

lemma dictionary_size: "card (set account_alias_names) = 160"
proof -
  let ?new = "filter (\<lambda>s. s \<notin> set account_alias_words) account_alias_surnames"
  have "set account_alias_names = set (account_alias_words @ ?new)" by (auto simp: account_alias_names_def)
  moreover have "distinct (account_alias_words @ ?new)" by (auto simp: dictionary_words(1) dictionary_surnames)
  ultimately have "card (set account_alias_names) = length (account_alias_words @ ?new)" by (simp only: distinct_card)
  then show ?thesis by (simp only: length_append dictionary_words(2) dictionary_overlap)
qed

lemma dictionary_length: "length account_alias_names = 172"
  by code_simp

lemma dictionary_candidate:
  assumes "attempt < 172"
  shows "account_alias_candidate sha256 provider attempt =
    account_alias_names ! ((be_value (take 8 (alias_digest sha256 provider)) mod 172 + attempt) mod 172)"
proof -
  have "length account_alias_words + length account_alias_surnames = 172"
    using dictionary_length by (simp add: account_alias_names_def)
  then show ?thesis using assms by (simp add: account_alias_candidate_def Let_def)
qed

text \<open>
  C37. The search for a display name ends and returns a free one: whatever the digest of the provider
  account, when fewer than 160 names are in use a name of the dictionary that nobody uses is found
  among the first 172 attempts.
\<close>

theorem alias_allocation_finds:
  assumes "card (set used) < 160"
  shows "\<exists>name. allocate_alias sha256 provider used = Some name \<and> name \<notin> set used \<and> name \<in> set account_alias_names"
proof -
  let ?s = "be_value (take 8 (alias_digest sha256 provider))"
  have "\<not> set account_alias_names \<subseteq> set used"
    using card_mono [of "set used" "set account_alias_names"] assms by (auto simp: dictionary_size)
  then obtain j where j: "j < 172" "account_alias_names ! j \<notin> set used"
    by (metis dictionary_length in_set_conv_nth subsetI)
  then obtain n where n: "n < 172" "(?s mod 172 + n) mod 172 = j"
    using alias_cycle [of 172 ?s] by (auto simp: image_iff set_eq_iff dest!: spec [of _ j])
  then have "account_alias_candidate sha256 provider (0 + n) \<notin> set used"
    using j(2) by (simp add: dictionary_candidate)
  moreover have "n < 2 ^ 64" using n(1) by simp
  ultimately obtain m where m: "m \<le> n" "allocate_alias sha256 provider used = Some (account_alias_candidate sha256 provider (0 + m))"
    unfolding allocate_alias_def using allocate_from_finds [of "account_alias_candidate sha256 provider" 0 n used "2 ^ 64"] by blast
  then have "account_alias_candidate sha256 provider m \<in> set account_alias_names"
    using n(1) by (simp add: dictionary_candidate dictionary_length)
  then show ?thesis using m(2) allocate_from_fresh unfolding allocate_alias_def by fastforce
qed

section \<open>Credential bindings\<close>

text \<open>What the constructors of the core guarantee of a binding, and a version that SQLite can hold.\<close>

definition storable_binding :: "credential_binding \<Rightarrow> bool" where
  "storable_binding b \<longleftrightarrow>
     schema_version_new (schema_get (cb_schema_version b)) = Inr (cb_schema_version b) \<and>
     credential_version_new (credential_version_get (cb_version b)) = Inr (cb_version b) \<and>
     uint (credential_version_get (cb_version b)) \<le> i64_max \<and>
     credential_fingerprint_new (fingerprint_text (cb_fingerprint b)) = Inr (cb_fingerprint b) \<and>
     provider_identity_new (pid_provider (cb_provider b)) (pid_account_id (cb_provider b)) = Inr (cb_provider b) \<and>
     account_operation_id_new (operation_id_text (cb_writer_operation_id b)) = Inr (cb_writer_operation_id b)"

text \<open>What is used of \<^verbatim>\<open>serde_json\<close>: a printed object parses to an object with the same members.\<close>

definition same_members :: "json \<Rightarrow> json \<Rightarrow> bool" where
  "same_members u v \<longleftrightarrow> (\<forall>k. json_get u k = json_get v k)"

lemma u16_round_trip [simp]: "u16_try_from (uint (w :: 16 word)) = Some w"
  using unsigned_less [of w, where 'a = int] by (simp add: u16_try_from_def)

lemma u64_round_trip [simp]: "u64_try_from (uint w) = Some w"
  by (simp add: u64_try_from_def)

lemma binding_members:
  "json_get (binding_value b) ''schema_version'' = Some (JInt (uint (schema_get (cb_schema_version b))))"
  "json_get (binding_value b) ''credential_version'' = Some (JInt (uint (credential_version_get (cb_version b))))"
  "json_get (binding_value b) ''fingerprint'' = Some (JString (fingerprint_text (cb_fingerprint b)))"
  "json_get (binding_value b) ''writer_operation_id'' = Some (JString (operation_id_text (cb_writer_operation_id b)))"
  "json_get (binding_value b) ''provider'' = Some (JString (provider_label (pid_provider (cb_provider b))))"
  "json_get (binding_value b) ''provider_account_id'' = Some (JString (pid_account_id (cb_provider b)))"
  by (simp_all add: json_get_def binding_value_def)

lemma schema_natural: "json_natural (JInt (uint (w :: 16 word))) = Some (uint w)"
  using unsigned_less [of w, where 'a = int] by (simp add: json_natural_def i64_max_def)

text \<open>
  A credential binding survives its storage as JSON: the text that an operation row stores for a valid
  binding, printed and parsed by any codec that keeps the members of an object, reads back as that binding.
\<close>

lemma credential_binding_round_trip:
  assumes "storable_binding b" "jc_parse_value jc (jc_print_value jc (binding_value b)) = Some v" "same_members v (binding_value b)"
  shows "parse_binding_json jc (binding_json jc (Some b)) = Inr (Some b)"
proof -
  have chatgpt: "pid_provider (cb_provider b) = Chatgpt" by (cases "pid_provider (cb_provider b)") simp
  have "binding_from_parts (uint (schema_get (cb_schema_version b))) (uint (credential_version_get (cb_version b)))
      (fingerprint_text (cb_fingerprint b)) (operation_id_text (cb_writer_operation_id b))
      (provider_label (pid_provider (cb_provider b))) (pid_account_id (cb_provider b)) = Inr b"
    using assms(1) by (simp add: binding_from_parts_def storable_binding_def chatgpt provider_label_def)
  then have "parse_binding_value v = Inr b"
    using assms(1,3)
    by (simp add: parse_binding_value_def same_members_def binding_members schema_natural json_string_def json_str_value_def
        json_natural_def [of "JInt (uint (credential_version_get (cb_version b)))"] storable_binding_def)
  then show ?thesis using assms(2) by (simp add: parse_binding_json_def binding_json_def)
qed

section \<open>Credentials\<close>

lemma matches_key_account: "\<forall>r. matches_key k n r \<longrightarrow> se_account_id r = ck_account_id k"
  by (simp add: matches_key_def)

lemma credential_successor:
  assumes "target = saturating_add_u64 v 1" "i64_try_from_u64 target = Some n" "i64_try_from_u64 v = Some m"
  shows "n = m + 1"
proof -
  have "uint v \<le> i64_max" "m = uint v" using assms(3) by (auto simp: i64_try_from_u64_def split: if_splits)
  moreover have "n = uint target" using assms(2) by (auto simp: i64_try_from_u64_def split: if_splits)
  moreover have "unat v + 1 < 2 ^ 64" if "uint v \<le> i64_max"
  proof -
    have "int (unat v) < int (2 ^ 63)" using that by (simp add: i64_max_def)
    then have "unat v < 2 ^ 63" by (rule of_nat_less_imp_less)
    then show ?thesis by simp
  qed
  moreover have "uint (v + 1) = uint v + 1" if "unat v + 1 < 2 ^ 64"
  proof -
    have "unat (v + 1) = unat v + 1" using that by (simp add: unat_word_ariths)
    then show ?thesis by (metis of_nat_1 of_nat_add uint_nat)
  qed
  ultimately show ?thesis using assms(1) by (simp add: saturating_add_u64_def checked_add_u64_def)
qed

text \<open>
  C36. A credential is replaced by compare and swap: a rotation succeeds only against the exact row that its
  expected key names, installs a credential of the same account and provider under the next version, which
  reads back as written, and leaves the credentials of every other account alone.
\<close>

theorem credential_rotation_swaps:
  assumes "registry_schema db" "rotate_credential clock expected target payload db = Inr db'"
  shows "(\<exists>r. find_credential db (ck_account_id expected) = Some r \<and> matches_key expected (se_version r) r \<and>
      uint (ck_credential_version target) = se_version r + 1 \<and> ck_provider target = se_provider r \<and>
      ck_provider_account_id target = se_provider_account_id r) \<and>
    read_credential (ck_account_id expected) db' = Inr (target, payload) \<and>
    (\<forall>a. a \<noteq> ck_account_id expected \<longrightarrow> find_credential db' a = find_credential db a)"
proof -
  obtain version now expected_version where
    same: "ck_account_id expected = ck_account_id target" "ck_provider expected = ck_provider target"
      "ck_provider_account_id expected = ck_provider_account_id target"
      "ck_credential_version target = saturating_add_u64 (ck_credential_version expected) 1" and
    versions: "i64_try_from_u64 (ck_credential_version target) = Some version"
      "i64_try_from_u64 (ck_credential_version expected) = Some expected_version" and
    one: "changed_rows (matches_key expected expected_version) (lc_credentials db) = 1" and
    db': "db' = db\<lparr>lc_credentials := update_rows (matches_key expected expected_version)
      (\<lambda>_. stored_credential_row target payload version now) (lc_credentials db)\<rparr>"
    using assms(2) unfolding rotate_credential_def
    by (auto simp: registry_ok split: if_split_asm)
  obtain r where r: "find_row se_account_id (lc_credentials db) (ck_account_id expected) = Some r"
    "matches_key expected expected_version r"
    using changed_one [OF schema_credential_keys [OF assms(1)] matches_key_account one] by blast
  have version: "version = expected_version + 1" by (rule credential_successor [OF same(4) versions])
  have read: "uint (ck_credential_version target) = version"
    using versions(1) by (auto simp: i64_try_from_u64_def split: if_splits)
  have "matches_key expected expected_version q \<Longrightarrow>
      se_account_id (stored_credential_row target payload version now) = se_account_id q" for q
    using same(1) by (simp add: matches_key_def stored_credential_row_def)
  then have found: "find_credential db' a = map_option
      (\<lambda>q. if matches_key expected expected_version q then stored_credential_row target payload version now else q) (find_credential db a)" for a
    by (simp add: find_credential_def db' find_row_update)
  have "find_credential db' (ck_account_id expected) = Some (stored_credential_row target payload version now)"
  proof -
    have "find_credential db (ck_account_id expected) = Some r" using r(1) by (simp add: find_credential_def)
    then show ?thesis using r(2) by (simp add: found)
  qed
  then have "read_credential (ck_account_id expected) db' = Inr (target, payload)"
    using same(1) by (simp add: read_credential_def stored_credential_row_def flip: read)
  moreover have "find_credential db' a = find_credential db a" if "a \<noteq> ck_account_id expected" for a
  proof (cases "find_credential db a")
    case (Some q)
    then have "se_account_id q = a" using find_row_Some unfolding find_credential_def by metis
    then show ?thesis using Some that by (simp add: found matches_key_def)
  qed (simp add: found)
  ultimately show ?thesis
    using r same version read by (auto simp: find_credential_def matches_key_def)
qed

section \<open>Usage\<close>

lemma find_replaced_row:
  "find_row key t k = Some old \<Longrightarrow> key row = k \<Longrightarrow> find_row key (update_rows (\<lambda>r. key r = k) (\<lambda>_. row) t) k = Some row"
  by (induction t) (auto simp: find_row_def update_rows_def)

lemma find_put_usage: "find_row us_account_id (lc_usages (put_usage row db)) (us_account_id row) = Some row"
proof (cases "find_row us_account_id (lc_usages db) (us_account_id row)")
  case None
  then show ?thesis by (simp add: put_usage_def find_row_append)
next
  case (Some old)
  then show ?thesis by (simp add: put_usage_def find_replaced_row)
qed

lemma window_frame:
  "write_optional_window a now duration window db = Inr db' \<Longrightarrow> lc_usages db' = lc_usages db \<and> lc_accounts db' = lc_accounts db"
  by (auto simp: write_optional_window_def write_window_def write_quota_def put_quota_def registry_ok Let_def
      split: option.splits if_splits)

lemma observed_usage_state:
  "exhausted_window (db\<lparr>lc_accounts := accounts\<rparr>) a = exhausted_window db a"
  by (simp add: exhausted_window_def)

text \<open>
  Usage observations are fenced: one is applied only to a live account at the revision it was made for
  and only when it is later than the observation that is stored, and then it reads back as it came, with
  the state of the account derived from it and from the windows stored with it; a stale one changes nothing.
\<close>

lemma usage_observation_fenced:
  assumes "registry_schema db" "observe_account_usage account observation five_hour seven_day db = Inr (applied, db')"
  shows "if applied
    then (\<exists>r r'. find_account db (account_id_text account) = Some r \<and> live_account r \<and>
        an_revision r = auo_account_revision observation \<and>
        find_account db' (account_id_text account) = Some r' \<and> same_authority r r' \<and>
        an_state r' = usage_state db' (account_id_text account) observation) \<and>
      read_usage_observation db' (account_id_text account) = Some observation \<and>
      null_or (\<lambda>prior. auo_observed_at prior < auo_observed_at observation)
        (read_usage_observation db (account_id_text account))
    else db' = db"
proof (cases applied)
  case False
  then show ?thesis using assms(2) unfolding observe_account_usage_def Let_def
    by (auto simp: and_then_Ok_iff registry_commit_Ok_iff split: if_splits)
next
  case True
  let ?a = "account_id_text account" and ?now = "auo_observed_at observation"
  obtain db1 db2 db3 db4 where
    current: "list_ex (\<lambda>r. live_account_row ?a r \<and> an_revision r = auo_account_revision observation) (lc_accounts db)" and
    later: "null_or (\<lambda>prior. auo_observed_at prior < ?now) (read_usage_observation db ?a)" and
    cleared: "db1 = db \<or> registry_execute (db\<lparr>lc_quotas := filter (\<lambda>r. qw_account_id r \<noteq> ?a) (lc_quotas db)\<rparr>) = Inr db1" and
    five: "write_optional_window ?a ?now 300 five_hour db1 = Inr db2" and
    seven: "write_optional_window ?a ?now 10080 seven_day db2 = Inr db3" and
    put: "registry_execute (put_usage (usage_row_of ?a observation) db3) = Inr db4" and
    written: "update_accounts (\<lambda>r. an_account_id r = ?a)
      (\<lambda>r. r\<lparr>an_state := usage_state db4 ?a observation, an_updated := ?now\<rparr>) db4 = Inr db'"
    using assms(2) True unfolding observe_account_usage_def Let_def
    by (auto simp: and_then_Ok_iff registry_commit_Ok_iff null_or_def split: if_splits option.splits)
  have accounts: "lc_accounts db4 = lc_accounts db"
    using cleared window_frame [OF five] window_frame [OF seven] put by (auto simp: registry_execute_Ok_iff put_usage_def)
  have db4: "db4 = put_usage (usage_row_of ?a observation) db3" using put by (simp add: registry_execute_Ok_iff)
  have db': "db' = db4\<lparr>lc_accounts := update_rows (\<lambda>r. an_account_id r = ?a)
      (\<lambda>r. r\<lparr>an_state := usage_state db4 ?a observation, an_updated := ?now\<rparr>) (lc_accounts db)\<rparr>"
    using written accounts by (simp add: update_accounts_def registry_execute_Ok_iff)
  obtain r where r: "find_account db ?a = Some r" "live_account r" "an_revision r = auo_account_revision observation"
  proof -
    obtain r where "r \<in> set (lc_accounts db)" "an_account_id r = ?a" "live_account r"
      "an_revision r = auo_account_revision observation"
      using current by (auto simp: list_ex_iff live_account_row_def live_account_def)
    then show thesis
      using that find_row_distinct [OF schema_account_keys [OF assms(1)], of r] by (simp add: find_account_def)
  qed
  let ?r = "r\<lparr>an_state := usage_state db4 ?a observation, an_updated := ?now\<rparr>"
  have "find_account db' ?a = Some ?r"
    using r(1) find_row_Some [of an_account_id "lc_accounts db" ?a r]
    by (simp add: find_account_def db' find_row_update)
  moreover have "usage_state db' ?a observation = usage_state db4 ?a observation"
    by (simp add: usage_state_def db' observed_usage_state)
  moreover have "read_usage_observation db' ?a = Some observation"
    using find_put_usage [of "usage_row_of ?a observation" db3]
    by (simp add: read_usage_observation_def usage_row_of_def db' db4)
  ultimately show ?thesis using True r later by (auto intro: same_authority_state)
qed

section \<open>Capacity\<close>

text \<open>
  Nothing in the code bounds the number of enrolled accounts, while a snapshot is read with a limit of at
  most 512: the snapshot of a larger registry fails under every limit.
\<close>

lemma crowded_snapshot:
  assumes "length (filter live_account (lc_accounts db)) > 512"
  shows "read_account_registry_snapshot clocks limit db =
    Inl (if limit = 0 \<or> unat limit > 512 then InvalidInput ''account registry limit must be between 1 and 512''
      else CapacityExhausted ''account registry'')"
  using assms by (simp add: read_account_registry_snapshot_def read_account_registry_sync_def)

text \<open>
  And the compaction after a logout, which first adds 512 to each position in turn, meets the unique
  constraint when a row and a later one are 512 positions apart.
\<close>

lemma shift_collides:
  assumes "od_position q = od_position r + 512"
  shows "shift_positions now done (rows @ r # mid @ q # rest) = None"
  using assms by (induction rows arbitrary: "done") (simp_all add: Let_def)

end
