(* ===== verification/Registry_Witness.thy ===== *)
theory Registry_Witness
  imports Registry_Runs Work_Demo Registry_Outcomes Registry_Values
begin

text \<open>
  A concrete registry with two accounts, a logout that only waits for its commit, a stored credential and
  a reserved receipt, on which the properties of the registry are applied.
\<close>

section \<open>A registry\<close>

definition trial_id :: "byte \<Rightarrow> string" where
  "trial_id b = uuid_groups (replicate 16 b)"

definition trial_hash :: string where
  "trial_hash = replicate 64 (CHR ''f'')"

lemma trial_id_valid [simp]: "is_canonical_uuid (trial_id b)"
  by (simp add: trial_id_def uuid_groups_canonical)

lemma trial_id_chars [simp]: "list_all (\<lambda>c. hex_char c \<or> c = CHR ''-'') (trial_id b)"
  using canonical_uuid_char [OF trial_id_valid] by (fastforce simp: list_all_iff)

lemma trial_id_length [simp]: "length (trial_id b) = 36" "trial_id b \<noteq> []"
  using is_canonical_uuid_length [OF trial_id_valid, of b] by auto

lemma trial_hash_valid [simp]: "is_sha256 trial_hash" "list_all hex_char trial_hash" "length trial_hash = 64"
  by (simp_all add: trial_hash_def is_sha256_def list_all_iff hex_char_def is_ascii_lower_hex_def)

lemma trial_ids_differ [simp]:
  "trial_id 1 \<noteq> trial_id 2" "trial_id 2 \<noteq> trial_id 1" "trial_id 3 \<noteq> trial_id 4" "trial_id 4 \<noteq> trial_id 3"
  by code_simp+

definition trial_binding :: credential_binding where
  "trial_binding = \<lparr>cb_schema_version = schema_v1, cb_version = CredentialVersion 1,
     cb_fingerprint = CredentialFingerprint (trial_hash),
     cb_provider = \<lparr>pid_provider = Chatgpt, pid_account_id = ''p1''\<rparr>,
     cb_writer_operation_id = AccountOperationId (trial_id 4)\<rparr>"

definition trial_account :: "byte \<Rightarrow> string \<Rightarrow> string \<Rightarrow> registered_account" where
  "trial_account b label provider = \<lparr>an_account_id = trial_id b, an_label = label, an_enabled = True,
     an_state = ''available'', an_revision = 2, an_provider = ''chatgpt'', an_provider_account_id = provider,
     an_store_observation = ''exact'', an_created = 1, an_updated = 2, an_tombstoned = None\<rparr>"

definition trial_logout :: lifecycle_operation where
  "trial_logout = \<lparr>lo_operation_id = trial_id 3, lo_account_id = trial_id 1, lo_kind = ''logout'',
     lo_phase = ''store_applied'', lo_expected_revision = Some 2,
     lo_expected_json = binding_json demo_codec (Some trial_binding), lo_target_json = None, lo_provider = ''chatgpt'',
     lo_provider_account_id = ''p1'', lo_label = None, lo_enabled = None, lo_recovery_code = None, lo_created = 3,
     lo_updated = 4, lo_completed = None, lo_recovery_operation_id = None, lo_superseded_by = None\<rparr>"

definition trial_enrollment :: lifecycle_operation where
  "trial_enrollment = \<lparr>lo_operation_id = trial_id 4, lo_account_id = trial_id 2, lo_kind = ''enroll'',
     lo_phase = ''committed'', lo_expected_revision = None, lo_expected_json = None,
     lo_target_json = None, lo_provider = ''chatgpt'', lo_provider_account_id = ''p2'', lo_label = Some ''Bo'',
     lo_enabled = Some True, lo_recovery_code = None, lo_created = 1, lo_updated = 2, lo_completed = Some 2,
     lo_recovery_operation_id = None, lo_superseded_by = None\<rparr>"

definition trial_key :: "64 word \<Rightarrow> credential_key" where
  "trial_key n = \<lparr>ck_account_id = trial_id 2, ck_schema_version = 1, ck_credential_version = n,
     ck_fingerprint = trial_hash, ck_writer_operation_id = trial_id 4, ck_provider = ''chatgpt'',
     ck_provider_account_id = ''p2''\<rparr>"

definition trial_receipt :: command_receipt where
  "trial_receipt = \<lparr>cx_protocol = account_command_protocol, cx_key = ''k'', cx_request_sha256 = trial_hash,
     cx_operation = ''set_account_enabled'', cx_entity_id = ''e'', cx_expected_revision = Some 1, cx_state = ''reserved'',
     cx_response_json = None, cx_claim_token = Some (trial_id 5), cx_claim_expires_at = Some 1000,
     cx_reserved_at = 5, cx_completed_at = None, cx_progress_json = None\<rparr>"

definition trial_lease :: command_reservation where
  "trial_lease = \<lparr>cr_key = ''k'', cr_request_hash = trial_hash, cr_claim_token = trial_id 5\<rparr>"

definition trial_registry :: registry where
  "trial_registry = \<lparr>lc_identities = [\<lparr>ai_account_id = trial_id 1, ai_created = 1\<rparr>,
       \<lparr>ai_account_id = trial_id 2, ai_created = 1\<rparr>],
     lc_accounts = [trial_account 1 ''Ada'' ''p1'', trial_account 2 ''Bo'' ''p2''],
     lc_operations = [trial_enrollment, trial_logout],
     lc_credentials = [stored_credential_row (trial_key 1) [7] 1 2],
     lc_order = [\<lparr>od_account_id = trial_id 1, od_position = 0, od_updated = 2\<rparr>,
       \<lparr>od_account_id = trial_id 2, od_position = 1, od_updated = 2\<rparr>],
     lc_control = Some \<lparr>ct_mode = ''fixed'', ct_fixed_account_id = Some (trial_id 1), ct_revision = 3, ct_updated = 2\<rparr>,
     lc_quotas = [], lc_usages = [], lc_capability = None, lc_receipts = [trial_receipt], lc_generations = []\<rparr>"

lemmas trial_rows = trial_registry_def trial_account_def trial_logout_def trial_enrollment_def trial_receipt_def
  stored_credential_row_def trial_key_def

lemmas schema_checks = registry_schema_def registry_rows_checked_def identity_row_checks_def registered_account_checks_def
  lifecycle_operation_checks_def stored_credential_checks_def order_row_checks_def control_row_checks_def
  command_receipt_checks_def usage_row_checks_def bytes_between_def sql_integer_def i64_max_def null_or_def settled_phase_def
  account_command_protocol_def registry_keys_unique_def operation_keys_unique_def unsettled_row_def
  active_takeover_def List.map_filter_def registry_references_def identified_def

lemma trial_registry_checked: "registry_rows_checked trial_registry"
  by (simp add: trial_rows schema_checks)

lemma trial_registry_keys: "registry_keys_unique trial_registry"
  by (simp add: registry_keys_unique_def trial_rows operation_keys_unique_def unsettled_row_def
      active_takeover_def settled_phase_def List.map_filter_def)

lemma trial_registry_references: "registry_references trial_registry"
  by (simp add: registry_references_def trial_rows identified_def null_or_def)

lemma trial_registry_schema: "registry_schema trial_registry"
  by (simp add: registry_schema_def trial_registry_checked trial_registry_keys trial_registry_references)

lemma trial_order: "order_ids (lc_order trial_registry) = [trial_id 1, trial_id 2]"
  by (simp add: order_ids_def trial_registry_def)

lemma trial_universe: "routing_universe trial_registry"
  unfolding routing_universe_def trial_order
  by (auto simp: numbered_def trial_rows live_ids_def live_account_def less_Suc_eq numeral_2_eq_2)

lemma trial_registry_invariant: "registry_invariant trial_registry"
proof -
  have "fixed_target_live trial_registry" "distinct (map an_label (lc_accounts trial_registry))"
    by (simp_all add: fixed_target_live_def trial_rows null_or_def live_ids_def live_account_def)
  then show ?thesis by (simp add: registry_invariant_def trial_registry_schema trial_universe)
qed

section \<open>Runs\<close>

definition trial_environment :: registry_environment where
  "trial_environment = \<lparr>re_codec = demo_codec, re_sha256 = (\<lambda>_. replicate 32 0), re_credential_pattern = (\<lambda>_. False)\<rparr>"

definition trial_clocks :: quota_clock where "trial_clocks a d = Some 9"

abbreviation trial_operation :: account_operation_id where "trial_operation \<equiv> AccountOperationId (trial_id 3)"

abbreviation trial_commit :: "registry \<Rightarrow> store_error + account_lifecycle_mutation_outcome \<times> registry" where
  "trial_commit \<equiv> advance_operation_sync demo_codec (\<lambda>_. []) (Some 9) (Some 10) trial_operation StoreApplied Committed None"

lemma trial_parsers [simp]:
  "account_id_new (trial_id b) = Inr (AccountId (trial_id b))"
  "account_operation_id_new (trial_id b) = Inr (AccountOperationId (trial_id b))"
  "credential_fingerprint_new trial_hash = Inr (CredentialFingerprint trial_hash)"
  "schema_version_new 1 = Inr schema_v1" "schema_get schema_v1 = 1"
  "credential_version_new 1 = Inr (CredentialVersion 1)"
  by (simp_all add: account_id_new_def account_operation_id_new_def credential_fingerprint_new_def schema_version_new_def
      schema_v1_def credential_version_new_def flip: hex_char_def)

lemma trial_providers [simp]:
  "provider_identity_new Chatgpt ''p1'' = Inr \<lparr>pid_provider = Chatgpt, pid_account_id = ''p1''\<rparr>"
  "provider_identity_new Chatgpt ''p2'' = Inr \<lparr>pid_provider = Chatgpt, pid_account_id = ''p2''\<rparr>"
  by (simp_all add: provider_identity_new_def)

lemma trial_expected [simp]:
  "parse_binding_json demo_codec (binding_json demo_codec (Some trial_binding)) = Inr (Some trial_binding)"
  by (simp add: parse_binding_json_def binding_json_def demo_codec_def demo_parse_print parse_binding_value_def binding_value_def
      json_get_def json_natural_def json_string_def json_str_value_def i64_max_def binding_from_parts_def u16_try_from_def
      u64_try_from_def provider_label_def) (simp add: trial_binding_def)

lemma trial_fields [simp]:
  "lc_accounts trial_registry = [trial_account 1 ''Ada'' ''p1'', trial_account 2 ''Bo'' ''p2'']"
  "lc_operations trial_registry = [trial_enrollment, trial_logout]"
  "lc_credentials trial_registry = [stored_credential_row (trial_key 1) [7] 1 2]"
  "lc_order trial_registry = [\<lparr>od_account_id = trial_id 1, od_position = 0, od_updated = 2\<rparr>,
     \<lparr>od_account_id = trial_id 2, od_position = 1, od_updated = 2\<rparr>]"
  "lc_control trial_registry =
     Some \<lparr>ct_mode = ''fixed'', ct_fixed_account_id = Some (trial_id 1), ct_revision = 3, ct_updated = 2\<rparr>"
  "lc_quotas trial_registry = []" "lc_usages trial_registry = []" "lc_capability trial_registry = None"
  "lc_receipts trial_registry = [trial_receipt]" "lc_generations trial_registry = []"
  by (simp_all add: trial_registry_def)

lemma trial_row_fields [simp]:
  "an_account_id (trial_account b l p) = trial_id b" "an_tombstoned (trial_account b l p) = None"
  "an_revision (trial_account b l p) = 2"
  "lo_operation_id trial_logout = trial_id 3" "lo_operation_id trial_enrollment = trial_id 4"
  "se_account_id (stored_credential_row (trial_key n) payload v t) = trial_id 2"
  by (simp_all add: trial_account_def trial_logout_def trial_enrollment_def stored_credential_row_def trial_key_def)

definition trial_logout_operation :: account_operation where
  "trial_logout_operation = \<lparr>ao_operation_id = trial_operation, ao_account_id = AccountId (trial_id 1), ao_kind = Logout,
     ao_phase = StoreApplied, ao_expected_account_revision = Some 2, ao_requested_display_label = None,
     ao_requested_enabled = None, ao_expected = Some trial_binding, ao_target = None, ao_recovery_code = None,
     ao_recovery_operation_id = None, ao_superseded_by_operation_id = None\<rparr>"

lemma trial_operation_read: "read_operation_sync demo_codec trial_registry trial_operation = Inr (Some trial_logout_operation)"
  by (simp add: read_operation_sync_def find_operation_def find_row_def transpose_option_def trial_logout_operation_def
      parse_operation_def) (simp add: trial_logout_def parse_operation_kind_def parse_operation_phase_def
      parse_binding_json_def [of _ None] transpose_option_def)

lemma trial_credentials:
  "credential_binding_sync trial_registry (trial_id 1) = Inr None"
  "\<exists>b. credential_binding_sync trial_registry (trial_id 2) = Inr (Some b) \<and> pid_account_id (cb_provider b) = ''p2''"
  by (simp_all add: credential_binding_sync_def find_credential_def find_row_def transpose_option_def)
     (simp add: credential_binding_of_def trial_key_def stored_credential_row_def binding_from_parts_def u16_try_from_def u64_try_from_def)

lemma trial_accounts: "\<exists>accounts. read_account_registry_sync trial_clocks None 8 trial_registry = Inr accounts"
proof -
  obtain b where b: "credential_binding_sync trial_registry (trial_id 2) = Inr (Some b)" "pid_account_id (cb_provider b) = ''p2''"
    using trial_credentials by blast
  have provider: "pid_provider (cb_provider b) = Chatgpt" by (cases "pid_provider (cb_provider b)") simp
  have settled: "unsettled_operation_sync trial_registry (trial_id 2) = Inr None"
    by (simp add: unsettled_operation_sync_def open_operations_def open_operation_def trial_logout_def trial_enrollment_def
       settled_phase_def transpose_option_def)
  obtain u where unsettled: "unsettled_operation_sync trial_registry (trial_id 1) = Inr (Some u)"
    by (simp add: unsettled_operation_sync_def open_operations_def open_operation_def trial_logout_def trial_enrollment_def
       settled_phase_def transpose_option_def parse_operation_kind_def parse_operation_phase_def)
  have "\<exists>x. account_from_base trial_clocks trial_registry (trial_account 1 ''Ada'' ''p1'') False = Inr x"
    "\<exists>x. account_from_base trial_clocks trial_registry (trial_account 2 ''Bo'' ''p2'') False = Inr x"
    using b provider settled unsettled trial_credentials(1)
    by (simp_all add: account_from_base_def lifecycle_readiness_def)
       (auto simp: trial_account_def parse_account_state_def provider_label_def quota_observation_sync_def find_quota_def
         unknown_quota_def quota_observation_unknown_def)
  then show ?thesis
    by (auto simp add: read_account_registry_sync_def live_account_def registry_rows_def registry_position_def find_row_def
        capability_is_ready_def)
qed

text \<open>The evaluation of a transaction on the registry, one group of definitions after another.\<close>

lemmas commit_evaluation = unix_micros_def Let_def changed_rows_def live_account_row_def update_accounts_def update_rows_def
  registry_execute_def

lemmas order_evaluation = compact_routing_order_def ordered_ids_def bump_routing_revision_def release_fixed_def

lemma trial_committed: "\<exists>m db'. trial_commit trial_registry = Inr (LifecycleApplied m, db')"
  apply (simp add: advance_operation_sync_def trial_operation_read validate_transition_recovery_shape_def)
  apply (simp add: trial_logout_operation_def allowed_operation_transition_def commit_account_operation_def
      validate_recovery_takeover_commit_def)
  apply (simp add: commit_account_logout_def account_in_use_def trial_credentials)
  apply (simp add: commit_evaluation)
  apply (simp add: trial_rows schema_checks)
  apply (simp add: order_evaluation commit_evaluation schema_checks)
  apply (simp add: record_recovery_supersession_def)
  apply (simp add: move_operation_def update_operations_def operation_phase_text_def moved_operation_def commit_evaluation
      schema_checks)
  done

section \<open>The properties at this registry\<close>

lemma registry_snapshot_consistent_witness:
  "\<exists>accounts routing. read_account_registry_snapshot trial_clocks 8 trial_registry = Inr (accounts, routing) \<and>
     map ar_account_id accounts = arc_order routing"
proof -
  obtain accounts where "read_account_registry_sync trial_clocks None 8 trial_registry = Inr accounts"
    using trial_accounts by blast
  moreover have "\<exists>routing. read_routing_control_sync trial_registry = Inr routing"
    by (simp add: read_routing_control_sync_def live_order_def live_account_def parse_selection_mode_def)
  ultimately show ?thesis
    using registry_snapshot_consistent [OF trial_registry_invariant, of 8 trial_clocks accounts] by auto
qed

lemma commit_updates_order_as_list_witness:
  "\<exists>m db'. trial_commit trial_registry = Inr (LifecycleApplied m, db') \<and> live_order db' = [trial_id 2]"
proof -
  obtain m db' where committed: "trial_commit trial_registry = Inr (LifecycleApplied m, db')"
    using trial_committed by blast
  have "live_order trial_registry = [trial_id 1, trial_id 2]" by (simp add: live_order_def live_account_def)
  then show ?thesis
    using committed commit_updates_order_as_list [OF committed trial_registry_invariant trial_operation_read]
    by (simp add: reference_order_def trial_logout_operation_def)
qed

lemma commit_is_authorized_witness:
  "\<exists>m db' r. trial_commit trial_registry = Inr (LifecycleApplied m, db') \<and>
     find_account db' (trial_id 1) = Some r \<and> an_revision r = 3 \<and> lm_account_revision m = 3"
proof -
  obtain m db' where committed: "trial_commit trial_registry = Inr (LifecycleApplied m, db')"
    using trial_committed by blast
  then show ?thesis
    using commit_is_authorized [OF committed trial_registry_schema trial_operation_read]
    by (auto simp: trial_logout_operation_def committed_account_def find_account_def find_row_def)
qed

lemma registry_calls_refine_witness:
  "(registry_step demo_codec)\<^sup>*\<^sup>* trial_registry (registry_apply trial_environment (SetBalanced (Some 9) 3) trial_registry) \<and>
   registry_schema (registry_apply trial_environment (SetBalanced (Some 9) 3) trial_registry)"
  using registry_calls_refine [OF trial_registry_schema, of trial_environment "SetBalanced (Some 9) 3"]
  by (simp add: trial_environment_def)

abbreviation trial_run :: "registry \<Rightarrow> registry" where
  "trial_run \<equiv> registry_run trial_environment
     [SetBalanced (Some 9) 3, AdvanceOperation (Some 9) (Some 10) trial_operation StoreApplied Committed None]"

lemma operation_history_is_fixed_witness:
  "find_operation (trial_run trial_registry) (trial_id 4) = Some trial_enrollment"
proof -
  have "find_operation trial_registry (trial_id 4) = Some trial_enrollment" by (simp add: find_operation_def find_row_def)
  then show ?thesis
    using operation_history_is_fixed [OF trial_registry_schema, of "trial_id 4" trial_enrollment]
    by (auto simp: at_rest_def trial_enrollment_def settled_phase_def split: if_splits)
qed

lemma registry_revision_fences_witness:
  "(\<exists>q. find_account (trial_run trial_registry) (trial_id 1) = Some q \<and> an_label q = ''Ada'' \<and> 2 \<le> an_revision q) \<and>
   (\<exists>c. lc_control (trial_run trial_registry) = Some c \<and> 3 \<le> ct_revision c)"
proof -
  have "find_account trial_registry (trial_id 1) = Some (trial_account 1 ''Ada'' ''p1'')"
    by (simp add: find_account_def find_row_def)
  then show ?thesis
    using registry_revision_fences [OF trial_registry_schema _ trial_fields(5), of "trial_id 1"]
    by (fastforce simp: trial_account_def)
qed

section \<open>Receipts\<close>

definition trial_command :: "string \<Rightarrow> command_identity" where
  "trial_command k = \<lparr>ci_key = k, ci_request_hash = trial_hash\<rparr>"

abbreviation trial_reserve :: "i64 \<Rightarrow> registry \<Rightarrow> store_error + account_command_claim \<times> registry" where
  "trial_reserve now \<equiv> reserve_account_command demo_codec (Some now) (Some (replicate 16 7)) (trial_command ''n'')
     NotifyWorkspaceOwner ''e'' (Some 1)"

lemmas receipt_evaluation = reserve_account_command_def reserve_command_sync_def read_command_receipt_def has_receipt_key_def
  claim_command_def random_uuid_v4_def checked_add_i64_def claim_lifetime_micros_def registry_commit_def deferred_operations_def
  notification_kind_def reserved_receipt_def

lemma trial_token [simp]: "length (uuid_groups (uuid_stamp (replicate 16 b))) = 36" "sql_length (uuid_groups (uuid_stamp (replicate 16 b))) = 36"
proof -
  have "is_canonical_uuid_v4 (uuid_groups (uuid_stamp (replicate 16 b)))" by (rule uuid_stamp_v4) simp
  then have "is_canonical_uuid (uuid_groups (uuid_stamp (replicate 16 b)))" by (simp add: is_canonical_uuid_v4_def)
  then show "length (uuid_groups (uuid_stamp (replicate 16 b))) = 36" "sql_length (uuid_groups (uuid_stamp (replicate 16 b))) = 36"
    by (simp_all add: is_canonical_uuid_length)
qed

lemma trial_reserved: "\<exists>lease db1 claim db2. trial_reserve 9 trial_registry = Inr (ClaimOwned lease, db1) \<and>
     trial_reserve 900000000 db1 = Inr (claim, db2)"
  apply (simp add: receipt_evaluation trial_command_def command_kind_text_def commit_evaluation)
  apply (simp add: trial_rows schema_checks)
  done

lemma notification_never_resent_witness:
  "\<exists>lease db1 claim db2. trial_reserve 9 trial_registry = Inr (ClaimOwned lease, db1) \<and>
     trial_reserve 900000000 db1 = Inr (claim, db2) \<and> claim \<noteq> ClaimOwned lease"
proof -
  obtain lease db1 claim db2 where first: "trial_reserve 9 trial_registry = Inr (ClaimOwned lease, db1)"
    and second: "trial_reserve 900000000 db1 = Inr (claim, db2)"
    using trial_reserved by blast
  have "claim \<noteq> ClaimOwned lease"
    by (rule notification_never_resent [OF first, of "Some 900000000" "Some (replicate 16 7)" "trial_command ''n''"
        NotifyWorkspaceOwner "''e''" "Some 1" trial_environment "[]" claim db2])
       (simp_all add: notification_kind_def second registry_run_def)
  then show ?thesis using first second by blast
qed

abbreviation trial_complete :: "registry \<Rightarrow> store_error + registry" where
  "trial_complete \<equiv> complete_account_command demo_codec (\<lambda>_. False) (Some 9) trial_lease (JBool True)"

abbreviation trial_again :: "registry \<Rightarrow> store_error + account_command_claim \<times> registry" where
  "trial_again \<equiv> reserve_account_command demo_codec (Some 900000000) None (trial_command ''k'') SetEnabled ''e'' (Some 1)"

lemma trial_completed: "\<exists>db1 claim db2. trial_complete trial_registry = Inr db1 \<and> trial_again db1 = Inr (claim, db2)"
  apply (simp add: complete_account_command_def complete_account_command_with_diagnostic_def
      validate_account_command_response_def finish_command_sync_def trial_lease_def holds_claim_def has_receipt_key_def
      commit_evaluation demo_codec_def completed_receipt_def)
  apply (simp add: trial_rows schema_checks receipt_evaluation)
  apply (simp add: trial_command_def command_kind_text_def demo_parse_print commit_evaluation receipt_evaluation null_or_def)
  done

lemma completion_needs_the_claim_witness:
  "\<exists>db'. trial_complete trial_registry = Inr db' \<and> trial_complete db' = Inl (OwnershipLost ''command receipt claim'')"
  using trial_completed completion_needs_the_claim [OF trial_registry_schema] by blast

lemma finished_command_replays_witness:
  "\<exists>db1. trial_complete trial_registry = Inr db1 \<and> trial_again db1 = Inr (ClaimReplayed (JBool True), db1)"
proof -
  obtain db1 claim db2 where complete: "trial_complete trial_registry = Inr db1" and again: "trial_again db1 = Inr (claim, db2)"
    using trial_completed by blast
  have receipt: "read_command_receipt trial_registry (cr_key trial_lease) = Some trial_receipt"
    by (simp add: read_command_receipt_def trial_lease_def trial_receipt_def has_receipt_key_def)
  have "claim = ClaimReplayed (JBool True) \<and> db2 = registry_run trial_environment [] db1"
  proof (rule finished_command_replays [OF trial_registry_schema receipt complete])
    show "jc_parse_value demo_codec (jc_print_value demo_codec (JBool True)) = Some (JBool True)"
      by (simp add: demo_codec_def demo_parse_print)
    show "reserve_account_command demo_codec (Some 900000000) None (trial_command ''k'') SetEnabled (cx_entity_id trial_receipt)
        (cx_expected_revision trial_receipt) (registry_run trial_environment [] db1) = Inr (claim, db2)"
      using again by (simp add: trial_receipt_def registry_run_def)
  qed (simp_all add: trial_command_def trial_lease_def trial_receipt_def command_kind_text_def)
  then show ?thesis using complete again by (simp add: registry_run_def)
qed

section \<open>Values\<close>

lemma alias_allocation_finds_witness:
  "\<exists>name. allocate_alias (\<lambda>_. replicate 32 0) \<lparr>pid_provider = Chatgpt, pid_account_id = ''p''\<rparr> [''Alex''] = Some name \<and> name \<noteq> ''Alex''"
  using alias_allocation_finds [of "[''Alex'']" "\<lambda>_. replicate 32 0" "\<lparr>pid_provider = Chatgpt, pid_account_id = ''p''\<rparr>"] by auto

lemma credential_binding_round_trip_witness:
  "parse_binding_json demo_codec (binding_json demo_codec (Some trial_binding)) = Inr (Some trial_binding)"
proof (rule credential_binding_round_trip)
  show "storable_binding trial_binding"
    by (simp add: storable_binding_def trial_binding_def i64_max_def)
  show "jc_parse_value demo_codec (jc_print_value demo_codec (binding_value trial_binding)) = Some (binding_value trial_binding)"
    by (simp add: demo_codec_def demo_parse_print)
qed (simp add: same_members_def)

lemma credential_rotation_swaps_witness:
  "\<exists>db'. rotate_credential (Some 9) (trial_key 1) (trial_key 2) [8] trial_registry = Inr db' \<and>
     read_credential (trial_id 2) db' = Inr (trial_key 2, [8])"
proof -
  have "\<exists>db'. rotate_credential (Some 9) (trial_key 1) (trial_key 2) [8] trial_registry = Inr db'"
    by (simp add: rotate_credential_def saturating_add_u64_def checked_add_u64_def trial_key_def i64_try_from_u64_def
        i64_max_def commit_evaluation) (simp add: matches_key_def trial_rows schema_checks registry_commit_def deferred_operations_def)
  then show ?thesis
    using credential_rotation_swaps [OF trial_registry_schema, of "Some 9" "trial_key 1" "trial_key 2" "[8]"]
    by (auto simp: trial_key_def)
qed

definition trial_usage :: account_usage_observation where
  "trial_usage = \<lparr>auo_account_revision = 2, auo_observed_at = 9, auo_ordinary_usage_allowed = Some True,
     auo_conditions = no_conditions\<rparr>"

lemma usage_observation_fenced_witness:
  "\<exists>db'. observe_account_usage (AccountId (trial_id 2)) trial_usage None None trial_registry = Inr (True, db') \<and>
     read_usage_observation db' (trial_id 2) = Some trial_usage"
proof -
  have "\<exists>db'. observe_account_usage (AccountId (trial_id 2)) trial_usage None None trial_registry = Inr (True, db')"
    apply (simp add: observe_account_usage_def trial_usage_def read_usage_observation_def find_row_def
        write_optional_window_def put_usage_def usage_row_of_def commit_evaluation)
    apply (simp add: trial_rows schema_checks usage_state_def ordinary_requests_allowed_def no_conditions_def exhausted_window_def registry_commit_def deferred_operations_def)
    done
  then show ?thesis
    using usage_observation_fenced [OF trial_registry_schema, of "AccountId (trial_id 2)" trial_usage None None True] by auto
qed

end
