(* ===== verification/Route_Json.thy ===== *)
theory Route_Json
  imports Routing Registry_Read Context_Data
begin

text \<open>
  The stored form of a route in \<^verbatim>\<open>conversation_routing.rs\<close>: labels, and the JSON of the captured
  snapshot, of the causes and of the exclusions, with the parsers that read them back.
\<close>

section \<open>Labels\<close>

definition decision_kind_text :: "decision_kind \<Rightarrow> string" where
  "decision_kind_text kind = (case kind of Selected \<Rightarrow> ''selected'' | Waiting \<Rightarrow> ''waiting'' | NoRoute \<Rightarrow> ''no_route'')"

definition parse_decision_kind :: "string \<Rightarrow> store_error + decision_kind" where
  "parse_decision_kind s =
     (if s = ''selected'' then Inr Selected else if s = ''waiting'' then Inr Waiting
      else if s = ''no_route'' then Inr NoRoute else Inl (incompatible ''routing decision kind''))"

definition window_text :: "quota_window_class \<Rightarrow> string" where
  "window_text window = (case window of FiveHour \<Rightarrow> ''five_hour'' | SevenDay \<Rightarrow> ''seven_day'')"

definition parse_window :: "string \<Rightarrow> string \<Rightarrow> store_error + quota_window_class" where
  "parse_window reason s =
     (if s = ''five_hour'' then Inr FiveHour else if s = ''seven_day'' then Inr SevenDay else Inl (incompatible reason))"

text \<open>The module has its own copy of the parser, with its own error.\<close>

definition parse_route_quota_error :: "string \<Rightarrow> store_error + account_quota_observation_error" where
  "parse_route_quota_error s =
     (if s = ''provider_unavailable'' then Inr ProviderUnavailable
      else if s = ''protocol_unavailable'' then Inr ProtocolUnavailable
      else if s = ''account_mismatch'' then Inr AccountMismatch
      else if s = ''unsupported_window'' then Inr UnsupportedWindow
      else Inl (incompatible ''quota error''))"

interpretation decision_kind_label: label_codec decision_kind_text "\<lambda>s. ok_opt (parse_decision_kind s)"
proof
  show "ok_opt (parse_decision_kind (decision_kind_text x)) = Some x" for x
    by (cases x) (simp_all add: decision_kind_text_def parse_decision_kind_def)
  show "s = decision_kind_text x" if "ok_opt (parse_decision_kind s) = Some x" for s x
    using that by (auto simp: decision_kind_text_def parse_decision_kind_def split: if_splits)
qed

interpretation window_label: label_codec window_text "\<lambda>s. ok_opt (parse_window reason s)"
proof
  show "ok_opt (parse_window reason (window_text x)) = Some x" for x
    by (cases x) (simp_all add: window_text_def parse_window_def)
  show "s = window_text x" if "ok_opt (parse_window reason s) = Some x" for s x
    using that by (auto simp: window_text_def parse_window_def split: if_splits)
qed

interpretation route_quota_error_label: label_codec quota_error_text "\<lambda>s. ok_opt (parse_route_quota_error s)"
proof
  show "ok_opt (parse_route_quota_error (quota_error_text x)) = Some x" for x
    by (cases x) (simp_all add: quota_error_text_def parse_route_quota_error_def)
  show "s = quota_error_text x" if "ok_opt (parse_route_quota_error s) = Some x" for s x
    using that by (auto simp: quota_error_text_def parse_route_quota_error_def split: if_splits)
qed

section \<open>Values\<close>

text \<open>\<^verbatim>\<open>Value::as_i64\<close>, \<^verbatim>\<open>as_object\<close> and \<^verbatim>\<open>as_array\<close>.\<close>

definition json_i64 :: "json \<Rightarrow> i64 option" where
  "json_i64 v = (case v of JInt n \<Rightarrow> if - (2 ^ 63) \<le> n \<and> n \<le> i64_max then Some n else None | _ \<Rightarrow> None)"

definition json_object :: "json \<Rightarrow> json option" where
  "json_object v = (case v of JObject _ \<Rightarrow> Some v | _ \<Rightarrow> None)"

definition json_array :: "json \<Rightarrow> json list option" where
  "json_array v = (case v of JArray vs \<Rightarrow> Some vs | _ \<Rightarrow> None)"

definition route_text :: "json option \<Rightarrow> store_error + string" where
  "route_text v = ok_or (incompatible ''JSON text'') (Option.bind v json_str_value)"

definition route_integer :: "json option \<Rightarrow> store_error + i64" where
  "route_integer v = ok_or (incompatible ''JSON integer'') (Option.bind v json_i64)"

definition u8_try_from :: "i64 \<Rightarrow> byte option" where
  "u8_try_from n = (if 0 \<le> n \<and> n < 256 then Some (word_of_int n) else None)"

definition usize_try_from :: "i64 \<Rightarrow> usize option" where
  "usize_try_from n = (if 0 \<le> n then Some (nat n) else None)"

definition route_account :: "string \<Rightarrow> json option \<Rightarrow> store_error + account_id" where
  "route_account reason v = and_then (route_text v) (\<lambda>s. map_err (\<lambda>_. incompatible reason) (account_id_new s))"

section \<open>Writing\<close>

definition mode_json :: "account_selection_mode \<Rightarrow> json" where
  "mode_json mode = (case mode of
       Balanced \<Rightarrow> JObject [(''kind'', JString ''balanced'')]
     | Fixed account \<Rightarrow> JObject [(''kind'', JString ''fixed''), (''account_id'', JString (account_id_text account))])"

definition member_json :: "routing_member \<Rightarrow> json" where
  "member_json m = JObject
     [(''position'', JInt (int (rm_position m))), (''account_id'', JString (account_id_text (rm_account_id m))),
      (''account_revision'', JInt (rm_account_revision m)),
      (''blockers'', JArray (map (\<lambda>b. JString (blocker_as_sql b)) (rm_blockers m)))]"

definition observation_json :: "quota_observation \<Rightarrow> json" where
  "observation_json observation = (case observation of
       Missing \<Rightarrow> JObject [(''kind'', JString ''missing'')]
     | NotApplicable observed_at \<Rightarrow>
         JObject [(''kind'', JString ''not_applicable''), (''observed_at_micros'', JInt observed_at)]
     | Current used observed_at resets_at \<Rightarrow>
         JObject [(''kind'', JString ''current''), (''used_percent'', JInt (uint used)),
           (''observed_at_micros'', JInt observed_at), (''resets_at_micros'', JInt resets_at)]
     | ObservationError e observed_at \<Rightarrow>
         JObject [(''kind'', JString ''error''), (''error'', JString (quota_error_text e)),
           (''observed_at_micros'', JInt observed_at)])"

definition quota_fact_json :: "quota_fact \<Rightarrow> json" where
  "quota_fact_json f = JObject
     [(''account_id'', JString (account_id_text (qf_account_id f))), (''window'', JString (window_text (qf_window f))),
      (''duration_minutes'', JInt (uint (qf_duration_minutes f))), (''observation'', observation_json (qf_observation f))]"

definition serialize_snapshot :: "routing_snapshot \<Rightarrow> json" where
  "serialize_snapshot s = JObject
     [(''snapshot_id'', JString (rs_snapshot_id s)), (''routing_revision'', JInt (rs_routing_revision s)),
      (''mode'', mode_json (rs_mode s)), (''task_role_profile_revision'', JInt (rs_task_role_profile_revision s)),
      (''resolved_at_micros'', JInt (rs_resolved_at_micros s)),
      (''members'', JArray (map member_json (rs_members s))),
      (''quota_facts'', JArray (map quota_fact_json (rs_quota_facts s)))]"

definition cause_json :: "routing_decision_cause \<Rightarrow> json" where
  "cause_json c = JObject [(''account_id'', JString (account_id_text (dc_account_id c))),
     (''blocker'', JString (blocker_as_sql (dc_blocker c)))]"

definition serialize_causes :: "routing_decision_cause list \<Rightarrow> json" where
  "serialize_causes causes = JArray (map cause_json causes)"

definition exclusion_json :: "routing_exclusion \<Rightarrow> json" where
  "exclusion_json e = JObject
     [(''account_id'', JString (account_id_text (ex_account_id e))), (''member_position'', JInt (int (ex_member_position e))),
      (''window'', JString (window_text (ex_window e))), (''duration_minutes'', JInt (uint (ex_duration_minutes e))),
      (''used_percent'', JInt (uint (ex_used_percent e))), (''observed_at_micros'', JInt (ex_observed_at_micros e)),
      (''resets_at_micros'', JInt (ex_resets_at_micros e))]"

definition serialize_exclusions :: "routing_exclusion list \<Rightarrow> json" where
  "serialize_exclusions exclusions = JArray (map exclusion_json exclusions)"

section \<open>Reading\<close>

definition parse_blocker :: "json \<Rightarrow> store_error + routing_blocker" where
  "parse_blocker v = and_then (route_text (Some v)) (\<lambda>s. ok_or (incompatible ''routing blocker'') (blocker_from_sql s))"

definition parse_member :: "json \<Rightarrow> store_error + routing_member" where
  "parse_member v =
     and_then (ok_or (incompatible ''routing member'') (json_object v)) (\<lambda>object.
     and_then (ok_or (incompatible ''routing blockers'') (Option.bind (json_get object ''blockers'') json_array)) (\<lambda>vs.
     and_then (traverse parse_blocker vs) (\<lambda>blockers.
     and_then (route_integer (json_get object ''position'')) (\<lambda>n.
     and_then (ok_or (incompatible ''routing position'') (usize_try_from n)) (\<lambda>position.
     and_then (route_account ''routing account'' (json_get object ''account_id'')) (\<lambda>account.
     and_then (route_integer (json_get object ''account_revision'')) (\<lambda>revision.
       Inr \<lparr>rm_position = position, rm_account_id = account, rm_account_revision = revision,
         rm_blockers = blockers\<rparr>)))))))"

definition parse_observation :: "json \<Rightarrow> store_error + quota_observation" where
  "parse_observation object =
     and_then (route_text (json_get object ''kind'')) (\<lambda>kind.
       if kind = ''missing'' then Inr Missing
       else if kind = ''not_applicable''
       then and_then (route_integer (json_get object ''observed_at_micros'')) (\<lambda>t. Inr (NotApplicable t))
       else if kind = ''current''
       then
         and_then (route_integer (json_get object ''used_percent'')) (\<lambda>n.
         and_then (ok_or (incompatible ''quota percent'') (u8_try_from n)) (\<lambda>used.
         and_then (route_integer (json_get object ''observed_at_micros'')) (\<lambda>observed_at.
         and_then (route_integer (json_get object ''resets_at_micros'')) (\<lambda>resets_at.
           Inr (Current used observed_at resets_at)))))
       else if kind = ''error''
       then
         and_then (route_text (json_get object ''error'')) (\<lambda>s.
         and_then (parse_route_quota_error s) (\<lambda>e.
         and_then (route_integer (json_get object ''observed_at_micros'')) (\<lambda>t. Inr (ObservationError e t))))
       else Inl (incompatible ''quota observation kind''))"

definition parse_quota_fact :: "json \<Rightarrow> store_error + quota_fact" where
  "parse_quota_fact v =
     and_then (ok_or (incompatible ''routing quota fact'') (json_object v)) (\<lambda>object.
     and_then (route_account ''quota account'' (json_get object ''account_id'')) (\<lambda>account.
     and_then (and_then (route_text (json_get object ''window'')) (parse_window ''quota window'')) (\<lambda>window.
     and_then (route_integer (json_get object ''duration_minutes'')) (\<lambda>n.
     and_then (ok_or (incompatible ''quota duration'') (u16_try_from n)) (\<lambda>duration.
     and_then (ok_or (incompatible ''quota observation'') (Option.bind (json_get object ''observation'') json_object)) (\<lambda>o'.
     and_then (parse_observation o') (\<lambda>observation.
       Inr \<lparr>qf_account_id = account, qf_window = window, qf_duration_minutes = duration,
         qf_observation = observation\<rparr>)))))))"

definition parse_mode :: "json \<Rightarrow> store_error + account_selection_mode" where
  "parse_mode object =
     and_then (route_text (json_get object ''kind'')) (\<lambda>kind.
       if kind = ''balanced'' then Inr Balanced
       else if kind = ''fixed''
       then and_then (route_account ''fixed account'' (json_get object ''account_id'')) (\<lambda>a. Inr (Fixed a))
       else Inl (incompatible ''routing mode''))"

definition parse_snapshot :: "json \<Rightarrow> store_error + routing_snapshot" where
  "parse_snapshot v =
     and_then (ok_or (incompatible ''routing snapshot'') (json_object v)) (\<lambda>object.
     and_then (route_text (json_get object ''snapshot_id'')) (\<lambda>snapshot_id.
     and_then (route_integer (json_get object ''routing_revision'')) (\<lambda>routing_revision.
     and_then (route_integer (json_get object ''task_role_profile_revision'')) (\<lambda>profile_revision.
     and_then (route_integer (json_get object ''resolved_at_micros'')) (\<lambda>resolved_at.
     and_then (ok_or (incompatible ''routing mode'') (Option.bind (json_get object ''mode'') json_object)) (\<lambda>m.
     and_then (parse_mode m) (\<lambda>mode.
     and_then (ok_or (incompatible ''routing members'') (Option.bind (json_get object ''members'') json_array)) (\<lambda>ms.
     and_then (traverse parse_member ms) (\<lambda>members.
     and_then (ok_or (incompatible ''routing quota'') (Option.bind (json_get object ''quota_facts'') json_array)) (\<lambda>fs.
     and_then (traverse parse_quota_fact fs) (\<lambda>facts.
       Inr \<lparr>rs_snapshot_id = snapshot_id, rs_routing_revision = routing_revision, rs_mode = mode,
         rs_task_role_profile_revision = profile_revision, rs_resolved_at_micros = resolved_at,
         rs_members = members, rs_quota_facts = facts\<rparr>)))))))))))"

definition parse_cause :: "json \<Rightarrow> store_error + routing_decision_cause" where
  "parse_cause v =
     and_then (ok_or (incompatible ''routing cause'') (json_object v)) (\<lambda>object.
     and_then (route_account ''routing cause account'' (json_get object ''account_id'')) (\<lambda>account.
     and_then (route_text (json_get object ''blocker'')) (\<lambda>s.
     and_then (ok_or (incompatible ''routing cause blocker'') (blocker_from_sql s)) (\<lambda>blocker.
       Inr \<lparr>dc_account_id = account, dc_blocker = blocker\<rparr>))))"

definition parse_causes :: "json \<Rightarrow> store_error + routing_decision_cause list" where
  "parse_causes v = and_then (ok_or (incompatible ''routing causes'') (json_array v)) (traverse parse_cause)"

definition parse_exclusion :: "json \<Rightarrow> store_error + routing_exclusion" where
  "parse_exclusion v =
     and_then (ok_or (incompatible ''routing exclusion'') (json_object v)) (\<lambda>object.
     and_then (route_account ''routing exclusion account'' (json_get object ''account_id'')) (\<lambda>account.
     and_then (route_integer (json_get object ''member_position'')) (\<lambda>n.
     and_then (ok_or (incompatible ''routing exclusion position'') (usize_try_from n)) (\<lambda>position.
     and_then (and_then (route_text (json_get object ''window'')) (parse_window ''routing exclusion window'')) (\<lambda>window.
     and_then (route_integer (json_get object ''duration_minutes'')) (\<lambda>d.
     and_then (ok_or (incompatible ''routing exclusion duration'') (u16_try_from d)) (\<lambda>duration.
     and_then (route_integer (json_get object ''used_percent'')) (\<lambda>p.
     and_then (ok_or (incompatible ''routing exclusion percentage'') (u8_try_from p)) (\<lambda>used.
     and_then (route_integer (json_get object ''observed_at_micros'')) (\<lambda>observed_at.
     and_then (route_integer (json_get object ''resets_at_micros'')) (\<lambda>resets_at.
       Inr \<lparr>ex_account_id = account, ex_member_position = position, ex_window = window,
         ex_duration_minutes = duration, ex_used_percent = used, ex_observed_at_micros = observed_at,
         ex_resets_at_micros = resets_at\<rparr>)))))))))))"

definition parse_exclusions :: "json \<Rightarrow> store_error + routing_exclusion list" where
  "parse_exclusions v = and_then (ok_or (incompatible ''routing exclusions'') (json_array v)) (traverse parse_exclusion)"

section \<open>Round trips\<close>

text \<open>
  A value that is written as JSON and read back, with the condition under which it survives; the lists of
  such values survive too.
\<close>

locale json_shape =
  fixes encode :: "'a \<Rightarrow> json" and parse :: "json \<Rightarrow> store_error + 'a" and storable :: "'a \<Rightarrow> bool"
  assumes parse_encode: "storable x \<Longrightarrow> parse (encode x) = Inr x"
begin

lemma parse_list: "list_all storable xs \<Longrightarrow> traverse parse (map encode xs) = Inr xs"
  by (induction xs) (simp_all add: parse_encode)

lemma encode_inj: "storable x \<Longrightarrow> storable y \<Longrightarrow> encode x = encode y \<Longrightarrow> x = y"
  by (metis parse_encode sum.inject(2))

end

definition in_i64 :: "int \<Rightarrow> bool" where
  "in_i64 n \<longleftrightarrow> - (2 ^ 63) \<le> n \<and> n \<le> i64_max"

definition storable_account :: "account_id \<Rightarrow> bool" where
  "storable_account a \<longleftrightarrow> is_canonical_uuid (account_id_text a)"

fun storable_observation :: "quota_observation \<Rightarrow> bool" where
  "storable_observation Missing = True"
| "storable_observation (NotApplicable t) = in_i64 t"
| "storable_observation (Current used t r) = (in_i64 t \<and> in_i64 r)"
| "storable_observation (ObservationError e t) = in_i64 t"

definition storable_member :: "routing_member \<Rightarrow> bool" where
  "storable_member m \<longleftrightarrow> in_i64 (int (rm_position m)) \<and> storable_account (rm_account_id m) \<and> in_i64 (rm_account_revision m)"

definition storable_fact :: "quota_fact \<Rightarrow> bool" where
  "storable_fact f \<longleftrightarrow> storable_account (qf_account_id f) \<and> storable_observation (qf_observation f)"

definition storable_cause :: "routing_decision_cause \<Rightarrow> bool" where
  "storable_cause c \<longleftrightarrow> storable_account (dc_account_id c)"

definition storable_exclusion :: "routing_exclusion \<Rightarrow> bool" where
  "storable_exclusion e \<longleftrightarrow> storable_account (ex_account_id e) \<and> in_i64 (int (ex_member_position e)) \<and>
     in_i64 (ex_observed_at_micros e) \<and> in_i64 (ex_resets_at_micros e)"

fun storable_mode :: "account_selection_mode \<Rightarrow> bool" where
  "storable_mode Balanced = True"
| "storable_mode (Fixed a) = storable_account a"

definition storable_snapshot :: "routing_snapshot \<Rightarrow> bool" where
  "storable_snapshot s \<longleftrightarrow> in_i64 (rs_routing_revision s) \<and> in_i64 (rs_task_role_profile_revision s) \<and>
     in_i64 (rs_resolved_at_micros s) \<and> storable_mode (rs_mode s) \<and> list_all storable_member (rs_members s) \<and>
     list_all storable_fact (rs_quota_facts s)"

lemma json_get_Cons [simp]: "json_get (JObject ((k, v) # kvs)) k' = (if k = k' then Some v else json_get (JObject kvs) k')"
  by (simp add: json_get_def)

lemma json_shapes [simp]:
  "json_object (JObject kvs) = Some (JObject kvs)" "json_array (JArray vs) = Some vs"
  "route_text (Some (JString s)) = Inr s"
  by (simp_all add: json_object_def json_array_def route_text_def json_str_value_def)

lemma route_integer_JInt [simp]: "in_i64 n \<Longrightarrow> route_integer (Some (JInt n)) = Inr n"
  by (simp add: route_integer_def json_i64_def in_i64_def)

lemma in_i64_words [simp]: "in_i64 (uint (w :: 8 word))" "in_i64 (uint (v :: 16 word))"
  using unsigned_less [of w, where 'a = int] unsigned_less [of v, where 'a = int]
    unsigned_greater_eq [of w, where 'a = int] unsigned_greater_eq [of v, where 'a = int]
  by (auto simp add: in_i64_def i64_max_def intro: order_trans [of _ 0])

lemma u8_round_trip [simp]: "u8_try_from (uint (w :: byte)) = Some w"
  using unsigned_less [of w, where 'a = int] by (simp add: u8_try_from_def)

lemma duration_round_trip [simp]: "u16_try_from (uint (v :: 16 word)) = Some v"
  using unsigned_less [of v, where 'a = int] by (simp add: u16_try_from_def)

lemma usize_round_trip [simp]: "usize_try_from (int n) = Some n"
  by (simp add: usize_try_from_def)

lemma route_account_text [simp]: "storable_account a \<Longrightarrow> route_account reason (Some (JString (account_id_text a))) = Inr a"
  using account_id.make_text by (simp add: route_account_def storable_account_def)

lemma parse_labels [simp]:
  "parse_window reason (window_text w) = Inr w" "parse_route_quota_error (quota_error_text e) = Inr e"
  "parse_decision_kind (decision_kind_text k) = Inr k" "blocker_from_sql (blocker_as_sql b) = Some b"
  by (cases w; cases e; cases k; simp add: window_text_def parse_window_def quota_error_text_def parse_route_quota_error_def
      decision_kind_text_def parse_decision_kind_def routing_blocker.from_as)+

interpretation blocker_shape: json_shape "\<lambda>b. JString (blocker_as_sql b)" parse_blocker "\<lambda>_. True"
  by unfold_locales (simp add: parse_blocker_def)

lemma parse_blockers [simp]: "traverse parse_blocker (map (\<lambda>b. JString (blocker_as_sql b)) bs) = Inr bs"
  by (rule blocker_shape.parse_list) (simp add: list_all_iff)

interpretation member_shape: json_shape member_json parse_member storable_member
  by unfold_locales
     (simp add: parse_member_def member_json_def storable_member_def)

lemma parse_observation_json: "storable_observation x \<Longrightarrow> parse_observation (observation_json x) = Inr x"
  by (cases x) (simp_all add: parse_observation_def observation_json_def)

lemma observation_is_object [simp]: "json_object (observation_json x) = Some (observation_json x)"
  by (cases x) (simp_all add: observation_json_def)

interpretation fact_shape: json_shape quota_fact_json parse_quota_fact storable_fact
  by unfold_locales (simp add: parse_quota_fact_def quota_fact_json_def storable_fact_def parse_observation_json)

interpretation cause_shape: json_shape cause_json parse_cause storable_cause
  by unfold_locales (simp add: parse_cause_def cause_json_def storable_cause_def)

interpretation exclusion_shape: json_shape exclusion_json parse_exclusion storable_exclusion
  by unfold_locales (simp add: parse_exclusion_def exclusion_json_def storable_exclusion_def)

lemma parse_mode_json: "storable_mode m \<Longrightarrow> parse_mode (mode_json m) = Inr m"
  by (cases m) (simp_all add: parse_mode_def mode_json_def)

lemma mode_is_object [simp]: "json_object (mode_json m) = Some (mode_json m)"
  by (cases m) (simp_all add: mode_json_def)

interpretation snapshot_shape: json_shape serialize_snapshot parse_snapshot storable_snapshot
  by unfold_locales
     (simp add: parse_snapshot_def serialize_snapshot_def storable_snapshot_def parse_mode_json
        member_shape.parse_list fact_shape.parse_list)

interpretation causes_shape: json_shape serialize_causes parse_causes "list_all storable_cause"
  by unfold_locales (simp add: parse_causes_def serialize_causes_def cause_shape.parse_list)

interpretation exclusions_shape: json_shape serialize_exclusions parse_exclusions "list_all storable_exclusion"
  by unfold_locales (simp add: parse_exclusions_def serialize_exclusions_def exclusion_shape.parse_list)

text \<open>
  JSON up to the order of the members of an object, which a printer of maps does not keep: the readers of
  routing values do not see it, so a value survives any codec that only reorders members.
\<close>

section \<open>Reordered members\<close>

inductive json_same :: "json \<Rightarrow> json \<Rightarrow> bool" where
  json_same_refl: "json_same v v"
| json_same_array: "list_all2 json_same vs ws \<Longrightarrow> json_same (JArray vs) (JArray ws)"
| json_same_object: "(\<And>k. map_of kvs k = None \<and> map_of lws k = None \<or>
      (\<exists>v w. map_of kvs k = Some v \<and> map_of lws k = Some w \<and> json_same v w)) \<Longrightarrow>
    json_same (JObject kvs) (JObject lws)"

inductive_cases json_same_objectE: "json_same (JObject kvs) w"

lemma json_same_member:
  assumes "json_same v w"
  shows "json_get v k = None \<and> json_get w k = None \<or>
    (\<exists>x y. json_get v k = Some x \<and> json_get w k = Some y \<and> json_same x y)"
  using assms
proof cases
  case json_same_refl
  then show ?thesis by (cases "json_get v k") (auto intro: json_same.json_same_refl)
qed (auto simp: json_get_def)

lemma json_same_leaf:
  assumes "json_same v w"
  shows "json_str_value v = json_str_value w" "json_i64 v = json_i64 w"
    "json_object v = None \<and> json_object w = None \<or> json_object v = Some v \<and> json_object w = Some w"
    "json_array v = None \<and> json_array w = None \<or>
       (\<exists>vs ws. json_array v = Some vs \<and> json_array w = Some ws \<and> list_all2 json_same vs ws)"
  using assms
  by (cases; auto simp: json_str_value_def json_i64_def json_object_def json_array_def list_all2_same
      intro: json_same_refl split: json.splits)+

lemma traverse_same:
  assumes "list_all2 json_same vs ws" "\<And>v w. json_same v w \<Longrightarrow> f v = f w"
  shows "traverse f vs = traverse f ws"
  using assms(1) by induction (simp_all add: assms(2))

text \<open>What a reader takes from an object.\<close>

lemma read_same:
  assumes "json_same v w"
  shows "route_text (json_get v k) = route_text (json_get w k)" "route_integer (json_get v k) = route_integer (json_get w k)"
    "route_account reason (json_get v k) = route_account reason (json_get w k)"
  using json_same_member [OF assms, of k] json_same_leaf(1,2)
  by (auto simp: route_text_def route_integer_def route_account_def)

lemma object_same:
  assumes "json_same v w" "\<And>x y. json_same x y \<Longrightarrow> f x = f y"
  shows "and_then (ok_or e (Option.bind (json_get v k) json_object)) f = and_then (ok_or e (Option.bind (json_get w k) json_object)) f"
  using json_same_member [OF assms(1), of k] json_same_leaf(3) assms(2) by fastforce

lemma array_same:
  assumes "json_same v w" "\<And>x y. json_same x y \<Longrightarrow> f x = f y"
  shows "and_then (ok_or e (Option.bind (json_get v k) json_array)) (\<lambda>vs. and_then (traverse f vs) g) =
    and_then (ok_or e (Option.bind (json_get w k) json_array)) (\<lambda>vs. and_then (traverse f vs) g)"
proof -
  note member = json_same_member [OF assms(1), of k]
  show ?thesis
  proof (cases "json_get v k")
    case None
    then show ?thesis using member by simp
  next
    case (Some x)
    then obtain y where y: "json_get w k = Some y" "json_same x y" using member by auto
    then show ?thesis using Some json_same_leaf(4) [OF y(2)] traverse_same [of _ _ f, OF _ assms(2)] by auto
  qed
qed

lemma top_same:
  assumes "json_same v w" "\<And>x y. json_same x y \<Longrightarrow> f x = f y"
  shows "and_then (ok_or e (json_object v)) f = and_then (ok_or e (json_object w)) f"
  using json_same_leaf(3) [OF assms(1)] assms by auto

section \<open>Readers\<close>

text \<open>A codec gives back what it printed, up to the order of members.\<close>

definition prints_back :: "json_codec \<Rightarrow> json \<Rightarrow> bool" where
  "prints_back jc v \<longleftrightarrow> (\<exists>w. jc_parse_value jc (jc_print_value jc v) = Some w \<and> json_same v w)"

locale json_reader = json_shape +
  assumes parse_same: "json_same v w \<Longrightarrow> parse v = parse w"
begin

lemma parse_list_same: "list_all2 json_same vs ws \<Longrightarrow> traverse parse vs = traverse parse ws"
  by (rule traverse_same [OF _ parse_same])

lemma reads_back:
  "storable x \<Longrightarrow> prints_back jc (encode x) \<Longrightarrow> \<exists>w. jc_parse_value jc (jc_print_value jc (encode x)) = Some w \<and> parse w = Inr x"
  using parse_encode parse_same by (fastforce simp: prints_back_def)

end

interpretation blocker_reader: json_reader "\<lambda>b. JString (blocker_as_sql b)" parse_blocker "\<lambda>_. True"
  by unfold_locales (simp add: parse_blocker_def route_text_def json_same_leaf(1))

interpretation member_reader: json_reader member_json parse_member storable_member
proof unfold_locales
  show "parse_member v = parse_member w" if same: "json_same v w" for v w
    unfolding parse_member_def
    by (rule top_same [OF same]) (simp only: read_same array_same [OF _ blocker_reader.parse_same])
qed

lemma parse_observation_same: "json_same v w \<Longrightarrow> parse_observation v = parse_observation w"
  unfolding parse_observation_def by (simp only: read_same)

lemma parse_mode_same: "json_same v w \<Longrightarrow> parse_mode v = parse_mode w"
  unfolding parse_mode_def by (simp only: read_same)

interpretation fact_reader: json_reader quota_fact_json parse_quota_fact storable_fact
proof unfold_locales
  have observed: "and_then (parse_observation x) g = and_then (parse_observation y) g" if "json_same x y" for x y and g :: "_ \<Rightarrow> _ + quota_fact"
    by (simp only: parse_observation_same [OF that])
  show "parse_quota_fact v = parse_quota_fact w" if same: "json_same v w" for v w
    unfolding parse_quota_fact_def
    by (rule top_same [OF same]) (simp only: read_same object_same [OF _ observed])
qed

interpretation cause_reader: json_reader cause_json parse_cause storable_cause
proof unfold_locales
  show "parse_cause v = parse_cause w" if same: "json_same v w" for v w
    unfolding parse_cause_def by (rule top_same [OF same]) (simp only: read_same)
qed

interpretation exclusion_reader: json_reader exclusion_json parse_exclusion storable_exclusion
proof unfold_locales
  show "parse_exclusion v = parse_exclusion w" if same: "json_same v w" for v w
    unfolding parse_exclusion_def by (rule top_same [OF same]) (simp only: read_same)
qed

lemma parse_modes_same:
  "json_same x y \<Longrightarrow> and_then (parse_mode x) g = and_then (parse_mode y) g"
  by (simp only: parse_mode_same)

lemma mode_read_same:
  assumes "json_same v w"
  shows "and_then (ok_or e (Option.bind (json_get v k) json_object)) (\<lambda>m. and_then (parse_mode m) g) =
    and_then (ok_or e (Option.bind (json_get w k) json_object)) (\<lambda>m. and_then (parse_mode m) g)"
  by (rule object_same [OF assms]) (rule parse_modes_same)

interpretation snapshot_reader: json_reader serialize_snapshot parse_snapshot storable_snapshot
proof unfold_locales
  show "parse_snapshot v = parse_snapshot w" if same: "json_same v w" for v w
    unfolding parse_snapshot_def
    by (rule top_same [OF same])
       (simp only: read_same mode_read_same array_same [OF _ member_reader.parse_same] array_same [OF _ fact_reader.parse_same])
qed

lemma list_same:
  assumes "json_same v w" "\<And>x y. json_same x y \<Longrightarrow> f x = f y"
  shows "and_then (ok_or e (json_array v)) (traverse f) = and_then (ok_or e (json_array w)) (traverse f)"
  using json_same_leaf(4) [OF assms(1)] traverse_same [of _ _ f, OF _ assms(2)] by auto

interpretation causes_reader: json_reader serialize_causes parse_causes "list_all storable_cause"
  by unfold_locales (simp only: parse_causes_def list_same [OF _ cause_reader.parse_same])

interpretation exclusions_reader: json_reader serialize_exclusions parse_exclusions "list_all storable_exclusion"
  by unfold_locales (simp only: parse_exclusions_def list_same [OF _ exclusion_reader.parse_same])

text \<open>What a codec must do for the columns of a routing decision.\<close>

definition codec_reads_back :: "json_codec \<Rightarrow> bool" where
  "codec_reads_back jc \<longleftrightarrow>
     (\<forall>s. storable_snapshot s \<longrightarrow> prints_back jc (serialize_snapshot s)) \<and>
     (\<forall>causes. list_all storable_cause causes \<longrightarrow> prints_back jc (serialize_causes causes)) \<and>
     (\<forall>exclusions. list_all storable_exclusion exclusions \<longrightarrow> prints_back jc (serialize_exclusions exclusions))"

end
