(* ===== verification/Route_Snapshot.thy ===== *)
theory Route_Snapshot
  imports Route_Json
begin

text \<open>
  The snapshot that a route captures: the routing control, one member with its blockers per account of the
  registry, two quota facts per account, and the classification of the quota of the decision.
\<close>

section \<open>The order of the blockers\<close>

text \<open>The derived \<^verbatim>\<open>Ord\<close> of the enum: the order of its declaration.\<close>

definition blocker_declaration :: "routing_blocker list" where
  "blocker_declaration =
    [ExcludedByPolicy, AccountFromFuture, AccountStale, AccountUnavailable, AccountUnknown, AccountDepleted,
     AccountAuthFailed, AccountPluginUnready, AccountDisabled, EvidenceMissing, EvidenceFromFuture, EvidenceStale,
     EvidenceAccountMismatch, EvidenceProfileMismatch, EvidenceBuildMismatch, QuotaFiveHourMissing,
     QuotaFiveHourFromFuture, QuotaFiveHourStale, QuotaFiveHourUnknown, QuotaFiveHourResetElapsed,
     QuotaFiveHourDepleted, QuotaSevenDayMissing, QuotaSevenDayFromFuture, QuotaSevenDayStale,
     QuotaSevenDayUnknown, QuotaSevenDayResetElapsed, QuotaSevenDayDepleted, RequiredCapabilityUnsatisfied,
     AuthenticationRequired, PluginUnready, DependencyBlocked, ApprovalRequired, UserRequired, ExternalBlocked,
     UsageUnproven, ReconciliationUnproven, ReviewerUnavailable, ReviewerFailed, ReviewerAmbiguous,
     ProcessGenerationUnresolved, ProcessGenerationUnavailable, ProviderAttemptUnresolved, ProviderAttemptCompleted]"

definition blocker_ordinal :: "routing_blocker \<Rightarrow> nat" where
  "blocker_ordinal b = length (takeWhile (\<lambda>c. c \<noteq> b) blocker_declaration)"

lemma blocker_at_ordinal: "blocker_declaration ! blocker_ordinal b = b"
  by (cases b) (simp_all add: blocker_declaration_def blocker_ordinal_def)

instantiation routing_blocker :: linorder
begin

definition less_eq_routing_blocker :: "routing_blocker \<Rightarrow> routing_blocker \<Rightarrow> bool" where
  "less_eq_routing_blocker a b \<longleftrightarrow> blocker_ordinal a \<le> blocker_ordinal b"

definition less_routing_blocker :: "routing_blocker \<Rightarrow> routing_blocker \<Rightarrow> bool" where
  "less_routing_blocker a b \<longleftrightarrow> blocker_ordinal a < blocker_ordinal b"

instance
proof
  fix x y z :: routing_blocker
  show "x < y \<longleftrightarrow> x \<le> y \<and> \<not> y \<le> x"
    by (auto simp: less_routing_blocker_def less_eq_routing_blocker_def)
  show "x \<le> x" by (simp add: less_eq_routing_blocker_def)
  show "x \<le> y \<Longrightarrow> y \<le> z \<Longrightarrow> x \<le> z" by (simp add: less_eq_routing_blocker_def)
  show "x \<le> y \<Longrightarrow> y \<le> x \<Longrightarrow> x = y"
    unfolding less_eq_routing_blocker_def using blocker_at_ordinal by (metis le_antisym)
  show "x \<le> y \<or> y \<le> x" by (auto simp: less_eq_routing_blocker_def)
qed

end

section \<open>Members and facts\<close>

definition account_blockers :: "account_record \<Rightarrow> routing_blocker list" where
  "account_blockers account =
     (let readiness = ar_lifecycle_readiness account; state = ar_observed_state account in
      remdups_adj (sort (
        (if state = account_state.Unavailable then [AccountUnavailable] else []) @
        (if readiness \<in> set [StoreUnavailable, OperationUnsettled] then [AccountUnavailable] else []) @
        (if state = AuthFailed \<or> readiness \<in> set [CredentialAbsent, StoreMismatch, ProviderMismatch]
         then [AccountAuthFailed] else []) @
        (if state = account_state.PluginUnready \<or> readiness = CallbackCapabilityUnready then [AccountPluginUnready] else []) @
        (if \<not> ar_enabled account \<or> ar_tombstoned account \<or> readiness = Tombstoned then [AccountDisabled] else []))))"

definition u16_of_u32 :: "32 word \<Rightarrow> (16 word) option" where
  "u16_of_u32 n = (if unat n < 2 ^ 16 then Some (ucast n) else None)"

definition quota_observation_fact ::
    "account_quota_window_observation \<Rightarrow> store_error + quota_observation" where
  "quota_observation_fact observation =
     (let at = (\<lambda>reason. ok_or (Incompatible reason) (aqo_observed_at observation)) in
      case aqo_disposition observation of
        QuotaNotApplicable \<Rightarrow> and_then (at ''quota absence time'') (\<lambda>t. Inr (NotApplicable t))
      | QuotaUnknown \<Rightarrow> Inr Missing
      | QuotaCurrent w \<Rightarrow> and_then (at ''quota observation time'') (\<lambda>t. Inr (Current (aqw_used_percent w) t (aqw_resets_at w)))
      | QuotaStale w \<Rightarrow> and_then (at ''quota observation time'') (\<lambda>t. Inr (Current (aqw_used_percent w) t (aqw_resets_at w)))
      | QuotaError e \<Rightarrow> and_then (at ''quota error time'') (\<lambda>t. Inr (ObservationError e t)))"

definition quota_fact_of ::
    "account_id \<Rightarrow> quota_window_class \<Rightarrow> account_quota_window_observation \<Rightarrow> store_error + quota_fact" where
  "quota_fact_of account window observation =
     and_then (ok_or (Incompatible ''quota duration'') (u16_of_u32 (aqo_duration_minutes observation))) (\<lambda>duration.
     and_then (quota_observation_fact observation) (\<lambda>observed.
       Inr \<lparr>qf_account_id = account, qf_window = window, qf_duration_minutes = duration, qf_observation = observed\<rparr>))"

definition account_member :: "nat \<times> account_record \<Rightarrow> routing_member" where
  "account_member = (\<lambda>(index, account). \<lparr>rm_position = index + 1, rm_account_id = ar_account_id account,
     rm_account_revision = ar_revision account, rm_blockers = account_blockers account\<rparr>)"

definition account_facts :: "account_record \<Rightarrow> store_error + quota_fact list" where
  "account_facts account =
     and_then (quota_fact_of (ar_account_id account) FiveHour (ar_five_hour_quota account)) (\<lambda>five.
     and_then (quota_fact_of (ar_account_id account) SevenDay (ar_seven_day_quota account)) (\<lambda>seven.
       Inr [five, seven]))"

definition build_snapshot ::
    "string \<Rightarrow> i64 \<Rightarrow> account_selection_mode \<Rightarrow> i64 \<Rightarrow> i64 \<Rightarrow> account_record list \<Rightarrow> store_error + routing_snapshot" where
  "build_snapshot snapshot_id routing_revision mode profile_revision resolved_at accounts =
     and_then (traverse account_facts accounts) (\<lambda>facts.
       Inr \<lparr>rs_snapshot_id = snapshot_id, rs_routing_revision = routing_revision, rs_mode = mode,
         rs_task_role_profile_revision = profile_revision, rs_resolved_at_micros = resolved_at,
         rs_members = map account_member (enumerate 0 accounts), rs_quota_facts = concat facts\<rparr>)"

section \<open>The routing control\<close>

definition read_routing_control :: "registry \<Rightarrow> store_error + account_selection_mode \<times> i64" where
  "read_routing_control db =
     and_then (ok_or sql_error (lc_control db)) (\<lambda>c.
     and_then (case ct_fixed_account_id c of
         None \<Rightarrow> if ct_mode c = ''balanced'' then Inr Balanced else Inl (Incompatible ''routing control'')
       | Some a \<Rightarrow>
           if ct_mode c = ''fixed''
           then and_then (map_err (\<lambda>_. Incompatible ''fixed account'') (account_id_new a)) (\<lambda>a. Inr (Fixed a))
           else Inl (Incompatible ''routing control'')) (\<lambda>mode.
       Inr (mode, ct_revision c)))"

section \<open>Classification\<close>

definition observation_fresh :: "i64 \<Rightarrow> i64 \<Rightarrow> bool" where
  "observation_fresh now observed \<longleftrightarrow> observed \<le> now \<and> now - observed \<le> account_registry_quota_freshness_micros"

definition fact_complete :: "i64 \<Rightarrow> quota_fact \<Rightarrow> bool" where
  "fact_complete now f = (case qf_observation f of
       Current used observed_at resets_at \<Rightarrow> used < 100 \<and> observation_fresh now observed_at \<and> resets_at > now
     | NotApplicable observed_at \<Rightarrow> observation_fresh now observed_at
     | _ \<Rightarrow> False)"

definition quota_classification :: "routing_decision \<Rightarrow> routing_snapshot \<Rightarrow> string" where
  "quota_classification decision s =
     (if rd_kind decision = Waiting then ''known_depleted''
      else case rd_selected_account_id decision of
        None \<Rightarrow> ''unknown''
      | Some account \<Rightarrow>
          if list_all (fact_complete (rs_resolved_at_micros s)) (filter (\<lambda>f. qf_account_id f = account) (rs_quota_facts s))
          then ''known_available'' else ''unknown'')"

end
