(* ===== verification/Route_Store.thy ===== *)
theory Route_Store
  imports Route_Snapshot Registry_Runs
begin

text \<open>
  The routing decisions of conversations, \<^verbatim>\<open>conversation_routing.rs\<close>: the one initial route of a
  conversation, captured and decided in one transaction over the account registry, and the bindings of
  later turns to the account of their session. Of the other tables the model has the columns that these
  writers read or change.
\<close>

section \<open>Rows\<close>

record routed_decision =
  dn_decision_id :: string
  dn_operation_id :: string
  dn_key :: string
  dn_request_sha256 :: string
  dn_shape :: string
  dn_conversation_id :: string
  dn_turn_id :: string
  dn_conversation_revision :: i64
  dn_source_session :: "string option"
  dn_source_session_revision :: "i64 option"
  dn_account_snapshot_id :: "string option"
  dn_profile_snapshot_id :: "string option"
  dn_snapshot_id :: "string option"
  dn_snapshot_json :: "string option"
  dn_kind :: string
  dn_account_id :: "string option"
  dn_account_revision :: "i64 option"
  dn_routing_revision :: i64
  dn_quota_classification :: string
  dn_causes_json :: string
  dn_exclusions_json :: string
  dn_created :: i64

record task_request =
  qk_conversation_id :: string
  qk_model_source_account_id :: "string option"
  qk_model_source_account_revision :: "i64 option"
  qk_review_required :: bool

record routed_conversation =
  vc_conversation_id :: string
  vc_state :: string
  vc_revision :: i64
  vc_created :: i64
  vc_updated :: i64

record routed_turn =
  vt_turn_id :: string
  vt_conversation_id :: string
  vt_session_id :: "string option"
  vt_status :: string

record routed_session =
  sn_session_id :: string
  sn_conversation_id :: string
  sn_account_id :: string
  sn_account_revision :: i64
  sn_account_snapshot_id :: string
  sn_profile_snapshot_id :: string
  sn_profile_revision :: i64
  sn_state :: string
  sn_revision :: i64

record route_db =
  rt_registry :: registry
  rt_decisions :: "routed_decision list"
  rt_conversations :: "routed_conversation list"
  rt_requests :: "task_request list"
  rt_sessions :: "routed_session list"
  rt_turns :: "routed_turn list"
  rt_profile_revision :: "i64 option"

section \<open>Constraints\<close>

definition initial_shape :: string where "initial_shape = ''conversation_account_registry''"
definition continuation_shape :: string where "continuation_shape = ''conversation_continuation''"

definition routed_decision_checks :: "routed_decision \<Rightarrow> bool" where
  "routed_decision_checks r \<longleftrightarrow>
     sql_length (dn_decision_id r) = 36 \<and> sql_length (dn_operation_id r) = 36 \<and> bytes_between 1 256 (dn_key r) \<and>
     sql_length (dn_request_sha256 r) = 64 \<and> dn_shape r \<in> set [initial_shape, continuation_shape] \<and>
     sql_length (dn_turn_id r) = 36 \<and> dn_conversation_revision r > 0 \<and>
     null_or (\<lambda>n. n > 0) (dn_source_session_revision r) \<and>
     null_or (\<lambda>s. sql_length s = 36) (dn_account_snapshot_id r) \<and> null_or (\<lambda>s. sql_length s = 36) (dn_profile_snapshot_id r) \<and>
     null_or (\<lambda>s. sql_length s = 36) (dn_snapshot_id r) \<and>
     dn_kind r \<in> set [''selected'', ''waiting'', ''no_route''] \<and> null_or (\<lambda>n. n > 0) (dn_account_revision r) \<and>
     dn_routing_revision r > 0 \<and> dn_quota_classification r \<in> set [''known_available'', ''unknown'', ''known_depleted''] \<and>
     dn_created r > 0 \<and>
     (dn_kind r = ''selected'') = (dn_account_id r \<noteq> None) \<and>
     (dn_account_id r = None) = (dn_account_revision r = None) \<and>
     (dn_shape r = initial_shape \<and> dn_source_session r = None \<and> dn_source_session_revision r = None \<and>
        dn_account_snapshot_id r = None \<and> dn_profile_snapshot_id r = None \<and>
        dn_snapshot_id r \<noteq> None \<and> dn_snapshot_json r \<noteq> None \<or>
      dn_shape r = continuation_shape \<and> dn_source_session r \<noteq> None \<and> dn_source_session_revision r \<noteq> None \<and>
        dn_account_snapshot_id r \<noteq> None \<and> dn_profile_snapshot_id r \<noteq> None \<and>
        dn_snapshot_id r = None \<and> dn_snapshot_json r = None \<and> dn_kind r = ''selected'')"

definition routed_conversation_checks :: "routed_conversation \<Rightarrow> bool" where
  "routed_conversation_checks r \<longleftrightarrow> sql_length (vc_conversation_id r) = 36 \<and>
     vc_state r \<in> set [''active'', ''completed'', ''failed'', ''archived''] \<and> vc_revision r > 0 \<and>
     vc_created r > 0 \<and> vc_updated r \<ge> vc_created r \<and> sql_integer (vc_updated r)"

definition task_request_checks :: "task_request \<Rightarrow> bool" where
  "task_request_checks r \<longleftrightarrow> (case (qk_model_source_account_id r, qk_model_source_account_revision r) of
       (None, None) \<Rightarrow> True | (Some _, Some n) \<Rightarrow> n > 0 | _ \<Rightarrow> False)"

definition routed_session_checks :: "routed_session \<Rightarrow> bool" where
  "routed_session_checks r \<longleftrightarrow> sql_length (sn_session_id r) = 36 \<and> sn_account_revision r > 0 \<and>
     sql_length (sn_account_snapshot_id r) = 36 \<and> sql_length (sn_profile_snapshot_id r) = 36 \<and> sn_profile_revision r > 0 \<and>
     sn_state r \<in> set [''starting'', ''active'', ''ended'', ''diverged''] \<and> sn_revision r > 0"

text \<open>The index \<^verbatim>\<open>one_initial_routing_decision_per_conversation\<close> is partial.\<close>

definition initial_decision :: "routed_decision \<Rightarrow> bool" where
  "initial_decision r \<longleftrightarrow> dn_shape r = initial_shape"

definition decision_keys_unique :: "routed_decision list \<Rightarrow> bool" where
  "decision_keys_unique t \<longleftrightarrow> distinct (map dn_decision_id t) \<and> distinct (map dn_operation_id t) \<and>
     distinct (map dn_key t) \<and> distinct (map (\<lambda>r. (dn_conversation_id r, dn_turn_id r)) t) \<and>
     distinct (map dn_conversation_id (filter initial_decision t))"

definition known_conversation :: "route_db \<Rightarrow> string \<Rightarrow> bool" where
  "known_conversation db k \<longleftrightarrow> k \<in> set (map vc_conversation_id (rt_conversations db))"

definition known_account :: "route_db \<Rightarrow> string \<Rightarrow> bool" where
  "known_account db a \<longleftrightarrow> a \<in> set (map an_account_id (lc_accounts (rt_registry db)))"

definition route_schema :: "route_db \<Rightarrow> bool" where
  "route_schema db \<longleftrightarrow>
     list_all routed_decision_checks (rt_decisions db) \<and> list_all routed_conversation_checks (rt_conversations db) \<and>
     list_all task_request_checks (rt_requests db) \<and> list_all routed_session_checks (rt_sessions db) \<and>
     null_or (\<lambda>n. n > 0 \<and> sql_integer n) (rt_profile_revision db) \<and>
     decision_keys_unique (rt_decisions db) \<and> distinct (map vc_conversation_id (rt_conversations db)) \<and>
     distinct (map qk_conversation_id (rt_requests db)) \<and> distinct (map sn_session_id (rt_sessions db)) \<and>
     distinct (map vt_turn_id (rt_turns db)) \<and>
     list_all (\<lambda>r. known_conversation db (dn_conversation_id r) \<and> null_or (known_account db) (dn_account_id r)) (rt_decisions db) \<and>
     list_all (\<lambda>r. known_conversation db (qk_conversation_id r)) (rt_requests db) \<and>
     list_all (\<lambda>r. known_conversation db (sn_conversation_id r) \<and> known_account db (sn_account_id r)) (rt_sessions db)"

text \<open>The reference of a decision to its source session is deferred to the commit.\<close>

definition deferred_decisions :: "route_db \<Rightarrow> bool" where
  "deferred_decisions db \<longleftrightarrow>
     list_all (\<lambda>r. null_or (\<lambda>s. s \<in> set (map sn_session_id (rt_sessions db))) (dn_source_session r)) (rt_decisions db)"

definition route_execute :: "route_db \<Rightarrow> store_error + route_db" where
  "route_execute db = (if route_schema db then Inr db else Inl sql_error)"

definition route_commit :: "route_db \<Rightarrow> store_error + route_db" where
  "route_commit db = (if deferred_decisions db then Inr db else Inl sql_error)"

lemma route_execute_Ok_iff: "route_execute db = Inr db' \<longleftrightarrow> route_schema db \<and> db' = db"
  by (auto simp: route_execute_def)

lemma route_commit_Ok_iff: "route_commit db = Inr db' \<longleftrightarrow> deferred_decisions db \<and> db' = db"
  by (auto simp: route_commit_def)

section \<open>Requests\<close>

datatype execution_consumer =
  ExecutionTurn (ec_conversation: conversation_id) (ec_conversation_revision: i64)
    (ec_source_session: "runtime_session_id option") (ec_source_session_revision: "i64 option") (ec_turn: turn_id)

record route_initial_request =
  rq_conversation_id :: conversation_id
  rq_expected_revision :: i64

record initial_route =
  ir_decision_id :: string
  ir_operation_id :: string
  ir_snapshot :: routing_snapshot
  ir_consumer :: execution_consumer
  ir_turn_id :: turn_id
  ir_decided_at :: i64
  ir_decision :: routing_decision

datatype initial_route_outcome = RouteFresh initial_route | RouteReplayed initial_route | RouteRejected routing_rejection

record continuation_request =
  cq_operation_id :: string
  cq_conversation_id :: conversation_id
  cq_expected_revision :: i64
  cq_source_session :: runtime_session_id
  cq_expected_session_revision :: i64
  cq_turn_id :: turn_id

record continuation_binding =
  cn_decision_id :: string
  cn_consumer :: execution_consumer
  cn_initial_decision_id :: string
  cn_account_snapshot_id :: string
  cn_account_revision :: i64
  cn_profile_snapshot_id :: string
  cn_profile_revision :: i64
  cn_decided_at :: i64

text \<open>The hash of the length-prefixed parts, with \<^verbatim>\<open>i64::to_string\<close>.\<close>

fun nat_decimal :: "nat \<Rightarrow> string" where
  "nat_decimal n = (if n < 10 then [char_of (48 + n)] else nat_decimal (n div 10) @ [char_of (48 + n mod 10)])"

declare nat_decimal.simps [simp del]

definition int_decimal :: "int \<Rightarrow> string" where
  "int_decimal n = (if n < 0 then CHR ''-'' # nat_decimal (nat (- n)) else nat_decimal (nat n))"

definition route_digest :: "(byte list \<Rightarrow> byte list) \<Rightarrow> string list \<Rightarrow> string" where
  "route_digest sha256 parts = hex (sha256 (concat (map (\<lambda>part. be_bytes 8 (length part) @ bytes_of part) parts)))"

definition route_request_sha :: "(byte list \<Rightarrow> byte list) \<Rightarrow> route_initial_request \<Rightarrow> string" where
  "route_request_sha sha256 request = route_digest sha256
     [conversation_id_text (rq_conversation_id request), int_decimal (rq_expected_revision request)]"

definition continuation_request_sha :: "(byte list \<Rightarrow> byte list) \<Rightarrow> continuation_request \<Rightarrow> string" where
  "continuation_request_sha sha256 request = route_digest sha256
     [cq_operation_id request, conversation_id_text (cq_conversation_id request),
      int_decimal (cq_expected_revision request), runtime_session_id_text (cq_source_session request),
      int_decimal (cq_expected_session_revision request), turn_id_text (cq_turn_id request)]"

definition validate_route_key :: "(string \<Rightarrow> bool) \<Rightarrow> string \<Rightarrow> store_error + unit" where
  "validate_route_key credential_pattern key =
     (if key = [] \<or> length key > 256 \<or> contains_credential_material credential_pattern key
      then Inl (InvalidInput ''idempotency key is invalid'') else Inr ())"

definition replayed_routing_decision :: "route_db \<Rightarrow> string \<Rightarrow> string \<Rightarrow> store_error + string option" where
  "replayed_routing_decision db key sha = (case find_row dn_key (rt_decisions db) key of
       None \<Rightarrow> Inr None
     | Some r \<Rightarrow> if dn_request_sha256 r \<noteq> sha then Inl IdempotencyConflict else Inr (Some (dn_decision_id r)))"

end
