(* ===== verification/Route_Ops.thy ===== *)
theory Route_Ops
  imports Route_Store
begin

text \<open>
  The operations of \<^verbatim>\<open>conversation_routing.rs\<close>: the initial route with its replay, the continuation
  binding with its replay, and their readers.
\<close>

section \<open>Readers\<close>

definition stored_json :: "json_codec \<Rightarrow> string \<Rightarrow> string \<Rightarrow> store_error + json" where
  "stored_json jc reason s = ok_or (Incompatible reason) (jc_parse_value jc s)"

definition read_initial_route_by_id :: "json_codec \<Rightarrow> route_db \<Rightarrow> string \<Rightarrow> store_error + initial_route" where
  "read_initial_route_by_id jc db decision_key =
     and_then (ok_or sql_error (find (\<lambda>r. dn_decision_id r = decision_key \<and> initial_decision r) (rt_decisions db))) (\<lambda>r.
     and_then (ok_or sql_error (dn_snapshot_json r)) (\<lambda>snapshot_json.
     and_then (map_err (\<lambda>_. Incompatible ''Conversation identity'') (conversation_id_new (dn_conversation_id r))) (\<lambda>conversation.
     and_then (map_err (\<lambda>_. Incompatible ''Turn identity'') (turn_id_new (dn_turn_id r))) (\<lambda>turn.
     and_then (stored_json jc ''routing snapshot JSON'' snapshot_json) (\<lambda>v.
     and_then (parse_snapshot v) (\<lambda>snapshot.
     and_then (map_err (\<lambda>_. Incompatible ''selected account'') (transpose_option account_id_new (dn_account_id r))) (\<lambda>selected.
     and_then (parse_decision_kind (dn_kind r)) (\<lambda>kind.
     and_then (and_then (stored_json jc ''routing causes JSON'' (dn_causes_json r)) parse_causes) (\<lambda>causes.
     and_then (and_then (stored_json jc ''routing exclusions JSON'' (dn_exclusions_json r)) parse_exclusions) (\<lambda>exclusions.
       Inr \<lparr>ir_decision_id = decision_key, ir_operation_id = dn_operation_id r, ir_snapshot = snapshot,
         ir_consumer = ExecutionTurn conversation (dn_conversation_revision r) None None turn, ir_turn_id = turn,
         ir_decided_at = dn_created r,
         ir_decision = \<lparr>rd_snapshot_id = rs_snapshot_id snapshot, rd_kind = kind, rd_selected_account_id = selected,
           rd_exclusions = exclusions, rd_causes = causes\<rparr>\<rparr>))))))))))"

definition read_conversation_initial_route ::
    "json_codec \<Rightarrow> conversation_id \<Rightarrow> route_db \<Rightarrow> store_error + initial_route option" where
  "read_conversation_initial_route jc conversation db =
     transpose_option (\<lambda>r. read_initial_route_by_id jc db (dn_decision_id r))
       (find (\<lambda>r. dn_conversation_id r = conversation_id_text conversation \<and> initial_decision r) (rt_decisions db))"

section \<open>The initial route\<close>

definition initial_rejected :: "string \<Rightarrow> routing_rejection" where
  "initial_rejected reason = \<lparr>rr_operation = ''route_quick_task_initial'', rr_code = reason\<rparr>"

definition conversation_matches :: "route_db \<Rightarrow> string \<Rightarrow> i64 \<Rightarrow> bool" where
  "conversation_matches db c revision \<longleftrightarrow> c \<in> set (map qk_conversation_id (rt_requests db)) \<and>
     list_ex (\<lambda>r. vc_conversation_id r = c \<and> vc_revision r = revision \<and> vc_state r = ''active'') (rt_conversations db)"

definition initial_route_rejection :: "route_db \<Rightarrow> route_initial_request \<Rightarrow> store_error + routing_rejection option" where
  "initial_route_rejection db request =
     (let c = conversation_id_text (rq_conversation_id request) in
      if \<not> conversation_matches db c (rq_expected_revision request)
      then Inr (Some (initial_rejected ''conversation_mismatch''))
      else if list_ex (\<lambda>r. dn_conversation_id r = c \<and> initial_decision r) (rt_decisions db)
      then Inr (Some (initial_rejected ''initial_routing_already_bound''))
      else and_then (ok_or sql_error (find_row qk_conversation_id (rt_requests db) c)) (\<lambda>q.
        Inr (if qk_review_required q then Some (initial_rejected ''initial_model_source_changed'') else None)))"

text \<open>
  \<^verbatim>\<open>model_source_account_id IS NULL OR (model_source_account_id = ?2 AND ... = ?3)\<close> in the three
  values of SQL; the code reads a boolean, so \<^verbatim>\<open>NULL\<close> is an error.
\<close>

definition model_source_matches :: "task_request \<Rightarrow> string \<Rightarrow> i64 option \<Rightarrow> bool option" where
  "model_source_matches q selected revision =
     (case qk_model_source_account_id q of
        None \<Rightarrow> Some True
      | Some a \<Rightarrow>
          if a \<noteq> selected then Some False
          else case (qk_model_source_account_revision q, revision) of
            (Some n, Some m) \<Rightarrow> Some (n = m) | _ \<Rightarrow> None)"

definition mark_changed_model_source ::
    "string \<Rightarrow> account_id option \<Rightarrow> i64 option \<Rightarrow> i64 \<Rightarrow> route_db \<Rightarrow> store_error + bool \<times> route_db" where
  "mark_changed_model_source c selected revision now db =
     (case selected of
        None \<Rightarrow> Inr (False, db)
      | Some a \<Rightarrow>
          and_then (ok_or sql_error (find_row qk_conversation_id (rt_requests db) c)) (\<lambda>q.
          and_then (ok_or sql_error (model_source_matches q (account_id_text a) revision)) (\<lambda>same.
          if same then Inr (False, db)
          else
          and_then (route_execute (db\<lparr>rt_requests := update_rows (\<lambda>r. qk_conversation_id r = c)
            (\<lambda>r. r\<lparr>qk_review_required := True\<rparr>) (rt_requests db)\<rparr>)) (\<lambda>db.
          and_then (route_execute (db\<lparr>rt_conversations := update_rows (\<lambda>r. vc_conversation_id r = c)
            (\<lambda>r. r\<lparr>vc_updated := max (vc_updated r + 1) now\<rparr>) (rt_conversations db)\<rparr>)) (\<lambda>db.
            Inr (True, db))))))"

definition selected_revision :: "account_record list \<Rightarrow> routing_decision \<Rightarrow> i64 option" where
  "selected_revision accounts decision = Option.bind (rd_selected_account_id decision)
     (\<lambda>a. map_option ar_revision (find (\<lambda>r. ar_account_id r = a) accounts))"

definition initial_decision_row ::
    "json_codec \<Rightarrow> string \<Rightarrow> string \<Rightarrow> route_initial_request \<Rightarrow> initial_route \<Rightarrow> i64 option \<Rightarrow> routed_decision" where
  "initial_decision_row jc key sha request route revision =
     \<lparr>dn_decision_id = ir_decision_id route, dn_operation_id = ir_operation_id route, dn_key = key,
      dn_request_sha256 = sha, dn_shape = initial_shape,
      dn_conversation_id = conversation_id_text (rq_conversation_id request), dn_turn_id = turn_id_text (ir_turn_id route),
      dn_conversation_revision = rq_expected_revision request, dn_source_session = None,
      dn_source_session_revision = None, dn_account_snapshot_id = None, dn_profile_snapshot_id = None,
      dn_snapshot_id = Some (rs_snapshot_id (ir_snapshot route)),
      dn_snapshot_json = Some (jc_print_value jc (serialize_snapshot (ir_snapshot route))),
      dn_kind = decision_kind_text (rd_kind (ir_decision route)),
      dn_account_id = map_option account_id_text (rd_selected_account_id (ir_decision route)),
      dn_account_revision = revision, dn_routing_revision = rs_routing_revision (ir_snapshot route),
      dn_quota_classification = quota_classification (ir_decision route) (ir_snapshot route),
      dn_causes_json = jc_print_value jc (serialize_causes (rd_causes (ir_decision route))),
      dn_exclusions_json = jc_print_value jc (serialize_exclusions (rd_exclusions (ir_decision route))),
      dn_created = ir_decided_at route\<rparr>"

definition insert_initial_route ::
    "json_codec \<Rightarrow> string \<Rightarrow> string \<Rightarrow> route_initial_request \<Rightarrow> initial_route \<Rightarrow> i64 option \<Rightarrow> route_db \<Rightarrow>
     store_error + route_db" where
  "insert_initial_route jc key sha request route revision db =
     route_execute (db\<lparr>rt_decisions := rt_decisions db @ [initial_decision_row jc key sha request route revision]\<rparr>)"

text \<open>
  The capture and the decision, all from one transaction: accounts, control, profile, clock and snapshot.
  \<open>None\<close> is the rejection of an empty registry. The panic of the kernel, which cannot happen, is one of
  the errors that the code maps.
\<close>

definition capture_and_decide ::
    "quota_clock \<Rightarrow> i64 option \<Rightarrow> byte list option \<Rightarrow> route_db \<Rightarrow>
     store_error + (account_record list \<times> i64 \<times> routing_snapshot \<times> routing_decision) option" where
  "capture_and_decide clocks clock fill db =
     and_then (read_account_registry_sync clocks None 512 (rt_registry db)) (\<lambda>accounts.
     if accounts = [] then Inr None
     else
     and_then (read_routing_control (rt_registry db)) (\<lambda>(mode, routing_revision).
     and_then (ok_or sql_error (rt_profile_revision db)) (\<lambda>profile_revision.
     and_then (unix_micros clock) (\<lambda>now.
     and_then (random_uuid_v4 fill) (\<lambda>snapshot_id.
     and_then (build_snapshot snapshot_id routing_revision mode profile_revision now accounts) (\<lambda>snapshot.
     and_then (map_err (\<lambda>_. Incompatible ''routing snapshot is incomplete'')
       (decide_account_registry_routing snapshot now)) (\<lambda>decision.
       Inr (Some (accounts, now, snapshot, decision)))))))))"

text \<open>The random bytes are drawn in the order snapshot, decision, operation, turn.\<close>

definition route_conversation_initial ::
    "json_codec \<Rightarrow> (byte list \<Rightarrow> byte list) \<Rightarrow> (string \<Rightarrow> bool) \<Rightarrow> quota_clock \<Rightarrow> i64 option \<Rightarrow> (nat \<Rightarrow> byte list option) \<Rightarrow>
     string \<Rightarrow> route_initial_request \<Rightarrow> route_db \<Rightarrow> store_error + initial_route_outcome \<times> route_db" where
  "route_conversation_initial jc sha256 credential_pattern clocks clock fill key request db =
     and_then (validate_route_key credential_pattern key) (\<lambda>_.
     if rq_expected_revision request \<le> 0 then Inl (InvalidInput ''Conversation revision must be positive'')
     else
     let sha = route_request_sha sha256 request; c = conversation_id_text (rq_conversation_id request) in
     and_then (replayed_routing_decision db key sha) (\<lambda>replay.
     case replay of
       Some decision_key \<Rightarrow>
         and_then (read_initial_route_by_id jc db decision_key) (\<lambda>route.
         and_then (route_commit db) (\<lambda>db. Inr (RouteReplayed route, db)))
     | None \<Rightarrow>
     and_then (initial_route_rejection db request) (\<lambda>rejection.
     case rejection of
       Some r \<Rightarrow> Inr (RouteRejected r, db)
     | None \<Rightarrow>
     and_then (capture_and_decide clocks clock (fill 0) db) (\<lambda>captured.
     case captured of
       None \<Rightarrow> Inr (RouteRejected (initial_rejected ''routing_authority_unavailable''), db)
     | Some (accounts, now, snapshot, decision) \<Rightarrow>
     and_then (random_uuid_v4 (fill 1)) (\<lambda>decision_id.
     and_then (random_uuid_v4 (fill 2)) (\<lambda>operation_id.
     and_then (random_uuid_v4 (fill 3)) (\<lambda>turn_text.
     and_then (map_err (\<lambda>_. Incompatible ''generated Turn identity'') (turn_id_new turn_text)) (\<lambda>turn.
     let revision = selected_revision accounts decision in
     and_then (mark_changed_model_source c (rd_selected_account_id decision) revision now db) (\<lambda>(changed, db).
     if changed
     then and_then (route_commit db) (\<lambda>db. Inr (RouteRejected (initial_rejected ''initial_model_source_changed''), db))
     else
     let route = \<lparr>ir_decision_id = decision_id, ir_operation_id = operation_id, ir_snapshot = snapshot,
       ir_consumer = ExecutionTurn (rq_conversation_id request) (rq_expected_revision request) None None turn,
       ir_turn_id = turn, ir_decided_at = now, ir_decision = decision\<rparr> in
     and_then (insert_initial_route jc key sha request route revision db) (\<lambda>db.
     and_then (route_commit db) (\<lambda>db. Inr (RouteFresh route, db))))))))))))"

section \<open>Continuations\<close>

record continuation_authority =
  cy_account_id :: string
  cy_account_revision :: i64
  cy_account_snapshot_id :: string
  cy_profile_snapshot_id :: string
  cy_profile_revision :: i64
  cy_initial_decision_id :: string
  cy_routing_revision :: i64

definition initial_decision_of :: "route_db \<Rightarrow> string \<Rightarrow> routed_decision option" where
  "initial_decision_of db c = find (\<lambda>r. dn_conversation_id r = c \<and> initial_decision r) (rt_decisions db)"

definition active_session :: "route_db \<Rightarrow> continuation_request \<Rightarrow> routed_session \<Rightarrow> bool" where
  "active_session db request s \<longleftrightarrow>
     sn_conversation_id s = conversation_id_text (cq_conversation_id request) \<and>
     sn_revision s = cq_expected_session_revision request \<and> sn_state s = ''active'' \<and>
     list_ex (\<lambda>c. vc_conversation_id c = sn_conversation_id s \<and> vc_revision c = cq_expected_revision request \<and>
       vc_state c = ''active'') (rt_conversations db) \<and>
     list_ex (\<lambda>t. vt_turn_id t = turn_id_text (cq_turn_id request) \<and> vt_conversation_id t = sn_conversation_id s \<and>
       vt_session_id t = Some (sn_session_id s) \<and> vt_status t = ''active'') (rt_turns db)"

definition read_continuation_authority :: "route_db \<Rightarrow> continuation_request \<Rightarrow> continuation_authority option" where
  "read_continuation_authority db request =
     Option.bind (find_row sn_session_id (rt_sessions db) (runtime_session_id_text (cq_source_session request))) (\<lambda>s.
       if active_session db request s
       then map_option (\<lambda>d. \<lparr>cy_account_id = sn_account_id s, cy_account_revision = sn_account_revision s,
         cy_account_snapshot_id = sn_account_snapshot_id s, cy_profile_snapshot_id = sn_profile_snapshot_id s,
         cy_profile_revision = sn_profile_revision s, cy_initial_decision_id = dn_decision_id d,
         cy_routing_revision = dn_routing_revision d\<rparr>) (initial_decision_of db (sn_conversation_id s))
       else None)"

definition continuation_row ::
    "string \<Rightarrow> string \<Rightarrow> continuation_request \<Rightarrow> continuation_authority \<Rightarrow> string \<Rightarrow> i64 \<Rightarrow> routed_decision" where
  "continuation_row key sha request authority decision_id now =
     \<lparr>dn_decision_id = decision_id, dn_operation_id = cq_operation_id request, dn_key = key, dn_request_sha256 = sha,
      dn_shape = continuation_shape, dn_conversation_id = conversation_id_text (cq_conversation_id request),
      dn_turn_id = turn_id_text (cq_turn_id request), dn_conversation_revision = cq_expected_revision request,
      dn_source_session = Some (runtime_session_id_text (cq_source_session request)),
      dn_source_session_revision = Some (cq_expected_session_revision request),
      dn_account_snapshot_id = Some (cy_account_snapshot_id authority),
      dn_profile_snapshot_id = Some (cy_profile_snapshot_id authority), dn_snapshot_id = None, dn_snapshot_json = None,
      dn_kind = ''selected'', dn_account_id = Some (cy_account_id authority),
      dn_account_revision = Some (cy_account_revision authority), dn_routing_revision = cy_routing_revision authority,
      dn_quota_classification = ''unknown'', dn_causes_json = ''[]'', dn_exclusions_json = ''[]'', dn_created = now\<rparr>"

definition read_continuation_binding :: "route_db \<Rightarrow> string \<Rightarrow> store_error + continuation_binding" where
  "read_continuation_binding db decision_key =
     and_then (ok_or sql_error (find (\<lambda>r. dn_decision_id r = decision_key \<and> dn_shape r = continuation_shape) (rt_decisions db))) (\<lambda>d.
     and_then (ok_or sql_error (dn_source_session d)) (\<lambda>source.
     and_then (ok_or sql_error (find_row sn_session_id (rt_sessions db) source)) (\<lambda>s.
     and_then (ok_or sql_error (initial_decision_of db (dn_conversation_id d))) (\<lambda>initial.
     and_then (ok_or sql_error (dn_source_session_revision d)) (\<lambda>source_revision.
     and_then (ok_or sql_error (dn_account_snapshot_id d)) (\<lambda>account_snapshot.
     and_then (ok_or sql_error (dn_account_revision d)) (\<lambda>account_revision.
     and_then (ok_or sql_error (dn_profile_snapshot_id d)) (\<lambda>profile_snapshot.
     and_then (map_err (\<lambda>_. Incompatible ''Conversation identity'') (conversation_id_new (dn_conversation_id d))) (\<lambda>conversation.
     and_then (map_err (\<lambda>_. Incompatible ''Turn identity'') (turn_id_new (dn_turn_id d))) (\<lambda>turn.
     and_then (map_err (\<lambda>_. Incompatible ''RuntimeSession identity'') (runtime_session_id_new source)) (\<lambda>session.
       Inr \<lparr>cn_decision_id = decision_key,
         cn_consumer = ExecutionTurn conversation (dn_conversation_revision d) (Some session) (Some source_revision) turn,
         cn_initial_decision_id = dn_decision_id initial, cn_account_snapshot_id = account_snapshot,
         cn_account_revision = account_revision, cn_profile_snapshot_id = profile_snapshot,
         cn_profile_revision = sn_profile_revision s, cn_decided_at = dn_created d\<rparr>)))))))))))"

definition bind_conversation_continuation ::
    "(byte list \<Rightarrow> byte list) \<Rightarrow> (string \<Rightarrow> bool) \<Rightarrow> i64 option \<Rightarrow> byte list option \<Rightarrow> string \<Rightarrow> continuation_request \<Rightarrow> route_db \<Rightarrow>
     store_error + continuation_binding routing_command_outcome \<times> route_db" where
  "bind_conversation_continuation sha256 credential_pattern clock fill key request db =
     and_then (validate_route_key credential_pattern key) (\<lambda>_.
     if cq_expected_revision request \<le> 0 \<or> cq_expected_session_revision request \<le> 0
     then Inl (InvalidInput ''Conversation continuation coordinates are invalid'')
     else
     let sha = continuation_request_sha sha256 request in
     and_then (replayed_routing_decision db key sha) (\<lambda>replay.
     case replay of
       Some decision_key \<Rightarrow>
         and_then (read_continuation_binding db decision_key) (\<lambda>binding.
         and_then (route_commit db) (\<lambda>db. Inr (Success binding, db)))
     | None \<Rightarrow>
     case read_continuation_authority db request of
       None \<Rightarrow> Inr (Rejected \<lparr>rr_operation = ''bind_quick_task_continuation'', rr_code = ''authority_unavailable''\<rparr>, db)
     | Some authority \<Rightarrow>
     and_then (random_uuid_v4 fill) (\<lambda>decision_id.
     and_then (unix_micros clock) (\<lambda>now.
     and_then (route_execute (db\<lparr>rt_decisions := rt_decisions db @
       [continuation_row key sha request authority decision_id now]\<rparr>)) (\<lambda>db.
     let binding = \<lparr>cn_decision_id = decision_id,
       cn_consumer = ExecutionTurn (cq_conversation_id request) (cq_expected_revision request)
         (Some (cq_source_session request)) (Some (cq_expected_session_revision request)) (cq_turn_id request),
       cn_initial_decision_id = cy_initial_decision_id authority,
       cn_account_snapshot_id = cy_account_snapshot_id authority, cn_account_revision = cy_account_revision authority,
       cn_profile_snapshot_id = cy_profile_snapshot_id authority, cn_profile_revision = cy_profile_revision authority,
       cn_decided_at = now\<rparr> in
     and_then (route_commit db) (\<lambda>db. Inr (Success binding, db)))))))"

section \<open>Runs\<close>

text \<open>
  The transactions on this state: routes, bindings, transactions of the account registry, and the writers of
  the other tables, of which only the constraints of the schema are known. In the running service only this
  module inserts routing decisions, and none is deleted; the offline cleanup \<^verbatim>\<open>development_reset.rs\<close>, which
  empties the table while the service is stopped, is not a transaction of a run.
\<close>

record other_tables =
  ot_conversations :: "routed_conversation list"
  ot_requests :: "task_request list"
  ot_sessions :: "routed_session list"
  ot_turns :: "routed_turn list"
  ot_profile_revision :: "i64 option"

datatype route_call =
    RouteInitial quota_clock "i64 option" "nat \<Rightarrow> byte list option" string route_initial_request
  | BindContinuation "i64 option" "byte list option" string continuation_request
  | RegistryCall registry_call
  | OtherTables other_tables

definition with_other_tables :: "other_tables \<Rightarrow> route_db \<Rightarrow> route_db" where
  "with_other_tables o' db = db\<lparr>rt_conversations := ot_conversations o', rt_requests := ot_requests o',
     rt_sessions := ot_sessions o', rt_turns := ot_turns o', rt_profile_revision := ot_profile_revision o'\<rparr>"

definition written_route :: "'e + 'a \<times> route_db \<Rightarrow> route_db option" where
  "written_route r = map_option snd (ok_opt r)"

fun route_call_result :: "registry_environment \<Rightarrow> route_call \<Rightarrow> route_db \<Rightarrow> route_db option" where
  "route_call_result env (RouteInitial clocks clock fill key request) db =
     written_route (route_conversation_initial (re_codec env) (re_sha256 env) (re_credential_pattern env) clocks clock fill
       key request db)"
| "route_call_result env (BindContinuation clock fill key request) db =
     written_route (bind_conversation_continuation (re_sha256 env) (re_credential_pattern env) clock fill key request db)"
| "route_call_result env (RegistryCall call) db = Some (db\<lparr>rt_registry := registry_apply env call (rt_registry db)\<rparr>)"
| "route_call_result env (OtherTables o') db =
     (let db' = with_other_tables o' db in if route_schema db' \<and> deferred_decisions db' then Some db' else None)"

definition route_apply :: "registry_environment \<Rightarrow> route_call \<Rightarrow> route_db \<Rightarrow> route_db" where
  "route_apply env call db = (case route_call_result env call db of Some db' \<Rightarrow> db' | None \<Rightarrow> db)"

definition route_run :: "registry_environment \<Rightarrow> route_call list \<Rightarrow> route_db \<Rightarrow> route_db" where
  "route_run env calls db = foldl (\<lambda>db call. route_apply env call db) db calls"

end
