(* ===== verification/Route_Life.thy ===== *)
theory Route_Life
  imports Route_Ops Routing_Correct Registry_Claims Registry_Life
begin

text \<open>
  The composition of the registry with the routing kernel: what a capture of the registry contains, and
  that the kernel always decides on it.
\<close>

section \<open>Blockers of an account\<close>

lemma account_blockers_cases:
  "account_blockers account =
     (if ar_observed_state account = account_state.Unavailable \<or>
         ar_lifecycle_readiness account \<in> {StoreUnavailable, account_lifecycle_readiness.OperationUnsettled} then [AccountUnavailable] else []) @
     (if ar_observed_state account = AuthFailed \<or>
         ar_lifecycle_readiness account \<in> {CredentialAbsent, StoreMismatch, ProviderMismatch} then [AccountAuthFailed] else []) @
     (if ar_observed_state account = account_state.PluginUnready \<or>
         ar_lifecycle_readiness account = CallbackCapabilityUnready then [AccountPluginUnready] else []) @
     (if \<not> ar_enabled account \<or> ar_tombstoned account \<or> ar_lifecycle_readiness account = Tombstoned
      then [AccountDisabled] else [])"
  unfolding account_blockers_def Let_def
  by (simp add: less_eq_routing_blocker_def blocker_ordinal_def blocker_declaration_def split del: if_split)
     (simp add: less_eq_routing_blocker_def blocker_ordinal_def blocker_declaration_def)

lemma account_blockers_ranked: "wf_blockers (account_blockers account)"
  unfolding account_blockers_cases by (auto simp: wf_blockers_def rank_of_def account_registry_member_blocker_rank_def)

lemma account_blockers_none:
  "account_blockers account = [] \<longleftrightarrow> ar_enabled account \<and> \<not> ar_tombstoned account \<and>
     ar_lifecycle_readiness account \<in> {LifecycleReady, UnsupportedPlan} \<and>
     ar_observed_state account \<notin> {account_state.Unavailable, AuthFailed, account_state.PluginUnready}"
  unfolding account_blockers_cases by (cases "ar_lifecycle_readiness account") auto

section \<open>Quota facts\<close>

definition window_of :: "32 word \<Rightarrow> quota_window_class" where
  "window_of d = (if d = 300 then FiveHour else SevenDay)"

text \<open>The kernel accepts instants up to the year 9999; the tables do not bound them.\<close>

definition quota_times_bounded :: "registry \<Rightarrow> bool" where
  "quota_times_bounded db \<longleftrightarrow> (\<forall>r \<in> set (lc_quotas db).
     qw_observed_at r \<le> max_account_registry_timestamp_micros \<and>
     null_or (\<lambda>t. t \<le> max_account_registry_timestamp_micros) (qw_resets_at r))"

lemma quota_row_in:
  "find_quota db a d = Some r \<Longrightarrow> registry_schema db \<Longrightarrow> r \<in> set (lc_quotas db) \<and> quota_row_checks r \<and> qw_duration r = d"
  by (auto simp: find_quota_def find_Some_iff registry_schema_def registry_rows_checked_def list_all_iff)

definition observed_as :: "32 word \<Rightarrow> account_quota_window_observation \<Rightarrow> bool" where
  "observed_as d observation \<longleftrightarrow> aqo_duration_minutes observation = d \<and>
     (\<exists>q. quota_observation_fact observation = Inr q \<and>
       (\<forall>account duration. wf_observation \<lparr>qf_account_id = account, qf_window = window_of d,
         qf_duration_minutes = duration, qf_observation = q\<rparr>))"

lemma unknown_quota_observed: "unknown_quota d = Inr observation \<Longrightarrow> observed_as d observation"
  by (auto simp: unknown_quota_def quota_observation_unknown_def observed_as_def quota_observation_fact_def wf_observation_def
      split: if_splits)

lemma quota_observation_observed:
  assumes "quota_observation_of clock d r = Inr observation" "quota_row_checks r" "qw_duration r = uint d"
    "qw_observed_at r \<le> max_account_registry_timestamp_micros"
    "null_or (\<lambda>t. t \<le> max_account_registry_timestamp_micros) (qw_resets_at r)"
  shows "observed_as d observation"
proof (cases "qw_not_applicable r")
  case True
  then have "d = 300" using assms(2,3) by (auto simp: quota_row_checks_def word_uint_eq_iff)
  then show ?thesis
    using assms(1,2,4) True unknown_quota_observed [of 300 observation]
    by (auto simp: quota_observation_of_def quota_row_checks_def observed_as_def quota_observation_fact_def wf_observation_def
        window_of_def Let_def registry_ok split: if_splits)
next
  case absent: False
  show ?thesis
  proof (cases "qw_error_code r = Some ''unsupported_window''")
    case True
    then show ?thesis using assms(1) absent unknown_quota_observed by (simp add: quota_observation_of_def)
  next
    case False
    show ?thesis
    proof (cases "qw_error_code r")
      case None
      then obtain used resets where row: "qw_used_percent r = Some used" "qw_resets_at r = Some resets" "qw_observed_at r < resets"
        "0 \<le> qw_observed_at r"
        using assms(2) absent by (auto simp: quota_row_checks_def null_or_def)
      obtain w where w: "account_quota_window_new d (word_of_int used) resets = Inr w"
        and o': "aqo_duration_minutes observation = d" "aqo_observed_at observation = Some (qw_observed_at r)"
          "aqo_disposition observation = QuotaStale w \<or> aqo_disposition observation = QuotaCurrent w"
        using assms(1) absent None row by (auto simp: quota_observation_of_def registry_ok split: if_splits)
      have "aqw_used_percent w \<le> 100" "aqw_resets_at w = resets" using w by (auto simp: account_quota_window_new_Ok_iff)
      then show ?thesis
        using o' row assms(4,5)
        by (auto simp: observed_as_def quota_observation_fact_def wf_observation_def null_or_def)
    next
      case (Some e)
      then have "qw_used_percent r = None" "qw_resets_at r = None" "0 \<le> qw_observed_at r"
        using assms(2) absent by (auto simp: quota_row_checks_def)
      then show ?thesis
        using assms(1,4) absent False Some
        by (auto simp: quota_observation_of_def observed_as_def quota_observation_fact_def wf_observation_def registry_ok
            split: if_splits)
    qed
  qed
qed

lemma quota_sync_observed:
  assumes "quota_observation_sync clock db a d = Inr observation" "registry_schema db" "quota_times_bounded db"
  shows "observed_as d observation"
proof (cases "find_quota db a (uint d)")
  case None
  then show ?thesis using assms(1) unknown_quota_observed by (simp add: quota_observation_sync_def)
next
  case (Some r)
  then show ?thesis
    using assms quota_row_in [OF Some assms(2)]
    by (intro quota_observation_observed) (auto simp: quota_observation_sync_def quota_times_bounded_def)
qed

lemma account_quotas_observed:
  assumes "account_from_base clocks db r ready = Inr account" "registry_schema db" "quota_times_bounded db"
  shows "observed_as 300 (ar_five_hour_quota account) \<and> observed_as 10080 (ar_seven_day_quota account)"
  using assms(1) quota_sync_observed [OF _ assms(2,3)]
  by (auto simp: account_from_base_def registry_ok and_then_Ok_iff)

lemma account_facts_canonical:
  assumes "observed_as 300 (ar_five_hour_quota account)" "observed_as 10080 (ar_seven_day_quota account)"
  shows "\<exists>five seven. account_facts account = Inr [five, seven] \<and> wf_fact five \<and> wf_fact seven \<and>
    key_of five = (ar_account_id account, FiveHour) \<and> key_of seven = (ar_account_id account, SevenDay)"
proof -
  have fct: "\<exists>f. quota_fact_of (ar_account_id account) (window_of d) observation = Inr f \<and> wf_fact f \<and>
      key_of f = (ar_account_id account, window_of d)"
    if "observed_as d observation" "d = 300 \<or> d = 10080" for d observation
    using that by (auto simp: observed_as_def quota_fact_of_def u16_of_u32_def wf_fact_def key_of_def window_of_def)
  show ?thesis
    using fct [OF assms(1)] fct [OF assms(2)] by (auto simp: account_facts_def window_of_def)
qed

section \<open>The snapshot\<close>

lemma facts_of_accounts:
  assumes "\<And>a. a \<in> set accounts \<Longrightarrow>
    observed_as 300 (ar_five_hour_quota a) \<and> observed_as 10080 (ar_seven_day_quota a)"
  shows "\<exists>facts. traverse account_facts accounts = Inr facts \<and> (\<forall>f \<in> set (concat facts). wf_fact f) \<and>
    map key_of (concat facts) = concat (map (\<lambda>a. [(ar_account_id a, FiveHour), (ar_account_id a, SevenDay)]) accounts)"
  using assms
proof (induction accounts)
  case (Cons a accounts)
  obtain facts where facts: "traverse account_facts accounts = Inr facts" "\<forall>f \<in> set (concat facts). wf_fact f"
    "map key_of (concat facts) = concat (map (\<lambda>a. [(ar_account_id a, FiveHour), (ar_account_id a, SevenDay)]) accounts)"
    using Cons by auto
  obtain five seven where "account_facts a = Inr [five, seven]" "wf_fact five" "wf_fact seven"
    "key_of five = (ar_account_id a, FiveHour)" "key_of seven = (ar_account_id a, SevenDay)"
    using account_facts_canonical Cons.prems by (metis list.set_intros(1))
  then show ?case using facts by simp
qed simp

lemma member_columns:
  "map rm_account_id (map account_member (enumerate n accounts)) = map ar_account_id accounts"
  "map rm_position (map account_member (enumerate n accounts)) = [Suc n ..< Suc n + length accounts]"
  by (induction accounts arbitrary: n) (simp_all add: account_member_def upt_rec)

lemma member_of_account:
  "m \<in> set (map account_member (enumerate n accounts)) \<Longrightarrow>
     \<exists>a \<in> set accounts. rm_account_id m = ar_account_id a \<and> rm_account_revision m = ar_revision a \<and>
       rm_blockers m = account_blockers a"
proof -
  assume "m \<in> set (map account_member (enumerate n accounts))"
  then obtain p where p: "p \<in> set (enumerate n accounts)" "m = account_member p" by auto
  have "snd p \<in> set (map snd (enumerate n accounts))" unfolding set_map using p(1) by (rule imageI)
  then have "snd p \<in> set accounts" by (simp only: map_snd_enumerate)
  then show ?thesis using p(2) by (cases p) (auto simp: account_member_def)
qed

lemma built_snapshot_canonical:
  assumes "\<And>a. a \<in> set accounts \<Longrightarrow>
      observed_as 300 (ar_five_hour_quota a) \<and> observed_as 10080 (ar_seven_day_quota a) \<and> ar_revision a > 0"
    and "accounts \<noteq> []" "distinct (map ar_account_id accounts)" "routing_revision > 0" "profile_revision > 0"
    and "0 \<le> now" "now \<le> max_account_registry_timestamp_micros"
  shows "\<exists>s. build_snapshot k routing_revision mode profile_revision now accounts = Inr s \<and> wf_snapshot s now \<and>
    rs_mode s = mode \<and> rs_members s = map account_member (enumerate 0 accounts)"
proof -
  let ?members = "map account_member (enumerate 0 accounts)"
  obtain facts where facts: "traverse account_facts accounts = Inr facts" "\<forall>f \<in> set (concat facts). wf_fact f"
    "map key_of (concat facts) = concat (map (\<lambda>a. [(ar_account_id a, FiveHour), (ar_account_id a, SevenDay)]) accounts)"
    using facts_of_accounts [of accounts] assms(1) by blast
  have "expected_keys ?members = concat (map (\<lambda>a. [(a, FiveHour), (a, SevenDay)]) (map rm_account_id ?members))"
    by (simp add: expected_keys_def o_def)
  also have "\<dots> = map key_of (concat facts)" unfolding member_columns facts(3) by (simp add: o_def)
  finally have "wf_facts ?members (concat facts)" using facts(2) by (simp add: wf_facts_def)
  moreover have "wf_members ?members"
  proof -
    have "rm_account_revision m > 0 \<and> wf_blockers (rm_blockers m)" if "m \<in> set ?members" for m
      using member_of_account [OF that] assms(1) account_blockers_ranked by auto
    moreover have "map rm_position ?members = [1 ..< Suc (length ?members)]"
      unfolding member_columns by simp
    moreover have "?members \<noteq> []" using assms(2) by (cases accounts) simp_all
    ultimately show ?thesis unfolding wf_members_def member_columns(1) using assms(3) by blast
  qed
  ultimately show ?thesis using assms(4-7) facts(1) by (simp add: build_snapshot_def wf_snapshot_def)
qed

section \<open>The capture\<close>

lemma read_control:
  assumes "registry_invariant db" "lc_control db = Some c"
    and "\<And>a. a \<in> set (live_ids db) \<Longrightarrow> is_canonical_uuid a"
  shows "\<exists>mode. read_routing_control db = Inr (mode, ct_revision c) \<and> ct_revision c > 0 \<and>
    (\<forall>a. mode = Fixed a \<longrightarrow> account_id_text a \<in> set (live_ids db))"
proof -
  have row: "control_row_checks c" "fixed_target_live db"
    using assms(1,2) by (auto simp: registry_invariant_def registry_schema_def registry_rows_checked_def null_or_def)
  show ?thesis
  proof (cases "ct_fixed_account_id c")
    case None
    then have "ct_mode c = ''balanced''" using row(1) by (auto simp: control_row_checks_def)
    then show ?thesis using None assms(2) row(1) by (simp add: read_routing_control_def control_row_checks_def)
  next
    case (Some a)
    then have "a \<in> set (live_ids db)" using row(2) assms(2) by (simp add: fixed_target_live_def null_or_def)
    moreover from this have "account_id_new a = Inr (AccountId a)" using assms(3) by (simp add: account_id_new_def)
    ultimately show ?thesis using Some assms(2) row(1) by (auto simp: read_routing_control_def control_row_checks_def)
  qed
qed

lemma account_of_registry:
  assumes "read_account_registry_sync clocks None limit db = Inr accounts" "a \<in> set accounts"
  shows "\<exists>r. r \<in> set (lc_accounts db) \<and> live_account r \<and> account_from_base clocks db r (capability_is_ready db) = Inr a"
proof -
  have "traverse (\<lambda>r. account_from_base clocks db r (capability_is_ready db)) (registry_rows db None (unat limit)) = Inr accounts"
    using assms(1) by (auto simp: read_account_registry_sync_def split: if_splits)
  then obtain r where r: "r \<in> set (registry_rows db None (unat limit))" "account_from_base clocks db r (capability_is_ready db) = Inr a"
    using traverse_each assms(2) by metis
  then show ?thesis by (auto simp: registry_rows_def dest!: in_set_takeD)
qed

text \<open>
  C38. When routing decides. On a registry with the invariant that reads as a non-empty list of accounts, if the routing
  control and a profile with a positive revision are present, no stored quota row has an observation or reset time after
  the year 9999, and the clock is positive and not after it, the capture is a canonical snapshot and the kernel decides on
  it. The condition on quota times is not kept by the writers: without it the capture can fail
  (\<open>far_reset_blocks_routing\<close>).
\<close>

theorem capture_decides:
  assumes "registry_invariant (rt_registry db)" "lc_control (rt_registry db) \<noteq> None" "quota_times_bounded (rt_registry db)"
    and "rt_profile_revision db = Some p" "p > 0"
    and "read_account_registry_sync clocks None 512 (rt_registry db) = Inr accounts" "accounts \<noteq> []"
    and "0 < now" "now \<le> max_account_registry_timestamp_micros"
  shows "\<exists>s d. capture_and_decide clocks (Some now) (Some bytes) db = Inr (Some (accounts, now, s, d)) \<and> wf_snapshot s now"
proof -
  let ?r = "rt_registry db"
  have schema: "registry_schema ?r" and u: "routing_universe ?r" using assms(1) by (simp_all add: registry_invariant_def)
  have listed: "map (account_id_text \<circ> ar_account_id) accounts = live_order ?r"
    using read_registry_Ok [OF assms(6,1)] by blast
  have same: "set (live_order ?r) = set (live_ids ?r)" "distinct (live_order ?r)"
    using u unfolding live_order_ids [OF u] by (auto simp: routing_universe_def numbered_def simp del: set_order_ids)
  have distinct: "distinct (map ar_account_id accounts)"
    using same(2) unfolding listed [symmetric] by (auto simp: distinct_map intro: inj_on_imageI2)
  have facts: "observed_as 300 (ar_five_hour_quota a) \<and> observed_as 10080 (ar_seven_day_quota a) \<and> ar_revision a > 0 \<and>
      is_canonical_uuid (account_id_text (ar_account_id a))" if a: "a \<in> set accounts" for a
  proof -
    obtain r where r: "r \<in> set (lc_accounts ?r)" "account_from_base clocks ?r r (capability_is_ready ?r) = Inr a"
      using account_of_registry [OF assms(6) a] by blast
    have "an_revision r > 0"
      using r(1) schema by (auto simp: registry_schema_def registry_rows_checked_def list_all_iff registered_account_checks_def)
    moreover have "account_id_new (an_account_id r) = Inr (ar_account_id a)"
      using r(2) by (auto simp: account_from_base_def and_then_Ok_iff)
    ultimately show ?thesis
      using account_quotas_observed [OF r(2) schema assms(3)] account_from_base_Ok [OF r(2)]
      by (auto simp: account_id.make_Ok_iff)
  qed
  obtain c where c: "lc_control ?r = Some c" using assms(2) by blast
  have ids: "set (live_ids ?r) = account_id_text ` ar_account_id ` set accounts"
    using same(1) unfolding listed [symmetric] by (simp add: image_image)
  then have "is_canonical_uuid a" if "a \<in> set (live_ids ?r)" for a using that facts by auto
  then obtain mode where mode: "read_routing_control ?r = Inr (mode, ct_revision c)" "ct_revision c > 0"
    "\<And>a. mode = Fixed a \<Longrightarrow> account_id_text a \<in> set (live_ids ?r)"
    using read_control [OF assms(1) c] by metis
  obtain k where k: "random_uuid_v4 (Some bytes) = Inr k" by (simp add: random_uuid_v4_def)
  obtain s where s: "build_snapshot k (ct_revision c) mode p now accounts = Inr s" "wf_snapshot s now" "rs_mode s = mode"
    "rs_members s = map account_member (enumerate 0 accounts)"
    using built_snapshot_canonical [of accounts "ct_revision c" p now k mode] facts assms(5,7-9) distinct mode(2) by auto
  have "evaluated_members s \<noteq> []"
  proof (cases mode)
    case (Fixed a)
    then have "account_id_text a \<in> account_id_text ` ar_account_id ` set accounts" using mode(3) ids by blast
    then have "a \<in> set (map ar_account_id accounts)" using account_id.expand by fastforce
    then have "a \<in> set (map rm_account_id (rs_members s))" unfolding s(4) member_columns .
    then show ?thesis using Fixed s(3) by (auto simp: evaluated_members_def filter_empty_conv)
  next
    case Balanced
    then show ?thesis using s(3,4) assms(7) by (cases accounts) (simp_all add: evaluated_members_def)
  qed
  then obtain d where "decide_account_registry_routing s now = Inr d"
    using s(2) evaluated_indexes [OF s(2)] by (auto simp: decide_eq [OF s(2)] split: sum.splits)
  then show ?thesis
    using assms(4,6,7,8) mode(1) k s(1,2) by (simp add: capture_and_decide_def unix_micros_def)
qed

text \<open>
  What a stored route keeps: it reads back, its conversation has no other initial route, and every later
  transaction leaves it in place.
\<close>

section \<open>Decisions can be stored\<close>

lemma in_i64_sql: "in_i64 = sql_integer"
  by (simp add: fun_eq_iff in_i64_def sql_integer_def)

definition causes_of :: "routing_member \<Rightarrow> classification \<Rightarrow> bool" where
  "causes_of m acc \<longleftrightarrow> (\<forall>c \<in> set (cl_hard acc) \<union> set (cl_unknown acc). dc_account_id c = rm_account_id m)"

lemma classify_fact_causes: "causes_of m acc \<Longrightarrow> causes_of m (classify_fact m t f acc)"
  by (auto simp: causes_of_def classify_fact_def Let_def cause_of_def split: quota_observation.splits)

lemma capacity_causes_account:
  assumes "c \<in> set (capacity_causes (capacity_of s t m))"
  shows "dc_account_id c = rm_account_id m"
proof -
  let ?start = "\<lparr>cl_hard = map (cause_of m) (rm_blockers m), cl_unknown = [], cl_exclusions = [], cl_known_windows = 0\<rparr>"
  have "causes_of m (classify_fact m t (snd (member_facts s m)) (classify_fact m t (fst (member_facts s m)) ?start))"
    by (intro classify_fact_causes) (auto simp: causes_of_def cause_of_def)
  then show ?thesis
    using assms
    by (auto simp: capacity_of_def classify_account_registry_member_def Let_def causes_of_def split: if_splits)
qed

lemma decision_of_members:
  assumes "decide_account_registry_routing s t = Inr d"
  shows "rd_snapshot_id d = rs_snapshot_id s \<and>
    (\<forall>c \<in> set (rd_causes d). dc_account_id c \<in> rm_account_id ` set (rs_members s)) \<and>
    (\<forall>e \<in> set (rd_exclusions d). \<exists>m \<in> set (rs_members s). ex_account_id e = rm_account_id m \<and> ex_member_position e = rm_position m)"
proof -
  note d = decide_Ok [OF assms]
  obtain k a ms where ms: "set ms \<subseteq> set (evaluated_members s)" "d = decision_after s t k a ms"
    using d(3) preferred_passed by metis
  have members: "m \<in> set ms \<Longrightarrow> m \<in> set (rs_members s)" for m using ms(1) evaluated_subset by blast
  have "\<exists>m \<in> set (rs_members s). ex_account_id e = rm_account_id m \<and> ex_member_position e = rm_position m"
    if e: "e \<in> set (rd_exclusions d)" for e
  proof -
    obtain m where m: "m \<in> set ms" "e \<in> set (capacity_exclusions (capacity_of s t m))"
      using e unfolding ms(2) decision_after_exclusions by blast
    then show ?thesis using capacity_exclusions_sound [OF m(2)] members by (auto simp: exclusion_of_def)
  qed
  moreover have "dc_account_id c \<in> rm_account_id ` set (rs_members s)" if c: "c \<in> set (rd_causes d)" for c
  proof -
    obtain m where "m \<in> set ms" "c \<in> set (capacity_causes (capacity_of s t m))"
      using c by (auto simp: ms(2) decision_after_def)
    then show ?thesis using capacity_causes_account members by blast
  qed
  ultimately show ?thesis by (simp add: ms(2) decision_after_def)
qed

lemma max_timestamp_in_i64: "0 \<le> t \<Longrightarrow> t \<le> max_account_registry_timestamp_micros \<Longrightarrow> in_i64 t"
  by (simp add: in_i64_def i64_max_def max_account_registry_timestamp_micros_def)

lemma decision_storable:
  assumes "decide_account_registry_routing s t = Inr d" "storable_snapshot s"
  shows "list_all storable_cause (rd_causes d) \<and> list_all storable_exclusion (rd_exclusions d) \<and>
    (\<forall>a. rd_selected_account_id d = Some a \<longrightarrow> storable_account a)"
proof -
  note d = decision_of_members [OF assms(1)] and wf = decide_wf [OF assms(1)]
  have member: "storable_account (rm_account_id m) \<and> in_i64 (int (rm_position m))" if "m \<in> set (rs_members s)" for m
    using assms(2) that by (auto simp: storable_snapshot_def list_all_iff storable_member_def)
  have "storable_exclusion e" if e: "e \<in> set (rd_exclusions d)" for e
  proof -
    obtain f where f: "f \<in> set (rs_quota_facts s)"
      "qf_observation f = Current 100 (ex_observed_at_micros e) (ex_resets_at_micros e)"
      using exclusions_report_current_depletion [OF assms(1) e] by blast
    then have "storable_observation (Current 100 (ex_observed_at_micros e) (ex_resets_at_micros e))"
      using assms(2) by (auto simp: storable_snapshot_def list_all_iff storable_fact_def dest!: bspec)
    then show ?thesis using d e member by (fastforce simp: storable_exclusion_def)
  qed
  moreover have "storable_cause c" if "c \<in> set (rd_causes d)" for c
    using d that member by (fastforce simp: storable_cause_def)
  moreover have "storable_account a" if "rd_selected_account_id d = Some a" for a
    using selected_account_is_admissible [OF assms(1) that] member by blast
  ultimately show ?thesis by (simp add: list_all_iff)
qed

section \<open>Captures can be stored\<close>

lemma capture_parts:
  assumes "capture_and_decide clocks clock fill db = Inr (Some (accounts, now, s, d))"
  shows "\<exists>k mode routing_revision profile_revision.
    read_account_registry_sync clocks None 512 (rt_registry db) = Inr accounts \<and> accounts \<noteq> [] \<and>
    read_routing_control (rt_registry db) = Inr (mode, routing_revision) \<and> rt_profile_revision db = Some profile_revision \<and>
    clock = Some now \<and> 0 < now \<and>
    build_snapshot k routing_revision mode profile_revision now accounts = Inr s \<and>
    decide_account_registry_routing s now = Inr d"
  using assms by (auto simp: capture_and_decide_def and_then_Ok_iff unix_micros_Ok_iff split: if_splits)

lemma built_snapshot_parts:
  assumes "build_snapshot k routing_revision mode profile_revision now accounts = Inr s"
  shows "rs_mode s = mode \<and> rs_routing_revision s = routing_revision \<and> rs_task_role_profile_revision s = profile_revision \<and>
    rs_resolved_at_micros s = now \<and> rs_members s = map account_member (enumerate 0 accounts)"
  using assms by (auto simp: build_snapshot_def and_then_Ok_iff)

lemma captured_account:
  assumes "read_account_registry_sync clocks None 512 db = Inr accounts" "a \<in> set accounts" "registry_schema db"
  shows "storable_account (ar_account_id a) \<and> in_i64 (ar_revision a) \<and> ar_revision a > 0 \<and>
    (\<exists>r. find_account db (account_id_text (ar_account_id a)) = Some r \<and> live_account r \<and>
       an_revision r = ar_revision a \<and> an_enabled r = ar_enabled a)"
proof -
  obtain r where r: "r \<in> set (lc_accounts db)" "live_account r" "account_from_base clocks db r (capability_is_ready db) = Inr a"
    using account_of_registry [OF assms(1,2)] by blast
  have "account_id_new (an_account_id r) = Inr (ar_account_id a)" using r(3) by (auto simp: account_from_base_def and_then_Ok_iff)
  moreover have "an_revision r > 0" "in_i64 (an_revision r)"
    using r(1) assms(3)
    by (auto simp: registry_schema_def registry_rows_checked_def list_all_iff registered_account_checks_def in_i64_sql)
  moreover have "find_account db (an_account_id r) = Some r"
    using find_row_distinct [OF schema_account_keys [OF assms(3)] r(1)] by (simp add: find_account_def)
  ultimately show ?thesis
    using account_from_base_Ok [OF r(3)] r(2) by (auto simp: storable_account_def account_id.make_Ok_iff)
qed

lemma read_registry_bounded:
  "read_account_registry_sync clocks None 512 db = Inr accounts \<Longrightarrow> length accounts \<le> 512"
  by (auto simp: read_account_registry_sync_def registry_rows_def split: if_splits dest!: traverse_elements list_all2_lengthD)

lemma member_positions_bounded:
  "m \<in> set (map account_member (enumerate 0 accounts)) \<Longrightarrow> rm_position m \<le> length accounts"
proof -
  assume "m \<in> set (map account_member (enumerate 0 accounts))"
  then have "rm_position m \<in> set (map rm_position (map account_member (enumerate 0 accounts)))"
    unfolding set_map [of rm_position] by (rule imageI)
  then show ?thesis unfolding member_columns by auto
qed

lemma capture_storable:
  assumes "capture_and_decide clocks clock fill db = Inr (Some (accounts, now, s, d))"
    "registry_schema (rt_registry db)" "route_schema db"
  shows "storable_snapshot s"
proof -
  obtain k mode routing_revision profile_revision where
    read: "read_account_registry_sync clocks None 512 (rt_registry db) = Inr accounts"
      "read_routing_control (rt_registry db) = Inr (mode, routing_revision)" "rt_profile_revision db = Some profile_revision"
    and built: "build_snapshot k routing_revision mode profile_revision now accounts = Inr s"
    and decided: "decide_account_registry_routing s now = Inr d"
    using capture_parts [OF assms(1)] by blast
  note parts = built_snapshot_parts [OF built]
  have wf: "wf_snapshot s now" by (rule decide_wf [OF decided])
  have control: "in_i64 routing_revision" "storable_mode mode"
    using read(2) assms(2)
    by (auto simp: read_routing_control_def and_then_Ok_iff registry_schema_def registry_rows_checked_def control_row_checks_def
        null_or_def in_i64_sql storable_account_def account_id.make_Ok_iff split: option.splits if_splits)
  have "in_i64 profile_revision" using read(3) assms(3) by (simp add: route_schema_def null_or_def in_i64_sql)
  moreover have "in_i64 now" using wf parts by (auto simp: wf_snapshot_def intro: max_timestamp_in_i64)
  moreover have members: "storable_member m" if m: "m \<in> set (rs_members s)" for m
  proof -
    obtain a where a: "a \<in> set accounts" "rm_account_id m = ar_account_id a" "rm_account_revision m = ar_revision a"
      using member_of_account [of m 0 accounts] m parts by auto
    have "rm_position m \<le> 512"
      using member_positions_bounded [of m accounts] m parts read_registry_bounded [OF read(1)] by simp
    then show ?thesis
      using captured_account [OF read(1) a(1) assms(2)] a(2,3) by (simp add: storable_member_def in_i64_def i64_max_def)
  qed
  moreover have "storable_fact f" if f: "f \<in> set (rs_quota_facts s)" for f
  proof -
    have "map key_of (rs_quota_facts s) = expected_keys (rs_members s)" "wf_fact f"
      using wf f by (simp_all add: wf_snapshot_def wf_facts_def)
    moreover have "key_of f \<in> set (map key_of (rs_quota_facts s))" using f by simp
    ultimately have "key_of f \<in> set (expected_keys (rs_members s))" "wf_fact f" by simp_all
    then obtain m where m: "m \<in> set (rs_members s)" "qf_account_id f = rm_account_id m" and obs: "wf_observation f"
      by (auto simp: set_expected_keys key_of_def wf_fact_def)
    have "storable_observation (qf_observation f)"
      using obs by (auto simp: wf_observation_def split: quota_observation.splits intro!: max_timestamp_in_i64)
    then show ?thesis using members [OF m(1)] m(2) by (simp add: storable_fact_def storable_member_def)
  qed
  ultimately show ?thesis using control parts by (simp add: storable_snapshot_def list_all_iff)
qed

section \<open>Effects\<close>

definition route_ok :: "route_db \<Rightarrow> bool" where
  "route_ok db \<longleftrightarrow> route_schema db \<and> deferred_decisions db \<and> registry_schema (rt_registry db)"

definition extends :: "route_db \<Rightarrow> route_db \<Rightarrow> bool" where
  "extends db db' \<longleftrightarrow> (\<exists>rows. rt_decisions db' = rt_decisions db @ rows)"

lemma extends_refl [simp]: "extends db db"
  by (simp add: extends_def)

lemma extends_trans: "extends db db1 \<Longrightarrow> extends db1 db2 \<Longrightarrow> extends db db2"
  by (auto simp: extends_def)

lemma mark_changed_effect:
  assumes "mark_changed_model_source c selected revision now db = Inr (changed, db')"
  shows "rt_decisions db' = rt_decisions db \<and> rt_registry db' = rt_registry db \<and> rt_sessions db' = rt_sessions db \<and>
    (changed \<or> db' = db) \<and> (route_schema db \<longrightarrow> route_schema db')"
  using assms
  by (auto simp: mark_changed_model_source_def and_then_Ok_iff route_execute_Ok_iff split: option.splits if_splits)

lemma deferred_same: "rt_decisions db' = rt_decisions db \<Longrightarrow> rt_sessions db' = rt_sessions db \<Longrightarrow> deferred_decisions db' = deferred_decisions db"
  by (simp add: deferred_decisions_def)

lemma route_initial_cases:
  assumes "route_conversation_initial jc sha256 credential_pattern clocks clock fill key request db = Inr (outcome, db')"
  shows "(\<exists>route. outcome = RouteReplayed route \<and> db' = db) \<or>
    (\<exists>r. outcome = RouteRejected r \<and> (db' = db \<or> (\<exists>accounts now s d.
      capture_and_decide clocks clock (fill 0) db = Inr (Some (accounts, now, s, d)) \<and>
      mark_changed_model_source (conversation_id_text (rq_conversation_id request)) (rd_selected_account_id d)
        (selected_revision accounts d) now db = Inr (True, db')))) \<or>
    (\<exists>route accounts now s d. outcome = RouteFresh route \<and>
      validate_route_key credential_pattern key = Inr () \<and> rq_expected_revision request > 0 \<and>
      initial_route_rejection db request = Inr None \<and>
      capture_and_decide clocks clock (fill 0) db = Inr (Some (accounts, now, s, d)) \<and>
      ir_snapshot route = s \<and> ir_decision route = d \<and> ir_decided_at route = now \<and>
      ir_consumer route = ExecutionTurn (rq_conversation_id request) (rq_expected_revision request) None None (ir_turn_id route) \<and>
      turn_id_new (turn_id_text (ir_turn_id route)) = Inr (ir_turn_id route) \<and>
      route_schema db' \<and> deferred_decisions db' \<and>
      db' = db\<lparr>rt_decisions := rt_decisions db @ [initial_decision_row jc key (route_request_sha sha256 request) request route
        (selected_revision accounts d)]\<rparr>)"
proof -
  let ?sha = "route_request_sha sha256 request" and ?c = "conversation_id_text (rq_conversation_id request)"
  have valid: "validate_route_key credential_pattern key = Inr ()" "rq_expected_revision request > 0"
    using assms by (auto simp: route_conversation_initial_def and_then_Ok_iff split: if_splits)
  obtain replay where replay: "replayed_routing_decision db key ?sha = Inr replay"
    using assms valid by (auto simp: route_conversation_initial_def and_then_Ok_iff Let_def)
  show ?thesis
  proof (cases replay)
    case (Some k)
    then show ?thesis
      using assms valid replay by (auto simp: route_conversation_initial_def and_then_Ok_iff Let_def route_commit_Ok_iff)
  next
    case None
    obtain rejection where rejection: "initial_route_rejection db request = Inr rejection"
      using assms valid replay None by (auto simp: route_conversation_initial_def and_then_Ok_iff Let_def)
    show ?thesis
    proof (cases rejection)
      case (Some r)
      then show ?thesis
        using assms valid replay None rejection by (auto simp: route_conversation_initial_def and_then_Ok_iff Let_def)
    next
      case no: None
      obtain captured where captured: "capture_and_decide clocks clock (fill 0) db = Inr captured"
        using assms valid replay None rejection no by (auto simp: route_conversation_initial_def and_then_Ok_iff Let_def)
      show ?thesis
      proof (cases captured)
        case empty: None
        then show ?thesis
          using assms valid replay None rejection no captured
          by (auto simp: route_conversation_initial_def and_then_Ok_iff Let_def)
      next
        case (Some x)
        obtain accounts now s d where x: "x = (accounts, now, s, d)" by (cases x)
        obtain decision_key operation_id turn_text turn changed db1 where
          turn: "turn_id_new turn_text = Inr turn" and
          marked: "mark_changed_model_source ?c (rd_selected_account_id d) (selected_revision accounts d) now db = Inr (changed, db1)" and
          rest: "(if changed
             then and_then (route_commit db1) (\<lambda>db. Inr (RouteRejected (initial_rejected ''initial_model_source_changed''), db))
             else
             let route = \<lparr>ir_decision_id = decision_key, ir_operation_id = operation_id, ir_snapshot = s,
               ir_consumer = ExecutionTurn (rq_conversation_id request) (rq_expected_revision request) None None turn,
               ir_turn_id = turn, ir_decided_at = now, ir_decision = d\<rparr> in
             and_then (insert_initial_route jc key ?sha request route (selected_revision accounts d) db1) (\<lambda>db.
             and_then (route_commit db) (\<lambda>db. Inr (RouteFresh route, db)))) = Inr (outcome, db')"
          using assms valid replay None rejection no captured Some x
          unfolding route_conversation_initial_def Let_def
          by (auto simp: and_then_Ok_iff split del: if_split)
        show ?thesis
        proof (cases changed)
          case True
          then obtain r where r: "outcome = RouteRejected r" "db' = db1"
            using rest by (auto simp: and_then_Ok_iff route_commit_Ok_iff)
          have "mark_changed_model_source ?c (rd_selected_account_id d) (selected_revision accounts d) now db = Inr (True, db')"
            using marked True r(2) by simp
          then show ?thesis using captured Some x r(1) by blast
        next
          case False
          then have "db1 = db" using mark_changed_effect [OF marked] by simp
          moreover have "turn_id_text turn = turn_text" using turn by (auto simp: turn_id_new_def domain_id_new_def split: if_splits)
          ultimately show ?thesis
            using rest False valid rejection no captured Some x turn
            by (auto simp: and_then_Ok_iff route_commit_Ok_iff insert_initial_route_def route_execute_Ok_iff Let_def)
        qed
      qed
    qed
  qed
qed


lemma bind_cases:
  assumes "bind_conversation_continuation sha256 credential_pattern clock fill key request db = Inr (outcome, db')"
  shows "(\<exists>r. outcome = Rejected r \<and> db' = db) \<or>
    (\<exists>k binding. outcome = Success binding \<and> db' = db \<and>
      replayed_routing_decision db key (continuation_request_sha sha256 request) = Inr (Some k) \<and>
      read_continuation_binding db k = Inr binding) \<or>
    (\<exists>authority k now. validate_route_key credential_pattern key = Inr () \<and>
      cq_expected_revision request > 0 \<and> cq_expected_session_revision request > 0 \<and>
      replayed_routing_decision db key (continuation_request_sha sha256 request) = Inr None \<and>
      read_continuation_authority db request = Some authority \<and> clock = Some now \<and>
      route_schema db' \<and> deferred_decisions db' \<and>
      db' = db\<lparr>rt_decisions := rt_decisions db @
        [continuation_row key (continuation_request_sha sha256 request) request authority k now]\<rparr> \<and>
      outcome = Success \<lparr>cn_decision_id = k,
        cn_consumer = ExecutionTurn (cq_conversation_id request) (cq_expected_revision request)
          (Some (cq_source_session request)) (Some (cq_expected_session_revision request)) (cq_turn_id request),
        cn_initial_decision_id = cy_initial_decision_id authority,
        cn_account_snapshot_id = cy_account_snapshot_id authority, cn_account_revision = cy_account_revision authority,
        cn_profile_snapshot_id = cy_profile_snapshot_id authority, cn_profile_revision = cy_profile_revision authority,
        cn_decided_at = now\<rparr>)"
proof -
  obtain replay where replay: "replayed_routing_decision db key (continuation_request_sha sha256 request) = Inr replay"
    using assms by (auto simp: bind_conversation_continuation_def and_then_Ok_iff Let_def split: if_splits)
  show ?thesis
  proof (cases replay)
    case (Some k)
    then show ?thesis
      using assms replay
      by (auto simp: bind_conversation_continuation_def and_then_Ok_iff Let_def route_commit_Ok_iff split: if_splits)
  next
    case None
    then show ?thesis
      using assms replay
      by (cases "read_continuation_authority db request")
         (auto simp: bind_conversation_continuation_def and_then_Ok_iff Let_def route_commit_Ok_iff route_execute_Ok_iff
           unix_micros_Ok_iff split: if_splits)
  qed
qed

section \<open>Runs\<close>

lemma known_account_find: "known_account db a \<longleftrightarrow> find_account (rt_registry db) a \<noteq> None"
  unfolding known_account_def find_account_def find_row_def by (simp add: find_None_iff image_iff) (metis)

lemma registry_apply_knows:
  assumes "known_account db a" "registry_schema (rt_registry db)"
  shows "known_account (db\<lparr>rt_registry := registry_apply env call (rt_registry db)\<rparr>) a"
  using assms registry_steps_account [OF registry_apply_steps [OF assms(2), of env call]]
  by (fastforce simp: known_account_find)

lemma registry_call_keeps:
  assumes "route_schema db" "registry_schema (rt_registry db)"
  shows "route_schema (db\<lparr>rt_registry := registry_apply env call (rt_registry db)\<rparr>)"
proof -
  have known: "known_conversation (db\<lparr>rt_registry := r\<rparr>) = known_conversation db" for r
    by (simp add: known_conversation_def fun_eq_iff)
  show ?thesis
    using assms registry_apply_knows [OF _ assms(2), of _ env call] unfolding route_schema_def known
    by (fastforce simp: list_all_iff null_or_def split: option.splits)
qed

lemma route_call_keeps:
  assumes "route_ok db" "route_call_result env call db = Some db'"
  shows "route_ok db' \<and> extends db db' \<and>
    registry_steps (re_codec env) (rt_registry db) (rt_registry db')"
proof (cases call)
  case (RouteInitial clocks clock fill key request)
  then obtain outcome where "route_conversation_initial (re_codec env) (re_sha256 env) (re_credential_pattern env) clocks clock
      fill key request db = Inr (outcome, db')"
    using assms(2) by (auto simp: written_route_def ok_opt_def split: sum.splits)
  then consider "db' = db"
    | c selected revision now where "mark_changed_model_source c selected revision now db = Inr (True, db')"
    | rows where "db' = db\<lparr>rt_decisions := rt_decisions db @ rows\<rparr>" "route_schema db'" "deferred_decisions db'"
    using route_initial_cases by (elim route_initial_cases [THEN disjE] disjE exE conjE) blast+
  then show ?thesis
  proof cases
    case 2
    then show ?thesis
      using mark_changed_effect [OF 2] deferred_same [of db' db] assms(1) by (simp add: route_ok_def extends_def)
  qed (use assms(1) in \<open>simp_all add: route_ok_def extends_def\<close>)
next
  case (BindContinuation clock fill key request)
  then obtain outcome where "bind_conversation_continuation (re_sha256 env) (re_credential_pattern env) clock fill key request db =
      Inr (outcome, db')"
    using assms(2) by (auto simp: written_route_def ok_opt_def split: sum.splits)
  from bind_cases [OF this] show ?thesis using assms(1) by (auto simp: route_ok_def extends_def)
next
  case (RegistryCall c)
  then have db': "db' = db\<lparr>rt_registry := registry_apply env c (rt_registry db)\<rparr>" using assms(2) by simp
  have steps: "registry_steps (re_codec env) (rt_registry db) (registry_apply env c (rt_registry db))"
    using assms(1) registry_apply_steps by (simp add: route_ok_def)
  have "deferred_decisions db'" using assms(1) by (simp add: db' route_ok_def deferred_decisions_def)
  moreover have "route_schema db'" unfolding db' using assms(1) by (intro registry_call_keeps) (simp_all add: route_ok_def)
  moreover have "registry_schema (rt_registry db')"
    using registry_steps_schema [OF steps] assms(1) by (simp add: route_ok_def db')
  ultimately show ?thesis using steps by (simp add: route_ok_def extends_def db')
next
  case (OtherTables o')
  then show ?thesis
    using assms by (auto simp: route_ok_def extends_def with_other_tables_def Let_def split: if_splits)
qed

end
