(* ===== verification/Route_Claims.thy ===== *)
theory Route_Claims
  imports Route_Life Route_Json
begin

text \<open>
  The properties of the routing decisions of conversations: a capture always decides, the account it selects
  can be used, the decision is stored once per conversation, and its replay returns the same route after any
  later transactions.
\<close>

section \<open>Runs\<close>

lemma route_apply_keeps:
  assumes "route_ok db"
  shows "route_ok (route_apply env call db) \<and> extends db (route_apply env call db) \<and>
    registry_steps (re_codec env) (rt_registry db) (rt_registry (route_apply env call db))"
  using assms route_call_keeps [OF assms, of env call] by (simp add: route_apply_def split: option.split)

lemma route_run_keeps:
  assumes "route_ok db"
  shows "route_ok (route_run env calls db) \<and> extends db (route_run env calls db) \<and>
    registry_steps (re_codec env) (rt_registry db) (rt_registry (route_run env calls db))"
  using assms
proof (induction calls arbitrary: db)
  case Nil
  then show ?case by (simp add: route_run_def)
next
  case (Cons call calls)
  have "route_run env (call # calls) db = route_run env calls (route_apply env call db)" by (simp add: route_run_def)
  then show ?case
    using route_apply_keeps [OF Cons.prems, of env call] Cons.IH [of "route_apply env call db"]
    by (auto intro: extends_trans rtranclp_trans)
qed

section \<open>Stored decisions\<close>

lemma find_unique:
  assumes "x \<in> set xs" "P x" "\<And>y. y \<in> set xs \<Longrightarrow> P y \<Longrightarrow> y = x"
  shows "find P xs = Some x"
proof (cases "find P xs")
  case None
  then show ?thesis using assms(1,2) by (simp add: find_None_iff)
next
  case (Some y)
  then have "y \<in> set xs" "P y" by (auto simp: find_Some_iff)
  then show ?thesis using Some assms(3) by simp
qed

lemma decision_by_key: "route_schema db \<Longrightarrow> r \<in> set (rt_decisions db) \<Longrightarrow> find_row dn_key (rt_decisions db) (dn_key r) = Some r"
  by (rule find_row_distinct) (simp_all add: route_schema_def decision_keys_unique_def)

lemma decision_by_id:
  assumes "route_schema db" "r \<in> set (rt_decisions db)" "P r"
  shows "find (\<lambda>q. dn_decision_id q = dn_decision_id r \<and> P q) (rt_decisions db) = Some r"
proof (rule find_unique [OF assms(2)])
  have "inj_on dn_decision_id (set (rt_decisions db))"
    using assms(1) by (simp add: route_schema_def decision_keys_unique_def distinct_map)
  then show "y = r" if "y \<in> set (rt_decisions db)" "dn_decision_id y = dn_decision_id r \<and> P y" for y
    using that assms(2) by (simp add: inj_on_eq_iff)
qed (simp add: assms(3))

lemma initial_decision_unique:
  assumes "route_schema db" "r \<in> set (rt_decisions db)" "initial_decision r"
  shows "initial_decision_of db (dn_conversation_id r) = Some r"
  unfolding initial_decision_of_def
proof (rule find_unique [OF assms(2)])
  have "inj_on dn_conversation_id (set (filter initial_decision (rt_decisions db)))"
    using assms(1) unfolding route_schema_def decision_keys_unique_def distinct_map by blast
  then show "y = r" if "y \<in> set (rt_decisions db)" "dn_conversation_id y = dn_conversation_id r \<and> initial_decision y" for y
    using that assms(2,3) by (auto dest: inj_onD)
qed (simp add: assms(3))

lemma initial_row_is_initial [simp]: "initial_decision (initial_decision_row jc key sha request route revision)"
  by (simp add: initial_decision_def initial_decision_row_def)

lemma initial_row_fields [simp]:
  "dn_decision_id (initial_decision_row jc key sha request route revision) = ir_decision_id route"
  "dn_key (initial_decision_row jc key sha request route revision) = key"
  "dn_request_sha256 (initial_decision_row jc key sha request route revision) = sha"
  "dn_conversation_id (initial_decision_row jc key sha request route revision) = conversation_id_text (rq_conversation_id request)"
  by (simp_all add: initial_decision_row_def)

lemma stored_route_reads:
  assumes "initial_decision_row jc key sha request route revision \<in> set (rt_decisions db)" "route_schema db"
    "codec_reads_back jc" "storable_snapshot (ir_snapshot route)"
    "list_all storable_cause (rd_causes (ir_decision route))" "list_all storable_exclusion (rd_exclusions (ir_decision route))"
    "\<And>a. rd_selected_account_id (ir_decision route) = Some a \<Longrightarrow> storable_account a"
    "rd_snapshot_id (ir_decision route) = rs_snapshot_id (ir_snapshot route)"
    "conversation_id_new (conversation_id_text (rq_conversation_id request)) = Inr (rq_conversation_id request)"
    "turn_id_new (turn_id_text (ir_turn_id route)) = Inr (ir_turn_id route)"
    "ir_consumer route = ExecutionTurn (rq_conversation_id request) (rq_expected_revision request) None None (ir_turn_id route)"
  shows "read_initial_route_by_id jc db (ir_decision_id route) = Inr route"
proof -
  let ?row = "initial_decision_row jc key sha request route revision"
  have found: "find (\<lambda>r. dn_decision_id r = ir_decision_id route \<and> initial_decision r) (rt_decisions db) = Some ?row"
    using decision_by_id [OF assms(2,1), of initial_decision] by simp
  have selected: "transpose_option account_id_new (map_option account_id_text (rd_selected_account_id (ir_decision route))) =
      Inr (rd_selected_account_id (ir_decision route))"
    using assms(7) by (cases "rd_selected_account_id (ir_decision route)") (auto simp: transpose_option_def storable_account_def account_id_new_def)
  have kind: "parse_decision_kind (decision_kind_text k) = Inr k" for k
    by (cases k) (simp_all add: decision_kind_text_def parse_decision_kind_def)
  obtain v1 where "jc_parse_value jc (jc_print_value jc (serialize_snapshot (ir_snapshot route))) = Some v1"
    "parse_snapshot v1 = Inr (ir_snapshot route)"
    using snapshot_reader.reads_back [OF assms(4)] assms(3,4) unfolding codec_reads_back_def by blast
  moreover obtain v2 where "jc_parse_value jc (jc_print_value jc (serialize_causes (rd_causes (ir_decision route)))) = Some v2"
    "parse_causes v2 = Inr (rd_causes (ir_decision route))"
    using causes_reader.reads_back [OF assms(5)] assms(3,5) unfolding codec_reads_back_def by blast
  moreover obtain v3 where "jc_parse_value jc (jc_print_value jc (serialize_exclusions (rd_exclusions (ir_decision route)))) = Some v3"
    "parse_exclusions v3 = Inr (rd_exclusions (ir_decision route))"
    using exclusions_reader.reads_back [OF assms(6)] assms(3,6) unfolding codec_reads_back_def by blast
  ultimately show ?thesis
    unfolding read_initial_route_by_id_def found
    using assms(8-11) selected kind by (simp add: initial_decision_row_def stored_json_def)
qed

lemma filter_distinct_key:
  "distinct (map key xs) \<Longrightarrow> x \<in> set xs \<Longrightarrow> key x = k \<Longrightarrow> filter (\<lambda>y. key y = k) xs = [x]"
  by (induction xs) (auto simp: filter_empty_conv, metis image_eqI)

section \<open>The selected account\<close>

lemma selectable_account:
  assumes "account_from_base clocks db r ready = Inr a" "account_blockers a = []" "live_account r"
  shows "an_enabled r \<and> an_state r \<in> {''unknown'', ''available'', ''depleted''} \<and> an_store_observation r = ''exact'' \<and> ready \<and>
    unsettled_operation_sync db (an_account_id r) = Inr None \<and>
    (\<exists>b. credential_binding_sync db (an_account_id r) = Inr (Some b) \<and>
      provider_label (pid_provider (cb_provider b)) = an_provider r \<and>
      pid_account_id (cb_provider b) = an_provider_account_id r)"
proof -
  obtain credential unsettled where base: "account_id_text (ar_account_id a) = an_account_id r" "ar_enabled a = an_enabled r"
    "credential_binding_sync db (an_account_id r) = Inr credential" "unsettled_operation_sync db (an_account_id r) = Inr unsettled"
    "lifecycle_readiness r credential unsettled ready = Inr (ar_lifecycle_readiness a)"
    "parse_account_state (an_state r) = Inr (ar_observed_state a)"
    using assms(1) account_from_base_Ok [OF assms(1)] by (auto simp: account_from_base_def and_then_Ok_iff dest: account_id_reads)
  have free: "ar_enabled a" "ar_lifecycle_readiness a \<in> {LifecycleReady, UnsupportedPlan}"
    "ar_observed_state a \<notin> {account_state.Unavailable, AuthFailed, account_state.PluginUnready}"
    using assms(2) by (simp_all add: account_blockers_none)
  have "an_state r \<in> {''unknown'', ''available'', ''depleted''}"
    using base(6) free(3) by (auto simp: parse_account_state_def split: if_split_asm)
  moreover have "unsettled = None \<and> ready \<and> an_store_observation r = ''exact'' \<and>
      (\<exists>b. credential = Some b \<and> provider_label (pid_provider (cb_provider b)) = an_provider r \<and>
        pid_account_id (cb_provider b) = an_provider_account_id r)"
    using base(5) free(2) assms(3) by (auto simp: lifecycle_readiness_def live_account_def split: if_split_asm option.split_asm)
  ultimately show ?thesis using base free(1) by auto
qed

lemma selection_of_capture:
  assumes "capture_and_decide clocks clock fill db = Inr (Some (accounts, now, s, d))" "registry_schema (rt_registry db)"
    "rd_selected_account_id d = Some a"
  shows "\<exists>got r. got \<in> set accounts \<and> ar_account_id got = a \<and> account_blockers got = [] \<and>
    selected_revision accounts d = Some (an_revision r) \<and>
    account_from_base clocks (rt_registry db) r (capability_is_ready (rt_registry db)) = Inr got \<and>
    find_account (rt_registry db) (account_id_text a) = Some r \<and> live_account r \<and>
    (\<forall>mode n b. read_routing_control (rt_registry db) = Inr (mode, n) \<longrightarrow> mode = Fixed b \<longrightarrow> b = a)"
proof -
  obtain k mode routing_revision profile_revision where
    read: "read_account_registry_sync clocks None 512 (rt_registry db) = Inr accounts"
      "read_routing_control (rt_registry db) = Inr (mode, routing_revision)"
    and built: "build_snapshot k routing_revision mode profile_revision now accounts = Inr s"
    and decided: "decide_account_registry_routing s now = Inr d"
    using capture_parts [OF assms(1)] by blast
  note parts = built_snapshot_parts [OF built]
  obtain m where m: "m \<in> set (rs_members s)" "rm_account_id m = a" "rm_blockers m = []" "\<And>b. rs_mode s = Fixed b \<Longrightarrow> b = a"
    using selected_account_is_admissible [OF decided assms(3)] by blast
  have "distinct (map rm_account_id (rs_members s))" using decide_wf [OF decided] by (simp add: wf_snapshot_def wf_members_def)
  then have distinct: "distinct (map ar_account_id accounts)" using parts member_columns(1) by metis
  obtain got where got: "got \<in> set accounts" "ar_account_id got = a" "account_blockers got = []"
    using member_of_account [of m 0 accounts] m(1-3) parts by metis
  have found: "find (\<lambda>r. ar_account_id r = a) accounts = Some got"
  proof (rule find_unique [OF got(1), of "\<lambda>r. ar_account_id r = a"])
    show "y = got" if "y \<in> set accounts" "ar_account_id y = a" for y
      using that got(1,2) distinct by (auto simp: distinct_map dest: inj_onD)
  qed (rule got(2))
  obtain r where r: "r \<in> set (lc_accounts (rt_registry db))" "live_account r"
    "account_from_base clocks (rt_registry db) r (capability_is_ready (rt_registry db)) = Inr got"
    using account_of_registry [OF read(1) got(1)] by blast
  then have "find_account (rt_registry db) (account_id_text a) = Some r" "ar_revision got = an_revision r"
    using find_account_in [OF assms(2) r(1)] account_from_base_Ok [OF r(3)] got(2) by simp_all
  then show ?thesis
    using got r found assms(3) read(2) m(4) parts by (auto simp: selected_revision_def)
qed

lemma fresh_route:
  assumes "route_conversation_initial jc sha256 credential_pattern clocks clock fill key request db = Inr (RouteFresh route, db')"
  shows "\<exists>accounts. validate_route_key credential_pattern key = Inr () \<and> rq_expected_revision request > 0 \<and>
    initial_route_rejection db request = Inr None \<and>
    capture_and_decide clocks clock (fill 0) db = Inr (Some (accounts, ir_decided_at route, ir_snapshot route, ir_decision route)) \<and>
    ir_consumer route = ExecutionTurn (rq_conversation_id request) (rq_expected_revision request) None None (ir_turn_id route) \<and>
    turn_id_new (turn_id_text (ir_turn_id route)) = Inr (ir_turn_id route) \<and>
    route_schema db' \<and> deferred_decisions db' \<and>
    db' = db\<lparr>rt_decisions := rt_decisions db @ [initial_decision_row jc key (route_request_sha sha256 request) request route
      (selected_revision accounts (ir_decision route))]\<rparr>"
  using route_initial_cases [OF assms]
  by (simp only: initial_route_outcome.distinct initial_route_outcome.inject simp_thms ex_simps) blast

lemma fresh_route_ok:
  assumes "route_conversation_initial jc sha256 credential_pattern clocks clock fill key request db = Inr (RouteFresh route, db')"
    "route_ok db"
  shows "route_ok db'"
  using fresh_route [OF assms(1)] assms(2) by (auto simp: route_ok_def)

text \<open>
  C4. A fresh initial route that selects an account selects one that can be used: the account is live and enabled, its
  observed state is none of the blocking ones, its credential is stored, belongs to the same provider account and was
  observed exactly, no operation on it is open and the callback capability is attested; a fixed routing control allows no
  other account. The stored decision names the account and its revision, and after any later transactions the account
  is still there, with the same authority unless its revision has grown.
\<close>

theorem route_selects_usable_account:
  assumes "route_conversation_initial (re_codec env) (re_sha256 env) (re_credential_pattern env) clocks clock fill key request db =
      Inr (RouteFresh route, db')"
    and "route_ok db" "rd_selected_account_id (ir_decision route) = Some a"
  shows "\<exists>r. find_account (rt_registry db) (account_id_text a) = Some r \<and> live_account r \<and> an_enabled r \<and>
    an_state r \<in> {''unknown'', ''available'', ''depleted''} \<and> an_store_observation r = ''exact'' \<and>
    capability_is_ready (rt_registry db) \<and> unsettled_operation_sync (rt_registry db) (account_id_text a) = Inr None \<and>
    (\<exists>b. credential_binding_sync (rt_registry db) (account_id_text a) = Inr (Some b) \<and>
      provider_label (pid_provider (cb_provider b)) = an_provider r \<and> pid_account_id (cb_provider b) = an_provider_account_id r) \<and>
    (\<forall>n b. read_routing_control (rt_registry db) = Inr (Fixed b, n) \<longrightarrow> b = a) \<and>
    (\<exists>d \<in> set (rt_decisions db'). dn_decision_id d = ir_decision_id route \<and> dn_account_id d = Some (account_id_text a) \<and>
      dn_account_revision d = Some (an_revision r)) \<and>
    (\<exists>q. find_account (rt_registry (route_run env calls db')) (account_id_text a) = Some q \<and>
      (an_revision r < an_revision q \<or> same_authority r q))"
proof -
  obtain accounts where fresh:
    "capture_and_decide clocks clock (fill 0) db = Inr (Some (accounts, ir_decided_at route, ir_snapshot route, ir_decision route))"
    "db' = db\<lparr>rt_decisions := rt_decisions db @ [initial_decision_row (re_codec env) key (route_request_sha (re_sha256 env) request)
      request route (selected_revision accounts (ir_decision route))]\<rparr>"
    using fresh_route [OF assms(1)] by blast
  have schema: "registry_schema (rt_registry db)" using assms(2) by (simp add: route_ok_def)
  obtain got r where sel: "account_blockers got = []" "selected_revision accounts (ir_decision route) = Some (an_revision r)"
    "account_from_base clocks (rt_registry db) r (capability_is_ready (rt_registry db)) = Inr got"
    "find_account (rt_registry db) (account_id_text a) = Some r" "live_account r"
    "\<forall>mode n b. read_routing_control (rt_registry db) = Inr (mode, n) \<longrightarrow> mode = Fixed b \<longrightarrow> b = a"
    using selection_of_capture [OF fresh(1) schema assms(3)] by blast
  have id: "an_account_id r = account_id_text a" using sel(4) by (auto simp: find_account_def find_row_def find_Some_iff)
  have "registry_steps (re_codec env) (rt_registry db') (rt_registry (route_run env calls db'))"
    using route_run_keeps [OF fresh_route_ok [OF assms(1,2)]] by blast
  then obtain q where "find_account (rt_registry (route_run env calls db')) (account_id_text a) = Some q" "account_fence r q"
    using registry_steps_account [of "re_codec env" "rt_registry db'" _ "account_id_text a" r] sel(4) fresh(2) by fastforce
  then have "\<exists>q. find_account (rt_registry (route_run env calls db')) (account_id_text a) = Some q \<and>
      (an_revision r < an_revision q \<or> same_authority r q)"
    by (auto simp: account_fence_def)
  moreover have "\<exists>d \<in> set (rt_decisions db'). dn_decision_id d = ir_decision_id route \<and> dn_account_id d = Some (account_id_text a) \<and>
      dn_account_revision d = Some (an_revision r)"
    using assms(3) sel(2) by (simp add: fresh(2) initial_decision_row_def)
  ultimately show ?thesis
    using selectable_account [OF sel(3,1,5)] sel(4-6) unfolding id by blast
qed

text \<open>
  The bound on quota times in \<open>capture_decides\<close> is needed: no check of the tables or of the constructors bounds a reset
  time, but the kernel does, so one account whose window resets later makes every capture fail.
\<close>

lemma far_reset_blocks_routing:
  assumes "capture_and_decide clocks clock fill db = Inr (Some (accounts, now, s, d))" "a \<in> set accounts"
    "aqo_disposition (ar_five_hour_quota a) = QuotaCurrent w"
  shows "aqw_resets_at w \<le> max_account_registry_timestamp_micros"
proof -
  obtain k mode routing_revision profile_revision where
    built: "build_snapshot k routing_revision mode profile_revision now accounts = Inr s"
    and decided: "decide_account_registry_routing s now = Inr d"
    using capture_parts [OF assms(1)] by blast
  obtain facts where facts: "traverse account_facts accounts = Inr facts" "rs_quota_facts s = concat facts"
    using built by (auto simp: build_snapshot_def and_then_Ok_iff)
  obtain fs where fs: "fs \<in> set facts" "account_facts a = Inr fs"
    using traverse_elements [OF facts(1)] assms(2) by (auto simp: list_all2_iff in_set_conv_nth set_zip) (metis nth_mem)
  then have "\<exists>f \<in> set fs. \<exists>t. qf_observation f = Current (aqw_used_percent w) t (aqw_resets_at w)"
    using assms(3) by (auto simp: account_facts_def quota_fact_of_def quota_observation_fact_def and_then_Ok_iff)
  then obtain f t where f: "f \<in> set fs" "qf_observation f = Current (aqw_used_percent w) t (aqw_resets_at w)" by blast
  then have "wf_fact f"
    using decide_wf [OF decided] fs(1) facts(2) by (auto simp: wf_snapshot_def wf_facts_def)
  then show ?thesis using f(2) by (simp add: wf_fact_def wf_observation_def)
qed

section \<open>Replays\<close>

lemma canonical_ids:
  "is_canonical_uuid (conversation_id_text c) \<Longrightarrow> conversation_id_new (conversation_id_text c) = Inr c"
  "is_canonical_uuid (turn_id_text t) \<Longrightarrow> turn_id_new (turn_id_text t) = Inr t"
  "is_canonical_uuid (runtime_session_id_text s) \<Longrightarrow> runtime_session_id_new (runtime_session_id_text s) = Inr s"
  by (simp_all add: conversation_id_new_def turn_id_new_def runtime_session_id_new_def domain_id_new_def)

lemma extends_in: "extends db db' \<Longrightarrow> r \<in> set (rt_decisions db) \<Longrightarrow> r \<in> set (rt_decisions db')"
  by (auto simp: extends_def)

lemma replay_of_row:
  assumes "route_schema db" "r \<in> set (rt_decisions db)"
  shows "replayed_routing_decision db (dn_key r) (dn_request_sha256 r) = Inr (Some (dn_decision_id r))"
  using decision_by_key [OF assms] by (simp add: replayed_routing_decision_def)

lemma fresh_row_stays:
  assumes "route_conversation_initial (re_codec env) (re_sha256 env) (re_credential_pattern env) clocks clock fill key request db =
      Inr (RouteFresh route, db')" "route_ok db"
  shows "\<exists>revision. initial_decision_row (re_codec env) key (route_request_sha (re_sha256 env) request) request route revision
      \<in> set (rt_decisions (route_run env calls db')) \<and> route_ok (route_run env calls db')"
proof -
  note run = route_run_keeps [OF fresh_route_ok [OF assms], of env calls]
  obtain accounts where "db' = db\<lparr>rt_decisions := rt_decisions db @ [initial_decision_row (re_codec env) key
      (route_request_sha (re_sha256 env) request) request route (selected_revision accounts (ir_decision route))]\<rparr>"
    using fresh_route [OF assms(1)] by blast
  then have "initial_decision_row (re_codec env) key (route_request_sha (re_sha256 env) request) request route
      (selected_revision accounts (ir_decision route)) \<in> set (rt_decisions db')" by simp
  then show ?thesis using run extends_in by blast
qed

text \<open>
  C12. A fresh initial route is final: after any later transactions the same command returns the same route and changes
  nothing, whatever its clock and random source give then, and the reader of the conversation returns the route too.
  The snapshot, the causes and the exclusions pass through their JSON columns unchanged; of the JSON codec the
  hypothesis is only that it gives back what it printed, up to the order of the members of an object.
\<close>

theorem initial_route_replays:
  assumes "route_conversation_initial (re_codec env) (re_sha256 env) (re_credential_pattern env) clocks clock fill key request db =
      Inr (RouteFresh route, db')"
    and "route_ok db" "codec_reads_back (re_codec env)" "is_canonical_uuid (conversation_id_text (rq_conversation_id request))"
  shows "route_conversation_initial (re_codec env) (re_sha256 env) (re_credential_pattern env) clocks' clock' fill' key request
      (route_run env calls db') = Inr (RouteReplayed route, route_run env calls db') \<and>
    read_conversation_initial_route (re_codec env) (rq_conversation_id request) (route_run env calls db') = Inr (Some route)"
proof -
  let ?sha = "route_request_sha (re_sha256 env) request" and ?final = "route_run env calls db'"
  obtain accounts where fresh: "validate_route_key (re_credential_pattern env) key = Inr ()" "rq_expected_revision request > 0"
    "capture_and_decide clocks clock (fill 0) db = Inr (Some (accounts, ir_decided_at route, ir_snapshot route, ir_decision route))"
    "ir_consumer route = ExecutionTurn (rq_conversation_id request) (rq_expected_revision request) None None (ir_turn_id route)"
    "turn_id_new (turn_id_text (ir_turn_id route)) = Inr (ir_turn_id route)"
    using fresh_route [OF assms(1)] by blast
  have decided: "decide_account_registry_routing (ir_snapshot route) (ir_decided_at route) = Inr (ir_decision route)"
    using capture_parts [OF fresh(3)] by blast
  have storable: "storable_snapshot (ir_snapshot route)"
    using capture_storable [OF fresh(3)] assms(2) by (simp add: route_ok_def)
  obtain revision where row: "initial_decision_row (re_codec env) key ?sha request route revision \<in> set (rt_decisions ?final)"
    and ok: "route_ok ?final"
    using fresh_row_stays [OF assms(1,2)] by blast
  have schema: "route_schema ?final" and deferred: "deferred_decisions ?final" using ok by (simp_all add: route_ok_def)
  have reads: "read_initial_route_by_id (re_codec env) ?final (ir_decision_id route) = Inr route"
    by (rule stored_route_reads [OF row schema assms(3) storable _ _ _ _ canonical_ids(1) [OF assms(4)] fresh(5,4)])
       (use decision_storable [OF decided storable] decision_of_members [OF decided] in auto)
  have "replayed_routing_decision ?final key ?sha = Inr (Some (ir_decision_id route))"
    using replay_of_row [OF schema row] by simp
  moreover have "initial_decision_of ?final (conversation_id_text (rq_conversation_id request)) =
      Some (initial_decision_row (re_codec env) key ?sha request route revision)"
    using initial_decision_unique [OF schema row] by simp
  ultimately show ?thesis
    using fresh(1,2) reads deferred
    by (simp add: route_conversation_initial_def read_conversation_initial_route_def route_commit_def Let_def
        transpose_option_def initial_decision_of_def)
qed

text \<open>
  C13. A conversation is routed once: after a fresh initial route and any later transactions its only initial decision is
  that route, and no command, under whatever key, revision, clock and random source, gets another fresh route for it.
\<close>

theorem one_initial_route:
  assumes "route_conversation_initial (re_codec env) (re_sha256 env) (re_credential_pattern env) clocks clock fill key request db =
      Inr (RouteFresh route, db')"
    and "route_ok db" "rq_conversation_id request' = rq_conversation_id request"
  shows "route_conversation_initial (re_codec env) (re_sha256 env) (re_credential_pattern env) clocks' clock' fill' key' request'
      (route_run env calls db') \<noteq> Inr (RouteFresh route', db'') \<and>
    map dn_decision_id (filter (\<lambda>r. initial_decision r \<and> dn_conversation_id r = conversation_id_text (rq_conversation_id request))
      (rt_decisions (route_run env calls db'))) = [ir_decision_id route]"
proof -
  let ?final = "route_run env calls db'" and ?c = "conversation_id_text (rq_conversation_id request)"
  obtain revision where row: "initial_decision_row (re_codec env) key (route_request_sha (re_sha256 env) request) request route revision
      \<in> set (rt_decisions ?final)" (is "?row \<in> _") and ok: "route_ok ?final"
    using fresh_row_stays [OF assms(1,2)] by blast
  have "initial_route_rejection ?final request' \<noteq> Inr None"
    using row assms(3) initial_row_is_initial by (auto simp: initial_route_rejection_def Let_def list_ex_iff)
  then have "route_conversation_initial (re_codec env) (re_sha256 env) (re_credential_pattern env) clocks' clock' fill' key' request'
      ?final \<noteq> Inr (RouteFresh route', db'')"
    using fresh_route by blast
  moreover have "distinct (map dn_conversation_id (filter initial_decision (rt_decisions ?final)))"
    using ok by (simp add: route_ok_def route_schema_def decision_keys_unique_def)
  then have "filter (\<lambda>r. dn_conversation_id r = ?c) (filter initial_decision (rt_decisions ?final)) = [?row]"
    using row by (intro filter_distinct_key) simp_all
  ultimately show ?thesis by (simp add: conj_commute)
qed

section \<open>Continuations\<close>

lemma initial_decision_of_Some:
  "initial_decision_of db c = Some i \<Longrightarrow> i \<in> set (rt_decisions db) \<and> initial_decision i \<and> dn_conversation_id i = c"
  by (auto simp: initial_decision_of_def find_Some_iff)

lemma continuation_row_fields [simp]:
  "dn_decision_id (continuation_row key sha request authority k now) = k"
  "dn_key (continuation_row key sha request authority k now) = key"
  "dn_request_sha256 (continuation_row key sha request authority k now) = sha"
  "dn_shape (continuation_row key sha request authority k now) = continuation_shape"
  "dn_source_session (continuation_row key sha request authority k now) = Some (runtime_session_id_text (cq_source_session request))"
  "dn_conversation_id (continuation_row key sha request authority k now) = conversation_id_text (cq_conversation_id request)"
  by (simp_all add: continuation_row_def)

lemma fresh_binding:
  assumes "bind_conversation_continuation sha256 credential_pattern clock fill key request db = Inr (Success binding, db')"
    "replayed_routing_decision db key (continuation_request_sha sha256 request) = Inr None"
  shows "\<exists>authority now. validate_route_key credential_pattern key = Inr () \<and>
    cq_expected_revision request > 0 \<and> cq_expected_session_revision request > 0 \<and>
    read_continuation_authority db request = Some authority \<and> route_schema db' \<and> deferred_decisions db' \<and>
    db' = db\<lparr>rt_decisions := rt_decisions db @ [continuation_row key (continuation_request_sha sha256 request) request authority
      (cn_decision_id binding) now]\<rparr> \<and>
    binding = \<lparr>cn_decision_id = cn_decision_id binding,
      cn_consumer = ExecutionTurn (cq_conversation_id request) (cq_expected_revision request)
        (Some (cq_source_session request)) (Some (cq_expected_session_revision request)) (cq_turn_id request),
      cn_initial_decision_id = cy_initial_decision_id authority,
      cn_account_snapshot_id = cy_account_snapshot_id authority, cn_account_revision = cy_account_revision authority,
      cn_profile_snapshot_id = cy_profile_snapshot_id authority, cn_profile_revision = cy_profile_revision authority,
      cn_decided_at = now\<rparr>"
  using bind_cases [OF assms(1)] assms(2)
  by (simp only: routing_command_outcome.distinct routing_command_outcome.inject sum.inject option.distinct simp_thms ex_simps)
     (elim exE conjE; simp)

lemma authority_parts:
  assumes "read_continuation_authority db request = Some authority"
  shows "\<exists>s d. find_row sn_session_id (rt_sessions db) (runtime_session_id_text (cq_source_session request)) = Some s \<and>
    active_session db request s \<and> initial_decision_of db (conversation_id_text (cq_conversation_id request)) = Some d \<and>
    authority = \<lparr>cy_account_id = sn_account_id s, cy_account_revision = sn_account_revision s,
      cy_account_snapshot_id = sn_account_snapshot_id s, cy_profile_snapshot_id = sn_profile_snapshot_id s,
      cy_profile_revision = sn_profile_revision s, cy_initial_decision_id = dn_decision_id d,
      cy_routing_revision = dn_routing_revision d\<rparr>"
  using assms
  by (auto simp: read_continuation_authority_def active_session_def bind_eq_Some_conv split: if_split_asm)

text \<open>
  C39. A new binding keeps the account of the running session: the session is active at the revision that was expected,
  serves the active turn of the command, and the stored decision names its account and account revision, never another
  one; the account is still registered, and the initial decision of the conversation that the binding names exists.
\<close>

theorem continuation_keeps_session_account:
  assumes "bind_conversation_continuation sha256 credential_pattern clock fill key request db = Inr (Success binding, db')"
    and "replayed_routing_decision db key (continuation_request_sha sha256 request) = Inr None" "route_ok db"
  shows "\<exists>s d initial. find_row sn_session_id (rt_sessions db) (runtime_session_id_text (cq_source_session request)) = Some s \<and>
    sn_state s = ''active'' \<and> sn_revision s = cq_expected_session_revision request \<and>
    sn_conversation_id s = conversation_id_text (cq_conversation_id request) \<and>
    (\<exists>t \<in> set (rt_turns db). vt_turn_id t = turn_id_text (cq_turn_id request) \<and> vt_session_id t = Some (sn_session_id s) \<and>
      vt_status t = ''active'') \<and>
    rt_decisions db' = rt_decisions db @ [d] \<and> dn_decision_id d = cn_decision_id binding \<and> dn_kind d = ''selected'' \<and>
    dn_account_id d = Some (sn_account_id s) \<and> dn_account_revision d = Some (sn_account_revision s) \<and>
    cn_account_revision binding = sn_account_revision s \<and> known_account db' (sn_account_id s) \<and>
    initial \<in> set (rt_decisions db) \<and> initial_decision initial \<and> dn_conversation_id initial = sn_conversation_id s \<and>
    cn_initial_decision_id binding = dn_decision_id initial"
proof -
  obtain authority now where fresh: "read_continuation_authority db request = Some authority" "route_schema db'"
    "db' = db\<lparr>rt_decisions := rt_decisions db @ [continuation_row key (continuation_request_sha sha256 request) request authority
      (cn_decision_id binding) now]\<rparr>"
    "cn_account_revision binding = cy_account_revision authority" "cn_initial_decision_id binding = cy_initial_decision_id authority"
    using fresh_binding [OF assms(1,2)] by (elim exE conjE) (metis continuation_binding.select_convs)
  obtain s i where s: "find_row sn_session_id (rt_sessions db) (runtime_session_id_text (cq_source_session request)) = Some s"
      "active_session db request s" and i: "initial_decision_of db (conversation_id_text (cq_conversation_id request)) = Some i"
    and authority: "authority = \<lparr>cy_account_id = sn_account_id s, cy_account_revision = sn_account_revision s,
      cy_account_snapshot_id = sn_account_snapshot_id s, cy_profile_snapshot_id = sn_profile_snapshot_id s,
      cy_profile_revision = sn_profile_revision s, cy_initial_decision_id = dn_decision_id i,
      cy_routing_revision = dn_routing_revision i\<rparr>"
    using authority_parts [OF fresh(1)] by blast
  let ?d = "continuation_row key (continuation_request_sha sha256 request) request authority (cn_decision_id binding) now"
  have "known_account db' (sn_account_id s)"
    using fresh(2) unfolding route_schema_def
    by (simp add: fresh(3) list_all_iff continuation_row_def authority null_or_def)
  moreover have "i \<in> set (rt_decisions db)" "initial_decision i" "dn_conversation_id i = conversation_id_text (cq_conversation_id request)"
    using initial_decision_of_Some [OF i] by simp_all
  moreover have "rt_decisions db' = rt_decisions db @ [?d]" by (simp add: fresh(3))
  moreover have "dn_kind ?d = ''selected''" "dn_account_id ?d = Some (sn_account_id s)" "dn_account_revision ?d = Some (sn_account_revision s)"
    by (simp_all add: continuation_row_def authority)
  moreover have "sn_state s = ''active'' \<and> sn_revision s = cq_expected_session_revision request \<and>
      sn_conversation_id s = conversation_id_text (cq_conversation_id request) \<and>
      (\<exists>t \<in> set (rt_turns db). vt_turn_id t = turn_id_text (cq_turn_id request) \<and> vt_session_id t = Some (sn_session_id s) \<and>
        vt_status t = ''active'')"
    using s(2) by (auto simp: active_session_def list_ex_iff)
  moreover have "dn_decision_id ?d = cn_decision_id binding" by simp
  moreover have "cn_account_revision binding = sn_account_revision s" "cn_initial_decision_id binding = dn_decision_id i"
    using fresh(4,5) by (simp_all add: authority)
  ultimately show ?thesis using s(1) by metis
qed

text \<open>
  C40. A binding replays: after any later transactions that leave the profile revision of the source session, the same
  command returns the same binding and changes nothing, also when the session or the turn is no longer active.
\<close>

theorem continuation_replays:
  assumes "bind_conversation_continuation (re_sha256 env) (re_credential_pattern env) clock fill key request db =
      Inr (Success binding, db')"
    and "replayed_routing_decision db key (continuation_request_sha (re_sha256 env) request) = Inr None" "route_ok db"
    and "is_canonical_uuid (conversation_id_text (cq_conversation_id request))" "is_canonical_uuid (turn_id_text (cq_turn_id request))"
      "is_canonical_uuid (runtime_session_id_text (cq_source_session request))"
    and "\<And>s'. find_row sn_session_id (rt_sessions (route_run env calls db')) (runtime_session_id_text (cq_source_session request)) =
      Some s' \<Longrightarrow> sn_profile_revision s' = cn_profile_revision binding"
  shows "bind_conversation_continuation (re_sha256 env) (re_credential_pattern env) clock' fill' key request
      (route_run env calls db') = Inr (Success binding, route_run env calls db')"
proof -
  let ?sha = "continuation_request_sha (re_sha256 env) request" and ?final = "route_run env calls db'"
    and ?session = "runtime_session_id_text (cq_source_session request)"
  obtain authority now where fresh: "validate_route_key (re_credential_pattern env) key = Inr ()"
    "cq_expected_revision request > 0" "cq_expected_session_revision request > 0"
    "read_continuation_authority db request = Some authority" "route_schema db'" "deferred_decisions db'"
    "db' = db\<lparr>rt_decisions := rt_decisions db @ [continuation_row key ?sha request authority (cn_decision_id binding) now]\<rparr>"
    and binding: "binding = \<lparr>cn_decision_id = cn_decision_id binding,
      cn_consumer = ExecutionTurn (cq_conversation_id request) (cq_expected_revision request)
        (Some (cq_source_session request)) (Some (cq_expected_session_revision request)) (cq_turn_id request),
      cn_initial_decision_id = cy_initial_decision_id authority,
      cn_account_snapshot_id = cy_account_snapshot_id authority, cn_account_revision = cy_account_revision authority,
      cn_profile_snapshot_id = cy_profile_snapshot_id authority, cn_profile_revision = cy_profile_revision authority,
      cn_decided_at = now\<rparr>"
    using fresh_binding [OF assms(1,2)] by blast
  let ?row = "continuation_row key ?sha request authority (cn_decision_id binding) now"
  have "route_ok db'" using assms(3) fresh(5-7) by (simp add: route_ok_def)
  then have ok: "route_ok ?final" "extends db' ?final" using route_run_keeps by blast+
  then have schema: "route_schema ?final" and deferred: "deferred_decisions ?final" by (simp_all add: route_ok_def)
  have row: "?row \<in> set (rt_decisions ?final)" using extends_in [OF ok(2), of ?row] by (simp add: fresh(7))
  obtain i where i: "i \<in> set (rt_decisions db)" "initial_decision i"
    "dn_conversation_id i = conversation_id_text (cq_conversation_id request)" "cy_initial_decision_id authority = dn_decision_id i"
    using authority_parts [OF fresh(4)] by (auto dest: initial_decision_of_Some)
  have "i \<in> set (rt_decisions ?final)" using extends_in [OF ok(2), of i] i(1) by (simp add: fresh(7))
  then have initial: "initial_decision_of ?final (conversation_id_text (cq_conversation_id request)) = Some i"
    using initial_decision_unique [OF schema _ i(2)] i(3) by simp
  have "?session \<in> set (map sn_session_id (rt_sessions ?final))"
    using deferred row by (fastforce simp: deferred_decisions_def list_all_iff null_or_def)
  then obtain s' where s': "find_row sn_session_id (rt_sessions ?final) ?session = Some s'"
    by (cases "find_row sn_session_id (rt_sessions ?final) ?session") (auto simp: find_row_def find_None_iff)
  have found: "find (\<lambda>r. dn_decision_id r = cn_decision_id binding \<and> dn_shape r = continuation_shape) (rt_decisions ?final) = Some ?row"
    using decision_by_id [OF schema row, of "\<lambda>r. dn_shape r = continuation_shape"] by simp
  have parts: "dn_source_session_revision ?row = Some (cq_expected_session_revision request)"
    "dn_account_snapshot_id ?row = Some (cy_account_snapshot_id authority)"
    "dn_account_revision ?row = Some (cy_account_revision authority)"
    "dn_profile_snapshot_id ?row = Some (cy_profile_snapshot_id authority)"
    "dn_turn_id ?row = turn_id_text (cq_turn_id request)" "dn_conversation_revision ?row = cq_expected_revision request"
    "dn_created ?row = now"
    by (simp_all add: continuation_row_def)
  have "cn_profile_revision binding = cy_profile_revision authority" by (subst binding) simp
  then have "sn_profile_revision s' = cy_profile_revision authority" using assms(7) [OF s'] by simp
  then have "read_continuation_binding ?final (cn_decision_id binding) = Inr binding"
    unfolding read_continuation_binding_def found
    using s' initial i(4) parts canonical_ids assms(4-6) by (subst (2) binding) simp
  moreover have "replayed_routing_decision ?final key ?sha = Inr (Some (cn_decision_id binding))"
    using replay_of_row [OF schema row] by simp
  ultimately show ?thesis
    using fresh(1-3) deferred by (simp add: bind_conversation_continuation_def route_commit_def Let_def)
qed

end
