(* ===== verification/Route_Witness.thy ===== *)
theory Route_Witness
  imports Route_Claims Registry_Witness
begin

text \<open>
  A conversation over the registry of \<^verbatim>\<open>Registry_Witness\<close> with an attested capability and no open operation,
  on which the properties of \<^verbatim>\<open>Route_Claims\<close> are applied: one account cannot be used, the other is
  selected.
\<close>

section \<open>The capture\<close>

definition ready_registry :: registry where
  "ready_registry = trial_registry\<lparr>lc_operations := [trial_enrollment],
     lc_control := Some \<lparr>ct_mode = ''balanced'', ct_fixed_account_id = None, ct_revision = 3, ct_updated = 2\<rparr>,
     lc_capability := Some \<lparr>ca_build_identity = ''b'', ca_executable_sha256 = trial_hash, ca_schema_sha256 = trial_hash,
       ca_callback_profile_sha256 = trial_hash, ca_login_chatgpt_auth_tokens = True, ca_refresh_callback = True,
       ca_observed_at = 1\<rparr>\<rparr>"

definition trial_conversation :: routed_conversation where
  "trial_conversation = \<lparr>vc_conversation_id = trial_id 10, vc_state = ''active'', vc_revision = 1, vc_created = 1, vc_updated = 1\<rparr>"

definition trial_session :: routed_session where
  "trial_session = \<lparr>sn_session_id = trial_id 11, sn_conversation_id = trial_id 10, sn_account_id = trial_id 2,
     sn_account_revision = 2, sn_account_snapshot_id = trial_id 14, sn_profile_snapshot_id = trial_id 15,
     sn_profile_revision = 1, sn_state = ''active'', sn_revision = 1\<rparr>"

definition trial_turn :: routed_turn where
  "trial_turn = \<lparr>vt_turn_id = trial_id 12, vt_conversation_id = trial_id 10, vt_session_id = Some (trial_id 11), vt_status = ''active''\<rparr>"

definition trial_routes :: route_db where
  "trial_routes = \<lparr>rt_registry = ready_registry, rt_decisions = [], rt_conversations = [trial_conversation],
     rt_requests = [\<lparr>qk_conversation_id = trial_id 10, qk_model_source_account_id = None,
       qk_model_source_account_revision = None, qk_review_required = False\<rparr>],
     rt_sessions = [trial_session], rt_turns = [trial_turn], rt_profile_revision = Some 1\<rparr>"

lemma ready_registry_schema: "registry_schema ready_registry"
  using trial_registry_schema
  by (simp add: ready_registry_def schema_checks capability_entry_checks_def trial_registry_def trial_account_def
      trial_enrollment_def trial_receipt_def stored_credential_row_def trial_key_def)

lemma ready_registry_invariant: "registry_invariant ready_registry"
  using trial_registry_invariant ready_registry_schema
  by (simp add: registry_invariant_def ready_registry_def routing_universe_def fixed_target_live_def null_or_def live_ids_def)

lemma ready_accounts:
  "\<exists>a1 a2. read_account_registry_sync trial_clocks None 512 ready_registry = Inr [a1, a2] \<and>
     ar_account_id a1 = AccountId (trial_id 1) \<and> ar_revision a1 = 2 \<and> account_blockers a1 = [AccountAuthFailed] \<and>
     ar_account_id a2 = AccountId (trial_id 2) \<and> ar_revision a2 = 2 \<and> account_blockers a2 = [] \<and>
     (\<forall>a \<in> {a1, a2}. unknown_quota 300 = Inr (ar_five_hour_quota a) \<and> unknown_quota 10080 = Inr (ar_seven_day_quota a))"
proof -
  let ?from = "\<lambda>b l p. account_from_base trial_clocks ready_registry (trial_account b l p) True"
  obtain b where b: "credential_binding_sync ready_registry (trial_id 2) = Inr (Some b)" "pid_account_id (cb_provider b) = ''p2''"
    using trial_credentials(2) by (auto simp: credential_binding_sync_def find_credential_def ready_registry_def)
  have absent: "credential_binding_sync ready_registry (trial_id 1) = Inr None"
    using trial_credentials(1) by (simp add: credential_binding_sync_def find_credential_def ready_registry_def)
  have provider: "pid_provider (cb_provider b) = Chatgpt" by (cases "pid_provider (cb_provider b)") simp
  have settled: "unsettled_operation_sync ready_registry a = Inr None" for a
    by (simp add: unsettled_operation_sync_def open_operations_def open_operation_def ready_registry_def trial_enrollment_def
       settled_phase_def transpose_option_def)
  have quota: "quota_observation_sync clock ready_registry a d = unknown_quota d" for clock a d
    by (simp add: quota_observation_sync_def find_quota_def ready_registry_def)
  obtain q5 q7 where q: "unknown_quota 300 = Inr q5" "unknown_quota 10080 = Inr q7"
    by (auto simp: unknown_quota_def quota_observation_unknown_def)
  obtain a1 a2 where a: "?from 1 ''Ada'' ''p1'' = Inr a1" "?from 2 ''Bo'' ''p2'' = Inr a2"
    "ar_account_id a1 = AccountId (trial_id 1) \<and> ar_revision a1 = 2 \<and> account_blockers a1 = [AccountAuthFailed]"
    "ar_account_id a2 = AccountId (trial_id 2) \<and> ar_revision a2 = 2 \<and> account_blockers a2 = []"
    "ar_five_hour_quota a1 = q5" "ar_five_hour_quota a2 = q5" "ar_seven_day_quota a1 = q7" "ar_seven_day_quota a2 = q7"
    using b absent provider settled quota q
    by (simp add: account_from_base_def lifecycle_readiness_def account_blockers_cases)
       (simp add: trial_account_def parse_account_state_def provider_label_def account_blockers_cases)
  have "capability_is_ready ready_registry" by (simp add: capability_is_ready_def ready_registry_def)
  moreover have "registry_rows ready_registry None 512 = [trial_account 1 ''Ada'' ''p1'', trial_account 2 ''Bo'' ''p2'']"
    by (simp add: registry_rows_def registry_position_def find_row_def ready_registry_def live_account_def)
  ultimately have "read_account_registry_sync trial_clocks None 512 ready_registry = Inr [a1, a2]"
    using a(1,2) by (simp add: read_account_registry_sync_def ready_registry_def live_account_def)
  then show ?thesis using a(3-8) q by auto
qed

definition trial_draw :: "nat \<Rightarrow> byte list option" where
  "trial_draw n = Some (replicate 16 (of_nat n))"

definition drawn :: "byte \<Rightarrow> string" where
  "drawn b = uuid_groups (uuid_stamp (replicate 16 b))"

definition trial_snapshot :: routing_snapshot where
  "trial_snapshot = \<lparr>rs_snapshot_id = drawn 0, rs_routing_revision = 3, rs_mode = Balanced,
     rs_task_role_profile_revision = 1, rs_resolved_at_micros = 9,
     rs_members = [\<lparr>rm_position = 1, rm_account_id = AccountId (trial_id 1), rm_account_revision = 2, rm_blockers = [AccountAuthFailed]\<rparr>,
       \<lparr>rm_position = 2, rm_account_id = AccountId (trial_id 2), rm_account_revision = 2, rm_blockers = []\<rparr>],
     rs_quota_facts = [
       \<lparr>qf_account_id = AccountId (trial_id 1), qf_window = FiveHour, qf_duration_minutes = 300, qf_observation = Missing\<rparr>,
       \<lparr>qf_account_id = AccountId (trial_id 1), qf_window = SevenDay, qf_duration_minutes = 10080, qf_observation = Missing\<rparr>,
       \<lparr>qf_account_id = AccountId (trial_id 2), qf_window = FiveHour, qf_duration_minutes = 300, qf_observation = Missing\<rparr>,
       \<lparr>qf_account_id = AccountId (trial_id 2), qf_window = SevenDay, qf_duration_minutes = 10080, qf_observation = Missing\<rparr>]\<rparr>"

definition trial_decision :: routing_decision where
  "trial_decision = \<lparr>rd_snapshot_id = drawn 0, rd_kind = decision_kind.Selected, rd_selected_account_id = Some (AccountId (trial_id 2)),
     rd_exclusions = [], rd_causes = map (\<lambda>b. \<lparr>dc_account_id = AccountId (trial_id 1), dc_blocker = b\<rparr>)
       [AccountAuthFailed, QuotaFiveHourMissing, QuotaSevenDayMissing]\<rparr>"


lemma trial_decides: "decide_account_registry_routing trial_snapshot 9 = Inr trial_decision"
  by code_simp

lemma trial_built:
  assumes "ar_account_id a1 = AccountId (trial_id 1)" "ar_revision a1 = 2" "account_blockers a1 = [AccountAuthFailed]"
    "ar_account_id a2 = AccountId (trial_id 2)" "ar_revision a2 = 2" "account_blockers a2 = []"
    "\<forall>a \<in> {a1, a2}. unknown_quota 300 = Inr (ar_five_hour_quota a) \<and> unknown_quota 10080 = Inr (ar_seven_day_quota a)"
  shows "build_snapshot (drawn 0) 3 Balanced 1 9 [a1, a2] = Inr trial_snapshot"
proof -
  have fct: "quota_fact_of i w q = Inr \<lparr>qf_account_id = i, qf_window = w, qf_duration_minutes = ucast d, qf_observation = Missing\<rparr>"
    if "unknown_quota d = Inr q" "d = 300 \<or> d = 10080" for i w q and d :: "32 word"
    using that by (auto simp: unknown_quota_def quota_observation_unknown_def quota_fact_of_def quota_observation_fact_def u16_of_u32_def)
  have q: "unknown_quota 300 = Inr (ar_five_hour_quota a1)" "unknown_quota 10080 = Inr (ar_seven_day_quota a1)"
    "unknown_quota 300 = Inr (ar_five_hour_quota a2)" "unknown_quota 10080 = Inr (ar_seven_day_quota a2)"
    using assms(7) by blast+
  show ?thesis
    using assms(1-6) fct [OF q(1)] fct [OF q(2)] fct [OF q(3)] fct [OF q(4)]
    by (simp add: build_snapshot_def account_facts_def account_member_def trial_snapshot_def)
qed

lemma trial_capture:
  "\<exists>accounts. capture_and_decide trial_clocks (Some 9) (trial_draw 0) trial_routes =
     Inr (Some (accounts, 9, trial_snapshot, trial_decision)) \<and> selected_revision accounts trial_decision = Some 2"
proof -
  obtain a1 a2 where a: "read_account_registry_sync trial_clocks None 512 ready_registry = Inr [a1, a2]"
    "ar_account_id a1 = AccountId (trial_id 1)" "ar_revision a1 = 2" "account_blockers a1 = [AccountAuthFailed]"
    "ar_account_id a2 = AccountId (trial_id 2)" "ar_revision a2 = 2" "account_blockers a2 = []"
    "\<forall>a \<in> {a1, a2}. unknown_quota 300 = Inr (ar_five_hour_quota a) \<and> unknown_quota 10080 = Inr (ar_seven_day_quota a)"
    using ready_accounts by blast
  have "read_routing_control ready_registry = Inr (Balanced, 3)" by (simp add: read_routing_control_def ready_registry_def)
  moreover have "random_uuid_v4 (trial_draw 0) = Inr (drawn 0)" by (simp add: random_uuid_v4_def trial_draw_def drawn_def)
  ultimately have "capture_and_decide trial_clocks (Some 9) (trial_draw 0) trial_routes =
      Inr (Some ([a1, a2], 9, trial_snapshot, trial_decision))"
    using a(1) trial_built [OF a(2-8)] by (simp add: capture_and_decide_def trial_routes_def unix_micros_def trial_decides)
  moreover have "selected_revision [a1, a2] trial_decision = Some 2"
    using a(2,5,6) by (simp add: selected_revision_def trial_decision_def)
  ultimately show ?thesis by blast
qed

text \<open>The registry is read by the composition, not by the evaluation above.\<close>

lemma capture_decides_witness:
  "\<exists>accounts s d. read_account_registry_sync trial_clocks None 512 ready_registry = Inr accounts \<and>
     capture_and_decide trial_clocks (Some 9) (Some (replicate 16 0)) trial_routes = Inr (Some (accounts, 9, s, d)) \<and>
     wf_snapshot s 9"
proof -
  obtain accounts where "read_account_registry_sync trial_clocks None 512 ready_registry = Inr accounts" "accounts \<noteq> []"
    using ready_accounts by fastforce
  moreover have "rt_registry trial_routes = ready_registry" "rt_profile_revision trial_routes = Some 1"
    by (simp_all add: trial_routes_def)
  moreover have "lc_control ready_registry \<noteq> None" "quota_times_bounded ready_registry"
    by (simp_all add: ready_registry_def quota_times_bounded_def)
  ultimately show ?thesis
    using capture_decides [of trial_routes 1 trial_clocks accounts 9 "replicate 16 0"] ready_registry_invariant
    by (auto simp: max_account_registry_timestamp_micros_def)
qed

section \<open>A route\<close>

lemma decision_appended:
  assumes "route_schema db" "routed_decision_checks r" "decision_keys_unique (rt_decisions db @ [r])"
    "known_conversation db (dn_conversation_id r)" "null_or (known_account db) (dn_account_id r)"
  shows "route_schema (db\<lparr>rt_decisions := rt_decisions db @ [r]\<rparr>)"
proof -
  let ?db = "db\<lparr>rt_decisions := rt_decisions db @ [r]\<rparr>"
  have "known_conversation ?db = known_conversation db" "known_account ?db = known_account db"
    by (simp_all add: known_conversation_def known_account_def fun_eq_iff)
  then show ?thesis using assms unfolding route_schema_def by simp
qed

definition trial_request :: route_initial_request where
  "trial_request = \<lparr>rq_conversation_id = ConversationId (trial_id 10), rq_expected_revision = 1\<rparr>"

abbreviation trial_route :: "string \<Rightarrow> route_db \<Rightarrow> store_error + initial_route_outcome \<times> route_db" where
  "trial_route key \<equiv> route_conversation_initial (re_codec trial_environment) (re_sha256 trial_environment)
     (re_credential_pattern trial_environment) trial_clocks (Some 9) trial_draw key trial_request"

lemmas route_checks = routed_decision_checks_def routed_conversation_checks_def task_request_checks_def routed_session_checks_def
  decision_keys_unique_def known_conversation_def known_account_def null_or_def bytes_between_def sql_integer_def i64_max_def

lemma trial_routes_ok: "route_ok trial_routes"
  using ready_registry_schema
  by (simp add: route_ok_def route_schema_def deferred_decisions_def trial_routes_def route_checks trial_conversation_def
      trial_session_def trial_turn_def) (simp add: ready_registry_def)

lemma drawn_length [simp]: "sql_length (drawn b) = 36"
  by (simp add: drawn_def)

lemma drawn_canonical: "is_canonical_uuid (drawn b)"
  using uuid_stamp_v4 [of "replicate 16 b"] by (simp add: drawn_def is_canonical_uuid_v4_def)

lemma trial_request_fields:
  "rq_conversation_id trial_request = ConversationId (trial_id 10)" "rq_expected_revision trial_request = 1"
  "re_codec trial_environment = demo_codec"
  by (simp_all add: trial_request_def trial_environment_def)

lemma trial_digest:
  "length (route_digest (re_sha256 trial_environment) parts) = 64"
  "sql_length (route_digest (re_sha256 trial_environment) parts) = 64"
proof -
  have "length (hex (replicate 32 0)) = 64 \<and> sql_length (hex (replicate 32 0)) = 64" by code_simp
  then show "length (route_digest (re_sha256 trial_environment) parts) = 64"
    "sql_length (route_digest (re_sha256 trial_environment) parts) = 64"
    by (simp_all only: route_digest_def trial_environment_def registry_environment.select_convs)
qed

lemma trial_sha [simp]: "length (route_request_sha (re_sha256 trial_environment) request) = 64"
  "sql_length (route_request_sha (re_sha256 trial_environment) request) = 64"
  by (simp_all add: route_request_sha_def trial_digest)

lemma trial_decision_fields [simp]:
  "rd_kind trial_decision = decision_kind.Selected" "rd_selected_account_id trial_decision = Some (AccountId (trial_id 2))"
  "rs_snapshot_id trial_snapshot = drawn 0" "rs_routing_revision trial_snapshot = 3"
  by (simp_all add: trial_decision_def trial_snapshot_def)

lemma trial_class: "quota_classification trial_decision trial_snapshot = ''unknown''"
  by code_simp

lemma trial_fresh: "\<exists>route db'. trial_route ''k'' trial_routes = Inr (RouteFresh route, db') \<and>
    rd_selected_account_id (ir_decision route) = Some (AccountId (trial_id 2)) \<and>
    (\<exists>d. rt_decisions db' = [d] \<and> dn_key d = ''k'' \<and> dn_turn_id d = drawn 3 \<and> dn_decision_id d = drawn 1 \<and> dn_operation_id d = drawn 2 \<and>
      dn_conversation_id d = trial_id 10 \<and> initial_decision d \<and> dn_routing_revision d = 3) \<and>
    db' = trial_routes\<lparr>rt_decisions := rt_decisions db'\<rparr>"
proof -
  obtain accounts where captured: "capture_and_decide trial_clocks (Some 9) (trial_draw 0) trial_routes =
     Inr (Some (accounts, 9, trial_snapshot, trial_decision))" "selected_revision accounts trial_decision = Some 2"
    using trial_capture by blast
  have key: "validate_route_key (re_credential_pattern trial_environment) ''k'' = Inr ()"
    by (simp add: validate_route_key_def contains_credential_material_def trial_environment_def)
  have draws: "random_uuid_v4 (trial_draw 1) = Inr (drawn 1)" "random_uuid_v4 (trial_draw 2) = Inr (drawn 2)"
    "random_uuid_v4 (trial_draw 3) = Inr (drawn 3)"
    by (simp_all add: random_uuid_v4_def trial_draw_def drawn_def)
  have turn: "turn_id_new (drawn 3) = Inr (TurnId (drawn 3))"
    using drawn_canonical by (simp add: turn_id_new_def domain_id_new_def)
  have rejection: "initial_route_rejection trial_routes trial_request = Inr None"
    by (simp add: initial_route_rejection_def conversation_matches_def trial_routes_def trial_request_def trial_conversation_def
        find_row_def)
  have marked: "mark_changed_model_source (trial_id 10) (rd_selected_account_id trial_decision) (Some 2) 9 trial_routes =
      Inr (False, trial_routes)"
    by (simp add: mark_changed_model_source_def trial_decision_def trial_routes_def find_row_def model_source_matches_def)
  define route where "route = \<lparr>ir_decision_id = drawn 1, ir_operation_id = drawn 2, ir_snapshot = trial_snapshot,
    ir_consumer = ExecutionTurn (ConversationId (trial_id 10)) 1 None None (TurnId (drawn 3)), ir_turn_id = TurnId (drawn 3),
    ir_decided_at = 9, ir_decision = trial_decision\<rparr>"
  let ?row = "initial_decision_row demo_codec ''k'' (route_request_sha (re_sha256 trial_environment) trial_request) trial_request
    route (Some 2)"
  have row: "routed_decision_checks ?row"
    by (simp add: initial_decision_row_def route_def route_checks trial_request_def trial_class
        decision_kind_text_def initial_shape_def continuation_shape_def)
  let ?db = "trial_routes\<lparr>rt_decisions := [?row]\<rparr>"
  have none: "rt_decisions trial_routes = []" by (simp add: trial_routes_def)
  have "route_schema (trial_routes\<lparr>rt_decisions := rt_decisions trial_routes @ [?row]\<rparr>)"
  proof (rule decision_appended [OF _ row])
    show "decision_keys_unique (rt_decisions trial_routes @ [?row])" by (simp add: none decision_keys_unique_def)
    show "known_conversation trial_routes (dn_conversation_id ?row)"
      by (simp add: known_conversation_def trial_routes_def trial_conversation_def trial_request_def)
    show "null_or (known_account trial_routes) (dn_account_id ?row)"
      by (simp add: initial_decision_row_def route_def null_or_def known_account_def trial_routes_def ready_registry_def)
  qed (use trial_routes_ok in \<open>simp add: route_ok_def\<close>)
  then have "route_schema ?db" by (simp add: none)
  moreover have "deferred_decisions ?db" by (simp add: deferred_decisions_def initial_decision_row_def null_or_def)
  ultimately have "trial_route ''k'' trial_routes = Inr (RouteFresh route, ?db)"
    using key draws turn rejection marked captured none
    by (simp add: route_conversation_initial_def replayed_routing_decision_def find_row_def trial_request_fields
        insert_initial_route_def route_execute_def route_commit_def Let_def route_def)
  moreover have "rd_selected_account_id (ir_decision route) = Some (AccountId (trial_id 2))"
    by (simp add: route_def trial_decision_def)
  moreover have "dn_turn_id ?row = drawn 3" "dn_decision_id ?row = drawn 1" "dn_operation_id ?row = drawn 2"
    "dn_conversation_id ?row = trial_id 10" "dn_routing_revision ?row = 3"
    by (simp_all add: initial_decision_row_def route_def trial_request_def trial_snapshot_def)
  ultimately show ?thesis by (intro exI [of _ route] exI [of _ ?db]) simp
qed

section \<open>The properties at this conversation\<close>

abbreviation trial_later :: "route_db \<Rightarrow> route_db" where
  "trial_later \<equiv> route_run trial_environment
     [RegistryCall (SetAccountEnabled (Some 20) (AccountId (trial_id 2)) 2 False), RegistryCall (SetBalanced (Some 9) 3)]"

lemma route_selects_usable_account_witness:
  "\<exists>route db' q. trial_route ''k'' trial_routes = Inr (RouteFresh route, db') \<and>
     rd_selected_account_id (ir_decision route) = Some (AccountId (trial_id 2)) \<and>
     find_account (rt_registry (trial_later db')) (trial_id 2) = Some q"
proof -
  obtain route db' where fresh: "trial_route ''k'' trial_routes = Inr (RouteFresh route, db')"
    "rd_selected_account_id (ir_decision route) = Some (AccountId (trial_id 2))"
    using trial_fresh by blast
  then show ?thesis
    using route_selects_usable_account [OF fresh(1) trial_routes_ok fresh(2)] by fastforce
qed

lemma demo_codec_reads_back: "codec_reads_back (re_codec trial_environment)"
  by (auto simp: codec_reads_back_def prints_back_def trial_environment_def intro: json_same_refl)

lemma initial_route_replays_witness:
  "\<exists>route db'. trial_route ''k'' trial_routes = Inr (RouteFresh route, db') \<and>
     trial_route ''k'' (trial_later db') = Inr (RouteReplayed route, trial_later db') \<and>
     read_conversation_initial_route demo_codec (ConversationId (trial_id 10)) (trial_later db') = Inr (Some route)"
proof -
  obtain route db' where fresh: "trial_route ''k'' trial_routes = Inr (RouteFresh route, db')"
    using trial_fresh by blast
  have "is_canonical_uuid (conversation_id_text (rq_conversation_id trial_request))" by (simp add: trial_request_def)
  from initial_route_replays [OF fresh trial_routes_ok demo_codec_reads_back this] show ?thesis
    using fresh by (auto simp: trial_request_def trial_environment_def)
qed

lemma one_initial_route_witness:
  "\<exists>route db'. trial_route ''k'' trial_routes = Inr (RouteFresh route, db') \<and>
     (\<forall>other db''. trial_route ''other'' (trial_later db') \<noteq> Inr (RouteFresh other, db''))"
proof -
  obtain route db' where fresh: "trial_route ''k'' trial_routes = Inr (RouteFresh route, db')"
    using trial_fresh by blast
  then show ?thesis using one_initial_route [OF fresh trial_routes_ok refl] by blast
qed

definition trial_continuation :: continuation_request where
  "trial_continuation = \<lparr>cq_operation_id = trial_id 13, cq_conversation_id = ConversationId (trial_id 10),
     cq_expected_revision = 1, cq_source_session = RuntimeSessionId (trial_id 11), cq_expected_session_revision = 1,
     cq_turn_id = TurnId (trial_id 12)\<rparr>"

abbreviation trial_bind :: "route_db \<Rightarrow> store_error + continuation_binding routing_command_outcome \<times> route_db" where
  "trial_bind \<equiv> bind_conversation_continuation (re_sha256 trial_environment) (re_credential_pattern trial_environment)
     (Some 30) (trial_draw 5) ''c'' trial_continuation"

lemma trial_continuation_fields:
  "cq_expected_revision trial_continuation = 1" "cq_expected_session_revision trial_continuation = 1"
  by (simp_all add: trial_continuation_def)

lemma trial_names:
  "drawn 5 \<noteq> drawn 1" "trial_id 13 \<noteq> drawn 2" "trial_id 12 \<noteq> drawn 3"
  by code_simp+

lemma trial_continuation_sha:
  "length (continuation_request_sha (re_sha256 trial_environment) trial_continuation) = 64"
  "sql_length (continuation_request_sha (re_sha256 trial_environment) trial_continuation) = 64"
  by (simp_all add: continuation_request_sha_def trial_digest)

lemma trial_bound: "\<exists>db binding db'. route_ok db \<and>
    replayed_routing_decision db ''c'' (continuation_request_sha (re_sha256 trial_environment) trial_continuation) = Inr None \<and>
    trial_bind db = Inr (Success binding, db') \<and> rt_sessions db' = [trial_session] \<and> cn_profile_revision binding = 1"
proof -
  obtain route db d where fresh: "trial_route ''k'' trial_routes = Inr (RouteFresh route, db)" and
    d: "rt_decisions db = [d]" "dn_key d = ''k''" "dn_turn_id d = drawn 3" "dn_decision_id d = drawn 1" "dn_operation_id d = drawn 2"
      "dn_conversation_id d = trial_id 10" "initial_decision d" "dn_routing_revision d = 3" and
    db: "db = trial_routes\<lparr>rt_decisions := rt_decisions db\<rparr>"
    using trial_fresh by blast
  have ok: "route_ok db" by (rule fresh_route_ok [OF fresh trial_routes_ok])
  have tables: "rt_sessions db = [trial_session]" "rt_turns db = [trial_turn]" "rt_conversations db = [trial_conversation]"
    by (subst db, simp add: trial_routes_def)+
  define authority where "authority = \<lparr>cy_account_id = trial_id 2, cy_account_revision = 2, cy_account_snapshot_id = trial_id 14,
    cy_profile_snapshot_id = trial_id 15, cy_profile_revision = 1, cy_initial_decision_id = drawn 1, cy_routing_revision = 3\<rparr>"
  have authorized: "read_continuation_authority db trial_continuation = Some authority"
    using d by (simp add: read_continuation_authority_def tables find_row_def trial_continuation_def active_session_def
      trial_session_def trial_turn_def trial_conversation_def initial_decision_of_def authority_def)
  let ?sha = "continuation_request_sha (re_sha256 trial_environment) trial_continuation"
  let ?row = "continuation_row ''c'' ?sha trial_continuation authority (drawn 5) 30"
  have row: "routed_decision_checks ?row"
    by (simp add: continuation_row_def route_checks trial_continuation_def authority_def initial_shape_def continuation_shape_def
        trial_continuation_sha [unfolded trial_continuation_def])
  let ?db = "db\<lparr>rt_decisions := [d, ?row]\<rparr>"
  have keys: "decision_keys_unique [d, ?row]"
    using d trial_names
    by (simp add: decision_keys_unique_def continuation_row_def trial_continuation_def initial_decision_def continuation_shape_def
        initial_shape_def)
  have known: "known_conversation db (trial_id 10)" "known_account db (trial_id 2)"
    by (simp add: known_conversation_def tables trial_conversation_def)
       (subst db, simp add: known_account_def trial_routes_def ready_registry_def)
  have "null_or (known_account db) (dn_account_id ?row)"
    using known(2) by (simp add: continuation_row_def authority_def null_or_def)
  then have "route_schema (db\<lparr>rt_decisions := rt_decisions db @ [?row]\<rparr>)"
    using decision_appended [OF _ row, of db] ok keys known(1) by (simp add: route_ok_def d(1) trial_continuation_def)
  then have "route_schema ?db" by (simp add: d(1))
  moreover have "deferred_decisions ?db"
    using ok by (simp add: route_ok_def deferred_decisions_def d(1) tables continuation_row_def trial_continuation_def
        trial_session_def null_or_def)
  moreover have none: "replayed_routing_decision db ''c'' ?sha = Inr None"
    using d(2) by (simp add: replayed_routing_decision_def find_row_def d(1))
  moreover have "validate_route_key (re_credential_pattern trial_environment) ''c'' = Inr ()"
    by (simp add: validate_route_key_def contains_credential_material_def trial_environment_def)
  moreover have "random_uuid_v4 (trial_draw 5) = Inr (drawn 5)" by (simp add: random_uuid_v4_def trial_draw_def drawn_def)
  ultimately have "\<exists>binding. trial_bind db = Inr (Success binding, ?db) \<and> cn_profile_revision binding = cy_profile_revision authority"
    using authorized d(1)
    by (simp add: bind_conversation_continuation_def trial_continuation_fields unix_micros_def route_execute_def route_commit_def Let_def)
  then show ?thesis using ok none tables(1) by (auto simp: authority_def)
qed

lemma continuation_keeps_session_account_witness:
  "\<exists>db binding db' d. trial_bind db = Inr (Success binding, db') \<and> d \<in> set (rt_decisions db') \<and>
     dn_decision_id d = cn_decision_id binding \<and> known_account db' (the (dn_account_id d))"
proof -
  obtain db binding db' where bound: "trial_bind db = Inr (Success binding, db')" "route_ok db"
    "replayed_routing_decision db ''c'' (continuation_request_sha (re_sha256 trial_environment) trial_continuation) = Inr None"
    using trial_bound by blast
  then show ?thesis using continuation_keeps_session_account [OF bound(1,3,2)] by fastforce
qed

lemma continuation_replays_witness:
  "\<exists>db binding db'. trial_bind db = Inr (Success binding, db') \<and> trial_bind (trial_later db') = Inr (Success binding, trial_later db')"
proof -
  obtain db binding db' where bound: "trial_bind db = Inr (Success binding, db')" "route_ok db"
    "replayed_routing_decision db ''c'' (continuation_request_sha (re_sha256 trial_environment) trial_continuation) = Inr None"
    and sessions: "rt_sessions db' = [trial_session]" "cn_profile_revision binding = 1"
    using trial_bound by blast
  have kept: "rt_sessions (route_run env [RegistryCall c1, RegistryCall c2] x) = rt_sessions x" for env c1 c2 x
    by (simp add: route_run_def route_apply_def)
  have "sn_profile_revision s' = cn_profile_revision binding"
    if "find_row sn_session_id (rt_sessions (trial_later db')) (runtime_session_id_text (cq_source_session trial_continuation)) = Some s'" for s'
    using that sessions unfolding kept by (auto simp: find_row_def trial_session_def split: if_splits)
  from continuation_replays [OF bound(1,3,2) _ _ _ this] show ?thesis
    using bound(1) by (fastforce simp: trial_continuation_def)
qed

end
