(* ===== verification/Spec2Isabelle.thy ===== *)
theory Spec2Isabelle
  imports Routing_Correct Context_Claims Attempt_Outcomes Read_Claims Work_Views Registry_Witness Route_Witness
begin

text \<open>
  A verification library for Decodex, a Rust workspace that supervises Codex processes under several
  accounts. The library models the core of the durable daemon: the pure decisions of
  \<^verbatim>\<open>src/crates/decodex-core/src\<close> and the writers of \<^verbatim>\<open>src/database/src\<close> over the SQLite schema
  \<^verbatim>\<open>src/database/schema.sql\<close>. Everything that a transaction reads, checks, writes or rejects is a
  definition; what is outside a transaction (processes, sockets, files, user interfaces) is not.

  \<^bold>\<open>Parts of the program and how they meet.\<close> An account is enrolled, refreshed, ordered and logged out by
  the account registry. When a conversation starts, the conversation router reads the whole registry in one
  transaction, turns it into a routing snapshot and asks the routing kernel for one account; the decision
  is stored once. A provider process for that account is admitted by the process generation store, and each
  turn sent to it is an attempt of the provider attempt store, which authorizes the dispatch at most once and
  closes the attempt only with evidence. History that moves between sessions travels as a Context Pack.
  Agents coordinate through Works, requests between them and Results, all in the Work store.

  \<^bold>\<open>Conventions.\<close> A Rust \<^verbatim>\<open>struct\<close> is a record, an \<^verbatim>\<open>enum\<close> a datatype, \<^verbatim>\<open>Result\<close> a sum with \<^verbatim>\<open>Inl\<close> for the
  error and \<^verbatim>\<open>and_then\<close> for the question mark, a machine word a word of its width; \<^verbatim>\<open>i64\<close> is an integer with the
  overflow written out where the code checks or saturates it, \<^verbatim>\<open>usize\<close> a natural number. A string is the list of its
  UTF-8 bytes. A table is the list of its rows in insertion order, an \<^verbatim>\<open>INSERT\<close> an append and an \<^verbatim>\<open>UPDATE\<close> a change of
  the rows under a condition; every statement is followed by the check of all CHECK, UNIQUE, NOT NULL and foreign key
  constraints of the modelled columns, and deferred references are checked at the commit. A failed transaction changes
  nothing: its result is an error without a state. The clock, the random bytes, SHA-256, the JSON codec, the
  credential pattern (a regular expression of a third-party crate) and the closures that build a response are
  parameters; a hypothesis about one of them is named in the statement and discharged in the witness.

  \<^bold>\<open>Theories by component.\<close>

  \<^item> Shared ground. \<^verbatim>\<open>Prelude\<close> has the names of types, results and list lemmas; \<^verbatim>\<open>Contracts\<close> the locales
    that several components interpret: \<^verbatim>\<open>label_codec\<close> (labels stored as text), \<^verbatim>\<open>validated_text\<close> (newtypes over checked
    text) and the contract of revision-fenced rows. \<^verbatim>\<open>Identity\<close> and \<^verbatim>\<open>Hex_Text\<close> model \<^verbatim>\<open>identity.rs\<close> and the hash newtype
    of \<^verbatim>\<open>blob.rs\<close>; \<^verbatim>\<open>Byte_Codec\<close> the big-endian cursor of \<^verbatim>\<open>conversation.rs\<close>; \<^verbatim>\<open>Store_Base\<close> the errors, the clock and
    the SQL shared by the writers.
  \<^item> Accounts and the routing kernel. \<^verbatim>\<open>Account\<close> models \<^verbatim>\<open>account.rs\<close>, \<^verbatim>\<open>quota.rs\<close> and \<^verbatim>\<open>reset_card.rs\<close>;
    \<^verbatim>\<open>Routing_Data\<close> and \<^verbatim>\<open>Routing\<close> model \<^verbatim>\<open>routing.rs\<close> function by function, with panics as faults. \<^verbatim>\<open>Routing_Correct\<close>
    shows that validation accepts exactly the canonical snapshots, that no panic is reached, that the two passes
    refine the specification \<^verbatim>\<open>preferred_decision\<close>, and that the kernel with checked 64-bit subtraction
    (\<^verbatim>\<open>decide_routing_checked\<close>) is the same function.
  \<^item> Context Packs. \<^verbatim>\<open>Context_Data\<close>, \<^verbatim>\<open>Context_Source\<close> and \<^verbatim>\<open>Context_Pack\<close> model the data, the inputs, the compiler, the
    encoding and the verifier of \<^verbatim>\<open>conversation.rs\<close>; \<^verbatim>\<open>Context_Correct\<close> and \<^verbatim>\<open>Context_Claims\<close> show when the compiler succeeds, what the verifier accepts, and the round trips.
  \<^item> Process generations. \<^verbatim>\<open>Process_Generation\<close> models \<^verbatim>\<open>process_generation.rs\<close>, \<^verbatim>\<open>Generation_Store\<close> the tables and
    \<^verbatim>\<open>Generation_Ops\<close> the transactions of \<^verbatim>\<open>process_generations.rs\<close>. \<^verbatim>\<open>Generation_Correct\<close>, \<^verbatim>\<open>Generation_Steps\<close>,
    \<^verbatim>\<open>Generation_Life\<close> and \<^verbatim>\<open>Generation_Runs\<close> give the state machine, the refinement, the invariant
    and runs; \<^verbatim>\<open>Generation_Claims\<close> the properties.
  \<^item> Provider attempts. \<^verbatim>\<open>Provider_Attempt\<close> models \<^verbatim>\<open>provider_attempt.rs\<close>, \<^verbatim>\<open>Attempt_Store\<close> and \<^verbatim>\<open>Attempt_Ops\<close> the
    writer \<^verbatim>\<open>provider_attempts.rs\<close> with the closure of an unsubmitted turn (\<^verbatim>\<open>conversations/non_submission.rs\<close>) and the
    lineage digest of \<^verbatim>\<open>runtime_sessions.rs\<close>. The theories \<^verbatim>\<open>Attempt_Correct\<close> to \<^verbatim>\<open>Attempt_Runs\<close> mirror those of the
    generations; runs interleave both writers. \<^verbatim>\<open>Store_Reads\<close> and \<^verbatim>\<open>Read_Claims\<close> treat the paged readers of both.
  \<^item> Works. \<^verbatim>\<open>Work_Data\<close> and \<^verbatim>\<open>Work_Json\<close> model \<^verbatim>\<open>work.rs\<close> and its serializers, \<^verbatim>\<open>Work_Store\<close> the tables, \<^verbatim>\<open>Work_Read\<close>,
    \<^verbatim>\<open>Work_Ops\<close> and \<^verbatim>\<open>Work_Commands\<close> the modules \<^verbatim>\<open>works.rs\<close>, \<^verbatim>\<open>works/collaboration.rs\<close> and \<^verbatim>\<open>works/commands.rs\<close>,
    \<^verbatim>\<open>Work_Portfolio\<close> the readers. \<^verbatim>\<open>Work_Effects\<close> to \<^verbatim>\<open>Work_Life\<close> give effects, step relations, invariants and runs;
    \<^verbatim>\<open>Work_Claims\<close>, \<^verbatim>\<open>Work_Outcomes\<close> and \<^verbatim>\<open>Work_Views\<close> the properties; \<^verbatim>\<open>Work_Demo\<close> a concrete codec and store.
  \<^item> Account registry. \<^verbatim>\<open>Registry_Store\<close> has the account tables and receipts, \<^verbatim>\<open>Registry_Read\<close> the readers,
    \<^verbatim>\<open>Registry_Operations\<close> and \<^verbatim>\<open>Registry_Commit\<close> the account operations with their four commits, \<^verbatim>\<open>Registry_Receipts\<close> the
    idempotent commands and \<^verbatim>\<open>Registry_Admin\<close> the administration, all of \<^verbatim>\<open>account_lifecycle.rs\<close>; \<^verbatim>\<open>Registry_Usage\<close>
    models \<^verbatim>\<open>account_usage.rs\<close> and \<^verbatim>\<open>credentials.rs\<close>, \<^verbatim>\<open>Account_Alias\<close> the two files on display names.
    \<^verbatim>\<open>Registry_Facts\<close> and \<^verbatim>\<open>Registry_Effects\<close> describe what the statements do, \<^verbatim>\<open>Registry_Steps\<close> the
    abstract step relation, \<^verbatim>\<open>Registry_Refine\<close> that every writer takes its steps, \<^verbatim>\<open>Registry_Invariant\<close> and
    \<^verbatim>\<open>Registry_Life\<close> what steps keep, \<^verbatim>\<open>Registry_Runs\<close> runs of calls from the installed registry. The properties
    are in \<^verbatim>\<open>Registry_Claims\<close>, \<^verbatim>\<open>Registry_Outcomes\<close> and \<^verbatim>\<open>Registry_Values\<close>; \<^verbatim>\<open>Registry_Witness\<close>
    applies them to a concrete registry.
  \<^item> Conversation routing, \<^verbatim>\<open>conversation_routing.rs\<close>. \<^verbatim>\<open>Route_Json\<close> has the stored JSON of a route,
    \<^verbatim>\<open>Route_Snapshot\<close> the snapshot of the registry, \<^verbatim>\<open>Route_Store\<close> the table of decisions, \<^verbatim>\<open>Route_Ops\<close> the
    initial route, the continuation binding, their readers and runs mixed with the registry. The readers of the JSON do
    not see the order of members. \<^verbatim>\<open>Route_Life\<close> composes the registry with the kernel (when a capture is
    canonical and decided, quota times up to the year 9999 being a condition) and shows that decisions are
    storable and only appended, \<^verbatim>\<open>Route_Claims\<close> the properties, \<^verbatim>\<open>Route_Witness\<close> their application to a conversation.

  \<^bold>\<open>What the lemmas show.\<close> For every writer: the schema and the meaning of rows are kept by every transaction; each
  command refines a small step relation; an outcome other than success leaves the state alone; repeated
  commands replay. Across writers: an attempt runs on the only live process of its account; the account that a
  route selects was usable when it was stored and is still registered after any run; a logout needs that no process
  uses the account. For the pure code: exact acceptance conditions, absence of panics, bounds and round trips.

  \<^bold>\<open>Interfaces.\<close> The locales are \<^verbatim>\<open>label_codec\<close>, \<^verbatim>\<open>validated_text\<close>, \<^verbatim>\<open>fixed_width\<close>, \<^verbatim>\<open>fenced_rows\<close>, and \<^verbatim>\<open>json_shape\<close>
  with its extension \<^verbatim>\<open>json_reader\<close>; each is interpreted on the definitions of the component that provides it.

  \<^bold>\<open>Bounds and fuel.\<close> The search for a display name counts attempts up to \<^verbatim>\<open>u64::MAX\<close>, as the code does; the
  dictionary has 160 names and every block of attempts visits all of them, so with fewer than 160 names in use it ends
  early (\<^verbatim>\<open>alias_allocation_finds\<close>). All other loops are structural or have a measure. Limits of the code (512
  accounts, 100 rows of a portfolio, 256 bytes of a key, five minutes of a claim) are constants of the model.

  \<^bold>\<open>Not modelled.\<close> The runtime (\<^verbatim>\<open>decodex-runtime\<close>), the protocol and its clients, the Codex adapter, the Pro bridge,
  the installers, the login flow, the bindings and the applications are concurrent input and output over tokio, sockets,
  child processes, the Keychain and GPUI, and their values are derived by serde; a shallow model of them would be a
  model of those libraries. Of the database the writers of conversations, sessions, continuation plans, assistants,
  Agents and their processes, profiles and the quota activation are not modelled; where a modelled writer shares a
  table with one of them, runs allow any change that the constraints allow. The explicit offline cleanup of
  \<^verbatim>\<open>development_reset.rs\<close> (\<^verbatim>\<open>clear_development_data\<close>), which empties every table except the account
  tables, the settings, profiles, projects and reset cards while the service is stopped, is not a transaction of a run:
  what runs keep of the other tables (receipts, decisions, generations, attempts, Works) is kept between two cleanups.
  Opening, migrating and backing up the database, blob files, file permissions and paths are input and output.
  \<^verbatim>\<open>render_model_input\<close>, the labels of \<^verbatim>\<open>ExecutionConsumer\<close> and the smaller value modules of \<^verbatim>\<open>decodex-core\<close> are left out.
\<close>

end
